(* ===== verification/Prelude.thy ===== *)
theory Prelude
  imports Main "HOL-Library.AList" "HOL-Library.Char_ord" "HOL-Library.List_Lexorder"
begin

text \<open>
  What every component of the development shares: the Rust standard-library operations on
  byte strings that the source uses (\<open>str::starts_with\<close>, \<open>strip_prefix\<close>, \<open>contains\<close>,
  \<open>trim\<close>, \<open>lines\<close>, \<open>String::from_utf8_lossy\<close>, \<open>to_ascii_lowercase\<close>), the ordered
  map behind \<open>serde_json::Map\<close> and \<open>BTreeMap\<close>, the association list behind
  \<open>HashMap\<close>, saturating and wrapping arithmetic, and the collections of simp rules.
  A Rust \<open>String\<close>, \<open>&str\<close> or \<open>Vec<u8>\<close> is a \<open>string\<close>: the list of its UTF-8
  bytes, so \<open>length\<close> counts bytes as \<open>len()\<close> does.
\<close>

named_theorems json_simps "evaluation of JSON accessors"
named_theorems emit_simps "what the emitting operations do to the state"

section \<open>Byte strings\<close>

abbreviation nl :: char where "nl \<equiv> CHR 0x0A"
abbreviation cr :: char where "cr \<equiv> CHR 0x0D"
abbreviation dquote :: char where "dquote \<equiv> CHR 0x22"
abbreviation bslash :: char where "bslash \<equiv> CHR 0x5C"

definition byte :: "char \<Rightarrow> nat" where
  "byte c = of_char c"

definition starts_with :: "string \<Rightarrow> string \<Rightarrow> bool" where
  "starts_with p s = (take (length p) s = p)"

definition strip_prefix :: "string \<Rightarrow> string \<Rightarrow> string option" where
  "strip_prefix p s = (if starts_with p s then Some (drop (length p) s) else None)"

fun str_contains :: "string \<Rightarrow> string \<Rightarrow> bool" where
  "str_contains [] n = (n = [])"
| "str_contains (c # cs) n = (starts_with n (c # cs) \<or> str_contains cs n)"

definition ascii_lower :: "char \<Rightarrow> char" where
  "ascii_lower c = (if 65 \<le> byte c \<and> byte c \<le> 90 then char_of (byte c + 32) else c)"

definition ascii_upper :: "char \<Rightarrow> char" where
  "ascii_upper c = (if 97 \<le> byte c \<and> byte c \<le> 122 then char_of (byte c - 32) else c)"

definition to_ascii_lowercase :: "string \<Rightarrow> string" where
  "to_ascii_lowercase s = map ascii_lower s"

definition to_ascii_uppercase :: "string \<Rightarrow> string" where
  "to_ascii_uppercase s = map ascii_upper s"

text \<open>\<open>is_ascii_whitespace\<close> of a byte: space, tab, line feed, form feed, carriage return.\<close>

definition is_ascii_whitespace :: "char \<Rightarrow> bool" where
  "is_ascii_whitespace c = (byte c \<in> {0x20, 0x09, 0x0A, 0x0C, 0x0D})"

text \<open>
  \<open>str::is_char_boundary\<close>: the ends of the string, and every position whose byte does not
  continue a character.
\<close>

definition is_char_boundary :: "string \<Rightarrow> nat \<Rightarrow> bool" where
  "is_char_boundary s i =
     (i = 0 \<or> i = length s \<or> (i < length s \<and> \<not> (0x80 \<le> byte (s ! i) \<and> byte (s ! i) \<le> 0xBF)))"

subsection \<open>Trimming Unicode white space\<close>

text \<open>
  The length of the white-space character a string starts with (0 if none), by the UTF-8
  encodings of Unicode's \<open>White_Space\<close> property; \<open>ws_suffix\<close> reads the reversed string.
\<close>

fun ws_prefix :: "nat list \<Rightarrow> nat" where
  "ws_prefix (a # b # c # r) =
     (if a \<in> {0x09, 0x0A, 0x0B, 0x0C, 0x0D, 0x20} then 1
      else if a = 0xC2 \<and> b \<in> {0x85, 0xA0} then 2
      else if (a = 0xE1 \<and> b = 0x9A \<and> c = 0x80)
        \<or> (a = 0xE2 \<and> b = 0x80 \<and> (0x80 \<le> c \<and> c \<le> 0x8A \<or> c \<in> {0xA8, 0xA9, 0xAF}))
        \<or> (a = 0xE2 \<and> b = 0x81 \<and> c = 0x9F)
        \<or> (a = 0xE3 \<and> b = 0x80 \<and> c = 0x80) then 3
      else 0)"
| "ws_prefix (a # b # r) =
     (if a \<in> {0x09, 0x0A, 0x0B, 0x0C, 0x0D, 0x20} then 1
      else if a = 0xC2 \<and> b \<in> {0x85, 0xA0} then 2 else 0)"
| "ws_prefix (a # r) = (if a \<in> {0x09, 0x0A, 0x0B, 0x0C, 0x0D, 0x20} then 1 else 0)"
| "ws_prefix [] = 0"

fun ws_suffix :: "nat list \<Rightarrow> nat" where
  "ws_suffix (c # b # a # r) =
     (if c \<in> {0x09, 0x0A, 0x0B, 0x0C, 0x0D, 0x20} then 1
      else if b = 0xC2 \<and> c \<in> {0x85, 0xA0} then 2
      else if (a = 0xE1 \<and> b = 0x9A \<and> c = 0x80)
        \<or> (a = 0xE2 \<and> b = 0x80 \<and> (0x80 \<le> c \<and> c \<le> 0x8A \<or> c \<in> {0xA8, 0xA9, 0xAF}))
        \<or> (a = 0xE2 \<and> b = 0x81 \<and> c = 0x9F)
        \<or> (a = 0xE3 \<and> b = 0x80 \<and> c = 0x80) then 3
      else 0)"
| "ws_suffix (c # b # r) =
     (if c \<in> {0x09, 0x0A, 0x0B, 0x0C, 0x0D, 0x20} then 1
      else if b = 0xC2 \<and> c \<in> {0x85, 0xA0} then 2 else 0)"
| "ws_suffix (c # r) = (if c \<in> {0x09, 0x0A, 0x0B, 0x0C, 0x0D, 0x20} then 1 else 0)"
| "ws_suffix [] = 0"

function trim_start :: "string \<Rightarrow> string" where
  "trim_start s = (if ws_prefix (map byte s) = 0 then s
                   else trim_start (drop (ws_prefix (map byte s)) s))"
  by pat_completeness auto
termination
proof (relation "measure length")
  show "wf (measure length)" by simp
next
  fix s :: string
  assume w: "ws_prefix (map byte s) \<noteq> 0"
  then have "s \<noteq> []" by auto
  with w show "(drop (ws_prefix (map byte s)) s, s) \<in> measure length"
    by (simp add: length_greater_0_conv)
qed

text \<open>\<open>trim_rev\<close> strips white space from the front of the reversed string.\<close>

function trim_rev :: "string \<Rightarrow> string" where
  "trim_rev s = (if ws_suffix (map byte s) = 0 then s
                 else trim_rev (drop (ws_suffix (map byte s)) s))"
  by pat_completeness auto
termination
proof (relation "measure length")
  show "wf (measure length)" by simp
next
  fix s :: string
  assume w: "ws_suffix (map byte s) \<noteq> 0"
  then have "s \<noteq> []" by auto
  with w show "(drop (ws_suffix (map byte s)) s, s) \<in> measure length"
    by (simp add: length_greater_0_conv)
qed

declare trim_start.simps [simp del] trim_rev.simps [simp del]

definition trim :: "string \<Rightarrow> string" where
  "trim s = rev (trim_rev (rev (trim_start s)))"

subsection \<open>Lines\<close>

text \<open>\<open>split_inclusive('\n')\<close>, and \<open>str::lines\<close> on top of it, as the standard library
  defines it: a line ends at a line feed, which is removed with a carriage return before it.\<close>

fun split_inclusive :: "string \<Rightarrow> string list" where
  "split_inclusive [] = []"
| "split_inclusive (c # cs) =
     (if c = nl then [c] # split_inclusive cs
      else (case split_inclusive cs of [] \<Rightarrow> [[c]] | l # ls \<Rightarrow> (c # l) # ls))"

definition strip_eol :: "string \<Rightarrow> string" where
  "strip_eol l =
     (if l = [] \<or> last l \<noteq> nl then l
      else let m = butlast l in if m \<noteq> [] \<and> last m = cr then butlast m else m)"

definition lines_of :: "string \<Rightarrow> string list" where
  "lines_of s = map strip_eol (split_inclusive s)"

text \<open>\<open>[String]::join\<close>.\<close>

fun join :: "string \<Rightarrow> string list \<Rightarrow> string" where
  "join sep [] = []"
| "join sep [x] = x"
| "join sep (x # y # r) = x @ sep @ join sep (y # r)"

subsection \<open>UTF-8 with replacement\<close>

text \<open>
  \<open>utf8_step bs\<close> reads one character: whether it is well formed and how many bytes it takes;
  for an ill-formed one, how many bytes its maximal subpart takes (all of them are replaced by
  one U+FFFD).
\<close>

definition cont :: "nat \<Rightarrow> bool" where
  "cont b = (0x80 \<le> b \<and> b \<le> 0xBF)"

definition ok2 :: "nat \<Rightarrow> nat \<Rightarrow> bool" where
  "ok2 a b =
     ((a = 0xE0 \<and> 0xA0 \<le> b \<and> b \<le> 0xBF) \<or> (0xE1 \<le> a \<and> a \<le> 0xEC \<and> cont b)
      \<or> (a = 0xED \<and> 0x80 \<le> b \<and> b \<le> 0x9F) \<or> (0xEE \<le> a \<and> a \<le> 0xEF \<and> cont b)
      \<or> (a = 0xF0 \<and> 0x90 \<le> b \<and> b \<le> 0xBF) \<or> (0xF1 \<le> a \<and> a \<le> 0xF3 \<and> cont b)
      \<or> (a = 0xF4 \<and> 0x80 \<le> b \<and> b \<le> 0x8F))"

definition nth_byte :: "nat list \<Rightarrow> nat \<Rightarrow> nat" where
  "nth_byte bs i = (if i < length bs then bs ! i else 0)"

definition utf8_step :: "nat list \<Rightarrow> bool \<times> nat" where
  "utf8_step bs =
     (let a = nth_byte bs 0; b = nth_byte bs 1; c = nth_byte bs 2; d = nth_byte bs 3
      in if a < 0x80 then (True, 1)
         else if 0xC2 \<le> a \<and> a \<le> 0xDF then (if cont b then (True, 2) else (False, 1))
         else if 0xE0 \<le> a \<and> a \<le> 0xEF then
           (if \<not> ok2 a b then (False, 1) else if \<not> cont c then (False, 2) else (True, 3))
         else if 0xF0 \<le> a \<and> a \<le> 0xF4 then
           (if \<not> ok2 a b then (False, 1) else if \<not> cont c then (False, 2)
            else if \<not> cont d then (False, 3) else (True, 4))
         else (False, 1))"

definition replacement_char :: string where
  "replacement_char = [CHR 0xEF, CHR 0xBF, CHR 0xBD]"

lemma utf8_step_pos: "0 < snd (utf8_step bs)"
  by (simp add: utf8_step_def Let_def)

function from_utf8_lossy :: "string \<Rightarrow> string" where
  "from_utf8_lossy s =
     (if s = [] then []
      else (if fst (utf8_step (map byte s)) then take (snd (utf8_step (map byte s))) s
            else replacement_char)
           @ from_utf8_lossy (drop (snd (utf8_step (map byte s))) s))"
  by pat_completeness auto
termination
proof (relation "measure length")
  show "wf (measure length)" by simp
next
  fix s :: string
  assume "s \<noteq> []"
  with utf8_step_pos [of "map byte s"]
  show "(drop (snd (utf8_step (map byte s))) s, s) \<in> measure length"
    by (simp add: length_greater_0_conv)
qed

declare from_utf8_lossy.simps [simp del]

text \<open>Well-formed UTF-8 is not changed.\<close>

function utf8_valid :: "string \<Rightarrow> bool" where
  "utf8_valid s =
     (if s = [] then True
      else if fst (utf8_step (map byte s)) then utf8_valid (drop (snd (utf8_step (map byte s))) s)
      else False)"
  by pat_completeness auto
termination
proof (relation "measure length")
  show "wf (measure length)" by simp
next
  fix s :: string
  assume "s \<noteq> []"
  with utf8_step_pos [of "map byte s"]
  show "(drop (snd (utf8_step (map byte s))) s, s) \<in> measure length"
    by (simp add: length_greater_0_conv)
qed

declare utf8_valid.simps [simp del]

lemma nth_byte_append: "i < length bs \<Longrightarrow> nth_byte (bs @ r) i = nth_byte bs i"
  by (simp add: nth_byte_def nth_append)

lemma nth_byte_nonzero: "nth_byte bs i \<noteq> 0 \<Longrightarrow> i < length bs"
  by (auto simp: nth_byte_def split: if_splits)

lemma cont_in_range: "cont (nth_byte bs i) \<Longrightarrow> i < length bs"
  by (rule nth_byte_nonzero) (auto simp: cont_def)

lemma ok2_in_range: "ok2 a (nth_byte bs i) \<Longrightarrow> i < length bs"
  by (rule nth_byte_nonzero) (auto simp: ok2_def cont_def)

lemma utf8_step_valid:
  assumes "fst (utf8_step bs)" and "bs \<noteq> []"
  shows "snd (utf8_step bs) \<le> length bs \<and> utf8_step (bs @ r) = utf8_step bs"
proof -
  let ?a = "nth_byte bs 0" and ?b = "nth_byte bs 1" and ?c = "nth_byte bs 2" and ?d = "nth_byte bs 3"
  have 0: "nth_byte (bs @ r) 0 = ?a" and len: "0 < length bs"
    using assms(2) by (simp_all add: nth_byte_append)
  note eqs = utf8_step_def Let_def nth_byte_append 0
  consider "?a < 0x80"
    | "0xC2 \<le> ?a" "?a \<le> 0xDF" "cont ?b"
    | "0xE0 \<le> ?a" "?a \<le> 0xEF" "ok2 ?a ?b" "cont ?c"
    | "0xF0 \<le> ?a" "?a \<le> 0xF4" "ok2 ?a ?b" "cont ?c" "cont ?d"
    using assms(1) by (simp add: utf8_step_def Let_def split: if_splits)
  then show ?thesis
  proof cases
    case 1
    moreover have "1 \<le> length bs" using len by linarith
    ultimately show ?thesis by (simp only: eqs if_True snd_conv simp_thms)
  next
    case 2
    then have "1 < length bs" by (blast dest: cont_in_range)
    with 2 show ?thesis by (simp add: eqs)
  next
    case 3
    then have "1 < length bs" "2 < length bs" by (blast dest: cont_in_range ok2_in_range)+
    with 3 show ?thesis by (simp add: eqs)
  next
    case 4
    then have "1 < length bs" "2 < length bs" "3 < length bs"
      by (blast dest: cont_in_range ok2_in_range)+
    with 4 show ?thesis by (simp add: eqs)
  qed
qed

lemma from_utf8_lossy_Nil [simp]: "from_utf8_lossy [] = []"
  by (simp add: from_utf8_lossy.simps)

lemma from_utf8_lossy_valid: "utf8_valid s \<Longrightarrow> from_utf8_lossy (s @ r) = s @ from_utf8_lossy r"
proof (induction s rule: utf8_valid.induct)
  case (1 s)
  show ?case
  proof (cases "s = []")
    case False
    let ?n = "snd (utf8_step (map byte s))"
    from False "1.prems" have v: "fst (utf8_step (map byte s))" "utf8_valid (drop ?n s)"
      by (simp_all add: utf8_valid.simps [of s] split: if_splits)
    from utf8_step_valid [OF v(1), of "map byte r"] False
    have n: "?n \<le> length s" "utf8_step (map byte (s @ r)) = utf8_step (map byte s)"
      by simp_all
    have "from_utf8_lossy (s @ r) = take ?n (s @ r) @ from_utf8_lossy (drop ?n (s @ r))"
      using False v(1) n(2) by (subst from_utf8_lossy.simps) simp
    also have "\<dots> = take ?n s @ from_utf8_lossy (drop ?n s @ r)"
      using n(1) by simp
    also have "\<dots> = s @ from_utf8_lossy r"
      using "1.IH" False v by simp
    finally show ?thesis .
  qed simp
qed

lemma from_utf8_lossy_ascii: "byte c < 0x80 \<Longrightarrow> from_utf8_lossy (c # s) = c # from_utf8_lossy s"
  by (subst from_utf8_lossy.simps) (simp add: utf8_step_def nth_byte_def)

section \<open>Lines of a frame\<close>

lemma starts_with_append [simp]: "starts_with p (p @ s)"
  by (simp add: starts_with_def)

lemma starts_with_Nil [simp]: "starts_with [] s"
  by (simp add: starts_with_def)

lemma starts_with_Cons [simp]:
  "starts_with (c # p) s = (case s of [] \<Rightarrow> False | d # t \<Rightarrow> c = d \<and> starts_with p t)"
  by (cases s) (auto simp: starts_with_def)

lemma starts_with_iff: "starts_with p s \<longleftrightarrow> (\<exists>r. s = p @ r)"
  by (metis append_take_drop_id starts_with_append starts_with_def)

lemma strip_prefix_Some: "strip_prefix p s = Some r \<longleftrightarrow> s = p @ r"
  by (auto simp: strip_prefix_def starts_with_iff)

lemma str_contains_starts: "starts_with n s \<Longrightarrow> str_contains s n"
  by (cases s) (auto simp: starts_with_def)

lemma str_contains_iff: "str_contains s n \<longleftrightarrow> (\<exists>u v. s = u @ n @ v)"
proof (induction s)
  case (Cons c s)
  have "(\<exists>u v. c # s = u @ n @ v) \<longleftrightarrow> (\<exists>v. c # s = n @ v) \<or> (\<exists>u v. s = u @ n @ v)"
    by (auto simp: Cons_eq_append_conv)
  with Cons show ?case by (simp only: str_contains.simps starts_with_iff)
qed auto

lemma split_inclusive_line:
  "nl \<notin> set x \<Longrightarrow> split_inclusive (x @ nl # r) = (x @ [nl]) # split_inclusive r"
  by (induction x) auto

lemma strip_eol_line: "last x \<noteq> cr \<or> x = [] \<Longrightarrow> strip_eol (x @ [nl]) = x"
  by (auto simp: strip_eol_def Let_def)

lemma lines_of_line:
  "nl \<notin> set x \<Longrightarrow> cr \<notin> set x \<Longrightarrow> lines_of (x @ nl # r) = x # lines_of r"
proof -
  assume a: "nl \<notin> set x" "cr \<notin> set x"
  then have "last x \<noteq> cr \<or> x = []"
    by (metis last_in_set)
  with a show ?thesis
    by (simp add: lines_of_def split_inclusive_line strip_eol_line)
qed

lemma lines_of_Nil [simp]: "lines_of [] = []"
  by (simp add: lines_of_def)

section \<open>Trimming\<close>

lemma trim_start_suffix: "\<exists>u. s = u @ trim_start s"
proof (induction s rule: trim_start.induct)
  case (1 s)
  show ?case
  proof (cases "ws_prefix (map byte s) = 0")
    case True
    then show ?thesis by (subst trim_start.simps) simp
  next
    case False
    with "1" obtain u where "drop (ws_prefix (map byte s)) s = u @ trim_start s"
      by (auto simp: trim_start.simps [of s])
    then have "s = (take (ws_prefix (map byte s)) s @ u) @ trim_start s"
      by (metis append.assoc append_take_drop_id)
    then show ?thesis by blast
  qed
qed

lemma trim_start_Nil [simp]: "trim_start [] = []"
  by (simp add: trim_start.simps)

lemma trim_rev_Nil [simp]: "trim_rev [] = []"
  by (simp add: trim_rev.simps)

lemma trim_Nil [simp]: "trim [] = []"
  by (simp add: trim_def)


section \<open>Results\<close>

text \<open>
  A \<open>Result<(), String>\<close> is a sum with the error on the left; \<open>res_then\<close> is the operator \<open>?\<close>
  followed by the rest of the function, \<open>res_each\<close> a \<open>for\<close> loop whose body ends in \<open>?\<close>.
\<close>

type_synonym validation = "string + unit"

fun res_then :: "'e + 'a \<Rightarrow> 'e + 'b \<Rightarrow> 'e + 'b" where
  "res_then (Inl e) r = Inl e"
| "res_then (Inr _) r = r"

fun res_each :: "('x \<Rightarrow> 'e + unit) \<Rightarrow> 'x list \<Rightarrow> 'e + unit" where
  "res_each f [] = Inr ()"
| "res_each f (x # xs) = res_then (f x) (res_each f xs)"

fun map_err :: "('e \<Rightarrow> 'f) \<Rightarrow> 'e + 'a \<Rightarrow> 'f + 'a" where
  "map_err f (Inl e) = Inl (f e)"
| "map_err f (Inr a) = Inr a"

lemma res_then_Inr [simp]: "res_then a b = Inr y \<longleftrightarrow> (\<exists>x. a = Inr x) \<and> b = Inr y"
  by (cases a) auto

lemma map_err_Inr [simp]: "map_err f a = Inr y \<longleftrightarrow> a = Inr y"
  by (cases a) auto

lemma res_each_Inr [simp]: "res_each f xs = Inr () \<longleftrightarrow> (\<forall>x \<in> set xs. f x = Inr ())"
  by (induction xs) auto

section \<open>Decimal numbers\<close>

fun nat_str :: "nat \<Rightarrow> string" where
  "nat_str n = (if n < 10 then [char_of (48 + n)] else nat_str (n div 10) @ [char_of (48 + n mod 10)])"

declare nat_str.simps [simp del]

end
