(* ===== verification/Json.thy ===== *)
theory Json
  imports Prelude "HOL-Library.Word"
begin

text \<open>
  The JSON values the proxy works on (\<open>serde_json::Value\<close>), their accessors, the ordered map
  of an object and the hash maps of the stream state, behind one interface \<open>store\<close>, and the
  environment: the functions the code calls that are not in this repository (the JSON reader and
  printer, SHA-256, hexadecimal encoding and decoding, the URL parser (the scheme and the host of
  a URL it accepts), random identifiers, the clock, the iteration order of a
  \<open>HashMap\<close>). Every theorem holds for every environment unless it names what it needs.
\<close>

section \<open>Values\<close>

text \<open>
  A number keeps the three classes of \<open>serde_json::Number\<close>: an unsigned integer (what
  \<open>as_u64\<close> returns), a negative integer, a float (by its bits).
\<close>

datatype jnum = PosInt nat | NegInt int | JFloat "64 word"

datatype json =
    JNull
  | JBool bool
  | JNum jnum
  | JStr string
  | JArr "json list"
  | JObj "(string \<times> json) list"

fun as_str :: "json \<Rightarrow> string option" where
  "as_str (JStr s) = Some s"
| "as_str _ = None"

fun as_u64 :: "json \<Rightarrow> nat option" where
  "as_u64 (JNum (PosInt n)) = Some n"
| "as_u64 _ = None"

fun as_bool :: "json \<Rightarrow> bool option" where
  "as_bool (JBool b) = Some b"
| "as_bool _ = None"

fun as_array :: "json \<Rightarrow> json list option" where
  "as_array (JArr xs) = Some xs"
| "as_array _ = None"

fun as_object :: "json \<Rightarrow> (string \<times> json) list option" where
  "as_object (JObj kvs) = Some kvs"
| "as_object _ = None"

fun is_object :: "json \<Rightarrow> bool" where
  "is_object (JObj _) = True"
| "is_object _ = False"

fun is_null :: "json \<Rightarrow> bool" where
  "is_null JNull = True"
| "is_null _ = False"

abbreviation jnat :: "nat \<Rightarrow> json" where
  "jnat n \<equiv> JNum (PosInt n)"

section \<open>Key/value stores\<close>

text \<open>The interface both kinds of map provide to the code.\<close>

locale store =
  fixes upd :: "'k \<Rightarrow> 'v \<Rightarrow> 'm \<Rightarrow> 'm"
    and del :: "'k \<Rightarrow> 'm \<Rightarrow> 'm"
    and look :: "'m \<Rightarrow> 'k \<Rightarrow> 'v option"
    and ok :: "'m \<Rightarrow> bool"
  assumes look_upd: "look (upd k v m) = (look m)(k \<mapsto> v)"
    and look_del: "ok m \<Longrightarrow> look (del k m) = (look m)(k := None)"
    and ok_upd: "ok m \<Longrightarrow> ok (upd k v m)"
    and ok_del: "ok m \<Longrightarrow> ok (del k m)"
begin

lemma look_upd_same: "look (upd k v m) k = Some v"
  by (simp add: look_upd)

lemma look_upd_other: "k' \<noteq> k \<Longrightarrow> look (upd k v m) k' = look m k'"
  by (simp add: look_upd)

lemma look_del_same: "ok m \<Longrightarrow> look (del k m) k = None"
  by (simp add: look_del)

lemma look_del_other: "ok m \<Longrightarrow> k' \<noteq> k \<Longrightarrow> look (del k m) k' = look m k'"
  by (simp add: look_del)

lemma look_fold_upd:
  "look (foldl (\<lambda>m (k, v). upd k v m) m kvs) = look m ++ map_of (rev kvs)"
proof (induction kvs arbitrary: m)
  case Nil
  then show ?case by simp
next
  case (Cons kv kvs)
  then show ?case
    by (cases kv) (simp add: look_upd map_add_def fun_eq_iff split: option.splits)
qed

lemma ok_fold_upd: "ok m \<Longrightarrow> ok (foldl (\<lambda>m (k, v). upd k v m) m kvs)"
  by (induction kvs arbitrary: m) (auto simp: ok_upd)

end

subsection \<open>The ordered map of an object\<close>

text \<open>
  \<open>serde_json::Map\<close> and \<open>BTreeMap\<close> keep their keys sorted (by bytes): \<open>omap_insert\<close>
  replaces the value of a key that is present and puts a new key in its place.
\<close>

fun omap_insert :: "'k::linorder \<Rightarrow> 'v \<Rightarrow> ('k \<times> 'v) list \<Rightarrow> ('k \<times> 'v) list" where
  "omap_insert k v [] = [(k, v)]"
| "omap_insert k v ((k', v') # m) =
     (if k < k' then (k, v) # (k', v') # m
      else if k = k' then (k, v) # m
      else (k', v') # omap_insert k v m)"

fun omap_remove :: "'k \<Rightarrow> ('k \<times> 'v) list \<Rightarrow> ('k \<times> 'v) list" where
  "omap_remove k [] = []"
| "omap_remove k ((k', v') # m) = (if k = k' then m else (k', v') # omap_remove k m)"

definition omap_ok :: "('k::linorder \<times> 'v) list \<Rightarrow> bool" where
  "omap_ok m = sorted_wrt (<) (map fst m)"

lemma sorted_wrt_map_Cons:
  "sorted_wrt (<) (map fst ((k, v) # m)) \<longleftrightarrow>
     (\<forall>x \<in> fst ` set m. k < x) \<and> sorted_wrt (<) (map fst m)"
  by simp

lemma map_of_omap_insert: "map_of (omap_insert k v m) = (map_of m)(k \<mapsto> v)"
  by (induction m) (auto simp: fun_eq_iff)

lemma fst_omap_insert: "fst ` set (omap_insert k v m) = insert k (fst ` set m)"
  by (induction k v m rule: omap_insert.induct) (simp_all add: insert_commute)

lemma set_omap_remove: "x \<in> set (omap_remove k m) \<Longrightarrow> x \<in> set m"
  by (induction k m rule: omap_remove.induct) (auto split: if_splits)

lemma omap_ok_insert: "omap_ok m \<Longrightarrow> omap_ok (omap_insert k v m)"
proof (induction m)
  case Nil
  then show ?case by (simp add: omap_ok_def)
next
  case (Cons kv m)
  then show ?case
    by (cases kv) (auto simp: omap_ok_def sorted_wrt_map_Cons fst_omap_insert)
qed

lemma omap_ok_remove: "omap_ok m \<Longrightarrow> omap_ok (omap_remove k m)"
proof (induction m)
  case Nil
  then show ?case by simp
next
  case (Cons kv m)
  then show ?case
    by (cases kv) (auto simp: omap_ok_def sorted_wrt_map_Cons dest: set_omap_remove)
qed

lemma map_of_omap_remove: "omap_ok m \<Longrightarrow> map_of (omap_remove k m) = (map_of m)(k := None)"
proof (induction m)
  case Nil
  then show ?case by (simp add: fun_eq_iff)
next
  case (Cons kv m)
  show ?case
  proof (cases kv)
    case (Pair k' v')
    with Cons.prems have ok: "omap_ok m" and fresh: "k' \<notin> fst ` set m"
      by (auto simp: omap_ok_def)
    from fresh have "map_of m k' = None"
      by (simp add: map_of_eq_None_iff)
    with Cons.IH [OF ok] Pair show ?thesis by (auto simp: fun_eq_iff)
  qed
qed

interpretation obj: store omap_insert omap_remove map_of omap_ok
  by unfold_locales
    (simp_all add: map_of_omap_insert map_of_omap_remove omap_ok_insert omap_ok_remove)

subsection \<open>Hash maps\<close>

text \<open>
  A \<open>HashMap\<close> is an association list with distinct keys. Its iteration order is not
  documented: it is the environment's \<open>hash_order\<close>, below.
\<close>

definition hm_insert :: "'k \<Rightarrow> 'v \<Rightarrow> ('k \<times> 'v) list \<Rightarrow> ('k \<times> 'v) list" where
  "hm_insert k v m = AList.update k v m"

definition hm_remove :: "'k \<Rightarrow> ('k \<times> 'v) list \<Rightarrow> ('k \<times> 'v) list" where
  "hm_remove k m = AList.delete k m"

abbreviation hm_get :: "('k \<times> 'v) list \<Rightarrow> 'k \<Rightarrow> 'v option" where
  "hm_get m k \<equiv> map_of m k"

definition hm_ok :: "('k \<times> 'v) list \<Rightarrow> bool" where
  "hm_ok m = distinct (map fst m)"

interpretation hm: store hm_insert hm_remove map_of hm_ok
proof unfold_locales
  fix k :: 'a and v :: 'b and m
  show "map_of (hm_insert k v m) = (map_of m)(k \<mapsto> v)"
    by (simp add: hm_insert_def update_conv')
  assume ok: "hm_ok m"
  show "map_of (hm_remove k m) = (map_of m)(k := None)"
    by (simp add: hm_remove_def delete_conv')
  from ok show "hm_ok (hm_insert k v m)"
    by (simp add: hm_ok_def hm_insert_def distinct_update)
  from ok show "hm_ok (hm_remove k m)"
    by (simp add: hm_ok_def hm_remove_def distinct_delete)
qed

declare hm.look_upd [simp] hm.ok_upd [simp] obj.look_upd [simp]

lemma hm_keys_insert: "set (map fst (hm_insert k v m)) = insert k (set (map fst m))"
  by (auto simp: hm_insert_def dom_map_of_conv_image_fst [symmetric] update_conv')

section \<open>Access and construction\<close>

text \<open>\<open>Value::get\<close> with a string key, and the chains \<open>get(k).and_then(as_...)\<close>.\<close>

fun jget :: "json \<Rightarrow> string \<Rightarrow> json option" where
  "jget (JObj kvs) k = map_of kvs k"
| "jget _ k = None"

definition ogetj :: "json option \<Rightarrow> string \<Rightarrow> json option" where
  "ogetj ov k = Option.bind ov (\<lambda>v. jget v k)"

definition jget_str :: "json \<Rightarrow> string \<Rightarrow> string option" where
  "jget_str v k = Option.bind (jget v k) as_str"

definition jget_u64 :: "json \<Rightarrow> string \<Rightarrow> nat option" where
  "jget_u64 v k = Option.bind (jget v k) as_u64"

definition jget_bool :: "json \<Rightarrow> string \<Rightarrow> bool option" where
  "jget_bool v k = Option.bind (jget v k) as_bool"

definition jget_array :: "json \<Rightarrow> string \<Rightarrow> json list option" where
  "jget_array v k = Option.bind (jget v k) as_array"

definition ostr :: "json option \<Rightarrow> string option" where
  "ostr ov = Option.bind ov as_str"

text \<open>\<open>Option::or\<close> and \<open>unwrap_or\<close>.\<close>

fun option_or :: "'a option \<Rightarrow> 'a option \<Rightarrow> 'a option" where
  "option_or (Some a) b = Some a"
| "option_or None b = b"

fun unwrap_or :: "'a option \<Rightarrow> 'a \<Rightarrow> 'a" where
  "unwrap_or (Some a) d = a"
| "unwrap_or None d = d"

text \<open>The macro \<open>json!({...})\<close>, and \<open>value[key] = x\<close> on an object.\<close>

definition jobj :: "(string \<times> json) list \<Rightarrow> json" where
  "jobj kvs = JObj (foldl (\<lambda>m (k, v). omap_insert k v m) [] kvs)"

fun jset :: "string \<Rightarrow> json \<Rightarrow> json \<Rightarrow> json" where
  "jset k x (JObj kvs) = JObj (omap_insert k x kvs)"
| "jset k x JNull = JObj [(k, x)]"
| "jset k x v = v"

text \<open>\<open>value[key1][key2] = x\<close>.\<close>

definition jset2 :: "string \<Rightarrow> string \<Rightarrow> json \<Rightarrow> json \<Rightarrow> json" where
  "jset2 k1 k2 x v = jset k1 (jset k2 x (unwrap_or (jget v k1) JNull)) v"

text \<open>An optional string or value inside \<open>json!\<close> prints as \<open>null\<close> when absent.\<close>

definition jopt_str :: "string option \<Rightarrow> json" where
  "jopt_str s = (case s of None \<Rightarrow> JNull | Some t \<Rightarrow> JStr t)"

definition jopt :: "json option \<Rightarrow> json" where
  "jopt v = (case v of None \<Rightarrow> JNull | Some w \<Rightarrow> w)"

lemma jget_jobj [json_simps, simp]: "jget (jobj kvs) k = map_of (rev kvs) k"
  using obj.look_fold_upd [of "[]" kvs] by (simp add: jobj_def)

lemma is_object_jobj [json_simps, simp]: "is_object (jobj kvs)"
  by (simp add: jobj_def)

lemma as_str_jobj [json_simps, simp]: "as_str (jobj kvs) = None"
  by (simp add: jobj_def)

lemma as_array_jobj [json_simps, simp]: "as_array (jobj kvs) = None"
  by (simp add: jobj_def)

lemma jget_jset [json_simps, simp]:
  "is_object v \<Longrightarrow> jget (jset k x v) k' = (if k' = k then Some x else jget v k')"
  by (cases v) auto

lemma is_object_jset [json_simps, simp]: "is_object v \<Longrightarrow> is_object (jset k x v)"
  by (cases v) auto

lemma is_object_jset2 [json_simps, simp]: "is_object v \<Longrightarrow> is_object (jset2 k1 k2 x v)"
  by (simp add: jset2_def)

lemma jget_jset2 [json_simps, simp]:
  "is_object v \<Longrightarrow> k' \<noteq> k1 \<Longrightarrow> jget (jset2 k1 k2 x v) k' = jget v k'"
  by (simp add: jset2_def)

lemma jget_NoneI: "\<not> is_object v \<Longrightarrow> jget v k = None"
  by (cases v) auto

lemma ogetj_Some [json_simps, simp]: "ogetj (Some v) k = jget v k"
  by (simp add: ogetj_def)

lemma ogetj_None [json_simps, simp]: "ogetj None k = None"
  by (simp add: ogetj_def)

lemma ostr_Some [json_simps, simp]: "ostr (Some v) = as_str v"
  by (simp add: ostr_def)

lemma ostr_None [json_simps, simp]: "ostr None = None"
  by (simp add: ostr_def)

lemmas jget_defs = jget_str_def jget_u64_def jget_bool_def jget_array_def

lemma as_str_eq_Some [simp]: "(as_str v = Some s) = (v = JStr s)"
  by (cases v) auto

lemma as_object_eq_Some [simp]: "(as_object v = Some kvs) = (v = JObj kvs)"
  by (cases v) auto

lemma as_array_eq_Some [simp]: "(as_array v = Some xs) = (v = JArr xs)"
  by (cases v) auto

section \<open>The environment\<close>

record env =
  json_parse :: "string \<Rightarrow> json option"
  json_text :: "json \<Rightarrow> string"
  sha256_hex :: "string \<Rightarrow> string"
  hex_encode :: "string \<Rightarrow> string"
  hex_decode :: "string \<Rightarrow> string option"
  url_parse :: "string \<Rightarrow> (string \<times> string option) option"
  replay_key :: string
  unix_secs :: nat
  uuid_v4 :: "nat \<Rightarrow> string"
  hash_order :: "nat list \<Rightarrow> nat list"

text \<open>The keys of a hash map in iteration order, the entries in that order.\<close>

definition hm_keys :: "env \<Rightarrow> (nat \<times> 'v) list \<Rightarrow> nat list" where
  "hm_keys E m = hash_order E (map fst m)"

definition hm_entries :: "env \<Rightarrow> (nat \<times> 'v) list \<Rightarrow> (nat \<times> 'v) list" where
  "hm_entries E m = List.map_filter (\<lambda>k. map_option (Pair k) (hm_get m k)) (hm_keys E m)"

text \<open>Documented: an iteration visits every key once, in some order.\<close>

definition order_ok :: "env \<Rightarrow> bool" where
  "order_ok E = (\<forall>ks. set (hash_order E ks) = set ks \<and> (distinct ks \<longrightarrow> distinct (hash_order E ks)))"

section \<open>Arithmetic on machine integers\<close>

definition u64_max :: nat where
  "u64_max = 2 ^ 64 - 1"

text \<open>\<open>saturating_add\<close> on \<open>usize\<close>, and the wrapping \<open>+\<close> of a release build on \<open>u64\<close>.\<close>

definition sat_add :: "nat \<Rightarrow> nat \<Rightarrow> nat" where
  "sat_add a b = min (a + b) u64_max"

definition u64_add :: "nat \<Rightarrow> nat \<Rightarrow> nat" where
  "u64_add a b = (a + b) mod 2 ^ 64"

lemma sat_add_le: "sat_add a b \<le> u64_max"
  by (simp add: sat_add_def)

lemma sat_add_mono: "a \<le> a' \<Longrightarrow> b \<le> b' \<Longrightarrow> sat_add a b \<le> sat_add a' b'"
  by (auto simp: sat_add_def)

text \<open>
  \<open>Instant + Duration\<close>, in nanoseconds: the clock counts its seconds in a signed word of 64 bits, and a sum
  that does not fit panics.
\<close>

definition instant_limit :: nat where
  "instant_limit = 2 ^ 63 * 1000000000"

definition instant_add :: "nat \<Rightarrow> nat \<Rightarrow> nat option" where
  "instant_add t d = (if t + d < instant_limit then Some (t + d) else None)"

lemma instant_add_Some: "instant_add t d = Some u \<longleftrightarrow> u = t + d \<and> t + d < instant_limit"
  by (auto simp: instant_add_def)

end
