(* ===== verification/Formats.thy ===== *)
theory Formats
  imports Json
begin

text \<open>
  The endpoint formats (\<open>src/formats.rs\<close>), the detection of a client request's format from
  its path and body (\<open>src/detect.rs\<close>) and the resolution of what an upstream supports
  (\<open>src/discovery.rs\<close>): the fixed and the probed capability, the default translation target,
  the format used for a request.
\<close>

section \<open>Format identifiers\<close>

datatype upstream_format = Anthropic | OpenAiChatCompletions | OpenAiResponses

definition format_display :: "upstream_format \<Rightarrow> string" where
  "format_display f = (case f of
      Anthropic \<Rightarrow> ''anthropic''
    | OpenAiChatCompletions \<Rightarrow> ''openai-chat-completions''
    | OpenAiResponses \<Rightarrow> ''openai-responses'')"

definition removed_native_gemini_format_message :: string where
  "removed_native_gemini_format_message =
     ''native Gemini format support has been removed; use Google OpenAI-compatible endpoint '' @
     ''https://generativelanguage.googleapis.com/v1beta/openai with format: openai-chat-completions''"

text \<open>
  \<open>from_str\<close> lower-cases its argument first. No name it matches holds a letter that a
  non-ASCII character lower-cases to, so the ASCII part of the lower-casing decides the match.
\<close>

definition format_from_str :: "string \<Rightarrow> string + upstream_format" where
  "format_from_str s =
     (let l = to_ascii_lowercase s in
      if l \<in> {''google'', ''gemini''} then Inl removed_native_gemini_format_message
      else if l \<in> {''anthropic'', ''claude'', ''anthropic-messages'', ''claude-messages''}
        then Inr Anthropic
      else if l \<in> {''openai'', ''openai-completion'', ''openai-chat'', ''openai-chat-completions'',
                    ''chat'', ''chat-completions''}
        then Inr OpenAiChatCompletions
      else if l \<in> {''openai-responses'', ''responses''} then Inr OpenAiResponses
      else Inl (''unknown format: '' @ s))"

section \<open>Request format detection\<close>

definition detect_by_path :: "string \<Rightarrow> json \<Rightarrow> upstream_format option" where
  "detect_by_path path body =
     (if str_contains path ''/openai/v1/responses'' then Some OpenAiResponses
      else if str_contains path ''/anthropic/v1/messages'' then Some Anthropic
      else if str_contains path ''/openai/v1/chat/completions''
              \<and> jget_array body ''input'' \<noteq> None
        then Some OpenAiResponses
      else None)"

definition is_claude_image :: "json \<Rightarrow> bool" where
  "is_claude_image c =
     (jget_str c ''type'' = Some ''image''
      \<and> ostr (ogetj (jget c ''source'') ''type'') = Some ''base64'')"

definition is_claude_tool :: "json \<Rightarrow> bool" where
  "is_claude_tool c = (jget_str c ''type'' \<in> {Some ''tool_use'', Some ''tool_result''})"

text \<open>The messages of a body select the Anthropic format, or nothing.\<close>

definition detect_claude_messages :: "json \<Rightarrow> json list \<Rightarrow> bool" where
  "detect_claude_messages body messages =
     (if jget body ''system'' \<noteq> None \<or> jget body ''anthropic_version'' \<noteq> None then True
      else (case messages of
          [] \<Rightarrow> False
        | first # _ \<Rightarrow>
            (case jget_array first ''content'' of
               None \<Rightarrow> False
             | Some arr \<Rightarrow> list_ex is_claude_image arr \<or> list_ex is_claude_tool arr)))"

definition openai_specific_fields :: "string list" where
  "openai_specific_fields =
     [''stream_options'', ''response_format'', ''logprobs'', ''top_logprobs'', ''n'',
      ''presence_penalty'', ''frequency_penalty'', ''logit_bias'', ''user'']"

fun is_array_or_string :: "json \<Rightarrow> bool" where
  "is_array_or_string (JArr _) = True"
| "is_array_or_string (JStr _) = True"
| "is_array_or_string _ = False"

definition detect_by_body :: "json \<Rightarrow> upstream_format" where
  "detect_by_body body =
     (if (case jget body ''input'' of
            None \<Rightarrow> False
          | Some input \<Rightarrow> jget body ''messages'' = None \<and> is_array_or_string input)
        then OpenAiResponses
      else if list_ex (\<lambda>k. jget body k \<noteq> None) openai_specific_fields then OpenAiChatCompletions
      else (case jget_array body ''messages'' of
              None \<Rightarrow> OpenAiChatCompletions
            | Some messages \<Rightarrow>
                if detect_claude_messages body messages then Anthropic
                else OpenAiChatCompletions))"

definition detect_request_format :: "string \<Rightarrow> json \<Rightarrow> upstream_format" where
  "detect_request_format path body =
     (case detect_by_path path body of Some f \<Rightarrow> f | None \<Rightarrow> detect_by_body body)"

section \<open>Upstream capability\<close>

definition default_target_order :: "upstream_format list" where
  "default_target_order = [OpenAiChatCompletions, OpenAiResponses, Anthropic]"

text \<open>The position in \<open>DEFAULT_TARGET_ORDER\<close> orders the formats, most generic first.\<close>

fun genericity :: "upstream_format \<Rightarrow> nat" where
  "genericity OpenAiChatCompletions = 0"
| "genericity OpenAiResponses = 1"
| "genericity Anthropic = 2"

instantiation upstream_format :: linorder
begin

definition less_eq_upstream_format :: "upstream_format \<Rightarrow> upstream_format \<Rightarrow> bool" where
  "less_eq_upstream_format a b = (genericity a \<le> genericity b)"

definition less_upstream_format :: "upstream_format \<Rightarrow> upstream_format \<Rightarrow> bool" where
  "less_upstream_format a b = (genericity a < genericity b)"

instance
proof
  fix a b c :: upstream_format
  show "a < b \<longleftrightarrow> a \<le> b \<and> \<not> b \<le> a"
    by (auto simp: less_eq_upstream_format_def less_upstream_format_def)
  show "a \<le> a"
    by (simp add: less_eq_upstream_format_def)
  show "a \<le> b \<or> b \<le> a"
    by (auto simp: less_eq_upstream_format_def)
  assume ab: "a \<le> b"
  show "b \<le> c \<Longrightarrow> a \<le> c"
    using ab by (simp add: less_eq_upstream_format_def)
  show "b \<le> a \<Longrightarrow> a = b"
    using ab by (cases a; cases b) (auto simp: less_eq_upstream_format_def)
qed

end

record upstream_capability =
  supported :: "upstream_format set"
  default_target :: upstream_format

datatype upstream_availability = Available | Unavailable string

fun is_available :: "upstream_availability \<Rightarrow> bool" where
  "is_available Available = True"
| "is_available (Unavailable _) = False"

fun availability_reason :: "upstream_availability \<Rightarrow> string option" where
  "availability_reason Available = None"
| "availability_reason (Unavailable reason) = Some reason"

fun status_label :: "upstream_availability \<Rightarrow> string" where
  "status_label Available = ''available''"
| "status_label (Unavailable _) = ''unavailable''"

record discovered_upstream =
  capability :: "upstream_capability option"
  availability :: upstream_availability

definition capability_fixed :: "upstream_format \<Rightarrow> upstream_capability" where
  "capability_fixed f = \<lparr>supported = {f}, default_target = f\<rparr>"

text \<open>
  The source's \<open>expect\<close> on the search cannot panic: the set is not empty there and the order
  lists every format (\<open>default_target_found\<close>).
\<close>

definition capability_from_supported :: "upstream_format set \<Rightarrow> upstream_capability option" where
  "capability_from_supported S =
     (if S = {} then None
      else map_option (\<lambda>d. \<lparr>supported = S, default_target = d\<rparr>)
             (List.find (\<lambda>f. f \<in> S) default_target_order))"

definition upstream_format_for_request :: "upstream_capability \<Rightarrow> upstream_format \<Rightarrow> upstream_format" where
  "upstream_format_for_request cap client =
     (if client \<in> supported cap then client else default_target cap)"

definition should_passthrough :: "upstream_capability \<Rightarrow> upstream_format \<Rightarrow> bool" where
  "should_passthrough cap client = (client \<in> supported cap)"

definition discovered_fixed :: "upstream_format \<Rightarrow> discovered_upstream" where
  "discovered_fixed f =
     \<lparr>capability = Some (capability_fixed f), availability = Available\<rparr>"

definition discovered_from_supported :: "upstream_format set \<Rightarrow> discovered_upstream" where
  "discovered_from_supported S =
     (case capability_from_supported S of
        Some cap \<Rightarrow> \<lparr>capability = Some cap, availability = Available\<rparr>
      | None \<Rightarrow> \<lparr>capability = None,
                  availability = Unavailable ''protocol discovery returned no supported formats''\<rparr>)"

definition minimal_probe_body :: "upstream_format \<Rightarrow> json" where
  "minimal_probe_body f = (case f of
      OpenAiChatCompletions \<Rightarrow> jobj [(''model'', JStr ''gpt-4o''), (''messages'', JArr [])]
    | OpenAiResponses \<Rightarrow> jobj [(''model'', JStr ''gpt-4o''), (''input'', JArr [])]
    | Anthropic \<Rightarrow> jobj [(''model'', JStr ''claude-3-5-sonnet-20241022''),
                         (''max_tokens'', jnat 1), (''messages'', JArr [])])"

definition status_indicates_support :: "nat \<Rightarrow> bool" where
  "status_indicates_support st =
     ((200 \<le> st \<and> st \<le> 299) \<or> st \<in> {400, 401, 403, 405, 406, 409, 415, 422, 429})"

definition default_headers_for_format :: "upstream_format \<Rightarrow> (string \<times> string) list" where
  "default_headers_for_format f =
     (case f of Anthropic \<Rightarrow> [(''anthropic-version'', ''2023-06-01'')] | _ \<Rightarrow> [])"

definition auth_header_for_format :: "upstream_format \<Rightarrow> string \<Rightarrow> string \<times> string" where
  "auth_header_for_format f key =
     (case f of Anthropic \<Rightarrow> (''x-api-key'', key) | _ \<Rightarrow> (''authorization'', ''Bearer '' @ key))"

text \<open>
  One probe per format, in order. \<open>probe\<close> sends a request with these headers and this body:
  \<open>Some status\<close>, or \<open>None\<close> for a connection error.
\<close>

definition probe_headers ::
  "upstream_format \<Rightarrow> (string \<times> string) list \<Rightarrow> string option \<Rightarrow> (string \<times> string) list" where
  "probe_headers f extra api_key =
     default_headers_for_format f @ extra
     @ (case api_key of None \<Rightarrow> [] | Some key \<Rightarrow> [auth_header_for_format f key])"

definition discover_supported_formats ::
  "(upstream_format \<Rightarrow> (string \<times> string) list \<Rightarrow> json \<Rightarrow> nat option) \<Rightarrow>
   string option \<Rightarrow> (string \<times> string) list \<Rightarrow> upstream_format set" where
  "discover_supported_formats probe api_key extra =
     foldl (\<lambda>S f. case probe f (probe_headers f extra api_key) (minimal_probe_body f) of
                     Some st \<Rightarrow> if status_indicates_support st then insert f S else S
                   | None \<Rightarrow> S) {} default_target_order"

section \<open>Facts\<close>

lemma find_default_order:
  "List.find (\<lambda>f. f \<in> S) default_target_order =
     (if OpenAiChatCompletions \<in> S then Some OpenAiChatCompletions
      else if OpenAiResponses \<in> S then Some OpenAiResponses
      else if Anthropic \<in> S then Some Anthropic else None)"
  by (simp add: default_target_order_def)

lemma format_mem_cases:
  "S \<noteq> {} \<Longrightarrow> OpenAiChatCompletions \<in> S \<or> OpenAiResponses \<in> S \<or> Anthropic \<in> S"
  by (metis all_not_in_conv upstream_format.exhaust)

lemma default_target_found: "S \<noteq> {} \<Longrightarrow> \<exists>d. List.find (\<lambda>f. f \<in> S) default_target_order = Some d"
  using format_mem_cases [of S] by (auto simp: find_default_order)

lemma genericity_order:
  "OpenAiChatCompletions \<le> f" "f \<noteq> OpenAiChatCompletions \<Longrightarrow> OpenAiResponses \<le> f"
  "f \<noteq> OpenAiChatCompletions \<Longrightarrow> f \<noteq> OpenAiResponses \<Longrightarrow> Anthropic \<le> f"
  by (cases f; simp add: less_eq_upstream_format_def)+

lemma capability_from_supported_Some:
  "capability_from_supported S = Some cap \<Longrightarrow>
     S \<noteq> {} \<and> supported cap = S \<and> default_target cap \<in> S \<and> (\<forall>f \<in> S. default_target cap \<le> f)"
  by (auto simp: capability_from_supported_def find_default_order split: if_splits
      intro: genericity_order)

lemma capability_from_supported_None: "capability_from_supported S = None \<longleftrightarrow> S = {}"
  using default_target_found [of S] by (auto simp: capability_from_supported_def)

text \<open>
  A probed upstream is usable exactly when a probe found some format; then the format chosen
  for a request is one the upstream supports: the client's own when it can be passed through,
  otherwise the most generic supported one.
\<close>

theorem resolved_format_supported:
  "(case capability (discovered_from_supported S) of
      None \<Rightarrow> S = {} \<and> \<not> is_available (availability (discovered_from_supported S))
    | Some cap \<Rightarrow>
        is_available (availability (discovered_from_supported S))
        \<and> upstream_format_for_request cap client \<in> S
        \<and> upstream_format_for_request cap client = (if client \<in> S then client else Min S)
        \<and> should_passthrough cap client = (upstream_format_for_request cap client = client))"
proof (cases "capability_from_supported S")
  case None
  moreover from this have "S = {}"
    by (simp add: capability_from_supported_None)
  ultimately show ?thesis
    by (auto simp: discovered_from_supported_def)
next
  case (Some cap)
  then have c: "supported cap = S" "default_target cap \<in> S" "\<forall>f \<in> S. default_target cap \<le> f"
    using capability_from_supported_Some by blast+
  have "finite S"
    by (rule finite_subset [of S "{Anthropic, OpenAiChatCompletions, OpenAiResponses}"])
      (auto intro: upstream_format.exhaust)
  with c have "Min S = default_target cap"
    by (intro Min_eqI) auto
  with c Some show ?thesis
    by (auto simp: discovered_from_supported_def upstream_format_for_request_def
        should_passthrough_def)
qed

text \<open>
  Parsing the printed name of a format gives the format back, whatever the letter case of the
  name.
\<close>

theorem format_parse_print:
  "map ascii_lower s = format_display f \<Longrightarrow> format_from_str s = Inr f"
  by (cases f) (simp_all add: format_from_str_def format_display_def to_ascii_lowercase_def Let_def)

theorem format_parse_print_witness:
  "format_from_str ''OpenAI-Responses'' = Inr OpenAiResponses"
  by (rule format_parse_print) code_simp

lemma detect_path_responses:
  "str_contains path ''/openai/v1/responses'' \<Longrightarrow>
     detect_request_format path body = OpenAiResponses"
  by (simp add: detect_request_format_def detect_by_path_def)

lemma detect_path_anthropic:
  "\<not> str_contains path ''/openai/v1/responses'' \<Longrightarrow> str_contains path ''/anthropic/v1/messages'' \<Longrightarrow>
     detect_request_format path body = Anthropic"
  by (simp add: detect_request_format_def detect_by_path_def)

end
