(* ===== verification/Wire.thy ===== *)
theory Wire
  imports Json
begin

text \<open>
  The wire format of server-sent events (\<open>src/streaming/wire.rs\<close>): finding the end of the next
  frame in the receive buffer, reading a frame with or without removing it, the JSON event a frame
  carries, printing events. The interface \<open>framer\<close> is what the stream drivers need of the frame
  search; it is interpreted on \<open>sse_frame_end\<close>.
\<close>

section \<open>Printing\<close>

text \<open>
  An output frame before it is printed: the optional event type and the value, or bytes passed
  through. \<open>frame_bytes\<close> prints it with the functions of the source.
\<close>

datatype frame = Frame "string option" json | Raw string

definition format_sse_data :: "env \<Rightarrow> json \<Rightarrow> string" where
  "format_sse_data E v = ''data: '' @ json_text E v @ [nl, nl]"

definition format_sse_event :: "env \<Rightarrow> string \<Rightarrow> json \<Rightarrow> string" where
  "format_sse_event E ty v = ''event: '' @ ty @ [nl] @ ''data: '' @ json_text E v @ [nl, nl]"

fun frame_bytes :: "env \<Rightarrow> frame \<Rightarrow> string" where
  "frame_bytes E (Frame None v) = format_sse_data E v"
| "frame_bytes E (Frame (Some ty) v) = format_sse_event E ty v"
| "frame_bytes E (Raw bs) = bs"

section \<open>Reading\<close>

text \<open>\<open>data_lines\<close>: the payloads of the \<open>data:\<close> lines of a frame.\<close>

definition sse_data_lines :: "string \<Rightarrow> string list" where
  "sse_data_lines bytes =
     List.map_filter
       (\<lambda>l. map_option (\<lambda>d. unwrap_or (strip_prefix '' '' d) d) (strip_prefix ''data:'' l))
       (lines_of (from_utf8_lossy bytes))"

definition done_event :: json where
  "done_event = jobj [(''_done'', JBool True)]"

definition parse_sse_event_json :: "env \<Rightarrow> string \<Rightarrow> json option" where
  "parse_sse_event_json E bytes =
     (let data_lines = sse_data_lines bytes in
      if data_lines = [] then None
      else let data = join [nl] data_lines in
        if data = ''[DONE]'' then Some done_event
        else if trim data = [] then None
        else json_parse E data)"

text \<open>
  The forward scan of \<open>sse_frame_end\<close>: \<open>frame_scan i bs\<close> is the loop at index \<open>i\<close>, with
  \<open>bs\<close> the buffer from there on.
\<close>

fun frame_scan :: "nat \<Rightarrow> string \<Rightarrow> nat option" where
  "frame_scan i (a # b # r) =
     (if a = nl \<and> b = nl then Some (i + 2)
      else if a = cr \<and> b = nl \<and> take 2 r = [cr, nl] then Some (i + 4)
      else frame_scan (Suc i) (b # r))"
| "frame_scan i [a] = None"
| "frame_scan i [] = None"

definition sse_frame_end :: "string \<Rightarrow> nat option" where
  "sse_frame_end buffer = frame_scan 0 buffer"

definition read_one_sse_frame :: "env \<Rightarrow> string \<Rightarrow> (string \<times> json option \<times> nat) option" where
  "read_one_sse_frame E buffer =
     (case sse_frame_end buffer of
        None \<Rightarrow> None
      | Some e \<Rightarrow> Some (take e buffer, parse_sse_event_json E (take e buffer), e))"

definition drop_sse_prefix :: "string \<Rightarrow> nat \<Rightarrow> string" where
  "drop_sse_prefix buffer consumed = drop (min consumed (length buffer)) buffer"

definition take_one_sse_frame :: "env \<Rightarrow> string \<Rightarrow> ((string \<times> json option) \<times> string) option" where
  "take_one_sse_frame E buffer =
     (case read_one_sse_frame E buffer of
        None \<Rightarrow> None
      | Some (event_bytes, event, e) \<Rightarrow> Some ((event_bytes, event), drop e buffer))"

fun first_event_type :: "string list \<Rightarrow> string option" where
  "first_event_type [] = None"
| "first_event_type (l # ls) =
     (case strip_prefix ''event:'' l of
        None \<Rightarrow> first_event_type ls
      | Some ty \<Rightarrow>
          let t = trim (unwrap_or (strip_prefix '' '' ty) ty)
          in if t \<noteq> [] then Some t else first_event_type ls)"

definition sse_frame_event_type :: "string \<Rightarrow> string option" where
  "sse_frame_event_type bytes = first_event_type (lines_of (from_utf8_lossy bytes))"

section \<open>The frame search\<close>

text \<open>What a client of a frame search relies on.\<close>

locale framer =
  fixes cut :: "string \<Rightarrow> nat option"
    and split :: "string \<Rightarrow> string list \<times> string"
  assumes cut_bounds: "cut b = Some e \<Longrightarrow> 0 < e \<and> e \<le> length b"
    and cut_append: "cut b = Some e \<Longrightarrow> cut (b @ r) = Some e"
    and split_eq: "split b = (case cut b of None \<Rightarrow> ([], b)
        | Some e \<Rightarrow> (take e b # fst (split (drop e b)), snd (split (drop e b))))"
begin

lemma split_None: "cut b = None \<Longrightarrow> split b = ([], b)"
  by (subst split_eq) simp

lemma split_Some:
  "cut b = Some e \<Longrightarrow> split b = (take e b # fst (split (drop e b)), snd (split (drop e b)))"
  by (subst split_eq) simp

lemma cut_shorter: "cut b = Some e \<Longrightarrow> length (drop e b) < length b"
  using cut_bounds [of b e] unfolding length_drop by linarith

lemma split_concat: "concat (fst (split b)) @ snd (split b) = b"
proof (induction b rule: length_induct)
  case (1 b)
  show ?case
  proof (cases "cut b")
    case None
    then show ?thesis by (simp add: split_None)
  next
    case (Some e)
    with "1" cut_shorter have "concat (fst (split (drop e b))) @ snd (split (drop e b)) = drop e b"
      by blast
    with Some show ?thesis by (simp add: split_Some)
  qed
qed

lemma split_rest: "cut (snd (split b)) = None"
proof (induction b rule: length_induct)
  case (1 b)
  show ?case
  proof (cases "cut b")
    case None
    then show ?thesis by (simp add: split_None)
  next
    case (Some e)
    with "1" cut_shorter show ?thesis by (simp add: split_Some)
  qed
qed

lemma split_append:
  "split (a @ b) = (fst (split a) @ fst (split (snd (split a) @ b)), snd (split (snd (split a) @ b)))"
proof (induction a rule: length_induct)
  case (1 a)
  show ?case
  proof (cases "cut a")
    case None
    then show ?thesis by (simp add: split_None)
  next
    case (Some e)
    then have le: "e \<le> length a" and ab: "cut (a @ b) = Some e"
      using cut_bounds cut_append by blast+
    have "split (drop e a @ b) =
        (fst (split (drop e a)) @ fst (split (snd (split (drop e a)) @ b)),
         snd (split (snd (split (drop e a)) @ b)))"
      using "1" Some cut_shorter by blast
    with le ab Some show ?thesis by (simp add: split_Some)
  qed
qed

lemma split_chunks:
  "foldl (\<lambda>(fs, r) c. (fs @ fst (split (r @ c)), snd (split (r @ c)))) (split a) cs =
     split (a @ concat cs)"
proof (induction cs arbitrary: a)
  case Nil
  then show ?case by simp
next
  case (Cons c cs)
  have "(fst (split a) @ fst (split (snd (split a) @ c)), snd (split (snd (split a) @ c))) =
      split (a @ c)"
    by (simp add: split_append [of a c])
  with Cons [of "a @ c"] show ?case by (simp add: case_prod_unfold)
qed

end

subsection \<open>The scan of the source\<close>

lemma take_2_length: "take 2 r = [x, y] \<Longrightarrow> 2 \<le> length r"
  by (cases r; cases "tl r") auto

lemma frame_scan_bounds: "frame_scan i b = Some e \<Longrightarrow> i < e \<and> e \<le> i + length b"
  by (induction i b rule: frame_scan.induct) (force dest: take_2_length split: if_splits)+

lemma frame_scan_append: "frame_scan i b = Some e \<Longrightarrow> frame_scan i (b @ r) = Some e"
proof (induction i b rule: frame_scan.induct)
  case (1 i a b s)
  consider "s = []" | c where "s = [c]" | c d t where "s = c # d # t"
    by (cases s; cases "tl s") auto
  then show ?case
  proof cases
    case 1
    with "1.prems" show ?thesis by (auto split: if_splits)
  next
    case 2
    with "1" show ?thesis by (auto split: if_splits)
  next
    case 3
    with "1" show ?thesis by (auto split: if_splits)
  qed
qed simp_all

lemma sse_cut_shorter:
  assumes "sse_frame_end b = Some e"
  shows "length b - e < length b"
  using frame_scan_bounds [OF assms [unfolded sse_frame_end_def]] by linarith

function split_frames :: "string \<Rightarrow> string list \<times> string" where
  "split_frames b =
     (case sse_frame_end b of
        None \<Rightarrow> ([], b)
      | Some e \<Rightarrow> (take e b # fst (split_frames (drop e b)), snd (split_frames (drop e b))))"
  by pat_completeness auto
termination
  by (relation "measure length") (simp_all add: sse_cut_shorter)

declare split_frames.simps [simp del]

interpretation sse: framer sse_frame_end split_frames
proof unfold_locales
  fix b r :: string and e :: nat
  assume e: "sse_frame_end b = Some e"
  show "0 < e \<and> e \<le> length b"
    using frame_scan_bounds [OF e [unfolded sse_frame_end_def]] by simp
  show "sse_frame_end (b @ r) = Some e"
    using frame_scan_append [OF e [unfolded sse_frame_end_def]] by (simp add: sse_frame_end_def)
next
  fix b :: string
  show "split_frames b = (case sse_frame_end b of None \<Rightarrow> ([], b)
      | Some e \<Rightarrow> (take e b # fst (split_frames (drop e b)), snd (split_frames (drop e b))))"
    by (rule split_frames.simps)
qed

subsection \<open>The blank line it finds is the first one\<close>

text \<open>
  The reference the source's comment states: a frame ends after its first blank line, a line feed
  pair or a CRLF pair. \<open>blank_line bs i\<close> is the length of a blank-line separator at \<open>i\<close>.
\<close>

definition blank_line :: "string \<Rightarrow> nat \<Rightarrow> nat option" where
  "blank_line bs i =
     (if take 2 (drop i bs) = [nl, nl] then Some 2
      else if take 4 (drop i bs) = [cr, nl, cr, nl] then Some 4 else None)"

lemma blank_line_Suc: "blank_line (a # bs) (Suc i) = blank_line bs i"
  by (simp add: blank_line_def)

lemma blank_line_0:
  "blank_line (a # b # r) 0 =
     (if a = nl \<and> b = nl then Some 2
      else if a = cr \<and> b = nl \<and> take 2 r = [cr, nl] then Some 4 else None)"
  by (auto simp: blank_line_def numeral_eq_Suc)

lemma blank_line_short: "length bs \<le> 1 \<Longrightarrow> blank_line bs i = None"
  by (cases bs; cases i) (auto simp: blank_line_def numeral_eq_Suc)

lemma ex_nat_split: "(\<exists>k::nat. P k) \<longleftrightarrow> P 0 \<or> (\<exists>k. P (Suc k))"
  by (metis not0_implies_Suc)

lemma frame_scan_first:
  "frame_scan i b = Some e \<longleftrightarrow>
     (\<exists>k n. blank_line b k = Some n \<and> (\<forall>j < k. blank_line b j = None) \<and> e = i + k + n)"
proof (induction i b rule: frame_scan.induct)
  case (1 i a b r)
  show ?case
  proof (cases "blank_line (a # b # r) 0")
    case None
    then have "frame_scan i (a # b # r) = frame_scan (Suc i) (b # r)"
      by (auto simp: blank_line_0 split: if_splits)
    moreover have "frame_scan (Suc i) (b # r) = Some e \<longleftrightarrow>
        (\<exists>k n. blank_line (b # r) k = Some n \<and> (\<forall>j < k. blank_line (b # r) j = None)
          \<and> e = Suc i + k + n)"
      using "1" None by (auto simp: blank_line_0 split: if_splits)
    ultimately show ?thesis
      using None by (subst ex_nat_split) (simp add: blank_line_Suc All_less_Suc2)
  next
    case (Some n)
    then have "frame_scan i (a # b # r) = Some (i + n)"
      by (auto simp: blank_line_0 split: if_splits)
    with Some show ?thesis
      by (subst ex_nat_split) (auto simp: All_less_Suc2)
  qed
qed (simp_all add: blank_line_short)


section \<open>The drain loops\<close>

text \<open>
  The two ways to empty a buffer that the source's comments compare: removing each frame as it is
  taken (\<open>take_one_sse_frame\<close> in a loop), and reading at a growing offset with one removal at the
  end (\<open>read_one_sse_frame\<close> and \<open>drop_sse_prefix\<close>), the loop skeleton of both stream drivers.
\<close>

lemma read_one_shorter:
  "read_one_sse_frame E b = Some (f, ev, e) \<Longrightarrow> length b - e < length b"
  by (auto simp: read_one_sse_frame_def sse_cut_shorter split: option.splits)

function take_all :: "env \<Rightarrow> string \<Rightarrow> (string \<times> json option) list \<times> string" where
  "take_all E buffer =
     (case take_one_sse_frame E buffer of
        None \<Rightarrow> ([], buffer)
      | Some (fe, buffer') \<Rightarrow> (fe # fst (take_all E buffer'), snd (take_all E buffer')))"
  by pat_completeness auto
termination
  by (relation "measure (\<lambda>(E, b). length b)")
    (auto simp: take_one_sse_frame_def read_one_shorter split: option.splits)

function read_all :: "env \<Rightarrow> string \<Rightarrow> nat \<Rightarrow> (string \<times> json option) list \<times> string" where
  "read_all E buffer consumed =
     (case read_one_sse_frame E (drop consumed buffer) of
        None \<Rightarrow> ([], drop_sse_prefix buffer consumed)
      | Some (f, event, e) \<Rightarrow>
          ((f, event) # fst (read_all E buffer (consumed + e)), snd (read_all E buffer (consumed + e))))"
  by pat_completeness auto
termination
  by (relation "measure (\<lambda>(E, b, c). length b - c)") (auto dest: read_one_shorter)

text \<open>\<open>take_one_sse_event\<close>: frames without an event are skipped.\<close>

function take_one_sse_event :: "env \<Rightarrow> string \<Rightarrow> json option \<times> string" where
  "take_one_sse_event E buffer =
     (case take_one_sse_frame E buffer of
        None \<Rightarrow> (None, buffer)
      | Some ((_, Some event), buffer') \<Rightarrow> (Some event, buffer')
      | Some ((_, None), buffer') \<Rightarrow> take_one_sse_event E buffer')"
  by pat_completeness auto
termination
  by (relation "measure (\<lambda>(E, b). length b)")
    (auto simp: take_one_sse_frame_def read_one_shorter split: option.splits)

declare take_all.simps [simp del] read_all.simps [simp del] take_one_sse_event.simps [simp del]

lemma take_all_split:
  "take_all E b = (map (\<lambda>f. (f, parse_sse_event_json E f)) (fst (split_frames b)), snd (split_frames b))"
proof (induction b rule: length_induct)
  case (1 b)
  show ?case
  proof (cases "sse_frame_end b")
    case None
    then show ?thesis
      by (subst take_all.simps) (simp add: take_one_sse_frame_def read_one_sse_frame_def sse.split_None)
  next
    case (Some e)
    with "1" sse.cut_shorter show ?thesis
      by (subst take_all.simps)
        (simp add: take_one_sse_frame_def read_one_sse_frame_def sse.split_Some)
  qed
qed

lemma read_all_split:
  "read_all E b c =
     (map (\<lambda>f. (f, parse_sse_event_json E f)) (fst (split_frames (drop c b))),
      snd (split_frames (drop c b)))"
proof (induction "length b - c" arbitrary: c rule: less_induct)
  case less
  show ?case
  proof (cases "sse_frame_end (drop c b)")
    case None
    have "drop (min c (length b)) b = drop c b"
      by (simp add: min_def)
    with None show ?thesis
      by (subst read_all.simps) (simp add: read_one_sse_frame_def sse.split_None drop_sse_prefix_def)
  next
    case (Some e)
    from sse_cut_shorter [OF Some] have "length b - (c + e) < length b - c"
      by simp
    from less [OF this] Some show ?thesis
      by (subst read_all.simps) (simp add: read_one_sse_frame_def sse.split_Some add.commute [of e c])
  qed
qed


section \<open>Reading back what was printed\<close>

text \<open>
  What the printing relies on of \<open>serde_json\<close> at a value: reading its text gives it back, and the
  compact text is UTF-8 on one line, not blank.
\<close>

definition codec_at :: "env \<Rightarrow> json \<Rightarrow> bool" where
  "codec_at E v =
     (json_parse E (json_text E v) = Some v \<and> utf8_valid (json_text E v)
      \<and> nl \<notin> set (json_text E v) \<and> cr \<notin> set (json_text E v)
      \<and> trim (json_text E v) \<noteq> [] \<and> json_text E v \<noteq> ''[DONE]'')"

text \<open>An event type as the proxy writes them: one line of UTF-8 without space around it.\<close>

definition plain_type :: "string \<Rightarrow> bool" where
  "plain_type ty = (utf8_valid ty \<and> nl \<notin> set ty \<and> cr \<notin> set ty \<and> trim ty = ty \<and> ty \<noteq> [])"

fun frame_ok :: "env \<Rightarrow> frame \<Rightarrow> bool" where
  "frame_ok E (Frame None v) = codec_at E v"
| "frame_ok E (Frame (Some ty) v) = (codec_at E v \<and> plain_type ty)"
| "frame_ok E (Raw bs) = False"

fun frame_value :: "frame \<Rightarrow> json option" where
  "frame_value (Frame _ v) = Some v"
| "frame_value (Raw bs) = None"

fun frame_type :: "frame \<Rightarrow> string option" where
  "frame_type (Frame ty _) = ty"
| "frame_type (Raw bs) = None"

lemma frame_scan_skip:
  "nl \<notin> set x \<Longrightarrow> cr \<notin> set x \<Longrightarrow> frame_scan i (x @ r) = frame_scan (i + length x) r"
proof (induction x arbitrary: i)
  case (Cons a x)
  then have "frame_scan i (a # x @ r) = frame_scan (Suc i) (x @ r)"
    by (cases "x @ r") auto
  with Cons show ?case by simp
qed simp

lemma sse_frame_end_line:
  "nl \<notin> set x \<Longrightarrow> cr \<notin> set x \<Longrightarrow> sse_frame_end (x @ nl # nl # r) = Some (length x + 2)"
  by (simp add: sse_frame_end_def frame_scan_skip)

lemma sse_frame_end_two_lines:
  assumes "nl \<notin> set x" "cr \<notin> set x" "nl \<notin> set y" "cr \<notin> set y" "y \<noteq> []"
  shows "sse_frame_end (x @ nl # y @ nl # nl # r) = Some (length x + length y + 3)"
proof -
  obtain c z where y: "y = c # z" using assms(5) by (cases y) auto
  have "sse_frame_end (x @ nl # y @ nl # nl # r) = frame_scan (length x) (nl # y @ nl # nl # r)"
    using assms(1,2) by (simp add: sse_frame_end_def frame_scan_skip)
  also have "\<dots> = frame_scan (Suc (length x)) (y @ nl # nl # r)"
    using assms(3) y by auto
  also have "\<dots> = Some (length x + length y + 3)"
    using assms(3,4) by (simp add: frame_scan_skip)
  finally show ?thesis .
qed

lemma lines_of_two: "nl \<notin> set x \<Longrightarrow> cr \<notin> set x \<Longrightarrow> lines_of (x @ [nl, nl]) = [x, []]"
  using lines_of_line [of x "[nl]"] lines_of_line [of "[]" "[]"] by simp

lemma lines_of_three:
  "nl \<notin> set x \<Longrightarrow> cr \<notin> set x \<Longrightarrow> nl \<notin> set y \<Longrightarrow> cr \<notin> set y \<Longrightarrow>
     lines_of (x @ nl # y @ [nl, nl]) = [x, y, []]"
  using lines_of_line [of x "y @ [nl, nl]"] lines_of_two [of y] by simp

lemma frame_lines_data:
  assumes "codec_at E v"
  shows "lines_of (from_utf8_lossy (format_sse_data E v)) = [''data: '' @ json_text E v, []]"
proof -
  let ?t = "json_text E v"
  have t: "utf8_valid ?t" "nl \<notin> set ?t" "cr \<notin> set ?t" using assms by (simp_all add: codec_at_def)
  then have "from_utf8_lossy (format_sse_data E v) = format_sse_data E v"
    by (simp add: format_sse_data_def from_utf8_lossy_ascii from_utf8_lossy_valid byte_def)
  with t lines_of_two [of "''data: '' @ ?t"] show ?thesis by (simp add: format_sse_data_def)
qed

lemma frame_lines_event:
  assumes "codec_at E v" and "plain_type ty"
  shows "lines_of (from_utf8_lossy (format_sse_event E ty v)) =
    [''event: '' @ ty, ''data: '' @ json_text E v, []]"
proof -
  let ?t = "json_text E v"
  have t: "utf8_valid ?t" "nl \<notin> set ?t" "cr \<notin> set ?t" using assms(1) by (simp_all add: codec_at_def)
  have y: "utf8_valid ty" "nl \<notin> set ty" "cr \<notin> set ty" using assms(2) by (simp_all add: plain_type_def)
  from t y have "from_utf8_lossy (format_sse_event E ty v) = format_sse_event E ty v"
    by (simp add: format_sse_event_def from_utf8_lossy_ascii from_utf8_lossy_valid byte_def)
  with t y lines_of_three [of "''event: '' @ ty" "''data: '' @ ?t"] show ?thesis
    by (simp add: format_sse_event_def)
qed

lemma strip_prefix_literals [simp]:
  "strip_prefix ''data:'' (CHR ''e'' # x) = None"
  "strip_prefix ''data:'' [] = None"
  "strip_prefix ''data:'' (CHR ''d'' # CHR ''a'' # CHR ''t'' # CHR ''a'' # CHR '':'' # x) = Some x"
  "strip_prefix ''event:'' (CHR ''e'' # CHR ''v'' # CHR ''e'' # CHR ''n'' # CHR ''t'' # CHR '':'' # x) = Some x"
  "strip_prefix '' '' (CHR '' '' # x) = Some x"
  by (simp_all add: strip_prefix_def)

lemma parse_printed:
  assumes "frame_ok E f"
  shows "parse_sse_event_json E (frame_bytes E f) = frame_value f"
    and "frame_type f \<noteq> None \<Longrightarrow> sse_frame_event_type (frame_bytes E f) = frame_type f"
proof -
  obtain ty v where f: "f = Frame ty v" and c: "codec_at E v"
    using assms by (cases f; cases "frame_type f") auto
  have lines: "lines_of (from_utf8_lossy (frame_bytes E f)) =
      (case ty of None \<Rightarrow> [] | Some t \<Rightarrow> [''event: '' @ t]) @ [''data: '' @ json_text E v, []]"
    using assms f c by (cases ty) (simp_all add: frame_lines_data frame_lines_event)
  have "sse_data_lines (frame_bytes E f) = [json_text E v]"
    by (cases ty) (simp_all add: sse_data_lines_def lines List.map_filter_simps)
  then show "parse_sse_event_json E (frame_bytes E f) = frame_value f"
    using c f by (simp add: parse_sse_event_json_def codec_at_def)
  show "sse_frame_event_type (frame_bytes E f) = frame_type f" if ft: "frame_type f \<noteq> None"
  proof -
    obtain t where t: "ty = Some t" "plain_type t"
      using ft assms f by (cases ty) auto
    then have "trim t = t" "t \<noteq> []" by (simp_all add: plain_type_def)
    with t lines f show ?thesis by (simp add: sse_frame_event_type_def Let_def)
  qed
qed

lemma cut_printed:
  assumes "frame_ok E f"
  shows "sse_frame_end (frame_bytes E f @ r) = Some (length (frame_bytes E f))"
proof -
  obtain ty v where f: "f = Frame ty v" and c: "codec_at E v"
    using assms by (cases f; cases "frame_type f") auto
  let ?d = "''data: '' @ json_text E v"
  have d: "nl \<notin> set ?d" "cr \<notin> set ?d" "?d \<noteq> []" using c by (simp_all add: codec_at_def)
  show ?thesis
  proof (cases ty)
    case None
    with f sse_frame_end_line [OF d(1,2), of r] show ?thesis by (simp add: format_sse_data_def)
  next
    case (Some t)
    let ?e = "''event: '' @ t"
    have e: "nl \<notin> set ?e" "cr \<notin> set ?e" using assms f Some by (simp_all add: plain_type_def)
    from sse_frame_end_two_lines [OF e d, of r] f Some show ?thesis
      by (simp add: format_sse_event_def)
  qed
qed

section \<open>Properties\<close>

text \<open>
  C1. A client that reads the bytes the proxy prints recovers exactly the events that were sent, in
  order, with nothing left over, however many there are: \<open>take_one_sse_frame\<close> in a loop inverts
  \<open>format_sse_data\<close> and \<open>format_sse_event\<close>.
\<close>

theorem printed_stream_reads_back:
  "list_all (frame_ok E) fs \<Longrightarrow>
     take_all E (concat (map (frame_bytes E) fs)) =
       (map (\<lambda>f. (frame_bytes E f, frame_value f)) fs, [])"
proof (induction fs)
  case Nil
  then show ?case
    by (subst take_all.simps)
      (simp add: take_one_sse_frame_def read_one_sse_frame_def sse_frame_end_def)
next
  case (Cons f fs)
  then show ?case
    by (subst take_all.simps)
      (simp add: take_one_sse_frame_def read_one_sse_frame_def cut_printed parse_printed(1))
qed

definition example_env :: env where
  "example_env =
     \<lparr>json_parse = (\<lambda>s. if s = ''{}'' then Some (JObj []) else None), json_text = (\<lambda>_. ''{}''),
      sha256_hex = id, hex_encode = id, hex_decode = Some,
      url_parse = (\<lambda>_. None), replay_key = ''key'', unix_secs = 0,
      uuid_v4 = (\<lambda>_. ''00000000-0000-4000-8000-000000000000''), hash_order = id\<rparr>"

theorem printed_stream_reads_back_witness:
  "take_all example_env (concat (map (frame_bytes example_env)
       [Frame (Some ''ping'') (JObj []), Frame None (JObj [])])) =
     ([(''event: ping'' @ [nl] @ ''data: {}'' @ [nl, nl], Some (JObj [])),
       (''data: {}'' @ [nl, nl], Some (JObj []))], [])"
proof -
  have v: "utf8_valid ''{}''" "utf8_valid ''ping''" "trim ''{}'' = ''{}''" "trim ''ping'' = ''ping''"
    by code_simp+
  have "list_all (frame_ok example_env) [Frame (Some ''ping'') (JObj []), Frame None (JObj [])]"
    by (simp add: codec_at_def plain_type_def example_env_def v)
  from printed_stream_reads_back [OF this] show ?thesis
    by (simp add: format_sse_event_def format_sse_data_def example_env_def)
qed

text \<open>
  Reading frames at a growing offset and removing the consumed prefix once, as the drivers do,
  gives the same frames, events and remaining buffer as removing every frame as it is taken, the
  quadratic loop it replaced.
\<close>

theorem read_loop_equals_take_loop: "read_all E buffer 0 = take_all E buffer"
  by (simp add: read_all_split take_all_split)

text \<open>
  The frames read from a stream, and the bytes left in the buffer, depend on the bytes received
  alone, not on how the network cut them into chunks; no byte is lost or duplicated, and what is
  left holds no complete frame.
\<close>

theorem framing_independent_of_chunks:
  "let (fs, rest) =
         foldl (\<lambda>(fs, buffer) chunk.
                  (fs @ fst (take_all E (buffer @ chunk)), snd (take_all E (buffer @ chunk))))
           ([], []) chunks
   in (fs, rest) = take_all E (concat chunks)
      \<and> concat (map fst fs) @ rest = concat chunks \<and> sse_frame_end rest = None"
proof -
  let ?p = "\<lambda>fs. map (\<lambda>f. (f, parse_sse_event_json E f)) fs"
  have step: "foldl (\<lambda>(fs, buffer) chunk.
            (fs @ fst (take_all E (buffer @ chunk)), snd (take_all E (buffer @ chunk)))) (?p gs, r) chunks =
        (let (hs, r') = foldl (\<lambda>(fs, r) c. (fs @ fst (split_frames (r @ c)), snd (split_frames (r @ c))))
              (gs, r) chunks in (?p hs, r'))" for gs r
    by (induction chunks arbitrary: gs r) (simp_all add: take_all_split flip: map_append)
  have "split_frames [] = ([], [])"
    by (simp add: sse.split_None sse_frame_end_def)
  then show ?thesis
    using step [of "[]" "[]"] sse.split_chunks [of "[]" chunks]
      sse.split_concat [of "concat chunks"] sse.split_rest [of "concat chunks"]
    by (simp add: take_all_split comp_def case_prod_unfold Let_def)
qed

text \<open>
  The end of the next frame is found exactly where the comment on \<open>sse_frame_end\<close> puts it: after
  the first blank line of the buffer, LF or CRLF, whichever comes first; there is none exactly when
  the buffer holds no blank line.
\<close>

theorem frame_end_is_first_blank_line:
  "sse_frame_end b = Some e \<longleftrightarrow>
     (\<exists>k n. blank_line b k = Some n \<and> list_all (\<lambda>j. blank_line b j = None) [0..<k] \<and> e = k + n)"
proof -
  have "list_all (\<lambda>j. blank_line b j = None) [0..<k] = (\<forall>j < k. blank_line b j = None)" for k
    by (auto simp: list_all_iff)
  then show ?thesis using frame_scan_first [of 0 b e] by (simp add: sse_frame_end_def)
qed

end
