(* ===== verification/Artifacts.thy ===== *)
theory Artifacts
  imports Formats
begin

text \<open>
  The boundary between the proxy's internal data and what a client sees: the internal artifacts
  that must not leave the proxy (\<open>src/internal_artifacts.rs\<close>) and their removal from error events
  (\<open>src/streaming/stream.rs\<close>), the request controls that need provider state
  (\<open>src/provider_state_controls.rs\<close>), the reserved tool names, the keyed marks the proxy puts on
  tool calls and checks later (\<open>src/translate/internal/tools.rs\<close>), and the classification of
  terminal reasons (\<open>src/translate/internal/response_protocols.rs\<close>, \<open>internal.rs\<close>).
\<close>

section \<open>Internal artifacts\<close>

definition tool_bridge_context_field :: string where
  "tool_bridge_context_field = ''_llmup_tool_bridge_context''"

definition custom_bridge_prefix :: string where
  "custom_bridge_prefix = ''__llmup_custom__''"

definition generic_upstream_error_message :: string where
  "generic_upstream_error_message = ''The upstream provider returned an error.''"

definition internal_artifact_error_message :: string where
  "internal_artifact_error_message = ''upstream payload contained an internal proxy artifact''"

definition contains_internal_artifact_text :: "string \<Rightarrow> bool" where
  "contains_internal_artifact_text s =
     (str_contains s tool_bridge_context_field \<or> str_contains s custom_bridge_prefix)"

definition sanitize_public_error_message :: "string \<Rightarrow> string" where
  "sanitize_public_error_message s =
     (if trim s = [] \<or> contains_internal_artifact_text s then generic_upstream_error_message else s)"

fun contains_internal_context_field :: "json \<Rightarrow> bool" where
  "contains_internal_context_field (JObj kvs) =
     list_ex (\<lambda>(k, v). k = tool_bridge_context_field \<or> contains_internal_context_field v) kvs"
| "contains_internal_context_field (JArr xs) = list_ex contains_internal_context_field xs"
| "contains_internal_context_field _ = False"

fun sanitize_internal_artifact_strings :: "json \<Rightarrow> json" where
  "sanitize_internal_artifact_strings (JStr s) = JStr (sanitize_public_error_message s)"
| "sanitize_internal_artifact_strings (JArr xs) = JArr (map sanitize_internal_artifact_strings xs)"
| "sanitize_internal_artifact_strings (JObj kvs) =
     JObj (map (\<lambda>(k, v). (k, sanitize_internal_artifact_strings v))
            (filter (\<lambda>(k, v). \<not> contains_internal_artifact_text k) kvs))"
| "sanitize_internal_artifact_strings v = v"

definition stream_event_is_public_error :: "json \<Rightarrow> bool" where
  "stream_event_is_public_error event =
     (jget event ''error'' \<noteq> None
      \<or> jget_str event ''type'' \<in> {Some ''error'', Some ''response.failed''})"

definition sanitize_public_stream_error_event :: "json \<Rightarrow> json" where
  "sanitize_public_stream_error_event event =
     (if stream_event_is_public_error event then sanitize_internal_artifact_strings event else event)"

text \<open>Specification: no string and no key of the value holds an artifact.\<close>

fun artifact_free :: "json \<Rightarrow> bool" where
  "artifact_free (JStr s) = (\<not> contains_internal_artifact_text s)"
| "artifact_free (JArr xs) = list_all artifact_free xs"
| "artifact_free (JObj kvs) =
     list_all (\<lambda>(k, v). \<not> contains_internal_artifact_text k \<and> artifact_free v) kvs"
| "artifact_free _ = True"

section \<open>Provider state controls\<close>

definition provider_state_control_enabled :: "json option \<Rightarrow> bool" where
  "provider_state_control_enabled v = (v \<notin> {None, Some JNull, Some (JBool False)})"

definition responses_stateful_request_controls :: "json \<Rightarrow> string list" where
  "responses_stateful_request_controls body =
     (if jget body ''previous_response_id'' \<noteq> None then [''previous_response_id''] else []) @
     (if jget body ''conversation'' \<noteq> None then [''conversation''] else []) @
     (if provider_state_control_enabled (jget body ''background'') then [''background''] else []) @
     (if provider_state_control_enabled (jget body ''store'') then [''store''] else []) @
     (if jget body ''prompt'' \<noteq> None then [''prompt''] else []) @
     (if jget body ''context_management'' \<noteq> None then [''context_management''] else [])"

definition responses_stateful_request_controls_present :: "json \<Rightarrow> bool" where
  "responses_stateful_request_controls_present body =
     (responses_stateful_request_controls body \<noteq> [])"

section \<open>Reserved tool names\<close>

definition translation_target_label :: "upstream_format \<Rightarrow> string" where
  "translation_target_label f = (case f of
      OpenAiChatCompletions \<Rightarrow> ''OpenAI Chat Completions''
    | OpenAiResponses \<Rightarrow> ''OpenAI Responses''
    | Anthropic \<Rightarrow> ''Anthropic'')"

definition custom_tools_not_portable_message :: "upstream_format \<Rightarrow> string" where
  "custom_tools_not_portable_message f =
     ''OpenAI custom tools cannot be faithfully translated to '' @ translation_target_label f @
     ''; failing closed because no safe function-tool representation exists''"

definition reserved_openai_custom_bridge_prefix_message :: "string \<Rightarrow> string" where
  "reserved_openai_custom_bridge_prefix_message name =
     ''OpenAI Responses function name `'' @ name @ ''` uses reserved bridge prefix `__llmup_custom__`; '' @
     ''this namespace is reserved for synthetic custom-tool bridging to OpenAI Chat Completions''"

definition custom_bridge_prefix_is_reserved :: "string \<Rightarrow> bool" where
  "custom_bridge_prefix_is_reserved name = starts_with custom_bridge_prefix name"

definition validate_public_tool_name_not_reserved :: "string \<Rightarrow> validation" where
  "validate_public_tool_name_not_reserved name =
     (if custom_bridge_prefix_is_reserved name
      then Inl (reserved_openai_custom_bridge_prefix_message name) else Inr ())"

definition validate_public_tool_identity_value :: "json option \<Rightarrow> validation" where
  "validate_public_tool_identity_value v =
     (case ostr v of
        Some s \<Rightarrow> if s \<noteq> [] then validate_public_tool_name_not_reserved s else Inr ()
      | None \<Rightarrow> Inr ())"

definition selector_container_key :: "string \<Rightarrow> bool" where
  "selector_container_key key =
     (key \<in> {''function'', ''custom'', ''tool'', ''tools'', ''allowed_tool'', ''allowed_tools'',
             ''allowedTools'', ''selected_tool'', ''selected_tools'', ''selectedTools'',
             ''allowed_function_names''})"

definition validate_selector_key :: "(string \<times> json) list \<Rightarrow> string \<Rightarrow> string \<Rightarrow> validation" where
  "validate_selector_key kvs path key =
     (case ostr (map_of kvs key) of
        Some name \<Rightarrow> map_err (\<lambda>e. path @ ''.'' @ key @ '': '' @ e)
                       (validate_public_tool_name_not_reserved name)
      | None \<Rightarrow> Inr ())"

fun validate_selector_at :: "json \<Rightarrow> string \<Rightarrow> validation"
  and validate_selector_items :: "json list \<Rightarrow> nat \<Rightarrow> string \<Rightarrow> validation"
  and validate_selector_fields :: "(string \<times> json) list \<Rightarrow> string \<Rightarrow> validation" where
  "validate_selector_at (JStr name) path =
     (if name \<noteq> [] then map_err (\<lambda>e. path @ '': '' @ e) (validate_public_tool_name_not_reserved name)
      else Inr ())"
| "validate_selector_at (JArr xs) path = validate_selector_items xs 0 path"
| "validate_selector_at (JObj kvs) path =
     res_then (validate_selector_key kvs path ''name'')
       (res_then (validate_selector_key kvs path ''namespace'') (validate_selector_fields kvs path))"
| "validate_selector_at _ path = Inr ()"
| "validate_selector_items [] i path = Inr ()"
| "validate_selector_items (x # xs) i path =
     res_then (validate_selector_at x (path @ ''['' @ nat_str i @ '']''))
       (validate_selector_items xs (Suc i) path)"
| "validate_selector_fields [] path = Inr ()"
| "validate_selector_fields ((k, v) # kvs) path =
     res_then (if selector_container_key k then validate_selector_at v (path @ ''.'' @ k) else Inr ())
       (validate_selector_fields kvs path)"

definition validate_public_selector_visible_identity :: "json \<Rightarrow> validation" where
  "validate_public_selector_visible_identity v = validate_selector_at v ''$''"

definition validate_openai_public_tool_identity :: "json \<Rightarrow> validation" where
  "validate_openai_public_tool_identity v =
     res_then (validate_public_tool_identity_value (Some v))
       (res_then (validate_public_tool_identity_value (jget v ''name''))
         (res_then (validate_public_tool_identity_value (ogetj (jget v ''function'') ''name''))
           (validate_public_tool_identity_value (ogetj (jget v ''custom'') ''name''))))"

definition validate_nested_tool_reference :: "json option \<Rightarrow> validation" where
  "validate_nested_tool_reference ov = (case ov of
      None \<Rightarrow> Inr ()
    | Some v \<Rightarrow> res_then (validate_public_tool_identity_value (Some v))
        (res_then (validate_public_tool_identity_value (jget v ''name''))
          (validate_public_tool_identity_value (jget v ''namespace''))))"

definition validate_responses_public_tool_reference :: "json \<Rightarrow> validation" where
  "validate_responses_public_tool_reference v =
     res_then (validate_public_selector_visible_identity v)
       (res_then (validate_public_tool_identity_value (Some v))
         (res_then (validate_public_tool_identity_value (jget v ''name''))
           (res_then (validate_public_tool_identity_value (jget v ''namespace''))
             (res_then (validate_nested_tool_reference (jget v ''function''))
               (validate_nested_tool_reference (jget v ''custom''))))))"

text \<open>The tools a tool choice selects: \<open>allowed_tools.tools\<close>, or \<open>tools\<close>.\<close>

definition choice_selected_tools :: "json \<Rightarrow> json list option" where
  "choice_selected_tools choice =
     Option.bind
       (option_or
         (case jget choice ''allowed_tools'' of Some (JObj o') \<Rightarrow> map_of o' ''tools'' | _ \<Rightarrow> None)
         (jget choice ''tools''))
       as_array"

definition validate_responses_public_tool_choice :: "json \<Rightarrow> validation" where
  "validate_responses_public_tool_choice choice =
     res_then (validate_responses_public_tool_reference choice)
       (if is_object choice then
          (case choice_selected_tools choice of
             Some tools \<Rightarrow> res_each validate_responses_public_tool_reference tools
           | None \<Rightarrow> Inr ())
        else Inr ())"

definition validate_responses_public_tool_metadata :: "json \<Rightarrow> validation" where
  "validate_responses_public_tool_metadata v =
     res_then
       (case jget_array v ''tools'' of
          Some tools \<Rightarrow> res_each validate_responses_public_tool_reference tools
        | None \<Rightarrow> Inr ())
       (case jget v ''tool_choice'' of
          Some choice \<Rightarrow> if is_null choice then Inr () else validate_responses_public_tool_choice choice
        | None \<Rightarrow> Inr ())"

definition validate_responses_public_tool_call_item :: "json \<Rightarrow> validation" where
  "validate_responses_public_tool_call_item item =
     (if jget_str item ''type'' \<in> {Some ''function_call'', Some ''custom_tool_call''}
      then res_then (validate_public_tool_identity_value (jget item ''name''))
             (validate_public_tool_identity_value (jget item ''namespace''))
      else Inr ())"

definition validate_responses_public_stream_event :: "json \<Rightarrow> validation" where
  "validate_responses_public_stream_event event =
     res_then (validate_responses_public_tool_metadata event)
       (if jget_str event ''type'' \<in> {Some ''response.function_call_arguments.delta'',
            Some ''response.function_call_arguments.done'', Some ''response.custom_tool_call_input.delta'',
            Some ''response.custom_tool_call_input.done''}
        then res_then (validate_public_tool_identity_value (jget event ''name''))
               (validate_public_tool_identity_value (jget event ''namespace''))
        else Inr ())"

definition validate_responses_public_output :: "json \<Rightarrow> validation" where
  "validate_responses_public_output output =
     (case as_array output of
        Some items \<Rightarrow> res_each validate_responses_public_tool_call_item items
      | None \<Rightarrow> Inr ())"

definition validate_responses_public_response_object :: "json \<Rightarrow> validation" where
  "validate_responses_public_response_object response =
     res_then (validate_responses_public_tool_metadata response)
       (case jget response ''output'' of
          Some output \<Rightarrow> validate_responses_public_output output
        | None \<Rightarrow> Inr ())"

section \<open>Sanitized events\<close>

lemma generic_message_clean: "\<not> contains_internal_artifact_text generic_upstream_error_message"
  by code_simp

lemma sanitized_message_clean: "\<not> contains_internal_artifact_text (sanitize_public_error_message s)"
  by (simp add: sanitize_public_error_message_def generic_message_clean)

lemma sanitize_public_error_message_idem:
  "sanitize_public_error_message (sanitize_public_error_message s) = sanitize_public_error_message s"
proof -
  have "sanitize_public_error_message generic_upstream_error_message = generic_upstream_error_message"
    by code_simp
  then show ?thesis
    by (simp add: sanitize_public_error_message_def)
qed

lemma sanitize_artifact_free: "artifact_free (sanitize_internal_artifact_strings v)"
  by (induction v rule: sanitize_internal_artifact_strings.induct)
    (auto simp: sanitized_message_clean list_all_iff)

lemma sanitize_idem:
  "sanitize_internal_artifact_strings (sanitize_internal_artifact_strings v)
     = sanitize_internal_artifact_strings v"
proof (induction v rule: sanitize_internal_artifact_strings.induct)
  case (3 kvs)
  have "filter (\<lambda>(k, v). \<not> contains_internal_artifact_text k)
      (map (\<lambda>(k, v). (k, sanitize_internal_artifact_strings v))
        (filter (\<lambda>(k, v). \<not> contains_internal_artifact_text k) kvs)) =
      map (\<lambda>(k, v). (k, sanitize_internal_artifact_strings v))
        (filter (\<lambda>(k, v). \<not> contains_internal_artifact_text k) kvs)"
    by (induction kvs) auto
  with 3 show ?case by auto
qed (auto simp: sanitize_public_error_message_idem)

lemma artifact_free_no_context: "artifact_free v \<Longrightarrow> \<not> contains_internal_context_field v"
proof (induction v rule: contains_internal_context_field.induct)
  case (1 kvs)
  have "contains_internal_artifact_text tool_bridge_context_field"
    by (simp add: contains_internal_artifact_text_def str_contains_iff) (metis append_Nil append_Nil2)
  with 1 show ?case by (fastforce simp: list_all_iff list_ex_iff)
qed (auto simp: list_all_iff list_ex_iff)

text \<open>
  C2. An error event that leaves the proxy holds no internal artifact in any of its strings and keys,
  at any depth, and no tool bridge context; sanitizing it again changes nothing, and an event that is
  not an error is passed on as it is.
\<close>

theorem error_events_are_artifact_free:
  "if stream_event_is_public_error event
   then artifact_free (sanitize_public_stream_error_event event)
     \<and> \<not> contains_internal_context_field (sanitize_public_stream_error_event event)
     \<and> sanitize_internal_artifact_strings (sanitize_public_stream_error_event event)
        = sanitize_public_stream_error_event event
   else sanitize_public_stream_error_event event = event"
  by (simp add: sanitize_public_stream_error_event_def sanitize_artifact_free sanitize_idem
      artifact_free_no_context)

end
