(* ===== verification/Tool_Marks.thy ===== *)
theory Tool_Marks
  imports Artifacts Wire
begin

text \<open>
  The keyed marks on tool calls (\<open>src/translate/internal/tools.rs\<close>): the mark of a tool call that
  must not be replayed, the attestation of a server tool, the tool-use type a call gets for
  Anthropic; and the classification of terminal reasons
  (\<open>src/translate/internal/response_protocols.rs\<close>, \<open>src/translate/internal.rs\<close>).
\<close>

section \<open>Reading a tool call\<close>

definition openai_custom_tool_payload :: "json \<Rightarrow> (string \<times> json) list option" where
  "openai_custom_tool_payload v =
     (if jget_str v ''type'' \<noteq> Some ''custom'' then None
      else option_or (Option.bind (jget v ''custom'') as_object)
             (option_or (Option.bind (jget v ''function'') as_object)
               (Option.bind (as_object v) (\<lambda>o'. if map_of o' ''name'' \<noteq> None then Some o' else None))))"

definition openai_custom_tool_name :: "json \<Rightarrow> string option" where
  "openai_custom_tool_name v =
     Option.bind (openai_custom_tool_payload v)
       (\<lambda>p. Option.bind (ostr (map_of p ''name'')) (\<lambda>n. if n \<noteq> [] then Some n else None))"

definition openai_custom_tool_input_raw :: "json \<Rightarrow> string option" where
  "openai_custom_tool_input_raw v =
     Option.bind (openai_custom_tool_payload v)
       (\<lambda>p. ostr (option_or (map_of p ''input'') (map_of p ''arguments'')))"

definition openai_tool_arguments_raw :: "json \<Rightarrow> string option" where
  "openai_tool_arguments_raw v =
     ostr (option_or (ogetj (jget v ''function'') ''arguments'') (jget v ''arguments''))"

section \<open>Attestation of server tools\<close>

text \<open>The hexadecimal digest of the process key, a zero byte and the payload's text.\<close>

definition marker_digest :: "env \<Rightarrow> json \<Rightarrow> string" where
  "marker_digest E payload = sha256_hex E (replay_key E @ [CHR 0x00] @ json_text E payload)"

definition proxied_tool_kind_field :: string where
  "proxied_tool_kind_field = ''proxied_tool_kind''"

definition proxied_tool_kind_value :: string where
  "proxied_tool_kind_value = ''anthropic_server_tool_use''"

definition proxied_tool_kind_sig_field :: string where
  "proxied_tool_kind_sig_field = ''_llmup_proxied_tool_kind_sig''"

definition proxied_tool_kind_name :: "json \<Rightarrow> string option" where
  "proxied_tool_kind_name v =
     Option.bind (option_or (ostr (ogetj (jget v ''function'') ''name'')) (jget_str v ''name''))
       (\<lambda>n. if n \<noteq> [] then Some n else None)"

definition proxied_tool_kind_signature :: "env \<Rightarrow> string option \<Rightarrow> string" where
  "proxied_tool_kind_signature E name =
     marker_digest E (jobj [(''v'', jnat 1), (''kind'', JStr proxied_tool_kind_value),
                            (''name'', JStr (unwrap_or name []))])"

definition proxied_tool_kind_is_attested :: "env \<Rightarrow> json \<Rightarrow> bool" where
  "proxied_tool_kind_is_attested E v =
     (jget_str v proxied_tool_kind_field = Some proxied_tool_kind_value
      \<and> jget_str v proxied_tool_kind_sig_field
          = Some (proxied_tool_kind_signature E (proxied_tool_kind_name v)))"

definition attest_proxied_tool_kind :: "env \<Rightarrow> json \<Rightarrow> json" where
  "attest_proxied_tool_kind E v =
     (if jget_str v proxied_tool_kind_field \<noteq> Some proxied_tool_kind_value then v
      else (case v of
          JObj kvs \<Rightarrow> JObj (omap_insert proxied_tool_kind_sig_field
                      (JStr (proxied_tool_kind_signature E (proxied_tool_kind_name v))) kvs)
        | _ \<Rightarrow> v))"

datatype semantic_tool_kind = KindFunction | KindOpenAiCustom | KindAnthropicServerTool

definition semantic_tool_kind_from_value :: "env \<Rightarrow> json \<Rightarrow> semantic_tool_kind" where
  "semantic_tool_kind_from_value E v =
     (if jget_str v ''proxied_tool_kind'' = Some ''anthropic_server_tool_use''
         \<and> proxied_tool_kind_is_attested E v then KindAnthropicServerTool
      else if jget_str v ''type''
           \<in> {Some ''custom'', Some ''custom_tool_call'', Some ''custom_tool_call_output''}
        then KindOpenAiCustom
      else KindFunction)"

definition validate_function_name :: "json \<Rightarrow> validation" where
  "validate_function_name tool_call =
     (case ostr (ogetj (jget tool_call ''function'') ''name'') of
        Some name \<Rightarrow> validate_public_tool_name_not_reserved name
      | None \<Rightarrow> Inr ())"

definition anthropic_tool_use_type_for_openai_tool_call :: "env \<Rightarrow> json \<Rightarrow> string + string" where
  "anthropic_tool_use_type_for_openai_tool_call E tool_call =
     res_then (validate_openai_public_tool_identity tool_call)
       (case semantic_tool_kind_from_value E tool_call of
          KindOpenAiCustom \<Rightarrow> Inl (custom_tools_not_portable_message Anthropic)
        | KindAnthropicServerTool \<Rightarrow>
            res_then (validate_function_name tool_call) (Inr ''server_tool_use'')
        | KindFunction \<Rightarrow>
            res_then (validate_function_name tool_call) (Inr ''tool_use''))"

section \<open>Tool calls that must not be replayed\<close>

definition non_replayable_field :: string where
  "non_replayable_field = ''_llmup_non_replayable_tool_call''"

definition non_replayable_reason :: string where
  "non_replayable_reason = ''incomplete_arguments''"

definition responses_tool_call_input_raw :: "env \<Rightarrow> json \<Rightarrow> string option" where
  "responses_tool_call_input_raw E item =
     (case semantic_tool_kind_from_value E item of
        KindOpenAiCustom \<Rightarrow> jget_str item ''input''
      | _ \<Rightarrow> jget_str item ''arguments'')"

definition non_replayable_tool_call_name :: "json \<Rightarrow> string option" where
  "non_replayable_tool_call_name v =
     option_or (ostr (ogetj (jget v ''function'') ''name''))
       (option_or (openai_custom_tool_name v) (jget_str v ''name''))"

definition non_replayable_tool_call_raw :: "env \<Rightarrow> json \<Rightarrow> string option" where
  "non_replayable_tool_call_raw E v =
     option_or (openai_tool_arguments_raw v)
       (option_or (openai_custom_tool_input_raw v) (responses_tool_call_input_raw E v))"

definition non_replayable_payload :: "string \<Rightarrow> string \<Rightarrow> json" where
  "non_replayable_payload name raw =
     jobj [(''v'', jnat 1), (''reason'', JStr non_replayable_reason), (''name'', JStr name),
           (''raw'', JStr raw)]"

definition non_replayable_tool_call_signature :: "env \<Rightarrow> json \<Rightarrow> string" where
  "non_replayable_tool_call_signature E v =
     marker_digest E
       (non_replayable_payload (unwrap_or (non_replayable_tool_call_name v) [])
          (unwrap_or (non_replayable_tool_call_raw E v) []))"

text \<open>The check of a mark against the signature expected of the tool call that carries it.\<close>

definition marker_matches :: "string \<Rightarrow> json \<Rightarrow> bool" where
  "marker_matches expected marker =
     (is_object marker
      \<and> jget_str marker ''reason'' = Some non_replayable_reason
      \<and> jget_u64 marker ''v'' = Some 1
      \<and> jget_str marker ''sig'' = Some expected)"

definition tool_call_is_marked_non_replayable :: "env \<Rightarrow> json \<Rightarrow> bool" where
  "tool_call_is_marked_non_replayable E v =
     (case jget v non_replayable_field of
        None \<Rightarrow> False
      | Some marker \<Rightarrow> marker_matches (non_replayable_tool_call_signature E v) marker)"

definition non_replayable_marker :: "string \<Rightarrow> json" where
  "non_replayable_marker signature =
     jobj [(''reason'', JStr non_replayable_reason), (''v'', jnat 1), (''sig'', JStr signature)]"

definition mark_tool_call_as_non_replayable :: "env \<Rightarrow> json \<Rightarrow> json" where
  "mark_tool_call_as_non_replayable E v =
     (case v of
        JObj kvs \<Rightarrow> JObj (omap_insert non_replayable_field
                     (non_replayable_marker (non_replayable_tool_call_signature E v)) kvs)
      | _ \<Rightarrow> v)"

definition copy_non_replayable_tool_call_marker :: "env \<Rightarrow> json \<Rightarrow> json \<Rightarrow> json" where
  "copy_non_replayable_tool_call_marker E source dest =
     (if tool_call_is_marked_non_replayable E source
      then mark_tool_call_as_non_replayable E dest else dest)"

section \<open>Terminal reasons\<close>

definition content_filter_codes :: "string list" where
  "content_filter_codes =
     [''SAFETY'', ''RECITATION'', ''BLOCKLIST'', ''PROHIBITED_CONTENT'', ''SPII'', ''IMAGE_SAFETY'',
      ''IMAGE_PROHIBITED_CONTENT'', ''IMAGE_RECITATION'']"

definition tool_error_codes :: "string list" where
  "tool_error_codes =
     [''MALFORMED_FUNCTION_CALL'', ''UNEXPECTED_TOOL_CALL'', ''TOO_MANY_TOOL_CALLS'',
      ''MISSING_THOUGHT_SIGNATURE'']"

definition classify_portable_non_success_terminal :: "string option \<Rightarrow> string" where
  "classify_portable_non_success_terminal code = (case code of
      None \<Rightarrow> ''error''
    | Some c \<Rightarrow>
        let lower = to_ascii_lowercase c; upper = to_ascii_uppercase c in
        if lower = ''context_length_exceeded'' then ''context_length_exceeded''
        else if upper \<in> set content_filter_codes \<or> lower = ''content_filter''
          \<or> list_ex (str_contains lower)
              [''safety'', ''policy'', ''block'', ''prohibited'', ''recitation'', ''spii'']
          then ''content_filter''
        else if upper \<in> set tool_error_codes
          \<or> list_ex (str_contains lower)
              [''tool'', ''function'', ''signature'', ''schema'', ''validation'']
          then ''tool_error''
        else ''error'')"

definition responses_failed_code_to_openai_finish :: "string option \<Rightarrow> string" where
  "responses_failed_code_to_openai_finish code = classify_portable_non_success_terminal code"

datatype anthropic_terminal = StopReason string | TerminalError string string

definition classify_openai_finish_for_anthropic :: "string \<Rightarrow> anthropic_terminal" where
  "classify_openai_finish_for_anthropic reason =
     (if reason = ''stop'' then StopReason ''end_turn''
      else if reason = ''length'' then StopReason ''max_tokens''
      else if reason = ''tool_calls'' then StopReason ''tool_use''
      else if reason = ''pause_turn'' then StopReason ''pause_turn''
      else if reason = ''content_filter'' then StopReason ''refusal''
      else if reason = ''context_length_exceeded'' then StopReason ''model_context_window_exceeded''
      else if reason = ''error'' then TerminalError ''api_error'' ''The provider returned an error.''
      else if reason = ''tool_error'' then
        TerminalError ''invalid_request_error'' ''The provider reported a tool or protocol error.''
      else StopReason ''end_turn'')"

section \<open>Facts\<close>

lemma field_names_differ:
  "non_replayable_field \<noteq> ''type''" "non_replayable_field \<noteq> ''custom''"
  "non_replayable_field \<noteq> ''function''" "non_replayable_field \<noteq> ''name''"
  "non_replayable_field \<noteq> ''input''" "non_replayable_field \<noteq> ''arguments''"
  "non_replayable_field \<noteq> ''proxied_tool_kind''"
  "non_replayable_field \<noteq> proxied_tool_kind_sig_field"
  "proxied_tool_kind_sig_field \<noteq> proxied_tool_kind_field"
  "proxied_tool_kind_sig_field \<noteq> ''function''" "proxied_tool_kind_sig_field \<noteq> ''name''"
  by (simp_all add: non_replayable_field_def proxied_tool_kind_sig_field_def
      proxied_tool_kind_field_def)

text \<open>
  A field the readers of a tool call do not look at does not change what they read.
\<close>

lemma readers_ignore_mark:
  fixes kvs m
  defines "w \<equiv> JObj (omap_insert non_replayable_field m kvs)"
  shows "non_replayable_tool_call_name w = non_replayable_tool_call_name (JObj kvs)"
    and "non_replayable_tool_call_raw E w = non_replayable_tool_call_raw E (JObj kvs)"
proof -
  have g: "jget w k = jget (JObj kvs) k" if "k \<noteq> non_replayable_field" for k
    using that by (simp add: w_def)
  have s: "jget_str w k = jget_str (JObj kvs) k" if "k \<noteq> non_replayable_field" for k
    using g [OF that] by (simp add: jget_str_def)
  note eqs = g s field_names_differ field_names_differ [symmetric]
  have name: "openai_custom_tool_name w = openai_custom_tool_name (JObj kvs)"
    and input: "openai_custom_tool_input_raw w = openai_custom_tool_input_raw (JObj kvs)"
    by (cases "Option.bind (map_of kvs ''custom'') as_object";
        cases "Option.bind (map_of kvs ''function'') as_object";
        simp add: openai_custom_tool_name_def openai_custom_tool_input_raw_def w_def
          openai_custom_tool_payload_def jget_str_def field_names_differ [symmetric])+
  have "proxied_tool_kind_is_attested E w = proxied_tool_kind_is_attested E (JObj kvs)"
    by (simp add: proxied_tool_kind_is_attested_def proxied_tool_kind_name_def g s
        field_names_differ field_names_differ [symmetric] proxied_tool_kind_field_def)
  then have kind: "semantic_tool_kind_from_value E w = semantic_tool_kind_from_value E (JObj kvs)"
    by (simp add: semantic_tool_kind_from_value_def eqs)
  show "non_replayable_tool_call_name w = non_replayable_tool_call_name (JObj kvs)"
    by (simp add: non_replayable_tool_call_name_def name eqs)
  show "non_replayable_tool_call_raw E w = non_replayable_tool_call_raw E (JObj kvs)"
    by (simp add: non_replayable_tool_call_raw_def openai_tool_arguments_raw_def input
        responses_tool_call_input_raw_def kind eqs split: semantic_tool_kind.split)
qed

lemma marked_is_trusted:
  "tool_call_is_marked_non_replayable E (mark_tool_call_as_non_replayable E (JObj kvs))"
  by (simp add: tool_call_is_marked_non_replayable_def mark_tool_call_as_non_replayable_def
      marker_matches_def non_replayable_marker_def non_replayable_tool_call_signature_def
      readers_ignore_mark jget_defs)

lemma marked_keeps_name:
  "non_replayable_tool_call_name (mark_tool_call_as_non_replayable E (JObj kvs))
     = non_replayable_tool_call_name (JObj kvs)"
  by (simp add: mark_tool_call_as_non_replayable_def readers_ignore_mark)

lemma jobj_payload_eq: "non_replayable_payload n r = non_replayable_payload n' r' \<longleftrightarrow> n = n' \<and> r = r'"
proof
  assume "non_replayable_payload n r = non_replayable_payload n' r'"
  then have "jget (non_replayable_payload n r) k = jget (non_replayable_payload n' r') k" for k
    by simp
  from this [of "''name''"] this [of "''raw''"] show "n = n' \<and> r = r'"
    by (simp add: non_replayable_payload_def)
qed simp

section \<open>Properties\<close>

text \<open>
  A mark put on a tool call is trusted when it is checked, whatever the call's shape (function,
  custom or Responses item): the mark does not change what the signature covers.
\<close>

theorem mark_is_trusted:
  "tool_call_is_marked_non_replayable E (mark_tool_call_as_non_replayable E (JObj kvs))
   \<and> non_replayable_tool_call_name (mark_tool_call_as_non_replayable E (JObj kvs))
       = non_replayable_tool_call_name (JObj kvs)"
  using marked_is_trusted marked_keeps_name by blast

text \<open>
  C4. A trusted mark cannot be moved to another call: with a digest that does not collide on the
  signed payloads, two calls that carry the same mark and are both trusted have the same name and
  the same raw arguments. A copy of the mark to a rewritten call is therefore signed anew
  (\<open>copy_non_replayable_tool_call_marker\<close>) and trusted.
\<close>

definition digest_separates :: "env \<Rightarrow> bool" where
  "digest_separates E =
     (\<forall>n r n' r'. marker_digest E (non_replayable_payload n r)
          = marker_digest E (non_replayable_payload n' r') \<longrightarrow> n = n' \<and> r = r')"

theorem mark_is_bound_to_call:
  assumes "digest_separates E"
    and "tool_call_is_marked_non_replayable E v" and "tool_call_is_marked_non_replayable E w"
    and "jget v non_replayable_field = jget w non_replayable_field"
  shows "unwrap_or (non_replayable_tool_call_name v) [] = unwrap_or (non_replayable_tool_call_name w) []
    \<and> unwrap_or (non_replayable_tool_call_raw E v) [] = unwrap_or (non_replayable_tool_call_raw E w) []
    \<and> tool_call_is_marked_non_replayable E (copy_non_replayable_tool_call_marker E v (JObj kvs))"
proof -
  have "non_replayable_tool_call_signature E v = non_replayable_tool_call_signature E w"
    using assms(2-4)
    by (auto simp: tool_call_is_marked_non_replayable_def marker_matches_def split: option.splits)
  with assms(1) have "unwrap_or (non_replayable_tool_call_name v) [] =
        unwrap_or (non_replayable_tool_call_name w) []
      \<and> unwrap_or (non_replayable_tool_call_raw E v) [] = unwrap_or (non_replayable_tool_call_raw E w) []"
    unfolding digest_separates_def non_replayable_tool_call_signature_def by blast
  moreover have "tool_call_is_marked_non_replayable E (copy_non_replayable_tool_call_marker E v (JObj kvs))"
    using assms(2) marked_is_trusted by (simp add: copy_non_replayable_tool_call_marker_def)
  ultimately show ?thesis by blast
qed

text \<open>An environment whose digest separates payloads: it keeps the name and the raw text.\<close>

definition separating_env :: env where
  "separating_env = example_env \<lparr>json_text := (\<lambda>v.
     (case (jget_str v ''name'', jget_str v ''raw'') of
        (Some n, Some r) \<Rightarrow> replicate (length n) CHR ''1'' @ [CHR ''0''] @ n @ r
      | _ \<Rightarrow> []))\<rparr>"

lemma replicate_prefix_inj:
  "replicate a CHR ''1'' @ CHR ''0'' # x = replicate b CHR ''1'' @ CHR ''0'' # y \<Longrightarrow> a = b \<and> x = y"
proof (induction a arbitrary: b)
  case 0
  then show ?case by (cases b) auto
next
  case (Suc a)
  then show ?case by (cases b) auto
qed

lemma separating_env_separates: "digest_separates separating_env"
proof -
  have t: "json_text separating_env (non_replayable_payload n r) =
      replicate (length n) CHR ''1'' @ CHR ''0'' # n @ r" for n r
    by (simp add: separating_env_def non_replayable_payload_def jget_str_def)
  show ?thesis
    unfolding digest_separates_def marker_digest_def t
  proof (intro allI impI)
    fix n r n' r'
    assume "sha256_hex separating_env (replay_key separating_env @ [CHR 0x00] @
        replicate (length n) CHR ''1'' @ CHR ''0'' # n @ r) =
      sha256_hex separating_env (replay_key separating_env @ [CHR 0x00] @
        replicate (length n') CHR ''1'' @ CHR ''0'' # n' @ r')"
    then have "replicate (length n) CHR ''1'' @ CHR ''0'' # n @ r =
        replicate (length n') CHR ''1'' @ CHR ''0'' # n' @ r'"
      by (simp add: separating_env_def example_env_def)
    from replicate_prefix_inj [OF this] show "n = n' \<and> r = r'" by auto
  qed
qed

theorem mark_is_bound_to_call_witness:
  "let v = mark_tool_call_as_non_replayable separating_env (JObj [(''name'', JStr ''f'')])
   in unwrap_or (non_replayable_tool_call_name v) [] = ''f''
      \<and> tool_call_is_marked_non_replayable separating_env
          (copy_non_replayable_tool_call_marker separating_env v (JObj []))"
proof -
  let ?v = "mark_tool_call_as_non_replayable separating_env (JObj [(''name'', JStr ''f'')])"
  have m: "tool_call_is_marked_non_replayable separating_env ?v"
    by (rule marked_is_trusted)
  have "unwrap_or (non_replayable_tool_call_name ?v) [] = ''f''"
    unfolding marked_keeps_name
    by (simp add: non_replayable_tool_call_name_def openai_custom_tool_name_def
        openai_custom_tool_payload_def jget_str_def)
  with mark_is_bound_to_call [OF separating_env_separates m m refl, of "[]"] show ?thesis
    by (simp only: Let_def simp_thms)
qed

text \<open>
  Only an attested call is sent to Anthropic as \<open>server_tool_use\<close>: a call that carries the kind
  without a valid stamp is an ordinary tool call; and stamping a call that names the kind makes it
  attested. A call whose name is in the reserved namespace gets no type at all.
\<close>

theorem tool_use_type_of_call:
  "anthropic_tool_use_type_for_openai_tool_call E v
     \<in> range Inl \<union> {Inr (if proxied_tool_kind_is_attested E v then ''server_tool_use''
                       else ''tool_use'')}
   \<and> proxied_tool_kind_is_attested E
        (attest_proxied_tool_kind E (jset proxied_tool_kind_field (JStr proxied_tool_kind_value) (JObj kvs)))
   \<and> anthropic_tool_use_type_for_openai_tool_call E
        (jset ''function'' (jobj [(''name'', JStr (custom_bridge_prefix @ name))]) (JObj kvs))
       \<in> range Inl"
proof (intro conjI)
  have a: "proxied_tool_kind_is_attested E v \<Longrightarrow>
      jget_str v ''proxied_tool_kind'' = Some ''anthropic_server_tool_use''"
    by (simp add: proxied_tool_kind_is_attested_def proxied_tool_kind_field_def
        proxied_tool_kind_value_def)
  show "anthropic_tool_use_type_for_openai_tool_call E v
     \<in> range Inl \<union> {Inr (if proxied_tool_kind_is_attested E v then ''server_tool_use''
                       else ''tool_use'')}"
    using a
    by (cases "validate_openai_public_tool_identity v"; cases "validate_function_name v")
      (auto simp: anthropic_tool_use_type_for_openai_tool_call_def semantic_tool_kind_from_value_def
        split: if_splits semantic_tool_kind.splits)
next
  show "proxied_tool_kind_is_attested E
      (attest_proxied_tool_kind E (jset proxied_tool_kind_field (JStr proxied_tool_kind_value) (JObj kvs)))"
    by (simp add: attest_proxied_tool_kind_def proxied_tool_kind_is_attested_def jget_str_def
        proxied_tool_kind_name_def field_names_differ [symmetric])
next
  let ?w = "jset ''function'' (jobj [(''name'', JStr (custom_bridge_prefix @ name))]) (JObj kvs)"
  have r: "validate_function_name ?w \<in> range Inl"
    by (simp add: validate_function_name_def validate_public_tool_name_not_reserved_def
        custom_bridge_prefix_is_reserved_def starts_with_iff)
  then show "anthropic_tool_use_type_for_openai_tool_call E ?w \<in> range Inl"
    by (cases "validate_openai_public_tool_identity ?w"; cases "semantic_tool_kind_from_value E ?w")
      (auto simp: anthropic_tool_use_type_for_openai_tool_call_def)
qed

text \<open>
  A failed upstream terminal is never turned into a success: whatever its code, the finish
  reason is one of the four failure reasons, and the client of an Anthropic stream sees an error, a
  refusal or an exceeded context window, never \<open>end_turn\<close> or \<open>tool_use\<close>.
\<close>

theorem failure_stays_failure:
  "responses_failed_code_to_openai_finish code
     \<in> {''context_length_exceeded'', ''content_filter'', ''tool_error'', ''error''}
   \<and> classify_openai_finish_for_anthropic (responses_failed_code_to_openai_finish code)
     \<notin> {StopReason ''end_turn'', StopReason ''tool_use'', StopReason ''max_tokens'',
         StopReason ''pause_turn''}"
  by (cases code)
    (auto simp: responses_failed_code_to_openai_finish_def classify_portable_non_success_terminal_def
      classify_openai_finish_for_anthropic_def Let_def)

end
