(* ===== verification/Tool_Bridge.thy ===== *)
theory Tool_Bridge
  imports Artifacts
begin

text \<open>
  The tool bridge context that a translated request carries to the response side: custom tools and
  namespace children are sent upstream as function tools under a flat name, and the context says
  which names to turn back. The request side builds it (\<open>src/translate/internal/tools.rs\<close>,
  \<open>ToolBridgeContext\<close>), the stream translator reads it with a decoder of its own
  (\<open>src/streaming/state.rs\<close>, \<open>StreamToolBridgeContext\<close>).
\<close>

section \<open>The request side's context\<close>

datatype tool_bridge_source_kind = CustomText | CustomGrammar

definition source_kind_as_str :: "tool_bridge_source_kind \<Rightarrow> string" where
  "source_kind_as_str k = (case k of CustomText \<Rightarrow> ''custom_text'' | CustomGrammar \<Rightarrow> ''custom_grammar'')"

definition source_kind_from_str :: "string \<Rightarrow> tool_bridge_source_kind option" where
  "source_kind_from_str s =
     (if s = ''custom_text'' then Some CustomText
      else if s = ''custom_grammar'' then Some CustomGrammar else None)"

datatype tool_bridge_transport_kind = FunctionObjectWrapper

definition transport_kind_as_str :: "tool_bridge_transport_kind \<Rightarrow> string" where
  "transport_kind_as_str k = (case k of FunctionObjectWrapper \<Rightarrow> ''function_object_wrapper'')"

definition transport_kind_from_str :: "string \<Rightarrow> tool_bridge_transport_kind option" where
  "transport_kind_from_str s =
     (if s = ''function_object_wrapper'' then Some FunctionObjectWrapper else None)"

datatype tool_bridge_wrapper_field = InputField

definition wrapper_field_as_str :: "tool_bridge_wrapper_field \<Rightarrow> string" where
  "wrapper_field_as_str k = (case k of InputField \<Rightarrow> ''input'')"

definition wrapper_field_from_str :: "string \<Rightarrow> tool_bridge_wrapper_field option" where
  "wrapper_field_from_str s = (if s = ''input'' then Some InputField else None)"

datatype tool_bridge_canonical_shape = SingleRequiredString

definition canonical_shape_as_str :: "tool_bridge_canonical_shape \<Rightarrow> string" where
  "canonical_shape_as_str k = (case k of SingleRequiredString \<Rightarrow> ''single_required_string'')"

definition canonical_shape_from_str :: "string \<Rightarrow> tool_bridge_canonical_shape option" where
  "canonical_shape_from_str s =
     (if s = ''single_required_string'' then Some SingleRequiredString else None)"

record tool_bridge_context_entry =
  stable_name :: string
  source_kind :: tool_bridge_source_kind
  transport_kind :: tool_bridge_transport_kind
  wrapper_field :: tool_bridge_wrapper_field
  expected_canonical_shape :: tool_bridge_canonical_shape

text \<open>A field that must be a string of the given enumeration: \<open>from_str(get(k).and_then(as_str)?)?\<close>.\<close>

definition enum_field :: "(string \<Rightarrow> 'a option) \<Rightarrow> json \<Rightarrow> string \<Rightarrow> 'a option" where
  "enum_field from_str v k = Option.bind (jget_str v k) from_str"

definition tool_bridge_entry_from_value :: "string \<Rightarrow> json \<Rightarrow> tool_bridge_context_entry option" where
  "tool_bridge_entry_from_value name v =
     (if custom_bridge_prefix_is_reserved name then None
      else Option.bind (jget_str v ''stable_name'') (\<lambda>declared.
        if declared = [] \<or> declared \<noteq> name then None
        else Option.bind (enum_field source_kind_from_str v ''source_kind'') (\<lambda>sk.
          Option.bind (enum_field transport_kind_from_str v ''transport_kind'') (\<lambda>tk.
          Option.bind (enum_field wrapper_field_from_str v ''wrapper_field'') (\<lambda>wf.
          Option.bind (enum_field canonical_shape_from_str v ''expected_canonical_shape'') (\<lambda>cs.
            Some \<lparr>stable_name = name, source_kind = sk, transport_kind = tk, wrapper_field = wf,
                  expected_canonical_shape = cs\<rparr>))))))"

definition tool_bridge_entry_to_value :: "tool_bridge_context_entry \<Rightarrow> json" where
  "tool_bridge_entry_to_value e = jobj
     [(''stable_name'', JStr (stable_name e)),
      (''source_kind'', JStr (source_kind_as_str (source_kind e))),
      (''transport_kind'', JStr (transport_kind_as_str (transport_kind e))),
      (''wrapper_field'', JStr (wrapper_field_as_str (wrapper_field e))),
      (''expected_canonical_shape'', JStr (canonical_shape_as_str (expected_canonical_shape e)))]"

definition tool_bridge_entry_expects_wrapper :: "tool_bridge_context_entry \<Rightarrow> bool" where
  "tool_bridge_entry_expects_wrapper e =
     (transport_kind e = FunctionObjectWrapper \<and> wrapper_field e = InputField
      \<and> expected_canonical_shape e = SingleRequiredString)"

record namespace_bridge_context_entry =
  ns_namespace :: string
  ns_child :: string

definition flat_tool_name :: "string \<Rightarrow> string \<Rightarrow> string" where
  "flat_tool_name ns child = ns @ ''__'' @ child"

definition namespace_entry_from_value :: "string \<Rightarrow> json \<Rightarrow> namespace_bridge_context_entry option" where
  "namespace_entry_from_value flat v =
     Option.bind (jget_str v ''namespace'') (\<lambda>ns.
       Option.bind (jget_str v ''child'') (\<lambda>child.
         if ns = [] \<or> child = [] then None
         else if flat \<noteq> flat_tool_name ns child then None
         else Some \<lparr>ns_namespace = ns, ns_child = child\<rparr>))"

definition namespace_entry_to_value :: "namespace_bridge_context_entry \<Rightarrow> json" where
  "namespace_entry_to_value e =
     jobj [(''namespace'', JStr (ns_namespace e)), (''child'', JStr (ns_child e))]"

record tool_bridge_context =
  ctx_version :: nat
  ctx_purpose :: string
  ctx_entries :: "(string \<times> tool_bridge_context_entry) list"
  ctx_namespace_entries :: "(string \<times> namespace_bridge_context_entry) list"

definition tool_bridge_context_version :: nat where
  "tool_bridge_context_version = 3"

definition tool_bridge_context_purpose :: string where
  "tool_bridge_context_purpose = ''openai_responses_custom_tool_bridge''"

definition new_tool_bridge_context :: tool_bridge_context where
  "new_tool_bridge_context =
     \<lparr>ctx_version = tool_bridge_context_version, ctx_purpose = tool_bridge_context_purpose,
      ctx_entries = [], ctx_namespace_entries = []\<rparr>"

text \<open>The loops over an object's entries: the first entry that does not decode ends the whole reading.\<close>

fun read_entries :: "(string \<Rightarrow> json \<Rightarrow> 'e option) \<Rightarrow> (string \<times> json) list \<Rightarrow> (string \<times> 'e) list
    \<Rightarrow> (string \<times> 'e) list option" where
  "read_entries f [] m = Some m"
| "read_entries f ((k, v) # kvs) m = (case f k v of
      None \<Rightarrow> None
    | Some e \<Rightarrow> read_entries f kvs (omap_insert k e m))"

definition read_entry_field :: "(string \<Rightarrow> json \<Rightarrow> 'e option) \<Rightarrow> json \<Rightarrow> string \<Rightarrow> (string \<times> 'e) list option" where
  "read_entry_field f v k = (case Option.bind (jget v k) as_object of
      None \<Rightarrow> Some []
    | Some kvs \<Rightarrow> read_entries f kvs [])"

definition tool_bridge_context_from_value :: "json \<Rightarrow> tool_bridge_context option" where
  "tool_bridge_context_from_value v =
     (if jget_u64 v ''version'' \<noteq> Some tool_bridge_context_version then None
      else if jget_str v ''purpose'' \<noteq> Some tool_bridge_context_purpose then None
      else Option.bind (read_entry_field tool_bridge_entry_from_value v ''entries'') (\<lambda>es.
        Option.bind (read_entry_field namespace_entry_from_value v ''namespace_entries'') (\<lambda>ns.
          if es = [] \<and> ns = [] then None
          else Some \<lparr>ctx_version = tool_bridge_context_version,
                     ctx_purpose = tool_bridge_context_purpose,
                     ctx_entries = es, ctx_namespace_entries = ns\<rparr>)))"

definition tool_bridge_context_to_value :: "tool_bridge_context \<Rightarrow> json" where
  "tool_bridge_context_to_value c = jobj
     [(''version'', jnat (ctx_version c)), (''purpose'', JStr (ctx_purpose c)),
      (''entries'', jobj (map (\<lambda>(k, e). (k, tool_bridge_entry_to_value e)) (ctx_entries c))),
      (''namespace_entries'',
        jobj (map (\<lambda>(k, e). (k, namespace_entry_to_value e)) (ctx_namespace_entries c)))]"

definition expects_canonical_input_wrapper :: "tool_bridge_context \<Rightarrow> string \<Rightarrow> bool" where
  "expects_canonical_input_wrapper c name = (case map_of (ctx_entries c) name of
      None \<Rightarrow> False
    | Some e \<Rightarrow> tool_bridge_entry_expects_wrapper e)"

definition namespace_bridge_split :: "tool_bridge_context \<Rightarrow> string \<Rightarrow> (string \<times> string) option" where
  "namespace_bridge_split c flat =
     map_option (\<lambda>e. (ns_namespace e, ns_child e)) (map_of (ctx_namespace_entries c) flat)"

definition request_scoped_tool_bridge_context_from_body :: "json \<Rightarrow> tool_bridge_context option" where
  "request_scoped_tool_bridge_context_from_body body =
     Option.bind (jget body tool_bridge_context_field) tool_bridge_context_from_value"

definition insert_request_scoped_tool_bridge_context :: "json \<Rightarrow> tool_bridge_context \<Rightarrow> json" where
  "insert_request_scoped_tool_bridge_context body c = (case body of
      JObj kvs \<Rightarrow> JObj (omap_insert tool_bridge_context_field (tool_bridge_context_to_value c) kvs)
    | _ \<Rightarrow> body)"

section \<open>Building the context from the request's tools\<close>

record function_tool =
  ft_name :: string
  ft_description :: "json option"
  ft_parameters :: "json option"
  ft_strict :: "json option"

record custom_tool =
  ct_name :: string
  ct_description :: "json option"
  ct_format :: "json option"

datatype tool_def =
    FunctionTool function_tool
  | CustomTool custom_tool
  | NamespaceTool string "string option" "function_tool list"

definition openai_custom_tool_format_is_plain_text :: "json option \<Rightarrow> bool" where
  "openai_custom_tool_format_is_plain_text format = (case format of
      None \<Rightarrow> True
    | Some JNull \<Rightarrow> True
    | Some (JStr kind) \<Rightarrow> kind = ''text''
    | Some (JObj kvs) \<Rightarrow> ostr (map_of kvs ''type'') = Some ''text'' \<and> length kvs = 1
    | _ \<Rightarrow> False)"

definition request_scoped_custom_bridge_source_kind :: "custom_tool \<Rightarrow> tool_bridge_source_kind" where
  "request_scoped_custom_bridge_source_kind custom =
     (if openai_custom_tool_format_is_plain_text (ct_format custom) then CustomText
      else CustomGrammar)"

definition tool_bridge_entry_from_custom :: "custom_tool \<Rightarrow> tool_bridge_context_entry" where
  "tool_bridge_entry_from_custom custom =
     \<lparr>stable_name = ct_name custom,
      source_kind = request_scoped_custom_bridge_source_kind custom,
      transport_kind = FunctionObjectWrapper, wrapper_field = InputField,
      expected_canonical_shape = SingleRequiredString\<rparr>"

definition add_namespace_child :: "string \<Rightarrow> function_tool \<Rightarrow> tool_bridge_context \<Rightarrow> tool_bridge_context" where
  "add_namespace_child name child c = c \<lparr>ctx_namespace_entries :=
     omap_insert (flat_tool_name name (ft_name child))
       \<lparr>ns_namespace = name, ns_child = ft_name child\<rparr> (ctx_namespace_entries c)\<rparr>"

fun add_tool :: "tool_def \<Rightarrow> tool_bridge_context \<Rightarrow> tool_bridge_context" where
  "add_tool (CustomTool custom) c =
     c \<lparr>ctx_entries := omap_insert (ct_name custom) (tool_bridge_entry_from_custom custom) (ctx_entries c)\<rparr>"
| "add_tool (NamespaceTool name _ children) c = fold (add_namespace_child name) children c"
| "add_tool (FunctionTool _) c = c"

definition request_scoped_openai_custom_bridge_context :: "tool_def list \<Rightarrow> tool_bridge_context option" where
  "request_scoped_openai_custom_bridge_context tools =
     (let c = fold add_tool tools new_tool_bridge_context
      in if ctx_entries c = [] \<and> ctx_namespace_entries c = [] then None else Some c)"

fun tool_user_name :: "tool_def \<Rightarrow> string option" where
  "tool_user_name (FunctionTool f) = Some (ft_name f)"
| "tool_user_name (CustomTool c) = Some (ct_name c)"
| "tool_user_name (NamespaceTool _ _ _) = None"

text \<open>
  The scan for a flat name that must be refused: \<open>Inl\<close> is the first offending name, \<open>Inr\<close> the flat
  names seen so far.
\<close>

fun scan_children :: "string list \<Rightarrow> string \<Rightarrow> function_tool list \<Rightarrow> string list
    \<Rightarrow> string + string list" where
  "scan_children user_names name [] seen = Inr seen"
| "scan_children user_names name (child # children) seen =
     (let flat = flat_tool_name name (ft_name child) in
      if validate_public_tool_name_not_reserved flat \<noteq> Inr () then Inl flat
      else if flat \<in> set user_names then Inl flat
      else if flat \<in> set seen then Inl flat
      else scan_children user_names name children (flat # seen))"

fun scan_tools :: "string list \<Rightarrow> tool_def list \<Rightarrow> string list \<Rightarrow> string option" where
  "scan_tools user_names [] seen = None"
| "scan_tools user_names (NamespaceTool name _ children # tools) seen =
     (case scan_children user_names name children seen of
        Inl flat \<Rightarrow> Some flat
      | Inr seen' \<Rightarrow> scan_tools user_names tools seen')"
| "scan_tools user_names (_ # tools) seen = scan_tools user_names tools seen"

definition request_scoped_openai_namespace_bridge_conflict_name :: "tool_def list \<Rightarrow> string option" where
  "request_scoped_openai_namespace_bridge_conflict_name tools =
     scan_tools (List.map_filter tool_user_name tools) tools []"

fun function_tool_name :: "tool_def \<Rightarrow> string option" where
  "function_tool_name (FunctionTool f) = Some (ft_name f)"
| "function_tool_name _ = None"

fun custom_tool_name :: "tool_def \<Rightarrow> string option" where
  "custom_tool_name (CustomTool c) = Some (ct_name c)"
| "custom_tool_name _ = None"

definition request_scoped_openai_custom_bridge_conflict_name :: "tool_def list \<Rightarrow> string option" where
  "request_scoped_openai_custom_bridge_conflict_name tools =
     find (\<lambda>name. name \<in> set (List.map_filter custom_tool_name tools))
       (sort (remdups (List.map_filter function_tool_name tools)))"

section \<open>The bridged arguments of a custom tool\<close>

definition bridge_arguments_value :: "string \<Rightarrow> json" where
  "bridge_arguments_value input = jobj [(''input'', JStr input)]"

definition openai_responses_custom_tool_bridge_arguments :: "env \<Rightarrow> string \<Rightarrow> string" where
  "openai_responses_custom_tool_bridge_arguments E input = json_text E (bridge_arguments_value input)"

definition openai_responses_custom_tool_input_from_bridge_value :: "json \<Rightarrow> string option" where
  "openai_responses_custom_tool_input_from_bridge_value v = (case v of
      JObj kvs \<Rightarrow> if length kvs \<noteq> 1 then None else ostr (map_of kvs ''input'')
    | _ \<Rightarrow> None)"

datatype bridge_decode_error = NotJson | NotCanonical

definition openai_responses_custom_tool_input_from_bridge_arguments ::
    "env \<Rightarrow> string \<Rightarrow> bridge_decode_error + string" where
  "openai_responses_custom_tool_input_from_bridge_arguments E arguments =
     (case json_parse E arguments of
        None \<Rightarrow> Inl NotJson
      | Some v \<Rightarrow> (case openai_responses_custom_tool_input_from_bridge_value v of
          None \<Rightarrow> Inl NotCanonical
        | Some input \<Rightarrow> Inr input))"

section \<open>The stream side's context\<close>

record stream_bridge_entry =
  st_stable_name :: string
  st_source_kind :: string
  st_transport_kind :: string
  st_wrapper_field :: string
  st_expected_canonical_shape :: string

definition stream_bridge_entry_from_value :: "string \<Rightarrow> json \<Rightarrow> stream_bridge_entry option" where
  "stream_bridge_entry_from_value name v =
     (if validate_public_tool_name_not_reserved name \<noteq> Inr () then None
      else Option.bind (jget_str v ''stable_name'') (\<lambda>declared.
        if declared = [] \<or> declared \<noteq> name then None
        else Option.bind (jget_str v ''source_kind'') (\<lambda>sk.
          Option.bind (jget_str v ''transport_kind'') (\<lambda>tk.
          Option.bind (jget_str v ''wrapper_field'') (\<lambda>wf.
          Option.bind (jget_str v ''expected_canonical_shape'') (\<lambda>cs.
            if sk \<notin> {''custom_text'', ''custom_grammar''} \<or> tk \<noteq> ''function_object_wrapper''
              \<or> wf \<noteq> ''input'' \<or> cs \<noteq> ''single_required_string'' then None
            else Some \<lparr>st_stable_name = name, st_source_kind = sk, st_transport_kind = tk,
                       st_wrapper_field = wf, st_expected_canonical_shape = cs\<rparr>))))))"

definition stream_bridge_entry_expects_wrapper :: "stream_bridge_entry \<Rightarrow> bool" where
  "stream_bridge_entry_expects_wrapper e =
     (st_stable_name e \<noteq> [] \<and> st_source_kind e \<in> {''custom_text'', ''custom_grammar''}
      \<and> st_transport_kind e = ''function_object_wrapper'' \<and> st_wrapper_field e = ''input''
      \<and> st_expected_canonical_shape e = ''single_required_string'')"

record stream_namespace_entry =
  st_namespace :: string
  st_child :: string

definition stream_namespace_entry_from_value :: "string \<Rightarrow> json \<Rightarrow> stream_namespace_entry option" where
  "stream_namespace_entry_from_value flat v =
     Option.bind (jget_str v ''namespace'') (\<lambda>ns.
       Option.bind (jget_str v ''child'') (\<lambda>child.
         if ns = [] \<or> child = [] then None
         else if flat \<noteq> ns @ ''__'' @ child then None
         else Some \<lparr>st_namespace = ns, st_child = child\<rparr>))"

record stream_bridge_context =
  st_version :: nat
  st_purpose :: string
  st_entries :: "(string \<times> stream_bridge_entry) list"
  st_namespace_entries :: "(string \<times> stream_namespace_entry) list"

definition stream_bridge_context_from_value :: "json \<Rightarrow> stream_bridge_context option" where
  "stream_bridge_context_from_value v =
     (case (jget_u64 v ''version'', jget_str v ''purpose'') of
        (Some version, Some purpose) \<Rightarrow>
          if version \<noteq> 3 \<or> purpose \<noteq> ''openai_responses_custom_tool_bridge'' then None
          else Option.bind (read_entry_field stream_bridge_entry_from_value v ''entries'') (\<lambda>es.
            Option.bind (read_entry_field stream_namespace_entry_from_value v ''namespace_entries'') (\<lambda>ns.
              if es = [] \<and> ns = [] then None
              else Some \<lparr>st_version = version, st_purpose = purpose, st_entries = es,
                         st_namespace_entries = ns\<rparr>))
      | _ \<Rightarrow> None)"

definition stream_expects_canonical_input_wrapper :: "stream_bridge_context \<Rightarrow> string \<Rightarrow> bool" where
  "stream_expects_canonical_input_wrapper c name =
     (st_version c = 3 \<and> st_purpose c = ''openai_responses_custom_tool_bridge''
      \<and> (case map_of (st_entries c) name of
           None \<Rightarrow> False
         | Some e \<Rightarrow> stream_bridge_entry_expects_wrapper e))"

definition stream_namespace_bridge_split :: "stream_bridge_context \<Rightarrow> string \<Rightarrow> (string \<times> string) option" where
  "stream_namespace_bridge_split c flat =
     map_option (\<lambda>e. (st_namespace e, st_child e)) (map_of (st_namespace_entries c) flat)"

definition bridge_expects_canonical_input_wrapper_stream :: "json option \<Rightarrow> string \<Rightarrow> bool" where
  "bridge_expects_canonical_input_wrapper_stream ctx name =
     (case Option.bind ctx stream_bridge_context_from_value of
        None \<Rightarrow> False
      | Some c \<Rightarrow> stream_expects_canonical_input_wrapper c name)"

definition request_scoped_namespace_bridge_lookup_stream ::
    "json option \<Rightarrow> string \<Rightarrow> (string \<times> string) option" where
  "request_scoped_namespace_bridge_lookup_stream ctx flat =
     Option.bind (Option.bind ctx stream_bridge_context_from_value)
       (\<lambda>c. stream_namespace_bridge_split c flat)"

section \<open>Reading back what was written\<close>

lemma foldl_omap_insert_sorted:
  "omap_ok (m @ kvs) \<Longrightarrow> foldl (\<lambda>m (k, v). omap_insert k v m) m kvs = m @ kvs"
proof (induction kvs arbitrary: m)
  case (Cons kv kvs)
  obtain k v where kv: "kv = (k, v)" by (cases kv)
  have last: "(\<forall>x \<in> fst ` set m. x < k) \<Longrightarrow> omap_insert k v m = m @ [(k, v)]" for m :: "('a \<times> 'b) list"
    by (induction m) (auto dest: less_asym)
  have "\<forall>x \<in> fst ` set m. x < k"
    using Cons.prems by (auto simp: omap_ok_def sorted_wrt_append kv)
  with Cons.IH [of "m @ [kv]"] Cons.prems show ?case by (simp add: kv last)
qed simp

lemma jobj_sorted: "omap_ok kvs \<Longrightarrow> jobj kvs = JObj kvs"
  using foldl_omap_insert_sorted [of "[]" kvs] by (simp add: jobj_def)

lemma omap_ok_map: "omap_ok (map (\<lambda>(k, e). (k, g e)) m) = omap_ok m"
  by (simp add: omap_ok_def o_def case_prod_beta)

lemma read_entries_written:
  "(\<And>k e. (k, e) \<in> set es \<Longrightarrow> f k (g e) = Some e) \<Longrightarrow>
   read_entries f (map (\<lambda>(k, e). (k, g e)) es) m = Some (foldl (\<lambda>m (k, e). omap_insert k e m) m es)"
  by (induction es arbitrary: m) auto

lemma read_entry_field_written:
  assumes "omap_ok es" and "\<And>k e. (k, e) \<in> set es \<Longrightarrow> f k (g e) = Some e"
    and "jget v fld = Some (jobj (map (\<lambda>(k, e). (k, g e)) es))"
  shows "read_entry_field f v fld = Some es"
  using assms foldl_omap_insert_sorted [of "[]" es]
  by (simp add: read_entry_field_def jobj_sorted omap_ok_map read_entries_written)

lemma omap_insert_map:
  "omap_insert k (h e) (map (\<lambda>(k, e). (k, h e)) m) = map (\<lambda>(k, e). (k, h e)) (omap_insert k e m)"
  by (induction m) auto

lemma read_entries_image:
  assumes "\<And>k v. g k v = map_option h (f k v)"
  shows "read_entries g kvs (map (\<lambda>(k, e). (k, h e)) m)
      = map_option (map (\<lambda>(k, e). (k, h e))) (read_entries f kvs m)"
proof (induction kvs arbitrary: m)
  case (Cons kv kvs)
  show ?case
  proof (cases "f (fst kv) (snd kv)")
    case None
    then show ?thesis using assms [of "fst kv" "snd kv"] by (cases kv) simp
  next
    case (Some e)
    then show ?thesis using assms [of "fst kv" "snd kv"] Cons.IH [of "omap_insert (fst kv) e m"]
      by (cases kv) (simp add: omap_insert_map)
  qed
qed simp

lemma read_entry_field_image:
  assumes "\<And>k v. g k v = map_option h (f k v)"
  shows "read_entry_field g v fld = map_option (map (\<lambda>(k, e). (k, h e))) (read_entry_field f v fld)"
  using read_entries_image [where m = "[]" and f = f and g = g and h = h, OF assms]
  by (simp add: read_entry_field_def split: option.split)

lemma enum_round_trips [simp]:
  "source_kind_from_str (source_kind_as_str k) = Some k"
  "transport_kind_from_str (transport_kind_as_str t) = Some t"
  "wrapper_field_from_str (wrapper_field_as_str w) = Some w"
  "canonical_shape_from_str (canonical_shape_as_str c) = Some c"
  by (cases k; cases t; cases w; cases c; simp add: source_kind_from_str_def source_kind_as_str_def
      transport_kind_from_str_def transport_kind_as_str_def wrapper_field_from_str_def
      wrapper_field_as_str_def canonical_shape_from_str_def canonical_shape_as_str_def)+

definition bridge_entry_ok :: "string \<times> tool_bridge_context_entry \<Rightarrow> bool" where
  "bridge_entry_ok ke = (fst ke = stable_name (snd ke) \<and> fst ke \<noteq> []
     \<and> \<not> custom_bridge_prefix_is_reserved (fst ke))"

definition namespace_entry_ok :: "string \<times> namespace_bridge_context_entry \<Rightarrow> bool" where
  "namespace_entry_ok ke = (fst ke = flat_tool_name (ns_namespace (snd ke)) (ns_child (snd ke))
     \<and> ns_namespace (snd ke) \<noteq> [] \<and> ns_child (snd ke) \<noteq> [])"

definition bridge_context_ok :: "tool_bridge_context \<Rightarrow> bool" where
  "bridge_context_ok c =
     (ctx_version c = tool_bridge_context_version \<and> ctx_purpose c = tool_bridge_context_purpose
      \<and> omap_ok (ctx_entries c) \<and> omap_ok (ctx_namespace_entries c)
      \<and> list_all bridge_entry_ok (ctx_entries c)
      \<and> list_all namespace_entry_ok (ctx_namespace_entries c))"

lemma tool_bridge_entry_written:
  "bridge_entry_ok (k, e) \<Longrightarrow>
   tool_bridge_entry_from_value k (tool_bridge_entry_to_value e) = Some e"
  by (auto simp: bridge_entry_ok_def tool_bridge_entry_from_value_def tool_bridge_entry_to_value_def
      enum_field_def jget_str_def)

lemma namespace_entry_written:
  "namespace_entry_ok (k, e) \<Longrightarrow> namespace_entry_from_value k (namespace_entry_to_value e) = Some e"
  by (simp add: namespace_entry_ok_def namespace_entry_from_value_def namespace_entry_to_value_def
      jget_str_def)

lemma tool_bridge_context_written:
  assumes "bridge_context_ok c" and "ctx_entries c \<noteq> [] \<or> ctx_namespace_entries c \<noteq> []"
  shows "tool_bridge_context_from_value (tool_bridge_context_to_value c) = Some c"
proof -
  let ?v = "tool_bridge_context_to_value c"
  have "read_entry_field tool_bridge_entry_from_value ?v ''entries'' = Some (ctx_entries c)"
    using assms(1)
    by (intro read_entry_field_written [where g = tool_bridge_entry_to_value])
      (auto simp: bridge_context_ok_def list_all_iff tool_bridge_context_to_value_def
        tool_bridge_entry_written)
  moreover have "read_entry_field namespace_entry_from_value ?v ''namespace_entries''
      = Some (ctx_namespace_entries c)"
    using assms(1)
    by (intro read_entry_field_written [where g = namespace_entry_to_value])
      (auto simp: bridge_context_ok_def list_all_iff tool_bridge_context_to_value_def
        namespace_entry_written)
  moreover have "jget_u64 ?v ''version'' = Some tool_bridge_context_version"
    and "jget_str ?v ''purpose'' = Some tool_bridge_context_purpose"
    using assms(1)
    by (simp_all add: tool_bridge_context_to_value_def jget_u64_def jget_str_def bridge_context_ok_def)
  ultimately show ?thesis
    using assms by (auto simp: tool_bridge_context_from_value_def bridge_context_ok_def)
qed

section \<open>The stream side reads the same context\<close>

definition entry_to_stream :: "tool_bridge_context_entry \<Rightarrow> stream_bridge_entry" where
  "entry_to_stream e =
     \<lparr>st_stable_name = stable_name e, st_source_kind = source_kind_as_str (source_kind e),
      st_transport_kind = transport_kind_as_str (transport_kind e),
      st_wrapper_field = wrapper_field_as_str (wrapper_field e),
      st_expected_canonical_shape = canonical_shape_as_str (expected_canonical_shape e)\<rparr>"

definition namespace_to_stream :: "namespace_bridge_context_entry \<Rightarrow> stream_namespace_entry" where
  "namespace_to_stream e = \<lparr>st_namespace = ns_namespace e, st_child = ns_child e\<rparr>"

definition context_to_stream :: "tool_bridge_context \<Rightarrow> stream_bridge_context" where
  "context_to_stream c =
     \<lparr>st_version = ctx_version c, st_purpose = ctx_purpose c,
      st_entries = map (\<lambda>(k, e). (k, entry_to_stream e)) (ctx_entries c),
      st_namespace_entries = map (\<lambda>(k, e). (k, namespace_to_stream e)) (ctx_namespace_entries c)\<rparr>"

lemmas enum_defs = source_kind_from_str_def source_kind_as_str_def transport_kind_from_str_def
  transport_kind_as_str_def wrapper_field_from_str_def wrapper_field_as_str_def
  canonical_shape_from_str_def canonical_shape_as_str_def

lemma reserved_name_result:
  "(validate_public_tool_name_not_reserved name = Inr ()) = (\<not> custom_bridge_prefix_is_reserved name)"
  by (simp add: validate_public_tool_name_not_reserved_def)

lemma stream_entry_agrees:
  "stream_bridge_entry_from_value k v = map_option entry_to_stream (tool_bridge_entry_from_value k v)"
  by (auto simp: stream_bridge_entry_from_value_def tool_bridge_entry_from_value_def enum_field_def
      entry_to_stream_def reserved_name_result enum_defs bind_eq_None_conv Option.bind_eq_Some_conv
      split: option.splits Option.bind_splits)

lemma stream_namespace_agrees:
  "stream_namespace_entry_from_value k v = map_option namespace_to_stream (namespace_entry_from_value k v)"
  by (auto simp: stream_namespace_entry_from_value_def namespace_entry_from_value_def
      namespace_to_stream_def flat_tool_name_def split: Option.bind_splits)

lemma stream_context_agrees:
  "stream_bridge_context_from_value v = map_option context_to_stream (tool_bridge_context_from_value v)"
  by (auto simp: stream_bridge_context_from_value_def tool_bridge_context_from_value_def
      context_to_stream_def tool_bridge_context_version_def tool_bridge_context_purpose_def
      read_entry_field_image [where g = stream_bridge_entry_from_value, OF stream_entry_agrees]
      read_entry_field_image [where g = stream_namespace_entry_from_value, OF stream_namespace_agrees]
      split: option.splits Option.bind_splits)

section \<open>What the built context resolves\<close>

fun tool_flats :: "tool_def \<Rightarrow> (string \<times> namespace_bridge_context_entry) list" where
  "tool_flats (NamespaceTool name _ children) =
     map (\<lambda>child. (flat_tool_name name (ft_name child),
                   \<lparr>ns_namespace = name, ns_child = ft_name child\<rparr>)) children"
| "tool_flats _ = []"

fun tool_customs :: "tool_def \<Rightarrow> (string \<times> tool_bridge_context_entry) list" where
  "tool_customs (CustomTool custom) = [(ct_name custom, tool_bridge_entry_from_custom custom)]"
| "tool_customs _ = []"

lemma fold_add_namespace_child:
  "fold (add_namespace_child name) children c
     = c \<lparr>ctx_namespace_entries := foldl (\<lambda>m (k, e). omap_insert k e m) (ctx_namespace_entries c)
           (tool_flats (NamespaceTool name d children))\<rparr>"
  by (induction children arbitrary: c) (simp_all add: add_namespace_child_def)

lemma add_tool_eq:
  "add_tool t c = c \<lparr>ctx_entries := foldl (\<lambda>m (k, e). omap_insert k e m) (ctx_entries c) (tool_customs t),
     ctx_namespace_entries :=
       foldl (\<lambda>m (k, e). omap_insert k e m) (ctx_namespace_entries c) (tool_flats t)\<rparr>"
proof (cases t)
  case (NamespaceTool name d children)
  show ?thesis unfolding NamespaceTool add_tool.simps
    by (subst fold_add_namespace_child [where d = d]) simp
qed simp_all

lemma fold_add_tool_eq:
  "fold add_tool tools c =
     c \<lparr>ctx_entries := foldl (\<lambda>m (k, e). omap_insert k e m) (ctx_entries c) (concat (map tool_customs tools)),
       ctx_namespace_entries := foldl (\<lambda>m (k, e). omap_insert k e m) (ctx_namespace_entries c)
         (concat (map tool_flats tools))\<rparr>"
  by (induction tools arbitrary: c) (simp_all add: add_tool_eq)

lemma scan_children_Inr:
  "scan_children users name children seen = Inr seen' \<Longrightarrow>
   (let flats = map (\<lambda>child. flat_tool_name name (ft_name child)) children in
    seen' = rev flats @ seen \<and> distinct flats \<and> set flats \<inter> set seen = {}
    \<and> set flats \<inter> set users = {} \<and> (\<forall>flat \<in> set flats. \<not> custom_bridge_prefix_is_reserved flat))"
proof (induction children arbitrary: seen)
  case (Cons child children)
  let ?flat = "flat_tool_name name (ft_name child)"
  have flat: "\<not> custom_bridge_prefix_is_reserved ?flat" "?flat \<notin> set users" "?flat \<notin> set seen"
    and rest: "scan_children users name children (?flat # seen) = Inr seen'"
    using Cons.prems by (simp_all add: Let_def reserved_name_result split: if_splits)
  from Cons.IH [OF rest] flat show ?case by (auto simp: Let_def)
qed simp

lemma scan_tools_None:
  "scan_tools users tools seen = None \<Longrightarrow>
   (let flats = map fst (concat (map tool_flats tools)) in
    distinct flats \<and> set flats \<inter> set seen = {} \<and> set flats \<inter> set users = {}
    \<and> (\<forall>flat \<in> set flats. \<not> custom_bridge_prefix_is_reserved flat))"
proof (induction users tools seen rule: scan_tools.induct)
  case (2 users name d children tools seen)
  obtain seen' where c: "scan_children users name children seen = Inr seen'"
    and t: "scan_tools users tools seen' = None"
    using "2.prems" by (auto split: sum.splits)
  obtain fs where fs: "fs = map (\<lambda>child. flat_tool_name name (ft_name child)) children" by simp
  obtain rest where rest: "rest = map fst (concat (map tool_flats tools))" by simp
  have now: "seen' = rev fs @ seen" "distinct fs" "set fs \<inter> set seen = {}" "set fs \<inter> set users = {}"
    "\<forall>flat \<in> set fs. \<not> custom_bridge_prefix_is_reserved flat"
    using scan_children_Inr [OF c] unfolding Let_def fs [symmetric] by blast+
  have later: "distinct rest" "set rest \<inter> set seen' = {}" "set rest \<inter> set users = {}"
    "\<forall>flat \<in> set rest. \<not> custom_bridge_prefix_is_reserved flat"
    using "2.IH" [OF c t] unfolding Let_def rest [symmetric] by blast+
  have flats: "map fst (concat (map tool_flats (NamespaceTool name d children # tools))) = fs @ rest"
    by (simp add: fs rest)
  have "distinct (fs @ rest)" "set (fs @ rest) \<inter> set seen = {}" "set (fs @ rest) \<inter> set users = {}"
    "\<forall>flat \<in> set (fs @ rest). \<not> custom_bridge_prefix_is_reserved flat"
    using now later by auto
  then show ?case unfolding Let_def flats by blast
qed auto

lemma set_map_filter: "set (List.map_filter f xs) = {y. \<exists>x \<in> set xs. f x = Some y}"
  by (induction xs) (auto simp: List.map_filter_def)

lemma map_of_in_distinct:
  "distinct (map fst kvs) \<Longrightarrow> (k, v) \<in> set kvs \<Longrightarrow> map_of (rev kvs) k = Some v"
  by (simp add: rev_map [symmetric] map_of_is_SomeI)

text \<open>Names as the request's normalisation leaves them: not empty, custom names not reserved.\<close>

fun tool_named :: "tool_def \<Rightarrow> bool" where
  "tool_named (FunctionTool f) = (ft_name f \<noteq> [])"
| "tool_named (CustomTool c) = (ct_name c \<noteq> [] \<and> \<not> custom_bridge_prefix_is_reserved (ct_name c))"
| "tool_named (NamespaceTool name _ children) =
     (name \<noteq> [] \<and> list_all (\<lambda>f. ft_name f \<noteq> []) children)"

lemma tool_entries_ok:
  "tool_named t \<Longrightarrow> list_all bridge_entry_ok (tool_customs t) \<and> list_all namespace_entry_ok (tool_flats t)"
  by (cases t) (auto simp: bridge_entry_ok_def tool_bridge_entry_from_custom_def namespace_entry_ok_def
      list_all_iff)

lemma set_foldl_omap_insert:
  "set (foldl (\<lambda>m (k, e). omap_insert k e m) m kvs) \<subseteq> set m \<union> set kvs"
proof (induction kvs arbitrary: m)
  case (Cons kv kvs)
  have "set (omap_insert k v m) \<subseteq> insert (k, v) (set m)" for k :: 'a and v :: 'b and m
    by (induction m) (auto split: if_splits)
  with Cons.IH show ?case by (cases kv) fastforce
qed simp

lemma built_context_ok:
  assumes "list_all tool_named tools"
    and "request_scoped_openai_custom_bridge_context tools = Some c"
  shows "bridge_context_ok c \<and> (ctx_entries c \<noteq> [] \<or> ctx_namespace_entries c \<noteq> [])"
proof -
  have c: "c = fold add_tool tools new_tool_bridge_context" and
    ne: "ctx_entries c \<noteq> [] \<or> ctx_namespace_entries c \<noteq> []"
    using assms(2) by (auto simp: request_scoped_openai_custom_bridge_context_def Let_def split: if_splits)
  have ok0: "omap_ok []" by (simp add: omap_ok_def)
  have cs: "list_all bridge_entry_ok (concat (map tool_customs tools))"
    and fs: "list_all namespace_entry_ok (concat (map tool_flats tools))"
    using assms(1) tool_entries_ok by (auto simp: list_all_iff)
  show ?thesis
    using ne cs fs set_foldl_omap_insert [of "[]" "concat (map tool_customs tools)"]
      set_foldl_omap_insert [of "[]" "concat (map tool_flats tools)"]
    by (simp add: c fold_add_tool_eq new_tool_bridge_context_def bridge_context_ok_def list_all_iff
        obj.ok_fold_upd [OF ok0]) blast
qed

lemma built_context_lookups:
  assumes "request_scoped_openai_namespace_bridge_conflict_name tools = None"
    and "request_scoped_openai_custom_bridge_context tools = Some c"
  shows "NamespaceTool name d children \<in> set tools \<Longrightarrow> child \<in> set children \<Longrightarrow>
           namespace_bridge_split c (flat_tool_name name (ft_name child)) = Some (name, ft_name child)
           \<and> \<not> expects_canonical_input_wrapper c (flat_tool_name name (ft_name child))"
    and "expects_canonical_input_wrapper c n = (n \<in> set (List.map_filter custom_tool_name tools))"
proof -
  have c: "c = fold add_tool tools new_tool_bridge_context"
    using assms(2) by (auto simp: request_scoped_openai_custom_bridge_context_def Let_def split: if_splits)
  have es: "map_of (ctx_entries c) = map_of (rev (concat (map tool_customs tools)))"
    and ns: "map_of (ctx_namespace_entries c) = map_of (rev (concat (map tool_flats tools)))"
    by (simp_all add: c fold_add_tool_eq new_tool_bridge_context_def obj.look_fold_upd)
  have all: "tool_bridge_entry_expects_wrapper e" if "(k, e) \<in> set (tool_customs t)" for k e t
    using that by (cases t) (auto simp: tool_bridge_entry_from_custom_def
        tool_bridge_entry_expects_wrapper_def)
  have names: "fst ` set (tool_customs t) = set_option (custom_tool_name t)" for t
    by (cases t) auto
  show e: "expects_canonical_input_wrapper c n = (n \<in> set (List.map_filter custom_tool_name tools))" for n
  proof (cases "map_of (ctx_entries c) n")
    case None
    then have "n \<notin> fst ` (\<Union>t \<in> set tools. set (tool_customs t))"
      by (simp add: es map_of_eq_None_iff)
    then have "\<forall>t \<in> set tools. n \<notin> fst ` set (tool_customs t)" by blast
    with None show ?thesis
      by (auto simp: expects_canonical_input_wrapper_def names set_map_filter)
  next
    case (Some e)
    then have "(n, e) \<in> set (rev (concat (map tool_customs tools)))"
      by (simp only: es map_of_SomeD)
    then obtain t where t: "t \<in> set tools" "(n, e) \<in> set (tool_customs t)" by auto
    then have "n \<in> set_option (custom_tool_name t)" using names [of t] by force
    with t Some all show ?thesis
      by (force simp: expects_canonical_input_wrapper_def set_map_filter)
  qed
  assume in_tools: "NamespaceTool name d children \<in> set tools" "child \<in> set children"
  let ?flat = "flat_tool_name name (ft_name child)"
  let ?flats = "concat (map tool_flats tools)"
  have member: "(?flat, \<lparr>ns_namespace = name, ns_child = ft_name child\<rparr>) \<in> set ?flats"
    using in_tools by (auto intro!: bexI [of _ "NamespaceTool name d children"])
  have free: "distinct (map fst ?flats)"
    "set (map fst ?flats) \<inter> set (List.map_filter tool_user_name tools) = {}"
    using assms(1) scan_tools_None
    by (auto simp: request_scoped_openai_namespace_bridge_conflict_name_def Let_def)
  have "?flat \<notin> set (List.map_filter tool_user_name tools)"
    using member free(2) by force
  moreover have "custom_tool_name t = Some n \<Longrightarrow> tool_user_name t = Some n" for t n
    by (cases t) auto
  ultimately have "?flat \<notin> set (List.map_filter custom_tool_name tools)"
    by (force simp: set_map_filter)
  then show "namespace_bridge_split c ?flat = Some (name, ft_name child)
      \<and> \<not> expects_canonical_input_wrapper c ?flat"
    using map_of_in_distinct [OF free(1) member] by (simp add: namespace_bridge_split_def ns e)
qed

section \<open>Properties\<close>

lemma read_entries_all:
  assumes "\<And>k v e. f k v = Some e \<Longrightarrow> P (k, e)"
  shows "read_entries f kvs m = Some m' \<Longrightarrow> list_all P m \<Longrightarrow> list_all P m'"
proof (induction kvs arbitrary: m)
  case (Cons kv kvs)
  obtain k v where kv: "kv = (k, v)" by (cases kv)
  from Cons.prems obtain e where e: "f k v = Some e" "read_entries f kvs (omap_insert k e m) = Some m'"
    by (auto simp: kv split: option.splits)
  have "set (omap_insert k e m) \<subseteq> insert (k, e) (set m)"
    using set_foldl_omap_insert [of m "[(k, e)]"] by simp
  with Cons.prems(2) assms [OF e(1)] have "list_all P (omap_insert k e m)"
    by (auto simp: list_all_iff)
  from Cons.IH [OF e(2) this] show ?case .
qed simp

lemma read_context_entries_ok:
  assumes "tool_bridge_context_from_value v = Some c"
  shows "list_all bridge_entry_ok (ctx_entries c)"
proof -
  have "tool_bridge_entry_from_value k v = Some e \<Longrightarrow> bridge_entry_ok (k, e)" for k v e
    by (auto simp: tool_bridge_entry_from_value_def bridge_entry_ok_def Option.bind_eq_Some_conv
        split: if_splits)
  then show ?thesis
    using assms by (auto simp: tool_bridge_context_from_value_def read_entry_field_def
        Option.bind_eq_Some_conv split: if_splits option.splits dest: read_entries_all)
qed

lemma map_of_image: "map_of (map (\<lambda>(k, e). (k, h e)) m) n = map_option h (map_of m n)"
  by (induction m) auto

lemma stream_bridge_reads_alike:
  shows "bridge_expects_canonical_input_wrapper_stream ctx name
     = (case Option.bind ctx tool_bridge_context_from_value of
          None \<Rightarrow> False | Some c \<Rightarrow> expects_canonical_input_wrapper c name)" (is ?wrapper)
    and "request_scoped_namespace_bridge_lookup_stream ctx name
     = Option.bind (Option.bind ctx tool_bridge_context_from_value)
         (\<lambda>c. namespace_bridge_split c name)" (is ?split)
proof -
  have "?wrapper \<and> ?split"
  proof (cases "Option.bind ctx tool_bridge_context_from_value")
    case None
    then have "Option.bind ctx stream_bridge_context_from_value = None"
      by (cases ctx) (simp_all add: stream_context_agrees)
    with None show ?thesis
      by (simp add: bridge_expects_canonical_input_wrapper_stream_def
          request_scoped_namespace_bridge_lookup_stream_def)
  next
    case (Some c)
    then obtain v where v: "ctx = Some v" "tool_bridge_context_from_value v = Some c"
      by (cases ctx) auto
    have s: "Option.bind ctx stream_bridge_context_from_value = Some (context_to_stream c)"
      by (simp add: v stream_context_agrees)
    have ver: "ctx_version c = 3 \<and> ctx_purpose c = ''openai_responses_custom_tool_bridge''"
      using v(2) by (auto simp: tool_bridge_context_from_value_def Option.bind_eq_Some_conv
          tool_bridge_context_version_def tool_bridge_context_purpose_def split: if_splits)
    have "stream_bridge_entry_expects_wrapper (entry_to_stream e) = tool_bridge_entry_expects_wrapper e"
      if "map_of (ctx_entries c) name = Some e" for e
    proof -
      have "stable_name e \<noteq> []"
        using read_context_entries_ok [OF v(2)] map_of_SomeD [OF that]
        by (auto simp: list_all_iff bridge_entry_ok_def)
      then show ?thesis
        by (cases e; cases "source_kind e"; cases "transport_kind e"; cases "wrapper_field e";
            cases "expected_canonical_shape e")
          (simp_all add: stream_bridge_entry_expects_wrapper_def entry_to_stream_def
            tool_bridge_entry_expects_wrapper_def enum_defs)
    qed
    then show ?thesis
      unfolding bridge_expects_canonical_input_wrapper_stream_def
        request_scoped_namespace_bridge_lookup_stream_def s Some
      by (auto simp: stream_expects_canonical_input_wrapper_def expects_canonical_input_wrapper_def
          context_to_stream_def ver map_of_image stream_namespace_bridge_split_def
          namespace_bridge_split_def namespace_to_stream_def option.map_comp o_def
          split: option.split)
  qed
  then show ?wrapper and ?split by blast+
qed

text \<open>
  The stream translator, which decodes the bridge context with code of its own, reads it as the
  request side does: for every JSON value in the context's field the two agree on whether there is a
  context, on which tool names were bridged custom tools, and on how a flat name splits into a
  namespace and a child.
\<close>

theorem stream_bridge_agrees_with_request_bridge:
  "bridge_expects_canonical_input_wrapper_stream ctx name
     = (case Option.bind ctx tool_bridge_context_from_value of
          None \<Rightarrow> False | Some c \<Rightarrow> expects_canonical_input_wrapper c name)
   \<and> request_scoped_namespace_bridge_lookup_stream ctx name
     = Option.bind (Option.bind ctx tool_bridge_context_from_value)
         (\<lambda>c. namespace_bridge_split c name)"
  using stream_bridge_reads_alike by blast

text \<open>
  Bridged tools resolve on the way back: when the request's tools are named, no flat name
  conflicts, and the context built from them is put into the translated request, the stream
  translator that reads the context from the request splits the flat name of every namespace child
  into that namespace and that child, treats it as no custom tool, and knows exactly the request's
  custom tools as custom tools.
\<close>

theorem bridged_names_resolve_on_the_stream:
  assumes "list_all tool_named tools"
    and "request_scoped_openai_namespace_bridge_conflict_name tools = None"
    and "request_scoped_openai_custom_bridge_context tools = Some c"
    and "ctx = jget (insert_request_scoped_tool_bridge_context (JObj kvs) c) tool_bridge_context_field"
    and "NamespaceTool name d children \<in> set tools" and "child \<in> set children"
  shows "request_scoped_namespace_bridge_lookup_stream ctx (flat_tool_name name (ft_name child))
      = Some (name, ft_name child)
    \<and> \<not> bridge_expects_canonical_input_wrapper_stream ctx (flat_tool_name name (ft_name child))
    \<and> bridge_expects_canonical_input_wrapper_stream ctx n
      = (n \<in> set (List.map_filter custom_tool_name tools))"
proof -
  have "Option.bind ctx tool_bridge_context_from_value = Some c"
    using built_context_ok [OF assms(1,3)] tool_bridge_context_written [of c]
    by (simp add: assms(4) insert_request_scoped_tool_bridge_context_def)
  with built_context_lookups [OF assms(2,3)] assms(5,6) show ?thesis
    by (simp add: stream_bridge_reads_alike)
qed

theorem bridged_names_resolve_on_the_stream_witness:
  "let child = \<lparr>ft_name = ''spawn'', ft_description = None, ft_parameters = None, ft_strict = None\<rparr>;
       tools = [CustomTool \<lparr>ct_name = ''patch'', ct_description = None, ct_format = None\<rparr>,
                NamespaceTool ''agents'' None [child]]
   in \<exists>ctx. request_scoped_namespace_bridge_lookup_stream ctx ''agents__spawn'' = Some (''agents'', ''spawn'')
        \<and> bridge_expects_canonical_input_wrapper_stream ctx ''patch''"
proof -
  let ?child = "\<lparr>ft_name = ''spawn'', ft_description = None, ft_parameters = None, ft_strict = None\<rparr>"
  let ?tools = "[CustomTool \<lparr>ct_name = ''patch'', ct_description = None, ct_format = None\<rparr>,
                NamespaceTool ''agents'' None [?child]]"
  have named: "list_all tool_named ?tools"
    and free: "request_scoped_openai_namespace_bridge_conflict_name ?tools = None"
    by code_simp+
  obtain c where c: "request_scoped_openai_custom_bridge_context ?tools = Some c"
    by (simp add: request_scoped_openai_custom_bridge_context_def Let_def add_namespace_child_def
        new_tool_bridge_context_def)
  have flat: "flat_tool_name ''agents'' (ft_name ?child) = ''agents__spawn''" by code_simp
  have patch: "''patch'' \<in> set (List.map_filter custom_tool_name ?tools)" by code_simp
  from bridged_names_resolve_on_the_stream
    [OF named free c refl, where name = "''agents''" and d = None and children = "[?child]" and child = ?child
      and kvs = "[]" and n = "''patch''"] patch
  show ?thesis unfolding flat Let_def by auto
qed

end
