(* ===== verification/Emit.thy ===== *)
theory Emit
  imports Json
begin

text \<open>
  Steps that change a state and append to an output, the shape of every function of the streaming
  code that takes \<open>&mut StreamState\<close> and an output vector: a step maps a state to the next state and
  to what it appends. \<open>run_steps\<close> is the sequence of statements of a function body, \<open>for_each\<close> a
  \<open>for\<close> loop. The locale \<open>trace_contract\<close> is what every contract on such steps shares: a relation
  between the state before, the output and the state after that holds of the empty step and is closed
  under sequence, so that it holds of a function when it holds of its statements.
\<close>

type_synonym ('s, 'o) step = "'s \<Rightarrow> 's \<times> 'o list"

definition skip :: "('s, 'o) step" where
  "skip s = (s, [])"

definition emit :: "('s \<Rightarrow> 'o) \<Rightarrow> ('s, 'o) step" where
  "emit f s = (s, [f s])"

definition modify :: "('s \<Rightarrow> 's) \<Rightarrow> ('s, 'o) step" where
  "modify f s = (f s, [])"

definition only_if :: "bool \<Rightarrow> ('s, 'o) step \<Rightarrow> ('s, 'o) step" where
  "only_if b f = (if b then f else skip)"

text \<open>A statement that is chosen by looking at the state reached so far.\<close>

definition reading :: "('s \<Rightarrow> ('s, 'o) step) \<Rightarrow> ('s, 'o) step" where
  "reading f s = f s s"

fun run_steps :: "('s, 'o) step list \<Rightarrow> ('s, 'o) step" where
  "run_steps [] s = (s, [])"
| "run_steps (f # fs) s =
     (let (s', out) = f s; (s'', out') = run_steps fs s' in (s'', out @ out'))"

definition for_each :: "('a \<Rightarrow> ('s, 'o) step) \<Rightarrow> 'a list \<Rightarrow> ('s, 'o) step" where
  "for_each f xs = run_steps (map f xs)"

lemma run_steps_append:
  "run_steps (fs @ gs) s =
     (let (s', out) = run_steps fs s; (s'', out') = run_steps gs s' in (s'', out @ out'))"
  by (induction fs arbitrary: s) (simp_all add: case_prod_unfold Let_def)

lemma for_each_Nil [simp]: "for_each f [] s = (s, [])"
  by (simp add: for_each_def)

lemma for_each_Cons:
  "for_each f (x # xs) s = (let (s', out) = f x s; (s'', out') = for_each f xs s' in (s'', out @ out'))"
  by (simp add: for_each_def)

lemma fst_run_steps: "fst (run_steps (f # fs) s) = fst (run_steps fs (fst (f s)))"
  by (simp add: case_prod_unfold Let_def)

lemma snd_run_steps: "snd (run_steps (f # fs) s) = snd (f s) @ snd (run_steps fs (fst (f s)))"
  by (simp add: case_prod_unfold Let_def)

lemma run_steps_group: "run_steps (f # fs) = run_steps [f, run_steps fs]"
  by (rule ext) (simp add: case_prod_unfold Let_def)

lemmas step_defs = skip_def emit_def modify_def only_if_def reading_def

text \<open>
  Statements that may return from the function: the flag says whether they did. A loop ends at the
  first element that returns, and what follows is not run.
\<close>

type_synonym ('s, 'o) stopping = "'s \<Rightarrow> ('s \<times> 'o list) \<times> bool"

fun until_stop :: "('a \<Rightarrow> ('s, 'o) stopping) \<Rightarrow> 'a list \<Rightarrow> ('s, 'o) stopping" where
  "until_stop f [] s = ((s, []), False)"
| "until_stop f (x # xs) s = (case f x s of
      ((s', out), True) \<Rightarrow> ((s', out), True)
    | ((s', out), False) \<Rightarrow>
        (let ((s'', out'), stop) = until_stop f xs s' in ((s'', out @ out'), stop)))"

definition unless_stopped :: "('s, 'o) stopping \<Rightarrow> ('s, 'o) step \<Rightarrow> ('s, 'o) step" where
  "unless_stopped f g s = (case f s of
      ((s', out), True) \<Rightarrow> (s', out)
    | ((s', out), False) \<Rightarrow> (let (s'', out') = g s' in (s'', out @ out')))"

section \<open>Contracts\<close>

definition sat :: "('s \<Rightarrow> 'o list \<Rightarrow> 's \<Rightarrow> bool) \<Rightarrow> ('s, 'o) step \<Rightarrow> bool" where
  "sat R f = (\<forall>s. R s (snd (f s)) (fst (f s)))"

lemma satI [intro]: "(\<And>s. R s (snd (f s)) (fst (f s))) \<Longrightarrow> sat R f"
  by (simp add: sat_def)

lemma satD: "sat R f \<Longrightarrow> R s (snd (f s)) (fst (f s))"
  by (simp add: sat_def)

lemma satD_eq: "sat R f \<Longrightarrow> f s = (s', out) \<Longrightarrow> R s out s'"
  using satD [of R f s] by simp

text \<open>A contract holds of a choice when it holds of the alternatives.\<close>

lemma sat_if: "(b \<Longrightarrow> sat R f) \<Longrightarrow> (\<not> b \<Longrightarrow> sat R g) \<Longrightarrow> sat R (if b then f else g)"
  by simp

lemma sat_option:
  "(x = None \<Longrightarrow> sat R f) \<Longrightarrow> (\<And>y. x = Some y \<Longrightarrow> sat R (g y)) \<Longrightarrow>
   sat R (case x of None \<Rightarrow> f | Some y \<Rightarrow> g y)"
  by (cases x) simp_all

lemma sat_reading: "(\<And>s. sat R (f s)) \<Longrightarrow> sat R (reading f)"
  by (simp add: sat_def reading_def)

lemma sat_Nil: "list_all (sat R) []"
  by simp

lemma sat_Cons: "sat R f \<Longrightarrow> list_all (sat R) fs \<Longrightarrow> list_all (sat R) (f # fs)"
  by simp

text \<open>A contract from the states that satisfy a condition only.\<close>

definition sat_from :: "('s \<Rightarrow> bool) \<Rightarrow> ('s \<Rightarrow> 'o list \<Rightarrow> 's \<Rightarrow> bool) \<Rightarrow> ('s, 'o) step \<Rightarrow> bool" where
  "sat_from P R f = (\<forall>s. P s \<longrightarrow> R s (snd (f s)) (fst (f s)))"

lemma sat_from_sat: "sat R f \<Longrightarrow> sat_from P R f"
  by (simp add: sat_def sat_from_def)

lemma sat_from_if:
  "(b \<Longrightarrow> sat_from P R f) \<Longrightarrow> (\<not> b \<Longrightarrow> sat_from P R g) \<Longrightarrow> sat_from P R (if b then f else g)"
  by simp

lemma sat_from_option:
  "(x = None \<Longrightarrow> sat_from P R f) \<Longrightarrow> (\<And>y. x = Some y \<Longrightarrow> sat_from P R (g y)) \<Longrightarrow>
   sat_from P R (case x of None \<Rightarrow> f | Some y \<Rightarrow> g y)"
  by (cases x) simp_all

lemma sat_from_reading: "(\<And>s. P s \<Longrightarrow> sat_from P R (f s)) \<Longrightarrow> sat_from P R (reading f)"
  by (simp add: sat_from_def reading_def)

text \<open>
  A contract from one state. The rules follow a function body statement by statement, so that a
  statement may use what was read from the state before it.
\<close>

definition sat_at :: "('s \<Rightarrow> 'o list \<Rightarrow> 's \<Rightarrow> bool) \<Rightarrow> 's \<Rightarrow> ('s, 'o) step \<Rightarrow> bool" where
  "sat_at R s f = R s (snd (f s)) (fst (f s))"

lemma sat_if_at: "(\<And>s. sat_at R s f) \<Longrightarrow> sat R f"
  by (simp add: sat_def sat_at_def)

lemma at_sat: "sat R f \<Longrightarrow> sat_at R s f"
  by (simp add: sat_def sat_at_def)

lemma sat_from_if_at: "(\<And>s. P s \<Longrightarrow> sat_at R s f) \<Longrightarrow> sat_from P R f"
  by (simp add: sat_from_def sat_at_def)

lemma at_sat_from: "sat_from P R f \<Longrightarrow> P s \<Longrightarrow> sat_at R s f"
  by (simp add: sat_from_def sat_at_def)

lemma at_reading: "sat_at R s (f s) \<Longrightarrow> sat_at R s (reading f)"
  by (simp add: reading_def sat_at_def)

lemma at_if: "(b \<Longrightarrow> sat_at R s f) \<Longrightarrow> (\<not> b \<Longrightarrow> sat_at R s g) \<Longrightarrow> sat_at R s (if b then f else g)"
  by simp

lemma at_option:
  "(x = None \<Longrightarrow> sat_at R s f) \<Longrightarrow> (\<And>y. x = Some y \<Longrightarrow> sat_at R s (g y)) \<Longrightarrow>
   sat_at R s (case x of None \<Rightarrow> f | Some y \<Rightarrow> g y)"
  by (cases x) simp_all

lemma at_take:
  "(\<And>d s'. g = (d, s') \<Longrightarrow> sat_at R s (k d s')) \<Longrightarrow> sat_at R s (let (d, s') = g in k d s')"
  by (cases g) simp

lemma at_let: "sat_at R s (k x) \<Longrightarrow> sat_at R s (let y = x in k y)"
  by simp

lemmas at_intros = at_if at_option at_reading at_take at_let

lemmas from_intros = sat_from_if sat_from_option sat_from_reading

lemmas flow_intros = sat_if sat_option sat_Nil sat_Cons

locale trace_contract =
  fixes R :: "'s \<Rightarrow> 'o list \<Rightarrow> 's \<Rightarrow> bool"
  assumes refl: "R s [] s"
    and trans: "R s a t \<Longrightarrow> R t b u \<Longrightarrow> R s (a @ b) u"
begin

lemma skip_sat: "sat R skip"
  by (rule satI) (simp add: skip_def refl)

lemma only_if_sat: "(b \<Longrightarrow> sat R f) \<Longrightarrow> sat R (only_if b f)"
  by (simp add: only_if_def skip_sat)

lemma reading_sat: "(\<And>s. R s (snd (f s s)) (fst (f s s))) \<Longrightarrow> sat R (reading f)"
  by (rule satI) (simp add: reading_def)

lemma reading_sat_all: "(\<And>s. sat R (f s)) \<Longrightarrow> sat R (reading f)"
  by (rule reading_sat) (rule satD)

lemma modify_sat: "(\<And>s. R s [] (f s)) \<Longrightarrow> sat R (modify f)"
  by (rule satI) (simp add: modify_def)

lemma emit_sat: "(\<And>s. R s [f s] s) \<Longrightarrow> sat R (emit f)"
  by (rule satI) (simp add: emit_def)

lemma run_steps_sat: "list_all (sat R) fs \<Longrightarrow> sat R (run_steps fs)"
proof (induction fs)
  case Nil
  then show ?case by (simp add: sat_def refl)
next
  case (Cons f fs)
  then have f: "sat R f" and fs: "sat R (run_steps fs)" by simp_all
  show ?case
  proof (rule satI)
    fix s
    from satD [OF f] satD [OF fs]
    show "R s (snd (run_steps (f # fs) s)) (fst (run_steps (f # fs) s))"
      unfolding fst_run_steps snd_run_steps by (rule trans)
  qed
qed

lemma for_each_sat: "(\<And>x. x \<in> set xs \<Longrightarrow> sat R (f x)) \<Longrightarrow> sat R (for_each f xs)"
  unfolding for_each_def by (rule run_steps_sat) (simp add: list_all_iff)

lemma at_skip: "sat_at R s skip"
  by (rule at_sat [OF skip_sat])

lemma at_only_if: "(b \<Longrightarrow> sat_at R s f) \<Longrightarrow> sat_at R s (only_if b f)"
  by (simp add: only_if_def at_skip)

lemma at_run_Nil: "sat_at R s (run_steps [])"
  by (simp add: sat_at_def refl)

lemma at_run_modify:
  "R s [] (g s) \<Longrightarrow> sat_at R (g s) (run_steps fs) \<Longrightarrow> sat_at R s (run_steps (modify g # fs))"
  using trans [of s "[]" "g s"] by (simp add: sat_at_def modify_def case_prod_unfold Let_def)

lemma at_run_Cons:
  assumes "sat_at R s f" and "R s (snd (f s)) (fst (f s)) \<Longrightarrow> sat_at R (fst (f s)) (run_steps fs)"
  shows "sat_at R s (run_steps (f # fs))"
proof -
  have f: "R s (snd (f s)) (fst (f s))" using assms(1) by (simp add: sat_at_def)
  from trans [OF f assms(2) [OF f, unfolded sat_at_def]] show ?thesis
    by (simp add: sat_at_def case_prod_unfold Let_def)
qed

lemma at_run_sat: "sat_at R s f \<Longrightarrow> list_all (sat R) fs \<Longrightarrow> sat_at R s (run_steps (f # fs))"
  by (rule at_run_Cons) (simp_all add: at_sat run_steps_sat)

lemmas at_statements = at_skip at_only_if at_run_Nil at_run_modify

text \<open>A statement that computes a value and a new state, and then goes on with the value.\<close>

lemma take_sat:
  assumes "\<And>s d s'. g s = (d, s') \<Longrightarrow> R s [] s'" and "\<And>s d. sat R (k s d)"
  shows "sat R (reading (\<lambda>s. let (d, s') = g s in run_steps [modify (\<lambda>_. s'), k s d]))"
proof (rule reading_sat)
  fix s
  obtain d s' where g: "g s = (d, s')" by (cases "g s")
  from trans [OF assms(1) [OF g] satD [OF assms(2) [of s d], of s']]
  show "R s (snd ((let (d, s') = g s in run_steps [modify (\<lambda>_. s'), k s d]) s))
      (fst ((let (d, s') = g s in run_steps [modify (\<lambda>_. s'), k s d]) s))"
    by (simp add: g modify_def case_prod_unfold Let_def)
qed

lemma until_stop_sat:
  assumes "\<And>x s. x \<in> set xs \<Longrightarrow> R s (snd (fst (f x s))) (fst (fst (f x s)))"
  shows "R s (snd (fst (until_stop f xs s))) (fst (fst (until_stop f xs s)))"
  using assms
proof (induction xs arbitrary: s)
  case (Cons x xs)
  obtain s' out stop where f: "f x s = ((s', out), stop)" by (metis prod.exhaust)
  have "R s out s'" using Cons.prems [of x s] f by simp
  moreover have "R s' (snd (fst (until_stop f xs s'))) (fst (fst (until_stop f xs s')))"
    using Cons by simp
  ultimately show ?case
    by (cases stop) (auto simp: f case_prod_unfold Let_def intro: trans)
qed (simp add: refl)

lemma unless_stopped_sat:
  assumes "\<And>s. R s (snd (fst (f s))) (fst (fst (f s)))" and "sat R g"
  shows "sat R (unless_stopped f g)"
proof (rule satI)
  fix s
  obtain s' out stop where f: "f s = ((s', out), stop)" by (metis prod.exhaust)
  have "R s out s'" using assms(1) [of s] f by simp
  with satD [OF assms(2), of s'] show "R s (snd (unless_stopped f g s)) (fst (unless_stopped f g s))"
    by (cases stop) (auto simp: unless_stopped_def f case_prod_unfold Let_def intro: trans)
qed

lemma then_sat:
  "sat R f \<Longrightarrow> (\<And>s'. sat R (g s')) \<Longrightarrow>
   sat R (\<lambda>s. let (s', out) = f s; (s'', out') = g s' s' in (s'', out @ out'))"
  by (rule satI) (auto simp: case_prod_unfold Let_def intro!: trans dest: satD)

end

text \<open>
  A latch: a flag of the state that never falls back, and outputs that may appear only when it rises.
  However long the run, at most one marked output appears, and none once the flag is set.
\<close>

definition latched :: "('s \<Rightarrow> bool) \<Rightarrow> ('o \<Rightarrow> bool) \<Rightarrow> 's \<Rightarrow> 'o list \<Rightarrow> 's \<Rightarrow> bool" where
  "latched flag marked s out t = (length (filter marked out) + of_bool (flag s) \<le> of_bool (flag t))"

text \<open>A step that leaves the flag as it is and appends no marked output.\<close>

definition silent :: "('s \<Rightarrow> bool) \<Rightarrow> ('o \<Rightarrow> bool) \<Rightarrow> 's \<Rightarrow> 'o list \<Rightarrow> 's \<Rightarrow> bool" where
  "silent flag marked s out t = (flag t = flag s \<and> list_all (\<lambda>x. \<not> marked x) out)"

locale latch =
  fixes flag :: "'s \<Rightarrow> bool" and marked :: "'o \<Rightarrow> bool"
begin

sublocale trace_contract "latched flag marked"
  by unfold_locales (auto simp: latched_def)

sublocale quiet: trace_contract "silent flag marked"
  by unfold_locales (auto simp: silent_def)

lemma silent_latched: "sat (silent flag marked) f \<Longrightarrow> sat (latched flag marked) f"
  by (auto simp: sat_def silent_def latched_def list_all_iff filter_empty_conv)

text \<open>
  The statement that closes a stream: guarded by the flag, it works silently, appends one output that
  may be marked, and sets the flag.
\<close>

lemma close_sat:
  assumes "\<And>s. sat (silent flag marked) (f s)" and "\<And>s. flag (g s)"
  shows "sat (latched flag marked)
    (reading (\<lambda>s. only_if (\<not> flag s) (run_steps [f s, emit c, modify g])))"
proof (rule satI)
  fix s
  obtain s1 out1 where f: "f s s = (s1, out1)" by (cases "f s s")
  have "silent flag marked s out1 s1" using satD_eq [OF assms(1) f] .
  with assms(2) f
  show "latched flag marked s
      (snd (reading (\<lambda>s. only_if (\<not> flag s) (run_steps [f s, emit c, modify g])) s))
      (fst (reading (\<lambda>s. only_if (\<not> flag s) (run_steps [f s, emit c, modify g])) s))"
    by (auto simp: step_defs latched_def silent_def list_all_iff filter_empty_conv)
qed

lemma close_plain_sat:
  "(\<And>s. flag (g s)) \<Longrightarrow> sat (latched flag marked)
     (reading (\<lambda>s. only_if (\<not> flag s) (run_steps [emit c, modify g])))"
  by (rule satI) (simp add: step_defs latched_def)

lemma silent_sat: "(\<And>s. flag (fst (f s)) = flag s \<and> list_all (\<lambda>x. \<not> marked x) (snd (f s))) \<Longrightarrow>
    sat (latched flag marked) f"
  by (rule satI) (simp add: latched_def filter_empty_conv list_all_iff)

lemma budget: "latched flag marked s out t \<Longrightarrow> length (filter marked out) + of_bool (flag s) \<le> 1"
  unfolding latched_def by (erule order_trans) simp

lemma at_most_once:
  "latched flag marked s out t \<Longrightarrow>
   length (filter marked out) \<le> 1 \<and> (flag s \<longrightarrow> flag t \<and> filter marked out = [])
   \<and> (filter marked out \<noteq> [] \<longrightarrow> flag t)"
  by (cases "flag s"; cases "flag t"; cases "filter marked out") (auto simp: latched_def)

end

text \<open>Every output satisfies a condition of its own.\<close>

definition every :: "('o \<Rightarrow> bool) \<Rightarrow> 's \<Rightarrow> 'o list \<Rightarrow> 's \<Rightarrow> bool" where
  "every P s out t = list_all P out"

interpretation every: trace_contract "every P"
  by unfold_locales (simp_all add: every_def)

end
