(* ===== verification/Stream_State.thy ===== *)
theory Stream_State
  imports Emit Tool_Bridge Tool_Marks
begin

text \<open>
  The state of a stream translation and the helpers that work on it
  (\<open>src/streaming/state.rs\<close>): the record \<open>StreamState\<close> in three layers (what is read from the
  upstream, what was sent to an Anthropic client, what was sent to a Responses client), the partial
  tool calls, usage conversion, chunk construction, fatal rejection and the size of the state.
\<close>

section \<open>The state\<close>

record tool_call_state =
  tc_index :: nat
  tc_id :: "json option"
  tc_name :: string
  tc_arguments :: string
  tc_marker :: "json option"
  tc_custom_input_text :: "string option"
  tc_custom_input_done :: bool
  tc_tool_type :: "string option"
  tc_proxied_tool_kind :: "string option"
  tc_namespace :: "string option"
  tc_seeded_from_start :: bool
  tc_block_index :: "nat option"
  tc_item_id :: "string option"
  tc_item_added :: bool
  tc_done :: bool

definition default_tool_call :: tool_call_state where
  "default_tool_call =
     \<lparr>tc_index = 0, tc_id = None, tc_name = [], tc_arguments = [], tc_marker = None,
      tc_custom_input_text = None, tc_custom_input_done = False, tc_tool_type = None,
      tc_proxied_tool_kind = None, tc_namespace = None, tc_seeded_from_start = False,
      tc_block_index = None, tc_item_id = None, tc_item_added = False, tc_done = False\<rparr>"

record claude_tool_use_state =
  tu_openai_index :: nat
  tu_id :: "json option"
  tu_name :: string
  tu_arguments :: string
  tu_proxied_tool_kind :: "string option"
  tu_zero_arg_candidate :: bool
  tu_saw_input_json_delta :: bool
  tu_seeded_from_start :: bool
  tu_start_arguments_emitted :: bool
  tu_finalized :: bool

datatype claude_block_kind = TextBlock | ThinkingBlock | ToolUseBlock | ServerToolUseBlock

record claude_block_state =
  cb_kind :: "claude_block_kind option"
  cb_thinking :: string
  cb_signature :: "string option"
  cb_annotations :: "json list"
  cb_omitted :: bool

definition default_claude_block :: claude_block_state where
  "default_claude_block =
     \<lparr>cb_kind = None, cb_thinking = [], cb_signature = None, cb_annotations = [], cb_omitted = False\<rparr>"

record claude_thinking_provenance_state =
  tp_block_index :: nat
  tp_signature :: "string option"
  tp_omitted :: bool

datatype responses_message_part_kind = OutputTextPart | RefusalPart

record responses_message_part_state =
  mp_kind :: "responses_message_part_kind option"
  mp_text :: string
  mp_annotations :: "json list"

definition default_message_part :: responses_message_part_state where
  "default_message_part = \<lparr>mp_kind = None, mp_text = [], mp_annotations = []\<rparr>"

record responses_completed_message_state =
  cm_output_index :: nat
  cm_item :: json

datatype stream_fatal_rejection = StreamFatalRejection (rejection_message: string)

text \<open>\<open>StreamState\<close>: first what the source side keeps,\<close>

record source_state =
  message_id :: "string option"
  model :: "string option"
  bridge_context :: "json option"
  openai_tool_call_index :: nat
  claude_tool_use_index :: nat
  openai_tool_calls :: "(nat \<times> tool_call_state) list"
  claude_tool_uses :: "(nat \<times> claude_tool_use_state) list"
  claude_blocks :: "(nat \<times> claude_block_state) list"
  claude_thinking_provenance :: "claude_thinking_provenance_state list"
  server_tool_block_index :: "nat option"
  text_block_started :: bool
  in_thinking_block :: bool
  current_block_index :: "nat option"
  finish_reason :: "string option"
  finish_reason_sent :: bool
  usage :: "json option"

text \<open>then the output state towards an Anthropic client,\<close>

record claude_output_state = source_state +
  message_start_sent :: bool
  next_block_index :: nat
  thinking_block_started :: bool
  thinking_block_index :: nat
  text_block_index :: nat
  text_block_closed :: bool
  fatal_rejection :: "stream_fatal_rejection option"
  tool_block_indices :: "(nat \<times> nat) list"
  openai_choice_index :: "nat option"
  openai_role_sent :: bool

text \<open>then the output state towards a Responses client.\<close>

record stream_state = claude_output_state +
  responses_seq :: nat
  responses_started :: bool
  output_item_id :: "string option"
  output_item_added :: bool
  responses_content_part_added :: bool
  responses_output_text :: string
  responses_message_parts :: "responses_message_part_state list"
  responses_completed_message_items :: "responses_completed_message_state list"
  responses_text_part_index :: "nat option"
  responses_refusal_part_index :: "nat option"
  responses_reasoning_id :: "string option"
  responses_reasoning_added :: bool
  responses_reasoning_done :: bool
  responses_reasoning_text :: string
  responses_next_output_index :: nat
  responses_reasoning_output_index :: "nat option"
  responses_message_output_index :: "nat option"
  openai_seen_content :: string
  openai_seen_refusal :: string
  openai_seen_reasoning :: string
  openai_terminal_error :: "json option"
  responses_terminal_sent :: bool
  responses_response_id_override :: "string option"
  responses_terminal_response :: "json option"

definition default_state :: stream_state where
  "default_state =
     \<lparr>message_id = None, model = None, bridge_context = None, openai_tool_call_index = 0,
      claude_tool_use_index = 0, openai_tool_calls = [], claude_tool_uses = [], claude_blocks = [],
      claude_thinking_provenance = [], server_tool_block_index = None, text_block_started = False,
      in_thinking_block = False, current_block_index = None, finish_reason = None,
      finish_reason_sent = False, usage = None, message_start_sent = False, next_block_index = 0,
      thinking_block_started = False, thinking_block_index = 0, text_block_index = 0,
      text_block_closed = False, fatal_rejection = None, tool_block_indices = [],
      openai_choice_index = None, openai_role_sent = False, responses_seq = 0,
      responses_started = False, output_item_id = None, output_item_added = False,
      responses_content_part_added = False, responses_output_text = [],
      responses_message_parts = [], responses_completed_message_items = [],
      responses_text_part_index = None, responses_refusal_part_index = None,
      responses_reasoning_id = None, responses_reasoning_added = False,
      responses_reasoning_done = False, responses_reasoning_text = [],
      responses_next_output_index = 0, responses_reasoning_output_index = None,
      responses_message_output_index = None, openai_seen_content = [], openai_seen_refusal = [],
      openai_seen_reasoning = [], openai_terminal_error = None, responses_terminal_sent = False,
      responses_response_id_override = None, responses_terminal_response = None\<rparr>"

text \<open>\<open>get_mut\<close> followed by an update in place.\<close>

definition hm_modify :: "nat \<Rightarrow> ('v \<Rightarrow> 'v) \<Rightarrow> (nat \<times> 'v) list \<Rightarrow> (nat \<times> 'v) list" where
  "hm_modify k f m = (case hm_get m k of None \<Rightarrow> m | Some v \<Rightarrow> hm_insert k (f v) m)"

lemma hm_get_modify [simp]:
  "hm_get (hm_modify k f m) k' = (if k' = k then map_option f (hm_get m k) else hm_get m k')"
  by (simp add: hm_modify_def split: option.split)

section \<open>Tool calls\<close>

definition option_else :: "'a option \<Rightarrow> 'a option \<Rightarrow> 'a option" where
  "option_else a b = (if a = None then b else a)"

definition list_else :: "'a list \<Rightarrow> 'a list \<Rightarrow> 'a list" where
  "list_else a b = (if a = [] then b else a)"

text \<open>The update of the entry that stays: its missing fields come from the removed one.\<close>

definition merge_tool_call :: "tool_call_state \<Rightarrow> tool_call_state \<Rightarrow> tool_call_state" where
  "merge_tool_call existing entry = entry
     \<lparr>tc_id := option_else (tc_id entry) (tc_id existing),
      tc_name := list_else (tc_name entry) (tc_name existing),
      tc_arguments := list_else (tc_arguments entry) (tc_arguments existing),
      tc_marker := option_else (tc_marker entry) (tc_marker existing),
      tc_custom_input_text := option_else (tc_custom_input_text entry) (tc_custom_input_text existing),
      tc_custom_input_done := tc_custom_input_done entry \<or> tc_custom_input_done existing,
      tc_tool_type := option_else (tc_tool_type entry) (tc_tool_type existing),
      tc_proxied_tool_kind := option_else (tc_proxied_tool_kind entry) (tc_proxied_tool_kind existing),
      tc_namespace := option_else (tc_namespace entry) (tc_namespace existing),
      tc_block_index := option_else (tc_block_index entry) (tc_block_index existing),
      tc_item_id := option_else (tc_item_id entry) (tc_item_id existing),
      tc_item_added := tc_item_added entry \<or> tc_item_added existing,
      tc_done := tc_done entry \<or> tc_done existing\<rparr>"

definition dedupe_tool_call_state_by_call_id ::
    "env \<Rightarrow> nat \<Rightarrow> json option \<Rightarrow> (nat \<times> tool_call_state) list \<Rightarrow> (nat \<times> tool_call_state) list" where
  "dedupe_tool_call_state_by_call_id E tc_idx incoming_id calls = (case incoming_id of
      None \<Rightarrow> calls
    | Some incoming \<Rightarrow>
        (case find (\<lambda>(k, e). k \<noteq> tc_idx \<and> tc_id e = Some incoming) (hm_entries E calls) of
          None \<Rightarrow> calls
        | Some (k, existing) \<Rightarrow>
            let calls' = hm_remove k calls; existing' = existing\<lparr>tc_index := tc_idx\<rparr>
            in (case hm_get calls' tc_idx of
                 None \<Rightarrow> hm_insert tc_idx existing' calls'
               | Some entry \<Rightarrow> hm_insert tc_idx (merge_tool_call existing' entry) calls')))"

definition max_seeded_trim_scan :: nat where
  "max_seeded_trim_scan = 4096"

text \<open>The loop \<open>for trim in 0..=min(seed.len(), MAX)\<close>: the first candidate that reads as JSON.\<close>

definition seeded_candidate :: "env \<Rightarrow> string \<Rightarrow> string \<Rightarrow> nat \<Rightarrow> string option" where
  "seeded_candidate E seed delta t =
     (let stop = length seed - t in
      if \<not> is_char_boundary seed stop then None
      else let candidate = take stop seed @ delta
           in if json_parse E candidate \<noteq> None then Some candidate else None)"

fun seeded_scan :: "env \<Rightarrow> string \<Rightarrow> string \<Rightarrow> nat list \<Rightarrow> string option" where
  "seeded_scan E seed delta [] = None"
| "seeded_scan E seed delta (t # ts) = (case seeded_candidate E seed delta t of
      Some candidate \<Rightarrow> Some candidate
    | None \<Rightarrow> seeded_scan E seed delta ts)"

definition merge_seeded_tool_arguments :: "env \<Rightarrow> string \<Rightarrow> string \<Rightarrow> string" where
  "merge_seeded_tool_arguments E seed delta =
     (if delta = [] then seed
      else unwrap_or
        (seeded_scan E seed delta [0..<Suc (min (length seed) max_seeded_trim_scan)])
        (seed @ delta))"

definition openai_stream_tool_call_type :: "json \<Rightarrow> string" where
  "openai_stream_tool_call_type v =
     (if jget_str v ''type'' \<in> {Some ''custom'', Some ''custom_tool_call''} then ''custom''
      else ''function'')"

text \<open>\<open>quoted[1..quoted.len() - 1]\<close> of the printed string.\<close>

definition escape_json_string_content_stream :: "env \<Rightarrow> string \<Rightarrow> string" where
  "escape_json_string_content_stream E s =
     (let quoted = json_text E (JStr s) in take (length quoted - 1 - 1) (drop 1 quoted))"

definition openai_custom_bridge_start_delta_stream :: "env \<Rightarrow> string \<Rightarrow> string" where
  "openai_custom_bridge_start_delta_stream E input =
     ''{\"input\":\"'' @ escape_json_string_content_stream E input"

definition openai_custom_bridge_input_delta_stream :: "env \<Rightarrow> string \<Rightarrow> string" where
  "openai_custom_bridge_input_delta_stream E input = escape_json_string_content_stream E input"

definition openai_custom_bridge_done_delta_stream :: string where
  "openai_custom_bridge_done_delta_stream = ''\"}''"

definition openai_custom_bridge_decode_arguments_stream :: "env \<Rightarrow> string \<Rightarrow> string option" where
  "openai_custom_bridge_decode_arguments_stream E arguments = (case json_parse E arguments of
      Some (JObj kvs) \<Rightarrow> if length kvs \<noteq> 1 then None else ostr (map_of kvs ''input'')
    | _ \<Rightarrow> None)"

definition tool_call_state_type :: "tool_call_state \<Rightarrow> string" where
  "tool_call_state_type tc = unwrap_or (tc_tool_type tc) ''function''"

definition responses_tool_call_item_type :: "string \<Rightarrow> string" where
  "responses_tool_call_item_type ty = (if ty = ''custom'' then ''custom_tool_call'' else ''function_call'')"

definition responses_tool_call_delta_event_type :: "string \<Rightarrow> string" where
  "responses_tool_call_delta_event_type ty =
     (if ty = ''custom'' then ''response.custom_tool_call_input.delta''
      else ''response.function_call_arguments.delta'')"

definition responses_tool_call_done_event_type :: "string \<Rightarrow> string" where
  "responses_tool_call_done_event_type ty =
     (if ty = ''custom'' then ''response.custom_tool_call_input.done''
      else ''response.function_call_arguments.done'')"

definition responses_tool_call_payload_field :: "string \<Rightarrow> string" where
  "responses_tool_call_payload_field ty = (if ty = ''custom'' then ''input'' else ''arguments'')"

definition responses_event_tool_call_index :: "env \<Rightarrow> json \<Rightarrow> stream_state \<Rightarrow> nat option" where
  "responses_event_tool_call_index E event s =
     (let entries = hm_entries E (openai_tool_calls s);
          by_item = (case jget_str event ''item_id'' of
              None \<Rightarrow> None
            | Some item_id \<Rightarrow> find (\<lambda>(_, tc). tc_item_id tc = Some item_id) entries)
      in case by_item of
           Some (idx, _) \<Rightarrow> Some idx
         | None \<Rightarrow> (case jget_u64 event ''output_index'' of
             None \<Rightarrow> None
           | Some output_index \<Rightarrow>
               map_option fst (find (\<lambda>(_, tc). tc_block_index tc = Some output_index) entries)))"

section \<open>Usage\<close>

definition u64_or_zero :: "json option \<Rightarrow> nat" where
  "u64_or_zero v = unwrap_or (Option.bind v as_u64) 0"

definition openai_usage_to_anthropic_usage_stream :: "json \<Rightarrow> json" where
  "openai_usage_to_anthropic_usage_stream u = jobj
     [(''input_tokens'', jnat (u64_or_zero (jget u ''prompt_tokens''))),
      (''output_tokens'', jnat (u64_or_zero (jget u ''completion_tokens'')))]"

fun copy_unknown_usage_fields :: "(string \<times> json) list \<Rightarrow> string list \<Rightarrow> json \<Rightarrow> json" where
  "copy_unknown_usage_fields [] reserved target = target"
| "copy_unknown_usage_fields ((k, v) # kvs) reserved target =
     (if k \<in> set reserved \<or> jget target k \<noteq> None then copy_unknown_usage_fields kvs reserved target
      else copy_unknown_usage_fields kvs reserved (jset k v target))"

definition clone_usage_details_object_stream :: "json option \<Rightarrow> json option" where
  "clone_usage_details_object_stream details = (case details of
      Some (JObj kvs) \<Rightarrow> if kvs = [] then None else Some (JObj kvs)
    | _ \<Rightarrow> None)"

definition set_details :: "string \<Rightarrow> json option \<Rightarrow> json \<Rightarrow> json" where
  "set_details k details mapped = (case clone_usage_details_object_stream details of
      None \<Rightarrow> mapped
    | Some d \<Rightarrow> jset k d mapped)"

definition copy_usage_fields :: "json \<Rightarrow> string list \<Rightarrow> json \<Rightarrow> json" where
  "copy_usage_fields u reserved mapped = (case as_object u of
      None \<Rightarrow> mapped
    | Some kvs \<Rightarrow> copy_unknown_usage_fields kvs reserved mapped)"

definition responses_usage_fields :: "string list" where
  "responses_usage_fields =
     [''input_tokens'', ''prompt_tokens'', ''output_tokens'', ''completion_tokens'', ''total_tokens'',
      ''input_tokens_details'', ''prompt_tokens_details'', ''output_tokens_details'',
      ''completion_tokens_details'']"

definition responses_usage_to_openai_usage_stream :: "json \<Rightarrow> json" where
  "responses_usage_to_openai_usage_stream u =
     (let input_tokens = u64_or_zero (option_or (jget u ''input_tokens'') (jget u ''prompt_tokens''));
          output_tokens = u64_or_zero (option_or (jget u ''output_tokens'') (jget u ''completion_tokens''));
          total_tokens = unwrap_or (jget_u64 u ''total_tokens'') (u64_add input_tokens output_tokens)
      in copy_usage_fields u responses_usage_fields
           (set_details ''completion_tokens_details''
             (option_or (jget u ''output_tokens_details'') (jget u ''completion_tokens_details''))
             (set_details ''prompt_tokens_details''
               (option_or (jget u ''input_tokens_details'') (jget u ''prompt_tokens_details''))
               (jobj [(''prompt_tokens'', jnat input_tokens), (''completion_tokens'', jnat output_tokens),
                      (''total_tokens'', jnat total_tokens)]))))"

definition openai_usage_fields :: "string list" where
  "openai_usage_fields =
     [''prompt_tokens'', ''completion_tokens'', ''total_tokens'', ''prompt_tokens_details'',
      ''completion_tokens_details'']"

definition openai_usage_to_responses_usage_stream :: "json \<Rightarrow> json" where
  "openai_usage_to_responses_usage_stream u =
     (let input_tokens = u64_or_zero (jget u ''prompt_tokens'');
          output_tokens = u64_or_zero (jget u ''completion_tokens'');
          total_tokens = unwrap_or (jget_u64 u ''total_tokens'') (u64_add input_tokens output_tokens)
      in copy_usage_fields u openai_usage_fields
           (set_details ''output_tokens_details'' (jget u ''completion_tokens_details'')
             (set_details ''input_tokens_details'' (jget u ''prompt_tokens_details'')
               (jobj [(''input_tokens'', jnat input_tokens), (''output_tokens'', jnat output_tokens),
                      (''total_tokens'', jnat total_tokens)]))))"

section \<open>Chunks\<close>

text \<open>\<open>if let Some(x) = v { value[key] = x }\<close>.\<close>

definition set_str_if :: "string \<Rightarrow> string option \<Rightarrow> json \<Rightarrow> json" where
  "set_str_if k v w = (case v of None \<Rightarrow> w | Some x \<Rightarrow> jset k (JStr x) w)"

definition chunk_id_of :: "string option \<Rightarrow> string" where
  "chunk_id_of mid = (case mid of
      None \<Rightarrow> ''chatcmpl-0''
    | Some s \<Rightarrow> if starts_with ''chatcmpl-'' s then s else ''chatcmpl-'' @ s)"

text \<open>
  \<open>openai_chunk\<close>: \<open>finish_reason\<close> is written by \<open>json!\<close> and once more, with the same value, by the
  assignment after it.
\<close>

definition openai_chunk :: "env \<Rightarrow> stream_state \<Rightarrow> json \<Rightarrow> string option \<Rightarrow> json" where
  "openai_chunk E s delta fr = jobj
     [(''id'', JStr (chunk_id_of (message_id s))),
      (''object'', JStr ''chat.completion.chunk''),
      (''created'', jnat (unix_secs E)),
      (''model'', JStr (unwrap_or (model s) [])),
      (''choices'', JArr [jobj
         [(''index'', jnat 0), (''delta'', delta), (''finish_reason'', jopt_str fr)]])]"

definition emit_openai_assistant_role_if_needed :: "env \<Rightarrow> (stream_state, json) step" where
  "emit_openai_assistant_role_if_needed E s =
     (if openai_role_sent s then (s, [])
      else (s\<lparr>openai_role_sent := True\<rparr>,
            [openai_chunk E s (jobj [(''role'', JStr ''assistant'')]) None]))"

section \<open>Fatal rejection\<close>

definition mark_stream_fatal_rejection :: "string \<Rightarrow> stream_state \<Rightarrow> stream_state \<times> string" where
  "mark_stream_fatal_rejection raw s =
     (let message = sanitize_public_error_message raw
      in (if fatal_rejection s = None
          then s\<lparr>fatal_rejection := Some (StreamFatalRejection message)\<rparr> else s, message))"

definition set_usage_if :: "json option \<Rightarrow> json \<Rightarrow> json" where
  "set_usage_if u chunk = (case u of None \<Rightarrow> chunk | Some v \<Rightarrow> jset ''usage'' v chunk)"

definition reject_openai_stream ::
    "env \<Rightarrow> string \<Rightarrow> string \<Rightarrow> string \<Rightarrow> (stream_state, json) step" where
  "reject_openai_stream E error_type code raw s =
     (let (s1, message) = mark_stream_fatal_rejection raw s;
          s2 = s1\<lparr>finish_reason := Some ''error'', finish_reason_sent := True\<rparr>;
          chunk = set_usage_if (usage s2) (openai_chunk E s2 (jobj []) (Some ''error''));
          chunk' = jset ''error''
            (jobj [(''type'', JStr error_type), (''code'', JStr code), (''message'', JStr message)]) chunk
      in (s2, [chunk']))"

definition responses_response_id :: "stream_state \<Rightarrow> string option \<Rightarrow> string" where
  "responses_response_id s fallback =
     unwrap_or (option_or (responses_response_id_override s) fallback) ''resp_0''"

section \<open>The size of the state\<close>

definition value_bytes :: "env \<Rightarrow> json \<Rightarrow> nat" where
  "value_bytes E v = length (json_text E v)"

definition optional_string_len :: "string option \<Rightarrow> nat" where
  "optional_string_len v = (case v of None \<Rightarrow> 0 | Some s \<Rightarrow> length s)"

definition value_len :: "env \<Rightarrow> json option \<Rightarrow> nat" where
  "value_len E v = (case v of None \<Rightarrow> 0 | Some w \<Rightarrow> value_bytes E w)"

text \<open>\<open>sum::<usize>()\<close> wraps in a release build.\<close>

definition wrapping_sum :: "nat list \<Rightarrow> nat" where
  "wrapping_sum ns = sum_list ns mod 2 ^ 64"

definition sat_sum :: "nat list \<Rightarrow> nat \<Rightarrow> nat" where
  "sat_sum ns start = foldl sat_add start ns"

definition tool_call_bytes :: "env \<Rightarrow> tool_call_state \<Rightarrow> nat" where
  "tool_call_bytes E tc = sat_sum
     [length (tc_name tc), length (tc_arguments tc), value_len E (tc_marker tc),
      optional_string_len (tc_custom_input_text tc), optional_string_len (tc_tool_type tc),
      optional_string_len (tc_proxied_tool_kind tc), optional_string_len (tc_item_id tc)]
     (value_len E (tc_id tc))"

definition tool_use_bytes :: "env \<Rightarrow> claude_tool_use_state \<Rightarrow> nat" where
  "tool_use_bytes E tu = sat_sum
     [length (tu_name tu), length (tu_arguments tu), optional_string_len (tu_proxied_tool_kind tu)]
     (value_len E (tu_id tu))"

definition claude_block_bytes :: "env \<Rightarrow> claude_block_state \<Rightarrow> nat" where
  "claude_block_bytes E b = sat_sum
     [optional_string_len (cb_signature b), wrapping_sum (map (value_bytes E) (cb_annotations b))]
     (length (cb_thinking b))"

definition message_part_bytes :: "env \<Rightarrow> responses_message_part_state \<Rightarrow> nat" where
  "message_part_bytes E p =
     sat_add (length (mp_text p)) (wrapping_sum (map (value_bytes E) (mp_annotations p)))"

definition state_text_sizes :: "env \<Rightarrow> stream_state \<Rightarrow> nat list" where
  "state_text_sizes E s =
     [optional_string_len (message_id s), optional_string_len (model s), value_len E (bridge_context s),
      value_len E (usage s), optional_string_len (finish_reason s),
      optional_string_len (output_item_id s), length (responses_output_text s),
      optional_string_len (responses_reasoning_id s), length (responses_reasoning_text s),
      length (openai_seen_content s), length (openai_seen_refusal s), length (openai_seen_reasoning s),
      value_len E (openai_terminal_error s), optional_string_len (responses_response_id_override s),
      value_len E (responses_terminal_response s)]"

definition accumulated_bytes :: "env \<Rightarrow> stream_state \<Rightarrow> nat" where
  "accumulated_bytes E s = sat_sum
     (state_text_sizes E s
      @ map (\<lambda>(_, tc). tool_call_bytes E tc) (hm_entries E (openai_tool_calls s))
      @ map (\<lambda>(_, tu). tool_use_bytes E tu) (hm_entries E (claude_tool_uses s))
      @ map (\<lambda>(_, b). claude_block_bytes E b) (hm_entries E (claude_blocks s))
      @ map (\<lambda>p. optional_string_len (tp_signature p)) (claude_thinking_provenance s)
      @ map (message_part_bytes E) (responses_message_parts s)
      @ map (\<lambda>c. value_bytes E (cm_item c)) (responses_completed_message_items s)) 0"

section \<open>Text of an upstream that may repeat itself\<close>

text \<open>\<open>normalize_openai_stream_text\<close> of \<open>src/streaming/openai_sink.rs\<close>.\<close>

definition openai_stream_cumulative_probe :: nat where
  "openai_stream_cumulative_probe = 4096"

definition normalize_openai_stream_text :: "string \<Rightarrow> string \<Rightarrow> string option \<times> string" where
  "normalize_openai_stream_text incoming seen =
     (if incoming = [] then (None, seen)
      else if incoming = seen then (None, seen)
      else
        let seen_len = length seen;
            probe = min seen_len openai_stream_cumulative_probe;
            is_cumulative = length incoming > seen_len \<and> is_char_boundary incoming seen_len
              \<and> take probe incoming = take probe seen
        in if is_cumulative
           then let delta = drop seen_len incoming
                in (if delta = [] then None else Some delta, seen @ delta)
           else (Some incoming, seen @ incoming))"

section \<open>Properties\<close>

subsection \<open>Text\<close>

lemma normalize_seen: "normalize_openai_stream_text incoming seen = (d, seen') \<Longrightarrow> seen' = seen @ unwrap_or d []"
  by (auto simp: normalize_openai_stream_text_def Let_def split: if_splits)

lemma normalize_prefix:
  "is_char_boundary (seen @ new) (length seen) \<Longrightarrow>
   normalize_openai_stream_text (seen @ new) seen = (if new = [] then None else Some new, seen @ new)"
  by (cases "seen @ new = []") (auto simp: normalize_openai_stream_text_def Let_def)

text \<open>The deltas a sequence of incoming texts gives, one after the other.\<close>

fun normalize_all :: "string list \<Rightarrow> string \<Rightarrow> string list \<times> string" where
  "normalize_all [] seen = ([], seen)"
| "normalize_all (t # ts) seen =
     (let (d, seen') = normalize_openai_stream_text t seen;
          (ds, final) = normalize_all ts seen'
      in (unwrap_or d [] # ds, final))"

lemma normalize_all_seen: "normalize_all ts seen = (ds, final) \<Longrightarrow> final = seen @ concat ds"
proof (induction ts arbitrary: seen ds final)
  case (Cons t ts)
  obtain d seen' where d: "normalize_openai_stream_text t seen = (d, seen')"
    by (cases "normalize_openai_stream_text t seen")
  obtain es final' where e: "normalize_all ts seen' = (es, final')"
    by (cases "normalize_all ts seen'")
  from Cons.IH [OF e] normalize_seen [OF d] Cons.prems d e show ?case by auto
qed simp

text \<open>The texts of a cumulative sender: the whole text so far, cut between characters.\<close>

fun running_texts :: "string \<Rightarrow> string list \<Rightarrow> string list" where
  "running_texts seen [] = []"
| "running_texts seen (t # ts) = (seen @ t) # running_texts (seen @ t) ts"

fun cut_ok :: "string \<Rightarrow> string list \<Rightarrow> bool" where
  "cut_ok seen [] = True"
| "cut_ok seen (t # ts) = (is_char_boundary (seen @ t) (length seen) \<and> cut_ok (seen @ t) ts)"

lemma normalize_running:
  "cut_ok seen ts \<Longrightarrow> normalize_all (running_texts seen ts) seen = (ts, seen @ concat ts)"
  by (induction ts arbitrary: seen) (auto simp: normalize_prefix)

text \<open>
  What reaches the client is what was recorded as seen: from any state, the deltas sent for any
  sequence of incoming texts, put together, are exactly the growth of the seen text. For a sender
  that repeats the whole text each time, cut between characters, the deltas are exactly the new
  pieces, so the client assembles the sender's final text.
\<close>

theorem sent_text_is_seen_text:
  "snd (normalize_all ts seen) = seen @ concat (fst (normalize_all ts seen))
   \<and> (cut_ok seen ps \<longrightarrow> normalize_all (running_texts seen ps) seen = (ps, seen @ concat ps))"
proof
  obtain ds final where n: "normalize_all ts seen = (ds, final)" by (cases "normalize_all ts seen")
  from normalize_all_seen [OF n] n
  show "snd (normalize_all ts seen) = seen @ concat (fst (normalize_all ts seen))" by simp
  show "cut_ok seen ps \<longrightarrow> normalize_all (running_texts seen ps) seen = (ps, seen @ concat ps)"
    by (blast intro: normalize_running)
qed

theorem sent_text_is_seen_text_witness:
  "normalize_all (running_texts ''ab'' [''cd'', ''e'']) ''ab'' = ([''cd'', ''e''], ''abcde'')"
proof -
  have "cut_ok ''ab'' [''cd'', ''e'']" by code_simp
  with sent_text_is_seen_text [of "[]" "''ab''" "[''cd'', ''e'']"]
  have "normalize_all (running_texts ''ab'' [''cd'', ''e'']) ''ab''
      = ([''cd'', ''e''], ''ab'' @ concat [''cd'', ''e''])" by blast
  then show ?thesis by simp
qed

text \<open>
  A delta of an incremental sender that is not taken for a repetition: it does not start with the
  (probed part of the) text so far, or it is no longer than it and differs from it.
\<close>

definition fresh_delta :: "string \<Rightarrow> string \<Rightarrow> bool" where
  "fresh_delta seen t =
     (seen = [] \<or> t = [] \<or> \<not> starts_with (take openai_stream_cumulative_probe seen) t
      \<or> (length t \<le> length seen \<and> t \<noteq> seen))"

fun fresh_deltas :: "string \<Rightarrow> string list \<Rightarrow> bool" where
  "fresh_deltas seen [] = True"
| "fresh_deltas seen (t # ts) = (fresh_delta seen t \<and> fresh_deltas (seen @ t) ts)"

lemma normalize_fresh:
  assumes "fresh_delta seen t"
  shows "normalize_openai_stream_text t seen = (if t = [] then None else Some t, seen @ t)"
proof (cases "seen = [] \<or> t = []")
  case True
  then show ?thesis by (auto simp: normalize_openai_stream_text_def Let_def)
next
  case False
  have m: "take (min (length seen) openai_stream_cumulative_probe) seen
      = take openai_stream_cumulative_probe seen" by (simp add: min_def)
  have "starts_with (take openai_stream_cumulative_probe seen) t"
    if "take (min (length seen) openai_stream_cumulative_probe) t
        = take (min (length seen) openai_stream_cumulative_probe) seen"
    using that m by (simp add: starts_with_def)
  moreover have "t \<noteq> seen"
    using assms False m by (auto simp: fresh_delta_def starts_with_def)
  ultimately show ?thesis
    using assms False by (auto simp: normalize_openai_stream_text_def Let_def fresh_delta_def)
qed

text \<open>
  The other side of the heuristic: an incremental sender's deltas are passed on unchanged as long
  as none of them is taken for a repetition of the text so far (\<open>fresh_deltas\<close>); but a delta that is
  equal to the whole text so far is always dropped, so a stream \<open>ha\<close>, \<open>ha\<close> reaches the client as
  \<open>ha\<close>.
\<close>

theorem incremental_text:
  "(fresh_deltas seen ts \<longrightarrow> normalize_all ts seen = (ts, seen @ concat ts))
   \<and> normalize_openai_stream_text t t = (None, t)"
proof
  have "fresh_deltas seen ts \<Longrightarrow> normalize_all ts seen = (ts, seen @ concat ts)"
    by (induction ts arbitrary: seen) (auto simp: normalize_fresh)
  then show "fresh_deltas seen ts \<longrightarrow> normalize_all ts seen = (ts, seen @ concat ts)" by blast
  show "normalize_openai_stream_text t t = (None, t)"
    by (simp add: normalize_openai_stream_text_def)
qed

theorem incremental_text_witness:
  "normalize_all [''Hi'', '' there'', ''!''] [] = ([''Hi'', '' there'', ''!''], ''Hi there!'')"
proof -
  have "fresh_deltas [] [''Hi'', '' there'', ''!'']" by code_simp
  with incremental_text [of "[]" "[''Hi'', '' there'', ''!'']"]
  have "normalize_all [''Hi'', '' there'', ''!''] []
      = ([''Hi'', '' there'', ''!''], [] @ concat [''Hi'', '' there'', ''!''])" by blast
  then show ?thesis by simp
qed

subsection \<open>The bridged arguments of a custom tool, piece by piece\<close>

text \<open>
  What the printer and the reader of JSON are relied on for here: the escaped text of a
  concatenation is the concatenation of the escaped texts, and an object with one escaped string
  reads back.
\<close>

definition escapes_piecewise :: "env \<Rightarrow> bool" where
  "escapes_piecewise E =
     ((\<forall>a b. escape_json_string_content_stream E (a @ b)
         = escape_json_string_content_stream E a @ escape_json_string_content_stream E b)
      \<and> (\<forall>s. json_parse E (''{\"input\":\"'' @ escape_json_string_content_stream E s @ ''\"}'')
         = Some (JObj [(''input'', JStr s)])))"

lemma escape_append:
  "escapes_piecewise E \<Longrightarrow> escape_json_string_content_stream E (a @ b)
     = escape_json_string_content_stream E a @ escape_json_string_content_stream E b"
  by (simp add: escapes_piecewise_def)

lemma bridge_text_decodes:
  "escapes_piecewise E \<Longrightarrow>
   openai_custom_bridge_decode_arguments_stream E
     (openai_custom_bridge_start_delta_stream E input @ openai_custom_bridge_done_delta_stream) = Some input"
  by (simp add: escapes_piecewise_def openai_custom_bridge_decode_arguments_stream_def
      openai_custom_bridge_start_delta_stream_def openai_custom_bridge_done_delta_stream_def)

lemma bridge_start_append:
  "escapes_piecewise E \<Longrightarrow>
   openai_custom_bridge_start_delta_stream E a @ openai_custom_bridge_input_delta_stream E b
     = openai_custom_bridge_start_delta_stream E (a @ b)"
  by (simp add: openai_custom_bridge_start_delta_stream_def escape_append
      openai_custom_bridge_input_delta_stream_def)

subsection \<open>Bounds\<close>

lemma sat_sum_eq: "start \<le> u64_max \<Longrightarrow> sat_sum ns start = min (start + sum_list ns) u64_max"
proof (induction ns arbitrary: start)
  case (Cons n ns)
  have "sat_sum (n # ns) start = sat_sum ns (sat_add start n)" by (simp add: sat_sum_def)
  also have "\<dots> = min (sat_add start n + sum_list ns) u64_max"
    by (rule Cons.IH) (rule sat_add_le)
  finally show ?case by (simp add: sat_add_def)
qed (simp add: sat_sum_def)

lemma accumulated_bytes_bound:
  assumes "accumulated_bytes E s \<le> m" and "m < u64_max"
  shows "\<forall>n \<in> set (state_text_sizes E s). n \<le> m"
proof
  fix n assume n: "n \<in> set (state_text_sizes E s)"
  from assms have "sum_list (state_text_sizes E s) \<le> m"
    by (simp add: accumulated_bytes_def sat_sum_eq)
  with member_le_sum_list [OF n] show "n \<le> m" by simp
qed

lemma accumulated_bytes_le: "accumulated_bytes E s \<le> u64_max"
  by (simp add: accumulated_bytes_def sat_sum_eq)

subsection \<open>Usage\<close>

lemma jget_copy_unknown:
  "is_object target \<Longrightarrow>
   jget (copy_unknown_usage_fields kvs reserved target) k =
     (case jget target k of Some x \<Rightarrow> Some x
      | None \<Rightarrow> if k \<in> set reserved then None else map_of kvs k)
   \<and> is_object (copy_unknown_usage_fields kvs reserved target)"
proof (induction kvs arbitrary: target)
  case (Cons kv kvs)
  obtain k' v where kv: "kv = (k', v)" by (cases kv)
  show ?case
  proof (cases "k' \<in> set reserved \<or> jget target k' \<noteq> None")
    case True
    with Cons.IH [OF Cons.prems] show ?thesis by (auto simp: kv split: option.splits)
  next
    case False
    have "is_object (jset k' v target)" using Cons.prems by simp
    from Cons.IH [OF this] False Cons.prems show ?thesis
      by (auto simp: kv split: option.splits)
  qed
qed (auto split: option.split)

lemma jget_copy_usage:
  assumes "is_object target"
  shows "jget (copy_usage_fields u reserved target) k =
     (case jget target k of Some x \<Rightarrow> Some x
      | None \<Rightarrow> if k \<in> set reserved then None else jget u k)"
  using jget_copy_unknown [OF assms]
  by (cases u) (auto simp: copy_usage_fields_def split: option.split)

lemma jget_set_details:
  "is_object v \<Longrightarrow> jget (set_details k d v) k' =
     (if k' = k \<and> clone_usage_details_object_stream d \<noteq> None
      then clone_usage_details_object_stream d else jget v k')
   \<and> is_object (set_details k d v)"
  by (auto simp: set_details_def split: option.split)

lemmas jget_usage = jget_copy_usage jget_set_details responses_usage_to_openai_usage_stream_def
  openai_usage_to_responses_usage_stream_def responses_usage_fields_def openai_usage_fields_def
  Let_def u64_or_zero_def jget_u64_def

text \<open>
  Token counts survive the trip from a Responses upstream through the Chat Completions form to a
  Responses or an Anthropic client: the counts are the upstream's (0 where it gives none), the total
  is the upstream's or their sum modulo \<open>2 ^ 64\<close>, and a field the proxy does not know is copied
  unchanged.
\<close>

theorem usage_survives:
  "let chat = responses_usage_to_openai_usage_stream u;
       back = openai_usage_to_responses_usage_stream chat;
       claude = openai_usage_to_anthropic_usage_stream chat;
       inp = u64_or_zero (option_or (jget u ''input_tokens'') (jget u ''prompt_tokens''));
       outp = u64_or_zero (option_or (jget u ''output_tokens'') (jget u ''completion_tokens''))
   in map (jget_u64 chat) [''prompt_tokens'', ''completion_tokens''] = [Some inp, Some outp]
      \<and> map (jget_u64 back) [''input_tokens'', ''output_tokens'', ''total_tokens'']
        = [Some inp, Some outp, Some (unwrap_or (jget_u64 u ''total_tokens'') (u64_add inp outp))]
      \<and> map (jget_u64 claude) [''input_tokens'', ''output_tokens''] = [Some inp, Some outp]
      \<and> jget back (''x_'' @ field) = jget u (''x_'' @ field)"
  by (simp add: jget_usage openai_usage_to_anthropic_usage_stream_def)

end
