(* ===== verification/Source_Contracts.thy ===== *)
theory Source_Contracts
  imports Stream_State
begin

text \<open>
  What a client reads off a Chat Completions chunk, and the contracts of both source sides: the
  assistant role is announced at most once, a stream ends with at most one regular finish chunk and at
  most one error chunk. The contracts are interpretations of the locale \<open>latch\<close> on the flags of the
  stream state; here they are proved for the helpers both sources share.
\<close>

section \<open>Reading a chunk\<close>

definition chunk_choice :: "json \<Rightarrow> json" where
  "chunk_choice c = (case jget c ''choices'' of Some (JArr (x # _)) \<Rightarrow> x | _ \<Rightarrow> JNull)"

definition chunk_delta :: "json \<Rightarrow> json" where
  "chunk_delta c = unwrap_or (jget (chunk_choice c) ''delta'') JNull"

definition chunk_finish :: "json \<Rightarrow> string option" where
  "chunk_finish c = jget_str (chunk_choice c) ''finish_reason''"

definition is_role_chunk :: "json \<Rightarrow> bool" where
  "is_role_chunk c = (jget (chunk_delta c) ''role'' \<noteq> None)"

definition is_error_chunk :: "json \<Rightarrow> bool" where
  "is_error_chunk c = (jget c ''error'' \<noteq> None)"

definition is_finish_chunk :: "json \<Rightarrow> bool" where
  "is_finish_chunk c = (chunk_finish c \<noteq> None \<and> \<not> is_error_chunk c)"

lemma openai_chunk_is_object [simp]: "is_object (openai_chunk E s d fr)"
  by (simp add: openai_chunk_def)

lemma set_usage_is_object [simp]: "is_object c \<Longrightarrow> is_object (set_usage_if u c)"
  by (simp add: set_usage_if_def split: option.split)

lemma jget_set_usage:
  "is_object c \<Longrightarrow> k \<noteq> ''usage'' \<Longrightarrow> jget (set_usage_if u c) k = jget c k"
  by (simp add: set_usage_if_def split: option.split)

lemma chunk_choice_set [simp]:
  "is_object c \<Longrightarrow> k \<noteq> ''choices'' \<Longrightarrow> chunk_choice (jset k v c) = chunk_choice c"
  "is_object c \<Longrightarrow> chunk_choice (set_usage_if u c) = chunk_choice c"
  by (simp_all add: chunk_choice_def jget_set_usage)

lemma chunk_choice_openai:
  "chunk_choice (openai_chunk E s d fr)
     = jobj [(''index'', jnat 0), (''delta'', d), (''finish_reason'', jopt_str fr)]"
  by (simp add: chunk_choice_def openai_chunk_def)

lemma chunk_delta_openai [simp]: "chunk_delta (openai_chunk E s d fr) = d"
  by (simp add: chunk_delta_def chunk_choice_openai)

lemma chunk_delta_set [simp]:
  "is_object c \<Longrightarrow> k \<noteq> ''choices'' \<Longrightarrow> chunk_delta (jset k v c) = chunk_delta c"
  "is_object c \<Longrightarrow> chunk_delta (set_usage_if u c) = chunk_delta c"
  by (simp_all add: chunk_delta_def)

lemma chunk_finish_openai [simp]: "chunk_finish (openai_chunk E s d fr) = fr"
  by (simp add: chunk_finish_def chunk_choice_openai jget_str_def jopt_str_def split: option.split)

lemma chunk_finish_set [simp]:
  "is_object c \<Longrightarrow> k \<noteq> ''choices'' \<Longrightarrow> chunk_finish (jset k v c) = chunk_finish c"
  "is_object c \<Longrightarrow> chunk_finish (set_usage_if u c) = chunk_finish c"
  by (simp_all add: chunk_finish_def)

lemma is_error_openai [simp]: "\<not> is_error_chunk (openai_chunk E s d fr)"
  by (simp add: is_error_chunk_def openai_chunk_def)

lemma is_error_set [simp]:
  "is_object c \<Longrightarrow> is_error_chunk (jset k v c) = (k = ''error'' \<or> is_error_chunk c)"
  "is_object c \<Longrightarrow> is_error_chunk (set_usage_if u c) = is_error_chunk c"
  by (simp_all add: is_error_chunk_def jget_set_usage)

lemmas chunk_kind_defs = is_role_chunk_def is_finish_chunk_def

section \<open>The latches\<close>

text \<open>
  Fatal rejections: marked is a chunk with an error, the flag is \<open>fatal_rejection\<close>. A finish chunk is
  a chunk with a finish reason and no error; its flag is \<open>finish_reason_sent\<close>.
\<close>

definition rejected :: "stream_state \<Rightarrow> bool" where
  "rejected s = (fatal_rejection s \<noteq> None)"

interpretation role: latch openai_role_sent is_role_chunk .
interpretation finish: latch finish_reason_sent is_finish_chunk .

abbreviation role_once :: "(stream_state, json) step \<Rightarrow> bool" where
  "role_once \<equiv> sat (latched openai_role_sent is_role_chunk)"

abbreviation finish_once :: "(stream_state, json) step \<Rightarrow> bool" where
  "finish_once \<equiv> sat (latched finish_reason_sent is_finish_chunk)"

lemma role_emit_role_once: "role_once (emit_openai_assistant_role_if_needed E)"
  by (rule satI) (simp add: emit_openai_assistant_role_if_needed_def latched_def)

abbreviation finish_quiet :: "(stream_state, json) step \<Rightarrow> bool" where
  "finish_quiet \<equiv> sat (silent finish_reason_sent is_finish_chunk)"

lemma role_emit_finish_quiet: "finish_quiet (emit_openai_assistant_role_if_needed E)"
  by (rule satI) (simp add: emit_openai_assistant_role_if_needed_def chunk_kind_defs silent_def)

lemma mark_fatal_eq [simp]:
  "openai_role_sent (fst (mark_stream_fatal_rejection raw s)) = openai_role_sent s"
  "rejected (fst (mark_stream_fatal_rejection raw s))"
  "openai_tool_calls (fst (mark_stream_fatal_rejection raw s)) = openai_tool_calls s"
  "claude_tool_uses (fst (mark_stream_fatal_rejection raw s)) = claude_tool_uses s"
  by (simp_all add: mark_stream_fatal_rejection_def rejected_def Let_def)

lemma reject_role_once: "role_once (reject_openai_stream E ty code message)"
  by (rule role.silent_sat)
    (simp add: reject_openai_stream_def case_prod_unfold Let_def chunk_kind_defs)

lemma reject_finish_once: "finish_once (reject_openai_stream E ty code message)"
  by (rule satI) (simp add: reject_openai_stream_def case_prod_unfold Let_def chunk_kind_defs latched_def)

lemma reject_result:
  "rejected (fst (reject_openai_stream E ty code message s))
   \<and> (\<exists>c. snd (reject_openai_stream E ty code message s) = [c] \<and> is_error_chunk c
        \<and> chunk_finish c = Some ''error'')"
  by (simp add: reject_openai_stream_def rejected_def mark_stream_fatal_rejection_def Let_def)

text \<open>A step that emits a chunk of its own and touches neither flag.\<close>

lemma plain_chunk_role_once:
  "(\<And>s. jget (d s) ''role'' = None) \<Longrightarrow> role_once (emit (\<lambda>s. openai_chunk E s (d s) fr))"
  by (rule role.silent_sat) (simp add: emit_def chunk_kind_defs)

lemma plain_chunk_finish_quiet: "finish_quiet (emit (\<lambda>s. openai_chunk E s (d s) None))"
  by (rule satI) (simp add: emit_def chunk_kind_defs silent_def)

lemma modify_role_once:
  "(\<And>s. openai_role_sent (f s) = openai_role_sent s) \<Longrightarrow> role_once (modify f)"
  by (rule role.silent_sat) (simp add: modify_def)

lemma modify_finish_quiet:
  "(\<And>s. finish_reason_sent (f s) = finish_reason_sent s) \<Longrightarrow> finish_quiet (modify f)"
  by (rule satI) (simp add: modify_def silent_def)

lemmas role_once_intros = flow_intros role.skip_sat role.only_if_sat role.run_steps_sat role.for_each_sat
  role.reading_sat_all role_emit_role_once reject_role_once plain_chunk_role_once modify_role_once

lemmas finish_quiet_intros = flow_intros finish.quiet.skip_sat finish.quiet.only_if_sat
  finish.quiet.run_steps_sat finish.quiet.for_each_sat finish.quiet.reading_sat_all
  role_emit_finish_quiet plain_chunk_finish_quiet modify_finish_quiet

lemmas finish_once_intros = flow_intros finish.skip_sat finish.only_if_sat finish.run_steps_sat
  finish.for_each_sat finish.reading_sat_all reject_finish_once
  finish.silent_latched [OF role_emit_finish_quiet] finish.silent_latched [OF plain_chunk_finish_quiet]
  finish.silent_latched [OF modify_finish_quiet]

section \<open>Errors\<close>

interpretation error: latch rejected is_error_chunk .

abbreviation error_quiet :: "(stream_state, json) step \<Rightarrow> bool" where
  "error_quiet \<equiv> sat (silent rejected is_error_chunk)"

abbreviation error_once :: "(stream_state, json) step \<Rightarrow> bool" where
  "error_once \<equiv> sat_from (\<lambda>s. \<not> rejected s) (latched rejected is_error_chunk)"

lemma role_emit_error_quiet: "error_quiet (emit_openai_assistant_role_if_needed E)"
  by (rule satI) (simp add: emit_openai_assistant_role_if_needed_def silent_def rejected_def)

lemma plain_chunk_error_quiet: "error_quiet (emit (\<lambda>s. openai_chunk E s (d s) (fr s)))"
  by (rule satI) (simp add: emit_def silent_def)

lemma modify_error_quiet: "(\<And>s. fatal_rejection (f s) = fatal_rejection s) \<Longrightarrow> error_quiet (modify f)"
  by (rule satI) (simp add: modify_def silent_def rejected_def)

lemma reject_error_once: "error_once (reject_openai_stream E ty code message)"
  unfolding sat_from_def
proof (intro allI impI)
  fix s assume "\<not> rejected s"
  with reject_result [of E ty code message s]
  show "latched rejected is_error_chunk s (snd (reject_openai_stream E ty code message s))
      (fst (reject_openai_stream E ty code message s))"
    by (auto simp: latched_def)
qed

lemma quiet_error_once: "error_quiet f \<Longrightarrow> error_once f"
  by (rule sat_from_sat) (rule error.silent_latched)

lemmas error_quiet_intros = flow_intros error.quiet.skip_sat error.quiet.only_if_sat
  error.quiet.run_steps_sat error.quiet.for_each_sat error.quiet.reading_sat_all
  role_emit_error_quiet plain_chunk_error_quiet modify_error_quiet

section \<open>Tool calls in a chunk\<close>

text \<open>Every tool call of the chunk carries the whole text of a JSON object as its arguments.\<close>

definition chunk_tool_calls :: "json \<Rightarrow> json list" where
  "chunk_tool_calls c = unwrap_or (Option.bind (jget (chunk_delta c) ''tool_calls'') as_array) []"

definition call_arguments :: "json \<Rightarrow> string option" where
  "call_arguments tc = ostr (ogetj (jget tc ''function'') ''arguments'')"

lemma chunk_tool_calls_openai [simp]:
  "chunk_tool_calls (openai_chunk E s d fr) = unwrap_or (Option.bind (jget d ''tool_calls'') as_array) []"
  by (simp add: chunk_tool_calls_def)

lemma chunk_tool_calls_set [simp]:
  "is_object c \<Longrightarrow> k \<noteq> ''choices'' \<Longrightarrow> chunk_tool_calls (jset k v c) = chunk_tool_calls c"
  "is_object c \<Longrightarrow> chunk_tool_calls (set_usage_if u c) = chunk_tool_calls c"
  by (simp_all add: chunk_tool_calls_def)

lemma reject_no_tools:
  "chunk_tool_calls ` set (snd (reject_openai_stream E ty code message s)) = {[]}"
  by (simp add: reject_openai_stream_def case_prod_unfold Let_def)

end
