(* ===== verification/Anthropic_Source.thy ===== *)
theory Anthropic_Source
  imports Source_Contracts
begin

text \<open>
  The source side for an Anthropic upstream (\<open>src/streaming/anthropic_source.rs\<close>): every event of a
  Messages stream becomes Chat Completions chunks. One definition per event; a rejection replaces the
  whole output of its event.
\<close>

section \<open>Tool use blocks\<close>

definition raw_json_is_valid_object :: "env \<Rightarrow> string \<Rightarrow> bool" where
  "raw_json_is_valid_object E raw =
     (trim raw \<noteq> [] \<and> (case json_parse E raw of Some v \<Rightarrow> is_object v | None \<Rightarrow> False))"

definition partial_replay_text :: "string \<Rightarrow> string \<Rightarrow> string" where
  "partial_replay_text name raw =
     (let trimmed = trim raw in
      if trimmed = [] then ''Tool call `'' @ name @ ''` had incomplete arguments.''
      else ''Tool call `'' @ name @ ''` with partial arguments: '' @ trimmed)"

definition emit_claude_reasoning_delta :: "env \<Rightarrow> string \<Rightarrow> (stream_state, json) step" where
  "emit_claude_reasoning_delta E reasoning = only_if (reasoning \<noteq> []) (run_steps
     [emit_openai_assistant_role_if_needed E,
      emit (\<lambda>s. openai_chunk E s (jobj [(''reasoning_content'', JStr reasoning)]) None)])"

definition structured_tool_call :: "nat \<Rightarrow> json option \<Rightarrow> string \<Rightarrow> string \<Rightarrow> string option \<Rightarrow> json" where
  "structured_tool_call idx call_id name arguments kind = set_str_if ''proxied_tool_kind'' kind
     (jobj [(''index'', jnat idx), (''id'', jopt call_id), (''type'', JStr ''function''),
            (''function'', jobj [(''name'', JStr name), (''arguments'', JStr arguments)])])"

definition emit_structured_claude_tool_use_delta ::
    "env \<Rightarrow> nat \<Rightarrow> json option \<Rightarrow> string \<Rightarrow> string \<Rightarrow> string option \<Rightarrow> (stream_state, json) step" where
  "emit_structured_claude_tool_use_delta E idx call_id name arguments kind =
     only_if (arguments \<noteq> []) (run_steps
       [emit_openai_assistant_role_if_needed E,
        emit (\<lambda>s. openai_chunk E s
          (jobj [(''tool_calls'', JArr [structured_tool_call idx call_id name arguments kind])]) None)])"

text \<open>What the block's arguments are in the end: the text of a JSON object, or \<open>None\<close>.\<close>

definition final_tool_use_arguments :: "env \<Rightarrow> claude_tool_use_state \<Rightarrow> string option" where
  "final_tool_use_arguments E tu =
     (if tu_zero_arg_candidate tu \<and> \<not> tu_saw_input_json_delta tu \<and> trim (tu_arguments tu) = []
      then Some ''{}''
      else if raw_json_is_valid_object E (tu_arguments tu) then Some (tu_arguments tu)
      else None)"

definition update_tool_use ::
    "nat \<Rightarrow> (claude_tool_use_state \<Rightarrow> claude_tool_use_state) \<Rightarrow> stream_state \<Rightarrow> stream_state" where
  "update_tool_use i f s = s\<lparr>claude_tool_uses := hm_modify i f (claude_tool_uses s)\<rparr>"

definition finalize_claude_tool_use_block :: "env \<Rightarrow> nat \<Rightarrow> (stream_state, json) step" where
  "finalize_claude_tool_use_block E i = reading (\<lambda>s. case hm_get (claude_tool_uses s) i of
      None \<Rightarrow> skip
    | Some tu \<Rightarrow>
        if tu_finalized tu then skip
        else (case final_tool_use_arguments E tu of
          Some arguments \<Rightarrow>
            if \<not> tu_start_arguments_emitted tu
            then run_steps
              [emit_structured_claude_tool_use_delta E (tu_openai_index tu) (tu_id tu) (tu_name tu)
                 arguments (tu_proxied_tool_kind tu),
               modify (update_tool_use i (\<lambda>tu. tu
                 \<lparr>tu_arguments := arguments, tu_zero_arg_candidate := False,
                  tu_start_arguments_emitted := True, tu_seeded_from_start := False,
                  tu_finalized := True\<rparr>))]
            else modify (update_tool_use i (\<lambda>tu. tu
                 \<lparr>tu_zero_arg_candidate := False, tu_seeded_from_start := False,
                  tu_finalized := True\<rparr>))
        | None \<Rightarrow> run_steps
            [emit_openai_assistant_role_if_needed E,
             emit (\<lambda>s. openai_chunk E s
               (jobj [(''content'', JStr (partial_replay_text (tu_name tu) (tu_arguments tu)))]) None),
             modify (update_tool_use i (\<lambda>tu. tu
               \<lparr>tu_zero_arg_candidate := False, tu_finalized := True,
                tu_seeded_from_start := False\<rparr>))]))"

section \<open>Events\<close>

definition reject_anthropic :: "env \<Rightarrow> string \<Rightarrow> (stream_state, json) step" where
  "reject_anthropic E message =
     reject_openai_stream E ''invalid_request_error'' ''unsupported_anthropic_stream_event'' message"

definition claude_message_start :: "env \<Rightarrow> json \<Rightarrow> (stream_state, json) step" where
  "claude_message_start E event = run_steps
     [modify (\<lambda>s. s
        \<lparr>message_id := ostr (ogetj (jget event ''message'') ''id''),
         model := ostr (ogetj (jget event ''message'') ''model''),
         claude_tool_use_index := 0, claude_tool_uses := [], claude_blocks := [],
         claude_thinking_provenance := []\<rparr>),
      emit_openai_assistant_role_if_needed E]"

definition claude_text_start :: "nat \<Rightarrow> (stream_state, json) step" where
  "claude_text_start idx = modify (\<lambda>s. s
     \<lparr>claude_blocks := hm_insert idx (default_claude_block\<lparr>cb_kind := Some TextBlock\<rparr>) (claude_blocks s),
      text_block_started := True\<rparr>)"

definition claude_thinking_start :: "env \<Rightarrow> json \<Rightarrow> json \<Rightarrow> nat \<Rightarrow> (stream_state, json) step" where
  "claude_thinking_start E event block idx =
     (let seeded = unwrap_or (jget_str block ''thinking'') [];
          omitted = (ostr (option_or (ogetj (jget block ''thinking'') ''display'') (jget block ''display''))
                      = Some ''omitted'')
      in run_steps
        [modify (\<lambda>s. s\<lparr>claude_blocks := hm_insert idx
           (default_claude_block\<lparr>cb_kind := Some ThinkingBlock, cb_signature := jget_str block ''signature'',
              cb_omitted := omitted\<rparr>) (claude_blocks s)\<rparr>),
         only_if (\<not> omitted) (emit_claude_reasoning_delta E seeded),
         modify (\<lambda>s. s\<lparr>in_thinking_block := True, current_block_index := jget_u64 event ''index''\<rparr>)])"

definition serialized_tool_input :: "env \<Rightarrow> json \<Rightarrow> string" where
  "serialized_tool_input E block = (case jget block ''input'' of
      None \<Rightarrow> []
    | Some input \<Rightarrow>
        if is_null input \<or> json_text E input = ''null'' then [] else json_text E input)"

definition claude_tool_use_start :: "env \<Rightarrow> json \<Rightarrow> nat \<Rightarrow> bool \<Rightarrow> (stream_state, json) step" where
  "claude_tool_use_start E block idx server = modify (\<lambda>s.
     let serialized = serialized_tool_input E block;
         zero_arg = (serialized = ''{}'');
         seeded = (if zero_arg then [] else serialized)
     in s\<lparr>claude_tool_use_index := Suc (claude_tool_use_index s),
          claude_blocks := hm_insert idx
            (default_claude_block\<lparr>cb_kind := Some (if server then ServerToolUseBlock else ToolUseBlock)\<rparr>)
            (claude_blocks s),
          claude_tool_uses := hm_insert idx
            \<lparr>tu_openai_index = claude_tool_use_index s, tu_id = jget block ''id'',
             tu_name = unwrap_or (jget_str block ''name'') [], tu_arguments = seeded,
             tu_proxied_tool_kind = (if server then Some ''anthropic_server_tool_use'' else None),
             tu_zero_arg_candidate = zero_arg, tu_saw_input_json_delta = False,
             tu_seeded_from_start = (seeded \<noteq> []), tu_start_arguments_emitted = False,
             tu_finalized = False\<rparr>
            (claude_tool_uses s)\<rparr>)"

definition claude_content_block_start :: "env \<Rightarrow> json \<Rightarrow> (stream_state, json) step" where
  "claude_content_block_start E event =
     (let block = jget event ''content_block''; idx = unwrap_or (jget_u64 event ''index'') 0 in
      case ostr (ogetj block ''type'') of
        None \<Rightarrow> reject_anthropic E
          ''Anthropic content block start event is missing a block type.''
      | Some ty \<Rightarrow>
          if ty = ''text'' then claude_text_start idx
          else if ty = ''thinking'' then claude_thinking_start E event (unwrap_or block JNull) idx
          else if ty = ''tool_use'' \<or> ty = ''server_tool_use''
            then claude_tool_use_start E (unwrap_or block JNull) idx (ty = ''server_tool_use'')
          else reject_anthropic E
            (if ty = ''server_tool_result''
             then ''Anthropic server_tool_result blocks cannot be translated losslessly.''
             else ''Anthropic content block type `'' @ ty @ ''` cannot be translated losslessly.''))"

text \<open>
  A delta that is only valid for a block of one kind: the index must be present, the block known and
  of that kind.
\<close>

definition with_block ::
    "env \<Rightarrow> string \<Rightarrow> claude_block_kind \<Rightarrow> string \<Rightarrow> nat option
     \<Rightarrow> (nat \<Rightarrow> claude_block_state \<Rightarrow> (stream_state, json) step) \<Rightarrow> (stream_state, json) step" where
  "with_block E delta_ty kind kinds idx f = reading (\<lambda>s. case idx of
      None \<Rightarrow> reject_anthropic E (''Anthropic '' @ delta_ty @ '' is missing a block index.'')
    | Some i \<Rightarrow> (case hm_get (claude_blocks s) i of
        None \<Rightarrow> reject_anthropic E (''Anthropic '' @ delta_ty @ '' referenced an unknown block.'')
      | Some b \<Rightarrow>
          if cb_kind b \<noteq> Some kind
          then reject_anthropic E
            (''Anthropic '' @ delta_ty @ '' is only valid for '' @ kinds @ '' blocks.'')
          else f i b))"

definition update_block :: "nat \<Rightarrow> (claude_block_state \<Rightarrow> claude_block_state) \<Rightarrow> stream_state \<Rightarrow> stream_state" where
  "update_block i f s = s\<lparr>claude_blocks := hm_modify i f (claude_blocks s)\<rparr>"

definition claude_text_delta :: "env \<Rightarrow> json option \<Rightarrow> (stream_state, json) step" where
  "claude_text_delta E delta = (case ostr (ogetj delta ''text'') of
      None \<Rightarrow> skip
    | Some t \<Rightarrow> only_if (t \<noteq> []) (run_steps
        [emit_openai_assistant_role_if_needed E,
         emit (\<lambda>s. openai_chunk E s (jobj [(''content'', JStr t)]) None)]))"

definition claude_thinking_delta :: "env \<Rightarrow> json option \<Rightarrow> nat \<Rightarrow> claude_block_state \<Rightarrow> (stream_state, json) step" where
  "claude_thinking_delta E delta i b = (case ostr (ogetj delta ''thinking'') of
      None \<Rightarrow> skip
    | Some t \<Rightarrow> only_if (t \<noteq> [])
        (if cb_omitted b
         then modify (update_block i (\<lambda>b. b\<lparr>cb_thinking := cb_thinking b @ t\<rparr>))
         else emit_claude_reasoning_delta E t))"

text \<open>The argument text of a tool use after one more piece of it.\<close>

definition append_partial_json :: "env \<Rightarrow> string \<Rightarrow> claude_tool_use_state \<Rightarrow> claude_tool_use_state" where
  "append_partial_json E pj tu =
     (let tu' = tu\<lparr>tu_zero_arg_candidate := False\<rparr> in
      if tu_seeded_from_start tu' \<and> tu_arguments tu' \<noteq> []
      then tu'\<lparr>tu_arguments := merge_seeded_tool_arguments E (tu_arguments tu') pj,
               tu_seeded_from_start := False\<rparr>
      else tu'\<lparr>tu_arguments := tu_arguments tu' @ pj\<rparr>)"

definition claude_input_json_delta :: "env \<Rightarrow> json option \<Rightarrow> nat option \<Rightarrow> (stream_state, json) step" where
  "claude_input_json_delta E delta idx = (case idx of
      None \<Rightarrow> skip
    | Some i \<Rightarrow> run_steps
        [modify (update_tool_use i (\<lambda>tu. tu\<lparr>tu_saw_input_json_delta := True\<rparr>)),
         (case ostr (ogetj delta ''partial_json'') of
            None \<Rightarrow> skip
          | Some pj \<Rightarrow> modify (update_tool_use i (append_partial_json E pj)))])"

definition claude_signature_delta :: "json option \<Rightarrow> nat \<Rightarrow> (stream_state, json) step" where
  "claude_signature_delta delta i = (case ostr (ogetj delta ''signature'') of
      None \<Rightarrow> skip
    | Some signature \<Rightarrow> modify (update_block i (\<lambda>b. b\<lparr>cb_signature := Some signature\<rparr>)))"

definition delta_citations :: "json option \<Rightarrow> json list" where
  "delta_citations delta =
     unwrap_or (Option.bind (ogetj delta ''citations'') as_array) []
     @ (case ogetj delta ''citation'' of None \<Rightarrow> [] | Some c \<Rightarrow> [c])"

definition claude_citations_delta :: "env \<Rightarrow> json option \<Rightarrow> nat \<Rightarrow> (stream_state, json) step" where
  "claude_citations_delta E delta i =
     (let annotations = delta_citations delta in
      only_if (annotations \<noteq> []) (run_steps
        [modify (update_block i (\<lambda>b. b\<lparr>cb_annotations := cb_annotations b @ annotations\<rparr>)),
         emit_openai_assistant_role_if_needed E,
         emit (\<lambda>s. openai_chunk E s (jobj [(''annotations'', JArr annotations)]) None)]))"

definition claude_content_block_delta :: "env \<Rightarrow> json \<Rightarrow> (stream_state, json) step" where
  "claude_content_block_delta E event =
     (let idx = jget_u64 event ''index''; delta = jget event ''delta'' in
      case ostr (ogetj delta ''type'') of
        None \<Rightarrow> reject_anthropic E
          ''Anthropic content block delta is missing a delta type.''
      | Some ty \<Rightarrow>
          if ty = ''text_delta'' then claude_text_delta E delta
          else if ty = ''thinking_delta''
            then with_block E ty ThinkingBlock ''thinking'' idx (claude_thinking_delta E delta)
          else if ty = ''input_json_delta'' then claude_input_json_delta E delta idx
          else if ty = ''signature_delta''
            then with_block E ty ThinkingBlock ''thinking'' idx (\<lambda>i _. claude_signature_delta delta i)
          else if ty = ''citations_delta''
            then with_block E ty TextBlock ''text'' idx (\<lambda>i _. claude_citations_delta E delta i)
          else reject_anthropic E
            (''Anthropic content block delta `'' @ ty @ ''` cannot be translated losslessly.''))"

definition note_provenance :: "nat \<Rightarrow> stream_state \<Rightarrow> stream_state" where
  "note_provenance i s = (case hm_get (claude_blocks s) i of
      None \<Rightarrow> s
    | Some b \<Rightarrow>
        if cb_kind b = Some ThinkingBlock
        then s\<lparr>claude_thinking_provenance :=
               filter (\<lambda>p. tp_block_index p \<noteq> i) (claude_thinking_provenance s)
               @ [\<lparr>tp_block_index = i, tp_signature = cb_signature b, tp_omitted = cb_omitted b\<rparr>]\<rparr>
        else s)"

definition buffered_reasoning :: "nat \<Rightarrow> stream_state \<Rightarrow> string" where
  "buffered_reasoning i s = (case hm_get (claude_blocks s) i of
      None \<Rightarrow> []
    | Some b \<Rightarrow> if cb_kind b = Some ThinkingBlock \<and> \<not> cb_omitted b then cb_thinking b else [])"

definition claude_content_block_stop :: "env \<Rightarrow> json \<Rightarrow> (stream_state, json) step" where
  "claude_content_block_stop E event =
     (let idx = jget_u64 event ''index'' in run_steps
       [(case idx of
           None \<Rightarrow> skip
         | Some i \<Rightarrow> run_steps
             [finalize_claude_tool_use_block E i,
              reading (\<lambda>s. emit_claude_reasoning_delta E (buffered_reasoning i s)),
              modify (note_provenance i),
              modify (\<lambda>s. s\<lparr>claude_blocks := hm_remove i (claude_blocks s)\<rparr>)]),
        modify (\<lambda>s. if in_thinking_block s \<and> current_block_index s = idx
                    then s\<lparr>in_thinking_block := False\<rparr> else s)])"

definition convert_claude_stop_reason :: "string \<Rightarrow> string" where
  "convert_claude_stop_reason r =
     (if r = ''end_turn'' then ''stop''
      else if r = ''max_tokens'' then ''length''
      else if r = ''tool_use'' then ''tool_calls''
      else if r = ''stop_sequence'' then ''stop''
      else if r = ''pause_turn'' then ''pause_turn''
      else if r = ''refusal'' then ''content_filter''
      else if r = ''model_context_window_exceeded'' then ''context_length_exceeded''
      else ''stop'')"

definition claude_message_delta :: "json \<Rightarrow> (stream_state, json) step" where
  "claude_message_delta event = run_steps
     [modify (\<lambda>s. case ostr (ogetj (jget event ''delta'') ''stop_reason'') of
         None \<Rightarrow> s
       | Some stop \<Rightarrow> s\<lparr>finish_reason := Some (convert_claude_stop_reason stop)\<rparr>),
      modify (\<lambda>s. case jget event ''usage'' of None \<Rightarrow> s | Some u \<Rightarrow> s\<lparr>usage := Some u\<rparr>)]"

definition claude_final_reason :: "stream_state \<Rightarrow> string" where
  "claude_final_reason s =
     (let structured = list_ex (\<lambda>(_, tu). tu_start_arguments_emitted tu) (claude_tool_uses s)
      in case finish_reason s of
           None \<Rightarrow> if structured then ''tool_calls'' else ''stop''
         | Some fr \<Rightarrow> if fr = ''tool_calls'' \<and> \<not> structured then ''stop'' else fr)"

definition claude_usage_to_openai :: "json \<Rightarrow> json" where
  "claude_usage_to_openai u =
     (let input_tokens = u64_or_zero (jget u ''input_tokens'');
          output_tokens = u64_or_zero (jget u ''output_tokens'');
          cache_read = u64_or_zero (jget u ''cache_read_input_tokens'');
          cache_creation = u64_or_zero (jget u ''cache_creation_input_tokens'');
          prompt_tokens = u64_add (u64_add input_tokens cache_read) cache_creation;
          base = jobj [(''prompt_tokens'', jnat prompt_tokens), (''completion_tokens'', jnat output_tokens),
                       (''total_tokens'', jnat (u64_add prompt_tokens output_tokens))];
          with_read = (if cache_read > 0 then jset ''cache_read_input_tokens'' (jnat cache_read) base
                       else base);
          with_creation = (if cache_creation > 0
                           then jset ''cache_creation_input_tokens'' (jnat cache_creation) with_read
                           else with_read)
      in copy_usage_fields u [] with_creation)"

definition claude_final_chunk :: "env \<Rightarrow> stream_state \<Rightarrow> json" where
  "claude_final_chunk E s = set_usage_if (map_option claude_usage_to_openai (usage s))
     (openai_chunk E s (jobj []) (Some (claude_final_reason s)))"

definition pending_tool_uses :: "env \<Rightarrow> stream_state \<Rightarrow> nat list" where
  "pending_tool_uses E s =
     map fst (filter (\<lambda>(_, tu). \<not> tu_finalized tu) (hm_entries E (claude_tool_uses s)))"

definition claude_message_stop :: "env \<Rightarrow> (stream_state, json) step" where
  "claude_message_stop E = reading (\<lambda>s. only_if (\<not> finish_reason_sent s) (run_steps
     [for_each (finalize_claude_tool_use_block E) (pending_tool_uses E s),
      emit (claude_final_chunk E),
      modify (\<lambda>s. s\<lparr>finish_reason_sent := True\<rparr>)]))"

definition claude_event_to_openai_chunks :: "env \<Rightarrow> json \<Rightarrow> (stream_state, json) step" where
  "claude_event_to_openai_chunks E event = reading (\<lambda>s.
     if fatal_rejection s \<noteq> None then skip
     else (case jget_str event ''type'' of
        None \<Rightarrow> skip
      | Some ty \<Rightarrow>
          if ty = ''message_start'' then claude_message_start E event
          else if ty = ''content_block_start'' then claude_content_block_start E event
          else if ty = ''content_block_delta'' then claude_content_block_delta E event
          else if ty = ''content_block_stop'' then claude_content_block_stop E event
          else if ty = ''message_delta'' then claude_message_delta event
          else if ty = ''message_stop'' then claude_message_stop E
          else skip))"

section \<open>Contracts\<close>

lemmas claude_tool_defs = finalize_claude_tool_use_block_def emit_structured_claude_tool_use_delta_def
  emit_claude_reasoning_delta_def

lemmas claude_delta_defs = claude_content_block_delta_def claude_text_delta_def with_block_def
  claude_thinking_delta_def claude_input_json_delta_def claude_signature_delta_def
  claude_citations_delta_def reject_anthropic_def

lemmas claude_start_defs = claude_content_block_start_def claude_text_start_def
  claude_thinking_start_def claude_tool_use_start_def

lemma updates_keep_flags [simp]:
  "openai_role_sent (update_tool_use i f s) = openai_role_sent s"
  "finish_reason_sent (update_tool_use i f s) = finish_reason_sent s"
  "openai_role_sent (update_block i g s) = openai_role_sent s"
  "finish_reason_sent (update_block i g s) = finish_reason_sent s"
  "openai_role_sent (note_provenance i s) = openai_role_sent s"
  "finish_reason_sent (note_provenance i s) = finish_reason_sent s"
  by (simp_all add: update_tool_use_def update_block_def note_provenance_def split: option.split)

lemma reasoning_role_once: "role_once (emit_claude_reasoning_delta E r)"
  unfolding emit_claude_reasoning_delta_def by (intro role_once_intros) simp_all

lemma finalize_role_once: "role_once (finalize_claude_tool_use_block E i)"
  unfolding claude_tool_defs by (intro role_once_intros) simp_all

lemma start_role_once: "role_once (claude_content_block_start E event)"
  unfolding claude_start_defs reject_anthropic_def Let_def
  by (intro role_once_intros reasoning_role_once) simp_all

lemma delta_role_once: "role_once (claude_content_block_delta E event)"
  unfolding claude_delta_defs Let_def
  by (intro role_once_intros reasoning_role_once) simp_all

lemma stop_role_once: "role_once (claude_content_block_stop E event)"
  unfolding claude_content_block_stop_def Let_def
  by (intro role_once_intros reasoning_role_once finalize_role_once) simp_all

lemma message_events_role_once:
  "role_once (claude_message_start E event)" "role_once (claude_message_delta event)"
  "role_once (claude_message_stop E)"
proof -
  show "role_once (claude_message_start E event)"
    unfolding claude_message_start_def by (intro role_once_intros) simp_all
  show "role_once (claude_message_delta event)"
    unfolding claude_message_delta_def
    by (intro role_once_intros) (simp_all split: option.split)
  have "role_once (emit (claude_final_chunk E))"
    by (rule role.silent_sat) (simp add: emit_def claude_final_chunk_def is_role_chunk_def)
  then show "role_once (claude_message_stop E)"
    unfolding claude_message_stop_def
    by (intro role_once_intros finalize_role_once) simp_all
qed

lemma claude_event_role_once: "role_once (claude_event_to_openai_chunks E event)"
  unfolding claude_event_to_openai_chunks_def
  by (intro role_once_intros start_role_once delta_role_once stop_role_once
      message_events_role_once)

lemma reasoning_finish_quiet: "finish_quiet (emit_claude_reasoning_delta E r)"
  unfolding emit_claude_reasoning_delta_def by (intro finish_quiet_intros)

lemma finalize_finish_quiet: "finish_quiet (finalize_claude_tool_use_block E i)"
  unfolding claude_tool_defs by (intro finish_quiet_intros) simp_all

lemma start_finish_once: "finish_once (claude_content_block_start E event)"
  unfolding claude_start_defs reject_anthropic_def Let_def
  by (intro finish_once_intros finish.silent_latched [OF reasoning_finish_quiet]) simp_all

lemma delta_finish_once: "finish_once (claude_content_block_delta E event)"
  unfolding claude_delta_defs Let_def
  by (intro finish_once_intros finish.silent_latched [OF reasoning_finish_quiet]) simp_all

lemma stop_finish_once: "finish_once (claude_content_block_stop E event)"
  unfolding claude_content_block_stop_def Let_def
  by (intro finish_once_intros finish.silent_latched [OF reasoning_finish_quiet]
      finish.silent_latched [OF finalize_finish_quiet]) simp_all

lemma message_events_finish_once:
  "finish_once (claude_message_start E event)" "finish_once (claude_message_delta event)"
  "finish_once (claude_message_stop E)"
proof -
  show "finish_once (claude_message_start E event)"
    unfolding claude_message_start_def by (intro finish_once_intros) simp_all
  show "finish_once (claude_message_delta event)"
    unfolding claude_message_delta_def by (intro finish_once_intros) (simp_all split: option.split)
  show "finish_once (claude_message_stop E)"
    unfolding claude_message_stop_def
    by (intro finish.close_sat finish.quiet.for_each_sat finalize_finish_quiet) simp
qed

lemma claude_event_finish_once: "finish_once (claude_event_to_openai_chunks E event)"
  unfolding claude_event_to_openai_chunks_def
  by (intro finish_once_intros start_finish_once delta_finish_once stop_finish_once
      message_events_finish_once)

lemma updates_keep_fatal [simp]:
  "fatal_rejection (update_tool_use i f s) = fatal_rejection s"
  "fatal_rejection (update_block i g s) = fatal_rejection s"
  "fatal_rejection (note_provenance i s) = fatal_rejection s"
  by (simp_all add: update_tool_use_def update_block_def note_provenance_def split: option.split)

lemma reasoning_error_quiet: "error_quiet (emit_claude_reasoning_delta E r)"
  unfolding emit_claude_reasoning_delta_def by (intro error_quiet_intros)

lemma finalize_error_quiet: "error_quiet (finalize_claude_tool_use_block E i)"
  unfolding claude_tool_defs by (intro error_quiet_intros) simp_all

lemma start_error_once: "error_once (claude_content_block_start E event)"
  unfolding claude_start_defs reject_anthropic_def Let_def
  by (intro from_intros reject_error_once quiet_error_once error_quiet_intros reasoning_error_quiet)
    simp_all

lemma delta_error_once: "error_once (claude_content_block_delta E event)"
  unfolding claude_delta_defs Let_def
  by (intro from_intros reject_error_once quiet_error_once error_quiet_intros reasoning_error_quiet)
    simp_all

lemma final_chunk_error_quiet: "error_quiet (emit (claude_final_chunk E))"
  by (rule satI) (simp add: emit_def claude_final_chunk_def silent_def)

lemma other_events_error_quiet:
  "error_quiet (claude_content_block_stop E event)" "error_quiet (claude_message_start E event)"
  "error_quiet (claude_message_delta event)" "error_quiet (claude_message_stop E)"
  unfolding claude_content_block_stop_def claude_message_start_def claude_message_delta_def
    claude_message_stop_def Let_def
  by (intro error_quiet_intros reasoning_error_quiet finalize_error_quiet final_chunk_error_quiet;
      simp split: option.split)+

lemma claude_event_error_once: "sat (latched rejected is_error_chunk) (claude_event_to_openai_chunks E event)"
proof (rule satI)
  fix s
  show "latched rejected is_error_chunk s (snd (claude_event_to_openai_chunks E event s))
      (fst (claude_event_to_openai_chunks E event s))"
  proof (cases "rejected s")
    case True
    then show ?thesis
      by (simp add: claude_event_to_openai_chunks_def reading_def skip_def rejected_def latched_def)
  next
    case False
    have "error_once (claude_event_to_openai_chunks E event)"
      unfolding claude_event_to_openai_chunks_def
      by (intro from_intros start_error_once delta_error_once quiet_error_once
          other_events_error_quiet error.quiet.skip_sat)
    with False show ?thesis by (simp add: sat_from_def)
  qed
qed

section \<open>Tool arguments are whole\<close>

definition chunk_args_complete :: "env \<Rightarrow> json \<Rightarrow> bool" where
  "chunk_args_complete E c = list_all (\<lambda>tc. case call_arguments tc of
      Some a \<Rightarrow> a = ''{}'' \<or> raw_json_is_valid_object E a | None \<Rightarrow> False) (chunk_tool_calls c)"

abbreviation args_complete :: "env \<Rightarrow> (stream_state, json) step \<Rightarrow> bool" where
  "args_complete E \<equiv> sat (every (chunk_args_complete E))"

lemma plain_args_complete:
  "(\<And>s. jget (d s) ''tool_calls'' = None) \<Longrightarrow> args_complete E (emit (\<lambda>s. openai_chunk E s (d s) fr))"
  by (rule satI) (simp add: emit_def every_def chunk_args_complete_def)

lemma modify_args_complete: "args_complete E (modify f)"
  by (rule satI) (simp add: modify_def every_def)

lemma role_emit_args_complete: "args_complete E (emit_openai_assistant_role_if_needed E)"
  by (rule satI)
    (simp add: emit_openai_assistant_role_if_needed_def every_def chunk_args_complete_def)

lemma reject_args_complete: "args_complete E (reject_openai_stream E ty code message)"
  by (rule satI) (simp add: reject_openai_stream_def case_prod_unfold Let_def every_def
      chunk_args_complete_def)

lemmas args_complete_intros = flow_intros every.skip_sat every.only_if_sat every.run_steps_sat
  every.for_each_sat every.reading_sat_all plain_args_complete modify_args_complete
  role_emit_args_complete reject_args_complete

lemma call_arguments_structured [simp]:
  "call_arguments (structured_tool_call idx call_id name arguments kind) = Some arguments"
  by (simp add: call_arguments_def structured_tool_call_def set_str_if_def split: option.split)

lemma final_arguments_whole:
  "final_tool_use_arguments E tu = Some arguments \<Longrightarrow>
   arguments \<noteq> [] \<and> (arguments = ''{}'' \<or> raw_json_is_valid_object E arguments)"
  by (auto simp: final_tool_use_arguments_def raw_json_is_valid_object_def trim_Nil split: if_splits)

lemma structured_args_complete:
  assumes "arguments = ''{}'' \<or> raw_json_is_valid_object E arguments"
  shows "args_complete E (emit_structured_claude_tool_use_delta E idx call_id name arguments kind)"
proof -
  have "args_complete E (emit (\<lambda>s. openai_chunk E s
      (jobj [(''tool_calls'', JArr [structured_tool_call idx call_id name arguments kind])]) None))"
    using assms by (intro satI) (auto simp: emit_def every_def chunk_args_complete_def)
  then show ?thesis
    unfolding emit_structured_claude_tool_use_delta_def
    by (intro flow_intros every.only_if_sat every.run_steps_sat role_emit_args_complete)
qed

lemma reasoning_args_complete: "args_complete E (emit_claude_reasoning_delta E r)"
  unfolding emit_claude_reasoning_delta_def by (intro args_complete_intros) simp

lemma finalize_args_complete: "args_complete E (finalize_claude_tool_use_block E i)"
  unfolding finalize_claude_tool_use_block_def
  by (intro args_complete_intros structured_args_complete) (auto dest: final_arguments_whole)

lemma final_chunk_args_complete: "args_complete E (emit (claude_final_chunk E))"
  by (rule satI) (simp add: emit_def every_def chunk_args_complete_def claude_final_chunk_def)

lemma claude_event_args_complete: "args_complete E (claude_event_to_openai_chunks E event)"
  unfolding claude_event_to_openai_chunks_def claude_start_defs claude_delta_defs
    claude_content_block_stop_def claude_message_start_def claude_message_delta_def
    claude_message_stop_def Let_def
  by (intro args_complete_intros reasoning_args_complete finalize_args_complete
      final_chunk_args_complete) simp_all

section \<open>A finish with tool calls is backed by a tool call\<close>

definition has_structured :: "stream_state \<Rightarrow> bool" where
  "has_structured s = list_ex (\<lambda>(_, tu). tu_start_arguments_emitted tu) (claude_tool_uses s)"

definition is_tool_finish :: "json \<Rightarrow> bool" where
  "is_tool_finish c = (is_finish_chunk c \<and> chunk_finish c = Some ''tool_calls'')"

definition tool_finish_backed :: "stream_state \<Rightarrow> json list \<Rightarrow> stream_state \<Rightarrow> bool" where
  "tool_finish_backed s out t =
     (has_structured t \<or> list_ex is_tool_finish out \<longrightarrow>
      has_structured s \<or> list_ex (\<lambda>c. chunk_tool_calls c \<noteq> []) out)"

interpretation backed: trace_contract tool_finish_backed
  by unfold_locales (auto simp: tool_finish_backed_def)

abbreviation tools_backed :: "(stream_state, json) step \<Rightarrow> bool" where
  "tools_backed \<equiv> sat tool_finish_backed"

lemma set_hm_insert: "set (hm_insert k v m) \<subseteq> insert (k, v) (set m)"
  unfolding hm_insert_def by (induction m) auto

lemma has_structured_modify:
  assumes "\<And>tu. tu_start_arguments_emitted (f tu) = tu_start_arguments_emitted tu"
  shows "has_structured (update_tool_use i f s) \<Longrightarrow> has_structured s"
  using set_hm_insert [of i _ "claude_tool_uses s"] assms
  by (fastforce simp: has_structured_def update_tool_use_def hm_modify_def list_ex_iff
      split: option.splits dest: map_of_SomeD)

lemma modify_tools_backed:
  "(\<And>s. has_structured (f s) \<Longrightarrow> has_structured s) \<Longrightarrow> tools_backed (modify f)"
  by (rule satI) (simp add: modify_def tool_finish_backed_def)

lemma same_uses_structured:
  "claude_tool_uses t = claude_tool_uses s \<Longrightarrow> has_structured t = has_structured s"
  by (simp add: has_structured_def)

lemma emit_tools_backed:
  "(\<And>s. is_tool_finish (f s) \<Longrightarrow> has_structured s) \<Longrightarrow> tools_backed (emit f)"
  by (rule satI) (simp add: emit_def tool_finish_backed_def)

lemma plain_tools_backed: "tools_backed (emit (\<lambda>s. openai_chunk E s (d s) None))"
  by (rule emit_tools_backed) (simp add: is_tool_finish_def is_finish_chunk_def)

lemma role_emit_tools_backed: "tools_backed (emit_openai_assistant_role_if_needed E)"
  by (rule satI) (simp add: emit_openai_assistant_role_if_needed_def tool_finish_backed_def
      is_tool_finish_def is_finish_chunk_def has_structured_def)

lemma reject_tools_backed: "tools_backed (reject_openai_stream E ty code message)"
  by (rule satI) (simp add: reject_openai_stream_def case_prod_unfold Let_def tool_finish_backed_def
      is_tool_finish_def has_structured_def)

lemmas tools_backed_intros = flow_intros backed.skip_sat backed.only_if_sat backed.run_steps_sat
  backed.for_each_sat backed.reading_sat_all plain_tools_backed modify_tools_backed
  role_emit_tools_backed reject_tools_backed

lemma finalize_tools_backed: "tools_backed (finalize_claude_tool_use_block E i)"
proof -
  have structured: "tools_backed (run_steps
      [emit_structured_claude_tool_use_delta E idx call_id name arguments kind, modify g])"
    if "arguments \<noteq> []" for idx call_id name arguments kind g
    using that
    by (auto intro!: satI simp: emit_structured_claude_tool_use_delta_def step_defs case_prod_unfold
        Let_def tool_finish_backed_def)
  show ?thesis
    unfolding finalize_claude_tool_use_block_def
    by (intro tools_backed_intros structured)
      (auto dest: final_arguments_whole elim!: has_structured_modify [rotated])
qed

lemma final_chunk_tools_backed: "tools_backed (emit (claude_final_chunk E))"
  by (rule emit_tools_backed)
    (auto simp: is_tool_finish_def claude_final_chunk_def claude_final_reason_def has_structured_def
      Let_def split: option.splits if_splits)

lemma reasoning_tools_backed: "tools_backed (emit_claude_reasoning_delta E r)"
  unfolding emit_claude_reasoning_delta_def by (intro tools_backed_intros)

lemma tool_use_start_tools_backed: "tools_backed (claude_tool_use_start E block idx server)"
  unfolding claude_tool_use_start_def
proof (rule modify_tools_backed, goal_cases)
  case (1 s)
  then show ?case
    using set_hm_insert [of idx _ "claude_tool_uses s"]
    by (fastforce simp: has_structured_def Let_def list_ex_iff)
qed

lemma other_updates_tool_uses [simp]:
  "claude_tool_uses (update_block i g s) = claude_tool_uses s"
  "claude_tool_uses (note_provenance i s) = claude_tool_uses s"
  by (simp_all add: update_block_def note_provenance_def split: option.split)

lemma append_partial_json_keeps [simp]:
  "tu_start_arguments_emitted (append_partial_json E pj tu) = tu_start_arguments_emitted tu"
  by (simp add: append_partial_json_def Let_def)

lemma claude_event_tools_backed: "tools_backed (claude_event_to_openai_chunks E event)"
proof -
  have input: "tools_backed (claude_input_json_delta E delta idx)" for delta idx
    unfolding claude_input_json_delta_def
    by (intro tools_backed_intros) (erule has_structured_modify [rotated], simp)+
  note defs = claude_content_block_delta_def claude_text_delta_def with_block_def
    claude_thinking_delta_def claude_signature_delta_def claude_citations_delta_def reject_anthropic_def
    claude_content_block_start_def claude_text_start_def claude_thinking_start_def
    claude_content_block_stop_def claude_message_start_def claude_message_delta_def
    claude_message_stop_def Let_def
  show ?thesis
    unfolding claude_event_to_openai_chunks_def defs
    by (intro tools_backed_intros reasoning_tools_backed finalize_tools_backed
        final_chunk_tools_backed tool_use_start_tools_backed input)
      (simp_all add: has_structured_def split: option.splits if_splits)
qed

section \<open>Properties\<close>

text \<open>The chunks of a whole stream of events.\<close>

definition claude_run :: "env \<Rightarrow> json list \<Rightarrow> (stream_state, json) step" where
  "claude_run E events = for_each (claude_event_to_openai_chunks E) events"

text \<open>
  Whatever events an Anthropic upstream sends, in any order and any number, the chunks it is
  translated to announce the assistant role at most once, carry at most one regular finish reason and
  at most one error; and once a stream is rejected nothing more is sent for it.
\<close>

theorem claude_stream_shape:
  "let out = snd (claude_run E events s) in
   length (filter is_role_chunk out) \<le> 1 \<and> length (filter is_finish_chunk out) \<le> 1
   \<and> length (filter is_error_chunk out) \<le> 1
   \<and> (let t = fst (reject_openai_stream E ty code message s) in claude_run E events t = (t, []))"
proof -
  have r: "role_once (claude_run E events)" and f: "finish_once (claude_run E events)"
    and e: "sat (latched rejected is_error_chunk) (claude_run E events)"
    unfolding claude_run_def
    by (intro role.for_each_sat finish.for_each_sat error.for_each_sat claude_event_role_once
        claude_event_finish_once claude_event_error_once)+
  note role.at_most_once [OF satD [OF r, of s]] finish.at_most_once [OF satD [OF f, of s]]
    error.at_most_once [OF satD [OF e, of s]]
  moreover have "rejected t \<Longrightarrow> claude_run E events t = (t, [])" for t
    unfolding claude_run_def
    by (induction events) (simp_all add: for_each_Cons claude_event_to_openai_chunks_def
        reading_def skip_def rejected_def)
  ultimately show ?thesis
    using reject_result [of E ty code message s] by (simp add: Let_def)
qed

text \<open>
  Tool arguments are never sent in part: every tool call in a translated Anthropic stream carries
  \<open>{}\<close> or a text that reads as one JSON object, however the upstream cut, repeated or broke off the
  argument text.
\<close>

theorem claude_tool_arguments_complete:
  "list_all (chunk_args_complete E) (snd (claude_run E events s))"
proof -
  have "args_complete E (claude_run E events)"
    unfolding claude_run_def by (intro every.for_each_sat claude_event_args_complete)
  from satD [OF this] show ?thesis by (simp add: every_def)
qed

text \<open>
  The finish reason \<open>tool_calls\<close> is never announced without a tool call: if a stream that starts
  fresh ends with it, some chunk of the stream carried a tool call.
\<close>

theorem tool_finish_has_tool_call:
  assumes "snd (claude_run E events default_state) = out"
    and "list_ex is_tool_finish out"
  shows "list_ex (\<lambda>c. chunk_tool_calls c \<noteq> []) out"
proof -
  have "tools_backed (claude_run E events)"
    unfolding claude_run_def by (intro backed.for_each_sat claude_event_tools_backed)
  from satD [OF this, of default_state] assms show ?thesis
    by (simp add: tool_finish_backed_def has_structured_def default_state_def)
qed

definition tool_use_events :: "json list" where
  "tool_use_events =
     [jobj [(''type'', JStr ''content_block_start''), (''index'', jnat 0),
            (''content_block'', jobj [(''type'', JStr ''tool_use''), (''id'', JStr ''t''),
               (''name'', JStr ''f'')])],
      jobj [(''type'', JStr ''content_block_delta''), (''index'', jnat 0),
            (''delta'', jobj [(''type'', JStr ''input_json_delta''), (''partial_json'', JStr ''{}'')])],
      jobj [(''type'', JStr ''message_delta''),
            (''delta'', jobj [(''stop_reason'', JStr ''tool_use'')])],
      jobj [(''type'', JStr ''message_stop'')]]"

theorem tool_finish_has_tool_call_witness:
  "list_ex is_tool_finish (snd (claude_run example_env tool_use_events default_state))
   \<and> list_ex (\<lambda>c. chunk_tool_calls c \<noteq> []) (snd (claude_run example_env tool_use_events default_state))"
proof -
  have f: "list_ex is_tool_finish (snd (claude_run example_env tool_use_events default_state))"
    by code_simp
  from tool_finish_has_tool_call [OF refl f] f show ?thesis by simp
qed

text \<open>
  The stop reasons of Anthropic come back: translated to a finish reason and classified for an
  Anthropic client again, the five reasons with a meaning of their own are unchanged, and
  \<open>stop_sequence\<close>, like every unknown reason, is \<open>end_turn\<close>.
\<close>

theorem stop_reason_round_trip:
  "classify_openai_finish_for_anthropic (convert_claude_stop_reason r)
     = StopReason (if r \<in> {''max_tokens'', ''tool_use'', ''pause_turn'', ''refusal'',
                            ''model_context_window_exceeded''} then r else ''end_turn'')"
  by (simp add: convert_claude_stop_reason_def classify_openai_finish_for_anthropic_def)

text \<open>
  The usage of the final chunk: the prompt tokens are the fresh, the cache-read and the
  cache-creation tokens together, the total adds the output tokens, all modulo \<open>2 ^ 64\<close>; every other
  field of the upstream's usage is kept.
\<close>

theorem claude_final_usage:
  "let u = claude_usage_to_openai v;
       fresh = u64_or_zero (jget v ''input_tokens'');
       outp = u64_or_zero (jget v ''output_tokens'');
       cached = u64_or_zero (jget v ''cache_read_input_tokens'')
         + u64_or_zero (jget v ''cache_creation_input_tokens'')
   in jget_u64 u ''prompt_tokens'' = Some ((fresh + cached) mod 2 ^ 64)
      \<and> jget_u64 u ''completion_tokens'' = Some outp
      \<and> jget_u64 u ''total_tokens'' = Some ((fresh + cached + outp) mod 2 ^ 64)
      \<and> jget u (''x_'' @ field) = jget v (''x_'' @ field)"
  by (simp add: claude_usage_to_openai_def jget_copy_usage Let_def jget_u64_def u64_add_def
      mod_simps ac_simps)

end
