(* ===== verification/Responses_Source.thy ===== *)
theory Responses_Source
  imports Source_Contracts
begin

text \<open>
  The source side for a Responses upstream (\<open>src/streaming/responses_source.rs\<close>): every event of a
  Responses stream becomes Chat Completions chunks; a custom tool call becomes a function call whose
  arguments are built piece by piece into \<open>{"input": ...}\<close>.
\<close>

section \<open>Helpers\<close>

definition responses_failed_code_to_openai_finish_stream :: "string option \<Rightarrow> string" where
  "responses_failed_code_to_openai_finish_stream code = responses_failed_code_to_openai_finish code"

definition capture_responses_model :: "json \<Rightarrow> stream_state \<Rightarrow> stream_state" where
  "capture_responses_model resp s = (case jget_str resp ''model'' of
      Some m \<Rightarrow> s\<lparr>model := Some m\<rparr>
    | None \<Rightarrow> if model s = None then s\<lparr>model := Some ''unknown''\<rparr> else s)"

definition finalize_custom_tool_call_bridge_delta ::
    "env \<Rightarrow> tool_call_state \<Rightarrow> string \<Rightarrow> tool_call_state \<times> string option" where
  "finalize_custom_tool_call_bridge_delta E tc full_input = (case tc_custom_input_text tc of
      None \<Rightarrow> (tc, None)
    | Some emitted_input \<Rightarrow>
        if tc_custom_input_done tc then (tc, None)
        else
          let remainder = unwrap_or (strip_prefix emitted_input full_input) [];
              bridge_delta =
                (if remainder = [] then [] else openai_custom_bridge_input_delta_stream E remainder)
                @ openai_custom_bridge_done_delta_stream
          in (tc\<lparr>tc_custom_input_text := Some (emitted_input @ remainder),
                 tc_arguments := tc_arguments tc @ bridge_delta, tc_custom_input_done := True\<rparr>,
              Some bridge_delta))"

definition bridge_delta_payload :: "nat \<Rightarrow> json option \<Rightarrow> string \<Rightarrow> json" where
  "bridge_delta_payload idx call_id delta = jobj
     [(''tool_calls'', JArr [jobj
        [(''index'', jnat idx), (''id'', jopt call_id), (''type'', JStr ''function''),
         (''function'', jobj [(''arguments'', JStr delta)])]])]"

text \<open>
  Closing the bridge of the tool call at an index: nothing when there is no such call, no custom
  input, or the bridge is closed already.
\<close>

definition close_bridge ::
    "env \<Rightarrow> nat \<Rightarrow> json option \<Rightarrow> string \<Rightarrow> tool_call_state \<Rightarrow> (stream_state, json) step" where
  "close_bridge E idx call_id full_input tc =
     (case finalize_custom_tool_call_bridge_delta E tc full_input of
        (tc', None) \<Rightarrow> skip
      | (tc', Some delta) \<Rightarrow> run_steps
          [modify (\<lambda>s. s\<lparr>openai_tool_calls := hm_insert idx tc' (openai_tool_calls s)\<rparr>),
           emit (\<lambda>s. openai_chunk E s (bridge_delta_payload idx call_id delta) None)])"

definition terminal_bridge_item :: "env \<Rightarrow> json \<Rightarrow> (stream_state, json) step" where
  "terminal_bridge_item E item = reading (\<lambda>s.
     if jget_str item ''type'' \<noteq> Some ''custom_tool_call'' then skip
     else (case jget_str item ''call_id'' of
        None \<Rightarrow> skip
      | Some call_id \<Rightarrow> (case jget_str item ''input'' of
          None \<Rightarrow> skip
        | Some full_input \<Rightarrow>
            (case find (\<lambda>(_, tc). ostr (tc_id tc) = Some call_id) (hm_entries E (openai_tool_calls s)) of
              None \<Rightarrow> skip
            | Some entry \<Rightarrow>
                close_bridge E (fst entry) (Some (JStr call_id)) full_input (snd entry)))))"

definition responses_terminal_custom_tool_bridge_chunk :: "env \<Rightarrow> json \<Rightarrow> (stream_state, json) step" where
  "responses_terminal_custom_tool_bridge_chunk E event =
     (case Option.bind (ogetj (jget event ''response'') ''output'') as_array of
        None \<Rightarrow> skip
      | Some items \<Rightarrow> for_each (terminal_bridge_item E) items)"

section \<open>Events\<close>

definition responses_created :: "env \<Rightarrow> json \<Rightarrow> (stream_state, json) step" where
  "responses_created E event =
     (let resp = unwrap_or (jget event ''response'') event in run_steps
       [modify (\<lambda>s. capture_responses_model resp (s\<lparr>message_id := jget_str resp ''id''\<rparr>)),
        emit_openai_assistant_role_if_needed E])"

definition plain_delta :: "env \<Rightarrow> string \<Rightarrow> string \<Rightarrow> (stream_state, json) step" where
  "plain_delta E field delta =
     only_if (delta \<noteq> []) (emit (\<lambda>s. openai_chunk E s (jobj [(field, JStr delta)]) None))"

definition responses_refusal :: "env \<Rightarrow> string \<Rightarrow> (stream_state, json) step" where
  "responses_refusal E raw = reading (\<lambda>s.
     let (d, seen) = normalize_openai_stream_text raw (openai_seen_refusal s) in run_steps
       [modify (\<lambda>s. s\<lparr>openai_seen_refusal := seen\<rparr>),
        (case d of
           None \<Rightarrow> skip
         | Some delta \<Rightarrow> emit (\<lambda>s. openai_chunk E s (jobj [(''refusal'', JStr delta)]) None))])"

definition added_tool_call :: "env \<Rightarrow> json \<Rightarrow> json \<Rightarrow> bool \<Rightarrow> nat \<Rightarrow> tool_call_state" where
  "added_tool_call E event item is_custom idx =
     (let custom_input = unwrap_or (jget_str item ''input'') [];
          call_id = unwrap_or (jget_str item ''call_id'') (''call_'' @ nat_str idx)
      in default_tool_call
        \<lparr>tc_index := idx, tc_id := Some (JStr call_id), tc_name := unwrap_or (jget_str item ''name'') [],
         tc_arguments := (if is_custom then openai_custom_bridge_start_delta_stream E custom_input
                          else unwrap_or (jget_str item ''arguments'') []),
         tc_custom_input_text := (if is_custom then Some custom_input else None),
         tc_tool_type := Some ''function'',
         tc_proxied_tool_kind := jget_str item ''proxied_tool_kind'',
         tc_block_index := jget_u64 event ''output_index'',
         tc_item_id := jget_str item ''id''\<rparr>)"

definition added_tool_delta :: "json \<Rightarrow> tool_call_state \<Rightarrow> json" where
  "added_tool_delta item tc =
     (let base = jobj
        [(''index'', jnat (tc_index tc)), (''id'', jopt (tc_id tc)), (''type'', JStr ''function''),
         (''function'', jobj [(''name'', JStr (tc_name tc)), (''arguments'', JStr (tc_arguments tc))])]
      in case jget item ''proxied_tool_kind'' of
           None \<Rightarrow> base
         | Some kind \<Rightarrow> jset ''proxied_tool_kind'' kind base)"

definition responses_tool_item_added :: "env \<Rightarrow> json \<Rightarrow> json \<Rightarrow> bool \<Rightarrow> (stream_state, json) step" where
  "responses_tool_item_added E event item is_custom = reading (\<lambda>s.
     case validate_public_tool_name_not_reserved (unwrap_or (jget_str item ''name'') []) of
       Inl message \<Rightarrow> reject_openai_stream E ''invalid_request_error''
         ''reserved_openai_custom_bridge_prefix'' message
     | Inr _ \<Rightarrow>
        (let idx = openai_tool_call_index s; tc = added_tool_call E event item is_custom idx in run_steps
          [modify (\<lambda>s. s\<lparr>openai_tool_call_index := Suc idx,
                         openai_tool_calls := hm_insert idx tc (openai_tool_calls s)\<rparr>),
           emit (\<lambda>s. openai_chunk E s (jobj [(''tool_calls'', JArr [added_tool_delta item tc])]) None)]))"

definition responses_output_item_added :: "env \<Rightarrow> json \<Rightarrow> (stream_state, json) step" where
  "responses_output_item_added E event =
     (let item = unwrap_or (jget event ''item'') JNull; item_ty = jget_str item ''type'' in
      if item_ty = Some ''function_call'' \<or> item_ty = Some ''custom_tool_call''
      then responses_tool_item_added E event item (item_ty = Some ''custom_tool_call'')
      else skip)"

text \<open>The tool call an argument delta belongs to; one that was never added is made up here.\<close>

definition delta_index :: "env \<Rightarrow> json \<Rightarrow> stream_state \<Rightarrow> nat" where
  "delta_index E event s =
     unwrap_or (responses_event_tool_call_index E event s) (openai_tool_call_index s - 1)"

definition note_tool_delta :: "env \<Rightarrow> json \<Rightarrow> bool \<Rightarrow> string \<Rightarrow> tool_call_state \<Rightarrow> tool_call_state" where
  "note_tool_delta E event is_custom delta tc =
     (let tc1 = tc\<lparr>tc_tool_type := option_else (tc_tool_type tc) (Some ''function''),
                  tc_item_id := option_else (tc_item_id tc) (jget_str event ''item_id''),
                  tc_block_index := option_else (tc_block_index tc) (jget_u64 event ''output_index'')\<rparr>
      in if is_custom
         then tc1\<lparr>tc_custom_input_text := Some (unwrap_or (tc_custom_input_text tc1) [] @ delta),
                  tc_arguments := tc_arguments tc1 @ openai_custom_bridge_input_delta_stream E delta\<rparr>
         else tc1\<lparr>tc_arguments := tc_arguments tc1 @ delta\<rparr>)"

definition tool_delta_payload :: "env \<Rightarrow> nat \<Rightarrow> bool \<Rightarrow> string \<Rightarrow> string option \<Rightarrow> json" where
  "tool_delta_payload E idx is_custom delta kind =
     (let base = jobj
        [(''index'', jnat idx), (''type'', JStr ''function''),
         (''function'', jobj [(''arguments'', JStr
            (if is_custom then openai_custom_bridge_input_delta_stream E delta else delta))])]
      in case kind of None \<Rightarrow> base | Some k \<Rightarrow> jset ''proxied_tool_kind'' (JStr k) base)"

definition responses_arguments_delta :: "env \<Rightarrow> json \<Rightarrow> bool \<Rightarrow> (stream_state, json) step" where
  "responses_arguments_delta E event is_custom = reading (\<lambda>s.
     let delta = unwrap_or (jget_str event ''delta'') [];
         idx = delta_index E event s;
         tc = unwrap_or (hm_get (openai_tool_calls s) idx) (default_tool_call\<lparr>tc_index := idx\<rparr>);
         tc' = note_tool_delta E event is_custom delta tc
     in only_if (delta \<noteq> []) (run_steps
       [modify (\<lambda>s. s\<lparr>openai_tool_calls := hm_insert idx tc' (openai_tool_calls s)\<rparr>),
        emit (\<lambda>s. openai_chunk E s (jobj [(''tool_calls'', JArr
          [tool_delta_payload E idx is_custom delta (tc_proxied_tool_kind tc')])]) None)]))"

definition responses_custom_input_done :: "env \<Rightarrow> json \<Rightarrow> (stream_state, json) step" where
  "responses_custom_input_done E event = reading (\<lambda>s.
     let idx = delta_index E event s in
     case hm_get (openai_tool_calls s) idx of
       None \<Rightarrow> skip
     | Some tc \<Rightarrow>
         close_bridge E idx (tc_id tc)
           (unwrap_or (option_or (jget_str event ''input'') (tc_custom_input_text tc)) []) tc)"

definition incomplete_finish :: "string option \<Rightarrow> string" where
  "incomplete_finish reason = (case reason of
      None \<Rightarrow> ''stop''
    | Some r \<Rightarrow>
        if r = ''max_output_tokens'' then ''length''
        else if r = ''content_filter'' then ''content_filter''
        else if r = ''pause_turn'' then ''pause_turn''
        else ''stop'')"

definition is_tool_call_item :: "json \<Rightarrow> bool" where
  "is_tool_call_item item =
     (jget_str item ''type'' \<in> {Some ''function_call'', Some ''custom_tool_call''})"

definition responses_finish :: "string \<Rightarrow> json \<Rightarrow> stream_state \<Rightarrow> string" where
  "responses_finish ty event s =
     (let resp = jget event ''response'';
          has_tool_calls = (openai_tool_calls s \<noteq> []
            \<or> list_ex is_tool_call_item (unwrap_or (Option.bind (ogetj resp ''output'') as_array) []))
      in if ty = ''response.incomplete''
         then incomplete_finish (ostr (ogetj (ogetj resp ''incomplete_details'') ''reason''))
         else if ty = ''response.failed''
         then responses_failed_code_to_openai_finish_stream (ostr (ogetj (ogetj resp ''error'') ''code''))
         else if has_tool_calls then ''tool_calls'' else ''stop'')"

definition note_terminal :: "json \<Rightarrow> stream_state \<Rightarrow> stream_state" where
  "note_terminal event s = (case jget event ''response'' of
      None \<Rightarrow> s
    | Some resp \<Rightarrow>
        let s1 = capture_responses_model resp s in
        (case jget resp ''usage'' of
           None \<Rightarrow> s1
         | Some u \<Rightarrow> s1\<lparr>usage := Some (responses_usage_to_openai_usage_stream u)\<rparr>))"

definition responses_final_chunk :: "env \<Rightarrow> string \<Rightarrow> json \<Rightarrow> stream_state \<Rightarrow> json" where
  "responses_final_chunk E ty event s =
     set_usage_if (usage s) (openai_chunk E s (jobj []) (Some (responses_finish ty event s)))"

definition responses_terminal :: "env \<Rightarrow> string \<Rightarrow> json \<Rightarrow> (stream_state, json) step" where
  "responses_terminal E ty event = run_steps
     [responses_terminal_custom_tool_bridge_chunk E event,
      modify (note_terminal event),
      reading (\<lambda>s. only_if (\<not> finish_reason_sent s) (run_steps
        [emit (responses_final_chunk E ty event),
         modify (\<lambda>s. s\<lparr>finish_reason_sent := True\<rparr>)]))]"

definition responses_event_to_openai_chunks :: "env \<Rightarrow> json \<Rightarrow> (stream_state, json) step" where
  "responses_event_to_openai_chunks E event =
     (let ty = unwrap_or (jget_str event ''type'') [] in
      if ty = ''response.created'' then responses_created E event
      else if starts_with ''response.audio.'' ty
        then reject_openai_stream E ''invalid_request_error''
          ''unsupported_openai_responses_stream_event''
          ''OpenAI Responses audio streaming events cannot be translated losslessly.''
      else if ty = ''response.output_text.delta''
        then plain_delta E ''content'' (unwrap_or (jget_str event ''delta'') [])
      else if ty = ''response.refusal.delta''
        then responses_refusal E (unwrap_or (jget_str event ''delta'') [])
      else if ty = ''response.refusal.done''
        then responses_refusal E (unwrap_or (jget_str event ''refusal'') [])
      else if ty = ''response.reasoning_summary_text.delta''
        then plain_delta E ''reasoning_content'' (unwrap_or (jget_str event ''delta'') [])
      else if ty = ''response.output_item.added'' then responses_output_item_added E event
      else if ty = ''response.function_call_arguments.delta''
        then responses_arguments_delta E event False
      else if ty = ''response.custom_tool_call_input.delta''
        then responses_arguments_delta E event True
      else if ty = ''response.custom_tool_call_input.done'' then responses_custom_input_done E event
      else if ty = ''response.completed'' \<or> ty = ''response.incomplete'' \<or> ty = ''response.failed''
        then responses_terminal E ty event
      else skip)"

section \<open>Contracts\<close>

lemma capture_model_keeps [simp]:
  "openai_role_sent (capture_responses_model r s) = openai_role_sent s"
  "finish_reason_sent (capture_responses_model r s) = finish_reason_sent s"
  "openai_tool_calls (capture_responses_model r s) = openai_tool_calls s"
  by (simp_all add: capture_responses_model_def split: option.split)

lemma note_terminal_keeps [simp]:
  "openai_role_sent (note_terminal event s) = openai_role_sent s"
  "finish_reason_sent (note_terminal event s) = finish_reason_sent s"
  "openai_tool_calls (note_terminal event s) = openai_tool_calls s"
  by (simp_all add: note_terminal_def Let_def split: option.split)

lemma sat_prod: "(\<And>a b. p = (a, b) \<Longrightarrow> sat R (f a b)) \<Longrightarrow> sat R (case p of (a, b) \<Rightarrow> f a b)"
  by (cases p) simp

lemma sat_sum:
  "(\<And>a. x = Inl a \<Longrightarrow> sat R (f a)) \<Longrightarrow> (\<And>b. x = Inr b \<Longrightarrow> sat R (g b)) \<Longrightarrow>
   sat R (case x of Inl a \<Rightarrow> f a | Inr b \<Rightarrow> g b)"
  by (cases x) simp_all

lemma close_bridge_role_once: "role_once (close_bridge E idx call_id full tc)"
  unfolding close_bridge_def
  by (intro role_once_intros sat_prod) (simp_all add: bridge_delta_payload_def)

lemma close_bridge_finish_quiet: "finish_quiet (close_bridge E idx call_id full tc)"
  unfolding close_bridge_def by (intro finish_quiet_intros sat_prod) simp_all

lemma terminal_bridge_role_once: "role_once (responses_terminal_custom_tool_bridge_chunk E event)"
  unfolding responses_terminal_custom_tool_bridge_chunk_def terminal_bridge_item_def
  by (intro role_once_intros close_bridge_role_once)

lemma terminal_bridge_finish_quiet: "finish_quiet (responses_terminal_custom_tool_bridge_chunk E event)"
  unfolding responses_terminal_custom_tool_bridge_chunk_def terminal_bridge_item_def
  by (intro finish_quiet_intros close_bridge_finish_quiet)

lemma responses_final_role_once: "role_once (emit (responses_final_chunk E ty event))"
  by (rule role.silent_sat) (simp add: emit_def responses_final_chunk_def is_role_chunk_def)

lemma responses_event_role_once: "role_once (responses_event_to_openai_chunks E event)"
  unfolding responses_event_to_openai_chunks_def responses_created_def plain_delta_def
    responses_refusal_def responses_output_item_added_def responses_tool_item_added_def
    responses_arguments_delta_def responses_custom_input_done_def responses_terminal_def Let_def
  by (intro role_once_intros sat_prod sat_sum close_bridge_role_once terminal_bridge_role_once
      responses_final_role_once) simp_all

lemma responses_event_finish_once: "finish_once (responses_event_to_openai_chunks E event)"
proof -
  have close: "finish_once (reading (\<lambda>s. only_if (\<not> finish_reason_sent s) (run_steps
      [emit (responses_final_chunk E ty event), modify (\<lambda>s. s\<lparr>finish_reason_sent := True\<rparr>)])))" for ty
    by (rule finish.close_plain_sat) simp
  show ?thesis
    unfolding responses_event_to_openai_chunks_def responses_created_def plain_delta_def
      responses_refusal_def responses_output_item_added_def responses_tool_item_added_def
      responses_arguments_delta_def responses_custom_input_done_def responses_terminal_def Let_def
    by (intro close finish_once_intros sat_prod sat_sum finish.silent_latched [OF close_bridge_finish_quiet]
        finish.silent_latched [OF terminal_bridge_finish_quiet]) simp_all
qed

section \<open>A custom tool call on the way\<close>

definition custom_added_event :: "string \<Rightarrow> string \<Rightarrow> string \<Rightarrow> string \<Rightarrow> json" where
  "custom_added_event item call_id name input = jobj
     [(''type'', JStr ''response.output_item.added''),
      (''item'', jobj [(''type'', JStr ''custom_tool_call''), (''id'', JStr item),
         (''call_id'', JStr call_id), (''name'', JStr name), (''input'', JStr input)])]"

definition custom_delta_event :: "string \<Rightarrow> string \<Rightarrow> json" where
  "custom_delta_event item delta = jobj
     [(''type'', JStr ''response.custom_tool_call_input.delta''), (''item_id'', JStr item),
      (''delta'', JStr delta)]"

definition custom_done_event :: "string \<Rightarrow> string \<Rightarrow> json" where
  "custom_done_event item input = jobj
     [(''type'', JStr ''response.custom_tool_call_input.done''), (''item_id'', JStr item),
      (''input'', JStr input)]"

text \<open>What a client puts together from the argument deltas of the tool call at an index.\<close>

definition assembled :: "nat \<Rightarrow> json list \<Rightarrow> string" where
  "assembled idx out = concat (map (\<lambda>tc. unwrap_or (call_arguments tc) [])
     (filter (\<lambda>tc. jget_u64 tc ''index'' = Some idx) (concat (map chunk_tool_calls out))))"

lemma assembled_append: "assembled idx (a @ b) = assembled idx a @ assembled idx b"
  by (simp add: assembled_def)

lemma assembled_Nil [simp]: "assembled idx [] = []"
  by (simp add: assembled_def)

definition custom_call_open :: "env \<Rightarrow> nat \<Rightarrow> string \<Rightarrow> string \<Rightarrow> stream_state \<Rightarrow> bool" where
  "custom_call_open E idx item sofar s =
     (\<exists>tc. openai_tool_calls s = [(idx, tc)] \<and> tc_item_id tc = Some item
        \<and> tc_custom_input_text tc = Some sofar \<and> \<not> tc_custom_input_done tc
        \<and> tc_proxied_tool_kind tc = None)"

lemma single_entry: "order_ok E \<Longrightarrow> hm_entries E [(idx, tc)] = [(idx, tc)]"
proof -
  assume "order_ok E"
  then have k: "set (hash_order E [idx]) = {idx}" "distinct (hash_order E [idx])"
    by (simp_all add: order_ok_def)
  then obtain r where r: "hash_order E [idx] = idx # r"
    by (cases "hash_order E [idx]") auto
  with k have "r = []" by (cases r) auto
  with r show ?thesis by (simp add: hm_entries_def hm_keys_def List.map_filter_def)
qed

lemma open_call_index:
  assumes "order_ok E" and "openai_tool_calls s = [(idx, tc)]" and "tc_item_id tc = Some item"
    and "jget_str event ''item_id'' = Some item"
  shows "delta_index E event s = idx"
  using assms by (simp add: delta_index_def responses_event_tool_call_index_def single_entry Let_def)

lemma custom_added_step:
  assumes "openai_tool_calls s = []" and "\<not> custom_bridge_prefix_is_reserved name"
  shows "\<exists>s' out. responses_event_to_openai_chunks E (custom_added_event item call_id name input) s = (s', out)
    \<and> custom_call_open E (openai_tool_call_index s) item input s'
    \<and> assembled (openai_tool_call_index s) out = openai_custom_bridge_start_delta_stream E input"
  using assms
  by (simp add: responses_event_to_openai_chunks_def custom_added_event_def jget_str_def Let_def
      starts_with_def responses_output_item_added_def responses_tool_item_added_def step_defs
      validate_public_tool_name_not_reserved_def added_tool_call_def added_tool_delta_def
      assembled_def custom_call_open_def call_arguments_def jget_u64_def hm_insert_def jopt_def
      default_tool_call_def)

lemma escape_Nil: "escapes_piecewise E \<Longrightarrow> openai_custom_bridge_input_delta_stream E [] = []"
  using escape_append [of E "[]" "[]"] by (simp add: openai_custom_bridge_input_delta_stream_def)

lemma custom_delta_step:
  assumes "order_ok E" and "escapes_piecewise E" and "custom_call_open E idx item sofar s"
  shows "\<exists>s' out. responses_event_to_openai_chunks E (custom_delta_event item delta) s = (s', out)
    \<and> custom_call_open E idx item (sofar @ delta) s'
    \<and> assembled idx out = openai_custom_bridge_input_delta_stream E delta"
proof -
  obtain tc where tc: "openai_tool_calls s = [(idx, tc)]" "tc_item_id tc = Some item"
    "tc_custom_input_text tc = Some sofar" "\<not> tc_custom_input_done tc" "tc_proxied_tool_kind tc = None"
    using assms(3) by (auto simp: custom_call_open_def)
  have i: "delta_index E (custom_delta_event item delta) s = idx"
    by (rule open_call_index [OF assms(1) tc(1,2)]) (simp add: custom_delta_event_def jget_str_def)
  have step: "responses_event_to_openai_chunks E (custom_delta_event item delta)
      = responses_arguments_delta E (custom_delta_event item delta) True"
    by (simp add: responses_event_to_openai_chunks_def custom_delta_event_def jget_str_def Let_def
        starts_with_def)
  have d: "jget_str (custom_delta_event item delta) ''delta'' = Some delta"
    by (simp add: custom_delta_event_def jget_str_def)
  show ?thesis
  proof (cases "delta = []")
    case True
    with tc d show ?thesis
      unfolding step by (simp add: responses_arguments_delta_def step_defs Let_def escape_Nil
          assms(2) custom_call_open_def)
  next
    case False
    with tc show ?thesis
      unfolding step
      by (simp add: responses_arguments_delta_def step_defs Let_def d i note_tool_delta_def
          custom_call_open_def option_else_def hm_insert_def assembled_def tool_delta_payload_def
          call_arguments_def jget_u64_def)
  qed
qed

lemma custom_deltas_run:
  assumes "order_ok E" and "escapes_piecewise E"
  shows "custom_call_open E idx item sofar s \<Longrightarrow>
    \<exists>s' out. for_each (responses_event_to_openai_chunks E) (map (custom_delta_event item) ds) s = (s', out)
      \<and> custom_call_open E idx item (sofar @ concat ds) s'
      \<and> openai_custom_bridge_start_delta_stream E sofar @ assembled idx out
        = openai_custom_bridge_start_delta_stream E (sofar @ concat ds)"
proof (induction ds arbitrary: sofar s)
  case (Cons d ds)
  obtain s1 out1 where one: "responses_event_to_openai_chunks E (custom_delta_event item d) s = (s1, out1)"
    and o: "custom_call_open E idx item (sofar @ d) s1"
    and a: "assembled idx out1 = openai_custom_bridge_input_delta_stream E d"
    using custom_delta_step [OF assms Cons.prems] by blast
  from Cons.IH [OF o] obtain s2 out2 where
    "for_each (responses_event_to_openai_chunks E) (map (custom_delta_event item) ds) s1 = (s2, out2)"
    "custom_call_open E idx item ((sofar @ d) @ concat ds) s2"
    "openai_custom_bridge_start_delta_stream E (sofar @ d) @ assembled idx out2
       = openai_custom_bridge_start_delta_stream E ((sofar @ d) @ concat ds)" by blast
  with one a bridge_start_append [OF assms(2), of sofar d] show ?case
    by (simp add: for_each_Cons assembled_append) (metis append_assoc)
qed (simp add: custom_call_open_def)

lemma custom_done_step:
  assumes "order_ok E" and "escapes_piecewise E" and "custom_call_open E idx item sofar s"
  shows "assembled idx (snd (responses_event_to_openai_chunks E (custom_done_event item full) s))
    = openai_custom_bridge_input_delta_stream E (unwrap_or (strip_prefix sofar full) [])
      @ openai_custom_bridge_done_delta_stream"
proof -
  obtain tc where tc: "openai_tool_calls s = [(idx, tc)]" "tc_item_id tc = Some item"
    "tc_custom_input_text tc = Some sofar" "\<not> tc_custom_input_done tc"
    using assms(3) by (auto simp: custom_call_open_def)
  have i: "delta_index E (custom_done_event item full) s = idx"
    by (rule open_call_index [OF assms(1) tc(1,2)]) (simp add: custom_done_event_def jget_str_def)
  have step: "responses_event_to_openai_chunks E (custom_done_event item full)
      = responses_custom_input_done E (custom_done_event item full)"
    by (simp add: responses_event_to_openai_chunks_def custom_done_event_def jget_str_def Let_def
        starts_with_def)
  have d: "jget_str (custom_done_event item full) ''input'' = Some full"
    by (simp add: custom_done_event_def jget_str_def)
  show ?thesis
    using tc escape_Nil [OF assms(2)] unfolding step
    by (simp add: responses_custom_input_done_def step_defs Let_def d i close_bridge_def
        finalize_custom_tool_call_bridge_delta_def assembled_def bridge_delta_payload_def
        call_arguments_def jget_u64_def)
qed

section \<open>Properties\<close>

definition responses_run :: "env \<Rightarrow> json list \<Rightarrow> (stream_state, json) step" where
  "responses_run E events = for_each (responses_event_to_openai_chunks E) events"

text \<open>
  Whatever events a Responses upstream sends, the chunks announce the assistant role at most once
  and carry at most one regular finish reason; and a state that has announced them never does again.
\<close>

theorem responses_stream_shape:
  "let out = snd (responses_run E events s) in
   length (filter is_role_chunk out) + of_bool (openai_role_sent s) \<le> 1
   \<and> length (filter is_finish_chunk out) + of_bool (finish_reason_sent s) \<le> 1"
proof -
  have r: "role_once (responses_run E events)" and f: "finish_once (responses_run E events)"
    unfolding responses_run_def
    by (intro role.for_each_sat finish.for_each_sat responses_event_role_once
        responses_event_finish_once)+
  from role.budget [OF satD [OF r, of s]] finish.budget [OF satD [OF f, of s]] show ?thesis
    by (simp add: Let_def)
qed

text \<open>
  C12. A custom tool call arrives whole: when a Responses upstream announces it with the first part of
  its input, streams the next parts and closes it with the full input, the argument deltas the client
  gets, put together, are the JSON object \<open>{"input": ...}\<close> whose string is the streamed text followed
  by what the full input adds to it.
\<close>

theorem custom_tool_call_arrives:
  assumes "order_ok E" and "escapes_piecewise E"
    and "openai_tool_calls s = []" and "\<not> custom_bridge_prefix_is_reserved name"
  shows "openai_custom_bridge_decode_arguments_stream E
      (assembled (openai_tool_call_index s)
        (snd (responses_run E ([custom_added_event item call_id name input]
           @ map (custom_delta_event item) ds @ [custom_done_event item full]) s)))
    = Some (input @ concat ds @ unwrap_or (strip_prefix (input @ concat ds) full) [])"
proof -
  let ?idx = "openai_tool_call_index s"
  let ?sofar = "input @ concat ds"
  let ?rest = "unwrap_or (strip_prefix ?sofar full) []"
  obtain s1 out1 where one: "responses_event_to_openai_chunks E (custom_added_event item call_id name input) s
      = (s1, out1)" and o1: "custom_call_open E ?idx item input s1"
    and a1: "assembled ?idx out1 = openai_custom_bridge_start_delta_stream E input"
    using custom_added_step [OF assms(3,4)] by blast
  obtain s2 out2 where two: "for_each (responses_event_to_openai_chunks E) (map (custom_delta_event item) ds) s1
      = (s2, out2)" and o2: "custom_call_open E ?idx item ?sofar s2"
    and a2: "openai_custom_bridge_start_delta_stream E input @ assembled ?idx out2
      = openai_custom_bridge_start_delta_stream E ?sofar"
    using custom_deltas_run [OF assms(1,2) o1] by blast
  obtain s3 out3 where three: "responses_event_to_openai_chunks E (custom_done_event item full) s2 = (s3, out3)"
    by (cases "responses_event_to_openai_chunks E (custom_done_event item full) s2")
  have run: "snd (responses_run E ([custom_added_event item call_id name input]
      @ map (custom_delta_event item) ds @ [custom_done_event item full]) s) = out1 @ out2 @ out3"
    using one two three
    by (simp add: responses_run_def for_each_def run_steps_append)
  have "assembled ?idx (out1 @ out2 @ out3)
      = openai_custom_bridge_start_delta_stream E (?sofar @ ?rest) @ openai_custom_bridge_done_delta_stream"
    using custom_done_step [OF assms(1,2) o2, of full] three a1 a2
      bridge_start_append [OF assms(2), of ?sofar ?rest]
    by (simp add: assembled_append) (metis append_assoc)
  then show ?thesis
    unfolding run using bridge_text_decodes [OF assms(2), of "?sofar @ ?rest"] by simp
qed

text \<open>An environment whose printer quotes without escapes.\<close>

definition quoting_env :: env where
  "quoting_env = example_env
     \<lparr>json_text := (\<lambda>v. case v of JStr s \<Rightarrow> [dquote] @ s @ [dquote] | _ \<Rightarrow> []),
      json_parse := (\<lambda>t. Some (JObj [(''input'', JStr (take (length t - 12) (drop 10 t)))]))\<rparr>"

lemma quoting_env_ok: "order_ok quoting_env" "escapes_piecewise quoting_env"
  by (simp_all add: quoting_env_def order_ok_def example_env_def escapes_piecewise_def
      escape_json_string_content_stream_def Let_def)

theorem custom_tool_call_arrives_witness:
  "openai_custom_bridge_decode_arguments_stream quoting_env
      (assembled 0 (snd (responses_run quoting_env
        ([custom_added_event ''i'' ''c'' ''patch'' ''ab'']
         @ map (custom_delta_event ''i'') [''cd'', ''e''] @ [custom_done_event ''i'' ''abcdef'']) default_state)))
    = Some ''abcdef''"
proof -
  have "openai_tool_calls default_state = []" "openai_tool_call_index default_state = 0"
    by (simp_all add: default_state_def)
  moreover have "\<not> custom_bridge_prefix_is_reserved ''patch''" by code_simp
  ultimately show ?thesis
    using custom_tool_call_arrives [OF quoting_env_ok, of default_state "''patch''" "''i''" "''c''" "''ab''"
        "[''cd'', ''e'']" "''abcdef''"]
    by (simp add: strip_prefix_def starts_with_def)
qed

text \<open>
  The finish reason a Responses terminal is translated to: \<open>response.failed\<close> gives one of the four
  failure reasons whatever its code and output, \<open>response.incomplete\<close> never gives \<open>tool_calls\<close> and says
  \<open>length\<close> exactly when the upstream ran out of output tokens, and \<open>response.completed\<close> says
  \<open>tool_calls\<close> exactly when a tool call was streamed or is in its output.
\<close>

theorem responses_finish_reasons:
  "responses_finish ''response.failed'' event s
     \<in> {''error'', ''context_length_exceeded'', ''content_filter'', ''tool_error''}
   \<and> responses_finish ''response.incomplete'' event s \<noteq> ''tool_calls''
   \<and> (responses_finish ''response.incomplete'' event s = ''length'')
      = (ostr (ogetj (ogetj (jget event ''response'') ''incomplete_details'') ''reason'')
          = Some ''max_output_tokens'')
   \<and> responses_finish ''response.completed'' event s
      = (if openai_tool_calls s = []
           \<and> list_all (\<lambda>item. \<not> is_tool_call_item item)
               (unwrap_or (Option.bind (ogetj (jget event ''response'') ''output'') as_array) [])
         then ''stop'' else ''tool_calls'')"
proof -
  have "responses_finish ''response.failed'' event s
     \<in> {''error'', ''context_length_exceeded'', ''content_filter'', ''tool_error''}"
    by (simp add: responses_finish_def Let_def responses_failed_code_to_openai_finish_stream_def
        responses_failed_code_to_openai_finish_def classify_portable_non_success_terminal_def
        split: option.split)
  moreover have "incomplete_finish r \<noteq> ''tool_calls'' \<and>
      (incomplete_finish r = ''length'') = (r = Some ''max_output_tokens'')" for r
    by (simp add: incomplete_finish_def split: option.split)
  ultimately show ?thesis by (simp add: responses_finish_def Let_def list_ex_iff list_all_iff)
qed

end
