(* ===== verification/Claude_Sink.thy ===== *)
theory Claude_Sink
  imports Source_Contracts
begin

text \<open>
  The sink side for an Anthropic client (\<open>src/streaming/openai_sink.rs\<close>, \<open>openai_chunk_to_claude_sse\<close>
  and its helpers): every Chat Completions chunk becomes frames of a Messages stream. The client's
  side of the protocol, which blocks are open and which index comes next, is an automaton that the
  frames are shown to satisfy.
\<close>

section \<open>Deltas of a chunk\<close>

definition minimax_reasoning_details_text :: "json option \<Rightarrow> string option" where
  "minimax_reasoning_details_text v = (case v of
      Some (JStr s) \<Rightarrow> if s \<noteq> [] then Some s else None
    | Some (JArr items) \<Rightarrow>
        let joined = concat (List.map_filter (\<lambda>item. jget_str item ''text'') items)
        in if joined \<noteq> [] then Some joined else None
    | _ \<Rightarrow> None)"

definition is_minimax_chunk :: "json \<Rightarrow> stream_state \<Rightarrow> bool" where
  "is_minimax_chunk chunk s = (case option_or (jget_str chunk ''model'') (model s) of
      None \<Rightarrow> False
    | Some m \<Rightarrow> starts_with ''MiniMax-'' m)"

definition openai_chunk_reasoning_delta :: "json \<Rightarrow> stream_state \<Rightarrow> string option \<times> stream_state" where
  "openai_chunk_reasoning_delta delta s =
     (case option_or (ostr (option_or (jget delta ''reasoning_content'') (jget delta ''reasoning'')))
             (minimax_reasoning_details_text (jget delta ''reasoning_details'')) of
        None \<Rightarrow> (None, s)
      | Some t \<Rightarrow>
          let (d, seen) = normalize_openai_stream_text t (openai_seen_reasoning s)
          in (d, s\<lparr>openai_seen_reasoning := seen\<rparr>))"

definition openai_chunk_content_delta :: "json \<Rightarrow> stream_state \<Rightarrow> string option \<times> stream_state" where
  "openai_chunk_content_delta delta s = (case jget_str delta ''content'' of
      None \<Rightarrow> (None, s)
    | Some t \<Rightarrow>
        let (d, seen) = normalize_openai_stream_text t (openai_seen_content s)
        in (d, s\<lparr>openai_seen_content := seen\<rparr>))"

definition openai_chunk_refusal_delta :: "json \<Rightarrow> stream_state \<Rightarrow> string option \<times> stream_state" where
  "openai_chunk_refusal_delta delta s = (case jget_str delta ''refusal'' of
      None \<Rightarrow> (None, s)
    | Some t \<Rightarrow>
        let (d, seen) = normalize_openai_stream_text t (openai_seen_refusal s)
        in (d, s\<lparr>openai_seen_refusal := seen\<rparr>))"

definition openai_chunk_annotations_delta :: "json \<Rightarrow> json list" where
  "openai_chunk_annotations_delta delta = unwrap_or (jget_array delta ''annotations'') []"

section \<open>Frames\<close>

text \<open>\<open>format_sse_event(ty, json!({"type": ty, ...}))\<close>.\<close>

definition claude_frame :: "string \<Rightarrow> (string \<times> json) list \<Rightarrow> frame" where
  "claude_frame ty kvs = Frame (Some ty) (jobj ((''type'', JStr ty) # kvs))"

definition block_stop_frame :: "nat \<Rightarrow> frame" where
  "block_stop_frame i = claude_frame ''content_block_stop'' [(''index'', jnat i)]"

definition block_start_frame :: "nat \<Rightarrow> json \<Rightarrow> frame" where
  "block_start_frame i block =
     claude_frame ''content_block_start'' [(''index'', jnat i), (''content_block'', block)]"

definition block_delta_frame :: "nat \<Rightarrow> json \<Rightarrow> frame" where
  "block_delta_frame i delta =
     claude_frame ''content_block_delta'' [(''index'', jnat i), (''delta'', delta)]"

definition anthropic_error_event :: "string \<Rightarrow> string \<Rightarrow> frame" where
  "anthropic_error_event error_type message = claude_frame ''error''
     [(''error'', jobj [(''type'', JStr error_type), (''message'', JStr message)])]"

definition reject_anthropic_stream :: "string \<Rightarrow> string \<Rightarrow> (stream_state, frame) step" where
  "reject_anthropic_stream error_type raw s =
     (let (s', message) = mark_stream_fatal_rejection raw s
      in (s', [anthropic_error_event error_type message]))"

section \<open>Blocks\<close>

definition stop_thinking_block_claude :: "(stream_state, frame) step" where
  "stop_thinking_block_claude s =
     (if \<not> thinking_block_started s then (s, [])
      else (s\<lparr>thinking_block_started := False\<rparr>, [block_stop_frame (thinking_block_index s)]))"

definition ensure_thinking_block_claude :: "(stream_state, frame) step" where
  "ensure_thinking_block_claude s =
     (if thinking_block_started s then (s, [])
      else let i = next_block_index s
           in (s\<lparr>thinking_block_index := i, next_block_index := Suc i, thinking_block_started := True\<rparr>,
               [block_start_frame i (jobj [(''type'', JStr ''thinking''), (''thinking'', JStr [])])]))"

definition stop_text_block_claude :: "(stream_state, frame) step" where
  "stop_text_block_claude s =
     (if \<not> text_block_started s \<or> text_block_closed s then (s, [])
      else (s\<lparr>text_block_closed := True, text_block_started := False\<rparr>,
            [block_stop_frame (text_block_index s)]))"

definition ensure_text_block_claude :: "(stream_state, frame) step" where
  "ensure_text_block_claude s =
     (if text_block_started s then (s, [])
      else let i = next_block_index s
           in (s\<lparr>text_block_index := i, next_block_index := Suc i, text_block_started := True,
                 text_block_closed := False\<rparr>,
               [block_start_frame i (jobj [(''type'', JStr ''text''), (''text'', JStr [])])]))"

section \<open>A chunk\<close>

definition claude_message_id :: "json \<Rightarrow> string" where
  "claude_message_id chunk = (case jget_str chunk ''id'' of
      None \<Rightarrow> ''msg_0''
    | Some t \<Rightarrow>
        let m = unwrap_or (strip_prefix ''chatcmpl-'' t) t
        in if m \<noteq> [] \<and> m \<noteq> ''chat'' \<and> length m \<ge> 8 then m else ''msg_0'')"

definition zero_usage :: json where
  "zero_usage = jobj [(''input_tokens'', jnat 0), (''output_tokens'', jnat 0)]"

definition claude_message_start_frame :: "stream_state \<Rightarrow> frame" where
  "claude_message_start_frame s = claude_frame ''message_start''
     [(''message'', jobj
        [(''id'', jopt_str (message_id s)), (''type'', JStr ''message''), (''role'', JStr ''assistant''),
         (''model'', jopt_str (model s)), (''content'', JArr []), (''stop_reason'', JNull),
         (''stop_sequence'', JNull), (''usage'', zero_usage)])]"

definition ensure_claude_message_start :: "json \<Rightarrow> json \<Rightarrow> (stream_state, frame) step" where
  "ensure_claude_message_start chunk choice s =
     (if message_start_sent s then (s, [])
      else let s' = s\<lparr>message_start_sent := True, message_id := Some (claude_message_id chunk),
                      model := ostr (option_or (jget choice ''model'') (jget chunk ''model'')),
                      next_block_index := 0\<rparr>
           in (s', [claude_message_start_frame s']))"

definition claude_reasoning :: "string option \<Rightarrow> (stream_state, frame) step" where
  "claude_reasoning reasoning = (case reasoning of
      None \<Rightarrow> skip
    | Some r \<Rightarrow> only_if (r \<noteq> []) (run_steps
        [stop_text_block_claude,
         ensure_thinking_block_claude,
         emit (\<lambda>s. block_delta_frame (thinking_block_index s)
           (jobj [(''type'', JStr ''thinking_delta''), (''thinking'', JStr r)]))]))"

definition claude_content :: "json \<Rightarrow> (stream_state, frame) step" where
  "claude_content delta = reading (\<lambda>s.
     let (content, s') = openai_chunk_content_delta delta s in run_steps
       [modify (\<lambda>_. s'),
        (case content of
           None \<Rightarrow> skip
         | Some c \<Rightarrow> only_if (c \<noteq> []) (run_steps
             [stop_thinking_block_claude,
              ensure_text_block_claude,
              emit (\<lambda>s. block_delta_frame (text_block_index s)
                (jobj [(''type'', JStr ''text_delta''), (''text'', JStr c)]))]))])"

definition open_tool_block :: "nat \<Rightarrow> json \<Rightarrow> string \<Rightarrow> (stream_state, frame) step" where
  "open_tool_block idx tc ty s =
     (let i = next_block_index s in
      (s\<lparr>next_block_index := Suc i, tool_block_indices := hm_insert idx i (tool_block_indices s)\<rparr>,
       [block_start_frame i (jobj
          [(''type'', JStr ty), (''id'', JStr (unwrap_or (jget_str tc ''id'') [])),
           (''name'', JStr (unwrap_or (ostr (ogetj (jget tc ''function'') ''name'')) [])),
           (''input'', jobj [])])]))"

text \<open>
  The branch of a type that does not exist returns from the whole function in the code; it is never
  taken, because the calls were checked before the loop (\<open>checked_tool_types\<close>).
\<close>

definition claude_tool_start :: "env \<Rightarrow> nat \<Rightarrow> json \<Rightarrow> (stream_state, frame) step" where
  "claude_tool_start E idx tc = only_if (jget tc ''id'' \<noteq> None) (run_steps
     [stop_thinking_block_claude,
      stop_text_block_claude,
      (case anthropic_tool_use_type_for_openai_tool_call E tc of
         Inl message \<Rightarrow> reject_anthropic_stream ''invalid_request_error'' message
       | Inr ty \<Rightarrow> open_tool_block idx tc ty)])"

definition claude_tool_arguments :: "nat \<Rightarrow> json \<Rightarrow> (stream_state, frame) step" where
  "claude_tool_arguments idx tc = reading (\<lambda>s.
     case (call_arguments tc, hm_get (tool_block_indices s) idx) of
       (Some args, Some i) \<Rightarrow> only_if (args \<noteq> []) (emit (\<lambda>_. block_delta_frame i
         (jobj [(''type'', JStr ''input_json_delta''), (''partial_json'', JStr args)])))
     | _ \<Rightarrow> skip)"

definition claude_tool_call :: "env \<Rightarrow> json \<Rightarrow> (stream_state, frame) step" where
  "claude_tool_call E tc =
     (let idx = unwrap_or (jget_u64 tc ''index'') 0
      in run_steps [claude_tool_start E idx tc, claude_tool_arguments idx tc])"

definition delta_tool_calls :: "json \<Rightarrow> json list" where
  "delta_tool_calls delta = unwrap_or (jget_array delta ''tool_calls'') []"

definition claude_finish :: "env \<Rightarrow> string \<Rightarrow> (stream_state, frame) step" where
  "claude_finish E fr = (case classify_openai_finish_for_anthropic fr of
      TerminalError error_type message \<Rightarrow> emit (\<lambda>_. anthropic_error_event error_type message)
    | StopReason stop_reason \<Rightarrow> run_steps
        [stop_thinking_block_claude,
         stop_text_block_claude,
         reading (\<lambda>s. for_each (\<lambda>(_, i). emit (\<lambda>_. block_stop_frame i)) (hm_entries E (tool_block_indices s))),
         emit (\<lambda>s. claude_frame ''message_delta''
           [(''delta'', jobj [(''stop_reason'', JStr stop_reason)]),
            (''usage'', unwrap_or (usage s) zero_usage)]),
         emit (\<lambda>_. claude_frame ''message_stop'' [])])"

text \<open>The part of the function after its checks, and the function.\<close>

definition claude_chunk_body ::
    "env \<Rightarrow> json \<Rightarrow> json \<Rightarrow> json \<Rightarrow> string option \<Rightarrow> string option \<Rightarrow> (stream_state, frame) step" where
  "claude_chunk_body E chunk choice delta finish reasoning = run_steps
     [ensure_claude_message_start chunk choice,
      claude_reasoning reasoning,
      claude_content delta,
      for_each (claude_tool_call E) (delta_tool_calls delta),
      (case finish of None \<Rightarrow> skip | Some fr \<Rightarrow> claude_finish E fr)]"

definition first_tool_error :: "env \<Rightarrow> json list \<Rightarrow> string option" where
  "first_tool_error E calls =
     (case List.map_filter (\<lambda>tc. case anthropic_tool_use_type_for_openai_tool_call E tc of
             Inl message \<Rightarrow> Some message | Inr _ \<Rightarrow> None) calls of
        [] \<Rightarrow> None
      | message # _ \<Rightarrow> Some message)"

definition delta_is_empty :: "json \<Rightarrow> bool" where
  "delta_is_empty delta = (case delta of JObj kvs \<Rightarrow> kvs = [] | _ \<Rightarrow> is_null delta)"

text \<open>What the function answers once the deltas are read, \<open>started\<close> being \<open>message_start_sent\<close>.\<close>

definition claude_answer :: "env \<Rightarrow> json \<Rightarrow> json \<Rightarrow> bool \<Rightarrow> string option \<Rightarrow> (stream_state, frame) step" where
  "claude_answer E chunk choice started reasoning =
     (let delta = unwrap_or (jget choice ''delta'') JNull;
          finish = jget_str choice ''finish_reason''
      in case first_tool_error E (delta_tool_calls delta) of
           Some message \<Rightarrow> reject_anthropic_stream ''invalid_request_error'' message
         | None \<Rightarrow>
             (case map_option classify_openai_finish_for_anthropic finish of
                Some (TerminalError error_type message) \<Rightarrow>
                  if \<not> started \<and> delta_is_empty delta
                  then emit (\<lambda>_. anthropic_error_event error_type message)
                  else claude_chunk_body E chunk choice delta finish reasoning
              | _ \<Rightarrow> claude_chunk_body E chunk choice delta finish reasoning))"

definition claude_chunk_choice :: "env \<Rightarrow> json \<Rightarrow> json \<Rightarrow> (stream_state, frame) step" where
  "claude_chunk_choice E chunk choice = reading (\<lambda>s.
     let (reasoning, s') = openai_chunk_reasoning_delta (unwrap_or (jget choice ''delta'') JNull) s
     in run_steps [modify (\<lambda>_. s'), claude_answer E chunk choice (message_start_sent s) reasoning])"

definition openai_chunk_to_claude_sse :: "env \<Rightarrow> json \<Rightarrow> (stream_state, frame) step" where
  "openai_chunk_to_claude_sse E chunk = reading (\<lambda>s.
     if fatal_rejection s \<noteq> None \<and> jget chunk ''error'' = None then skip
     else run_steps
       [modify (\<lambda>s. case jget chunk ''usage'' of
           None \<Rightarrow> s
         | Some u \<Rightarrow> s\<lparr>usage := Some (openai_usage_to_anthropic_usage_stream u)\<rparr>),
        (case jget_array chunk ''choices'' of
           Some (choice # _) \<Rightarrow> claude_chunk_choice E chunk choice
         | _ \<Rightarrow> skip)])"

section \<open>The client's side of the protocol\<close>

text \<open>
  Specification. A client knows whether the message started, which blocks are open, and the index the
  next block must have; a frame that does not fit is not accepted.
\<close>

record claude_client =
  cl_started :: bool
  cl_open :: "nat set"
  cl_next :: nat

definition new_client :: claude_client where
  "new_client = \<lparr>cl_started = False, cl_open = {}, cl_next = 0\<rparr>"

definition client_event :: "string \<Rightarrow> json \<Rightarrow> claude_client \<Rightarrow> claude_client option" where
  "client_event ty v c =
     (let i = jget_u64 v ''index'' in
      if ty = ''message_start'' then if cl_started c then None else Some (c\<lparr>cl_started := True\<rparr>)
      else if ty = ''content_block_start'' then
        if cl_started c \<and> i = Some (cl_next c)
        then Some (c\<lparr>cl_open := insert (cl_next c) (cl_open c), cl_next := Suc (cl_next c)\<rparr>) else None
      else if ty = ''content_block_delta'' then
        if i \<in> Some ` cl_open c then Some c else None
      else if ty = ''content_block_stop'' then
        if i \<in> Some ` cl_open c then Some (c\<lparr>cl_open := cl_open c - set_option i\<rparr>) else None
      else if ty = ''message_delta'' \<or> ty = ''message_stop'' then if cl_started c then Some c else None
      else if ty = ''error'' then Some c
      else None)"

fun client_step :: "frame \<Rightarrow> claude_client \<Rightarrow> claude_client option" where
  "client_step (Frame (Some ty) v) c = client_event ty v c"
| "client_step _ c = None"

fun client_accepts :: "frame list \<Rightarrow> claude_client \<Rightarrow> claude_client option" where
  "client_accepts [] c = Some c"
| "client_accepts (f # fs) c = Option.bind (client_step f c) (client_accepts fs)"

lemma client_accepts_append:
  "client_accepts (a @ b) c = Option.bind (client_accepts a c) (client_accepts b)"
proof (induction a arbitrary: c)
  case (Cons f a)
  then show ?case by (cases "client_step f c") simp_all
qed simp

lemma client_frames [simp]:
  "client_step (block_start_frame i b) c =
     (if cl_started c \<and> i = cl_next c
      then Some (c\<lparr>cl_open := insert i (cl_open c), cl_next := Suc i\<rparr>) else None)"
  "client_step (block_delta_frame i d) c = (if i \<in> cl_open c then Some c else None)"
  "client_step (block_stop_frame i) c =
     (if i \<in> cl_open c then Some (c\<lparr>cl_open := cl_open c - {i}\<rparr>) else None)"
  "client_step (anthropic_error_event ty m) c = Some c"
  "client_step (claude_message_start_frame s) c =
     (if cl_started c then None else Some (c\<lparr>cl_started := True\<rparr>))"
  by (auto simp: block_start_frame_def block_delta_frame_def block_stop_frame_def claude_frame_def
      client_event_def jget_u64_def anthropic_error_event_def claude_message_start_frame_def Let_def)

text \<open>
  How the sink's state and the client correspond: the blocks the state believes open are open at the
  client, they are different blocks, and both agree on the next index.
\<close>

definition claude_inv :: "stream_state \<Rightarrow> claude_client \<Rightarrow> bool" where
  "claude_inv s c =
     (cl_started c = message_start_sent s
      \<and> cl_next c = (if message_start_sent s then next_block_index s else 0)
      \<and> (thinking_block_started s \<longrightarrow> thinking_block_index s \<in> cl_open c)
      \<and> (text_block_started s \<longrightarrow> \<not> text_block_closed s \<and> text_block_index s \<in> cl_open c)
      \<and> (thinking_block_started s \<and> text_block_started s \<longrightarrow> thinking_block_index s \<noteq> text_block_index s)
      \<and> snd ` set (tool_block_indices s) \<subseteq> cl_open c
          - (if thinking_block_started s then {thinking_block_index s} else {})
          - (if text_block_started s then {text_block_index s} else {})
      \<and> distinct (map snd (tool_block_indices s)) \<and> hm_ok (tool_block_indices s)
      \<and> cl_open c \<subseteq> {..<cl_next c})"

definition claude_sim :: "stream_state \<Rightarrow> frame list \<Rightarrow> stream_state \<Rightarrow> bool" where
  "claude_sim s out t =
     (message_start_sent s \<longrightarrow> message_start_sent t
        \<and> (\<forall>c. claude_inv s c \<longrightarrow> (\<exists>c'. client_accepts out c = Some c' \<and> claude_inv t c')))"

interpretation sim: trace_contract claude_sim
proof
  show "claude_sim s [] s" for s by (simp add: claude_sim_def)
next
  fix s t u :: stream_state and a b
  assume st: "claude_sim s a t" and tu: "claude_sim t b u"
  show "claude_sim s (a @ b) u"
    unfolding claude_sim_def
  proof (intro impI conjI allI)
    assume "message_start_sent s"
    with st tu show "message_start_sent u" by (simp add: claude_sim_def)
  next
    fix c assume "message_start_sent s" "claude_inv s c"
    with st obtain c1 where c1: "client_accepts a c = Some c1" "claude_inv t c1" "message_start_sent t"
      by (auto simp: claude_sim_def)
    with tu obtain c2 where "client_accepts b c1 = Some c2" "claude_inv u c2"
      by (auto simp: claude_sim_def)
    with c1 show "\<exists>c'. client_accepts (a @ b) c = Some c' \<and> claude_inv u c'"
      by (simp add: client_accepts_append)
  qed
qed

abbreviation follows_protocol :: "(stream_state, frame) step \<Rightarrow> bool" where
  "follows_protocol \<equiv> sat claude_sim"

lemma modify_follows:
  assumes "\<And>s. claude_inv (f s) = claude_inv s" and "\<And>s. message_start_sent (f s) = message_start_sent s"
  shows "follows_protocol (modify f)"
  using assms by (intro satI) (simp add: modify_def claude_sim_def)

lemma stop_thinking_follows: "follows_protocol stop_thinking_block_claude"
  by (rule satI) (auto simp: stop_thinking_block_claude_def claude_sim_def claude_inv_def)

lemma stop_text_follows: "follows_protocol stop_text_block_claude"
  by (rule satI) (auto simp: stop_text_block_claude_def claude_sim_def claude_inv_def)

lemma followsI:
  assumes "\<And>s c. claude_inv s c \<Longrightarrow> message_start_sent s \<Longrightarrow>
      next_block_index s \<notin> cl_open c \<Longrightarrow> \<forall>a. (a, next_block_index s) \<notin> set (tool_block_indices s) \<Longrightarrow>
      message_start_sent (fst (f s))
      \<and> (\<exists>c'. client_accepts (snd (f s)) c = Some c' \<and> claude_inv (fst (f s)) c')"
    and "\<And>s. message_start_sent s \<Longrightarrow> message_start_sent (fst (f s))"
  shows "follows_protocol f"
proof (rule satI)
  fix s
  have fresh: "next_block_index s \<notin> cl_open c \<and> (\<forall>a. (a, next_block_index s) \<notin> set (tool_block_indices s))"
    if "claude_inv s c" "message_start_sent s" for c
  proof -
    have "cl_next c = next_block_index s" using that unfolding claude_inv_def by presburger
    moreover have "cl_open c \<subseteq> {..<cl_next c}" using that(1) unfolding claude_inv_def by blast
    ultimately have "cl_open c \<subseteq> {..<next_block_index s}" by simp
    moreover have "snd ` set (tool_block_indices s) \<subseteq> cl_open c"
      using that(1) unfolding claude_inv_def by blast
    ultimately show ?thesis by fastforce
  qed
  show "claude_sim s (snd (f s)) (fst (f s))"
    unfolding claude_sim_def
  proof (intro impI conjI allI)
    assume st: "message_start_sent s"
    then show "message_start_sent (fst (f s))" by (rule assms(2))
    fix c assume inv: "claude_inv s c"
    note f = fresh [OF inv st]
    from assms(1) [OF inv st conjunct1 [OF f] conjunct2 [OF f]]
    show "\<exists>c'. client_accepts (snd (f s)) c = Some c' \<and> claude_inv (fst (f s)) c'"
      by (rule conjunct2)
  qed
qed

lemma thinking_delta_follows:
  "follows_protocol (run_steps [ensure_thinking_block_claude,
     emit (\<lambda>s. block_delta_frame (thinking_block_index s) d)])"
  by (rule followsI)
    (auto simp: ensure_thinking_block_claude_def emit_def claude_inv_def Let_def)

lemma text_delta_follows:
  "follows_protocol (run_steps [ensure_text_block_claude,
     emit (\<lambda>s. block_delta_frame (text_block_index s) d)])"
  by (rule followsI)
    (auto simp: ensure_text_block_claude_def emit_def claude_inv_def Let_def)

lemma claude_reasoning_follows: "follows_protocol (claude_reasoning r)"
  unfolding claude_reasoning_def
proof (intro flow_intros sim.skip_sat sim.only_if_sat)
  fix t
  show "follows_protocol (run_steps [stop_text_block_claude, ensure_thinking_block_claude,
      emit (\<lambda>s. block_delta_frame (thinking_block_index s)
        (jobj [(''type'', JStr ''thinking_delta''), (''thinking'', JStr t)]))])"
    by (subst run_steps_group)
      (intro sim.run_steps_sat flow_intros stop_text_follows thinking_delta_follows)
qed

lemma claude_inv_seen [simp]:
  "claude_inv (s\<lparr>openai_seen_content := x\<rparr>) = claude_inv s"
  "claude_inv (s\<lparr>openai_seen_reasoning := x\<rparr>) = claude_inv s"
  "claude_inv (s\<lparr>usage := u\<rparr>) = claude_inv s"
  by (simp_all add: claude_inv_def fun_eq_iff)

lemma content_delta_keeps:
  "openai_chunk_content_delta delta s = (d, s') \<Longrightarrow>
   claude_inv s' = claude_inv s \<and> message_start_sent s' = message_start_sent s"
  by (auto simp: openai_chunk_content_delta_def split: option.splits prod.splits)

lemma reasoning_delta_keeps:
  "openai_chunk_reasoning_delta delta s = (d, s') \<Longrightarrow>
   claude_inv s' = claude_inv s \<and> message_start_sent s' = message_start_sent s"
  by (auto simp: openai_chunk_reasoning_delta_def split: option.splits prod.splits)

lemma claude_content_follows: "follows_protocol (claude_content delta)"
  unfolding claude_content_def
proof (rule sim.take_sat)
  show "claude_sim s [] s'" if "openai_chunk_content_delta delta s = (d, s')" for s d s'
    using content_delta_keeps [OF that] by (simp add: claude_sim_def)
next
  fix d
  have "follows_protocol (run_steps [stop_thinking_block_claude, ensure_text_block_claude,
      emit (\<lambda>s. block_delta_frame (text_block_index s)
        (jobj [(''type'', JStr ''text_delta''), (''text'', JStr c)]))])" for c
    by (subst run_steps_group)
      (intro sim.run_steps_sat flow_intros stop_thinking_follows text_delta_follows)
  then show "follows_protocol (case d of None \<Rightarrow> skip
    | Some c \<Rightarrow> only_if (c \<noteq> []) (run_steps [stop_thinking_block_claude, ensure_text_block_claude,
        emit (\<lambda>s. block_delta_frame (text_block_index s)
          (jobj [(''type'', JStr ''text_delta''), (''text'', JStr c)]))]))"
    by (intro flow_intros sim.skip_sat sim.only_if_sat)
qed

lemma mark_fatal_inv [simp]:
  "claude_inv (fst (mark_stream_fatal_rejection raw s)) = claude_inv s"
  "message_start_sent (fst (mark_stream_fatal_rejection raw s)) = message_start_sent s"
  by (simp_all add: mark_stream_fatal_rejection_def Let_def claude_inv_def fun_eq_iff)

lemma reject_anthropic_follows: "follows_protocol (reject_anthropic_stream ty raw)"
  by (rule satI) (simp add: reject_anthropic_stream_def case_prod_unfold Let_def claude_sim_def)

lemma distinct_values_insert:
  "distinct (map snd m) \<Longrightarrow> v \<notin> snd ` set m \<Longrightarrow> distinct (map snd (hm_insert k v m))"
proof (induction m)
  case (Cons kv m)
  have "snd ` set (hm_insert k v m) \<subseteq> insert v (snd ` set m)"
    unfolding hm_insert_def by (induction m) auto
  with Cons show ?case by (cases kv) (auto simp: hm_insert_def)
qed (simp add: hm_insert_def)

lemma set_values_insert: "snd ` set (hm_insert k v m) \<subseteq> insert v (snd ` set m)"
  unfolding hm_insert_def by (induction m) auto

lemma open_tool_follows: "follows_protocol (open_tool_block idx tc ty)"
proof (rule followsI)
  fix s c
  assume inv: "claude_inv s c" and st: "message_start_sent s"
    and fresh: "next_block_index s \<notin> cl_open c" "\<forall>a. (a, next_block_index s) \<notin> set (tool_block_indices s)"
  let ?i = "next_block_index s"
  have fi: "?i \<notin> snd ` set (tool_block_indices s)" using fresh(2) by force
  have dt: "distinct (map snd (tool_block_indices s))" and okt: "hm_ok (tool_block_indices s)"
    using inv unfolding claude_inv_def by blast+
  note d = distinct_values_insert [OF dt fi, of idx]
  note ok = hm.ok_upd [OF okt, of idx ?i]
  obtain V where V: "V = snd ` set (tool_block_indices s)" by simp
  obtain W where W: "W = snd ` set (hm_insert idx ?i (tool_block_indices s))" by simp
  have sub: "W \<subseteq> insert ?i V" unfolding V W by (rule set_values_insert)
  let ?c = "c\<lparr>cl_open := insert ?i (cl_open c), cl_next := Suc ?i\<rparr>"
  have "claude_inv (fst (open_tool_block idx tc ty s)) ?c"
    using inv st fresh(1) d ok sub
    by (simp add: open_tool_block_def claude_inv_def Let_def V [symmetric] W [symmetric])
      (auto split: if_splits)
  moreover have "client_accepts (snd (open_tool_block idx tc ty s)) c = Some ?c"
    using inv st by (simp add: open_tool_block_def claude_inv_def Let_def)
  ultimately show "message_start_sent (fst (open_tool_block idx tc ty s))
    \<and> (\<exists>c'. client_accepts (snd (open_tool_block idx tc ty s)) c = Some c'
          \<and> claude_inv (fst (open_tool_block idx tc ty s)) c')"
    using st by (simp add: open_tool_block_def Let_def)
qed (simp add: open_tool_block_def Let_def)

lemma tool_arguments_follow: "follows_protocol (claude_tool_arguments idx tc)"
proof (rule followsI)
  fix s c
  assume inv: "claude_inv s c" and st: "message_start_sent s"
  have "snd ` set (tool_block_indices s) \<subseteq> cl_open c"
    using inv unfolding claude_inv_def by blast
  then have "hm_get (tool_block_indices s) idx = Some i \<Longrightarrow> i \<in> cl_open c" for i
    by (force dest: map_of_SomeD)
  with inv st show "message_start_sent (fst (claude_tool_arguments idx tc s))
    \<and> (\<exists>c'. client_accepts (snd (claude_tool_arguments idx tc s)) c = Some c'
          \<and> claude_inv (fst (claude_tool_arguments idx tc s)) c')"
    by (simp add: claude_tool_arguments_def step_defs split: option.split)
qed (simp add: claude_tool_arguments_def step_defs split: option.split)

lemma sat_result:
  "(\<And>a. x = Inl a \<Longrightarrow> sat R (f a)) \<Longrightarrow> (\<And>b. x = Inr b \<Longrightarrow> sat R (g b)) \<Longrightarrow>
   sat R (case x of Inl a \<Rightarrow> f a | Inr b \<Rightarrow> g b)"
  by (cases x) simp_all

lemma claude_tool_call_follows: "follows_protocol (claude_tool_call E tc)"
  unfolding claude_tool_call_def claude_tool_start_def Let_def
  by (intro flow_intros sat_result sim.run_steps_sat sim.only_if_sat stop_thinking_follows
      stop_text_follows reject_anthropic_follows open_tool_follows tool_arguments_follow)

lemma start_begins:
  "claude_inv s c \<Longrightarrow>
   \<exists>c'. client_accepts (snd (ensure_claude_message_start chunk choice s)) c = Some c'
     \<and> claude_inv (fst (ensure_claude_message_start chunk choice s)) c'
     \<and> message_start_sent (fst (ensure_claude_message_start chunk choice s))"
  by (cases "message_start_sent s")
    (auto simp: ensure_claude_message_start_def Let_def claude_inv_def)

section \<open>Whole chunks\<close>

text \<open>A chunk may come before the message started.\<close>

definition chunk_sim :: "stream_state \<Rightarrow> frame list \<Rightarrow> stream_state \<Rightarrow> bool" where
  "chunk_sim s out t =
     (\<forall>c. claude_inv s c \<longrightarrow> (\<exists>c'. client_accepts out c = Some c' \<and> claude_inv t c'))"

interpretation chunk: trace_contract chunk_sim
proof
  show "chunk_sim s [] s" for s by (simp add: chunk_sim_def)
next
  fix s t u :: stream_state and a b
  assume st: "chunk_sim s a t" and tu: "chunk_sim t b u"
  show "chunk_sim s (a @ b) u"
    unfolding chunk_sim_def
  proof (intro allI impI)
    fix c assume "claude_inv s c"
    with st obtain c1 where c1: "client_accepts a c = Some c1" "claude_inv t c1"
      by (auto simp: chunk_sim_def)
    with tu obtain c2 where "client_accepts b c1 = Some c2" "claude_inv u c2"
      by (auto simp: chunk_sim_def)
    with c1 show "\<exists>c'. client_accepts (a @ b) c = Some c' \<and> claude_inv u c'"
      by (simp add: client_accepts_append)
  qed
qed

lemma begun_then:
  assumes "follows_protocol f"
  shows "sat chunk_sim (run_steps [ensure_claude_message_start chunk choice, f])"
proof (rule satI)
  fix s
  let ?b = "ensure_claude_message_start chunk choice s"
  show "chunk_sim s (snd (run_steps [ensure_claude_message_start chunk choice, f] s))
      (fst (run_steps [ensure_claude_message_start chunk choice, f] s))"
    unfolding chunk_sim_def
  proof (intro allI impI)
    fix c assume "claude_inv s c"
    from start_begins [OF this, of chunk choice] obtain c1 where
      c1: "client_accepts (snd ?b) c = Some c1" "claude_inv (fst ?b) c1" "message_start_sent (fst ?b)"
      by blast
    with satD [OF assms, of "fst ?b"] obtain c2 where
      "client_accepts (snd (f (fst ?b))) c1 = Some c2" "claude_inv (fst (f (fst ?b))) c2"
      by (auto simp: claude_sim_def)
    with c1 show "\<exists>c'. client_accepts (snd (run_steps [ensure_claude_message_start chunk choice, f] s)) c = Some c'
        \<and> claude_inv (fst (run_steps [ensure_claude_message_start chunk choice, f] s)) c'"
      by (auto simp: case_prod_unfold Let_def client_accepts_append)
  qed
qed

definition claude_deltas :: "env \<Rightarrow> json \<Rightarrow> string option \<Rightarrow> (stream_state, frame) step" where
  "claude_deltas E delta reasoning = run_steps
     [claude_reasoning reasoning, claude_content delta,
      for_each (claude_tool_call E) (delta_tool_calls delta)]"

lemma claude_deltas_follow: "follows_protocol (claude_deltas E delta reasoning)"
  unfolding claude_deltas_def
  by (intro sim.run_steps_sat flow_intros claude_reasoning_follows claude_content_follows
      sim.for_each_sat claude_tool_call_follows)

lemma claude_chunk_body_eq:
  "claude_chunk_body E chunk choice delta finish reasoning = run_steps
     [ensure_claude_message_start chunk choice, claude_deltas E delta reasoning,
      (case finish of None \<Rightarrow> skip | Some fr \<Rightarrow> claude_finish E fr)]"
  by (rule ext) (simp add: claude_chunk_body_def claude_deltas_def case_prod_unfold Let_def)

lemma unfinished_chunk_follows:
  assumes "chunk_finish chunk = None"
  shows "sat chunk_sim (openai_chunk_to_claude_sse E chunk)"
proof -
  have body: "sat chunk_sim (claude_chunk_body E chunk choice delta None reasoning)"
    for choice delta reasoning
    unfolding claude_chunk_body_eq
    by (subst run_steps_group, intro begun_then sim.run_steps_sat)
      (simp add: claude_deltas_follow sim.skip_sat)
  have reject: "sat chunk_sim (reject_anthropic_stream ty raw)" for ty raw
    by (rule satI) (simp add: reject_anthropic_stream_def case_prod_unfold Let_def chunk_sim_def)
  have choice: "sat chunk_sim (claude_chunk_choice E chunk choice)"
    if "jget_str choice ''finish_reason'' = None" for choice
    unfolding claude_chunk_choice_def
  proof (rule chunk.take_sat)
    show "chunk_sim s [] s'"
      if "openai_chunk_reasoning_delta (unwrap_or (jget choice ''delta'') JNull) s = (d, s')" for s d s'
      using reasoning_delta_keeps [OF that] by (simp add: chunk_sim_def)
    show "sat chunk_sim (claude_answer E chunk choice started d)" for started d
      unfolding claude_answer_def that Let_def option.map(1) option.case(1)
      by (intro flow_intros body reject)
  qed
  have usage: "sat chunk_sim (modify (\<lambda>s. case jget chunk ''usage'' of None \<Rightarrow> s
      | Some u \<Rightarrow> s\<lparr>usage := Some (openai_usage_to_anthropic_usage_stream u)\<rparr>))"
    by (intro satI) (simp add: modify_def chunk_sim_def split: option.split)
  have first: "sat chunk_sim (case jget_array chunk ''choices'' of
      Some (c # _) \<Rightarrow> claude_chunk_choice E chunk c | _ \<Rightarrow> skip)"
    using assms choice
    by (auto simp: chunk_finish_def chunk_choice_def jget_array_def chunk.skip_sat
        split: option.splits list.splits)
  show ?thesis
    unfolding openai_chunk_to_claude_sse_def
    by (intro chunk.reading_sat_all sat_if chunk.skip_sat chunk.run_steps_sat flow_intros usage first)
qed

section \<open>The last chunk\<close>

lemma hm_entries_values:
  assumes "order_ok E" and "hm_ok m" and "distinct (map snd m)"
  shows "distinct (map snd (hm_entries E m))" and "set (hm_entries E m) = set m"
proof -
  let ?ks = "hash_order E (map fst m)"
  have ks: "set ?ks = fst ` set m" "distinct ?ks"
    using assms(1,2) by (simp_all add: order_ok_def hm_ok_def)
  have get: "hm_get m k = Some v \<longleftrightarrow> (k, v) \<in> set m" for k v
    using assms(2) by (simp add: hm_ok_def map_of_eq_Some_iff)
  have entries: "hm_entries E m = map (\<lambda>k. (k, the (hm_get m k))) ?ks"
  proof -
    have "\<forall>k \<in> set ks. hm_get m k \<noteq> None \<Longrightarrow>
        List.map_filter (\<lambda>k. map_option (Pair k) (hm_get m k)) ks = map (\<lambda>k. (k, the (hm_get m k))) ks" for ks
      by (induction ks) (auto simp: List.map_filter_def)
    moreover have "\<forall>k \<in> set ?ks. hm_get m k \<noteq> None"
      using ks(1) by (auto simp: map_of_eq_None_iff)
    ultimately show ?thesis by (simp add: hm_entries_def hm_keys_def)
  qed
  show s: "set (hm_entries E m) = set m"
  proof -
    have "set (hm_entries E m) = (\<lambda>kv. (fst kv, the (hm_get m (fst kv)))) ` set m"
      by (simp add: entries ks(1) image_image)
    also have "\<dots> = (\<lambda>kv. kv) ` set m"
    proof (rule image_cong)
      fix kv assume "kv \<in> set m"
      then have "hm_get m (fst kv) = Some (snd kv)" using get by simp
      then show "(fst kv, the (hm_get m (fst kv))) = kv" by simp
    qed simp
    finally show ?thesis by simp
  qed
  have inj: "inj_on snd (set m)" using assms(3) by (simp add: distinct_map)
  have "distinct (hm_entries E m)" using ks(2) by (simp add: entries distinct_map inj_on_def)
  with inj s show "distinct (map snd (hm_entries E m))" by (simp add: distinct_map)
qed

lemma client_accepts_stops:
  "distinct is \<Longrightarrow> set is \<subseteq> cl_open c \<Longrightarrow>
   client_accepts (map block_stop_frame is) c = Some (c\<lparr>cl_open := cl_open c - set is\<rparr>)"
proof (induction "is" arbitrary: c)
  case (Cons i "is")
  then have "client_accepts (map block_stop_frame is) (c\<lparr>cl_open := cl_open c - {i}\<rparr>)
      = Some (c\<lparr>cl_open := cl_open c - {i} - set is\<rparr>)"
    by (subst Cons.IH) auto
  with Cons.prems show ?case by (simp add: Diff_insert2 [symmetric] insert_commute)
qed simp

lemma for_each_stops:
  "for_each (\<lambda>p. emit (\<lambda>_. block_stop_frame (snd p))) es s = (s, map (block_stop_frame \<circ> snd) es)"
  by (induction es) (simp_all add: for_each_Cons emit_def case_prod_unfold)

lemma finish_stop_reason:
  assumes "order_ok E" and "claude_inv s c" and "message_start_sent s"
    and "classify_openai_finish_for_anthropic fr = StopReason reason"
  shows "\<exists>c'. client_accepts (snd (claude_finish E fr s)) c = Some c'
    \<and> cl_open c' \<inter> snd ` set (tool_block_indices s) = {}"
proof -
  let ?stops = "run_steps [stop_thinking_block_claude, stop_text_block_claude]"
  have "follows_protocol ?stops"
    by (intro sim.run_steps_sat flow_intros stop_thinking_follows stop_text_follows)
  from satD [OF this, of s] assms(2,3) obtain c1 where
    c1: "client_accepts (snd (?stops s)) c = Some c1" "claude_inv (fst (?stops s)) c1"
      "message_start_sent (fst (?stops s))"
    by (auto simp: claude_sim_def)
  let ?s1 = "fst (?stops s)"
  have tools: "tool_block_indices ?s1 = tool_block_indices s"
    by (simp add: stop_thinking_block_claude_def stop_text_block_claude_def)
  let ?es = "hm_entries E (tool_block_indices ?s1)"
  have ok: "hm_ok (tool_block_indices ?s1)" "distinct (map snd (tool_block_indices ?s1))"
    and sub: "snd ` set (tool_block_indices ?s1) \<subseteq> cl_open c1"
    using c1(2) unfolding claude_inv_def by blast+
  note es = hm_entries_values [OF assms(1) ok]
  have "client_accepts (map block_stop_frame (map snd ?es)) c1
      = Some (c1\<lparr>cl_open := cl_open c1 - set (map snd ?es)\<rparr>)"
    using es sub by (intro client_accepts_stops) simp_all
  moreover have "cl_started c1" using c1(2,3) by (simp add: claude_inv_def)
  moreover obtain c0 where "client_accepts (snd (stop_thinking_block_claude s)) c = Some c0"
    "client_accepts (snd (stop_text_block_claude (fst (stop_thinking_block_claude s)))) c0 = Some c1"
    using c1(1) by (auto simp: case_prod_unfold Let_def client_accepts_append Option.bind_eq_Some_conv)
  ultimately have "client_accepts (snd (claude_finish E fr s)) c
      = Some (c1\<lparr>cl_open := cl_open c1 - snd ` set ?es\<rparr>)"
    using assms(4) by (simp add: claude_finish_def reading_def for_each_stops emit_def
        case_prod_unfold Let_def client_accepts_append claude_frame_def client_event_def)
  then show ?thesis using es(2) tools by auto
qed

text \<open>Frames a client accepts from any state that corresponds, whatever comes after them.\<close>

definition accepted :: "stream_state \<Rightarrow> frame list \<Rightarrow> stream_state \<Rightarrow> bool" where
  "accepted s out t = (\<forall>c. claude_inv s c \<longrightarrow> client_accepts out c \<noteq> None)"

lemma sim_accepted: "sat chunk_sim f \<Longrightarrow> sat accepted f"
  by (force simp: sat_def chunk_sim_def accepted_def)

lemma accepted_after:
  assumes "sat chunk_sim f" and "sat accepted g"
  shows "sat accepted (run_steps [f, g])"
  unfolding sat_def accepted_def
proof (intro allI impI)
  fix s c assume "claude_inv s c"
  with satD [OF assms(1), of s] obtain c1 where
    c1: "client_accepts (snd (f s)) c = Some c1" "claude_inv (fst (f s)) c1"
    by (auto simp: chunk_sim_def)
  with satD [OF assms(2), of "fst (f s)"] show "client_accepts (snd (run_steps [f, g] s)) c \<noteq> None"
    by (auto simp: accepted_def case_prod_unfold Let_def client_accepts_append)
qed

lemma finish_accepted:
  assumes "order_ok E"
  shows "sat accepted (run_steps [ensure_claude_message_start chunk choice,
      claude_deltas E delta reasoning, claude_finish E fr])"
proof -
  have started: "message_start_sent (fst (run_steps [ensure_claude_message_start chunk choice,
      claude_deltas E delta reasoning] s))" for s
  proof -
    have "message_start_sent (fst (ensure_claude_message_start chunk choice s))"
      by (simp add: ensure_claude_message_start_def Let_def)
    with satD [OF claude_deltas_follow, of "fst (ensure_claude_message_start chunk choice s)"]
    show ?thesis by (simp add: claude_sim_def case_prod_unfold Let_def)
  qed
  obtain F where F: "F = run_steps [ensure_claude_message_start chunk choice, claude_deltas E delta reasoning]"
    by simp
  have f: "sat chunk_sim F" unfolding F by (rule begun_then) (rule claude_deltas_follow)
  have two: "snd (run_steps [F, claude_finish E fr] s) = snd (F s) @ snd (claude_finish E fr (fst (F s)))" for s
    by (simp add: case_prod_unfold Let_def)
  have "sat accepted (run_steps [F, claude_finish E fr])"
    unfolding sat_def accepted_def
  proof (intro allI impI)
    fix s c assume "claude_inv s c"
    with satD [OF f, of s] obtain c1 where
      c1: "client_accepts (snd (F s)) c = Some c1" "claude_inv (fst (F s)) c1"
      by (auto simp: chunk_sim_def)
    have "client_accepts (snd (claude_finish E fr (fst (F s)))) c1 \<noteq> None"
    proof (cases "classify_openai_finish_for_anthropic fr")
      case (StopReason r)
      from finish_stop_reason [OF assms c1(2) _ this] started [of s] show ?thesis by (auto simp: F)
    next
      case (TerminalError ty m)
      then show ?thesis by (simp add: claude_finish_def emit_def)
    qed
    with c1(1) show "client_accepts (snd (run_steps [F, claude_finish E fr] s)) c \<noteq> None"
      unfolding two by (simp add: client_accepts_append)
  qed
  then show ?thesis
    by (simp add: sat_def F case_prod_unfold Let_def)
qed

lemma last_chunk_accepted:
  assumes "order_ok E"
  shows "sat accepted (openai_chunk_to_claude_sse E chunk)"
proof (cases "chunk_finish chunk")
  case None
  then show ?thesis by (intro sim_accepted unfinished_chunk_follows)
next
  case (Some fr)
  then obtain choice rest where ch: "jget_array chunk ''choices'' = Some (choice # rest)"
    and fr: "jget_str choice ''finish_reason'' = Some fr"
    by (auto simp: chunk_finish_def chunk_choice_def jget_array_def jget_str_def
        split: option.splits json.splits list.splits)
  have body: "sat accepted (claude_chunk_body E chunk choice delta (Some fr) reasoning)" for delta reasoning
    using finish_accepted [OF assms] by (simp add: claude_chunk_body_eq)
  have err: "sat accepted (emit (\<lambda>_. anthropic_error_event ty m))" for ty m
    by (rule satI) (simp add: emit_def accepted_def)
  have reject: "sat accepted (reject_anthropic_stream ty raw)" for ty raw
    by (rule satI) (simp add: reject_anthropic_stream_def case_prod_unfold Let_def accepted_def)
  have answer: "sat accepted (claude_answer E chunk choice started r)" for started r
    unfolding claude_answer_def Let_def fr option.map(2) option.case(2)
    using body err reject by (auto split: option.split anthropic_terminal.split)
  have "sat accepted (claude_chunk_choice E chunk choice)"
  proof (rule satI)
    fix s
    obtain r s' where r: "openai_chunk_reasoning_delta (unwrap_or (jget choice ''delta'') JNull) s = (r, s')"
      by (cases "openai_chunk_reasoning_delta (unwrap_or (jget choice ''delta'') JNull) s")
    from satD [OF answer, of s' "message_start_sent s" r] reasoning_delta_keeps [OF r]
    show "accepted s (snd (claude_chunk_choice E chunk choice s)) (fst (claude_chunk_choice E chunk choice s))"
      by (simp add: claude_chunk_choice_def reading_def r modify_def accepted_def case_prod_unfold Let_def)
  qed
  moreover have "sat chunk_sim (modify (\<lambda>s. case jget chunk ''usage'' of None \<Rightarrow> s
      | Some u \<Rightarrow> s\<lparr>usage := Some (openai_usage_to_anthropic_usage_stream u)\<rparr>))"
    by (intro satI) (simp add: modify_def chunk_sim_def split: option.split)
  ultimately have "sat accepted (if b then skip else run_steps
      [modify (\<lambda>s. case jget chunk ''usage'' of None \<Rightarrow> s
        | Some u \<Rightarrow> s\<lparr>usage := Some (openai_usage_to_anthropic_usage_stream u)\<rparr>),
       claude_chunk_choice E chunk choice])" for b
    using accepted_after sim_accepted [OF chunk.skip_sat] by (cases b) auto
  then have "sat accepted (reading (\<lambda>s. if b s then skip else run_steps
      [modify (\<lambda>s. case jget chunk ''usage'' of None \<Rightarrow> s
        | Some u \<Rightarrow> s\<lparr>usage := Some (openai_usage_to_anthropic_usage_stream u)\<rparr>),
       claude_chunk_choice E chunk choice]))" for b
    by (rule sat_reading)
  then show ?thesis
    by (simp only: openai_chunk_to_claude_sse_def ch option.case list.case)
qed

section \<open>Properties\<close>

text \<open>The frames of a whole stream of chunks.\<close>

definition claude_sink_run :: "env \<Rightarrow> json list \<Rightarrow> (stream_state, frame) step" where
  "claude_sink_run E chunks = for_each (openai_chunk_to_claude_sse E) chunks"

text \<open>
  C11. The frames an Anthropic client gets follow the Messages protocol: for any chunks of which only
  the last carries a finish reason, the message starts first and once, every block starts with the
  next index, deltas and stops refer to blocks that are open, and the message's end comes after its
  start.
\<close>

theorem claude_frames_follow_protocol:
  assumes "order_ok E" and "list_all (\<lambda>c. chunk_finish c = None) chunks"
  shows "client_accepts (snd (claude_sink_run E (chunks @ [final]) default_state)) new_client \<noteq> None"
proof -
  have "claude_inv default_state new_client"
    by (simp add: claude_inv_def default_state_def new_client_def hm_ok_def)
  moreover have "sat chunk_sim (for_each (openai_chunk_to_claude_sse E) chunks)"
    using assms(2) by (intro chunk.for_each_sat unfinished_chunk_follows) (simp add: list_all_iff)
  then have "sat accepted (run_steps [for_each (openai_chunk_to_claude_sse E) chunks,
      openai_chunk_to_claude_sse E final])"
    by (rule accepted_after) (rule last_chunk_accepted [OF assms(1)])
  moreover have "claude_sink_run E (chunks @ [final]) s = run_steps
      [for_each (openai_chunk_to_claude_sse E) chunks, openai_chunk_to_claude_sse E final] s" for s
    by (simp add: claude_sink_run_def for_each_def run_steps_append)
  ultimately show ?thesis
    unfolding sat_def accepted_def by metis
qed

definition tool_call_chunk :: "string \<Rightarrow> json" where
  "tool_call_chunk arguments = jobj [(''choices'', JArr [jobj [(''delta'', jobj [(''tool_calls'', JArr [jobj
     [(''index'', jnat 0), (''id'', JStr ''call''), (''function'', jobj
        [(''name'', JStr ''f''), (''arguments'', JStr arguments)])]])])]])]"

definition tool_finish_chunk :: json where
  "tool_finish_chunk = jobj [(''choices'', JArr [jobj
     [(''delta'', jobj []), (''finish_reason'', JStr ''tool_calls'')]])]"

theorem claude_frames_follow_protocol_witness:
  "client_accepts (snd (claude_sink_run example_env ([tool_call_chunk ''{}''] @ [tool_finish_chunk])
     default_state)) new_client \<noteq> None"
proof (rule claude_frames_follow_protocol)
  show "order_ok example_env" by (simp add: order_ok_def example_env_def)
  show "list_all (\<lambda>c. chunk_finish c = None) [tool_call_chunk ''{}'']" by code_simp
qed

text \<open>
  A usage chunk that comes after the finish chunk, as the gateways named in the function's comment
  send it, is recorded but never reaches the client: the frames are the same with and without it, and
  the message's end was sent with the usage known before.
\<close>

theorem trailing_usage_never_sent:
  "snd (claude_sink_run E (chunks @ [jobj [(''choices'', JArr []), (''usage'', u)]]) s)
     = snd (claude_sink_run E chunks s)"
proof -
  have "snd (openai_chunk_to_claude_sse E (jobj [(''choices'', JArr []), (''usage'', u)]) t) = []" for t
    by (simp add: openai_chunk_to_claude_sse_def step_defs jget_array_def)
  then show ?thesis
    by (simp add: claude_sink_run_def for_each_def run_steps_append case_prod_unfold Let_def)
qed

text \<open>
  An upstream that repeats a tool call's id with every delta gets a new block each time: after two
  such deltas and the finish, block 1 was opened and closed and block 0 is still open at the client.
\<close>

theorem repeated_id_leaves_block_open:
  "map_option (\<lambda>c. (cl_next c, 0 \<in> cl_open c, 1 \<in> cl_open c))
     (client_accepts (snd (claude_sink_run example_env
        [tool_call_chunk ''{'', tool_call_chunk ''}'', tool_finish_chunk] default_state)) new_client)
   = Some (2, True, False)"
  by code_simp

end
