(* ===== verification/Responses_Items.thy ===== *)
theory Responses_Items
  imports Claude_Sink
begin

text \<open>
  The items of a Responses stream (\<open>src/streaming/openai_sink.rs\<close>): sequence numbers and output
  indices, the message item and its parts, the reasoning carrier, tool call items and the marks on
  calls whose arguments are incomplete.
\<close>

section \<open>Numbered events\<close>

text \<open>
  \<open>format_sse_event(ty, json!({"type": ty, "sequence_number": next_responses_seq(state), ...}))\<close>. The
  counter is a \<open>u64\<close>; a stream does not get to \<open>2 ^ 64\<close> frames.
\<close>

definition next_responses_seq :: "stream_state \<Rightarrow> nat \<times> stream_state" where
  "next_responses_seq s = (let n = Suc (responses_seq s) in (n, s\<lparr>responses_seq := n\<rparr>))"

definition seq_event :: "string \<Rightarrow> (stream_state \<Rightarrow> (string \<times> json) list) \<Rightarrow> (stream_state, frame) step" where
  "seq_event ty kvs s =
     (let (n, s') = next_responses_seq s
      in (s', [Frame (Some ty) (jobj ((''type'', JStr ty) # (''sequence_number'', jnat n) # kvs s'))]))"

section \<open>Output indices\<close>

definition reserve_responses_output_index :: "stream_state \<Rightarrow> nat \<times> stream_state" where
  "reserve_responses_output_index s =
     (let idx = responses_next_output_index s in (idx, s\<lparr>responses_next_output_index := Suc idx\<rparr>))"

definition reasoning_output_index :: "stream_state \<Rightarrow> nat \<times> stream_state" where
  "reasoning_output_index s = (case responses_reasoning_output_index s of
      Some idx \<Rightarrow> (idx, s)
    | None \<Rightarrow> let (idx, s') = reserve_responses_output_index s
              in (idx, s'\<lparr>responses_reasoning_output_index := Some idx\<rparr>))"

definition message_output_index :: "stream_state \<Rightarrow> nat \<times> stream_state" where
  "message_output_index s = (case responses_message_output_index s of
      Some idx \<Rightarrow> (idx, s)
    | None \<Rightarrow> let (idx, s') = reserve_responses_output_index s
              in (idx, s'\<lparr>responses_message_output_index := Some idx\<rparr>))"

definition entry_or_default :: "nat \<Rightarrow> (nat \<times> tool_call_state) list \<Rightarrow> tool_call_state" where
  "entry_or_default idx calls = unwrap_or (hm_get calls idx) (default_tool_call\<lparr>tc_index := idx\<rparr>)"

definition tool_output_index :: "nat \<Rightarrow> stream_state \<Rightarrow> nat \<times> stream_state" where
  "tool_output_index tc_idx s =
     (case Option.bind (hm_get (openai_tool_calls s) tc_idx) tc_block_index of
        Some existing \<Rightarrow> (existing, s)
      | None \<Rightarrow>
          let (idx, s') = reserve_responses_output_index s;
              entry = (entry_or_default tc_idx (openai_tool_calls s'))\<lparr>tc_block_index := Some idx\<rparr>
          in (idx, s'\<lparr>openai_tool_calls := hm_insert tc_idx entry (openai_tool_calls s')\<rparr>))"

section \<open>The message item\<close>

definition part_delta_event_type :: "responses_message_part_kind \<Rightarrow> string" where
  "part_delta_event_type kind = (case kind of
      OutputTextPart \<Rightarrow> ''response.output_text.delta''
    | RefusalPart \<Rightarrow> ''response.refusal.delta'')"

definition part_done_event_type :: "responses_message_part_kind \<Rightarrow> string" where
  "part_done_event_type kind = (case kind of
      OutputTextPart \<Rightarrow> ''response.output_text.done''
    | RefusalPart \<Rightarrow> ''response.refusal.done'')"

definition part_kind :: "responses_message_part_state \<Rightarrow> responses_message_part_kind" where
  "part_kind p = unwrap_or (mp_kind p) OutputTextPart"

definition responses_message_part_value :: "responses_message_part_state \<Rightarrow> json" where
  "responses_message_part_value p = (case part_kind p of
      OutputTextPart \<Rightarrow> jobj [(''type'', JStr ''output_text''), (''text'', JStr (mp_text p)),
                              (''annotations'', JArr (mp_annotations p))]
    | RefusalPart \<Rightarrow> jobj [(''type'', JStr ''refusal''), (''refusal'', JStr (mp_text p))])"

text \<open>A random identifier without its dashes.\<close>

definition simple_uuid :: "env \<Rightarrow> stream_state \<Rightarrow> string" where
  "simple_uuid E s = filter (\<lambda>c. c \<noteq> CHR ''-'') (uuid_v4 E (responses_seq s))"

definition ensure_responses_message_item_added :: "env \<Rightarrow> string \<Rightarrow> nat \<Rightarrow> (stream_state, frame) step" where
  "ensure_responses_message_item_added E response_id output_index = reading (\<lambda>s.
     if output_item_added s then skip
     else (let item_id = unwrap_or (output_item_id s) (''msg_'' @ take 8 (simple_uuid E s)) in run_steps
       [modify (\<lambda>s. s\<lparr>output_item_added := True, output_item_id := Some item_id\<rparr>),
        seq_event ''response.output_item.added'' (\<lambda>_.
          [(''response_id'', JStr response_id), (''output_index'', jnat output_index),
           (''item'', jobj [(''id'', JStr item_id), (''type'', JStr ''message''),
              (''status'', JStr ''in_progress''), (''role'', JStr ''assistant''),
              (''content'', JArr [])])])]))"

definition part_index :: "responses_message_part_kind \<Rightarrow> stream_state \<Rightarrow> nat option" where
  "part_index kind s = (case kind of
      OutputTextPart \<Rightarrow> responses_text_part_index s
    | RefusalPart \<Rightarrow> responses_refusal_part_index s)"

definition set_part_index :: "responses_message_part_kind \<Rightarrow> nat \<Rightarrow> stream_state \<Rightarrow> stream_state" where
  "set_part_index kind i s = (case kind of
      OutputTextPart \<Rightarrow> s\<lparr>responses_text_part_index := Some i\<rparr>
    | RefusalPart \<Rightarrow> s\<lparr>responses_refusal_part_index := Some i\<rparr>)"

definition current_item_id :: "stream_state \<Rightarrow> string" where
  "current_item_id s = unwrap_or (output_item_id s) ''msg_0''"

text \<open>
  The function returns the index of the part; in both branches that is the index the state holds for
  the kind afterwards, which is where the callers read it (\<open>the_part\<close>).
\<close>

definition ensure_responses_message_part ::
    "string \<Rightarrow> nat \<Rightarrow> responses_message_part_kind \<Rightarrow> (stream_state, frame) step" where
  "ensure_responses_message_part response_id output_index kind = reading (\<lambda>s.
     if part_index kind s \<noteq> None then skip
     else (let i = length (responses_message_parts s);
               part = default_message_part\<lparr>mp_kind := Some kind\<rparr> in run_steps
       [modify (\<lambda>s. set_part_index kind i
          (s\<lparr>responses_message_parts := responses_message_parts s @ [part],
             responses_content_part_added := True\<rparr>)),
        seq_event ''response.content_part.added'' (\<lambda>s.
          [(''response_id'', JStr response_id), (''output_index'', jnat output_index),
           (''content_index'', jnat i), (''item_id'', JStr (current_item_id s)),
           (''part'', responses_message_part_value part)])]))"

definition the_part :: "responses_message_part_kind \<Rightarrow> stream_state \<Rightarrow> nat" where
  "the_part kind s = unwrap_or (part_index kind s) 0"

definition update_part ::
    "nat \<Rightarrow> (responses_message_part_state \<Rightarrow> responses_message_part_state) \<Rightarrow> stream_state \<Rightarrow> stream_state" where
  "update_part i f s =
     (if i < length (responses_message_parts s)
      then s\<lparr>responses_message_parts :=
               (responses_message_parts s)[i := f (responses_message_parts s ! i)]\<rparr>
      else s)"

definition part_has_meaningful_content :: "responses_message_part_state \<Rightarrow> bool" where
  "part_has_meaningful_content p = (mp_text p \<noteq> [] \<or> mp_annotations p \<noteq> [])"

definition message_has_meaningful_content :: "stream_state \<Rightarrow> bool" where
  "message_has_meaningful_content s = list_ex part_has_meaningful_content (responses_message_parts s)"

definition reset_responses_message_segment :: "stream_state \<Rightarrow> stream_state" where
  "reset_responses_message_segment s = s
     \<lparr>output_item_id := None, output_item_added := False, responses_content_part_added := False,
      responses_output_text := [], responses_message_parts := [], responses_text_part_index := None,
      responses_refusal_part_index := None, responses_message_output_index := None\<rparr>"

definition responses_terminal_message_phase :: "string option \<Rightarrow> string option" where
  "responses_terminal_message_phase fr =
     (if fr = Some ''stop'' then Some ''final_answer''
      else if fr = Some ''tool_calls'' then Some ''commentary'' else None)"

definition part_done_events ::
    "string \<Rightarrow> nat \<Rightarrow> string \<Rightarrow> nat \<times> responses_message_part_state \<Rightarrow> (stream_state, frame) step" where
  "part_done_events response_id output_index item_id ip =
     (let (i, p) = ip;
          common = [(''response_id'', JStr response_id), (''output_index'', jnat output_index),
                    (''content_index'', jnat i), (''item_id'', JStr item_id)]
      in run_steps
        [(case part_kind p of
            OutputTextPart \<Rightarrow> seq_event (part_done_event_type OutputTextPart)
              (\<lambda>_. common @ [(''text'', JStr (mp_text p))])
          | RefusalPart \<Rightarrow> seq_event (part_done_event_type RefusalPart)
              (\<lambda>_. common @ [(''refusal'', JStr (mp_text p))])),
         seq_event ''response.content_part.done''
           (\<lambda>_. common @ [(''part'', responses_message_part_value p)])])"

definition done_message_item :: "string \<Rightarrow> responses_message_part_state list \<Rightarrow> string option \<Rightarrow> json" where
  "done_message_item item_id parts phase = set_str_if ''phase'' phase
     (jobj [(''id'', JStr item_id), (''type'', JStr ''message''), (''status'', JStr ''completed''),
            (''role'', JStr ''assistant''), (''content'', JArr (map responses_message_part_value parts))])"

text \<open>
  The message is closed, and the finished item recorded in \<open>responses_completed_message_items\<close> as both
  callers do with the returned item.
\<close>

definition emit_responses_message_done :: "string \<Rightarrow> string option \<Rightarrow> (stream_state, frame) step" where
  "emit_responses_message_done response_id phase = reading (\<lambda>s.
     if \<not> output_item_added s \<or> \<not> message_has_meaningful_content s then skip
     else (let (output_index, s') = message_output_index s in run_steps
       [modify (\<lambda>_. s'),
        (let item_id = current_item_id s'; parts = responses_message_parts s';
             item = done_message_item item_id parts phase in run_steps
          [for_each (part_done_events response_id output_index item_id) (List.enumerate 0 parts),
           seq_event ''response.output_item.done'' (\<lambda>_.
             [(''response_id'', JStr response_id), (''output_index'', jnat output_index),
              (''item'', item)]),
           modify reset_responses_message_segment,
           modify (\<lambda>s. s\<lparr>responses_completed_message_items := responses_completed_message_items s
             @ [\<lparr>cm_output_index = output_index, cm_item = item\<rparr>]\<rparr>)])]))"

section \<open>The carrier of signed thinking\<close>

definition encode_streaming_anthropic_reasoning_carrier :: "env \<Rightarrow> json list \<Rightarrow> string option" where
  "encode_streaming_anthropic_reasoning_carrier E blocks =
     (if blocks = [] then None
      else Some (''anthropic-thinking-v1:'' @ hex_encode E (json_text E (jobj
        [(''format'', JStr ''anthropic-thinking-replay''), (''version'', jnat 1),
         (''blocks'', JArr blocks)]))))"

fun carrier_blocks :: "string \<Rightarrow> bool \<Rightarrow> claude_thinking_provenance_state list \<Rightarrow> json list" where
  "carrier_blocks reasoning assigned [] = []"
| "carrier_blocks reasoning assigned (p # ps) =
     (let thinking =
            (if tp_omitted p then jobj [(''display'', JStr ''omitted'')]
             else if \<not> assigned then JStr reasoning else JStr []);
          block = jset ''thinking'' thinking (jobj [(''type'', JStr ''thinking'')])
      in set_str_if ''signature'' (tp_signature p) block
         # carrier_blocks reasoning (assigned \<or> \<not> tp_omitted p) ps)"

definition streaming_anthropic_reasoning_carrier :: "env \<Rightarrow> stream_state \<Rightarrow> string option" where
  "streaming_anthropic_reasoning_carrier E s =
     (if claude_thinking_provenance s = [] then None
      else encode_streaming_anthropic_reasoning_carrier E
             (carrier_blocks (responses_reasoning_text s) False (claude_thinking_provenance s)))"

section \<open>Marks on incomplete tool calls\<close>

definition non_replayable_tool_call_signature_stream :: "env \<Rightarrow> string \<Rightarrow> string \<Rightarrow> string" where
  "non_replayable_tool_call_signature_stream E name raw =
     marker_digest E (non_replayable_payload name raw)"

definition signed_non_replayable_tool_call_marker_stream :: "env \<Rightarrow> string \<Rightarrow> string \<Rightarrow> json" where
  "signed_non_replayable_tool_call_marker_stream E name raw =
     non_replayable_marker (non_replayable_tool_call_signature_stream E name raw)"

text \<open>Whether the mark kept for a tool call is one of this process for its name and arguments.\<close>

definition trusted_tool_call :: "env \<Rightarrow> tool_call_state \<Rightarrow> bool" where
  "trusted_tool_call E tc = (case tc_marker tc of
      None \<Rightarrow> False
    | Some marker \<Rightarrow> marker_matches
        (non_replayable_tool_call_signature_stream E (tc_name tc) (tc_arguments tc)) marker)"

definition tool_call_partial_replay_text_stream :: "string \<Rightarrow> string \<Rightarrow> string" where
  "tool_call_partial_replay_text_stream name raw =
     (if trim raw = [] then ''Tool call `'' @ name @ ''` had incomplete arguments.''
      else ''Tool call `'' @ name @ ''` with partial arguments: '' @ trim raw)"

definition raw_json_is_valid_object_stream :: "env \<Rightarrow> string \<Rightarrow> bool" where
  "raw_json_is_valid_object_stream E raw =
     (trim raw \<noteq> [] \<and> (case json_parse E raw of None \<Rightarrow> False | Some v \<Rightarrow> is_object v))"

definition should_be_marked_non_replayable ::
    "env \<Rightarrow> string \<Rightarrow> string \<Rightarrow> string option \<Rightarrow> bool \<Rightarrow> bool" where
  "should_be_marked_non_replayable E tool_type arguments incomplete_reason unfinished =
     (if incomplete_reason \<in> {Some ''max_output_tokens'', Some ''pause_turn''} then
        (if trim arguments = [] then False
         else if tool_type = ''custom'' then True
         else \<not> raw_json_is_valid_object_stream E arguments)
      else unfinished \<and> tool_type \<noteq> ''custom'' \<and> \<not> raw_json_is_valid_object_stream E arguments)"

definition maybe_mark_item_non_replayable ::
    "env \<Rightarrow> string \<Rightarrow> string \<Rightarrow> string \<Rightarrow> string option \<Rightarrow> bool \<Rightarrow> json \<Rightarrow> json" where
  "maybe_mark_item_non_replayable E name tool_type arguments incomplete_reason unfinished item =
     (if should_be_marked_non_replayable E tool_type arguments incomplete_reason unfinished then
        (case item of
           JObj kvs \<Rightarrow> JObj (omap_insert non_replayable_field
             (signed_non_replayable_tool_call_marker_stream E name arguments) kvs)
         | _ \<Rightarrow> item)
      else item)"

section \<open>Tool call items\<close>

record responses_tool_call_event =
  re_response_id :: string
  re_output_index :: nat
  re_call_id :: string
  re_name :: string
  re_tool_type :: string
  re_proxied_tool_kind :: "string option"
  re_namespace :: "string option"

definition tool_call_item ::
    "string \<Rightarrow> string \<Rightarrow> string \<Rightarrow> string \<Rightarrow> string option \<Rightarrow> string option \<Rightarrow> json" where
  "tool_call_item call_id name tool_type payload kind ns =
     set_str_if ''namespace'' ns
       (set_str_if ''proxied_tool_kind'' kind
         (jset (responses_tool_call_payload_field tool_type) (JStr payload)
           (jobj [(''id'', JStr (''fc_'' @ call_id)),
                  (''type'', JStr (responses_tool_call_item_type tool_type)),
                  (''call_id'', JStr call_id), (''name'', JStr name)])))"

definition emit_responses_tool_call_item_added :: "responses_tool_call_event \<Rightarrow> (stream_state, frame) step" where
  "emit_responses_tool_call_item_added e = seq_event ''response.output_item.added'' (\<lambda>_.
     [(''response_id'', JStr (re_response_id e)), (''output_index'', jnat (re_output_index e)),
      (''item'', tool_call_item (re_call_id e) (re_name e) (re_tool_type e) []
         (re_proxied_tool_kind e) (re_namespace e))])"

definition str_field :: "string \<Rightarrow> string option \<Rightarrow> (string \<times> json) list" where
  "str_field k v = (case v of None \<Rightarrow> [] | Some x \<Rightarrow> [(k, JStr x)])"

definition emit_responses_tool_call_delta ::
    "responses_tool_call_event \<Rightarrow> string \<Rightarrow> (stream_state, frame) step" where
  "emit_responses_tool_call_delta e delta = only_if (delta \<noteq> [])
     (seq_event (responses_tool_call_delta_event_type (re_tool_type e)) (\<lambda>_.
       [(''response_id'', JStr (re_response_id e)), (''call_id'', JStr (re_call_id e)),
        (''name'', JStr (re_name e)), (''item_id'', JStr (''fc_'' @ re_call_id e)),
        (''output_index'', jnat (re_output_index e)), (''delta'', JStr delta)]
       @ str_field ''proxied_tool_kind'' (re_proxied_tool_kind e)
       @ str_field ''namespace'' (re_namespace e)))"

record responses_tool_call_done =
  rd_call_id :: string
  rd_name :: string
  rd_arguments :: string
  rd_output_index :: nat
  rd_tool_type :: string
  rd_proxied_tool_kind :: "string option"
  rd_namespace :: "string option"

record responses_tool_call_done_context =
  rc_response_id :: string
  rc_incomplete_reason :: "string option"
  rc_terminated_without_finish_reason :: bool

definition done_tool_call_item :: "env \<Rightarrow> responses_tool_call_done_context \<Rightarrow> responses_tool_call_done \<Rightarrow> json" where
  "done_tool_call_item E ctx d = maybe_mark_item_non_replayable E (rd_name d) (rd_tool_type d)
     (rd_arguments d) (rc_incomplete_reason ctx) (rc_terminated_without_finish_reason ctx)
     (tool_call_item (rd_call_id d) (rd_name d) (rd_tool_type d) (rd_arguments d)
        (rd_proxied_tool_kind d) (rd_namespace d))"

definition emit_responses_tool_call_done ::
    "env \<Rightarrow> responses_tool_call_done_context \<Rightarrow> responses_tool_call_done \<Rightarrow> (stream_state, frame) step" where
  "emit_responses_tool_call_done E ctx d = run_steps
     [seq_event (responses_tool_call_done_event_type (rd_tool_type d)) (\<lambda>_.
        [(''response_id'', JStr (rc_response_id ctx)), (''call_id'', JStr (rd_call_id d)),
         (''name'', JStr (rd_name d)), (''item_id'', JStr (''fc_'' @ rd_call_id d)),
         (''output_index'', jnat (rd_output_index d)),
         (responses_tool_call_payload_field (rd_tool_type d), JStr (rd_arguments d))]
        @ str_field ''namespace'' (rd_namespace d)),
      seq_event ''response.output_item.done'' (\<lambda>_.
        [(''response_id'', JStr (rc_response_id ctx)), (''output_index'', jnat (rd_output_index d)),
         (''item'', done_tool_call_item E ctx d)])]"

section \<open>Pending tool calls\<close>

definition tool_call_done_of :: "tool_call_state \<Rightarrow> string \<Rightarrow> responses_tool_call_done" where
  "tool_call_done_of tc call_id =
     \<lparr>rd_call_id = call_id, rd_name = tc_name tc, rd_arguments = tc_arguments tc,
      rd_output_index = unwrap_or (tc_block_index tc) (tc_index tc),
      rd_tool_type = tool_call_state_type tc, rd_proxied_tool_kind = tc_proxied_tool_kind tc,
      rd_namespace = tc_namespace tc\<rparr>"

text \<open>
  The loop over the keys in ascending order: a call is completed when it was announced and is not done
  yet; a call with a trusted mark is not completed, its text is kept for the message instead.
\<close>

definition pending_call ::
    "env \<Rightarrow> bool \<Rightarrow> tool_call_state \<Rightarrow> tool_call_state \<times> responses_tool_call_done list \<times> string list" where
  "pending_call E degrade tc =
     (if trusted_tool_call E tc then
        (if degrade
         then (tc\<lparr>tc_done := True\<rparr>, [],
               [tool_call_partial_replay_text_stream (tc_name tc) (tc_arguments tc)])
         else (tc, [], []))
      else if tc_item_added tc \<and> \<not> tc_done tc then
        (tc\<lparr>tc_done := True\<rparr>,
         (case ostr (tc_id tc) of None \<Rightarrow> [] | Some call_id \<Rightarrow> [tool_call_done_of tc call_id]), [])
      else (tc, [], []))"

fun pending_scan ::
    "env \<Rightarrow> bool \<Rightarrow> nat list \<Rightarrow> (nat \<times> tool_call_state) list \<Rightarrow>
     (nat \<times> tool_call_state) list \<times> responses_tool_call_done list \<times> string list" where
  "pending_scan E degrade [] calls = (calls, [], [])"
| "pending_scan E degrade (k # ks) calls = (case hm_get calls k of
      None \<Rightarrow> pending_scan E degrade ks calls
    | Some tc \<Rightarrow>
        (let (tc', ds, texts) = pending_call E degrade tc;
             (calls', ds', texts') = pending_scan E degrade ks (hm_insert k tc' calls)
         in (calls', ds @ ds', texts @ texts')))"

definition sorted_keys :: "env \<Rightarrow> stream_state \<Rightarrow> nat list" where
  "sorted_keys E s = sort (hm_keys E (openai_tool_calls s))"

definition scan_tool_calls ::
    "env \<Rightarrow> bool \<Rightarrow> stream_state \<Rightarrow>
     (nat \<times> tool_call_state) list \<times> responses_tool_call_done list \<times> string list" where
  "scan_tool_calls E degrade s = pending_scan E degrade (sorted_keys E s) (openai_tool_calls s)"

text \<open>The events, and the texts the function returns.\<close>

definition emit_pending_responses_tool_call_done_events ::
    "env \<Rightarrow> responses_tool_call_done_context \<Rightarrow> bool \<Rightarrow> (stream_state, frame) step" where
  "emit_pending_responses_tool_call_done_events E ctx degrade = reading (\<lambda>s. run_steps
     [modify (\<lambda>s. s\<lparr>openai_tool_calls := fst (scan_tool_calls E degrade s)\<rparr>),
      for_each (emit_responses_tool_call_done E ctx) (fst (snd (scan_tool_calls E degrade s)))])"

definition degraded_tool_call_texts :: "env \<Rightarrow> bool \<Rightarrow> stream_state \<Rightarrow> string list" where
  "degraded_tool_call_texts E degrade s = snd (snd (scan_tool_calls E degrade s))"

text \<open>
  What \<open>flush_pending_responses_tool_call\<close> makes of the entry it announces; \<open>None\<close> is an early return,
  which leaves the entry as it was.
\<close>

definition decode_bridged_call :: "env \<Rightarrow> json option \<Rightarrow> bool \<Rightarrow> tool_call_state \<Rightarrow> tool_call_state option" where
  "decode_bridged_call E ctx finalize tc =
     (if tool_call_state_type tc \<noteq> ''custom'' \<and> tc_proxied_tool_kind tc = None
         \<and> tc_namespace tc = None \<and> bridge_expects_canonical_input_wrapper_stream ctx (tc_name tc)
      then (case openai_custom_bridge_decode_arguments_stream E (tc_arguments tc) of
              Some input \<Rightarrow> Some (tc\<lparr>tc_tool_type := Some ''custom'', tc_arguments := input\<rparr>)
            | None \<Rightarrow> if finalize then Some tc else None)
      else Some tc)"

definition tool_call_text_id :: "tool_call_state \<Rightarrow> string" where
  "tool_call_text_id tc = unwrap_or (ostr (tc_id tc)) []"

definition resolve_pending_tool_call ::
    "env \<Rightarrow> json option \<Rightarrow> bool \<Rightarrow> tool_call_state \<Rightarrow> tool_call_state option" where
  "resolve_pending_tool_call E ctx finalize tc =
     (if tc_item_added tc \<or> tc_id tc = None \<or> trusted_tool_call E tc then None
      else map_option (\<lambda>t. t\<lparr>tc_item_added := True,
                             tc_item_id := Some (''fc_'' @ tool_call_text_id t)\<rparr>)
             (decode_bridged_call E ctx finalize tc))"

definition tool_call_event_of :: "string \<Rightarrow> nat \<Rightarrow> tool_call_state \<Rightarrow> responses_tool_call_event" where
  "tool_call_event_of response_id output_index tc =
     \<lparr>re_response_id = response_id, re_output_index = output_index,
      re_call_id = tool_call_text_id tc, re_name = tc_name tc,
      re_tool_type = tool_call_state_type tc, re_proxied_tool_kind = tc_proxied_tool_kind tc,
      re_namespace = tc_namespace tc\<rparr>"

definition announce_tool_call :: "string \<Rightarrow> nat \<Rightarrow> nat \<Rightarrow> tool_call_state \<Rightarrow> (stream_state, frame) step" where
  "announce_tool_call response_id output_index tc_idx tc = run_steps
     [modify (\<lambda>s. s\<lparr>openai_tool_calls := hm_insert tc_idx tc (openai_tool_calls s)\<rparr>),
      emit_responses_tool_call_item_added (tool_call_event_of response_id output_index tc),
      emit_responses_tool_call_delta (tool_call_event_of response_id output_index tc) (tc_arguments tc)]"

definition flush_pending_responses_tool_call ::
    "env \<Rightarrow> string \<Rightarrow> bool \<Rightarrow> nat \<Rightarrow> (stream_state, frame) step" where
  "flush_pending_responses_tool_call E response_id finalize tc_idx = reading (\<lambda>s.
     let (output_index, s') = tool_output_index tc_idx s in run_steps
       [modify (\<lambda>_. s'),
        (case Option.bind (hm_get (openai_tool_calls s') tc_idx)
                (resolve_pending_tool_call E (bridge_context s') finalize) of
           None \<Rightarrow> skip
         | Some tc \<Rightarrow> announce_tool_call response_id output_index tc_idx tc)])"

definition flush_pending_responses_tool_calls ::
    "env \<Rightarrow> string \<Rightarrow> bool \<Rightarrow> (stream_state, frame) step" where
  "flush_pending_responses_tool_calls E response_id finalize = reading (\<lambda>s.
     for_each (flush_pending_responses_tool_call E response_id finalize) (sorted_keys E s))"

end
