(* ===== verification/Responses_Sink.thy ===== *)
theory Responses_Sink
  imports Responses_Items
begin

text \<open>
  The sink side for a Responses client (\<open>src/streaming/openai_sink.rs\<close>,
  \<open>openai_chunk_to_responses_sse\<close>, \<open>emit_openai_responses_terminal\<close> and
  \<open>reject_openai_responses_stream\<close>): every Chat Completions chunk becomes numbered events of a
  Responses stream.
\<close>

section \<open>The terminal event\<close>

definition terminal_incomplete_reason :: "string option \<Rightarrow> string option" where
  "terminal_incomplete_reason fr =
     (if fr = Some ''length'' then Some ''max_output_tokens''
      else if fr = Some ''content_filter'' then Some ''content_filter''
      else if fr = Some ''pause_turn'' then Some ''pause_turn''
      else None)"

definition error_value :: "string \<Rightarrow> string \<Rightarrow> string \<Rightarrow> json" where
  "error_value ty code message =
     jobj [(''type'', JStr ty), (''code'', JStr code), (''message'', JStr message)]"

definition terminal_failed_error :: "string option \<Rightarrow> json option \<Rightarrow> json option" where
  "terminal_failed_error fr upstream_error =
     (if fr = Some ''context_length_exceeded'' then
        Some (error_value ''invalid_request_error'' ''context_length_exceeded''
          ''Your input exceeds the context window of this model. Please adjust your input and try again.'')
      else if fr = Some ''error'' then
        option_or upstream_error
          (Some (error_value ''server_error'' ''error'' ''The provider returned an error.''))
      else if fr = Some ''tool_error'' then
        Some (error_value ''invalid_request_error'' ''tool_error''
          ''The provider reported a tool or protocol error.'')
      else None)"

definition summary_part :: "string \<Rightarrow> json" where
  "summary_part t = jobj [(''type'', JStr ''summary_text''), (''text'', JStr t)]"

definition reasoning_item :: "string option \<Rightarrow> stream_state \<Rightarrow> json" where
  "reasoning_item carrier s = set_str_if ''encrypted_content'' carrier
     (jobj [(''id'', jopt_str (responses_reasoning_id s)), (''type'', JStr ''reasoning''),
            (''summary'', JArr [summary_part (responses_reasoning_text s)])])"

text \<open>The fields of an event about the reasoning item.\<close>

definition reasoning_event_fields :: "string \<Rightarrow> json \<Rightarrow> nat \<Rightarrow> (string \<times> json) list" where
  "reasoning_event_fields response_id item_id output_index =
     [(''response_id'', JStr response_id), (''item_id'', item_id),
      (''output_index'', jnat output_index), (''summary_index'', jnat 0)]"

definition finish_reasoning :: "string \<Rightarrow> string option \<Rightarrow> (stream_state, frame) step" where
  "finish_reasoning response_id carrier = reading (\<lambda>s.
     only_if (responses_reasoning_added s \<and> \<not> responses_reasoning_done s)
       (let (output_index, s') = reasoning_output_index (s\<lparr>responses_reasoning_done := True\<rparr>);
            item_id = JStr (unwrap_or (responses_reasoning_id s') ''rs_0'');
            fields = reasoning_event_fields response_id item_id output_index in run_steps
          [modify (\<lambda>_. s'),
           seq_event ''response.reasoning_summary_text.done''
             (\<lambda>s. fields @ [(''text'', JStr (responses_reasoning_text s))]),
           seq_event ''response.reasoning_summary_part.done''
             (\<lambda>s. fields @ [(''part'', summary_part (responses_reasoning_text s))]),
           seq_event ''response.output_item.done''
             (\<lambda>s. [(''response_id'', JStr response_id), (''output_index'', jnat output_index),
                   (''item'', reasoning_item carrier s)])]))"

text \<open>
  The message item and its part of a kind, created when they are missing, and a statement that works
  on them.
\<close>

definition with_message_part ::
    "env \<Rightarrow> string \<Rightarrow> responses_message_part_kind \<Rightarrow> (nat \<Rightarrow> (stream_state, frame) step) \<Rightarrow>
     (stream_state, frame) step" where
  "with_message_part E response_id kind f = reading (\<lambda>s.
     let (output_index, s') = message_output_index s in run_steps
       [modify (\<lambda>_. s'),
        ensure_responses_message_item_added E response_id output_index,
        ensure_responses_message_part response_id output_index kind,
        f output_index])"

definition append_degraded_texts :: "string list \<Rightarrow> stream_state \<Rightarrow> stream_state" where
  "append_degraded_texts texts s = update_part (the_part OutputTextPart s)
     (\<lambda>p. p\<lparr>mp_text := (if mp_text p \<noteq> [] then mp_text p @ [nl, nl] else mp_text p)
              @ join [nl, nl] texts\<rparr>) s"

definition emit_degraded_texts :: "env \<Rightarrow> string \<Rightarrow> string list \<Rightarrow> (stream_state, frame) step" where
  "emit_degraded_texts E response_id texts = only_if (texts \<noteq> [])
     (with_message_part E response_id OutputTextPart (\<lambda>_. modify (append_degraded_texts texts)))"

text \<open>The items of the final response, each with its output index.\<close>

definition final_tool_call_item ::
    "env \<Rightarrow> string option \<Rightarrow> bool \<Rightarrow> tool_call_state \<Rightarrow> (nat \<times> json) option" where
  "final_tool_call_item E incomplete_reason unfinished tc =
     (if trusted_tool_call E tc then None
      else map_option (\<lambda>call_id.
        (unwrap_or (tc_block_index tc) (tc_index tc),
         maybe_mark_item_non_replayable E (tc_name tc) (tool_call_state_type tc) (tc_arguments tc)
           incomplete_reason unfinished
           (tool_call_item call_id (tc_name tc) (tool_call_state_type tc) (tc_arguments tc)
              (tc_proxied_tool_kind tc) (tc_namespace tc)))) (ostr (tc_id tc)))"

definition final_tool_call_items ::
    "env \<Rightarrow> string option \<Rightarrow> bool \<Rightarrow> stream_state \<Rightarrow> (nat \<times> json) list" where
  "final_tool_call_items E incomplete_reason unfinished s =
     List.map_filter (final_tool_call_item E incomplete_reason unfinished)
       (sort_key tc_index (map snd (hm_entries E (openai_tool_calls s))))"

definition final_output_items ::
    "env \<Rightarrow> string option \<Rightarrow> string option \<Rightarrow> bool \<Rightarrow> stream_state \<Rightarrow> (nat \<times> json) list" where
  "final_output_items E carrier incomplete_reason unfinished s = sort_key fst
     ((if responses_reasoning_added s
       then [(fst (reasoning_output_index s), reasoning_item carrier s)] else [])
      @ map (\<lambda>m. (cm_output_index m, cm_item m)) (responses_completed_message_items s)
      @ final_tool_call_items E incomplete_reason unfinished s)"

definition set_opt :: "string \<Rightarrow> json option \<Rightarrow> json \<Rightarrow> json" where
  "set_opt k v w = (case v of None \<Rightarrow> w | Some x \<Rightarrow> jset k x w)"

definition terminal_status :: "json option \<Rightarrow> string option \<Rightarrow> string" where
  "terminal_status failed_error incomplete_reason =
     (if failed_error \<noteq> None then ''failed''
      else if incomplete_reason \<noteq> None then ''incomplete'' else ''completed'')"

definition terminal_event_type :: "json option \<Rightarrow> string option \<Rightarrow> string" where
  "terminal_event_type failed_error incomplete_reason =
     (if failed_error \<noteq> None then ''response.failed''
      else if incomplete_reason \<noteq> None then ''response.incomplete'' else ''response.completed'')"

definition final_response ::
    "string \<Rightarrow> nat \<Rightarrow> json option \<Rightarrow> string option \<Rightarrow> json list \<Rightarrow> stream_state \<Rightarrow> json" where
  "final_response response_id created failed_error incomplete_reason output s =
     set_opt ''usage'' (map_option openai_usage_to_responses_usage_stream (usage s))
       (jobj [(''id'', JStr response_id), (''object'', JStr ''response''), (''created_at'', jnat created),
              (''model'', jopt_str (model s)),
              (''status'', JStr (terminal_status failed_error incomplete_reason)),
              (''error'', jopt failed_error),
              (''incomplete_details'',
                 jopt (map_option (\<lambda>r. jobj [(''reason'', JStr r)]) incomplete_reason)),
              (''output'', JArr output)])"

definition emit_final_response ::
    "env \<Rightarrow> string \<Rightarrow> nat \<Rightarrow> string option \<Rightarrow> json option \<Rightarrow> string option \<Rightarrow> bool \<Rightarrow>
     (stream_state, frame) step" where
  "emit_final_response E response_id created carrier failed_error incomplete_reason unfinished =
     reading (\<lambda>s.
       let output = map snd (final_output_items E carrier incomplete_reason unfinished s);
           s' = (if responses_reasoning_added s then snd (reasoning_output_index s) else s);
           resp = final_response response_id created failed_error incomplete_reason output s'
       in run_steps
         [modify (\<lambda>_. if jget_str resp ''status'' = Some ''completed''
                      then s'\<lparr>responses_terminal_response := Some resp\<rparr> else s'),
          seq_event (terminal_event_type failed_error incomplete_reason) (\<lambda>_. [(''response'', resp)]),
          modify (\<lambda>s. s\<lparr>responses_terminal_sent := True\<rparr>)])"

definition emit_openai_responses_terminal :: "env \<Rightarrow> string \<Rightarrow> nat \<Rightarrow> (stream_state, frame) step" where
  "emit_openai_responses_terminal E response_id created = reading (\<lambda>s.
     let fr = finish_reason s;
         unfinished = (fr = None);
         carrier = streaming_anthropic_reasoning_carrier E s;
         incomplete_reason = terminal_incomplete_reason fr;
         failed_error = terminal_failed_error fr (openai_terminal_error s);
         ctx = \<lparr>rc_response_id = response_id, rc_incomplete_reason = incomplete_reason,
                rc_terminated_without_finish_reason = unfinished\<rparr>
     in run_steps
       [finish_reasoning response_id carrier,
        reading (\<lambda>s. let texts = degraded_tool_call_texts E True s in run_steps
          [emit_pending_responses_tool_call_done_events E ctx True,
           emit_degraded_texts E response_id texts]),
        emit_responses_message_done response_id (responses_terminal_message_phase fr),
        emit_final_response E response_id created carrier failed_error incomplete_reason unfinished])"

section \<open>Rejection\<close>

definition rejected_response :: "string \<Rightarrow> nat \<Rightarrow> string \<Rightarrow> string \<Rightarrow> json" where
  "rejected_response response_id created code message = jobj
     [(''id'', JStr response_id), (''object'', JStr ''response''), (''created_at'', jnat created),
      (''status'', JStr ''failed''), (''background'', JBool False),
      (''error'', error_value ''invalid_request_error'' code message),
      (''incomplete_details'', JNull), (''usage'', JNull), (''output'', JArr [])]"

definition reject_openai_responses_stream ::
    "string \<Rightarrow> nat \<Rightarrow> string \<Rightarrow> string \<Rightarrow> (stream_state, frame) step" where
  "reject_openai_responses_stream response_id created code raw = reading (\<lambda>s.
     let (s', message) = mark_stream_fatal_rejection raw s in run_steps
       [modify (\<lambda>_. s'\<lparr>openai_tool_calls := [], finish_reason := Some ''error'',
                       responses_terminal_sent := True\<rparr>),
        seq_event ''response.failed''
          (\<lambda>_. [(''response'', rejected_response response_id created code message)])])"

section \<open>The deltas of a chunk\<close>

definition choice_of :: "json \<Rightarrow> json option" where
  "choice_of chunk = (case jget_array chunk ''choices'' of
      Some (choice # _) \<Rightarrow> Some choice
    | _ \<Rightarrow> None)"

definition delta_of :: "json \<Rightarrow> json" where
  "delta_of chunk = unwrap_or (ogetj (choice_of chunk) ''delta'') JNull"

definition finish_of :: "json \<Rightarrow> string option" where
  "finish_of chunk = ostr (ogetj (choice_of chunk) ''finish_reason'')"

definition created_of :: "json \<Rightarrow> nat" where
  "created_of chunk = unwrap_or (jget_u64 chunk ''created'') 0"

definition capture_model :: "json \<Rightarrow> stream_state \<Rightarrow> stream_state" where
  "capture_model chunk s =
     (if model s = None
      then s\<lparr>model := ostr (option_or (ogetj (choice_of chunk) ''model'') (jget chunk ''model''))\<rparr>
      else s)"

definition begin_responses_stream :: "json \<Rightarrow> string \<Rightarrow> (stream_state, frame) step" where
  "begin_responses_stream chunk response_id = reading (\<lambda>s. only_if (\<not> responses_started s)
     (let common = [(''id'', JStr response_id), (''object'', JStr ''response''),
                    (''created_at'', jnat (created_of chunk)), (''status'', JStr ''in_progress''),
                    (''error'', JNull), (''incomplete_details'', JNull), (''usage'', JNull)]
      in run_steps
        [modify (\<lambda>s. s\<lparr>responses_started := True, responses_completed_message_items := [],
                       openai_terminal_error := jget chunk ''error'',
                       message_id := jget_str chunk ''id''\<rparr>),
         seq_event ''response.created'' (\<lambda>s. [(''response'', jobj (common @
           [(''model'', jopt_str (model s)), (''background'', JBool False), (''output'', JArr [])]))]),
         seq_event ''response.in_progress'' (\<lambda>_. [(''response'', jobj common)])]))"

definition announce_reasoning :: "env \<Rightarrow> string \<Rightarrow> nat \<Rightarrow> (stream_state, frame) step" where
  "announce_reasoning E response_id output_index = reading (\<lambda>s. only_if (\<not> responses_reasoning_added s)
     (let item_id = unwrap_or (responses_reasoning_id s) (''rs_'' @ simple_uuid E s) in run_steps
       [modify (\<lambda>s. s\<lparr>responses_reasoning_added := True, responses_reasoning_id := Some item_id\<rparr>),
        seq_event ''response.output_item.added'' (\<lambda>_.
          [(''response_id'', JStr response_id), (''output_index'', jnat output_index),
           (''item'', jobj [(''id'', JStr item_id), (''type'', JStr ''reasoning''),
                            (''summary'', JArr [])])]),
        seq_event ''response.reasoning_summary_part.added'' (\<lambda>s.
          reasoning_event_fields response_id (jopt_str (responses_reasoning_id s)) output_index
          @ [(''part'', summary_part [])])]))"

definition emit_reasoning :: "env \<Rightarrow> string \<Rightarrow> string \<Rightarrow> (stream_state, frame) step" where
  "emit_reasoning E response_id r = reading (\<lambda>s.
     let (output_index, s') = reasoning_output_index
           (s\<lparr>responses_reasoning_text := responses_reasoning_text s @ r\<rparr>) in run_steps
       [modify (\<lambda>_. s'),
        announce_reasoning E response_id output_index,
        seq_event ''response.reasoning_summary_text.delta'' (\<lambda>s.
          reasoning_event_fields response_id (jopt_str (responses_reasoning_id s)) output_index
          @ [(''delta'', JStr r)])])"

definition responses_reasoning :: "env \<Rightarrow> string \<Rightarrow> json \<Rightarrow> (stream_state, frame) step" where
  "responses_reasoning E response_id delta = reading (\<lambda>s.
     let (reasoning, s') = openai_chunk_reasoning_delta delta s in run_steps
       [modify (\<lambda>_. s'),
        (case reasoning of
           None \<Rightarrow> skip
         | Some r \<Rightarrow> only_if (r \<noteq> []) (emit_reasoning E response_id r))])"

definition part_delta_event ::
    "string \<Rightarrow> responses_message_part_kind \<Rightarrow> string \<Rightarrow> nat \<Rightarrow> (stream_state, frame) step" where
  "part_delta_event response_id kind t output_index = seq_event (part_delta_event_type kind) (\<lambda>s.
     [(''response_id'', JStr response_id), (''output_index'', jnat output_index),
      (''content_index'', jnat (the_part kind s)), (''item_id'', JStr (current_item_id s)),
      (''delta'', JStr t)])"

definition add_output_text :: "string \<Rightarrow> json list \<Rightarrow> stream_state \<Rightarrow> stream_state" where
  "add_output_text c annotations s = update_part (the_part OutputTextPart s)
     (\<lambda>p. p\<lparr>mp_text := mp_text p @ c, mp_annotations := mp_annotations p @ annotations\<rparr>)
     (s\<lparr>responses_output_text := responses_output_text s @ c\<rparr>)"

definition add_annotations :: "json list \<Rightarrow> stream_state \<Rightarrow> stream_state" where
  "add_annotations annotations s = update_part (the_part OutputTextPart s)
     (\<lambda>p. p\<lparr>mp_annotations := mp_annotations p @ annotations\<rparr>) s"

definition add_refusal :: "string \<Rightarrow> stream_state \<Rightarrow> stream_state" where
  "add_refusal t s = update_part (the_part RefusalPart s) (\<lambda>p. p\<lparr>mp_text := mp_text p @ t\<rparr>) s"

definition responses_content ::
    "env \<Rightarrow> string \<Rightarrow> string option \<Rightarrow> json list \<Rightarrow> (stream_state, frame) step" where
  "responses_content E response_id content annotations = (case content of
      None \<Rightarrow> only_if (annotations \<noteq> [])
        (with_message_part E response_id OutputTextPart (\<lambda>_. modify (add_annotations annotations)))
    | Some c \<Rightarrow> only_if (c \<noteq> [])
        (with_message_part E response_id OutputTextPart (\<lambda>output_index. run_steps
          [modify (add_output_text c annotations),
           part_delta_event response_id OutputTextPart c output_index])))"

definition responses_refusal_delta :: "env \<Rightarrow> string \<Rightarrow> string option \<Rightarrow> (stream_state, frame) step" where
  "responses_refusal_delta E response_id refusal = (case refusal of
      None \<Rightarrow> skip
    | Some t \<Rightarrow> only_if (t \<noteq> [])
        (with_message_part E response_id RefusalPart (\<lambda>output_index. run_steps
          [modify (add_refusal t), part_delta_event response_id RefusalPart t output_index])))"

definition responses_text :: "env \<Rightarrow> string \<Rightarrow> json \<Rightarrow> (stream_state, frame) step" where
  "responses_text E response_id delta = reading (\<lambda>s.
     let (content, s1) = openai_chunk_content_delta delta s;
         (refusal, s2) = openai_chunk_refusal_delta delta s1 in run_steps
       [modify (\<lambda>_. s2),
        responses_content E response_id content (openai_chunk_annotations_delta delta),
        responses_refusal_delta E response_id refusal])"

section \<open>Tool calls\<close>

definition tool_call_name :: "json \<Rightarrow> string option" where
  "tool_call_name tc = ostr (ogetj (jget tc ''function'') ''name'')"

definition with_call_id :: "json \<Rightarrow> tool_call_state \<Rightarrow> tool_call_state" where
  "with_call_id tc e = e
     \<lparr>tc_id := option_or (jget tc ''id'') (tc_id e),
      tc_marker := option_or (jget tc non_replayable_field) (tc_marker e),
      tc_tool_type := (if tc_tool_type e = None \<or> jget tc ''type'' \<noteq> None
                       then Some (openai_stream_tool_call_type tc) else tc_tool_type e),
      tc_proxied_tool_kind := option_or (jget_str tc ''proxied_tool_kind'') (tc_proxied_tool_kind e)\<rparr>"

definition with_call_name :: "json option \<Rightarrow> json \<Rightarrow> tool_call_state \<Rightarrow> tool_call_state" where
  "with_call_name ctx tc e = (case tool_call_name tc of
      None \<Rightarrow> e
    | Some name \<Rightarrow>
        if tc_namespace e \<noteq> None then e
        else (case request_scoped_namespace_bridge_lookup_stream ctx name of
                Some (ns, child) \<Rightarrow> e\<lparr>tc_namespace := Some ns, tc_name := child\<rparr>
              | None \<Rightarrow> e\<lparr>tc_name := name\<rparr>))"

definition with_call_arguments :: "json \<Rightarrow> tool_call_state \<Rightarrow> tool_call_state" where
  "with_call_arguments tc e = e\<lparr>tc_arguments := tc_arguments e @ unwrap_or (call_arguments tc) []\<rparr>"

definition update_tool_call_entry :: "json option \<Rightarrow> json \<Rightarrow> tool_call_state \<Rightarrow> tool_call_state" where
  "update_tool_call_entry ctx tc e = with_call_arguments tc (with_call_name ctx tc (with_call_id tc e))"

text \<open>
  The statements after the entry is updated. \<open>args_delta\<close> is set when the item was announced before
  this chunk and the mark is not trusted.
\<close>

definition emit_tool_call ::
    "env \<Rightarrow> string \<Rightarrow> nat \<Rightarrow> nat \<Rightarrow> json \<Rightarrow> tool_call_state \<Rightarrow> (stream_state, frame) step" where
  "emit_tool_call E response_id tc_idx output_index tc e = run_steps
     [only_if (\<not> trusted_tool_call E e \<and> \<not> tc_item_added e \<and> tc_id e \<noteq> None)
        (flush_pending_responses_tool_call E response_id False tc_idx),
      only_if (\<not> trusted_tool_call E e \<and> tc_item_added e)
        (emit_responses_tool_call_delta (tool_call_event_of response_id output_index e)
           (unwrap_or (call_arguments tc) []))]"

definition update_tool_call ::
    "env \<Rightarrow> string \<Rightarrow> nat \<Rightarrow> nat \<Rightarrow> json \<Rightarrow> (stream_state, frame) step" where
  "update_tool_call E response_id tc_idx output_index tc = reading (\<lambda>s.
     let e = update_tool_call_entry (bridge_context s) tc (entry_or_default tc_idx (openai_tool_calls s))
     in run_steps
       [modify (\<lambda>s. s\<lparr>openai_tool_calls := hm_insert tc_idx e (openai_tool_calls s)\<rparr>),
        emit_tool_call E response_id tc_idx output_index tc e])"

text \<open>One round of the loop: a reserved name ends the stream and the function.\<close>

definition reserved_tool_name :: "json \<Rightarrow> string option" where
  "reserved_tool_name tc = (case tool_call_name tc of
      None \<Rightarrow> None
    | Some name \<Rightarrow> (case validate_public_tool_name_not_reserved name of
        Inl message \<Rightarrow> Some message | Inr _ \<Rightarrow> None))"

definition call_index :: "json \<Rightarrow> nat" where
  "call_index tc = unwrap_or (jget_u64 tc ''index'') 0"

definition place_tool_call :: "env \<Rightarrow> json \<Rightarrow> stream_state \<Rightarrow> nat \<times> stream_state" where
  "place_tool_call E tc s = tool_output_index (call_index tc)
     (s\<lparr>openai_tool_calls :=
          dedupe_tool_call_state_by_call_id E (call_index tc) (jget tc ''id'') (openai_tool_calls s)\<rparr>)"

definition responses_tool_call :: "env \<Rightarrow> string \<Rightarrow> nat \<Rightarrow> json \<Rightarrow> (stream_state, frame) stopping" where
  "responses_tool_call E response_id created tc s =
     (let (output_index, s') = place_tool_call E tc s in
      case reserved_tool_name tc of
        Some message \<Rightarrow>
          (reject_openai_responses_stream response_id created ''reserved_openai_custom_bridge_prefix''
             message s', True)
      | None \<Rightarrow> (update_tool_call E response_id (call_index tc) output_index tc s', False))"

text \<open>The whole statement over \<open>delta.tool_calls\<close>; the flag says that the function returned.\<close>

definition responses_tool_calls :: "env \<Rightarrow> string \<Rightarrow> nat \<Rightarrow> json \<Rightarrow> (stream_state, frame) stopping" where
  "responses_tool_calls E response_id created delta s = (case jget_array delta ''tool_calls'' of
      None \<Rightarrow> ((s, []), False)
    | Some tcs \<Rightarrow>
        (let (s', out) = emit_responses_message_done response_id (Some ''commentary'') s;
             ((s'', out'), stop) = until_stop (responses_tool_call E response_id created) tcs s'
         in ((s'', out @ out'), stop)))"

section \<open>The end of a chunk\<close>

definition is_failure_finish :: "string option \<Rightarrow> bool" where
  "is_failure_finish fr = (fr \<in> {Some ''context_length_exceeded'', Some ''error'', Some ''tool_error''})"

definition should_finalize_now :: "json \<Rightarrow> stream_state \<Rightarrow> bool" where
  "should_finalize_now chunk s =
     (if finish_reason s \<noteq> None \<and> \<not> responses_terminal_sent s
      then (case jget chunk ''usage'' of None \<Rightarrow> False | Some u \<Rightarrow> \<not> is_null u)
           \<or> \<not> is_minimax_chunk chunk s
      else False)"

definition finalize_responses :: "env \<Rightarrow> string \<Rightarrow> nat \<Rightarrow> (stream_state, frame) step" where
  "finalize_responses E response_id created = run_steps
     [flush_pending_responses_tool_calls E response_id True,
      emit_openai_responses_terminal E response_id created]"

definition end_of_chunk :: "env \<Rightarrow> json \<Rightarrow> string \<Rightarrow> (stream_state, frame) step" where
  "end_of_chunk E chunk response_id = run_steps
     [modify (\<lambda>s. case jget chunk ''usage'' of None \<Rightarrow> s | Some u \<Rightarrow> s\<lparr>usage := Some u\<rparr>),
      (let fr = finish_of chunk in
       if is_failure_finish fr then run_steps
         [modify (\<lambda>s. s\<lparr>finish_reason := fr\<rparr>), finalize_responses E response_id (created_of chunk)]
       else run_steps
         [modify (\<lambda>s. if fr \<noteq> None then s\<lparr>finish_reason := fr\<rparr> else s),
          only_if (fr = Some ''tool_calls'') (run_steps
            [flush_pending_responses_tool_calls E response_id True,
             emit_pending_responses_tool_call_done_events E
               \<lparr>rc_response_id = response_id, rc_incomplete_reason = None,
                rc_terminated_without_finish_reason = False\<rparr> False]),
          reading (\<lambda>s. only_if (should_finalize_now chunk s)
            (finalize_responses E response_id (created_of chunk)))])]"

definition chunk_response_id :: "json \<Rightarrow> stream_state \<Rightarrow> string" where
  "chunk_response_id chunk s =
     responses_response_id s (option_or (jget_str chunk ''id'') (message_id s))"

definition responses_chunk_body :: "env \<Rightarrow> json \<Rightarrow> string \<Rightarrow> (stream_state, frame) step" where
  "responses_chunk_body E chunk response_id = run_steps
     [modify (capture_model chunk),
      begin_responses_stream chunk response_id,
      responses_reasoning E response_id (delta_of chunk),
      responses_text E response_id (delta_of chunk),
      unless_stopped (responses_tool_calls E response_id (created_of chunk) (delta_of chunk))
        (end_of_chunk E chunk response_id)]"

definition openai_chunk_to_responses_sse :: "env \<Rightarrow> json \<Rightarrow> (stream_state, frame) step" where
  "openai_chunk_to_responses_sse E chunk = reading (\<lambda>s. only_if (\<not> responses_terminal_sent s)
     (run_steps
       [modify (\<lambda>s. case jget chunk ''error'' of
           None \<Rightarrow> s
         | Some e \<Rightarrow> s\<lparr>openai_terminal_error := Some e\<rparr>),
        responses_chunk_body E chunk (chunk_response_id chunk s)]))"

end
