(* ===== verification/Responses_Contracts.thy ===== *)
theory Responses_Contracts
  imports Responses_Sink
begin

text \<open>
  Contracts of the Responses sink: its events are numbered without a gap, at most one of them ends the
  response, nothing follows it, and the response kept for later requests is one that was sent as
  completed.
\<close>

section \<open>The contracts\<close>

definition frame_seq :: "frame \<Rightarrow> nat option" where
  "frame_seq f = (case f of Frame _ v \<Rightarrow> jget_u64 v ''sequence_number'' | Raw _ \<Rightarrow> None)"

definition terminal_types :: "string list" where
  "terminal_types = [''response.completed'', ''response.incomplete'', ''response.failed'']"

definition is_terminal_frame :: "frame \<Rightarrow> bool" where
  "is_terminal_frame f = (case f of Frame (Some ty) _ \<Rightarrow> ty \<in> set terminal_types | _ \<Rightarrow> False)"

definition numbered :: "stream_state \<Rightarrow> frame list \<Rightarrow> stream_state \<Rightarrow> bool" where
  "numbered s out t =
     (map frame_seq out = map Some [Suc (responses_seq s)..<Suc (responses_seq t)]
      \<and> responses_seq s \<le> responses_seq t)"

text \<open>Statements before the end: numbered events, none of which ends the response.\<close>

definition ongoing :: "stream_state \<Rightarrow> frame list \<Rightarrow> stream_state \<Rightarrow> bool" where
  "ongoing s out t = (numbered s out t
     \<and> responses_terminal_sent t = responses_terminal_sent s
     \<and> responses_terminal_response t = responses_terminal_response s
     \<and> list_all (\<lambda>f. \<not> is_terminal_frame f) out)"

text \<open>What holds of every statement.\<close>

definition completed_frames :: "frame list \<Rightarrow> json option set" where
  "completed_frames out =
     {jget v ''response'' | v. Frame (Some ''response.completed'') v \<in> set out}"

definition ending :: "stream_state \<Rightarrow> frame list \<Rightarrow> stream_state \<Rightarrow> bool" where
  "ending s out t = (numbered s out t
     \<and> latched responses_terminal_sent is_terminal_frame s out t
     \<and> responses_terminal_response t
         \<in> {responses_terminal_response s} \<union> completed_frames out)"

lemma numbered_append:
  assumes "numbered s a t" and "numbered t b u"
  shows "numbered s (a @ b) u"
proof -
  have "[Suc (responses_seq s)..<Suc (responses_seq u)]
      = [Suc (responses_seq s)..<Suc (responses_seq t)] @ [Suc (responses_seq t)..<Suc (responses_seq u)]"
    using assms upt_add_eq_append [of "Suc (responses_seq s)" "Suc (responses_seq t)"
        "responses_seq u - responses_seq t"] by (simp add: numbered_def)
  with assms show ?thesis by (simp add: numbered_def)
qed

interpretation going: trace_contract ongoing
proof unfold_locales
  fix s t u :: stream_state and a b :: "frame list"
  show "ongoing s [] s" by (simp add: ongoing_def numbered_def)
  assume "ongoing s a t" "ongoing t b u"
  then show "ongoing s (a @ b) u" using numbered_append by (simp add: ongoing_def) blast
qed

interpretation terminal: latch responses_terminal_sent is_terminal_frame .

lemma completed_frames_append: "completed_frames (a @ b) = completed_frames a \<union> completed_frames b"
  by (auto simp: completed_frames_def)

interpretation ends: trace_contract ending
proof unfold_locales
  fix s t u :: stream_state and a b :: "frame list"
  show "ending s [] s" by (simp add: ending_def numbered_def terminal.refl)
  assume st: "ending s a t" and tu: "ending t b u"
  then have "numbered s (a @ b) u" "latched responses_terminal_sent is_terminal_frame s (a @ b) u"
    unfolding ending_def by (blast intro: numbered_append terminal.trans)+
  with st tu show "ending s (a @ b) u"
    by (auto simp: ending_def completed_frames_append)
qed

lemma ongoing_ending: "ongoing s out t \<Longrightarrow> ending s out t"
  by (auto simp: ongoing_def ending_def latched_def list_all_iff filter_empty_conv)

lemma going_ends: "sat ongoing f \<Longrightarrow> sat ending f"
  by (auto simp: sat_def ongoing_ending)

lemma ongoing_keeps_open: "ongoing s out t \<Longrightarrow> responses_terminal_sent t = responses_terminal_sent s"
  by (simp add: ongoing_def)

section \<open>The statements\<close>

text \<open>The fields of an event must not hold a second number; this is seen from their names.\<close>

definition plain_fields :: "(string \<times> json) list \<Rightarrow> bool" where
  "plain_fields kvs = list_all (\<lambda>(k, _). k \<noteq> ''sequence_number'') kvs"

lemma plain_fields_simps [simp]:
  "plain_fields []"
  "plain_fields ((k, v) # kvs) = (k \<noteq> ''sequence_number'' \<and> plain_fields kvs)"
  "plain_fields (kvs @ kvs') = (plain_fields kvs \<and> plain_fields kvs')"
  by (simp_all add: plain_fields_def)

lemma plain_str_field [simp]: "k \<noteq> ''sequence_number'' \<Longrightarrow> plain_fields (str_field k v)"
  by (simp add: str_field_def split: option.split)

lemma plain_payload_field [simp]: "responses_tool_call_payload_field ty \<noteq> ''sequence_number''"
  by (simp add: responses_tool_call_payload_field_def)

lemma plain_reasoning [simp]: "plain_fields (reasoning_event_fields a b c)"
  by (simp add: reasoning_event_fields_def)

lemma plain_look: "plain_fields kvs \<Longrightarrow> ''sequence_number'' \<notin> fst ` set kvs"
  by (auto simp: plain_fields_def list_all_iff)

lemma seq_event_result:
  "seq_event ty kvs s = (s\<lparr>responses_seq := Suc (responses_seq s)\<rparr>,
     [Frame (Some ty) (jobj ((''type'', JStr ty) # (''sequence_number'', jnat (Suc (responses_seq s)))
        # kvs (s\<lparr>responses_seq := Suc (responses_seq s)\<rparr>)))])"
  by (simp add: seq_event_def next_responses_seq_def Let_def)

lemma seq_event_number:
  "plain_fields kvs \<Longrightarrow>
   frame_seq (Frame ty (jobj ((''type'', JStr ty') # (''sequence_number'', jnat n) # kvs))) = Some n"
proof -
  assume "plain_fields kvs"
  then have "map_of (rev kvs) ''sequence_number'' = None"
    using plain_look [of kvs] by (simp add: map_of_eq_None_iff)
  then show ?thesis by (simp add: frame_seq_def jget_u64_def map_add_def)
qed

lemma seq_event_going:
  assumes "ty \<notin> set terminal_types" and "\<And>s. plain_fields (kvs s)"
  shows "sat ongoing (seq_event ty kvs)"
  using assms by (intro satI)
    (simp add: seq_event_result ongoing_def numbered_def seq_event_number is_terminal_frame_def)

lemma modify_going:
  "(\<And>s. responses_seq (f s) = responses_seq s \<and> responses_terminal_sent (f s) = responses_terminal_sent s
     \<and> responses_terminal_response (f s) = responses_terminal_response s) \<Longrightarrow> sat ongoing (modify f)"
  by (rule going.modify_sat) (simp add: ongoing_def numbered_def)

lemma ongoing_silent:
  "ongoing s [] t = (responses_seq t = responses_seq s
     \<and> responses_terminal_sent t = responses_terminal_sent s
     \<and> responses_terminal_response t = responses_terminal_response s)"
  by (auto simp: ongoing_def numbered_def)

lemma sat_let: "sat R (k x) \<Longrightarrow> sat R (let y = x in k y)"
  by simp

lemmas going_intros = flow_intros going.skip_sat going.only_if_sat going.run_steps_sat going.for_each_sat
  seq_event_going modify_going

lemmas going_at = at_intros going.at_statements at_sat

lemma index_keeps:
  "reserve_responses_output_index s = (i, t) \<Longrightarrow> ongoing s [] t"
  "reasoning_output_index s = (i, t) \<Longrightarrow> ongoing s [] t"
  "message_output_index s = (i, t) \<Longrightarrow> ongoing s [] t"
  "tool_output_index k s = (i, t) \<Longrightarrow> ongoing s [] t"
  by (auto simp: reserve_responses_output_index_def reasoning_output_index_def message_output_index_def
      tool_output_index_def ongoing_silent Let_def split: option.splits)

lemma terminal_types_simps [simp]:
  "''response.output_item.added'' \<notin> set terminal_types"
  "''response.content_part.added'' \<notin> set terminal_types"
  "''response.output_item.done'' \<notin> set terminal_types"
  "''response.content_part.done'' \<notin> set terminal_types"
  "''response.created'' \<notin> set terminal_types" "''response.in_progress'' \<notin> set terminal_types"
  "''response.reasoning_summary_part.added'' \<notin> set terminal_types"
  "''response.reasoning_summary_text.delta'' \<notin> set terminal_types"
  "''response.reasoning_summary_text.done'' \<notin> set terminal_types"
  "''response.reasoning_summary_part.done'' \<notin> set terminal_types"
  "part_delta_event_type kind \<notin> set terminal_types"
  "part_done_event_type kind \<notin> set terminal_types"
  "responses_tool_call_delta_event_type ty \<notin> set terminal_types"
  "responses_tool_call_done_event_type ty \<notin> set terminal_types"
  by (simp_all add: terminal_types_def part_delta_event_type_def part_done_event_type_def
      responses_tool_call_delta_event_type_def responses_tool_call_done_event_type_def
      split: responses_message_part_kind.split)

subsection \<open>Items\<close>

lemma item_added_going: "sat ongoing (ensure_responses_message_item_added E rid i)"
  unfolding ensure_responses_message_item_added_def Let_def
  by (intro sat_reading going_intros) simp_all

lemma part_going: "sat ongoing (ensure_responses_message_part rid i kind)"
  unfolding ensure_responses_message_part_def Let_def
  by (intro sat_reading going_intros) (simp_all add: set_part_index_def split: responses_message_part_kind.split)

lemma with_part_going:
  "(\<And>i. sat ongoing (f i)) \<Longrightarrow> sat ongoing (with_message_part E rid kind f)"
  unfolding with_message_part_def
  by (rule sat_if_at, intro going_at going_intros item_added_going part_going) (auto simp: index_keeps)

lemma part_done_going: "sat ongoing (part_done_events rid i item ip)"
  unfolding part_done_events_def case_prod_unfold Let_def
  by (cases "part_kind (snd ip)") (auto intro!: going_intros)

lemma message_done_going: "sat ongoing (emit_responses_message_done rid phase)"
  unfolding emit_responses_message_done_def
  by (rule sat_if_at, intro going_at going_intros sat_let part_done_going)
    (auto simp: index_keeps reset_responses_message_segment_def)

lemma call_added_going: "sat ongoing (emit_responses_tool_call_item_added e)"
  unfolding emit_responses_tool_call_item_added_def by (intro going_intros) simp_all

lemma call_delta_going: "sat ongoing (emit_responses_tool_call_delta e d)"
  unfolding emit_responses_tool_call_delta_def by (intro going_intros) simp_all

lemma call_done_going: "sat ongoing (emit_responses_tool_call_done E ctx d)"
  unfolding emit_responses_tool_call_done_def by (intro going_intros) simp_all

lemma pending_done_going: "sat ongoing (emit_pending_responses_tool_call_done_events E ctx degrade)"
  unfolding emit_pending_responses_tool_call_done_events_def
  by (intro sat_reading going_intros call_done_going) simp_all

lemma flush_call_going: "sat ongoing (flush_pending_responses_tool_call E rid fin k)"
  unfolding flush_pending_responses_tool_call_def announce_tool_call_def
  by (rule sat_if_at, intro going_at going_intros call_added_going call_delta_going)
    (auto simp: index_keeps)

lemma flush_calls_going: "sat ongoing (flush_pending_responses_tool_calls E rid fin)"
  unfolding flush_pending_responses_tool_calls_def
  by (intro sat_reading going_intros flush_call_going)

subsection \<open>The terminal event\<close>

lemma finish_reasoning_going: "sat ongoing (finish_reasoning rid carrier)"
  unfolding finish_reasoning_def
  by (rule sat_if_at, intro going_at going_intros)
    (auto simp: reasoning_output_index_def reserve_responses_output_index_def ongoing_silent Let_def
      split: option.splits)

lemma degraded_going: "sat ongoing (emit_degraded_texts E rid texts)"
  unfolding emit_degraded_texts_def
  by (intro going_intros with_part_going) (auto simp: append_degraded_texts_def update_part_def)

lemma terminal_type_cases: "terminal_event_type e i \<in> set terminal_types"
  by (simp add: terminal_event_type_def terminal_types_def)

lemma final_status:
  "jget_str (final_response rid created e i output s) ''status'' = Some ''completed'' \<longleftrightarrow> e = None \<and> i = None"
  by (simp add: final_response_def jget_str_def set_opt_def terminal_status_def split: option.split)

abbreviation unfinished_state :: "stream_state \<Rightarrow> bool" where
  "unfinished_state s \<equiv> \<not> responses_terminal_sent s"

lemma final_response_ends:
  "sat_from unfinished_state ending (emit_final_response E rid created carrier e i unf)"
proof (rule sat_from_if_at)
  fix s assume open_s: "unfinished_state s"
  define s' where "s' = (if responses_reasoning_added s then snd (reasoning_output_index s) else s)"
  define resp where "resp = final_response rid created e i
    (map snd (final_output_items E carrier i unf s)) s'"
  have s': "ongoing s [] s'"
    using index_keeps(2) [of s "fst (reasoning_output_index s)" s'] going.refl [of s]
    by (auto simp: s'_def)
  let ?ty = "terminal_event_type e i"
  have ty: "?ty = ''response.completed'' \<longleftrightarrow> jget_str resp ''status'' = Some ''completed''"
    by (simp add: resp_def final_status terminal_event_type_def)
  have no: "frame_seq (Frame (Some ?ty) (jobj [(''type'', JStr ?ty), (''sequence_number'', jnat n),
      (''response'', resp)])) = Some n" for n
    using seq_event_number [of "[(''response'', resp)]" "Some ?ty"] by simp
  have out: "emit_final_response E rid created carrier e i unf s =
      ((if jget_str resp ''status'' = Some ''completed''
        then s'\<lparr>responses_terminal_response := Some resp\<rparr> else s')
         \<lparr>responses_seq := Suc (responses_seq s'), responses_terminal_sent := True\<rparr>,
       [Frame (Some ?ty) (jobj [(''type'', JStr ?ty),
          (''sequence_number'', jnat (Suc (responses_seq s'))), (''response'', resp)])])"
    by (simp add: emit_final_response_def reading_def modify_def seq_event_result Let_def s'_def [symmetric]
        resp_def [symmetric])
  show "sat_at ending s (emit_final_response E rid created carrier e i unf)"
    using s' open_s terminal_type_cases [of e i] ty
    by (auto simp: sat_at_def out ending_def numbered_def ongoing_silent no latched_def
        is_terminal_frame_def completed_frames_def)
qed

lemma going_from: "sat ongoing f \<Longrightarrow> sat_from unfinished_state ending (run_steps fs) \<Longrightarrow>
    sat_from unfinished_state ending (run_steps (f # fs))"
  by (rule sat_from_if_at, rule ends.at_run_Cons, rule at_sat, erule going_ends)
    (auto simp: sat_from_def sat_at_def sat_def ongoing_def)

lemma last_from: "sat_from P ending f \<Longrightarrow> sat_from P ending (run_steps [f])"
  by (simp add: sat_from_def case_prod_unfold Let_def)

lemma terminal_ends: "sat_from unfinished_state ending (emit_openai_responses_terminal E rid created)"
  unfolding emit_openai_responses_terminal_def Let_def
  by (intro sat_from_reading going_from last_from final_response_ends finish_reasoning_going
      message_done_going sat_reading going_intros pending_done_going degraded_going)

lemma finalize_ends: "sat_from unfinished_state ending (finalize_responses E rid created)"
  unfolding finalize_responses_def
  by (intro going_from last_from terminal_ends flush_calls_going)

lemma reject_ends:
  "sat_from unfinished_state ending (reject_openai_responses_stream rid created code message)"
proof (rule sat_from_if_at)
  fix s assume "unfinished_state s"
  have no: "frame_seq (Frame (Some ''response.failed'') (jobj [(''type'', JStr ''response.failed''),
      (''sequence_number'', jnat n), (''response'', r)])) = Some n" for n r
    using seq_event_number [of "[(''response'', r)]" "Some ''response.failed''" "''response.failed''"] by simp
  show "sat_at ending s (reject_openai_responses_stream rid created code message)"
    using \<open>unfinished_state s\<close>
    by (auto simp: sat_at_def reject_openai_responses_stream_def reading_def modify_def seq_event_result
        mark_stream_fatal_rejection_def ending_def numbered_def no latched_def is_terminal_frame_def
        terminal_types_def completed_frames_def Let_def)
qed

subsection \<open>A chunk\<close>

lemma begin_going: "sat ongoing (begin_responses_stream chunk rid)"
  unfolding begin_responses_stream_def
  by (rule sat_if_at, intro going_at going_intros) auto

lemma reasoning_delta_fields:
  "openai_chunk_reasoning_delta delta s = (r, t) \<Longrightarrow> ongoing s [] t"
  by (auto simp: openai_chunk_reasoning_delta_def ongoing_silent case_prod_unfold Let_def split: option.splits)

lemma content_delta_fields:
  "openai_chunk_content_delta delta s = (r, t) \<Longrightarrow> ongoing s [] t"
  "openai_chunk_refusal_delta delta s = (r, t) \<Longrightarrow> ongoing s [] t"
  by (auto simp: openai_chunk_content_delta_def openai_chunk_refusal_delta_def ongoing_silent
      case_prod_unfold Let_def split: option.splits)

lemma announce_reasoning_going: "sat ongoing (announce_reasoning E rid i)"
  unfolding announce_reasoning_def
  by (rule sat_if_at, intro going_at going_intros) auto

lemma emit_reasoning_going: "sat ongoing (emit_reasoning E rid r)"
  unfolding emit_reasoning_def
  by (rule sat_if_at, intro going_at going_intros announce_reasoning_going)
    (auto simp: reasoning_output_index_def reserve_responses_output_index_def ongoing_silent Let_def
      split: option.splits)

lemma reasoning_going: "sat ongoing (responses_reasoning E rid delta)"
  unfolding responses_reasoning_def
  by (rule sat_if_at, intro going_at going_intros emit_reasoning_going)
    (auto dest: reasoning_delta_fields)

lemma part_delta_going: "sat ongoing (part_delta_event rid kind t i)"
  unfolding part_delta_event_def by (intro going_intros) simp_all

lemma content_going: "sat ongoing (responses_content E rid content annotations)"
  unfolding responses_content_def
  by (intro going_intros with_part_going part_delta_going)
    (auto simp: add_output_text_def add_annotations_def update_part_def)

lemma refusal_going: "sat ongoing (responses_refusal_delta E rid refusal)"
  unfolding responses_refusal_delta_def
  by (intro going_intros with_part_going part_delta_going) (auto simp: add_refusal_def update_part_def)

lemma text_going: "sat ongoing (responses_text E rid delta)"
  unfolding responses_text_def
  by (rule sat_if_at, intro going_at going_intros content_going refusal_going)
    (auto dest!: content_delta_fields simp: ongoing_silent)

lemma place_fields: "place_tool_call E tc s = (i, t) \<Longrightarrow> ongoing s [] t"
  using index_keeps(4) by (fastforce simp: place_tool_call_def ongoing_silent)

lemma emit_call_going: "sat ongoing (emit_tool_call E rid k i tc e)"
  unfolding emit_tool_call_def by (intro going_intros flush_call_going call_delta_going)

lemma update_call_going: "sat ongoing (update_tool_call E rid k i tc)"
  unfolding update_tool_call_def
  by (rule sat_if_at, intro going_at going_intros emit_call_going) (auto simp: ongoing_silent)

text \<open>A statement that may return: before it does the events go on, and when it does the stream ended.\<close>

definition stops_well :: "(stream_state, frame) stopping \<Rightarrow> bool" where
  "stops_well f = (\<forall>s. unfinished_state s \<longrightarrow> ending s (snd (fst (f s))) (fst (fst (f s)))
     \<and> (\<not> snd (f s) \<longrightarrow> ongoing s (snd (fst (f s))) (fst (fst (f s)))))"

lemma call_stops_well: "stops_well (responses_tool_call E rid created tc)"
  unfolding stops_well_def
proof (intro allI impI)
  fix s assume s: "unfinished_state s"
  obtain i t where p: "place_tool_call E tc s = (i, t)" by fastforce
  have t: "ongoing s [] t" by (rule place_fields [OF p])
  with s have open_t: "unfinished_state t" by (simp add: ongoing_def)
  show "ending s (snd (fst (responses_tool_call E rid created tc s))) (fst (fst (responses_tool_call E rid created tc s)))
     \<and> (\<not> snd (responses_tool_call E rid created tc s) \<longrightarrow>
        ongoing s (snd (fst (responses_tool_call E rid created tc s))) (fst (fst (responses_tool_call E rid created tc s))))"
  proof (cases "reserved_tool_name tc")
    case None
    have "ongoing t (snd (update_tool_call E rid (call_index tc) i tc t)) (fst (update_tool_call E rid (call_index tc) i tc t))"
      by (rule satD [OF update_call_going])
    with going.trans [OF t this] None show ?thesis
      by (simp add: responses_tool_call_def p ongoing_ending)
  next
    case (Some message)
    let ?r = "reject_openai_responses_stream rid created ''reserved_openai_custom_bridge_prefix'' message t"
    have "ending t (snd ?r) (fst ?r)"
      using reject_ends open_t by (simp add: sat_from_def)
    with ends.trans [OF ongoing_ending [OF t] this] Some show ?thesis
      by (simp add: responses_tool_call_def p)
  qed
qed

lemma loop_stops_well:
  assumes "\<And>x. stops_well (f x)"
  shows "stops_well (until_stop f xs)"
proof (induction xs)
  case Nil
  then show ?case by (simp add: stops_well_def going.refl ends.refl)
next
  case (Cons x xs)
  show ?case unfolding stops_well_def
  proof (intro allI impI)
    fix s assume s: "unfinished_state s"
    obtain t out stop where f: "f x s = ((t, out), stop)" by (metis prod.exhaust)
    have one: "ending s out t" "\<not> stop \<Longrightarrow> ongoing s out t"
      using assms [of x] s f by (auto simp: stops_well_def)
    obtain u out' stop' where rest: "until_stop f xs t = ((u, out'), stop')" by (metis prod.exhaust)
    show "ending s (snd (fst (until_stop f (x # xs) s))) (fst (fst (until_stop f (x # xs) s)))
      \<and> (\<not> snd (until_stop f (x # xs) s) \<longrightarrow>
         ongoing s (snd (fst (until_stop f (x # xs) s))) (fst (fst (until_stop f (x # xs) s))))"
    proof (cases stop)
      case True
      with one f show ?thesis by simp
    next
      case False
      have "unfinished_state t" using one(2) [OF False] s by (simp add: ongoing_def)
      with Cons.IH rest have two: "ending t out' u" "\<not> stop' \<Longrightarrow> ongoing t out' u"
        by (auto simp: stops_well_def)
      with False one f rest show ?thesis
        using ends.trans [OF one(1) two(1)] going.trans [OF one(2) [OF False]] by simp
    qed
  qed
qed

lemma calls_stop_well: "stops_well (responses_tool_calls E rid created delta)"
proof (cases "jget_array delta ''tool_calls''")
  case None
  then show ?thesis by (simp add: stops_well_def responses_tool_calls_def going.refl ends.refl)
next
  case (Some tcs)
  show ?thesis unfolding stops_well_def
  proof (intro allI impI)
    fix s assume s: "unfinished_state s"
    obtain t out where d: "emit_responses_message_done rid (Some ''commentary'') s = (t, out)" by fastforce
    have one: "ongoing s out t" by (rule satD_eq [OF message_done_going d])
    obtain u out' stop where l: "until_stop (responses_tool_call E rid created) tcs t = ((u, out'), stop)"
      by (metis prod.exhaust)
    have "unfinished_state t" using one s by (simp add: ongoing_def)
    with loop_stops_well [of "responses_tool_call E rid created" tcs, OF call_stops_well] l
    have two: "ending t out' u" "\<not> stop \<Longrightarrow> ongoing t out' u" by (auto simp: stops_well_def)
    show "ending s (snd (fst (responses_tool_calls E rid created delta s))) (fst (fst (responses_tool_calls E rid created delta s)))
      \<and> (\<not> snd (responses_tool_calls E rid created delta s) \<longrightarrow>
         ongoing s (snd (fst (responses_tool_calls E rid created delta s))) (fst (fst (responses_tool_calls E rid created delta s))))"
      using ends.trans [OF ongoing_ending [OF one] two(1)] going.trans [OF one two(2)]
      by (simp add: responses_tool_calls_def Some d l)
  qed
qed

lemma after_stop:
  assumes "stops_well f" and "sat_from unfinished_state ending g"
  shows "sat_from unfinished_state ending (unless_stopped f g)"
proof (rule sat_from_if_at)
  fix s assume s: "unfinished_state s"
  obtain t out stop where f: "f s = ((t, out), stop)" by (metis prod.exhaust)
  have one: "ending s out t" "\<not> stop \<Longrightarrow> ongoing s out t"
    using assms(1) s f by (auto simp: stops_well_def)
  show "sat_at ending s (unless_stopped f g)"
  proof (cases stop)
    case True
    with one f show ?thesis by (simp add: sat_at_def unless_stopped_def)
  next
    case False
    have "unfinished_state t" using one(2) [OF False] s by (simp add: ongoing_def)
    with assms(2) have "ending t (snd (g t)) (fst (g t))" by (simp add: sat_from_def)
    from ends.trans [OF one(1) this] False f show ?thesis
      by (simp add: sat_at_def unless_stopped_def case_prod_unfold Let_def)
  qed
qed

lemma end_of_chunk_ends: "sat_from unfinished_state ending (end_of_chunk E chunk rid)"
proof -
  have "sat_from unfinished_state ending (reading (\<lambda>s. only_if (should_finalize_now chunk s)
      (finalize_responses E rid created)))" for created
    by (intro sat_from_reading) (auto simp: only_if_def intro: finalize_ends sat_from_sat ends.skip_sat)
  then show ?thesis
    unfolding end_of_chunk_def Let_def
    by (intro going_from last_from sat_from_if finalize_ends going_intros flush_calls_going pending_done_going)
      (auto split: option.split)
qed

lemma chunk_ends: "sat ending (openai_chunk_to_responses_sse E chunk)"
proof (rule sat_if_at)
  fix s
  have "sat_from unfinished_state ending (responses_chunk_body E chunk rid)" for rid
    unfolding responses_chunk_body_def
    by (intro going_from last_from after_stop calls_stop_well end_of_chunk_ends begin_going reasoning_going
        text_going modify_going) (simp add: capture_model_def)
  then have "sat_from unfinished_state ending (run_steps
      [modify (\<lambda>s. case jget chunk ''error'' of None \<Rightarrow> s | Some e \<Rightarrow> s\<lparr>openai_terminal_error := Some e\<rparr>),
       responses_chunk_body E chunk rid])" for rid
    by (intro going_from last_from modify_going) (simp_all split: option.split)
  then show "sat_at ending s (openai_chunk_to_responses_sse E chunk)"
    unfolding openai_chunk_to_responses_sse_def
    by (intro at_reading ends.at_only_if at_sat_from)
qed

end
