(* ===== verification/Stream_Translate.thy ===== *)
theory Stream_Translate
  imports Anthropic_Source Responses_Source Responses_Sink
begin

text \<open>
  The translation of one upstream event (\<open>src/streaming/stream.rs\<close>, \<open>translate_sse_event\<close>): the
  event is checked, turned into Chat Completions chunks by the source side and into frames by the sink
  side of the client's format. Error events and the rejection of a stream that exceeds a limit go
  directly to the client.
\<close>

section \<open>Limits\<close>

datatype stream_resource_limit = SseFrameTooLarge | IdleTimeout | MaxDuration | MaxEvents | StateTooLarge

fun limit_code :: "stream_resource_limit \<Rightarrow> string" where
  "limit_code SseFrameTooLarge = ''upstream_sse_frame_too_large''"
| "limit_code IdleTimeout = ''upstream_stream_idle_timeout''"
| "limit_code MaxDuration = ''upstream_stream_max_duration_exceeded''"
| "limit_code MaxEvents = ''upstream_stream_event_limit_exceeded''"
| "limit_code StateTooLarge = ''upstream_stream_state_too_large''"

fun limit_message :: "stream_resource_limit \<Rightarrow> string" where
  "limit_message SseFrameTooLarge = ''Upstream SSE frame exceeded the maximum supported size.''"
| "limit_message IdleTimeout = ''Upstream stream exceeded the configured idle timeout.''"
| "limit_message MaxDuration = ''Upstream stream exceeded the configured maximum duration.''"
| "limit_message MaxEvents = ''Upstream stream exceeded the configured maximum event count.''"
| "limit_message StateTooLarge = ''Upstream stream exceeded the configured accumulated state size.''"

definition all_limits :: "stream_resource_limit list" where
  "all_limits = [SseFrameTooLarge, IdleTimeout, MaxDuration, MaxEvents, StateTooLarge]"

definition known_stream_resource_limit_code :: "string \<Rightarrow> string option" where
  "known_stream_resource_limit_code code =
     (if code \<in> set (map limit_code all_limits) then Some code else None)"

section \<open>Chunks of a Chat Completions upstream\<close>

definition needs_stream_translation :: "upstream_format \<Rightarrow> upstream_format \<Rightarrow> bool" where
  "needs_stream_translation up client = (up \<noteq> client)"

definition is_done_event :: "json \<Rightarrow> bool" where
  "is_done_event event = (jget_bool event ''_done'' = Some True)"

definition openai_event_as_chunk :: "json \<Rightarrow> json option" where
  "openai_event_as_chunk event =
     (if is_done_event event then None
      else if jget event ''usage'' \<noteq> None then Some event
      else if (case jget_array event ''choices'' of None \<Rightarrow> False | Some cs \<Rightarrow> cs \<noteq> []) then Some event
      else None)"

definition reject_multi_choice :: "env \<Rightarrow> (stream_state, json) step" where
  "reject_multi_choice E = reject_openai_stream E ''invalid_request_error''
     ''unsupported_openai_stream_event''
     ''OpenAI streaming response with multiple choices cannot be translated losslessly.''"

definition note_chunk :: "json \<Rightarrow> stream_state \<Rightarrow> stream_state" where
  "note_chunk chunk s =
     (let s1 = (if message_id s = None then s\<lparr>message_id := jget_str chunk ''id''\<rparr> else s);
          s2 = (if model s1 = None then s1\<lparr>model := jget_str chunk ''model''\<rparr> else s1)
      in case jget chunk ''usage'' of None \<Rightarrow> s2 | Some u \<Rightarrow> s2\<lparr>usage := Some u\<rparr>)"

text \<open>\<open>Ok(())\<close> is \<open>None\<close>; an error carries the chunks of the rejection.\<close>

definition ensure_single_openai_choice ::
    "env \<Rightarrow> json \<Rightarrow> stream_state \<Rightarrow> stream_state \<times> json list option" where
  "ensure_single_openai_choice E chunk s =
     (let s1 = note_chunk chunk s; refuse = (let (s2, out) = reject_multi_choice E s1 in (s2, Some out))
      in case jget_array chunk ''choices'' of
           None \<Rightarrow> (s1, None)
         | Some [] \<Rightarrow> (s1, None)
         | Some (choice # rest) \<Rightarrow>
             if rest \<noteq> [] then refuse
             else (let i = unwrap_or (jget_u64 choice ''index'') 0 in
                   case openai_choice_index s1 of
                     Some previous \<Rightarrow> if previous \<noteq> i \<or> i \<noteq> 0 then refuse else (s1, None)
                   | None \<Rightarrow> if i \<noteq> 0 then refuse else (s1\<lparr>openai_choice_index := Some i\<rparr>, None)))"

fun ensure_single_choices :: "env \<Rightarrow> json list \<Rightarrow> json list \<Rightarrow> (stream_state, json) step" where
  "ensure_single_choices E validated [] s = (s, validated)"
| "ensure_single_choices E validated (c # cs) s =
     (case ensure_single_openai_choice E c s of
        (s', None) \<Rightarrow> ensure_single_choices E (validated @ [c]) cs s'
      | (s', Some refused) \<Rightarrow> (s', refused))"

section \<open>Tool names that a public stream may carry\<close>

definition option_list :: "'a option \<Rightarrow> 'a list" where
  "option_list x = (case x of None \<Rightarrow> [] | Some y \<Rightarrow> [y])"

definition validate_openai_stream_tool_call_name :: "json \<Rightarrow> validation" where
  "validate_openai_stream_tool_call_name tool_call =
     res_then (validate_public_selector_visible_identity tool_call)
       (res_each validate_public_tool_name_not_reserved
          (option_list (ostr (ogetj (jget tool_call ''function'') ''name''))
           @ option_list (ostr (ogetj (jget tool_call ''custom'') ''name''))
           @ option_list (jget_str tool_call ''name'')))"

definition validate_openai_stream_container :: "json \<Rightarrow> validation" where
  "validate_openai_stream_container container =
     res_then
       (res_each validate_openai_stream_tool_call_name (unwrap_or (jget_array container ''tool_calls'') []))
       (res_each validate_openai_stream_tool_call_name (option_list (jget container ''function_call'')))"

definition validate_openai_stream_choice_tool_names :: "json \<Rightarrow> validation" where
  "validate_openai_stream_choice_tool_names choice =
     res_each validate_openai_stream_container
       (option_list (jget choice ''delta'') @ option_list (jget choice ''message''))"

definition validate_openai_stream_event_tool_names :: "json \<Rightarrow> validation" where
  "validate_openai_stream_event_tool_names event =
     res_each validate_openai_stream_choice_tool_names (unwrap_or (jget_array event ''choices'') [])"

definition is_tool_use_type :: "string option \<Rightarrow> bool" where
  "is_tool_use_type ty = (ty \<in> {Some ''tool_use'', Some ''server_tool_use''})"

definition validate_anthropic_block_name :: "json \<Rightarrow> validation" where
  "validate_anthropic_block_name block =
     (if is_tool_use_type (jget_str block ''type'')
      then res_each validate_public_tool_name_not_reserved (option_list (jget_str block ''name''))
      else Inr ())"

definition validate_anthropic_stream_content_tool_names :: "json \<Rightarrow> validation" where
  "validate_anthropic_stream_content_tool_names content =
     res_each validate_anthropic_block_name (unwrap_or (as_array content) [])"

definition validate_anthropic_stream_event_tool_names :: "json \<Rightarrow> validation" where
  "validate_anthropic_stream_event_tool_names event =
     res_then (res_each validate_anthropic_block_name (option_list (jget event ''content_block'')))
       (res_then
         (res_each validate_anthropic_stream_content_tool_names (option_list (jget event ''content'')))
         (res_each validate_anthropic_stream_content_tool_names
            (option_list (ogetj (jget event ''message'') ''content''))))"

definition validate_responses_stream_event_tool_names :: "json \<Rightarrow> validation" where
  "validate_responses_stream_event_tool_names event =
     res_then (validate_responses_public_stream_event event)
       (res_then (res_each validate_responses_public_tool_call_item (option_list (jget event ''item'')))
         (res_then (res_each validate_responses_public_output (option_list (jget event ''output'')))
           (res_each validate_responses_public_response_object
              (option_list (jget event ''response'')))))"

definition validate_public_stream_response_event_tool_names :: "upstream_format \<Rightarrow> json \<Rightarrow> validation" where
  "validate_public_stream_response_event_tool_names format event =
     (if contains_internal_context_field event then Inl internal_artifact_error_message
      else case format of
        OpenAiChatCompletions \<Rightarrow> validate_openai_stream_event_tool_names event
      | OpenAiResponses \<Rightarrow> validate_responses_stream_event_tool_names event
      | Anthropic \<Rightarrow> validate_anthropic_stream_event_tool_names event)"

definition reject_reserved_name :: "env \<Rightarrow> string \<Rightarrow> (stream_state, json) step" where
  "reject_reserved_name E message = reject_openai_stream E ''invalid_request_error''
     ''reserved_openai_custom_bridge_prefix'' message"

text \<open>The chunks that go on: the given ones, or those of the rejection.\<close>

definition validate_openai_chunks_for_public_stream :: "env \<Rightarrow> json list \<Rightarrow> (stream_state, json) step" where
  "validate_openai_chunks_for_public_stream E chunks =
     (case res_each validate_openai_stream_event_tool_names chunks of
        Inl message \<Rightarrow> reject_reserved_name E message
      | Inr _ \<Rightarrow> (\<lambda>s. (s, chunks)))"

section \<open>Frames for the client\<close>

definition done_frame :: frame where
  "done_frame = Raw (''data: [DONE]'' @ [nl, nl])"

definition openai_chunks_to_client_sse ::
    "env \<Rightarrow> upstream_format \<Rightarrow> json list \<Rightarrow> (stream_state, frame) step" where
  "openai_chunks_to_client_sse E client chunks = (case client of
      OpenAiChatCompletions \<Rightarrow> for_each (\<lambda>c. emit (\<lambda>_. Frame None c)) chunks
    | Anthropic \<Rightarrow> for_each (openai_chunk_to_claude_sse E) chunks
    | OpenAiResponses \<Rightarrow> for_each (openai_chunk_to_responses_sse E) chunks)"

definition chunks_to_client ::
    "env \<Rightarrow> upstream_format \<Rightarrow> (stream_state, json) step \<Rightarrow> (stream_state, frame) step" where
  "chunks_to_client E client f s =
     (let (s', chunks) = f s in openai_chunks_to_client_sse E client chunks s')"

definition reject_public_stream_tool_name ::
    "env \<Rightarrow> upstream_format \<Rightarrow> string \<Rightarrow> (stream_state, frame) step" where
  "reject_public_stream_tool_name E client message = chunks_to_client E client (reject_reserved_name E message)"

section \<open>Error events\<close>

definition overload_error :: "string \<times> string \<times> string" where
  "overload_error = (''server_error'', ''server_is_overloaded'',
     classify_portable_non_success_terminal (Some ''server_is_overloaded''))"

definition normalize_anthropic_stream_error :: "string \<Rightarrow> string \<Rightarrow> string \<times> string \<times> string" where
  "normalize_anthropic_stream_error error_type message =
     (let ty = to_ascii_lowercase error_type; m = to_ascii_lowercase message;
          limit = (\<lambda>l. (''invalid_request_error'', limit_code l, ''tool_error''))
      in if str_contains m ''sse frame'' \<and> str_contains m ''maximum supported size''
           then limit SseFrameTooLarge
         else if str_contains m ''idle timeout'' then limit IdleTimeout
         else if str_contains m ''maximum duration'' then limit MaxDuration
         else if str_contains m ''maximum event count'' then limit MaxEvents
         else if str_contains m ''accumulated state size'' then limit StateTooLarge
         else if str_contains ty ''overloaded'' \<or> str_contains ty ''api_error'' then overload_error
         else if str_contains ty ''rate_limit'' then
           (''rate_limit_error'', ''rate_limit_exceeded'',
            classify_portable_non_success_terminal (Some ''rate_limit_exceeded''))
         else if str_contains ty ''invalid_request''
             \<and> list_ex (str_contains m) [''context window'', ''context_length_exceeded'',
                  ''too many tokens'', ''maximum context length'']
           then (''invalid_request_error'', ''context_length_exceeded'', ''context_length_exceeded'')
         else if str_contains ty ''invalid_request''
             \<and> list_ex (str_contains m) [''refusal'', ''content filter'']
           then (''invalid_request_error'', ''content_filter'', ''content_filter'')
         else overload_error)"

record stream_error =
  se_type :: string
  se_message :: string
  se_normalized_type :: string
  se_code :: string
  se_finish :: string

definition read_stream_error :: "json \<Rightarrow> stream_error" where
  "read_stream_error event =
     (let error = unwrap_or (jget event ''error'') JNull;
          raw_type = unwrap_or (jget_str error ''type'') ''api_error'';
          error_type = (if contains_internal_artifact_text raw_type then ''api_error'' else raw_type);
          message = sanitize_public_error_message
            (unwrap_or (jget_str error ''message'') ''Anthropic streaming error'');
          explicit_code = Option.bind (jget_str error ''code'') known_stream_resource_limit_code;
          (ty, code, finish) = normalize_anthropic_stream_error error_type message
      in \<lparr>se_type = error_type, se_message = message,
          se_normalized_type = (if explicit_code \<noteq> None then ''invalid_request_error'' else ty),
          se_code = unwrap_or explicit_code code, se_finish = finish\<rparr>)"

definition error_fields :: "stream_error \<Rightarrow> string \<Rightarrow> json" where
  "error_fields e message = error_value (se_normalized_type e) (se_code e) message"

definition failed_response :: "string \<Rightarrow> json \<Rightarrow> json" where
  "failed_response response_id error = jobj
     [(''id'', JStr response_id), (''object'', JStr ''response''), (''created_at'', jnat 0),
      (''status'', JStr ''failed''), (''background'', JBool False), (''error'', error),
      (''incomplete_details'', JNull), (''usage'', JNull), (''metadata'', jobj [])]"

definition fail_responses_stream :: "env \<Rightarrow> stream_error \<Rightarrow> (stream_state, frame) step" where
  "fail_responses_stream E e s =
     (let n = Suc (responses_seq s);
          (s1, message) = mark_stream_fatal_rejection (se_message e) (s\<lparr>responses_seq := n\<rparr>);
          s2 = s1\<lparr>responses_terminal_sent := True\<rparr>;
          fallback = unwrap_or (message_id s2)
            (''resp_error_'' @ filter (\<lambda>c. c \<noteq> CHR ''-'') (uuid_v4 E (responses_seq s2)));
          response = failed_response (responses_response_id s2 (Some fallback)) (error_fields e message)
      in (s2, [Frame (Some ''response.failed'')
           (jobj [(''type'', JStr ''response.failed''), (''sequence_number'', jnat n),
                  (''response'', response)])]))"

definition anthropic_error_event_to_client_sse ::
    "env \<Rightarrow> json \<Rightarrow> upstream_format \<Rightarrow> (stream_state, frame) step" where
  "anthropic_error_event_to_client_sse E event client =
     (let e = read_stream_error event in
      case client of
        OpenAiResponses \<Rightarrow> fail_responses_stream E e
      | OpenAiChatCompletions \<Rightarrow> run_steps
          [emit (\<lambda>s. Frame None (jset ''error'' (error_fields e (se_message e))
             (openai_chunk E s (jobj []) (Some (se_finish e))))),
           emit (\<lambda>_. done_frame)]
      | Anthropic \<Rightarrow> emit (\<lambda>_. anthropic_error_event (se_type e) (se_message e)))"

definition limit_event :: "stream_resource_limit \<Rightarrow> json" where
  "limit_event limit = jobj
     [(''type'', JStr ''error''),
      (''error'', error_value ''invalid_request_error'' (limit_code limit) (limit_message limit))]"

definition reject_stream_resource_limit ::
    "env \<Rightarrow> upstream_format \<Rightarrow> stream_resource_limit \<Rightarrow> (stream_state, frame) step" where
  "reject_stream_resource_limit E client limit =
     anthropic_error_event_to_client_sse E (limit_event limit) client"

section \<open>One event\<close>

definition source_chunks :: "env \<Rightarrow> upstream_format \<Rightarrow> json \<Rightarrow> (stream_state, json) step" where
  "source_chunks E up event = (case up of
      OpenAiChatCompletions \<Rightarrow> (\<lambda>s. (s, option_list (openai_event_as_chunk event)))
    | Anthropic \<Rightarrow> claude_event_to_openai_chunks E event
    | OpenAiResponses \<Rightarrow> responses_event_to_openai_chunks E event)"

definition event_chunks :: "env \<Rightarrow> upstream_format \<Rightarrow> upstream_format \<Rightarrow> json \<Rightarrow> (stream_state, json) step" where
  "event_chunks E up client event s =
     (let (s1, chunks) = source_chunks E up event s;
          (s2, chunks') = (if up = OpenAiChatCompletions \<and> client \<noteq> OpenAiChatCompletions
                           then ensure_single_choices E [] chunks s1 else (s1, chunks))
      in validate_openai_chunks_for_public_stream E chunks' s2)"

definition finish_on_done :: "env \<Rightarrow> (stream_state, frame) step" where
  "finish_on_done E = reading (\<lambda>s. only_if (\<not> responses_terminal_sent s)
     (finalize_responses E (responses_response_id s (message_id s)) 0))"

text \<open>The event of the client's own format goes through, sanitized and checked.\<close>

definition pass_event :: "env \<Rightarrow> upstream_format \<Rightarrow> json \<Rightarrow> (stream_state, frame) step" where
  "pass_event E client event =
     (if is_done_event event then emit (\<lambda>_. done_frame)
      else (let public_event = sanitize_public_stream_error_event event in
        case validate_public_stream_response_event_tool_names client public_event of
          Inl message \<Rightarrow> reject_public_stream_tool_name E client message
        | Inr _ \<Rightarrow> emit (\<lambda>_. Frame None public_event)))"

definition translate_event ::
    "env \<Rightarrow> upstream_format \<Rightarrow> upstream_format \<Rightarrow> json \<Rightarrow> (stream_state, frame) step" where
  "translate_event E up client event =
     (let through = chunks_to_client E client (event_chunks E up client event) in
      if is_done_event event then through
      else (case validate_public_stream_response_event_tool_names up event of
        Inl message \<Rightarrow> reject_public_stream_tool_name E client message
      | Inr _ \<Rightarrow> through))"

definition translate_sse_event ::
    "env \<Rightarrow> upstream_format \<Rightarrow> upstream_format \<Rightarrow> json \<Rightarrow> (stream_state, frame) step" where
  "translate_sse_event E up client event = reading (\<lambda>s.
     if fatal_rejection s \<noteq> None then skip
     else if up = OpenAiChatCompletions \<and> client = OpenAiResponses \<and> is_done_event event
       then finish_on_done E
     else if up = Anthropic \<and> jget_str event ''type'' = Some ''error''
       then anthropic_error_event_to_client_sse E event client
     else if up = client then pass_event E client event
     else translate_event E up client event)"

text \<open>\<open>serde_json::from_slice\<close> may fail; its message is not modelled.\<close>

definition translate_response_chunk ::
    "env \<Rightarrow> upstream_format \<Rightarrow> upstream_format \<Rightarrow> string \<Rightarrow> stream_state \<Rightarrow>
     (stream_state \<times> frame list) option" where
  "translate_response_chunk E up client chunk s =
     (if up = client then Some (s, [Raw chunk])
      else map_option (\<lambda>event. translate_sse_event E up client event s) (json_parse E chunk))"

end
