(* ===== verification/Stream_Guarantees.thy ===== *)
theory Stream_Guarantees
  imports Responses_Contracts Stream_Translate
begin

text \<open>
  What a client of the Responses API can rely on, whatever the upstream sends: the contracts of the
  source side and of the Responses sink are composed to contracts of \<open>translate_sse_event\<close>, and of the
  run of it over any sequence of upstream events.
\<close>

section \<open>The sources leave the response alone\<close>

definition same_response :: "stream_state \<Rightarrow> stream_state \<Rightarrow> bool" where
  "same_response s t = (responses_seq t = responses_seq s
     \<and> responses_terminal_sent t = responses_terminal_sent s
     \<and> responses_terminal_response t = responses_terminal_response s)"



lemma same_response_refl [simp]: "same_response s s"
  by (simp add: same_response_def)





lemma fatal_mark_leaves:
  "mark_stream_fatal_rejection raw s = (t, message) \<Longrightarrow> same_response s t"
  by (auto simp: mark_stream_fatal_rejection_def same_response_def Let_def split: if_splits)











section \<open>One event\<close>
















section \<open>A stream\<close>







section \<open>Error events after the end\<close>

text \<open>
  The second terminal event does occur: the error event, and the refusal of a stream over a limit, which
  goes the same way, do not ask whether the response has ended.
\<close>

lemma error_event_ends_again:
  assumes "fatal_rejection s = None" and "jget_str event ''type'' = Some ''error''"
  shows "list_ex is_terminal_frame (snd (translate_sse_event E Anthropic OpenAiResponses event s))"
  using assms by (simp add: translate_sse_event_def reading_def anthropic_error_event_to_client_sse_def
      fail_responses_stream_def Let_def case_prod_unfold is_terminal_frame_def terminal_types_def)

text \<open>
  A Chat Completions client is told that the stream is done by the error event, and the state does not
  record it: the events that follow are translated after \<open>data: [DONE]\<close>.
\<close>

lemma error_event_leaves_chat_open:
  assumes "fatal_rejection s = None" and "jget_str event ''type'' = Some ''error''"
  shows "fst (translate_sse_event E Anthropic OpenAiChatCompletions event s) = s
    \<and> last (snd (translate_sse_event E Anthropic OpenAiChatCompletions event s)) = done_frame"
  using assms by (simp add: translate_sse_event_def reading_def anthropic_error_event_to_client_sse_def
      emit_def Let_def)

end
