(* ===== verification/Limits.thy ===== *)
theory Limits
  imports Prelude
begin

text \<open>
  The resource boundaries of a namespace (\<open>ResourceLimits\<close> and \<open>ConversationStateBridgeConfig\<close> of
  src/src/config.rs): their fields, their defaults and what a valid one is.
\<close>

record resource_limits =
  max_request_body_bytes :: nat
  max_non_stream_response_bytes :: nat
  max_upstream_error_body_bytes :: nat
  max_sse_frame_bytes :: nat
  stream_idle_timeout_secs :: nat
  stream_max_duration_secs :: nat
  stream_max_events :: nat
  max_accumulated_stream_state_bytes :: nat

definition default_resource_limits :: resource_limits where
  "default_resource_limits =
     \<lparr>max_request_body_bytes = 16 * 1024 * 1024,
      max_non_stream_response_bytes = 64 * 1024 * 1024,
      max_upstream_error_body_bytes = 64 * 1024,
      max_sse_frame_bytes = 1024 * 1024,
      stream_idle_timeout_secs = 300,
      stream_max_duration_secs = 3600,
      stream_max_events = 100000,
      max_accumulated_stream_state_bytes = 8 * 1024 * 1024\<rparr>"

definition must_be_positive :: "string \<Rightarrow> nat \<Rightarrow> validation" where
  "must_be_positive field n =
     (if n = 0 then Inl (''resource_limits.'' @ field @ '' must be greater than zero'') else Inr ())"

definition validate_resource_limits :: "resource_limits \<Rightarrow> validation" where
  "validate_resource_limits l =
     res_each (\<lambda>(field, n). must_be_positive field n)
       [(''max_request_body_bytes'', max_request_body_bytes l),
        (''max_non_stream_response_bytes'', max_non_stream_response_bytes l),
        (''max_upstream_error_body_bytes'', max_upstream_error_body_bytes l),
        (''max_sse_frame_bytes'', max_sse_frame_bytes l),
        (''stream_idle_timeout_secs'', stream_idle_timeout_secs l),
        (''stream_max_duration_secs'', stream_max_duration_secs l),
        (''stream_max_events'', stream_max_events l),
        (''max_accumulated_stream_state_bytes'', max_accumulated_stream_state_bytes l)]"

record conversation_state_bridge_config =
  ttl_seconds :: nat
  max_bytes :: nat

definition default_bridge_config :: conversation_state_bridge_config where
  "default_bridge_config = \<lparr>ttl_seconds = 3600, max_bytes = 256 * 1024 * 1024\<rparr>"

definition validate_bridge_config :: "conversation_state_bridge_config \<Rightarrow> validation" where
  "validate_bridge_config c =
     (if ttl_seconds c = 0 then Inl ''conversation_state_bridge.ttl_seconds must be greater than zero''
      else if max_bytes c = 0 then Inl ''conversation_state_bridge.max_bytes must be greater than zero''
      else Inr ())"

end
