(* ===== verification/Stream_Driver.thy ===== *)
theory Stream_Driver
  imports Stream_Translate Limits
begin

text \<open>
  The two SSE streams of \<open>src/streaming/stream.rs\<close>, \<open>GuardedSseStream\<close> (same format, checked) and
  \<open>TranslateSseStream\<close>: a byte buffer, the loop that drains complete frames from it, the limits on
  frame size, number of events and size of the state, the queue of outputs and \<open>poll_next\<close>. What the
  two share is written once over a record of the functions in which they differ.
\<close>

section \<open>The shared state\<close>

text \<open>
  The fields of \<open>GuardedSseStream\<close>, except the buffer, which is kept beside the record. The queue holds
  frames; they are printed when they are delivered.
\<close>

record sse_core =
  core_state :: stream_state
  events_seen :: nat
  output_queue :: "frame list"
  output_pos :: nat
  close_after_output :: bool

record translate_core = sse_core +
  capture_disqualified :: bool

type_synonym 'a buffered = "string \<times> 'a sse_core_scheme"

definition new_core :: "stream_state \<Rightarrow> sse_core" where
  "new_core s = \<lparr>core_state = s, events_seen = 0, output_queue = [], output_pos = 0,
     close_after_output = False\<rparr>"

text \<open>
  How the loop goes on after a frame: with the next one, out of the loop, or out of the loop with the
  buffer cleared.
\<close>

datatype flow = GoOn | Stop | StopCleared

text \<open>
  In what the two streams differ: what happens to one frame, what a limit that is exceeded does to the
  state, and what is left to do when the upstream has ended.
\<close>

record 'a driver =
  drv_frame :: "string \<Rightarrow> json option \<Rightarrow> 'a sse_core_scheme \<Rightarrow> 'a sse_core_scheme \<times> flow"
  drv_limit :: "stream_resource_limit \<Rightarrow> 'a sse_core_scheme \<Rightarrow> 'a sse_core_scheme"
  drv_end :: "'a buffered \<Rightarrow> 'a buffered"
  drv_max_frame :: nat

section \<open>Draining frames\<close>

text \<open>
  The \<open>while let\<close> loop: the offset, whether the buffer was cleared, and the state. Frames are read from
  the unchanged buffer at the offset.
\<close>

function drain_loop ::
    "env \<Rightarrow> 'a driver \<Rightarrow> string \<Rightarrow> nat \<Rightarrow> 'a sse_core_scheme \<Rightarrow> nat \<times> bool \<times> 'a sse_core_scheme" where
  "drain_loop E d buf consumed c =
     (case read_one_sse_frame E (drop consumed buf) of
        None \<Rightarrow> (consumed, False, c)
      | Some (frame, event, e) \<Rightarrow>
          (case drv_frame d frame event c of
             (c', GoOn) \<Rightarrow> drain_loop E d buf (consumed + e) c'
           | (c', Stop) \<Rightarrow> (consumed + e, False, c')
           | (c', StopCleared) \<Rightarrow> (consumed + e, True, c')))"
  by pat_completeness auto
termination
  by (relation "measure (\<lambda>(E, d, buf, consumed, c). length buf - consumed)") (auto dest: read_one_shorter)

declare drain_loop.simps [simp del]

definition drain_frames :: "env \<Rightarrow> 'a driver \<Rightarrow> 'a buffered \<Rightarrow> 'a buffered" where
  "drain_frames E d bc =
     (let (buf, c) = bc; (consumed, cleared, c') = drain_loop E d buf 0 c
      in (drop_sse_prefix (if cleared then [] else buf) consumed, c'))"

text \<open>
  \<open>push_chunk_with_frame_limit\<close>: at most \<open>max_sse_frame_bytes\<close> bytes are ever buffered, and a buffer of
  that size without a complete frame ends the stream.
\<close>

function push_chunk :: "env \<Rightarrow> 'a driver \<Rightarrow> string \<Rightarrow> 'a buffered \<Rightarrow> 'a buffered" where
  "push_chunk E d chunk (buf, c) =
     (if chunk = [] \<or> close_after_output c then (buf, c)
      else (let remaining = drv_max_frame d - length buf in
        if remaining = 0 then ([], drv_limit d SseFrameTooLarge c)
        else (let n = min remaining (length chunk);
                  (buf', c') = drain_frames E d (buf @ take n chunk, c)
              in push_chunk E d (drop n chunk)
                   (if \<not> close_after_output c' \<and> length buf' = drv_max_frame d
                    then ([], drv_limit d SseFrameTooLarge c') else (buf', c')))))"
  by pat_completeness auto
termination
proof (relation "measure (\<lambda>(E, d, chunk, bc). length chunk)", goal_cases)
  case (2 E d chunk buf c remaining n p buf' c')
  then have "0 < remaining" "0 < length chunk" by auto
  then show ?case using 2 by simp
qed simp

declare push_chunk.simps [simp del]

section \<open>Polling\<close>

datatype upstream_poll = Chunk string | UpstreamError string | UpstreamEnd | NotReady

text \<open>What the loop of \<open>poll_next\<close> meets: an expired timer, or an answer of the upstream.\<close>

datatype tick = TimerExpired stream_resource_limit | Upstream upstream_poll

datatype poll_result = Item string | ItemError string | EndOfStream | Pending

definition take_output :: "'a sse_core_scheme \<Rightarrow> (frame \<times> 'a sse_core_scheme) option" where
  "take_output c =
     (if output_pos c < length (output_queue c) then
        (let next = output_queue c ! output_pos c; pos = Suc (output_pos c)
         in Some (next,
              if pos \<ge> length (output_queue c) then c\<lparr>output_queue := [], output_pos := 0\<rparr>
              else c\<lparr>output_pos := pos\<rparr>))
      else None)"

text \<open>
  One call of \<open>poll_next\<close>: the ticks that were not used, and the new state. Without a further tick
  nothing is known of the upstream, which is pending.
\<close>

fun poll_next ::
    "env \<Rightarrow> 'a driver \<Rightarrow> tick list \<Rightarrow> 'a buffered \<Rightarrow> poll_result \<times> tick list \<times> 'a buffered" where
  "poll_next E d ticks (buf, c) = (case take_output c of
      Some (f, c') \<Rightarrow> (Item (frame_bytes E f), ticks, (buf, c'))
    | None \<Rightarrow>
        if close_after_output c then (EndOfStream, ticks, (buf, c))
        else (case ticks of
            [] \<Rightarrow> (Pending, [], (buf, c))
          | TimerExpired limit # ts \<Rightarrow> poll_next E d ts ([], drv_limit d limit c)
          | Upstream (Chunk chunk) # ts \<Rightarrow>
              (let (buf', c') = push_chunk E d chunk (buf, c) in
               if output_queue c' = [] \<and> close_after_output c' then (EndOfStream, ts, (buf', c'))
               else poll_next E d ts (buf', c'))
          | Upstream (UpstreamError e) # ts \<Rightarrow> (ItemError e, ts, (buf, c))
          | Upstream UpstreamEnd # ts \<Rightarrow>
              (let (buf', c') = drv_end d (drain_frames E d (buf, c)) in
               if output_queue c' \<noteq> [] then poll_next E d ts (buf', c')
               else (EndOfStream, ts, (buf', c')))
          | Upstream NotReady # ts \<Rightarrow> (Pending, ts, (buf, c))))"

declare poll_next.simps [simp del]

section \<open>What the streams share\<close>

text \<open>Run a step of the translation on the state and queue its output.\<close>

definition queue_step :: "(stream_state, frame) step \<Rightarrow> 'a sse_core_scheme \<Rightarrow> 'a sse_core_scheme" where
  "queue_step f c =
     (let (s, out) = f (core_state c)
      in c\<lparr>core_state := s, output_queue := output_queue c @ out\<rparr>)"

definition push_frame :: "frame \<Rightarrow> 'a sse_core_scheme \<Rightarrow> 'a sse_core_scheme" where
  "push_frame f c = c\<lparr>output_queue := output_queue c @ [f]\<rparr>"

definition close_stream :: "'a sse_core_scheme \<Rightarrow> 'a sse_core_scheme" where
  "close_stream c = c\<lparr>close_after_output := True\<rparr>"

definition reject_limit_core ::
    "env \<Rightarrow> upstream_format \<Rightarrow> stream_resource_limit \<Rightarrow> 'a sse_core_scheme \<Rightarrow> 'a sse_core_scheme" where
  "reject_limit_core E client limit c =
     close_stream (queue_step (reject_stream_resource_limit E client limit) c)"

definition reject_name_core ::
    "env \<Rightarrow> upstream_format \<Rightarrow> string \<Rightarrow> 'a sse_core_scheme \<Rightarrow> 'a sse_core_scheme" where
  "reject_name_core E client message c =
     close_stream (queue_step (reject_public_stream_tool_name E client message) c)"

text \<open>
  The two checks, \<open>register_sse_event_or_reject\<close> before a frame is looked at and
  \<open>reject_if_state_too_large\<close> after it; \<open>limit\<close> is the stream's \<open>reject_stream_resource_limit\<close>.
\<close>

definition count_event :: "'a sse_core_scheme \<Rightarrow> 'a sse_core_scheme" where
  "count_event c = c\<lparr>events_seen := sat_add (events_seen c) 1\<rparr>"

definition too_many_events :: "resource_limits \<Rightarrow> 'a sse_core_scheme \<Rightarrow> bool" where
  "too_many_events L c = (events_seen c > stream_max_events L)"

definition state_too_large :: "env \<Rightarrow> resource_limits \<Rightarrow> 'a sse_core_scheme \<Rightarrow> bool" where
  "state_too_large E L c =
     (accumulated_bytes E (core_state c) > max_accumulated_stream_state_bytes L)"

definition check_state_size ::
    "env \<Rightarrow> resource_limits \<Rightarrow> (stream_resource_limit \<Rightarrow> 'a sse_core_scheme \<Rightarrow> 'a sse_core_scheme) \<Rightarrow>
     'a sse_core_scheme \<Rightarrow> 'a sse_core_scheme \<times> flow" where
  "check_state_size E L limit c =
     (if state_too_large E L c
      then (limit StateTooLarge (c\<lparr>output_queue := [], output_pos := 0\<rparr>), StopCleared)
      else (c, GoOn))"

definition counted ::
    "resource_limits \<Rightarrow> (stream_resource_limit \<Rightarrow> 'a sse_core_scheme \<Rightarrow> 'a sse_core_scheme) \<Rightarrow>
     ('a sse_core_scheme \<Rightarrow> 'a sse_core_scheme \<times> flow) \<Rightarrow> 'a sse_core_scheme \<Rightarrow> 'a sse_core_scheme \<times> flow" where
  "counted L limit f c =
     (if too_many_events L (count_event c) then (limit MaxEvents (count_event c), StopCleared)
      else f (count_event c))"

definition frame_contains_artifact :: "string \<Rightarrow> bool" where
  "frame_contains_artifact frame = contains_internal_artifact_text (from_utf8_lossy frame)"

definition type_contains_artifact :: "string \<Rightarrow> bool" where
  "type_contains_artifact frame = (case sse_frame_event_type frame of
      None \<Rightarrow> False | Some ty \<Rightarrow> contains_internal_artifact_text ty)"

section \<open>The guarded stream\<close>

definition canonical_sse_frame :: "string option \<Rightarrow> json \<Rightarrow> frame" where
  "canonical_sse_frame event_type event =
     (if is_done_event event then done_frame else Frame event_type event)"

definition guarded_limit ::
    "env \<Rightarrow> upstream_format \<Rightarrow> stream_resource_limit \<Rightarrow> sse_core \<Rightarrow> sse_core" where
  "guarded_limit = reject_limit_core"

text \<open>The frame of an event: released as it came, in canonical form, or refused.\<close>

definition guarded_event ::
    "env \<Rightarrow> resource_limits \<Rightarrow> upstream_format \<Rightarrow> string \<Rightarrow> json \<Rightarrow> sse_core \<Rightarrow> sse_core \<times> flow" where
  "guarded_event E L client frame original c =
     (let event = sanitize_public_stream_error_event original;
          check = (if is_done_event event then Inr ()
                   else validate_public_stream_response_event_tool_names client event)
      in case check of
           Inl message \<Rightarrow> (reject_name_core E client message c, Stop)
         | Inr _ \<Rightarrow>
             check_state_size E L (guarded_limit E client)
               (push_frame (if \<not> frame_contains_artifact frame \<and> event = original then Raw frame
                            else canonical_sse_frame (sse_frame_event_type frame) event) c))"

definition guarded_frame ::
    "env \<Rightarrow> resource_limits \<Rightarrow> upstream_format \<Rightarrow> string \<Rightarrow> json option \<Rightarrow> sse_core \<Rightarrow> sse_core \<times> flow" where
  "guarded_frame E L client frame event = counted L (guarded_limit E client) (\<lambda>c.
     if type_contains_artifact frame
     then (reject_name_core E client internal_artifact_error_message c, Stop)
     else (case event of
         None \<Rightarrow>
           if frame_contains_artifact frame
           then (reject_name_core E client internal_artifact_error_message c, Stop)
           else (push_frame (Raw frame) c, GoOn)
       | Some v \<Rightarrow>
           if is_done_event v \<and> \<not> frame_contains_artifact frame then (push_frame (Raw frame) c, GoOn)
           else guarded_event E L client frame v c))"

definition guarded_driver :: "env \<Rightarrow> resource_limits \<Rightarrow> upstream_format \<Rightarrow> unit driver" where
  "guarded_driver E L client =
     \<lparr>drv_frame = guarded_frame E L client, drv_limit = guarded_limit E client,
      drv_end = (\<lambda>bc. bc), drv_max_frame = max_sse_frame_bytes L\<rparr>"

section \<open>The translating stream\<close>

definition disqualify :: "translate_core \<Rightarrow> translate_core" where
  "disqualify c = c\<lparr>capture_disqualified := True\<rparr>"

definition translate_limit ::
    "env \<Rightarrow> upstream_format \<Rightarrow> stream_resource_limit \<Rightarrow> translate_core \<Rightarrow> translate_core" where
  "translate_limit E client limit c = reject_limit_core E client limit (disqualify c)"

definition reject_internal_artifact_frame :: "env \<Rightarrow> upstream_format \<Rightarrow> translate_core \<Rightarrow> translate_core" where
  "reject_internal_artifact_frame E client c =
     reject_name_core E client internal_artifact_error_message (disqualify c)"

definition sse_frame_has_nonempty_non_done_data :: "string \<Rightarrow> bool" where
  "sse_frame_has_nonempty_non_done_data frame =
     (let data_lines = sse_data_lines frame in
      data_lines \<noteq> [] \<and> trim (join [nl] data_lines) \<noteq> [] \<and> join [nl] data_lines \<noteq> ''[DONE]'')"

definition translate_event_frame ::
    "env \<Rightarrow> resource_limits \<Rightarrow> upstream_format \<Rightarrow> upstream_format \<Rightarrow> json \<Rightarrow> translate_core \<Rightarrow>
     translate_core \<times> flow" where
  "translate_event_frame E L up client event c =
     (let c' = queue_step (translate_sse_event E up client event) c in
      if fatal_rejection (core_state c') \<noteq> None then (close_stream (disqualify c'), Stop)
      else check_state_size E L (translate_limit E client) c')"

definition translate_frame ::
    "env \<Rightarrow> resource_limits \<Rightarrow> upstream_format \<Rightarrow> upstream_format \<Rightarrow> string \<Rightarrow> json option \<Rightarrow>
     translate_core \<Rightarrow> translate_core \<times> flow" where
  "translate_frame E L up client frame event = counted L (translate_limit E client) (\<lambda>c.
     if type_contains_artifact frame then (reject_internal_artifact_frame E client c, Stop)
     else (case event of
         None \<Rightarrow>
           (let c' = (if sse_frame_has_nonempty_non_done_data frame then disqualify c else c) in
            if frame_contains_artifact frame then (reject_internal_artifact_frame E client c', Stop)
            else (c', GoOn))
       | Some v \<Rightarrow> translate_event_frame E L up client v c))"

definition translate_end :: "string \<times> translate_core \<Rightarrow> string \<times> translate_core" where
  "translate_end bc =
     (let (buf, c) = bc
      in ([], if list_ex (\<lambda>b. \<not> is_ascii_whitespace b) buf then disqualify c else c))"

definition translate_driver ::
    "env \<Rightarrow> resource_limits \<Rightarrow> upstream_format \<Rightarrow> upstream_format \<Rightarrow> \<lparr>capture_disqualified :: bool\<rparr> driver" where
  "translate_driver E L up client =
     \<lparr>drv_frame = translate_frame E L up client, drv_limit = translate_limit E client,
      drv_end = translate_end, drv_max_frame = max_sse_frame_bytes L\<rparr>"

definition take_terminal_response :: "translate_core \<Rightarrow> json option \<times> translate_core" where
  "take_terminal_response c =
     (if capture_disqualified c
      then (None, c\<lparr>core_state := (core_state c)\<lparr>responses_terminal_response := None\<rparr>\<rparr>)
      else (responses_terminal_response (core_state c),
            c\<lparr>core_state := (core_state c)\<lparr>responses_terminal_response := None\<rparr>\<rparr>))"

section \<open>The drain loop runs over the frames of the buffer\<close>

text \<open>
  Specification: the frames the buffer is cut into (\<open>split_frames\<close>), handled one after the other until
  one of them ends the stream.
\<close>

fun run_frames ::
    "env \<Rightarrow> 'a driver \<Rightarrow> string list \<Rightarrow> 'a sse_core_scheme \<Rightarrow> 'a sse_core_scheme \<times> flow" where
  "run_frames E d [] c = (c, GoOn)"
| "run_frames E d (frame # frames) c =
     (case drv_frame d frame (parse_sse_event_json E frame) c of
        (c', GoOn) \<Rightarrow> run_frames E d frames c'
      | (c', Stop) \<Rightarrow> (c', Stop)
      | (c', StopCleared) \<Rightarrow> (c', StopCleared))"

lemma run_frames_append:
  "run_frames E d (fs @ gs) c =
     (let (c', fl) = run_frames E d fs c in if fl = GoOn then run_frames E d gs c' else (c', fl))"
proof (induction fs arbitrary: c)
  case (Cons f fs)
  obtain c' fl where f: "drv_frame d f (parse_sse_event_json E f) c = (c', fl)" by fastforce
  show ?case using Cons [of c'] by (cases fl) (simp_all add: f)
qed simp

lemma drain_loop_runs:
  assumes "drain_loop E d buf k c = (k', cleared, c')"
    and "run_frames E d (fst (split_frames (drop k buf))) c = (c'', fl)"
  shows "c' = c'' \<and> cleared = (fl = StopCleared)
    \<and> (fl = GoOn \<longrightarrow> drop k' buf = snd (split_frames (drop k buf)))"
  using assms
proof (induction E d buf k c arbitrary: rule: drain_loop.induct)
  case (1 E d buf k c)
  show ?case
  proof (cases "sse_frame_end (drop k buf)")
    case None
    with "1.prems" show ?thesis
      by (simp add: drain_loop.simps [of E d buf k] read_one_sse_frame_def sse.split_None)
  next
    case (Some e)
    define frame where "frame = take e (drop k buf)"
    obtain c1 fl1 where h: "drv_frame d frame (parse_sse_event_json E frame) c = (c1, fl1)" by fastforce
    have read: "read_one_sse_frame E (drop k buf) = Some (frame, parse_sse_event_json E frame, e)"
      by (simp add: read_one_sse_frame_def Some frame_def)
    have split: "split_frames (drop k buf) =
        (frame # fst (split_frames (drop (k + e) buf)), snd (split_frames (drop (k + e) buf)))"
      using sse.split_Some [OF Some] by (simp add: frame_def add.commute)
    show ?thesis
    proof (cases fl1)
      case GoOn
      with h read "1.prems" have "drain_loop E d buf (k + e) c1 = (k', cleared, c')"
        "run_frames E d (fst (split_frames (drop (k + e) buf))) c1 = (c'', fl)"
        by (simp_all add: drain_loop.simps [of E d buf k] split)
      from "1.IH" [OF read refl refl h [symmetric] GoOn this] show ?thesis by (simp add: split)
    next
      case Stop
      with h read "1.prems" show ?thesis by (auto simp: drain_loop.simps [of E d buf k] split)
    next
      case StopCleared
      with h read "1.prems" show ?thesis by (auto simp: drain_loop.simps [of E d buf k] split)
    qed
  qed
qed

lemma drain_runs:
  assumes "run_frames E d (fst (split_frames buf)) c = (c', fl)"
  shows "snd (drain_frames E d (buf, c)) = c'"
    and "fl = GoOn \<Longrightarrow> fst (drain_frames E d (buf, c)) = snd (split_frames buf)"
proof -
  obtain k cleared c1 where l: "drain_loop E d buf 0 c = (k, cleared, c1)"
    by (cases "drain_loop E d buf 0 c") auto
  note r = drain_loop_runs [OF l, of c' fl]
  have drop: "drop (min k (length buf)) buf = drop k buf" by (cases "k \<le> length buf") simp_all
  show "snd (drain_frames E d (buf, c)) = c'"
    using r assms by (simp add: drain_frames_def l)
  show "fst (drain_frames E d (buf, c)) = snd (split_frames buf)" if "fl = GoOn"
    using r assms that by (simp add: drain_frames_def l drop_sse_prefix_def drop)
qed

section \<open>Chunks\<close>

text \<open>
  What the loops rely on: a frame ends the stream exactly when the loop stops, and a limit that is
  exceeded ends it. The buffer of a closed stream is not looked at again, \<open>visible\<close> forgets it.
\<close>

definition visible :: "'a buffered \<Rightarrow> 'a buffered" where
  "visible bc = (if close_after_output (snd bc) then ([], snd bc) else bc)"

text \<open>No complete frame is left over and the frame limit is kept, unless the stream is closed.\<close>

definition settled :: "'a driver \<Rightarrow> 'a buffered \<Rightarrow> bool" where
  "settled d bc = (close_after_output (snd bc)
     \<or> sse_frame_end (fst bc) = None \<and> length (fst bc) \<le> drv_max_frame d)"

text \<open>The check after a drain.\<close>

definition full_check :: "'a driver \<Rightarrow> 'a buffered \<Rightarrow> 'a buffered" where
  "full_check d bc =
     (if \<not> close_after_output (snd bc) \<and> length (fst bc) = drv_max_frame d
      then ([], drv_limit d SseFrameTooLarge (snd bc)) else bc)"

lemma visible_closed [simp]: "close_after_output c \<Longrightarrow> visible (buf, c) = ([], c)"
  by (simp add: visible_def)

lemma visible_open [simp]: "\<not> close_after_output c \<Longrightarrow> visible (buf, c) = (buf, c)"
  by (simp add: visible_def)

lemma visible_eq_closed: "visible a = visible b \<Longrightarrow> close_after_output (snd a) = close_after_output (snd b)"
  by (auto simp: visible_def split: if_splits)

lemma visible_full_check: "visible a = visible b \<Longrightarrow> visible (full_check d a) = visible (full_check d b)"
  by (auto simp: visible_def full_check_def split: if_splits)

lemma push_Nil [simp]: "push_chunk E d [] bc = bc"
  by (cases bc) (simp add: push_chunk.simps)

lemma push_closed: "close_after_output (snd bc) \<Longrightarrow> push_chunk E d xs bc = bc"
  by (cases bc) (simp add: push_chunk.simps)

lemma push_full:
  "\<not> close_after_output c \<Longrightarrow> drv_max_frame d \<le> length buf \<Longrightarrow> xs \<noteq> [] \<Longrightarrow>
   push_chunk E d xs (buf, c) = ([], drv_limit d SseFrameTooLarge c)"
  by (simp add: push_chunk.simps [of E d xs])

lemma push_step:
  assumes "\<not> close_after_output c" and "length buf < drv_max_frame d" and "xs \<noteq> []"
  shows "push_chunk E d xs (buf, c) =
    (let n = min (drv_max_frame d - length buf) (length xs)
     in push_chunk E d (drop n xs) (full_check d (drain_frames E d (buf @ take n xs, c))))"
proof -
  have "drv_max_frame d - length buf \<noteq> 0" using assms(2) by simp
  with assms(1,3) show ?thesis
    unfolding push_chunk.simps [of E d xs] by (simp add: full_check_def Let_def case_prod_unfold)
qed

lemma push_small:
  assumes "\<not> close_after_output c" and "length buf + length xs \<le> drv_max_frame d" and "xs \<noteq> []"
  shows "push_chunk E d xs (buf, c) = full_check d (drain_frames E d (buf @ xs, c))"
proof -
  have "length buf < drv_max_frame d" using assms(2,3) by (cases xs) simp_all
  moreover have "min (drv_max_frame d - length buf) (length xs) = length xs" using assms(2) by simp
  ultimately show ?thesis using push_step [OF assms(1) _ assms(3)] by (simp add: Let_def)
qed

abbreviation push_bytes :: "env \<Rightarrow> 'a driver \<Rightarrow> string \<Rightarrow> 'a buffered \<Rightarrow> 'a buffered" where
  "push_bytes E d xs bc \<equiv> foldl (\<lambda>bc x. push_chunk E d [x] bc) bc xs"

lemma push_bytes_closed: "close_after_output (snd bc) \<Longrightarrow> push_bytes E d xs bc = bc"
  by (induction xs) (simp_all add: push_closed)

lemma visible_push_byte:
  assumes "visible a = visible b"
  shows "visible (push_chunk E d [x] a) = visible (push_chunk E d [x] b)"
proof (cases "close_after_output (snd a)")
  case True
  then have "push_chunk E d [x] a = a" "push_chunk E d [x] b = b"
    using visible_eq_closed [OF assms] push_closed by blast+
  with assms show ?thesis by presburger
next
  case False
  then have "visible a = a" "visible b = b" using visible_eq_closed [OF assms] by (simp_all add: visible_def)
  with assms show ?thesis by presburger
qed

lemma visible_push_bytes:
  "visible a = visible b \<Longrightarrow> visible (push_bytes E d xs a) = visible (push_bytes E d xs b)"
proof (induction xs arbitrary: a b)
  case (Cons x xs)
  show ?case using Cons.IH [OF visible_push_byte [OF Cons.prems, of E d x]] by simp
qed simp

locale sse_driver =
  fixes d :: "'a driver"
  assumes frame_flow: "\<not> close_after_output c \<Longrightarrow>
      close_after_output (fst (drv_frame d frame event c)) = (snd (drv_frame d frame event c) \<noteq> GoOn)"
    and limit_closes: "close_after_output (drv_limit d limit c)"
begin

lemma run_flow:
  "\<not> close_after_output c \<Longrightarrow>
   close_after_output (fst (run_frames E d fs c)) = (snd (run_frames E d fs c) \<noteq> GoOn)"
proof (induction fs arbitrary: c)
  case (Cons f fs)
  obtain c' fl where f: "drv_frame d f (parse_sse_event_json E f) c = (c', fl)" by fastforce
  with frame_flow [OF Cons.prems, of f "parse_sse_event_json E f"] Cons.IH [of c'] show ?case
    by (cases fl) simp_all
qed simp

text \<open>Draining what was kept together with what comes next is draining both together.\<close>

lemma drain_closed:
  assumes "\<not> close_after_output c" and "close_after_output (snd (drain_frames E d (a, c)))"
  shows "snd (drain_frames E d (a @ b, c)) = snd (drain_frames E d (a, c))"
proof -
  obtain c' fl where r: "run_frames E d (fst (split_frames a)) c = (c', fl)" by fastforce
  have "fl \<noteq> GoOn" using assms run_flow [OF assms(1), of E "fst (split_frames a)"] drain_runs(1) [OF r] r by simp
  then have "run_frames E d (fst (split_frames (a @ b))) c = (c', fl)"
    by (simp add: sse.split_append [of a b] run_frames_append r)
  then show ?thesis using drain_runs(1) r by metis
qed

lemma drain_open:
  assumes "\<not> close_after_output c" and "\<not> close_after_output (snd (drain_frames E d (a, c)))"
  shows "fst (drain_frames E d (a, c)) = snd (split_frames a)"
    and "visible (drain_frames E d (fst (drain_frames E d (a, c)) @ b, snd (drain_frames E d (a, c))))
       = visible (drain_frames E d (a @ b, c))"
proof -
  obtain c' fl where r: "run_frames E d (fst (split_frames a)) c = (c', fl)" by fastforce
  have c': "snd (drain_frames E d (a, c)) = c'" by (rule drain_runs(1) [OF r])
  have fl: "fl = GoOn" using assms run_flow [OF assms(1), of E "fst (split_frames a)"] c' r by simp
  show rest: "fst (drain_frames E d (a, c)) = snd (split_frames a)" by (rule drain_runs(2) [OF r fl])
  let ?rest = "snd (split_frames a) @ b"
  obtain c2 fl2 where r2: "run_frames E d (fst (split_frames ?rest)) c' = (c2, fl2)" by fastforce
  have whole: "run_frames E d (fst (split_frames (a @ b))) c = (c2, fl2)"
    by (simp add: sse.split_append [of a b] run_frames_append r fl r2)
  note core = drain_runs(1) [OF whole] drain_runs(1) [OF r2]
  have "fst (drain_frames E d (a @ b, c)) = fst (drain_frames E d (?rest, c'))"
    if "\<not> close_after_output c2"
  proof -
    have "fl2 = GoOn" using that run_flow [OF assms(1), of E "fst (split_frames (a @ b))"] whole by simp
    then show ?thesis
      using drain_runs(2) [OF whole] drain_runs(2) [OF r2] by (simp add: sse.split_append [of a b])
  qed
  with core show "visible (drain_frames E d (fst (drain_frames E d (a, c)) @ b, snd (drain_frames E d (a, c))))
       = visible (drain_frames E d (a @ b, c))"
    by (simp add: rest c' visible_def prod_eq_iff)
qed

lemma drain_settled:
  assumes "length buf \<le> drv_max_frame d" and "\<not> close_after_output c"
  shows "settled d (full_check d (drain_frames E d (buf, c)))"
proof (cases "close_after_output (snd (drain_frames E d (buf, c)))")
  case True
  then show ?thesis by (simp add: settled_def full_check_def)
next
  case False
  note rest = drain_open(1) [OF assms(2) False]
  have "length (snd (split_frames buf)) \<le> length buf"
    using arg_cong [OF sse.split_concat [of buf], of length] by simp
  with assms(1) show ?thesis
    by (simp add: settled_def full_check_def rest sse.split_rest limit_closes)
qed

lemma push_bytes_small:
  assumes "\<not> close_after_output c" and "length buf + length xs \<le> drv_max_frame d" and "xs \<noteq> []"
  shows "visible (push_bytes E d xs (buf, c)) = visible (full_check d (drain_frames E d (buf @ xs, c)))"
  using assms
proof (induction xs arbitrary: buf c)
  case (Cons x xs)
  obtain b1 c1 where d1: "drain_frames E d (buf @ [x], c) = (b1, c1)" by fastforce
  have one: "push_chunk E d [x] (buf, c) = full_check d (b1, c1)"
    using push_small [where c = c and buf = buf and d = d and xs = "[x]" and E = E] Cons.prems d1 by simp
  show ?case
  proof (cases "xs = []")
    case True
    with one d1 show ?thesis by simp
  next
    case ne: False
    show ?thesis
    proof (cases "close_after_output c1")
      case True
      with drain_closed [OF Cons.prems(1), of E "buf @ [x]" xs] d1
      have "snd (drain_frames E d (buf @ x # xs, c)) = c1" by simp
      with True one show ?thesis
        by (simp add: full_check_def push_bytes_closed visible_def)
    next
      case False
      have rest: "b1 = snd (split_frames (buf @ [x]))"
        using drain_open(1) [OF Cons.prems(1), of E "buf @ [x]"] d1 False by simp
      have "length b1 \<le> length (buf @ [x])"
        using arg_cong [OF sse.split_concat [of "buf @ [x]"], of length] by (simp add: rest)
      with Cons.prems(2) ne have len: "length b1 + length xs \<le> drv_max_frame d" "length b1 < drv_max_frame d"
        by (cases xs; simp)+
      then have "push_bytes E d (x # xs) (buf, c) = push_bytes E d xs (b1, c1)"
        by (simp add: one full_check_def)
      moreover have "visible (drain_frames E d (b1 @ xs, c1)) = visible (drain_frames E d (buf @ x # xs, c))"
        using drain_open(2) [OF Cons.prems(1), of E "buf @ [x]" xs] d1 False by simp
      ultimately show ?thesis
        using Cons.IH [OF False len(1) ne] visible_full_check by metis
    qed
  qed
qed simp

lemma push_is_push_bytes:
  "settled d bc \<Longrightarrow> visible (push_chunk E d xs bc) = visible (push_bytes E d xs bc)
     \<and> settled d (push_chunk E d xs bc)"
proof (induction "length xs" arbitrary: xs bc rule: less_induct)
  case less
  obtain buf c where bc: "bc = (buf, c)" by fastforce
  consider "xs = [] \<or> close_after_output c"
    | "xs \<noteq> []" "\<not> close_after_output c" "length buf = drv_max_frame d"
    | "xs \<noteq> []" "\<not> close_after_output c" "length buf < drv_max_frame d"
    using less.prems unfolding settled_def bc by (auto dest: le_neq_implies_less)
  then show ?case
  proof cases
    case 1
    with less.prems show ?thesis by (auto simp: bc push_closed push_bytes_closed)
  next
    case 2
    then obtain x ys where xs: "xs = x # ys" by (cases xs) auto
    from 2 show ?thesis
      by (simp add: bc push_full xs push_bytes_closed limit_closes settled_def)
  next
    case 3
    define n where "n = min (drv_max_frame d - length buf) (length xs)"
    define st where "st = full_check d (drain_frames E d (buf @ take n xs, c))"
    have n: "0 < n" "take n xs \<noteq> []" "length buf + length (take n xs) \<le> drv_max_frame d"
      using 3 by (auto simp: n_def)
    have push: "push_chunk E d xs bc = push_chunk E d (drop n xs) st"
      using push_step [where c = c and buf = buf and d = d and xs = xs and E = E] 3 by (simp add: bc n_def st_def Let_def)
    have "visible (push_bytes E d (take n xs) bc) = visible st"
      using push_bytes_small [OF 3(2) n(3) n(2)] by (simp add: bc st_def)
    then have "visible (push_bytes E d xs bc) = visible (push_bytes E d (drop n xs) st)"
      using visible_push_bytes [of "push_bytes E d (take n xs) bc" st E d "drop n xs"]
      by (metis append_take_drop_id foldl_append)
    moreover have "settled d st"
      using drain_settled [where buf = "buf @ take n xs" and c = c and E = E] n(3) 3 by (simp add: st_def)
    moreover have "length (drop n xs) < length xs" using n 3 by simp
    ultimately show ?thesis using less.hyps push by simp
  qed
qed

lemma push_append:
  assumes "settled d bc"
  shows "visible (push_chunk E d (xs @ ys) bc) = visible (push_chunk E d ys (push_chunk E d xs bc))"
proof -
  note a = push_is_push_bytes [OF assms, of E xs]
  have "visible (push_bytes E d ys (push_chunk E d xs bc)) = visible (push_bytes E d ys (push_bytes E d xs bc))"
    using a visible_push_bytes by blast
  with push_is_push_bytes [OF assms, of E "xs @ ys"] push_is_push_bytes [of "push_chunk E d xs bc" E ys] a
  show ?thesis by simp
qed

lemma push_concat:
  "settled d bc \<Longrightarrow> visible (foldl (\<lambda>bc xs. push_chunk E d xs bc) bc css)
     = visible (push_chunk E d (concat css) bc)"
proof (induction css arbitrary: bc)
  case (Cons xs css)
  have "settled d (push_chunk E d xs bc)" using push_is_push_bytes [OF Cons.prems, of E xs] by simp
  from Cons.IH [OF this] push_append [OF Cons.prems, of E xs "concat css"] show ?case by simp
qed simp

text \<open>While the stream is open, what was pushed has been handled frame by frame.\<close>

lemma push_bytes_runs:
  assumes "\<not> close_after_output (snd (push_bytes E d xs ([], c)))"
  shows "run_frames E d (fst (split_frames xs)) c = (snd (push_bytes E d xs ([], c)), GoOn)
    \<and> fst (push_bytes E d xs ([], c)) = snd (split_frames xs)"
  using assms
proof (induction xs rule: rev_induct)
  case Nil
  have "split_frames [] = ([], [])" by (rule sse.split_None) (simp add: sse_frame_end_def)
  then show ?case by simp
next
  case (snoc x xs)
  obtain b c1 where st: "push_bytes E d xs ([], c) = (b, c1)" by fastforce
  have open1: "\<not> close_after_output c1"
    using snoc.prems push_closed [of "(b, c1)" E d "[x]"] by (auto simp: st)
  with snoc.IH st have runs: "run_frames E d (fst (split_frames xs)) c = (c1, GoOn)"
    and b: "b = snd (split_frames xs)" by simp_all
  have len: "length b < drv_max_frame d"
    using snoc.prems push_full [OF open1, of d b "[x]" E] limit_closes
    by (cases "drv_max_frame d \<le> length b") (simp_all add: st)
  then have step: "push_chunk E d [x] (b, c1) = full_check d (drain_frames E d (b @ [x], c1))"
    using push_small [OF open1, of b "[x]" d E] by simp
  then have open2: "\<not> close_after_output (snd (drain_frames E d (b @ [x], c1)))"
    and same: "push_chunk E d [x] (b, c1) = drain_frames E d (b @ [x], c1)"
    using snoc.prems by (auto simp: st full_check_def limit_closes split: if_splits)
  obtain c2 fl where r: "run_frames E d (fst (split_frames (b @ [x]))) c1 = (c2, fl)" by fastforce
  have "fl = GoOn"
    using open2 run_flow [OF open1, of E "fst (split_frames (b @ [x]))"] drain_runs(1) [OF r] r by simp
  with r drain_runs [OF r] show ?case
    by (simp add: st same [unfolded b] runs b sse.split_append [of xs "[x]"] run_frames_append)
qed

lemma push_runs:
  assumes "\<not> close_after_output (snd (push_chunk E d xs ([], c)))"
  shows "run_frames E d (fst (split_frames xs)) c = (snd (push_chunk E d xs ([], c)), GoOn)"
proof -
  have "settled d ([], c)" by (simp add: settled_def sse_frame_end_def)
  from push_is_push_bytes [OF this, of E xs]
  have eq: "visible (push_chunk E d xs ([], c)) = visible (push_bytes E d xs ([], c))" by simp
  with assms have "push_chunk E d xs ([], c) = push_bytes E d xs ([], c)"
    using visible_eq_closed [OF eq] by (simp add: visible_def)
  with assms push_bytes_runs [where E = E and xs = xs and c = c] show ?thesis by simp
qed

end

text \<open>A property of the state that the functions of the driver keep is kept by every poll.\<close>

definition kept :: "'a driver \<Rightarrow> ('a sse_core_scheme \<Rightarrow> bool) \<Rightarrow> 'a buffered \<Rightarrow> bool" where
  "kept d P bc = (P (snd bc) \<and> length (fst bc) \<le> drv_max_frame d)"

locale kept_by_driver = sse_driver d for d :: "'a driver" +
  fixes P :: "'a sse_core_scheme \<Rightarrow> bool"
  assumes frame_keeps: "P c \<Longrightarrow> \<not> close_after_output c \<Longrightarrow> P (fst (drv_frame d frame event c))"
    and limit_keeps: "P (drv_limit d limit c)"
    and output_keeps: "P c \<Longrightarrow> take_output c = Some (f, c') \<Longrightarrow> P c'"
    and end_keeps: "P c \<Longrightarrow> P (snd (drv_end d (buf, c)))"
    and end_shorter: "length (fst (drv_end d (buf, c))) \<le> length buf"
begin

lemma run_keeps: "P c \<Longrightarrow> \<not> close_after_output c \<Longrightarrow> P (fst (run_frames E d fs c))"
proof (induction fs arbitrary: c)
  case (Cons f fs)
  obtain c' fl where f: "drv_frame d f (parse_sse_event_json E f) c = (c', fl)" by fastforce
  have "P c'" using frame_keeps [OF Cons.prems, of f "parse_sse_event_json E f"] f by simp
  moreover have "fl = GoOn \<Longrightarrow> \<not> close_after_output c'"
    using frame_flow [OF Cons.prems(2), of f "parse_sse_event_json E f"] f by simp
  ultimately show ?case using Cons.IH [of c'] by (cases fl) (simp_all add: f)
qed simp

lemma drain_shorter: "length (fst (drain_frames E d (buf, c))) \<le> length buf"
  by (simp add: drain_frames_def drop_sse_prefix_def case_prod_unfold Let_def)

lemma drain_keeps: "kept d P (buf, c) \<Longrightarrow> \<not> close_after_output c \<Longrightarrow> kept d P (drain_frames E d (buf, c))"
  using drain_shorter [of E buf c] run_keeps [of c E "fst (split_frames buf)"]
    drain_runs(1) [of E d buf c, OF prod.collapse [symmetric]]
  by (auto simp: kept_def)

lemma push_keeps: "kept d P bc \<Longrightarrow> kept d P (push_chunk E d xs bc)"
proof (induction "length xs" arbitrary: xs bc rule: less_induct)
  case less
  obtain buf c where bc: "bc = (buf, c)" by fastforce
  consider "xs = [] \<or> close_after_output c"
    | "xs \<noteq> []" "\<not> close_after_output c" "drv_max_frame d \<le> length buf"
    | "xs \<noteq> []" "\<not> close_after_output c" "length buf < drv_max_frame d"
    by linarith
  then show ?case
  proof cases
    case 1
    with less.prems show ?thesis by (auto simp: bc push_closed)
  next
    case 2
    then show ?thesis by (simp add: bc push_full kept_def limit_keeps)
  next
    case 3
    define n where "n = min (drv_max_frame d - length buf) (length xs)"
    have "kept d P (buf @ take n xs, c)" using less.prems by (auto simp: kept_def bc n_def)
    from drain_keeps [OF this 3(2), of E]
    have "kept d P (full_check d (drain_frames E d (buf @ take n xs, c)))"
      by (simp add: kept_def full_check_def limit_keeps)
    moreover have "length (drop n xs) < length xs" using 3 by (simp add: n_def)
    ultimately show ?thesis
      using less.hyps push_step [where c = c and buf = buf and d = d and xs = xs and E = E] 3
      by (simp add: bc n_def Let_def)
  qed
qed

lemma poll_keeps: "kept d P bc \<Longrightarrow> kept d P (snd (snd (poll_next E d ticks bc)))"
proof (induction ticks arbitrary: bc)
  case Nil
  obtain buf c where bc: "bc = (buf, c)" by fastforce
  from Nil show ?case
    by (cases "take_output c")
      (auto simp: bc poll_next.simps [of E d _ buf] kept_def dest: output_keeps)
next
  case (Cons tick ticks)
  obtain buf c where bc: "bc = (buf, c)" by fastforce
  note poll = poll_next.simps [of E d _ buf c]
  show ?case
  proof (cases "take_output c = None \<and> \<not> close_after_output c")
    case False
    with Cons.prems show ?thesis
      by (cases "take_output c") (auto simp: bc poll kept_def dest: output_keeps)
  next
    case True
    have limit: "kept d P ([], drv_limit d l c)" for l by (simp add: kept_def limit_keeps)
    have chunk: "kept d P (push_chunk E d xs (buf, c))" for xs using push_keeps Cons.prems by (simp add: bc)
    have drained: "kept d P (drain_frames E d (buf, c))" using drain_keeps Cons.prems True by (simp add: bc)
    then have ended: "kept d P (drv_end d (drain_frames E d (buf, c)))"
      using end_keeps end_shorter order_trans by (cases "drain_frames E d (buf, c)") (fastforce simp: kept_def)
    show ?thesis
    proof (cases tick)
      case (TimerExpired l)
      with True Cons.IH [OF limit] show ?thesis by (simp add: bc poll)
    next
      case (Upstream u)
      with True Cons.prems Cons.IH [OF chunk] chunk Cons.IH [OF ended] ended show ?thesis
        by (cases u) (simp_all add: bc poll case_prod_unfold Let_def)
    qed
  qed
qed

end

section \<open>The two streams\<close>

lemma limit_core_closed [simp]: "close_after_output (reject_limit_core E client limit c)"
  by (simp add: reject_limit_core_def close_stream_def)

lemma name_core_closed [simp]: "close_after_output (reject_name_core E client message c)"
  by (simp add: reject_name_core_def close_stream_def)

lemma core_fields [simp]:
  "close_after_output (count_event c) = close_after_output c"
  "close_after_output (push_frame f c) = close_after_output c"
  "close_after_output (disqualify c') = close_after_output c'"
  "close_after_output (queue_step g c) = close_after_output c"
  "close_after_output (close_stream c)"
  "core_state (count_event c) = core_state c"
  "core_state (push_frame f c) = core_state c"
  "core_state (disqualify c') = core_state c'"
  "events_seen (push_frame f c) = events_seen c"
  "events_seen (disqualify c') = events_seen c'"
  "events_seen (queue_step g c) = events_seen c"
  by (simp_all add: count_event_def push_frame_def disqualify_def queue_step_def close_stream_def
      case_prod_unfold Let_def)

lemma take_output_fields:
  "take_output c = Some (f, c') \<Longrightarrow> close_after_output c' = close_after_output c
     \<and> core_state c' = core_state c \<and> events_seen c' = events_seen c"
  by (auto simp: take_output_def Let_def split: if_splits)

lemmas flow_defs = counted_def check_state_size_def Let_def

interpretation guarded: sse_driver "guarded_driver E L client" for E L client
  by unfold_locales (auto simp: guarded_driver_def guarded_frame_def guarded_event_def guarded_limit_def
      flow_defs split: option.split sum.split)

interpretation translated: sse_driver "translate_driver E L up client" for E L up client
  by unfold_locales (auto simp: translate_driver_def translate_frame_def translate_event_frame_def
      reject_internal_artifact_frame_def translate_limit_def flow_defs split: option.split)

text \<open>An open stream has read at most the allowed events, its state is within bounds and not rejected.\<close>

definition within_limits :: "env \<Rightarrow> resource_limits \<Rightarrow> 'a sse_core_scheme \<Rightarrow> bool" where
  "within_limits E L c = (close_after_output c
     \<or> \<not> too_many_events L c \<and> \<not> state_too_large E L c \<and> fatal_rejection (core_state c) = None)"

lemma within_closed [simp]: "close_after_output c \<Longrightarrow> within_limits E L c"
  by (simp add: within_limits_def)

lemma within_cong:
  "events_seen c' = events_seen c \<Longrightarrow> core_state c' = core_state c \<Longrightarrow>
   close_after_output c' = close_after_output c \<Longrightarrow> within_limits E L c \<Longrightarrow> within_limits E L c'"
  by (simp add: within_limits_def too_many_events_def state_too_large_def)

lemma counted_within:
  assumes "within_limits E L c" and "\<not> close_after_output c"
    and "\<And>l c. close_after_output (limit l c)"
    and "\<And>c. within_limits E L c \<Longrightarrow> \<not> close_after_output c \<Longrightarrow> within_limits E L (fst (f c))"
  shows "within_limits E L (fst (counted L limit f c))"
proof (cases "too_many_events L (count_event c)")
  case True
  then show ?thesis using assms(3) by (simp add: counted_def)
next
  case False
  then have "within_limits E L (count_event c)"
    using assms(1,2) by (simp add: within_limits_def state_too_large_def)
  then show ?thesis using False assms(2,4) by (simp add: counted_def)
qed

lemma guarded_event_within:
  "within_limits E L c \<Longrightarrow> within_limits E L (fst (guarded_event E L client frame v c))"
  by (auto simp: guarded_event_def guarded_limit_def flow_defs split: sum.split
      intro: within_cong [of "push_frame f c" c for f])

interpretation guarded: kept_by_driver "guarded_driver E L client" "within_limits E L" for E L client
proof unfold_locales
  fix c c' :: sse_core and frame event f limit buf
  show "within_limits E L c \<Longrightarrow> \<not> close_after_output c \<Longrightarrow>
      within_limits E L (fst (drv_frame (guarded_driver E L client) frame event c))"
    unfolding guarded_driver_def driver.simps guarded_frame_def
    by (rule counted_within) (auto simp: guarded_limit_def guarded_event_within split: option.split
      intro: within_cong [of "push_frame (Raw frame) c" c for c])
  show "within_limits E L (drv_limit (guarded_driver E L client) limit c)"
    by (simp add: guarded_driver_def guarded_limit_def)
  show "within_limits E L c \<Longrightarrow> take_output c = Some (f, c') \<Longrightarrow> within_limits E L c'"
    using take_output_fields within_cong by blast
qed (simp_all add: guarded_driver_def)

lemma translate_event_within:
  "within_limits E L c \<Longrightarrow> \<not> close_after_output c \<Longrightarrow>
   within_limits E L (fst (translate_event_frame E L up client v c))"
  by (auto simp: translate_event_frame_def translate_limit_def flow_defs within_limits_def too_many_events_def)

interpretation translated: kept_by_driver "translate_driver E L up client" "within_limits E L"
  for E L up client
proof unfold_locales
  fix c c' :: translate_core and frame event f limit buf
  show "within_limits E L c \<Longrightarrow> \<not> close_after_output c \<Longrightarrow>
      within_limits E L (fst (drv_frame (translate_driver E L up client) frame event c))"
    unfolding translate_driver_def driver.simps translate_frame_def
    by (rule counted_within) (auto simp: translate_limit_def reject_internal_artifact_frame_def Let_def
      translate_event_within split: option.split intro: within_cong [of "disqualify c" c for c])
  show "within_limits E L (drv_limit (translate_driver E L up client) limit c)"
    by (simp add: translate_driver_def translate_limit_def)
  show "within_limits E L c \<Longrightarrow> take_output c = Some (f, c') \<Longrightarrow> within_limits E L c'"
    using take_output_fields within_cong by blast
  show "within_limits E L c \<Longrightarrow> within_limits E L (snd (drv_end (translate_driver E L up client) (buf, c)))"
    by (auto simp: translate_driver_def translate_end_def intro: within_cong [of "disqualify c" c])
qed (simp_all add: translate_driver_def translate_end_def)

section \<open>Properties\<close>

text \<open>
  C5. How the network cuts the upstream's bytes into chunks does not matter: after any list of chunks
  both streams are in the state, with the queued output and unless they are closed the buffer, that
  one chunk with all the bytes gives. A frame that is too large, an exceeded limit and a refused event
  are found at the same byte whatever the chunks are.
\<close>

theorem chunk_boundaries_do_not_matter:
  "visible (foldl (\<lambda>bc chunk. push_chunk E (translate_driver E L up client) chunk bc) ([], c) chunks)
     = visible (push_chunk E (translate_driver E L up client) (concat chunks) ([], c))
   \<and> visible (foldl (\<lambda>bc chunk. push_chunk E (guarded_driver E L client) chunk bc) ([], g) chunks)
     = visible (push_chunk E (guarded_driver E L client) (concat chunks) ([], g))"
  using translated.push_concat [of E L up client "([], c)" E chunks]
    guarded.push_concat [of E L client "([], g)" E chunks]
  by (simp add: settled_def sse_frame_end_def)

text \<open>Any number of calls of \<open>poll_next\<close>.\<close>

fun poll_times ::
    "env \<Rightarrow> 'a driver \<Rightarrow> nat \<Rightarrow> tick list \<Rightarrow> 'a buffered \<Rightarrow> poll_result list \<times> tick list \<times> 'a buffered" where
  "poll_times E d 0 ticks bc = ([], ticks, bc)"
| "poll_times E d (Suc n) ticks bc =
     (let (r, ticks', bc') = poll_next E d ticks bc; (rs, ticks'', bc'') = poll_times E d n ticks' bc'
      in (r # rs, ticks'', bc''))"

definition new_translate_core :: "stream_state \<Rightarrow> translate_core" where
  "new_translate_core s =
     \<lparr>core_state = s, events_seen = 0, output_queue = [], output_pos = 0, close_after_output = False,
      capture_disqualified = False\<rparr>"

context kept_by_driver
begin

lemma poll_times_keeps: "kept d P bc \<Longrightarrow> kept d P (snd (snd (poll_times E d n ticks bc)))"
proof (induction n arbitrary: ticks bc)
  case (Suc n)
  obtain r ticks' bc' where p: "poll_next E d ticks bc = (r, ticks', bc')" by (metis prod.exhaust)
  with poll_keeps [OF Suc.prems, of E ticks] have "kept d P bc'" by simp
  from Suc.IH [OF this, of ticks'] show ?case by (simp add: p case_prod_unfold Let_def)
qed simp

end

text \<open>
  C7. Whatever the upstream sends, however it is polled, and whichever timers expire, a translating
  stream never buffers more than the frame limit, and while it is open it has read at most the allowed
  number of events, its accumulated state is within its limit and nothing has been rejected.
\<close>

theorem stream_stays_within_limits:
  assumes "accumulated_bytes E s \<le> max_accumulated_stream_state_bytes L" and "fatal_rejection s = None"
    and "snd (snd (poll_times E (translate_driver E L up client) n ticks ([], new_translate_core s))) = (buf, c)"
  shows "length buf \<le> max_sse_frame_bytes L
    \<and> (close_after_output c \<or> events_seen c \<le> stream_max_events L
      \<and> accumulated_bytes E (core_state c) \<le> max_accumulated_stream_state_bytes L
      \<and> fatal_rejection (core_state c) = None)"
proof -
  have "kept (translate_driver E L up client) (within_limits E L) ([], new_translate_core s)"
    using assms(1,2) by (simp add: kept_def within_limits_def new_translate_core_def
      too_many_events_def state_too_large_def)
  from translated.poll_times_keeps [OF this, of E n ticks]
  have "within_limits E L c" and "length buf \<le> drv_max_frame (translate_driver E L up client)"
    by (simp_all add: assms(3) kept_def)
  then show ?thesis
    by (auto simp: within_limits_def too_many_events_def state_too_large_def translate_driver_def)
qed

definition small_limits :: resource_limits where
  "small_limits =
     \<lparr>max_request_body_bytes = 1000, max_non_stream_response_bytes = 1000,
      max_upstream_error_body_bytes = 1000, max_sse_frame_bytes = 100, stream_idle_timeout_secs = 1,
      stream_max_duration_secs = 1, stream_max_events = 10, max_accumulated_stream_state_bytes = 1000\<rparr>"

lemma default_state_is_small: "accumulated_bytes E default_state = 0"
proof -
  have none: "hm_entries E ([] :: (nat \<times> 'v) list) = []" for E
    by (simp add: hm_entries_def map_filter_def)
  have zeros: "list_all (\<lambda>n. n = 0) ns \<Longrightarrow> sat_sum ns 0 = 0" for ns
    unfolding sat_sum_def by (induction ns) (simp_all add: sat_add_def)
  show ?thesis
    unfolding accumulated_bytes_def by (rule zeros)
      (simp add: none state_text_sizes_def default_state_def optional_string_len_def value_len_def)
qed

theorem stream_stays_within_limits_witness:
  "let (buf, c) = snd (snd (poll_times example_env
         (translate_driver example_env small_limits OpenAiChatCompletions Anthropic) 3
         [Upstream (Chunk (''data: {'')), Upstream UpstreamEnd] ([], new_translate_core default_state)))
   in length buf \<le> 100"
proof -
  obtain buf c where p: "snd (snd (poll_times example_env
         (translate_driver example_env small_limits OpenAiChatCompletions Anthropic) 3
         [Upstream (Chunk (''data: {'')), Upstream UpstreamEnd] ([], new_translate_core default_state)))
       = (buf, c)" by fastforce
  have "fatal_rejection default_state = None" by (simp add: default_state_def)
  then have "length buf \<le> max_sse_frame_bytes small_limits"
    using stream_stays_within_limits [OF _ _ p] by (simp add: default_state_is_small)
  then show ?thesis unfolding p by (simp add: small_limits_def)
qed

text \<open>
  Specification: the events in the frames of a byte sequence, and their translation one after the other.
\<close>

definition events_in :: "env \<Rightarrow> string \<Rightarrow> json list" where
  "events_in E xs = List.map_filter (parse_sse_event_json E) (fst (split_frames xs))"

definition translate_all ::
    "env \<Rightarrow> upstream_format \<Rightarrow> upstream_format \<Rightarrow> json list \<Rightarrow> (stream_state, frame) step" where
  "translate_all E up client events = for_each (translate_sse_event E up client) events"

lemma translate_frame_goes_on:
  assumes "translate_frame E L up client frame event c = (c', GoOn)"
  shows "core_state c' = fst (translate_all E up client (option_list event) (core_state c))
    \<and> output_queue c' = output_queue c @ snd (translate_all E up client (option_list event) (core_state c))"
proof (cases event)
  case None
  with assms show ?thesis
    by (auto simp: translate_frame_def counted_def option_list_def translate_all_def count_event_def
        disqualify_def Let_def split: if_splits)
next
  case (Some v)
  with assms show ?thesis
    by (auto simp: translate_frame_def counted_def option_list_def translate_all_def count_event_def
        translate_event_frame_def check_state_size_def queue_step_def for_each_Cons case_prod_unfold Let_def
        split: if_splits)
qed

lemma translate_run_goes_on:
  "run_frames E (translate_driver E L up client) fs c = (c', GoOn) \<Longrightarrow>
   core_state c' = fst (translate_all E up client (List.map_filter (parse_sse_event_json E) fs) (core_state c))
   \<and> output_queue c' = output_queue c
       @ snd (translate_all E up client (List.map_filter (parse_sse_event_json E) fs) (core_state c))"
proof (induction fs arbitrary: c)
  case Nil
  then show ?case by (simp add: translate_all_def)
next
  case (Cons f fs)
  obtain c1 fl where f: "translate_frame E L up client f (parse_sse_event_json E f) c = (c1, fl)" by fastforce
  with Cons.prems have fl: "fl = GoOn"
    and rest: "run_frames E (translate_driver E L up client) fs c1 = (c', GoOn)"
    by (cases fl; simp add: translate_driver_def)+
  have cons: "translate_all E up client (List.map_filter (parse_sse_event_json E) (f # fs)) =
      run_steps [translate_all E up client (option_list (parse_sse_event_json E f)),
                 translate_all E up client (List.map_filter (parse_sse_event_json E) fs)]"
    by (cases "parse_sse_event_json E f")
      (auto simp: translate_all_def option_list_def map_filter_simps for_each_Cons case_prod_unfold Let_def)
  show ?case
    using translate_frame_goes_on [OF f [unfolded fl]] Cons.IH [OF rest]
    unfolding cons by (simp add: case_prod_unfold Let_def)
qed

text \<open>
  C6. While a translating stream is open, its state and its queue are exactly what translating the
  events of the complete frames received so far gives, one after the other and in order: no event is
  lost, repeated or handled twice, and bytes of an incomplete frame have no effect.
\<close>

theorem open_stream_translates_every_event:
  assumes "push_chunk E (translate_driver E L up client) xs ([], new_translate_core s) = (buf, c)"
    and "\<not> close_after_output c"
  shows "(core_state c, output_queue c) = translate_all E up client (events_in E xs) s"
proof -
  have "run_frames E (translate_driver E L up client) (fst (split_frames xs)) (new_translate_core s) = (c, GoOn)"
    using translated.push_runs [where E = E and xs = xs and c = "new_translate_core s"] assms by simp
  from translate_run_goes_on [OF this] show ?thesis
    by (simp add: events_in_def new_translate_core_def prod_eq_iff)
qed

definition done_bytes :: string where
  "done_bytes = ''data: [DONE]'' @ [nl, nl]"

theorem open_stream_translates_every_event_witness:
  "(default_state, [done_frame]) =
     translate_all example_env OpenAiChatCompletions OpenAiChatCompletions
       (events_in example_env done_bytes) default_state"
proof -
  let ?d = "translate_driver example_env small_limits OpenAiChatCompletions OpenAiChatCompletions"
  have cut: "sse_frame_end done_bytes = Some 14" "sse_frame_end [] = None"
    and parse: "parse_sse_event_json example_env done_bytes = Some done_event" "is_done_event done_event"
    and ty: "\<not> type_contains_artifact done_bytes" and len: "length done_bytes = 14" "done_bytes \<noteq> []"
    by code_simp+
  let ?c = "(new_translate_core default_state)\<lparr>events_seen := 1, output_queue := [done_frame]\<rparr>"
  have state: "fatal_rejection default_state = None" by (simp add: default_state_def)
  have event: "translate_sse_event example_env OpenAiChatCompletions OpenAiChatCompletions done_event
      default_state = (default_state, [done_frame])"
    by (simp add: translate_sse_event_def reading_def state pass_event_def parse(2) emit_def)
  have "translate_frame example_env small_limits OpenAiChatCompletions OpenAiChatCompletions done_bytes
      (Some done_event) (new_translate_core default_state) = (?c, GoOn)"
    by (simp add: translate_frame_def counted_def ty translate_event_frame_def queue_step_def event state
      check_state_size_def state_too_large_def default_state_is_small too_many_events_def count_event_def
      new_translate_core_def sat_add_def u64_max_def small_limits_def Let_def)
  then have "drain_frames example_env ?d (done_bytes, new_translate_core default_state) = ([], ?c)"
    by (simp add: drain_frames_def drain_loop.simps read_one_sse_frame_def cut parse(1) len(1)
      translate_driver_def drop_sse_prefix_def)
  then have "push_chunk example_env ?d done_bytes ([], new_translate_core default_state) = ([], ?c)"
    using push_small [of "new_translate_core default_state" "[]" done_bytes ?d example_env] len
    by (simp add: translate_driver_def small_limits_def new_translate_core_def full_check_def)
  from open_stream_translates_every_event [OF this] show ?thesis
    by (simp add: new_translate_core_def)
qed

end
