(* ===== verification/Stream_Ends.thy ===== *)
theory Stream_Ends
  imports Stream_Driver
begin

text \<open>
  Both SSE streams end: once a timer has expired, or once the stream is closed for another reason, a
  number of polls that is known beforehand reaches the end, whatever the upstream does
  (src/src/streaming/stream.rs).
\<close>

section \<open>Polling on\<close>

text \<open>The answers of successive polls; each poll has its own ticks.\<close>

fun polls :: "env \<Rightarrow> 'a driver \<Rightarrow> tick list list \<Rightarrow> 'a buffered \<Rightarrow> poll_result list" where
  "polls E d [] bc = []"
| "polls E d (ts # tss) bc = (case poll_next E d ts bc of (r, _, bc') \<Rightarrow> r # polls E d tss bc')"

definition pending_frames :: "'a sse_core_scheme \<Rightarrow> frame list" where
  "pending_frames c = drop (output_pos c) (output_queue c)"

definition items :: "env \<Rightarrow> frame list \<Rightarrow> poll_result list" where
  "items E fs = map (\<lambda>f. Item (frame_bytes E f)) fs"

text \<open>The frames, then the end for as long as it is polled.\<close>

definition then_end :: "env \<Rightarrow> frame list \<Rightarrow> nat \<Rightarrow> poll_result list" where
  "then_end E fs n = take n (items E fs @ replicate n EndOfStream)"

lemma then_end_simps:
  "then_end E fs 0 = []" "then_end E [] n = replicate n EndOfStream"
  "then_end E (f # fs) (Suc n) = Item (frame_bytes E f) # then_end E fs n"
  by (simp_all add: then_end_def items_def take_Cons' replicate_append_same [symmetric])

lemma take_output_None: "take_output c = None \<longleftrightarrow> pending_frames c = []"
  by (auto simp: take_output_def pending_frames_def Let_def)

lemma take_output_Some:
  assumes "take_output c = Some (f, c')"
  shows "pending_frames c = f # pending_frames c'" and "close_after_output c' = close_after_output c"
proof -
  have "output_pos c < length (output_queue c)" using assms by (simp add: take_output_def split: if_splits)
  from Cons_nth_drop_Suc [OF this]
  have "drop (output_pos c) (output_queue c) = output_queue c ! output_pos c # drop (Suc (output_pos c)) (output_queue c)"
    by simp
  then show "pending_frames c = f # pending_frames c'"
    using assms by (auto simp: take_output_def pending_frames_def Let_def split: if_splits)
  show "close_after_output c' = close_after_output c"
    using assms by (auto simp: take_output_def Let_def split: if_splits)
qed

lemma closed_polls:
  "close_after_output c \<Longrightarrow> polls E d tss (buf, c) = then_end E (pending_frames c) (length tss)"
proof (induction tss arbitrary: c)
  case (Cons ts tss)
  show ?case
  proof (cases "take_output c")
    case None
    then have "poll_next E d ts (buf, c) = (EndOfStream, ts, (buf, c))"
      using Cons.prems by (subst poll_next.simps) simp
    then show ?thesis using Cons None by (simp add: take_output_None then_end_simps)
  next
    case (Some fc)
    obtain f c' where fc: "fc = (f, c')" by fastforce
    note out = take_output_Some [OF Some [unfolded fc]]
    have "poll_next E d ts (buf, c) = (Item (frame_bytes E f), ts, (buf, c'))"
      by (subst poll_next.simps) (simp add: Some fc)
    then show ?thesis using Cons out by (simp add: then_end_simps)
  qed
qed (simp add: then_end_simps)

text \<open>The state after the pending frames were taken.\<close>

definition taken :: "'a sse_core_scheme \<Rightarrow> 'a sse_core_scheme" where
  "taken c = (if pending_frames c = [] then c else c\<lparr>output_queue := [], output_pos := 0\<rparr>)"

lemma taken_Some: "take_output c = Some (f, c') \<Longrightarrow> taken c' = taken c"
  by (auto simp: take_output_def taken_def pending_frames_def Let_def split: if_splits)

definition expired :: "stream_resource_limit \<Rightarrow> tick list \<Rightarrow> bool" where
  "expired l ts = (case ts of TimerExpired l' # _ \<Rightarrow> l' = l | _ \<Rightarrow> False)"

text \<open>What the client still gets: what waits, then what the limit adds to an open stream.\<close>

definition last_frames :: "'a driver \<Rightarrow> stream_resource_limit \<Rightarrow> 'a sse_core_scheme \<Rightarrow> frame list" where
  "last_frames d l c = pending_frames c
     @ (if close_after_output c then [] else pending_frames (drv_limit d l (taken c)))"

context sse_driver
begin

lemma expired_polls:
  assumes "list_all (expired l) tss" and "\<not> close_after_output c"
  shows "polls E d tss (buf, c)
    = then_end E (pending_frames c @ pending_frames (drv_limit d l (taken c))) (length tss)"
  using assms
proof (induction tss arbitrary: c)
  case (Cons ts tss)
  obtain rest where ts: "ts = TimerExpired l # rest"
    using Cons.prems(1) by (auto simp: expired_def split: list.splits tick.splits)
  show ?case
  proof (cases "take_output c")
    case (Some fc)
    obtain f c' where fc: "fc = (f, c')" by fastforce
    note out = take_output_Some [OF Some [unfolded fc]]
    have "poll_next E d ts (buf, c) = (Item (frame_bytes E f), ts, (buf, c'))"
      by (subst poll_next.simps) (simp add: Some fc)
    then show ?thesis
      using Cons.IH [of c'] Cons.prems out taken_Some [OF Some [unfolded fc]] by (simp add: then_end_simps)
  next
    case None
    then have taken: "taken c = c" and empty: "pending_frames c = []" by (simp_all add: take_output_None taken_def)
    have "poll_next E d ts (buf, c) = poll_next E d rest ([], drv_limit d l c)"
      using None Cons.prems(2) by (subst poll_next.simps) (simp add: ts)
    then have "polls E d (ts # tss) (buf, c) = polls E d (rest # tss) ([], drv_limit d l c)" by simp
    also have "\<dots> = then_end E (pending_frames (drv_limit d l c)) (length (rest # tss))"
      by (rule closed_polls) (rule limit_closes)
    finally show ?thesis by (simp add: taken empty)
  qed
qed (simp add: then_end_simps)

lemma ends: "list_all (expired l) tss \<Longrightarrow> polls E d tss (buf, c) = then_end E (last_frames d l c) (length tss)"
  using closed_polls [of c E d tss buf] expired_polls [of l tss c E buf] by (simp add: last_frames_def)

end

section \<open>The two streams end\<close>

text \<open>
  C8. Once a timer of the stream has expired, polling either stream gives the frames that wait and the
  frames of the refusal, and then the end at every further poll: no upstream can keep the stream alive.
\<close>

theorem expired_stream_ends:
  assumes "list_all (expired l) tss"
  shows "polls E (translate_driver E L up client) tss (buf, c)
      = then_end E (last_frames (translate_driver E L up client) l c) (length tss)
    \<and> polls E (guarded_driver E L client) tss (buf', c')
      = then_end E (last_frames (guarded_driver E L client) l c') (length tss)"
  by (intro conjI translated.ends guarded.ends assms)

theorem expired_stream_ends_witness:
  "polls example_env (translate_driver example_env small_limits OpenAiChatCompletions Anthropic)
       [[TimerExpired IdleTimeout], [TimerExpired IdleTimeout, Upstream (Chunk (''data: {''))]]
       ([], new_translate_core default_state)
     = then_end example_env (last_frames (translate_driver example_env small_limits OpenAiChatCompletions Anthropic)
         IdleTimeout (new_translate_core default_state)) 2
   \<and> polls example_env (guarded_driver example_env small_limits Anthropic)
       [[TimerExpired IdleTimeout], [TimerExpired IdleTimeout, Upstream (Chunk (''data: {''))]] ([], new_core default_state)
     = then_end example_env (last_frames (guarded_driver example_env small_limits Anthropic)
         IdleTimeout (new_core default_state)) 2"
  using expired_stream_ends [of IdleTimeout
      "[[TimerExpired IdleTimeout], [TimerExpired IdleTimeout, Upstream (Chunk (''data: {''))]]"
      example_env small_limits OpenAiChatCompletions Anthropic "[]" "new_translate_core default_state"
      "[]" "new_core default_state"]
  by (simp add: expired_def numeral_2_eq_2)

end
