(* ===== verification/Request_Json.thy ===== *)
theory Request_Json
  imports Json
begin

text \<open>
  What the request side shares: the places of a JSON body the code edits in place
  (\<open>get_mut\<close>, \<open>as_array_mut\<close>, \<open>entry().or_insert\<close>), the content of a message, and results with
  a value.
\<close>

section \<open>Results with a value\<close>

fun res_bind :: "'e + 'a \<Rightarrow> ('a \<Rightarrow> 'e + 'b) \<Rightarrow> 'e + 'b" where
  "res_bind (Inl e) f = Inl e"
| "res_bind (Inr a) f = f a"

fun res_map :: "('x \<Rightarrow> 'e + 'y) \<Rightarrow> 'x list \<Rightarrow> 'e + 'y list" where
  "res_map f [] = Inr []"
| "res_map f (x # xs) = res_bind (f x) (\<lambda>y. res_bind (res_map f xs) (\<lambda>ys. Inr (y # ys)))"

text \<open>A loop that updates a state and may fail.\<close>

fun res_fold :: "('x \<Rightarrow> 's \<Rightarrow> 'e + 's) \<Rightarrow> 'x list \<Rightarrow> 's \<Rightarrow> 'e + 's" where
  "res_fold f [] s = Inr s"
| "res_fold f (x # xs) s = res_bind (f x s) (res_fold f xs)"

lemma res_bind_Inr: "res_bind r f = Inr y \<longleftrightarrow> (\<exists>x. r = Inr x \<and> f x = Inr y)"
  by (cases r) auto

lemma res_bind_Inl: "res_bind r f = Inl e \<longleftrightarrow> r = Inl e \<or> (\<exists>x. r = Inr x \<and> f x = Inl e)"
  by (cases r) auto

lemma res_map_Inr: "res_map f xs = Inr ys \<longleftrightarrow> list_all2 (\<lambda>x y. f x = Inr y) xs ys"
  by (induction xs arbitrary: ys) (auto simp: res_bind_Inr list_all2_Cons1)

lemma res_map_pure: "(\<And>x. x \<in> set xs \<Longrightarrow> f x = Inr (g x)) \<Longrightarrow> res_map f xs = Inr (map g xs)"
  by (induction xs) auto

lemma res_fold_append: "res_fold f (xs @ ys) s = res_bind (res_fold f xs s) (res_fold f ys)"
proof (induction xs arbitrary: s)
  case (Cons x xs)
  then show ?case by (cases "f x s") auto
qed simp

section \<open>Editing in place\<close>

text \<open>\<open>if let Some(x) = v.get_mut(k) { *x = f(x) }\<close>, and the same for an array.\<close>

definition with_field :: "string \<Rightarrow> (json \<Rightarrow> json) \<Rightarrow> json \<Rightarrow> json" where
  "with_field k f v = (case jget v k of None \<Rightarrow> v | Some x \<Rightarrow> jset k (f x) v)"

definition with_array :: "string \<Rightarrow> (json list \<Rightarrow> json list) \<Rightarrow> json \<Rightarrow> json" where
  "with_array k f v = (case jget_array v k of None \<Rightarrow> v | Some xs \<Rightarrow> jset k (JArr (f xs)) v)"

text \<open>\<open>if let Some(obj) = v.as_object_mut() { obj.insert(k, x) }\<close>\<close>

definition jinsert :: "string \<Rightarrow> json \<Rightarrow> json \<Rightarrow> json" where
  "jinsert k x v = (if is_object v then jset k x v else v)"

text \<open>\<open>entry(k).or_insert(x)\<close> of an object.\<close>

definition or_insert :: "string \<Rightarrow> json \<Rightarrow> json \<Rightarrow> json" where
  "or_insert k x v = (if jget v k = None then jinsert k x v else v)"

text \<open>\<open>obj.remove(k)\<close> of an object.\<close>

definition jremove :: "string \<Rightarrow> json \<Rightarrow> json" where
  "jremove k v = (case v of JObj kvs \<Rightarrow> JObj (filter (\<lambda>(k', _). k' \<noteq> k) kvs) | _ \<Rightarrow> v)"

text \<open>\<open>if let Some(v) = v { result[k] = v }\<close>\<close>

definition set_opt :: "string \<Rightarrow> json option \<Rightarrow> json \<Rightarrow> json" where
  "set_opt k v r = (case v of None \<Rightarrow> r | Some x \<Rightarrow> jset k x r)"

text \<open>\<open>Iterator::find_map\<close>.\<close>

fun find_map :: "('a \<Rightarrow> 'b option) \<Rightarrow> 'a list \<Rightarrow> 'b option" where
  "find_map f [] = None"
| "find_map f (x # xs) = (case f x of Some y \<Rightarrow> Some y | None \<Rightarrow> find_map f xs)"

definition array_at :: "json \<Rightarrow> string \<Rightarrow> json list" where
  "array_at v k = unwrap_or (jget_array v k) []"

lemma omap_insert_twice [simp]: "omap_insert k x (omap_insert k y m) = omap_insert k x m"
  by (induction m) auto

lemma jset_twice [simp]: "jset k x (jset k y v) = jset k x v"
  by (cases v) auto

lemma jget_Some_object: "jget v k = Some x \<Longrightarrow> is_object v"
  by (cases v) auto

lemma jget_array_Some: "jget_array v k = Some xs \<longleftrightarrow> jget v k = Some (JArr xs)"
  by (cases "jget v k") (simp_all add: jget_array_def)

lemma jget_str_Some: "jget_str v k = Some s \<longleftrightarrow> jget v k = Some (JStr s)"
  by (cases "jget v k") (simp_all add: jget_str_def)

lemma jget_jset_Some [simp]:
  "jget v k = Some y \<Longrightarrow> jget (jset k x v) k' = (if k' = k then Some x else jget v k')"
  by (simp add: jget_Some_object)

lemma jget_with_field:
  "jget (with_field k f v) k' = (if k' = k then map_option f (jget v k) else jget v k')"
  by (simp add: with_field_def split: option.split)

lemma jget_with_array_other [simp]: "k' \<noteq> k \<Longrightarrow> jget (with_array k f v) k' = jget v k'"
  by (auto simp: with_array_def jget_array_Some split: option.split)

lemma jget_array_with_array [simp]: "jget_array (with_array k f v) k = map_option f (jget_array v k)"
proof (cases "jget_array v k")
  case (Some xs)
  then have "jget v k = Some (JArr xs)" by (simp add: jget_array_Some)
  then show ?thesis by (simp add: with_array_def jget_array_def)
qed (simp add: with_array_def)

lemma with_array_fun: "with_array k f (with_array k g v) = with_array k (f \<circ> g) v"
proof (cases "jget_array v k")
  case (Some xs)
  then have "jget_array (with_array k g v) k = Some (g xs)" by simp
  then show ?thesis using Some by (simp add: with_array_def)
qed (simp add: with_array_def)

lemma with_array_cong: "(\<And>xs. jget_array v k = Some xs \<Longrightarrow> f xs = g xs) \<Longrightarrow> with_array k f v = with_array k g v"
  by (simp add: with_array_def split: option.split)

lemma with_array_other: "jget_array v k = None \<Longrightarrow> with_array k f v = v"
  by (simp add: with_array_def)

lemma array_at_with_array: "f [] = [] \<Longrightarrow> array_at (with_array k f v) k = f (array_at v k)"
  by (cases "jget_array v k") (simp_all add: array_at_def)

lemma is_object_jinsert [simp]: "is_object (jinsert k x v) = is_object v"
  by (simp add: jinsert_def)

lemma is_object_or_insert [simp]: "is_object (or_insert k x v) = is_object v"
  by (simp add: or_insert_def)

lemma jget_jinsert:
  "jget (jinsert k x v) k' = (if k' = k \<and> is_object v then Some x else jget v k')"
  by (auto simp: jinsert_def)

lemma jget_or_insert:
  "jget (or_insert k x v) k' = (if k' = k \<and> is_object v \<and> jget v k = None then Some x else jget v k')"
  by (auto simp: or_insert_def jget_jinsert)

lemma map_of_filter_key: "map_of (filter (\<lambda>(k', _). k' \<noteq> k) kvs) k' = (if k' = k then None else map_of kvs k')"
  by (induction kvs) auto

lemma jget_jremove [simp]: "jget (jremove k v) k' = (if k' = k then None else jget v k')"
  by (cases v) (simp_all add: jremove_def map_of_filter_key)

lemma is_object_jremove [simp]: "is_object (jremove k v) = is_object v"
  by (cases v) (simp_all add: jremove_def)

lemma is_object_set_opt [simp]: "is_object v \<Longrightarrow> is_object (set_opt k x v)"
  by (cases x) (simp_all add: set_opt_def)

lemma jget_set_opt [simp]:
  "is_object v \<Longrightarrow> jget (set_opt k x v) k' = (if k' = k \<and> x \<noteq> None then x else jget v k')"
  by (cases x) (auto simp: set_opt_def)

lemma find_map_None: "find_map f xs = None \<longleftrightarrow> (\<forall>x \<in> set xs. f x = None)"
  by (induction xs) (auto split: option.split)

lemma find_map_Some: "find_map f xs = Some y \<Longrightarrow> \<exists>x \<in> set xs. f x = Some y"
  by (induction xs) (auto split: option.splits)

section \<open>Roles and contents of messages\<close>

abbreviation role_of :: "json \<Rightarrow> string option" where
  "role_of m \<equiv> jget_str m ''role''"

abbreviation type_of :: "json \<Rightarrow> string option" where
  "type_of v \<equiv> jget_str v ''type''"

text \<open>The content blocks of a message: the elements of an array, or the object itself.\<close>

definition content_blocks :: "json option \<Rightarrow> json list" where
  "content_blocks content = (case content of
      Some (JArr blocks) \<Rightarrow> blocks
    | Some (JObj kvs) \<Rightarrow> [JObj kvs]
    | _ \<Rightarrow> [])"

abbreviation blocks_of :: "json \<Rightarrow> json list" where
  "blocks_of m \<equiv> content_blocks (jget m ''content'')"

text \<open>\<open>and_then(Value::as_str).map(str::trim).filter(|s| !s.is_empty())\<close>\<close>

definition trimmed_str :: "json \<Rightarrow> string \<Rightarrow> string option" where
  "trimmed_str v k = (case jget_str v k of
      None \<Rightarrow> None | Some s \<Rightarrow> if trim s = [] then None else Some (trim s))"

end
