(* ===== verification/Context_Edits.thy ===== *)
theory Context_Edits
  imports Request_Json
begin

text \<open>
  The context management of Anthropic requests that go to an OpenAI-family upstream
  (\<open>src/translate/internal.rs\<close>, \<open>apply_anthropic_context_management_request_edits\<close>): old thinking
  blocks and old tool interactions are cleared from the messages before they are translated.
\<close>

section \<open>Clearing thinking\<close>

datatype anthropic_thinking_keep = KeepAll | RecentTurns nat

definition anthropic_clear_thinking_keep_from_edit :: "json \<Rightarrow> string + anthropic_thinking_keep" where
  "anthropic_clear_thinking_keep_from_edit edit =
     (let bad = Inl ''clear_thinking_20251015.keep must be `all` or `{type:\"thinking_turns\", value:N}`''
      in case jget edit ''keep'' of
        None \<Rightarrow> Inr (RecentTurns 1)
      | Some (JStr value) \<Rightarrow> if value = ''all'' then Inr KeepAll else bad
      | Some (JObj kvs) \<Rightarrow>
          if type_of (JObj kvs) = Some ''thinking_turns''
          then (case jget_u64 (JObj kvs) ''value'' of
              Some n \<Rightarrow> if 0 < n then Inr (RecentTurns n)
                else Inl ''clear_thinking_20251015.keep.value must be a positive integer''
            | None \<Rightarrow> Inl ''clear_thinking_20251015.keep.value must be a positive integer'')
          else bad
      | _ \<Rightarrow> bad)"

definition anthropic_block_is_thinking :: "json \<Rightarrow> bool" where
  "anthropic_block_is_thinking block = (type_of block = Some ''thinking'')"

definition anthropic_content_has_thinking_block :: "json option \<Rightarrow> bool" where
  "anthropic_content_has_thinking_block content = (case content of
      Some (JArr blocks) \<Rightarrow> list_ex anthropic_block_is_thinking blocks
    | Some (JObj kvs) \<Rightarrow> anthropic_block_is_thinking (JObj kvs)
    | _ \<Rightarrow> False)"

definition remove_anthropic_thinking_blocks_from_message :: "json \<Rightarrow> json" where
  "remove_anthropic_thinking_blocks_from_message = with_field ''content'' (\<lambda>content. case content of
      JArr blocks \<Rightarrow> JArr (filter (\<lambda>b. \<not> anthropic_block_is_thinking b) blocks)
    | JObj kvs \<Rightarrow> if anthropic_block_is_thinking (JObj kvs) then JArr [] else content
    | _ \<Rightarrow> content)"

definition is_thinking_turn :: "json \<Rightarrow> bool" where
  "is_thinking_turn message = (role_of message = Some ''assistant''
     \<and> anthropic_content_has_thinking_block (jget message ''content''))"

definition clear_thinking :: "nat \<Rightarrow> json list \<Rightarrow> json list" where
  "clear_thinking keep_turns messages =
     (let turns = map fst (filter (\<lambda>(_, m). is_thinking_turn m) (enumerate 0 messages));
          keep = set (take keep_turns (rev turns))
      in map (\<lambda>(i, m). if i \<in> keep then m else remove_anthropic_thinking_blocks_from_message m)
           (enumerate 0 messages))"

definition apply_anthropic_clear_thinking_edit :: "json \<Rightarrow> anthropic_thinking_keep \<Rightarrow> json" where
  "apply_anthropic_clear_thinking_edit body keep = (case keep of
      KeepAll \<Rightarrow> body
    | RecentTurns n \<Rightarrow> with_array ''messages'' (clear_thinking n) body)"

section \<open>Clearing tool interactions\<close>

record tool_clear_options =
  keep_tool_uses :: nat
  clear_tool_inputs :: bool
  exclude_tools :: "string list"

definition anthropic_clear_tool_uses_options_from_edit :: "json \<Rightarrow> string + tool_clear_options" where
  "anthropic_clear_tool_uses_options_from_edit edit =
     (let keep = unwrap_or (case jget edit ''keep'' of
            Some (JObj kvs) \<Rightarrow>
              if type_of (JObj kvs) = Some ''tool_uses'' then jget_u64 (JObj kvs) ''value'' else None
          | _ \<Rightarrow> None) 3
      in if keep = 0 then Inl ''clear_tool_uses_20250919.keep.value must be positive''
         else Inr \<lparr>keep_tool_uses = keep,
                   clear_tool_inputs = unwrap_or (jget_bool edit ''clear_tool_inputs'') False,
                   exclude_tools = filter (\<lambda>t. t \<noteq> []) (map trim
                     (List.map_filter as_str (unwrap_or (jget_array edit ''exclude_tools'') [])))\<rparr>)"

record tool_interaction =
  ti_id :: string
  ti_name :: "string option"

definition is_tool_result :: "json \<Rightarrow> bool" where
  "is_tool_result block = (type_of block = Some ''tool_result'')"

definition is_tool_use :: "json \<Rightarrow> bool" where
  "is_tool_use block = (type_of block \<in> {Some ''tool_use'', Some ''server_tool_use''})"

definition result_ids :: "json list \<Rightarrow> string set" where
  "result_ids messages = set (concat (map (\<lambda>m. List.map_filter
     (\<lambda>b. if is_tool_result b then trimmed_str b ''tool_use_id'' else None) (blocks_of m)) messages))"

definition tool_use_of :: "json \<Rightarrow> tool_interaction option" where
  "tool_use_of block =
     (if is_tool_use block
      then map_option (\<lambda>i. \<lparr>ti_id = i, ti_name = trimmed_str block ''name''\<rparr>) (trimmed_str block ''id'')
      else None)"

definition tool_uses :: "json \<Rightarrow> tool_interaction list" where
  "tool_uses message =
     (if role_of message = Some ''assistant'' then List.map_filter tool_use_of (blocks_of message) else [])"

definition paired_interactions :: "json list \<Rightarrow> tool_interaction list" where
  "paired_interactions messages =
     filter (\<lambda>t. ti_id t \<in> result_ids messages) (concat (map tool_uses messages))"

definition anthropic_paired_tool_interactions :: "json \<Rightarrow> tool_interaction list" where
  "anthropic_paired_tool_interactions body =
     (case jget_array body ''messages'' of None \<Rightarrow> [] | Some ms \<Rightarrow> paired_interactions ms)"

definition anthropic_tool_block_matches_clear_ids :: "string \<Rightarrow> string set \<Rightarrow> json \<Rightarrow> bool" where
  "anthropic_tool_block_matches_clear_ids role clear_ids block =
     (if is_tool_use block \<and> role = ''assistant''
      then (case jget_str block ''id'' of None \<Rightarrow> False | Some i \<Rightarrow> trim i \<in> clear_ids)
      else if is_tool_result block
      then (case jget_str block ''tool_use_id'' of None \<Rightarrow> False | Some i \<Rightarrow> trim i \<in> clear_ids)
      else False)"

definition anthropic_message_content_empty_after_context_edit :: "json \<Rightarrow> bool" where
  "anthropic_message_content_empty_after_context_edit message = (case jget message ''content'' of
      Some (JArr blocks) \<Rightarrow> blocks = []
    | Some (JStr text) \<Rightarrow> trim text = []
    | Some JNull \<Rightarrow> True
    | None \<Rightarrow> True
    | _ \<Rightarrow> False)"

text \<open>The message after the edit, and whether it was changed.\<close>

definition remove_from_message :: "string set \<Rightarrow> json \<Rightarrow> json \<times> bool" where
  "remove_from_message clear_ids message =
     (let gone = anthropic_tool_block_matches_clear_ids (unwrap_or (role_of message) []) clear_ids
      in case jget message ''content'' of
        Some (JArr blocks) \<Rightarrow>
          (let kept = filter (\<lambda>b. \<not> gone b) blocks
           in (jset ''content'' (JArr kept) message, length kept \<noteq> length blocks))
      | Some (JObj kvs) \<Rightarrow>
          if gone (JObj kvs) then (jset ''content'' (JArr []) message, True) else (message, False)
      | _ \<Rightarrow> (message, False))"

definition remove_anthropic_tool_interactions :: "string set \<Rightarrow> json \<Rightarrow> json" where
  "remove_anthropic_tool_interactions clear_ids = with_array ''messages'' (\<lambda>messages.
     map fst (filter (\<lambda>(m, changed). \<not> changed \<or> \<not> anthropic_message_content_empty_after_context_edit m)
       (map (remove_from_message clear_ids) messages)))"

definition cleared_placeholder :: json where
  "cleared_placeholder = JStr ''[tool result cleared by context_management.clear_tool_uses_20250919]''"

definition replace_anthropic_tool_result_if_cleared :: "string set \<Rightarrow> json \<Rightarrow> json" where
  "replace_anthropic_tool_result_if_cleared clear_ids block =
     (if \<not> is_tool_result block then block
      else (case jget_str block ''tool_use_id'' of
          None \<Rightarrow> block
        | Some i \<Rightarrow> if trim i \<in> clear_ids then jset ''content'' cleared_placeholder block else block))"

definition replace_in_message :: "string set \<Rightarrow> json \<Rightarrow> json" where
  "replace_in_message clear_ids = with_field ''content'' (\<lambda>content. case content of
      JArr blocks \<Rightarrow> JArr (map (replace_anthropic_tool_result_if_cleared clear_ids) blocks)
    | JObj kvs \<Rightarrow> replace_anthropic_tool_result_if_cleared clear_ids (JObj kvs)
    | _ \<Rightarrow> content)"

definition replace_anthropic_tool_results_with_context_cleared_placeholder ::
    "string set \<Rightarrow> json \<Rightarrow> json" where
  "replace_anthropic_tool_results_with_context_cleared_placeholder clear_ids =
     with_array ''messages'' (map (replace_in_message clear_ids))"

definition eligible_interactions :: "tool_clear_options \<Rightarrow> json \<Rightarrow> tool_interaction list" where
  "eligible_interactions options body =
     filter (\<lambda>t. case ti_name t of None \<Rightarrow> True | Some n \<Rightarrow> trim n \<notin> set (exclude_tools options))
       (anthropic_paired_tool_interactions body)"

definition apply_anthropic_clear_tool_uses_edit :: "json \<Rightarrow> tool_clear_options \<Rightarrow> json" where
  "apply_anthropic_clear_tool_uses_edit body options =
     (let eligible = eligible_interactions options body;
          clear_count = length eligible - keep_tool_uses options;
          clear_ids = set (map ti_id (take clear_count eligible))
      in if clear_count = 0 then body
         else if clear_tool_inputs options then remove_anthropic_tool_interactions clear_ids body
         else replace_anthropic_tool_results_with_context_cleared_placeholder clear_ids body)"

section \<open>All edits of a request\<close>

definition apply_edit :: "json \<Rightarrow> json \<Rightarrow> string + json" where
  "apply_edit edit body = (case type_of edit of
      None \<Rightarrow> Inl ''Anthropic context_management edits require a string `type` field''
    | Some ty \<Rightarrow>
        if ty = ''clear_thinking_20251015'' then
          res_bind (anthropic_clear_thinking_keep_from_edit edit)
            (\<lambda>keep. Inr (apply_anthropic_clear_thinking_edit body keep))
        else if ty = ''clear_tool_uses_20250919'' then
          res_bind (anthropic_clear_tool_uses_options_from_edit edit)
            (\<lambda>options. Inr (apply_anthropic_clear_tool_uses_edit body options))
        else Inl (''Anthropic context_management edit `'' @ ty
          @ ''` cannot be translated to OpenAI-family targets''))"

definition apply_anthropic_context_management_request_edits :: "json \<Rightarrow> string + json" where
  "apply_anthropic_context_management_request_edits body =
     res_fold apply_edit
       (unwrap_or (Option.bind (ogetj (jget body ''context_management'') ''edits'') as_array) []) body"

section \<open>What clearing thinking keeps\<close>

text \<open>The edit without indices: a turn is kept when fewer than the allowed number follow it.\<close>

fun keep_recent :: "nat \<Rightarrow> json list \<Rightarrow> json list" where
  "keep_recent n [] = []"
| "keep_recent n (m # ms) =
     (if is_thinking_turn m \<and> length (filter is_thinking_turn ms) < n then m
      else remove_anthropic_thinking_blocks_from_message m) # keep_recent n ms"

definition turn_indices :: "nat \<Rightarrow> json list \<Rightarrow> nat list" where
  "turn_indices k ms = map fst (filter (\<lambda>(_, m). is_thinking_turn m) (enumerate k ms))"

lemma turn_indices_simps [simp]:
  "turn_indices k [] = []"
  "turn_indices k (m # ms) = (if is_thinking_turn m then [k] else []) @ turn_indices (Suc k) ms"
  by (simp_all add: turn_indices_def)

lemma length_turn_indices [simp]: "length (turn_indices k ms) = length (filter is_thinking_turn ms)"
  by (induction ms arbitrary: k) auto

lemma turn_indices_ge: "i \<in> set (turn_indices k ms) \<Longrightarrow> k \<le> i"
  by (induction ms arbitrary: k) (auto split: if_splits dest: Suc_leD)

lemma recent_index_ge: "i \<in> set (take n (rev (turn_indices k ms))) \<Longrightarrow> k \<le> i"
  by (drule in_set_takeD) (simp add: turn_indices_ge)

lemma kept_by_index:
  "map (\<lambda>(i, m). if i \<in> set (take n (rev (turn_indices k ms))) then m
       else remove_anthropic_thinking_blocks_from_message m) (enumerate k ms) = keep_recent n ms"
proof (induction ms arbitrary: k)
  case (Cons m ms)
  have ge: "Suc k \<le> i" if "(i, x) \<in> set (enumerate (Suc k) ms)" for i x
    using that by (auto simp: in_set_enumerate_eq)
  then have rest: "map (\<lambda>(i, m'). if i \<in> set (take n (rev (turn_indices k (m # ms)))) then m'
       else remove_anthropic_thinking_blocks_from_message m') (enumerate (Suc k) ms) = keep_recent n ms"
    unfolding Cons.IH [of "Suc k", symmetric]
    by (intro map_cong refl) (auto simp: take_Cons' split: if_splits dest: ge)
  have "k \<notin> set (take n (rev (turn_indices (Suc k) ms)))" using recent_index_ge by fastforce
  then have "k \<in> set (take n (rev (turn_indices k (m # ms))))
      \<longleftrightarrow> is_thinking_turn m \<and> length (filter is_thinking_turn ms) < n"
    by (auto simp: take_Cons')
  with rest show ?case by simp
qed simp

lemma clear_thinking_recent: "clear_thinking n ms = keep_recent n ms"
  using kept_by_index [of n 0 ms] by (simp add: clear_thinking_def turn_indices_def)

lemma removed_not_thinking: "\<not> is_thinking_turn (remove_anthropic_thinking_blocks_from_message m)"
  by (auto simp: is_thinking_turn_def remove_anthropic_thinking_blocks_from_message_def jget_with_field
      anthropic_content_has_thinking_block_def list_ex_iff split: option.splits json.splits)

lemma recent_turns: "filter is_thinking_turn (keep_recent n ms)
    = drop (length (filter is_thinking_turn ms) - n) (filter is_thinking_turn ms)"
  by (induction ms) (auto simp: removed_not_thinking Suc_diff_le not_less)

text \<open>The rest of a message: its role, its text, and its blocks that are not thinking.\<close>

definition without_thinking :: "json \<Rightarrow> string option \<times> string option \<times> json list" where
  "without_thinking m = (role_of m, jget_str m ''content'',
     filter (\<lambda>b. \<not> anthropic_block_is_thinking b) (blocks_of m))"

lemma removed_keeps_rest: "without_thinking (remove_anthropic_thinking_blocks_from_message m) = without_thinking m"
  by (auto simp: without_thinking_def remove_anthropic_thinking_blocks_from_message_def jget_with_field
      content_blocks_def jget_str_def split: option.splits json.splits)

lemma recent_keeps_rest: "map without_thinking (keep_recent n ms) = map without_thinking ms"
  by (induction ms) (auto simp: removed_keeps_rest)

text \<open>C13.
  Clearing thinking keeps the thinking of the most recent turns, as many as the request asks for, and
  of no other message; the messages keep their number and order, their roles, texts and all other
  blocks.\<close>

theorem clear_thinking_keeps_recent_turns:
  "let before = array_at body ''messages'';
       after = array_at (apply_anthropic_clear_thinking_edit body (RecentTurns n)) ''messages'';
       turns = filter is_thinking_turn before
   in filter is_thinking_turn after = drop (length turns - n) turns
      \<and> map without_thinking after = map without_thinking before"
proof -
  have "array_at (apply_anthropic_clear_thinking_edit body (RecentTurns n)) ''messages''
      = keep_recent n (array_at body ''messages'')"
    by (simp add: apply_anthropic_clear_thinking_edit_def array_at_with_array clear_thinking_recent)
  then show ?thesis by (simp add: recent_turns recent_keeps_rest)
qed

section \<open>What clearing tool interactions keeps\<close>

definition block_stays :: "string \<Rightarrow> string set \<Rightarrow> json \<Rightarrow> bool" where
  "block_stays role ids b = (\<not> anthropic_tool_block_matches_clear_ids role ids b)"

definition without_interactions :: "string set \<Rightarrow> json list \<Rightarrow> json list" where
  "without_interactions ids messages =
     map fst (filter (\<lambda>(m, changed). \<not> changed \<or> \<not> anthropic_message_content_empty_after_context_edit m)
       (map (remove_from_message ids) messages))"

lemma removed_message:
  "blocks_of (fst (remove_from_message ids m))
     = filter (block_stays (unwrap_or (role_of m) []) ids) (blocks_of m)"
  "role_of (fst (remove_from_message ids m)) = role_of m"
  by (auto simp: remove_from_message_def content_blocks_def block_stays_def [abs_def] Let_def jget_str_def
      split: option.splits json.splits)

lemma empty_content: "anthropic_message_content_empty_after_context_edit m \<Longrightarrow> blocks_of m = []"
  by (auto simp: anthropic_message_content_empty_after_context_edit_def content_blocks_def
      split: option.splits json.splits)

text \<open>
  A quantity that is read off the blocks and the role of each message, and is empty for a message
  without blocks, is not changed by dropping the emptied messages.
\<close>

lemma concat_without_interactions:
  assumes "\<And>m. blocks_of m = [] \<Longrightarrow> f m = []"
  shows "concat (map f (without_interactions ids ms))
    = concat (map (\<lambda>m. f (fst (remove_from_message ids m))) ms)"
  using assms by (induction ms) (auto simp: without_interactions_def empty_content case_prod_unfold)

text \<open>The blocks of the conversation with the role that sent them.\<close>

definition entries :: "json list \<Rightarrow> (string option \<times> json) list" where
  "entries ms = concat (map (\<lambda>m. map (Pair (role_of m)) (blocks_of m)) ms)"

definition entry_stays :: "string set \<Rightarrow> string option \<times> json \<Rightarrow> bool" where
  "entry_stays ids = (\<lambda>(r, b). block_stays (unwrap_or r []) ids b)"

definition use_of_entry :: "string option \<times> json \<Rightarrow> tool_interaction option" where
  "use_of_entry = (\<lambda>(r, b). if r = Some ''assistant'' then tool_use_of b else None)"

definition result_of_entry :: "string option \<times> json \<Rightarrow> string option" where
  "result_of_entry = (\<lambda>(r, b). if is_tool_result b then trimmed_str b ''tool_use_id'' else None)"

lemma entries_without: "entries (without_interactions ids ms) = filter (entry_stays ids) (entries ms)"
  unfolding entries_def
  by (subst concat_without_interactions)
    (simp_all add: removed_message filter_concat comp_def filter_map entry_stays_def)

lemma map_filter_append: "List.map_filter f (xs @ ys) = List.map_filter f xs @ List.map_filter f ys"
  by (simp add: List.map_filter_def)

lemma tool_uses_entries: "concat (map tool_uses ms) = List.map_filter use_of_entry (entries ms)"
proof (induction ms)
  case (Cons m ms)
  have "tool_uses m = List.map_filter use_of_entry (map (Pair (role_of m)) (blocks_of m))"
    by (simp add: tool_uses_def List.map_filter_def use_of_entry_def filter_map comp_def)
  with Cons show ?case by (simp add: entries_def map_filter_append)
qed (simp add: entries_def List.map_filter_def)

lemma in_map_filter: "i \<in> set (List.map_filter f xs) \<longleftrightarrow> (\<exists>x \<in> set xs. f x = Some i)"
  by (induction xs) (auto split: option.split)

lemma result_ids_entries: "result_ids ms = {i. \<exists>e \<in> set (entries ms). result_of_entry e = Some i}"
  by (simp add: result_ids_def entries_def result_of_entry_def in_map_filter set_eq_iff bex_UN)

lemma trimmed_Some: "trimmed_str v k = Some i \<longleftrightarrow> (\<exists>s. jget_str v k = Some s \<and> trim s = i \<and> i \<noteq> [])"
  by (auto simp: trimmed_str_def split: option.splits)

lemma use_not_result: "is_tool_use b \<Longrightarrow> \<not> is_tool_result b"
  by (auto simp: is_tool_use_def is_tool_result_def)

lemma use_stays: "use_of_entry e = Some t \<Longrightarrow> entry_stays ids e \<longleftrightarrow> ti_id t \<notin> ids"
  by (cases e) (auto simp: use_of_entry_def tool_use_of_def entry_stays_def block_stays_def
      anthropic_tool_block_matches_clear_ids_def trimmed_Some split: if_splits)

lemma result_stays: "result_of_entry e = Some i \<Longrightarrow> entry_stays ids e \<longleftrightarrow> i \<notin> ids"
  by (cases e) (auto simp: result_of_entry_def entry_stays_def block_stays_def
      anthropic_tool_block_matches_clear_ids_def trimmed_Some dest: use_not_result split: if_splits)

lemma map_filter_filter:
  assumes "\<And>e t. e \<in> set es \<Longrightarrow> f e = Some t \<Longrightarrow> P e \<longleftrightarrow> Q t"
  shows "List.map_filter f (filter P es) = filter Q (List.map_filter f es)"
  using assms by (induction es) (auto split: option.split)

lemma paired_without:
  "paired_interactions (without_interactions ids ms) = filter (\<lambda>t. ti_id t \<notin> ids) (paired_interactions ms)"
proof -
  have "List.map_filter use_of_entry (filter (entry_stays ids) (entries ms))
      = filter (\<lambda>t. ti_id t \<notin> ids) (List.map_filter use_of_entry (entries ms))"
    by (rule map_filter_filter) (rule use_stays)
  moreover have "i \<in> result_ids (without_interactions ids ms) \<longleftrightarrow> i \<in> result_ids ms \<and> i \<notin> ids" for i
  proof -
    have "(\<exists>e \<in> set (filter (entry_stays ids) (entries ms)). result_of_entry e = Some i)
        \<longleftrightarrow> (\<exists>e \<in> set (entries ms). result_of_entry e = Some i \<and> entry_stays ids e)"
      unfolding set_filter by blast
    also have "\<dots> \<longleftrightarrow> (\<exists>e \<in> set (entries ms). result_of_entry e = Some i \<and> i \<notin> ids)"
      using result_stays by (intro bex_cong refl conj_cong)
    finally show ?thesis by (simp only: result_ids_entries entries_without mem_Collect_eq) blast
  qed
  ultimately show ?thesis
    by (simp add: paired_interactions_def tool_uses_entries entries_without conj_ac cong: conj_cong)
qed

subsection \<open>The placeholder\<close>

lemma type_of_object: "type_of b = Some ty \<Longrightarrow> is_object b"
  by (simp add: jget_str_Some jget_Some_object)

lemma result_object: "is_tool_result b \<Longrightarrow> is_object b"
  by (simp add: is_tool_result_def type_of_object)

lemma replaced_get:
  "k \<noteq> ''content'' \<Longrightarrow> jget (replace_anthropic_tool_result_if_cleared ids b) k = jget b k"
  by (simp add: replace_anthropic_tool_result_if_cleared_def result_object split: option.split)

lemma replaced_str:
  "k \<noteq> ''content'' \<Longrightarrow> jget_str (replace_anthropic_tool_result_if_cleared ids b) k = jget_str b k"
  by (simp add: jget_str_def replaced_get)

lemma replaced_block:
  "is_tool_result (replace_anthropic_tool_result_if_cleared ids b) = is_tool_result b"
  "is_tool_use (replace_anthropic_tool_result_if_cleared ids b) = is_tool_use b"
  "k \<noteq> ''content'' \<Longrightarrow> trimmed_str (replace_anthropic_tool_result_if_cleared ids b) k = trimmed_str b k"
  "\<not> is_tool_result b \<Longrightarrow> replace_anthropic_tool_result_if_cleared ids b = b"
  by (simp_all add: is_tool_result_def is_tool_use_def trimmed_str_def replaced_str)
    (simp add: replace_anthropic_tool_result_if_cleared_def is_tool_result_def)

lemma replaced_content:
  "is_tool_result b \<Longrightarrow> trimmed_str b ''tool_use_id'' = Some i \<Longrightarrow>
   jget (replace_anthropic_tool_result_if_cleared ids b) ''content''
     = (if i \<in> ids then Some cleared_placeholder else jget b ''content'')"
  by (auto simp: replace_anthropic_tool_result_if_cleared_def trimmed_Some result_object)

lemma replaced_object: "\<exists>kvs'. replace_anthropic_tool_result_if_cleared ids (JObj kvs) = JObj kvs'"
  by (simp add: replace_anthropic_tool_result_if_cleared_def split: option.split)

lemma replaced_message:
  "blocks_of (replace_in_message ids m) = map (replace_anthropic_tool_result_if_cleared ids) (blocks_of m)"
  "role_of (replace_in_message ids m) = role_of m"
proof -
  show "blocks_of (replace_in_message ids m)
      = map (replace_anthropic_tool_result_if_cleared ids) (blocks_of m)"
  proof (cases "\<exists>kvs. jget m ''content'' = Some (JObj kvs)")
    case True
    then obtain kvs where kvs: "jget m ''content'' = Some (JObj kvs)" by blast
    obtain kvs' where "replace_anthropic_tool_result_if_cleared ids (JObj kvs) = JObj kvs'"
      using replaced_object by blast
    with kvs show ?thesis by (simp add: replace_in_message_def jget_with_field content_blocks_def)
  next
    case False
    then show ?thesis
      by (auto simp: replace_in_message_def jget_with_field content_blocks_def
          split: option.splits json.splits)
  qed
  show "role_of (replace_in_message ids m) = role_of m"
    by (simp add: replace_in_message_def jget_str_def jget_with_field)
qed

lemma entries_replaced: "entries (map (replace_in_message ids) ms)
    = map (map_prod (\<lambda>r. r) (replace_anthropic_tool_result_if_cleared ids)) (entries ms)"
  by (simp add: entries_def map_concat comp_def replaced_message)

lemma map_filter_map: "List.map_filter f (map g xs) = List.map_filter (f \<circ> g) xs"
  by (simp add: List.map_filter_def filter_map comp_def)

lemma paired_replaced: "paired_interactions (map (replace_in_message ids) ms) = paired_interactions ms"
proof -
  have u: "use_of_entry (map_prod (\<lambda>r. r) (replace_anthropic_tool_result_if_cleared ids) e) = use_of_entry e" for e
    by (cases e) (auto simp: use_of_entry_def tool_use_of_def replaced_block)
  have r: "result_of_entry (map_prod (\<lambda>r. r) (replace_anthropic_tool_result_if_cleared ids) e)
      = result_of_entry e" for e
    by (cases e) (auto simp: result_of_entry_def replaced_block)
  have "result_ids (map (replace_in_message ids) ms) = result_ids ms"
    by (simp add: result_ids_entries entries_replaced r)
  then show ?thesis
    unfolding paired_interactions_def tool_uses_entries entries_replaced map_filter_map
    by (simp add: comp_def u)
qed

text \<open>The results in the conversation: the call each answers and its content.\<close>

definition result_content :: "string option \<times> json \<Rightarrow> (string \<times> json option) option" where
  "result_content e = map_option (\<lambda>i. (i, jget (snd e) ''content'')) (result_of_entry e)"

definition tool_results :: "json list \<Rightarrow> (string \<times> json option) list" where
  "tool_results ms = List.map_filter result_content (entries ms)"

definition other_entries :: "json list \<Rightarrow> (string option \<times> json) list" where
  "other_entries ms = filter (\<lambda>(_, b). \<not> is_tool_result b \<and> \<not> is_tool_use b) (entries ms)"

lemma map_filter_map_option: "List.map_filter (\<lambda>x. map_option g (f x)) xs = map g (List.map_filter f xs)"
  by (induction xs) (simp_all split: option.split)

lemma results_replaced: "tool_results (map (replace_in_message ids) ms)
    = map (\<lambda>(i, c). (i, if i \<in> ids then Some cleared_placeholder else c)) (tool_results ms)"
proof -
  have "result_content (map_prod (\<lambda>r. r) (replace_anthropic_tool_result_if_cleared ids) e)
      = map_option (\<lambda>(i, c). (i, if i \<in> ids then Some cleared_placeholder else c)) (result_content e)" for e
    by (cases e; cases "trimmed_str (snd e) ''tool_use_id''")
      (simp_all add: result_content_def result_of_entry_def replaced_block replaced_content)
  then show ?thesis
    by (simp add: tool_results_def entries_replaced map_filter_map comp_def map_filter_map_option)
qed

lemma others_replaced: "other_entries (map (replace_in_message ids) ms) = other_entries ms"
proof -
  have "filter (\<lambda>(_, b). \<not> is_tool_result b \<and> \<not> is_tool_use b)
      (map (map_prod (\<lambda>r. r) (replace_anthropic_tool_result_if_cleared ids)) es)
    = filter (\<lambda>(_, b). \<not> is_tool_result b \<and> \<not> is_tool_use b) es" for es :: "(string option \<times> json) list"
    by (induction es) (auto simp: replaced_block)
  then show ?thesis by (simp add: other_entries_def entries_replaced)
qed

lemma others_without: "other_entries (without_interactions ids ms) = other_entries ms"
  by (auto simp: other_entries_def entries_without entry_stays_def block_stays_def
      anthropic_tool_block_matches_clear_ids_def intro!: filter_cong)

subsection \<open>The edit\<close>

definition messages_of :: "json \<Rightarrow> json list" where
  "messages_of body = array_at body ''messages''"

lemma paired_body: "anthropic_paired_tool_interactions body = paired_interactions (messages_of body)"
  by (simp add: anthropic_paired_tool_interactions_def messages_of_def array_at_def
      paired_interactions_def split: option.split)

lemma removed_messages: "messages_of (remove_anthropic_tool_interactions ids body)
    = without_interactions ids (messages_of body)"
  by (simp add: remove_anthropic_tool_interactions_def messages_of_def array_at_with_array
      without_interactions_def)

lemma replaced_messages:
  "messages_of (replace_anthropic_tool_results_with_context_cleared_placeholder ids body)
    = map (replace_in_message ids) (messages_of body)"
  by (simp add: replace_anthropic_tool_results_with_context_cleared_placeholder_def messages_of_def
      array_at_with_array)

lemma filter_not_taken:
  assumes "distinct (map f xs)"
  shows "filter (\<lambda>x. f x \<notin> f ` set (take n xs)) xs = drop n xs"
proof -
  have "f ` set (take n xs) \<inter> f ` set (drop n xs) = {}"
    using assms unfolding distinct_map
    by (metis append_take_drop_id assms distinct_append image_set map_append)
  then have "filter (\<lambda>x. f x \<notin> f ` set (take n xs)) (drop n xs) = drop n xs"
    by (auto simp: filter_id_conv)
  moreover have "filter (\<lambda>x. f x \<notin> f ` set (take n xs)) (take n xs) = []"
    by (auto simp: filter_empty_conv)
  ultimately show ?thesis by (metis append_Nil append_take_drop_id filter_append)
qed

text \<open>Clearing tool uses keeps the most recent interactions, as many as the request asks for. With
  \<open>clear_tool_inputs\<close> the eligible interactions that are left are exactly those, call and result
  gone together for the others; without it every call stays paired and exactly the results of the older
  interactions are replaced by the placeholder. No other block is touched. The calls are told apart by
  their ids.\<close>

theorem clear_tool_uses_keeps_recent_interactions:
  assumes "distinct (map ti_id (eligible_interactions options body))"
  shows "let before = eligible_interactions options body;
      old = length before - keep_tool_uses options;
      cleared = set (map ti_id (take old before));
      body' = apply_anthropic_clear_tool_uses_edit body options
    in other_entries (messages_of body') = other_entries (messages_of body)
       \<and> (if clear_tool_inputs options
          then eligible_interactions options body' = drop old before
          else eligible_interactions options body' = before
            \<and> tool_results (messages_of body')
              = map (\<lambda>(i, c). (i, if i \<in> cleared then Some cleared_placeholder else c))
                  (tool_results (messages_of body)))"
proof -
  let ?old = "length (eligible_interactions options body) - keep_tool_uses options"
  let ?ids = "set (map ti_id (take ?old (eligible_interactions options body)))"
  have "eligible_interactions options (remove_anthropic_tool_interactions ?ids body)
      = filter (\<lambda>t. ti_id t \<notin> ?ids) (eligible_interactions options body)"
    by (simp add: eligible_interactions_def paired_body removed_messages paired_without conj_commute)
  also have "\<dots> = drop ?old (eligible_interactions options body)"
    using filter_not_taken [OF assms, of ?old] by simp
  finally have removed: "eligible_interactions options (remove_anthropic_tool_interactions ?ids body)
      = drop ?old (eligible_interactions options body)" .
  have "(\<lambda>(i, c). (i, if i \<in> {} then Some cleared_placeholder else c)) = (\<lambda>x. x)"
    by (auto simp: fun_eq_iff)
  with removed show ?thesis
    by (simp add: apply_anthropic_clear_tool_uses_edit_def Let_def removed_messages others_without
        replaced_messages others_replaced results_replaced eligible_interactions_def paired_body
        paired_replaced)
qed

definition two_calls_body :: json where
  "two_calls_body = jobj [(''messages'', JArr (concat (map (\<lambda>i.
     [jobj [(''role'', JStr ''assistant''), (''content'', JArr
        [jobj [(''type'', JStr ''tool_use''), (''id'', JStr i), (''name'', JStr ''f'')]])],
      jobj [(''role'', JStr ''user''), (''content'', JArr
        [jobj [(''type'', JStr ''tool_result''), (''tool_use_id'', JStr i)]])]])
     [''t1'', ''t2''])))]"

theorem clear_tool_uses_keeps_recent_interactions_witness:
  "let options = \<lparr>keep_tool_uses = 1, clear_tool_inputs = True, exclude_tools = []\<rparr>;
       body' = apply_anthropic_clear_tool_uses_edit two_calls_body options
   in length (eligible_interactions options two_calls_body) = 2
      \<and> eligible_interactions options body' = drop 1 (eligible_interactions options two_calls_body)"
proof -
  define opts where "opts = \<lparr>keep_tool_uses = 1, clear_tool_inputs = True, exclude_tools = []\<rparr>"
  have e: "eligible_interactions opts two_calls_body
      = [\<lparr>ti_id = ''t1'', ti_name = Some ''f''\<rparr>, \<lparr>ti_id = ''t2'', ti_name = Some ''f''\<rparr>]"
    unfolding opts_def by code_simp
  have "distinct (map ti_id (eligible_interactions opts two_calls_body))"
    by (simp add: e)
  from clear_tool_uses_keeps_recent_interactions [OF this] show ?thesis
    unfolding opts_def [symmetric] by (simp add: e Let_def) (simp add: opts_def)
qed

end
