(* ===== verification/Message_Repair.thy ===== *)
theory Message_Repair
  imports Request_Json Formats
begin

text \<open>
  The repairs a request goes through before it is sent (\<open>src/translate/internal.rs\<close>): the roles
  and the merging of Chat Completions messages, the instructions of a Responses request, the fields a
  MiniMax model needs, and the defaults of the translation policy, which come from the surface of the
  model (\<open>src/config/model_surface.rs\<close>).
\<close>

section \<open>The surface of a model\<close>

datatype model_modality = Text | Image | Audio | Pdf | File | Video

datatype apply_patch_transport = Function | Freeform

record model_modalities =
  input_modalities :: "model_modality list option"
  output_modalities :: "model_modality list option"

record model_tool_surface =
  supports_search :: "bool option"
  supports_view_image :: "bool option"
  apply_patch_transport :: "apply_patch_transport option"
  supports_parallel_calls :: "bool option"

record model_limits =
  context_window :: "nat option"
  max_output_tokens :: "nat option"

record model_surface_patch =
  patch_modalities :: "model_modalities option"
  patch_tools :: "model_tool_surface option"

record model_surface =
  surface_limits :: "model_limits option"
  surface_modalities :: "model_modalities option"
  surface_tools :: "model_tool_surface option"

definition merge_modalities ::
    "model_modalities \<Rightarrow> model_modalities option \<Rightarrow> model_modalities option" where
  "merge_modalities base overrides =
     (let merged = \<lparr>input_modalities = option_or (Option.bind overrides input_modalities) (input_modalities base),
                    output_modalities = option_or (Option.bind overrides output_modalities) (output_modalities base)\<rparr>
      in if input_modalities merged = None \<and> output_modalities merged = None then None else Some merged)"

definition merge_tool_surface ::
    "model_tool_surface \<Rightarrow> model_tool_surface option \<Rightarrow> model_tool_surface option" where
  "merge_tool_surface base overrides =
     (let merged = \<lparr>supports_search = option_or (Option.bind overrides supports_search) (supports_search base),
            supports_view_image = option_or (Option.bind overrides supports_view_image) (supports_view_image base),
            apply_patch_transport = option_or (Option.bind overrides apply_patch_transport) (apply_patch_transport base),
            supports_parallel_calls = option_or (Option.bind overrides supports_parallel_calls) (supports_parallel_calls base)\<rparr>
      in if supports_search merged = None \<and> supports_view_image merged = None
            \<and> apply_patch_transport merged = None \<and> supports_parallel_calls merged = None
         then None else Some merged)"

definition merge_limits :: "model_limits \<Rightarrow> model_limits option \<Rightarrow> model_limits option" where
  "merge_limits base overrides =
     (let merged = \<lparr>context_window = option_or (Option.bind overrides context_window) (context_window base),
            max_output_tokens = option_or (Option.bind overrides max_output_tokens) (max_output_tokens base)\<rparr>
      in if context_window merged = None \<and> max_output_tokens merged = None then None else Some merged)"

definition merge_surface_patch :: "model_surface_patch \<Rightarrow> model_surface_patch option \<Rightarrow> model_surface_patch" where
  "merge_surface_patch base overrides =
     \<lparr>patch_modalities =
        (case (patch_modalities base, Option.bind overrides patch_modalities) of
           (Some b, o') \<Rightarrow> merge_modalities b o' | (None, o') \<Rightarrow> o'),
      patch_tools =
        (case (patch_tools base, Option.bind overrides patch_tools) of
           (Some b, o') \<Rightarrow> merge_tool_surface b o' | (None, o') \<Rightarrow> o')\<rparr>"

section \<open>The defaults of the translation policy\<close>

record request_translation_policy =
  policy_surface :: model_surface

definition policy_max_output_tokens :: "request_translation_policy \<Rightarrow> nat option" where
  "policy_max_output_tokens policy = Option.bind (surface_limits (policy_surface policy)) max_output_tokens"

definition disables_parallel_tool_calls :: "request_translation_policy \<Rightarrow> bool" where
  "disables_parallel_tool_calls policy =
     (Option.bind (surface_tools (policy_surface policy)) supports_parallel_calls = Some False)"

definition request_body_has_explicit_output_limit :: "upstream_format \<Rightarrow> json \<Rightarrow> bool" where
  "request_body_has_explicit_output_limit target body = (case target of
      Anthropic \<Rightarrow> jget body ''max_tokens'' \<noteq> None
    | OpenAiChatCompletions \<Rightarrow>
        jget body ''max_completion_tokens'' \<noteq> None \<or> jget body ''max_tokens'' \<noteq> None
    | OpenAiResponses \<Rightarrow> jget body ''max_output_tokens'' \<noteq> None)"

definition output_limit_field :: "upstream_format \<Rightarrow> string" where
  "output_limit_field target = (case target of
      Anthropic \<Rightarrow> ''max_tokens''
    | OpenAiChatCompletions \<Rightarrow> ''max_completion_tokens''
    | OpenAiResponses \<Rightarrow> ''max_output_tokens'')"

definition apply_request_translation_policy_default_output_limit ::
    "upstream_format \<Rightarrow> request_translation_policy \<Rightarrow> json \<Rightarrow> json" where
  "apply_request_translation_policy_default_output_limit target policy body =
     (case policy_max_output_tokens policy of
        None \<Rightarrow> body
      | Some n \<Rightarrow> if request_body_has_explicit_output_limit target body then body
                 else jinsert (output_limit_field target) (jnat n) body)"

definition request_body_has_explicit_parallel_tool_calls_preference :: "upstream_format \<Rightarrow> json \<Rightarrow> bool" where
  "request_body_has_explicit_parallel_tool_calls_preference target body = (case target of
      Anthropic \<Rightarrow> Option.bind (ogetj (jget body ''tool_choice'') ''disable_parallel_tool_use'') as_bool \<noteq> None
    | _ \<Rightarrow> jget_bool body ''parallel_tool_calls'' \<noteq> None)"

definition request_body_has_tool_definitions :: "json \<Rightarrow> bool" where
  "request_body_has_tool_definitions body = (array_at body ''tools'' \<noteq> [])"

definition disable_parallel_in_choice :: "json \<Rightarrow> json" where
  "disable_parallel_in_choice choice =
     (if type_of choice = Some ''none'' then choice
      else or_insert ''disable_parallel_tool_use'' (JBool True) choice)"

definition apply_request_translation_policy_parallel_tool_gate ::
    "upstream_format \<Rightarrow> request_translation_policy \<Rightarrow> json \<Rightarrow> json" where
  "apply_request_translation_policy_parallel_tool_gate target policy body =
     (if \<not> disables_parallel_tool_calls policy
         \<or> request_body_has_explicit_parallel_tool_calls_preference target body
         \<or> \<not> request_body_has_tool_definitions body
      then body
      else (case target of
          Anthropic \<Rightarrow> with_field ''tool_choice'' disable_parallel_in_choice
            (or_insert ''tool_choice'' (jobj [(''type'', JStr ''auto'')]) body)
        | _ \<Rightarrow> jinsert ''parallel_tool_calls'' (JBool False) body))"

definition apply_request_translation_policy_defaults ::
    "upstream_format \<Rightarrow> request_translation_policy \<Rightarrow> json \<Rightarrow> json" where
  "apply_request_translation_policy_defaults target policy body =
     apply_request_translation_policy_parallel_tool_gate target policy
       (apply_request_translation_policy_default_output_limit target policy body)"

section \<open>Messages\<close>

definition paragraph_break :: string where
  "paragraph_break = [nl, nl]"

definition is_minimax_model :: "string \<Rightarrow> bool" where
  "is_minimax_model model = starts_with ''MiniMax-'' model"

definition add_reasoning_details :: "json \<Rightarrow> json" where
  "add_reasoning_details message =
     (if role_of message \<noteq> Some ''assistant'' \<or> jget message ''reasoning_details'' \<noteq> None then message
      else (case jget_str message ''reasoning_content'' of
          None \<Rightarrow> message
        | Some reasoning \<Rightarrow> if reasoning = [] then message
            else jset ''reasoning_details'' (JArr [jobj [(''text'', JStr reasoning)]]) message))"

definition apply_openai_completion_compat_overrides :: "string \<Rightarrow> json \<Rightarrow> json" where
  "apply_openai_completion_compat_overrides model body =
     (if \<not> is_minimax_model model then body
      else with_array ''messages'' (map add_reasoning_details)
        (if is_object body
         then with_field ''stream_options'' (jinsert ''include_usage'' (JBool True))
           (or_insert ''stream_options'' (jobj []) (jinsert ''reasoning_split'' (JBool True) body))
         else body))"

definition extract_openai_content_text :: "json option \<Rightarrow> string" where
  "extract_openai_content_text content = (case content of
      Some (JStr text) \<Rightarrow> text
    | Some (JArr items) \<Rightarrow> concat (List.map_filter (\<lambda>item. jget_str item ''text'') items)
    | _ \<Rightarrow> [])"

definition openai_instruction_part_is_text :: "json \<Rightarrow> bool" where
  "openai_instruction_part_is_text part = (type_of part = Some ''text'' \<and> jget_str part ''text'' \<noteq> None)"

definition openai_instruction_content_as_text :: "json \<Rightarrow> string option" where
  "openai_instruction_content_as_text content = (case content of
      JStr text \<Rightarrow> Some text
    | JArr parts \<Rightarrow> if list_all openai_instruction_part_is_text parts
        then Some (extract_openai_content_text (Some content)) else None
    | JObj _ \<Rightarrow> if openai_instruction_part_is_text content
        then Some (extract_openai_content_text (Some (JArr [content]))) else None
    | JNull \<Rightarrow> Some []
    | _ \<Rightarrow> None)"

definition instruction_label :: "string \<Rightarrow> string" where
  "instruction_label role = (if role = ''developer'' then ''Developer instructions'' else ''System instructions'')"

definition annotate_openai_instruction_message :: "string \<Rightarrow> json \<Rightarrow> json" where
  "annotate_openai_instruction_message role message =
     (case Option.bind (jget message ''content'') openai_instruction_content_as_text of
        None \<Rightarrow> message
      | Some text \<Rightarrow> jset ''content'' (JStr (if text = [] then instruction_label role
            else instruction_label role @ '':'' @ [nl] @ text)) message)"

definition openai_string_message_role_if_coalescible :: "json \<Rightarrow> string option" where
  "openai_string_message_role_if_coalescible message = (case (role_of message, message) of
      (Some role, JObj kvs) \<Rightarrow>
        if jget_str message ''content'' \<noteq> None
           \<and> list_all (\<lambda>(k, _). k = ''role'' \<or> k = ''content'') kvs then Some role else None
    | _ \<Rightarrow> None)"

definition coalesce_push :: "json list \<Rightarrow> json \<Rightarrow> json list" where
  "coalesce_push coalesced message =
     (case (openai_string_message_role_if_coalescible message, jget_str message ''content'') of
        (Some role, Some content) \<Rightarrow>
          if coalesced = [] then coalesced @ [message]
          else (let previous = List.last coalesced in
            case jget_str previous ''content'' of
              Some previous_content \<Rightarrow>
                if openai_string_message_role_if_coalescible previous = Some role
                then butlast coalesced
                  @ [jset ''content'' (JStr (previous_content @ paragraph_break @ content)) previous]
                else coalesced @ [message]
            | None \<Rightarrow> coalesced @ [message])
      | _ \<Rightarrow> coalesced @ [message])"

definition coalesce_messages :: "json list \<Rightarrow> json list" where
  "coalesce_messages messages = foldl coalesce_push [] messages"

definition coalesce_openai_string_messages :: "json \<Rightarrow> json" where
  "coalesce_openai_string_messages = with_array ''messages'' coalesce_messages"

definition downgrade_instruction :: "json \<Rightarrow> json" where
  "downgrade_instruction message = (case role_of message of
      None \<Rightarrow> message
    | Some role \<Rightarrow> if role \<in> {''system'', ''developer''}
        then jset ''role'' (JStr ''user'') (annotate_openai_instruction_message role message)
        else message)"

definition apply_openai_completion_maximum_safe_role_repairs :: "json \<Rightarrow> json" where
  "apply_openai_completion_maximum_safe_role_repairs body =
     coalesce_openai_string_messages (with_array ''messages'' (map downgrade_instruction) body)"

definition developer_to_system :: "json \<Rightarrow> json" where
  "developer_to_system message =
     (if role_of message = Some ''developer'' then jset ''role'' (JStr ''system'') message else message)"

definition normalize_openai_messages_for_compatibility :: "json \<Rightarrow> json" where
  "normalize_openai_messages_for_compatibility body =
     coalesce_openai_string_messages (with_array ''messages'' (map developer_to_system) body)"

definition normalize_openai_responses_roles :: "json \<Rightarrow> json" where
  "normalize_openai_responses_roles = with_array ''input''
     (map (\<lambda>item. if type_of item = Some ''message'' then developer_to_system item else item))"

definition normalize_openai_roles_for_compatibility :: "upstream_format \<Rightarrow> json \<Rightarrow> json" where
  "normalize_openai_roles_for_compatibility format = (case format of
      OpenAiChatCompletions \<Rightarrow> normalize_openai_messages_for_compatibility
    | OpenAiResponses \<Rightarrow> normalize_openai_responses_roles
    | Anthropic \<Rightarrow> (\<lambda>body. body))"

definition extract_responses_text_content :: "json option \<Rightarrow> string" where
  "extract_responses_text_content content = (case content of
      Some (JArr parts) \<Rightarrow> concat (List.map_filter
        (\<lambda>part. if type_of part \<in> {Some ''input_text'', Some ''output_text''}
                then jget_str part ''text'' else None) parts)
    | _ \<Rightarrow> [])"

definition is_instruction_item :: "json \<Rightarrow> bool" where
  "is_instruction_item item = (type_of item = Some ''message''
     \<and> role_of item \<in> {Some ''system'', Some ''developer''})"

text \<open>The loop of \<open>hoist_and_merge_system_messages\<close>: the texts it hoists and what remains.\<close>

fun hoist :: "json list \<Rightarrow> string list \<times> json list" where
  "hoist [] = ([], [])"
| "hoist (item # items) =
     (if is_instruction_item item
      then (let text = extract_responses_text_content (jget item ''content'');
                (texts, rest) = hoist items
            in (if text = [] then texts else text # texts, rest))
      else ([], item # items))"

definition hoist_and_merge_system_messages :: "json \<Rightarrow> json" where
  "hoist_and_merge_system_messages body = (case jget_array body ''input'' of
      None \<Rightarrow> body
    | Some input \<Rightarrow>
        (let (texts, rest) = hoist input; body' = jset ''input'' (JArr rest) body;
             merged = join paragraph_break texts
         in if texts = [] then body'
            else jset ''instructions'' (JStr (case jget_str body' ''instructions'' of
                Some existing \<Rightarrow> if existing = [] then merged else existing @ paragraph_break @ merged
              | None \<Rightarrow> merged)) body'))"

section \<open>Merging is by runs\<close>

abbreviation string_role :: "json \<Rightarrow> string option" where
  "string_role \<equiv> openai_string_message_role_if_coalescible"

definition string_content :: "json \<Rightarrow> string" where
  "string_content m = unwrap_or (jget_str m ''content'') []"

text \<open>
  The reference: a message of a plain role and text takes in the messages of the same kind that follow
  it directly, their texts joined by an empty line.
\<close>

definition merge_run :: "json \<Rightarrow> json list \<Rightarrow> json" where
  "merge_run m run = (if run = [] then m
     else jset ''content'' (JStr (join paragraph_break (map string_content (m # run)))) m)"

function merge_runs :: "json list \<Rightarrow> json list" where
  "merge_runs [] = []"
| "merge_runs (m # ms) = (case string_role m of
      None \<Rightarrow> m # merge_runs ms
    | Some r \<Rightarrow> merge_run m (takeWhile (\<lambda>x. string_role x = Some r) ms)
        # merge_runs (dropWhile (\<lambda>x. string_role x = Some r) ms))"
  by pat_completeness auto
termination by (relation "measure length") (auto simp: less_Suc_eq_le length_dropWhile_le)

declare merge_runs.simps(2) [simp del]

lemma merge_runs_other: "string_role m = None \<Longrightarrow> merge_runs (m # ms) = m # merge_runs ms"
  by (simp add: merge_runs.simps(2))

lemma merge_runs_run: "string_role m = Some r \<Longrightarrow>
   merge_runs (m # ms) = merge_run m (takeWhile (\<lambda>x. string_role x = Some r) ms)
     # merge_runs (dropWhile (\<lambda>x. string_role x = Some r) ms)"
  by (simp add: merge_runs.simps(2))

lemma merge_run_Nil [simp]: "merge_run m [] = m"
  by (simp add: merge_run_def)

lemma merge_runs_single [simp]: "merge_runs [m] = [m]"
  by (cases "string_role m") (simp_all add: merge_runs_other merge_runs_run)

lemma merge_runs_apart_step:
  "string_role m = None \<or> string_role m \<noteq> string_role x \<Longrightarrow> merge_runs (m # x # xs) = m # merge_runs (x # xs)"
  by (cases "string_role m") (auto simp: merge_runs_other merge_runs_run)

lemma string_role_Some: "string_role m = Some r \<longleftrightarrow> role_of m = Some r \<and> jget_str m ''content'' \<noteq> None
    \<and> (\<exists>kvs. m = JObj kvs \<and> fst ` set kvs \<subseteq> {''role'', ''content''})"
  by (auto simp: openai_string_message_role_if_coalescible_def list_all_iff split: option.splits json.splits)

lemma string_role_set:
  assumes "string_role m = Some r"
  shows "string_role (jset ''content'' (JStr t) m) = Some r"
proof -
  obtain kvs where m: "m = JObj kvs" "fst ` set kvs \<subseteq> {''role'', ''content''}"
    and r: "role_of m = Some r" using assms by (auto simp: string_role_Some)
  then have "jget_str (jset ''content'' (JStr t) m) ''role'' = Some r" by (simp add: jget_str_def)
  moreover have "fst ` set (omap_insert ''content'' (JStr t) kvs) \<subseteq> {''role'', ''content''}"
    using m(2) by (simp add: fst_omap_insert)
  ultimately show ?thesis
    using m(1) by (simp add: string_role_Some jget_str_def)
qed

lemma string_content_set [simp]:
  "string_role m = Some r \<Longrightarrow> string_content (jset ''content'' (JStr t) m) = t"
  by (auto simp: string_role_Some string_content_def jget_str_def)

lemma push_merge:
  assumes "string_role m = Some r" and "string_role x = Some r"
  shows "coalesce_push (acc @ [m]) x
    = acc @ [jset ''content'' (JStr (string_content m @ paragraph_break @ string_content x)) m]"
  using assms by (auto simp: coalesce_push_def string_role_Some string_content_def split: option.split)

lemma push_apart:
  "string_role m = None \<or> string_role m \<noteq> string_role x \<Longrightarrow> coalesce_push (acc @ [m]) x = acc @ [m, x]"
  by (auto simp: coalesce_push_def split: option.split)

lemma join_merge: "join sep ((a @ sep @ b) # cs) = join sep (a # b # cs)"
  by (cases cs) simp_all

lemma merge_run_step:
  assumes "string_role m = Some r"
  shows "merge_run (jset ''content'' (JStr (string_content m @ paragraph_break @ string_content x)) m) run
    = merge_run m (x # run)"
  using assms join_merge [of "paragraph_break"] by (simp add: merge_run_def)

lemma fold_merges: "foldl coalesce_push (acc @ [m]) ms = acc @ merge_runs (m # ms)"
proof (induction ms arbitrary: acc m)
  case (Cons x xs)
  show ?case
  proof (cases "string_role m = None \<or> string_role m \<noteq> string_role x")
    case True
    then have "coalesce_push (acc @ [m]) x = (acc @ [m]) @ [x]" by (simp add: push_apart)
    with True Cons.IH [of "acc @ [m]" x] show ?thesis by (simp add: merge_runs_apart_step)
  next
    case False
    then obtain r where r: "string_role m = Some r" "string_role x = Some r"
      by (cases "string_role x") auto
    show ?thesis
      by (simp add: push_merge [OF r] Cons.IH merge_run_step [OF r(1)] string_role_set [OF r(1)] r
          merge_runs_run)
  qed
qed simp

lemma coalesce_merge_runs: "coalesce_messages ms = merge_runs ms"
proof (cases ms)
  case (Cons m rest)
  have "coalesce_push [] m = [m]" by (auto simp: coalesce_push_def split: option.split)
  with Cons show ?thesis
    using fold_merges [of "[]" m rest] by (simp add: coalesce_messages_def)
qed (simp add: coalesce_messages_def)

definition roles_apart :: "json list \<Rightarrow> bool" where
  "roles_apart = successively (\<lambda>a b. string_role a = None \<or> string_role a \<noteq> string_role b)"

lemma merge_run_role: "string_role m = Some r \<Longrightarrow> string_role (merge_run m run) = Some r"
  by (simp add: merge_run_def string_role_set)

lemma merge_runs_head:
  "merge_runs (m # ms) \<noteq> [] \<and> string_role (hd (merge_runs (m # ms))) = string_role m"
  by (cases "string_role m") (simp_all add: merge_runs_other merge_runs_run merge_run_role)

lemma merge_runs_apart: "roles_apart (merge_runs ms)"
proof (induction ms rule: merge_runs.induct)
  case (2 m ms)
  show ?case
  proof (cases "string_role m")
    case None
    with 2(1) show ?thesis by (simp add: roles_apart_def successively_Cons merge_runs_other)
  next
    case (Some r)
    let ?rest = "dropWhile (\<lambda>x. string_role x = Some r) ms"
    have rest: "roles_apart (merge_runs ?rest)" using 2(2) [OF Some] .
    have "merge_runs ?rest = [] \<or> string_role (hd (merge_runs ?rest)) \<noteq> Some r"
    proof (cases ?rest)
      case (Cons x xs)
      have "string_role x \<noteq> Some r" using hd_dropWhile [of "\<lambda>x. string_role x = Some r" ms] Cons by simp
      then show ?thesis using Cons merge_runs_head [of x xs] by simp
    next
      case Nil
      then show ?thesis by (simp only: merge_runs.simps(1) simp_thms)
    qed
    with rest show ?thesis
      by (auto simp: roles_apart_def successively_Cons merge_runs_run [OF Some] merge_run_role [OF Some])
  qed
qed (simp add: roles_apart_def)

lemma apart_merge_runs: "roles_apart ms \<Longrightarrow> merge_runs ms = ms"
proof (induction ms)
  case (Cons m ms)
  then have ms: "merge_runs ms = ms" by (cases ms) (auto simp: roles_apart_def)
  with Cons.prems show ?case
    by (cases ms) (simp_all add: roles_apart_def merge_runs_apart_step)
qed simp

text \<open>Merging messages with a running last message is merging the maximal runs of plain text messages of
  one role, texts joined by an empty line, everything else kept in its place; what was merged once is
  not merged further.\<close>

theorem coalescing_merges_runs:
  "coalesce_messages ms = merge_runs ms
   \<and> coalesce_messages (coalesce_messages ms) = coalesce_messages ms"
  by (simp add: coalesce_merge_runs apart_merge_runs merge_runs_apart)

section \<open>No instruction role is left\<close>

definition is_instruction_role :: "string option \<Rightarrow> bool" where
  "is_instruction_role r = (r \<in> {Some ''system'', Some ''developer''})"

lemma downgraded_role: "role_of (downgrade_instruction m)
    = (if is_instruction_role (role_of m) then Some ''user'' else role_of m)"
proof (cases "is_instruction_role (role_of m)")
  case True
  then have "is_object m" by (auto simp: is_instruction_role_def jget_str_Some jget_Some_object)
  then have "is_object (annotate_openai_instruction_message role m)" for role
    by (simp add: annotate_openai_instruction_message_def split: option.split)
  with True show ?thesis
    by (auto simp: downgrade_instruction_def is_instruction_role_def jget_str_def)
next
  case False
  then show ?thesis by (auto simp: downgrade_instruction_def is_instruction_role_def split: option.split)
qed

lemma downgrade_settled: "\<not> is_instruction_role (role_of m) \<Longrightarrow> downgrade_instruction m = m"
  by (auto simp: downgrade_instruction_def is_instruction_role_def split: option.split)

lemma merged_role [simp]: "role_of (merge_run m run) = role_of m"
  by (cases m) (simp_all add: merge_run_def jget_str_def)

lemma merged_roles: "m \<in> set (merge_runs ms) \<Longrightarrow> role_of m \<in> role_of ` set ms"
proof (induction ms arbitrary: m rule: merge_runs.induct)
  case (2 x xs)
  then show ?case
  proof (cases "string_role x")
    case None
    with 2 show ?thesis by (auto simp: merge_runs_other)
  next
    case (Some r)
    with 2 show ?thesis
      by (auto simp: merge_runs_run dest: set_dropWhileD)
  qed
qed simp

lemma repair_messages: "apply_openai_completion_maximum_safe_role_repairs
    = with_array ''messages'' (\<lambda>ms. merge_runs (map downgrade_instruction ms))"
  by (rule ext) (simp add: apply_openai_completion_maximum_safe_role_repairs_def
      coalesce_openai_string_messages_def with_array_fun coalesce_merge_runs comp_def)

lemma repaired_roles:
  "m \<in> set (merge_runs (map downgrade_instruction ms)) \<Longrightarrow> \<not> is_instruction_role (role_of m)"
  by (drule merged_roles) (auto simp: downgraded_role is_instruction_role_def split: if_splits)

text \<open>C14.
  After the repair no message of a Chat Completions request has an instruction role, and the repair
  changes nothing when it is applied again, as it is on the way through a chain of proxies.\<close>

theorem role_repair_settles:
  "list_all (\<lambda>m. \<not> is_instruction_role (role_of m))
     (array_at (apply_openai_completion_maximum_safe_role_repairs body) ''messages'')
   \<and> apply_openai_completion_maximum_safe_role_repairs
       (apply_openai_completion_maximum_safe_role_repairs body)
     = apply_openai_completion_maximum_safe_role_repairs body"
proof -
  have "merge_runs (map downgrade_instruction (merge_runs (map downgrade_instruction ms)))
      = merge_runs (map downgrade_instruction ms)" for ms
  proof -
    have "map downgrade_instruction (merge_runs (map downgrade_instruction ms))
        = merge_runs (map downgrade_instruction ms)"
      by (rule map_idI) (use repaired_roles downgrade_settled in blast)
    then show ?thesis by (simp add: apart_merge_runs merge_runs_apart)
  qed
  then show ?thesis
    using repaired_roles
    by (auto simp: repair_messages array_at_with_array list_all_iff with_array_fun comp_def)
qed

section \<open>Defaults yield to the request\<close>

lemma limit_field_explicit: "jget body (output_limit_field target) \<noteq> None \<Longrightarrow>
   request_body_has_explicit_output_limit target body"
  by (cases target) (simp_all add: request_body_has_explicit_output_limit_def output_limit_field_def)

lemma gate_keeps_limit:
  "jget (apply_request_translation_policy_parallel_tool_gate target policy body) (output_limit_field t)
    = jget body (output_limit_field t)"
  "request_body_has_explicit_output_limit t (apply_request_translation_policy_parallel_tool_gate target policy body)
    = request_body_has_explicit_output_limit t body"
  by (cases target; cases t; simp add: apply_request_translation_policy_parallel_tool_gate_def
      output_limit_field_def request_body_has_explicit_output_limit_def jget_jinsert jget_with_field
      jget_or_insert)+

lemma jinsert_twice: "jinsert k x (jinsert k x v) = jinsert k x v"
  by (simp add: jinsert_def)

lemma with_field_Some: "jget v k = Some c \<Longrightarrow> with_field k f v = jset k (f c) v"
  by (simp add: with_field_def)

lemma or_insert_present: "jget v k = Some c \<Longrightarrow> or_insert k x v = v"
  by (simp add: or_insert_def)

lemma entry_idem:
  assumes "\<And>c. f (f c) = f c"
  shows "with_field k f (or_insert k x (with_field k f (or_insert k x v)))
    = with_field k f (or_insert k x v)"
proof (cases "jget (or_insert k x v) k")
  case None
  then have "or_insert k x v = v" by (auto simp: jget_or_insert or_insert_def jinsert_def split: if_splits)
  with None show ?thesis by (simp add: with_field_def)
next
  case (Some c)
  note w = with_field_Some [OF Some, of f]
  have "jget (jset k (f c) (or_insert k x v)) k = Some (f c)" using Some by simp
  from or_insert_present [OF this] with_field_Some [OF this] show ?thesis
    by (simp add: w assms)
qed

lemma choice_idem: "disable_parallel_in_choice (disable_parallel_in_choice c) = disable_parallel_in_choice c"
proof -
  have "type_of (or_insert ''disable_parallel_tool_use'' (JBool True) c) = type_of c"
    by (simp add: jget_str_def jget_or_insert)
  then show ?thesis
    by (simp add: disable_parallel_in_choice_def or_insert_def jget_jinsert jinsert_twice)
qed

lemma gate_idem: "apply_request_translation_policy_parallel_tool_gate target policy
     (apply_request_translation_policy_parallel_tool_gate target policy body)
   = apply_request_translation_policy_parallel_tool_gate target policy body"
  by (cases target) (simp_all add: apply_request_translation_policy_parallel_tool_gate_def
      entry_idem [OF choice_idem] jinsert_twice)

lemma limit_settled:
  assumes "policy_max_output_tokens policy = None \<or> request_body_has_explicit_output_limit target body
    \<or> \<not> is_object body"
  shows "apply_request_translation_policy_default_output_limit target policy body = body"
  using assms by (auto simp: apply_request_translation_policy_default_output_limit_def jinsert_def
      split: option.split)

lemma limit_settles: "policy_max_output_tokens policy = None
     \<or> request_body_has_explicit_output_limit target (apply_request_translation_policy_default_output_limit target policy body)
     \<or> \<not> is_object (apply_request_translation_policy_default_output_limit target policy body)"
proof (cases "policy_max_output_tokens policy")
  case (Some n)
  have "request_body_has_explicit_output_limit target (jinsert (output_limit_field target) (jnat n) body)"
    if "is_object body"
    by (rule limit_field_explicit) (simp add: jget_jinsert that)
  with Some show ?thesis
    by (auto simp: apply_request_translation_policy_default_output_limit_def)
qed simp

lemma gate_object [simp]:
  "is_object (apply_request_translation_policy_parallel_tool_gate target policy body) = is_object body"
proof -
  have "is_object (with_field k f v) = is_object v" for k f v
    by (cases v) (auto simp: with_field_def split: option.split)
  then show ?thesis
    by (simp add: apply_request_translation_policy_parallel_tool_gate_def split: upstream_format.split)
qed

lemma defaults_idem: "apply_request_translation_policy_defaults target policy
     (apply_request_translation_policy_defaults target policy body)
   = apply_request_translation_policy_defaults target policy body"
proof -
  let ?b = "apply_request_translation_policy_default_output_limit target policy body"
  have "apply_request_translation_policy_default_output_limit target policy
      (apply_request_translation_policy_parallel_tool_gate target policy ?b)
    = apply_request_translation_policy_parallel_tool_gate target policy ?b"
    using limit_settles [of policy target body] by (intro limit_settled) (auto simp: gate_keeps_limit)
  then show ?thesis by (simp add: apply_request_translation_policy_defaults_def gate_idem)
qed

text \<open>The defaults of the policy yield to the request: a limit the client set stays, a missing one is set
  to the model's limit, and applying the defaults twice, before and after the translation, is the same
  as once.\<close>

theorem policy_defaults_yield:
  "let body' = apply_request_translation_policy_defaults target policy body
   in jget body' (output_limit_field target) =
        (case policy_max_output_tokens policy of
           None \<Rightarrow> jget body (output_limit_field target)
         | Some n \<Rightarrow>
             if is_object body
             then (if request_body_has_explicit_output_limit target body
                   then jget body (output_limit_field target) else Some (jnat n))
             else jget body (output_limit_field target))
      \<and> apply_request_translation_policy_defaults target policy body' = body'"
  by (simp add: defaults_idem)
    (simp add: apply_request_translation_policy_defaults_def gate_keeps_limit
      apply_request_translation_policy_default_output_limit_def jget_jinsert split: option.split)

section \<open>Hoisting keeps the instructions\<close>

lemma hoist_split: "hoist items = (filter (\<lambda>t. t \<noteq> [])
    (map (\<lambda>i. extract_responses_text_content (jget i ''content'')) (takeWhile is_instruction_item items)),
    dropWhile is_instruction_item items)"
  by (induction items) (auto simp: Let_def)

end
