(* ===== verification/Prompt_Cache.thy ===== *)
theory Prompt_Cache
  imports Request_Json Formats Wire
begin

text \<open>
  Prompt cache controls (\<open>src/prompt_cache_controls.rs\<close>): which cache controls a request carries and
  what becomes of them on the way to the upstream, in detail (\<open>analyze_...\<close>) and as one word
  (\<open>classify_...\<close>), and the cache key that is made up for an OpenAI-family upstream when the client
  sent none.
\<close>

section \<open>The controls of a request\<close>

definition openai_family_format :: "upstream_format \<Rightarrow> bool" where
  "openai_family_format f = (f \<in> {OpenAiChatCompletions, OpenAiResponses})"

definition has_field :: "json \<Rightarrow> string \<Rightarrow> bool" where
  "has_field v k = (jget v k \<noteq> None)"

definition openai_family_prompt_cache_top_level_fields_present :: "json \<Rightarrow> bool" where
  "openai_family_prompt_cache_top_level_fields_present body =
     (has_field body ''prompt_cache_key'' \<or> has_field body ''prompt_cache_retention'')"

definition openai_extra_body_anthropic_cache_control :: "json \<Rightarrow> json option" where
  "openai_extra_body_anthropic_cache_control body =
     ogetj (ogetj (jget body ''extra_body'') ''anthropic'') ''cache_control''"

definition openai_extra_body_anthropic_cache_control_present :: "json \<Rightarrow> bool" where
  "openai_extra_body_anthropic_cache_control_present body =
     (openai_extra_body_anthropic_cache_control body \<noteq> None)"

definition anthropic_extra_body_openai_prompt_cache_controls :: "json \<Rightarrow> json option" where
  "anthropic_extra_body_openai_prompt_cache_controls body = ogetj (jget body ''extra_body'') ''openai''"

definition option_has :: "json option \<Rightarrow> string \<Rightarrow> bool" where
  "option_has ov k = (ogetj ov k \<noteq> None)"

definition anthropic_extra_body_openai_prompt_cache_controls_present :: "json \<Rightarrow> bool" where
  "anthropic_extra_body_openai_prompt_cache_controls_present body =
     (let openai = anthropic_extra_body_openai_prompt_cache_controls body
      in option_has openai ''prompt_cache_key'' \<or> option_has openai ''prompt_cache_retention'')"

definition anthropic_extra_body_openai_prompt_cache_key_present :: "json \<Rightarrow> bool" where
  "anthropic_extra_body_openai_prompt_cache_key_present body =
     option_has (anthropic_extra_body_openai_prompt_cache_controls body) ''prompt_cache_key''"

definition anthropic_block_cache_control_present :: "json \<Rightarrow> bool" where
  "anthropic_block_cache_control_present block = has_field block ''cache_control''"

definition anthropic_system_cache_control_present :: "json \<Rightarrow> bool" where
  "anthropic_system_cache_control_present system = (case system of
      JArr blocks \<Rightarrow> list_ex anthropic_block_cache_control_present blocks
    | JObj _ \<Rightarrow> anthropic_block_cache_control_present system
    | _ \<Rightarrow> False)"

definition anthropic_message_cache_control_present :: "json \<Rightarrow> bool" where
  "anthropic_message_cache_control_present message =
     list_ex anthropic_block_cache_control_present (array_at message ''content'')"

definition system_controlled :: "json \<Rightarrow> bool" where
  "system_controlled body = (case jget body ''system'' of
      None \<Rightarrow> False | Some system \<Rightarrow> anthropic_system_cache_control_present system)"

definition messages_controlled :: "json \<Rightarrow> bool" where
  "messages_controlled body = list_ex anthropic_message_cache_control_present (array_at body ''messages'')"

definition tools_controlled :: "json \<Rightarrow> bool" where
  "tools_controlled body = list_ex anthropic_block_cache_control_present (array_at body ''tools'')"

definition anthropic_protocol_cache_control_present :: "json \<Rightarrow> bool" where
  "anthropic_protocol_cache_control_present body =
     (if has_field body ''cache_control'' then True
      else if system_controlled body then True
      else if messages_controlled body then True
      else tools_controlled body)"

definition if_field :: "bool \<Rightarrow> string \<Rightarrow> string list" where
  "if_field b name = (if b then [name] else [])"

definition openai_family_top_level_prompt_cache_fields :: "json \<Rightarrow> string list" where
  "openai_family_top_level_prompt_cache_fields body =
     if_field (has_field body ''prompt_cache_key'') ''prompt_cache_key''
     @ if_field (has_field body ''prompt_cache_retention'') ''prompt_cache_retention''"

definition openai_family_prompt_cache_retention_source :: "json \<Rightarrow> string option" where
  "openai_family_prompt_cache_retention_source body =
     (if has_field body ''prompt_cache_retention'' then Some ''prompt_cache_retention'' else None)"

definition anthropic_top_level_cache_control_field :: "json \<Rightarrow> string list" where
  "anthropic_top_level_cache_control_field body = if_field (has_field body ''cache_control'') ''cache_control''"

definition openai_extra_body_anthropic_cache_control_ttl_source :: "json \<Rightarrow> string option" where
  "openai_extra_body_anthropic_cache_control_ttl_source body =
     (if option_has (openai_extra_body_anthropic_cache_control body) ''ttl''
      then Some ''extra_body.anthropic.cache_control.ttl'' else None)"

definition anthropic_extra_body_openai_prompt_cache_fields :: "json \<Rightarrow> string list" where
  "anthropic_extra_body_openai_prompt_cache_fields body =
     (let openai = anthropic_extra_body_openai_prompt_cache_controls body
      in if_field (option_has openai ''prompt_cache_key'') ''extra_body.openai.prompt_cache_key''
         @ if_field (option_has openai ''prompt_cache_retention'') ''extra_body.openai.prompt_cache_retention'')"

definition anthropic_extra_body_openai_retention_source :: "json \<Rightarrow> string option" where
  "anthropic_extra_body_openai_retention_source body =
     (if option_has (anthropic_extra_body_openai_prompt_cache_controls body) ''prompt_cache_retention''
      then Some ''extra_body.openai.prompt_cache_retention'' else None)"

definition anthropic_system_cache_control_field :: "json option \<Rightarrow> string" where
  "anthropic_system_cache_control_field system = (case system of
      Some (JObj _) \<Rightarrow> ''system.cache_control'' | _ \<Rightarrow> ''system[].cache_control'')"

definition anthropic_protocol_cache_control_fields :: "json \<Rightarrow> string list" where
  "anthropic_protocol_cache_control_fields body =
     if_field (has_field body ''cache_control'') ''cache_control''
     @ if_field (system_controlled body) (anthropic_system_cache_control_field (jget body ''system''))
     @ if_field (messages_controlled body) ''messages[].content[].cache_control''
     @ if_field (tools_controlled body) ''tools[].cache_control''"

definition anthropic_block_cache_control_ttl_present :: "json \<Rightarrow> bool" where
  "anthropic_block_cache_control_ttl_present block = option_has (jget block ''cache_control'') ''ttl''"

definition anthropic_system_cache_control_ttl_source :: "json option \<Rightarrow> string option" where
  "anthropic_system_cache_control_ttl_source system = (case system of
      Some (JArr blocks) \<Rightarrow>
        if list_ex anthropic_block_cache_control_ttl_present blocks
        then Some ''system[].cache_control.ttl'' else None
    | Some (JObj kvs) \<Rightarrow>
        if anthropic_block_cache_control_ttl_present (JObj kvs)
        then Some ''system.cache_control.ttl'' else None
    | _ \<Rightarrow> None)"

definition anthropic_protocol_cache_control_ttl_source :: "json \<Rightarrow> string option" where
  "anthropic_protocol_cache_control_ttl_source body =
     (if option_has (jget body ''cache_control'') ''ttl'' then Some ''cache_control.ttl''
      else (case anthropic_system_cache_control_ttl_source (jget body ''system'') of
          Some source \<Rightarrow> Some source
        | None \<Rightarrow>
            if list_ex (\<lambda>m. list_ex anthropic_block_cache_control_ttl_present (array_at m ''content''))
                 (array_at body ''messages'')
            then Some ''messages[].content[].cache_control.ttl''
            else if list_ex anthropic_block_cache_control_ttl_present (array_at body ''tools'')
            then Some ''tools[].cache_control.ttl''
            else None))"

section \<open>What becomes of the controls\<close>

datatype prompt_cache_request_control =
  NoControl | Preserved | ExplicitExtensionMapped | Synthesized | Dropped

datatype prompt_cache_target_provider = AnthropicProvider | OpenAiFamily

datatype prompt_cache_target_fields =
  NoTarget | AnthropicTopLevelCacheControl | AnthropicProtocolCacheControl | OpenAiFamilyTopLevelPromptCache

fun target_provider_str :: "prompt_cache_target_provider \<Rightarrow> string" where
  "target_provider_str AnthropicProvider = ''anthropic''"
| "target_provider_str OpenAiFamily = ''openai_family''"

definition target_provider_of :: "upstream_format \<Rightarrow> prompt_cache_target_provider" where
  "target_provider_of format = (case format of
      Anthropic \<Rightarrow> AnthropicProvider
    | OpenAiChatCompletions \<Rightarrow> OpenAiFamily
    | OpenAiResponses \<Rightarrow> OpenAiFamily)"

fun target_fields_of :: "prompt_cache_target_fields \<Rightarrow> json \<Rightarrow> string list" where
  "target_fields_of NoTarget body = []"
| "target_fields_of AnthropicTopLevelCacheControl body = anthropic_top_level_cache_control_field body"
| "target_fields_of AnthropicProtocolCacheControl body = anthropic_protocol_cache_control_fields body"
| "target_fields_of OpenAiFamilyTopLevelPromptCache body = openai_family_top_level_prompt_cache_fields body"

record cache_component =
  disposition :: prompt_cache_request_control
  source_fields :: "string list"
  target_fields :: prompt_cache_target_fields
  ttl_or_retention_source :: "string option"
  omitted_reason :: "string option"

record cache_analysis =
  target_provider :: prompt_cache_target_provider
  cache_components :: "cache_component list"

definition component_if :: "bool \<Rightarrow> cache_component \<Rightarrow> cache_component list" where
  "component_if b c = (if b then [c] else [])"

definition analyze_provider_prompt_cache_request_control ::
    "upstream_format \<Rightarrow> upstream_format \<Rightarrow> json \<Rightarrow> cache_analysis" where
  "analyze_provider_prompt_cache_request_control client upstream body =
     \<lparr>target_provider = target_provider_of upstream,
      cache_components =
       (if openai_family_format client \<and> upstream = Anthropic then
          component_if (openai_extra_body_anthropic_cache_control_present body)
            \<lparr>disposition = ExplicitExtensionMapped,
             source_fields = [''extra_body.anthropic.cache_control''],
             target_fields = AnthropicTopLevelCacheControl,
             ttl_or_retention_source = openai_extra_body_anthropic_cache_control_ttl_source body,
             omitted_reason = None\<rparr>
          @ component_if (openai_family_prompt_cache_top_level_fields_present body)
            \<lparr>disposition = Dropped,
             source_fields = openai_family_top_level_prompt_cache_fields body,
             target_fields = NoTarget,
             ttl_or_retention_source = openai_family_prompt_cache_retention_source body,
             omitted_reason = Some ''openai_prompt_cache_key_not_anthropic_cache_control_or_breakpoint''\<rparr>
        else if client = Anthropic \<and> openai_family_format upstream then
          component_if (anthropic_extra_body_openai_prompt_cache_key_present body)
            \<lparr>disposition = ExplicitExtensionMapped,
             source_fields = anthropic_extra_body_openai_prompt_cache_fields body,
             target_fields = OpenAiFamilyTopLevelPromptCache,
             ttl_or_retention_source = anthropic_extra_body_openai_retention_source body,
             omitted_reason = None\<rparr>
          @ component_if (anthropic_protocol_cache_control_present body)
            \<lparr>disposition = Dropped,
             source_fields = anthropic_protocol_cache_control_fields body,
             target_fields = NoTarget,
             ttl_or_retention_source = anthropic_protocol_cache_control_ttl_source body,
             omitted_reason = Some ''anthropic_cache_control_not_openai_prompt_cache_key''\<rparr>
        else if openai_family_format client \<and> openai_family_format upstream then
          component_if (openai_family_prompt_cache_top_level_fields_present body)
            \<lparr>disposition = Preserved,
             source_fields = openai_family_top_level_prompt_cache_fields body,
             target_fields = OpenAiFamilyTopLevelPromptCache,
             ttl_or_retention_source = openai_family_prompt_cache_retention_source body,
             omitted_reason = None\<rparr>
        else component_if (client = upstream \<and> client = Anthropic \<and> anthropic_protocol_cache_control_present body)
            \<lparr>disposition = Preserved,
             source_fields = anthropic_protocol_cache_control_fields body,
             target_fields = AnthropicProtocolCacheControl,
             ttl_or_retention_source = anthropic_protocol_cache_control_ttl_source body,
             omitted_reason = None\<rparr>)\<rparr>"

definition project_prompt_cache_request_control ::
    "bool \<Rightarrow> bool \<Rightarrow> bool \<Rightarrow> prompt_cache_request_control" where
  "project_prompt_cache_request_control mapped dropped preserved =
     (if mapped then ExplicitExtensionMapped
      else if dropped then Dropped
      else if preserved then Preserved
      else NoControl)"

definition coarse_control :: "cache_analysis \<Rightarrow> prompt_cache_request_control" where
  "coarse_control a =
     (let present = (\<lambda>d. list_ex (\<lambda>c. disposition c = d) (cache_components a))
      in project_prompt_cache_request_control
           (present ExplicitExtensionMapped) (present Dropped) (present Preserved))"

definition classify_provider_prompt_cache_request_control ::
    "upstream_format \<Rightarrow> upstream_format \<Rightarrow> json \<Rightarrow> prompt_cache_request_control" where
  "classify_provider_prompt_cache_request_control client upstream body =
     project_prompt_cache_request_control
       ((openai_family_format client \<and> upstream = Anthropic
           \<and> openai_extra_body_anthropic_cache_control_present body)
        \<or> (client = Anthropic \<and> openai_family_format upstream
           \<and> anthropic_extra_body_openai_prompt_cache_key_present body))
       ((openai_family_format client \<and> upstream = Anthropic
           \<and> openai_family_prompt_cache_top_level_fields_present body)
        \<or> (client = Anthropic \<and> openai_family_format upstream
           \<and> anthropic_protocol_cache_control_present body))
       ((openai_family_format client \<and> openai_family_format upstream
           \<and> openai_family_prompt_cache_top_level_fields_present body)
        \<or> (client = upstream \<and> client = Anthropic \<and> anthropic_protocol_cache_control_present body))"

section \<open>The synthesized key\<close>

definition synthesis_version :: string where "synthesis_version = ''v1''"

definition synthesis_schema :: string where
  "synthesis_schema = ''llmup.openai_family_prompt_cache_static_prefix.v1''"

definition prompt_cache_key_prefix :: string where "prompt_cache_key_prefix = ''llmup:v1:''"

record synthesis_context =
  ctx_namespace :: string
  ctx_upstream_name :: string
  ctx_upstream_model :: string
  ctx_upstream_format :: upstream_format

record key_synthesis =
  ks_key :: string
  ks_fingerprint :: string

definition openai_family_provider_state_control_present :: "json \<Rightarrow> bool" where
  "openai_family_provider_state_control_present body =
     list_ex (has_field body) [''previous_response_id'', ''conversation'', ''prompt'']"

fun value_without_anthropic_cache_control :: "json \<Rightarrow> json" where
  "value_without_anthropic_cache_control (JArr items) = JArr (map value_without_anthropic_cache_control items)"
| "value_without_anthropic_cache_control (JObj kvs) =
     JObj (map (\<lambda>(k, v). (k, value_without_anthropic_cache_control v))
       (filter (\<lambda>(k, _). k \<noteq> ''cache_control'') kvs))"
| "value_without_anthropic_cache_control v = v"

definition anthropic_static_instructions :: "json \<Rightarrow> json" where
  "anthropic_static_instructions body = (case jget body ''system'' of
      None \<Rightarrow> jobj []
    | Some system \<Rightarrow> jobj [(''system'', value_without_anthropic_cache_control system)])"

definition openai_responses_static_instruction_item :: "json \<Rightarrow> bool" where
  "openai_responses_static_instruction_item item = (type_of item = Some ''message''
     \<and> role_of item \<in> {Some ''system'', Some ''developer''})"

definition openai_chat_explicit_static_instruction_message :: "json \<Rightarrow> bool" where
  "openai_chat_explicit_static_instruction_message message =
     (role_of message \<in> {Some ''system'', Some ''developer''})"

definition openai_chat_compatibility_instruction :: "json \<Rightarrow> json option" where
  "openai_chat_compatibility_instruction message =
     (if role_of message \<noteq> Some ''user'' then None
      else (case jget_str message ''content'' of
          None \<Rightarrow> None
        | Some content \<Rightarrow>
            (case List.find (\<lambda>(label, _). starts_with label content)
                [(''System instructions:'' @ [nl], ''system''),
                 (''Developer instructions:'' @ [nl], ''developer'')] of
               None \<Rightarrow> None
             | Some (label, role) \<Rightarrow> Some (jobj [(''role'', JStr role),
                 (''content'', JStr (unwrap_or (strip_prefix label content) content))]))))"

text \<open>\<open>map_while\<close>\<close>

fun map_while :: "('a \<Rightarrow> 'b option) \<Rightarrow> 'a list \<Rightarrow> 'b list" where
  "map_while f [] = []"
| "map_while f (x # xs) = (case f x of None \<Rightarrow> [] | Some y \<Rightarrow> y # map_while f xs)"

definition openai_chat_static_instructions :: "json \<Rightarrow> json" where
  "openai_chat_static_instructions body = (case jget_array body ''messages'' of
      None \<Rightarrow> JArr []
    | Some messages \<Rightarrow>
        (let explicit = takeWhile openai_chat_explicit_static_instruction_message messages
         in if explicit \<noteq> [] then JArr explicit
            else JArr (map_while openai_chat_compatibility_instruction messages)))"

definition responses_static_instructions :: "json \<Rightarrow> json" where
  "responses_static_instructions body =
     (let items = takeWhile openai_responses_static_instruction_item (array_at body ''input'')
      in jobj ((case jget body ''instructions'' of None \<Rightarrow> [] | Some v \<Rightarrow> [(''instructions'', v)])
           @ (if items = [] then [] else [(''input_static_messages'', JArr items)])))"

fun static_prefix_instructions :: "upstream_format \<Rightarrow> json \<Rightarrow> json" where
  "static_prefix_instructions OpenAiChatCompletions body = openai_chat_static_instructions body"
| "static_prefix_instructions OpenAiResponses body = responses_static_instructions body"
| "static_prefix_instructions Anthropic body = anthropic_static_instructions body"

definition static_config_fields :: "upstream_format \<Rightarrow> string list" where
  "static_config_fields format = (case format of
      OpenAiChatCompletions \<Rightarrow> [''response_format'', ''tool_choice'', ''parallel_tool_calls'', ''reasoning_effort'']
    | OpenAiResponses \<Rightarrow> [''text'', ''tool_choice'', ''parallel_tool_calls'', ''reasoning'']
    | Anthropic \<Rightarrow> [])"

definition openai_family_static_config :: "upstream_format \<Rightarrow> json \<Rightarrow> json" where
  "openai_family_static_config format body =
     jobj (List.map_filter (\<lambda>k. map_option (Pair k) (jget body k)) (static_config_fields format))"

definition openai_family_static_prefix ::
    "synthesis_context \<Rightarrow> upstream_format \<Rightarrow> json \<Rightarrow> json \<Rightarrow> json option" where
  "openai_family_static_prefix ctx instruction_format instruction_body upstream_body =
     (if \<not> is_object upstream_body \<or> ctx_upstream_format ctx = Anthropic then None
      else Some (jobj
        [(''schema'', JStr synthesis_schema),
         (''namespace'', JStr (ctx_namespace ctx)),
         (''upstream'', JStr (ctx_upstream_name ctx)),
         (''model'', JStr (ctx_upstream_model ctx)),
         (''protocol'', JStr (if ctx_upstream_format ctx = OpenAiChatCompletions
            then ''openai_chat_completions'' else ''openai_responses'')),
         (''version'', JStr synthesis_version),
         (''instructions'', static_prefix_instructions instruction_format instruction_body),
         (''tools'', unwrap_or (jget upstream_body ''tools'') (JArr [])),
         (''static_config'', openai_family_static_config (ctx_upstream_format ctx) upstream_body)]))"

definition scoped_fingerprint :: "env \<Rightarrow> string \<Rightarrow> string \<Rightarrow> nat \<Rightarrow> string" where
  "scoped_fingerprint E scope value hex_chars =
     take hex_chars (sha256_hex E (''llmup.provider_prompt_cache.'' @ scope @ [CHR 0x00] @ value))"

lemma size_pair_in:
  "(k, v) \<in> set kvs \<Longrightarrow> size (v :: json) \<le> size_list (size_prod (size_list size) size) kvs"
  by (erule size_list_estimation') simp

function canonical_json :: "env \<Rightarrow> json \<Rightarrow> string" where
  "canonical_json E (JArr items) = ''['' @ join '','' (map (canonical_json E) items) @ '']''"
| "canonical_json E (JObj kvs) =
     ''{'' @ join '','' (map (\<lambda>(k, v). json_text E (JStr k) @ '':'' @ canonical_json E v)
       (sort_key fst kvs)) @ ''}''"
| "canonical_json E JNull = json_text E JNull"
| "canonical_json E (JBool b) = json_text E (JBool b)"
| "canonical_json E (JNum n) = json_text E (JNum n)"
| "canonical_json E (JStr s) = json_text E (JStr s)"
  by pat_completeness auto
termination
  by (relation "measure (size \<circ> snd)")
    (auto simp: less_Suc_eq_le intro: size_list_estimation' size_pair_in)

definition synthesized_prompt_cache_key_debug_fingerprint :: "env \<Rightarrow> string \<Rightarrow> string" where
  "synthesized_prompt_cache_key_debug_fingerprint E key = scoped_fingerprint E ''synthesized_key_debug'' key 12"

definition synthesized_prompt_cache_key_present :: "json \<Rightarrow> bool" where
  "synthesized_prompt_cache_key_present body = (case jget_str body ''prompt_cache_key'' of
      None \<Rightarrow> False | Some key \<Rightarrow> starts_with prompt_cache_key_prefix key)"

definition synthesized_key :: "env \<Rightarrow> synthesis_context \<Rightarrow> json \<Rightarrow> string" where
  "synthesized_key E ctx static_prefix =
     ''llmup:'' @ synthesis_version
     @ '':'' @ scoped_fingerprint E ''namespace'' (ctx_namespace ctx) 16
     @ '':'' @ scoped_fingerprint E ''upstream'' (ctx_upstream_name ctx) 16
     @ '':'' @ scoped_fingerprint E ''model'' (ctx_upstream_model ctx) 16
     @ '':'' @ scoped_fingerprint E ''static_prefix'' (canonical_json E static_prefix) 32"

text \<open>The synthesis and the upstream body after it.\<close>

definition synthesize_openai_family_prompt_cache_key_from_source ::
    "env \<Rightarrow> synthesis_context \<Rightarrow> upstream_format \<Rightarrow> json \<Rightarrow> json \<Rightarrow> key_synthesis option \<times> json" where
  "synthesize_openai_family_prompt_cache_key_from_source E ctx source_format source_body upstream_body =
     (if \<not> openai_family_format (ctx_upstream_format ctx)
         \<or> has_field upstream_body ''prompt_cache_key''
         \<or> openai_family_provider_state_control_present upstream_body
      then (None, upstream_body)
      else (case openai_family_static_prefix ctx source_format source_body upstream_body of
          None \<Rightarrow> (None, upstream_body)
        | Some static_prefix \<Rightarrow>
            (let key = synthesized_key E ctx static_prefix
             in (Some \<lparr>ks_key = key, ks_fingerprint = synthesized_prompt_cache_key_debug_fingerprint E key\<rparr>,
                 jset ''prompt_cache_key'' (JStr key) upstream_body))))"

section \<open>The two views of the controls agree\<close>

text \<open>The one-word classification of a request is what the detailed analysis comes to, for every pair of
  formats and every body; the analysis names at least one source field for each of its at most two
  findings.\<close>

theorem classification_is_coarse_analysis:
  "classify_provider_prompt_cache_request_control client upstream body
     = coarse_control (analyze_provider_prompt_cache_request_control client upstream body)
   \<and> list_all (\<lambda>c. source_fields c \<noteq> [])
       (cache_components (analyze_provider_prompt_cache_request_control client upstream body))
   \<and> length (cache_components (analyze_provider_prompt_cache_request_control client upstream body)) \<le> 2"
  by (cases client; cases upstream)
    (simp_all add: classify_provider_prompt_cache_request_control_def coarse_control_def Let_def
      analyze_provider_prompt_cache_request_control_def component_if_def openai_family_format_def
      openai_family_prompt_cache_top_level_fields_present_def anthropic_protocol_cache_control_present_def
      openai_family_top_level_prompt_cache_fields_def anthropic_protocol_cache_control_fields_def
      anthropic_extra_body_openai_prompt_cache_fields_def
      anthropic_extra_body_openai_prompt_cache_key_present_def if_field_def)

section \<open>The synthesized key is stable\<close>

lemma takeWhile_stop: "\<not> P m \<Longrightarrow> takeWhile P (pre @ m # rest) = takeWhile P pre"
  by (induction pre) auto

lemma map_while_stop: "f m = None \<Longrightarrow> map_while f (pre @ m # rest) = map_while f pre"
  by (induction pre) (auto split: option.split)

definition starts_conversation :: "json \<Rightarrow> bool" where
  "starts_conversation m = (\<not> openai_chat_explicit_static_instruction_message m
     \<and> openai_chat_compatibility_instruction m = None)"

lemma chat_prefix_ends:
  assumes "starts_conversation m" and "is_object body"
  shows "openai_chat_static_instructions (jset ''messages'' (JArr (pre @ m # rest)) body)
    = openai_chat_static_instructions (jset ''messages'' (JArr pre) body)"
  using assms by (simp add: openai_chat_static_instructions_def starts_conversation_def jget_array_def
      takeWhile_stop map_while_stop Let_def)

lemma static_config_messages:
  assumes "is_object body"
  shows "openai_family_static_config format (jset ''messages'' x body) = openai_family_static_config format body"
  using assms by (cases format)
    (simp_all add: openai_family_static_config_def static_config_fields_def List.map_filter_def)

lemma strip_no_controls [simp]:
  "value_without_anthropic_cache_control (value_without_anthropic_cache_control v)
     = value_without_anthropic_cache_control v"
  by (induction v rule: value_without_anthropic_cache_control.induct)
    (auto simp: filter_map comp_def case_prod_unfold)

text \<open>The key that is made up for a Chat Completions conversation is the same at every later turn: it does
  not change when messages are added or changed after the first message of the conversation proper,
  neither in the client's request nor in the request to the upstream.\<close>

theorem synthesized_key_same_every_turn:
  assumes "starts_conversation m" and "is_object source" and "is_object upstream"
  shows "fst (synthesize_openai_family_prompt_cache_key_from_source E ctx OpenAiChatCompletions
      (jset ''messages'' (JArr (pre @ m # rest)) source) (jset ''messages'' (JArr turns) upstream))
    = fst (synthesize_openai_family_prompt_cache_key_from_source E ctx OpenAiChatCompletions
      (jset ''messages'' (JArr (pre @ m # rest')) source) (jset ''messages'' (JArr turns') upstream))"
  using assms by (simp add: synthesize_openai_family_prompt_cache_key_from_source_def has_field_def
      openai_family_provider_state_control_present_def openai_family_static_prefix_def
      chat_prefix_ends static_config_messages Let_def)

text \<open>A key that was made up is recognised as such, has a bounded length, and stops a second synthesis; a
  key of the client is never replaced. The cache breakpoints of an Anthropic client have no influence
  on the key.\<close>

theorem synthesized_key_recognised:
  "let (made, body) = synthesize_openai_family_prompt_cache_key_from_source E ctx format source upstream
   in (case made of
         None \<Rightarrow> body = upstream
       | Some k \<Rightarrow> synthesized_prompt_cache_key_present body \<and> length (ks_key k) \<le> 92
           \<and> body = jset ''prompt_cache_key'' (JStr (ks_key k)) upstream
           \<and> jget upstream ''prompt_cache_key'' = None
           \<and> synthesize_openai_family_prompt_cache_key_from_source E ctx' format' source' body = (None, body))
      \<and> static_prefix_instructions Anthropic (with_field ''system'' value_without_anthropic_cache_control source)
          = static_prefix_instructions Anthropic source"
proof -
  have system: "static_prefix_instructions Anthropic (with_field ''system'' value_without_anthropic_cache_control source)
      = static_prefix_instructions Anthropic source"
    by (simp add: anthropic_static_instructions_def jget_with_field split: option.split)
  have made: "length (synthesized_key E ctx p) \<le> 92 \<and> starts_with prompt_cache_key_prefix (synthesized_key E ctx p)" for p
  proof -
    have "length (scoped_fingerprint E scope x n) \<le> n" for scope x n
      by (simp add: scoped_fingerprint_def)
    from this [of "''namespace''" "ctx_namespace ctx" 16] this [of "''upstream''" "ctx_upstream_name ctx" 16]
      this [of "''model''" "ctx_upstream_model ctx" 16] this [of "''static_prefix''" "canonical_json E p" 32]
    show ?thesis
      by (simp add: synthesized_key_def synthesis_version_def prompt_cache_key_prefix_def)
  qed
  show ?thesis
  proof (cases "fst (synthesize_openai_family_prompt_cache_key_from_source E ctx format source upstream)")
    case None
    with system show ?thesis
      by (auto simp: synthesize_openai_family_prompt_cache_key_from_source_def Let_def split: if_splits option.splits)
  next
    case (Some k)
    then obtain p where "is_object upstream" "jget upstream ''prompt_cache_key'' = None"
      and k: "synthesize_openai_family_prompt_cache_key_from_source E ctx format source upstream
        = (Some k, jset ''prompt_cache_key'' (JStr (ks_key k)) upstream)" "ks_key k = synthesized_key E ctx p"
      by (auto simp: synthesize_openai_family_prompt_cache_key_from_source_def Let_def has_field_def
          openai_family_static_prefix_def split: if_splits option.splits)
    moreover from this have "jget_str (jset ''prompt_cache_key'' (JStr (ks_key k)) upstream) ''prompt_cache_key''
        = Some (ks_key k)" by (simp add: jget_str_def)
    ultimately show ?thesis
      using made [of p] system
      by (simp add: synthesized_prompt_cache_key_present_def
          synthesize_openai_family_prompt_cache_key_from_source_def has_field_def)
  qed
qed

definition chat_turn :: "string \<Rightarrow> string \<Rightarrow> json" where
  "chat_turn role content = jobj [(''role'', JStr role), (''content'', JStr content)]"

definition chat_body :: "json list \<Rightarrow> json" where
  "chat_body messages = jset ''messages'' (JArr messages) (jobj [])"

definition example_context :: synthesis_context where
  "example_context = \<lparr>ctx_namespace = ''n'', ctx_upstream_name = ''u'', ctx_upstream_model = ''m'',
     ctx_upstream_format = OpenAiChatCompletions\<rparr>"

definition example_synthesis :: "json list \<Rightarrow> key_synthesis option" where
  "example_synthesis rest = fst (synthesize_openai_family_prompt_cache_key_from_source example_env
     example_context OpenAiChatCompletions
     (chat_body ([chat_turn ''system'' ''be brief''] @ chat_turn ''user'' ''hi'' # rest)) (chat_body rest))"

theorem synthesized_key_same_every_turn_witness:
  "example_synthesis [] \<noteq> None
   \<and> example_synthesis [] = example_synthesis [chat_turn ''assistant'' ''hello'']"
proof
  show "example_synthesis [] \<noteq> None" by code_simp
  have "starts_conversation (chat_turn ''user'' ''hi'')" by code_simp
  from synthesized_key_same_every_turn [OF this is_object_jobj is_object_jobj]
  show "example_synthesis [] = example_synthesis [chat_turn ''assistant'' ''hello'']"
    unfolding example_synthesis_def chat_body_def .
qed

end
