(* ===== verification/Request_Controls.thy ===== *)
theory Request_Controls
  imports Request_Json Artifacts
begin

text \<open>
  The controls of an OpenAI-family request in a normal form that both OpenAI protocols are read into
  and written from (\<open>src/translate/internal/openai_family.rs\<close>, with the types of \<open>models.rs\<close>): the tool
  policy, the shape of the output, decoding, log probabilities and the pass-through fields.
\<close>

section \<open>The decision on a request\<close>

datatype translation_issue_level = Warning | Reject

record translation_issue =
  issue_level :: translation_issue_level
  issue_message :: string

datatype translation_decision = Allow | AllowWithWarnings "string list" | Refuse string

fun decide :: "string list \<Rightarrow> translation_issue list \<Rightarrow> translation_decision" where
  "decide warnings [] = (if warnings = [] then Allow else AllowWithWarnings warnings)"
| "decide warnings (i # is) = (case issue_level i of
      Reject \<Rightarrow> Refuse (issue_message i)
    | Warning \<Rightarrow> decide (warnings @ [issue_message i]) is)"

definition translation_decision_of :: "translation_issue list \<Rightarrow> translation_decision" where
  "translation_decision_of issues = decide [] issues"

section \<open>The shape of the output\<close>

record json_schema_shape =
  js_name :: string
  js_schema :: json
  js_description :: "string option"
  js_strict :: "bool option"

datatype output_shape = TextShape | JsonObjectShape | JsonSchemaShape json_schema_shape

definition nonempty_str :: "json \<Rightarrow> string \<Rightarrow> string option" where
  "nonempty_str v k = (case jget_str v k of None \<Rightarrow> None | Some s \<Rightarrow> if s = [] then None else Some s)"

definition read_json_schema :: "json \<Rightarrow> json \<Rightarrow> json_schema_shape" where
  "read_json_schema container schema =
     \<lparr>js_name = unwrap_or (nonempty_str container ''name'') ''structured_output'',
      js_schema = schema,
      js_description = jget_str container ''description'',
      js_strict = jget_bool container ''strict''\<rparr>"

definition openai_response_format_json_schema :: "json \<Rightarrow> string + json_schema_shape" where
  "openai_response_format_json_schema container =
     (case Option.bind (jget container ''json_schema'') as_object of
        None \<Rightarrow> Inl ''OpenAI response_format.type = json_schema requires a `json_schema` object''
      | Some kvs \<Rightarrow> (case jget (JObj kvs) ''schema'' of
          None \<Rightarrow> Inl ''OpenAI response_format.json_schema.schema is required for structured output translation''
        | Some schema \<Rightarrow> Inr (read_json_schema (JObj kvs) schema)))"

definition responses_text_format_json_schema :: "json \<Rightarrow> string + json_schema_shape" where
  "responses_text_format_json_schema container =
     (case jget container ''schema'' of
        None \<Rightarrow> Inl ''Responses text.format.type = json_schema requires a `schema` object''
      | Some schema \<Rightarrow> Inr (read_json_schema container schema))"

definition present :: "json option \<Rightarrow> json option" where
  "present ov = (case ov of Some JNull \<Rightarrow> None | _ \<Rightarrow> ov)"

definition openai_normalized_output_shape :: "json \<Rightarrow> string + output_shape option" where
  "openai_normalized_output_shape body = (case present (jget body ''response_format'') of
      None \<Rightarrow> Inr None
    | Some (JObj kvs) \<Rightarrow>
        (case type_of (JObj kvs) of
          None \<Rightarrow> Inl ''OpenAI response_format.type is required when translating structured output controls''
        | Some ty \<Rightarrow>
            if ty = ''text'' then Inr (Some TextShape)
            else if ty = ''json_object'' then Inr (Some JsonObjectShape)
            else if ty = ''json_schema'' then
              res_bind (openai_response_format_json_schema (JObj kvs)) (\<lambda>s. Inr (Some (JsonSchemaShape s)))
            else Inl (''OpenAI response_format.type `'' @ ty @ ''` cannot be faithfully translated''))
    | Some _ \<Rightarrow> Inl ''OpenAI response_format must be an object when translating structured output controls'')"

definition responses_normalized_output_shape :: "json \<Rightarrow> string + output_shape option" where
  "responses_normalized_output_shape body = (case present (ogetj (jget body ''text'') ''format'') of
      None \<Rightarrow> Inr None
    | Some (JObj kvs) \<Rightarrow>
        (case type_of (JObj kvs) of
          None \<Rightarrow> Inl ''Responses text.format.type is required when translating structured output controls''
        | Some ty \<Rightarrow>
            if ty = ''text'' then Inr (Some TextShape)
            else if ty = ''json_object'' then Inr (Some JsonObjectShape)
            else if ty = ''json_schema'' then
              res_bind (responses_text_format_json_schema (JObj kvs)) (\<lambda>s. Inr (Some (JsonSchemaShape s)))
            else Inl (''Responses text.format.type `'' @ ty @ ''` cannot be faithfully translated''))
    | Some _ \<Rightarrow> Inl ''Responses text.format must be an object when translating structured output controls'')"

definition opt_field :: "string \<Rightarrow> json option \<Rightarrow> (string \<times> json) list" where
  "opt_field k v = (case v of None \<Rightarrow> [] | Some x \<Rightarrow> [(k, x)])"

definition schema_fields :: "json_schema_shape \<Rightarrow> (string \<times> json) list" where
  "schema_fields s = [(''name'', JStr (js_name s)), (''schema'', js_schema s)]
     @ opt_field ''description'' (map_option JStr (js_description s))
     @ opt_field ''strict'' (map_option JBool (js_strict s))"

fun normalized_output_shape_to_openai_response_format :: "output_shape \<Rightarrow> json" where
  "normalized_output_shape_to_openai_response_format TextShape = jobj [(''type'', JStr ''text'')]"
| "normalized_output_shape_to_openai_response_format JsonObjectShape = jobj [(''type'', JStr ''json_object'')]"
| "normalized_output_shape_to_openai_response_format (JsonSchemaShape s) =
     jobj [(''type'', JStr ''json_schema''), (''json_schema'', jobj (schema_fields s))]"

fun normalized_output_shape_to_responses_text_format :: "output_shape \<Rightarrow> json" where
  "normalized_output_shape_to_responses_text_format TextShape = jobj [(''type'', JStr ''text'')]"
| "normalized_output_shape_to_responses_text_format JsonObjectShape = jobj [(''type'', JStr ''json_object'')]"
| "normalized_output_shape_to_responses_text_format (JsonSchemaShape s) =
     jobj ((''type'', JStr ''json_schema'') # schema_fields s)"

section \<open>Cache controls in the extra body\<close>

definition openai_extra_body_google_cached_content :: "json \<Rightarrow> json option" where
  "openai_extra_body_google_cached_content body =
     (let google = ogetj (jget body ''extra_body'') ''google''
      in option_or (ogetj google ''cached_content'') (ogetj google ''cachedContent''))"

record openai_prompt_cache_controls =
  pc_key :: json
  pc_retention :: "json option"

definition prompt_cache_controls_message :: "string \<Rightarrow> string" where
  "prompt_cache_controls_message detail =
     ''extra_body.openai must be an object with non-empty string `prompt_cache_key` and optional `prompt_cache_retention`: \"in_memory\" or \"24h\"; ''
     @ detail"

definition read_retention :: "json option \<Rightarrow> string + json option" where
  "read_retention v = (case v of
      None \<Rightarrow> Inr None
    | Some (JStr r) \<Rightarrow>
        if r \<in> {''in_memory'', ''24h''} then Inr (Some (JStr r))
        else Inl (prompt_cache_controls_message ''`prompt_cache_retention` must be \"in_memory\" or \"24h\"'')
    | Some _ \<Rightarrow> Inl (prompt_cache_controls_message ''`prompt_cache_retention` must be a string''))"

definition validated_anthropic_extra_body_openai_prompt_cache_controls ::
    "json \<Rightarrow> string + openai_prompt_cache_controls option" where
  "validated_anthropic_extra_body_openai_prompt_cache_controls body =
     (case ogetj (jget body ''extra_body'') ''openai'' of
        None \<Rightarrow> Inr None
      | Some (JObj kvs) \<Rightarrow>
          if list_ex (\<lambda>(k, _). k \<noteq> ''prompt_cache_key'' \<and> k \<noteq> ''prompt_cache_retention'') kvs
          then Inl (prompt_cache_controls_message
            ''only `prompt_cache_key` and optional `prompt_cache_retention` are supported'')
          else (case jget (JObj kvs) ''prompt_cache_key'' of
              None \<Rightarrow> Inl (prompt_cache_controls_message ''`prompt_cache_key` is required'')
            | Some (JStr key) \<Rightarrow>
                if trim key = []
                then Inl (prompt_cache_controls_message ''`prompt_cache_key` must be a non-empty string'')
                else res_bind (read_retention (jget (JObj kvs) ''prompt_cache_retention''))
                  (\<lambda>r. Inr (Some \<lparr>pc_key = JStr key, pc_retention = r\<rparr>))
            | Some _ \<Rightarrow> Inl (prompt_cache_controls_message ''`prompt_cache_key` must be a string''))
      | Some _ \<Rightarrow> Inl (prompt_cache_controls_message ''value must be an object''))"

definition cache_control_message :: "string \<Rightarrow> string" where
  "cache_control_message detail =
     ''extra_body.anthropic.cache_control must be an object with `type`: \"ephemeral\" and optional `ttl`: \"5m\" or \"1h\"; ''
     @ detail"

definition validate_ttl :: "json option \<Rightarrow> validation" where
  "validate_ttl v = (case v of
      None \<Rightarrow> Inr ()
    | Some (JStr t) \<Rightarrow> if t \<in> {''5m'', ''1h''} then Inr ()
        else Inl (cache_control_message ''`ttl` must be \"5m\" or \"1h\"'')
    | Some _ \<Rightarrow> Inl (cache_control_message ''`ttl` must be a string''))"

definition validate_openai_extra_body_anthropic_cache_control :: "json \<Rightarrow> validation" where
  "validate_openai_extra_body_anthropic_cache_control cache_control = (case cache_control of
      JObj kvs \<Rightarrow>
        if list_ex (\<lambda>(k, _). k \<noteq> ''type'' \<and> k \<noteq> ''ttl'') kvs
        then Inl (cache_control_message ''only `type` and optional `ttl` are supported'')
        else (case type_of cache_control of
            None \<Rightarrow> Inl (cache_control_message ''`type` is required'')
          | Some ty \<Rightarrow> if ty = ''ephemeral'' then validate_ttl (jget cache_control ''ttl'')
              else Inl (cache_control_message ''`type` must be \"ephemeral\"''))
    | _ \<Rightarrow> Inl (cache_control_message ''value must be an object''))"

definition validated_openai_extra_body_anthropic_cache_control :: "json \<Rightarrow> string + json option" where
  "validated_openai_extra_body_anthropic_cache_control body =
     (case ogetj (ogetj (jget body ''extra_body'') ''anthropic'') ''cache_control'' of
        None \<Rightarrow> Inr None
      | Some c \<Rightarrow> res_bind (validate_openai_extra_body_anthropic_cache_control c) (\<lambda>_. Inr (Some c)))"

section \<open>The tool policy\<close>

datatype tool_policy = AutoTools | NoTools | RequiredTools | ForcedFunction string

definition nonempty :: "string option \<Rightarrow> string option" where
  "nonempty s = (if s = Some [] then None else s)"

definition openai_function_tool_name :: "json \<Rightarrow> string option" where
  "openai_function_tool_name v =
     (if type_of v \<noteq> Some ''function'' then None
      else nonempty (ostr (option_or (ogetj (jget v ''function'') ''name'') (jget v ''name''))))"

definition openai_declared_function_tools :: "json \<Rightarrow> json list" where
  "openai_declared_function_tools body =
     filter (\<lambda>t. openai_function_tool_name t \<noteq> None) (array_at body ''tools'')"

definition openai_select_function_tools_by_name ::
    "json list \<Rightarrow> string \<Rightarrow> string list \<Rightarrow> string + json list" where
  "openai_select_function_tools_by_name tools label names =
     res_map (\<lambda>n. case List.find (\<lambda>t. openai_function_tool_name t = Some n) tools of
         Some t \<Rightarrow> Inr t
       | None \<Rightarrow> Inl (''OpenAI '' @ label @ '' selected function `'' @ n
           @ ''`, but no matching declared function tool exists.'')) names"

definition openai_tool_choice_allowed_tools_object :: "json \<Rightarrow> json option" where
  "openai_tool_choice_allowed_tools_object choice =
     (case jget choice ''allowed_tools'' of
        Some (JObj kvs) \<Rightarrow> Some (JObj kvs)
      | _ \<Rightarrow> if jget choice ''mode'' \<noteq> None \<and> jget choice ''tools'' \<noteq> None then Some choice else None)"

definition openai_legacy_allowed_tool_names :: "json \<Rightarrow> string list option" where
  "openai_legacy_allowed_tool_names body =
     (let names = filter (\<lambda>n. n \<noteq> []) (List.map_filter as_str (array_at body ''allowed_tool_names''))
      in if names = [] then None else Some names)"

type_synonym normalized_tool_policy = "tool_policy option \<times> string list option"

text \<open>The loop over the selected tools; \<open>None\<close> is the early return for a custom tool.\<close>

fun selected_names :: "json list \<Rightarrow> string + string list option" where
  "selected_names [] = Inr (Some [])"
| "selected_names (t # ts) =
     (if type_of t = Some ''custom'' then Inr None
      else if type_of t \<noteq> Some ''function'' then
        Inl ''OpenAI tool_choice.allowed_tools is only portable for function/custom tools.''
      else (case openai_function_tool_name t of
          None \<Rightarrow> Inl ''OpenAI tool_choice.allowed_tools function selections require non-empty function names.''
        | Some n \<Rightarrow> res_bind (validate_public_tool_name_not_reserved n)
            (\<lambda>_. res_bind (selected_names ts) (\<lambda>ns. Inr (map_option ((#) n) ns)))))"

definition allowed_tools_policy :: "json \<Rightarrow> json \<Rightarrow> string + normalized_tool_policy" where
  "allowed_tools_policy body choice =
     (case openai_tool_choice_allowed_tools_object choice of
        None \<Rightarrow> Inl ''OpenAI tool_choice.type = allowed_tools requires an `allowed_tools` payload.''
      | Some allowed \<Rightarrow> (case jget_str allowed ''mode'' of
          None \<Rightarrow> Inl ''OpenAI tool_choice.allowed_tools.mode is required for allowed_tools translation.''
        | Some mode \<Rightarrow> (case jget_array allowed ''tools'' of
            None \<Rightarrow> Inl ''OpenAI tool_choice.allowed_tools.tools must be an array of selected tools.''
          | Some tools \<Rightarrow>
              if tools = [] then
                Inl ''OpenAI tool_choice.allowed_tools.tools cannot be empty for cross-protocol translation.''
              else res_bind (selected_names tools) (\<lambda>sel. case sel of
                  None \<Rightarrow> Inr (None, None)
                | Some names \<Rightarrow>
                    res_bind (openai_select_function_tools_by_name (openai_declared_function_tools body)
                        ''tool_choice.allowed_tools'' names)
                      (\<lambda>_. if mode = ''auto'' then Inr (Some AutoTools, Some names)
                           else if mode = ''required'' then Inr (Some RequiredTools, Some names)
                           else Inl (''OpenAI tool_choice.allowed_tools.mode `'' @ mode
                             @ ''` is not portable.'')))))) "

definition object_tool_policy :: "json \<Rightarrow> json \<Rightarrow> string + normalized_tool_policy" where
  "object_tool_policy body choice = (case type_of choice of
      None \<Rightarrow> Inr (None, None)
    | Some ty \<Rightarrow>
        if ty = ''function'' then
          (case nonempty (ostr (option_or (jget choice ''name'') (ogetj (jget choice ''function'') ''name''))) of
             None \<Rightarrow> Inl ''OpenAI tool_choice.type = function requires a non-empty function name.''
           | Some n \<Rightarrow> res_bind (validate_public_tool_name_not_reserved n)
               (\<lambda>_. Inr (Some (ForcedFunction n), None)))
        else if ty = ''allowed_tools'' then allowed_tools_policy body choice
        else Inr (None, None))"

definition openai_normalized_tool_policy :: "json \<Rightarrow> string + normalized_tool_policy" where
  "openai_normalized_tool_policy body =
     (let legacy = openai_legacy_allowed_tool_names body
      in res_bind (res_each validate_public_tool_name_not_reserved (unwrap_or legacy [])) (\<lambda>_.
        case present (jget body ''tool_choice'') of
          None \<Rightarrow> Inr (None, None)
        | Some (JStr choice) \<Rightarrow>
            Inr (if choice = ''auto'' then Some AutoTools
                 else if choice = ''none'' then Some NoTools
                 else if choice = ''required'' then Some RequiredTools
                 else None,
                 if choice = ''required'' then legacy else None)
        | Some (JObj kvs) \<Rightarrow> object_tool_policy body (JObj kvs)
        | Some _ \<Rightarrow> Inr (None, None)))"

section \<open>All controls\<close>

record decoding_controls =
  dc_stop :: "json option"
  dc_seed :: "json option"
  dc_presence_penalty :: "json option"
  dc_frequency_penalty :: "json option"
  dc_top_k :: "json option"

record logprobs_controls =
  lp_enabled :: bool
  lp_top_logprobs :: "json option"

record request_controls =
  rc_tool_policy :: "tool_policy option"
  rc_restricted_tool_names :: "string list option"
  rc_output_shape :: "output_shape option"
  rc_decoding :: decoding_controls
  rc_logprobs :: "logprobs_controls option"
  rc_metadata :: "json option"
  rc_user :: "json option"
  rc_service_tier :: "json option"
  rc_stream_include_obfuscation :: "json option"
  rc_verbosity :: "json option"
  rc_reasoning_effort :: "json option"
  rc_prompt_cache_key :: "json option"
  rc_prompt_cache_retention :: "json option"
  rc_anthropic_cache_control :: "json option"
  rc_safety_identifier :: "json option"
  rc_parallel_tool_calls :: "json option"
  rc_store :: "json option"

definition no_decoding :: decoding_controls where
  "no_decoding = \<lparr>dc_stop = None, dc_seed = None, dc_presence_penalty = None,
     dc_frequency_penalty = None, dc_top_k = None\<rparr>"

definition openai_normalized_decoding_controls :: "json \<Rightarrow> decoding_controls" where
  "openai_normalized_decoding_controls body =
     \<lparr>dc_stop = jget body ''stop'', dc_seed = jget body ''seed'',
      dc_presence_penalty = jget body ''presence_penalty'',
      dc_frequency_penalty = jget body ''frequency_penalty'', dc_top_k = None\<rparr>"

definition logprobs_of :: "bool \<Rightarrow> json option \<Rightarrow> logprobs_controls option" where
  "logprobs_of enabled candidates =
     (if enabled \<or> candidates \<noteq> None
      then Some \<lparr>lp_enabled = enabled, lp_top_logprobs = candidates\<rparr> else None)"

definition openai_normalized_logprobs_controls :: "json \<Rightarrow> logprobs_controls option" where
  "openai_normalized_logprobs_controls body =
     logprobs_of (jget_bool body ''logprobs'' = Some True) (jget body ''top_logprobs'')"

definition responses_include_items :: "json \<Rightarrow> string list" where
  "responses_include_items body = List.map_filter as_str (array_at body ''include'')"

definition responses_include_requests_output_text_logprobs :: "json \<Rightarrow> bool" where
  "responses_include_requests_output_text_logprobs body =
     (''message.output_text.logprobs'' \<in> set (responses_include_items body))"

definition responses_normalized_logprobs_controls :: "json \<Rightarrow> logprobs_controls option" where
  "responses_normalized_logprobs_controls body =
     logprobs_of (responses_include_requests_output_text_logprobs body) (jget body ''top_logprobs'')"

definition request_stream_include_obfuscation :: "json \<Rightarrow> json option" where
  "request_stream_include_obfuscation body = ogetj (jget body ''stream_options'') ''include_obfuscation''"

definition responses_text_verbosity :: "json \<Rightarrow> json option" where
  "responses_text_verbosity body = ogetj (jget body ''text'') ''verbosity''"

definition responses_reasoning_effort :: "json \<Rightarrow> json option" where
  "responses_reasoning_effort body = ogetj (jget body ''reasoning'') ''effort''"

definition openai_normalized_request_controls :: "json \<Rightarrow> string + request_controls" where
  "openai_normalized_request_controls body =
     res_bind (openai_normalized_tool_policy body) (\<lambda>(policy, restricted).
     res_bind (openai_normalized_output_shape body) (\<lambda>shape.
     res_bind (validated_openai_extra_body_anthropic_cache_control body) (\<lambda>cache.
       Inr \<lparr>rc_tool_policy = policy, rc_restricted_tool_names = restricted, rc_output_shape = shape,
        rc_decoding = openai_normalized_decoding_controls body,
        rc_logprobs = openai_normalized_logprobs_controls body,
        rc_metadata = jget body ''metadata'', rc_user = jget body ''user'',
        rc_service_tier = jget body ''service_tier'',
        rc_stream_include_obfuscation = request_stream_include_obfuscation body,
        rc_verbosity = jget body ''verbosity'', rc_reasoning_effort = jget body ''reasoning_effort'',
        rc_prompt_cache_key = jget body ''prompt_cache_key'',
        rc_prompt_cache_retention = jget body ''prompt_cache_retention'',
        rc_anthropic_cache_control = cache, rc_safety_identifier = jget body ''safety_identifier'',
        rc_parallel_tool_calls = jget body ''parallel_tool_calls'', rc_store = jget body ''store''\<rparr>)))"

definition responses_normalized_request_controls :: "json \<Rightarrow> string + request_controls" where
  "responses_normalized_request_controls body =
     res_bind (responses_normalized_output_shape body) (\<lambda>shape.
     res_bind (validated_openai_extra_body_anthropic_cache_control body) (\<lambda>cache.
       Inr \<lparr>rc_tool_policy = None, rc_restricted_tool_names = None, rc_output_shape = shape,
        rc_decoding = no_decoding,
        rc_logprobs = responses_normalized_logprobs_controls body,
        rc_metadata = jget body ''metadata'', rc_user = jget body ''user'',
        rc_service_tier = jget body ''service_tier'',
        rc_stream_include_obfuscation = request_stream_include_obfuscation body,
        rc_verbosity = responses_text_verbosity body,
        rc_reasoning_effort = responses_reasoning_effort body,
        rc_prompt_cache_key = jget body ''prompt_cache_key'',
        rc_prompt_cache_retention = jget body ''prompt_cache_retention'',
        rc_anthropic_cache_control = cache, rc_safety_identifier = jget body ''safety_identifier'',
        rc_parallel_tool_calls = jget body ''parallel_tool_calls'', rc_store = jget body ''store''\<rparr>))"

section \<open>Usage and content\<close>

definition openai_response_has_assistant_audio :: "json \<Rightarrow> bool" where
  "openai_response_has_assistant_audio body =
     list_ex (\<lambda>choice. present (ogetj (jget choice ''message'') ''audio'') \<noteq> None) (array_at body ''choices'')"

definition extract_openai_refusal :: "json \<Rightarrow> string option" where
  "extract_openai_refusal message = nonempty (jget_str message ''refusal'')"

definition collapse_openai_text_parts :: "json list \<Rightarrow> json" where
  "collapse_openai_text_parts parts =
     (if list_all (\<lambda>part. type_of part = Some ''text''
            \<and> unwrap_or (jget_array part ''annotations'') [] = []) parts
      then JStr (concat (List.map_filter (\<lambda>part. jget_str part ''text'') parts))
      else JArr parts)"

definition copy_remaining_usage_fields :: "json \<Rightarrow> string list \<Rightarrow> json \<Rightarrow> json" where
  "copy_remaining_usage_fields source consumed target = (case source of
      JObj kvs \<Rightarrow> foldl (\<lambda>t (k, v). if k \<in> set consumed then t else or_insert k v t) target kvs
    | _ \<Rightarrow> target)"

section \<open>Output shapes survive either protocol\<close>

fun well_named :: "output_shape \<Rightarrow> bool" where
  "well_named (JsonSchemaShape s) = (js_name s \<noteq> [])"
| "well_named _ = True"

lemma read_schema_named: "js_name (read_json_schema c schema) \<noteq> []"
  by (auto simp: read_json_schema_def nonempty_str_def split: option.split)

lemma read_shapes_named:
  "openai_normalized_output_shape body = Inr (Some shape) \<Longrightarrow> well_named shape"
  "responses_normalized_output_shape body = Inr (Some shape) \<Longrightarrow> well_named shape"
  by (auto simp: openai_normalized_output_shape_def responses_normalized_output_shape_def
      openai_response_format_json_schema_def responses_text_format_json_schema_def res_bind_Inr
      read_schema_named split: option.splits json.splits if_splits)

lemma read_schema_fields:
  assumes "js_name s \<noteq> []"
  shows "read_json_schema (jobj (schema_fields s)) (js_schema s) = s"
    and "read_json_schema (jobj ((''type'', t) # schema_fields s)) (js_schema s) = s"
  using assms
  by (cases s; cases "js_description s"; cases "js_strict s";
      simp add: read_json_schema_def nonempty_str_def schema_fields_def opt_field_def jget_defs)+

lemma schema_fields_schema:
  "jget (jobj (schema_fields s)) ''schema'' = Some (js_schema s)"
  "jget (jobj ((''type'', t) # schema_fields s)) ''schema'' = Some (js_schema s)"
  "jget (jobj ((''type'', t) # schema_fields s)) ''type'' = Some t"
  by (cases "js_description s"; cases "js_strict s"; simp add: schema_fields_def opt_field_def)+

lemma present_jobj [simp]: "present (Some (jobj kvs)) = Some (jobj kvs)"
  by (simp add: present_def jobj_def)

lemma object_kvs: "is_object v \<Longrightarrow> (\<And>kvs. v = JObj kvs \<Longrightarrow> P) \<Longrightarrow> P"
  by (cases v) auto

text \<open>Reading a format object, without the case distinction on its representation.\<close>

lemma openai_shape_of_object:
  assumes "jget body ''response_format'' = Some f" and "is_object f" and "type_of f = Some ty"
  shows "openai_normalized_output_shape body =
    (if ty = ''text'' then Inr (Some TextShape)
     else if ty = ''json_object'' then Inr (Some JsonObjectShape)
     else if ty = ''json_schema'' then
       res_bind (openai_response_format_json_schema f) (\<lambda>s. Inr (Some (JsonSchemaShape s)))
     else Inl (''OpenAI response_format.type `'' @ ty @ ''` cannot be faithfully translated''))"
  using assms by (elim object_kvs) (simp add: openai_normalized_output_shape_def present_def)

lemma responses_shape_of_object:
  assumes "ogetj (jget body ''text'') ''format'' = Some f" and "is_object f" and "type_of f = Some ty"
  shows "responses_normalized_output_shape body =
    (if ty = ''text'' then Inr (Some TextShape)
     else if ty = ''json_object'' then Inr (Some JsonObjectShape)
     else if ty = ''json_schema'' then
       res_bind (responses_text_format_json_schema f) (\<lambda>s. Inr (Some (JsonSchemaShape s)))
     else Inl (''Responses text.format.type `'' @ ty @ ''` cannot be faithfully translated''))"
  using assms by (elim object_kvs) (simp add: responses_normalized_output_shape_def present_def)

lemma openai_schema_of_object:
  assumes "jget f ''json_schema'' = Some c" and "is_object c" and "jget c ''schema'' = Some schema"
  shows "openai_response_format_json_schema f = Inr (read_json_schema c schema)"
  using assms by (elim object_kvs) (simp add: openai_response_format_json_schema_def)

lemma shape_reads_back:
  assumes "well_named shape"
  shows "openai_normalized_output_shape
      (jobj [(''response_format'', normalized_output_shape_to_openai_response_format shape)]) = Inr (Some shape)"
    and "responses_normalized_output_shape
      (jobj [(''text'', jobj [(''format'', normalized_output_shape_to_responses_text_format shape)])]) = Inr (Some shape)"
proof -
  let ?o = "normalized_output_shape_to_openai_response_format shape"
  let ?r = "normalized_output_shape_to_responses_text_format shape"
  show "openai_normalized_output_shape (jobj [(''response_format'', ?o)]) = Inr (Some shape)"
  proof (cases shape)
    case (JsonSchemaShape s)
    with assms show ?thesis
      by (subst openai_shape_of_object [where f = ?o and ty = "''json_schema''"])
        (simp_all add: jget_str_def openai_schema_of_object [OF _ is_object_jobj schema_fields_schema(1)]
          read_schema_fields)
  qed (subst openai_shape_of_object [where f = ?o and ty = "if shape = TextShape then ''text'' else ''json_object''"];
      simp add: jget_str_def)+
  show "responses_normalized_output_shape (jobj [(''text'', jobj [(''format'', ?r)])]) = Inr (Some shape)"
  proof (cases shape)
    case (JsonSchemaShape s)
    define f where "f = jobj ((''type'', JStr ''json_schema'') # schema_fields s)"
    have f: "is_object f" "jget f ''type'' = Some (JStr ''json_schema'')" "jget f ''schema'' = Some (js_schema s)"
      "read_json_schema f (js_schema s) = s"
      using assms JsonSchemaShape unfolding f_def
      by (simp, intro schema_fields_schema, intro schema_fields_schema, intro read_schema_fields) simp
    have "?r = f" by (simp add: JsonSchemaShape f_def)
    then show ?thesis
      by (subst responses_shape_of_object [where f = f and ty = "''json_schema''"])
        (simp_all add: f jget_str_def responses_text_format_json_schema_def JsonSchemaShape)
  qed (subst responses_shape_of_object [where f = ?r and ty = "if shape = TextShape then ''text'' else ''json_object''"];
      simp add: jget_str_def)+
qed

text \<open>A structured output request that either OpenAI protocol can express is written in both of them so
  that it is read back unchanged: the schema, its name, its description and its strictness survive the
  translation in either direction.\<close>

theorem output_shape_round_trip:
  assumes "openai_normalized_output_shape body = Inr (Some shape)
    \<or> responses_normalized_output_shape body = Inr (Some shape)"
  shows "openai_normalized_output_shape
      (jobj [(''response_format'', normalized_output_shape_to_openai_response_format shape)]) = Inr (Some shape)
    \<and> responses_normalized_output_shape
      (jobj [(''text'', jobj [(''format'', normalized_output_shape_to_responses_text_format shape)])]) = Inr (Some shape)"
  using assms read_shapes_named shape_reads_back by blast

theorem output_shape_round_trip_witness:
  "openai_normalized_output_shape
      (jobj [(''response_format'', normalized_output_shape_to_openai_response_format
        (JsonSchemaShape \<lparr>js_name = ''n'', js_schema = JBool True, js_description = None, js_strict = Some True\<rparr>))])
    = Inr (Some (JsonSchemaShape \<lparr>js_name = ''n'', js_schema = JBool True, js_description = None, js_strict = Some True\<rparr>))"
proof -
  have "responses_normalized_output_shape (jobj [(''text'', jobj [(''format'',
        jobj [(''type'', JStr ''json_schema''), (''name'', JStr ''n''), (''schema'', JBool True),
              (''strict'', JBool True)])])])
    = Inr (Some (JsonSchemaShape \<lparr>js_name = ''n'', js_schema = JBool True, js_description = None, js_strict = Some True\<rparr>))"
    by code_simp
  from output_shape_round_trip [OF disjI2 [OF this]] show ?thesis by (rule conjunct1)
qed

section \<open>Forced and allowed tools\<close>

definition public_tool_name :: "string \<Rightarrow> bool" where
  "public_tool_name n = (n \<noteq> [] \<and> \<not> custom_bridge_prefix_is_reserved n)"

definition declared_tool :: "json \<Rightarrow> string \<Rightarrow> bool" where
  "declared_tool body n = list_ex (\<lambda>t. openai_function_tool_name t = Some n) (array_at body ''tools'')"

lemma nonempty_Some: "nonempty s = Some n \<longleftrightarrow> s = Some n \<and> n \<noteq> []"
  by (auto simp: nonempty_def)

lemma not_reserved: "validate_public_tool_name_not_reserved n = Inr () \<longleftrightarrow> \<not> custom_bridge_prefix_is_reserved n"
  by (simp add: validate_public_tool_name_not_reserved_def)

lemma selected_public: "selected_names ts = Inr (Some ns) \<Longrightarrow> list_all public_tool_name ns"
proof (induction ts arbitrary: ns)
  case (Cons t ts)
  then show ?case
    by (auto simp: res_bind_Inr not_reserved public_tool_name_def openai_function_tool_name_def nonempty_Some
        split: if_splits option.splits)
qed simp

lemma find_declared:
  assumes "openai_select_function_tools_by_name (openai_declared_function_tools body) label ns = Inr ts"
  shows "list_all (declared_tool body) ns"
proof -
  have "declared_tool body n" if "n \<in> set ns" for n
  proof -
    from assms that obtain t where
      "List.find (\<lambda>t. openai_function_tool_name t = Some n) (openai_declared_function_tools body) = Some t"
      unfolding openai_select_function_tools_by_name_def res_map_Inr list_all2_conv_all_nth in_set_conv_nth
      by (fastforce split: option.splits)
    then show ?thesis
      by (auto simp: find_Some_iff declared_tool_def list_ex_iff openai_declared_function_tools_def
          dest!: nth_mem)
  qed
  then show ?thesis by (simp add: list_all_iff)
qed

lemma allowed_policy_names:
  assumes "allowed_tools_policy body choice = Inr (policy, restricted)"
  shows "(policy = None \<and> restricted = None) \<or> (policy \<in> {Some AutoTools, Some RequiredTools}
    \<and> (\<exists>ns. restricted = Some ns \<and> list_all public_tool_name ns \<and> list_all (declared_tool body) ns))"
proof -
  obtain allowed where "openai_tool_choice_allowed_tools_object choice = Some allowed"
    using assms by (cases "openai_tool_choice_allowed_tools_object choice") (simp_all add: allowed_tools_policy_def)
  moreover from this obtain mode where "jget_str allowed ''mode'' = Some mode"
    using assms by (cases "jget_str allowed ''mode''") (simp_all add: allowed_tools_policy_def)
  moreover from calculation obtain tools where "jget_array allowed ''tools'' = Some tools"
    using assms by (cases "jget_array allowed ''tools''") (simp_all add: allowed_tools_policy_def)
  moreover from calculation have "tools \<noteq> []" using assms by (auto simp: allowed_tools_policy_def)
  ultimately obtain sel where sel: "selected_names tools = Inr sel"
    and rest: "(case sel of None \<Rightarrow> Inr (None, None)
      | Some names \<Rightarrow>
          res_bind (openai_select_function_tools_by_name (openai_declared_function_tools body)
            ''tool_choice.allowed_tools'' names)
          (\<lambda>_. if mode = ''auto'' then Inr (Some AutoTools, Some names)
               else if mode = ''required'' then Inr (Some RequiredTools, Some names)
               else Inl (''OpenAI tool_choice.allowed_tools.mode `'' @ mode @ ''` is not portable.'')))
      = Inr (policy, restricted)"
    using assms by (simp only: allowed_tools_policy_def option.case if_False) (auto simp only: res_bind_Inr)
  show ?thesis
  proof (cases sel)
    case None
    with rest show ?thesis by simp
  next
    case (Some names)
    with rest have "res_bind (openai_select_function_tools_by_name (openai_declared_function_tools body)
        ''tool_choice.allowed_tools'' names)
      (\<lambda>_. if mode = ''auto'' then Inr (Some AutoTools, Some names)
           else if mode = ''required'' then Inr (Some RequiredTools, Some names)
           else Inl (''OpenAI tool_choice.allowed_tools.mode `'' @ mode @ ''` is not portable.''))
      = Inr (policy, restricted)" by (simp only: option.case)
    then obtain ts where "openai_select_function_tools_by_name (openai_declared_function_tools body)
        ''tool_choice.allowed_tools'' names = Inr ts"
      and "policy \<in> {Some AutoTools, Some RequiredTools}" "restricted = Some names"
      unfolding res_bind_Inr by (auto split: if_splits)
    with selected_public [of tools names] sel Some find_declared show ?thesis by blast
  qed
qed

definition policy_ok :: "json \<Rightarrow> normalized_tool_policy \<Rightarrow> bool" where
  "policy_ok body = (\<lambda>(policy, restricted).
     (case policy of Some (ForcedFunction n) \<Rightarrow> public_tool_name n | _ \<Rightarrow> True)
     \<and> list_all public_tool_name (unwrap_or restricted [])
     \<and> (policy = Some AutoTools \<longrightarrow> list_all (declared_tool body) (unwrap_or restricted [])))"

lemma object_policy_ok:
  assumes "object_tool_policy body choice = Inr (policy, restricted)"
  shows "policy_ok body (policy, restricted)"
proof (cases "type_of choice = Some ''function''")
  case True
  with assms show ?thesis
    by (auto simp: object_tool_policy_def policy_ok_def res_bind_Inr nonempty_Some public_tool_name_def
        not_reserved split: option.splits)
next
  case False
  show ?thesis
  proof (cases "type_of choice = Some ''allowed_tools''")
    case True
    with assms have "allowed_tools_policy body choice = Inr (policy, restricted)"
      by (simp add: object_tool_policy_def)
    from allowed_policy_names [OF this] show ?thesis by (auto simp: policy_ok_def)
  next
    case other: False
    with False assms show ?thesis
      by (auto simp: object_tool_policy_def policy_ok_def split: option.splits if_splits)
  qed
qed

text \<open>Whatever tool choice a client sends, the policy it is read as names only public tools: a forced
  function and every function of an allowed set has a non-empty name outside the reserved range, and
  the functions of an allowed set are declared in the request.\<close>

theorem tool_policy_names_public_tools:
  assumes "openai_normalized_tool_policy body = Inr (policy, restricted)"
  shows "(case policy of Some (ForcedFunction n) \<Rightarrow> public_tool_name n | _ \<Rightarrow> True)
    \<and> list_all public_tool_name (unwrap_or restricted [])
    \<and> (policy = Some AutoTools \<longrightarrow> list_all (declared_tool body) (unwrap_or restricted []))"
proof -
  let ?legacy = "openai_legacy_allowed_tool_names body"
  have legacy: "list_all public_tool_name (unwrap_or ?legacy [])"
    using assms by (auto simp: openai_normalized_tool_policy_def res_bind_Inr Let_def not_reserved
        public_tool_name_def list_all_iff openai_legacy_allowed_tool_names_def split: if_splits)
  have rest: "(case present (jget body ''tool_choice'') of
          None \<Rightarrow> Inr (None, None)
        | Some (JStr choice) \<Rightarrow>
            Inr (if choice = ''auto'' then Some AutoTools
                 else if choice = ''none'' then Some NoTools
                 else if choice = ''required'' then Some RequiredTools
                 else None,
                 if choice = ''required'' then ?legacy else None)
        | Some (JObj kvs) \<Rightarrow> object_tool_policy body (JObj kvs)
        | Some _ \<Rightarrow> Inr (None, None)) = Inr (policy, restricted)"
    using assms unfolding openai_normalized_tool_policy_def Let_def res_bind_Inr by blast
  have "policy_ok body (policy, restricted)"
  proof (cases "\<exists>kvs. present (jget body ''tool_choice'') = Some (JObj kvs)")
    case True
    then show ?thesis using rest object_policy_ok by auto
  next
    case False
    then show ?thesis
      using rest legacy by (auto simp: policy_ok_def split: option.splits json.splits if_splits)
  qed
  then show ?thesis by (simp add: policy_ok_def)
qed

definition forced_body :: json where
  "forced_body = jobj [(''tool_choice'', jobj [(''type'', JStr ''function''), (''name'', JStr ''f'')])]"

theorem tool_policy_names_public_tools_witness:
  "openai_normalized_tool_policy forced_body = Inr (Some (ForcedFunction ''f''), None) \<and> public_tool_name ''f''"
proof -
  have p: "openai_normalized_tool_policy forced_body = Inr (Some (ForcedFunction ''f''), None)" by code_simp
  from tool_policy_names_public_tools [OF p] p show ?thesis by simp
qed

end
