(* ===== verification/Tool_Calls.thy ===== *)
theory Tool_Calls
  imports Request_Json Tool_Marks Tool_Bridge
begin

text \<open>
  Tool definitions, tool calls and tool results in a normal form that the OpenAI protocols are read
  into and written from (\<open>src/translate/internal/tools.rs\<close>), with the two bridges on the request side:
  custom tools as functions with one wrapped input, and namespaces as flat function names.
\<close>

section \<open>Results of tools\<close>

definition semantic_tool_output_item_type :: "semantic_tool_kind \<Rightarrow> string" where
  "semantic_tool_output_item_type kind =
     (if kind = KindOpenAiCustom then ''custom_tool_call_output'' else ''function_call_output'')"

definition responses_item_is_tool_output :: "json \<Rightarrow> bool" where
  "responses_item_is_tool_output item =
     (type_of item \<in> {Some ''function_call_output'', Some ''custom_tool_call_output''})"

fun content_value_is_effectively_empty :: "json \<Rightarrow> bool" where
  "content_value_is_effectively_empty JNull = True"
| "content_value_is_effectively_empty (JStr t) = (t = [])"
| "content_value_is_effectively_empty (JArr items) = (items = [])"
| "content_value_is_effectively_empty _ = False"

datatype tool_result_content = ResultText string | ResultJson json | TypedBlocks "json list"

definition semantic_tool_result_content_from_value :: "json option \<Rightarrow> tool_result_content" where
  "semantic_tool_result_content_from_value content = (case content of
      Some (JStr t) \<Rightarrow> ResultText t
    | Some JNull \<Rightarrow> ResultText []
    | Some (JArr items) \<Rightarrow>
        if list_all (\<lambda>i. case type_of i of None \<Rightarrow> False | Some ty \<Rightarrow> ty \<noteq> []) items
        then TypedBlocks items else ResultJson (JArr items)
    | Some v \<Rightarrow> ResultJson v
    | None \<Rightarrow> ResultText [])"

fun semantic_tool_result_content_to_value :: "tool_result_content \<Rightarrow> json" where
  "semantic_tool_result_content_to_value (ResultText t) = JStr t"
| "semantic_tool_result_content_to_value (ResultJson v) = v"
| "semantic_tool_result_content_to_value (TypedBlocks items) = JArr items"

definition only_text :: "string \<Rightarrow> json list \<Rightarrow> validation" where
  "only_text message items = res_each (\<lambda>i. if type_of i = Some ''text'' then Inr ()
     else Inl (message @ ''; found `'' @ unwrap_or (type_of i) ''unknown'' @ ''`.'')) items"

fun semantic_tool_result_content_to_openai_chat_tool_content :: "tool_result_content \<Rightarrow> string + json" where
  "semantic_tool_result_content_to_openai_chat_tool_content (ResultText t) = Inr (JStr t)"
| "semantic_tool_result_content_to_openai_chat_tool_content (ResultJson v) = Inr v"
| "semantic_tool_result_content_to_openai_chat_tool_content (TypedBlocks items) =
     res_bind (only_text ''OpenAI Chat Completions tool message content arrays can only contain text parts when translating an Anthropic tool_result'' items)
       (\<lambda>_. Inr (JArr items))"

definition tool_result_part_to_responses :: "json \<Rightarrow> string + json" where
  "tool_result_part_to_responses part =
     (if type_of part \<noteq> Some ''text'' then
        Inl (''OpenAI tool message content arrays can only contain text parts when translating to OpenAI Responses tool output; found `''
          @ unwrap_or (type_of part) ''unknown'' @ ''`.'')
      else if array_at part ''annotations'' \<noteq> [] then
        Inl ''OpenAI tool message text-part annotations cannot be faithfully translated to OpenAI Responses tool output.''
      else Inr (jobj [(''type'', JStr ''input_text''), (''text'', unwrap_or (jget part ''text'') (JStr []))]))"

definition openai_tool_result_content_to_responses_output :: "json option \<Rightarrow> string + json" where
  "openai_tool_result_content_to_responses_output content = (case content of
      None \<Rightarrow> Inr (JStr [])
    | Some (JArr parts) \<Rightarrow> res_bind (res_map tool_result_part_to_responses parts) (\<lambda>ps. Inr (JArr ps))
    | Some v \<Rightarrow> Inr v)"

fun tool_output_items :: "upstream_format \<Rightarrow> json list \<Rightarrow> string + json list" where
  "tool_output_items target [] = Inr []"
| "tool_output_items target (item # items) =
     (case type_of item of
        None \<Rightarrow> Inl (''OpenAI Responses tool output arrays containing untyped values cannot be faithfully translated to ''
          @ translation_target_label target @ ''.'')
      | Some ty \<Rightarrow>
          if ty \<in> {''input_text'', ''output_text''} then
            res_bind (tool_output_items target items) (\<lambda>cs. Inr
              (jobj [(''type'', JStr ''text''), (''text'', unwrap_or (jget item ''text'') (JStr []))] # cs))
          else if ty = ''encrypted_content'' then tool_output_items target items
          else Inl (''OpenAI Responses tool output arrays containing `'' @ ty
            @ ''` cannot be faithfully translated to '' @ translation_target_label target
            @ ''; only text arrays are portable.''))"

definition responses_tool_output_to_openai_tool_content ::
    "upstream_format \<Rightarrow> json option \<Rightarrow> string + json" where
  "responses_tool_output_to_openai_tool_content target out = (case out of
      None \<Rightarrow> Inr (JStr [])
    | Some (JArr items) \<Rightarrow> res_bind (tool_output_items target items) (\<lambda>cs. Inr (JArr cs))
    | Some v \<Rightarrow> Inr v)"

section \<open>Text parts\<close>

record text_part =
  tp_text :: string
  tp_annotations :: "json list"

definition semantic_text_part_from_claude_block :: "json \<Rightarrow> text_part option" where
  "semantic_text_part_from_claude_block block =
     map_option (\<lambda>t. \<lparr>tp_text = t, tp_annotations = array_at block ''citations''\<rparr>) (jget_str block ''text'')"

definition semantic_text_part_from_openai_part :: "json \<Rightarrow> text_part option" where
  "semantic_text_part_from_openai_part part =
     (if type_of part \<noteq> Some ''text'' then None
      else Some \<lparr>tp_text = unwrap_or (jget_str part ''text'') [], tp_annotations = array_at part ''annotations''\<rparr>)"

definition semantic_text_part_to_responses_value :: "string \<Rightarrow> text_part \<Rightarrow> json" where
  "semantic_text_part_to_responses_value content_type part =
     (let v = jobj [(''type'', JStr content_type), (''text'', JStr (tp_text part))]
      in if tp_annotations part = [] then v else jset ''annotations'' (JArr (tp_annotations part)) v)"

definition semantic_text_part_to_openai_value :: "text_part \<Rightarrow> json" where
  "semantic_text_part_to_openai_value part = semantic_text_part_to_responses_value ''text'' part"

section \<open>Formats of custom tools\<close>

definition grammar_parts :: "json \<Rightarrow> (string \<times> string) option" where
  "grammar_parts v = (case (jget_str v ''syntax'', jget_str v ''definition'') of
      (Some syntax, Some definition) \<Rightarrow>
        if syntax \<noteq> [] \<and> trim definition \<noteq> [] then Some (syntax, trim definition) else None
    | _ \<Rightarrow> None)"

definition openai_custom_tool_string_constraint_format_parts :: "json option \<Rightarrow> (string \<times> string) option" where
  "openai_custom_tool_string_constraint_format_parts format = (case format of
      Some (JObj kvs) \<Rightarrow>
        if type_of (JObj kvs) \<noteq> Some ''grammar'' then None
        else option_or (grammar_parts (JObj kvs)) (Option.bind (jget (JObj kvs) ''grammar'') grammar_parts)
    | _ \<Rightarrow> None)"

definition openai_custom_tool_format_supports_anthropic_bridge :: "json option \<Rightarrow> bool" where
  "openai_custom_tool_format_supports_anthropic_bridge format =
     (openai_custom_tool_format_is_plain_text format
      \<or> openai_custom_tool_string_constraint_format_parts format \<noteq> None)"

definition openai_custom_tool_bridge_description_for_target ::
    "upstream_format \<Rightarrow> json option \<Rightarrow> json option \<Rightarrow> json option" where
  "openai_custom_tool_bridge_description_for_target target description format =
     (case openai_custom_tool_string_constraint_format_parts format of
        None \<Rightarrow> description
      | Some (syntax, definition) \<Rightarrow>
          (let label = translation_target_label target; text = unwrap_or (ostr description) []
           in Some (JStr ((if text = [] then [] else text @ [nl, nl])
             @ ''Bridge note: '' @ label @ '' receives this tool through the canonical `{ \"input\": string }` wrapper. ''
             @ ''The original OpenAI custom tool constrained that single string input with the following format contract. ''
             @ label @ '' will not enforce it structurally, so follow it exactly.'' @ [nl]
             @ ''syntax: '' @ syntax @ [nl] @ definition))))"

section \<open>Tool definitions\<close>

definition nonempty_name :: "string option \<Rightarrow> string option" where
  "nonempty_name n = (if n = Some [] then None else n)"

text \<open>A public, non-empty name, or the error for a missing one.\<close>

definition public_name :: "string \<Rightarrow> string option \<Rightarrow> string + string" where
  "public_name missing n = (case nonempty_name n of
      None \<Rightarrow> Inl missing
    | Some s \<Rightarrow> res_then (validate_public_tool_name_not_reserved s) (Inr s))"

definition read_function_tool :: "string \<Rightarrow> json \<Rightarrow> function_tool" where
  "read_function_tool name v = \<lparr>ft_name = name, ft_description = jget v ''description'',
     ft_parameters = jget v ''parameters'', ft_strict = jget v ''strict''\<rparr>"

definition read_custom_tool :: "string \<Rightarrow> json \<Rightarrow> custom_tool" where
  "read_custom_tool name v = \<lparr>ct_name = name, ct_description = jget v ''description'',
     ct_format = jget v ''format''\<rparr>"

definition openai_function_tool_payload :: "json \<Rightarrow> json option" where
  "openai_function_tool_payload v =
     (if type_of v \<noteq> Some ''function'' then None
      else (case jget v ''function'' of
          Some (JObj kvs) \<Rightarrow> Some (JObj kvs)
        | _ \<Rightarrow> if jget v ''name'' \<noteq> None then Some v else None))"

definition normalized_openai_tool_definition :: "json \<Rightarrow> string + tool_def option" where
  "normalized_openai_tool_definition tool =
     res_then (validate_openai_public_tool_identity tool)
       (if type_of tool = Some ''function'' then
          (case openai_function_tool_payload tool of
             None \<Rightarrow> Inl ''OpenAI function tools require a `function` payload.''
           | Some p \<Rightarrow> res_bind (public_name ''OpenAI function tools require a non-empty function name.'' (jget_str p ''name''))
               (\<lambda>n. Inr (Some (FunctionTool (read_function_tool n p)))))
        else if type_of tool = Some ''custom'' then
          (case openai_custom_tool_payload tool of
             None \<Rightarrow> Inl ''OpenAI custom tools require a `custom` payload.''
           | Some p \<Rightarrow> res_bind (public_name ''OpenAI custom tools require a non-empty custom name.'' (jget_str (JObj p) ''name''))
               (\<lambda>n. Inr (Some (CustomTool (read_custom_tool n (JObj p))))))
        else Inr None)"

definition read_namespace_child :: "json \<Rightarrow> string + function_tool" where
  "read_namespace_child child =
     res_bind (public_name ''OpenAI Responses namespace function tools require a non-empty name.'' (jget_str child ''name''))
       (\<lambda>n. Inr (read_function_tool n child))"

definition normalized_responses_tool_definition :: "json \<Rightarrow> string + tool_def option" where
  "normalized_responses_tool_definition tool =
     res_then (validate_responses_public_tool_reference tool)
       (if type_of tool = Some ''function'' then
          res_bind (public_name ''OpenAI Responses function tools require a non-empty name.''
              (ostr (option_or (jget tool ''name'') (ogetj (jget tool ''function'') ''name''))))
            (\<lambda>n. Inr (Some (FunctionTool (read_function_tool n tool))))
        else if type_of tool = Some ''custom'' then
          res_bind (public_name ''OpenAI Responses custom tools require a non-empty name.''
              (ostr (option_or (jget tool ''name'') (ogetj (jget tool ''custom'') ''name''))))
            (\<lambda>n. Inr (Some (CustomTool (read_custom_tool n tool))))
        else if type_of tool = Some ''namespace'' then
          res_bind (public_name ''OpenAI Responses namespace tools require a non-empty name.'' (jget_str tool ''name''))
            (\<lambda>n. case jget_array tool ''tools'' of
               None \<Rightarrow> Inr None
             | Some children \<Rightarrow>
                 if list_all (\<lambda>c. type_of c = Some ''function'') children
                 then res_bind (res_map read_namespace_child children)
                   (\<lambda>fs. Inr (Some (NamespaceTool n (jget_str tool ''description'') fs)))
                 else Inr None)
        else Inr None)"

definition wrapper_parameters :: json where
  "wrapper_parameters = jobj
     [(''type'', JStr ''object''),
      (''properties'', jobj [(''input'', jobj [(''type'', JStr ''string'')])]),
      (''required'', JArr [JStr ''input'']),
      (''additionalProperties'', JBool False)]"

definition openai_function_uses_canonical_custom_bridge_wrapper :: "function_tool \<Rightarrow> bool" where
  "openai_function_uses_canonical_custom_bridge_wrapper f = (ft_parameters f = Some wrapper_parameters)"

definition context_expects_wrapper :: "tool_bridge_context option \<Rightarrow> string \<Rightarrow> bool" where
  "context_expects_wrapper c name = (case c of
      None \<Rightarrow> False | Some ctx \<Rightarrow> expects_canonical_input_wrapper ctx name)"

definition unbridge_tool :: "tool_bridge_context option \<Rightarrow> tool_def \<Rightarrow> tool_def" where
  "unbridge_tool c t = (case t of
      FunctionTool f \<Rightarrow>
        if context_expects_wrapper c (ft_name f) \<and> openai_function_uses_canonical_custom_bridge_wrapper f
        then CustomTool \<lparr>ct_name = ft_name f, ct_description = ft_description f, ct_format = None\<rparr>
        else t
    | _ \<Rightarrow> t)"

definition option_to_list :: "'a option \<Rightarrow> 'a list" where
  "option_to_list x = (case x of None \<Rightarrow> [] | Some y \<Rightarrow> [y])"

definition normalized_openai_tool_definitions_from_request ::
    "tool_bridge_context option \<Rightarrow> json \<Rightarrow> string + tool_def list" where
  "normalized_openai_tool_definitions_from_request c body =
     res_bind (res_map normalized_openai_tool_definition (array_at body ''tools''))
       (\<lambda>ts. Inr (map (unbridge_tool c) (concat (map option_to_list ts))))"

definition normalized_responses_tool_definitions_from_request :: "json \<Rightarrow> string + tool_def list" where
  "normalized_responses_tool_definitions_from_request body =
     res_bind (res_map normalized_responses_tool_definition (array_at body ''tools''))
       (\<lambda>ts. Inr (concat (map option_to_list ts)))"

definition optf :: "string \<Rightarrow> json option \<Rightarrow> (string \<times> json) list" where
  "optf k v = (case v of None \<Rightarrow> [] | Some x \<Rightarrow> [(k, x)])"

definition function_fields :: "function_tool \<Rightarrow> (string \<times> json) list" where
  "function_fields f = (''name'', JStr (ft_name f)) # optf ''description'' (ft_description f)
     @ optf ''parameters'' (ft_parameters f) @ optf ''strict'' (ft_strict f)"

definition custom_fields :: "custom_tool \<Rightarrow> (string \<times> json) list" where
  "custom_fields c = (''name'', JStr (ct_name c)) # optf ''description'' (ct_description c)
     @ optf ''format'' (ct_format c)"

fun normalized_tool_definition_to_openai :: "tool_def \<Rightarrow> string + json" where
  "normalized_tool_definition_to_openai (FunctionTool f) =
     Inr (jobj [(''type'', JStr ''function''), (''function'', jobj (function_fields f))])"
| "normalized_tool_definition_to_openai (CustomTool c) =
     Inr (jobj [(''type'', JStr ''custom''), (''custom'', jobj (custom_fields c))])"
| "normalized_tool_definition_to_openai (NamespaceTool _ _ _) =
     Inl ''OpenAI Responses namespace tool definitions must be flattened before conversion.''"

fun normalized_tool_definition_to_openai_with_bridge :: "upstream_format \<Rightarrow> tool_def \<Rightarrow> string + json" where
  "normalized_tool_definition_to_openai_with_bridge target (CustomTool c) =
     Inr (jobj [(''type'', JStr ''function''), (''function'', jobj ((''name'', JStr (ct_name c))
       # optf ''description'' (openai_custom_tool_bridge_description_for_target target (ct_description c) (ct_format c))
       @ [(''parameters'', wrapper_parameters)]))])"
| "normalized_tool_definition_to_openai_with_bridge target t = normalized_tool_definition_to_openai t"

definition child_to_responses :: "function_tool \<Rightarrow> json" where
  "child_to_responses f = jobj ((''type'', JStr ''function'') # function_fields f)"

fun normalized_tool_definition_to_responses :: "tool_def \<Rightarrow> json" where
  "normalized_tool_definition_to_responses (FunctionTool f) = child_to_responses f"
| "normalized_tool_definition_to_responses (CustomTool c) =
     jobj ((''type'', JStr ''custom'') # custom_fields c)"
| "normalized_tool_definition_to_responses (NamespaceTool n d children) =
     jobj ([(''type'', JStr ''namespace''), (''name'', JStr n)] @ optf ''description'' (map_option JStr d)
       @ [(''tools'', JArr (map child_to_responses children))])"

section \<open>Tool calls\<close>

datatype tool_call =
    FunctionCall (call_id: "json option") (call_name: string) (call_arguments: string)
      (call_namespace: "string option") (call_proxied: "json option")
  | is_CustomCall: CustomCall (call_id: "json option") (call_name: string) (call_input: string)
      (call_namespace: "string option") (call_proxied: "json option")

definition tool_call_text_for_partial_replay :: "string option \<Rightarrow> string option \<Rightarrow> string" where
  "tool_call_text_for_partial_replay name raw =
     (let n = unwrap_or name ''unknown_tool'' in
      case Option.bind raw (\<lambda>r. if trim r = [] then None else Some (trim r)) of
        Some r \<Rightarrow> ''Tool call `'' @ n @ ''` with partial arguments: '' @ r
      | None \<Rightarrow> ''Tool call `'' @ n @ ''` had incomplete arguments.'')"

definition openai_tool_call_partial_replay_text :: "json \<Rightarrow> string" where
  "openai_tool_call_partial_replay_text tc =
     tool_call_text_for_partial_replay
       (option_or (ostr (ogetj (jget tc ''function'') ''name'')) (openai_custom_tool_name tc))
       (option_or (openai_tool_arguments_raw tc) (openai_custom_tool_input_raw tc))"

definition responses_tool_call_partial_replay_text :: "env \<Rightarrow> json \<Rightarrow> string" where
  "responses_tool_call_partial_replay_text E item =
     tool_call_text_for_partial_replay (jget_str item ''name'') (responses_tool_call_input_raw E item)"

definition raw_json_object_to_structured_value :: "env \<Rightarrow> string \<Rightarrow> string \<Rightarrow> string + json" where
  "raw_json_object_to_structured_value E label raw = (case json_parse E raw of
      None \<Rightarrow> Inl (''tool arguments for '' @ label @ '' must be valid JSON; received `'' @ raw @ ''`'')
    | Some v \<Rightarrow> if is_object v then Inr v
        else Inl (''tool arguments for '' @ label @ '' must be a JSON object; received `'' @ raw @ ''`''))"

definition structured_or_empty :: "env \<Rightarrow> string \<Rightarrow> string option \<Rightarrow> string + json" where
  "structured_or_empty E label raw = (case raw of
      None \<Rightarrow> Inr (jobj [])
    | Some r \<Rightarrow> if trim r = [] then Inr (jobj []) else raw_json_object_to_structured_value E label r)"

definition openai_tool_arguments_to_structured_value :: "env \<Rightarrow> string \<Rightarrow> json \<Rightarrow> string + json" where
  "openai_tool_arguments_to_structured_value E label tool_call =
     structured_or_empty E label (openai_tool_arguments_raw tool_call)"

definition responses_tool_call_to_structured_value :: "env \<Rightarrow> string \<Rightarrow> json \<Rightarrow> string + json" where
  "responses_tool_call_to_structured_value E label item =
     structured_or_empty E label (responses_tool_call_input_raw E item)"

definition normalized_openai_tool_call :: "json \<Rightarrow> string + tool_call option" where
  "normalized_openai_tool_call tc =
     res_then (validate_openai_public_tool_identity tc)
       (if type_of tc = Some ''function'' then
          (case jget tc ''function'' of
             Some (JObj f) \<Rightarrow>
               res_bind (public_name ''OpenAI function tool calls require a non-empty function name.''
                   (jget_str (JObj f) ''name''))
                 (\<lambda>n. Inr (Some (FunctionCall (jget tc ''id'') n
                    (unwrap_or (openai_tool_arguments_raw tc) ''{}'') None (jget tc ''proxied_tool_kind''))))
           | _ \<Rightarrow> Inl ''OpenAI function tool calls require a `function` payload.'')
        else if type_of tc = Some ''custom'' then
          res_bind (public_name ''OpenAI custom tool calls require a `custom.name` field.''
              (openai_custom_tool_name tc))
            (\<lambda>n. Inr (Some (CustomCall (jget tc ''id'') n
               (unwrap_or (openai_custom_tool_input_raw tc) []) None (jget tc ''proxied_tool_kind''))))
        else Inr None)"

definition normalized_responses_tool_call :: "env \<Rightarrow> json \<Rightarrow> string + tool_call option" where
  "normalized_responses_tool_call E item =
     (if type_of item \<notin> {Some ''function_call'', Some ''custom_tool_call''} then Inr None
      else res_then (validate_responses_public_tool_call_item item)
        (res_bind (public_name ''OpenAI Responses tool calls require a non-empty name.'' (jget_str item ''name''))
          (\<lambda>n. let raw = responses_tool_call_input_raw E item; ns = jget_str item ''namespace'';
                    kind = jget item ''proxied_tool_kind''
           in Inr (Some (if semantic_tool_kind_from_value E item = KindOpenAiCustom
                then CustomCall (jget item ''call_id'') n (unwrap_or raw []) ns kind
                else FunctionCall (jget item ''call_id'') n (unwrap_or raw ''{}'') ns kind)))))"

definition set_proxied :: "json option \<Rightarrow> json \<Rightarrow> json" where
  "set_proxied kind v = (case kind of None \<Rightarrow> v | Some k \<Rightarrow> jset ''proxied_tool_kind'' k v)"

definition openai_function_call_value :: "json option \<Rightarrow> string \<Rightarrow> string \<Rightarrow> json" where
  "openai_function_call_value i name arguments = jobj
     [(''id'', jopt i), (''type'', JStr ''function''),
      (''function'', jobj [(''name'', JStr name), (''arguments'', JStr arguments)])]"

fun normalized_tool_call_to_openai :: "tool_call \<Rightarrow> json" where
  "normalized_tool_call_to_openai (FunctionCall i name arguments _ kind) =
     set_proxied kind (openai_function_call_value i name arguments)"
| "normalized_tool_call_to_openai (CustomCall i name input _ kind) =
     set_proxied kind (jobj [(''id'', jopt i), (''type'', JStr ''custom''),
       (''custom'', jobj [(''name'', JStr name), (''input'', JStr input)])])"

definition responses_tool_call_item_to_openai_tool_call :: "env \<Rightarrow> json \<Rightarrow> json option" where
  "responses_tool_call_item_to_openai_tool_call E item = (case normalized_responses_tool_call E item of
      Inr (Some c) \<Rightarrow> Some (copy_non_replayable_tool_call_marker E item (normalized_tool_call_to_openai c))
    | _ \<Rightarrow> None)"

fun flatten_normalized_namespaced_tool_call :: "tool_call \<Rightarrow> tool_call" where
  "flatten_normalized_namespaced_tool_call (FunctionCall i name a (Some ns) kind) =
     FunctionCall i (flat_tool_name ns name) a None kind"
| "flatten_normalized_namespaced_tool_call (CustomCall i name input (Some ns) kind) =
     CustomCall i (flat_tool_name ns name) input None kind"
| "flatten_normalized_namespaced_tool_call c = c"

definition responses_tool_call_item_to_openai_tool_call_strict :: "env \<Rightarrow> json \<Rightarrow> string + json option" where
  "responses_tool_call_item_to_openai_tool_call_strict E item =
     res_bind (normalized_responses_tool_call E item) (\<lambda>c. Inr (map_option
       (\<lambda>c. copy_non_replayable_tool_call_marker E item
          (normalized_tool_call_to_openai (flatten_normalized_namespaced_tool_call c))) c))"

fun bridge_tool_call :: "env \<Rightarrow> tool_call \<Rightarrow> json" where
  "bridge_tool_call E (CustomCall i name input _ kind) =
     set_proxied kind (openai_function_call_value i name (openai_responses_custom_tool_bridge_arguments E input))"
| "bridge_tool_call E c = normalized_tool_call_to_openai c"

definition responses_tool_call_item_to_openai_tool_call_with_bridge_strict ::
    "env \<Rightarrow> json \<Rightarrow> string + json option" where
  "responses_tool_call_item_to_openai_tool_call_with_bridge_strict E item =
     res_bind (normalized_responses_tool_call E item) (\<lambda>c. Inr (map_option
       (\<lambda>c. copy_non_replayable_tool_call_marker E item
          (bridge_tool_call E (flatten_normalized_namespaced_tool_call c))) c))"

definition set_namespace :: "string option \<Rightarrow> json \<Rightarrow> json" where
  "set_namespace ns v = (case ns of None \<Rightarrow> v | Some n \<Rightarrow> jset ''namespace'' (JStr n) v)"

fun normalized_tool_call_to_responses_item :: "tool_call \<Rightarrow> json" where
  "normalized_tool_call_to_responses_item (FunctionCall i name arguments ns kind) =
     set_proxied kind (set_namespace ns (jobj [(''type'', JStr ''function_call''), (''call_id'', jopt i),
       (''name'', JStr name), (''arguments'', JStr arguments)]))"
| "normalized_tool_call_to_responses_item (CustomCall i name input ns kind) =
     set_proxied kind (set_namespace ns (jobj [(''type'', JStr ''custom_tool_call''), (''call_id'', jopt i),
       (''name'', JStr name), (''input'', JStr input)]))"

definition openai_tool_call_to_responses_item :: "env \<Rightarrow> json \<Rightarrow> json" where
  "openai_tool_call_to_responses_item E tc =
     copy_non_replayable_tool_call_marker E tc (case normalized_openai_tool_call tc of
         Inr (Some c) \<Rightarrow> normalized_tool_call_to_responses_item c
       | _ \<Rightarrow> jobj [(''type'', JStr ''function_call''), (''call_id'', jopt (jget tc ''id'')),
            (''name'', jopt (ogetj (jget tc ''function'') ''name'')),
            (''arguments'', JStr (unwrap_or (openai_tool_arguments_raw tc) ''{}''))])"

fun unbridge_tool_call :: "env \<Rightarrow> tool_bridge_context option \<Rightarrow> tool_call \<Rightarrow> json" where
  "unbridge_tool_call E ctx (FunctionCall i name arguments ns kind) =
     (if context_expects_wrapper ctx name then
        (case openai_responses_custom_tool_input_from_bridge_arguments E arguments of
           Inr input \<Rightarrow> set_proxied kind (jobj [(''type'', JStr ''custom_tool_call''), (''call_id'', jopt i),
             (''name'', JStr name), (''input'', JStr input)])
         | Inl _ \<Rightarrow> normalized_tool_call_to_responses_item (FunctionCall i name arguments ns kind))
      else (case Option.bind ctx (\<lambda>c. namespace_bridge_split c name) of
           Some (namespace, child) \<Rightarrow> set_proxied kind (jobj [(''type'', JStr ''function_call''),
             (''call_id'', jopt i), (''namespace'', JStr namespace), (''name'', JStr child),
             (''arguments'', JStr arguments)])
         | None \<Rightarrow> normalized_tool_call_to_responses_item (FunctionCall i name arguments ns kind)))"
| "unbridge_tool_call E ctx c = normalized_tool_call_to_responses_item c"

definition openai_tool_call_to_responses_item_decoding_custom_bridge_with_context ::
    "env \<Rightarrow> tool_bridge_context option \<Rightarrow> json \<Rightarrow> string + json" where
  "openai_tool_call_to_responses_item_decoding_custom_bridge_with_context E ctx tc =
     (case normalized_openai_tool_call tc of
        Inl e \<Rightarrow> Inl e
      | Inr None \<Rightarrow> Inr (openai_tool_call_to_responses_item E tc)
      | Inr (Some c) \<Rightarrow> Inr (copy_non_replayable_tool_call_marker E tc (unbridge_tool_call E ctx c)))"

section \<open>Definitions survive either protocol\<close>

lemma public_name_Inr: "public_name missing n = Inr s \<longleftrightarrow>
    n = Some s \<and> s \<noteq> [] \<and> \<not> custom_bridge_prefix_is_reserved s"
  by (auto simp: public_name_def nonempty_name_def validate_public_tool_name_not_reserved_def
      split: option.split if_splits)

lemma public_name_ok:
  "s \<noteq> [] \<Longrightarrow> \<not> custom_bridge_prefix_is_reserved s \<Longrightarrow> public_name missing (Some s) = Inr s"
  by (simp add: public_name_Inr)

fun tool_def_ok :: "tool_def \<Rightarrow> bool" where
  "tool_def_ok (FunctionTool f) = (ft_name f \<noteq> [] \<and> \<not> custom_bridge_prefix_is_reserved (ft_name f))"
| "tool_def_ok (CustomTool c) = (ct_name c \<noteq> [] \<and> \<not> custom_bridge_prefix_is_reserved (ct_name c))"
| "tool_def_ok (NamespaceTool n d children) = (n \<noteq> [] \<and> \<not> custom_bridge_prefix_is_reserved n
     \<and> list_all (\<lambda>f. ft_name f \<noteq> [] \<and> \<not> custom_bridge_prefix_is_reserved (ft_name f)) children)"

lemma res_then_Inr_Some: "res_then v r = Inr (Some d) \<Longrightarrow> r = Inr (Some d)"
  by (cases v) simp_all

lemma read_children_ok:
  "res_map read_namespace_child children = Inr fs \<Longrightarrow>
   list_all (\<lambda>f. ft_name f \<noteq> [] \<and> \<not> custom_bridge_prefix_is_reserved (ft_name f)) fs"
  by (induction children arbitrary: fs)
    (auto simp: read_namespace_child_def res_bind_Inr public_name_Inr read_function_tool_def)

lemma read_openai_definition_ok:
  assumes "normalized_openai_tool_definition tool = Inr (Some d)"
  shows "tool_def_ok d"
  using res_then_Inr_Some [OF assms [unfolded normalized_openai_tool_definition_def]]
  by (auto simp: res_bind_Inr public_name_Inr read_function_tool_def read_custom_tool_def
      split: if_splits option.splits)

lemma read_responses_definition_ok:
  assumes "normalized_responses_tool_definition tool = Inr (Some d)"
  shows "tool_def_ok d"
  using res_then_Inr_Some [OF assms [unfolded normalized_responses_tool_definition_def]]
  by (auto simp: res_bind_Inr public_name_Inr read_function_tool_def read_custom_tool_def
      read_children_ok split: if_splits option.splits)

lemma read_function_fields:
  "read_function_tool (ft_name f) (jobj (function_fields f)) = f"
  "read_function_tool (ft_name f) (jobj ((''type'', t) # function_fields f)) = f"
  by (cases f; cases "ft_description f"; cases "ft_parameters f"; cases "ft_strict f";
      simp add: read_function_tool_def function_fields_def optf_def)+

lemma read_custom_fields:
  "read_custom_tool (ct_name c) (jobj (custom_fields c)) = c"
  "read_custom_tool (ct_name c) (jobj ((''type'', t) # custom_fields c)) = c"
  by (cases c; cases "ct_description c"; cases "ct_format c";
      simp add: read_custom_tool_def custom_fields_def optf_def)+

lemma function_fields_get:
  "jget (jobj (function_fields f)) ''name'' = Some (JStr (ft_name f))"
  "jget (jobj ((''type'', t) # function_fields f)) ''name'' = Some (JStr (ft_name f))"
  "jget (jobj ((''type'', t) # function_fields f)) ''type'' = Some t"
  "jget (jobj ((''type'', t) # function_fields f)) ''namespace'' = None"
  "jget (jobj ((''type'', t) # function_fields f)) ''function'' = None"
  "jget (jobj ((''type'', t) # function_fields f)) ''custom'' = None"
  by (cases "ft_description f"; cases "ft_parameters f"; cases "ft_strict f";
      simp add: function_fields_def optf_def)+

lemma custom_fields_get:
  "jget (jobj (custom_fields c)) ''name'' = Some (JStr (ct_name c))"
  "jget (jobj ((''type'', t) # custom_fields c)) ''name'' = Some (JStr (ct_name c))"
  "jget (jobj ((''type'', t) # custom_fields c)) ''type'' = Some t"
  "jget (jobj ((''type'', t) # custom_fields c)) ''namespace'' = None"
  "jget (jobj ((''type'', t) # custom_fields c)) ''function'' = None"
  "jget (jobj ((''type'', t) # custom_fields c)) ''custom'' = None"
  by (cases "ct_description c"; cases "ct_format c"; simp add: custom_fields_def optf_def)+

text \<open>An object passes the check of visible names when its own name does and so do the values of its containers.\<close>

lemma selector_fields_pass:
  "\<forall>(k, v) \<in> set kvs. selector_container_key k \<longrightarrow> (\<forall>p. validate_selector_at v p = Inr ()) \<Longrightarrow>
   validate_selector_fields kvs path = Inr ()"
  by (induction kvs) auto

lemma selector_items_pass:
  "\<forall>x \<in> set xs. \<forall>p. validate_selector_at x p = Inr () \<Longrightarrow> validate_selector_items xs i path = Inr ()"
  by (induction xs arbitrary: i) auto

lemma selector_object_pass:
  assumes "\<And>k v p. (k, v) \<in> set kvs \<Longrightarrow> selector_container_key k \<Longrightarrow> validate_selector_at v p = Inr ()"
    and "jget (jobj kvs) ''name'' = Some (JStr n)" and "\<not> custom_bridge_prefix_is_reserved n"
    and "jget (jobj kvs) ''namespace'' = None"
  shows "validate_selector_at (jobj kvs) path = Inr ()"
proof -
  let ?m = "foldl (\<lambda>m (k, v). omap_insert k v m) [] kvs"
  have "validate_selector_fields ?m path = Inr ()"
    using set_foldl_omap_insert [of "[]" kvs] assms(1) by (intro selector_fields_pass) auto
  moreover have "map_of ?m ''name'' = Some (JStr n)" "map_of ?m ''namespace'' = None"
    using assms(2,4) by (simp_all add: jobj_def)
  ultimately show ?thesis
    using assms(3) by (simp add: jobj_def validate_selector_key_def validate_public_tool_name_not_reserved_def)
qed

lemma plain_keys:
  "(k, v) \<in> set (function_fields f) \<Longrightarrow> \<not> selector_container_key k"
  "(k, v) \<in> set (custom_fields c) \<Longrightarrow> \<not> selector_container_key k"
  "(k, v) \<in> set (optf ''description'' x) \<Longrightarrow> \<not> selector_container_key k"
  by (auto simp: function_fields_def custom_fields_def optf_def selector_container_key_def split: option.splits)

lemma not_container: "\<not> selector_container_key ''type''" "\<not> selector_container_key ''name''"
  by (simp_all add: selector_container_key_def)

lemma identity_pass:
  "\<not> custom_bridge_prefix_is_reserved n \<Longrightarrow> validate_public_tool_identity_value (Some (JStr n)) = Inr ()"
  "validate_public_tool_identity_value None = Inr ()"
  "validate_public_tool_identity_value (Some (jobj kvs)) = Inr ()"
  by (simp_all add: validate_public_tool_identity_value_def validate_public_tool_name_not_reserved_def)

lemma child_pass:
  assumes "\<not> custom_bridge_prefix_is_reserved (ft_name f)"
  shows "validate_selector_at (child_to_responses f) p = Inr ()"
  unfolding child_to_responses_def
  using plain_keys(1) not_container assms
  by (intro selector_object_pass [where n = "ft_name f"]) (auto simp only: function_fields_get set_simps insert_iff prod.inject)

lemma reference_pass:
  assumes "validate_selector_at (jobj kvs) ''$'' = Inr ()"
    and "jget (jobj kvs) ''name'' = Some (JStr n)" and "\<not> custom_bridge_prefix_is_reserved n"
    and "jget (jobj kvs) ''namespace'' = None" "jget (jobj kvs) ''function'' = None"
      "jget (jobj kvs) ''custom'' = None"
  shows "validate_responses_public_tool_reference (jobj kvs) = Inr ()"
  using assms unfolding validate_responses_public_tool_reference_def validate_public_selector_visible_identity_def
  by (simp only: identity_pass validate_nested_tool_reference_def option.case res_then.simps simp_thms)

lemma object_kvsE: "is_object v \<Longrightarrow> (\<And>kvs. v = JObj kvs \<Longrightarrow> P) \<Longrightarrow> P"
  by (cases v) auto

lemma function_to_responses_reads:
  assumes "tool_def_ok (FunctionTool f)"
  shows "normalized_responses_tool_definition (child_to_responses f) = Inr (Some (FunctionTool f))"
proof -
  let ?v = "jobj ((''type'', JStr ''function'') # function_fields f)"
  have "validate_responses_public_tool_reference ?v = Inr ()"
    using child_pass [of f] assms unfolding child_to_responses_def
    by (intro reference_pass [where n = "ft_name f"] function_fields_get) simp_all
  moreover have "type_of ?v = Some ''function''" "jget ?v ''name'' = Some (JStr (ft_name f))"
    by (simp_all only: jget_str_def function_fields_get bind.simps as_str.simps)
  ultimately show ?thesis
    using assms by (simp add: normalized_responses_tool_definition_def child_to_responses_def
        public_name_ok read_function_fields del: jget_jobj)
qed

lemma custom_to_responses_reads:
  assumes "tool_def_ok (CustomTool c)"
  shows "normalized_responses_tool_definition (normalized_tool_definition_to_responses (CustomTool c))
    = Inr (Some (CustomTool c))"
proof -
  let ?v = "jobj ((''type'', JStr ''custom'') # custom_fields c)"
  have "validate_selector_at ?v p = Inr ()" for p
    using plain_keys(2) not_container assms
    by (intro selector_object_pass [where n = "ct_name c"]) (auto simp only: custom_fields_get set_simps insert_iff prod.inject tool_def_ok.simps)
  then have "validate_responses_public_tool_reference ?v = Inr ()"
    using assms by (intro reference_pass [where n = "ct_name c"] custom_fields_get) simp_all
  moreover have "type_of ?v = Some ''custom''" "jget ?v ''name'' = Some (JStr (ct_name c))"
    by (simp_all only: jget_str_def custom_fields_get bind.simps as_str.simps)
  ultimately show ?thesis
    using assms by (simp add: normalized_responses_tool_definition_def
        public_name_ok read_custom_fields del: jget_jobj)
qed

definition namespace_fields :: "string \<Rightarrow> string option \<Rightarrow> function_tool list \<Rightarrow> (string \<times> json) list" where
  "namespace_fields n d children = [(''type'', JStr ''namespace''), (''name'', JStr n)]
     @ optf ''description'' (map_option JStr d) @ [(''tools'', JArr (map child_to_responses children))]"

lemma namespace_fields_get:
  "jget (jobj (namespace_fields n d cs)) ''type'' = Some (JStr ''namespace'')"
  "jget (jobj (namespace_fields n d cs)) ''name'' = Some (JStr n)"
  "jget (jobj (namespace_fields n d cs)) ''tools'' = Some (JArr (map child_to_responses cs))"
  "jget (jobj (namespace_fields n d cs)) ''description'' = map_option JStr d"
  "jget (jobj (namespace_fields n d cs)) ''namespace'' = None"
  "jget (jobj (namespace_fields n d cs)) ''function'' = None"
  "jget (jobj (namespace_fields n d cs)) ''custom'' = None"
  by (cases d; simp add: namespace_fields_def optf_def)+

lemma read_written_children:
  "list_all (\<lambda>f. ft_name f \<noteq> [] \<and> \<not> custom_bridge_prefix_is_reserved (ft_name f)) cs \<Longrightarrow>
   res_map read_namespace_child (map child_to_responses cs) = Inr cs"
proof (induction cs)
  case (Cons f cs)
  have "jget_str (child_to_responses f) ''name'' = Some (ft_name f)"
    unfolding child_to_responses_def jget_str_def function_fields_get by simp
  with Cons have "read_namespace_child (child_to_responses f) = Inr f"
    by (simp add: read_namespace_child_def public_name_ok child_to_responses_def
        read_function_fields)
  with Cons show ?case by simp
qed simp

lemma namespace_to_responses_reads:
  assumes "tool_def_ok (NamespaceTool n d cs)"
  shows "normalized_responses_tool_definition (normalized_tool_definition_to_responses (NamespaceTool n d cs))
    = Inr (Some (NamespaceTool n d cs))"
proof -
  let ?v = "jobj (namespace_fields n d cs)"
  have "validate_selector_at (JArr (map child_to_responses cs)) p = Inr ()" for p
    using assms child_pass by (simp add: list_all_iff) (intro selector_items_pass, auto)
  then have "validate_selector_at ?v p = Inr ()" for p
    using plain_keys(3) not_container assms
    by (intro selector_object_pass [where n = n] namespace_fields_get)
      (auto simp only: namespace_fields_def set_simps set_append Un_iff insert_iff prod.inject empty_iff tool_def_ok.simps)
  then have "validate_responses_public_tool_reference ?v = Inr ()"
    using assms by (intro reference_pass [where n = n] namespace_fields_get) simp_all
  moreover have "list_all (\<lambda>c. type_of c = Some ''function'') (map child_to_responses cs)"
    unfolding list_all_iff by (simp add: child_to_responses_def jget_str_def function_fields_get del: jget_jobj)
  moreover have "type_of ?v = Some ''namespace''" "jget_str ?v ''name'' = Some n"
      "jget_array ?v ''tools'' = Some (map child_to_responses cs)" "jget_str ?v ''description'' = d"
    by (cases d; simp add: jget_str_def jget_array_def namespace_fields_get del: jget_jobj)+
  moreover have "normalized_tool_definition_to_responses (NamespaceTool n d cs) = ?v"
    by (simp add: namespace_fields_def)
  ultimately show ?thesis
    using assms read_written_children [of cs]
    by (simp add: normalized_responses_tool_definition_def public_name_ok
        del: jget_jobj normalized_tool_definition_to_responses.simps)
qed

lemma to_openai_reads:
  assumes "tool_def_ok d" and "normalized_tool_definition_to_openai d = Inr v"
  shows "normalized_openai_tool_definition v = Inr (Some d)"
proof (cases d)
  case (FunctionTool f)
  let ?p = "jobj (function_fields f)"
  have v: "v = jobj [(''type'', JStr ''function''), (''function'', ?p)]" using assms(2) FunctionTool by simp
  have name: "jget_str ?p ''name'' = Some (ft_name f)" "jget ?p ''name'' = Some (JStr (ft_name f))"
    by (simp_all only: jget_str_def function_fields_get bind.simps as_str.simps)
  have ok: "ft_name f \<noteq> []" "\<not> custom_bridge_prefix_is_reserved (ft_name f)"
    using assms(1) FunctionTool by simp_all
  have "is_object ?p" by simp
  then have p: "openai_function_tool_payload v = Some ?p"
    by (elim object_kvsE) (simp add: openai_function_tool_payload_def v jget_str_def)
  have id: "validate_openai_public_tool_identity v = Inr ()"
    using name ok by (simp add: validate_openai_public_tool_identity_def v identity_pass del: jget_jobj)
      (simp add: identity_pass)
  show ?thesis
    using p id name ok by (simp add: normalized_openai_tool_definition_def v jget_str_def public_name_ok
        read_function_fields FunctionTool)
next
  case (CustomTool c)
  let ?p = "jobj (custom_fields c)"
  have v: "v = jobj [(''type'', JStr ''custom''), (''custom'', ?p)]" using assms(2) CustomTool by simp
  have name: "jget_str ?p ''name'' = Some (ct_name c)" "jget ?p ''name'' = Some (JStr (ct_name c))"
    by (simp_all only: jget_str_def custom_fields_get bind.simps as_str.simps)
  have ok: "ct_name c \<noteq> []" "\<not> custom_bridge_prefix_is_reserved (ct_name c)"
    using assms(1) CustomTool by simp_all
  obtain kvs where kvs: "?p = JObj kvs" using is_object_jobj by (rule object_kvsE)
  then have p: "openai_custom_tool_payload v = Some kvs"
    by (simp add: openai_custom_tool_payload_def v jget_str_def)
  have id: "validate_openai_public_tool_identity v = Inr ()"
    using name ok by (simp add: validate_openai_public_tool_identity_def v identity_pass del: jget_jobj)
      (simp add: identity_pass)
  show ?thesis
    using p id name ok by (simp add: normalized_openai_tool_definition_def v jget_str_def public_name_ok
        kvs [symmetric] read_custom_fields CustomTool)
qed (use assms in simp)

text \<open>A tool definition that is read from either OpenAI protocol is written to the Responses protocol so
  that it is read back unchanged, namespaces with all their children included, and so it is to Chat
  Completions, which has no namespaces.\<close>

theorem tool_definition_round_trip:
  assumes "normalized_openai_tool_definition tool = Inr (Some d)
    \<or> normalized_responses_tool_definition tool = Inr (Some d)"
  shows "normalized_responses_tool_definition (normalized_tool_definition_to_responses d) = Inr (Some d)
    \<and> (case normalized_tool_definition_to_openai d of
         Inr v \<Rightarrow> normalized_openai_tool_definition v = Inr (Some d)
       | Inl _ \<Rightarrow> (\<exists>n desc children. d = NamespaceTool n desc children))"
proof -
  have ok: "tool_def_ok d" using assms read_openai_definition_ok read_responses_definition_ok by blast
  then have "normalized_responses_tool_definition (normalized_tool_definition_to_responses d) = Inr (Some d)"
    using function_to_responses_reads custom_to_responses_reads namespace_to_responses_reads
    by (cases d) (simp_all del: normalized_tool_definition_to_responses.simps(2,3) tool_def_ok.simps)
  moreover have "\<exists>n desc children. d = NamespaceTool n desc children"
    if "normalized_tool_definition_to_openai d = Inl e" for e
    using that by (cases d) simp_all
  ultimately show ?thesis using to_openai_reads [OF ok] by (simp split: sum.split)
qed

definition namespace_tool :: json where
  "namespace_tool = jobj [(''type'', JStr ''namespace''), (''name'', JStr ''agents''),
     (''tools'', JArr [jobj [(''type'', JStr ''function''), (''name'', JStr ''spawn'')]])]"

theorem tool_definition_round_trip_witness:
  "\<exists>d. normalized_responses_tool_definition namespace_tool = Inr (Some d)
     \<and> normalized_responses_tool_definition (normalized_tool_definition_to_responses d) = Inr (Some d)"
proof -
  have d: "normalized_responses_tool_definition namespace_tool = Inr (Some (NamespaceTool ''agents'' None
      [\<lparr>ft_name = ''spawn'', ft_description = None, ft_parameters = None, ft_strict = None\<rparr>]))"
    by code_simp
  from tool_definition_round_trip [OF disjI2 [OF d]] d show ?thesis by blast
qed

end
