(* ===== verification/Call_Bridge.thy ===== *)
theory Call_Bridge
  imports Tool_Calls
begin

text \<open>
  The calls a model makes of the tools a request declares go through the bridges of
  \<open>src/translate/internal/tools.rs\<close> and come back: as an item of the Responses protocol, as a call of
  Chat Completions that carries custom input wrapped and namespaces flattened, and as an item again.
\<close>

section \<open>Calls and their written forms\<close>

text \<open>The calls that may be made of the tools a request declares.\<close>

fun declared_call :: "tool_def list \<Rightarrow> tool_call \<Rightarrow> bool" where
  "declared_call tools (CustomCall i name input ns kind) =
     (ns = None \<and> (\<exists>c. CustomTool c \<in> set tools \<and> ct_name c = name))"
| "declared_call tools (FunctionCall i name a None kind) =
     (\<exists>f. FunctionTool f \<in> set tools \<and> ft_name f = name)"
| "declared_call tools (FunctionCall i name a (Some ns) kind) =
     (\<exists>d children f. NamespaceTool ns d children \<in> set tools \<and> f \<in> set children \<and> ft_name f = name)"

lemma no_mark_no_copy:
  "jget v non_replayable_field = None \<Longrightarrow> copy_non_replayable_tool_call_marker E v dest = dest"
  by (simp add: copy_non_replayable_tool_call_marker_def tool_call_is_marked_non_replayable_def)

lemma is_object_set_proxied [simp]: "is_object v \<Longrightarrow> is_object (set_proxied kind v)"
  by (auto simp: set_proxied_def split: option.split)

lemma object_is_no_name: "is_object v \<Longrightarrow> validate_public_tool_identity_value (Some v) = Inr ()"
  by (cases v) (simp_all add: validate_public_tool_identity_value_def)

lemma jget_set_proxied:
  "is_object v \<Longrightarrow> jget (set_proxied kind v) k
     = (if k = ''proxied_tool_kind'' \<and> kind \<noteq> None then kind else jget v k)"
  by (auto simp: set_proxied_def split: option.split)

text \<open>A call of Chat Completions with a public name is read as it was written.\<close>

lemma written_function_call:
  assumes "n \<noteq> []" and "\<not> custom_bridge_prefix_is_reserved n"
  shows "normalized_openai_tool_call (set_proxied kind (openai_function_call_value (Some i) n a))
      = Inr (Some (FunctionCall (Some i) n a None kind))"
    and "jget (set_proxied kind (openai_function_call_value (Some i) n a)) non_replayable_field = None"
proof -
  let ?v = "set_proxied kind (openai_function_call_value (Some i) n a)"
  let ?f = "jobj [(''name'', JStr n), (''arguments'', JStr a)]"
  have get: "jget ?v ''type'' = Some (JStr ''function'')" "jget ?v ''function'' = Some ?f"
    "jget ?v ''id'' = Some i" "jget ?v ''name'' = None" "jget ?v ''namespace'' = None"
    "jget ?v ''proxied_tool_kind'' = kind" "jget ?v non_replayable_field = None"
    "jget ?v ''custom'' = None" "is_object ?v"
    by (simp_all add: jget_set_proxied openai_function_call_value_def non_replayable_field_def jopt_def)
  show "jget ?v non_replayable_field = None" by (fact get)
  obtain kvs where f: "?f = JObj kvs" using is_object_jobj by (rule object_kvsE)
  have name: "jget_str ?f ''name'' = Some n" "jget ?f ''name'' = Some (JStr n)"
    and args: "jget ?f ''arguments'' = Some (JStr a)"
    by (simp_all add: jget_str_def)
  have "validate_openai_public_tool_identity ?v = Inr ()"
    using assms get name by (simp add: validate_openai_public_tool_identity_def identity_pass object_is_no_name
        jget_str_def)
  moreover have "openai_tool_arguments_raw ?v = Some a"
    using args by (simp add: openai_tool_arguments_raw_def get)
  ultimately show "normalized_openai_tool_call ?v = Inr (Some (FunctionCall (Some i) n a None kind))"
    using assms name
    by (simp add: normalized_openai_tool_call_def get jget_str_def public_name_ok f)
qed

text \<open>An item of the Responses protocol with public names is read as it was written.\<close>

fun public_call :: "tool_call \<Rightarrow> bool" where
  "public_call (FunctionCall i n a ns kind) = (i \<noteq> None \<and> n \<noteq> [] \<and> \<not> custom_bridge_prefix_is_reserved n
     \<and> (\<forall>s \<in> set_option ns. \<not> custom_bridge_prefix_is_reserved s))"
| "public_call (CustomCall i n a ns kind) = (i \<noteq> None \<and> n \<noteq> [] \<and> \<not> custom_bridge_prefix_is_reserved n
     \<and> (\<forall>s \<in> set_option ns. \<not> custom_bridge_prefix_is_reserved s))"

lemma jget_set_namespace:
  "is_object v \<Longrightarrow> jget (set_namespace ns v) k
     = (if k = ''namespace'' \<and> ns \<noteq> None then map_option JStr ns else jget v k)"
  "is_object v \<Longrightarrow> is_object (set_namespace ns v)"
  by (auto simp: set_namespace_def split: option.split)

lemma written_item:
  assumes "public_call call"
  shows "normalized_responses_tool_call E (normalized_tool_call_to_responses_item call) = Inr (Some call)"
    and "jget (normalized_tool_call_to_responses_item call) non_replayable_field = None"
proof -
  let ?v = "normalized_tool_call_to_responses_item call"
  let ?custom = "is_CustomCall call"
  obtain i where i: "call_id call = Some i" using assms by (cases call) auto
  have get: "jget ?v ''type'' = Some (JStr (if ?custom then ''custom_tool_call'' else ''function_call''))"
    "jget ?v ''call_id'' = Some i" "jget ?v ''name'' = Some (JStr (call_name call))"
    "jget ?v ''namespace'' = map_option JStr (call_namespace call)"
    "jget ?v ''proxied_tool_kind'' = call_proxied call"
    "jget ?v proxied_tool_kind_sig_field = None" "jget ?v non_replayable_field = None"
    "?custom \<Longrightarrow> jget ?v ''input'' = Some (JStr (call_input call))"
    "\<not> ?custom \<Longrightarrow> jget ?v ''arguments'' = Some (JStr (call_arguments call))"
    using i by (cases call; simp add: jget_set_proxied jget_set_namespace non_replayable_field_def
        proxied_tool_kind_sig_field_def jopt_def)+
  show "jget ?v non_replayable_field = None" by (fact get)
  have names: "call_name call \<noteq> []" "\<not> custom_bridge_prefix_is_reserved (call_name call)"
    "\<forall>s \<in> set_option (call_namespace call). \<not> custom_bridge_prefix_is_reserved s"
    using assms by (cases call; simp)+
  have "validate_responses_public_tool_call_item ?v = Inr ()"
    using names by (cases "call_namespace call")
      (simp_all add: validate_responses_public_tool_call_item_def get identity_pass)
  moreover have kind: "(semantic_tool_kind_from_value E ?v = KindOpenAiCustom) = ?custom"
    by (simp add: semantic_tool_kind_from_value_def proxied_tool_kind_is_attested_def jget_str_def get)
  moreover have "responses_tool_call_input_raw E ?v
      = Some (if ?custom then call_input call else call_arguments call)"
    using kind by (cases "semantic_tool_kind_from_value E ?v")
      (auto simp: responses_tool_call_input_raw_def jget_str_def get)
  moreover have "jget_str ?v ''namespace'' = call_namespace call"
    by (cases "call_namespace call") (simp_all add: jget_str_def get)
  ultimately have "normalized_responses_tool_call E ?v = Inr (Some (if ?custom
      then CustomCall (call_id call) (call_name call) (call_input call) (call_namespace call) (call_proxied call)
      else FunctionCall (call_id call) (call_name call) (call_arguments call) (call_namespace call)
        (call_proxied call)))"
    using names i by (simp add: normalized_responses_tool_call_def get jget_str_def public_name_ok Let_def)
  then show "normalized_responses_tool_call E ?v = Inr (Some call)" by (cases call) simp_all
qed

section \<open>What the request's context answers\<close>

lemma scanned_context:
  assumes "request_scoped_openai_custom_bridge_context tools = ctx"
  shows "context_expects_wrapper ctx n = (\<exists>e. map_of (rev (concat (map tool_customs tools))) n = Some e
      \<and> tool_bridge_entry_expects_wrapper e)"
    and "Option.bind ctx (\<lambda>c. namespace_bridge_split c n)
      = map_option (\<lambda>e. (ns_namespace e, ns_child e)) (map_of (rev (concat (map tool_flats tools))) n)"
proof -
  let ?c = "fold add_tool tools new_tool_bridge_context"
  have es: "map_of (ctx_entries ?c) = map_of (rev (concat (map tool_customs tools)))"
    and ns: "map_of (ctx_namespace_entries ?c) = map_of (rev (concat (map tool_flats tools)))"
    by (simp_all add: fold_add_tool_eq new_tool_bridge_context_def obj.look_fold_upd)
  have ctx: "ctx = (if ctx_entries ?c = [] \<and> ctx_namespace_entries ?c = [] then None else Some ?c)"
    using assms by (simp add: request_scoped_openai_custom_bridge_context_def Let_def)
  show "context_expects_wrapper ctx n = (\<exists>e. map_of (rev (concat (map tool_customs tools))) n = Some e
      \<and> tool_bridge_entry_expects_wrapper e)"
    unfolding es [symmetric]
    by (auto simp: ctx context_expects_wrapper_def expects_canonical_input_wrapper_def split: option.splits)
  show "Option.bind ctx (\<lambda>c. namespace_bridge_split c n)
      = map_option (\<lambda>e. (ns_namespace e, ns_child e)) (map_of (rev (concat (map tool_flats tools))) n)"
    unfolding ns [symmetric] by (simp add: ctx namespace_bridge_split_def)
qed

text \<open>A request whose tools do not conflict, as the translation checks it.\<close>

definition conflict_free :: "tool_def list \<Rightarrow> bool" where
  "conflict_free tools = (request_scoped_openai_namespace_bridge_conflict_name tools = None
     \<and> request_scoped_openai_custom_bridge_conflict_name tools = None)"

lemma custom_not_function:
  assumes "conflict_free tools" and "FunctionTool f \<in> set tools" and "CustomTool c \<in> set tools"
  shows "ft_name f \<noteq> ct_name c"
proof
  assume same: "ft_name f = ct_name c"
  have "ft_name f \<in> set (List.map_filter function_tool_name tools)"
    "ft_name f \<in> set (List.map_filter custom_tool_name tools)"
    using assms(2,3) same by (force simp: set_map_filter)+
  then have "request_scoped_openai_custom_bridge_conflict_name tools \<noteq> None"
    by (auto simp: request_scoped_openai_custom_bridge_conflict_name_def find_None_iff)
  then show False using assms(1) by (simp add: conflict_free_def)
qed

lemma flats_of_conflict_free:
  assumes "conflict_free tools" and "flat \<in> set (map fst (concat (map tool_flats tools)))"
  shows "\<not> custom_bridge_prefix_is_reserved flat"
    and "t \<in> set tools \<Longrightarrow> tool_user_name t \<noteq> Some flat"
    and "distinct (map fst (concat (map tool_flats tools)))"
proof -
  let ?flats = "map fst (concat (map tool_flats tools))"
  have free: "distinct ?flats \<and> set ?flats \<inter> set [] = {} \<and>
      set ?flats \<inter> set (List.map_filter tool_user_name tools) = {}
      \<and> (\<forall>flat \<in> set ?flats. \<not> custom_bridge_prefix_is_reserved flat)"
    using assms(1) scan_tools_None [of "List.map_filter tool_user_name tools" tools "[]"]
    unfolding conflict_free_def request_scoped_openai_namespace_bridge_conflict_name_def Let_def by blast
  show "\<not> custom_bridge_prefix_is_reserved flat" using free assms(2) by blast
  show "distinct ?flats" using free by blast
  assume t: "t \<in> set tools"
  show "tool_user_name t \<noteq> Some flat"
  proof
    assume "tool_user_name t = Some flat"
    then have "flat \<in> set (List.map_filter tool_user_name tools)" using t by (auto simp: set_map_filter)
    then show False using free assms(2) by blast
  qed
qed

lemma wrapper_of_custom:
  assumes "request_scoped_openai_custom_bridge_context tools = ctx"
  shows "context_expects_wrapper ctx n \<longleftrightarrow> (\<exists>c. CustomTool c \<in> set tools \<and> ct_name c = n)"
proof -
  have all: "tool_bridge_entry_expects_wrapper e" if "(k, e) \<in> set (tool_customs t)" for k e t
    using that by (cases t) (auto simp: tool_bridge_entry_from_custom_def
        tool_bridge_entry_expects_wrapper_def)
  have names: "n \<in> fst ` set (tool_customs t) \<longleftrightarrow> (\<exists>c. t = CustomTool c \<and> ct_name c = n)" for t
    by (cases t) auto
  let ?kvs = "rev (concat (map tool_customs tools))"
  have "context_expects_wrapper ctx n \<longleftrightarrow> n \<in> fst ` set ?kvs"
  proof (cases "map_of ?kvs n")
    case None
    then have "n \<notin> fst ` set ?kvs" by (simp only: map_of_eq_None_iff simp_thms)
    with None show ?thesis unfolding scanned_context(1) [OF assms] by simp
  next
    case (Some e)
    have e: "(n, e) \<in> set ?kvs" using Some by (rule map_of_SomeD)
    then obtain t where "t \<in> set tools" "(n, e) \<in> set (tool_customs t)" by auto
    then have "tool_bridge_entry_expects_wrapper e" using all by blast
    moreover have "n \<in> fst ` set ?kvs" using e by force
    ultimately show ?thesis using Some unfolding scanned_context(1) [OF assms] by blast
  qed
  also have "\<dots> \<longleftrightarrow> (\<exists>t \<in> set tools. n \<in> fst ` set (tool_customs t))" by auto
  finally show ?thesis unfolding names by blast
qed

lemma split_of_child:
  assumes "conflict_free tools" and "request_scoped_openai_custom_bridge_context tools = ctx"
    and "NamespaceTool ns d children \<in> set tools" and "f \<in> set children"
  shows "Option.bind ctx (\<lambda>c. namespace_bridge_split c (flat_tool_name ns (ft_name f))) = Some (ns, ft_name f)"
    and "\<not> context_expects_wrapper ctx (flat_tool_name ns (ft_name f))"
    and "\<not> custom_bridge_prefix_is_reserved (flat_tool_name ns (ft_name f))"
proof -
  let ?flat = "flat_tool_name ns (ft_name f)"
  have member: "(?flat, \<lparr>ns_namespace = ns, ns_child = ft_name f\<rparr>) \<in> set (concat (map tool_flats tools))"
    using assms(3,4) by (auto intro!: bexI [of _ "NamespaceTool ns d children"])
  then have flat: "?flat \<in> set (map fst (concat (map tool_flats tools)))" by force
  show "\<not> custom_bridge_prefix_is_reserved ?flat" by (rule flats_of_conflict_free(1) [OF assms(1) flat])
  show "Option.bind ctx (\<lambda>c. namespace_bridge_split c ?flat) = Some (ns, ft_name f)"
    using map_of_in_distinct [OF flats_of_conflict_free(3) [OF assms(1) flat] member]
    by (simp add: scanned_context(2) [OF assms(2)])
  have "CustomTool c \<in> set tools \<Longrightarrow> ct_name c \<noteq> ?flat" for c
    using flats_of_conflict_free(2) [OF assms(1) flat, of "CustomTool c"] by simp
  then show "\<not> context_expects_wrapper ctx ?flat" by (simp add: wrapper_of_custom [OF assms(2)])
qed

lemma no_split_of_function:
  assumes "conflict_free tools" and "request_scoped_openai_custom_bridge_context tools = ctx"
    and "FunctionTool f \<in> set tools"
  shows "Option.bind ctx (\<lambda>c. namespace_bridge_split c (ft_name f)) = None"
    and "\<not> context_expects_wrapper ctx (ft_name f)"
proof -
  have "ft_name f \<notin> set (map fst (concat (map tool_flats tools)))"
    using flats_of_conflict_free(2) [OF assms(1) _ assms(3), of "ft_name f"] by auto
  then have "ft_name f \<notin> fst ` set (rev (concat (map tool_flats tools)))"
    by (simp only: set_rev set_map simp_thms)
  then have "map_of (rev (concat (map tool_flats tools))) (ft_name f) = None"
    by (simp only: map_of_eq_None_iff simp_thms)
  then show "Option.bind ctx (\<lambda>c. namespace_bridge_split c (ft_name f)) = None"
    by (simp add: scanned_context(2) [OF assms(2)] del: map_of_eq_None_iff)
  show "\<not> context_expects_wrapper ctx (ft_name f)"
    using custom_not_function [OF assms(1,3)] by (metis wrapper_of_custom [OF assms(2)])
qed

section \<open>Calls survive the bridges\<close>

text \<open>What the JSON library promises for the wrapper of a custom input.\<close>

definition wrapper_round_trips :: "env \<Rightarrow> bool" where
  "wrapper_round_trips E = (\<forall>input. json_parse E (json_text E (bridge_arguments_value input))
     = Some (bridge_arguments_value input))"

lemma wrapped_input_decodes:
  "wrapper_round_trips E \<Longrightarrow> openai_responses_custom_tool_input_from_bridge_arguments E
     (openai_responses_custom_tool_bridge_arguments E input) = Inr input"
  by (simp add: wrapper_round_trips_def openai_responses_custom_tool_input_from_bridge_arguments_def
      openai_responses_custom_tool_bridge_arguments_def openai_responses_custom_tool_input_from_bridge_value_def
      bridge_arguments_value_def jobj_def)

lemma namespaced_item:
  "jobj [(''type'', t), (''call_id'', i), (''namespace'', ns), (''name'', n), (''arguments'', a)]
     = jset ''namespace'' ns (jobj [(''type'', t), (''call_id'', i), (''name'', n), (''arguments'', a)])"
  by (simp add: jobj_def)

lemma bridged_as:
  assumes "public_call call"
    and "bridge_tool_call E (flatten_normalized_namespaced_tool_call call)
      = set_proxied kind (openai_function_call_value (Some i) n a)"
    and "n \<noteq> []" and "\<not> custom_bridge_prefix_is_reserved n"
    and "unbridge_tool_call E ctx (FunctionCall (Some i) n a None kind)
      = normalized_tool_call_to_responses_item call"
  shows "\<exists>tc. responses_tool_call_item_to_openai_tool_call_with_bridge_strict E
        (normalized_tool_call_to_responses_item call) = Inr (Some tc)
      \<and> type_of tc = Some ''function''
      \<and> openai_tool_call_to_responses_item_decoding_custom_bridge_with_context E ctx tc
        = Inr (normalized_tool_call_to_responses_item call)"
proof (intro exI conjI)
  let ?tc = "set_proxied kind (openai_function_call_value (Some i) n a)"
  show "responses_tool_call_item_to_openai_tool_call_with_bridge_strict E
      (normalized_tool_call_to_responses_item call) = Inr (Some ?tc)"
    using written_item [OF assms(1)] assms(2)
    by (simp add: responses_tool_call_item_to_openai_tool_call_with_bridge_strict_def no_mark_no_copy
        del: normalized_tool_call_to_responses_item.simps)
  show "type_of ?tc = Some ''function''"
    by (simp add: jget_str_def jget_set_proxied openai_function_call_value_def)
  show "openai_tool_call_to_responses_item_decoding_custom_bridge_with_context E ctx ?tc
      = Inr (normalized_tool_call_to_responses_item call)"
    using written_function_call [OF assms(3,4)] assms(5)
    by (simp add: openai_tool_call_to_responses_item_decoding_custom_bridge_with_context_def
        no_mark_no_copy del: normalized_tool_call_to_responses_item.simps unbridge_tool_call.simps)
qed

lemma declared_public:
  assumes "list_all tool_def_ok tools" and "declared_call tools call" and "call_id call = Some i"
  shows "public_call call"
proof (cases call)
  case (CustomCall i' n input ns kind)
  then obtain c where "CustomTool c \<in> set tools" "ct_name c = n" "ns = None" using assms(2) by auto
  moreover from this(1) have "tool_def_ok (CustomTool c)" using assms(1) by (auto simp: list_all_iff)
  ultimately show ?thesis using assms(3) CustomCall by auto
next
  case (FunctionCall i' n a ns kind)
  show ?thesis
  proof (cases ns)
    case None
    then obtain f where "FunctionTool f \<in> set tools" "ft_name f = n" using assms(2) FunctionCall by auto
    moreover from this(1) have "tool_def_ok (FunctionTool f)" using assms(1) by (auto simp: list_all_iff)
    ultimately show ?thesis using assms(3) FunctionCall None by auto
  next
    case (Some name)
    then obtain d children f where "NamespaceTool name d children \<in> set tools" "f \<in> set children" "ft_name f = n"
      using assms(2) FunctionCall by auto
    moreover from this(1) have "tool_def_ok (NamespaceTool name d children)" using assms(1) by (auto simp: list_all_iff)
    ultimately show ?thesis using assms(3) FunctionCall Some by (auto simp: list_all_iff)
  qed
qed

text \<open>C3.
  A call of a tool that the request declares survives the bridges: when the tools have public names and
  do not conflict, the item of a function call, of a namespaced call or of a custom call is carried as
  one function call of Chat Completions, and with the context of the same request that call is turned
  back into exactly the item, its namespace, its raw custom input and its identifier included.\<close>

theorem declared_calls_survive_the_bridge:
  assumes "list_all tool_def_ok tools" and "conflict_free tools" and "wrapper_round_trips E"
    and "declared_call tools call" and "call_id call = Some i"
  shows "\<exists>tc. responses_tool_call_item_to_openai_tool_call_with_bridge_strict E
        (normalized_tool_call_to_responses_item call) = Inr (Some tc)
      \<and> type_of tc = Some ''function''
      \<and> openai_tool_call_to_responses_item_decoding_custom_bridge_with_context E
          (request_scoped_openai_custom_bridge_context tools) tc
        = Inr (normalized_tool_call_to_responses_item call)"
proof -
  have public: "public_call call" by (rule declared_public [OF assms(1,4,5)])
  note bridged = bridged_as [OF public]
  show ?thesis
  proof (cases call)
    case (CustomCall i' n input ns kind)
    then have i': "i' = Some i" and "ns = None" and n: "n \<noteq> []" "\<not> custom_bridge_prefix_is_reserved n"
      and c: "\<exists>c. CustomTool c \<in> set tools \<and> ct_name c = n"
      using assms(4,5) public by auto
    have "context_expects_wrapper (request_scoped_openai_custom_bridge_context tools) n"
      using c wrapper_of_custom [OF refl] by blast
    then show ?thesis
      using wrapped_input_decodes [OF assms(3), of input]
      by (intro bridged [OF _ n, where a = "openai_responses_custom_tool_bridge_arguments E input" and kind = kind
            and i = i]) (simp_all add: CustomCall i' \<open>ns = None\<close> set_namespace_def)
  next
    case (FunctionCall i' n a ns kind)
    then have i': "i' = Some i" and n: "n \<noteq> []" "\<not> custom_bridge_prefix_is_reserved n"
      using assms(5) public by auto
    show ?thesis
    proof (cases ns)
      case None
      then obtain f where f: "FunctionTool f \<in> set tools" "ft_name f = n"
        using assms(4) FunctionCall by auto
      show ?thesis
        using no_split_of_function [OF assms(2) refl f(1)] f(2)
        by (intro bridged [OF _ n]) (simp_all add: FunctionCall i' None set_namespace_def)
    next
      case (Some name)
      then obtain d children f where t: "NamespaceTool name d children \<in> set tools" "f \<in> set children"
        and f: "ft_name f = n" using assms(4) FunctionCall by auto
      have flat: "flat_tool_name name n \<noteq> []" by (simp add: flat_tool_name_def)
      show ?thesis
        using split_of_child [OF assms(2) refl t] f
        by (intro bridged [OF _ flat]) (simp_all add: FunctionCall i' Some set_namespace_def namespaced_item)
    qed
  qed
qed

text \<open>A printer of the wrapper and its parser.\<close>

definition echo_env :: env where
  "echo_env = separating_env
     \<lparr>json_text := (\<lambda>v. unwrap_or (jget_str v ''input'') []),
      json_parse := (\<lambda>t. Some (bridge_arguments_value t))\<rparr>"

definition two_tools :: "tool_def list" where
  "two_tools = [CustomTool \<lparr>ct_name = ''patch'', ct_description = None, ct_format = None\<rparr>,
     NamespaceTool ''agents'' None
       [\<lparr>ft_name = ''spawn'', ft_description = None, ft_parameters = None, ft_strict = None\<rparr>]]"

theorem declared_calls_survive_the_bridge_witness:
  "let call = FunctionCall (Some (JStr ''c'')) ''spawn'' ''{}'' (Some ''agents'') None
   in \<exists>tc. responses_tool_call_item_to_openai_tool_call_with_bridge_strict echo_env
          (normalized_tool_call_to_responses_item call) = Inr (Some tc)
        \<and> openai_tool_call_to_responses_item_decoding_custom_bridge_with_context echo_env
            (request_scoped_openai_custom_bridge_context two_tools) tc
          = Inr (normalized_tool_call_to_responses_item call)"
proof -
  have "list_all tool_def_ok two_tools" by code_simp
  moreover have "conflict_free two_tools" by code_simp
  moreover have "wrapper_round_trips echo_env"
    by (simp add: wrapper_round_trips_def echo_env_def bridge_arguments_value_def jget_str_def)
  moreover have "declared_call two_tools (FunctionCall (Some (JStr ''c'')) ''spawn'' ''{}'' (Some ''agents'') None)"
    by (simp add: two_tools_def)
  ultimately show ?thesis
    unfolding Let_def using declared_calls_survive_the_bridge [where i = "JStr ''c''"] tool_call.sel(1) by blast
qed

end
