(* ===== verification/Hook_Runtime.thy ===== *)
theory Hook_Runtime
  imports Json
begin

text \<open>
  The runtime the exchange and usage hooks share (\<open>src/hooks.rs\<close>): one circuit breaker per hook, and a
  budget of bytes in flight that many tasks reserve from with a compare-and-swap loop. Points in time
  and durations are natural numbers, the nanoseconds of the monotonic clock.
\<close>

section \<open>The circuit breaker\<close>

datatype hook_kind = ExchangeHook | UsageHook

record circuit_state =
  consecutive_failures :: nat
  open_until :: "nat option"

definition closed_circuit :: circuit_state where
  "closed_circuit = \<lparr>consecutive_failures = 0, open_until = None\<rparr>"

record hook_breaker_state =
  exchange_circuit :: circuit_state
  usage_circuit :: circuit_state

fun circuit_of :: "hook_kind \<Rightarrow> hook_breaker_state \<Rightarrow> circuit_state" where
  "circuit_of ExchangeHook b = exchange_circuit b"
| "circuit_of UsageHook b = usage_circuit b"

fun set_circuit :: "hook_kind \<Rightarrow> circuit_state \<Rightarrow> hook_breaker_state \<Rightarrow> hook_breaker_state" where
  "set_circuit ExchangeHook c b = b\<lparr>exchange_circuit := c\<rparr>"
| "set_circuit UsageHook c b = b\<lparr>usage_circuit := c\<rparr>"

record hook_runtime =
  max_pending_bytes :: nat
  exchange_capture_budget_bytes :: nat
  pending_bytes :: nat
  failure_threshold :: nat
  cooldown :: nat
  breaker :: hook_breaker_state

definition default_exchange_capture_budget_bytes :: nat where
  "default_exchange_capture_budget_bytes = 32 * 1024"

text \<open>The runtime \<open>HookDispatcher::new\<close> sets up for enabled hooks.\<close>

definition new_hook_runtime :: "nat \<Rightarrow> nat \<Rightarrow> nat \<Rightarrow> hook_runtime" where
  "new_hook_runtime max_bytes threshold cool =
     \<lparr>max_pending_bytes = max_bytes,
      exchange_capture_budget_bytes = min max_bytes default_exchange_capture_budget_bytes,
      pending_bytes = 0, failure_threshold = threshold, cooldown = cool,
      breaker = \<lparr>exchange_circuit = closed_circuit, usage_circuit = closed_circuit\<rparr>\<rparr>"

definition circuit_attempt :: "nat \<Rightarrow> circuit_state \<Rightarrow> bool \<times> circuit_state" where
  "circuit_attempt now c = (case open_until c of
      Some until \<Rightarrow>
        if now < until then (False, c)
        else (True, c\<lparr>open_until := None, consecutive_failures := 0\<rparr>)
    | None \<Rightarrow> (True, c))"

definition circuit_success :: "circuit_state \<Rightarrow> circuit_state" where
  "circuit_success c = c\<lparr>consecutive_failures := 0, open_until := None\<rparr>"

text \<open>The end of the cooldown fits the clock: \<open>record_failure\<close> has seen to it.\<close>

definition circuit_failure :: "nat \<Rightarrow> nat \<Rightarrow> nat \<Rightarrow> circuit_state \<Rightarrow> circuit_state" where
  "circuit_failure threshold cool now c =
     (let n = sat_add (consecutive_failures c) 1
      in if threshold \<le> n then c\<lparr>open_until := Some (now + cool), consecutive_failures := 0\<rparr>
         else c\<lparr>consecutive_failures := n\<rparr>)"

definition update_circuit :: "hook_kind \<Rightarrow> (circuit_state \<Rightarrow> circuit_state) \<Rightarrow> hook_runtime \<Rightarrow> hook_runtime" where
  "update_circuit k f rt = rt\<lparr>breaker := set_circuit k (f (circuit_of k (breaker rt))) (breaker rt)\<rparr>"

definition can_attempt :: "nat \<Rightarrow> hook_kind \<Rightarrow> hook_runtime \<Rightarrow> bool \<times> hook_runtime" where
  "can_attempt now k rt =
     (let (ok, c) = circuit_attempt now (circuit_of k (breaker rt))
      in (ok, update_circuit k (\<lambda>_. c) rt))"

definition can_capture_exchange :: "nat \<Rightarrow> hook_runtime \<Rightarrow> bool \<times> hook_runtime" where
  "can_capture_exchange now rt =
     (let (ok, rt') = can_attempt now ExchangeHook rt
      in (ok \<and> pending_bytes rt' < max_pending_bytes rt', rt'))"

definition record_success :: "hook_kind \<Rightarrow> hook_runtime \<Rightarrow> hook_runtime" where
  "record_success k = update_circuit k circuit_success"

text \<open>
  The end of the cooldown is computed while the breaker is locked: when the clock cannot represent it, the
  task panics (\<open>None\<close>) and leaves the lock poisoned.
\<close>

definition record_failure :: "nat \<Rightarrow> hook_kind \<Rightarrow> hook_runtime \<Rightarrow> hook_runtime option" where
  "record_failure now k rt =
     (if failure_threshold rt \<le> sat_add (consecutive_failures (circuit_of k (breaker rt))) 1
          \<and> instant_add now (cooldown rt) = None
      then None
      else Some (update_circuit k (circuit_failure (failure_threshold rt) (cooldown rt) now) rt))"

text \<open>What the administration shows of a circuit: whole seconds, and open as long as one is left.\<close>

definition nanos_per_sec :: nat where
  "nanos_per_sec = 1000000000"

record circuit_snapshot =
  snap_failures :: nat
  snap_open :: bool
  snap_remaining_secs :: nat

definition circuit_snapshot_of :: "nat \<Rightarrow> circuit_state \<Rightarrow> circuit_snapshot" where
  "circuit_snapshot_of now c =
     (let remaining = (case open_until c of
          None \<Rightarrow> 0
        | Some deadline \<Rightarrow> if deadline < now then 0 else (deadline - now) div nanos_per_sec)
      in \<lparr>snap_failures = consecutive_failures c, snap_open = (0 < remaining),
          snap_remaining_secs = remaining\<rparr>)"

section \<open>The byte budget\<close>

text \<open>\<open>checked_add\<close> and the limit: the next value of the counter, or none when it must be refused.\<close>

definition next_reservation :: "nat \<Rightarrow> nat \<Rightarrow> nat \<Rightarrow> nat option" where
  "next_reservation max_bytes current bytes =
     (if u64_max < current + bytes then None
      else if max_bytes < current + bytes then None
      else Some (current + bytes))"

definition try_reserve :: "nat \<Rightarrow> hook_runtime \<Rightarrow> bool \<times> hook_runtime" where
  "try_reserve bytes rt = (case next_reservation (max_pending_bytes rt) (pending_bytes rt) bytes of
      None \<Rightarrow> (False, rt)
    | Some n \<Rightarrow> (True, rt\<lparr>pending_bytes := n\<rparr>))"

definition release :: "nat \<Rightarrow> hook_runtime \<Rightarrow> hook_runtime" where
  "release bytes rt = rt\<lparr>pending_bytes := pending_bytes rt - bytes\<rparr>"

text \<open>
  The task of one payload. \<open>spawn_send\<close> reserves before it spawns the task; \<open>send\<close> posts the payload,
  records the outcome, and releases.
\<close>

datatype delivery = Answered nat | NotDelivered

definition spawn_send :: "nat \<Rightarrow> hook_runtime \<Rightarrow> bool \<times> hook_runtime" where
  "spawn_send payload_len rt = try_reserve payload_len rt"

definition record_delivery :: "nat \<Rightarrow> hook_kind \<Rightarrow> delivery \<Rightarrow> hook_runtime \<Rightarrow> hook_runtime option" where
  "record_delivery now k d rt = (case d of
      Answered status \<Rightarrow>
        if 200 \<le> status \<and> status < 300 then Some (record_success k rt)
        else if 500 \<le> status \<and> status < 600 then record_failure now k rt
        else Some rt
    | NotDelivered \<Rightarrow> record_failure now k rt)"

definition send :: "nat \<Rightarrow> hook_kind \<Rightarrow> delivery \<Rightarrow> nat \<Rightarrow> hook_runtime \<Rightarrow> hook_runtime option" where
  "send now k d payload_len rt = map_option (release payload_len) (record_delivery now k d rt)"

section \<open>The budget among concurrent tasks\<close>

text \<open>
  A task of \<open>try_reserve\<close> and \<open>release\<close>, at the grain of its atomic operations: it wants bytes, has
  loaded the counter, holds its bytes, or is done.
\<close>

datatype reservation = Wanting nat | Loaded nat nat | Holding nat | Refused | Released

fun held_bytes :: "reservation \<Rightarrow> nat" where
  "held_bytes (Holding b) = b"
| "held_bytes _ = 0"

inductive budget_step :: "nat \<Rightarrow> nat \<times> reservation list \<Rightarrow> nat \<times> reservation list \<Rightarrow> bool" for limit where
  load: "i < length ts \<Longrightarrow> ts ! i = Wanting b \<Longrightarrow>
    budget_step limit (p, ts) (p, ts[i := Loaded b p])"
| refuse: "i < length ts \<Longrightarrow> ts ! i = Loaded b cur \<Longrightarrow> next_reservation limit cur b = None \<Longrightarrow>
    budget_step limit (p, ts) (p, ts[i := Refused])"
| swap: "i < length ts \<Longrightarrow> ts ! i = Loaded b p \<Longrightarrow> next_reservation limit p b = Some n \<Longrightarrow>
    budget_step limit (p, ts) (n, ts[i := Holding b])"
| retry: "i < length ts \<Longrightarrow> ts ! i = Loaded b cur \<Longrightarrow> next_reservation limit cur b = Some n \<Longrightarrow> p \<noteq> cur \<Longrightarrow>
    budget_step limit (p, ts) (p, ts[i := Wanting b])"
| free: "i < length ts \<Longrightarrow> ts ! i = Holding b \<Longrightarrow>
    budget_step limit (p, ts) (p - b, ts[i := Released])"

inductive_cases budget_stepE: "budget_step limit s s'"

definition budget_runs :: "nat \<Rightarrow> nat list \<Rightarrow> nat \<times> reservation list \<Rightarrow> bool" where
  "budget_runs limit wants s = (budget_step limit)\<^sup>*\<^sup>* (0, map Wanting wants) s"

lemma held_update:
  assumes "i < length ts"
  shows "sum_list (map held_bytes (ts[i := r])) + held_bytes (ts ! i)
    = sum_list (map held_bytes ts) + held_bytes r"
  using assms
proof (induction ts arbitrary: i)
  case (Cons t ts)
  then show ?case by (cases i) (auto simp: algebra_simps)
qed simp

definition budget_ok :: "nat \<Rightarrow> nat \<times> reservation list \<Rightarrow> bool" where
  "budget_ok limit s = (fst s = sum_list (map held_bytes (snd s)) \<and> fst s \<le> limit)"

lemma held_le: "i < length ts \<Longrightarrow> held_bytes (ts ! i) \<le> sum_list (map held_bytes ts)"
  by (metis elem_le_sum_list length_map nth_map)

lemma budget_step_keeps:
  assumes "budget_step limit s s'" and "budget_ok limit s"
  shows "budget_ok limit s'"
  using assms(1)
proof cases
  case (load i ts b p)
  then show ?thesis using assms(2) held_update [of i ts "Loaded b p"] by (simp add: budget_ok_def)
next
  case (refuse i ts b cur p)
  then show ?thesis using assms(2) held_update [of i ts Refused] by (simp add: budget_ok_def)
next
  case (swap i ts b p n)
  then show ?thesis using assms(2) held_update [of i ts "Holding b"]
    by (auto simp: budget_ok_def next_reservation_def split: if_splits)
next
  case (retry i ts b cur n p)
  then show ?thesis using assms(2) held_update [of i ts "Wanting b"] by (simp add: budget_ok_def)
next
  case (free i ts b p)
  then have "b \<le> p" using assms(2) held_le [of i ts] by (simp add: budget_ok_def)
  then show ?thesis using free assms(2) held_update [of i ts Released] by (auto simp: budget_ok_def)
qed

lemma budget_runs_ok: "budget_runs limit wants s \<Longrightarrow> budget_ok limit s"
  unfolding budget_runs_def
proof (induction rule: rtranclp_induct)
  case base
  show ?case by (induction wants) (simp_all add: budget_ok_def)
next
  case (step y z)
  then show ?case using budget_step_keeps by blast
qed

section \<open>Histories of a circuit\<close>

datatype circuit_event = Attempted | Succeeded | Failed

fun apply_circuit_event :: "nat \<Rightarrow> nat \<Rightarrow> nat \<times> circuit_event \<Rightarrow> circuit_state \<Rightarrow> circuit_state" where
  "apply_circuit_event threshold cool (now, Attempted) c = snd (circuit_attempt now c)"
| "apply_circuit_event threshold cool (now, Succeeded) c = circuit_success c"
| "apply_circuit_event threshold cool (now, Failed) c = circuit_failure threshold cool now c"

definition circuit_after :: "nat \<Rightarrow> nat \<Rightarrow> (nat \<times> circuit_event) list \<Rightarrow> circuit_state" where
  "circuit_after threshold cool events = fold (apply_circuit_event threshold cool) events closed_circuit"

text \<open>The failures after the last success.\<close>

definition failures_since_success :: "(nat \<times> circuit_event) list \<Rightarrow> nat list" where
  "failures_since_success events =
     map fst (filter (\<lambda>(_, e). e = Failed) (takeWhile (\<lambda>(_, e). e \<noteq> Succeeded) (rev events)))"

lemma failures_snoc [simp]:
  "failures_since_success [] = []"
  "failures_since_success (es @ [(t, Attempted)]) = failures_since_success es"
  "failures_since_success (es @ [(t, Succeeded)]) = []"
  "failures_since_success (es @ [(t, Failed)]) = t # failures_since_success es"
  by (simp_all add: failures_since_success_def)

lemma circuit_after_snoc [simp]:
  "circuit_after n k [] = closed_circuit"
  "circuit_after n k (es @ [e]) = apply_circuit_event n k e (circuit_after n k es)"
  by (simp_all add: circuit_after_def)

lemma circuit_history:
  "consecutive_failures (circuit_after threshold cool events) \<le> length (failures_since_success events)
   \<and> (\<forall>until. open_until (circuit_after threshold cool events) = Some until \<longrightarrow>
        threshold \<le> length (failures_since_success events)
        \<and> (\<exists>t \<in> set (failures_since_success events). until = t + cool))"
proof (induction events rule: rev_induct)
  case Nil
  show ?case by (simp add: closed_circuit_def)
next
  case (snoc x es)
  let ?c = "circuit_after threshold cool es"
  obtain t e where x: "x = (t, e)" by (cases x)
  show ?case
  proof (cases e)
    case Attempted
    then show ?thesis using snoc by (auto simp: x circuit_attempt_def split: option.splits)
  next
    case Succeeded
    then show ?thesis by (simp add: x circuit_success_def)
  next
    case Failed
    have "sat_add (consecutive_failures ?c) 1 \<le> Suc (length (failures_since_success es))"
      using snoc by (auto simp: sat_add_def)
    then show ?thesis using snoc
      by (auto simp: x Failed circuit_failure_def Let_def)
  qed
qed

section \<open>Properties\<close>

text \<open>C39.
  A hook is held back only after enough failures and only for a while: when a circuit refuses an
  attempt, at least as many deliveries as the threshold asks for have failed since the last success,
  and one of these failures is less than the cooldown ago. So once every failure is a cooldown old,
  attempts are let through again whatever the history was.\<close>

theorem circuit_recovers:
  assumes "(\<forall>t \<in> set (failures_since_success events). t + cool \<le> now)
    \<or> length (failures_since_success events) < threshold"
  shows "fst (circuit_attempt now (circuit_after threshold cool events))"
proof (cases "open_until (circuit_after threshold cool events)")
  case (Some until)
  then have "threshold \<le> length (failures_since_success events)"
    and "\<exists>t \<in> set (failures_since_success events). until = t + cool"
    using circuit_history [of threshold cool events] by blast+
  then have "until \<le> now" using assms by (auto simp: not_less)
  then show ?thesis by (simp add: circuit_attempt_def Some)
qed (simp add: circuit_attempt_def)

theorem circuit_recovers_witness:
  "let c = circuit_after 2 10 [(0, Failed), (1, Failed)]
   in \<not> fst (circuit_attempt 10 c) \<and> fst (circuit_attempt 11 c)"
proof -
  have "\<not> fst (circuit_attempt 10 (circuit_after 2 10 [(0, Failed), (1, Failed)]))"
    by (simp add: circuit_after_def circuit_failure_def closed_circuit_def circuit_attempt_def sat_add_def
        u64_max_def Let_def)
  moreover have "(\<forall>t \<in> set (failures_since_success [(0, Failed), (1, Failed)]). t + 10 \<le> (11::nat))
      \<or> length (failures_since_success [(0, Failed), (1, Failed)]) < 2"
    by (simp add: failures_since_success_def)
  ultimately show ?thesis unfolding Let_def using circuit_recovers by blast
qed

text \<open>However the tasks that reserve from the byte budget and give back to it are interleaved, between any
  two of their atomic operations the counter is the sum of the bytes that are held, and it is within
  the limit; the saturating subtraction of a release never saturates.\<close>

theorem budget_is_sum_of_holdings:
  assumes "budget_runs limit wants (p, ts)"
  shows "p = sum_list (map held_bytes ts) \<and> p \<le> limit
    \<and> list_all (\<lambda>t. held_bytes t \<le> p) ts"
proof -
  have ok: "budget_ok limit (p, ts)" by (rule budget_runs_ok [OF assms])
  then show ?thesis
    using held_le [of _ ts] by (auto simp: budget_ok_def list_all_iff in_set_conv_nth)
qed

theorem budget_is_sum_of_holdings_witness:
  "\<exists>ts. budget_runs 5 [3, 4] (3, ts) \<and> sum_list (map held_bytes ts) = 3"
proof -
  have "budget_step 5 (0, map Wanting [3, 4]) (0, [Loaded 3 0, Wanting 4])"
    using budget_step.load [of 0 "map Wanting [3, 4]" 3 5 0] by simp
  moreover have "budget_step 5 (0, [Loaded 3 0, Wanting 4]) (3, [Holding 3, Wanting 4])"
    using budget_step.swap [of 0 "[Loaded 3 0, Wanting 4]" 3 0 5 3]
    by (simp add: next_reservation_def u64_max_def)
  ultimately have r: "budget_runs 5 [3, 4] (3, [Holding 3, Wanting 4])"
    unfolding budget_runs_def by (meson r_into_rtranclp rtranclp_trans)
  from budget_is_sum_of_holdings [OF r] r show ?thesis by (intro exI conjI) auto
qed

text \<open>
  What the administration shows lags: in the last second of the cooldown the snapshot reports the
  circuit as closed while attempts are still refused.
\<close>

lemma snapshot_may_lag:
  "let c = circuit_after 1 nanos_per_sec [(0, Failed)]
   in \<not> fst (circuit_attempt 1 c) \<and> \<not> snap_open (circuit_snapshot_of 1 c)"
  by (simp add: circuit_after_def circuit_failure_def closed_circuit_def circuit_attempt_def sat_add_def
      u64_max_def circuit_snapshot_of_def nanos_per_sec_def Let_def)

text \<open>
  Nothing bounds the cooldown that the configuration may name. One that the clock cannot represent does not
  hold the hook back: the failure that should open the circuit panics, before the bytes of the payload
  are released.
\<close>

lemma huge_cooldown_panics:
  assumes "instant_limit \<le> now + cooldown rt" "failure_threshold rt = 1"
  shows "send now k NotDelivered payload_len rt = None"
  using assms by (simp add: send_def record_delivery_def record_failure_def instant_add_def sat_add_def u64_max_def)

end
