(* ===== verification/Hook_Usage.thy ===== *)
theory Hook_Usage
  imports Stream_State
begin

text \<open>
  What the hooks report about one exchange (\<open>src/hooks.rs\<close>): the terminal event of the client's protocol,
  the outcome projected to the older fields and to the status of the usage hook, and the token usage
  in a normal form with the provider's cache counters.
\<close>

section \<open>Outcomes\<close>

datatype termination_reason =
  ReasonCompleted | ReasonIncomplete | ReasonFailed | ReasonClientDisconnected | ReasonStreamError

record legacy_finalization_state =
  lf_completed :: bool
  lf_cancelled_by_client :: bool
  lf_partial :: bool
  lf_reason :: termination_reason

datatype usage_hook_status = UsageSuccess | UsageIncomplete | UsageError | UsageCancelled

datatype transport_outcome = CompletedEof | ClientDisconnected | StreamError

datatype protocol_terminal_kind = TerminalSuccess | TerminalIncomplete | TerminalFailed

record protocol_terminal =
  pt_kind :: protocol_terminal_kind
  pt_event_type :: string
  pt_finish_reason :: "string option"
  pt_incomplete_reason :: "string option"
  pt_error :: "json option"

record stream_observation =
  obs_transport :: transport_outcome
  obs_terminal :: "protocol_terminal option"

definition non_stream_completed :: stream_observation where
  "non_stream_completed = \<lparr>obs_transport = CompletedEof, obs_terminal = None\<rparr>"

fun terminal_legacy :: "protocol_terminal_kind \<Rightarrow> legacy_finalization_state" where
  "terminal_legacy TerminalSuccess = \<lparr>lf_completed = True, lf_cancelled_by_client = False,
     lf_partial = False, lf_reason = ReasonCompleted\<rparr>"
| "terminal_legacy TerminalIncomplete = \<lparr>lf_completed = False, lf_cancelled_by_client = False,
     lf_partial = True, lf_reason = ReasonIncomplete\<rparr>"
| "terminal_legacy TerminalFailed = \<lparr>lf_completed = False, lf_cancelled_by_client = False,
     lf_partial = False, lf_reason = ReasonFailed\<rparr>"

fun transport_legacy :: "transport_outcome \<Rightarrow> legacy_finalization_state" where
  "transport_legacy CompletedEof = \<lparr>lf_completed = True, lf_cancelled_by_client = False,
     lf_partial = False, lf_reason = ReasonCompleted\<rparr>"
| "transport_legacy ClientDisconnected = \<lparr>lf_completed = False, lf_cancelled_by_client = True,
     lf_partial = True, lf_reason = ReasonClientDisconnected\<rparr>"
| "transport_legacy StreamError = \<lparr>lf_completed = False, lf_cancelled_by_client = False,
     lf_partial = True, lf_reason = ReasonStreamError\<rparr>"

definition project_legacy :: "stream_observation \<Rightarrow> legacy_finalization_state" where
  "project_legacy o' = (case obs_terminal o' of
      Some t \<Rightarrow> terminal_legacy (pt_kind t)
    | None \<Rightarrow> transport_legacy (obs_transport o'))"

definition success_status :: "nat \<Rightarrow> usage_hook_status" where
  "success_status http_status =
     (if 200 \<le> http_status \<and> http_status < 300 then UsageSuccess else UsageError)"

definition project_usage_status :: "nat \<Rightarrow> stream_observation \<Rightarrow> usage_hook_status" where
  "project_usage_status http_status o' = (case obs_terminal o' of
      Some t \<Rightarrow> (case pt_kind t of
          TerminalSuccess \<Rightarrow> success_status http_status
        | TerminalIncomplete \<Rightarrow> UsageIncomplete
        | TerminalFailed \<Rightarrow> UsageError)
    | None \<Rightarrow> (case obs_transport o' of
          CompletedEof \<Rightarrow> success_status http_status
        | ClientDisconnected \<Rightarrow> UsageCancelled
        | StreamError \<Rightarrow> UsageError))"

section \<open>Terminal events of the client's protocol\<close>

definition terminal :: "protocol_terminal_kind \<Rightarrow> string \<Rightarrow> string option \<Rightarrow> string option \<Rightarrow> json option
    \<Rightarrow> protocol_terminal" where
  "terminal kind ty finish incomplete err = \<lparr>pt_kind = kind, pt_event_type = ty,
     pt_finish_reason = finish, pt_incomplete_reason = incomplete, pt_error = err\<rparr>"

definition first_choice :: "json \<Rightarrow> json option" where
  "first_choice event = (case jget_array event ''choices'' of
      Some (c # _) \<Rightarrow> Some c | _ \<Rightarrow> None)"

definition openai_protocol_terminal :: "json \<Rightarrow> protocol_terminal option" where
  "openai_protocol_terminal event = (case jget event ''error'' of
      Some err \<Rightarrow> Some (terminal TerminalFailed ''chat.completion.chunk'' None None (Some err))
    | None \<Rightarrow> (case ostr (ogetj (first_choice event) ''finish_reason'') of
        None \<Rightarrow> None
      | Some fr \<Rightarrow>
          (let (kind, incomplete) =
             (if fr \<in> {''length'', ''content_filter'', ''pause_turn''} then (TerminalIncomplete, Some fr)
              else if fr \<in> {''context_length_exceeded'', ''tool_error'', ''error''} then (TerminalFailed, None)
              else (TerminalSuccess, None))
           in Some (terminal kind ''chat.completion.chunk'' (Some fr) incomplete (jget event ''error'')))))"

definition responses_protocol_terminal :: "json \<Rightarrow> protocol_terminal option" where
  "responses_protocol_terminal event = (case jget_str event ''type'' of
      None \<Rightarrow> None
    | Some ty \<Rightarrow>
        if ty = ''response.completed'' then Some (terminal TerminalSuccess ty None None None)
        else if ty = ''response.incomplete'' then
          Some (terminal TerminalIncomplete ty None
            (ostr (ogetj (ogetj (jget event ''response'') ''incomplete_details'') ''reason'')) None)
        else if ty = ''response.failed'' then
          Some (terminal TerminalFailed ty None None
            (Option.bind (ogetj (jget event ''response'') ''error'')
              (\<lambda>e. if e = JNull then None else Some e)))
        else None)"

definition anthropic_protocol_terminal :: "json \<Rightarrow> string option \<Rightarrow> protocol_terminal option" where
  "anthropic_protocol_terminal event last_stop_reason =
     (if jget_str event ''type'' = Some ''error'' then
        Some (terminal TerminalFailed ''error'' None None (jget event ''error''))
      else if jget_str event ''type'' = Some ''message_stop'' then
        (let stop = unwrap_or last_stop_reason [];
             (kind, incomplete, finish) =
               (if stop \<in> {''max_tokens'', ''pause_turn'', ''refusal''} then (TerminalIncomplete, Some stop, Some stop)
                else if stop = ''model_context_window_exceeded'' then (TerminalFailed, None, Some stop)
                else (TerminalSuccess, None, if stop = [] then None else Some stop))
         in Some (terminal kind ''message_stop'' finish incomplete None))
      else None)"

section \<open>Usage\<close>

record normalized_usage =
  nu_input :: "nat option"
  nu_output :: "nat option"
  nu_total :: "nat option"
  nu_cached_input :: "nat option"
  nu_reasoning :: "nat option"
  nu_cache_creation :: "nat option"
  nu_cache_read :: "nat option"

definition no_usage :: normalized_usage where
  "no_usage = \<lparr>nu_input = None, nu_output = None, nu_total = None, nu_cached_input = None,
     nu_reasoning = None, nu_cache_creation = None, nu_cache_read = None\<rparr>"

definition sum_of_counts :: "nat option \<Rightarrow> nat option \<Rightarrow> nat option" where
  "sum_of_counts i o' = (case (i, o') of (Some a, Some b) \<Rightarrow> Some (u64_add a b) | _ \<Rightarrow> None)"

definition detail :: "json \<Rightarrow> string \<Rightarrow> string \<Rightarrow> nat option" where
  "detail u k k' = Option.bind (ogetj (jget u k) k') as_u64"

fun usage_from_client_body :: "upstream_format \<Rightarrow> json \<Rightarrow> normalized_usage" where
  "usage_from_client_body OpenAiChatCompletions body =
     (let u = unwrap_or (jget body ''usage'') JNull;
          i = jget_u64 u ''prompt_tokens''; o' = jget_u64 u ''completion_tokens''
      in \<lparr>nu_input = i, nu_output = o',
          nu_total = option_or (jget_u64 u ''total_tokens'') (sum_of_counts i o'),
          nu_cached_input = option_or (detail u ''prompt_tokens_details'' ''cached_tokens'')
            (jget_u64 u ''cache_read_input_tokens''),
          nu_reasoning = detail u ''completion_tokens_details'' ''reasoning_tokens'',
          nu_cache_creation = jget_u64 u ''cache_creation_input_tokens'',
          nu_cache_read = jget_u64 u ''cache_read_input_tokens''\<rparr>)"
| "usage_from_client_body OpenAiResponses body =
     (let u = unwrap_or (jget body ''usage'') JNull;
          i = jget_u64 u ''input_tokens''; o' = jget_u64 u ''output_tokens''
      in \<lparr>nu_input = i, nu_output = o',
          nu_total = option_or (jget_u64 u ''total_tokens'') (sum_of_counts i o'),
          nu_cached_input = detail u ''input_tokens_details'' ''cached_tokens'',
          nu_reasoning = detail u ''output_tokens_details'' ''reasoning_tokens'',
          nu_cache_creation = jget_u64 u ''cache_creation_input_tokens'',
          nu_cache_read = jget_u64 u ''cache_read_input_tokens''\<rparr>)"
| "usage_from_client_body Anthropic body =
     (let u = unwrap_or (jget body ''usage'') JNull;
          i = jget_u64 u ''input_tokens''; o' = jget_u64 u ''output_tokens''
      in \<lparr>nu_input = i, nu_output = o', nu_total = sum_of_counts i o',
          nu_cached_input = jget_u64 u ''cache_read_input_tokens'',
          nu_reasoning = None,
          nu_cache_creation = jget_u64 u ''cache_creation_input_tokens'',
          nu_cache_read = jget_u64 u ''cache_read_input_tokens''\<rparr>)"

section \<open>The provider's cache counters\<close>

datatype cache_provider = OpenAiCache | AnthropicCache

datatype cache_counter = HitTokens | ReadTokens | WriteTokens

record cache_source_field =
  csf_field :: string
  csf_counters :: "cache_counter list"
  csf_value :: nat

record provider_cache_usage =
  pcu_provider :: cache_provider
  pcu_format :: upstream_format
  pcu_hit :: "nat option"
  pcu_read :: "nat option"
  pcu_write :: "nat option"
  pcu_fields :: "cache_source_field list"

definition push_counter :: "cache_counter list \<Rightarrow> cache_counter \<Rightarrow> cache_counter list" where
  "push_counter cs c = (if c \<in> set cs then cs else cs @ [c])"

fun merge_source_field :: "string \<Rightarrow> cache_counter list \<Rightarrow> cache_source_field list \<Rightarrow> cache_source_field list option" where
  "merge_source_field name counters [] = None"
| "merge_source_field name counters (f # fs) =
     (if csf_field f = name then Some (f\<lparr>csf_counters := foldl push_counter (csf_counters f) counters\<rparr> # fs)
      else map_option ((#) f) (merge_source_field name counters fs))"

definition add_source_field :: "string \<Rightarrow> cache_counter list \<Rightarrow> nat \<Rightarrow> provider_cache_usage \<Rightarrow> provider_cache_usage" where
  "add_source_field name counters v u = (case merge_source_field name counters (pcu_fields u) of
      Some fs \<Rightarrow> u\<lparr>pcu_fields := fs\<rparr>
    | None \<Rightarrow> u\<lparr>pcu_fields := pcu_fields u @ [\<lparr>csf_field = name, csf_counters = counters, csf_value = v\<rparr>]\<rparr>)"

definition with_count :: "nat option \<Rightarrow> (nat \<Rightarrow> provider_cache_usage \<Rightarrow> provider_cache_usage)
    \<Rightarrow> provider_cache_usage \<Rightarrow> provider_cache_usage" where
  "with_count v f u = (case v of None \<Rightarrow> u | Some n \<Rightarrow> f n u)"

definition no_cache_usage :: "upstream_format \<Rightarrow> provider_cache_usage" where
  "no_cache_usage format = \<lparr>pcu_provider = (if format = Anthropic then AnthropicCache else OpenAiCache),
     pcu_format = format, pcu_hit = None, pcu_read = None, pcu_write = None, pcu_fields = []\<rparr>"

fun count_cache_usage :: "upstream_format \<Rightarrow> json \<Rightarrow> provider_cache_usage \<Rightarrow> provider_cache_usage" where
  "count_cache_usage OpenAiChatCompletions u =
     with_count (detail u ''prompt_tokens_details'' ''cached_tokens'')
       (\<lambda>n c. add_source_field ''usage.prompt_tokens_details.cached_tokens'' [HitTokens, ReadTokens] n
          (c\<lparr>pcu_hit := Some n, pcu_read := Some n\<rparr>))"
| "count_cache_usage OpenAiResponses u =
     with_count (detail u ''input_tokens_details'' ''cached_tokens'')
       (\<lambda>n c. add_source_field ''usage.input_tokens_details.cached_tokens'' [HitTokens, ReadTokens] n
          (c\<lparr>pcu_hit := Some n, pcu_read := Some n\<rparr>))"
| "count_cache_usage Anthropic u =
     with_count (detail u ''cache_creation'' ''ephemeral_1h_input_tokens'')
       (add_source_field ''usage.cache_creation.ephemeral_1h_input_tokens'' [WriteTokens])
     \<circ> with_count (detail u ''cache_creation'' ''ephemeral_5m_input_tokens'')
       (add_source_field ''usage.cache_creation.ephemeral_5m_input_tokens'' [WriteTokens])
     \<circ> with_count (jget_u64 u ''cache_creation_input_tokens'')
       (\<lambda>n c. add_source_field ''usage.cache_creation_input_tokens'' [WriteTokens] n
          (c\<lparr>pcu_write := Some n\<rparr>))
     \<circ> with_count (jget_u64 u ''cache_read_input_tokens'')
       (\<lambda>n c. add_source_field ''usage.cache_read_input_tokens'' [ReadTokens, HitTokens] n
          (c\<lparr>pcu_read := Some n, pcu_hit := Some n\<rparr>))"

definition provider_cache_usage_from_usage :: "upstream_format \<Rightarrow> json \<Rightarrow> provider_cache_usage option" where
  "provider_cache_usage_from_usage format u =
     (let c = count_cache_usage format u (no_cache_usage format)
      in if pcu_fields c = [] then None else Some c)"

definition provider_cache_usage_from_client_body :: "upstream_format \<Rightarrow> json \<Rightarrow> provider_cache_usage option" where
  "provider_cache_usage_from_client_body format body =
     provider_cache_usage_from_usage format (unwrap_or (jget body ''usage'') JNull)"

section \<open>Properties\<close>

text \<open>
  The status of the usage hook and the older fields tell the same story: a success is completed and not
  partial, a cancellation is the client's, an incomplete one is partial, and whatever was not completed
  is never a success.
\<close>

lemma status_agrees_with_legacy:
  "let l = project_legacy o'; st = project_usage_status http o' in
     (st = UsageSuccess) = (lf_completed l \<and> 200 \<le> http \<and> http < 300)
     \<and> (st = UsageCancelled) = lf_cancelled_by_client l
     \<and> (st = UsageIncomplete) = (lf_reason l = ReasonIncomplete)
     \<and> (lf_completed l = (lf_reason l = ReasonCompleted))"
  by (cases "obs_terminal o'"; cases "obs_transport o'"; cases "pt_kind (the (obs_terminal o'))")
    (simp_all add: project_legacy_def project_usage_status_def success_status_def Let_def)

end
