(* ===== verification/Hook_Accumulators.thy ===== *)
theory Hook_Accumulators
  imports Hook_Usage
begin

text \<open>
  The accumulators of the hooks (\<open>src/hooks.rs\<close>): the events a client is sent are folded into the body a
  non-streaming answer would have had, with its usage and terminal. Each accumulator runs twice: as the
  observer of the live stream, which keeps no content, and in the replay of the captured events, which
  does. An assignment into a JSON value that Rust's indexing refuses is a panic, the value \<open>None\<close>.
\<close>

section \<open>Chat Completions\<close>

record tool_acc =
  ta_id :: "string option"
  ta_name :: string
  ta_arguments :: string

definition no_tool :: tool_acc where
  "no_tool = \<lparr>ta_id = None, ta_name = [], ta_arguments = []\<rparr>"

record chat_acc =
  ca_id :: "string option"
  ca_created :: "nat option"
  ca_model :: "string option"
  ca_role :: "string option"
  ca_content :: string
  ca_finish_reason :: "string option"
  ca_usage :: "json option"
  ca_tool_calls :: "(nat \<times> tool_acc) list"
  ca_terminal :: "protocol_terminal option"

definition new_chat_acc :: chat_acc where
  "new_chat_acc = \<lparr>ca_id = None, ca_created = None, ca_model = None, ca_role = None, ca_content = [],
     ca_finish_reason = None, ca_usage = None, ca_tool_calls = [], ca_terminal = None\<rparr>"

definition done_terminal :: protocol_terminal where
  "done_terminal = terminal TerminalSuccess ''done'' (Some ''stop'') None None"

definition chat_note_head :: "json \<Rightarrow> chat_acc \<Rightarrow> chat_acc" where
  "chat_note_head event a = a
     \<lparr>ca_id := option_or (ca_id a) (jget_str event ''id''),
      ca_created := option_or (ca_created a) (jget_u64 event ''created''),
      ca_model := option_or (ca_model a) (jget_str event ''model'')\<rparr>"

definition chat_tool_call :: "(nat \<times> tool_acc) list \<Rightarrow> json \<Rightarrow> (nat \<times> tool_acc) list" where
  "chat_tool_call tools tc =
     (let index = u64_or_zero (jget tc ''index'');
          entry = unwrap_or (map_of tools index) no_tool
      in omap_insert index
           \<lparr>ta_id = option_or (jget_str tc ''id'') (ta_id entry),
            ta_name = unwrap_or (ostr (ogetj (jget tc ''function'') ''name'')) (ta_name entry),
            ta_arguments = ta_arguments entry
              @ unwrap_or (ostr (ogetj (jget tc ''function'') ''arguments'')) []\<rparr> tools)"

definition chat_note_delta :: "json \<Rightarrow> chat_acc \<Rightarrow> chat_acc" where
  "chat_note_delta delta a = a
     \<lparr>ca_role := option_or (jget_str delta ''role'') (ca_role a),
      ca_content := ca_content a @ unwrap_or (jget_str delta ''content'') [],
      ca_tool_calls := foldl chat_tool_call (ca_tool_calls a) (unwrap_or (jget_array delta ''tool_calls'') [])\<rparr>"

definition chat_on_event :: "json \<Rightarrow> bool \<Rightarrow> chat_acc \<Rightarrow> chat_acc" where
  "chat_on_event event capture a =
     (if jget_bool event ''_done'' = Some True then
        a\<lparr>ca_terminal := Some (unwrap_or (ca_terminal a) done_terminal)\<rparr>
      else
        let a = a\<lparr>ca_terminal := option_or (openai_protocol_terminal event) (ca_terminal a)\<rparr>;
            a = (if capture then chat_note_head event a else a);
            a = a\<lparr>ca_usage := option_or (jget event ''usage'') (ca_usage a)\<rparr>
        in (case first_choice event of
              None \<Rightarrow> a
            | Some choice \<Rightarrow>
                (let a = a\<lparr>ca_finish_reason := option_or (jget_str choice ''finish_reason'') (ca_finish_reason a)\<rparr>
                 in if capture then chat_note_delta (unwrap_or (jget choice ''delta'') JNull) a else a)))"

section \<open>Tool calls with broken arguments\<close>

definition raw_json_is_valid_object :: "env \<Rightarrow> string \<Rightarrow> bool" where
  "raw_json_is_valid_object E raw = (trim raw \<noteq> []
     \<and> (case json_parse E raw of None \<Rightarrow> False | Some v \<Rightarrow> is_object v))"

definition broken_arguments :: "env \<Rightarrow> string option \<Rightarrow> bool" where
  "broken_arguments E raw = (case raw of
      None \<Rightarrow> False | Some r \<Rightarrow> trim r \<noteq> [] \<and> \<not> raw_json_is_valid_object E r)"

definition openai_tool_call_has_invalid_structured_arguments :: "env \<Rightarrow> json \<Rightarrow> bool" where
  "openai_tool_call_has_invalid_structured_arguments E tc =
     broken_arguments E (ostr (ogetj (jget tc ''function'') ''arguments''))"

definition responses_tool_call_has_invalid_structured_arguments :: "env \<Rightarrow> json \<Rightarrow> bool" where
  "responses_tool_call_has_invalid_structured_arguments E item =
     broken_arguments E (ostr (option_or (jget item ''arguments'') (jget item ''input'')))"

definition hook_marker :: "env \<Rightarrow> string \<Rightarrow> string \<Rightarrow> json" where
  "hook_marker E name raw =
     non_replayable_marker (marker_digest E (non_replayable_payload name raw))"

definition hook_mark_tool_call :: "env \<Rightarrow> json \<Rightarrow> json" where
  "hook_mark_tool_call E v =
     (let name = unwrap_or (ostr (option_or (ogetj (jget v ''function'') ''name'') (jget v ''name''))) [];
          raw = unwrap_or (ostr (option_or (ogetj (jget v ''function'') ''arguments'')
                  (option_or (jget v ''arguments'') (jget v ''input'')))) []
      in case v of JObj kvs \<Rightarrow> JObj (omap_insert non_replayable_field (hook_marker E name raw) kvs)
         | _ \<Rightarrow> v)"

definition finish_reason_allows_partial_tool_calls :: "string option \<Rightarrow> bool" where
  "finish_reason_allows_partial_tool_calls fr = (fr \<in> {Some ''length'', Some ''pause_turn''})"

definition responses_status_allows_partial_tool_calls :: "json \<Rightarrow> bool" where
  "responses_status_allows_partial_tool_calls response =
     (jget_str response ''status'' = Some ''incomplete''
      \<and> ostr (ogetj (jget response ''incomplete_details'') ''reason'')
          \<in> {Some ''max_output_tokens'', Some ''pause_turn''})"

definition tool_acc_to_value :: "nat \<times> tool_acc \<Rightarrow> json" where
  "tool_acc_to_value it = jobj
     [(''index'', jnat (fst it)), (''id'', jopt_str (ta_id (snd it))), (''type'', JStr ''function''),
      (''function'', jobj [(''name'', JStr (ta_name (snd it))),
         (''arguments'', JStr (ta_arguments (snd it)))])]"

definition chat_final_message :: "env \<Rightarrow> chat_acc \<Rightarrow> json" where
  "chat_final_message E a =
     (let message = jobj [(''role'', JStr (unwrap_or (ca_role a) ''assistant'')), (''content'', JStr (ca_content a))];
          calls = map tool_acc_to_value (ca_tool_calls a);
          mark = (\<lambda>tc. if openai_tool_call_has_invalid_structured_arguments E tc
                       then hook_mark_tool_call E tc else tc)
      in if ca_tool_calls a = [] then message
         else jset ''tool_calls'' (JArr
           (if finish_reason_allows_partial_tool_calls (ca_finish_reason a) then map mark calls else calls))
           message)"

definition chat_final_body :: "env \<Rightarrow> chat_acc \<Rightarrow> json" where
  "chat_final_body E a =
     (let out = jobj
        [(''id'', jopt_str (ca_id a)), (''object'', JStr ''chat.completion''),
         (''created'', jnat (unwrap_or (ca_created a) 0)), (''model'', JStr (unwrap_or (ca_model a) [])),
         (''choices'', JArr [jobj [(''index'', jnat 0), (''message'', chat_final_message E a),
            (''finish_reason'', JStr (unwrap_or (ca_finish_reason a) ''stop''))]])]
      in case ca_usage a of None \<Rightarrow> out | Some u \<Rightarrow> jset ''usage'' u out)"

section \<open>Responses\<close>

record responses_acc =
  ra_final_response :: "json option"
  ra_usage :: "json option"
  ra_terminal :: "protocol_terminal option"

definition new_responses_acc :: responses_acc where
  "new_responses_acc = \<lparr>ra_final_response = None, ra_usage = None, ra_terminal = None\<rparr>"

definition responses_on_event :: "json \<Rightarrow> bool \<Rightarrow> responses_acc \<Rightarrow> responses_acc" where
  "responses_on_event event capture a =
     (let a = a\<lparr>ra_terminal := option_or (responses_protocol_terminal event) (ra_terminal a)\<rparr>
      in case jget event ''response'' of
           None \<Rightarrow> a
         | Some response \<Rightarrow>
             if jget_str event ''type''
                  \<in> {Some ''response.completed'', Some ''response.incomplete'', Some ''response.failed''}
             then a\<lparr>ra_final_response := (if capture then Some response else ra_final_response a),
                    ra_usage := jget response ''usage''\<rparr>
             else a)"

definition mark_broken_item :: "env \<Rightarrow> json \<Rightarrow> json" where
  "mark_broken_item E item =
     (if jget_str item ''type'' \<in> {Some ''function_call'', Some ''custom_tool_call''}
         \<and> responses_tool_call_has_invalid_structured_arguments E item
      then hook_mark_tool_call E item else item)"

definition responses_final_body :: "env \<Rightarrow> responses_acc \<Rightarrow> json" where
  "responses_final_body E a =
     (let response = unwrap_or (ra_final_response a) (jobj [])
      in if responses_status_allows_partial_tool_calls response
         then (case jget_array response ''output'' of
             None \<Rightarrow> response
           | Some items \<Rightarrow> jset ''output'' (JArr (map (mark_broken_item E) items)) response)
         else response)"

section \<open>Anthropic Messages\<close>

record anthropic_acc =
  aa_message :: json
  aa_error :: "json option"
  aa_usage :: "json option"
  aa_last_stop_reason :: "string option"
  aa_terminal :: "protocol_terminal option"

definition new_anthropic_acc :: anthropic_acc where
  "new_anthropic_acc = \<lparr>aa_message = JNull, aa_error = None, aa_usage = None,
     aa_last_stop_reason = None, aa_terminal = None\<rparr>"

text \<open>\<open>value[key] = x\<close>: \<open>null\<close> becomes an object, and other values that are no objects panic.\<close>

definition assign :: "string \<Rightarrow> json \<Rightarrow> json \<Rightarrow> json option" where
  "assign k x v = (if is_object v \<or> v = JNull then Some (jset k x v) else None)"

definition empty_message :: json where
  "empty_message = jobj
     [(''id'', JNull), (''type'', JStr ''message''), (''role'', JStr ''assistant''), (''content'', JArr []),
      (''model'', JNull), (''stop_reason'', JNull), (''stop_sequence'', JNull)]"

text \<open>\<open>ensure_content_array\<close> and the resizing of its callers: the message, and its blocks up to the index.\<close>

definition ensure_content_array :: "json \<Rightarrow> (json \<times> json list) option" where
  "ensure_content_array message =
     (let m = (if message = JNull then empty_message else message)
      in map_option (Pair m) (jget_array m ''content''))"

definition content_upto :: "nat \<Rightarrow> json list \<Rightarrow> json list" where
  "content_upto index blocks = blocks @ replicate (Suc index - length blocks) (jobj [])"

text \<open>\<open>content[index]\<close> is replaced by what the update makes of it, unless that panics.\<close>

definition update_block :: "nat \<Rightarrow> (json \<Rightarrow> json option) \<Rightarrow> anthropic_acc \<Rightarrow> anthropic_acc option" where
  "update_block index f a =
     Option.bind (ensure_content_array (aa_message a)) (\<lambda>(m, blocks).
       (let blocks = content_upto index blocks
        in map_option (\<lambda>b. a\<lparr>aa_message := jset ''content'' (JArr (blocks[index := b])) m\<rparr>)
             (f (blocks ! index))))"

definition append_field :: "string \<Rightarrow> string option \<Rightarrow> string \<Rightarrow> json \<Rightarrow> json option" where
  "append_field k ty add block =
     (let v = JStr (unwrap_or (jget_str block k) [] @ add)
      in Option.bind (case ty of None \<Rightarrow> Some block | Some t \<Rightarrow> assign ''type'' (JStr t) block) (assign k v))"

definition apply_block_delta :: "json \<Rightarrow> json \<Rightarrow> json option" where
  "apply_block_delta delta block =
     (let add = (\<lambda>k. unwrap_or (jget_str delta k) []) in
      if jget_str delta ''type'' = Some ''text_delta'' then
        append_field ''text'' (Some ''text'') (add ''text'') block
      else if jget_str delta ''type'' = Some ''thinking_delta'' then
        append_field ''thinking'' (Some ''thinking'') (add ''thinking'') block
      else if jget_str delta ''type'' = Some ''input_json_delta'' then
        append_field ''input_json_raw'' None (add ''partial_json'') block
      else Some block)"

definition finish_block :: "env \<Rightarrow> json \<Rightarrow> json" where
  "finish_block E block =
     (let parsed = Option.bind (jget_str block ''input_json_raw'') (json_parse E);
          block = (case parsed of None \<Rightarrow> block | Some v \<Rightarrow> jset ''input'' v block)
      in case block of JObj kvs \<Rightarrow> JObj (omap_remove ''input_json_raw'' kvs) | _ \<Rightarrow> block)"

definition note_terminal :: "json \<Rightarrow> anthropic_acc \<Rightarrow> anthropic_acc" where
  "note_terminal event a = a\<lparr>aa_terminal :=
     option_or (anthropic_protocol_terminal event (aa_last_stop_reason a)) (aa_terminal a)\<rparr>"

definition message_start_event :: "json \<Rightarrow> anthropic_acc \<Rightarrow> anthropic_acc option" where
  "message_start_event event a = (case jget event ''message'' of
      None \<Rightarrow> Some a
    | Some message \<Rightarrow> map_option (\<lambda>m. a\<lparr>aa_message := m\<rparr>) (assign ''content'' (JArr []) message))"

definition message_delta_event :: "json \<Rightarrow> bool \<Rightarrow> anthropic_acc \<Rightarrow> anthropic_acc" where
  "message_delta_event event capture a =
     (let stop = ostr (ogetj (jget event ''delta'') ''stop_reason'');
          usage = jget event ''usage'';
          set = (\<lambda>k v m. case v of None \<Rightarrow> m | Some x \<Rightarrow> jset k x m);
          m = set ''usage'' usage (set ''stop_reason'' (map_option JStr stop) (aa_message a))
      in a\<lparr>aa_last_stop_reason := option_or stop (aa_last_stop_reason a),
           aa_message := (if capture then m else aa_message a),
           aa_usage := option_or usage (aa_usage a)\<rparr>)"

definition message_stop_event :: "env \<Rightarrow> anthropic_acc \<Rightarrow> anthropic_acc" where
  "message_stop_event E a = (case jget_array (aa_message a) ''content'' of
      None \<Rightarrow> a
    | Some blocks \<Rightarrow> a\<lparr>aa_message := jset ''content'' (JArr (map (finish_block E) blocks)) (aa_message a)\<rparr>)"

definition anthropic_event_body :: "env \<Rightarrow> json \<Rightarrow> bool \<Rightarrow> anthropic_acc \<Rightarrow> anthropic_acc option" where
  "anthropic_event_body E event capture a =
     (let ty = jget_str event ''type''; index = jget_u64 event ''index'' in
      if ty = Some ''error'' then Some (if capture then a\<lparr>aa_error := Some event\<rparr> else a)
      else if ty = Some ''message_start'' then (if capture then message_start_event event a else Some a)
      else if ty = Some ''content_block_start'' then
        (case (capture, index, jget event ''content_block'') of
           (True, Some i, Some block) \<Rightarrow> update_block i (\<lambda>_. Some block) a
         | _ \<Rightarrow> Some a)
      else if ty = Some ''content_block_delta'' then
        (case (capture, index, jget event ''delta'') of
           (True, Some i, Some delta) \<Rightarrow> update_block i (apply_block_delta delta) a
         | _ \<Rightarrow> Some a)
      else if ty = Some ''message_delta'' then Some (message_delta_event event capture a)
      else if ty = Some ''message_stop'' then Some (if capture then message_stop_event E a else a)
      else Some a)"

definition anthropic_on_event :: "env \<Rightarrow> json \<Rightarrow> bool \<Rightarrow> anthropic_acc \<Rightarrow> anthropic_acc option" where
  "anthropic_on_event E event capture a =
     map_option (note_terminal event) (anthropic_event_body E event capture a)"

section \<open>One accumulator per client format\<close>

datatype client_acc = ChatAcc chat_acc | ResponsesAcc responses_acc | AnthropicAcc anthropic_acc

fun new_client_acc :: "upstream_format \<Rightarrow> client_acc" where
  "new_client_acc OpenAiChatCompletions = ChatAcc new_chat_acc"
| "new_client_acc OpenAiResponses = ResponsesAcc new_responses_acc"
| "new_client_acc Anthropic = AnthropicAcc new_anthropic_acc"

fun client_on_event :: "env \<Rightarrow> bool \<Rightarrow> json \<Rightarrow> client_acc \<Rightarrow> client_acc option" where
  "client_on_event E capture event (ChatAcc a) = Some (ChatAcc (chat_on_event event capture a))"
| "client_on_event E capture event (ResponsesAcc a) = Some (ResponsesAcc (responses_on_event event capture a))"
| "client_on_event E capture event (AnthropicAcc a) = map_option AnthropicAcc (anthropic_on_event E event capture a)"

fun final_response_body :: "env \<Rightarrow> client_acc \<Rightarrow> json" where
  "final_response_body E (ChatAcc a) = chat_final_body E a"
| "final_response_body E (ResponsesAcc a) = responses_final_body E a"
| "final_response_body E (AnthropicAcc a) = unwrap_or (aa_error a) (aa_message a)"

definition usage_of_acc :: "upstream_format \<Rightarrow> json option \<Rightarrow> normalized_usage" where
  "usage_of_acc format u = (case u of
      None \<Rightarrow> no_usage | Some v \<Rightarrow> usage_from_client_body format (jobj [(''usage'', v)]))"

fun final_usage :: "client_acc \<Rightarrow> normalized_usage" where
  "final_usage (ChatAcc a) = usage_of_acc OpenAiChatCompletions (ca_usage a)"
| "final_usage (ResponsesAcc a) = usage_of_acc OpenAiResponses (ra_usage a)"
| "final_usage (AnthropicAcc a) = usage_of_acc Anthropic (aa_usage a)"

fun final_provider_cache_usage :: "client_acc \<Rightarrow> provider_cache_usage option" where
  "final_provider_cache_usage (ChatAcc a) =
     Option.bind (ca_usage a) (provider_cache_usage_from_usage OpenAiChatCompletions)"
| "final_provider_cache_usage (ResponsesAcc a) =
     Option.bind (ra_usage a) (provider_cache_usage_from_usage OpenAiResponses)"
| "final_provider_cache_usage (AnthropicAcc a) =
     Option.bind (aa_usage a) (provider_cache_usage_from_usage Anthropic)"

fun protocol_terminal_of :: "client_acc \<Rightarrow> protocol_terminal option" where
  "protocol_terminal_of (ChatAcc a) = ca_terminal a"
| "protocol_terminal_of (ResponsesAcc a) = ra_terminal a"
| "protocol_terminal_of (AnthropicAcc a) = aa_terminal a"

fun run_client :: "env \<Rightarrow> bool \<Rightarrow> json list \<Rightarrow> client_acc \<Rightarrow> client_acc option" where
  "run_client E capture [] a = Some a"
| "run_client E capture (e # es) a = Option.bind (client_on_event E capture e a) (run_client E capture es)"

text \<open>The replay of the spooled events.\<close>

definition replay_final_response_body :: "env \<Rightarrow> upstream_format \<Rightarrow> json list \<Rightarrow> json option" where
  "replay_final_response_body E format events =
     map_option (final_response_body E) (run_client E True events (new_client_acc format))"

fun strip_internal_replay_metadata :: "json \<Rightarrow> json"
and strip_fields :: "(string \<times> json) list \<Rightarrow> (string \<times> json) list" where
  "strip_internal_replay_metadata (JArr items) = JArr (map strip_internal_replay_metadata items)"
| "strip_internal_replay_metadata (JObj kvs) = JObj (strip_fields kvs)"
| "strip_internal_replay_metadata v = v"
| "strip_fields [] = []"
| "strip_fields ((k, v) # kvs) = (if k = non_replayable_field then strip_fields kvs
     else (k, strip_internal_replay_metadata v) # strip_fields kvs)"

section \<open>Observers and replays\<close>

text \<open>
  What the hooks rely on in an accumulator: observing never panics, agrees with the replay in what it
  reports, and keeps no content.
\<close>

fun run_acc :: "(bool \<Rightarrow> 'e \<Rightarrow> 'a \<Rightarrow> 'a option) \<Rightarrow> bool \<Rightarrow> 'e list \<Rightarrow> 'a \<Rightarrow> 'a option" where
  "run_acc step capture [] a = Some a"
| "run_acc step capture (e # es) a = Option.bind (step capture e a) (run_acc step capture es)"

locale accumulator =
  fixes step :: "bool \<Rightarrow> 'e \<Rightarrow> 'a \<Rightarrow> 'a option"
    and report :: "'a \<Rightarrow> 'r" and keeps_nothing :: "'a \<Rightarrow> bool"
  assumes observes: "\<exists>a'. step False e a = Some a'"
    and reports_alike: "step True e a = Some a' \<Longrightarrow> step False e b = Some b' \<Longrightarrow> report a = report b \<Longrightarrow>
      report a' = report b'"
    and keeps: "keeps_nothing a \<Longrightarrow> step False e a = Some a' \<Longrightarrow> keeps_nothing a'"
begin

lemma observer_runs: "\<exists>b. run_acc step False es a = Some b"
proof (induction es arbitrary: a)
  case (Cons e es)
  obtain a' where "step False e a = Some a'" using observes by blast
  then show ?case using Cons by simp
qed simp

lemma observer_keeps_nothing: "keeps_nothing a \<Longrightarrow> run_acc step False es a = Some b \<Longrightarrow> keeps_nothing b"
proof (induction es arbitrary: a)
  case (Cons e es)
  obtain a' where a': "step False e a = Some a'" using observes by blast
  show ?case by (rule Cons.IH [OF keeps [OF Cons.prems(1) a']]) (use Cons.prems(2) a' in simp)
qed simp

lemma observer_reports_alike:
  "run_acc step True es a = Some r \<Longrightarrow> run_acc step False es b = Some o' \<Longrightarrow> report a = report b \<Longrightarrow>
   report r = report o'"
proof (induction es arbitrary: a b)
  case (Cons e es)
  obtain a' where a': "step True e a = Some a'" "run_acc step True es a' = Some r"
    using Cons.prems(1) by (auto simp: Option.bind_eq_Some_conv)
  obtain b' where b': "step False e b = Some b'" "run_acc step False es b' = Some o'"
    using Cons.prems(2) by (auto simp: Option.bind_eq_Some_conv)
  show ?case by (rule Cons.IH [OF a'(2) b'(2) reports_alike [OF a'(1) b'(1) Cons.prems(3)]])
qed simp

end

definition chat_step :: "bool \<Rightarrow> json \<Rightarrow> chat_acc \<Rightarrow> chat_acc option" where
  "chat_step capture e a = Some (chat_on_event e capture a)"

definition responses_step :: "bool \<Rightarrow> json \<Rightarrow> responses_acc \<Rightarrow> responses_acc option" where
  "responses_step capture e a = Some (responses_on_event e capture a)"

definition anthropic_step :: "env \<Rightarrow> bool \<Rightarrow> json \<Rightarrow> anthropic_acc \<Rightarrow> anthropic_acc option" where
  "anthropic_step E capture e a = anthropic_on_event E e capture a"

lemma chat_fields [simp]:
  "ca_usage (chat_note_head e a) = ca_usage a" "ca_terminal (chat_note_head e a) = ca_terminal a"
  "ca_usage (chat_note_delta d a) = ca_usage a" "ca_terminal (chat_note_delta d a) = ca_terminal a"
  by (simp_all add: chat_note_head_def chat_note_delta_def)

interpretation chat: accumulator chat_step "\<lambda>a. (ca_usage a, ca_terminal a)"
  "\<lambda>a. ca_content a = [] \<and> ca_tool_calls a = [] \<and> ca_id a = None \<and> ca_role a = None"
  by unfold_locales
    (auto simp: chat_step_def chat_on_event_def Let_def split: option.splits if_splits)

interpretation responses: accumulator responses_step "\<lambda>a. (ra_usage a, ra_terminal a)"
  "\<lambda>a. ra_final_response a = None"
  by unfold_locales
    (auto simp: responses_step_def responses_on_event_def Let_def split: option.splits if_splits)

definition anthropic_report :: "anthropic_acc \<Rightarrow> json option \<times> string option \<times> protocol_terminal option" where
  "anthropic_report a = (aa_usage a, aa_last_stop_reason a, aa_terminal a)"

definition reporting_fields :: "json \<Rightarrow> json option \<times> string option \<times> protocol_terminal option
    \<Rightarrow> json option \<times> string option \<times> protocol_terminal option" where
  "reporting_fields event r = (case r of (u, stop, t) \<Rightarrow>
     if jget_str event ''type'' = Some ''message_delta''
     then (option_or (jget event ''usage'') u, option_or (ostr (ogetj (jget event ''delta'') ''stop_reason'')) stop, t)
     else r)"

lemma anthropic_body_report:
  "anthropic_event_body E event capture a = Some a' \<Longrightarrow>
   anthropic_report a' = reporting_fields event (anthropic_report a)"
  by (auto simp: anthropic_event_body_def Let_def anthropic_report_def reporting_fields_def
      message_start_event_def update_block_def message_delta_event_def message_stop_event_def
      Option.bind_eq_Some_conv split: if_splits option.splits bool.splits prod.splits)

lemma note_terminal_report:
  "anthropic_report a = anthropic_report b \<Longrightarrow>
   anthropic_report (note_terminal event a) = anthropic_report (note_terminal event b)"
  by (simp add: anthropic_report_def note_terminal_def)

interpretation anthropic: accumulator "anthropic_step E" anthropic_report
  "\<lambda>a. aa_message a = JNull \<and> aa_error a = None"
proof unfold_locales
  show "\<exists>a'. anthropic_step E False e a = Some a'" for e a
    by (simp add: anthropic_step_def anthropic_on_event_def anthropic_event_body_def Let_def)
  show "anthropic_report a' = anthropic_report b'"
    if h: "anthropic_step E True e a = Some a'" "anthropic_step E False e b = Some b'"
      "anthropic_report a = anthropic_report b" for e a a' b b'
  proof -
    obtain x y where x: "anthropic_event_body E e True a = Some x" "a' = note_terminal e x"
      and y: "anthropic_event_body E e False b = Some y" "b' = note_terminal e y"
      using h by (auto simp: anthropic_step_def anthropic_on_event_def)
    have "anthropic_report x = anthropic_report y"
      using anthropic_body_report [OF x(1)] anthropic_body_report [OF y(1)] h(3) by simp
    then show ?thesis unfolding x(2) y(2) by (rule note_terminal_report)
  qed
  show "aa_message a' = JNull \<and> aa_error a' = None"
    if "aa_message a = JNull \<and> aa_error a = None" "anthropic_step E False e a = Some a'" for e a a'
    using that by (auto simp: anthropic_step_def anthropic_on_event_def anthropic_event_body_def Let_def
        note_terminal_def message_delta_event_def split: if_splits)
qed

lemma run_client_acc:
  "run_client E c es (ChatAcc x) = map_option ChatAcc (run_acc chat_step c es x)"
  "run_client E c es (ResponsesAcc y) = map_option ResponsesAcc (run_acc responses_step c es y)"
  "run_client E c es (AnthropicAcc z) = map_option AnthropicAcc (run_acc (anthropic_step E) c es z)"
proof (induction es arbitrary: x y z)
  case (Cons e es)
  { case 1 then show ?case using Cons by (simp add: chat_step_def) next
    case 2 then show ?case using Cons by (simp add: responses_step_def) next
    case 3 then show ?case using Cons
      by (cases "anthropic_on_event E e c z") (simp_all add: anthropic_step_def) }
qed simp_all

text \<open>What a client's accumulator holds of the response itself.\<close>

fun keeps_no_content :: "client_acc \<Rightarrow> bool" where
  "keeps_no_content (ChatAcc a) =
     (ca_content a = [] \<and> ca_tool_calls a = [] \<and> ca_id a = None \<and> ca_role a = None)"
| "keeps_no_content (ResponsesAcc a) = (ra_final_response a = None)"
| "keeps_no_content (AnthropicAcc a) = (aa_message a = JNull \<and> aa_error a = None)"

text \<open>The observer of a live stream and the replay of its captured events report alike: whatever events a
  client of any of the three protocols is sent, the observer never panics and keeps nothing of the
  content, and when the replay does not panic either, both report the same usage, the same cache
  counters and the same terminal.\<close>

theorem observer_agrees_with_replay:
  "case run_client E False events (new_client_acc format) of
     None \<Rightarrow> False
   | Some ob \<Rightarrow> keeps_no_content ob
      \<and> (case run_client E True events (new_client_acc format) of
           None \<Rightarrow> True
         | Some rep \<Rightarrow> final_usage ob = final_usage rep
             \<and> final_provider_cache_usage ob = final_provider_cache_usage rep
             \<and> protocol_terminal_of ob = protocol_terminal_of rep)"
proof (cases format)
  case OpenAiChatCompletions
  obtain ob where ob: "run_acc chat_step False events new_chat_acc = Some ob" using chat.observer_runs by blast
  have "keeps_no_content (ChatAcc ob)"
    using chat.observer_keeps_nothing [OF _ ob] by (simp add: new_chat_acc_def)
  then show ?thesis using ob chat.observer_reports_alike [OF _ ob]
    by (auto simp: OpenAiChatCompletions run_client_acc split: option.split)
next
  case OpenAiResponses
  obtain ob where ob: "run_acc responses_step False events new_responses_acc = Some ob"
    using responses.observer_runs by blast
  have "keeps_no_content (ResponsesAcc ob)"
    using responses.observer_keeps_nothing [OF _ ob] by (simp add: new_responses_acc_def)
  then show ?thesis using ob responses.observer_reports_alike [OF _ ob]
    by (auto simp: OpenAiResponses run_client_acc split: option.split)
next
  case Anthropic
  obtain ob where ob: "run_acc (anthropic_step E) False events new_anthropic_acc = Some ob"
    using anthropic.observer_runs by blast
  have "keeps_no_content (AnthropicAcc ob)"
    using anthropic.observer_keeps_nothing [OF _ ob] by (simp add: new_anthropic_acc_def)
  then show ?thesis using ob anthropic.observer_reports_alike [OF _ ob]
    by (auto simp: Anthropic run_client_acc anthropic_report_def split: option.split)
qed

section \<open>What the replay assembles\<close>

definition sent_choice :: "json \<Rightarrow> json" where
  "sent_choice event = (if jget_bool event ''_done'' = Some True then JNull
     else unwrap_or (ogetj (first_choice event) ''delta'') JNull)"

definition sent_content :: "json \<Rightarrow> string" where
  "sent_content event = unwrap_or (jget_str (sent_choice event) ''content'') []"

definition sent_calls :: "json \<Rightarrow> json list" where
  "sent_calls event = unwrap_or (jget_array (sent_choice event) ''tool_calls'') []"

definition call_fragment :: "nat \<Rightarrow> json \<Rightarrow> string" where
  "call_fragment i tc = (if u64_or_zero (jget tc ''index'') = i
     then unwrap_or (ostr (ogetj (jget tc ''function'') ''arguments'')) [] else [])"

definition held_arguments :: "(nat \<times> tool_acc) list \<Rightarrow> nat \<Rightarrow> string" where
  "held_arguments tools i = (case map_of tools i of None \<Rightarrow> [] | Some t \<Rightarrow> ta_arguments t)"

lemma chat_tool_call_arguments:
  "held_arguments (chat_tool_call tools tc) i = held_arguments tools i @ call_fragment i tc"
  by (auto simp: held_arguments_def chat_tool_call_def Let_def call_fragment_def map_of_omap_insert no_tool_def
      split: option.split)

lemma chat_tool_calls_arguments:
  "held_arguments (foldl chat_tool_call tools tcs) i
    = held_arguments tools i @ concat (map (call_fragment i) tcs)"
  by (induction tcs arbitrary: tools) (simp_all add: chat_tool_call_arguments)

lemma chat_event_assembles:
  "ca_content (chat_on_event e True a) = ca_content a @ sent_content e"
  "held_arguments (ca_tool_calls (chat_on_event e True a)) i
    = held_arguments (ca_tool_calls a) i @ concat (map (call_fragment i) (sent_calls e))"
  by (auto simp: chat_on_event_def chat_note_head_def chat_note_delta_def Let_def sent_content_def sent_calls_def
      sent_choice_def chat_tool_calls_arguments jget_str_def jget_array_def split: option.split)

text \<open>The body that the exchange hook reports for a Chat Completions stream is the stream put together: its
  content is the content of all chunks in order, and the arguments of every tool call are the fragments
  sent for its index in order; chunks after [DONE] add nothing unless they are data themselves.\<close>

theorem replay_assembles_chat:
  "case run_client E True events (new_client_acc OpenAiChatCompletions) of
     Some (ChatAcc a) \<Rightarrow>
       jget_str (chat_final_message E a) ''content'' = Some (concat (map sent_content events))
       \<and> held_arguments (ca_tool_calls a) i = concat (map (call_fragment i) (concat (map sent_calls events)))
   | _ \<Rightarrow> False"
proof -
  have run: "run_acc chat_step True es a = Some (foldl (\<lambda>a e. chat_on_event e True a) a es)" for es a
    by (induction es arbitrary: a) (simp_all add: chat_step_def)
  have content: "ca_content (foldl (\<lambda>a e. chat_on_event e True a) a es)
      = ca_content a @ concat (map sent_content es)" for es a
    by (induction es arbitrary: a) (simp_all add: chat_event_assembles)
  have args: "held_arguments (ca_tool_calls (foldl (\<lambda>a e. chat_on_event e True a) a es)) i
      = held_arguments (ca_tool_calls a) i @ concat (map (call_fragment i) (concat (map sent_calls es)))" for es a
    by (induction es arbitrary: a) (simp_all add: chat_event_assembles)
  have message: "jget_str (chat_final_message E a) ''content'' = Some (ca_content a)" for a
    by (simp add: chat_final_message_def Let_def jget_str_def)
  have "ca_content new_chat_acc = []" "held_arguments (ca_tool_calls new_chat_acc) i = []"
    by (simp_all add: new_chat_acc_def held_arguments_def)
  then show ?thesis by (simp add: run_client_acc run content args message del: map_concat)
qed

section \<open>No mark leaves the proxy\<close>

fun mark_free :: "json \<Rightarrow> bool"
and mark_free_fields :: "(string \<times> json) list \<Rightarrow> bool" where
  "mark_free (JArr items) = list_all mark_free items"
| "mark_free (JObj kvs) = mark_free_fields kvs"
| "mark_free v = True"
| "mark_free_fields [] = True"
| "mark_free_fields ((k, v) # kvs) = (k \<noteq> non_replayable_field \<and> mark_free v \<and> mark_free_fields kvs)"

lemma strip_marks:
  "mark_free (strip_internal_replay_metadata v)"
  "mark_free_fields (strip_fields kvs)"
  by (induction v and kvs rule: strip_internal_replay_metadata_strip_fields.induct)
    (simp_all add: list_all_iff)

lemma strip_nothing:
  "mark_free v \<Longrightarrow> strip_internal_replay_metadata v = v"
  "mark_free_fields kvs \<Longrightarrow> strip_fields kvs = kvs"
  by (induction v and kvs rule: strip_internal_replay_metadata_strip_fields.induct)
    (auto simp: list_all_iff intro: map_idI)

section \<open>Replays that cannot panic\<close>

definition blocks_ok :: "json \<Rightarrow> bool" where
  "blocks_ok message = (is_object message \<and> (case jget_array message ''content'' of
      None \<Rightarrow> False | Some blocks \<Rightarrow> list_all is_object blocks))"

text \<open>The messages and content blocks an event announces are objects.\<close>

definition announces_objects :: "json \<Rightarrow> bool" where
  "announces_objects event =
     ((case (jget_str event ''type'' = Some ''message_start'', jget event ''message'') of
        (True, Some m) \<Rightarrow> is_object m | _ \<Rightarrow> True)
   \<and> (case (jget_str event ''type'' = Some ''content_block_start'', jget event ''content_block'') of
        (True, Some b) \<Rightarrow> is_object b | _ \<Rightarrow> True))"

lemma assign_object: "is_object v \<Longrightarrow> assign k x v = Some (jset k x v)"
  by (simp add: assign_def)

lemma blocks_ok_set:
  "is_object m \<Longrightarrow> list_all is_object blocks \<Longrightarrow> blocks_ok (jset ''content'' (JArr blocks) m)"
  by (simp add: blocks_ok_def jget_array_def)

lemma blocks_ok_other: "blocks_ok m \<Longrightarrow> k \<noteq> ''content'' \<Longrightarrow> blocks_ok (jset k x m)"
  by (auto simp: blocks_ok_def jget_array_def)

lemma append_field_object:
  assumes "is_object block"
  shows "\<exists>b. append_field k ty add block = Some b \<and> is_object b"
  using assms by (cases ty) (simp_all add: append_field_def Let_def assign_object)

lemma delta_object:
  assumes "is_object block"
  shows "\<exists>b. apply_block_delta delta block = Some b \<and> is_object b"
  using append_field_object [OF assms] assms by (simp add: apply_block_delta_def Let_def)

lemma update_block_ok:
  assumes "blocks_ok (aa_message a)" and "\<And>b. is_object b \<Longrightarrow> \<exists>b'. f b = Some b' \<and> is_object b'"
  shows "\<exists>a'. update_block i f a = Some a' \<and> blocks_ok (aa_message a')"
proof -
  let ?m = "aa_message a"
  obtain blocks where b: "jget_array ?m ''content'' = Some blocks" "list_all is_object blocks" and o': "is_object ?m"
    using assms(1) by (auto simp: blocks_ok_def split: option.splits)
  then have m: "?m \<noteq> JNull" by auto
  let ?bs = "content_upto i blocks"
  have all: "list_all is_object ?bs" using b(2) by (auto simp: content_upto_def list_all_iff)
  have len: "i < length ?bs" by (simp add: content_upto_def)
  then obtain b' where b': "f (?bs ! i) = Some b'" "is_object b'"
    using assms(2) all by (meson list_all_length)
  have "list_all is_object (?bs[i := b'])"
    using all b'(2) by (auto simp: list_all_iff dest!: set_update_subset_insert [THEN subsetD])
  then show ?thesis
    using o' b b' m by (simp add: update_block_def ensure_content_array_def blocks_ok_set)
qed

lemma finish_block_object: "is_object b \<Longrightarrow> is_object (finish_block E b)"
  by (auto simp: finish_block_def Let_def split: option.split json.split)

lemma anthropic_body_ok:
  assumes "blocks_ok (aa_message a)" and "announces_objects e"
  shows "\<exists>a'. anthropic_event_body E e True a = Some a' \<and> blocks_ok (aa_message a')"
proof -
  have delta: "\<exists>a'. update_block i (apply_block_delta d) a = Some a' \<and> blocks_ok (aa_message a')" for i d
    by (rule update_block_ok [OF assms(1) delta_object])
  have start: "\<exists>a'. update_block i (\<lambda>_. Some b) a = Some a' \<and> blocks_ok (aa_message a')" if "is_object b" for i b
    by (rule update_block_ok [OF assms(1)]) (use that in simp)
  have stop: "blocks_ok (aa_message (message_stop_event E a))"
    using assms(1) by (auto simp: message_stop_event_def blocks_ok_def jget_array_def list_all_iff
        finish_block_object split: option.splits)
  have msg: "blocks_ok (aa_message (message_delta_event e True a))"
    using assms(1) by (auto simp: message_delta_event_def Let_def blocks_ok_other split: option.split)
  have started: "\<exists>a'. message_start_event e a = Some a' \<and> blocks_ok (aa_message a')"
    if "jget_str e ''type'' = Some ''message_start''"
    using assms that by (auto simp: message_start_event_def announces_objects_def assign_object
        blocks_ok_set split: option.splits)
  show ?thesis
    using assms delta start stop msg started
    by (auto simp: anthropic_event_body_def Let_def announces_objects_def split: option.split)
qed

lemma anthropic_replay_ok:
  "blocks_ok (aa_message a) \<Longrightarrow> list_all announces_objects es \<Longrightarrow>
   \<exists>a'. run_acc (anthropic_step E) True es a = Some a'"
proof (induction es arbitrary: a)
  case (Cons e es)
  obtain a' where a': "anthropic_event_body E e True a = Some a'" "blocks_ok (aa_message a')"
    using anthropic_body_ok [OF Cons.prems(1)] Cons.prems(2) by auto
  then have "blocks_ok (aa_message (note_terminal e a'))" by (simp add: note_terminal_def)
  from Cons.IH [OF this] Cons.prems(2) a'(1) show ?case
    by (auto simp: anthropic_step_def anthropic_on_event_def)
qed simp

text \<open>The replay of an Anthropic stream that starts with a message and announces only objects as messages
  and content blocks does not panic, whatever deltas, indices and other events follow and however they
  are ordered.\<close>

theorem ordered_replay_never_panics:
  assumes "jget_str e ''type'' = Some ''message_start''" and "jget e ''message'' = Some m"
    and "list_all announces_objects (e # events)"
  shows "replay_final_response_body E Anthropic (e # events) \<noteq> None"
proof -
  have m: "is_object m" using assms by (simp add: announces_objects_def)
  let ?a = "note_terminal e (new_anthropic_acc\<lparr>aa_message := jset ''content'' (JArr []) m\<rparr>)"
  have "anthropic_step E True e new_anthropic_acc = Some ?a"
    using assms(1,2) m by (simp add: anthropic_step_def anthropic_on_event_def anthropic_event_body_def
        message_start_event_def assign_object)
  moreover have "blocks_ok (aa_message ?a)"
    using m by (simp add: note_terminal_def blocks_ok_set)
  ultimately show ?thesis
    using anthropic_replay_ok [of ?a events E] assms(3)
    by (auto simp: replay_final_response_body_def run_client_acc)
qed

definition started_events :: "json list" where
  "started_events =
     [jobj [(''type'', JStr ''message_start''), (''message'', jobj [(''id'', JStr ''m'')])],
      jobj [(''type'', JStr ''content_block_start''), (''index'', jnat 1), (''content_block'', jobj [])]]"

theorem ordered_replay_never_panics_witness:
  "replay_final_response_body example_env Anthropic started_events \<noteq> None"
  unfolding started_events_def
proof (rule ordered_replay_never_panics)
  let ?e = "jobj [(''type'', JStr ''message_start''), (''message'', jobj [(''id'', JStr ''m'')])]"
  show "jget_str ?e ''type'' = Some ''message_start''" by (simp add: jget_str_def)
  show "jget ?e ''message'' = Some (jobj [(''id'', JStr ''m'')])" by simp
  show "list_all announces_objects [?e, jobj [(''type'', JStr ''content_block_start''), (''index'', jnat 1),
      (''content_block'', jobj [])]]"
    by (simp add: announces_objects_def jget_str_def)
qed

text \<open>
  Without the message at the start it can: a \<open>message_delta\<close> makes a message without content, and the
  next content block has nowhere to go.
\<close>

lemma unordered_replay_panics:
  "replay_final_response_body E Anthropic
     [jobj [(''type'', JStr ''message_delta''), (''delta'', jobj [(''stop_reason'', JStr ''end_turn'')])],
      jobj [(''type'', JStr ''content_block_start''), (''index'', jnat 0), (''content_block'', jobj [])]] = None"
  by (simp add: replay_final_response_body_def anthropic_on_event_def anthropic_event_body_def Let_def
      jget_str_def jget_array_def message_delta_event_def new_anthropic_acc_def note_terminal_def
      update_block_def ensure_content_array_def anthropic_protocol_terminal_def jget_u64_def)

end
