(* ===== verification/Hook_Stream.thy ===== *)
theory Hook_Stream
  imports Hook_Runtime Hook_Accumulators
begin

text \<open>
  The stream the hooks put around the answer to a client (\<open>src/hooks.rs\<close>, \<open>HookCaptureStream\<close>): it hands
  every item on as it is, observes the events in it, spools them for the exchange hook within a budget,
  and reports once when the stream ends, fails or is dropped. The spool file is the text the writer
  thread was handed; what its queue answers is an oracle over the number of lines it has taken.
\<close>

section \<open>The spool\<close>

datatype try_send = Sent | QueueFull | WriterGone

record spool_sink =
  sp_format :: upstream_format
  sp_budget :: nat
  sp_captured :: nat
  sp_dropped :: nat
  sp_overflow :: "string option"
  sp_open :: bool
  sp_written :: "string list"

definition new_spool :: "upstream_format \<Rightarrow> nat \<Rightarrow> spool_sink" where
  "new_spool format budget = \<lparr>sp_format = format, sp_budget = budget, sp_captured = 0, sp_dropped = 0,
     sp_overflow = None, sp_open = True, sp_written = []\<rparr>"

definition mark_overflow :: "string \<Rightarrow> spool_sink \<Rightarrow> spool_sink" where
  "mark_overflow reason s =
     (let s = (if sp_overflow s = None then s\<lparr>sp_overflow := Some reason, sp_open := False\<rparr> else s)
      in s\<lparr>sp_dropped := sat_add (sp_dropped s) 1\<rparr>)"

definition spool_on_event :: "env \<Rightarrow> (nat \<Rightarrow> try_send) \<Rightarrow> json \<Rightarrow> spool_sink \<Rightarrow> string + spool_sink" where
  "spool_on_event E Q event s =
     (if sp_overflow s \<noteq> None then Inr (s\<lparr>sp_dropped := sat_add (sp_dropped s) 1\<rparr>)
      else
        let line = json_text E event @ [nl]; n = length line
        in if sp_budget s < sat_add (sp_captured s) n then Inr (mark_overflow ''capture_budget_exceeded'' s)
           else if \<not> sp_open s then Inl ''spool writer unavailable''
           else (case Q (length (sp_written s)) of
               QueueFull \<Rightarrow> Inr (mark_overflow ''capture_queue_overflow'' s)
             | WriterGone \<Rightarrow> Inr (mark_overflow ''capture_writer_disconnected'' s)
             | Sent \<Rightarrow> Inr (s\<lparr>sp_captured := sat_add (sp_captured s) n,
                               sp_written := sp_written s @ [line]\<rparr>)))"

datatype spool_artifact =
    CompleteSpool upstream_format "string list"
  | TruncatedSpool upstream_format string nat nat nat

definition spool_finish :: "spool_sink \<Rightarrow> spool_artifact" where
  "spool_finish s = (case sp_overflow s of
      Some reason \<Rightarrow> TruncatedSpool (sp_format s) reason (sp_budget s) (sp_captured s) (sp_dropped s)
    | None \<Rightarrow> CompleteSpool (sp_format s) (sp_written s))"

text \<open>
  The replay of the file, line by line. An unreadable line is an error and an impossible assignment a
  panic; either way the payload is dropped, so both are \<open>None\<close>.
\<close>

fun replay_lines :: "env \<Rightarrow> string list \<Rightarrow> client_acc \<Rightarrow> client_acc option" where
  "replay_lines E [] a = Some a"
| "replay_lines E (l # ls) a =
     (if trim l = [] then replay_lines E ls a
      else Option.bind (json_parse E l) (\<lambda>event.
        Option.bind (client_on_event E True event a) (replay_lines E ls)))"

fun replay_artifact :: "env \<Rightarrow> bool \<Rightarrow> spool_artifact \<Rightarrow> json option" where
  "replay_artifact E completed (CompleteSpool format written) =
     map_option (final_response_body E) (replay_lines E (lines_of (concat written)) (new_client_acc format))"
| "replay_artifact E completed (TruncatedSpool format reason budget captured dropped) = Some (jobj
     [(''capture_truncated'', JBool True), (''reason'', JStr reason),
      (''client_format'', JStr (format_display format)), (''capture_budget_bytes'', jnat budget),
      (''captured_bytes'', jnat captured), (''dropped_event_count'', jnat dropped),
      (''writer_completed'', JBool completed)])"

datatype exchange_response_capture =
    ImmediateBody json
  | SpooledBody spool_artifact
  | BodyUnavailable string

definition captured_body :: "env \<Rightarrow> bool \<Rightarrow> exchange_response_capture \<Rightarrow> json option" where
  "captured_body E completed c = map_option strip_internal_replay_metadata (case c of
      ImmediateBody body \<Rightarrow> Some body
    | SpooledBody artifact \<Rightarrow> replay_artifact E completed artifact
    | BodyUnavailable reason \<Rightarrow> Some (jobj [(''capture_unavailable'', JBool True), (''reason'', JStr reason)]))"

section \<open>The capture stream\<close>

datatype capture_mode = Spooling spool_sink | CaptureUnavailable string

text \<open>A transform of the observed bytes with a state of its own, such as the redaction of secrets.\<close>

record 't transform =
  transform_chunk :: "'t \<Rightarrow> string \<Rightarrow> 't \<times> string list"
  transform_finish :: "'t \<Rightarrow> 't \<times> string list"

record 't hook_stream =
  hs_buffer :: string
  hs_observer :: client_acc
  hs_format :: upstream_format
  hs_finalized :: bool
  hs_capture_enabled :: bool
  hs_capture :: "capture_mode option"
  hs_observe_events :: bool
  hs_transform :: "'t option"

text \<open>
  \<open>wrap_stream_inner\<close>: the exchange hook captures when its circuit and the budget let it; \<open>spool_error\<close> is
  why the spool file cannot be set up, if so.
\<close>

definition wrap_stream :: "nat \<Rightarrow> bool \<Rightarrow> bool \<Rightarrow> string option \<Rightarrow> upstream_format \<Rightarrow> 't option \<Rightarrow> hook_runtime
    \<Rightarrow> 't hook_stream \<times> hook_runtime" where
  "wrap_stream now exchange usage_hook spool_error format t rt =
     (let (capturing, rt') = (if exchange then can_capture_exchange now rt else (False, rt));
          enabled = (capturing \<and> spool_error = None)
      in (\<lparr>hs_buffer = [], hs_observer = new_client_acc format, hs_format = format, hs_finalized = False,
           hs_capture_enabled = enabled,
           hs_capture = (if \<not> capturing then None
             else Some (case spool_error of
                 None \<Rightarrow> Spooling (new_spool format (exchange_capture_budget_bytes rt))
               | Some reason \<Rightarrow> CaptureUnavailable reason)),
           hs_observe_events = (enabled \<or> usage_hook), hs_transform = t\<rparr>, rt'))"

text \<open>One event: the observer, which cannot panic, and the spool.\<close>

definition observe_event :: "env \<Rightarrow> (nat \<Rightarrow> try_send) \<Rightarrow> json \<Rightarrow> 't hook_stream \<Rightarrow> 't hook_stream" where
  "observe_event E Q event s =
     (let s = s\<lparr>hs_observer := unwrap_or (client_on_event E False event (hs_observer s)) (hs_observer s)\<rparr>
      in case hs_capture s of
           Some (Spooling sink) \<Rightarrow> (case spool_on_event E Q event sink of
               Inr sink' \<Rightarrow> s\<lparr>hs_capture := Some (Spooling sink')\<rparr>
             | Inl err \<Rightarrow> s\<lparr>hs_capture := Some (CaptureUnavailable err), hs_capture_enabled := False\<rparr>)
         | _ \<Rightarrow> s)"

lemma take_event_shorter: "take_one_sse_event E b = (Some e, b') \<Longrightarrow> length b' < length b"
proof (induction E b rule: take_one_sse_event.induct)
  case (1 E b)
  then show ?case
    using take_one_sse_event.simps [of E b]
    by (force simp: take_one_sse_frame_def dest: read_one_shorter split: option.splits if_splits)
qed

text \<open>The events of a run of bytes and what they leave in the buffer.\<close>

definition stream_events :: "env \<Rightarrow> string \<Rightarrow> json list" where
  "stream_events E b = List.map_filter (parse_sse_event_json E) (fst (split_frames b))"

lemma take_event_events:
  "case take_one_sse_event E b of
     (None, rest) \<Rightarrow> stream_events E b = [] \<and> rest = snd (split_frames b)
   | (Some e, rest) \<Rightarrow> stream_events E b = e # stream_events E rest
       \<and> snd (split_frames b) = snd (split_frames rest)"
proof (induction b rule: length_induct)
  case (1 b)
  show ?case
  proof (cases "sse_frame_end b")
    case None
    then show ?thesis
      by (subst take_one_sse_event.simps)
        (simp add: take_one_sse_frame_def read_one_sse_frame_def sse.split_None stream_events_def)
  next
    case (Some n)
    note n = Some
    have split: "split_frames b = (take n b # fst (split_frames (drop n b)), snd (split_frames (drop n b)))"
      by (rule sse.split_Some [OF n])
    show ?thesis
    proof (cases "parse_sse_event_json E (take n b)")
      case None
      then have "take_one_sse_event E b = take_one_sse_event E (drop n b)"
        by (subst take_one_sse_event.simps)
          (simp add: take_one_sse_frame_def read_one_sse_frame_def n drop_sse_prefix_def)
      moreover have "stream_events E b = stream_events E (drop n b)"
        "snd (split_frames b) = snd (split_frames (drop n b))"
        using None by (simp_all add: stream_events_def split List.map_filter_def)
      ultimately show ?thesis using "1" [rule_format, OF sse.cut_shorter [OF n]] by (simp only:)
    next
      case (Some e)
      then have "take_one_sse_event E b = (Some e, drop n b)"
        by (subst take_one_sse_event.simps)
          (simp add: take_one_sse_frame_def read_one_sse_frame_def n drop_sse_prefix_def)
      then show ?thesis using Some by (simp add: stream_events_def split List.map_filter_def)
    qed
  qed
qed

function drain_events :: "env \<Rightarrow> (nat \<Rightarrow> try_send) \<Rightarrow> 't hook_stream \<Rightarrow> 't hook_stream" where
  "drain_events E Q s = (case take_one_sse_event E (hs_buffer s) of
      (None, rest) \<Rightarrow> s\<lparr>hs_buffer := rest\<rparr>
    | (Some event, rest) \<Rightarrow> drain_events E Q (observe_event E Q event (s\<lparr>hs_buffer := rest\<rparr>)))"
  by pat_completeness auto
termination
proof (relation "measure (\<lambda>(E, Q, s). length (hs_buffer s))", goal_cases)
  case (2 E Q s x rest event)
  have "hs_buffer (observe_event E Q event (s\<lparr>hs_buffer := rest\<rparr>)) = rest"
    by (simp add: observe_event_def Let_def split: option.split capture_mode.split sum.split)
  then show ?case using 2 take_event_shorter [of E "hs_buffer s" event rest] by simp
qed simp

declare drain_events.simps [simp del]

definition observe_bytes :: "env \<Rightarrow> (nat \<Rightarrow> try_send) \<Rightarrow> string \<Rightarrow> 't hook_stream \<Rightarrow> 't hook_stream" where
  "observe_bytes E Q bytes s = drain_events E Q (s\<lparr>hs_buffer := hs_buffer s @ bytes\<rparr>)"

definition observe_chunk :: "env \<Rightarrow> (nat \<Rightarrow> try_send) \<Rightarrow> 't transform \<Rightarrow> string \<Rightarrow> 't hook_stream \<Rightarrow> 't hook_stream" where
  "observe_chunk E Q T bytes s =
     (if \<not> hs_observe_events s then s
      else (case hs_transform s of
          Some t \<Rightarrow> (let (t', out) = transform_chunk T t bytes
            in (fold (observe_bytes E Q) out s)\<lparr>hs_transform := Some t'\<rparr>)
        | None \<Rightarrow> observe_bytes E Q bytes s))"

definition finish_observation_transform ::
    "env \<Rightarrow> (nat \<Rightarrow> try_send) \<Rightarrow> 't transform \<Rightarrow> 't hook_stream \<Rightarrow> 't hook_stream" where
  "finish_observation_transform E Q T s =
     (if \<not> hs_observe_events s then s
      else (case hs_transform s of
          Some t \<Rightarrow> (let (t', out) = transform_finish T t
            in (fold (observe_bytes E Q) out s)\<lparr>hs_transform := Some t'\<rparr>)
        | None \<Rightarrow> s))"

record hook_report =
  rp_capture :: "exchange_response_capture option"
  rp_observation :: stream_observation
  rp_usage :: normalized_usage
  rp_cache_usage :: "provider_cache_usage option"

definition finalize_stream :: "env \<Rightarrow> (nat \<Rightarrow> try_send) \<Rightarrow> 't transform \<Rightarrow> transport_outcome
    \<Rightarrow> 't hook_stream \<Rightarrow> 't hook_stream \<times> hook_report option" where
  "finalize_stream E Q T outcome s =
     (if hs_finalized s then (s, None)
      else
        let s = (if outcome = CompletedEof then finish_observation_transform E Q T s else s)
        in (s\<lparr>hs_finalized := True, hs_capture := None\<rparr>,
            Some \<lparr>rp_capture = map_option (\<lambda>c. case c of
                 Spooling sink \<Rightarrow> SpooledBody (spool_finish sink)
               | CaptureUnavailable reason \<Rightarrow> BodyUnavailable reason) (hs_capture s),
              rp_observation = \<lparr>obs_transport = outcome, obs_terminal = protocol_terminal_of (hs_observer s)\<rparr>,
              rp_usage = final_usage (hs_observer s),
              rp_cache_usage = final_provider_cache_usage (hs_observer s)\<rparr>))"

text \<open>What the inner stream answers to a poll; the wrapper answers the same.\<close>

datatype inner_poll = InnerBytes string | InnerError string | InnerEnd | InnerPending

fun poll_hook_stream :: "env \<Rightarrow> (nat \<Rightarrow> try_send) \<Rightarrow> 't transform \<Rightarrow> inner_poll \<Rightarrow> 't hook_stream
    \<Rightarrow> inner_poll \<times> 't hook_stream \<times> hook_report option" where
  "poll_hook_stream E Q T (InnerBytes b) s = (InnerBytes b, observe_chunk E Q T b s, None)"
| "poll_hook_stream E Q T (InnerError e) s = (InnerError e, finalize_stream E Q T StreamError s)"
| "poll_hook_stream E Q T InnerEnd s = (InnerEnd, finalize_stream E Q T CompletedEof s)"
| "poll_hook_stream E Q T InnerPending s = (InnerPending, s, None)"

definition drop_hook_stream :: "env \<Rightarrow> (nat \<Rightarrow> try_send) \<Rightarrow> 't transform \<Rightarrow> 't hook_stream
    \<Rightarrow> 't hook_stream \<times> hook_report option" where
  "drop_hook_stream E Q T s = finalize_stream E Q T ClientDisconnected s"

text \<open>\<open>emit_exchange\<close> and \<open>emit_usage\<close>: which of the hooks a report is handed to.\<close>

definition emit_exchange :: "nat \<Rightarrow> bool \<Rightarrow> hook_runtime \<Rightarrow> bool \<times> hook_runtime" where
  "emit_exchange now exchange rt = (if exchange then can_attempt now ExchangeHook rt else (False, rt))"

definition emit_usage :: "nat \<Rightarrow> bool \<Rightarrow> hook_runtime \<Rightarrow> bool \<times> hook_runtime" where
  "emit_usage now usage_hook rt = (if usage_hook then can_attempt now UsageHook rt else (False, rt))"

definition reports_of :: "hook_report option \<Rightarrow> hook_report list" where
  "reports_of r = (case r of None \<Rightarrow> [] | Some x \<Rightarrow> [x])"

text \<open>A whole life: the polls, then the drop. The answers, and the reports in order.\<close>

fun live :: "env \<Rightarrow> (nat \<Rightarrow> try_send) \<Rightarrow> 't transform \<Rightarrow> inner_poll list \<Rightarrow> 't hook_stream
    \<Rightarrow> inner_poll list \<times> hook_report list" where
  "live E Q T [] s = ([], reports_of (snd (drop_hook_stream E Q T s)))"
| "live E Q T (p # ps) s =
     (let (a, s', r) = poll_hook_stream E Q T p s; (as, rs) = live E Q T ps s'
      in (a # as, reports_of r @ rs))"

section \<open>One report\<close>

text \<open>How a life ends: at the first error or end, or by the drop.\<close>

fun ending :: "inner_poll list \<Rightarrow> transport_outcome" where
  "ending (InnerError _ # ps) = StreamError"
| "ending (InnerEnd # ps) = CompletedEof"
| "ending (p # ps) = ending ps"
| "ending [] = ClientDisconnected"

lemma observe_keeps_finalized:
  "hs_finalized (observe_event E Q e s) = hs_finalized s"
  "hs_observe_events (observe_event E Q e s) = hs_observe_events s"
  "hs_transform (observe_event E Q e s) = hs_transform s"
  "hs_buffer (observe_event E Q e s) = hs_buffer s"
  by (simp_all add: observe_event_def Let_def split: option.split capture_mode.split sum.split)

lemma observe_event_buffer:
  "observe_event E Q e (s\<lparr>hs_buffer := r\<rparr>) = (observe_event E Q e s)\<lparr>hs_buffer := r\<rparr>"
  by (simp add: observe_event_def Let_def split: option.split capture_mode.split sum.split)

lemma fold_observe_buffer:
  "fold (observe_event E Q) es (s\<lparr>hs_buffer := r\<rparr>) = (fold (observe_event E Q) es s)\<lparr>hs_buffer := r\<rparr>"
  by (induction es arbitrary: s) (simp_all add: observe_event_buffer)

lemma drain_events_eq:
  "drain_events E Q s = (fold (observe_event E Q) (stream_events E (hs_buffer s)) s)
     \<lparr>hs_buffer := snd (split_frames (hs_buffer s))\<rparr>"
proof (induction E Q s rule: drain_events.induct)
  case (1 E Q s)
  show ?case
  proof (cases "take_one_sse_event E (hs_buffer s)")
    case (Pair ev rest)
    show ?thesis
    proof (cases ev)
      case None
      then show ?thesis
        using take_event_events [of E "hs_buffer s"] Pair by (subst drain_events.simps) simp
    next
      case (Some e)
      let ?s = "observe_event E Q e (s\<lparr>hs_buffer := rest\<rparr>)"
      have ev: "stream_events E (hs_buffer s) = e # stream_events E rest"
        "snd (split_frames (hs_buffer s)) = snd (split_frames rest)"
        using take_event_events [of E "hs_buffer s"] Pair Some by simp_all
      have "drain_events E Q s = drain_events E Q ?s"
        using Pair Some by (subst drain_events.simps) simp
      also have "\<dots> = (fold (observe_event E Q) (stream_events E rest) ?s)
          \<lparr>hs_buffer := snd (split_frames rest)\<rparr>"
        using "1.IH" [OF Pair [symmetric] Some] by (simp add: observe_keeps_finalized)
      finally show ?thesis by (simp add: ev observe_event_buffer fold_observe_buffer)
    qed
  qed
qed

lemma fold_keeps_finalized:
  "hs_finalized (fold (observe_event E Q) es s) = hs_finalized s"
  "hs_observe_events (fold (observe_event E Q) es s) = hs_observe_events s"
  "hs_transform (fold (observe_event E Q) es s) = hs_transform s"
  by (induction es arbitrary: s) (simp_all add: observe_keeps_finalized)

lemma bytes_keep_finalized: "hs_finalized (observe_bytes E Q b s) = hs_finalized s"
  by (simp add: observe_bytes_def drain_events_eq fold_keeps_finalized)

lemma fold_bytes_keep_finalized: "hs_finalized (fold (observe_bytes E Q) bs s) = hs_finalized s"
  by (induction bs arbitrary: s) (simp_all add: bytes_keep_finalized)

lemma chunk_keeps_finalized: "hs_finalized (observe_chunk E Q T b s) = hs_finalized s"
  by (simp add: observe_chunk_def bytes_keep_finalized fold_bytes_keep_finalized Let_def
      split: option.split prod.split)

lemma finalized_reports:
  assumes "\<not> hs_finalized s"
  shows "\<exists>s' r. finalize_stream E Q T outcome s = (s', Some r) \<and> hs_finalized s'
    \<and> obs_transport (rp_observation r) = outcome"
  using assms by (simp add: finalize_stream_def Let_def)

lemma finalized_quiet: "hs_finalized s \<Longrightarrow> finalize_stream E Q T outcome s = (s, None)"
  by (simp add: finalize_stream_def)

lemma live_finalized: "hs_finalized s \<Longrightarrow> live E Q T polls s = (polls, [])"
proof (induction polls arbitrary: s)
  case (Cons p ps)
  then show ?case
    by (cases p) (simp_all add: finalized_quiet chunk_keeps_finalized reports_of_def)
qed (simp add: drop_hook_stream_def finalized_quiet reports_of_def)

text \<open>C38.
  The wrapped stream is invisible to the client and reports once: every poll is answered as the inner
  stream answers it, and from its start to its drop exactly one report is made, which says how the life
  ended, by the end of the stream, by an error, or by the client.\<close>

theorem hook_stream_reports_once:
  assumes "\<not> hs_finalized s"
  shows "fst (live E Q T polls s) = polls
    \<and> map (\<lambda>r. obs_transport (rp_observation r)) (snd (live E Q T polls s)) = [ending polls]"
  using assms
proof (induction polls arbitrary: s)
  case Nil
  obtain s' r where "finalize_stream E Q T ClientDisconnected s = (s', Some r)"
    "obs_transport (rp_observation r) = ClientDisconnected" using finalized_reports [OF Nil] by blast
  then show ?case by (simp add: drop_hook_stream_def reports_of_def)
next
  case (Cons p ps)
  show ?case
  proof (cases p)
    case (InnerBytes b)
    then show ?thesis
      using Cons.IH [of "observe_chunk E Q T b s"] Cons.prems
      by (simp add: chunk_keeps_finalized reports_of_def case_prod_unfold)
  next
    case (InnerError e)
    obtain s' r where "finalize_stream E Q T StreamError s = (s', Some r)" "hs_finalized s'"
      "obs_transport (rp_observation r) = StreamError" using finalized_reports [OF Cons.prems] by blast
    then show ?thesis by (simp add: InnerError live_finalized reports_of_def)
  next
    case InnerEnd
    obtain s' r where "finalize_stream E Q T CompletedEof s = (s', Some r)" "hs_finalized s'"
      "obs_transport (rp_observation r) = CompletedEof" using finalized_reports [OF Cons.prems] by blast
    then show ?thesis by (simp add: InnerEnd live_finalized reports_of_def)
  next
    case InnerPending
    then show ?thesis using Cons.IH [OF Cons.prems] by (simp add: reports_of_def case_prod_unfold)
  qed
qed

definition idle_transform :: "unit transform" where
  "idle_transform = \<lparr>transform_chunk = (\<lambda>t b. (t, [b])), transform_finish = (\<lambda>t. (t, []))\<rparr>"

theorem hook_stream_reports_once_witness:
  "fst (live example_env (\<lambda>_. QueueFull) idle_transform [InnerBytes [nl], InnerError ''reset'']
     (fst (wrap_stream 0 True True None Anthropic None (new_hook_runtime 100 1 1))))
   = [InnerBytes [nl], InnerError ''reset'']"
proof -
  have "\<not> hs_finalized (fst (wrap_stream 0 True True None Anthropic None (new_hook_runtime 100 1 1) :: unit hook_stream \<times> hook_runtime))"
    by (simp add: wrap_stream_def Let_def split: prod.split)
  then show ?thesis by (rule hook_stream_reports_once [THEN conjunct1])
qed

section \<open>What is reported\<close>

lemma drain_append:
  "observe_bytes E Q b (s\<lparr>hs_buffer := r\<rparr>) =
     (fold (observe_event E Q) (stream_events E (r @ b)) s)\<lparr>hs_buffer := snd (split_frames (r @ b))\<rparr>"
  by (simp add: observe_bytes_def drain_events_eq fold_observe_buffer)

lemma stream_events_append:
  "stream_events E (a @ b) = stream_events E a @ stream_events E (snd (split_frames a) @ b)"
  by (simp add: stream_events_def sse.split_append [of a b] List.map_filter_def)

text \<open>The spool within its budget: what is written are the lines of the first events.\<close>

definition spool_line :: "env \<Rightarrow> json \<Rightarrow> string" where
  "spool_line E e = json_text E e @ [nl]"

definition spool_ok :: "env \<Rightarrow> nat \<Rightarrow> json list \<Rightarrow> spool_sink \<Rightarrow> bool" where
  "spool_ok E budget es s =
     (sp_budget s = budget \<and> sp_captured s \<le> budget
      \<and> sp_captured s = length (concat (sp_written s))
      \<and> sp_open s = (sp_overflow s = None)
      \<and> (\<exists>n \<le> length es. sp_written s = map (spool_line E) (take n es))
      \<and> (sp_overflow s = None \<longrightarrow> sp_written s = map (spool_line E) es))"

lemma spool_step:
  assumes "spool_ok E budget es s" and "budget < u64_max"
  shows "\<exists>s'. spool_on_event E Q e s = Inr s' \<and> spool_ok E budget (es @ [e]) s'"
proof -
  obtain n where n: "n \<le> length es" "sp_written s = map (spool_line E) (take n es)"
    using assms(1) by (auto simp: spool_ok_def)
  have longer: "\<exists>n \<le> length (es @ [e]). sp_written s = map (spool_line E) (take n (es @ [e]))"
    using n by (intro exI [of _ n]) simp
  have over: "spool_ok E budget (es @ [e]) (mark_overflow reason s)" if "sp_overflow s = None" for reason
    using assms(1) longer that by (auto simp: spool_ok_def mark_overflow_def Let_def)
  show ?thesis
  proof (cases "sp_overflow s = None")
    case False
    then show ?thesis
      using assms(1) longer by (auto simp: spool_on_event_def spool_ok_def)
  next
    case True
    let ?l = "length (spool_line E e)"
    have w: "sp_written s = map (spool_line E) es" and "sp_open s"
      using assms(1) True by (auto simp: spool_ok_def)
    show ?thesis
    proof (cases "budget < sat_add (sp_captured s) ?l")
      case True
      then have "spool_on_event E Q e s = Inr (mark_overflow ''capture_budget_exceeded'' s)"
        using \<open>sp_overflow s = None\<close> assms(1)
        by (simp add: spool_on_event_def Let_def spool_line_def spool_ok_def)
      then show ?thesis using over [OF \<open>sp_overflow s = None\<close>] by blast
    next
      case False
      then have fits: "sp_captured s + ?l \<le> budget" and sum: "sat_add (sp_captured s) ?l = sp_captured s + ?l"
        using assms(2) by (auto simp: sat_add_def)
      have "spool_ok E budget (es @ [e])
          (s\<lparr>sp_captured := sp_captured s + ?l, sp_written := sp_written s @ [spool_line E e]\<rparr>)"
        using assms(1) True w fits by (auto simp: spool_ok_def intro!: exI [of _ "Suc (length es)"])
      moreover have "spool_on_event E Q e s \<in>
          Inr ` {mark_overflow ''capture_queue_overflow'' s, mark_overflow ''capture_writer_disconnected'' s,
            s\<lparr>sp_captured := sp_captured s + ?l, sp_written := sp_written s @ [spool_line E e]\<rparr>}"
        using True False sum assms(1) \<open>sp_open s\<close>
        by (simp add: spool_on_event_def Let_def spool_line_def [symmetric] spool_ok_def split: try_send.split)
      ultimately show ?thesis using over [OF True] by blast
    qed
  qed
qed

lemma spool_capture:
  assumes "hs_capture s = Some (Spooling sink)" and "spool_ok E budget seen sink" and "budget < u64_max"
  shows "\<exists>sink'. hs_capture (fold (observe_event E Q) es s) = Some (Spooling sink')
    \<and> spool_ok E budget (seen @ es) sink' \<and> sp_format sink' = sp_format sink"
  using assms(1,2)
proof (induction es arbitrary: s sink seen)
  case (Cons e es)
  obtain sink1 where one: "spool_on_event E Q e sink = Inr sink1" "spool_ok E budget (seen @ [e]) sink1"
    using spool_step [OF Cons.prems(2) assms(3)] by blast
  have "sp_format sink1 = sp_format sink"
    using one(1) by (auto simp: spool_on_event_def Let_def mark_overflow_def split: if_splits try_send.splits)
  moreover have "hs_capture (observe_event E Q e s) = Some (Spooling sink1)"
    using Cons.prems(1) one(1) by (simp add: observe_event_def Let_def)
  moreover have "(seen @ [e]) @ es = seen @ e # es" by simp
  ultimately show ?case using Cons.IH [OF _ one(2)] by simp
qed simp

lemma spooled_lines:
  "list_all (codec_at E) es \<Longrightarrow> lines_of (concat (map (spool_line E) es)) = map (json_text E) es"
  by (induction es) (simp_all add: spool_line_def codec_at_def lines_of_line)

lemma replayed_lines:
  "list_all (codec_at E) es \<Longrightarrow> replay_lines E (map (json_text E) es) a = run_client E True es a"
proof (induction es arbitrary: a)
  case (Cons e es)
  then have "replay_lines E (map (json_text E) es) = run_client E True es" by (simp add: fun_eq_iff)
  then show ?case using Cons.prems by (simp add: codec_at_def)
qed simp

lemma observer_runs_client: "\<exists>ob. run_client E False es (new_client_acc format) = Some ob"
proof (cases format)
  case OpenAiChatCompletions
  then show ?thesis using chat.observer_runs [of es new_chat_acc] by (auto simp: run_client_acc)
next
  case OpenAiResponses
  then show ?thesis using responses.observer_runs [of es new_responses_acc] by (auto simp: run_client_acc)
next
  case Anthropic
  then show ?thesis using anthropic.observer_runs [of E es new_anthropic_acc] by (auto simp: run_client_acc)
qed

lemma observed_client:
  "run_client E False es (hs_observer s) = Some a \<Longrightarrow>
   hs_observer (fold (observe_event E Q) es s) = a"
proof (induction es arbitrary: s)
  case (Cons e es)
  then obtain b where b: "client_on_event E False e (hs_observer s) = Some b" "run_client E False es b = Some a"
    by (auto simp: Option.bind_eq_Some_conv)
  have "hs_observer (observe_event E Q e s) = b"
    by (simp add: observe_event_def Let_def b(1) split: option.split capture_mode.split sum.split)
  then show ?case using Cons.IH b(2) by simp
qed simp

lemma bytes_observed:
  assumes "sse_frame_end r = None"
  shows "fold (observe_bytes E Q) bs (s\<lparr>hs_buffer := r\<rparr>) =
     (fold (observe_event E Q) (stream_events E (r @ concat bs)) s)\<lparr>hs_buffer := snd (split_frames (r @ concat bs))\<rparr>"
  using assms
proof (induction bs arbitrary: s r)
  case Nil
  then show ?case by (simp add: stream_events_def sse.split_None List.map_filter_def)
next
  case (Cons b bs)
  let ?s = "fold (observe_event E Q) (stream_events E (r @ b)) s"
  let ?r = "snd (split_frames (r @ b))"
  have "observe_bytes E Q b (s\<lparr>hs_buffer := r\<rparr>) = ?s\<lparr>hs_buffer := ?r\<rparr>" by (rule drain_append)
  moreover have "fold (observe_bytes E Q) bs (?s\<lparr>hs_buffer := ?r\<rparr>) =
      (fold (observe_event E Q) (stream_events E (?r @ concat bs)) ?s)\<lparr>hs_buffer := snd (split_frames (?r @ concat bs))\<rparr>"
    by (intro Cons.IH sse.split_rest)
  ultimately show ?case
    using stream_events_append [of E "r @ b" "concat bs"] sse.split_append [of "r @ b" "concat bs"] by simp
qed

text \<open>What the observer sees of the chunks: the chunks themselves, or what the transform makes of them.\<close>

fun observed_chunks :: "'t transform \<Rightarrow> 't option \<Rightarrow> string list \<Rightarrow> string list" where
  "observed_chunks T None chunks = chunks"
| "observed_chunks T (Some t) [] = snd (transform_finish T t)"
| "observed_chunks T (Some t) (c # cs) = (case transform_chunk T t c of (t', out) \<Rightarrow> out @ observed_chunks T (Some t') cs)"

lemma observe_event_transform:
  "observe_event E Q e (s\<lparr>hs_transform := t\<rparr>) = (observe_event E Q e s)\<lparr>hs_transform := t\<rparr>"
  by (simp add: observe_event_def Let_def split: option.split capture_mode.split sum.split)

lemma fold_observe_transform:
  "fold (observe_event E Q) es (s\<lparr>hs_transform := t\<rparr>) = (fold (observe_event E Q) es s)\<lparr>hs_transform := t\<rparr>"
  by (induction es arbitrary: s) (simp_all add: observe_event_transform)

text \<open>The chunks of a stream and its end leave the observer with the events in what it sees.\<close>

lemma chunks_observed:
  assumes "hs_observe_events s" "sse_frame_end r = None" "hs_transform s = t"
  shows "\<exists>r' t'. finish_observation_transform E Q T (fold (observe_chunk E Q T) chunks (s\<lparr>hs_buffer := r\<rparr>)) =
     (fold (observe_event E Q) (stream_events E (r @ concat (observed_chunks T t chunks))) s)
       \<lparr>hs_buffer := r', hs_transform := t'\<rparr>"
proof (cases t)
  case None
  have plain: "fold (observe_chunk E Q T) chunks u = fold (observe_bytes E Q) chunks u"
    if "hs_observe_events u" "hs_transform u = None" for u
    using that
  proof (induction chunks arbitrary: u)
    case (Cons c cs)
    then show ?case by (simp add: observe_chunk_def observe_bytes_def drain_events_eq fold_keeps_finalized)
  qed simp
  let ?u = "fold (observe_event E Q) (stream_events E (r @ concat chunks)) s"
  have u: "hs_transform ?u = None" using assms(3) None by (simp add: fold_keeps_finalized)
  have "fold (observe_chunk E Q T) chunks (s\<lparr>hs_buffer := r\<rparr>) = ?u\<lparr>hs_buffer := snd (split_frames (r @ concat chunks))\<rparr>"
    using assms None by (simp add: plain bytes_observed)
  with u None show ?thesis
    by (intro exI [of _ "snd (split_frames (r @ concat chunks))"] exI [of _ None])
      (simp add: finish_observation_transform_def fold_keeps_finalized)
next
  case (Some t0)
  have "\<exists>r' t'. finish_observation_transform E Q T (fold (observe_chunk E Q T) chunks (u\<lparr>hs_buffer := r\<rparr>)) =
     (fold (observe_event E Q) (stream_events E (r @ concat (observed_chunks T (Some t0) chunks))) u)
       \<lparr>hs_buffer := r', hs_transform := t'\<rparr>"
    if "hs_observe_events u" "sse_frame_end r = None" "hs_transform u = Some t0" for u
    using that
  proof (induction chunks arbitrary: u r t0)
    case Nil
    obtain t' out where f: "transform_finish T t0 = (t', out)" by fastforce
    show ?case
      using Nil.prems bytes_observed [OF Nil.prems(2), of E Q out u]
      by (auto simp: finish_observation_transform_def f fold_observe_transform)
  next
    case (Cons c cs)
    obtain t' out where c: "transform_chunk T t0 c = (t', out)" by fastforce
    let ?u = "fold (observe_event E Q) (stream_events E (r @ concat out)) u"
    let ?r = "snd (split_frames (r @ concat out))"
    have one: "observe_chunk E Q T c (u\<lparr>hs_buffer := r\<rparr>) = (?u\<lparr>hs_transform := Some t'\<rparr>)\<lparr>hs_buffer := ?r\<rparr>"
      using Cons.prems bytes_observed [OF Cons.prems(2), of E Q out u] by (simp add: observe_chunk_def c)
    have "hs_observe_events (?u\<lparr>hs_transform := Some t'\<rparr>)" using Cons.prems(1) by (simp add: fold_keeps_finalized)
    from Cons.IH [OF this sse.split_rest, of t' "r @ concat out"]
    obtain r' t'' where "finish_observation_transform E Q T (fold (observe_chunk E Q T) cs ((?u\<lparr>hs_transform := Some t'\<rparr>)\<lparr>hs_buffer := ?r\<rparr>)) =
      (fold (observe_event E Q) (stream_events E (?r @ concat (observed_chunks T (Some t') cs))) (?u\<lparr>hs_transform := Some t'\<rparr>))
        \<lparr>hs_buffer := r', hs_transform := t''\<rparr>" by auto
    moreover have "stream_events E (r @ concat (observed_chunks T (Some t0) (c # cs)))
        = stream_events E (r @ concat out) @ stream_events E (?r @ concat (observed_chunks T (Some t') cs))"
      using stream_events_append [of E "r @ concat out" "concat (observed_chunks T (Some t') cs)"] by (simp add: c)
    ultimately show ?case by (auto simp: one fold_observe_transform)
  qed
  with assms Some show ?thesis by simp
qed

lemma chunks_keep_finalized: "hs_finalized (fold (observe_chunk E Q T) chunks s) = hs_finalized s"
  by (induction chunks arbitrary: s) (simp_all add: chunk_keeps_finalized)

lemma live_chunks:
  "snd (live E Q T (map InnerBytes chunks @ [InnerEnd]) s)
     = snd (live E Q T [InnerEnd] (fold (observe_chunk E Q T) chunks s))"
  by (induction chunks arbitrary: s) (simp_all add: reports_of_def case_prod_unfold)

text \<open>C37.
  The exchange hook is told what was streamed: when a capture was started and the stream ran to its
  end, the one report carries either the body assembled from exactly the events in what the observer saw,
  without the internal marks, or the news that the capture was cut off, with no more captured than the
  budget; and its usage is the usage of all these events. What the observer saw are the chunks as they
  came or, when the stream is observed through a transform such as the redaction of secrets, what the
  transform made of them; how they were cut does not matter to it. Both bodies are missing when the
  replay of the events panics.\<close>

theorem exchange_hook_reports_stream:
  assumes "wrap_stream now True usage_hook spool_error format t rt = (s, rt')" and "hs_capture_enabled s"
    and "exchange_capture_budget_bytes rt \<le> default_exchange_capture_budget_bytes"
    and "es = stream_events E (concat (observed_chunks T t chunks))" and "list_all (codec_at E) es"
  shows "case snd (live E Q T (map InnerBytes chunks @ [InnerEnd]) s) of
      [r] \<Rightarrow> (case rp_capture r of
            Some (SpooledBody (CompleteSpool f written)) \<Rightarrow>
              captured_body E completed (SpooledBody (CompleteSpool f written))
                = map_option strip_internal_replay_metadata (replay_final_response_body E format es)
          | Some (SpooledBody (TruncatedSpool f reason budget captured dropped)) \<Rightarrow> captured \<le> budget
          | _ \<Rightarrow> False)
        \<and> Some (rp_usage r) = map_option final_usage (run_client E False es (new_client_acc format))
    | _ \<Rightarrow> False"
proof -
  let ?budget = "exchange_capture_budget_bytes rt"
  have s: "hs_capture s = Some (Spooling (new_spool format ?budget))" "hs_transform s = t"
    "hs_observe_events s" "\<not> hs_finalized s" "hs_observer s = new_client_acc format" "hs_buffer s = []"
    using assms(1,2) by (auto simp: wrap_stream_def Let_def split: prod.splits)
  have small: "?budget < u64_max"
    using assms(3) by (simp add: default_exchange_capture_budget_bytes_def u64_max_def)
  let ?c = "fold (observe_chunk E Q T) chunks s"
  let ?f = "fold (observe_event E Q) es s"
  have "s\<lparr>hs_buffer := []\<rparr> = s" using s(6) by simp
  then obtain r' t' where t: "finish_observation_transform E Q T ?c = ?f\<lparr>hs_buffer := r', hs_transform := t'\<rparr>"
    using chunks_observed [OF s(3) _ s(2), of "[]" E Q T chunks] assms(4) by (auto simp: sse_frame_end_def)
  have init: "spool_ok E ?budget [] (new_spool format ?budget)"
    by (simp add: spool_ok_def new_spool_def)
  obtain sink where sink: "hs_capture ?f = Some (Spooling sink)" "spool_ok E ?budget es sink"
    and format: "sp_format sink = format"
    using spool_capture [OF s(1) init small, of Q es] by (auto simp: new_spool_def)
  obtain ob where ob: "run_client E False es (new_client_acc format) = Some ob"
    using observer_runs_client by blast
  have "hs_observer ?f = ob" using observed_client [of E es s ob Q] ob s(5) by simp
  moreover have "\<not> hs_finalized ?c" using s(4) by (simp add: chunks_keep_finalized)
  ultimately have fin: "finalize_stream E Q T CompletedEof ?c
      = (?f\<lparr>hs_buffer := r', hs_transform := t', hs_finalized := True, hs_capture := None\<rparr>,
      Some \<lparr>rp_capture = Some (SpooledBody (spool_finish sink)),
        rp_observation = \<lparr>obs_transport = CompletedEof, obs_terminal = protocol_terminal_of ob\<rparr>,
        rp_usage = final_usage ob, rp_cache_usage = final_provider_cache_usage ob\<rparr>)"
    using sink(1) t by (simp add: finalize_stream_def Let_def)
  have body: "replay_artifact E completed (CompleteSpool format (sp_written sink))
      = replay_final_response_body E format es" if "sp_overflow sink = None"
  proof -
    have "sp_written sink = map (spool_line E) es" using sink(2) that by (simp add: spool_ok_def)
    then show ?thesis
      using spooled_lines [OF assms(5)] replayed_lines [OF assms(5)]
      by (simp add: replay_final_response_body_def)
  qed
  show ?thesis
    using fin ob sink(2) body format
    by (auto simp: live_chunks live_finalized drop_hook_stream_def finalized_quiet reports_of_def
        spool_finish_def captured_body_def spool_ok_def split: option.split)
qed

end
