(* ===== verification/Request_Processing.thy ===== *)
theory Request_Processing
  imports Artifacts Message_Repair Prompt_Cache
begin

text \<open>
  How a request is processed (\<open>src/request_processing.rs\<close>): whether its body may be forwarded as it is or
  must be transformed, judged from the formats, the models, the route and the body before any of the
  transformations runs.
\<close>

datatype request_processing = TransformationNotRequired | TransformationRequired

datatype state_bridge_modifier = BridgeOff | CaptureCandidate | BridgeExpanded

record request_processing_info =
  rpi_processing :: request_processing
  rpi_zero_transform_forwarding_active :: bool
  rpi_state_bridge :: state_bridge_modifier
  rpi_prompt_cache :: prompt_cache_request_control

definition default_request_processing_info :: request_processing_info where
  "default_request_processing_info = \<lparr>rpi_processing = TransformationRequired,
     rpi_zero_transform_forwarding_active = False, rpi_state_bridge = BridgeOff, rpi_prompt_cache = NoControl\<rparr>"

definition request_body_handling :: "request_processing_info \<Rightarrow> string" where
  "request_body_handling i =
     (if rpi_zero_transform_forwarding_active i then ''client_body_preserved'' else ''constructed'')"

fun state_bridge_text :: "state_bridge_modifier \<Rightarrow> string" where
  "state_bridge_text BridgeOff = ''off''"
| "state_bridge_text CaptureCandidate = ''capture_candidate''"
| "state_bridge_text BridgeExpanded = ''expanded''"

text \<open>The serialized form, with the text of the cache control as \<open>serde\<close> writes it.\<close>

definition request_processing_info_to_value :: "(prompt_cache_request_control \<Rightarrow> string)
    \<Rightarrow> request_processing_info \<Rightarrow> json" where
  "request_processing_info_to_value control_text i = jobj
     ([(''request_body_handling'', JStr (request_body_handling i))]
      @ (if rpi_state_bridge i = BridgeOff then []
         else [(''local_state_handling'', JStr (state_bridge_text (rpi_state_bridge i)))])
      @ [(''provider_prompt_cache_request_control'', JStr (control_text (rpi_prompt_cache i)))])"

record request_processing_input =
  in_client_format :: upstream_format
  in_upstream_format :: upstream_format
  in_body :: json
  in_requested_model :: string
  in_upstream_model :: string
  in_stream :: bool
  in_forced_stream :: bool
  in_route_policy_requires_body_mutation :: bool
  in_state_bridge :: state_bridge_modifier

definition model_less_stateful_responses :: "request_processing_input \<Rightarrow> bool" where
  "model_less_stateful_responses i =
     (in_client_format i = OpenAiResponses \<and> in_upstream_format i = OpenAiResponses
      \<and> trim (in_requested_model i) = [] \<and> trim (in_upstream_model i) = []
      \<and> responses_stateful_request_controls_present (in_body i))"

definition native_responses_model_less_stateful_passthrough :: "request_processing_input \<Rightarrow> bool" where
  "native_responses_model_less_stateful_passthrough i =
     (model_less_stateful_responses i \<and> is_object (in_body i) \<and> jget (in_body i) ''model'' = None)"

definition native_responses_model_less_stateful_model_removal :: "request_processing_input \<Rightarrow> bool" where
  "native_responses_model_less_stateful_model_removal i =
     (model_less_stateful_responses i \<and> is_object (in_body i) \<and> jget (in_body i) ''model'' \<noteq> None)"

definition model_body_mutation_required :: "request_processing_input \<Rightarrow> bool" where
  "model_body_mutation_required i =
     (if native_responses_model_less_stateful_passthrough i then False
      else if native_responses_model_less_stateful_model_removal i then True
      else if trim (in_requested_model i) \<noteq> trim (in_upstream_model i) then True
      else if \<not> is_object (in_body i) then False
      else jget_str (in_body i) ''model'' \<noteq> Some (in_upstream_model i))"

definition openai_chat_has_instruction_roles :: "json \<Rightarrow> bool" where
  "openai_chat_has_instruction_roles body =
     list_ex (\<lambda>m. role_of m \<in> {Some ''system'', Some ''developer''}) (array_at body ''messages'')"

definition openai_chat_has_adjacent_coalescible_string_messages :: "json \<Rightarrow> bool" where
  "openai_chat_has_adjacent_coalescible_string_messages body =
     (let ms = array_at body ''messages''
      in list_ex (\<lambda>(a, b). string_role a \<noteq> None \<and> string_role b = string_role a) (zip ms (tl ms)))"

definition responses_input_has_developer_role :: "json \<Rightarrow> bool" where
  "responses_input_has_developer_role body =
     list_ex (\<lambda>item. type_of item = Some ''message'' \<and> role_of item = Some ''developer'') (array_at body ''input'')"

definition same_protocol_request_mutation_required :: "request_processing_input \<Rightarrow> bool" where
  "same_protocol_request_mutation_required i =
     (if in_client_format i \<noteq> in_upstream_format i then False
      else (case in_client_format i of
          OpenAiChatCompletions \<Rightarrow> openai_chat_has_instruction_roles (in_body i)
            \<or> openai_chat_has_adjacent_coalescible_string_messages (in_body i)
            \<or> starts_with ''MiniMax-'' (in_upstream_model i)
        | OpenAiResponses \<Rightarrow> in_stream i \<and> responses_input_has_developer_role (in_body i)
        | Anthropic \<Rightarrow> False))"

definition request_transformation_required :: "request_processing_input \<Rightarrow> bool" where
  "request_transformation_required i =
     (in_client_format i \<noteq> in_upstream_format i \<or> in_state_bridge i \<noteq> BridgeOff \<or> in_forced_stream i
      \<or> model_body_mutation_required i \<or> in_route_policy_requires_body_mutation i
      \<or> same_protocol_request_mutation_required i)"

definition classify_request_processing :: "request_processing_input \<Rightarrow> request_processing_info" where
  "classify_request_processing i =
     \<lparr>rpi_processing = (if request_transformation_required i then TransformationRequired
                        else TransformationNotRequired),
      rpi_zero_transform_forwarding_active = False, rpi_state_bridge = in_state_bridge i,
      rpi_prompt_cache = classify_provider_prompt_cache_request_control (in_client_format i)
        (in_upstream_format i) (in_body i)\<rparr>"

section \<open>The repairs of a request that stays in its protocol\<close>

text \<open>What \<open>translate_request_with_policy\<close> does before the policy's defaults when the formats are equal.\<close>

definition same_format_repairs :: "upstream_format \<Rightarrow> bool \<Rightarrow> string \<Rightarrow> json \<Rightarrow> json" where
  "same_format_repairs format stream model body =
     (let body = (if stream \<and> format \<noteq> OpenAiChatCompletions
                  then normalize_openai_roles_for_compatibility format body else body)
      in if format = OpenAiChatCompletions
         then apply_openai_completion_compat_overrides model
           (apply_openai_completion_maximum_safe_role_repairs body)
         else body)"

section \<open>Requests that need no transformation\<close>

text \<open>The keys of an object are in order, as those of every parsed body are.\<close>

fun keys_ordered :: "json \<Rightarrow> bool" where
  "keys_ordered (JObj kvs) = omap_ok kvs"
| "keys_ordered v = True"

lemma omap_insert_same: "omap_ok m \<Longrightarrow> map_of m k = Some v \<Longrightarrow> omap_insert k v m = m"
proof (induction m)
  case (Cons kv m)
  obtain k' v' where kv: "kv = (k', v')" by (cases kv)
  show ?case
  proof (cases "k = k'")
    case False
    then have "map_of m k = Some v" and "omap_ok m" using Cons.prems by (auto simp: kv omap_ok_def)
    moreover have "k' < k"
      using Cons.prems(1) \<open>map_of m k = Some v\<close> by (force simp: kv omap_ok_def dest: map_of_SomeD)
    ultimately show ?thesis using Cons.IH False by (auto simp: kv)
  qed (use Cons.prems in \<open>simp add: kv\<close>)
qed simp

lemma jset_same: "keys_ordered v \<Longrightarrow> jget v k = Some x \<Longrightarrow> jset k x v = v"
  by (cases v) (simp_all add: omap_insert_same)

lemma with_array_same:
  "keys_ordered v \<Longrightarrow> f (array_at v k) = array_at v k \<Longrightarrow> with_array k f v = v"
proof (cases "jget_array v k")
  case (Some xs)
  assume "keys_ordered v" "f (array_at v k) = array_at v k"
  then have "f xs = xs" using Some by (simp add: array_at_def)
  moreover have "jget v k = Some (JArr xs)" using Some by (simp add: jget_array_Some)
  ultimately show ?thesis using \<open>keys_ordered v\<close> Some by (simp add: with_array_def jset_same)
qed (simp add: with_array_def)

lemma apart_of_windows:
  "roles_apart ms \<longleftrightarrow> \<not> list_ex (\<lambda>(a, b). string_role a \<noteq> None \<and> string_role b = string_role a) (zip ms (tl ms))"
proof (induction ms)
  case (Cons m ms)
  then show ?case by (cases ms) (auto simp: roles_apart_def)
qed (simp add: roles_apart_def)

lemma settled_chat:
  assumes "keys_ordered body" and "\<not> openai_chat_has_instruction_roles body"
    and "\<not> openai_chat_has_adjacent_coalescible_string_messages body"
  shows "apply_openai_completion_maximum_safe_role_repairs body = body"
proof -
  let ?ms = "array_at body ''messages''"
  have "map downgrade_instruction ?ms = ?ms"
    using assms(2) by (intro map_idI downgrade_settled)
      (auto simp: openai_chat_has_instruction_roles_def list_ex_iff is_instruction_role_def)
  moreover have "coalesce_messages ?ms = ?ms"
    using assms(3) by (simp add: coalesce_merge_runs apart_merge_runs apart_of_windows
        openai_chat_has_adjacent_coalescible_string_messages_def Let_def)
  ultimately show ?thesis
    using assms(1) by (simp add: apply_openai_completion_maximum_safe_role_repairs_def
        coalesce_openai_string_messages_def with_array_same)
qed

lemma settled_responses:
  assumes "keys_ordered body" and "\<not> responses_input_has_developer_role body"
  shows "normalize_openai_responses_roles body = body"
  using assms unfolding normalize_openai_responses_roles_def
  by (intro with_array_same map_idI)
    (auto simp: responses_input_has_developer_role_def developer_to_system_def list_ex_iff)

text \<open>C40.
  A request that is classified as needing no transformation is one the translation would not change:
  its formats are equal, it names the upstream's model already, and the repairs of its protocol
  give back the same body.\<close>

theorem untransformed_request_is_settled:
  assumes "rpi_processing (classify_request_processing i) = TransformationNotRequired"
    and "keys_ordered (in_body i)" and "is_object (in_body i)"
  shows "in_client_format i = in_upstream_format i \<and> in_state_bridge i = BridgeOff \<and> \<not> in_forced_stream i
    \<and> (if native_responses_model_less_stateful_passthrough i then jget (in_body i) ''model'' = None
       else jget_str (in_body i) ''model'' = Some (in_upstream_model i))
    \<and> same_format_repairs (in_upstream_format i) (in_stream i) (in_upstream_model i) (in_body i) = in_body i"
proof -
  have req: "\<not> request_transformation_required i"
    using assms(1) by (simp add: classify_request_processing_def split: if_splits)
  then have settled: "\<not> same_protocol_request_mutation_required i" and eq: "in_client_format i = in_upstream_format i"
    by (simp_all add: request_transformation_required_def)
  have "same_format_repairs (in_upstream_format i) (in_stream i) (in_upstream_model i) (in_body i) = in_body i"
  proof (cases "in_upstream_format i")
    case OpenAiChatCompletions
    then show ?thesis
      using settled eq settled_chat [OF assms(2)]
      by (simp add: same_protocol_request_mutation_required_def same_format_repairs_def
          apply_openai_completion_compat_overrides_def is_minimax_model_def)
  next
    case OpenAiResponses
    then show ?thesis
      using settled eq settled_responses [OF assms(2)]
      by (auto simp: same_protocol_request_mutation_required_def same_format_repairs_def
          normalize_openai_roles_for_compatibility_def)
  next
    case Anthropic
    then show ?thesis by (simp add: same_format_repairs_def normalize_openai_roles_for_compatibility_def)
  qed
  moreover have "if native_responses_model_less_stateful_passthrough i then jget (in_body i) ''model'' = None
      else jget_str (in_body i) ''model'' = Some (in_upstream_model i)"
    using req assms(3) by (auto simp: request_transformation_required_def model_body_mutation_required_def
        native_responses_model_less_stateful_passthrough_def split: if_splits)
  ultimately show ?thesis using req by (simp add: request_transformation_required_def)
qed

definition settled_request :: request_processing_input where
  "settled_request = \<lparr>in_client_format = OpenAiChatCompletions, in_upstream_format = OpenAiChatCompletions,
     in_body = JObj [(''messages'', JArr [jobj [(''role'', JStr ''user''), (''content'', JStr ''hi'')]]),
       (''model'', JStr ''m'')],
     in_requested_model = ''m'', in_upstream_model = ''m'', in_stream = True, in_forced_stream = False,
     in_route_policy_requires_body_mutation = False, in_state_bridge = BridgeOff\<rparr>"

theorem untransformed_request_is_settled_witness:
  "same_format_repairs OpenAiChatCompletions True ''m'' (in_body settled_request) = in_body settled_request"
proof -
  have "rpi_processing (classify_request_processing settled_request) = TransformationNotRequired" by code_simp
  moreover have "keys_ordered (in_body settled_request)" by code_simp
  moreover have "is_object (in_body settled_request)" by code_simp
  ultimately show ?thesis
    using untransformed_request_is_settled [of settled_request] by (simp add: settled_request_def)
qed

end
