(* ===== verification/Hook_Payload.thy ===== *)
theory Hook_Payload
  imports Hook_Stream Request_Processing
begin

text \<open>
  What the hooks send (\<open>src/hooks.rs\<close>): the payloads of the usage hook and of the exchange hook, the
  headers and the fingerprint of the credential they carry. Enumerations are written as \<open>serde\<close> renames
  them; the text of a cache control is a parameter, as in \<open>Request_Processing\<close>.
\<close>

datatype credential_source = ClientCredential | ServerCredential

record header_entry =
  he_name :: string
  he_value :: string

record hook_request_context =
  hc_request_id :: string
  hc_timestamp_ms :: nat
  hc_path :: string
  hc_method :: string
  hc_stream :: bool
  hc_client_model :: string
  hc_upstream_name :: string
  hc_upstream_model :: string
  hc_client_format :: upstream_format
  hc_upstream_format :: upstream_format
  hc_llmup :: request_processing_info
  hc_credential_source :: credential_source
  hc_credential_fingerprint :: "string option"
  hc_request_headers :: "header_entry list"
  hc_request_body :: json

fun credential_source_text :: "credential_source \<Rightarrow> string" where
  "credential_source_text ClientCredential = ''client''"
| "credential_source_text ServerCredential = ''server''"

fun reason_text :: "termination_reason \<Rightarrow> string" where
  "reason_text ReasonCompleted = ''completed''"
| "reason_text ReasonIncomplete = ''incomplete''"
| "reason_text ReasonFailed = ''failed''"
| "reason_text ReasonClientDisconnected = ''client_disconnected''"
| "reason_text ReasonStreamError = ''stream_error''"

fun usage_status_text :: "usage_hook_status \<Rightarrow> string" where
  "usage_status_text UsageSuccess = ''success''"
| "usage_status_text UsageIncomplete = ''incomplete''"
| "usage_status_text UsageError = ''error''"
| "usage_status_text UsageCancelled = ''cancelled''"

fun transport_text :: "transport_outcome \<Rightarrow> string" where
  "transport_text CompletedEof = ''completed_eof''"
| "transport_text ClientDisconnected = ''client_disconnected''"
| "transport_text StreamError = ''stream_error''"

fun terminal_kind_text :: "protocol_terminal_kind \<Rightarrow> string" where
  "terminal_kind_text TerminalSuccess = ''success''"
| "terminal_kind_text TerminalIncomplete = ''incomplete''"
| "terminal_kind_text TerminalFailed = ''failed''"

text \<open>A field that is skipped when there is nothing to write.\<close>

definition some_field :: "string \<Rightarrow> json option \<Rightarrow> (string \<times> json) list" where
  "some_field k v = (case v of None \<Rightarrow> [] | Some x \<Rightarrow> [(k, x)])"

definition terminal_to_value :: "protocol_terminal \<Rightarrow> json" where
  "terminal_to_value t = jobj
     ([(''kind'', JStr (terminal_kind_text (pt_kind t))), (''event_type'', JStr (pt_event_type t))]
      @ some_field ''finish_reason'' (map_option JStr (pt_finish_reason t))
      @ some_field ''incomplete_reason'' (map_option JStr (pt_incomplete_reason t))
      @ some_field ''error'' (pt_error t))"

definition usage_to_value :: "normalized_usage \<Rightarrow> json" where
  "usage_to_value u = jobj
     (some_field ''input_tokens'' (map_option jnat (nu_input u))
      @ some_field ''output_tokens'' (map_option jnat (nu_output u))
      @ some_field ''total_tokens'' (map_option jnat (nu_total u))
      @ some_field ''cached_input_tokens'' (map_option jnat (nu_cached_input u))
      @ some_field ''reasoning_tokens'' (map_option jnat (nu_reasoning u))
      @ some_field ''cache_creation_input_tokens'' (map_option jnat (nu_cache_creation u))
      @ some_field ''cache_read_input_tokens'' (map_option jnat (nu_cache_read u)))"

fun counter_text :: "cache_counter \<Rightarrow> string" where
  "counter_text HitTokens = ''hit_tokens''"
| "counter_text ReadTokens = ''read_tokens''"
| "counter_text WriteTokens = ''write_tokens''"

definition source_field_to_value :: "cache_source_field \<Rightarrow> json" where
  "source_field_to_value f = jobj
     [(''source_field'', JStr (csf_field f)),
      (''counters'', JArr (map (\<lambda>c. JStr (counter_text c)) (csf_counters f))),
      (''value'', jnat (csf_value f))]"

definition cache_usage_to_value :: "provider_cache_usage \<Rightarrow> json" where
  "cache_usage_to_value u = jobj
     ([(''provider'', JStr (if pcu_provider u = OpenAiCache then ''openai'' else ''anthropic'')),
       (''source_format'', JStr (format_display (pcu_format u)))]
      @ some_field ''hit_tokens'' (map_option jnat (pcu_hit u))
      @ some_field ''read_tokens'' (map_option jnat (pcu_read u))
      @ some_field ''write_tokens'' (map_option jnat (pcu_write u))
      @ [(''source_fields'', JArr (map source_field_to_value (pcu_fields u)))])"

definition usage_hook_payload :: "(prompt_cache_request_control \<Rightarrow> string) \<Rightarrow> hook_request_context \<Rightarrow> nat
    \<Rightarrow> normalized_usage \<Rightarrow> provider_cache_usage option \<Rightarrow> stream_observation \<Rightarrow> json" where
  "usage_hook_payload control_text ctx status u cache o' =
     (let st = project_legacy o';
          payload = jobj
            [(''request_id'', JStr (hc_request_id ctx)), (''timestamp_ms'', jnat (hc_timestamp_ms ctx)),
             (''path'', JStr (hc_path ctx)), (''stream'', JBool (hc_stream ctx)),
             (''completed'', JBool (lf_completed st)),
             (''cancelled_by_client'', JBool (lf_cancelled_by_client st)),
             (''partial'', JBool (lf_partial st)),
             (''termination_reason'', JStr (reason_text (lf_reason st))),
             (''status'', JStr (usage_status_text (project_usage_status status o'))),
             (''http_status'', jnat status),
             (''client_model'', JStr (hc_client_model ctx)), (''upstream_name'', JStr (hc_upstream_name ctx)),
             (''upstream_model'', JStr (hc_upstream_model ctx)),
             (''client_format'', JStr (format_display (hc_client_format ctx))),
             (''upstream_format'', JStr (format_display (hc_upstream_format ctx))),
             (''llmup'', request_processing_info_to_value control_text (hc_llmup ctx)),
             (''credential_source'', JStr (credential_source_text (hc_credential_source ctx))),
             (''credential_fingerprint'', jopt_str (hc_credential_fingerprint ctx)),
             (''transport_outcome'', JStr (transport_text (obs_transport o'))),
             (''protocol_terminal'', jopt (map_option terminal_to_value (obs_terminal o'))),
             (''usage'', usage_to_value u)]
      in if hc_client_format ctx = hc_upstream_format ctx
            \<and> rpi_zero_transform_forwarding_active (hc_llmup ctx)
         then (case cache of None \<Rightarrow> payload
               | Some c \<Rightarrow> jset ''provider_cache_usage'' (cache_usage_to_value c) payload)
         else payload)"

definition header_to_value :: "header_entry \<Rightarrow> json" where
  "header_to_value h = jobj [(''name'', JStr (he_name h)), (''value'', JStr (he_value h))]"

definition exchange_payload_of :: "(prompt_cache_request_control \<Rightarrow> string) \<Rightarrow> hook_request_context \<Rightarrow> nat
    \<Rightarrow> header_entry list \<Rightarrow> json \<Rightarrow> stream_observation \<Rightarrow> json" where
  "exchange_payload_of control_text ctx status headers body o' =
     (let st = project_legacy o'
      in jobj
        [(''request_id'', JStr (hc_request_id ctx)), (''timestamp_ms'', jnat (hc_timestamp_ms ctx)),
         (''path'', JStr (hc_path ctx)), (''method'', JStr (hc_method ctx)), (''stream'', JBool (hc_stream ctx)),
         (''client_format'', JStr (format_display (hc_client_format ctx))),
         (''upstream_format'', JStr (format_display (hc_upstream_format ctx))),
         (''client_model'', JStr (hc_client_model ctx)), (''upstream_name'', JStr (hc_upstream_name ctx)),
         (''upstream_model'', JStr (hc_upstream_model ctx)),
         (''llmup'', request_processing_info_to_value control_text (hc_llmup ctx)),
         (''credential_source'', JStr (credential_source_text (hc_credential_source ctx))),
         (''credential_fingerprint'', jopt_str (hc_credential_fingerprint ctx)),
         (''completed'', JBool (lf_completed st)),
         (''cancelled_by_client'', JBool (lf_cancelled_by_client st)),
         (''partial'', JBool (lf_partial st)),
         (''termination_reason'', JStr (reason_text (lf_reason st))),
         (''transport_outcome'', JStr (transport_text (obs_transport o'))),
         (''protocol_terminal'', jopt (map_option terminal_to_value (obs_terminal o'))),
         (''request'', jobj [(''headers'', JArr (map header_to_value (hc_request_headers ctx))),
            (''body'', hc_request_body ctx)]),
         (''response'', jobj [(''status'', jnat status), (''headers'', JArr (map header_to_value headers)),
            (''body'', body)])])"

definition into_json_payload :: "env \<Rightarrow> (prompt_cache_request_control \<Rightarrow> string) \<Rightarrow> bool \<Rightarrow> hook_request_context
    \<Rightarrow> nat \<Rightarrow> header_entry list \<Rightarrow> exchange_response_capture \<Rightarrow> stream_observation \<Rightarrow> json option" where
  "into_json_payload E control_text completed ctx status headers capture o' =
     map_option (\<lambda>body. exchange_payload_of control_text ctx status headers body o')
       (captured_body E completed capture)"

section \<open>Headers and fingerprints\<close>

definition client_credential_headers :: "string list" where
  "client_credential_headers =
     [''authorization'', ''x-api-key'', ''x-goog-api-key'', ''api-key'', ''openai-api-key'',
      ''anthropic-api-key'', ''x-llmup-data-token'']"

definition is_client_credential_header_name :: "string \<Rightarrow> bool" where
  "is_client_credential_header_name name = (to_ascii_lowercase name \<in> set client_credential_headers)"

text \<open>The headers of a request, a value being none when it is not text.\<close>

definition capture_headers :: "(string \<times> string option) list \<Rightarrow> header_entry list" where
  "capture_headers headers = List.map_filter (\<lambda>(n, v). map_option (\<lambda>t. \<lparr>he_name = n, he_value = t\<rparr>) v)
     (filter (\<lambda>(n, _). \<not> is_client_credential_header_name n) headers)"

definition json_response_headers :: "header_entry list" where
  "json_response_headers = [\<lparr>he_name = ''content-type'', he_value = ''application/json''\<rparr>]"

definition sse_response_headers :: "header_entry list" where
  "sse_response_headers =
     [\<lparr>he_name = ''content-type'', he_value = ''text/event-stream''\<rparr>,
      \<lparr>he_name = ''cache-control'', he_value = ''no-cache''\<rparr>,
      \<lparr>he_name = ''connection'', he_value = ''keep-alive''\<rparr>]"

definition fingerprint_credential :: "env \<Rightarrow> string \<Rightarrow> string" where
  "fingerprint_credential E credential =
     take 16 (sha256_hex E (''llm-universal-proxy:v1:'' @ credential))"

text \<open>\<open>emit_non_stream\<close>: the report of an answer that was not streamed.\<close>

definition non_stream_report :: "upstream_format \<Rightarrow> json \<Rightarrow> hook_report" where
  "non_stream_report format body =
     \<lparr>rp_capture = Some (ImmediateBody body), rp_observation = non_stream_completed,
      rp_usage = usage_from_client_body format body,
      rp_cache_usage = provider_cache_usage_from_client_body format body\<rparr>"

section \<open>Properties\<close>

text \<open>
  What leaves with the exchange hook: the body of the response carries the internal mark of a tool call
  nowhere, whether it was answered at once, replayed from the spool or not captured, and the captured
  request headers have no credential among them whatever the letter case of its name.\<close>

theorem exchange_payload_is_clean:
  "(case into_json_payload E control_text completed ctx status headers capture o' of
      None \<Rightarrow> True
    | Some payload \<Rightarrow> (case ogetj (jget payload ''response'') ''body'' of
          None \<Rightarrow> False | Some body \<Rightarrow> mark_free body))
   \<and> list_all (\<lambda>h. to_ascii_lowercase (he_name h) \<notin> set client_credential_headers)
       (capture_headers request_headers)"
proof -
  have "mark_free b" if "captured_body E completed capture = Some b" for b
    using that strip_marks(1) by (auto simp: captured_body_def)
  moreover have "ogetj (jget (exchange_payload_of control_text ctx status headers b o') ''response'') ''body'' = Some b" for b
    by (simp add: exchange_payload_of_def Let_def)
  moreover have "\<not> is_client_credential_header_name (he_name h)" if "h \<in> set (capture_headers request_headers)" for h
    using that by (auto simp: capture_headers_def List.map_filter_def)
  ultimately show ?thesis
    by (auto simp: into_json_payload_def list_all_iff is_client_credential_header_name_def split: option.split)
qed

end
