(* ===== verification/Dialect.thy ===== *)
theory Dialect
  imports Formats Request_Json
begin

text \<open>
  Reasoning dialects: the levels, mechanisms, blocks and presets (src/src/config/dialect.rs), and what
  is written into the body of an upstream request (src/src/translate/internal/dialect_emit.rs). The
  serde attributes of the types are their wire names.
\<close>

section \<open>Levels, mechanisms, blocks\<close>

datatype reasoning_level =
  LevelNone | LevelMinimal | LevelLow | LevelMedium | LevelHigh | LevelXhigh | LevelMax | LevelUltra

text \<open>The derived \<open>Ord\<close>: the order of declaration.\<close>

fun level_rank :: "reasoning_level \<Rightarrow> nat" where
  "level_rank LevelNone = 0"
| "level_rank LevelMinimal = 1"
| "level_rank LevelLow = 2"
| "level_rank LevelMedium = 3"
| "level_rank LevelHigh = 4"
| "level_rank LevelXhigh = 5"
| "level_rank LevelMax = 6"
| "level_rank LevelUltra = 7"

lemma level_rank_inj: "level_rank a = level_rank b \<Longrightarrow> a = b"
  by (cases a; cases b) simp_all

instantiation reasoning_level :: linorder
begin

definition less_eq_reasoning_level :: "reasoning_level \<Rightarrow> reasoning_level \<Rightarrow> bool" where
  "less_eq_reasoning_level a b = (level_rank a \<le> level_rank b)"

definition less_reasoning_level :: "reasoning_level \<Rightarrow> reasoning_level \<Rightarrow> bool" where
  "less_reasoning_level a b = (level_rank a < level_rank b)"

instance
  by standard (auto simp: less_eq_reasoning_level_def less_reasoning_level_def intro: level_rank_inj)

end

fun level_display :: "reasoning_level \<Rightarrow> string" where
  "level_display LevelNone = ''none''"
| "level_display LevelMinimal = ''minimal''"
| "level_display LevelLow = ''low''"
| "level_display LevelMedium = ''medium''"
| "level_display LevelHigh = ''high''"
| "level_display LevelXhigh = ''xhigh''"
| "level_display LevelMax = ''max''"
| "level_display LevelUltra = ''ultra''"

definition level_parse :: "string \<Rightarrow> string + reasoning_level" where
  "level_parse name =
    (if name = ''none'' then Inr LevelNone
     else if name = ''minimal'' then Inr LevelMinimal
     else if name = ''low'' then Inr LevelLow
     else if name = ''medium'' then Inr LevelMedium
     else if name = ''high'' then Inr LevelHigh
     else if name = ''xhigh'' then Inr LevelXhigh
     else if name = ''max'' then Inr LevelMax
     else if name = ''ultra'' then Inr LevelUltra
     else Inl (''unknown reasoning level `'' @ name @ ''`''))"

datatype reasoning_mechanism = OpenAiEffort | AnthropicEffort | AnthropicThinking | AutoOnly | NoMechanism

fun mechanism_as_str :: "reasoning_mechanism \<Rightarrow> string" where
  "mechanism_as_str OpenAiEffort = ''openai-effort''"
| "mechanism_as_str AnthropicEffort = ''anthropic-effort''"
| "mechanism_as_str AnthropicThinking = ''anthropic-thinking''"
| "mechanism_as_str AutoOnly = ''auto-only''"
| "mechanism_as_str NoMechanism = ''none''"

record dialect_block =
  db_reasoning :: reasoning_mechanism
  db_reasoning_echo :: "bool option"
  db_reasoning_levels :: "reasoning_level list option"

text \<open>The first pair of neighbours (\<open>windows(2)\<close>) that does not increase.\<close>

fun first_disorder :: "reasoning_level list \<Rightarrow> (reasoning_level \<times> reasoning_level) option" where
  "first_disorder (a # b # r) = (if a \<ge> b then Some (a, b) else first_disorder (b # r))"
| "first_disorder _ = None"

definition validate_dialect :: "dialect_block \<Rightarrow> validation" where
  "validate_dialect b = (case db_reasoning_levels b of
      None \<Rightarrow> Inr ()
    | Some levels \<Rightarrow>
        if levels = [] then Inl ''dialect.reasoning_levels must not be empty''
        else (case first_disorder levels of
            None \<Rightarrow> Inr ()
          | Some (a, c) \<Rightarrow> Inl (''dialect.reasoning_levels must be strictly increasing in union order; `''
              @ level_display a @ ''` before `'' @ level_display c @ ''`'')))"

datatype upstream_dialect = Preset string | Detailed dialect_block

definition resolve_dialect_preset :: "string \<Rightarrow> dialect_block option" where
  "resolve_dialect_preset name =
    (if name = ''deepseek-openai'' then Some
       \<lparr>db_reasoning = OpenAiEffort, db_reasoning_echo = Some True,
        db_reasoning_levels = Some [LevelLow, LevelHigh, LevelMax]\<rparr>
     else if name = ''glm-openai'' then Some
       \<lparr>db_reasoning = OpenAiEffort, db_reasoning_echo = Some True,
        db_reasoning_levels = Some [LevelNone, LevelMinimal, LevelHigh, LevelMax]\<rparr>
     else if name = ''glm-anthropic'' then Some
       \<lparr>db_reasoning = AutoOnly, db_reasoning_echo = Some False, db_reasoning_levels = None\<rparr>
     else if name = ''qwen-openai'' then Some
       \<lparr>db_reasoning = AutoOnly, db_reasoning_echo = Some True, db_reasoning_levels = None\<rparr>
     else None)"

fun resolve_dialect :: "upstream_dialect \<Rightarrow> string + dialect_block" where
  "resolve_dialect (Preset name) = (case resolve_dialect_preset name of
      None \<Rightarrow> Inl (''unknown dialect preset `'' @ name @ ''`'') | Some b \<Rightarrow> Inr b)"
| "resolve_dialect (Detailed b) = res_bind (validate_dialect b) (\<lambda>_. Inr b)"

section \<open>What the client asks for\<close>

definition parse_client_reasoning_effort :: "json \<Rightarrow> upstream_format \<Rightarrow> reasoning_level option" where
  "parse_client_reasoning_effort body client_format =
    (let raw = (case client_format of
         OpenAiChatCompletions \<Rightarrow> jget_str body ''reasoning_effort''
       | OpenAiResponses \<Rightarrow> ostr (ogetj (jget body ''reasoning'') ''effort'')
       | Anthropic \<Rightarrow> ostr (ogetj (jget body ''output_config'') ''effort''))
     in Option.bind raw (\<lambda>r. case level_parse r of Inl _ \<Rightarrow> None | Inr l \<Rightarrow> Some l))"

section \<open>What is sent\<close>

fun maps_reasoning :: "reasoning_mechanism \<Rightarrow> bool" where
  "maps_reasoning m = (m \<in> {OpenAiEffort, AnthropicEffort, AnthropicThinking})"

definition dialect_maps_reasoning :: "dialect_block option \<Rightarrow> bool" where
  "dialect_maps_reasoning d = (case d of None \<Rightarrow> False | Some b \<Rightarrow> maps_reasoning (db_reasoning b))"

text \<open>The ceiling; \<open>None\<close> is the panic of \<open>expect\<close> on an empty list of levels.\<close>

definition ceiling_for :: "dialect_block \<Rightarrow> reasoning_level option" where
  "ceiling_for d = (case db_reasoning_levels d of
      Some levels \<Rightarrow> if levels = [] then None else Some (last levels)
    | None \<Rightarrow> Some (case db_reasoning d of
          OpenAiEffort \<Rightarrow> LevelMax | AnthropicEffort \<Rightarrow> LevelMax | _ \<Rightarrow> LevelUltra))"

definition cap_to_ceiling :: "reasoning_level \<Rightarrow> dialect_block \<Rightarrow> (reasoning_level \<times> bool) option" where
  "cap_to_ceiling effort d = map_option (\<lambda>c. if effort > c then (c, True) else (effort, False)) (ceiling_for d)"

definition cap_warning :: "reasoning_level \<Rightarrow> reasoning_level \<Rightarrow> string" where
  "cap_warning original capped = ''reasoning effort `'' @ level_display original
     @ ''` exceeds this upstream dialect's ceiling `'' @ level_display capped @ ''` and was capped''"

text \<open>\<open>entry(k).or_insert({})\<close>, then \<open>insert(f, x)\<close> when the entry is an object.\<close>

definition insert_in_object_field :: "string \<Rightarrow> string \<Rightarrow> json \<Rightarrow> json \<Rightarrow> json" where
  "insert_in_object_field k f x v = with_field k (jinsert f x) (or_insert k (JObj []) v)"

definition emit_openai_effort :: "json \<Rightarrow> upstream_format \<Rightarrow> reasoning_level \<Rightarrow> json" where
  "emit_openai_effort body upstream level = (case upstream of
      OpenAiChatCompletions \<Rightarrow> jinsert ''reasoning_effort'' (JStr (level_display level)) body
    | OpenAiResponses \<Rightarrow>
        insert_in_object_field ''reasoning'' ''effort'' (JStr (level_display level)) (jremove ''reasoning_effort'' body)
    | Anthropic \<Rightarrow> jinsert ''reasoning_effort'' (JStr (level_display level)) body)"

definition emit_anthropic_effort :: "json \<Rightarrow> reasoning_level \<Rightarrow> json" where
  "emit_anthropic_effort body level =
     insert_in_object_field ''output_config'' ''effort'' (JStr (level_display level)) body"

fun budget_tokens_for :: "reasoning_level \<Rightarrow> nat" where
  "budget_tokens_for LevelMinimal = 1024"
| "budget_tokens_for LevelLow = 2048"
| "budget_tokens_for LevelMedium = 8000"
| "budget_tokens_for LevelHigh = 16000"
| "budget_tokens_for LevelXhigh = 24000"
| "budget_tokens_for LevelMax = 32000"
| "budget_tokens_for LevelUltra = 32000"
| "budget_tokens_for LevelNone = 1024"

definition emit_anthropic_thinking :: "json \<Rightarrow> reasoning_level \<Rightarrow> json" where
  "emit_anthropic_thinking body level = jinsert ''thinking''
     (if level = LevelNone then jobj [(''type'', JStr ''disabled'')]
      else jobj [(''type'', JStr ''enabled''), (''budget_tokens'', jnat (budget_tokens_for level))]) body"

definition strip_reasoning_fields :: "json \<Rightarrow> upstream_format \<Rightarrow> json" where
  "strip_reasoning_fields body upstream = (case upstream of
      OpenAiChatCompletions \<Rightarrow> jremove ''reasoning_effort'' body
    | OpenAiResponses \<Rightarrow> with_field ''reasoning'' (jremove ''effort'') (jremove ''reasoning_effort'' body)
    | Anthropic \<Rightarrow> jremove ''thinking'' (with_field ''output_config'' (jremove ''effort'') body))"

definition dropped_warning :: "reasoning_level \<Rightarrow> reasoning_mechanism \<Rightarrow> string" where
  "dropped_warning effort m = ''reasoning effort `'' @ level_display effort
     @ ''` is not translatable to this upstream's dialect mechanism (`'' @ mechanism_as_str m
     @ ''`) and was dropped''"

text \<open>The body and the warning; \<open>None\<close> is a panic.\<close>

definition apply_dialect_reasoning_emit ::
    "json \<Rightarrow> upstream_format \<Rightarrow> dialect_block \<Rightarrow> reasoning_level \<Rightarrow> (json \<times> string option) option" where
  "apply_dialect_reasoning_emit body upstream d effort =
    (let capped = (\<lambda>emit. map_option (\<lambda>(level, capped).
           (emit level, if capped then Some (cap_warning effort level) else None)) (cap_to_ceiling effort d))
     in case db_reasoning d of
          OpenAiEffort \<Rightarrow> capped (emit_openai_effort body upstream)
        | AnthropicEffort \<Rightarrow> capped (emit_anthropic_effort body)
        | AnthropicThinking \<Rightarrow> capped (emit_anthropic_thinking body)
        | m \<Rightarrow> Some (strip_reasoning_fields body upstream, Some (dropped_warning effort m)))"

section \<open>Properties\<close>

lemma level_parse_display: "level_parse (level_display l) = Inr l"
  by (cases l) (simp_all add: level_parse_def)

lemma level_display_parse: "level_parse s = Inr l \<Longrightarrow> s = level_display l"
  by (auto simp: level_parse_def split: if_splits)

lemma first_disorder_None: "first_disorder ls = None \<longleftrightarrow> sorted_wrt (<) ls"
proof (induction ls rule: first_disorder.induct)
  case (1 a b r)
  then show ?case by (auto simp: not_le intro: less_trans)
qed simp_all

lemma presets_valid: "resolve_dialect_preset name = Some b \<Longrightarrow> validate_dialect b = Inr ()"
  by (auto simp: resolve_dialect_preset_def validate_dialect_def less_eq_reasoning_level_def split: if_splits)

lemma resolved_valid: "resolve_dialect u = Inr b \<Longrightarrow> validate_dialect b = Inr ()"
  by (cases u) (auto simp: res_bind_Inr presets_valid split: option.splits)

lemma valid_ceiling:
  assumes "validate_dialect b = Inr ()"
  obtains c where "ceiling_for b = Some c"
    "case db_reasoning_levels b of None \<Rightarrow> True | Some ls \<Rightarrow> \<forall>l \<in> set ls. l \<le> c"
proof (cases "db_reasoning_levels b")
  case None
  then show ?thesis using that by (simp add: ceiling_for_def)
next
  case (Some ls)
  then have ls: "ls \<noteq> []" "sorted_wrt (<) ls"
    using assms by (auto simp: validate_dialect_def first_disorder_None split: if_splits option.splits)
  then have "l \<le> last ls" if "l \<in> set ls" for l
    using that strict_sorted_imp_sorted [OF ls(2)] ls(1)
    by (metis append_butlast_last_id sorted_append in_set_conv_decomp set_ConsD Un_iff set_append
        list.set_intros(1) order_refl empty_iff list.set(1))
  then show ?thesis using that Some ls(1) by (simp add: ceiling_for_def)
qed

text \<open>The mechanism of a format: the one whose shape a request of the format has.\<close>

fun speaks :: "reasoning_mechanism \<Rightarrow> upstream_format \<Rightarrow> bool" where
  "speaks OpenAiEffort f = (f \<noteq> Anthropic)"
| "speaks AnthropicEffort f = (f = Anthropic)"
| "speaks m f = (m \<noteq> AnthropicThinking)"

definition object_or_absent :: "json \<Rightarrow> string \<Rightarrow> bool" where
  "object_or_absent body k = (case jget body k of None \<Rightarrow> True | Some v \<Rightarrow> is_object v)"

lemma jget_insert_in_object_field:
  "is_object body \<Longrightarrow> object_or_absent body k \<Longrightarrow> ogetj (jget (insert_in_object_field k f x body) k) f = Some x"
  by (auto simp: insert_in_object_field_def jget_with_field jget_or_insert jget_jinsert object_or_absent_def
      split: option.splits)

lemma object_or_absent_jremove: "k \<noteq> k' \<Longrightarrow> object_or_absent (jremove k' body) k = object_or_absent body k"
  by (simp add: object_or_absent_def)

text \<open>
  The place in the body where a mechanism keeps the level, whatever the format of the upstream: the
  configuration accepts every mechanism with every format.
\<close>

definition written_level :: "reasoning_mechanism \<Rightarrow> upstream_format \<Rightarrow> json \<Rightarrow> json option" where
  "written_level m f body = (case m of
      OpenAiEffort \<Rightarrow> if f = OpenAiResponses then ogetj (jget body ''reasoning'') ''effort'' else jget body ''reasoning_effort''
    | AnthropicEffort \<Rightarrow> ogetj (jget body ''output_config'') ''effort''
    | AnthropicThinking \<Rightarrow> jget body ''thinking''
    | _ \<Rightarrow> None)"

text \<open>A level in the words of a mechanism.\<close>

definition level_value :: "reasoning_mechanism \<Rightarrow> reasoning_level \<Rightarrow> json" where
  "level_value m l = (if m = AnthropicThinking
     then (if l = LevelNone then jobj [(''type'', JStr ''disabled'')]
           else jobj [(''type'', JStr ''enabled''), (''budget_tokens'', jnat (budget_tokens_for l))])
     else JStr (level_display l))"

text \<open>C23.
  Whatever level the client asked for, whatever the mechanism of the upstream's dialect and the format of
  the upstream, writing the level never panics. A mechanism that carries a level writes the level itself
  when it is within the ceiling of the dialect and the ceiling otherwise, at its own place in the body, and
  the client is warned exactly when it was cut; where the mechanism is that of the format, this is the
  level the upstream reads. A mechanism that carries none leaves no level to read, and warns. The body is
  an object whose reasoning fields are objects where they are present.\<close>

theorem emitted_level_within_ceiling:
  assumes "resolve_dialect u = Inr d" and "is_object body"
    and "object_or_absent body ''reasoning''" and "object_or_absent body ''output_config''"
  shows "case apply_dialect_reasoning_emit body f d effort of
      None \<Rightarrow> False
    | Some (body', w) \<Rightarrow>
        (if maps_reasoning (db_reasoning d)
         then (\<exists>c. ceiling_for d = Some c
            \<and> written_level (db_reasoning d) f body' = Some (level_value (db_reasoning d) (min effort c))
            \<and> (if speaks (db_reasoning d) f then parse_client_reasoning_effort body' f = Some (min effort c) else True)
            \<and> w = (if c < effort then Some (cap_warning effort c) else None))
         else parse_client_reasoning_effort body' f = None \<and> w = Some (dropped_warning effort (db_reasoning d)))"
proof -
  obtain c where c: "ceiling_for d = Some c" using valid_ceiling [OF resolved_valid [OF assms(1)]] by blast
  have cap: "cap_to_ceiling effort d = Some (min effort c, c < effort)"
    by (auto simp: cap_to_ceiling_def c min_def)
  have openai: "written_level OpenAiEffort f (emit_openai_effort body f l) = Some (JStr (level_display l))" for l
    using assms(2,3) by (cases f) (simp_all add: written_level_def emit_openai_effort_def
        jget_jinsert jget_insert_in_object_field object_or_absent_jremove)
  have anthropic: "written_level AnthropicEffort f (emit_anthropic_effort body l) = Some (JStr (level_display l))" for l
    using assms(2,4) by (simp add: written_level_def emit_anthropic_effort_def jget_insert_in_object_field)
  have thinking: "written_level AnthropicThinking f (emit_anthropic_thinking body l) = Some (level_value AnthropicThinking l)" for l
    using assms(2) by (simp add: written_level_def emit_anthropic_thinking_def level_value_def jget_jinsert)
  have read: "parse_client_reasoning_effort (emit_openai_effort body f l) f = Some l" if "f \<noteq> Anthropic" for l
    using that assms(2,3)
    by (cases f) (simp_all add: parse_client_reasoning_effort_def emit_openai_effort_def jget_str_def
        jget_jinsert level_parse_display jget_insert_in_object_field object_or_absent_jremove)
  have read2: "parse_client_reasoning_effort (emit_anthropic_effort body l) Anthropic = Some l" for l
    using assms(2,4) by (simp add: parse_client_reasoning_effort_def emit_anthropic_effort_def
        level_parse_display jget_insert_in_object_field)
  have gone: "parse_client_reasoning_effort (strip_reasoning_fields body f) f = None"
    by (cases f) (simp_all add: parse_client_reasoning_effort_def strip_reasoning_fields_def jget_str_def
        jget_with_field ogetj_def bind_map_option comp_def)
  have warned: "(if c < effort then Some (cap_warning effort (min effort c)) else None)
      = (if c < effort then Some (cap_warning effort c) else None)" by (auto simp: min_def)
  show ?thesis
    using c cap openai anthropic thinking read read2 gone warned
    by (cases "db_reasoning d") (simp_all add: apply_dialect_reasoning_emit_def level_value_def Let_def)
qed

theorem emitted_level_within_ceiling_witness:
  "case apply_dialect_reasoning_emit (JObj []) Anthropic
      \<lparr>db_reasoning = AnthropicThinking, db_reasoning_echo = None, db_reasoning_levels = Some [LevelLow, LevelHigh]\<rparr> LevelUltra of
     None \<Rightarrow> False
   | Some (body', w) \<Rightarrow> written_level AnthropicThinking Anthropic body' = Some (level_value AnthropicThinking LevelHigh) \<and> w \<noteq> None"
proof -
  let ?d = "\<lparr>db_reasoning = AnthropicThinking, db_reasoning_echo = None, db_reasoning_levels = Some [LevelLow, LevelHigh]\<rparr>"
  have d: "resolve_dialect (Detailed ?d) = Inr ?d"
    by (simp add: validate_dialect_def less_eq_reasoning_level_def)
  have m: "ceiling_for ?d = Some LevelHigh" "min LevelUltra LevelHigh = LevelHigh" "LevelHigh < LevelUltra"
    by (simp_all add: ceiling_for_def min_def less_eq_reasoning_level_def less_reasoning_level_def)
  show ?thesis
    using emitted_level_within_ceiling [OF d, of "JObj []" Anthropic LevelUltra] m
    by (auto simp: object_or_absent_def split: option.splits prod.splits)
qed

end
