(* ===== verification/Media.thy ===== *)
theory Media
  imports Request_Json
begin

text \<open>
  Media sources in requests (src/src/translate/internal/media.rs): inline base64 payloads and data
  URIs, remote URLs, provider and local references, and the file parts of the OpenAI protocols with the
  provenance of their MIME type. The URL parser is a parameter (\<open>url_parse\<close>: scheme and host).
\<close>

section \<open>Strings\<close>

text \<open>\<open>str::split_once(c)\<close> and \<open>str::split(c)\<close>.\<close>

fun split_once :: "char \<Rightarrow> string \<Rightarrow> (string \<times> string) option" where
  "split_once c [] = None"
| "split_once c (x # xs) = (if x = c then Some ([], xs)
     else map_option (\<lambda>(a, b). (x # a, b)) (split_once c xs))"

fun split_char :: "char \<Rightarrow> string \<Rightarrow> string list" where
  "split_char c [] = [[]]"
| "split_char c (x # xs) = (if x = c then [] # split_char c xs
     else (case split_char c xs of [] \<Rightarrow> [[x]] | s # ss \<Rightarrow> (x # s) # ss))"

definition eq_ignore_ascii_case :: "string \<Rightarrow> string \<Rightarrow> bool" where
  "eq_ignore_ascii_case a b = (to_ascii_lowercase a = to_ascii_lowercase b)"

text \<open>\<open>value.get(..5).is_some_and(|prefix| prefix.eq_ignore_ascii_case("data:"))\<close>\<close>

definition has_data_prefix :: "string \<Rightarrow> bool" where
  "has_data_prefix s = (5 \<le> length s \<and> is_char_boundary s 5 \<and> eq_ignore_ascii_case (take 5 s) ''data:'')"

section \<open>Canonical base64\<close>

definition base64_data_value :: "char \<Rightarrow> nat option" where
  "base64_data_value c = (let b = byte c in
     if 65 \<le> b \<and> b \<le> 90 then Some (b - 65)
     else if 97 \<le> b \<and> b \<le> 122 then Some (b - 97 + 26)
     else if 48 \<le> b \<and> b \<le> 57 then Some (b - 48 + 52)
     else if c = CHR ''+'' then Some 62
     else if c = CHR ''/'' then Some 63
     else None)"

text \<open>The bits of the last sextet that a masking \<open>& (2 ^ k - 1)\<close> reads.\<close>

definition unused_bits :: "nat \<Rightarrow> char \<Rightarrow> nat" where
  "unused_bits k c = unwrap_or (base64_data_value c) 0xFF mod 2 ^ k"

definition canonical_base64_payload :: "string \<Rightarrow> bool \<Rightarrow> bool" where
  "canonical_base64_payload s allow_empty =
    (if s = [] then allow_empty
     else if length s mod 4 \<noteq> 0 then False
     else (let len = length s;
               padding = (if s ! (len - 1) = CHR ''='' then
                            if s ! (len - 2) = CHR ''='' then 2 else 1 else (0::nat))
           in list_all (\<lambda>c. base64_data_value c \<noteq> None) (take (len - padding) s)
            \<and> (padding = 1 \<longrightarrow> unused_bits 2 (s ! (len - 2)) = 0)
            \<and> (padding = 2 \<longrightarrow> unused_bits 4 (s ! (len - 3)) = 0)))"

definition validate_inline_base64_payload :: "string \<Rightarrow> string option" where
  "validate_inline_base64_payload s = (if canonical_base64_payload s False then Some s else None)"

definition looks_like_base64_payload :: "string \<Rightarrow> bool" where
  "looks_like_base64_payload s = (validate_inline_base64_payload s \<noteq> None)"

section \<open>Source references\<close>

text \<open>
  \<open>ch.is_whitespace() || ch.is_control() || ch == U+200B\<close> for the character a string starts with; the
  lead bytes tell characters from continuation bytes, so all positions may be looked at.
\<close>

definition starts_forbidden :: "string \<Rightarrow> bool" where
  "starts_forbidden s = (let bs = map byte s in
     ws_prefix bs \<noteq> 0
     \<or> (case bs of a # _ \<Rightarrow> a \<le> 0x1F \<or> a = 0x7F | [] \<Rightarrow> False)
     \<or> (case bs of a # b # _ \<Rightarrow> a = 0xC2 \<and> 0x80 \<le> b \<and> b \<le> 0x9F | _ \<Rightarrow> False)
     \<or> take 3 bs = [0xE2, 0x80, 0x8B])"

fun has_raw_forbidden_uri_char :: "string \<Rightarrow> bool" where
  "has_raw_forbidden_uri_char [] = False"
| "has_raw_forbidden_uri_char (c # cs) = (starts_forbidden (c # cs) \<or> has_raw_forbidden_uri_char cs)"

definition hex_value :: "char \<Rightarrow> nat option" where
  "hex_value c = (let b = byte c in
     if 48 \<le> b \<and> b \<le> 57 then Some (b - 48)
     else if 97 \<le> b \<and> b \<le> 102 then Some (b - 97 + 10)
     else if 65 \<le> b \<and> b \<le> 70 then Some (b - 65 + 10)
     else None)"

fun has_percent_encoded_c0_or_del :: "string \<Rightarrow> bool" where
  "has_percent_encoded_c0_or_del (p # h # l # r) =
     ((p = CHR ''%'' \<and> (case (hex_value h, hex_value l) of
          (Some high, Some low) \<Rightarrow> 16 * high + low \<le> 0x1F \<or> 16 * high + low = 0x7F
        | _ \<Rightarrow> False))
      \<or> has_percent_encoded_c0_or_del (h # l # r))"
| "has_percent_encoded_c0_or_del _ = False"

definition clean_uri_like_source_reference :: "string \<Rightarrow> string option" where
  "clean_uri_like_source_reference s =
    (if s = [] then None
     else if list_ex (\<lambda>c. is_ascii_whitespace c \<or> byte c \<le> 0x1F \<or> byte c = 0x7F) s then None
     else if has_raw_forbidden_uri_char s \<or> has_percent_encoded_c0_or_del s then None
     else Some s)"

definition base64_data_uri_parts :: "string \<Rightarrow> (string \<times> string) option" where
  "base64_data_uri_parts s =
    (if \<not> has_data_prefix s then None
     else (case split_once CHR '','' (drop 5 s) of
        None \<Rightarrow> None
      | Some (metadata, payload) \<Rightarrow>
          (case clean_uri_like_source_reference metadata of
             None \<Rightarrow> None
           | Some metadata \<Rightarrow>
               if validate_inline_base64_payload payload = None then None
               else (case split_char CHR '';'' metadata of
                   [] \<Rightarrow> None
                 | mime # parts \<Rightarrow>
                     if mime = [] \<or> \<not> list_ex (\<lambda>p. eq_ignore_ascii_case p ''base64'') parts then None
                     else Some (mime, payload)))))"

definition normalized_mime_type :: "string \<Rightarrow> string option" where
  "normalized_mime_type s =
    (let mime = to_ascii_lowercase (trim (case split_once CHR '';'' s of None \<Rightarrow> s | Some (m, _) \<Rightarrow> m))
     in if mime = [] then None else Some mime)"

definition known_extensions :: "(string \<times> string) list" where
  "known_extensions =
    [(''pdf'', ''application/pdf''), (''json'', ''application/json''), (''txt'', ''text/plain''),
     (''csv'', ''text/csv''), (''md'', ''text/markdown''), (''html'', ''text/html''), (''htm'', ''text/html''),
     (''xml'', ''application/xml''), (''png'', ''image/png''), (''jpg'', ''image/jpeg''),
     (''jpeg'', ''image/jpeg''), (''gif'', ''image/gif''), (''webp'', ''image/webp''), (''bmp'', ''image/bmp''),
     (''tif'', ''image/tiff''), (''tiff'', ''image/tiff''), (''heic'', ''image/heic''), (''heif'', ''image/heif''),
     (''svg'', ''image/svg+xml''), (''wav'', ''audio/wav''), (''mp3'', ''audio/mpeg''), (''m4a'', ''audio/mp4''),
     (''aac'', ''audio/aac''), (''ogg'', ''audio/ogg''), (''oga'', ''audio/ogg''), (''flac'', ''audio/flac''),
     (''opus'', ''audio/opus''), (''mp4'', ''video/mp4''), (''m4v'', ''video/x-m4v''), (''mov'', ''video/quicktime''),
     (''webm'', ''video/webm''), (''mpeg'', ''video/mpeg''), (''mpg'', ''video/mpeg''), (''avi'', ''video/x-msvideo''),
     (''mkv'', ''video/x-matroska'')]"

definition mime_type_from_filename :: "string \<Rightarrow> string option" where
  "mime_type_from_filename name =
     map_of known_extensions (to_ascii_lowercase (trim (last (split_char CHR ''.'' name))))"

definition is_ascii_alpha :: "char \<Rightarrow> bool" where
  "is_ascii_alpha c = (let b = byte c in 65 \<le> b \<and> b \<le> 90 \<or> 97 \<le> b \<and> b \<le> 122)"

definition uri_scheme :: "string \<Rightarrow> string option" where
  "uri_scheme s = (case split_once CHR '':'' s of
      Some (first # rest, _) \<Rightarrow>
        if is_ascii_alpha first
          \<and> list_all (\<lambda>c. is_ascii_alpha c \<or> 48 \<le> byte c \<and> byte c \<le> 57 \<or> c \<in> set ''+-.'') rest
        then Some (first # rest) else None
    | _ \<Rightarrow> None)"

definition http_or_https_remote_url :: "env \<Rightarrow> string \<Rightarrow> string option" where
  "http_or_https_remote_url E s = (case clean_uri_like_source_reference s of
      None \<Rightarrow> None
    | Some s \<Rightarrow> (case url_parse E s of
          Some (scheme, Some host) \<Rightarrow> if scheme \<in> {''http'', ''https''} then Some s else None
        | _ \<Rightarrow> None))"

datatype media_source_reference =
    MimeDataUri string string
  | HttpRemoteUrl string
  | ProviderOrLocalUri string
  | BareBase64 string
  | Unsupported string

definition classify_media_source_reference :: "env \<Rightarrow> string \<Rightarrow> media_source_reference" where
  "classify_media_source_reference E s = (case base64_data_uri_parts s of
      Some (mime, payload) \<Rightarrow> MimeDataUri mime payload
    | None \<Rightarrow>
        if has_data_prefix s then Unsupported s
        else (case http_or_https_remote_url E s of
            Some url \<Rightarrow> HttpRemoteUrl url
          | None \<Rightarrow>
              let bare = (if looks_like_base64_payload s then BareBase64 s else Unsupported s) in
              (case clean_uri_like_source_reference s of
                 None \<Rightarrow> bare
               | Some v \<Rightarrow> (case uri_scheme v of
                     None \<Rightarrow> bare
                   | Some scheme \<Rightarrow>
                       if eq_ignore_ascii_case scheme ''http'' \<or> eq_ignore_ascii_case scheme ''https''
                       then Unsupported v else ProviderOrLocalUri v))))"

definition validate_media_source_reference :: "env \<Rightarrow> string \<Rightarrow> bool" where
  "validate_media_source_reference E s =
     (case classify_media_source_reference E s of Unsupported _ \<Rightarrow> False | _ \<Rightarrow> True)"

section \<open>File parts\<close>

datatype file_mime_source = ExplicitMime | FileDataMime | FilenameMime

record file_mime_candidate =
  fm_source :: file_mime_source
  fm_label :: string
  fm_mime :: string

text \<open>The part itself and its nested \<open>file\<close>, as far as they are objects.\<close>

definition openai_file_part_maps :: "json \<Rightarrow> json list" where
  "openai_file_part_maps part =
     (if is_object part then [part] else [])
     @ (case jget part ''file'' of Some f \<Rightarrow> if is_object f then [f] else [] | None \<Rightarrow> [])"

definition openai_file_part_field :: "json \<Rightarrow> string \<Rightarrow> json option" where
  "openai_file_part_field part field =
     (case List.map_filter (\<lambda>m. jget m field) (openai_file_part_maps part) of [] \<Rightarrow> None | v # _ \<Rightarrow> Some v)"

definition data_uri_mime :: "json \<Rightarrow> string \<Rightarrow> string option" where
  "data_uri_mime m field = Option.bind (jget_str m field)
     (\<lambda>s. Option.bind (base64_data_uri_parts s) (\<lambda>(mime, _). normalized_mime_type mime))"

definition candidate :: "file_mime_source \<Rightarrow> string \<Rightarrow> string option \<Rightarrow> file_mime_candidate list" where
  "candidate source label mime = (case mime of None \<Rightarrow> []
     | Some mime \<Rightarrow> [\<lparr>fm_source = source, fm_label = label, fm_mime = mime\<rparr>])"

definition mime_candidates_of_map :: "json \<Rightarrow> file_mime_candidate list" where
  "mime_candidates_of_map m =
     concat (map (\<lambda>field. candidate ExplicitMime ''`mime_type`/`mimeType`''
       (Option.bind (jget_str m field) normalized_mime_type)) [''mime_type'', ''mimeType''])
     @ candidate FileDataMime ''`file_data` data URI'' (data_uri_mime m ''file_data'')
     @ candidate FileDataMime ''`file_url` data URI'' (data_uri_mime m ''file_url'')
     @ candidate FilenameMime ''`filename`''
         (Option.bind (Option.bind (jget_str m ''filename'') mime_type_from_filename) normalized_mime_type)"

definition collect_openai_file_mime_candidates_from_maps :: "json list \<Rightarrow> file_mime_candidate list" where
  "collect_openai_file_mime_candidates_from_maps maps = concat (map mime_candidates_of_map maps)"

definition openai_file_mime_conflict_message :: "file_mime_candidate \<Rightarrow> file_mime_candidate \<Rightarrow> string" where
  "openai_file_mime_conflict_message l r =
     ''OpenAI file MIME conflict: '' @ fm_label l @ '' MIME `'' @ fm_mime l @ ''` conflicts with ''
     @ fm_label r @ '' MIME `'' @ fm_mime r
     @ ''`; `mime_type`/`mimeType`, `file_data`, `file_url`, and `filename` MIME provenance must agree.''"

definition resolve_openai_file_mime :: "file_mime_candidate list \<Rightarrow> string + string option" where
  "resolve_openai_file_mime candidates = (case candidates of
      [] \<Rightarrow> Inr None
    | first # rest \<Rightarrow>
        (case List.find (\<lambda>c. fm_mime c \<noteq> fm_mime first) rest of
           Some c \<Rightarrow> Inl (openai_file_mime_conflict_message first c)
         | None \<Rightarrow>
             Inr (map_option fm_mime
               (case List.map_filter (\<lambda>s. List.find (\<lambda>c. fm_source c = s) candidates)
                  [FileDataMime, ExplicitMime, FilenameMime] of [] \<Rightarrow> None | c # _ \<Rightarrow> Some c))))"

definition openai_file_part_resolved_mime_type :: "json \<Rightarrow> string + string option" where
  "openai_file_part_resolved_mime_type part =
     resolve_openai_file_mime (collect_openai_file_mime_candidates_from_maps (openai_file_part_maps part))"

definition openai_file_part_mime_conflict_message :: "json \<Rightarrow> string option" where
  "openai_file_part_mime_conflict_message part =
     (case openai_file_part_resolved_mime_type part of Inl e \<Rightarrow> Some e | Inr _ \<Rightarrow> None)"

datatype openai_file_source =
    ProviderFileId "string option"
  | FilePayload string string
  | ConflictingPayloads
  | InvalidPayload string
  | MissingPayload

definition openai_file_source :: "json \<Rightarrow> openai_file_source" where
  "openai_file_source part =
    (let maps = openai_file_part_maps part;
         payloads = concat (map (\<lambda>m. List.map_filter (\<lambda>f. map_option (Pair f) (jget m f))
           [''file_data'', ''file_url'']) maps)
     in case openai_file_part_field part ''file_id'' of
          Some v \<Rightarrow> ProviderFileId (as_str v)
        | None \<Rightarrow> (case payloads of
              [] \<Rightarrow> MissingPayload
            | [(field, v)] \<Rightarrow> (case as_str v of Some payload \<Rightarrow> FilePayload payload field | None \<Rightarrow> InvalidPayload field)
            | _ \<Rightarrow> ConflictingPayloads))"

definition openai_file_reference_payload :: "json \<Rightarrow> string + (string \<times> string) option" where
  "openai_file_reference_payload part = (case openai_file_source part of
      ProviderFileId (Some i) \<Rightarrow> Inl (''OpenAI provider file_id `'' @ i
        @ ''` cannot be treated as bytes or a URI for cross-provider media translation.'')
    | ProviderFileId None \<Rightarrow> Inl
        ''OpenAI provider file_id fields cannot be treated as bytes or a URI for cross-provider media translation.''
    | FilePayload payload field \<Rightarrow> Inr (Some (payload, field))
    | ConflictingPayloads \<Rightarrow> Inl (''OpenAI file parts must include exactly one of file_data or file_url; ''
        @ ''multiple source fields across the part and nested file object are ambiguous.'')
    | InvalidPayload field \<Rightarrow> Inl (''OpenAI file `'' @ field
        @ ''` must be a string source payload for cross-provider media translation.'')
    | MissingPayload \<Rightarrow> Inr None)"

datatype openai_file_data_reference =
    InlineData string string
  | HttpFileUrl string string
  | ProviderFileUri string string
  | BareFileBase64 "string option" string

definition needs_provenance :: "string \<Rightarrow> string \<Rightarrow> string" where
  "needs_provenance field kind = ''OpenAI '' @ field @ '' '' @ kind
     @ '' need mime_type/mimeType or filename provenance to translate media; ''
     @ ''include file.mime_type/file.mimeType or a filename with a known extension.''"

definition openai_file_data_reference_from_payload ::
    "env \<Rightarrow> string \<Rightarrow> string \<Rightarrow> string option \<Rightarrow> string + openai_file_data_reference" where
  "openai_file_data_reference_from_payload E payload field resolved =
    (case classify_media_source_reference E payload of
       MimeDataUri mime d \<Rightarrow> (case normalized_mime_type mime of
           None \<Rightarrow> Inl (''OpenAI '' @ field @ '' data URIs need a non-empty MIME type to translate media.'')
         | Some m \<Rightarrow> Inr (InlineData m d))
     | HttpRemoteUrl url \<Rightarrow> (case resolved of
           None \<Rightarrow> Inl (needs_provenance field ''HTTP(S) URLs'')
         | Some m \<Rightarrow> Inr (HttpFileUrl m url))
     | ProviderOrLocalUri uri \<Rightarrow> (case resolved of
           None \<Rightarrow> Inl (needs_provenance field ''provider/local URI references'')
         | Some m \<Rightarrow> Inr (ProviderFileUri m uri))
     | BareBase64 d \<Rightarrow> Inr (BareFileBase64 resolved d)
     | Unsupported v \<Rightarrow> Inl (''OpenAI '' @ field @ '' must be a MIME-bearing data URI, an HTTP(S) URL, ''
         @ ''a provider/local URI reference, or a base64 payload with filename provenance to translate media; ''
         @ ''got unsupported source `'' @ v @ ''`.''))"

definition openai_file_data_reference_from_part :: "env \<Rightarrow> json \<Rightarrow> string + openai_file_data_reference" where
  "openai_file_data_reference_from_part E part =
     res_bind (openai_file_reference_payload part) (\<lambda>p. case p of
        None \<Rightarrow> Inl ''OpenAI file parts require file_data or file_url for portable cross-protocol file translation.''
      | Some (payload, field) \<Rightarrow>
          res_bind (openai_file_part_resolved_mime_type part)
            (openai_file_data_reference_from_payload E payload field))"

definition is_pdf_mime :: "string \<Rightarrow> bool" where
  "is_pdf_mime m = (normalized_mime_type m = Some ''application/pdf'')"

section \<open>The reference: encoding bytes\<close>

text \<open>The standard base64 encoding (RFC 4648, section 4) of a list of bytes.\<close>

definition sextet :: "nat \<Rightarrow> char" where
  "sextet v = (if v < 26 then char_of (65 + v) else if v < 52 then char_of (97 + (v - 26))
     else if v < 62 then char_of (48 + (v - 52)) else if v = 62 then CHR ''+'' else CHR ''/'')"

fun base64_encode :: "nat list \<Rightarrow> string" where
  "base64_encode [] = []"
| "base64_encode [a] = [sextet (a div 4), sextet (a mod 4 * 16), CHR ''='', CHR ''='']"
| "base64_encode [a, b] =
     [sextet (a div 4), sextet (a mod 4 * 16 + b div 16), sextet (b mod 16 * 4), CHR ''='']"
| "base64_encode (a # b # c # r) =
     sextet (a div 4) # sextet (a mod 4 * 16 + b div 16) # sextet (b mod 16 * 4 + c div 64)
     # sextet (c mod 64) # base64_encode r"

lemma value_sextet: "v < 64 \<Longrightarrow> base64_data_value (sextet v) = Some v"
  by (auto simp: base64_data_value_def sextet_def byte_def Let_def)

lemma sextet_value: "base64_data_value c = Some v \<Longrightarrow> v < 64 \<and> c = sextet v"
proof -
  have c: "char_of (byte c) = c" by (simp add: byte_def)
  then show "base64_data_value c = Some v \<Longrightarrow> v < 64 \<and> c = sextet v"
    by (auto simp: base64_data_value_def sextet_def Let_def split: if_splits)
qed

lemma pack_div: "u < k \<Longrightarrow> (v * k + u) div k = (v :: nat)"
  by simp

lemma pack_mod: "u < k \<Longrightarrow> (v * k + u) mod k = (u :: nat)"
  by simp

lemma pack_less: "v < m \<Longrightarrow> u < k \<Longrightarrow> v * k + u < m * (k :: nat)"
proof -
  assume "v < m" and u: "u < k"
  then have "Suc v * k \<le> m * k" by (intro mult_le_mono) simp_all
  then show ?thesis using u by simp
qed

lemma padding_is_no_data: "base64_data_value CHR ''='' = None"
  by code_simp

text \<open>One group of four, the last one possibly padded.\<close>

definition full_group :: "char \<Rightarrow> char \<Rightarrow> char \<Rightarrow> char \<Rightarrow> bool" where
  "full_group a b c d = list_all (\<lambda>c. base64_data_value c \<noteq> None) [a, b, c, d]"

lemma full_group_encodes:
  "full_group p q r t \<longleftrightarrow> (\<exists>a b c. a < 256 \<and> b < 256 \<and> c < 256 \<and> [p, q, r, t] = base64_encode [a, b, c])"
proof
  assume "full_group p q r t"
  then obtain v w x y where v: "base64_data_value p = Some v" "base64_data_value q = Some w"
    "base64_data_value r = Some x" "base64_data_value t = Some y"
    by (auto simp: full_group_def)
  let ?a = "v * 4 + w div 16" and ?b = "w mod 16 * 16 + x div 4" and ?c = "x mod 4 * 64 + y"
  have lt: "v < 64" "w < 64" "x < 64" "y < 64" and ch: "p = sextet v" "q = sextet w" "r = sextet x" "t = sextet y"
    using sextet_value v by auto
  have q: "w div 16 < 4" "x div 4 < 16" using lt by auto
  have bounds: "?a < 256" "?b < 256" "?c < 256"
    using pack_less [OF lt(1) q(1)] pack_less [OF _ q(2), of "w mod 16" 16] pack_less [OF _ lt(4), of "x mod 4" 4]
    by simp_all
  have e: "?a div 4 = v" "?a mod 4 = w div 16" "?b div 16 = w mod 16" "?b mod 16 = x div 4"
    "?c div 64 = x mod 4" "?c mod 64 = y"
    by (rule pack_div pack_mod, rule q lt)+
  then show "\<exists>a b c. a < 256 \<and> b < 256 \<and> c < 256 \<and> [p, q, r, t] = base64_encode [a, b, c]"
    by (intro exI [of _ ?a] exI [of _ ?b] exI [of _ ?c] conjI bounds)
      (simp only: base64_encode.simps e ch div_mult_mod_eq)
next
  assume "\<exists>a b c. a < 256 \<and> b < 256 \<and> c < 256 \<and> [p, q, r, t] = base64_encode [a, b, c]"
  then obtain a b c where "a < 256" "b < 256" "c < (256::nat)" "[p, q, r, t] = base64_encode [a, b, c]"
    by blast
  moreover from this have "a div 4 < 64" "a mod 4 * 16 + b div 16 < 64" "b mod 16 * 4 + c div 64 < 64"
    "c mod 64 < 64"
    using pack_less [of "a mod 4" 4 "b div 16" 16] pack_less [of "b mod 16" 16 "c div 64" 4] by auto
  ultimately show "full_group p q r t" by (simp add: full_group_def value_sextet)
qed

definition one_pad :: "char \<Rightarrow> char \<Rightarrow> char \<Rightarrow> bool" where
  "one_pad a b c = (list_all (\<lambda>c. base64_data_value c \<noteq> None) [a, b, c] \<and> unused_bits 2 c = 0)"

definition two_pad :: "char \<Rightarrow> char \<Rightarrow> bool" where
  "two_pad a b = (list_all (\<lambda>c. base64_data_value c \<noteq> None) [a, b] \<and> unused_bits 4 b = 0)"

lemma one_pad_encodes:
  "one_pad p q r \<longleftrightarrow> (\<exists>a b. a < 256 \<and> b < 256 \<and> [p, q, r, CHR ''=''] = base64_encode [a, b])"
proof
  assume "one_pad p q r"
  then obtain v w x where v: "base64_data_value p = Some v" "base64_data_value q = Some w"
    "base64_data_value r = Some x" and x: "x mod 4 = 0"
    by (auto simp: one_pad_def unused_bits_def)
  let ?a = "v * 4 + w div 16" and ?b = "w mod 16 * 16 + x div 4"
  have lt: "v < 64" "w < 64" "x < 64" and ch: "p = sextet v" "q = sextet w" "r = sextet x"
    using sextet_value v by auto
  have q: "w div 16 < 4" "x div 4 < 16" using lt by auto
  have bounds: "?a < 256" "?b < 256"
    using pack_less [OF lt(1) q(1)] pack_less [OF _ q(2), of "w mod 16" 16] by simp_all
  have e: "?a div 4 = v" "?a mod 4 = w div 16" "?b div 16 = w mod 16" "?b mod 16 = x div 4"
    by (rule pack_div pack_mod, rule q lt)+
  have "x div 4 * 4 = x" using x div_mult_mod_eq [of x 4] by simp
  then show "\<exists>a b. a < 256 \<and> b < 256 \<and> [p, q, r, CHR ''=''] = base64_encode [a, b]"
    by (intro exI [of _ ?a] exI [of _ ?b] conjI bounds) (simp only: base64_encode.simps e ch div_mult_mod_eq)
next
  assume "\<exists>a b. a < 256 \<and> b < 256 \<and> [p, q, r, CHR ''=''] = base64_encode [a, b]"
  then obtain a b where "a < 256" "b < (256::nat)" "[p, q, r, CHR ''=''] = base64_encode [a, b]" by blast
  moreover from this have "a div 4 < 64" "a mod 4 * 16 + b div 16 < 64" "b mod 16 * 4 < 64"
    using pack_less [of "a mod 4" 4 "b div 16" 16] by auto
  ultimately show "one_pad p q r" by (simp add: one_pad_def unused_bits_def value_sextet)
qed

lemma two_pad_encodes:
  "two_pad p q \<longleftrightarrow> (\<exists>a. a < 256 \<and> [p, q, CHR ''='', CHR ''=''] = base64_encode [a])"
proof
  assume "two_pad p q"
  then obtain v w where v: "base64_data_value p = Some v" "base64_data_value q = Some w" and w: "w mod 16 = 0"
    by (auto simp: two_pad_def unused_bits_def)
  let ?a = "v * 4 + w div 16"
  have lt: "v < 64" "w < 64" and ch: "p = sextet v" "q = sextet w" using sextet_value v by auto
  have q: "w div 16 < 4" using lt by auto
  have bounds: "?a < 256" using pack_less [OF lt(1) q] by simp
  have e: "?a div 4 = v" "?a mod 4 = w div 16" by (rule pack_div pack_mod, rule q)+
  have "w div 16 * 16 = w" using w div_mult_mod_eq [of w 16] by simp
  then show "\<exists>a. a < 256 \<and> [p, q, CHR ''='', CHR ''=''] = base64_encode [a]"
    by (intro exI [of _ ?a] conjI bounds) (simp only: base64_encode.simps e ch)
next
  assume "\<exists>a. a < 256 \<and> [p, q, CHR ''='', CHR ''=''] = base64_encode [a]"
  then obtain a where "a < (256::nat)" "[p, q, CHR ''='', CHR ''=''] = base64_encode [a]" by blast
  moreover from this have "a div 4 < 64" "a mod 4 * 16 < 64" by auto
  ultimately show "two_pad p q" by (simp add: two_pad_def unused_bits_def value_sextet)
qed

lemma canonical_last_group:
  "canonical_base64_payload [a, b, c, d] False =
     (if d = CHR ''='' then if c = CHR ''='' then two_pad a b else one_pad a b c else full_group a b c d)"
  by (auto simp: canonical_base64_payload_def one_pad_def two_pad_def full_group_def)

lemma canonical_step:
  assumes "r \<noteq> []"
  shows "canonical_base64_payload (a # b # c # d # r) False =
     (full_group a b c d \<and> canonical_base64_payload r False)"
proof (cases "length r mod 4 = 0")
  case True
  have len: "length r \<ge> 4" using True assms by (cases "length r < 4") auto
  have n: "length (a # b # c # d # r) = length r + 4" by simp
  have at: "(a # b # c # d # r) ! (length r + 4 - k) = r ! (length r - k)" if "k \<in> {1, 2, 3}" for k
  proof -
    have "length r + 4 - k = Suc (Suc (Suc (Suc (length r - k))))" using that len by auto
    then show ?thesis by simp
  qed
  have tk: "take (length r + 4 - k) (a # b # c # d # r) = a # b # c # d # take (length r - k) r"
    if "k \<le> 2" for k
  proof -
    have "length r + 4 - k = Suc (Suc (Suc (Suc (length r - k))))" using that len by auto
    then show ?thesis by simp
  qed
  have m: "(length r + 4) mod 4 = 0" using True by simp
  show ?thesis
    unfolding canonical_base64_payload_def n Let_def
    using assms True m at [of 1] at [of 2] at [of 3] tk [of 0] tk [of 1] tk [of 2]
    by (auto simp: full_group_def)
next
  case False
  then show ?thesis using assms by (simp add: canonical_base64_payload_def)
qed

lemma encode_nonempty [simp]: "base64_encode bs = [] \<longleftrightarrow> bs = []"
  by (cases bs rule: base64_encode.cases) simp_all

lemma encoded_is_canonical:
  "bs \<noteq> [] \<Longrightarrow> list_all (\<lambda>b. b < 256) bs \<Longrightarrow> canonical_base64_payload (base64_encode bs) False"
proof (induction bs rule: base64_encode.induct)
  case (2 a)
  then show ?case using two_pad_encodes [of "sextet (a div 4)" "sextet (a mod 4 * 16)"]
    by (auto simp: canonical_last_group)
next
  case (3 a b)
  have "sextet (b mod 16 * 4) \<noteq> CHR ''=''"
    using value_sextet [of "b mod 16 * 4"] padding_is_no_data by fastforce
  then show ?case using 3 one_pad_encodes [of "sextet (a div 4)" "sextet (a mod 4 * 16 + b div 16)" "sextet (b mod 16 * 4)"]
    by (auto simp: canonical_last_group)
next
  case (4 a b c r)
  have "full_group (sextet (a div 4)) (sextet (a mod 4 * 16 + b div 16)) (sextet (b mod 16 * 4 + c div 64))
     (sextet (c mod 64))"
    using 4(3) by (subst full_group_encodes) (intro exI [of _ a] exI [of _ b] exI [of _ c], simp)
  moreover have "sextet (c mod 64) \<noteq> CHR ''=''"
    using value_sextet [of "c mod 64"] padding_is_no_data by fastforce
  ultimately show ?case using 4
    by (cases "r = []") (simp_all add: canonical_last_group canonical_step)
qed simp

lemma canonical_is_encoded:
  "canonical_base64_payload s False \<Longrightarrow> \<exists>bs. bs \<noteq> [] \<and> list_all (\<lambda>b. b < 256) bs \<and> s = base64_encode bs"
proof (induction "length s" arbitrary: s rule: less_induct)
  case less
  then have "s \<noteq> []" "length s mod 4 = 0" by (auto simp: canonical_base64_payload_def split: if_splits)
  then have "4 \<le> length s" by (cases "length s < 4") auto
  then obtain a b c d r where s: "s = a # b # c # d # r"
    by (auto simp: numeral_eq_Suc Suc_le_length_iff)
  show ?case
  proof (cases "r = []")
    case True
    have "(full_group a b c d) \<or> (one_pad a b c \<and> d = CHR ''='')
        \<or> (two_pad a b \<and> c = CHR ''='' \<and> d = CHR ''='')"
      using less.prems by (simp add: s True canonical_last_group split: if_splits)
    then show ?thesis unfolding full_group_encodes one_pad_encodes two_pad_encodes
    proof (elim disjE conjE exE)
      fix x y z assume "x < 256" "y < 256" "z < (256::nat)" "[a, b, c, d] = base64_encode [x, y, z]"
      then show ?thesis unfolding s True by (intro exI [of _ "[x, y, z]"]) simp
    next
      fix x y assume "x < 256" "y < (256::nat)" "d = CHR ''=''" "[a, b, c, CHR ''=''] = base64_encode [x, y]"
      then show ?thesis unfolding s True by (intro exI [of _ "[x, y]"]) simp
    next
      fix x assume "x < (256::nat)" "c = CHR ''=''" "d = CHR ''=''" "[a, b, CHR ''='', CHR ''=''] = base64_encode [x]"
      then show ?thesis unfolding s True by (intro exI [of _ "[x]"]) simp
    qed
  next
    case False
    then have g: "full_group a b c d" and "canonical_base64_payload r False"
      using less.prems by (simp_all add: s canonical_step)
    then obtain bs where bs: "bs \<noteq> []" "list_all (\<lambda>b. b < 256) bs" "r = base64_encode bs"
      using less.hyps [of r] by (auto simp: s)
    obtain x y z where "x < 256" "y < 256" "z < (256::nat)" "[a, b, c, d] = base64_encode [x, y, z]"
      using g full_group_encodes by blast
    then show ?thesis using bs by (intro exI [of _ "x # y # z # bs"]) (simp add: s)
  qed
qed

text \<open>A payload is accepted as inline data exactly when it is the standard encoding of some bytes: right
  alphabet, right padding, no stray bits; nothing is decoded for it.\<close>

theorem canonical_base64_is_encoding:
  "(validate_inline_base64_payload s = Some s) \<longleftrightarrow>
     (\<exists>bs. bs \<noteq> [] \<and> list_all (\<lambda>b. b < 256) bs \<and> s = base64_encode bs)"
  using canonical_is_encoded encoded_is_canonical
  by (auto simp: validate_inline_base64_payload_def)

section \<open>Occurrences\<close>

text \<open>\<open>value.find(pattern)\<close>\<close>

fun str_find :: "string \<Rightarrow> string \<Rightarrow> nat option" where
  "str_find p [] = (if p = [] then Some 0 else None)"
| "str_find p (c # s) = (if starts_with p (c # s) then Some 0 else map_option Suc (str_find p s))"

text \<open>\<open>value.find([c, d, \<dots>])\<close> as the text before the first of the characters.\<close>

definition before_any :: "string \<Rightarrow> string \<Rightarrow> string" where
  "before_any cs s = takeWhile (\<lambda>c. c \<notin> set cs) s"

text \<open>\<open>trim_end_matches(c)\<close> and \<open>trim_start_matches(c)\<close>\<close>

definition trim_start_char :: "char \<Rightarrow> string \<Rightarrow> string" where
  "trim_start_char c s = dropWhile (\<lambda>x. x = c) s"

definition trim_end_char :: "char \<Rightarrow> string \<Rightarrow> string" where
  "trim_end_char c s = rev (dropWhile (\<lambda>x. x = c) (rev s))"

lemma str_find_None: "str_find p s = None \<longleftrightarrow> \<not> str_contains s p"
  by (induction p s rule: str_find.induct) auto

lemma str_find_Some:
  "str_find p s = Some n \<Longrightarrow> \<exists>b. s = take n s @ p @ b"
proof (induction p s arbitrary: n rule: str_find.induct)
  case (1 p)
  then show ?case by (simp split: if_splits)
next
  case (2 p c s)
  then show ?case by (auto simp: starts_with_iff split: if_splits)
qed

lemma str_contains_mono: "str_contains b p \<Longrightarrow> str_contains (a @ b @ c) p"
proof -
  assume "str_contains b p"
  then obtain x y where "b = x @ p @ y" by (auto simp: str_contains_iff)
  then have "a @ b @ c = (a @ x) @ p @ (y @ c)" by simp
  then show ?thesis unfolding str_contains_iff by blast
qed

text \<open>A prefix without \<open>c\<close> ends before the first \<open>c\<close>.\<close>

lemma starts_with_before:
  assumes "c \<notin> set p"
  shows "starts_with p (a @ c # b) \<longleftrightarrow> starts_with p a"
proof
  assume "starts_with p (a @ c # b)"
  then obtain q where "a @ c # b = p @ q" by (auto simp: starts_with_iff)
  then consider us where "a = p @ us" | us where "us \<noteq> []" "p = a @ us" "c # b = us @ q"
    using append_eq_append_conv2 [of a "c # b" p q] by (metis append_Nil2)
  then show "starts_with p a"
  proof cases
    case 1
    then show ?thesis by (auto simp: starts_with_iff)
  next
    case 2
    then have "c \<in> set p" by (cases us) auto
    with assms show ?thesis by simp
  qed
next
  assume "starts_with p a"
  then show "starts_with p (a @ c # b)" by (auto simp: starts_with_iff)
qed

text \<open>A pattern without \<open>c\<close> is found on one side of every \<open>c\<close>.\<close>

lemma str_contains_split:
  assumes "c \<notin> set p" "p \<noteq> []"
  shows "str_contains (a @ c # b) p \<longleftrightarrow> str_contains a p \<or> str_contains b p"
proof (induction a)
  case Nil
  have "\<not> starts_with p (c # b)"
    using assms starts_with_before [of c p "[]" b] by (cases p) simp_all
  then show ?case using assms by simp
next
  case (Cons x a)
  then show ?case
    using starts_with_before [OF assms(1), of "x # a" b] by simp
qed

section \<open>Replacement\<close>

text \<open>\<open>text.replace(pattern, with)\<close> for a pattern that is not empty.\<close>

function str_replace :: "string \<Rightarrow> string \<Rightarrow> string \<Rightarrow> string" where
  "str_replace p r [] = []"
| "str_replace p r (c # s) =
     (if p \<noteq> [] \<and> starts_with p (c # s) then r @ str_replace p r (drop (length p) (c # s))
      else c # str_replace p r s)"
  by pat_completeness auto
termination by (relation "measure (\<lambda>(_, _, s). length s)") auto

end
