(* ===== verification/Config.thy ===== *)
theory Config
  imports Message_Repair Dialect Limits Media
begin

text \<open>
  The configuration of a namespace (src/src/config.rs): its upstreams and model aliases, the sources of
  secrets, what a valid configuration is, and how the model name of a request is resolved to an
  upstream. The URL parser is a parameter of the model.
\<close>

section \<open>URLs\<close>

text \<open>What the code uses of \<open>url::Url\<close>; the setters give the value after the call.\<close>

record 'u url_api =
  parse_url :: "string \<Rightarrow> string + 'u"
  url_scheme :: "'u \<Rightarrow> string"
  url_host :: "'u \<Rightarrow> string option"
  url_username :: "'u \<Rightarrow> string"
  url_password :: "'u \<Rightarrow> string option"
  set_url_username :: "string \<Rightarrow> 'u \<Rightarrow> 'u"
  set_url_password :: "string option \<Rightarrow> 'u \<Rightarrow> 'u"
  set_url_query :: "string option \<Rightarrow> 'u \<Rightarrow> 'u"
  set_url_fragment :: "string option \<Rightarrow> 'u \<Rightarrow> 'u"
  url_to_string :: "'u \<Rightarrow> string"

definition url_has_userinfo :: "'u url_api \<Rightarrow> 'u \<Rightarrow> bool" where
  "url_has_userinfo U u = (url_username U u \<noteq> [] \<or> url_password U u \<noteq> None)"

definition url_has_explicit_authority :: "string \<Rightarrow> bool" where
  "url_has_explicit_authority value = (case str_find ''://'' value of
      None \<Rightarrow> False
    | Some scheme_end \<Rightarrow> (case drop (scheme_end + 3) value of
          [] \<Rightarrow> False
        | c # _ \<Rightarrow> c \<notin> set ''/?#''))"

definition build_upstream_url :: "string \<Rightarrow> upstream_format \<Rightarrow> string" where
  "build_upstream_url api_root format = trim_end_char CHR ''/'' api_root @ (case format of
      OpenAiChatCompletions \<Rightarrow> ''/chat/completions''
    | OpenAiResponses \<Rightarrow> ''/responses''
    | Anthropic \<Rightarrow> ''/messages'')"

definition build_upstream_resource_url :: "string \<Rightarrow> string \<Rightarrow> string" where
  "build_upstream_resource_url api_root path =
     trim_end_char CHR ''/'' api_root @ ''/'' @ trim_start_char CHR ''/'' path"

section \<open>Sources of secrets\<close>

record secret_source_config =
  ss_inline :: "string option"
  ss_env :: "string option"

datatype secret_source_ref = InlineSecret string | EnvSecret string

definition secret_source :: "secret_source_config \<Rightarrow> string \<Rightarrow> string + secret_source_ref" where
  "secret_source c owner =
     (if (case ss_inline c of Some v \<Rightarrow> trim v = [] | None \<Rightarrow> False)
      then Inl (owner @ ''.inline must not be empty'')
      else if (case ss_env c of Some v \<Rightarrow> trim v = [] | None \<Rightarrow> False)
      then Inl (owner @ ''.env must not be empty'')
      else (case (ss_inline c, ss_env c) of
          (Some v, None) \<Rightarrow> Inr (InlineSecret v)
        | (None, Some n) \<Rightarrow> Inr (EnvSecret n)
        | (None, None) \<Rightarrow> Inl (owner @ '' must include exactly one of inline or env'')
        | (Some _, Some _) \<Rightarrow> Inl (owner @ ''.inline and '' @ owner @ ''.env are mutually exclusive'')))"

datatype data_auth_mode = ProxyKeyMode | ClientProviderKeyMode

record data_auth_config =
  da_mode :: data_auth_mode
  da_proxy_key :: "secret_source_config option"

fun to_validation :: "'e + 'a \<Rightarrow> 'e + unit" where
  "to_validation (Inl e) = Inl e"
| "to_validation (Inr _) = Inr ()"

definition validate_data_auth :: "data_auth_config \<Rightarrow> string \<Rightarrow> validation" where
  "validate_data_auth c owner = (case da_mode c of
      ProxyKeyMode \<Rightarrow> (case da_proxy_key c of
          None \<Rightarrow> Inl (owner @ ''.proxy_key is required when mode=proxy_key'')
        | Some k \<Rightarrow> to_validation (secret_source k (owner @ ''.proxy_key'')))
    | ClientProviderKeyMode \<Rightarrow> (if da_proxy_key c \<noteq> None
          then Inl (owner @ ''.proxy_key must be omitted when mode=client_provider_key'') else Inr ()))"

section \<open>The configuration\<close>

datatype proxy_config = Direct | Proxy (proxy_url: string)

text \<open>A \<open>Duration\<close> in nanoseconds.\<close>

type_synonym duration = nat

definition from_secs :: "nat \<Rightarrow> duration" where
  "from_secs s = s * 1000000000"

definition as_secs :: "duration \<Rightarrow> nat" where
  "as_secs d = d div 1000000000"

record hook_endpoint_config =
  hook_url :: string
  hook_authorization :: "string option"

record hook_config =
  hook_max_pending_bytes :: nat
  hook_timeout :: duration
  hook_failure_threshold :: nat
  hook_cooldown :: duration
  hook_exchange :: "hook_endpoint_config option"
  hook_usage :: "hook_endpoint_config option"

definition hooks_enabled :: "hook_config \<Rightarrow> bool" where
  "hooks_enabled h = (hook_exchange h \<noteq> None \<or> hook_usage h \<noteq> None)"

definition default_hooks :: hook_config where
  "default_hooks = \<lparr>hook_max_pending_bytes = 100 * 1024 * 1024, hook_timeout = from_secs 30,
     hook_failure_threshold = 3, hook_cooldown = from_secs 300, hook_exchange = None, hook_usage = None\<rparr>"

record debug_trace_config =
  trace_path :: "string option"
  trace_max_text_chars :: nat

definition trace_enabled :: "debug_trace_config \<Rightarrow> bool" where
  "trace_enabled t = (case trace_path t of Some p \<Rightarrow> trim p \<noteq> [] | None \<Rightarrow> False)"

definition default_debug_trace :: debug_trace_config where
  "default_debug_trace = \<lparr>trace_path = None, trace_max_text_chars = 16384\<rparr>"

record upstream_config =
  up_name :: string
  up_api_root :: string
  up_fixed_format :: "upstream_format option"
  up_provider_key :: "secret_source_config option"
  up_headers :: "(string \<times> string) list"
  up_proxy :: "proxy_config option"
  up_limits :: "model_limits option"
  up_surface_defaults :: "model_surface_patch option"
  up_dialect :: "upstream_dialect option"

record model_alias =
  al_upstream_name :: string
  al_upstream_model :: string
  al_limits :: "model_limits option"
  al_surface :: "model_surface_patch option"

record resolved_model =
  rm_upstream_name :: string
  rm_upstream_model :: string

text \<open>The aliases are a \<open>BTreeMap\<close>: its entries in the order of the keys.\<close>

record config =
  listen :: string
  upstream_timeout :: duration
  default_proxy :: "proxy_config option"
  upstreams :: "upstream_config list"
  model_aliases :: "(string \<times> model_alias) list"
  hooks :: hook_config
  debug_trace :: debug_trace_config
  resource_bounds :: resource_limits
  state_bridge :: conversation_state_bridge_config
  data_auth :: "data_auth_config option"

definition default_config :: config where
  "default_config = \<lparr>listen = ''0.0.0.0:8080'', upstream_timeout = from_secs 120, default_proxy = None,
     upstreams = [], model_aliases = [], hooks = default_hooks, debug_trace = default_debug_trace,
     resource_bounds = default_resource_limits, state_bridge = default_bridge_config, data_auth = None\<rparr>"

definition find_upstream :: "config \<Rightarrow> string \<Rightarrow> upstream_config option" where
  "find_upstream c name = find (\<lambda>u. up_name u = name) (upstreams c)"

section \<open>Validation\<close>

definition validate_proxy :: "'u url_api \<Rightarrow> string \<Rightarrow> proxy_config \<Rightarrow> validation" where
  "validate_proxy U owner p = (case p of
      Direct \<Rightarrow> Inr ()
    | Proxy url \<Rightarrow>
       (if trim url = [] then Inl (owner @ '' url must not be empty'')
        else (case parse_url U url of
            Inl e \<Rightarrow> Inl (owner @ '' url must be a valid absolute URL: '' @ e)
          | Inr parsed \<Rightarrow>
             (if url_scheme U parsed \<notin> {''http'', ''https'', ''socks5'', ''socks5h''}
              then Inl (owner @ '' url must use http, https, socks5, or socks5h, got `'' @ url_scheme U parsed @ ''`'')
              else if \<not> url_has_explicit_authority url then Inl (owner @ '' url must include a host'')
              else if url_host U parsed = None then Inl (owner @ '' url must include a host'')
              else Inr ()))))"

definition validate_limits :: "string \<Rightarrow> model_limits \<Rightarrow> validation" where
  "validate_limits owner l =
     (if context_window l = Some 0 then Inl (owner @ '' limits.context_window must be greater than zero'')
      else if max_output_tokens l = Some 0 then Inl (owner @ '' limits.max_output_tokens must be greater than zero'')
      else Inr ())"

fun modality_debug :: "model_modality \<Rightarrow> string" where
  "modality_debug Text = ''Text''"
| "modality_debug Image = ''Image''"
| "modality_debug Audio = ''Audio''"
| "modality_debug Pdf = ''Pdf''"
| "modality_debug File = ''File''"
| "modality_debug Video = ''Video''"

text \<open>The first element that was seen before it.\<close>

fun first_repeat :: "'a list \<Rightarrow> 'a list \<Rightarrow> 'a option" where
  "first_repeat seen [] = None"
| "first_repeat seen (x # xs) = (if x \<in> set seen then Some x else first_repeat (x # seen) xs)"

definition validate_modality_list :: "string \<Rightarrow> string \<Rightarrow> model_modality list option \<Rightarrow> validation" where
  "validate_modality_list owner field items = (case items of
      None \<Rightarrow> Inr ()
    | Some [] \<Rightarrow> Inl (owner @ '' '' @ field @ '' must not be empty'')
    | Some xs \<Rightarrow> (case first_repeat [] xs of
          Some m \<Rightarrow> Inl (owner @ '' '' @ field @ '' contains duplicate modality `'' @ modality_debug m @ ''`'')
        | None \<Rightarrow> Inr ()))"

definition validate_modalities :: "string \<Rightarrow> model_modalities \<Rightarrow> validation" where
  "validate_modalities owner m =
     res_then (validate_modality_list owner ''modalities.input'' (input_modalities m))
              (validate_modality_list owner ''modalities.output'' (output_modalities m))"

definition validate_surface_patch :: "string \<Rightarrow> model_surface_patch \<Rightarrow> validation" where
  "validate_surface_patch owner p =
     (case patch_modalities p of Some m \<Rightarrow> validate_modalities owner m | None \<Rightarrow> Inr ())"

text \<open>\<open>if let Some(x) = field { check(x)?; }\<close>\<close>

definition check_opt :: "('a \<Rightarrow> 'e + unit) \<Rightarrow> 'a option \<Rightarrow> 'e + unit" where
  "check_opt f x = (case x of Some a \<Rightarrow> f a | None \<Rightarrow> Inr ())"

definition upstream_owner :: "upstream_config \<Rightarrow> string" where
  "upstream_owner u = ''upstream `'' @ up_name u @ ''`''"

definition provider_key_source :: "upstream_config \<Rightarrow> string + secret_source_ref option" where
  "provider_key_source u = (case up_provider_key u of
      None \<Rightarrow> Inr None
    | Some k \<Rightarrow> (case secret_source k (upstream_owner u @ '' provider_key'') of
          Inl e \<Rightarrow> Inl e
        | Inr s \<Rightarrow> Inr (Some s)))"

definition is_forbidden_upstream_header_name :: "string \<Rightarrow> bool" where
  "is_forbidden_upstream_header_name name =
     (to_ascii_lowercase name \<in> {''authorization'', ''proxy-authorization'', ''x-api-key'',
        ''x-goog-api-key'', ''api-key'', ''openai-api-key'', ''anthropic-api-key''})"

definition validate_api_root :: "'u url_api \<Rightarrow> upstream_config \<Rightarrow> validation" where
  "validate_api_root U u =
     (if trim (up_name u) = [] then Inl ''upstream name must not be empty''
      else if trim (up_api_root u) = [] then Inl (upstream_owner u @ '' api_root must not be empty'')
      else (case parse_url U (up_api_root u) of
          Inl e \<Rightarrow> Inl (upstream_owner u @ '' api_root must be a valid absolute URL: '' @ e)
        | Inr parsed \<Rightarrow>
           (if url_scheme U parsed \<notin> {''http'', ''https''}
            then Inl (upstream_owner u @ '' api_root must use http or https, got `'' @ url_scheme U parsed @ ''`'')
            else if url_host U parsed = None then Inl (upstream_owner u @ '' api_root must include a host'')
            else if url_has_userinfo U parsed
            then Inl (upstream_owner u @ '' api_root must not include userinfo'')
            else Inr ())))"

definition validate_headers :: "upstream_config \<Rightarrow> validation" where
  "validate_headers u = res_each (\<lambda>(name, _).
     if is_forbidden_upstream_header_name name
     then Inl (upstream_owner u @ '' upstream_headers must not override forbidden auth/secret header `'' @ name @ ''`'')
     else Inr ()) (up_headers u)"

definition validate_optional_parts :: "'u url_api \<Rightarrow> upstream_config \<Rightarrow> validation" where
  "validate_optional_parts U u =
     res_then (check_opt (validate_proxy U (upstream_owner u @ '' proxy'')) (up_proxy u))
    (res_then (check_opt (validate_limits (upstream_owner u)) (up_limits u))
    (res_then (check_opt (validate_surface_patch (upstream_owner u)) (up_surface_defaults u))
              (check_opt (\<lambda>d. map_err (\<lambda>e. upstream_owner u @ '' dialect: '' @ e) (to_validation (resolve_dialect d)))
                 (up_dialect u))))"

text \<open>The loop over the upstreams, with the names seen so far.\<close>

fun validate_upstreams :: "'u url_api \<Rightarrow> string list \<Rightarrow> upstream_config list \<Rightarrow> validation" where
  "validate_upstreams U seen [] = Inr ()"
| "validate_upstreams U seen (u # us) =
     res_then (validate_api_root U u)
    (res_then (to_validation (provider_key_source u))
    (res_then (validate_headers u)
    (res_then (if up_name u \<in> set seen then Inl (''duplicate upstream name `'' @ up_name u @ ''`'') else Inr ())
    (res_then (validate_optional_parts U u)
              (validate_upstreams U (up_name u # seen) us)))))"

definition validate_hook :: "'u url_api \<Rightarrow> string \<Rightarrow> hook_endpoint_config option \<Rightarrow> validation" where
  "validate_hook U name hook = (case hook of
      None \<Rightarrow> Inr ()
    | Some h \<Rightarrow>
       (if trim (hook_url h) = [] then Inl (name @ '' hook url must not be empty'')
        else (case parse_url U (hook_url h) of
            Inl e \<Rightarrow> Inl (name @ '' hook url is invalid: '' @ e)
          | Inr parsed \<Rightarrow>
             (if url_scheme U parsed \<notin> {''http'', ''https''}
              then Inl (name @ '' hook url must use http or https, got `'' @ url_scheme U parsed @ ''`'')
              else if url_has_userinfo U parsed then Inl (name @ '' hook url must not include userinfo'')
              else Inr ()))))"

definition validate_hook_limits :: "hook_config \<Rightarrow> validation" where
  "validate_hook_limits h =
     (if \<not> hooks_enabled h then Inr ()
      else if hook_timeout h = 0 then Inl ''hook timeout must be greater than zero''
      else if hook_failure_threshold h = 0 then Inl ''hook failure_threshold must be greater than zero''
      else if hook_cooldown h = 0 then Inl ''hook cooldown must be greater than zero''
      else Inr ())"

definition validate_alias :: "config \<Rightarrow> string \<times> model_alias \<Rightarrow> validation" where
  "validate_alias c = (\<lambda>(alias, t).
     if trim alias = [] then Inl ''model alias name must not be empty''
     else if find_upstream c (al_upstream_name t) = None
     then Inl (''model alias `'' @ alias @ ''` references unknown upstream `'' @ al_upstream_name t @ ''`'')
     else if trim (al_upstream_model t) = []
     then Inl (''model alias `'' @ alias @ ''` must point to a non-empty upstream model'')
     else res_then (check_opt (validate_limits (''model alias `'' @ alias @ ''`'')) (al_limits t))
                   (check_opt (validate_surface_patch (''model alias `'' @ alias @ ''`'')) (al_surface t)))"

definition validate_config :: "'u url_api \<Rightarrow> config \<Rightarrow> validation" where
  "validate_config U c =
     (if upstreams c = [] then Inl ''at least one upstream must be configured''
      else res_then (validate_resource_limits (resource_bounds c))
          (res_then (validate_bridge_config (state_bridge c))
          (res_then (check_opt (\<lambda>d. validate_data_auth d ''data_auth'') (data_auth c))
          (res_then (check_opt (validate_proxy U ''proxy'') (default_proxy c))
          (res_then (validate_upstreams U [] (upstreams c))
          (res_then (validate_hook U ''exchange'' (hook_exchange (hooks c)))
          (res_then (validate_hook U ''usage'' (hook_usage (hooks c)))
          (res_then (validate_hook_limits (hooks c))
                    (res_each (validate_alias c) (model_aliases c))))))))))"

section \<open>Models\<close>

definition effective_model_limits :: "config \<Rightarrow> model_alias \<Rightarrow> model_limits option" where
  "effective_model_limits c a =
     (case Option.bind (find_upstream c (al_upstream_name a)) up_limits of
        Some base \<Rightarrow> merge_limits base (al_limits a)
      | None \<Rightarrow> al_limits a)"

definition empty_surface_patch :: model_surface_patch where
  "empty_surface_patch = \<lparr>patch_modalities = None, patch_tools = None\<rparr>"

definition effective_model_surface :: "config \<Rightarrow> model_alias \<Rightarrow> model_surface" where
  "effective_model_surface c a =
     (let merged = merge_surface_patch
            (unwrap_or (Option.bind (find_upstream c (al_upstream_name a)) up_surface_defaults) empty_surface_patch)
            (al_surface a)
      in \<lparr>surface_limits = effective_model_limits c a, surface_modalities = patch_modalities merged,
          surface_tools = patch_tools merged\<rparr>)"

definition resolve_unaddressed :: "config \<Rightarrow> string \<Rightarrow> string + resolved_model" where
  "resolve_unaddressed c m = (case map_of (model_aliases c) m of
      Some a \<Rightarrow> Inr \<lparr>rm_upstream_name = al_upstream_name a, rm_upstream_model = al_upstream_model a\<rparr>
    | None \<Rightarrow> (case upstreams c of
          [u] \<Rightarrow> Inr \<lparr>rm_upstream_name = up_name u, rm_upstream_model = m\<rparr>
        | _ \<Rightarrow> Inl (''model `'' @ m @ ''` is ambiguous; use `upstream:model` or configure model_aliases'')))"

definition resolve_model :: "config \<Rightarrow> string \<Rightarrow> string + resolved_model" where
  "resolve_model c m = (case split_once CHR '':'' m of
      Some (name, model) \<Rightarrow>
        (if find_upstream c name \<noteq> None
         then (if trim model = []
               then Inl (''model `'' @ m @ ''` must include a non-empty upstream model after `:`'')
               else Inr \<lparr>rm_upstream_name = name, rm_upstream_model = model\<rparr>)
         else resolve_unaddressed c m)
    | None \<Rightarrow> resolve_unaddressed c m)"

end
