(* ===== verification/Config_Payloads.thy ===== *)
theory Config_Payloads
  imports Config
begin

text \<open>
  The forms a configuration comes and goes in (src/src/config.rs): the YAML file, the payload of the
  administration interface, and the view of it that interface shows, without secrets.
\<close>

section \<open>Errors of deserialization\<close>

datatype de_error =
    DeCustom string
  | DeDuplicateField string
  | DeUnknownField string "string list"
  | DeMissingField string
  | DeValue

text \<open>
  The entries a \<open>MapAccess\<close> gives, each with the value read as a string, or \<open>None\<close> where it
  is not one.
\<close>

type_synonym map_entries = "(string \<times> string option) list"

fun visit_secret_source :: "string option \<Rightarrow> string option \<Rightarrow> map_entries \<Rightarrow> de_error + secret_source_config" where
  "visit_secret_source inline_v env_v [] = Inr \<lparr>ss_inline = inline_v, ss_env = env_v\<rparr>"
| "visit_secret_source inline_v env_v ((key, value) # entries) =
     (if key = ''inline'' then
        (if inline_v \<noteq> None then Inl (DeDuplicateField ''inline'')
         else (case value of
             None \<Rightarrow> Inl (DeCustom ''secret source field `inline` must be a string'')
           | Some v \<Rightarrow> visit_secret_source (Some v) env_v entries))
      else if key = ''env'' then
        (if env_v \<noteq> None then Inl (DeDuplicateField ''env'')
         else (case value of
             None \<Rightarrow> Inl (DeCustom ''secret source field `env` must be a string'')
           | Some v \<Rightarrow> visit_secret_source inline_v (Some v) entries))
      else Inl (DeUnknownField key [''inline'', ''env'']))"

datatype config_value = StrValue string | MapValue map_entries | OtherValue

definition deserialize_secret_source :: "config_value \<Rightarrow> de_error + secret_source_config" where
  "deserialize_secret_source v = (case v of
      StrValue _ \<Rightarrow> Inl (DeCustom ''secret source must be an object with `inline` or `env`'')
    | MapValue entries \<Rightarrow> visit_secret_source None None entries
    | OtherValue \<Rightarrow> Inl DeValue)"

fun visit_proxy_url :: "string option \<Rightarrow> map_entries \<Rightarrow> de_error + proxy_config" where
  "visit_proxy_url url [] = (case url of None \<Rightarrow> Inl (DeMissingField ''url'') | Some u \<Rightarrow> Inr (Proxy u))"
| "visit_proxy_url url ((key, value) # entries) =
     (if key = ''url'' then
        (if url \<noteq> None then Inl (DeDuplicateField ''url'')
         else (case value of None \<Rightarrow> Inl DeValue | Some v \<Rightarrow> visit_proxy_url (Some v) entries))
      else Inl (DeUnknownField key [''url'']))"

definition deserialize_proxy :: "config_value \<Rightarrow> de_error + proxy_config" where
  "deserialize_proxy v = (case v of
      StrValue s \<Rightarrow> (if s = ''direct'' then Inr Direct
         else Inl (DeCustom (''proxy config string must be `direct`, got `'' @ s @ ''`'')))
    | MapValue entries \<Rightarrow> visit_proxy_url None entries
    | OtherValue \<Rightarrow> Inl DeValue)"

fun serialize_proxy :: "proxy_config \<Rightarrow> config_value" where
  "serialize_proxy Direct = StrValue ''direct''"
| "serialize_proxy (Proxy url) = MapValue [(''url'', Some url)]"

definition provider_key_env_removed_error :: "string option \<Rightarrow> string" where
  "provider_key_env_removed_error name = (case name of
      Some n \<Rightarrow> ''upstream `'' @ n @
        ''` provider_key_env was removed before GA; use provider_key: { env: ENV } instead''
    | None \<Rightarrow> ''provider_key_env was removed before GA; use provider_key: { env: ENV } instead'')"

definition yaml_config_parse_error :: "string \<Rightarrow> string" where
  "yaml_config_parse_error message =
     ''failed to parse YAML config: '' @
     (if str_contains message ''provider_key_env'' then provider_key_env_removed_error None else message)"

section \<open>The YAML file\<close>

record upstream_file =
  uf_api_root :: string
  uf_fixed_format :: "upstream_format option"
  uf_provider_key :: "secret_source_config option"
  uf_headers :: "(string \<times> string) list"
  uf_proxy :: "proxy_config option"
  uf_limits :: "model_limits option"
  uf_surface_defaults :: "model_surface_patch option"
  uf_dialect :: "upstream_dialect option"

record structured_alias_file =
  sa_target :: string
  sa_limits :: "model_limits option"
  sa_surface :: "model_surface_patch option"

datatype model_alias_file = AliasTarget string | AliasStructured structured_alias_file

record hooks_file =
  hf_max_pending_bytes :: nat
  hf_timeout_secs :: nat
  hf_failure_threshold :: nat
  hf_cooldown_secs :: nat
  hf_exchange :: "hook_endpoint_config option"
  hf_usage :: "hook_endpoint_config option"

record file_config =
  fc_listen :: string
  fc_upstream_timeout_secs :: nat
  fc_proxy :: "proxy_config option"
  fc_upstreams :: "(string \<times> upstream_file) list"
  fc_model_aliases :: "(string \<times> model_alias_file) list"
  fc_hooks :: hooks_file
  fc_debug_trace :: debug_trace_config
  fc_resource_limits :: resource_limits
  fc_state_bridge :: conversation_state_bridge_config
  fc_data_auth :: "data_auth_config option"

definition upstream_of_file :: "string \<times> upstream_file \<Rightarrow> upstream_config" where
  "upstream_of_file = (\<lambda>(name, f).
     \<lparr>up_name = name, up_api_root = uf_api_root f, up_fixed_format = uf_fixed_format f,
      up_provider_key = uf_provider_key f, up_headers = uf_headers f, up_proxy = uf_proxy f,
      up_limits = uf_limits f, up_surface_defaults = uf_surface_defaults f, up_dialect = uf_dialect f\<rparr>)"

fun alias_parts :: "model_alias_file \<Rightarrow> string \<times> model_limits option \<times> model_surface_patch option" where
  "alias_parts (AliasTarget t) = (t, None, None)"
| "alias_parts (AliasStructured s) = (sa_target s, sa_limits s, sa_surface s)"

definition alias_of_file :: "string \<times> model_alias_file \<Rightarrow> (string \<times> model_alias) option" where
  "alias_of_file = (\<lambda>(alias, f). case alias_parts f of (target, limits, surface) \<Rightarrow>
     map_option (\<lambda>(name, model). (alias, \<lparr>al_upstream_name = name, al_upstream_model = model,
        al_limits = limits, al_surface = surface\<rparr>)) (split_once CHR '':'' target))"

definition hooks_of_file :: "hooks_file \<Rightarrow> hook_config" where
  "hooks_of_file h = \<lparr>hook_max_pending_bytes = hf_max_pending_bytes h, hook_timeout = from_secs (hf_timeout_secs h),
     hook_failure_threshold = hf_failure_threshold h, hook_cooldown = from_secs (hf_cooldown_secs h),
     hook_exchange = hf_exchange h, hook_usage = hf_usage h\<rparr>"

definition config_of_file :: "file_config \<Rightarrow> config" where
  "config_of_file f =
     \<lparr>listen = fc_listen f, upstream_timeout = from_secs (fc_upstream_timeout_secs f), default_proxy = fc_proxy f,
      upstreams = map upstream_of_file (fc_upstreams f),
      model_aliases = List.map_filter alias_of_file (fc_model_aliases f),
      hooks = hooks_of_file (fc_hooks f), debug_trace = fc_debug_trace f,
      resource_bounds = fc_resource_limits f, state_bridge = fc_state_bridge f, data_auth = fc_data_auth f\<rparr>"

section \<open>The payload\<close>

record runtime_upstream =
  ru_name :: string
  ru_api_root :: string
  ru_fixed_format :: "upstream_format option"
  ru_provider_key :: "secret_source_config option"
  ru_headers :: "(string \<times> string) list"
  ru_proxy :: "proxy_config option"
  ru_limits :: "model_limits option"
  ru_surface_defaults :: "model_surface_patch option"
  ru_dialect :: "upstream_dialect option"

text \<open>The wire form has one more field, which is refused: \<open>provider_key_env\<close>.\<close>

definition runtime_upstream_of_wire :: "runtime_upstream \<times> bool \<Rightarrow> de_error + runtime_upstream" where
  "runtime_upstream_of_wire = (\<lambda>(u, has_provider_key_env).
     if has_provider_key_env then Inl (DeCustom (provider_key_env_removed_error (Some (ru_name u)))) else Inr u)"

record runtime_hooks =
  rh_max_pending_bytes :: nat
  rh_timeout_secs :: nat
  rh_failure_threshold :: nat
  rh_cooldown_secs :: nat
  rh_exchange :: "hook_endpoint_config option"
  rh_usage :: "hook_endpoint_config option"

definition default_runtime_hooks :: runtime_hooks where
  "default_runtime_hooks = \<lparr>rh_max_pending_bytes = 100 * 1024 * 1024, rh_timeout_secs = 30,
     rh_failure_threshold = 3, rh_cooldown_secs = 300, rh_exchange = None, rh_usage = None\<rparr>"

record config_payload =
  pl_listen :: string
  pl_upstream_timeout_secs :: nat
  pl_proxy :: "proxy_config option"
  pl_upstreams :: "runtime_upstream list"
  pl_model_aliases :: "(string \<times> model_alias) list"
  pl_hooks :: runtime_hooks
  pl_debug_trace :: debug_trace_config
  pl_resource_limits :: resource_limits
  pl_state_bridge :: conversation_state_bridge_config

definition upstream_of_runtime :: "runtime_upstream \<Rightarrow> upstream_config" where
  "upstream_of_runtime u =
     \<lparr>up_name = ru_name u, up_api_root = ru_api_root u, up_fixed_format = ru_fixed_format u,
      up_provider_key = ru_provider_key u, up_headers = ru_headers u, up_proxy = ru_proxy u,
      up_limits = ru_limits u, up_surface_defaults = ru_surface_defaults u, up_dialect = ru_dialect u\<rparr>"

definition hooks_of_runtime :: "runtime_hooks \<Rightarrow> hook_config" where
  "hooks_of_runtime h = \<lparr>hook_max_pending_bytes = rh_max_pending_bytes h, hook_timeout = from_secs (rh_timeout_secs h),
     hook_failure_threshold = rh_failure_threshold h, hook_cooldown = from_secs (rh_cooldown_secs h),
     hook_exchange = rh_exchange h, hook_usage = rh_usage h\<rparr>"

definition config_of_payload :: "'u url_api \<Rightarrow> config_payload \<Rightarrow> string + config" where
  "config_of_payload U p =
     (let c = \<lparr>listen = pl_listen p, upstream_timeout = from_secs (pl_upstream_timeout_secs p),
               default_proxy = pl_proxy p, upstreams = map upstream_of_runtime (pl_upstreams p),
               model_aliases = pl_model_aliases p, hooks = hooks_of_runtime (pl_hooks p),
               debug_trace = pl_debug_trace p, resource_bounds = pl_resource_limits p,
               state_bridge = pl_state_bridge p, data_auth = None\<rparr>
      in case validate_config U c of Inl e \<Rightarrow> Inl e | Inr _ \<Rightarrow> Inr c)"

definition runtime_of_upstream :: "upstream_config \<Rightarrow> runtime_upstream" where
  "runtime_of_upstream u =
     \<lparr>ru_name = up_name u, ru_api_root = up_api_root u, ru_fixed_format = up_fixed_format u,
      ru_provider_key = up_provider_key u, ru_headers = up_headers u, ru_proxy = up_proxy u,
      ru_limits = up_limits u, ru_surface_defaults = up_surface_defaults u, ru_dialect = up_dialect u\<rparr>"

definition runtime_of_hooks :: "hook_config \<Rightarrow> runtime_hooks" where
  "runtime_of_hooks h = \<lparr>rh_max_pending_bytes = hook_max_pending_bytes h, rh_timeout_secs = as_secs (hook_timeout h),
     rh_failure_threshold = hook_failure_threshold h, rh_cooldown_secs = as_secs (hook_cooldown h),
     rh_exchange = hook_exchange h, rh_usage = hook_usage h\<rparr>"

definition payload_of_config :: "config \<Rightarrow> config_payload" where
  "payload_of_config c =
     \<lparr>pl_listen = listen c, pl_upstream_timeout_secs = as_secs (upstream_timeout c), pl_proxy = default_proxy c,
      pl_upstreams = map runtime_of_upstream (upstreams c), pl_model_aliases = model_aliases c,
      pl_hooks = runtime_of_hooks (hooks c), pl_debug_trace = debug_trace c,
      pl_resource_limits = resource_bounds c, pl_state_bridge = state_bridge c\<rparr>"

section \<open>The view of the administration interface\<close>

record credential_source_view =
  csv_source :: string
  csv_configured :: bool
  csv_redacted :: bool
  csv_env_name :: "string option"

definition inline_view :: credential_source_view where
  "inline_view = \<lparr>csv_source = ''inline'', csv_configured = True, csv_redacted = True, csv_env_name = None\<rparr>"

definition env_view :: "string \<Rightarrow> credential_source_view" where
  "env_view name = \<lparr>csv_source = ''env'', csv_configured = True, csv_redacted = True, csv_env_name = Some name\<rparr>"

definition secret_source_view :: "secret_source_config \<Rightarrow> credential_source_view option" where
  "secret_source_view s = (case (ss_inline s, ss_env s) of
      (Some _, None) \<Rightarrow> Some inline_view
    | (None, Some name) \<Rightarrow> Some (env_view name)
    | _ \<Rightarrow> None)"

record hook_endpoint_view =
  hev_url :: string
  hev_authorization_configured :: bool

record header_value_view =
  hvv_name :: string
  hvv_value :: "string option"
  hvv_redacted :: bool

record hooks_view =
  hcv_max_pending_bytes :: nat
  hcv_timeout_secs :: nat
  hcv_failure_threshold :: nat
  hcv_cooldown_secs :: nat
  hcv_exchange :: "hook_endpoint_view option"
  hcv_usage :: "hook_endpoint_view option"

record upstream_view =
  ucv_name :: string
  ucv_api_root :: string
  ucv_fixed_format :: "upstream_format option"
  ucv_provider_key :: "credential_source_view option"
  ucv_headers :: "header_value_view list"
  ucv_proxy :: "proxy_config option"
  ucv_limits :: "model_limits option"
  ucv_surface_defaults :: "model_surface_patch option"

record config_view =
  cv_listen :: string
  cv_upstream_timeout_secs :: nat
  cv_proxy :: "proxy_config option"
  cv_upstreams :: "upstream_view list"
  cv_model_aliases :: "(string \<times> model_alias) list"
  cv_hooks :: hooks_view
  cv_debug_trace :: debug_trace_config
  cv_resource_limits :: resource_limits
  cv_state_bridge :: conversation_state_bridge_config

definition strip_url_query_and_fragment :: "string \<Rightarrow> string" where
  "strip_url_query_and_fragment value = before_any ''?#'' value"

definition sanitize_url_for_admin :: "'u url_api \<Rightarrow> string \<Rightarrow> string" where
  "sanitize_url_for_admin U value = (case parse_url U value of
      Inr url \<Rightarrow> url_to_string U (set_url_fragment U None (set_url_query U None
        (set_url_password U None (set_url_username U [] url))))
    | Inl _ \<Rightarrow>
       (let v = strip_url_query_and_fragment value
        in case str_find ''://'' v of
             None \<Rightarrow> v
           | Some scheme_end \<Rightarrow>
              (let start = scheme_end + 3; authority = before_any ''/?#'' (drop start v)
               in case str_find ''@'' authority of
                    None \<Rightarrow> v
                  | Some at_offset \<Rightarrow> take start v @ drop (start + at_offset + 1) v)))"

fun sanitize_proxy_config_for_admin :: "'u url_api \<Rightarrow> proxy_config \<Rightarrow> proxy_config" where
  "sanitize_proxy_config_for_admin U Direct = Direct"
| "sanitize_proxy_config_for_admin U (Proxy url) = Proxy (sanitize_url_for_admin U url)"

definition is_sensitive_header_name :: "string \<Rightarrow> bool" where
  "is_sensitive_header_name name = (let n = to_ascii_lowercase name in
     n \<in> {''authorization'', ''proxy-authorization'', ''cookie'', ''set-cookie'', ''x-api-key'', ''api-key'', ''apikey''}
     \<or> str_contains n ''api-key'' \<or> str_contains n ''apikey'' \<or> str_contains n ''token''
     \<or> str_contains n ''secret'' \<or> str_contains n ''credential'')"

definition admin_header_view :: "string \<times> string \<Rightarrow> header_value_view" where
  "admin_header_view = (\<lambda>(name, value).
     if is_sensitive_header_name name then \<lparr>hvv_name = name, hvv_value = None, hvv_redacted = True\<rparr>
     else \<lparr>hvv_name = name, hvv_value = Some value, hvv_redacted = False\<rparr>)"

definition admin_provider_key_view :: "upstream_config \<Rightarrow> credential_source_view option" where
  "admin_provider_key_view u = Option.bind (up_provider_key u) secret_source_view"

definition upstream_admin_view :: "'u url_api \<Rightarrow> upstream_config \<Rightarrow> upstream_view" where
  "upstream_admin_view U u =
     \<lparr>ucv_name = up_name u, ucv_api_root = sanitize_url_for_admin U (up_api_root u),
      ucv_fixed_format = up_fixed_format u, ucv_provider_key = admin_provider_key_view u,
      ucv_headers = map admin_header_view (up_headers u),
      ucv_proxy = map_option (sanitize_proxy_config_for_admin U) (up_proxy u),
      ucv_limits = up_limits u, ucv_surface_defaults = up_surface_defaults u\<rparr>"

definition hook_admin_view :: "'u url_api \<Rightarrow> hook_endpoint_config \<Rightarrow> hook_endpoint_view" where
  "hook_admin_view U h =
     \<lparr>hev_url = sanitize_url_for_admin U (hook_url h), hev_authorization_configured = (hook_authorization h \<noteq> None)\<rparr>"

definition admin_config_view :: "'u url_api \<Rightarrow> config \<Rightarrow> config_view" where
  "admin_config_view U c =
     \<lparr>cv_listen = listen c, cv_upstream_timeout_secs = as_secs (upstream_timeout c),
      cv_proxy = map_option (sanitize_proxy_config_for_admin U) (default_proxy c),
      cv_upstreams = map (upstream_admin_view U) (upstreams c), cv_model_aliases = model_aliases c,
      cv_hooks = \<lparr>hcv_max_pending_bytes = hook_max_pending_bytes (hooks c),
         hcv_timeout_secs = as_secs (hook_timeout (hooks c)),
         hcv_failure_threshold = hook_failure_threshold (hooks c),
         hcv_cooldown_secs = as_secs (hook_cooldown (hooks c)),
         hcv_exchange = map_option (hook_admin_view U) (hook_exchange (hooks c)),
         hcv_usage = map_option (hook_admin_view U) (hook_usage (hooks c))\<rparr>,
      cv_debug_trace = debug_trace c, cv_resource_limits = resource_bounds c, cv_state_bridge = state_bridge c\<rparr>"

end
