(* ===== verification/Config_Guarantees.thy ===== *)
theory Config_Guarantees
  imports Config_Payloads
begin

text \<open>
  What a valid configuration gives: every model name that resolves has an upstream, the surfaces of the
  aliases are usable, the payload of a configuration reads back as it, and the administration view
  holds no secret.
\<close>

section \<open>A valid configuration\<close>

lemma to_validation_Inr [simp]: "to_validation r = Inr () \<longleftrightarrow> (\<exists>x. r = Inr x)"
  by (cases r) auto

lemma check_opt_Inr [simp]: "check_opt f x = Inr () \<longleftrightarrow> (\<forall>a. x = Some a \<longrightarrow> f a = Inr ())"
  by (cases x) (auto simp: check_opt_def)

lemma validated_upstreams:
  "validate_upstreams U seen us = Inr () \<Longrightarrow>
     distinct (map up_name us) \<and> set (map up_name us) \<inter> set seen = {}
     \<and> (\<forall>u \<in> set us. validate_optional_parts U u = Inr ())"
proof (induction us arbitrary: seen)
  case Nil
  then show ?case by simp
next
  case (Cons u us)
  then have "up_name u \<notin> set seen" "validate_optional_parts U u = Inr ()"
    "validate_upstreams U (up_name u # seen) us = Inr ()"
    by (auto split: if_splits)
  with Cons.IH [of "up_name u # seen"] show ?case by auto
qed

lemma validate_config_Inr:
  "validate_config U c = Inr () \<longleftrightarrow>
     upstreams c \<noteq> [] \<and> validate_resource_limits (resource_bounds c) = Inr ()
     \<and> validate_bridge_config (state_bridge c) = Inr ()
     \<and> check_opt (\<lambda>d. validate_data_auth d ''data_auth'') (data_auth c) = Inr ()
     \<and> check_opt (validate_proxy U ''proxy'') (default_proxy c) = Inr ()
     \<and> validate_upstreams U [] (upstreams c) = Inr ()
     \<and> validate_hook U ''exchange'' (hook_exchange (hooks c)) = Inr ()
     \<and> validate_hook U ''usage'' (hook_usage (hooks c)) = Inr ()
     \<and> validate_hook_limits (hooks c) = Inr ()
     \<and> res_each (validate_alias c) (model_aliases c) = Inr ()"
  unfolding validate_config_def by (auto simp del: check_opt_Inr res_each_Inr)

lemma validated_alias:
  assumes "validate_config U c = Inr ()" "(alias, t) \<in> set (model_aliases c)"
  shows "find_upstream c (al_upstream_name t) \<noteq> None" "trim (al_upstream_model t) \<noteq> []"
    "\<And>l. al_limits t = Some l \<Longrightarrow> validate_limits (''model alias `'' @ alias @ ''`'') l = Inr ()"
    "\<And>p. al_surface t = Some p \<Longrightarrow> validate_surface_patch (''model alias `'' @ alias @ ''`'') p = Inr ()"
proof -
  have "validate_alias c (alias, t) = Inr ()"
    using assms by (simp add: validate_config_Inr)
  then show "find_upstream c (al_upstream_name t) \<noteq> None" "trim (al_upstream_model t) \<noteq> []"
    "\<And>l. al_limits t = Some l \<Longrightarrow> validate_limits (''model alias `'' @ alias @ ''`'') l = Inr ()"
    "\<And>p. al_surface t = Some p \<Longrightarrow> validate_surface_patch (''model alias `'' @ alias @ ''`'') p = Inr ()"
    by (simp_all add: validate_alias_def split: if_splits)
qed

lemma find_upstream_Some:
  "find_upstream c name = Some u \<Longrightarrow> u \<in> set (upstreams c) \<and> up_name u = name"
  by (auto simp: find_upstream_def find_Some_iff)

lemma find_upstream_iff: "find_upstream c name \<noteq> None \<longleftrightarrow> (\<exists>u \<in> set (upstreams c). up_name u = name)"
  by (auto simp: find_upstream_def find_None_iff)

text \<open>A parser that accepts everything, and a configuration with two upstreams and an alias.\<close>

definition sample_urls :: "string url_api" where
  "sample_urls = \<lparr>parse_url = Inr, url_scheme = (\<lambda>_. ''https''), url_host = Some, url_username = (\<lambda>_. []),
     url_password = (\<lambda>_. None), set_url_username = (\<lambda>_ u. u), set_url_password = (\<lambda>_ u. u),
     set_url_query = (\<lambda>_ u. u), set_url_fragment = (\<lambda>_ u. u), url_to_string = id\<rparr>"

definition sample_upstream :: "string \<Rightarrow> upstream_config" where
  "sample_upstream name = \<lparr>up_name = name, up_api_root = ''https://h/v1'', up_fixed_format = None,
     up_provider_key = Some \<lparr>ss_inline = Some ''k'', ss_env = None\<rparr>, up_headers = [(''x-token'', ''t'')],
     up_proxy = None, up_limits = Some \<lparr>context_window = Some 9, max_output_tokens = None\<rparr>,
     up_surface_defaults = None, up_dialect = None\<rparr>"

definition sample_alias :: model_alias where
  "sample_alias = \<lparr>al_upstream_name = ''b'', al_upstream_model = ''m1'',
     al_limits = Some \<lparr>context_window = None, max_output_tokens = Some 4\<rparr>,
     al_surface = Some \<lparr>patch_modalities = Some \<lparr>input_modalities = Some [Text, Image], output_modalities = None\<rparr>,
                        patch_tools = None\<rparr>\<rparr>"

definition sample_config :: config where
  "sample_config = default_config\<lparr>upstreams := [sample_upstream ''a'', sample_upstream ''b''],
     model_aliases := [(''m'', sample_alias)]\<rparr>"

lemma sample_is_valid: "validate_config sample_urls sample_config = Inr ()"
proof -
  have "validate_upstreams sample_urls [] [sample_upstream ''a'', sample_upstream ''b''] = Inr ()"
    by code_simp
  moreover have "trim ''m'' \<noteq> []" "trim ''m1'' \<noteq> []"
    by code_simp+
  moreover have "validate_limits (''model alias `m`'') \<lparr>context_window = None, max_output_tokens = Some 4\<rparr> = Inr ()"
    by code_simp
  moreover have "validate_surface_patch ''model alias `m`''
      \<lparr>patch_modalities = Some \<lparr>input_modalities = Some [Text, Image], output_modalities = None\<rparr>, patch_tools = None\<rparr> = Inr ()"
    by code_simp
  ultimately show ?thesis
    by (simp add: validate_config_Inr sample_config_def default_config_def default_resource_limits_def
        validate_resource_limits_def must_be_positive_def default_bridge_config_def validate_bridge_config_def
        default_hooks_def validate_hook_def validate_hook_limits_def hooks_enabled_def validate_alias_def
        sample_alias_def find_upstream_def sample_upstream_def)
qed

section \<open>Resolution\<close>

lemma unaddressed_is_known:
  assumes v: "validate_config U c = Inr ()" and r: "resolve_unaddressed c m = Inr r"
  shows "find_upstream c (rm_upstream_name r) \<noteq> None
    \<and> (trim (rm_upstream_model r) \<noteq> [] \<or> rm_upstream_model r = m)"
proof (cases "map_of (model_aliases c) m")
  case (Some a)
  then have "(m, a) \<in> set (model_aliases c)" by (rule map_of_SomeD)
  with validated_alias [OF v this] r Some show ?thesis
    by (auto simp: resolve_unaddressed_def)
next
  case None
  with r obtain u where "upstreams c = [u]" "r = \<lparr>rm_upstream_name = up_name u, rm_upstream_model = m\<rparr>"
    by (auto simp: resolve_unaddressed_def split: list.splits)
  then show ?thesis by (simp add: find_upstream_def)
qed

lemma resolved_is_known:
  assumes v: "validate_config U c = Inr ()" and r: "resolve_model c m = Inr r"
  shows "find_upstream c (rm_upstream_name r) \<noteq> None
    \<and> (trim (rm_upstream_model r) \<noteq> [] \<or> rm_upstream_model r = m)"
  using r unaddressed_is_known [OF v]
  by (auto simp: resolve_model_def split: option.splits if_splits prod.splits)

text \<open>
  A model name of a request that resolves in a valid configuration names exactly one configured
  upstream, and a model that is not blank unless the client asked for a blank one.
\<close>

theorem resolved_model_is_routable:
  assumes "validate_config U c = Inr ()" "resolve_model c m = Inr r"
  shows "(\<exists>!u. u \<in> set (upstreams c) \<and> up_name u = rm_upstream_name r)
    \<and> (trim (rm_upstream_model r) \<noteq> [] \<or> rm_upstream_model r = m)"
proof -
  have d: "distinct (map up_name (upstreams c))"
    using assms(1) validated_upstreams unfolding validate_config_Inr by blast
  obtain u where u: "u \<in> set (upstreams c)" "up_name u = rm_upstream_name r"
    using resolved_is_known [OF assms] find_upstream_iff by blast
  have "v = u" if "v \<in> set (upstreams c)" "up_name v = rm_upstream_name r" for v
    using d u that by (metis distinct_map inj_onD)
  with u resolved_is_known [OF assms] show ?thesis by blast
qed

lemma resolved_model_is_routable_witness:
  "\<exists>!u. u \<in> set (upstreams sample_config) \<and> up_name u = ''b''"
proof -
  have "resolve_model sample_config ''m'' = Inr \<lparr>rm_upstream_name = ''b'', rm_upstream_model = ''m1''\<rparr>"
    by (simp add: resolve_model_def resolve_unaddressed_def sample_config_def sample_alias_def)
  from resolved_model_is_routable [OF sample_is_valid this] show ?thesis by simp
qed

section \<open>Surfaces\<close>

definition limits_ok :: "model_limits option \<Rightarrow> bool" where
  "limits_ok l = (case l of None \<Rightarrow> True
     | Some l \<Rightarrow> context_window l \<noteq> Some 0 \<and> max_output_tokens l \<noteq> Some 0)"

definition modality_list_ok :: "model_modality list option \<Rightarrow> bool" where
  "modality_list_ok l = (case l of None \<Rightarrow> True | Some xs \<Rightarrow> xs \<noteq> [] \<and> distinct xs)"

definition modalities_ok :: "model_modalities option \<Rightarrow> bool" where
  "modalities_ok m = (case m of None \<Rightarrow> True
     | Some m \<Rightarrow> modality_list_ok (input_modalities m) \<and> modality_list_ok (output_modalities m))"

lemma first_repeat_None: "first_repeat seen xs = None \<longleftrightarrow> distinct xs \<and> set xs \<inter> set seen = {}"
  by (induction xs arbitrary: seen) auto

lemma first_repeat_Some: "first_repeat [] xs = Some m \<Longrightarrow> \<not> distinct xs"
  using first_repeat_None [of "[]" xs] by auto

lemma validate_limits_ok: "validate_limits owner l = Inr () \<longleftrightarrow> limits_ok (Some l)"
  by (simp add: validate_limits_def limits_ok_def)

lemma validate_modality_list_ok: "validate_modality_list owner field l = Inr () \<longleftrightarrow> modality_list_ok l"
  by (auto simp: validate_modality_list_def modality_list_ok_def first_repeat_None
      simp del: first_repeat.simps dest: first_repeat_Some split: option.splits list.splits)

lemma validate_surface_patch_ok: "validate_surface_patch owner p = Inr () \<longleftrightarrow> modalities_ok (patch_modalities p)"
  by (simp add: validate_surface_patch_def modalities_ok_def validate_modalities_def
      validate_modality_list_ok split: option.splits)

lemma option_or_cases: "option_or a b = (case a of None \<Rightarrow> b | Some _ \<Rightarrow> a)"
  by (cases a) simp_all

lemma merge_limits_ok:
  "limits_ok (Some base) \<Longrightarrow> limits_ok over \<Longrightarrow> limits_ok (merge_limits base over)"
  by (auto simp: limits_ok_def merge_limits_def Let_def option_or_cases split: option.splits)

lemma merge_modalities_ok:
  "modalities_ok (Some base) \<Longrightarrow> modalities_ok over \<Longrightarrow> modalities_ok (merge_modalities base over)"
  by (cases over) (auto simp: modalities_ok_def merge_modalities_def Let_def option_or_cases modality_list_ok_def
      split: option.splits)

lemma merge_surface_patch_ok:
  assumes "modalities_ok (patch_modalities base)" "modalities_ok (Option.bind over patch_modalities)"
  shows "modalities_ok (patch_modalities (merge_surface_patch base over))"
  using assms merge_modalities_ok
  by (auto simp: merge_surface_patch_def split: option.splits)

lemma validated_upstream_parts:
  assumes "validate_config U c = Inr ()" "find_upstream c name = Some u"
  shows "limits_ok (up_limits u)" "modalities_ok (patch_modalities (unwrap_or (up_surface_defaults u) empty_surface_patch))"
proof -
  have "validate_optional_parts U u = Inr ()"
    using assms validated_upstreams find_upstream_Some unfolding validate_config_Inr by blast
  then show "limits_ok (up_limits u)"
    "modalities_ok (patch_modalities (unwrap_or (up_surface_defaults u) empty_surface_patch))"
    by (cases "up_limits u"; cases "up_surface_defaults u";
        simp add: validate_optional_parts_def validate_limits_ok validate_surface_patch_ok limits_ok_def
          empty_surface_patch_def modalities_ok_def)+
qed

text \<open>
  In a valid configuration the surface of every alias, merged from its upstream and its own
  settings, has no limit of zero and no modality list that is empty or repeats an entry.
\<close>

theorem effective_surface_is_valid:
  assumes v: "validate_config U c = Inr ()" and a: "(alias, a) \<in> set (model_aliases c)"
  shows "limits_ok (surface_limits (effective_model_surface c a))
    \<and> modalities_ok (surface_modalities (effective_model_surface c a))"
proof -
  obtain u where u: "find_upstream c (al_upstream_name a) = Some u"
    using validated_alias(1) [OF v a] by blast
  have la: "limits_ok (al_limits a)"
    using validated_alias(3) [OF v a] by (cases "al_limits a") (simp_all add: validate_limits_ok limits_ok_def)
  have sa: "modalities_ok (Option.bind (al_surface a) patch_modalities)"
    using validated_alias(4) [OF v a]
    by (cases "al_surface a") (simp_all add: validate_surface_patch_ok modalities_ok_def)
  have "limits_ok (effective_model_limits c a)"
    using validated_upstream_parts(1) [OF v u] la merge_limits_ok
    by (cases "up_limits u") (simp_all add: effective_model_limits_def u)
  then show ?thesis
    using merge_surface_patch_ok [OF validated_upstream_parts(2) [OF v u] sa]
    by (simp add: effective_model_surface_def Let_def u)
qed

lemma effective_surface_is_valid_witness:
  "limits_ok (surface_limits (effective_model_surface sample_config sample_alias))"
proof -
  have "(''m'', sample_alias) \<in> set (model_aliases sample_config)"
    by (simp add: sample_config_def)
  from effective_surface_is_valid [OF sample_is_valid this] show ?thesis by blast
qed

section \<open>The payload\<close>

lemma whole_secs [simp]: "d mod 1000000000 = 0 \<Longrightarrow> from_secs (as_secs d) = d"
  by (simp add: from_secs_def as_secs_def mod_0_imp_dvd)

lemma as_secs_from_secs [simp]: "as_secs (from_secs s) = s"
  by (simp add: from_secs_def as_secs_def)

lemma upstream_runtime_inverse [simp]: "upstream_of_runtime (runtime_of_upstream u) = u"
  by (simp add: upstream_of_runtime_def runtime_of_upstream_def)

definition whole_seconds :: "config \<Rightarrow> bool" where
  "whole_seconds c = (\<forall>d \<in> {upstream_timeout c, hook_timeout (hooks c), hook_cooldown (hooks c)}. d mod 1000000000 = 0)"

lemma hooks_runtime_inverse: "whole_seconds c \<Longrightarrow> hooks_of_runtime (runtime_of_hooks (hooks c)) = hooks c"
  by (simp add: whole_seconds_def hooks_of_runtime_def runtime_of_hooks_def)

lemma validate_without_data_auth:
  "validate_config U c = Inr () \<Longrightarrow> validate_config U (c\<lparr>data_auth := None\<rparr>) = Inr ()"
proof -
  have "validate_alias (c\<lparr>data_auth := None\<rparr>) = validate_alias c"
    by (simp add: validate_alias_def find_upstream_def fun_eq_iff)
  then show "validate_config U c = Inr () \<Longrightarrow> validate_config U (c\<lparr>data_auth := None\<rparr>) = Inr ()"
    by (simp add: validate_config_Inr)
qed

text \<open>
  The payload made of a valid configuration whose durations are whole seconds is accepted and gives
  the configuration back, without the data access settings, which payloads do not carry.
\<close>

theorem payload_round_trip:
  assumes "validate_config U c = Inr ()" "whole_seconds c"
  shows "config_of_payload U (payload_of_config c) = Inr (c\<lparr>data_auth := None\<rparr>)"
proof -
  have "map upstream_of_runtime (map runtime_of_upstream (upstreams c)) = upstreams c"
    by (simp add: comp_def)
  then have "config_of_payload U (payload_of_config c) =
      (case validate_config U (c\<lparr>data_auth := None\<rparr>) of Inl e \<Rightarrow> Inl e | Inr _ \<Rightarrow> Inr (c\<lparr>data_auth := None\<rparr>))"
    using assms(2) hooks_runtime_inverse [OF assms(2)]
    by (cases c) (simp add: config_of_payload_def payload_of_config_def whole_seconds_def Let_def split: sum.split)
  with validate_without_data_auth [OF assms(1)] show ?thesis by simp
qed

lemma payload_round_trip_witness:
  "config_of_payload sample_urls (payload_of_config sample_config) = Inr (sample_config\<lparr>data_auth := None\<rparr>)"
proof -
  have "whole_seconds sample_config"
    by (simp add: whole_seconds_def sample_config_def default_config_def default_hooks_def from_secs_def)
  from payload_round_trip [OF sample_is_valid this] show ?thesis .
qed

lemma proxy_round_trip: "deserialize_proxy (serialize_proxy p) = Inr p"
  by (cases p) (simp_all add: deserialize_proxy_def)

lemma alias_without_colon_dropped: "CHR '':'' \<notin> set target \<Longrightarrow> alias_of_file (alias, AliasTarget target) = None"
proof -
  have "c \<notin> set s \<Longrightarrow> split_once c s = None" for c s
    by (induction s) auto
  then show "CHR '':'' \<notin> set target \<Longrightarrow> alias_of_file (alias, AliasTarget target) = None"
    by (simp add: alias_of_file_def)
qed

section \<open>The administration view\<close>

text \<open>
  A configuration with every secret blanked: inline keys, the values of headers that carry credentials,
  the authorization of the hooks, and the data access settings.
\<close>

definition blank_source :: "secret_source_config \<Rightarrow> secret_source_config" where
  "blank_source s = s\<lparr>ss_inline := map_option (\<lambda>_. []) (ss_inline s)\<rparr>"

definition blank_header :: "string \<times> string \<Rightarrow> string \<times> string" where
  "blank_header = (\<lambda>(n, v). (n, if to_ascii_lowercase n \<in> {''authorization'', ''proxy-authorization'', ''cookie'', ''set-cookie''}
      \<or> list_ex (str_contains (to_ascii_lowercase n)) [''api-key'', ''apikey'', ''token'', ''secret'', ''credential'']
      then [] else v))"

definition blank_upstream :: "upstream_config \<Rightarrow> upstream_config" where
  "blank_upstream u = u\<lparr>up_provider_key := map_option blank_source (up_provider_key u),
     up_headers := map blank_header (up_headers u)\<rparr>"

definition blank_hook :: "hook_endpoint_config \<Rightarrow> hook_endpoint_config" where
  "blank_hook h = h\<lparr>hook_authorization := map_option (\<lambda>_. []) (hook_authorization h)\<rparr>"

definition blank_secrets :: "config \<Rightarrow> config" where
  "blank_secrets c = c\<lparr>upstreams := map blank_upstream (upstreams c),
     hooks := (hooks c)\<lparr>hook_exchange := map_option blank_hook (hook_exchange (hooks c)),
                       hook_usage := map_option blank_hook (hook_usage (hooks c))\<rparr>,
     data_auth := None\<rparr>"

lemma source_view_blank [simp]: "secret_source_view (blank_source s) = secret_source_view s"
  by (simp add: secret_source_view_def blank_source_def split: option.splits)

lemma key_is_sensitive:
  "is_sensitive_header_name n \<longleftrightarrow>
     to_ascii_lowercase n \<in> {''authorization'', ''proxy-authorization'', ''cookie'', ''set-cookie''}
      \<or> list_ex (str_contains (to_ascii_lowercase n)) [''api-key'', ''apikey'', ''token'', ''secret'', ''credential'']"
proof -
  have "str_contains ''x-api-key'' ''api-key''" "str_contains ''api-key'' ''api-key''" "str_contains ''apikey'' ''apikey''"
    by (simp_all add: starts_with_def)
  then show ?thesis
    unfolding is_sensitive_header_name_def Let_def
    by (simp only: list_ex_iff list.set bex_simps insert_iff empty_iff) metis
qed

lemma header_view_blank [simp]: "admin_header_view (blank_header h) = admin_header_view h"
  by (cases h) (simp only: admin_header_view_def blank_header_def prod.case key_is_sensitive if_distrib
      split: if_splits, simp)

lemma upstream_view_blank [simp]: "upstream_admin_view U (blank_upstream u) = upstream_admin_view U u"
  by (cases "up_provider_key u")
    (simp_all add: upstream_admin_view_def blank_upstream_def admin_provider_key_view_def comp_def)

lemma hook_view_blank [simp]: "hook_admin_view U (blank_hook h) = hook_admin_view U h"
  by (simp add: hook_admin_view_def blank_hook_def)

text \<open>
  C36. The administration view of a configuration does not depend on any inline key, on the value of any
  header that carries a credential, on the authorization of a hook or on the data access settings.
\<close>

theorem admin_view_hides_secrets:
  "admin_config_view U (blank_secrets c) = admin_config_view U c"
  by (simp add: admin_config_view_def blank_secrets_def comp_def option.map_comp)

end
