(* ===== verification/Data_Auth.thy ===== *)
theory Data_Auth
  imports Config_Guarantees
begin

text \<open>
  Who may use the data endpoints (src/src/server/data_auth.rs): the access the process is configured for, read
  from the static configuration or the environment, and the check of one request with the headers it
  leaves to the handlers.
\<close>

section \<open>Header maps\<close>

text \<open>
  The headers in order, names in lower case as \<open>HeaderName\<close> keeps them, values as bytes.
  \<open>HeaderValue::to_str\<close> and \<open>from_str\<close> belong to the http crate and are parameters.
\<close>

type_synonym header_map = "(string \<times> string) list"

definition get_all :: "header_map \<Rightarrow> string \<Rightarrow> string list" where
  "get_all headers name = map snd (filter (\<lambda>(n, _). n = name) headers)"

definition contains_header :: "header_map \<Rightarrow> string \<Rightarrow> bool" where
  "contains_header headers name = list_ex (\<lambda>(n, _). n = name) headers"

definition remove_header :: "string \<Rightarrow> header_map \<Rightarrow> header_map" where
  "remove_header name headers = filter (\<lambda>(n, _). n \<noteq> name) headers"

type_synonym to_str = "string \<Rightarrow> string option"

text \<open>\<open>std::env::var\<close> and its errors.\<close>

datatype env_var = Present string | NotPresent | NotUnicode

type_synonym getenv = "string \<Rightarrow> env_var"

definition auth_mode_env :: string where
  "auth_mode_env = ''LLM_UNIVERSAL_PROXY_AUTH_MODE''"

definition proxy_key_env :: string where
  "proxy_key_env = ''LLM_UNIVERSAL_PROXY_KEY''"

definition legacy_data_token_header :: string where
  "legacy_data_token_header = ''x-llmup-data-token''"

definition cors_allowed_origins_env :: string where
  "cors_allowed_origins_env = ''LLM_UNIVERSAL_PROXY_CORS_ALLOWED_ORIGINS''"

section \<open>The access of the process\<close>

datatype data_access = Unconfigured | ClientProviderKeyAccess | ProxyKeyAccess (proxy_key: string) | Misconfigured string

record auth_config_view =
  acv_configured :: bool
  acv_mode :: data_auth_mode
  acv_proxy_key :: "credential_source_view option"

definition unconfigured_view :: auth_config_view where
  "unconfigured_view = \<lparr>acv_configured = False, acv_mode = ClientProviderKeyMode, acv_proxy_key = None\<rparr>"

definition client_key_view :: auth_config_view where
  "client_key_view = \<lparr>acv_configured = True, acv_mode = ClientProviderKeyMode, acv_proxy_key = None\<rparr>"

definition proxy_key_view :: "credential_source_view \<Rightarrow> auth_config_view" where
  "proxy_key_view v = \<lparr>acv_configured = True, acv_mode = ProxyKeyMode, acv_proxy_key = Some v\<rparr>"

fun admin_view_for_access :: "data_access \<Rightarrow> auth_config_view" where
  "admin_view_for_access Unconfigured = unconfigured_view"
| "admin_view_for_access ClientProviderKeyAccess = client_key_view"
| "admin_view_for_access (ProxyKeyAccess _) = proxy_key_view inline_view"
| "admin_view_for_access (Misconfigured _) = unconfigured_view"

definition resolve_secret_env :: "getenv \<Rightarrow> string \<Rightarrow> string \<Rightarrow> string + string" where
  "resolve_secret_env E owner name = (case E name of
      Present v \<Rightarrow> if trim v = [] then Inl (owner @ ''.env `'' @ name @ ''` must not be empty'') else Inr v
    | NotPresent \<Rightarrow> Inl (owner @ ''.env `'' @ name @ ''` is not set'')
    | NotUnicode \<Rightarrow> Inl (owner @ ''.env `'' @ name @ ''` must be valid UTF-8''))"

definition resolve_proxy_key_source ::
    "getenv \<Rightarrow> secret_source_config \<Rightarrow> string \<Rightarrow> string + string \<times> credential_source_view" where
  "resolve_proxy_key_source E s owner = (case secret_source s owner of
      Inl e \<Rightarrow> Inl e
    | Inr (InlineSecret v) \<Rightarrow> Inr (v, inline_view)
    | Inr (EnvSecret name) \<Rightarrow> (case resolve_secret_env E owner name of
          Inl e \<Rightarrow> Inl e
        | Inr key \<Rightarrow> Inr (key, env_view name)))"

definition data_access_from_config ::
    "getenv \<Rightarrow> data_auth_config \<Rightarrow> string \<Rightarrow> string + data_access \<times> auth_config_view" where
  "data_access_from_config E c owner = (case validate_data_auth c ''data_auth config'' of
      Inl e \<Rightarrow> Inl e
    | Inr _ \<Rightarrow> (case da_mode c of
          ClientProviderKeyMode \<Rightarrow> Inr (ClientProviderKeyAccess, client_key_view)
        | ProxyKeyMode \<Rightarrow> (case da_proxy_key c of
              None \<Rightarrow> Inl (owner @ ''.proxy_key is required when mode=proxy_key'')
            | Some k \<Rightarrow> (case resolve_proxy_key_source E k (owner @ ''.proxy_key'') of
                  Inl e \<Rightarrow> Inl e
                | Inr (key, view) \<Rightarrow> Inr (ProxyKeyAccess key, proxy_key_view view)))))"

definition proxy_key_from_env_result :: "env_var \<Rightarrow> string + string" where
  "proxy_key_from_env_result v = (case v of
      Present key \<Rightarrow> if trim key = [] then Inl (proxy_key_env @ '' must not be empty'') else Inr key
    | NotPresent \<Rightarrow> Inl (proxy_key_env @ '' is required when '' @ auth_mode_env @ ''=proxy_key'')
    | NotUnicode \<Rightarrow> Inl (proxy_key_env @ '' must be valid UTF-8''))"

definition data_access_from_env_results ::
    "env_var \<Rightarrow> env_var \<Rightarrow> string + data_access \<times> auth_config_view" where
  "data_access_from_env_results mode key = (case mode of
      Present m \<Rightarrow>
       (let value = to_ascii_lowercase (trim m)
        in if value = ''client_provider_key'' then Inr (ClientProviderKeyAccess, client_key_view)
           else if value = ''proxy_key'' then
             (case proxy_key_from_env_result key of
                Inl e \<Rightarrow> Inl e
              | Inr k \<Rightarrow> Inr (ProxyKeyAccess k, proxy_key_view (env_view proxy_key_env)))
           else if value = [] then Inl (auth_mode_env @ '' must not be empty'')
           else Inl (auth_mode_env @ '' has unsupported value `'' @ value @ ''`''))
    | NotPresent \<Rightarrow> Inr (Unconfigured, unconfigured_view)
    | NotUnicode \<Rightarrow> Inl (auth_mode_env @ '' must be valid UTF-8''))"

text \<open>\<open>RuntimeDataAuthState\<close>; the revision is a fresh UUID, given as an argument.\<close>

record data_auth_state =
  das_revision :: string
  das_access :: data_access
  das_config :: auth_config_view

definition misconfigured :: "string \<Rightarrow> string \<Rightarrow> data_auth_state" where
  "misconfigured revision message =
     \<lparr>das_revision = revision, das_access = Misconfigured message, das_config = unconfigured_view\<rparr>"

definition auth_state_of ::
    "string \<Rightarrow> string + data_access \<times> auth_config_view \<Rightarrow> data_auth_state" where
  "auth_state_of revision r = (case r of
      Inr (access, view) \<Rightarrow> \<lparr>das_revision = revision, das_access = access, das_config = view\<rparr>
    | Inl message \<Rightarrow> misconfigured revision message)"

definition auth_from_config :: "getenv \<Rightarrow> string \<Rightarrow> data_auth_config \<Rightarrow> string \<Rightarrow> data_auth_state" where
  "auth_from_config E revision c owner = auth_state_of revision (data_access_from_config E c owner)"

definition auth_from_env :: "getenv \<Rightarrow> string \<Rightarrow> data_auth_state" where
  "auth_from_env E revision =
     auth_state_of revision (data_access_from_env_results (E auth_mode_env) (E proxy_key_env))"

definition auth_from_static_config :: "getenv \<Rightarrow> string \<Rightarrow> data_auth_config option \<Rightarrow> data_auth_state" where
  "auth_from_static_config E revision c = (case c of
      Some c \<Rightarrow> auth_from_config E revision c ''data_auth''
    | None \<Rightarrow> auth_from_env E revision)"

definition auth_from_admin_config :: "getenv \<Rightarrow> string \<Rightarrow> data_auth_config \<Rightarrow> string + data_auth_state" where
  "auth_from_admin_config E revision c =
     (case validate_data_auth c ''data_auth config'' of
        Inl e \<Rightarrow> Inl e
      | Inr _ \<Rightarrow> (case data_access_from_config E c ''data_auth config'' of
            Inl e \<Rightarrow> Inl e
          | Inr (access, view) \<Rightarrow> Inr \<lparr>das_revision = revision, das_access = access, das_config = view\<rparr>))"

definition auth_from_access :: "string \<Rightarrow> data_access \<Rightarrow> data_auth_state" where
  "auth_from_access revision access =
     \<lparr>das_revision = revision, das_access = access, das_config = admin_view_for_access access\<rparr>"

record auth_snapshot =
  snap_revision :: string
  snap_config :: auth_config_view

definition auth_admin_snapshot :: "data_auth_state \<Rightarrow> auth_snapshot" where
  "auth_admin_snapshot s = \<lparr>snap_revision = das_revision s, snap_config = das_config s\<rparr>"

section \<open>Keys of the upstreams\<close>

definition resolve_provider_key :: "getenv \<Rightarrow> upstream_config \<Rightarrow> string + string" where
  "resolve_provider_key E u = (case provider_key_source u of
      Inl e \<Rightarrow> Inl e
    | Inr (Some (InlineSecret v)) \<Rightarrow> Inr v
    | Inr (Some (EnvSecret name)) \<Rightarrow> (case E name of
          Present v \<Rightarrow> if trim v = [] then Inl (upstream_owner u @ '' provider_key.env `'' @ name @ ''` must not be empty'')
             else Inr v
        | NotPresent \<Rightarrow> Inl (upstream_owner u @ '' provider_key.env `'' @ name @ ''` is not set'')
        | NotUnicode \<Rightarrow> Inl (upstream_owner u @ '' provider_key.env `'' @ name @ ''` must be valid UTF-8''))
    | Inr None \<Rightarrow> Inl (upstream_owner u @ '' provider_key is required when '' @ auth_mode_env
        @ ''=proxy_key; configure provider_key: { env: ENV } or provider_key.inline''))"

definition provider_key_for_upstream :: "getenv \<Rightarrow> data_access \<Rightarrow> upstream_config \<Rightarrow> string + string option" where
  "provider_key_for_upstream E access u = (case access of
      Unconfigured \<Rightarrow> Inl ''data auth is not configured''
    | ClientProviderKeyAccess \<Rightarrow> Inr None
    | ProxyKeyAccess _ \<Rightarrow> map_sum id Some (resolve_provider_key E u)
    | Misconfigured message \<Rightarrow> Inl (''data auth misconfigured: '' @ message))"

definition no_inline_key :: "upstream_config \<Rightarrow> validation" where
  "no_inline_key u = (case provider_key_source u of
      Inl e \<Rightarrow> Inl e
    | Inr (Some (InlineSecret _)) \<Rightarrow> Inl (upstream_owner u @ '' provider_key.inline is not allowed when ''
        @ auth_mode_env @ ''=client_provider_key'')
    | Inr _ \<Rightarrow> Inr ())"

definition validate_runtime_config :: "getenv \<Rightarrow> config \<Rightarrow> data_access \<Rightarrow> validation" where
  "validate_runtime_config E c access = (case access of
      Unconfigured \<Rightarrow> if upstreams c = [] then Inr () else Inl ''data auth is not configured''
    | Misconfigured message \<Rightarrow> Inl (''data auth misconfigured: '' @ message)
    | ClientProviderKeyAccess \<Rightarrow> res_each no_inline_key (upstreams c)
    | ProxyKeyAccess _ \<Rightarrow> res_each (\<lambda>u. to_validation (resolve_provider_key E u)) (upstreams c))"

section \<open>The credential of a request\<close>

datatype credential_error = EmptyCredential | MultipleCredentials | NonBearerAuthorization | InvalidHeaderValue

fun credential_error_message :: "credential_error \<Rightarrow> string" where
  "credential_error_message EmptyCredential = ''credential must not be empty''"
| "credential_error_message MultipleCredentials = ''multiple credential headers are not supported''"
| "credential_error_message NonBearerAuthorization = ''authorization credential must use Bearer''"
| "credential_error_message InvalidHeaderValue = ''credential header must be valid UTF-8''"

definition bearer_token_of :: "string \<Rightarrow> string option" where
  "bearer_token_of v = (if 7 \<le> length v \<and> is_char_boundary v 7 \<and> eq_ignore_ascii_case (take 7 v) ''Bearer ''
     then Some (drop 7 v) else None)"

definition authorization_credential :: "to_str \<Rightarrow> string \<Rightarrow> credential_error + string" where
  "authorization_credential T value = (case T value of
      None \<Rightarrow> Inl InvalidHeaderValue
    | Some v \<Rightarrow> (case bearer_token_of v of
          None \<Rightarrow> Inl NonBearerAuthorization
        | Some token \<Rightarrow> if trim token = [] then Inl EmptyCredential else Inr token))"

definition api_key_credential :: "to_str \<Rightarrow> string \<Rightarrow> credential_error + string" where
  "api_key_credential T value = (case T value of
      None \<Rightarrow> Inl InvalidHeaderValue
    | Some v \<Rightarrow> if trim v = [] then Inl EmptyCredential else Inr v)"

text \<open>The loops push onto one vector; the first error ends them.\<close>

fun collect_with :: "('v \<Rightarrow> 'e + 'c) \<Rightarrow> 'v list \<Rightarrow> 'c list \<Rightarrow> 'e + 'c list" where
  "collect_with f [] acc = Inr acc"
| "collect_with f (v # vs) acc = (case f v of Inl e \<Rightarrow> Inl e | Inr c \<Rightarrow> collect_with f vs (acc @ [c]))"

definition collect_authorization_credentials ::
    "to_str \<Rightarrow> header_map \<Rightarrow> string list \<Rightarrow> credential_error + string list" where
  "collect_authorization_credentials T headers acc =
     collect_with (authorization_credential T) (get_all headers ''authorization'') acc"

definition collect_api_key_credentials ::
    "to_str \<Rightarrow> header_map \<Rightarrow> string \<Rightarrow> string list \<Rightarrow> credential_error + string list" where
  "collect_api_key_credentials T headers name acc =
     collect_with (api_key_credential T) (get_all headers name) acc"

definition api_key_headers :: "string list" where
  "api_key_headers = [''x-api-key'', ''x-goog-api-key'', ''api-key'', ''openai-api-key'', ''anthropic-api-key'']"

fun collect_api_keys :: "to_str \<Rightarrow> header_map \<Rightarrow> string list \<Rightarrow> string list \<Rightarrow> credential_error + string list" where
  "collect_api_keys T headers [] acc = Inr acc"
| "collect_api_keys T headers (name # names) acc = (case collect_api_key_credentials T headers name acc of
      Inl e \<Rightarrow> Inl e
    | Inr acc' \<Rightarrow> collect_api_keys T headers names acc')"

definition extract_standard_credential :: "to_str \<Rightarrow> header_map \<Rightarrow> credential_error + string option" where
  "extract_standard_credential T headers =
     (case collect_authorization_credentials T headers [] of
        Inl e \<Rightarrow> Inl e
      | Inr acc \<Rightarrow> (case collect_api_keys T headers api_key_headers acc of
            Inl e \<Rightarrow> Inl e
          | Inr [] \<Rightarrow> Inr None
          | Inr [c] \<Rightarrow> Inr (Some c)
          | Inr _ \<Rightarrow> Inl MultipleCredentials))"

definition strip_client_credential_headers :: "header_map \<Rightarrow> header_map" where
  "strip_client_credential_headers headers =
     fold remove_header ([''authorization''] @ api_key_headers @ [legacy_data_token_header]) headers"

section \<open>Authorization of a request\<close>

datatype request_authorization = ClientProviderKeyAuth (provider_key: string) | ProxyKeyAuth

definition authorize_data_request ::
    "to_str \<Rightarrow> data_access \<Rightarrow> header_map \<Rightarrow> (nat \<times> string) + request_authorization" where
  "authorize_data_request T access headers =
     (if contains_header headers legacy_data_token_header
      then Inl (400, ''x-llmup-data-token is no longer supported'')
      else (case extract_standard_credential T headers of
          Inl e \<Rightarrow> Inl (400, credential_error_message e)
        | Inr credential \<Rightarrow> (case access of
              Unconfigured \<Rightarrow> Inl (503, ''data auth unconfigured'')
            | ClientProviderKeyAccess \<Rightarrow> (case credential of
                  None \<Rightarrow> Inl (401, ''provider credential required'')
                | Some k \<Rightarrow> Inr (ClientProviderKeyAuth k))
            | ProxyKeyAccess key \<Rightarrow> (case credential of
                  None \<Rightarrow> Inl (401, ''proxy key required'')
                | Some k \<Rightarrow> if k = key then Inr ProxyKeyAuth else Inl (403, ''proxy key invalid''))
            | Misconfigured _ \<Rightarrow> Inl (503, ''data auth misconfigured''))))"

record 'r request_auth_context =
  rac_generation :: string
  rac_mode :: data_auth_mode
  rac_access :: data_access
  rac_authorization :: request_authorization
  rac_runtime :: 'r

definition client_provider_key :: "'r request_auth_context \<Rightarrow> string option" where
  "client_provider_key c = (case rac_authorization c of
      ClientProviderKeyAuth k \<Rightarrow> Some k | ProxyKeyAuth \<Rightarrow> None)"

definition request_auth_context_for_headers ::
    "to_str \<Rightarrow> 'r \<Rightarrow> data_auth_state \<Rightarrow> header_map \<Rightarrow> (nat \<times> string) + 'r request_auth_context" where
  "request_auth_context_for_headers T runtime s headers =
     (case authorize_data_request T (das_access s) headers of
        Inl e \<Rightarrow> Inl e
      | Inr a \<Rightarrow> Inr \<lparr>rac_generation = das_revision s, rac_mode = acv_mode (das_config s), rac_access = das_access s,
                     rac_authorization = a, rac_runtime = runtime\<rparr>)"

text \<open>
  The middleware: the error answer, or the context and the headers the handler sees.
\<close>

definition require_data_access ::
    "to_str \<Rightarrow> 'r \<Rightarrow> data_auth_state \<Rightarrow> header_map \<Rightarrow>
       (nat \<times> string) + 'r request_auth_context \<times> header_map" where
  "require_data_access T runtime s headers = (case request_auth_context_for_headers T runtime s headers of
      Inl e \<Rightarrow> Inl e
    | Inr c \<Rightarrow> Inr (c, strip_client_credential_headers headers))"

section \<open>Allowed origins\<close>

text \<open>What the origins need of a parsed URL, and \<open>HeaderValue::from_str\<close>.\<close>

record 'u origin_api = "'u url_api" +
  url_query :: "'u \<Rightarrow> string option"
  url_fragment :: "'u \<Rightarrow> string option"
  url_path :: "'u \<Rightarrow> string"
  header_from_str :: "string \<Rightarrow> string + string"

definition parse_allowed_origin :: "('u, 'b) origin_api_scheme \<Rightarrow> string \<Rightarrow> string + string" where
  "parse_allowed_origin U origin =
     (let prefix = cors_allowed_origins_env @ '' origin `'' @ origin @ ''` ''
      in if origin = ''*'' then Inl (cors_allowed_origins_env @ '' must not include `*`'')
         else (case parse_url U origin of
             Inl e \<Rightarrow> Inl (prefix @ ''is invalid: '' @ e)
           | Inr u \<Rightarrow>
              (if url_scheme U u \<notin> {''http'', ''https''} then Inl (prefix @ ''must use http or https'')
               else if url_host U u = None then Inl (prefix @ ''must include a host'')
               else if url_username U u \<noteq> [] \<or> url_password U u \<noteq> None \<or> url_query U u \<noteq> None
                 \<or> url_fragment U u \<noteq> None \<or> url_path U u \<noteq> ''/''
               then Inl (prefix @ ''must be an origin, not a URL with path, userinfo, query, or fragment'')
               else (case header_from_str U origin of
                   Inl e \<Rightarrow> Inl (prefix @ ''is not a valid header value: '' @ e)
                 | Inr v \<Rightarrow> Inr v))))"

definition cors_allowed_origins :: "('u, 'b) origin_api_scheme \<Rightarrow> env_var \<Rightarrow> string + string list" where
  "cors_allowed_origins U raw = (case raw of
      NotPresent \<Rightarrow> Inr []
    | NotUnicode \<Rightarrow> Inl (cors_allowed_origins_env @ '' must be valid UTF-8'')
    | Present s \<Rightarrow> collect_with (parse_allowed_origin U)
        (filter (\<lambda>x. x \<noteq> []) (map trim (split_char CHR '','' s))) [])"

section \<open>What authorization gives\<close>

definition credential_headers :: "string list" where
  "credential_headers = ''authorization'' # api_key_headers"

text \<open>The values of the credential headers of a request, in the order they are read.\<close>

definition presented :: "header_map \<Rightarrow> string list" where
  "presented headers = concat (map (get_all headers) credential_headers)"

lemma collect_with_Inr:
  "collect_with f vs acc = Inr r \<longleftrightarrow> (\<exists>cs. r = acc @ cs \<and> list_all2 (\<lambda>v c. f v = Inr c) vs cs)"
proof (induction vs arbitrary: acc)
  case Nil
  then show ?case by auto
next
  case (Cons v vs)
  then show ?case by (cases "f v") (auto simp: list_all2_Cons1)
qed

lemma collect_with_append:
  "collect_with f (xs @ ys) acc =
     (case collect_with f xs acc of Inl e \<Rightarrow> Inl e | Inr acc' \<Rightarrow> collect_with f ys acc')"
  by (induction xs arbitrary: acc) (simp_all split: sum.split)

lemma collect_api_keys_concat:
  "collect_api_keys T headers names acc =
     collect_with (api_key_credential T) (concat (map (get_all headers) names)) acc"
  by (induction names arbitrary: acc)
    (simp_all add: collect_with_append collect_api_key_credentials_def split: sum.split)

text \<open>The credential \<open>k\<close> that the header value \<open>v\<close> carries.\<close>

definition carries :: "to_str \<Rightarrow> header_map \<Rightarrow> string \<Rightarrow> string \<Rightarrow> bool" where
  "carries T headers v k =
     (if get_all headers ''authorization'' = [v] then Option.bind (T v) bearer_token_of = Some k else T v = Some k)"

lemma extracted_credential:
  assumes e: "extract_standard_credential T headers = Inr (Some k)"
  shows "\<exists>v. presented headers = [v] \<and> carries T headers v k \<and> trim k \<noteq> []"
proof -
  from e obtain as ks where
      as: "list_all2 (\<lambda>v c. authorization_credential T v = Inr c) (get_all headers ''authorization'') as"
      and ks: "list_all2 (\<lambda>v c. api_key_credential T v = Inr c) (concat (map (get_all headers) api_key_headers)) ks"
      and one: "as @ ks = [k]"
    by (auto simp: extract_standard_credential_def collect_authorization_credentials_def collect_with_Inr
        collect_api_keys_concat split: sum.splits list.splits)
  have p: "presented headers = get_all headers ''authorization'' @ concat (map (get_all headers) api_key_headers)"
    by (simp add: presented_def credential_headers_def)
  consider "as = [k]" "ks = []" | "as = []" "ks = [k]"
    using one by (cases "as") auto
  then show ?thesis
  proof cases
    case 1
    then obtain v where "get_all headers ''authorization'' = [v]" "authorization_credential T v = Inr k"
      using as by (auto simp: list_all2_Cons2)
    then show ?thesis using 1 ks p
      by (auto simp: carries_def authorization_credential_def split: option.splits if_splits)
  next
    case 2
    then obtain v where "concat (map (get_all headers) api_key_headers) = [v]" "api_key_credential T v = Inr k"
      using ks by (auto simp: list_all2_Cons2)
    then show ?thesis using 2 as p
      by (auto simp: carries_def api_key_credential_def split: option.splits if_splits)
  qed
qed

lemma fold_remove_header:
  "fold remove_header names headers = filter (\<lambda>(n, _). n \<notin> set names) headers"
proof (induction names arbitrary: headers)
  case Nil
  then show ?case by simp
next
  case (Cons n names)
  then show ?case by (auto simp: remove_header_def case_prod_beta intro!: filter_cong)
qed

text \<open>
  C24. A request is let through only when its credential headers hold one value in all, the value is
  a credential that is not blank, the legacy header is absent, and in proxy key mode the credential is
  the proxy key. The handler then sees the headers in their order without any credential header.
\<close>

theorem authorized_request:
  assumes "require_data_access T runtime s headers = Inr (c, headers')"
  shows "\<exists>v k. presented headers = [v] \<and> carries T headers v k \<and> trim k \<noteq> []
      \<and> (das_access s = ClientProviderKeyAccess \<and> rac_authorization c = ClientProviderKeyAuth k
         \<or> das_access s = ProxyKeyAccess k \<and> rac_authorization c = ProxyKeyAuth)
      \<and> \<not> contains_header headers legacy_data_token_header
      \<and> headers' = filter (\<lambda>(n, _). n \<notin> set credential_headers \<and> n \<noteq> legacy_data_token_header) headers"
proof -
  from assms have a: "authorize_data_request T (das_access s) headers = Inr (rac_authorization c)"
      and h: "headers' = strip_client_credential_headers headers"
    by (auto simp: require_data_access_def request_auth_context_for_headers_def split: sum.splits)
  from a obtain k where e: "extract_standard_credential T headers = Inr (Some k)"
      and l: "\<not> contains_header headers legacy_data_token_header"
      and m: "das_access s = ClientProviderKeyAccess \<and> rac_authorization c = ClientProviderKeyAuth k
         \<or> das_access s = ProxyKeyAccess k \<and> rac_authorization c = ProxyKeyAuth"
    by (cases "das_access s") (auto simp: authorize_data_request_def split: if_splits sum.splits option.splits)
  have "headers' = filter (\<lambda>(n, _). n \<notin> set credential_headers \<and> n \<noteq> legacy_data_token_header) headers"
    unfolding h strip_client_credential_headers_def fold_remove_header credential_headers_def
    by (auto intro!: filter_cong)
  with extracted_credential [OF e] l m show ?thesis by blast
qed

definition sample_headers :: header_map where
  "sample_headers = [(''accept'', ''*''), (''authorization'', ''bearer k1'')]"

lemma authorized_request_witness:
  "(\<exists>c. require_data_access Some () (auth_from_access ''r'' (ProxyKeyAccess ''k1'')) sample_headers
      = Inr (c, strip_client_credential_headers sample_headers))
    \<and> (\<exists>v. presented sample_headers = [v])"
proof -
  have "authorize_data_request Some (ProxyKeyAccess ''k1'') sample_headers = Inr ProxyKeyAuth"
    unfolding sample_headers_def by code_simp
  then obtain c where r: "require_data_access Some () (auth_from_access ''r'' (ProxyKeyAccess ''k1'')) sample_headers
      = Inr (c, strip_client_credential_headers sample_headers)"
    by (simp add: require_data_access_def request_auth_context_for_headers_def auth_from_access_def)
  from r authorized_request [OF r] show ?thesis by blast
qed

lemma secret_source_not_blank:
  "secret_source s owner = Inr (InlineSecret v) \<Longrightarrow> trim v \<noteq> []"
  by (auto simp: secret_source_def split: if_splits option.splits)

lemma provider_key_source_not_blank:
  "provider_key_source u = Inr (Some (InlineSecret v)) \<Longrightarrow> trim v \<noteq> []"
  by (auto simp: provider_key_source_def dest: secret_source_not_blank split: option.splits sum.splits)

lemma resolved_key_not_blank: "resolve_provider_key E u = Inr k \<Longrightarrow> trim k \<noteq> []"
  by (auto simp: resolve_provider_key_def dest: provider_key_source_not_blank
      split: sum.splits option.splits secret_source_ref.splits env_var.splits if_splits)

text \<open>
  When a configuration is valid for the access of the process, every upstream has its key: in proxy
  key mode one that is not blank, in client key mode none, so that only the client's is used.
\<close>

theorem validated_access_has_keys:
  assumes v: "validate_runtime_config E c access = Inr ()" and u: "u \<in> set (upstreams c)"
  shows "(\<exists>k pk. access = ProxyKeyAccess pk \<and> provider_key_for_upstream E access u = Inr (Some k) \<and> trim k \<noteq> [])
    \<or> access = ClientProviderKeyAccess \<and> provider_key_for_upstream E access u = Inr None"
proof (cases access)
  case Unconfigured
  with v u show ?thesis by (auto simp: validate_runtime_config_def split: if_splits)
next
  case ClientProviderKeyAccess
  then show ?thesis by (simp add: provider_key_for_upstream_def)
next
  case (ProxyKeyAccess pk)
  with v u obtain k where "resolve_provider_key E u = Inr k"
    by (auto simp: validate_runtime_config_def)
  with ProxyKeyAccess resolved_key_not_blank show ?thesis
    by (auto simp: provider_key_for_upstream_def)
next
  case (Misconfigured m)
  with v show ?thesis by (simp add: validate_runtime_config_def)
qed

lemma validated_access_has_keys_witness:
  "\<exists>k. provider_key_for_upstream (\<lambda>_. NotPresent) (ProxyKeyAccess ''p'') (sample_upstream ''a'') = Inr (Some k)"
proof -
  have "validate_runtime_config (\<lambda>_. NotPresent) (default_config\<lparr>upstreams := [sample_upstream ''a'']\<rparr>) (ProxyKeyAccess ''p'') = Inr ()"
  proof -
    have "to_validation (resolve_provider_key (\<lambda>_. NotPresent) (sample_upstream ''a'')) = Inr ()"
      by code_simp
    then show ?thesis by (simp add: validate_runtime_config_def)
  qed
  from validated_access_has_keys [OF this, of "sample_upstream ''a''"] show ?thesis by auto
qed

end
