(* ===== verification/Upstream_Client.thy ===== *)
theory Upstream_Client
  imports Data_Auth
begin

text \<open>
  What the proxy decides about its calls to upstreams (src/src/upstream.rs): which proxy a client goes
  through, how the client is set up, the request that is sent, the target of a resource request, and
  reading an answer within a limit. Sending is I/O.
\<close>

section \<open>Proxies\<close>

datatype proxy_source = UpstreamSource | NamespaceSource | EnvironmentSource | NoSource

datatype proxy_target = Inherited | DirectTarget | ProxyTarget string

record resolved_proxy =
  rp_source :: proxy_source
  rp_target :: proxy_target

fun resolved_proxy_target :: "proxy_config \<Rightarrow> proxy_target" where
  "resolved_proxy_target Direct = DirectTarget"
| "resolved_proxy_target (Proxy url) = ProxyTarget url"

definition has_environment_proxy_configuration :: "getenv \<Rightarrow> bool" where
  "has_environment_proxy_configuration E =
     list_ex (\<lambda>key. case E key of Present v \<Rightarrow> trim v \<noteq> [] | _ \<Rightarrow> False)
       [''ALL_PROXY'', ''all_proxy'', ''HTTPS_PROXY'', ''https_proxy'', ''HTTP_PROXY'', ''http_proxy'']"

definition resolve_upstream_proxy :: "getenv \<Rightarrow> proxy_config option \<Rightarrow> proxy_config option \<Rightarrow> resolved_proxy" where
  "resolve_upstream_proxy E upstream_proxy namespace_proxy = (case upstream_proxy of
      Some p \<Rightarrow> \<lparr>rp_source = UpstreamSource, rp_target = resolved_proxy_target p\<rparr>
    | None \<Rightarrow> (case namespace_proxy of
          Some p \<Rightarrow> \<lparr>rp_source = NamespaceSource, rp_target = resolved_proxy_target p\<rparr>
        | None \<Rightarrow> \<lparr>rp_source = (if has_environment_proxy_configuration E then EnvironmentSource else NoSource),
                   rp_target = Inherited\<rparr>))"

section \<open>Clients\<close>

text \<open>The settings of a client builder, and what reqwest says of them.\<close>

record client_settings =
  cs_timeout :: "duration option"
  cs_connect_timeout :: "duration option"
  cs_auto_decompression :: bool
  cs_no_proxy :: bool
  cs_proxy :: "string option"

record http_api =
  proxy_all :: "string \<Rightarrow> string + unit"
  client_build :: "client_settings \<Rightarrow> string + unit"

definition build_client_with_proxy ::
    "http_api \<Rightarrow> 'u url_api \<Rightarrow> duration \<Rightarrow> resolved_proxy \<Rightarrow> bool \<Rightarrow> bool \<Rightarrow> string + client_settings" where
  "build_client_with_proxy H U timeout proxy streaming auto_decompression =
     (let base = \<lparr>cs_timeout = (if streaming then None else Some timeout),
                  cs_connect_timeout = (if streaming then Some timeout else None),
                  cs_auto_decompression = auto_decompression, cs_no_proxy = False, cs_proxy = None\<rparr>;
          build = (\<lambda>s. case client_build H s of
             Inl e \<Rightarrow> Inl (''failed to build upstream HTTP client: '' @ e) | Inr _ \<Rightarrow> Inr s)
      in case rp_target proxy of
           Inherited \<Rightarrow> build base
         | DirectTarget \<Rightarrow> build (base\<lparr>cs_no_proxy := True\<rparr>)
         | ProxyTarget url \<Rightarrow> (case proxy_all H url of
               Inl e \<Rightarrow> Inl (''invalid explicit upstream proxy `'' @ sanitize_url_for_admin U url @ ''`: '' @ e)
             | Inr _ \<Rightarrow> build (base\<lparr>cs_no_proxy := True, cs_proxy := Some url\<rparr>)))"

definition build_upstream_clients ::
    "http_api \<Rightarrow> 'u url_api \<Rightarrow> getenv \<Rightarrow> config \<Rightarrow> proxy_config option \<Rightarrow> proxy_config option \<Rightarrow>
       string + client_settings \<times> client_settings \<times> resolved_proxy" where
  "build_upstream_clients H U E c upstream_proxy namespace_proxy =
     (let proxy = resolve_upstream_proxy E upstream_proxy namespace_proxy
      in case build_client_with_proxy H U (upstream_timeout c) proxy False True of
           Inl e \<Rightarrow> Inl e
         | Inr client \<Rightarrow> (case build_client_with_proxy H U (upstream_timeout c) proxy True True of
               Inl e \<Rightarrow> Inl e
             | Inr streaming \<Rightarrow> Inr (client, streaming, proxy)))"

definition build_no_auto_decompression_client ::
    "http_api \<Rightarrow> 'u url_api \<Rightarrow> duration \<Rightarrow> resolved_proxy \<Rightarrow> string + client_settings" where
  "build_no_auto_decompression_client H U timeout proxy = build_client_with_proxy H U timeout proxy False False"

definition build_no_auto_decompression_streaming_client ::
    "http_api \<Rightarrow> 'u url_api \<Rightarrow> duration \<Rightarrow> resolved_proxy \<Rightarrow> string + client_settings" where
  "build_no_auto_decompression_streaming_client H U timeout proxy =
     build_client_with_proxy H U timeout proxy True False"

section \<open>Requests\<close>

datatype request_body = JsonBody json | RawJsonBody string

record http_request =
  rq_method :: string
  rq_url :: string
  rq_headers :: "(string \<times> string) list"
  rq_body :: "request_body option"

definition post_request_with_body :: "string \<Rightarrow> request_body \<Rightarrow> http_request" where
  "post_request_with_body url body =
     \<lparr>rq_method = ''POST'', rq_url = url,
      rq_headers = (case body of JsonBody _ \<Rightarrow> [] | RawJsonBody _ \<Rightarrow> [(''content-type'', ''application/json'')]),
      rq_body = Some body\<rparr>"

text \<open>The request of \<open>call_upstream_with_cancellation\<close>; every header is appended.\<close>

definition upstream_request :: "string \<Rightarrow> request_body \<Rightarrow> bool \<Rightarrow> (string \<times> string) list \<Rightarrow> http_request" where
  "upstream_request url body stream headers =
     (let req = post_request_with_body url body
      in req\<lparr>rq_headers := rq_headers req @ (if stream then [(''Accept'', ''text/event-stream'')] else []) @ headers\<rparr>)"

definition upstream_resource_request ::
    "string \<Rightarrow> string \<Rightarrow> json option \<Rightarrow> (string \<times> string) list \<Rightarrow> bool \<Rightarrow> http_request" where
  "upstream_resource_request method url body headers accept_event_stream =
     \<lparr>rq_method = method, rq_url = url,
      rq_headers = (if accept_event_stream then [(''Accept'', ''text/event-stream'')] else []) @ headers,
      rq_body = map_option JsonBody body\<rparr>"

text \<open>The request of the hyper client, which writes its body headers itself.\<close>

definition raw_path_request ::
    "env \<Rightarrow> string \<Rightarrow> string \<Rightarrow> json option \<Rightarrow> (string \<times> string) list \<Rightarrow> bool \<Rightarrow> http_request" where
  "raw_path_request E method uri body headers accept_event_stream =
     (let bytes = (case body of Some b \<Rightarrow> json_text E b | None \<Rightarrow> [])
      in \<lparr>rq_method = method, rq_url = uri,
          rq_headers = (if accept_event_stream then [(''accept'', ''text/event-stream'')] else [])
            @ (if body \<noteq> None then [(''content-type'', ''application/json''), (''content-length'', nat_str (length bytes))] else [])
            @ headers,
          rq_body = Some (RawJsonBody bytes)\<rparr>)"

section \<open>Targets of resource requests\<close>

record 'u resource_api = "'u origin_api" +
  url_origin :: "'u \<Rightarrow> string"
  uri_parse :: "string \<Rightarrow> string + string"

record resource_target =
  rt_url :: string
  rt_raw_uri :: string
  rt_requires_raw_path :: bool

definition url_stack_normalizes_dot_segment :: "string \<Rightarrow> bool" where
  "url_stack_normalizes_dot_segment segment =
     (to_ascii_lowercase segment \<in> {''.'', ''..'', ''%2e'', ''%2e%2e'', ''%2e.'', ''.%2e''})"

definition resource_path_requires_raw_path_fidelity :: "string \<Rightarrow> bool" where
  "resource_path_requires_raw_path_fidelity path =
     list_ex url_stack_normalizes_dot_segment
       (split_char CHR ''/'' (trim_end_char CHR ''/'' (trim_start_char CHR ''/'' path)))"

definition with_query :: "string \<Rightarrow> string option \<Rightarrow> string" where
  "with_query url query = (case query of Some (c # cs) \<Rightarrow> url @ ''?'' @ c # cs | _ \<Rightarrow> url)"

definition build_upstream_resource_target ::
    "('u, 'b) resource_api_scheme \<Rightarrow> string \<Rightarrow> string \<Rightarrow> string option \<Rightarrow> string + resource_target" where
  "build_upstream_resource_target U api_root resource_path query =
     (case parse_url U api_root of
        Inl e \<Rightarrow> Inl (''upstream api_root is not a valid URL: '' @ e)
      | Inr parsed \<Rightarrow>
         (let base_path = trim_end_char CHR ''/'' (url_path U parsed);
              path = trim_start_char CHR ''/'' resource_path;
              joined = (if base_path = [] \<or> base_path = ''/'' then ''/'' @ path else base_path @ ''/'' @ path)
          in case uri_parse U (url_origin U parsed @ with_query joined query) of
               Inl e \<Rightarrow> Inl (''upstream resource URI is invalid: '' @ e)
             | Inr uri \<Rightarrow> Inr \<lparr>rt_url = with_query (build_upstream_resource_url api_root resource_path) query,
                            rt_raw_uri = uri,
                            rt_requires_raw_path = resource_path_requires_raw_path_fidelity path\<rparr>))"

definition raw_path_fidelity_sender_can_use_direct_connection :: "resolved_proxy \<Rightarrow> bool" where
  "raw_path_fidelity_sender_can_use_direct_connection p =
     (rp_source p = NoSource \<and> rp_target p = Inherited \<or> rp_target p = DirectTarget)"

text \<open>
  Which client sends a resource request and what it sends: the reqwest client, which normalises paths,
  or the hyper client, which does not.
\<close>

datatype resource_sending = ByReqwest http_request | ByHyper http_request

definition resource_request_preserving_path ::
    "env \<Rightarrow> string \<Rightarrow> resource_target \<Rightarrow> json option \<Rightarrow> (string \<times> string) list \<Rightarrow> bool \<Rightarrow> resolved_proxy \<Rightarrow>
       string + resource_sending" where
  "resource_request_preserving_path E method target body headers accept proxy =
     (if rt_requires_raw_path target
      then (if raw_path_fidelity_sender_can_use_direct_connection proxy
            then Inr (ByHyper (raw_path_request E method (rt_raw_uri target) body headers accept))
            else Inl ''Responses resource path contains a dot segment that requires raw request-target fidelity, but the configured upstream proxy would route this request through the URL-normalizing client'')
      else Inr (ByReqwest (upstream_resource_request method (rt_url target) body headers accept)))"

section \<open>Reading within a limit\<close>

datatype 'e body_limit_error = BodyError 'e | LimitExceeded nat

text \<open>The loop of \<open>read_response_bytes_limited\<close> over the chunks the upstream sends.\<close>

fun read_limited :: "nat \<Rightarrow> ('e + string) list \<Rightarrow> string \<Rightarrow> 'e body_limit_error + string" where
  "read_limited limit [] acc = Inr acc"
| "read_limited limit (Inl e # chunks) acc = Inl (BodyError e)"
| "read_limited limit (Inr chunk # chunks) acc =
     (if limit < sat_add (length acc) (length chunk) then Inl (LimitExceeded limit)
      else read_limited limit chunks (acc @ chunk))"

definition read_text_limited :: "nat \<Rightarrow> ('e + string) list \<Rightarrow> 'e body_limit_error + string" where
  "read_text_limited limit chunks = map_sum id from_utf8_lossy (read_limited limit chunks [])"

lemma read_limited_Inr:
  "limit < u64_max \<Longrightarrow> length acc \<le> limit \<Longrightarrow>
     read_limited limit chunks acc = Inr out \<longleftrightarrow>
       (\<exists>bs. chunks = map Inr bs \<and> out = acc @ concat bs \<and> length out \<le> limit)"
proof (induction limit chunks acc rule: read_limited.induct)
  case (1 limit acc)
  then show ?case by auto
next
  case (2 limit e chunks acc)
  then show ?case by (auto simp: Cons_eq_map_conv)
next
  case (3 limit chunk chunks acc)
  show ?case
  proof (cases "limit < sat_add (length acc) (length chunk)")
    case True
    then have "limit < length acc + length chunk"
      using 3(2) by (auto simp: sat_add_def split: if_splits)
    with True show ?thesis by (auto simp: Cons_eq_map_conv)
  next
    case False
    then have "length acc + length chunk \<le> limit"
      using 3(2) by (auto simp: sat_add_def split: if_splits)
    with False 3 show ?thesis by (auto simp: Cons_eq_map_conv)
  qed
qed

text \<open>
  A proxied upstream is never reached through the client that would rewrite the path of the resource.
\<close>

lemma raw_paths_are_kept:
  assumes "resource_request_preserving_path E method target body headers accept proxy = Inr (ByReqwest r)"
  shows "\<not> rt_requires_raw_path target"
  using assms by (simp add: resource_request_preserving_path_def split: if_splits)

lemma proxy_of_upstream_wins:
  "rp_target (resolve_upstream_proxy E (Some p) q) = resolved_proxy_target p"
  by (simp add: resolve_upstream_proxy_def)

end
