(* ===== verification/Runtime_State.thy ===== *)
theory Runtime_State
  imports Upstream_Client
begin

text \<open>
  The state the server keeps (src/src/server/state.rs): namespaces with their upstreams, the key, the
  capability and the clients of each upstream, and how they are built from a configuration.
\<close>

section \<open>State\<close>

datatype admin_access = AdminBearerToken string | LoopbackOnly | AdminMisconfigured

definition admin_access_from_env_var_result :: "env_var \<Rightarrow> admin_access" where
  "admin_access_from_env_var_result v = (case v of
      Present token \<Rightarrow> if trim token = [] then AdminMisconfigured else AdminBearerToken token
    | NotPresent \<Rightarrow> LoopbackOnly
    | NotUnicode \<Rightarrow> AdminMisconfigured)"

definition admin_access_from_env :: "getenv \<Rightarrow> admin_access" where
  "admin_access_from_env E = admin_access_from_env_var_result (E ''LLM_UNIVERSAL_PROXY_ADMIN_TOKEN'')"

record upstream_state =
  us_config :: upstream_config
  us_provider_key :: "string option"
  us_capability :: "upstream_capability option"
  us_availability :: upstream_availability
  us_client :: client_settings
  us_streaming_client :: client_settings
  us_plain_client :: client_settings
  us_plain_streaming_client :: client_settings
  us_resolved_proxy :: resolved_proxy

text \<open>
  The hook dispatcher and the trace recorder of a namespace are made from its configuration alone; they
  are left out here.
\<close>

record namespace_state =
  ns_revision :: string
  ns_config :: config
  ns_upstreams :: "(string \<times> upstream_state) list"

type_synonym runtime_state = "(string \<times> namespace_state) list"

definition default_namespace :: string where
  "default_namespace = ''default''"

text \<open>
  What the state is built with: environment variables, the HTTP client, the URL parser, and the answer
  of an upstream to a probe sent with a client to an API root.
\<close>

record 'u world =
  w_env :: getenv
  w_http :: http_api
  w_urls :: "'u url_api"
  w_probe :: "client_settings \<Rightarrow> string \<Rightarrow> upstream_format \<Rightarrow> (string \<times> string) list \<Rightarrow> json \<Rightarrow> nat option"

section \<open>Building\<close>

definition test_forced_upstream_unavailable :: "getenv \<Rightarrow> string \<Rightarrow> bool" where
  "test_forced_upstream_unavailable E name =
     (case E ''LLM_UNIVERSAL_PROXY_TEST_FORCE_UNAVAILABLE_UPSTREAMS'' of
        Present v \<Rightarrow> list_ex (\<lambda>x. x \<noteq> [] \<and> x = name) (map trim (split_char CHR '','' v))
      | _ \<Rightarrow> False)"

definition discover_upstream :: "'u world \<Rightarrow> client_settings \<Rightarrow> upstream_config \<Rightarrow> string option \<Rightarrow> discovered_upstream" where
  "discover_upstream W client u key =
     (let d = (case up_fixed_format u of
            Some f \<Rightarrow> discovered_fixed f
          | None \<Rightarrow> discovered_from_supported
              (discover_supported_formats (w_probe W client (up_api_root u)) key (up_headers u)))
      in if test_forced_upstream_unavailable (w_env W) (up_name u)
         then d\<lparr>availability := Unavailable ''forced unavailable by test override''\<rparr> else d)"

definition resolve_upstream :: "'u world \<Rightarrow> config \<Rightarrow> data_access \<Rightarrow> upstream_config \<Rightarrow> string + upstream_state" where
  "resolve_upstream W c access u =
     (case build_upstream_clients (w_http W) (w_urls W) (w_env W) c (up_proxy u) (default_proxy c) of
        Inl e \<Rightarrow> Inl e
      | Inr (client, streaming, proxy) \<Rightarrow>
        (case build_no_auto_decompression_client (w_http W) (w_urls W) (upstream_timeout c) proxy of
           Inl e \<Rightarrow> Inl e
         | Inr plain \<Rightarrow>
           (case build_no_auto_decompression_streaming_client (w_http W) (w_urls W) (upstream_timeout c) proxy of
              Inl e \<Rightarrow> Inl e
            | Inr plain_streaming \<Rightarrow>
              (case provider_key_for_upstream (w_env W) access u of
                 Inl e \<Rightarrow> Inl e
               | Inr key \<Rightarrow>
                 (let d = discover_upstream W client u key
                  in Inr \<lparr>us_config = u, us_provider_key = key, us_capability = capability d,
                          us_availability = availability d, us_client = client, us_streaming_client = streaming,
                          us_plain_client = plain, us_plain_streaming_client = plain_streaming,
                          us_resolved_proxy = proxy\<rparr>)))))"

text \<open>The loop inserts into a \<open>BTreeMap\<close>.\<close>

fun resolve_upstreams_into ::
    "'u world \<Rightarrow> config \<Rightarrow> data_access \<Rightarrow> (string \<times> upstream_state) list \<Rightarrow> upstream_config list \<Rightarrow>
       string + (string \<times> upstream_state) list" where
  "resolve_upstreams_into W c access acc [] = Inr acc"
| "resolve_upstreams_into W c access acc (u # us) = (case resolve_upstream W c access u of
      Inl e \<Rightarrow> Inl e
    | Inr s \<Rightarrow> resolve_upstreams_into W c access (omap_insert (up_name u) s acc) us)"

definition resolve_upstreams :: "'u world \<Rightarrow> config \<Rightarrow> data_access \<Rightarrow> string + (string \<times> upstream_state) list" where
  "resolve_upstreams W c access = resolve_upstreams_into W c access [] (upstreams c)"

definition build_runtime_namespace_state ::
    "'u world \<Rightarrow> string \<Rightarrow> config \<Rightarrow> data_access \<Rightarrow> string + namespace_state" where
  "build_runtime_namespace_state W revision c access =
     (case (if upstreams c \<noteq> [] then validate_config (w_urls W) c else Inr ()) of
        Inl e \<Rightarrow> Inl e
      | Inr _ \<Rightarrow> (case resolve_upstreams W c access of
            Inl e \<Rightarrow> Inl e
          | Inr us \<Rightarrow> Inr \<lparr>ns_revision = revision, ns_config = c, ns_upstreams = us\<rparr>))"

definition build_runtime_state :: "'u world \<Rightarrow> string \<Rightarrow> config \<Rightarrow> data_access \<Rightarrow> string + runtime_state" where
  "build_runtime_state W revision c access =
     (if upstreams c = [] then Inr []
      else (case build_runtime_namespace_state W revision c access of
          Inl e \<Rightarrow> Inl e
        | Inr s \<Rightarrow> Inr (omap_insert default_namespace s [])))"

section \<open>The dashboard's snapshot\<close>

record upstream_status =
  st_name :: string
  st_status :: string
  st_reason :: "string option"

record dashboard_snapshot =
  ds_config :: config
  ds_upstreams :: "upstream_status list"

text \<open>\<open>None\<close> stands for a lock that is taken.\<close>

definition dashboard_snapshot_of :: "runtime_state option \<Rightarrow> dashboard_snapshot" where
  "dashboard_snapshot_of runtime =
     (case Option.bind runtime (\<lambda>r. map_of r default_namespace) of
        None \<Rightarrow> \<lparr>ds_config = default_config, ds_upstreams = []\<rparr>
      | Some ns \<Rightarrow> \<lparr>ds_config = ns_config ns,
          ds_upstreams = map (\<lambda>(_, u). \<lparr>st_name = up_name (us_config u), st_status = status_label (us_availability u),
             st_reason = availability_reason (us_availability u)\<rparr>) (ns_upstreams ns)\<rparr>)"

section \<open>What is built\<close>

text \<open>An upstream has the key that the access of the process calls for.\<close>

fun keyed :: "data_access \<Rightarrow> upstream_state \<Rightarrow> bool" where
  "keyed (ProxyKeyAccess _) u = (\<exists>k. us_provider_key u = Some k \<and> trim k \<noteq> [])"
| "keyed ClientProviderKeyAccess u = (us_provider_key u = None)"
| "keyed Unconfigured u = False"
| "keyed (Misconfigured _) u = False"

text \<open>
  A namespace is consistent when its upstreams are exactly the configured ones, each with the right key.
\<close>

definition namespace_consistent :: "data_access \<Rightarrow> namespace_state \<Rightarrow> bool" where
  "namespace_consistent access ns \<longleftrightarrow>
     (\<forall>name. (map_of (ns_upstreams ns) name \<noteq> None) = (find_upstream (ns_config ns) name \<noteq> None))
     \<and> (\<forall>name u. map_of (ns_upstreams ns) name = Some u \<longrightarrow>
          up_name (us_config u) = name \<and> us_config u \<in> set (upstreams (ns_config ns)) \<and> keyed access u)"

lemma provider_key_keyed:
  "provider_key_for_upstream E access u = Inr k \<Longrightarrow> us_provider_key s = k \<Longrightarrow> keyed access s"
  by (cases access; cases "resolve_provider_key E u")
    (auto simp: provider_key_for_upstream_def dest: resolved_key_not_blank)

lemma resolved_upstream:
  "resolve_upstream W c access u = Inr s \<Longrightarrow> us_config s = u \<and> keyed access s"
  using provider_key_keyed [of "w_env W" access u]
  by (auto simp: resolve_upstream_def Let_def split: sum.splits prod.splits)

lemma resolve_upstreams_into_Cons:
  assumes "resolve_upstreams_into W c access acc (u # us) = Inr r"
  obtains s where "us_config s = u" "keyed access s"
    "resolve_upstreams_into W c access (omap_insert (up_name u) s acc) us = Inr r"
proof (cases "resolve_upstream W c access u")
  case (Inl e)
  with assms show ?thesis by simp
next
  case (Inr s)
  with assms resolved_upstream [OF Inr] show ?thesis by (intro that [of s]) simp_all
qed

lemma resolved_upstreams_names:
  "resolve_upstreams_into W c access acc us = Inr r \<Longrightarrow>
     map_of r name \<noteq> None \<longleftrightarrow> map_of acc name \<noteq> None \<or> name \<in> up_name ` set us"
proof (induction us arbitrary: acc)
  case Nil
  then show ?case by simp
next
  case (Cons u us)
  from Cons.prems obtain s where
      s: "resolve_upstreams_into W c access (omap_insert (up_name u) s acc) us = Inr r"
    by (rule resolve_upstreams_into_Cons)
  show ?case using Cons.IH [OF s] by (auto simp: obj.look_upd split: if_splits)
qed

lemma resolved_upstreams_into:
  "resolve_upstreams_into W c access acc us = Inr r \<Longrightarrow> map_of r name = Some s \<Longrightarrow>
     map_of acc name = Some s \<or> up_name (us_config s) = name \<and> us_config s \<in> set us \<and> keyed access s"
proof (induction us arbitrary: acc)
  case Nil
  then show ?case by simp
next
  case (Cons u us)
  from Cons.prems(1) obtain t where t: "us_config t = u" "keyed access t"
      "resolve_upstreams_into W c access (omap_insert (up_name u) t acc) us = Inr r"
    by (rule resolve_upstreams_into_Cons)
  show ?case using Cons.IH [OF t(3) Cons.prems(2)] t(1,2) by (auto simp: obj.look_upd split: if_splits)
qed

lemma built_namespace_consistent:
  assumes "build_runtime_namespace_state W revision c access = Inr ns"
  shows "namespace_consistent access ns \<and> ns_config ns = c \<and> ns_revision ns = revision"
proof -
  from assms have ns: "ns_config ns = c" "ns_revision ns = revision"
      and r: "resolve_upstreams_into W c access [] (upstreams c) = Inr (ns_upstreams ns)"
    by (auto simp: build_runtime_namespace_state_def resolve_upstreams_def split: sum.splits if_splits)
  have "namespace_consistent access ns"
    unfolding namespace_consistent_def ns
    using resolved_upstreams_into [OF r] resolved_upstreams_names [OF r] find_upstream_iff [of c] by auto
  with ns show ?thesis by blast
qed

end
