(* ===== verification/Secret_Redaction.thy ===== *)
theory Secret_Redaction
  imports Runtime_State
begin

text \<open>
  The removal of secrets from what a client is sent (src/src/server/secret_redaction.rs): the redactor of a
  request knows the credential it came with and every key of the server, and replaces them in texts,
  JSON values and the frames of streams.
\<close>

section \<open>The redactor\<close>

definition redacted_secret :: string where
  "redacted_secret = ''[REDACTED]''"

definition should_redact_known_secret :: "string \<Rightarrow> bool" where
  "should_redact_known_secret s = (trim s \<noteq> [])"

text \<open>
  The secrets are a sorted set (\<open>BTreeSet\<close>), then sorted by length, the longest first, and among equal
  lengths by the bytes; the second sort is stable and its input is sorted, so the length is its key.
\<close>

definition secret_redactor :: "string list \<Rightarrow> string list" where
  "secret_redactor secrets =
     sort_key (\<lambda>s. - int (length s)) (sort (remdups (filter should_redact_known_secret secrets)))"

definition redact_one :: "string \<Rightarrow> string \<Rightarrow> string" where
  "redact_one secret text = (if str_contains text secret then str_replace secret redacted_secret text else text)"

definition redact_text :: "string list \<Rightarrow> string \<Rightarrow> string" where
  "redact_text secrets value = foldl (\<lambda>text secret. redact_one secret text) value secrets"

fun redact_value :: "string list \<Rightarrow> json \<Rightarrow> json" where
  "redact_value r (JStr s) = JStr (redact_text r s)"
| "redact_value r (JArr xs) = JArr (map (redact_value r) xs)"
| "redact_value r (JObj kvs) = jobj (map (\<lambda>(k, v). (redact_text r k, redact_value r v)) kvs)"
| "redact_value r v = v"

section \<open>Frames\<close>

record sse_line =
  line_content :: string
  line_ending :: string

datatype sse_field = SseComment string | SseField string string | SseFieldNameOnly

definition sse_line_of :: "string \<Rightarrow> sse_line" where
  "sse_line_of l =
     (if l \<noteq> [] \<and> last l = nl
      then (if 2 \<le> length l \<and> l ! (length l - 2) = cr
            then \<lparr>line_content = take (length l - 2) l, line_ending = [cr, nl]\<rparr>
            else \<lparr>line_content = butlast l, line_ending = [nl]\<rparr>)
      else \<lparr>line_content = l, line_ending = []\<rparr>)"

definition split_sse_lines :: "string \<Rightarrow> sse_line list" where
  "split_sse_lines text = map sse_line_of (split_inclusive text)"

definition split_sse_field :: "string \<Rightarrow> sse_field" where
  "split_sse_field line = (case line of
      c # rest \<Rightarrow> if c = CHR '':'' then SseComment rest
        else (case split_once CHR '':'' line of
            Some (name, value) \<Rightarrow> SseField name value
          | None \<Rightarrow> SseFieldNameOnly)
    | [] \<Rightarrow> SseFieldNameOnly)"

definition data_of_line :: "sse_line \<Rightarrow> string option" where
  "data_of_line line = (case split_sse_field (line_content line) of
      SseField name value \<Rightarrow> if name = ''data''
        then Some (case value of c # rest \<Rightarrow> if c = CHR '' '' then rest else value | [] \<Rightarrow> []) else None
    | _ \<Rightarrow> None)"

definition redacted_sse_json_data :: "env \<Rightarrow> string list \<Rightarrow> sse_line list \<Rightarrow> string option" where
  "redacted_sse_json_data E r lines =
     (let data_lines = List.map_filter data_of_line lines; data = join [nl] data_lines
      in if data_lines = [] then None
         else if data = ''[DONE]'' \<or> trim data = [] then None
         else (case json_parse E data of
             None \<Rightarrow> None
           | Some event \<Rightarrow> if redact_value r event = event then None
               else Some (json_text E (redact_value r event))))"

text \<open>
  One line of the frame: what is written, and whether the redacted JSON has been written by then.
  A further data line of a frame whose JSON was rewritten is left out with its ending.
\<close>

definition redact_line :: "string list \<Rightarrow> string option \<Rightarrow> bool \<Rightarrow> sse_line \<Rightarrow> bool \<times> string" where
  "redact_line r json_data wrote line = (case split_sse_field (line_content line) of
      SseComment value \<Rightarrow> (wrote, '':'' @ redact_text r value @ line_ending line)
    | SseField name value \<Rightarrow>
       (if name = ''data'' then
          (case json_data of
             Some data \<Rightarrow>
               if wrote then (True, [])
               else (True, ''data:'' @ (if starts_with '' '' value then '' '' else []) @ data @ line_ending line)
           | None \<Rightarrow> (wrote, name @ '':'' @ redact_text r value @ line_ending line))
        else (wrote, name @ '':'' @ redact_text r value @ line_ending line))
    | SseFieldNameOnly \<Rightarrow> (wrote, redact_text r (line_content line) @ line_ending line))"

fun redact_lines :: "string list \<Rightarrow> string option \<Rightarrow> bool \<Rightarrow> sse_line list \<Rightarrow> string" where
  "redact_lines r data wrote [] = []"
| "redact_lines r data wrote (l # ls) =
     (case redact_line r data wrote l of (wrote', out) \<Rightarrow> out @ redact_lines r data wrote' ls)"

definition redact_sse_frame :: "env \<Rightarrow> string list \<Rightarrow> string \<Rightarrow> string" where
  "redact_sse_frame E r frame =
     (let lines = split_sse_lines (from_utf8_lossy frame)
      in redact_lines r (redacted_sse_json_data E r lines) False lines)"

definition redact_raw_frame :: "string list \<Rightarrow> string \<Rightarrow> string" where
  "redact_raw_frame r frame =
     (let text = from_utf8_lossy frame; redacted = redact_text r text
      in if redacted = text then frame else redacted)"

text \<open>The end of a frame: behind the first \<open>\r\n\r\n\<close>, else behind the first \<open>\n\n\<close>.\<close>

definition redaction_frame_end :: "string \<Rightarrow> nat option" where
  "redaction_frame_end buffer = (case str_find [cr, nl, cr, nl] buffer of
      Some p \<Rightarrow> Some (p + 4)
    | None \<Rightarrow> map_option (\<lambda>p. p + 2) (str_find [nl, nl] buffer))"

section \<open>Streams\<close>

record redacting =
  rd_redactor :: "string list"
  rd_buffer :: string
  rd_max_buffer_bytes :: "nat option"
  rd_stopped :: bool

definition new_redacting :: "string list \<Rightarrow> redacting" where
  "new_redacting r = \<lparr>rd_redactor = r, rd_buffer = [], rd_max_buffer_bytes = None, rd_stopped = False\<rparr>"

definition new_redacting_bounded :: "string list \<Rightarrow> nat \<Rightarrow> redacting" where
  "new_redacting_bounded r n = \<lparr>rd_redactor = r, rd_buffer = [], rd_max_buffer_bytes = Some n, rd_stopped = False\<rparr>"

lemma str_find_length: "str_find p s = Some n \<Longrightarrow> n + length p \<le> length s"
proof -
  assume f: "str_find p s = Some n"
  then obtain b where b: "s = take n s @ p @ b" using str_find_Some by blast
  have "n \<le> length s"
    using f by (induction p s arbitrary: n rule: str_find.induct) (auto split: if_splits)
  then have "length (take n s) = n" by simp
  then show ?thesis using b by (metis le_add1 length_append add.assoc)
qed

lemma redaction_frame_end_bounds:
  "redaction_frame_end buffer = Some n \<Longrightarrow> 0 < n \<and> n \<le> length buffer"
  by (auto simp: redaction_frame_end_def split: option.splits dest!: str_find_length)

text \<open>The loop that takes frames from the buffer: the frames and the rest.\<close>

function take_frames :: "string \<Rightarrow> string list \<times> string" where
  "take_frames buffer = (case redaction_frame_end buffer of
      None \<Rightarrow> ([], buffer)
    | Some n \<Rightarrow> (case take_frames (drop n buffer) of (fs, rest) \<Rightarrow> (take n buffer # fs, rest)))"
  by pat_completeness auto
termination by (relation "measure length") (auto dest: redaction_frame_end_bounds)

declare take_frames.simps [simp del]

definition transform_chunk :: "env \<Rightarrow> string \<Rightarrow> redacting \<Rightarrow> redacting \<times> string list" where
  "transform_chunk E bytes t =
     (if rd_stopped t then (t, [])
      else if (case rd_max_buffer_bytes t of Some m \<Rightarrow> m - length (rd_buffer t) < length bytes | None \<Rightarrow> False)
      then (t\<lparr>rd_buffer := [], rd_stopped := True\<rparr>, [])
      else (case take_frames (rd_buffer t @ bytes) of (frames, rest) \<Rightarrow>
          (t\<lparr>rd_buffer := rest\<rparr>, map (redact_sse_frame E (rd_redactor t)) frames)))"

definition finish_transform :: "redacting \<Rightarrow> redacting \<times> string list" where
  "finish_transform t =
     (if rd_stopped t \<or> rd_buffer t = [] then (t, [])
      else (t\<lparr>rd_buffer := []\<rparr>, [redact_raw_frame (rd_redactor t) (rd_buffer t)]))"

text \<open>\<open>RedactingSseStream\<close>; the answers of the inner stream to the polls made of it are the argument.\<close>

datatype 'e inner_poll = InnerChunk string | InnerError 'e | InnerEnd | InnerPending

datatype 'e outer_poll = OuterChunk string | OuterError 'e | OuterEnd | OuterPending

record redacting_stream =
  rs_transform :: redacting
  rs_queue :: "string list"

fun poll_redacting ::
    "env \<Rightarrow> redacting_stream \<Rightarrow> 'e inner_poll list \<Rightarrow> redacting_stream \<times> 'e outer_poll \<times> 'e inner_poll list" where
  "poll_redacting E s inner = (case rs_queue s of
      f # fs \<Rightarrow> (s\<lparr>rs_queue := fs\<rparr>, OuterChunk f, inner)
    | [] \<Rightarrow> (case inner of
          [] \<Rightarrow> (s, OuterPending, [])
        | InnerPending # rest \<Rightarrow> (s, OuterPending, rest)
        | InnerError e # rest \<Rightarrow> (s, OuterError e, rest)
        | InnerEnd # rest \<Rightarrow> (case finish_transform (rs_transform s) of (t, out) \<Rightarrow>
            (case out of
               [] \<Rightarrow> (s\<lparr>rs_transform := t\<rparr>, OuterEnd, rest)
             | f # fs \<Rightarrow> (s\<lparr>rs_transform := t, rs_queue := fs\<rparr>, OuterChunk f, rest)))
        | InnerChunk bytes # rest \<Rightarrow> (case transform_chunk E bytes (rs_transform s) of (t, out) \<Rightarrow>
            poll_redacting E (s\<lparr>rs_transform := t, rs_queue := out\<rparr>) rest)))"

declare poll_redacting.simps [simp del]

section \<open>The redactor of a request\<close>

definition bearer_secret :: "string \<Rightarrow> string option" where
  "bearer_secret value = (case bearer_token_of value of
      Some token \<Rightarrow> if trim token = [] then None else Some token
    | None \<Rightarrow> None)"

definition request_scoped_credential_secrets :: "to_str \<Rightarrow> header_map \<Rightarrow> string list" where
  "request_scoped_credential_secrets T headers =
     List.map_filter (\<lambda>v. Option.bind (T v) bearer_secret) (get_all headers ''authorization'')
     @ concat (map (\<lambda>name. List.map_filter
           (\<lambda>v. Option.bind (T v) (\<lambda>t. if trim t = [] then None else Some t)) (get_all headers name))
         api_key_headers)"

definition data_access_secrets :: "data_access \<Rightarrow> string list" where
  "data_access_secrets access = (case access of ProxyKeyAccess key \<Rightarrow> [key] | _ \<Rightarrow> [])"

definition runtime_secrets :: "runtime_state \<Rightarrow> string list" where
  "runtime_secrets runtime = concat (map (\<lambda>(_, ns).
     List.map_filter (\<lambda>(_, u). us_provider_key u) (ns_upstreams ns)) runtime)"

definition redactor_for_request :: "to_str \<Rightarrow> runtime_state request_auth_context \<Rightarrow> header_map \<Rightarrow> string list" where
  "redactor_for_request T c headers = secret_redactor
     (request_scoped_credential_secrets T headers
      @ (case client_provider_key c of Some k \<Rightarrow> [k] | None \<Rightarrow> [])
      @ data_access_secrets (rac_access c) @ runtime_secrets (rac_runtime c))"

end
