(* ===== verification/Observed_Redaction.thy ===== *)
theory Observed_Redaction
  imports Hook_Stream Secret_Redaction
begin

text \<open>
  How the hook sees a stream that is forwarded as it came (\<open>RedactingSseObservationTransform\<close> of
  src/src/server/secret_redaction.rs, as src/src/server/proxy.rs sets it up): through the bounded redaction of
  secrets, while the client gets the bytes themselves.
\<close>

definition redacting_observation :: "env \<Rightarrow> redacting transform" where
  "redacting_observation E = \<lparr>transform.transform_chunk = (\<lambda>t bytes. Secret_Redaction.transform_chunk E bytes t),
     transform_finish = finish_transform\<rparr>"

lemma redacting_observation_simps [simp]:
  "transform.transform_chunk (redacting_observation E) t bytes = Secret_Redaction.transform_chunk E bytes t"
  "transform_finish (redacting_observation E) t = finish_transform t"
  by (simp_all add: redacting_observation_def)

text \<open>A frame that does not fit into the bound ends what the hook is told.\<close>

lemma stopped_observation_is_silent:
  "rd_stopped t \<Longrightarrow> observed_chunks (redacting_observation E) (Some t) chunks = []"
  by (induction chunks arbitrary: t) (simp_all add: Secret_Redaction.transform_chunk_def finish_transform_def)

lemma oversized_frame_ends_observation:
  "rd_max_buffer_bytes t = Some m \<Longrightarrow> m - length (rd_buffer t) < length c \<Longrightarrow>
     observed_chunks (redacting_observation E) (Some t) (c # chunks) = []"
  by (auto simp: Secret_Redaction.transform_chunk_def stopped_observation_is_silent)

text \<open>A stream with a secret in a comment, cut inside its frame, as the hook of a forwarded stream sees it.\<close>

definition secret_chunks :: "string list" where
  "secret_chunks = ['': k1'' @ [nl] @ ''data: {}'', [nl, nl]]"

lemma secret_chunks_observed:
  "observed_chunks (redacting_observation example_env) (Some (new_redacting_bounded [''k1''] 100)) secret_chunks
     = ['': [REDACTED]'' @ [nl] @ ''data: {}'' @ [nl, nl]]"
  by code_simp

theorem exchange_hook_reports_stream_witness:
  "length (snd (live example_env (\<lambda>_. Sent) (redacting_observation example_env)
     (map InnerBytes secret_chunks @ [Hook_Stream.InnerEnd])
     (fst (wrap_stream 0 True True None OpenAiChatCompletions (Some (new_redacting_bounded [''k1''] 100))
        (new_hook_runtime 100 1 1))))) = 1"
proof -
  let ?T = "redacting_observation example_env"
  let ?t = "Some (new_redacting_bounded [''k1''] 100)"
  let ?rt = "new_hook_runtime 100 1 1"
  obtain s rt' where w: "wrap_stream 0 True True None OpenAiChatCompletions ?t ?rt = (s :: redacting hook_stream, rt')"
    by (cases "wrap_stream 0 True True None OpenAiChatCompletions ?t ?rt")
  then have en: "hs_capture_enabled s"
    by (auto simp: wrap_stream_def can_capture_exchange_def can_attempt_def circuit_attempt_def
        new_hook_runtime_def closed_circuit_def update_circuit_def)
  have small: "exchange_capture_budget_bytes ?rt \<le> default_exchange_capture_budget_bytes"
    by (simp add: new_hook_runtime_def)
  have codec: "list_all (codec_at example_env) (stream_events example_env (concat (observed_chunks ?T ?t secret_chunks)))"
  proof -
    have "utf8_valid ''{}''" "trim ''{}'' = ''{}''" by code_simp+
    then have "codec_at example_env (JObj [])" by (simp add: codec_at_def example_env_def)
    moreover have "stream_events example_env ('': [REDACTED]'' @ [nl] @ ''data: {}'' @ [nl, nl]) = [JObj []]" by code_simp
    ultimately show ?thesis by (simp add: secret_chunks_observed)
  qed
  have one: "case xs of [r] \<Rightarrow> P r | _ \<Rightarrow> False \<Longrightarrow> length xs = 1" for xs :: "hook_report list" and P
    by (auto split: list.splits)
  show ?thesis
    unfolding w fst_conv
    by (rule one [OF exchange_hook_reports_stream [OF w en small refl codec, where Q = "\<lambda>_. Sent"
        and completed = True]])
qed

end
