(* ===== verification/Reasoning_Replay.thy ===== *)
theory Reasoning_Replay
  imports Request_Json Formats Wire
begin

text \<open>
  Reasoning that travels with a conversation: the text of an OpenAI message, the thinking blocks of
  Anthropic that are kept beside it and their opaque carrier in a Responses item
  (src/src/translate/internal/openai_responses.rs), and the suppression of reasoning in a response
  (src/src/translate/internal/response_protocols.rs).
\<close>

section \<open>The text\<close>

definition reasoning_details_to_text :: "json option \<Rightarrow> string option" where
  "reasoning_details_to_text v = (case v of
      Some (JStr s) \<Rightarrow> if s = [] then None else Some s
    | Some (JArr items) \<Rightarrow>
        let joined = concat (List.map_filter (\<lambda>i. jget_str i ''text'') items)
        in if joined = [] then None else Some joined
    | _ \<Rightarrow> None)"

definition openai_message_reasoning_text :: "json \<Rightarrow> string option" where
  "openai_message_reasoning_text message = (case jget_str message ''reasoning_content'' of
      Some t \<Rightarrow> if t \<noteq> [] then Some t else reasoning_details_to_text (jget message ''reasoning_details'')
    | None \<Rightarrow> reasoning_details_to_text (jget message ''reasoning_details''))"

definition normalize_choice :: "json \<Rightarrow> json" where
  "normalize_choice choice = with_field ''message'' (\<lambda>m.
     if is_object m \<and> unwrap_or (jget_str m ''reasoning_content'') [] = []
     then (case reasoning_details_to_text (jget m ''reasoning_details'') of
         Some r \<Rightarrow> jset ''reasoning_content'' (JStr r) m | None \<Rightarrow> m)
     else m) choice"

definition normalize_openai_completion_response :: "json \<Rightarrow> json" where
  "normalize_openai_completion_response body = with_array ''choices'' (map normalize_choice) body"

section \<open>The blocks and their carrier\<close>

definition replay_field :: string where
  "replay_field = ''_anthropic_reasoning_replay''"

definition carrier_prefix :: string where
  "carrier_prefix = ''anthropic-thinking-v1:''"

definition carrier_payload :: "json list \<Rightarrow> json" where
  "carrier_payload blocks = jobj [(''format'', JStr ''anthropic-thinking-replay''), (''version'', jnat 1),
     (''blocks'', JArr blocks)]"

definition encode_anthropic_reasoning_carrier :: "env \<Rightarrow> json list \<Rightarrow> string" where
  "encode_anthropic_reasoning_carrier E blocks =
     carrier_prefix @ hex_encode E (json_text E (carrier_payload blocks))"

definition decode_anthropic_reasoning_carrier :: "env \<Rightarrow> string \<Rightarrow> string + json list" where
  "decode_anthropic_reasoning_carrier E carrier = (case strip_prefix carrier_prefix carrier of
      None \<Rightarrow> Inl ''unsupported carrier prefix''
    | Some encoded \<Rightarrow> (case hex_decode E encoded of
          None \<Rightarrow> Inl ''decode carrier hex''
        | Some bytes \<Rightarrow> (case json_parse E bytes of
              None \<Rightarrow> Inl ''decode carrier json''
            | Some payload \<Rightarrow>
                if jget_str payload ''format'' \<noteq> Some ''anthropic-thinking-replay''
                then Inl ''unsupported carrier format''
                else if jget_u64 payload ''version'' \<noteq> Some 1 then Inl ''unsupported carrier version''
                else (case jget_array payload ''blocks'' of
                    None \<Rightarrow> Inl ''carrier blocks must be an array''
                  | Some blocks \<Rightarrow>
                      if list_ex (\<lambda>b. type_of b \<noteq> Some ''thinking'') blocks
                      then Inl ''carrier blocks must only contain Anthropic thinking blocks''
                      else Inr blocks))))"

definition openai_message_anthropic_reasoning_replay_blocks :: "json \<Rightarrow> json list option" where
  "openai_message_anthropic_reasoning_replay_blocks message = jget_array message replay_field"

definition append_openai_message_anthropic_reasoning_replay_blocks :: "json list \<Rightarrow> json \<Rightarrow> json" where
  "append_openai_message_anthropic_reasoning_replay_blocks blocks message =
     (if blocks = [] \<or> \<not> is_object message then message
      else with_array replay_field (\<lambda>arr. arr @ blocks) (or_insert replay_field (JArr []) message))"

definition responses_summary_array_text :: "json \<Rightarrow> string" where
  "responses_summary_array_text item = concat (List.map_filter
     (\<lambda>part. if type_of part = Some ''summary_text'' then jget_str part ''text'' else None)
     (array_at item ''summary''))"

definition responses_reasoning_summary_text :: "json \<Rightarrow> string" where
  "responses_reasoning_summary_text item = responses_summary_array_text item"

definition thinking_block :: "string \<Rightarrow> json" where
  "thinking_block t = jobj [(''type'', JStr ''thinking''), (''thinking'', JStr t)]"

definition responses_reasoning_replay_blocks_for_anthropic :: "env \<Rightarrow> json \<Rightarrow> json list option" where
  "responses_reasoning_replay_blocks_for_anthropic E item =
    (let summary = responses_reasoning_summary_text item;
         fallback = (if summary = [] then None else Some [thinking_block summary])
     in case jget_str item ''encrypted_content'' of
          None \<Rightarrow> fallback
        | Some carrier \<Rightarrow> (case decode_anthropic_reasoning_carrier E carrier of
              Inr blocks \<Rightarrow> if blocks = [] then fallback else Some blocks
            | Inl _ \<Rightarrow> fallback))"

definition responses_reasoning_unsigned_summary_blocks_for_anthropic_request :: "json \<Rightarrow> json list option" where
  "responses_reasoning_unsigned_summary_blocks_for_anthropic_request item =
    (let summary = responses_reasoning_summary_text item
     in if summary = [] then None else Some [thinking_block summary])"

section \<open>Suppression\<close>

definition strip_openai_completion_reasoning :: "json \<Rightarrow> json" where
  "strip_openai_completion_reasoning body = with_array ''choices''
     (map (with_field ''message'' (jremove ''reasoning_details'' \<circ> jremove ''reasoning_content''))) body"

definition strip_anthropic_response_thinking :: "json \<Rightarrow> json" where
  "strip_anthropic_response_thinking body = with_array ''content''
     (filter (\<lambda>b. type_of b \<notin> {Some ''thinking'', Some ''redacted_thinking''})) body"

definition strip_responses_reasoning_items :: "json \<Rightarrow> json" where
  "strip_responses_reasoning_items body = with_array ''output'' (filter (\<lambda>i. type_of i \<noteq> Some ''reasoning'')) body"

fun strip_response_reasoning :: "upstream_format \<Rightarrow> json \<Rightarrow> json" where
  "strip_response_reasoning OpenAiChatCompletions body = strip_openai_completion_reasoning body"
| "strip_response_reasoning Anthropic body = strip_anthropic_response_thinking body"
| "strip_response_reasoning OpenAiResponses body = strip_responses_reasoning_items body"

section \<open>Properties\<close>

text \<open>Documented: the hexadecimal reader undoes the writer.\<close>

definition hex_ok :: "env \<Rightarrow> bool" where
  "hex_ok E = (\<forall>s. hex_decode E (hex_encode E s) = Some s)"

text \<open>Thinking blocks of Anthropic, signatures and all, survive in the opaque content of a Responses
  reasoning item: what the carrier is written from is what is read out of it, whatever
  summary stands beside it.\<close>

theorem reasoning_carrier_round_trip:
  assumes "hex_ok E" and "json_parse E (json_text E (carrier_payload blocks)) = Some (carrier_payload blocks)"
    and "list_all (\<lambda>b. type_of b = Some ''thinking'') blocks" and "blocks \<noteq> []"
    and "jget_str item ''encrypted_content'' = Some (encode_anthropic_reasoning_carrier E blocks)"
  shows "responses_reasoning_replay_blocks_for_anthropic E item = Some blocks"
proof -
  have "jget_str (carrier_payload blocks) ''format'' = Some ''anthropic-thinking-replay''"
    "jget_u64 (carrier_payload blocks) ''version'' = Some 1"
    "jget_array (carrier_payload blocks) ''blocks'' = Some blocks"
    by (simp_all add: carrier_payload_def jget_defs)
  moreover have "strip_prefix carrier_prefix (encode_anthropic_reasoning_carrier E blocks)
      = Some (hex_encode E (json_text E (carrier_payload blocks)))"
    by (simp add: encode_anthropic_reasoning_carrier_def strip_prefix_Some)
  moreover have "\<not> list_ex (\<lambda>b. type_of b \<noteq> Some ''thinking'') blocks"
    using assms(3) by (auto simp: list_all_iff list_ex_iff)
  ultimately have "decode_anthropic_reasoning_carrier E (encode_anthropic_reasoning_carrier E blocks) = Inr blocks"
    using assms(1,2) by (simp add: decode_anthropic_reasoning_carrier_def hex_ok_def)
  then show ?thesis
    using assms(4,5) by (simp add: responses_reasoning_replay_blocks_for_anthropic_def Let_def)
qed

definition carrier_env :: env where
  "carrier_env = example_env\<lparr>json_parse := (\<lambda>_. Some (carrier_payload [thinking_block ''hm'']))\<rparr>"

theorem reasoning_carrier_round_trip_witness:
  "responses_reasoning_replay_blocks_for_anthropic carrier_env
     (jobj [(''summary'', JArr []),
       (''encrypted_content'', JStr (encode_anthropic_reasoning_carrier carrier_env [thinking_block ''hm'']))])
   = Some [thinking_block ''hm'']"
  by (rule reasoning_carrier_round_trip)
    (simp_all add: hex_ok_def carrier_env_def example_env_def thinking_block_def jget_str_def)

end
