(* ===== verification/Claude_Requests.thy ===== *)
theory Claude_Requests
  imports Media Tool_Calls Request_Controls Dialect
begin

text \<open>
  From Anthropic Messages requests to Chat Completions (src/src/translate/internal.rs): what cannot be
  translated, system content, images, tool choice, the OpenAI controls in the extra body, messages, and
  the whole body (\<open>claude_to_openai\<close>). Messages are also what an Anthropic response is read from.
\<close>

section \<open>What is portable\<close>

definition anthropic_block_has_nonportable_thinking_provenance :: "json \<Rightarrow> bool" where
  "anthropic_block_has_nonportable_thinking_provenance block =
     (type_of block = Some ''thinking''
      \<and> (jget block ''signature'' \<noteq> None
         \<or> (case jget block ''thinking'' of Some t \<Rightarrow> as_str t = None | None \<Rightarrow> True)))"

definition anthropic_blocks_have_nonportable_thinking_provenance :: "json list \<Rightarrow> bool" where
  "anthropic_blocks_have_nonportable_thinking_provenance blocks =
     list_ex anthropic_block_has_nonportable_thinking_provenance blocks"

definition anthropic_content_block_supported :: "string \<Rightarrow> bool" where
  "anthropic_content_block_supported ty =
     (ty \<in> {''text'', ''image'', ''tool_use'', ''server_tool_use'', ''tool_result'', ''thinking''})"

definition anthropic_block_not_portable_message :: "string \<Rightarrow> string \<Rightarrow> string" where
  "anthropic_block_not_portable_message ty target =
     ''Anthropic content block `'' @ ty @ ''` cannot be faithfully translated to '' @ target"

definition anthropic_nonportable_block_message :: "string \<Rightarrow> json \<Rightarrow> string option" where
  "anthropic_nonportable_block_message target block = Option.bind (type_of block)
     (\<lambda>ty. if anthropic_content_block_supported ty then None
           else Some (anthropic_block_not_portable_message ty target))"

text \<open>\<open>None\<close> of \<open>messages\<close> ends the search, as the \<open>?\<close> does.\<close>

definition anthropic_nonportable_content_block_message :: "json \<Rightarrow> string \<Rightarrow> string option" where
  "anthropic_nonportable_content_block_message body target =
    (case (case jget body ''system'' of
             Some (JArr blocks) \<Rightarrow> find_map (anthropic_nonportable_block_message target) blocks
           | Some (JObj kvs) \<Rightarrow> anthropic_nonportable_block_message target (JObj kvs)
           | _ \<Rightarrow> None) of
       Some m \<Rightarrow> Some m
     | None \<Rightarrow> Option.bind (jget_array body ''messages'')
         (find_map (\<lambda>m. find_map (anthropic_nonportable_block_message target) (array_at m ''content''))))"

definition anthropic_request_tool_definition_not_portable_message :: "string \<Rightarrow> string \<Rightarrow> string" where
  "anthropic_request_tool_definition_not_portable_message detail target =
     ''Anthropic tool definitions with '' @ detail @ '' cannot be faithfully translated to '' @ target"

definition anthropic_request_nonportable_tool_definition_message :: "json \<Rightarrow> string \<Rightarrow> string option" where
  "anthropic_request_nonportable_tool_definition_message body target =
     Option.bind (jget_array body ''tools'') (find_map (\<lambda>tool.
       case find_map (\<lambda>f. if jget tool f \<noteq> None then Some f else None)
           [''strict'', ''defer_loading'', ''allowed_callers'', ''input_examples''] of
         Some f \<Rightarrow> Some (anthropic_request_tool_definition_not_portable_message
           (''native `'' @ f @ ''` metadata'') target)
       | None \<Rightarrow> if jget tool ''type'' \<noteq> None \<or> jget tool ''name'' = None
           then Some (anthropic_request_tool_definition_not_portable_message
             ''server-side or provider-native tool shapes'' target)
           else None))"

abbreviation is_tool_result_block :: "json \<Rightarrow> bool" where
  "is_tool_result_block block \<equiv> type_of block = Some ''tool_result''"

text \<open>The scan with its three flags: results seen, other blocks before, other blocks after.\<close>

fun reordering_scan :: "bool \<Rightarrow> bool \<Rightarrow> bool \<Rightarrow> json list \<Rightarrow> bool" where
  "reordering_scan saw before after [] = False"
| "reordering_scan saw before after (b # bs) =
    (if is_tool_result_block b then (before \<or> after \<or> reordering_scan True before after bs)
     else if saw then reordering_scan saw before True bs
     else reordering_scan saw True after bs)"

definition anthropic_user_turn_requires_tool_result_reordering :: "json list \<Rightarrow> bool" where
  "anthropic_user_turn_requires_tool_result_reordering blocks = reordering_scan False False False blocks"

definition anthropic_tool_result_order_not_portable_message :: "string \<Rightarrow> string" where
  "anthropic_tool_result_order_not_portable_message target =
     ''Anthropic user turns that mix `tool_result` blocks with surrounding content cannot be faithfully translated to ''
     @ target @ '' without reordering blocks''"

definition anthropic_request_tool_result_order_message :: "json \<Rightarrow> string \<Rightarrow> string option" where
  "anthropic_request_tool_result_order_message body target =
     Option.bind (jget_array body ''messages'') (find_map (\<lambda>m.
       if role_of m \<noteq> Some ''user'' then None
       else (case jget_array m ''content'' of
           None \<Rightarrow> None
         | Some blocks \<Rightarrow>
             if list_ex is_tool_result_block blocks \<and> list_ex (\<lambda>b. \<not> is_tool_result_block b) blocks
               \<and> anthropic_user_turn_requires_tool_result_reordering blocks
             then Some (anthropic_tool_result_order_not_portable_message target) else None)))"

section \<open>System content\<close>

abbreviation chat_label :: string where
  "chat_label \<equiv> ''OpenAI Chat Completions''"

definition system_block_part :: "json \<Rightarrow> string + json option" where
  "system_block_part block = (case type_of block of
      None \<Rightarrow> Inr None
    | Some ty \<Rightarrow>
        if ty = ''thinking'' then Inr None
        else if ty \<noteq> ''text'' then Inl (anthropic_block_not_portable_message ty chat_label)
        else Inr (map_option semantic_text_part_to_openai_value (semantic_text_part_from_claude_block block)))"

definition claude_system_to_openai_content :: "json \<Rightarrow> string + json option" where
  "claude_system_to_openai_content system = (case system of
      JStr t \<Rightarrow> Inr (if t = [] then None else Some (JStr t))
    | JArr blocks \<Rightarrow> res_bind (res_map system_block_part blocks) (\<lambda>ps.
        let parts = List.map_filter id ps in Inr (if parts = [] then None else Some (JArr parts)))
    | JObj kvs \<Rightarrow> system_block_part (JObj kvs)
    | _ \<Rightarrow> Inr None)"

section \<open>Images and tool choice\<close>

definition bad_base64_image :: string where
  "bad_base64_image = ''Anthropic image source.type=base64 requires canonical non-empty base64 `data`.''"

definition image_url_part :: "string \<Rightarrow> json" where
  "image_url_part url = jobj [(''type'', JStr ''image_url''), (''image_url'', jobj [(''url'', JStr url)])]"

definition anthropic_image_block_to_openai_part :: "env \<Rightarrow> json \<Rightarrow> string + json" where
  "anthropic_image_block_to_openai_part E block = (case jget block ''source'' of
      None \<Rightarrow> Inl (anthropic_block_not_portable_message ''image'' chat_label)
    | Some source \<Rightarrow> (case type_of source of
          None \<Rightarrow> Inl ''Anthropic image blocks require a source.type to translate to OpenAI Chat Completions.''
        | Some ty \<Rightarrow>
            if ty = ''base64'' then
              (case validate_inline_base64_payload (unwrap_or (jget_str source ''data'') []) of
                 None \<Rightarrow> Inl bad_base64_image
               | Some payload \<Rightarrow> (case nonempty_str source ''media_type'' of
                     None \<Rightarrow> Inl bad_base64_image
                   | Some media \<Rightarrow> Inr (image_url_part (''data:'' @ media @ '';base64,'' @ payload))))
            else if ty = ''url'' then
              (case jget_str source ''url'' of
                 None \<Rightarrow> Inl (''Anthropic image source.type=url requires a string `url` to translate to ''
                   @ chat_label @ ''.'')
               | Some url \<Rightarrow> (case http_or_https_remote_url E url of
                     None \<Rightarrow> Inl ''Anthropic image source.type=url only supports clean http:// or https:// remote URLs for OpenAI targets.''
                   | Some url \<Rightarrow> Inr (image_url_part url)))
            else Inl (''Anthropic image source type `'' @ ty @ ''` cannot be faithfully translated to ''
              @ chat_label @ ''.'')))"

definition function_choice :: "string \<Rightarrow> json" where
  "function_choice name = jobj [(''type'', JStr ''function''), (''function'', jobj [(''name'', JStr name)])]"

definition custom_choice :: "string \<Rightarrow> json" where
  "custom_choice name = jobj [(''type'', JStr ''custom''), (''custom'', jobj [(''name'', JStr name)])]"

definition anthropic_tool_choice_to_openai ::
    "json \<Rightarrow> bool \<Rightarrow> tool_bridge_context option \<Rightarrow> string + json \<times> bool" where
  "anthropic_tool_choice_to_openai choice decode ctx =
    (if \<not> is_object choice then Inl ''Anthropic tool_choice must be an object for cross-protocol translation''
     else (case type_of choice of
         None \<Rightarrow> Inl ''Anthropic tool_choice.type is required for cross-protocol translation''
       | Some ty \<Rightarrow>
           res_bind
             (if ty = ''auto'' then Inr (JStr ''auto'')
              else if ty = ''none'' then Inr (JStr ''none'')
              else if ty = ''any'' then Inr (JStr ''required'')
              else if ty = ''tool'' then (case nonempty_str choice ''name'' of
                  None \<Rightarrow> Inl ''Anthropic tool_choice.type = tool requires a non-empty `name` field.''
                | Some name \<Rightarrow> res_bind (validate_public_tool_name_not_reserved name) (\<lambda>_.
                    Inr (if decode \<and> context_expects_wrapper ctx name then custom_choice name
                         else function_choice name)))
              else Inl (''Anthropic tool_choice.type `'' @ ty @ ''` cannot be translated to '' @ chat_label))
             (\<lambda>mapped. Inr (mapped, unwrap_or (jget_bool choice ''disable_parallel_tool_use'') False))))"

section \<open>OpenAI controls in the extra body\<close>

record anthropic_openai_controls =
  ao_prompt_cache_key :: "json option"
  ao_prompt_cache_retention :: "json option"
  ao_reasoning_effort :: "json option"

definition anthropic_extra_body_openai_controls_message :: "string \<Rightarrow> string" where
  "anthropic_extra_body_openai_controls_message detail =
     ''extra_body.openai supports non-empty string `prompt_cache_key`, optional `prompt_cache_retention`: \"in_memory\" or \"24h\", and optional `reasoning_effort`: one of none, minimal, low, medium, high, xhigh, max, ultra; ''
     @ detail"

definition one_control_required :: string where
  "one_control_required =
     anthropic_extra_body_openai_controls_message ''at least one supported OpenAI control is required''"

text \<open>The synthetic body that the prompt cache controls are validated on.\<close>

definition prompt_cache_body :: "json \<Rightarrow> json" where
  "prompt_cache_body openai = jobj [(''extra_body'', jobj [(''openai'', jobj
     (opt_field ''prompt_cache_key'' (jget openai ''prompt_cache_key'')
      @ opt_field ''prompt_cache_retention'' (jget openai ''prompt_cache_retention'')))])]"

definition read_reasoning_effort :: "json option \<Rightarrow> string + json option" where
  "read_reasoning_effort v = (case v of
      None \<Rightarrow> Inr None
    | Some v \<Rightarrow> (case as_str v of
          None \<Rightarrow> Inl (anthropic_extra_body_openai_controls_message
            ''extra_body.openai.reasoning_effort must be a string'')
        | Some s \<Rightarrow> (case level_parse s of
              Inr _ \<Rightarrow> Inr (Some (JStr s))
            | Inl _ \<Rightarrow> Inl (anthropic_extra_body_openai_controls_message
                ''extra_body.openai.reasoning_effort must be one of: none, minimal, low, medium, high, xhigh, max, ultra''))))"

definition validated_anthropic_extra_body_openai_controls :: "json \<Rightarrow> string + anthropic_openai_controls option" where
  "validated_anthropic_extra_body_openai_controls body =
    (case ogetj (jget body ''extra_body'') ''openai'' of
       None \<Rightarrow> Inr None
     | Some openai \<Rightarrow> (case openai of
           JObj kvs \<Rightarrow>
             if kvs = [] then Inl one_control_required
             else if list_ex (\<lambda>(k, _). k \<notin> {''prompt_cache_key'', ''prompt_cache_retention'', ''reasoning_effort''}) kvs
             then Inl (anthropic_extra_body_openai_controls_message
               ''only `prompt_cache_key`, optional `prompt_cache_retention`, and `reasoning_effort` are supported'')
             else res_bind
               (if jget openai ''prompt_cache_key'' \<noteq> None \<or> jget openai ''prompt_cache_retention'' \<noteq> None
                then res_bind (validated_anthropic_extra_body_openai_prompt_cache_controls (prompt_cache_body openai))
                  (\<lambda>c. case c of Some c \<Rightarrow> Inr (Some (pc_key c), pc_retention c) | None \<Rightarrow> Inr (None, None))
                else Inr (None, None))
               (\<lambda>(key, retention).
                  if key = None \<and> retention = None \<and> jget openai ''reasoning_effort'' = None
                  then Inl one_control_required
                  else res_bind (read_reasoning_effort (jget openai ''reasoning_effort'')) (\<lambda>effort.
                    Inr (Some \<lparr>ao_prompt_cache_key = key, ao_prompt_cache_retention = retention,
                               ao_reasoning_effort = effort\<rparr>)))
         | _ \<Rightarrow> Inl (anthropic_extra_body_openai_controls_message ''value must be an object'')))"

section \<open>Messages\<close>

record claude_acc =
  cl_parts :: "json list"
  cl_calls :: "json list"
  cl_results :: "json list"
  cl_reasoning :: string

definition empty_claude_acc :: claude_acc where
  "empty_claude_acc = \<lparr>cl_parts = [], cl_calls = [], cl_results = [], cl_reasoning = []\<rparr>"

definition custom_call_value :: "json option \<Rightarrow> string \<Rightarrow> string \<Rightarrow> json" where
  "custom_call_value i name input = jobj [(''id'', jopt i), (''type'', JStr ''custom''),
     (''custom'', jobj [(''name'', JStr name), (''input'', JStr input)])]"

definition function_call_value :: "json option \<Rightarrow> json option \<Rightarrow> string \<Rightarrow> json" where
  "function_call_value i name args = jobj [(''id'', jopt i), (''type'', JStr ''function''),
     (''function'', jobj [(''name'', jopt name), (''arguments'', JStr args)])]"

definition tool_use_to_call :: "env \<Rightarrow> bool \<Rightarrow> tool_bridge_context option \<Rightarrow> json \<Rightarrow> string + json" where
  "tool_use_to_call E decode ctx block =
    (let name = unwrap_or (jget_str block ''name'') [];
         input = unwrap_or (jget block ''input'') (JObj []);
         plain = function_call_value (jget block ''id'') (jget block ''name'') (json_text E input)
     in res_bind (validate_public_tool_name_not_reserved name) (\<lambda>_.
          Inr (if decode \<and> context_expects_wrapper ctx name then
                 (case openai_responses_custom_tool_input_from_bridge_value input of
                    Some custom \<Rightarrow> custom_call_value (jget block ''id'') name custom
                  | None \<Rightarrow> plain)
               else plain)))"

definition server_tool_use_to_call :: "env \<Rightarrow> json \<Rightarrow> string + json" where
  "server_tool_use_to_call E block =
     res_bind (case jget_str block ''name'' of
         None \<Rightarrow> Inr () | Some name \<Rightarrow> validate_public_tool_name_not_reserved name) (\<lambda>_.
       Inr (attest_proxied_tool_kind E
         (jset ''proxied_tool_kind'' (JStr ''anthropic_server_tool_use'')
           (function_call_value (jget block ''id'') (jget block ''name'')
             (case jget block ''input'' of Some input \<Rightarrow> json_text E input | None \<Rightarrow> ''{}'')))))"

definition tool_result_message :: "json \<Rightarrow> string + json" where
  "tool_result_message block =
     res_bind (semantic_tool_result_content_to_openai_chat_tool_content
         (semantic_tool_result_content_from_value (jget block ''content'')))
       (\<lambda>content. Inr (jobj [(''role'', JStr ''tool''), (''tool_call_id'', jopt (jget block ''tool_use_id'')),
          (''content'', content)]))"

text \<open>One block; \<open>Inr None\<close> is the early \<open>return Ok(None)\<close>.\<close>

definition claude_block_step ::
    "env \<Rightarrow> bool \<Rightarrow> tool_bridge_context option \<Rightarrow> json \<Rightarrow> claude_acc \<Rightarrow> string + claude_acc option" where
  "claude_block_step E decode ctx block a = (case type_of block of
      None \<Rightarrow> Inr None
    | Some ty \<Rightarrow>
        if ty = ''text'' then Inr (map_option
          (\<lambda>p. a\<lparr>cl_parts := cl_parts a @ [semantic_text_part_to_openai_value p]\<rparr>)
          (semantic_text_part_from_claude_block block))
        else if ty = ''image'' then res_bind (anthropic_image_block_to_openai_part E block)
          (\<lambda>p. Inr (Some (a\<lparr>cl_parts := cl_parts a @ [p]\<rparr>)))
        else if ty = ''tool_use'' then res_bind (tool_use_to_call E decode ctx block)
          (\<lambda>c. Inr (Some (a\<lparr>cl_calls := cl_calls a @ [c]\<rparr>)))
        else if ty = ''server_tool_use'' then res_bind (server_tool_use_to_call E block)
          (\<lambda>c. Inr (Some (a\<lparr>cl_calls := cl_calls a @ [c]\<rparr>)))
        else if ty = ''tool_result'' then res_bind (tool_result_message block)
          (\<lambda>r. Inr (Some (a\<lparr>cl_results := cl_results a @ [r]\<rparr>)))
        else if ty = ''thinking'' then
          Inr (Some (a\<lparr>cl_reasoning := cl_reasoning a @ unwrap_or (jget_str block ''thinking'') []\<rparr>))
        else Inl (anthropic_block_not_portable_message ty chat_label))"

fun claude_blocks ::
    "env \<Rightarrow> bool \<Rightarrow> tool_bridge_context option \<Rightarrow> json list \<Rightarrow> claude_acc \<Rightarrow> string + claude_acc option" where
  "claude_blocks E decode ctx [] a = Inr (Some a)"
| "claude_blocks E decode ctx (b # bs) a = res_bind (claude_block_step E decode ctx b a)
     (\<lambda>r. case r of None \<Rightarrow> Inr None | Some a' \<Rightarrow> claude_blocks E decode ctx bs a')"

definition role_content :: "string \<Rightarrow> json \<Rightarrow> json" where
  "role_content role content = jobj [(''role'', JStr role), (''content'', content)]"

definition with_reasoning :: "string \<Rightarrow> json \<Rightarrow> json" where
  "with_reasoning r m = (if r = [] then m else jset ''reasoning_content'' (JStr r) m)"

definition claude_acc_messages :: "string \<Rightarrow> claude_acc \<Rightarrow> json list" where
  "claude_acc_messages role a =
    (if cl_results a \<noteq> [] then
       cl_results a @ (if cl_parts a = [] then []
         else [role_content ''user'' (collapse_openai_text_parts (cl_parts a))])
     else if cl_calls a \<noteq> [] then
       [with_reasoning (cl_reasoning a)
         (let m = jobj [(''role'', JStr ''assistant''), (''tool_calls'', JArr (cl_calls a))]
          in if cl_parts a = [] then m
             else jset ''content'' (collapse_openai_text_parts (cl_parts a)) m)]
     else if cl_parts a = [] then [with_reasoning (cl_reasoning a) (role_content role (JStr []))]
     else [with_reasoning (cl_reasoning a) (role_content role (collapse_openai_text_parts (cl_parts a)))])"

definition claude_role :: "string \<Rightarrow> string" where
  "claude_role role = (if role = ''user'' \<or> role = ''tool'' then ''user'' else ''assistant'')"

definition convert_claude_message_to_openai_impl ::
    "env \<Rightarrow> bool \<Rightarrow> tool_bridge_context option \<Rightarrow> json \<Rightarrow> string + json list option" where
  "convert_claude_message_to_openai_impl E decode ctx msg = (case role_of msg of
      None \<Rightarrow> Inr None
    | Some role \<Rightarrow> (case jget msg ''content'' of
          None \<Rightarrow> Inr None
        | Some (JStr t) \<Rightarrow> Inr (Some [role_content (claude_role role) (JStr t)])
        | Some (JArr blocks) \<Rightarrow> res_bind (claude_blocks E decode ctx blocks empty_claude_acc)
            (\<lambda>a. Inr (map_option (claude_acc_messages (claude_role role)) a))
        | Some _ \<Rightarrow> Inr None))"

section \<open>The body\<close>

definition object_schema :: json where
  "object_schema = jobj [(''type'', JStr ''object''), (''properties'', JObj [])]"

definition claude_tool_to_openai ::
    "bool \<Rightarrow> tool_bridge_context option \<Rightarrow> json \<Rightarrow> string + json option" where
  "claude_tool_to_openai decode ctx t = (case jget_str t ''name'' of
      None \<Rightarrow> Inr None
    | Some name \<Rightarrow> res_bind (validate_public_tool_name_not_reserved name) (\<lambda>_.
        Inr (Some (if decode \<and> context_expects_wrapper ctx name
          then jobj [(''type'', JStr ''custom''), (''custom'', jobj [(''name'', JStr name),
            (''description'', jopt (jget t ''description''))])]
          else jobj [(''type'', JStr ''function''), (''function'', jobj [(''name'', JStr name),
            (''description'', jopt (jget t ''description'')),
            (''parameters'', unwrap_or (option_or (jget t ''input_schema'') (jget t ''parameters'')) object_schema)])]))))"

definition stop_of_sequences :: "json \<Rightarrow> json" where
  "stop_of_sequences s = (case s of JArr [x] \<Rightarrow> x | _ \<Rightarrow> s)"

definition claude_body_head :: "json \<Rightarrow> json" where
  "claude_body_head body =
     set_opt ''stop'' (map_option stop_of_sequences (jget body ''stop_sequences''))
       (set_opt ''top_p'' (jget body ''top_p'')
         (set_opt ''temperature'' (jget body ''temperature'')
           (set_opt ''max_completion_tokens'' (jget body ''max_tokens'')
             (jobj [(''model'', unwrap_or (jget body ''model'') JNull), (''messages'', JArr []),
                (''stream'', unwrap_or (jget body ''stream'') (JBool False))]))))"

definition claude_tool_choice_into ::
    "bool \<Rightarrow> tool_bridge_context option \<Rightarrow> json \<Rightarrow> json \<Rightarrow> string + json" where
  "claude_tool_choice_into decode ctx body r = (case present (jget body ''tool_choice'') of
      None \<Rightarrow> Inr r
    | Some choice \<Rightarrow> res_bind (anthropic_tool_choice_to_openai choice decode ctx) (\<lambda>(mapped, off).
        let r = jset ''tool_choice'' mapped r
        in Inr (if off then jset ''parallel_tool_calls'' (JBool False) r else r)))"

definition claude_system_message :: "json \<Rightarrow> string + json list" where
  "claude_system_message body = (case jget body ''system'' of
      None \<Rightarrow> Inr []
    | Some system \<Rightarrow> res_bind (claude_system_to_openai_content system) (\<lambda>c.
        Inr (case c of None \<Rightarrow> [] | Some c \<Rightarrow> [role_content ''system'' c])))"

definition claude_conversation ::
    "env \<Rightarrow> bool \<Rightarrow> tool_bridge_context option \<Rightarrow> json \<Rightarrow> string + json list" where
  "claude_conversation E decode ctx body =
     res_bind (res_map (convert_claude_message_to_openai_impl E decode ctx) (array_at body ''messages''))
       (\<lambda>ms. Inr (concat (map (\<lambda>m. unwrap_or m []) ms)))"

definition claude_openai_controls_into :: "anthropic_openai_controls option \<Rightarrow> json \<Rightarrow> json" where
  "claude_openai_controls_into c r = (case c of
      None \<Rightarrow> r
    | Some c \<Rightarrow> set_opt ''reasoning_effort'' (ao_reasoning_effort c)
        (set_opt ''prompt_cache_retention'' (ao_prompt_cache_retention c)
          (set_opt ''prompt_cache_key'' (ao_prompt_cache_key c) r)))"

definition claude_to_openai :: "env \<Rightarrow> bool \<Rightarrow> json \<Rightarrow> string + json" where
  "claude_to_openai E decode body =
    (let ctx = request_scoped_tool_bridge_context_from_body body in
     res_bind (validated_anthropic_extra_body_openai_controls body) (\<lambda>controls.
     res_bind (claude_tool_choice_into decode ctx body (claude_body_head body)) (\<lambda>r.
     res_bind (claude_system_message body) (\<lambda>system.
     res_bind (claude_conversation E decode ctx body) (\<lambda>messages.
     res_bind (res_map (claude_tool_to_openai decode ctx) (array_at body ''tools'')) (\<lambda>tools.
       let tools = List.map_filter id tools;
           r = jset ''messages'' (JArr (system @ messages)) r;
           r = (if tools = [] then r else jset ''tools'' (JArr tools) r);
           r = (case ctx of None \<Rightarrow> r | Some c \<Rightarrow> insert_request_scoped_tool_bridge_context r c)
       in Inr (claude_openai_controls_into controls r)))))))"

end
