(* ===== verification/Openai_To_Claude.thy ===== *)
theory Openai_To_Claude
  imports Claude_Requests Reasoning_Replay
begin

text \<open>
  From Chat Completions to Anthropic (src/src/translate/internal.rs, \<open>openai_to_claude\<close>): content parts,
  messages, system content, tools, tool choice, and which sampling parameters an upstream model takes
  (src/src/translate/internal/assessment.rs).
\<close>

section \<open>Content parts\<close>

definition openai_content_part_not_portable_to_anthropic_message :: "string \<Rightarrow> string \<Rightarrow> string" where
  "openai_content_part_not_portable_to_anthropic_message ty reason =
     ''OpenAI content part `'' @ ty @ ''` cannot be faithfully translated to Anthropic: '' @ reason"

definition openai_image_url_part_url :: "json \<Rightarrow> string option" where
  "openai_image_url_part_url part = (case jget part ''image_url'' of
      Some (JStr url) \<Rightarrow> Some url
    | Some (JObj kvs) \<Rightarrow> jget_str (JObj kvs) ''url''
    | _ \<Rightarrow> None)"

definition source_block :: "string \<Rightarrow> (string \<times> json) list \<Rightarrow> json" where
  "source_block ty kvs = jobj [(''type'', JStr ty), (''source'', jobj kvs)]"

definition base64_block :: "string \<Rightarrow> string \<Rightarrow> string \<Rightarrow> json" where
  "base64_block ty mime payload = source_block ty
     [(''type'', JStr ''base64''), (''media_type'', JStr mime), (''data'', JStr payload)]"

definition url_block :: "string \<Rightarrow> string \<Rightarrow> json" where
  "url_block ty url = source_block ty [(''type'', JStr ''url''), (''url'', JStr url)]"

definition openai_image_url_part_to_claude_block :: "env \<Rightarrow> json \<Rightarrow> string + json" where
  "openai_image_url_part_to_claude_block E part =
    (let err = openai_content_part_not_portable_to_anthropic_message ''image_url'' in
     case openai_image_url_part_url part of
       None \<Rightarrow> Inl (err ''missing image URL; Anthropic image blocks require inline base64 image data.'')
     | Some url \<Rightarrow> (case classify_media_source_reference E url of
           MimeDataUri mime payload \<Rightarrow>
             if \<not> starts_with ''image/'' mime
             then Inl (err (''data URI MIME `'' @ mime @ ''` is not an image MIME type.''))
             else Inr (base64_block ''image'' mime payload)
         | HttpRemoteUrl url \<Rightarrow> Inr (url_block ''image'' url)
         | ProviderOrLocalUri uri \<Rightarrow> Inl (err
             (''Anthropic image URL sources only support http:// or https:// remote URLs; provider/local URI `''
              @ uri @ ''` is not portable.''))
         | _ \<Rightarrow> Inl (err ''image_url must be a base64 data URI or an http:// or https:// remote URL.'')))"

definition file_error :: "string \<Rightarrow> string" where
  "file_error reason = openai_content_part_not_portable_to_anthropic_message ''file/input_file'' reason"

definition file_reference_to_document :: "string option \<Rightarrow> openai_file_data_reference \<Rightarrow> string + json" where
  "file_reference_to_document resolved reference = (case reference of
      InlineData mime payload \<Rightarrow>
        if \<not> is_pdf_mime mime
        then Inl (file_error (''only application/pdf files can map to Anthropic document blocks; got MIME `''
          @ mime @ ''`.''))
        else Inr (base64_block ''document'' ''application/pdf'' payload)
    | HttpFileUrl mime url \<Rightarrow>
        if \<not> is_pdf_mime mime
        then Inl (file_error (''only application/pdf HTTP(S) URLs can map to Anthropic document URL blocks; got MIME `''
          @ mime @ ''`.''))
        else Inr (url_block ''document'' url)
    | ProviderFileUri mime uri \<Rightarrow> Inl (file_error
        (''Anthropic document URL sources only support http:// or https:// PDF URLs; provider/local URI `''
         @ uri @ ''` is not portable.''))
    | BareFileBase64 mime payload \<Rightarrow> Inl (file_error (''bare base64 file_data''
        @ (case option_or resolved mime of None \<Rightarrow> [] | Some m \<Rightarrow> '' with MIME `'' @ m @ ''`'')
        @ '' must not be coerced into Anthropic document bytes; use a MIME-bearing PDF data URI.'')))"

definition openai_file_part_to_claude_document_block :: "env \<Rightarrow> json \<Rightarrow> string + json" where
  "openai_file_part_to_claude_document_block E part =
     res_bind (map_err file_error (openai_file_reference_payload part)) (\<lambda>_.
       if openai_file_part_field part ''file_data'' = None \<and> openai_file_part_field part ''file_url'' = None
       then Inl (file_error (''file parts require file_data or file_url with PDF MIME/filename provenance; ''
         @ ''provider file_id references are not portable.''))
       else res_bind (map_err file_error (openai_file_part_resolved_mime_type part)) (\<lambda>resolved.
         res_bind (map_err file_error (openai_file_data_reference_from_part E part))
           (file_reference_to_document resolved)))"

definition openai_audio_part_not_portable_to_anthropic_message :: "json \<Rightarrow> string" where
  "openai_audio_part_not_portable_to_anthropic_message part =
     openai_content_part_not_portable_to_anthropic_message ''input_audio''
       (''audio input''
        @ (case nonempty (ostr (ogetj (jget part ''input_audio'') ''format'')) of
             None \<Rightarrow> [] | Some f \<Rightarrow> '' with format `'' @ f @ ''`'')
        @ '' has no native Anthropic request mapping in this translator.'')"

definition text_block :: "json \<Rightarrow> json" where
  "text_block t = jobj [(''type'', JStr ''text''), (''text'', t)]"

definition openai_text_part_to_claude_text_block :: "json \<Rightarrow> string + json" where
  "openai_text_part_to_claude_text_block part = (case semantic_text_part_from_openai_part part of
      None \<Rightarrow> Inl ''invalid OpenAI text content part''
    | Some p \<Rightarrow> Inr (let b = text_block (JStr (tp_text p)) in
        if tp_annotations p = [] then b else jset ''citations'' (JArr (tp_annotations p)) b))"

definition openai_refusal_part_to_claude_text_block :: "json \<Rightarrow> json" where
  "openai_refusal_part_to_claude_text_block part = text_block (unwrap_or (jget part ''refusal'') (JStr []))"

section \<open>System content\<close>

definition openai_system_content_part_label :: "string \<Rightarrow> string" where
  "openai_system_content_part_label ty = (if ty = ''file'' then ''file/input_file'' else ty)"

definition openai_system_content_part_not_portable_to_anthropic_message ::
    "string \<Rightarrow> string \<Rightarrow> string \<Rightarrow> string" where
  "openai_system_content_part_not_portable_to_anthropic_message role ty reason =
     ''OpenAI '' @ role @ '' content part `'' @ ty
     @ ''` cannot be faithfully translated to Anthropic system blocks: '' @ reason"

definition openai_system_part_to_claude_block :: "string \<Rightarrow> json \<Rightarrow> string + json" where
  "openai_system_part_to_claude_block role part = (case type_of part of
      None \<Rightarrow> Inl (''OpenAI '' @ role @ '' content array entries require a string `type` to translate ''
        @ ''to Anthropic system blocks.'')
    | Some ty \<Rightarrow>
        if ty = ''text'' then openai_text_part_to_claude_text_block part
        else if ty = ''refusal'' then Inr (openai_refusal_part_to_claude_text_block part)
        else Inl (openai_system_content_part_not_portable_to_anthropic_message role
          (openai_system_content_part_label ty)
          ''system/developer content arrays only support text/refusal parts; unsupported typed parts must not be silently dropped.''))"

definition openai_system_content_to_claude_blocks :: "string \<Rightarrow> json option \<Rightarrow> string + json list" where
  "openai_system_content_to_claude_blocks role content = (case content of
      Some (JStr t) \<Rightarrow> Inr (if t = [] then [] else [text_block (JStr t)])
    | Some (JArr parts) \<Rightarrow> res_map (openai_system_part_to_claude_block role) parts
    | Some (JObj kvs) \<Rightarrow> res_bind (openai_system_part_to_claude_block role (JObj kvs)) (\<lambda>b. Inr [b])
    | _ \<Rightarrow> Inr [])"

section \<open>Messages\<close>

definition content_part_to_claude_block :: "env \<Rightarrow> json \<Rightarrow> string + json" where
  "content_part_to_claude_block E c = (case type_of c of
      None \<Rightarrow> Inl ''OpenAI content array entries require a string `type` to translate to Anthropic.''
    | Some ty \<Rightarrow>
        if ty = ''text'' then openai_text_part_to_claude_text_block c
        else if ty = ''refusal'' then Inr (openai_refusal_part_to_claude_text_block c)
        else if ty = ''image_url'' then openai_image_url_part_to_claude_block E c
        else if ty = ''input_audio'' then Inl (openai_audio_part_not_portable_to_anthropic_message c)
        else if ty = ''file'' \<or> ty = ''input_file'' then openai_file_part_to_claude_document_block E c
        else Inl (openai_content_part_not_portable_to_anthropic_message ty
          ''unsupported typed content parts must not be silently dropped.''))"

definition assistant_head_blocks :: "json \<Rightarrow> json list" where
  "assistant_head_blocks msg =
     (case openai_message_anthropic_reasoning_replay_blocks msg of
        Some blocks \<Rightarrow> blocks
      | None \<Rightarrow> (case openai_message_reasoning_text msg of
            Some r \<Rightarrow> if r = [] then [] else [thinking_block r] | None \<Rightarrow> []))
     @ (case extract_openai_refusal msg of
          Some r \<Rightarrow> if r = [] then [] else [text_block (JStr r)] | None \<Rightarrow> [])"

definition content_to_claude_blocks :: "env \<Rightarrow> json option \<Rightarrow> string + json list" where
  "content_to_claude_blocks E content = (case content of
      Some (JStr t) \<Rightarrow> Inr [text_block (JStr t)]
    | Some (JArr parts) \<Rightarrow> res_map (content_part_to_claude_block E) parts
    | _ \<Rightarrow> Inr [])"

definition tool_call_to_claude_block :: "env \<Rightarrow> json \<Rightarrow> string + json" where
  "tool_call_to_claude_block E t =
    (if tool_call_is_marked_non_replayable E t
     then Inr (text_block (JStr (openai_tool_call_partial_replay_text t)))
     else res_bind (anthropic_tool_use_type_for_openai_tool_call E t) (\<lambda>ty.
       res_bind (openai_tool_arguments_to_structured_value E ''Anthropic'' t) (\<lambda>input.
         Inr (jobj [(''type'', JStr ty), (''id'', jopt (jget t ''id'')),
           (''name'', jopt (ogetj (jget t ''function'') ''name'')), (''input'', input)]))))"

definition openai_message_to_claude_blocks :: "env \<Rightarrow> json \<Rightarrow> string + json list option" where
  "openai_message_to_claude_blocks E msg = (case role_of msg of
      None \<Rightarrow> Inr None
    | Some role \<Rightarrow>
        if role = ''tool'' then
          (if semantic_tool_kind_from_value E msg = KindOpenAiCustom
           then Inl (custom_tools_not_portable_message Anthropic)
           else Inr (Some [jobj [(''type'', JStr ''tool_result''),
             (''tool_use_id'', jopt (jget msg ''tool_call_id'')),
             (''content'', semantic_tool_result_content_to_value
                (semantic_tool_result_content_from_value (jget msg ''content'')))]]))
        else
          res_bind (content_to_claude_blocks E (jget msg ''content'')) (\<lambda>content.
          res_bind (if role = ''assistant''
              then res_map (tool_call_to_claude_block E) (array_at msg ''tool_calls'') else Inr []) (\<lambda>calls.
            let blocks = (if role = ''assistant'' then assistant_head_blocks msg else []) @ content @ calls
            in Inr (if blocks \<noteq> [] then Some blocks
                    else if jget msg ''content'' \<noteq> None then Some [text_block (JStr [])]
                    else None))))"

section \<open>Sampling parameters\<close>

fun decimal_value :: "string \<Rightarrow> nat \<Rightarrow> nat" where
  "decimal_value [] n = n"
| "decimal_value (c # cs) n = decimal_value cs (10 * n + (byte c - 48))"

definition is_ascii_digit :: "char \<Rightarrow> bool" where
  "is_ascii_digit c = (48 \<le> byte c \<and> byte c \<le> 57)"

text \<open>\<open>parse::<u32>\<close> of a string of digits.\<close>

definition parse_u32 :: "string \<Rightarrow> nat option" where
  "parse_u32 ds = (if ds \<noteq> [] \<and> decimal_value ds 0 < 2 ^ 32 then Some (decimal_value ds 0) else None)"

definition anthropic_upstream_rejects_nondefault_sampling :: "string \<Rightarrow> bool" where
  "anthropic_upstream_rejects_nondefault_sampling name =
    (let model = trim name in
     case strip_prefix ''claude-opus-4-'' model of
       Some rest \<Rightarrow> (case parse_u32 (takeWhile is_ascii_digit rest) of None \<Rightarrow> False | Some minor \<Rightarrow> 7 \<le> minor)
     | None \<Rightarrow> starts_with ''claude-sonnet-5'' model \<or> starts_with ''claude-fable-5'' model
         \<or> starts_with ''claude-opus-5'' model)"

text \<open>\<open>as_f64() != 1.0\<close>; the bits of the float one are \<open>0x3FF0000000000000\<close>.\<close>

fun openai_sampling_field_is_nondefault :: "json option \<Rightarrow> bool" where
  "openai_sampling_field_is_nondefault (Some (JNum (PosInt n))) = (n \<noteq> 1)"
| "openai_sampling_field_is_nondefault (Some (JNum (NegInt i))) = True"
| "openai_sampling_field_is_nondefault (Some (JNum (JFloat b))) = (b \<noteq> 0x3FF0000000000000)"
| "openai_sampling_field_is_nondefault _ = False"

definition anthropic_nondefault_sampling_withhold_fields :: "string \<Rightarrow> json \<Rightarrow> string list" where
  "anthropic_nondefault_sampling_withhold_fields model body =
     (if anthropic_upstream_rejects_nondefault_sampling model
      then filter (\<lambda>f. openai_sampling_field_is_nondefault (jget body f)) [''temperature'', ''top_p'']
      else [])"

section \<open>The body\<close>

definition normalized_tool_policy_to_claude_tool_choice :: "tool_policy \<Rightarrow> json option \<Rightarrow> json" where
  "normalized_tool_policy_to_claude_tool_choice policy parallel =
    (let mapped = (case policy of
         NoTools \<Rightarrow> jobj [(''type'', JStr ''none'')]
       | AutoTools \<Rightarrow> jobj [(''type'', JStr ''auto'')]
       | RequiredTools \<Rightarrow> jobj [(''type'', JStr ''any'')]
       | ForcedFunction name \<Rightarrow> jobj [(''type'', JStr ''tool''), (''name'', JStr name)])
     in if Option.bind parallel as_bool = Some False \<and> type_of mapped \<noteq> Some ''none''
        then jset ''disable_parallel_tool_use'' (JBool True) mapped else mapped)"

definition normalized_output_shape_to_claude_output_config :: "output_shape \<Rightarrow> string + json option" where
  "normalized_output_shape_to_claude_output_config shape = (case shape of
      TextShape \<Rightarrow> Inr None
    | JsonSchemaShape s \<Rightarrow> Inr (Some (jobj [(''format'', jobj [(''type'', JStr ''json_schema''),
        (''schema'', js_schema s)])]))
    | JsonObjectShape \<Rightarrow> Inl (''OpenAI/Responses `json_object` structured output cannot be faithfully ''
        @ ''translated to Anthropic structured outputs''))"

definition openai_portable_function_tools :: "json \<Rightarrow> string list option \<Rightarrow> string \<Rightarrow> string + json list" where
  "openai_portable_function_tools body restricted label =
    (let declared = openai_declared_function_tools body in
     case restricted of None \<Rightarrow> Inr declared
     | Some names \<Rightarrow> openai_select_function_tools_by_name declared label names)"

definition function_tool_to_claude :: "json \<Rightarrow> json" where
  "function_tool_to_claude t =
    (let f = jget t ''function'' in
     jobj [(''name'', jopt (ogetj f ''name'')), (''description'', jopt (ogetj f ''description'')),
       (''input_schema'', unwrap_or (ogetj f ''parameters'') object_schema)])"

definition is_system_role :: "json \<Rightarrow> bool" where
  "is_system_role m = (role_of m \<in> {Some ''system'', Some ''developer''})"

definition openai_system_blocks :: "json list \<Rightarrow> string + json list" where
  "openai_system_blocks messages =
     res_bind (res_map (\<lambda>m. openai_system_content_to_claude_blocks
         (unwrap_or (role_of m) ''system'') (jget m ''content'')) (filter is_system_role messages))
       (\<lambda>bs. Inr (concat bs))"

text \<open>The conversation: the pending results of tools and the messages pushed so far.\<close>

definition claude_turn_step :: "env \<Rightarrow> json \<Rightarrow> json list \<times> json list \<Rightarrow> string + json list \<times> json list" where
  "claude_turn_step E msg = (\<lambda>(pending, out).
     let role = unwrap_or (role_of msg) ''user'' in
     res_bind (openai_message_to_claude_blocks E msg) (\<lambda>r. Inr (case r of
        None \<Rightarrow> (pending, out)
      | Some blocks \<Rightarrow>
          if role = ''tool'' then (pending @ blocks, out)
          else let merged = (role = ''user'' \<and> pending \<noteq> []);
                   flushed = (if \<not> merged \<and> pending \<noteq> [] then [role_content ''user'' (JArr pending)] else [])
               in ([], out @ flushed
                   @ [role_content (if role = ''assistant'' then ''assistant'' else ''user'')
                       (JArr (if merged then pending @ blocks else blocks))]))))"

definition claude_turns :: "env \<Rightarrow> json list \<Rightarrow> string + json list" where
  "claude_turns E messages =
     res_bind (res_fold (claude_turn_step E) (filter (\<lambda>m. \<not> is_system_role m) messages) ([], []))
       (\<lambda>(pending, out). Inr (out @ (if pending = [] then [] else [role_content ''user'' (JArr pending)])))"

definition claude_request_head :: "string \<Rightarrow> json \<Rightarrow> request_controls \<Rightarrow> json" where
  "claude_request_head target_model body controls =
    (let withheld = anthropic_nondefault_sampling_withhold_fields target_model body;
         sampling = (\<lambda>k r. if k \<in> set withheld then r else set_opt k (jget body k) r);
         r = jobj [(''model'', unwrap_or (jget body ''model'') JNull),
           (''max_tokens'', unwrap_or (option_or (jget body ''max_completion_tokens'') (jget body ''max_tokens''))
              (jnat 4096)),
           (''messages'', JArr []), (''stream'', unwrap_or (jget body ''stream'') (JBool False))];
         r = sampling ''top_p'' (sampling ''temperature'' r);
         r = set_opt ''stop_sequences'' (map_option
           (\<lambda>s. case s of JArr _ \<Rightarrow> s | _ \<Rightarrow> JArr [s]) (jget body ''stop'')) r;
         r = set_opt ''metadata'' (jget body ''metadata'') r
     in set_opt ''cache_control'' (rc_anthropic_cache_control controls) r)"

definition claude_tool_choice_from :: "json \<Rightarrow> request_controls \<Rightarrow> json \<Rightarrow> json" where
  "claude_tool_choice_from body controls r = (case rc_tool_policy controls of
      Some policy \<Rightarrow> jset ''tool_choice''
        (normalized_tool_policy_to_claude_tool_choice policy (jget body ''parallel_tool_calls'')) r
    | None \<Rightarrow>
        if jget_bool body ''parallel_tool_calls'' = Some False \<and> array_at body ''tools'' \<noteq> []
        then jset ''tool_choice'' (jobj [(''type'', JStr ''auto''), (''disable_parallel_tool_use'', JBool True)]) r
        else r)"

definition openai_to_claude :: "env \<Rightarrow> string \<Rightarrow> json \<Rightarrow> string + json" where
  "openai_to_claude E target_model body =
     res_bind (openai_normalized_request_controls body) (\<lambda>controls.
       let ctx = request_scoped_tool_bridge_context_from_body body;
           r = claude_tool_choice_from body controls (claude_request_head target_model body controls)
       in case jget_array body ''messages'' of
            None \<Rightarrow> Inl ''missing messages''
          | Some messages \<Rightarrow>
              res_bind (openai_system_blocks messages) (\<lambda>system.
              res_bind (case rc_output_shape controls of None \<Rightarrow> Inr None
                 | Some shape \<Rightarrow> normalized_output_shape_to_claude_output_config shape) (\<lambda>config.
              res_bind (claude_turns E messages) (\<lambda>turns.
              res_bind (openai_portable_function_tools body (rc_restricted_tool_names controls)
                 ''tool_choice.allowed_tools'') (\<lambda>tools.
                let r = (if system = [] then r else jset ''system'' (JArr system) r);
                    r = set_opt ''output_config'' config r;
                    r = jset ''messages'' (JArr turns) r;
                    r = (if tools = [] then r else jset ''tools'' (JArr (map function_tool_to_claude tools)) r)
                in Inr (case ctx of None \<Rightarrow> r | Some c \<Rightarrow> insert_request_scoped_tool_bridge_context r c))))))"

section \<open>No block is lost, moved or handed to the wrong side\<close>

definition blocks_of_message :: "env \<Rightarrow> json \<Rightarrow> json list" where
  "blocks_of_message E m = (case openai_message_to_claude_blocks E m of Inr (Some bs) \<Rightarrow> bs | _ \<Rightarrow> [])"

definition turn_ok :: "env \<Rightarrow> json list \<Rightarrow> json \<Rightarrow> bool" where
  "turn_ok E ms t = (role_of t = Some ''user'' \<or> (role_of t = Some ''assistant''
     \<and> list_ex (\<lambda>m. role_of m = Some ''assistant'' \<and> blocks_of_message E m = blocks_of t) ms))"

lemma role_content_get:
  "role_of (role_content r c) = Some r" "blocks_of (role_content r (JArr bs)) = bs"
  by (simp_all add: role_content_def jget_str_def content_blocks_def)

lemma claude_turn_step_keeps:
  assumes "claude_turn_step E m (p, out) = Inr (p', out')"
  shows "concat (map blocks_of out') @ p' = concat (map blocks_of out) @ p @ blocks_of_message E m"
    and "m \<in> set ms \<Longrightarrow> list_all (turn_ok E ms) out \<Longrightarrow> list_all (turn_ok E ms) out'"
proof -
  obtain r where r: "openai_message_to_claude_blocks E m = Inr r"
    using assms by (auto simp: claude_turn_step_def Let_def res_bind_Inr)
  show "concat (map blocks_of out') @ p' = concat (map blocks_of out) @ p @ blocks_of_message E m"
    using assms by (cases r) (auto simp: claude_turn_step_def Let_def r blocks_of_message_def role_content_get
        split: if_splits)
  assume m: "m \<in> set ms" and "list_all (turn_ok E ms) out"
  moreover have "turn_ok E ms (role_content ''user'' c)" for c
    by (simp add: turn_ok_def role_content_get)
  moreover have "turn_ok E ms (role_content ''assistant'' (JArr bs))"
    if "r = Some bs" "unwrap_or (role_of m) ''user'' = ''assistant''" for bs
    using m that r by (cases "role_of m")
      (auto simp: turn_ok_def role_content_get blocks_of_message_def list_ex_iff)
  ultimately show "list_all (turn_ok E ms) out'"
    using assms by (cases r) (auto simp: claude_turn_step_def Let_def r list_all_iff split: if_splits)
qed

lemma claude_fold_keeps:
  assumes "res_fold (claude_turn_step E) xs (p, out) = Inr (p', out')" and "set xs \<subseteq> set ms"
    and "list_all (turn_ok E ms) out"
  shows "concat (map blocks_of out') @ p' = concat (map blocks_of out) @ p @ concat (map (blocks_of_message E) xs)
    \<and> list_all (turn_ok E ms) out'"
  using assms
proof (induction xs arbitrary: p out)
  case (Cons x xs)
  then obtain p1 o1 where step: "claude_turn_step E x (p, out) = Inr (p1, o1)"
    and rest: "res_fold (claude_turn_step E) xs (p1, o1) = Inr (p', out')"
    by (auto simp: res_bind_Inr)
  have "list_all (turn_ok E ms) o1" using claude_turn_step_keeps(2) [OF step] Cons.prems(2,3) by simp
  then show ?case
    using Cons.IH [OF rest] claude_turn_step_keeps(1) [OF step] Cons.prems(2) by simp
qed simp

text \<open>The messages an Anthropic upstream gets carry, one after the other, exactly the blocks of the
  messages of the client, results of tools included: whatever is merged into a user turn or flushed
  before an assistant turn, nothing is lost, doubled or reordered, and an assistant turn holds the
  blocks of one assistant message.\<close>

theorem claude_turns_keep_blocks:
  "case claude_turns E ms of
     Inl _ \<Rightarrow> True
   | Inr turns \<Rightarrow>
       concat (map blocks_of turns) = concat (map (blocks_of_message E) (filter (\<lambda>m. \<not> is_system_role m) ms))
       \<and> list_all (turn_ok E ms) turns"
proof (cases "claude_turns E ms")
  case (Inr turns)
  then obtain p out where f: "res_fold (claude_turn_step E) (filter (\<lambda>m. \<not> is_system_role m) ms) ([], []) = Inr (p, out)"
    and t: "turns = out @ (if p = [] then [] else [role_content ''user'' (JArr p)])"
    by (auto simp: claude_turns_def res_bind_Inr)
  have "turn_ok E ms (role_content ''user'' (JArr p))" by (simp add: turn_ok_def role_content_get)
  then show ?thesis
    using claude_fold_keeps [OF f, of ms] Inr t by (auto simp: role_content_get)
qed simp

end
