(* ===== verification/Claude_Answers.thy ===== *)
theory Claude_Answers
  imports Openai_To_Claude Message_Repair
begin

text \<open>
  Answers that are not streamed, between Anthropic and Chat Completions: \<open>claude_response_to_openai\<close>
  (src/src/translate/internal.rs) and \<open>openai_response_to_claude\<close>
  (src/src/translate/internal/response_protocols.rs). Sums of token counts wrap as in a release build.
\<close>

section \<open>From Anthropic\<close>

fun finish_of_stop_reason :: "string \<Rightarrow> string" where
  "finish_of_stop_reason r =
    (if r \<in> {''end_turn'', ''stop_sequence''} then ''stop''
     else if r = ''tool_use'' then ''tool_calls''
     else if r = ''max_tokens'' then ''length''
     else if r = ''model_context_window_exceeded'' then ''context_length_exceeded''
     else if r = ''pause_turn'' then ''pause_turn''
     else if r = ''refusal'' then ''content_filter''
     else ''stop'')"

definition count_of :: "json \<Rightarrow> string \<Rightarrow> nat" where
  "count_of u k = unwrap_or (jget_u64 u k) 0"

definition claude_usage_to_openai :: "json \<Rightarrow> json" where
  "claude_usage_to_openai u =
    (let read = count_of u ''cache_read_input_tokens'';
         creation = count_of u ''cache_creation_input_tokens'';
         prompt = u64_add (u64_add (count_of u ''input_tokens'') read) creation;
         output = count_of u ''output_tokens'';
         v = jobj [(''prompt_tokens'', jnat prompt), (''completion_tokens'', jnat output),
           (''total_tokens'', jnat (u64_add prompt output))];
         v = (if 0 < read then jset ''cache_read_input_tokens'' (jnat read) v else v);
         v = (if 0 < creation then jset ''cache_creation_input_tokens'' (jnat creation) v else v)
     in copy_remaining_usage_fields u
          [''input_tokens'', ''output_tokens'', ''cache_read_input_tokens'', ''cache_creation_input_tokens''] v)"

text \<open>The thinking blocks that only Anthropic can read are kept beside the message.\<close>

definition keep_thinking :: "json \<Rightarrow> json \<Rightarrow> json" where
  "keep_thinking content message =
    (let thinking = (case content of JArr blocks \<Rightarrow> filter (\<lambda>b. type_of b = Some ''thinking'') blocks | _ \<Rightarrow> [])
     in if anthropic_blocks_have_nonportable_thinking_provenance thinking
        then append_openai_message_anthropic_reasoning_replay_blocks thinking message else message)"

definition refuse_content :: "json \<Rightarrow> json" where
  "refuse_content message =
    (let refusal = extract_openai_content_text (jget message ''content'')
     in jset ''content'' JNull (if refusal = [] then message else jset ''refusal'' (JStr refusal) message))"

definition claude_answer_message ::
    "env \<Rightarrow> json \<Rightarrow> bool \<Rightarrow> tool_bridge_context option \<Rightarrow> string + json" where
  "claude_answer_message E body replay ctx = (case jget body ''content'' of
      None \<Rightarrow> Inl ''missing content''
    | Some content \<Rightarrow>
        res_bind (convert_claude_message_to_openai_impl E replay ctx (role_content ''assistant'' content)) (\<lambda>r.
          case r of
            None \<Rightarrow> Inl ''missing content''
          | Some ms \<Rightarrow> (case List.find (\<lambda>m. role_of m = Some ''assistant'') ms of
                None \<Rightarrow> Inl ''missing assistant message''
              | Some message \<Rightarrow>
                  let message = (if replay then keep_thinking content message else message)
                  in Inr (if unwrap_or (jget_str body ''stop_reason'') ''stop'' = ''refusal''
                          then refuse_content message else message))))"

definition claude_response_to_openai_internal ::
    "env \<Rightarrow> json \<Rightarrow> bool \<Rightarrow> tool_bridge_context option \<Rightarrow> string + json" where
  "claude_response_to_openai_internal E body replay ctx =
     res_bind (claude_answer_message E body replay ctx) (\<lambda>message.
       Inr (set_opt ''usage'' (map_option claude_usage_to_openai (jget body ''usage''))
         (jobj [(''id'', unwrap_or (jget body ''id'') (JStr (''chatcmpl-'' @ nat_str (unix_secs E)))),
           (''object'', JStr ''chat.completion''),
           (''created'', unwrap_or (jget body ''created'') (jnat (unix_secs E))),
           (''model'', unwrap_or (jget body ''model'') (JStr ''claude'')),
           (''choices'', JArr [jobj [(''index'', jnat 0), (''message'', message),
              (''finish_reason'', JStr (finish_of_stop_reason
                 (unwrap_or (jget_str body ''stop_reason'') ''stop'')))]])])))"

definition claude_response_to_openai :: "env \<Rightarrow> json \<Rightarrow> tool_bridge_context option \<Rightarrow> string + json" where
  "claude_response_to_openai E body ctx = claude_response_to_openai_internal E body False ctx"

definition claude_response_to_openai_with_reasoning_replay ::
    "env \<Rightarrow> json \<Rightarrow> tool_bridge_context option \<Rightarrow> string + json" where
  "claude_response_to_openai_with_reasoning_replay E body ctx = claude_response_to_openai_internal E body True ctx"

section \<open>To Anthropic\<close>

definition single_candidate_choice_contract_message :: "string \<Rightarrow> string \<Rightarrow> string \<Rightarrow> nat \<Rightarrow> string" where
  "single_candidate_choice_contract_message source target field n =
     source @ '' field `'' @ field @ ''` has '' @ nat_str n @ '' items; cross-protocol translation to ''
     @ target @ '' only supports a single candidate/choice''"

definition single_required_array_item :: "json list option \<Rightarrow> string \<Rightarrow> string \<Rightarrow> string \<Rightarrow> string + json" where
  "single_required_array_item items source target field = (case items of
      Some [item] \<Rightarrow> Inr item
    | Some [] \<Rightarrow> Inl (''missing '' @ field)
    | Some items \<Rightarrow> Inl (single_candidate_choice_contract_message source target field (length items))
    | None \<Rightarrow> Inl (''missing '' @ field))"

definition prepare_openai_message_for_claude_response :: "json \<Rightarrow> json" where
  "prepare_openai_message_for_claude_response message =
    (if openai_message_anthropic_reasoning_replay_blocks message \<noteq> None then message
     else (case openai_message_reasoning_text message of
         None \<Rightarrow> message
       | Some r \<Rightarrow> if r = [] then message
           else append_openai_message_anthropic_reasoning_replay_blocks [thinking_block r] message))"

definition claude_message_response :: "json \<Rightarrow> json list \<Rightarrow> string \<Rightarrow> json" where
  "claude_message_response body content stop =
     set_opt ''usage'' (map_option (\<lambda>u. jobj [(''input_tokens'', jnat (count_of u ''prompt_tokens'')),
         (''output_tokens'', jnat (count_of u ''completion_tokens''))]) (jget body ''usage''))
       (jobj [(''id'', unwrap_or (jget body ''id'') JNull), (''type'', JStr ''message''),
         (''role'', JStr ''assistant''), (''content'', JArr content),
         (''model'', unwrap_or (jget body ''model'') JNull), (''stop_reason'', JStr stop)])"

definition openai_response_to_claude :: "env \<Rightarrow> json \<Rightarrow> string + json" where
  "openai_response_to_claude E body =
     res_bind (single_required_array_item (jget_array body ''choices'') ''OpenAI response'' ''Anthropic'' ''choices'')
       (\<lambda>choice. case jget choice ''message'' of
          None \<Rightarrow> Inl ''missing message''
        | Some message \<Rightarrow>
            res_bind (openai_message_to_claude_blocks E (prepare_openai_message_for_claude_response message))
              (\<lambda>blocks.
                 case classify_openai_finish_for_anthropic (unwrap_or (jget_str choice ''finish_reason'') ''stop'') of
                   TerminalError ty msg \<Rightarrow> Inr (jobj [(''type'', JStr ''error''),
                     (''error'', jobj [(''type'', JStr ty), (''message'', JStr msg)])])
                 | StopReason stop \<Rightarrow>
                     Inr (claude_message_response body (unwrap_or blocks [text_block (JStr [])]) stop)))"

section \<open>A turn that comes back\<close>

text \<open>
  The blocks of an assistant turn as Anthropic writes them: thinking, text, then uses of tools.
\<close>

definition tool_use_block :: "string \<times> string \<times> json \<Rightarrow> json" where
  "tool_use_block u = (case u of (i, name, input) \<Rightarrow>
     jobj [(''type'', JStr ''tool_use''), (''id'', JStr i), (''name'', JStr name), (''input'', input)])"

definition turn_blocks :: "string \<Rightarrow> string \<Rightarrow> (string \<times> string \<times> json) list \<Rightarrow> json list" where
  "turn_blocks r t uses = (if r = [] then [] else [thinking_block r])
     @ (if t = [] then [] else [text_block (JStr t)]) @ map tool_use_block uses"

definition use_ok :: "env \<Rightarrow> string \<times> string \<times> json \<Rightarrow> bool" where
  "use_ok E u = (case u of (i, name, input) \<Rightarrow>
     name \<noteq> [] \<and> validate_public_tool_name_not_reserved name = Inr () \<and> is_object input
     \<and> json_parse E (json_text E input) = Some input \<and> trim (json_text E input) \<noteq> [])"

definition use_to_call :: "env \<Rightarrow> string \<times> string \<times> json \<Rightarrow> json" where
  "use_to_call E u = (case u of (i, name, input) \<Rightarrow>
     function_call_value (Some (JStr i)) (Some (JStr name)) (json_text E input))"

lemma tool_use_step:
  assumes "use_ok E u"
  shows "claude_block_step E False ctx (tool_use_block u) a = Inr (Some (a\<lparr>cl_calls := cl_calls a @ [use_to_call E u]\<rparr>))"
  using assms by (cases u) (simp add: claude_block_step_def tool_use_block_def jget_str_def use_ok_def
      tool_use_to_call_def use_to_call_def Let_def)

lemma tool_uses_read:
  "list_all (use_ok E) uses \<Longrightarrow> claude_blocks E False ctx (map tool_use_block uses) a =
     Inr (Some (a\<lparr>cl_calls := cl_calls a @ map (use_to_call E) uses\<rparr>))"
  by (induction uses arbitrary: a) (simp_all add: tool_use_step)

lemma call_back:
  assumes "use_ok E u"
  shows "tool_call_to_claude_block E (use_to_call E u) = Inr (tool_use_block u)"
proof (cases u)
  case (fields i name input)
  have "jget (use_to_call E u) non_replayable_field = None"
    by (simp add: use_to_call_def fields function_call_value_def non_replayable_field_def)
  then have "\<not> tool_call_is_marked_non_replayable E (use_to_call E u)"
    by (simp add: tool_call_is_marked_non_replayable_def)
  moreover have "anthropic_tool_use_type_for_openai_tool_call E (use_to_call E u) = Inr ''tool_use''"
    using assms by (simp add: anthropic_tool_use_type_for_openai_tool_call_def use_to_call_def fields
        function_call_value_def semantic_tool_kind_from_value_def proxied_tool_kind_is_attested_def
        proxied_tool_kind_name_def proxied_tool_kind_field_def validate_function_name_def use_ok_def
        jget_str_def openai_custom_tool_name_def validate_openai_public_tool_identity_def
        validate_public_tool_identity_value_def jopt_def)
  moreover have "openai_tool_arguments_to_structured_value E ''Anthropic'' (use_to_call E u) = Inr input"
    using assms by (simp add: openai_tool_arguments_to_structured_value_def structured_or_empty_def
        openai_tool_arguments_raw_def use_to_call_def fields function_call_value_def use_ok_def
        raw_json_object_to_structured_value_def)
  ultimately show ?thesis
    by (simp add: tool_call_to_claude_block_def use_to_call_def fields function_call_value_def
        tool_use_block_def jopt_def)
qed

lemma calls_back: "list_all (use_ok E) uses \<Longrightarrow>
    res_map (tool_call_to_claude_block E) (map (use_to_call E) uses) = Inr (map tool_use_block uses)"
  by (induction uses) (simp_all add: call_back)

lemma plain_text_part:
  "semantic_text_part_from_claude_block (text_block (JStr t)) = Some \<lparr>tp_text = t, tp_annotations = []\<rparr>"
  by (simp add: semantic_text_part_from_claude_block_def text_block_def jget_str_def array_at_def jget_array_def)

lemma collapse_plain: "collapse_openai_text_parts [semantic_text_part_to_openai_value \<lparr>tp_text = t, tp_annotations = []\<rparr>] = JStr t"
  by (simp add: collapse_openai_text_parts_def semantic_text_part_to_openai_value_def Let_def
      semantic_text_part_to_responses_value_def jget_str_def jget_array_def List.map_filter_def)

text \<open>Thinking blocks as an upstream writes them, with a signature or any other field.\<close>

definition is_thinking :: "json \<Rightarrow> bool" where
  "is_thinking b = (type_of b = Some ''thinking'')"

definition thoughts_text :: "json list \<Rightarrow> string" where
  "thoughts_text thoughts = concat (map (\<lambda>b. unwrap_or (jget_str b ''thinking'') []) thoughts)"

lemma thoughts_read:
  "list_all is_thinking thoughts \<Longrightarrow> claude_blocks E decode ctx (thoughts @ bs) a =
     claude_blocks E decode ctx bs (a\<lparr>cl_reasoning := cl_reasoning a @ thoughts_text thoughts\<rparr>)"
  by (induction thoughts arbitrary: a) (simp_all add: claude_block_step_def is_thinking_def thoughts_text_def)

lemma turn_read:
  assumes "list_all is_thinking thoughts" "list_all (use_ok E) uses"
  shows "claude_blocks E False ctx (thoughts @ turn_blocks [] t uses) empty_claude_acc = Inr (Some
     \<lparr>cl_parts = (if t = [] then [] else [semantic_text_part_to_openai_value \<lparr>tp_text = t, tp_annotations = []\<rparr>]),
      cl_calls = map (use_to_call E) uses, cl_results = [], cl_reasoning = thoughts_text thoughts\<rparr>)"
proof -
  have tx: "claude_block_step E False ctx (text_block (JStr t)) a = Inr (Some (a\<lparr>cl_parts := cl_parts a
      @ [semantic_text_part_to_openai_value \<lparr>tp_text = t, tp_annotations = []\<rparr>]\<rparr>))" for a
    using plain_text_part [of t] by (simp add: claude_block_step_def text_block_def jget_str_def)
  show ?thesis
    by (cases "t = []")
      (simp_all add: thoughts_read [OF assms(1)] turn_blocks_def tx tool_uses_read [OF assms(2)] empty_claude_acc_def)
qed

definition turn_message :: "env \<Rightarrow> string \<Rightarrow> string \<Rightarrow> (string \<times> string \<times> json) list \<Rightarrow> json" where
  "turn_message E r t uses = with_reasoning r
     (if uses = [] then role_content ''assistant'' (JStr t)
      else (let m = jobj [(''role'', JStr ''assistant''), (''tool_calls'', JArr (map (use_to_call E) uses))]
            in if t = [] then m else jset ''content'' (JStr t) m))"

lemma turn_converted:
  assumes "list_all is_thinking thoughts" "list_all (use_ok E) uses"
  shows "convert_claude_message_to_openai_impl E False ctx (role_content ''assistant'' (JArr (thoughts @ turn_blocks [] t uses)))
    = Inr (Some [turn_message E (thoughts_text thoughts) t uses])"
  using turn_read [OF assms, of ctx t]
  by (simp add: convert_claude_message_to_openai_impl_def role_content_def jget_str_def claude_role_def
      claude_acc_messages_def turn_message_def collapse_plain with_reasoning_def)

lemma get_turn_message:
  "role_of (turn_message E r t uses) = Some ''assistant''"
  "jget_array (turn_message E r t uses) replay_field = None"
  "extract_openai_refusal (turn_message E r t uses) = None"
  "openai_message_reasoning_text (turn_message E r t uses) = (if r = [] then None else Some r)"
  "jget (turn_message E r t uses) ''content'' = (if uses \<noteq> [] \<and> t = [] then None else Some (JStr t))"
  "array_at (turn_message E r t uses) ''tool_calls'' = map (use_to_call E) uses"
  by (simp_all add: turn_message_def with_reasoning_def role_content_def jget_str_def jget_array_def Let_def
      replay_field_def extract_openai_refusal_def nonempty_def openai_message_reasoning_text_def
      reasoning_details_to_text_def array_at_def)

lemma turn_back:
  assumes "list_all (use_ok E) uses" and "t \<noteq> [] \<or> uses \<noteq> []"
  shows "openai_message_to_claude_blocks E (turn_message E r t uses) = Inr (Some (turn_blocks r t uses))"
proof -
  have head: "assistant_head_blocks (turn_message E r t uses) = (if r = [] then [] else [thinking_block r])"
    by (simp add: assistant_head_blocks_def openai_message_anthropic_reasoning_replay_blocks_def get_turn_message)
  have "content_to_claude_blocks E (jget (turn_message E r t uses) ''content'') =
      Inr (if t = [] then [] else [text_block (JStr t)])"
    using assms(2) by (auto simp: get_turn_message content_to_claude_blocks_def)
  then show ?thesis
    using assms(2) calls_back [OF assms(1)]
    by (auto simp: openai_message_to_claude_blocks_def get_turn_message(1,6) head turn_blocks_def Let_def)
qed

text \<open>C15.
  A Chat Completions client in front of an Anthropic upstream: the answer the upstream gave, with its
  thinking, its text and its uses of tools, reaches the client as one assistant message, and when the
  client sends this message back with the next request, the upstream gets the text and the uses of tools
  exactly as it wrote them, and before them its thinking as one block of the same words. The signatures
  of the thinking do not come back: a Chat Completions message has no place for them.\<close>

theorem assistant_turn_comes_back:
  assumes "list_all (use_ok E) uses" and "t \<noteq> [] \<or> uses \<noteq> []" and "list_all is_thinking thoughts"
    and "jget body ''content'' = Some (JArr (thoughts @ turn_blocks [] t uses))"
    and "jget_str body ''stop_reason'' \<noteq> Some ''refusal''"
  shows "\<exists>answer m. claude_response_to_openai E body ctx = Inr answer
    \<and> map_option (map (\<lambda>c. jget c ''message'')) (jget_array answer ''choices'') = Some [Some m]
    \<and> openai_message_to_claude_blocks E m = Inr (Some (turn_blocks (thoughts_text thoughts) t uses))"
proof -
  let ?r = "thoughts_text thoughts"
  have stop: "unwrap_or (jget_str body ''stop_reason'') ''stop'' \<noteq> ''refusal''"
    using assms(5) by (cases "jget_str body ''stop_reason''") auto
  then have "claude_answer_message E body False ctx = Inr (turn_message E ?r t uses)"
    using turn_converted [OF assms(3,1), of ctx t] assms(4) get_turn_message(1) [of E ?r t uses]
    by (simp add: claude_answer_message_def)
  moreover have "jget_array (set_opt ''usage'' u (jobj kvs)) ''choices'' = jget_array (jobj kvs) ''choices''" for u kvs
    by (cases u) (simp_all add: set_opt_def jget_array_def)
  ultimately show ?thesis
    using turn_back [OF assms(1,2), of ?r]
    by (simp add: claude_response_to_openai_def claude_response_to_openai_internal_def jget_array_def
        del: finish_of_stop_reason.simps)
qed

definition signed_thought :: json where
  "signed_thought = jobj [(''type'', JStr ''thinking''), (''thinking'', JStr ''hm''), (''signature'', JStr ''c2ln'')]"

theorem assistant_turn_comes_back_witness:
  "\<exists>answer m. claude_response_to_openai example_env
      (jobj [(''content'', JArr ([signed_thought] @ turn_blocks [] ''look'' [(''t1'', ''search'', JObj [])]))]) None = Inr answer
    \<and> map_option (map (\<lambda>c. jget c ''message'')) (jget_array answer ''choices'') = Some [Some m]
    \<and> openai_message_to_claude_blocks example_env m =
        Inr (Some (turn_blocks (thoughts_text [signed_thought]) ''look'' [(''t1'', ''search'', JObj [])]))"
proof (rule assistant_turn_comes_back)
  have "validate_public_tool_name_not_reserved ''search'' = Inr ()" "trim ''{}'' = ''{}''" by code_simp+
  then show "list_all (use_ok example_env) [(''t1'', ''search'', JObj [])]"
    by (simp add: use_ok_def example_env_def)
qed (simp_all add: jget_str_def signed_thought_def is_thinking_def)

end
