(* ===== verification/Responses_Content.thy ===== *)
theory Responses_Content
  imports Media Tool_Calls Request_Controls Reasoning_Replay
begin

text \<open>
  The contents of OpenAI Responses items and Chat Completions messages in each other's form
  (src/src/translate/internal/openai_responses.rs), token usage, and the log probabilities of answers
  (src/src/translate/internal/response_logprobs.rs).
\<close>

section \<open>Items\<close>

definition responses_input_item_type :: "json \<Rightarrow> string option" where
  "responses_input_item_type item = option_or (type_of item) (map_option (\<lambda>_. ''message'') (role_of item))"

definition responses_input_item_is_message :: "json \<Rightarrow> bool" where
  "responses_input_item_is_message item = (responses_input_item_type item = Some ''message'')"

definition responses_input_item_is_compaction :: "json \<Rightarrow> bool" where
  "responses_input_item_is_compaction item =
     (responses_input_item_type item \<in> {Some ''compaction'', Some ''compaction_summary''})"

definition responses_compaction_summary_text :: "json \<Rightarrow> string" where
  "responses_compaction_summary_text item =
    (if \<not> responses_input_item_is_compaction item then []
     else if responses_summary_array_text item \<noteq> [] then responses_summary_array_text item
     else unwrap_or (option_or (jget_str item ''summary'') (jget_str item ''summary_text'')) [])"

definition responses_agent_message_text :: "json \<Rightarrow> string option" where
  "responses_agent_message_text item =
    (if responses_input_item_type item \<noteq> Some ''agent_message'' then None
     else (let text = concat (List.map_filter
             (\<lambda>part. if type_of part = Some ''input_text'' then jget_str part ''text'' else None)
             (array_at item ''content''))
           in if trim text = [] then None else Some text))"

definition responses_output_audio_item_to_openai_audio :: "json \<Rightarrow> json option" where
  "responses_output_audio_item_to_openai_audio item =
    (if type_of item \<noteq> Some ''output_audio'' then None
     else (let base = (case jget item ''audio'' of
               Some (JObj kvs) \<Rightarrow> JObj kvs
             | Some v \<Rightarrow> if is_null v then JObj [] else jobj [(''data'', v)]
             | None \<Rightarrow> JObj []);
               merged = (case item of
                 JObj kvs \<Rightarrow> foldl (\<lambda>m (k, v). if k \<in> {''type'', ''audio''} then m else or_insert k v m) base kvs
               | _ \<Rightarrow> base)
           in if merged = JObj [] then None else Some merged))"

definition responses_portable_output_item_type :: "string \<Rightarrow> bool" where
  "responses_portable_output_item_type ty =
     (ty \<in> {''message'', ''function_call'', ''custom_tool_call'', ''reasoning'', ''output_audio''})"

definition responses_hosted_output_item_type :: "string \<Rightarrow> bool" where
  "responses_hosted_output_item_type ty =
     (ty \<in> {''file_search_call'', ''web_search_call'', ''code_interpreter_call'', ''mcp_call'',
             ''image_generation_call'', ''computer_call'', ''computer_call_output''})"

definition responses_multiple_output_audio_items_not_portable_message :: "string \<Rightarrow> string" where
  "responses_multiple_output_audio_items_not_portable_message target =
     ''OpenAI Responses output has multiple `output_audio` items and cannot be faithfully translated to '' @ target"

definition responses_response_audio_to_openai_audio :: "json \<Rightarrow> string + json option" where
  "responses_response_audio_to_openai_audio body =
    (case List.map_filter responses_output_audio_item_to_openai_audio (array_at body ''output'') of
       [] \<Rightarrow> Inr None
     | [a] \<Rightarrow> Inr (Some a)
     | _ \<Rightarrow> Inl (responses_multiple_output_audio_items_not_portable_message ''OpenAI Chat Completions''))"

definition openai_assistant_audio_field_not_portable_message :: "string \<Rightarrow> string \<Rightarrow> string" where
  "openai_assistant_audio_field_not_portable_message field target =
     ''OpenAI assistant audio field `'' @ field @ ''` cannot be faithfully translated to '' @ target"

definition canonical_audio :: "string \<Rightarrow> json \<Rightarrow> validation" where
  "canonical_audio label v = (case as_str v of
      Some s \<Rightarrow> if validate_inline_base64_payload s = None
        then Inl (''OpenAI assistant '' @ label
          @ '' requires canonical non-empty base64 data to translate to OpenAI Responses.'') else Inr ()
    | None \<Rightarrow> Inr ())"

definition openai_assistant_audio_to_responses_output_item :: "json \<Rightarrow> string + json option" where
  "openai_assistant_audio_to_responses_output_item message =
    (case present (jget message ''audio'') of
       None \<Rightarrow> Inr None
     | Some audio \<Rightarrow>
         if is_object audio then
           (case find_map (\<lambda>f. if jget audio f \<noteq> None then Some f else None) [''id'', ''expires_at''] of
              Some f \<Rightarrow> Inl (openai_assistant_audio_field_not_portable_message f ''OpenAI Responses'')
            | None \<Rightarrow>
                res_bind (case jget audio ''data'' of None \<Rightarrow> Inr () | Some d \<Rightarrow> canonical_audio ''audio.data'' d)
                  (\<lambda>_. Inr (Some (jobj ([(''type'', JStr ''output_audio'')]
                     @ opt_field ''data'' (jget audio ''data'')
                     @ opt_field ''transcript'' (jget audio ''transcript''))))))
         else res_bind (canonical_audio ''audio'' audio)
           (\<lambda>_. Inr (Some (jobj [(''type'', JStr ''output_audio''), (''data'', audio)]))))"

definition extract_responses_refusal_text :: "json option \<Rightarrow> string" where
  "extract_responses_refusal_text content = (case content of
      Some (JArr parts) \<Rightarrow> concat (List.map_filter
        (\<lambda>p. if type_of p = Some ''refusal'' then jget_str p ''refusal'' else None) parts)
    | _ \<Rightarrow> [])"

section \<open>Validation of media\<close>

definition validate_openai_media_source_field :: "env \<Rightarrow> string \<Rightarrow> json \<Rightarrow> validation" where
  "validate_openai_media_source_field E field v = (case as_str v of
      None \<Rightarrow> Inr ()
    | Some s \<Rightarrow> if validate_media_source_reference E s then Inr ()
        else Inl (''OpenAI '' @ field @ '' media source must be a clean data URI, HTTP(S) URL, ''
          @ ''provider/local URI, or canonical base64 payload.''))"

definition validate_openai_image_source_field :: "env \<Rightarrow> string \<Rightarrow> json option \<Rightarrow> validation" where
  "validate_openai_image_source_field E field v = (case v of
      Some (JStr s) \<Rightarrow> validate_openai_media_source_field E field (JStr s)
    | Some (JObj kvs) \<Rightarrow> (case jget (JObj kvs) ''url'' of
          Some url \<Rightarrow> validate_openai_media_source_field E field url | None \<Rightarrow> Inr ())
    | _ \<Rightarrow> Inr ())"

definition validate_openai_file_source_fields :: "env \<Rightarrow> json \<Rightarrow> validation" where
  "validate_openai_file_source_fields E m = res_each (\<lambda>field. case jget m field of
      Some v \<Rightarrow> validate_openai_media_source_field E field v | None \<Rightarrow> Inr ()) [''file_data'', ''file_url'']"

definition validate_openai_input_audio_data :: "string \<Rightarrow> json option \<Rightarrow> validation" where
  "validate_openai_input_audio_data field input_audio = (case ostr (ogetj input_audio ''data'') of
      None \<Rightarrow> Inr ()
    | Some s \<Rightarrow> if validate_inline_base64_payload s \<noteq> None then Inr ()
        else Inl (''OpenAI '' @ field @ ''.data requires canonical non-empty base64 data.''))"

section \<open>Contents\<close>

definition file_keys :: "string list" where
  "file_keys = [''file_id'', ''file_data'', ''file_url'', ''filename'', ''mime_type'', ''mimeType'']"

definition file_fields :: "json \<Rightarrow> (string \<times> json) list" where
  "file_fields m = concat (map (\<lambda>k. opt_field k (jget m k)) file_keys)"

text \<open>
  A part of a Responses content: its translation, whether it makes the content more than text, and the
  text it adds to a content that is only text. A refusal leaves \<open>null\<close>.
\<close>

definition text_of_part :: "json \<Rightarrow> text_part" where
  "text_of_part c = \<lparr>tp_text = unwrap_or (jget_str c ''text'') [], tp_annotations = array_at c ''annotations''\<rparr>"

definition input_image_to_openai :: "json \<Rightarrow> json" where
  "input_image_to_openai c =
    (let url = unwrap_or (jget c ''image_url'') JNull;
         v = (if is_object url then url else jobj [(''url'', url)]);
         v = (if jget v ''detail'' = None then
                (case jget c ''detail'' of Some d \<Rightarrow> jset ''detail'' d v | None \<Rightarrow> v) else v)
     in jobj [(''type'', JStr ''image_url''), (''image_url'', v)])"

definition responses_part_to_openai :: "env \<Rightarrow> json \<Rightarrow> string + json \<times> bool \<times> string" where
  "responses_part_to_openai E c =
    (let ty = type_of c in
     if ty = Some ''input_text'' \<or> ty = Some ''output_text'' then
       (let p = text_of_part c; plain = (tp_annotations p = [])
        in Inr (semantic_text_part_to_openai_value p, \<not> plain, if plain then tp_text p else []))
     else if ty = Some ''refusal'' then Inr (JNull, False, [])
     else if ty = Some ''input_image'' then
       res_bind (validate_openai_image_source_field E ''input_image.image_url'' (jget c ''image_url''))
         (\<lambda>_. Inr (input_image_to_openai c, True, []))
     else if ty = Some ''input_audio'' then
       res_bind (validate_openai_input_audio_data ''input_audio'' (jget c ''input_audio''))
         (\<lambda>_. Inr (jobj [(''type'', JStr ''input_audio''),
           (''input_audio'', unwrap_or (jget c ''input_audio'') JNull)], True, []))
     else if ty = Some ''input_file'' then
       res_bind (validate_openai_file_source_fields E c)
         (\<lambda>_. Inr (jobj [(''type'', JStr ''file''), (''file'', jobj (file_fields c))], True, []))
     else Inr (c, True, []))"

definition map_responses_content_to_openai :: "env \<Rightarrow> json option \<Rightarrow> string + json" where
  "map_responses_content_to_openai E content = (case content of
      None \<Rightarrow> Inr (JArr [])
    | Some (JArr parts) \<Rightarrow> res_bind (res_map (responses_part_to_openai E) parts) (\<lambda>ps. Inr
        (if list_ex (\<lambda>(_, other, _). other) ps
         then JArr (filter (\<lambda>v. \<not> is_null v) (map fst ps))
         else JStr (concat (map (\<lambda>(_, _, t). t) ps))))
    | Some v \<Rightarrow> Inr v)"

definition image_url_to_responses :: "json \<Rightarrow> json" where
  "image_url_to_responses c =
    (let image = jget c ''image_url'';
         v = jobj [(''type'', JStr ''input_image''),
           (''image_url'', unwrap_or (option_or (ogetj image ''url'') image) JNull)]
     in case ogetj image ''detail'' of Some d \<Rightarrow> jset ''detail'' d v | None \<Rightarrow> v)"

definition openai_part_to_responses :: "env \<Rightarrow> string \<Rightarrow> json \<Rightarrow> string + json" where
  "openai_part_to_responses E content_type c =
    (let ty = type_of c in
     if ty = Some ''text'' then Inr (semantic_text_part_to_responses_value content_type (text_of_part c))
     else if ty = Some ''refusal'' then
       Inr (jobj [(''type'', JStr ''refusal''), (''refusal'', unwrap_or (jget c ''refusal'') (JStr []))])
     else if ty = Some ''image_url'' then
       res_bind (validate_openai_image_source_field E ''image_url'' (jget c ''image_url''))
         (\<lambda>_. Inr (image_url_to_responses c))
     else if ty = Some ''input_audio'' then
       res_bind (validate_openai_input_audio_data ''input_audio'' (jget c ''input_audio''))
         (\<lambda>_. Inr (jobj [(''type'', JStr ''input_audio''),
           (''input_audio'', unwrap_or (jget c ''input_audio'') JNull)]))
     else if ty = Some ''file'' then
       (case jget c ''file'' of
          Some (JObj kvs) \<Rightarrow> res_bind (validate_openai_file_source_fields E (JObj kvs))
            (\<lambda>_. Inr (jobj ((''type'', JStr ''input_file'') # file_fields (JObj kvs))))
        | _ \<Rightarrow> Inr (jobj [(''type'', JStr ''input_file'')]))
     else Inr (jobj [(''type'', JStr content_type),
       (''text'', JStr (unwrap_or (ostr (option_or (jget c ''text'') (jget c ''content''))) (json_text E c)))]))"

definition map_openai_content_to_responses :: "env \<Rightarrow> json option \<Rightarrow> string \<Rightarrow> string + json list" where
  "map_openai_content_to_responses E content content_type = (case content of
      Some (JStr s) \<Rightarrow> Inr [jobj [(''type'', JStr content_type), (''text'', JStr s)]]
    | Some (JArr parts) \<Rightarrow> res_map (openai_part_to_responses E content_type) parts
    | _ \<Rightarrow> Inr [])"

definition openai_message_to_responses_content :: "env \<Rightarrow> json \<Rightarrow> string \<Rightarrow> string + json list" where
  "openai_message_to_responses_content E msg content_type =
     res_bind (map_openai_content_to_responses E (jget msg ''content'') content_type) (\<lambda>content.
       Inr (case extract_openai_refusal msg of
          None \<Rightarrow> content
        | Some r \<Rightarrow> content @ [jobj [(''type'', JStr ''refusal''), (''refusal'', JStr r)]]))"

section \<open>Segments of a message\<close>

definition openai_text_content_part :: "string \<Rightarrow> json" where
  "openai_text_content_part t = jobj [(''type'', JStr ''text''), (''text'', JStr t)]"

fun openai_content_to_segment_parts :: "json \<Rightarrow> json list" where
  "openai_content_to_segment_parts JNull = []"
| "openai_content_to_segment_parts (JStr t) = (if t = [] then [] else [openai_text_content_part t])"
| "openai_content_to_segment_parts (JArr parts) = parts"
| "openai_content_to_segment_parts v = [v]"

definition openai_segment_parts_to_content :: "json list \<Rightarrow> json" where
  "openai_segment_parts_to_content parts = (case parts of
      [] \<Rightarrow> JNull
    | [p] \<Rightarrow> if type_of p = Some ''text'' \<and> array_at p ''annotations'' = []
        then JStr (unwrap_or (jget_str p ''text'') []) else JArr [p]
    | _ \<Rightarrow> JArr parts)"

definition append_openai_message_content :: "json \<Rightarrow> json \<Rightarrow> json" where
  "append_openai_message_content content message =
    (let new = openai_content_to_segment_parts content in
     if new = [] then message
     else jset ''content'' (openai_segment_parts_to_content
       (openai_content_to_segment_parts (unwrap_or (jget message ''content'') JNull) @ new)) message)"

definition append_openai_message_text_field :: "string \<Rightarrow> string \<Rightarrow> json \<Rightarrow> json" where
  "append_openai_message_text_field field t message =
    (if t = [] then message
     else (let existing = unwrap_or (jget_str message field) [] in
       jset field (JStr (if existing = [] then t else existing @ [nl, nl] @ t)) message))"

definition append_assistant_text_content :: "string \<Rightarrow> json \<Rightarrow> json" where
  "append_assistant_text_content t message =
    (if t = [] then message else append_openai_message_content (JStr t) message)"

section \<open>Usage\<close>

definition clone_usage_details_object :: "json option \<Rightarrow> json option" where
  "clone_usage_details_object details = (case details of
      Some (JObj kvs) \<Rightarrow> if kvs = [] then None else Some (JObj kvs) | _ \<Rightarrow> None)"

definition counted_or_zero :: "json option \<Rightarrow> nat" where
  "counted_or_zero v = unwrap_or (Option.bind v as_u64) 0"

definition responses_usage_to_openai_usage :: "json \<Rightarrow> json" where
  "responses_usage_to_openai_usage u =
    (let input = counted_or_zero (option_or (jget u ''input_tokens'') (jget u ''prompt_tokens''));
         output = counted_or_zero (option_or (jget u ''output_tokens'') (jget u ''completion_tokens''));
         total = unwrap_or (jget_u64 u ''total_tokens'') (u64_add input output);
         v = jobj [(''prompt_tokens'', jnat input), (''completion_tokens'', jnat output),
           (''total_tokens'', jnat total)];
         v = set_opt ''prompt_tokens_details'' (clone_usage_details_object
           (option_or (jget u ''input_tokens_details'') (jget u ''prompt_tokens_details''))) v;
         v = set_opt ''completion_tokens_details'' (clone_usage_details_object
           (option_or (jget u ''output_tokens_details'') (jget u ''completion_tokens_details''))) v
     in copy_remaining_usage_fields u
          [''input_tokens'', ''prompt_tokens'', ''output_tokens'', ''completion_tokens'', ''total_tokens'',
           ''input_tokens_details'', ''prompt_tokens_details'', ''output_tokens_details'',
           ''completion_tokens_details''] v)"

definition openai_usage_to_responses_usage :: "json \<Rightarrow> json" where
  "openai_usage_to_responses_usage u =
    (let input = counted_or_zero (jget u ''prompt_tokens'');
         output = counted_or_zero (jget u ''completion_tokens'');
         total = unwrap_or (jget_u64 u ''total_tokens'') (u64_add input output);
         v = jobj [(''input_tokens'', jnat input), (''output_tokens'', jnat output), (''total_tokens'', jnat total)];
         v = set_opt ''input_tokens_details'' (clone_usage_details_object (jget u ''prompt_tokens_details'')) v;
         v = set_opt ''output_tokens_details'' (clone_usage_details_object (jget u ''completion_tokens_details'')) v
     in copy_remaining_usage_fields u
          [''prompt_tokens'', ''completion_tokens'', ''total_tokens'', ''prompt_tokens_details'',
           ''completion_tokens_details''] v)"

section \<open>Log probabilities\<close>

text \<open>The code keeps the number as a 64-bit float; here it is the JSON number it was read from.\<close>

record response_logprob_candidate =
  lp_raw :: json
  lp_token :: string
  lp_logprob :: jnum

record response_token_logprob =
  tl_raw :: json
  tl_token :: string
  tl_logprob :: jnum
  tl_top :: "response_logprob_candidate list"

definition responses_nonportable_output_item_message :: "json \<Rightarrow> string \<Rightarrow> bool \<Rightarrow> string option" where
  "responses_nonportable_output_item_message item target allow_encrypted = (case type_of item of
      None \<Rightarrow> None
    | Some ty \<Rightarrow>
        let plain = ''OpenAI Responses output item `'' @ ty @ ''` cannot be faithfully translated to '' @ target in
        if ty = ''reasoning'' \<and> jget item ''encrypted_content'' \<noteq> None \<and> \<not> allow_encrypted
        then Some (''OpenAI Responses reasoning output item field `encrypted_content` cannot be faithfully translated to ''
          @ target)
        else if ty \<in> {''function_call_output'', ''custom_tool_call_output'', ''compaction''} then Some plain
        else if responses_portable_output_item_type ty then None
        else if responses_hosted_output_item_type ty then Some plain
        else Some (''OpenAI Responses output item `'' @ ty
          @ ''` is outside the portable cross-protocol subset and cannot be faithfully translated to '' @ target))"

definition part_logprobs :: "json \<Rightarrow> string + json list option" where
  "part_logprobs part =
    (if type_of part \<noteq> Some ''output_text'' then Inr None
     else (case present (jget part ''logprobs'') of
         None \<Rightarrow> Inr None
       | Some (JArr ls) \<Rightarrow> Inr (Some ls)
       | Some _ \<Rightarrow> Inl (''OpenAI Responses message.output_text.logprobs must be an array for response translation.'')))"

definition responses_output_text_logprobs :: "json \<Rightarrow> string + json list option" where
  "responses_output_text_logprobs item = (case jget_array item ''content'' of
      None \<Rightarrow> Inr None
    | Some parts \<Rightarrow> res_bind (res_map part_logprobs parts) (\<lambda>ls.
        let found = List.map_filter id ls in Inr (if found = [] then None else Some (concat found))))"

text \<open>\<open>is_finite\<close>: not all exponent bits are set.\<close>

fun finite_number :: "jnum \<Rightarrow> bool" where
  "finite_number (JFloat b) = (drop_bit 52 (take_bit 63 b) \<noteq> 0x7FF)"
| "finite_number _ = True"

definition normalized_response_logprob_candidate_from_value ::
    "json \<Rightarrow> string \<Rightarrow> string \<Rightarrow> string + response_logprob_candidate" where
  "normalized_response_logprob_candidate_from_value v field target =
    (let err = (\<lambda>what. ''OpenAI-family response field `'' @ field @ ''` must contain '' @ what
          @ '' when translating to '' @ target) in
     if \<not> is_object v then Inl (err ''objects'')
     else (case nonempty_str v ''token'' of
         None \<Rightarrow> Inl (err ''non-empty string `token` values'')
       | Some token \<Rightarrow> (case jget v ''logprob'' of
             Some (JNum n) \<Rightarrow> if finite_number n
               then Inr \<lparr>lp_raw = v, lp_token = token, lp_logprob = n\<rparr>
               else Inl (err ''finite numeric `logprob` values'')
           | _ \<Rightarrow> Inl (err ''finite numeric `logprob` values''))))"

definition normalized_response_token_logprob_from_value :: "json \<Rightarrow> string \<Rightarrow> string + response_token_logprob" where
  "normalized_response_token_logprob_from_value v target =
     res_bind (normalized_response_logprob_candidate_from_value v ''choice.logprobs.content'' target) (\<lambda>c.
     res_bind (case present (jget v ''top_logprobs'') of
         None \<Rightarrow> Inr []
       | Some (JArr items) \<Rightarrow> res_map (\<lambda>i. normalized_response_logprob_candidate_from_value i
           ''choice.logprobs.content[].top_logprobs'' target) items
       | Some _ \<Rightarrow> Inl (''OpenAI Chat response field `choice.logprobs.content[].top_logprobs` must be an array when translating to ''
           @ target)) (\<lambda>top.
       Inr \<lparr>tl_raw = v, tl_token = lp_token c, tl_logprob = lp_logprob c, tl_top = top\<rparr>))"

definition normalized_response_logprobs_from_openai_choice ::
    "json \<Rightarrow> string \<Rightarrow> string + response_token_logprob list option" where
  "normalized_response_logprobs_from_openai_choice choice target =
    (case present (jget choice ''logprobs'') of
       None \<Rightarrow> Inr None
     | Some l \<Rightarrow>
         if \<not> is_object l then Inl (''OpenAI Chat response field `choice.logprobs` must be an object when translating to '' @ target)
         else if array_at l ''refusal'' \<noteq> [] then
           Inl (''OpenAI Chat response field `choice.logprobs.refusal` cannot be faithfully translated to '' @ target)
         else (case present (jget l ''content'') of
             None \<Rightarrow> Inr None
           | Some (JArr items) \<Rightarrow>
               res_bind (res_map (\<lambda>i. normalized_response_token_logprob_from_value i target) items) (\<lambda>ts. Inr (Some ts))
           | Some _ \<Rightarrow> Inl (''OpenAI Chat response field `choice.logprobs.content` must be an array when translating to '' @ target)))"

definition normalized_response_logprobs_to_openai_values :: "response_token_logprob list \<Rightarrow> json list" where
  "normalized_response_logprobs_to_openai_values ls = map tl_raw ls"

definition attach_openai_choice_logprobs_to_responses_content ::
    "json list \<Rightarrow> response_token_logprob list \<Rightarrow> string + json list" where
  "attach_openai_choice_logprobs_to_responses_content content ls =
    (case filter (\<lambda>(_, part). type_of part = Some ''output_text'') (List.enumerate 0 content) of
       [(i, part)] \<Rightarrow> Inr (content[i := jset ''logprobs'' (JArr (normalized_response_logprobs_to_openai_values ls)) part])
     | _ \<Rightarrow> Inl (''OpenAI Chat response logprobs can only be translated to Responses when assistant output maps to a single `output_text` item.''))"

section \<open>Usage survives the way to Responses and back\<close>

lemma option_or_None [simp]: "option_or x None = x"
  by (cases x) simp_all

lemma jget_fold_or_insert:
  "is_object t \<Longrightarrow> jget (foldl (\<lambda>t (k, v). if k \<in> set consumed then t else or_insert k v t) t kvs) k =
     (case jget t k of Some x \<Rightarrow> Some x | None \<Rightarrow> if k \<in> set consumed then None else map_of kvs k)"
proof (induction kvs arbitrary: t)
  case (Cons kv kvs)
  obtain k1 v1 where kv: "kv = (k1, v1)" by (cases kv)
  show ?case using Cons.IH [of "if k1 \<in> set consumed then t else or_insert k1 v1 t"] Cons.prems
    by (auto simp: kv jget_or_insert split: option.splits)
qed (simp split: option.split)

lemma jget_copy_remaining:
  assumes "is_object t"
  shows "jget (copy_remaining_usage_fields u consumed t) k =
     (case jget t k of Some x \<Rightarrow> Some x | None \<Rightarrow> if k \<in> set consumed then None else jget u k)"
  using assms by (cases u) (simp_all add: copy_remaining_usage_fields_def jget_fold_or_insert split: option.split)

definition usage_ok :: "json \<Rightarrow> bool" where
  "usage_ok u =
    (list_all (\<lambda>k. jget_u64 u k \<noteq> None) [''prompt_tokens'', ''completion_tokens'', ''total_tokens'']
     \<and> list_all (\<lambda>k. clone_usage_details_object (jget u k) = jget u k)
         [''prompt_tokens_details'', ''completion_tokens_details'']
     \<and> list_all (\<lambda>k. jget u k = None)
         [''input_tokens'', ''output_tokens'', ''input_tokens_details'', ''output_tokens_details''])"

lemma jget_u64_Some: "jget_u64 v k = Some n \<longleftrightarrow> jget v k = Some (jnat n)"
proof (cases "jget v k")
  case (Some x)
  then show ?thesis by (cases x rule: as_u64.cases) (auto simp: jget_u64_def)
qed (simp add: jget_u64_def)

lemma details_twice: "clone_usage_details_object (clone_usage_details_object v) = clone_usage_details_object v"
  by (simp add: clone_usage_details_object_def split: option.split json.split)

text \<open>The token usage of a Chat Completions answer goes to a Responses client and back unchanged, field by
  field, with its details and with every field the proxy knows nothing of.\<close>

theorem usage_round_trip:
  assumes "usage_ok u"
  shows "jget (responses_usage_to_openai_usage (openai_usage_to_responses_usage u)) k = jget u k"
proof -
  obtain p c t where n: "jget u ''prompt_tokens'' = Some (jnat p)" "jget u ''completion_tokens'' = Some (jnat c)"
    "jget u ''total_tokens'' = Some (jnat t)"
    using assms by (auto simp: usage_ok_def jget_u64_Some)
  have d: "clone_usage_details_object (jget u ''prompt_tokens_details'') = jget u ''prompt_tokens_details''"
    "clone_usage_details_object (jget u ''completion_tokens_details'') = jget u ''completion_tokens_details''"
    and none: "jget u ''input_tokens'' = None" "jget u ''output_tokens'' = None"
    "jget u ''input_tokens_details'' = None" "jget u ''output_tokens_details'' = None"
    using assms by (simp_all add: usage_ok_def)
  let ?r = "openai_usage_to_responses_usage u"
  have r: "jget ?r ''input_tokens'' = Some (jnat p)" "jget ?r ''output_tokens'' = Some (jnat c)"
    "jget ?r ''total_tokens'' = Some (jnat t)"
    "jget ?r ''input_tokens_details'' = jget u ''prompt_tokens_details''"
    "jget ?r ''output_tokens_details'' = jget u ''completion_tokens_details''"
    "jget ?r ''prompt_tokens_details'' = None" "jget ?r ''completion_tokens_details'' = None"
    by (simp_all add: openai_usage_to_responses_usage_def Let_def jget_copy_remaining n d none counted_or_zero_def
        jget_u64_def split: option.split)
  have rest: "jget ?r k = jget u k" if "k \<notin> set [''input_tokens'', ''output_tokens'', ''total_tokens'',
      ''input_tokens_details'', ''output_tokens_details'', ''prompt_tokens'', ''completion_tokens'',
      ''prompt_tokens_details'', ''completion_tokens_details'']"
    using that by (simp add: openai_usage_to_responses_usage_def Let_def jget_copy_remaining split: option.split)
  show ?thesis
    using r rest n d none
    by (auto simp: responses_usage_to_openai_usage_def Let_def jget_copy_remaining counted_or_zero_def
        jget_u64_def split: option.split)
qed

theorem usage_round_trip_witness:
  "jget (responses_usage_to_openai_usage (openai_usage_to_responses_usage
     (jobj [(''prompt_tokens'', jnat 3), (''completion_tokens'', jnat 4), (''total_tokens'', jnat 7),
       (''queue_time'', jnat 1)]))) ''queue_time'' = Some (jnat 1)"
proof -
  have "usage_ok (jobj [(''prompt_tokens'', jnat 3), (''completion_tokens'', jnat 4), (''total_tokens'', jnat 7),
       (''queue_time'', jnat 1)])"
    by (simp add: usage_ok_def jget_u64_def clone_usage_details_object_def)
  from usage_round_trip [OF this, of "''queue_time''"] show ?thesis by simp
qed

end
