(* ===== verification/Responses_Answers.thy ===== *)
theory Responses_Answers
  imports Responses_Content Claude_Answers Call_Bridge
begin

text \<open>
  Whole answers between the Responses and the Chat Completions protocol
  (src/src/translate/internal/openai_responses.rs): the output items of a Responses answer become one
  assistant message and back, with the finish reason (src/src/translate/internal/response_protocols.rs).
\<close>

section \<open>From Responses\<close>

definition responses_finish_reason_to_openai :: "json \<Rightarrow> bool \<Rightarrow> string" where
  "responses_finish_reason_to_openai body has_tool_calls =
    (if jget_str body ''status'' = Some ''incomplete'' then
       (let reason = ostr (ogetj (jget body ''incomplete_details'') ''reason'') in
        if reason = Some ''max_output_tokens'' then ''length''
        else if reason = Some ''content_filter'' then ''content_filter''
        else if reason = Some ''pause_turn'' then ''pause_turn''
        else ''stop'')
     else if jget_str body ''status'' = Some ''failed'' then
       responses_failed_code_to_openai_finish (ostr (ogetj (jget body ''error'') ''code''))
     else if has_tool_calls then ''tool_calls'' else ''stop'')"

text \<open>What one output item adds to the message; the lists of the items are put one after the other.\<close>

record item_yield =
  iy_parts :: "json list"
  iy_logprobs :: "json list option"
  iy_refusal :: string
  iy_call :: "json option"
  iy_reasoning :: string
  iy_blocks :: "json list"

definition message_text_parts :: "json \<Rightarrow> json list" where
  "message_text_parts item = List.map_filter
     (\<lambda>part. if type_of part = Some ''output_text''
        then Some (semantic_text_part_to_openai_value (text_of_part part)) else None) (array_at item ''content'')"

definition message_refusal :: "json \<Rightarrow> string" where
  "message_refusal item = concat (List.map_filter
     (\<lambda>part. if type_of part = Some ''refusal'' then jget_str part ''refusal'' else None) (array_at item ''content''))"

definition reasoning_of_summary :: "json \<Rightarrow> string" where
  "reasoning_of_summary item = concat (List.map_filter (\<lambda>s. jget_str s ''text'') (array_at item ''summary''))"

definition responses_item_yield :: "env \<Rightarrow> bool \<Rightarrow> json \<Rightarrow> string + item_yield" where
  "responses_item_yield E replay item =
    (let ty = type_of item in
     res_bind (if ty = Some ''message'' then responses_output_text_logprobs item else Inr None) (\<lambda>logprobs.
     res_bind (responses_tool_call_item_to_openai_tool_call_strict E item) (\<lambda>call.
       Inr \<lparr>iy_parts = (if ty = Some ''message'' then message_text_parts item else []),
            iy_logprobs = logprobs,
            iy_refusal = (if ty = Some ''message'' then message_refusal item else []),
            iy_call = call,
            iy_reasoning = (if ty = Some ''reasoning'' then reasoning_of_summary item else []),
            iy_blocks = (if ty = Some ''reasoning'' \<and> replay
              then unwrap_or (responses_reasoning_replay_blocks_for_anthropic E item) [] else [])\<rparr>)))"

definition responses_answer_message :: "item_yield list \<Rightarrow> json option \<Rightarrow> json" where
  "responses_answer_message ys audio =
    (let parts = concat (map iy_parts ys);
         refusal = concat (map iy_refusal ys);
         calls = List.map_filter iy_call ys;
         reasoning = concat (map iy_reasoning ys);
         m = jobj [(''role'', JStr ''assistant'')];
         m = (if reasoning = [] then m else jset ''reasoning_content'' (JStr reasoning) m);
         m = append_openai_message_anthropic_reasoning_replay_blocks (concat (map iy_blocks ys)) m;
         m = jset ''content'' (if parts \<noteq> [] then collapse_openai_text_parts parts
               else if calls \<noteq> [] \<or> jget m ''reasoning_content'' \<noteq> None \<or> refusal \<noteq> [] then JNull
               else JStr []) m;
         m = (if refusal = [] then m else jset ''refusal'' (JStr refusal) m);
         m = set_opt ''audio'' audio m
     in if calls = [] then m else jset ''tool_calls'' (JArr calls) m)"

definition responses_answer_choice :: "json \<Rightarrow> item_yield list \<Rightarrow> json option \<Rightarrow> json" where
  "responses_answer_choice body ys audio =
    (let logprobs = List.map_filter iy_logprobs ys
     in (if logprobs = [] then id else jset ''logprobs''
           (jobj [(''content'', JArr (concat logprobs)), (''refusal'', JArr [])]))
        (jobj [(''index'', jnat 0), (''message'', responses_answer_message ys audio),
          (''finish_reason'', JStr (responses_finish_reason_to_openai body (List.map_filter iy_call ys \<noteq> [])))]))"

definition responses_response_to_openai_impl :: "env \<Rightarrow> bool \<Rightarrow> json \<Rightarrow> string + json" where
  "responses_response_to_openai_impl E replay body = (case jget_array body ''output'' of
      None \<Rightarrow> Inr body
    | Some output \<Rightarrow>
        (let target = (if replay then ''Anthropic'' else ''OpenAI Chat Completions'') in
         case find_map (\<lambda>item. responses_nonportable_output_item_message item target replay) output of
           Some message \<Rightarrow> Inl message
         | None \<Rightarrow>
             res_bind (responses_response_audio_to_openai_audio body) (\<lambda>audio.
             res_bind (res_map (responses_item_yield E replay) output) (\<lambda>ys.
               Inr (set_opt ''usage'' (map_option responses_usage_to_openai_usage (jget body ''usage''))
                 (jobj [(''id'', unwrap_or (jget body ''id'') JNull), (''object'', JStr ''chat.completion''),
                   (''created'', unwrap_or (option_or (jget body ''created_at'') (jget body ''created''))
                      (jnat (unix_secs E))),
                   (''model'', unwrap_or (jget body ''model'') JNull),
                   (''choices'', JArr [responses_answer_choice body ys audio])]))))))"

definition responses_response_to_openai :: "env \<Rightarrow> json \<Rightarrow> string + json" where
  "responses_response_to_openai E body = responses_response_to_openai_impl E False body"

definition responses_response_to_openai_for_anthropic :: "env \<Rightarrow> json \<Rightarrow> string + json" where
  "responses_response_to_openai_for_anthropic E body = responses_response_to_openai_impl E True body"

section \<open>To Responses\<close>

definition summary_of :: "string \<Rightarrow> json" where
  "summary_of reasoning = JArr (if reasoning = [] then []
     else [jobj [(''type'', JStr ''summary_text''), (''text'', JStr reasoning)]])"

definition reasoning_item :: "env \<Rightarrow> string \<Rightarrow> json list option \<Rightarrow> json" where
  "reasoning_item E reasoning blocks =
     set_opt ''encrypted_content'' (map_option (\<lambda>b. JStr (encode_anthropic_reasoning_carrier E b)) blocks)
       (jobj [(''type'', JStr ''reasoning''), (''summary'', summary_of reasoning)])"

definition message_reasoning_items :: "env \<Rightarrow> json \<Rightarrow> json list" where
  "message_reasoning_items E message =
    (let blocks = openai_message_anthropic_reasoning_replay_blocks message in
     case openai_message_reasoning_text message of
       Some reasoning \<Rightarrow> if reasoning \<noteq> [] \<or> blocks \<noteq> None then [reasoning_item E reasoning blocks] else []
     | None \<Rightarrow> if blocks \<noteq> None then [reasoning_item E [] blocks] else [])"

definition message_item :: "json list \<Rightarrow> json" where
  "message_item content = jobj [(''type'', JStr ''message''), (''role'', JStr ''assistant''), (''content'', JArr content)]"

definition message_items :: "json \<Rightarrow> json list \<Rightarrow> json list \<Rightarrow> json option \<Rightarrow> json list" where
  "message_items message reasoning content audio =
    (if content \<noteq> [] then [message_item content]
     else if jget message ''tool_calls'' = None \<and> reasoning = [] \<and> audio = None
     then [message_item [jobj [(''type'', JStr ''output_text''), (''text'', JStr [])]]]
     else [])"

definition error_value :: "string \<Rightarrow> string \<Rightarrow> string \<Rightarrow> json" where
  "error_value code message ty = jobj [(''code'', JStr code), (''message'', JStr message), (''type'', JStr ty)]"

definition status_of_finish :: "string \<Rightarrow> string \<times> json \<times> json" where
  "status_of_finish finish =
    (let reason = (\<lambda>r. jobj [(''reason'', JStr r)]) in
     if finish = ''length'' then (''incomplete'', reason ''max_output_tokens'', JNull)
     else if finish = ''content_filter'' then (''incomplete'', reason ''content_filter'', JNull)
     else if finish = ''pause_turn'' then (''incomplete'', reason ''pause_turn'', JNull)
     else if finish = ''context_length_exceeded'' then (''failed'', JNull, error_value ''context_length_exceeded''
       ''The conversation exceeded the model context window.'' ''invalid_request_error'')
     else if finish = ''error'' then
       (''failed'', JNull, error_value ''error'' ''The provider returned an error.'' ''server_error'')
     else if finish = ''tool_error'' then (''failed'', JNull, error_value ''tool_error''
       ''The provider reported a tool or protocol error.'' ''invalid_request_error'')
     else (''completed'', JNull, JNull))"

definition openai_message_to_responses_output ::
    "env \<Rightarrow> json \<Rightarrow> json \<Rightarrow> tool_bridge_context option \<Rightarrow> string + json list" where
  "openai_message_to_responses_output E choice message ctx =
    (let reasoning = message_reasoning_items E message in
     res_bind (openai_assistant_audio_to_responses_output_item message) (\<lambda>audio.
     res_bind (openai_message_to_responses_content E message ''output_text'') (\<lambda>content.
     res_bind (normalized_response_logprobs_from_openai_choice choice ''OpenAI Responses'') (\<lambda>logprobs.
     res_bind (case logprobs of None \<Rightarrow> Inr content
         | Some ls \<Rightarrow> attach_openai_choice_logprobs_to_responses_content content ls) (\<lambda>content.
     res_bind (res_map (openai_tool_call_to_responses_item_decoding_custom_bridge_with_context E ctx)
         (array_at message ''tool_calls'')) (\<lambda>calls.
       Inr (reasoning @ message_items message reasoning content audio @ calls @ option_to_list audio)))))))"

definition openai_response_to_responses :: "env \<Rightarrow> json \<Rightarrow> tool_bridge_context option \<Rightarrow> string + json" where
  "openai_response_to_responses E body ctx =
     res_bind (single_required_array_item (jget_array body ''choices'') ''OpenAI response'' ''OpenAI Responses'' ''choices'')
       (\<lambda>choice. case jget choice ''message'' of
          None \<Rightarrow> Inl ''missing message''
        | Some message \<Rightarrow> res_bind (openai_message_to_responses_output E choice message ctx) (\<lambda>output.
            let (status, incomplete, error) =
                  status_of_finish (unwrap_or (jget_str choice ''finish_reason'') ''stop'')
            in Inr (set_opt ''usage'' (map_option openai_usage_to_responses_usage (jget body ''usage''))
                 (jobj [(''id'', unwrap_or (jget body ''id'') JNull), (''object'', JStr ''response''),
                   (''created_at'', unwrap_or (jget body ''created'') (jnat (unix_secs E))),
                   (''model'', unwrap_or (jget body ''model'') JNull), (''output'', JArr output),
                   (''status'', JStr status), (''incomplete_details'', incomplete), (''error'', error)]))))"

section \<open>An answer that comes back\<close>

text \<open>
  The message of a Chat Completions answer: its reasoning, its content (\<open>None\<close> is \<open>null\<close>), its
  refusal and its calls; an empty reasoning, an empty refusal and an empty list of calls have no field.
\<close>

definition chat_message :: "string \<Rightarrow> string option \<Rightarrow> string \<Rightarrow> json list \<Rightarrow> json" where
  "chat_message reasoning content refusal calls = jobj (
     [(''role'', JStr ''assistant'')]
     @ (if reasoning = [] then [] else [(''reasoning_content'', JStr reasoning)])
     @ [(''content'', jopt_str content)]
     @ (if refusal = [] then [] else [(''refusal'', JStr refusal)])
     @ (if calls = [] then [] else [(''tool_calls'', JArr calls)]))"

definition says_something :: "string \<Rightarrow> string option \<Rightarrow> string \<Rightarrow> tool_call list \<Rightarrow> bool" where
  "says_something reasoning content refusal calls =
     (content \<noteq> None \<or> reasoning \<noteq> [] \<or> refusal \<noteq> [] \<or> calls \<noteq> [])"

definition plain_call :: "tool_call \<Rightarrow> bool" where
  "plain_call c = (public_call c \<and> call_namespace c = None)"

definition finish_of_answer :: "string \<Rightarrow> bool \<Rightarrow> bool" where
  "finish_of_answer finish calls = (finish = (if calls then ''tool_calls'' else ''stop'')
     \<or> finish \<in> set [''length'', ''content_filter'', ''pause_turn'', ''context_length_exceeded'', ''error'', ''tool_error''])"

lemma written_custom_call:
  assumes "n \<noteq> []" and "\<not> custom_bridge_prefix_is_reserved n"
  shows "normalized_openai_tool_call (normalized_tool_call_to_openai (CustomCall (Some i) n a ns kind))
      = Inr (Some (CustomCall (Some i) n a None kind))"
    and "jget (normalized_tool_call_to_openai (CustomCall (Some i) n a ns kind)) non_replayable_field = None"
proof -
  let ?v = "normalized_tool_call_to_openai (CustomCall (Some i) n a ns kind)"
  let ?c = "jobj [(''name'', JStr n), (''input'', JStr a)]"
  have get: "jget ?v ''type'' = Some (JStr ''custom'')" "jget ?v ''custom'' = Some ?c"
    "jget ?v ''id'' = Some i" "jget ?v ''name'' = None" "jget ?v ''function'' = None"
    "jget ?v ''proxied_tool_kind'' = kind" "jget ?v non_replayable_field = None" "is_object ?v"
    by (simp_all add: jget_set_proxied non_replayable_field_def jopt_def)
  show "jget ?v non_replayable_field = None" by (fact get)
  obtain kvs where f: "?c = JObj kvs" using is_object_jobj by (rule object_kvsE)
  have name: "jget ?c ''name'' = Some (JStr n)" and input: "jget ?c ''input'' = Some (JStr a)" by simp_all
  have payload: "openai_custom_tool_payload ?v = Some kvs"
    by (simp add: openai_custom_tool_payload_def jget_str_def get f del: normalized_tool_call_to_openai.simps)
  have "openai_custom_tool_name ?v = Some n" "openai_custom_tool_input_raw ?v = Some a"
    using name input assms(1)
    by (simp_all add: openai_custom_tool_name_def openai_custom_tool_input_raw_def payload f
        del: normalized_tool_call_to_openai.simps)
  moreover have "validate_openai_public_tool_identity ?v = Inr ()"
    using assms(2) name by (simp add: validate_openai_public_tool_identity_def get identity_pass object_is_no_name
        del: normalized_tool_call_to_openai.simps)
  ultimately show "normalized_openai_tool_call ?v = Inr (Some (CustomCall (Some i) n a None kind))"
    using assms by (simp add: normalized_openai_tool_call_def get jget_str_def public_name_ok
        del: normalized_tool_call_to_openai.simps)
qed

lemma plain_call_there:
  assumes "plain_call c"
  shows "openai_tool_call_to_responses_item_decoding_custom_bridge_with_context E None (normalized_tool_call_to_openai c)
    = Inr (normalized_tool_call_to_responses_item c)"
proof (cases c)
  case (FunctionCall i n a ns kind)
  then obtain j where "i = Some j" "n \<noteq> []" "\<not> custom_bridge_prefix_is_reserved n" "ns = None"
    using assms by (auto simp: plain_call_def)
  then show ?thesis
    using written_function_call [where n = n and i = j and a = a and kind = kind] FunctionCall
    by (simp add: openai_tool_call_to_responses_item_decoding_custom_bridge_with_context_def no_mark_no_copy
        context_expects_wrapper_def)
next
  case (CustomCall i n a ns kind)
  then obtain j where "i = Some j" "n \<noteq> []" "\<not> custom_bridge_prefix_is_reserved n" "ns = None"
    using assms by (auto simp: plain_call_def)
  then show ?thesis
    using written_custom_call [where n = n and i = j and a = a and kind = kind and ns = None] CustomCall
    by (simp add: openai_tool_call_to_responses_item_decoding_custom_bridge_with_context_def no_mark_no_copy
        del: normalized_tool_call_to_openai.simps normalized_tool_call_to_responses_item.simps)
qed

lemma plain_call_back:
  assumes "plain_call c"
  shows "responses_tool_call_item_to_openai_tool_call_strict E (normalized_tool_call_to_responses_item c)
    = Inr (Some (normalized_tool_call_to_openai c))"
proof -
  have "flatten_normalized_namespaced_tool_call c = c"
    using assms by (cases c) (auto simp: plain_call_def)
  then show ?thesis
    using written_item(1) [where call = c and E = E] written_item(2) [where call = c] assms
    by (simp add: responses_tool_call_item_to_openai_tool_call_strict_def no_mark_no_copy plain_call_def
        del: normalized_tool_call_to_openai.simps normalized_tool_call_to_responses_item.simps)
qed

lemma type_of_call_item:
  "type_of (normalized_tool_call_to_responses_item c) \<in> {Some ''function_call'', Some ''custom_tool_call''}"
  by (cases c) (simp_all add: jget_str_def jget_set_proxied jget_set_namespace)

lemma no_call_item:
  "type_of item \<in> {Some ''message'', Some ''reasoning''} \<Longrightarrow>
    responses_tool_call_item_to_openai_tool_call_strict E item = Inr None"
  by (auto simp: responses_tool_call_item_to_openai_tool_call_strict_def normalized_responses_tool_call_def)

definition empty_yield :: item_yield where
  "empty_yield = \<lparr>iy_parts = [], iy_logprobs = None, iy_refusal = [], iy_call = None, iy_reasoning = [], iy_blocks = []\<rparr>"

lemma yield_reasoning:
  "responses_item_yield E False (reasoning_item E r None) = Inr (empty_yield\<lparr>iy_reasoning := r\<rparr>)"
  by (simp add: responses_item_yield_def reasoning_item_def no_call_item set_opt_def jget_str_def
      reasoning_of_summary_def summary_of_def array_at_def jget_array_def List.map_filter_def empty_yield_def)

text \<open>The content of the message as Responses parts.\<close>

definition plain_parts :: "string option \<Rightarrow> string \<Rightarrow> json list" where
  "plain_parts content refusal =
     (case content of None \<Rightarrow> [] | Some t \<Rightarrow> [jobj [(''type'', JStr ''output_text''), (''text'', JStr t)]])
     @ (if refusal = [] then [] else [jobj [(''type'', JStr ''refusal''), (''refusal'', JStr refusal)]])"

definition text_yield :: "string \<Rightarrow> json" where
  "text_yield t = semantic_text_part_to_openai_value \<lparr>tp_text = t, tp_annotations = []\<rparr>"

lemma yield_message:
  "responses_item_yield E False (message_item (plain_parts content refusal)) = Inr (empty_yield
     \<lparr>iy_parts := (case content of None \<Rightarrow> [] | Some t \<Rightarrow> [text_yield t]), iy_refusal := refusal\<rparr>)"
proof -
  have "responses_output_text_logprobs (message_item (plain_parts content refusal)) = Inr None"
    by (cases content) (simp_all add: responses_output_text_logprobs_def message_item_def plain_parts_def
        jget_array_def part_logprobs_def jget_str_def present_def List.map_filter_def)
  moreover have "message_text_parts (message_item (plain_parts content refusal))
      = (case content of None \<Rightarrow> [] | Some t \<Rightarrow> [text_yield t])"
    by (cases content) (simp_all add: message_text_parts_def message_item_def plain_parts_def array_at_def
        jget_array_def jget_str_def List.map_filter_def text_of_part_def text_yield_def)
  moreover have "message_refusal (message_item (plain_parts content refusal)) = refusal"
    by (cases content) (simp_all add: message_refusal_def message_item_def plain_parts_def array_at_def
        jget_array_def jget_str_def List.map_filter_def)
  moreover have "type_of (message_item c) = Some ''message''" for c
    by (simp add: message_item_def jget_str_def)
  ultimately show ?thesis
    by (simp add: responses_item_yield_def no_call_item empty_yield_def)
qed

lemma yield_call:
  assumes "plain_call c"
  shows "responses_item_yield E False (normalized_tool_call_to_responses_item c)
    = Inr (empty_yield\<lparr>iy_call := Some (normalized_tool_call_to_openai c)\<rparr>)"
  using plain_call_back [OF assms, of E] type_of_call_item [of c]
  by (auto simp: responses_item_yield_def empty_yield_def
      simp del: normalized_tool_call_to_openai.simps normalized_tool_call_to_responses_item.simps)

definition answer_items :: "env \<Rightarrow> string \<Rightarrow> string option \<Rightarrow> string \<Rightarrow> tool_call list \<Rightarrow> json list" where
  "answer_items E r content refusal calls =
     (if r = [] then [] else [reasoning_item E r None])
     @ (if plain_parts content refusal = [] then [] else [message_item (plain_parts content refusal)])
     @ map normalized_tool_call_to_responses_item calls"

definition answer_yields :: "string \<Rightarrow> string option \<Rightarrow> string \<Rightarrow> tool_call list \<Rightarrow> item_yield list" where
  "answer_yields r content refusal calls =
     (if r = [] then [] else [empty_yield\<lparr>iy_reasoning := r\<rparr>])
     @ (if plain_parts content refusal = [] then []
        else [empty_yield\<lparr>iy_parts := (case content of None \<Rightarrow> [] | Some t \<Rightarrow> [text_yield t]), iy_refusal := refusal\<rparr>])
     @ map (\<lambda>c. empty_yield\<lparr>iy_call := Some (normalized_tool_call_to_openai c)\<rparr>) calls"

lemma items_yield:
  assumes "list_all plain_call calls"
  shows "res_map (responses_item_yield E False) (answer_items E r content refusal calls)
    = Inr (answer_yields r content refusal calls)"
proof -
  have "list_all2 (\<lambda>x y. responses_item_yield E False x = Inr y)
      (map normalized_tool_call_to_responses_item calls)
      (map (\<lambda>c. empty_yield\<lparr>iy_call := Some (normalized_tool_call_to_openai c)\<rparr>) calls)"
    using assms by (induction calls) (simp_all add: yield_call
        del: normalized_tool_call_to_openai.simps normalized_tool_call_to_responses_item.simps)
  then show ?thesis
    by (simp add: res_map_Inr answer_items_def answer_yields_def yield_reasoning yield_message list_all2_append)
qed

lemma map_filter_Some: "List.map_filter (\<lambda>x. Some (f x)) xs = map f xs"
  by (induction xs) (simp_all add: List.map_filter_def)

lemma yields_fields:
  "concat (map iy_parts (answer_yields r content refusal calls)) = (case content of None \<Rightarrow> [] | Some t \<Rightarrow> [text_yield t])"
  "concat (map iy_refusal (answer_yields r content refusal calls)) = refusal"
  "concat (map iy_reasoning (answer_yields r content refusal calls)) = r"
  "concat (map iy_blocks (answer_yields r content refusal calls)) = []"
  "List.map_filter iy_call (answer_yields r content refusal calls) = map normalized_tool_call_to_openai calls"
  "List.map_filter iy_logprobs (answer_yields r content refusal calls) = []"
proof -
  have calls: "concat (map iy_parts (map (\<lambda>c. empty_yield\<lparr>iy_call := f c\<rparr>) calls)) = []"
    "concat (map iy_refusal (map (\<lambda>c. empty_yield\<lparr>iy_call := f c\<rparr>) calls)) = []"
    "concat (map iy_reasoning (map (\<lambda>c. empty_yield\<lparr>iy_call := f c\<rparr>) calls)) = []"
    "concat (map iy_blocks (map (\<lambda>c. empty_yield\<lparr>iy_call := f c\<rparr>) calls)) = []"
    "List.map_filter iy_logprobs (map (\<lambda>c. empty_yield\<lparr>iy_call := f c\<rparr>) calls) = []" for f
    by (simp_all add: empty_yield_def List.map_filter_def)
  have some: "List.map_filter iy_call (map (\<lambda>c. empty_yield\<lparr>iy_call := Some (g c)\<rparr>) calls) = map g calls" for g
    by (simp add: empty_yield_def List.map_filter_def comp_def)
  note parts = plain_parts_def answer_yields_def
  show "concat (map iy_parts (answer_yields r content refusal calls)) = (case content of None \<Rightarrow> [] | Some t \<Rightarrow> [text_yield t])"
    unfolding parts map_append concat_append calls by (cases content) (simp_all add: empty_yield_def)
  show "concat (map iy_refusal (answer_yields r content refusal calls)) = refusal"
    unfolding parts map_append concat_append calls by (cases content) (simp_all add: empty_yield_def)
  show "concat (map iy_reasoning (answer_yields r content refusal calls)) = r"
    unfolding parts map_append concat_append calls by (cases content) (simp_all add: empty_yield_def)
  show "concat (map iy_blocks (answer_yields r content refusal calls)) = []"
    unfolding parts map_append concat_append calls by (cases content) (simp_all add: empty_yield_def)
  have app: "List.map_filter h (xs @ ys) = List.map_filter h xs @ List.map_filter h ys"
    for h :: "item_yield \<Rightarrow> 'x option" and xs ys by (simp add: List.map_filter_def)
  show "List.map_filter iy_call (answer_yields r content refusal calls) = map normalized_tool_call_to_openai calls"
    unfolding parts app some by (cases content) (simp_all add: empty_yield_def List.map_filter_def)
  show "List.map_filter iy_logprobs (answer_yields r content refusal calls) = []"
    unfolding parts app calls by (cases content) (simp_all add: empty_yield_def List.map_filter_def)
qed

lemma jset_jobj: "jset k v (jobj kvs) = jobj (kvs @ [(k, v)])"
  by (simp add: jobj_def)

lemma collapse_text_yield: "collapse_openai_text_parts [text_yield t] = JStr t"
  by (simp add: text_yield_def collapse_plain)

lemma message_comes_back:
  assumes "says_something r content refusal calls"
  shows "responses_answer_message (answer_yields r content refusal calls) None
    = chat_message r content refusal (map normalized_tool_call_to_openai calls)"
  using assms
  by (cases content; cases "r = []"; cases "refusal = []"; cases "calls = []")
    (simp_all add: responses_answer_message_def yields_fields chat_message_def jset_jobj set_opt_def says_something_def
      append_openai_message_anthropic_reasoning_replay_blocks_def jopt_str_def collapse_text_yield
      del: normalized_tool_call_to_openai.simps)

lemma get_chat_message:
  "jget (chat_message r content refusal calls) ''content'' = Some (jopt_str content)"
  "jget (chat_message r content refusal calls) ''audio'' = None"
  "array_at (chat_message r content refusal calls) ''tool_calls'' = calls"
  "(jget (chat_message r content refusal calls) ''tool_calls'' = None) = (calls = [])"
  "extract_openai_refusal (chat_message r content refusal calls) = (if refusal = [] then None else Some refusal)"
  "openai_message_reasoning_text (chat_message r content refusal calls) = (if r = [] then None else Some r)"
  "openai_message_anthropic_reasoning_replay_blocks (chat_message r content refusal calls) = None"
  by (simp_all add: chat_message_def array_at_def jget_array_def extract_openai_refusal_def nonempty_def
      jget_str_def openai_message_reasoning_text_def reasoning_details_to_text_def replay_field_def
      openai_message_anthropic_reasoning_replay_blocks_def)

lemma message_to_items:
  assumes "list_all plain_call calls" and "says_something r content refusal calls"
    and "present (jget choice ''logprobs'') = None"
  shows "openai_message_to_responses_output E choice
      (chat_message r content refusal (map normalized_tool_call_to_openai calls)) None
    = Inr (answer_items E r content refusal calls)"
proof -
  let ?m = "chat_message r content refusal (map normalized_tool_call_to_openai calls)"
  have "res_map (openai_tool_call_to_responses_item_decoding_custom_bridge_with_context E None)
      (map normalized_tool_call_to_openai calls) = Inr (map normalized_tool_call_to_responses_item calls)"
    using assms(1) by (induction calls) (simp_all add: plain_call_there
        del: normalized_tool_call_to_openai.simps normalized_tool_call_to_responses_item.simps)
  moreover have "openai_message_to_responses_content E ?m ''output_text'' = Inr (plain_parts content refusal)"
    by (cases content) (simp_all add: openai_message_to_responses_content_def get_chat_message jopt_str_def
        map_openai_content_to_responses_def plain_parts_def)
  moreover have "openai_assistant_audio_to_responses_output_item ?m = Inr None"
    by (simp add: openai_assistant_audio_to_responses_output_item_def get_chat_message present_def)
  moreover have "message_reasoning_items E ?m = (if r = [] then [] else [reasoning_item E r None])"
    by (simp add: message_reasoning_items_def get_chat_message)
  moreover have "message_items ?m (message_reasoning_items E ?m) (plain_parts content refusal) None
      = (if plain_parts content refusal = [] then [] else [message_item (plain_parts content refusal)])"
    using assms(2) calculation(4)
    by (auto simp: message_items_def get_chat_message says_something_def plain_parts_def split: option.splits if_splits)
  ultimately show ?thesis
    using assms(3) by (simp add: openai_message_to_responses_output_def get_chat_message answer_items_def
        normalized_response_logprobs_from_openai_choice_def option_to_list_def
        del: normalized_tool_call_to_openai.simps normalized_tool_call_to_responses_item.simps)
qed

lemma item_types:
  assumes "x \<in> set (answer_items E r content refusal calls)"
  shows "type_of x \<in> {Some ''reasoning'', Some ''message'', Some ''function_call'', Some ''custom_tool_call''}"
    and "jget x ''encrypted_content'' = None \<or> type_of x \<noteq> Some ''reasoning''"
proof -
  have t: "type_of (reasoning_item E r None) = Some ''reasoning''" "type_of (message_item c) = Some ''message''"
    and n: "jget (reasoning_item E r None) ''encrypted_content'' = None" for c
    by (simp_all add: reasoning_item_def message_item_def set_opt_def jget_str_def)
  have c: "type_of (normalized_tool_call_to_responses_item c) = Some ''function_call''
      \<or> type_of (normalized_tool_call_to_responses_item c) = Some ''custom_tool_call''" for c
    using type_of_call_item [of c] by blast
  have "x = reasoning_item E r None \<or> (\<exists>c. x = message_item c) \<or> (\<exists>c. x = normalized_tool_call_to_responses_item c)"
    using assms unfolding answer_items_def by (auto split: if_splits)
  then have "type_of x = Some ''reasoning'' \<and> jget x ''encrypted_content'' = None \<or> type_of x = Some ''message''
      \<or> type_of x = Some ''function_call'' \<or> type_of x = Some ''custom_tool_call''"
    using t n c by metis
  then show "type_of x \<in> {Some ''reasoning'', Some ''message'', Some ''function_call'', Some ''custom_tool_call''}"
    and "jget x ''encrypted_content'' = None \<or> type_of x \<noteq> Some ''reasoning''"
    by auto
qed

lemma items_portable:
  "find_map (\<lambda>item. responses_nonportable_output_item_message item target False) (answer_items E r content refusal calls) = None"
  unfolding find_map_None
proof
  fix x assume "x \<in> set (answer_items E r content refusal calls)"
  from item_types [OF this] show "responses_nonportable_output_item_message x target False = None"
    by (auto simp: responses_nonportable_output_item_message_def responses_portable_output_item_type_def Let_def)
qed

lemma items_no_audio: "List.map_filter responses_output_audio_item_to_openai_audio (answer_items E r content refusal calls) = []"
proof -
  have "responses_output_audio_item_to_openai_audio x = None" if "x \<in> set (answer_items E r content refusal calls)" for x
    using item_types(1) [OF that] by (auto simp: responses_output_audio_item_to_openai_audio_def)
  then show ?thesis by (simp add: List.map_filter_def filter_empty_conv)
qed

definition chat_answer :: "json \<Rightarrow> json \<Rightarrow> string \<Rightarrow> bool" where
  "chat_answer body message finish = (\<exists>choice. jget_array body ''choices'' = Some [choice]
     \<and> jget choice ''message'' = Some message \<and> jget_str choice ''finish_reason'' = Some finish
     \<and> present (jget choice ''logprobs'') = None)"

lemma finish_comes_back:
  assumes "finish_of_answer finish calls"
    and "jget body ''status'' = Some (JStr (fst (status_of_finish finish)))"
    and "jget body ''incomplete_details'' = Some (fst (snd (status_of_finish finish)))"
    and "jget body ''error'' = Some (snd (snd (status_of_finish finish)))"
  shows "responses_finish_reason_to_openai body calls = finish"
proof -
  have failed: "responses_failed_code_to_openai_finish (Some ''context_length_exceeded'') = ''context_length_exceeded''"
    "responses_failed_code_to_openai_finish (Some ''error'') = ''error''"
    "responses_failed_code_to_openai_finish (Some ''tool_error'') = ''tool_error''"
    by code_simp+
  note d = responses_finish_reason_to_openai_def status_of_finish_def Let_def jget_str_def error_value_def failed
  have "finish \<in> set [''stop'', ''tool_calls'', ''length'', ''content_filter'', ''pause_turn'',
      ''context_length_exceeded'', ''error'', ''tool_error'']"
    and c: "finish = ''tool_calls'' \<Longrightarrow> calls" "finish = ''stop'' \<Longrightarrow> \<not> calls"
    using assms(1) by (auto simp: finish_of_answer_def split: if_splits)
  then consider "finish = ''stop''" "\<not> calls" | "finish = ''tool_calls''" calls | "finish = ''length''"
    | "finish = ''content_filter''" | "finish = ''pause_turn''" | "finish = ''context_length_exceeded''"
    | "finish = ''error''" | "finish = ''tool_error''"
    by (metis (no_types) set_ConsD empty_iff list.set(1))
  then show ?thesis using assms(2-4) by cases (simp_all add: d)
qed

text \<open>C19.
  An answer of Chat Completions goes to a Responses client as output items and back: reasoning, content,
  refusal and calls of tools come back as the same message, and every way the answer can finish, the
  failures included, comes back as the same finish reason.\<close>

theorem chat_answer_comes_back:
  assumes "list_all plain_call calls" and "says_something r content refusal calls"
    and "chat_answer body (chat_message r content refusal (map normalized_tool_call_to_openai calls)) finish"
    and "finish_of_answer finish (calls \<noteq> [])"
  shows "\<exists>answer back. openai_response_to_responses E body None = Inr answer
    \<and> responses_response_to_openai E answer = Inr back
    \<and> chat_answer back (chat_message r content refusal (map normalized_tool_call_to_openai calls)) finish"
proof -
  let ?m = "chat_message r content refusal (map normalized_tool_call_to_openai calls)"
  let ?items = "answer_items E r content refusal calls"
  obtain choice where ch: "jget_array body ''choices'' = Some [choice]" "jget choice ''message'' = Some ?m"
    "jget_str choice ''finish_reason'' = Some finish" "present (jget choice ''logprobs'') = None"
    using assms(3) by (auto simp: chat_answer_def)
  obtain answer where a: "openai_response_to_responses E body None = Inr answer"
    and out: "jget answer ''output'' = Some (JArr ?items)"
    and st: "jget answer ''status'' = Some (JStr (fst (status_of_finish finish)))"
      "jget answer ''incomplete_details'' = Some (fst (snd (status_of_finish finish)))"
      "jget answer ''error'' = Some (snd (snd (status_of_finish finish)))"
    using message_to_items [OF assms(1,2) ch(4), of E]
    by (simp add: openai_response_to_responses_def single_required_array_item_def ch Let_def split_beta
        del: normalized_tool_call_to_openai.simps normalized_tool_call_to_responses_item.simps)
  have audio: "responses_response_audio_to_openai_audio answer = Inr None"
    using out by (simp add: responses_response_audio_to_openai_audio_def array_at_def jget_array_def items_no_audio)
  have "\<exists>back. responses_response_to_openai E answer = Inr back
      \<and> jget_array back ''choices'' = Some [responses_answer_choice answer (answer_yields r content refusal calls) None]"
    using out audio items_portable items_yield [OF assms(1), of E r content refusal]
    by (simp add: responses_response_to_openai_def responses_response_to_openai_impl_def jget_array_def
        del: normalized_tool_call_to_openai.simps normalized_tool_call_to_responses_item.simps)
  moreover have "jget (responses_answer_choice answer (answer_yields r content refusal calls) None) ''message'' = Some ?m"
    "jget_str (responses_answer_choice answer (answer_yields r content refusal calls) None) ''finish_reason'' = Some finish"
    "jget (responses_answer_choice answer (answer_yields r content refusal calls) None) ''logprobs'' = None"
    using message_comes_back [OF assms(2)] finish_comes_back [OF assms(4) st]
    by (simp_all add: responses_answer_choice_def yields_fields jget_str_def
        del: normalized_tool_call_to_openai.simps)
  ultimately show ?thesis using a by (auto simp: chat_answer_def present_def)
qed

theorem chat_answer_comes_back_witness:
  "\<exists>answer back. openai_response_to_responses example_env
       (jobj [(''choices'', JArr [jobj [(''message'', chat_message ''hm'' (Some ''look'') []
           (map normalized_tool_call_to_openai [FunctionCall (Some (JStr ''c1'')) ''search'' ''{}'' None None])),
         (''finish_reason'', JStr ''tool_calls'')]])]) None = Inr answer
    \<and> responses_response_to_openai example_env answer = Inr back
    \<and> chat_answer back (chat_message ''hm'' (Some ''look'') []
         (map normalized_tool_call_to_openai [FunctionCall (Some (JStr ''c1'')) ''search'' ''{}'' None None])) ''tool_calls''"
proof (rule chat_answer_comes_back)
  show "list_all plain_call [FunctionCall (Some (JStr ''c1'')) ''search'' ''{}'' None None]"
    by code_simp
qed (simp_all add: says_something_def finish_of_answer_def chat_answer_def jget_array_def jget_str_def present_def)

end
