(* ===== verification/Responses_Choices.thy ===== *)
theory Responses_Choices
  imports Request_Controls Tool_Calls
begin

text \<open>
  Tool choices between the two OpenAI protocols and the writers of single request fields
  (src/src/translate/internal/openai_responses.rs), and the controls a target takes
  (src/src/translate/internal/assessment.rs).
\<close>

section \<open>The controls of a target\<close>

record shared_control_profile =
  sc_metadata :: bool
  sc_user :: bool
  sc_service_tier :: bool
  sc_stream_include_obfuscation :: bool
  sc_verbosity :: bool
  sc_reasoning_effort :: bool
  sc_prompt_cache_key :: bool
  sc_prompt_cache_retention :: bool
  sc_safety_identifier :: bool
  sc_top_logprobs :: bool
  sc_parallel_tool_calls :: bool
  sc_logit_bias :: bool

definition full_control_profile :: shared_control_profile where
  "full_control_profile = \<lparr>sc_metadata = True, sc_user = True, sc_service_tier = True,
     sc_stream_include_obfuscation = True, sc_verbosity = True, sc_reasoning_effort = True,
     sc_prompt_cache_key = True, sc_prompt_cache_retention = True, sc_safety_identifier = True,
     sc_top_logprobs = True, sc_parallel_tool_calls = True, sc_logit_bias = True\<rparr>"

definition empty_control_profile :: shared_control_profile where
  "empty_control_profile = \<lparr>sc_metadata = False, sc_user = False, sc_service_tier = False,
     sc_stream_include_obfuscation = False, sc_verbosity = False, sc_reasoning_effort = False,
     sc_prompt_cache_key = False, sc_prompt_cache_retention = False, sc_safety_identifier = False,
     sc_top_logprobs = False, sc_parallel_tool_calls = False, sc_logit_bias = False\<rparr>"

fun shared_control_profile_for_target :: "upstream_format \<Rightarrow> shared_control_profile" where
  "shared_control_profile_for_target OpenAiChatCompletions = full_control_profile"
| "shared_control_profile_for_target OpenAiResponses = full_control_profile\<lparr>sc_logit_bias := False\<rparr>"
| "shared_control_profile_for_target Anthropic =
     empty_control_profile\<lparr>sc_metadata := True, sc_parallel_tool_calls := True\<rparr>"

section \<open>Single fields\<close>

text \<open>\<open>entry(outer).or_insert_with({})\<close>, then the inner field when the entry is an object.\<close>

definition insert_in_entry :: "string \<Rightarrow> string \<Rightarrow> json \<Rightarrow> json \<Rightarrow> json" where
  "insert_in_entry outer inner v body = with_field outer (jinsert inner v) (or_insert outer (JObj []) body)"

definition insert_stream_include_obfuscation :: "json \<Rightarrow> json \<Rightarrow> json" where
  "insert_stream_include_obfuscation v body = insert_in_entry ''stream_options'' ''include_obfuscation'' v body"

definition insert_responses_include_item :: "json \<Rightarrow> json \<Rightarrow> json" where
  "insert_responses_include_item item body =
     with_array ''include'' (\<lambda>xs. if item \<in> set xs then xs else xs @ [item]) (or_insert ''include'' (JArr []) body)"

definition insert_responses_text_verbosity :: "json \<Rightarrow> json \<Rightarrow> json" where
  "insert_responses_text_verbosity v body = insert_in_entry ''text'' ''verbosity'' v body"

definition insert_responses_reasoning_effort :: "json \<Rightarrow> json \<Rightarrow> json" where
  "insert_responses_reasoning_effort v body = insert_in_entry ''reasoning'' ''effort'' v body"

section \<open>Choices\<close>

definition openai_named_tool_choice_name :: "json \<Rightarrow> string \<Rightarrow> string option" where
  "openai_named_tool_choice_name v tool_type =
    (if type_of v \<noteq> Some tool_type then None
     else nonempty (ostr (option_or
       (case jget v tool_type of Some (JObj kvs) \<Rightarrow> jget (JObj kvs) ''name'' | _ \<Rightarrow> None) (jget v ''name''))))"

text \<open>The flat names of the children of a namespace, each with its namespace and its name.\<close>

type_synonym namespace_entries = "(string \<times> (string \<times> string)) list"

definition chat_function_choice :: "json \<Rightarrow> json" where
  "chat_function_choice name = jobj [(''type'', JStr ''function''), (''function'', jobj [(''name'', name)])]"

definition chat_custom_choice :: "json \<Rightarrow> json" where
  "chat_custom_choice name = jobj [(''type'', JStr ''custom''), (''custom'', jobj [(''name'', name)])]"

definition public_choice_name :: "json \<Rightarrow> validation" where
  "public_choice_name v = (case as_str v of Some n \<Rightarrow> validate_public_tool_name_not_reserved n | None \<Rightarrow> Inr ())"

definition flat_children :: "namespace_entries \<Rightarrow> string \<Rightarrow> string list" where
  "flat_children entries ns = map fst (filter (\<lambda>(_, n, _). n = ns) entries)"

definition bridges_custom :: "upstream_format \<Rightarrow> bool" where
  "bridges_custom target = (target \<in> {OpenAiChatCompletions, Anthropic})"

definition allowed_selection_to_openai ::
    "upstream_format \<Rightarrow> namespace_entries \<Rightarrow> json \<Rightarrow> string + json list" where
  "allowed_selection_to_openai target entries tool =
    (let ty = type_of tool in
     case (ty, jget tool ''name'') of
       (Some t, Some name) \<Rightarrow>
         if t = ''function'' then res_then (public_choice_name name) (Inr [chat_function_choice name])
         else if t = ''custom'' then
           (if bridges_custom target then
              (case as_str name of
                 Some n \<Rightarrow> res_then (validate_public_tool_name_not_reserved n) (Inr [chat_function_choice (JStr n)])
               | None \<Rightarrow> Inr [tool])
            else res_then (public_choice_name name) (Inr [chat_custom_choice name]))
         else if t = ''namespace'' \<and> bridges_custom target then
           (case as_str name of
              Some ns \<Rightarrow> Inr (map (\<lambda>flat. chat_function_choice (JStr flat)) (flat_children entries ns))
            | None \<Rightarrow> Inr [tool])
         else Inr [tool]
     | _ \<Rightarrow> Inr [tool])"

definition responses_tool_choice_to_openai_tool_choice ::
    "json \<Rightarrow> upstream_format \<Rightarrow> namespace_entries \<Rightarrow> string + json option" where
  "responses_tool_choice_to_openai_tool_choice choice target entries =
    (if as_str choice \<noteq> None then Inr (Some choice)
     else case type_of choice of
       None \<Rightarrow> Inr None
     | Some ty \<Rightarrow>
         if ty = ''function'' then
           (case option_or (jget choice ''name'') (ogetj (jget choice ''function'') ''name'') of
              None \<Rightarrow> Inr None
            | Some name \<Rightarrow> res_then (public_choice_name name) (Inr (Some (chat_function_choice name))))
         else if ty = ''custom'' then
           (case openai_named_tool_choice_name choice ''custom'' of
              None \<Rightarrow> Inr None
            | Some name \<Rightarrow> res_then (validate_public_tool_name_not_reserved name)
                (Inr (Some ((if bridges_custom target then chat_function_choice else chat_custom_choice) (JStr name)))))
         else if ty = ''allowed_tools'' then
           (case (jget choice ''mode'', jget_array choice ''tools'') of
              (Some mode, Some tools) \<Rightarrow>
                res_bind (res_map (allowed_selection_to_openai target entries) tools) (\<lambda>ts.
                  Inr (Some (jobj [(''type'', JStr ''allowed_tools''),
                    (''allowed_tools'', jobj [(''mode'', mode), (''tools'', JArr (concat ts))])])))
            | _ \<Rightarrow> Inr None)
         else if ty = ''namespace'' \<and> bridges_custom target then
           (case jget_str choice ''name'' of
              None \<Rightarrow> Inr None
            | Some ns \<Rightarrow> (case sort (flat_children entries ns) of
                  [name] \<Rightarrow> res_then (validate_public_tool_name_not_reserved name)
                    (Inr (Some (chat_function_choice (JStr name))))
                | _ \<Rightarrow> Inr None))
         else Inr None)"

definition responses_choice :: "string \<Rightarrow> json \<Rightarrow> json" where
  "responses_choice ty name = jobj [(''type'', JStr ty), (''name'', name)]"

text \<open>A named function: a custom tool when the request's context says that it stands for one.\<close>

definition named_function_choice :: "tool_bridge_context option \<Rightarrow> json \<Rightarrow> string + json" where
  "named_function_choice ctx name =
     res_then (public_choice_name name) (Inr (case as_str name of
         Some n \<Rightarrow> responses_choice (if context_expects_wrapper ctx n then ''custom'' else ''function'') name
       | None \<Rightarrow> responses_choice ''function'' name))"

definition allowed_selection_to_responses :: "tool_bridge_context option \<Rightarrow> json \<Rightarrow> string + json" where
  "allowed_selection_to_responses ctx tool =
    (if type_of tool = Some ''function'' then
       (case option_or (jget tool ''name'') (ogetj (jget tool ''function'') ''name'') of
          Some name \<Rightarrow> named_function_choice ctx name | None \<Rightarrow> Inr tool)
     else if type_of tool = Some ''custom'' then
       (case option_or (jget tool ''name'') (ogetj (jget tool ''custom'') ''name'') of
          Some name \<Rightarrow> res_then (public_choice_name name) (Inr (responses_choice ''custom'' name)) | None \<Rightarrow> Inr tool)
     else Inr tool)"

definition openai_tool_choice_to_responses_tool_choice ::
    "json \<Rightarrow> tool_bridge_context option \<Rightarrow> string + json option" where
  "openai_tool_choice_to_responses_tool_choice choice ctx =
    (if as_str choice \<noteq> None then Inr (Some choice)
     else case type_of choice of
       None \<Rightarrow> Inr None
     | Some ty \<Rightarrow>
         if ty = ''function'' then
           (case option_or (jget choice ''name'') (ogetj (jget choice ''function'') ''name'') of
              None \<Rightarrow> Inr None
            | Some name \<Rightarrow> res_bind (named_function_choice ctx name) (\<lambda>v. Inr (Some v)))
         else if ty = ''custom'' then
           (case openai_named_tool_choice_name choice ''custom'' of
              None \<Rightarrow> Inr None
            | Some name \<Rightarrow> res_then (validate_public_tool_name_not_reserved name)
                (Inr (Some (responses_choice ''custom'' (JStr name)))))
         else if ty = ''allowed_tools'' then
           (case jget choice ''allowed_tools'' of
              Some (JObj kvs) \<Rightarrow>
                (case (jget (JObj kvs) ''mode'', jget_array (JObj kvs) ''tools'') of
                   (Some mode, Some tools) \<Rightarrow>
                     res_bind (res_map (allowed_selection_to_responses ctx) tools) (\<lambda>ts.
                       Inr (Some (jobj [(''type'', JStr ''allowed_tools''), (''mode'', mode), (''tools'', JArr ts)])))
                 | _ \<Rightarrow> Inr None)
            | _ \<Rightarrow> Inr None)
         else Inr None)"

definition named_tool_choice :: "tool_bridge_context option \<Rightarrow> string \<Rightarrow> json" where
  "named_tool_choice ctx name =
     responses_choice (if context_expects_wrapper ctx name then ''custom'' else ''function'') (JStr name)"

definition allowed_choice :: "tool_bridge_context option \<Rightarrow> string \<Rightarrow> string list \<Rightarrow> json" where
  "allowed_choice ctx mode names = jobj [(''type'', JStr ''allowed_tools''), (''mode'', JStr mode),
     (''tools'', JArr (map (named_tool_choice ctx) names))]"

fun normalized_tool_policy_to_responses_tool_choice ::
    "tool_policy \<Rightarrow> string list option \<Rightarrow> tool_bridge_context option \<Rightarrow> json" where
  "normalized_tool_policy_to_responses_tool_choice AutoTools None ctx = JStr ''auto''"
| "normalized_tool_policy_to_responses_tool_choice AutoTools (Some names) ctx = allowed_choice ctx ''auto'' names"
| "normalized_tool_policy_to_responses_tool_choice NoTools _ ctx = JStr ''none''"
| "normalized_tool_policy_to_responses_tool_choice RequiredTools None ctx = JStr ''required''"
| "normalized_tool_policy_to_responses_tool_choice RequiredTools (Some [name]) ctx = named_tool_choice ctx name"
| "normalized_tool_policy_to_responses_tool_choice RequiredTools (Some names) ctx = allowed_choice ctx ''required'' names"
| "normalized_tool_policy_to_responses_tool_choice (ForcedFunction name) _ ctx = named_tool_choice ctx name"

end
