(* ===== verification/Responses_Requests.thy ===== *)
theory Responses_Requests
  imports Responses_Content Responses_Choices Call_Bridge
begin

text \<open>
  Requests of the Responses protocol as Chat Completions requests
  (src/src/translate/internal/openai_responses.rs): the input items become messages, with one assistant
  message open at a time and with users' turns held back until the results of tools are written.
\<close>

section \<open>Validation\<close>

fun function_def_public :: "tool_def \<Rightarrow> validation" where
  "function_def_public (FunctionTool f) = validate_public_tool_name_not_reserved (ft_name f)"
| "function_def_public _ = Inr ()"

definition function_item_public :: "env \<Rightarrow> json \<Rightarrow> validation" where
  "function_item_public E item = res_bind (normalized_responses_tool_call E item) (\<lambda>c. case c of
      Some (FunctionCall _ name _ _ _) \<Rightarrow> validate_public_tool_name_not_reserved name
    | _ \<Rightarrow> Inr ())"

definition validate_responses_request_for_custom_bridge :: "env \<Rightarrow> json \<Rightarrow> validation" where
  "validate_responses_request_for_custom_bridge E body =
     res_then (validate_responses_public_tool_metadata body)
       (res_bind (normalized_responses_tool_definitions_from_request body) (\<lambda>tools.
          res_then (res_each function_def_public tools)
            (res_each (function_item_public E) (array_at body ''input''))))"

fun child_entries :: "tool_def \<Rightarrow> namespace_entries" where
  "child_entries (NamespaceTool ns _ children) =
     map (\<lambda>c. (flat_tool_name ns (ft_name c), (ns, ft_name c))) children"
| "child_entries _ = []"

definition namespace_bridge_entries :: "upstream_format \<Rightarrow> json \<Rightarrow> string + namespace_entries" where
  "namespace_bridge_entries target body =
    (if bridges_custom target \<and> jget body ''tools'' \<noteq> None
     then res_bind (normalized_responses_tool_definitions_from_request body) (\<lambda>tools.
       Inr (foldl (\<lambda>m (k, v). omap_insert k v m) [] (concat (map child_entries tools))))
     else Inr [])"

section \<open>The state of the replay\<close>

record replay_state =
  rs_messages :: "json list"
  rs_assistant :: "json option"
  rs_deferred :: "json option"
  rs_kinds :: "(string \<times> semantic_tool_kind) list"
  rs_degraded :: "(string \<times> string) list"

definition empty_replay :: "json list \<Rightarrow> replay_state" where
  "empty_replay ms = \<lparr>rs_messages = ms, rs_assistant = None, rs_deferred = None, rs_kinds = [], rs_degraded = []\<rparr>"

definition push_message :: "json \<Rightarrow> replay_state \<Rightarrow> replay_state" where
  "push_message m s = s\<lparr>rs_messages := rs_messages s @ [m]\<rparr>"

definition chat_turn :: "string \<Rightarrow> json \<Rightarrow> json" where
  "chat_turn role content = jobj [(''role'', JStr role), (''content'', content)]"

definition flush_assistant :: "replay_state \<Rightarrow> replay_state" where
  "flush_assistant s = (case rs_assistant s of
      None \<Rightarrow> s | Some a \<Rightarrow> (push_message a s)\<lparr>rs_assistant := None\<rparr>)"

definition flush_deferred_user_after_tool_results :: "replay_state \<Rightarrow> replay_state" where
  "flush_deferred_user_after_tool_results s = (case rs_deferred s of
      None \<Rightarrow> s | Some content \<Rightarrow> (push_message (chat_turn ''user'' content) s)\<lparr>rs_deferred := None\<rparr>)"

definition assistant_has_pending_tool_calls :: "json option \<Rightarrow> bool" where
  "assistant_has_pending_tool_calls message = (case message of
      None \<Rightarrow> False | Some m \<Rightarrow> array_at m ''tool_calls'' \<noteq> [])"

definition append_deferred_user_after_tool_result_content :: "json \<Rightarrow> json option \<Rightarrow> json option" where
  "append_deferred_user_after_tool_result_content content deferred =
    (if content_value_is_effectively_empty content then deferred
     else case deferred of
       None \<Rightarrow> Some content
     | Some old \<Rightarrow> jget (append_openai_message_content content (jobj [(''content'', old)])) ''content'')"

definition blank_assistant :: json where
  "blank_assistant = chat_turn ''assistant'' JNull"

definition on_assistant :: "(json \<Rightarrow> json) \<Rightarrow> replay_state \<Rightarrow> replay_state" where
  "on_assistant f s = s\<lparr>rs_assistant := Some (f (unwrap_or (rs_assistant s) blank_assistant))\<rparr>"

section \<open>The items\<close>

definition message_step :: "env \<Rightarrow> bool \<Rightarrow> json \<Rightarrow> replay_state \<Rightarrow> string + replay_state" where
  "message_step E next_output item s =
    (let role = unwrap_or (role_of item) ''user'';
         refusal = extract_responses_refusal_text (jget item ''content'')
     in res_bind (map_responses_content_to_openai E (jget item ''content'')) (\<lambda>content. Inr (
       if role = ''assistant'' then
         on_assistant (\<lambda>a. append_openai_message_content content
           (append_openai_message_text_field ''refusal'' refusal (jset ''role'' (JStr ''assistant'') a))) s
       else if role = ''user'' \<and> (assistant_has_pending_tool_calls (rs_assistant s) \<or> rs_deferred s \<noteq> None \<or> next_output)
       then s\<lparr>rs_deferred := append_deferred_user_after_tool_result_content content (rs_deferred s)\<rparr>
       else push_message (chat_turn role content) (flush_assistant s))))"

definition flatten_bridged_item :: "upstream_format \<Rightarrow> namespace_entries \<Rightarrow> json \<Rightarrow> json" where
  "flatten_bridged_item target entries item =
    (if bridges_custom target \<and> jget item ''namespace'' \<noteq> None then
       (let flat = flat_tool_name (unwrap_or (jget_str item ''namespace'') []) (unwrap_or (jget_str item ''name'') [])
        in if map_of entries flat \<noteq> None then jremove ''namespace'' (jset ''name'' (JStr flat) item) else item)
     else item)"

definition degraded_call_step :: "env \<Rightarrow> json \<Rightarrow> replay_state \<Rightarrow> replay_state" where
  "degraded_call_step E item s =
    (let s = on_assistant (\<lambda>a. append_assistant_text_content (responses_tool_call_partial_replay_text E item)
             (jset ''role'' (JStr ''assistant'') a)) s
     in case jget_str item ''call_id'' of
          None \<Rightarrow> s
        | Some i \<Rightarrow> s\<lparr>rs_degraded := hm_insert i (unwrap_or (jget_str item ''name'') ''unknown_tool'') (rs_degraded s)\<rparr>)"

definition add_tool_call :: "json \<Rightarrow> json \<Rightarrow> json" where
  "add_tool_call tc a = with_array ''tool_calls'' (\<lambda>cs. cs @ [tc])
     (if jget a ''tool_calls'' = None then jset ''tool_calls'' (JArr []) a else a)"

definition call_kind :: "env \<Rightarrow> upstream_format \<Rightarrow> json \<Rightarrow> semantic_tool_kind" where
  "call_kind E target item =
    (if bridges_custom target \<and> semantic_tool_kind_from_value E item = KindOpenAiCustom then KindFunction
     else semantic_tool_kind_from_value E item)"

definition convert_call_item :: "env \<Rightarrow> upstream_format \<Rightarrow> json \<Rightarrow> string + json option" where
  "convert_call_item E target item =
    (if bridges_custom target then responses_tool_call_item_to_openai_tool_call_with_bridge_strict E item
     else responses_tool_call_item_to_openai_tool_call_strict E item)"

definition call_step ::
    "env \<Rightarrow> upstream_format \<Rightarrow> namespace_entries \<Rightarrow> json \<Rightarrow> replay_state \<Rightarrow> string + replay_state" where
  "call_step E target entries item0 s =
    (let item = flatten_bridged_item target entries item0 in
     if target = Anthropic \<and> tool_call_is_marked_non_replayable E item then Inr (degraded_call_step E item s)
     else res_bind (convert_call_item E target item) (\<lambda>tc. Inr (case tc of
         None \<Rightarrow> s
       | Some tc \<Rightarrow> on_assistant (add_tool_call tc) (case jget_str item ''call_id'' of
             None \<Rightarrow> s | Some i \<Rightarrow> s\<lparr>rs_kinds := hm_insert i (call_kind E target item) (rs_kinds s)\<rparr>))))"

definition responses_tool_output_partial_replay_text :: "env \<Rightarrow> string option \<Rightarrow> json option \<Rightarrow> string" where
  "responses_tool_output_partial_replay_text E name output =
    (let n = unwrap_or name ''unknown_tool'';
         rendered = (case output of
             None \<Rightarrow> []
           | Some (JStr t) \<Rightarrow> trim t
           | Some (JArr items) \<Rightarrow>
               (let t = trim (concat (List.map_filter (\<lambda>i. jget_str i ''text'') items))
                in if t = [] then json_text E (JArr (filter (\<lambda>i. type_of i \<noteq> Some ''encrypted_content'') items)) else t)
           | Some v \<Rightarrow> json_text E v)
     in if rendered = [] then ''Tool result for `'' @ n @ ''` was returned.''
        else ''Tool result for `'' @ n @ ''`: '' @ rendered)"

definition tool_message :: "json \<Rightarrow> json \<Rightarrow> json" where
  "tool_message i content = jobj [(''role'', JStr ''tool''), (''tool_call_id'', i), (''content'', content)]"

definition after_output :: "bool \<Rightarrow> replay_state \<Rightarrow> replay_state" where
  "after_output next_output s = (if next_output then s else flush_deferred_user_after_tool_results s)"

definition output_step :: "env \<Rightarrow> upstream_format \<Rightarrow> bool \<Rightarrow> json \<Rightarrow> replay_state \<Rightarrow> string + replay_state" where
  "output_step E target next_output item s0 =
    (let s = flush_assistant s0; i = jget_str item ''call_id'' in
     case Option.bind i (hm_get (rs_degraded s)) of
       Some name \<Rightarrow>
         (let s = s\<lparr>rs_degraded := hm_remove (unwrap_or i []) (rs_degraded s)\<rparr>
          in Inr (after_output next_output (push_message (chat_turn ''user''
               (JStr (responses_tool_output_partial_replay_text E (Some name) (jget item ''output'')))) s)))
     | None \<Rightarrow>
         (let kind = unwrap_or (Option.bind i (hm_get (rs_kinds s))) (semantic_tool_kind_from_value E item) in
          if kind = KindOpenAiCustom \<and> target \<noteq> OpenAiChatCompletions
          then Inl (custom_tools_not_portable_message target)
          else res_bind (responses_tool_output_to_openai_tool_content target (jget item ''output'')) (\<lambda>content.
            Inr (after_output next_output (push_message (tool_message (jopt (jget item ''call_id'')) content) s)))))"

definition reasoning_step :: "upstream_format \<Rightarrow> json \<Rightarrow> replay_state \<Rightarrow> replay_state" where
  "reasoning_step target item s =
    (if target = Anthropic then
       (case responses_reasoning_unsigned_summary_blocks_for_anthropic_request item of
          None \<Rightarrow> s
        | Some blocks \<Rightarrow> on_assistant (append_openai_message_anthropic_reasoning_replay_blocks blocks) s)
     else (let summary = responses_reasoning_summary_text item in
       if summary = [] then s
       else on_assistant (\<lambda>a. jset ''reasoning_content''
         (JStr (unwrap_or (jget_str a ''reasoning_content'') [] @ summary)) a) s))"

definition user_note :: "string \<Rightarrow> replay_state \<Rightarrow> replay_state" where
  "user_note text s =
     push_message (chat_turn ''user'' (JStr text)) (flush_deferred_user_after_tool_results (flush_assistant s))"

definition responses_item_step ::
    "env \<Rightarrow> upstream_format \<Rightarrow> namespace_entries \<Rightarrow> bool \<Rightarrow> json \<Rightarrow> replay_state \<Rightarrow> string + replay_state" where
  "responses_item_step E target entries next_output item s = (case responses_input_item_type item of
      None \<Rightarrow> Inr s
    | Some ty \<Rightarrow>
        if ty = ''message'' then message_step E next_output item s
        else if ty \<in> {''function_call'', ''custom_tool_call''} then call_step E target entries item s
        else if ty \<in> {''function_call_output'', ''custom_tool_call_output''} then output_step E target next_output item s
        else if ty = ''reasoning'' then Inr (reasoning_step target item s)
        else if ty \<in> {''compaction'', ''compaction_summary''} then
          Inr (let summary = responses_compaction_summary_text item in if summary = [] then s else user_note summary s)
        else if ty = ''agent_message'' then
          Inr (case responses_agent_message_text item of None \<Rightarrow> s | Some text \<Rightarrow> user_note text s)
        else Inr s)"

fun responses_items ::
    "env \<Rightarrow> upstream_format \<Rightarrow> namespace_entries \<Rightarrow> json list \<Rightarrow> replay_state \<Rightarrow> string + replay_state" where
  "responses_items E target entries [] s = Inr s"
| "responses_items E target entries (item # items) s =
     res_bind (responses_item_step E target entries
         (case items of [] \<Rightarrow> False | next # _ \<Rightarrow> responses_item_is_tool_output next) item s)
       (responses_items E target entries items)"

definition responses_input_items :: "json \<Rightarrow> string + json list" where
  "responses_input_items body = (case jget body ''input'' of
      None \<Rightarrow> Inl ''missing input''
    | Some (JStr t) \<Rightarrow> Inr [jobj [(''type'', JStr ''message''), (''role'', JStr ''user''),
        (''content'', JArr [jobj [(''type'', JStr ''input_text''), (''text'', JStr t)]])]]
    | Some (JArr items) \<Rightarrow> Inr items
    | Some _ \<Rightarrow> Inl ''input must be array or string'')"

definition responses_conversation ::
    "env \<Rightarrow> upstream_format \<Rightarrow> namespace_entries \<Rightarrow> json list \<Rightarrow> json list \<Rightarrow> string + json list" where
  "responses_conversation E target entries system items =
     res_bind (responses_items E target entries items (empty_replay system)) (\<lambda>s.
       Inr (rs_messages (flush_deferred_user_after_tool_results (flush_assistant s))))"

section \<open>The whole request\<close>

definition wanted :: "bool \<Rightarrow> 'a option \<Rightarrow> 'a option" where
  "wanted b v = (if b then v else None)"

definition logprobs_flag :: "logprobs_controls option \<Rightarrow> json option" where
  "logprobs_flag l = (case l of
      Some c \<Rightarrow> if lp_enabled c \<or> lp_top_logprobs c \<noteq> None then Some (JBool True) else None | None \<Rightarrow> None)"

definition chat_request_head :: "json \<Rightarrow> json list \<Rightarrow> shared_control_profile \<Rightarrow> request_controls \<Rightarrow> json" where
  "chat_request_head body messages profile rc =
    (let out = set_opt ''model'' (jget body ''model'') (jobj []);
         out = jset ''messages'' (JArr messages) out;
         out = set_opt ''stream'' (jget body ''stream'') out;
         out = set_opt ''max_completion_tokens'' (jget body ''max_output_tokens'') out;
         out = set_opt ''temperature'' (jget body ''temperature'') out;
         out = set_opt ''top_p'' (jget body ''top_p'') out
     in set_opt ''logprobs'' (wanted (sc_top_logprobs profile) (logprobs_flag (rc_logprobs rc))) out)"

definition chat_request_controls ::
    "upstream_format \<Rightarrow> shared_control_profile \<Rightarrow> request_controls \<Rightarrow> json \<Rightarrow> json" where
  "chat_request_controls target profile rc out =
    (let out = set_opt ''parallel_tool_calls'' (wanted (sc_parallel_tool_calls profile) (rc_parallel_tool_calls rc)) out;
         out = set_opt ''metadata'' (wanted (sc_metadata profile) (rc_metadata rc)) out;
         out = set_opt ''user'' (wanted (sc_user profile) (rc_user rc)) out;
         out = set_opt ''service_tier'' (wanted (sc_service_tier profile) (rc_service_tier rc)) out;
         out = (case wanted (sc_stream_include_obfuscation profile) (rc_stream_include_obfuscation rc) of
             Some v \<Rightarrow> insert_stream_include_obfuscation v out | None \<Rightarrow> out);
         out = set_opt ''verbosity'' (wanted (sc_verbosity profile) (rc_verbosity rc)) out;
         out = set_opt ''reasoning_effort'' (wanted (sc_reasoning_effort profile) (rc_reasoning_effort rc)) out;
         out = set_opt ''prompt_cache_key'' (wanted (sc_prompt_cache_key profile) (rc_prompt_cache_key rc)) out;
         out = set_opt ''prompt_cache_retention'' (wanted (sc_prompt_cache_retention profile) (rc_prompt_cache_retention rc)) out;
         out = set_opt ''safety_identifier'' (wanted (sc_safety_identifier profile) (rc_safety_identifier rc)) out;
         out = set_opt ''top_logprobs'' (wanted (sc_top_logprobs profile)
             (Option.bind (rc_logprobs rc) lp_top_logprobs)) out;
         out = set_opt ''response_format'' (map_option normalized_output_shape_to_openai_response_format (rc_output_shape rc)) out
     in set_opt ''extra_body'' (wanted (target = Anthropic) (map_option
          (\<lambda>cache. jobj [(''anthropic'', jobj [(''cache_control'', cache)])]) (rc_anthropic_cache_control rc))) out)"

definition check_tool_conflicts :: "upstream_format \<Rightarrow> tool_def list \<Rightarrow> validation" where
  "check_tool_conflicts target tools =
    (if \<not> bridges_custom target then Inr ()
     else case request_scoped_openai_custom_bridge_conflict_name tools of
       Some n \<Rightarrow> Inl (''OpenAI Responses function/custom tools using the same stable name `'' @ n
         @ ''` cannot be faithfully translated to '' @ translation_target_label target @ ''.'')
     | None \<Rightarrow> (case request_scoped_openai_namespace_bridge_conflict_name tools of
           Some n \<Rightarrow> res_then (validate_public_tool_name_not_reserved n)
             (Inl (''OpenAI Responses tool name `'' @ n
               @ ''` collides with a namespace bridge flattened name and cannot be faithfully translated to ''
               @ translation_target_label target @ ''.''))
         | None \<Rightarrow> Inr ()))"

fun flatten_tool :: "tool_def \<Rightarrow> tool_def list" where
  "flatten_tool (NamespaceTool ns _ children) =
     map (\<lambda>c. FunctionTool (c\<lparr>ft_name := flat_tool_name ns (ft_name c)\<rparr>)) children"
| "flatten_tool t = [t]"

definition chat_request_tools :: "upstream_format \<Rightarrow> json \<Rightarrow> json \<Rightarrow> string + json" where
  "chat_request_tools target body out =
    (if jget body ''tools'' = None then Inr out
     else res_bind (normalized_responses_tool_definitions_from_request body) (\<lambda>tools.
       res_then (check_tool_conflicts target tools)
         (res_bind (res_map (if bridges_custom target then normalized_tool_definition_to_openai_with_bridge target
             else normalized_tool_definition_to_openai) (concat (map flatten_tool tools))) (\<lambda>ts.
           let out = (if ts = [] then out else jset ''tools'' (JArr ts) out)
           in Inr (set_opt tool_bridge_context_field (wanted (bridges_custom target)
                (map_option tool_bridge_context_to_value (request_scoped_openai_custom_bridge_context tools))) out)))))"

definition responses_to_messages :: "env \<Rightarrow> upstream_format \<Rightarrow> json \<Rightarrow> string + json" where
  "responses_to_messages E target body =
    (let profile = shared_control_profile_for_target target in
     res_then (if bridges_custom target then validate_responses_request_for_custom_bridge E body else Inr ())
     (res_bind (namespace_bridge_entries target body) (\<lambda>entries.
      res_bind (responses_normalized_request_controls body) (\<lambda>rc.
      res_bind (responses_input_items body) (\<lambda>items.
      res_bind (responses_conversation E target entries
        (case jget_str body ''instructions'' of None \<Rightarrow> [] | Some t \<Rightarrow> [chat_turn ''system'' (JStr t)]) items) (\<lambda>messages.
      res_bind (case jget body ''tool_choice'' of None \<Rightarrow> Inr None
          | Some choice \<Rightarrow> responses_tool_choice_to_openai_tool_choice choice target entries) (\<lambda>choice.
        chat_request_tools target body (chat_request_controls target profile rc
          (set_opt ''tool_choice'' choice (chat_request_head body messages profile rc))))))))))"

end
