(* ===== verification/Responses_Replay.thy ===== *)
theory Responses_Replay
  imports Responses_Requests
begin

text \<open>
  What the replay of a Responses conversation as Chat Completions messages keeps: calls of tools and
  their results, in their order, and the place of a result right behind its call.
\<close>

section \<open>Calls and results\<close>

datatype tool_event = Called json | Answered json json

definition chat_events :: "json \<Rightarrow> tool_event list" where
  "chat_events m = (case jget m ''tool_call_id'' of
      Some i \<Rightarrow> [Answered i (unwrap_or (jget m ''content'') JNull)]
    | None \<Rightarrow> map Called (array_at m ''tool_calls''))"

definition item_events :: "env \<Rightarrow> upstream_format \<Rightarrow> namespace_entries \<Rightarrow> json \<Rightarrow> tool_event list" where
  "item_events E target entries item =
    (if responses_input_item_type item \<in> {Some ''function_call'', Some ''custom_tool_call''} then
       (case convert_call_item E target (flatten_bridged_item target entries item) of
          Inr (Some tc) \<Rightarrow> [Called tc] | _ \<Rightarrow> [])
     else if responses_input_item_type item \<in> {Some ''function_call_output'', Some ''custom_tool_call_output''} then
       (case responses_tool_output_to_openai_tool_content target (jget item ''output'') of
          Inr content \<Rightarrow> [Answered (jopt (jget item ''call_id'')) content] | Inl _ \<Rightarrow> [])
     else [])"

definition no_degraded_call :: "env \<Rightarrow> upstream_format \<Rightarrow> namespace_entries \<Rightarrow> json \<Rightarrow> bool" where
  "no_degraded_call E target entries item =
     (target = Anthropic \<longrightarrow> \<not> tool_call_is_marked_non_replayable E (flatten_bridged_item target entries item))"

definition assistant_events :: "replay_state \<Rightarrow> tool_event list" where
  "assistant_events s = (case rs_assistant s of None \<Rightarrow> [] | Some a \<Rightarrow> chat_events a)"

definition assistant_ok :: "json \<Rightarrow> bool" where
  "assistant_ok a = (is_object a \<and> role_of a = Some ''assistant'' \<and> jget a ''tool_call_id'' = None
     \<and> (jget a ''tool_calls'' = None \<or> (\<exists>cs. jget a ''tool_calls'' = Some (JArr cs))))"

definition replay_inv :: "tool_event list \<Rightarrow> replay_state \<Rightarrow> bool" where
  "replay_inv es s = (concat (map chat_events (rs_messages s)) @ assistant_events s = es
     \<and> rs_degraded s = [] \<and> (\<forall>a. rs_assistant s = Some a \<longrightarrow> assistant_ok a))"

lemma events_of_turn [simp]: "chat_events (chat_turn role content) = []"
  by (simp add: chat_events_def chat_turn_def array_at_def jget_array_def)

lemma events_of_tool [simp]: "chat_events (tool_message i content) = [Answered i content]"
  by (simp add: chat_events_def tool_message_def)

lemma blank_ok [simp]: "assistant_ok blank_assistant" "chat_events blank_assistant = []"
  by (simp_all add: assistant_ok_def blank_assistant_def chat_turn_def jget_str_def chat_events_def array_at_def
      jget_array_def)

text \<open>A change of the open assistant message that leaves its calls alone.\<close>

definition keeps_calls :: "(json \<Rightarrow> json) \<Rightarrow> bool" where
  "keeps_calls f = (\<forall>a. assistant_ok a \<longrightarrow> assistant_ok (f a) \<and> chat_events (f a) = chat_events a)"

lemma same_events:
  assumes "jget m ''tool_call_id'' = None" and "jget m' ''tool_call_id'' = None"
    and "jget m' ''tool_calls'' = jget m ''tool_calls''"
  shows "chat_events m' = chat_events m"
  using assms by (simp add: chat_events_def array_at_def jget_array_def)

lemma keeps_callsI:
  assumes "\<And>a. assistant_ok a \<Longrightarrow> is_object (f a)"
    and "\<And>a. assistant_ok a \<Longrightarrow> role_of (f a) = Some ''assistant''"
    and "\<And>a. assistant_ok a \<Longrightarrow> jget (f a) ''tool_call_id'' = jget a ''tool_call_id''"
    and "\<And>a. assistant_ok a \<Longrightarrow> jget (f a) ''tool_calls'' = jget a ''tool_calls''"
  shows "keeps_calls f"
  unfolding keeps_calls_def
proof (intro allI impI)
  fix a assume ok: "assistant_ok a"
  then have "jget a ''tool_call_id'' = None" by (simp add: assistant_ok_def)
  then show "assistant_ok (f a) \<and> chat_events (f a) = chat_events a"
    using assms [OF ok] ok same_events [of a "f a"] unfolding assistant_ok_def by simp
qed

definition other_field :: "string \<Rightarrow> bool" where
  "other_field k = (''role'' \<noteq> k \<and> ''tool_call_id'' \<noteq> k \<and> ''tool_calls'' \<noteq> k)"

lemma assistant_okD:
  assumes "assistant_ok a"
  shows "is_object a" and "role_of a = Some ''assistant''"
  using assms by (simp_all only: assistant_ok_def)

lemma keeps_calls_jset:
  assumes "\<And>a. f a = a \<or> (\<exists>k v. other_field k \<and> f a = jset k v a)"
  shows "keeps_calls f"
proof (rule keeps_callsI)
  fix a assume ok: "assistant_ok a"
  note a = assistant_okD [OF ok]
  from assms [of a] consider "f a = a" | k v where "f a = jset k v a" "other_field k" by metis
  note c = this
  show "is_object (f a)" using c by cases (simp_all only: a is_object_jset)
  show "role_of (f a) = Some ''assistant''"
    using c a(2) by cases (simp_all add: jget_str_def jget_jset [OF a(1)] other_field_def)
  show "jget (f a) ''tool_call_id'' = jget a ''tool_call_id''" "jget (f a) ''tool_calls'' = jget a ''tool_calls''"
    using c by (cases, simp_all add: jget_jset [OF a(1)] other_field_def)+
qed

lemma keeps_calls_comp: "keeps_calls f \<Longrightarrow> keeps_calls g \<Longrightarrow> keeps_calls (\<lambda>a. f (g a))"
  by (simp add: keeps_calls_def)

lemma keeps_role: "keeps_calls (jset ''role'' (JStr ''assistant''))"
proof (rule keeps_callsI)
  fix a assume ok: "assistant_ok a"
  note j = jget_jset [OF assistant_okD(1) [OF ok]]
  show "is_object (jset ''role'' (JStr ''assistant'') a)" by (rule is_object_jset [OF assistant_okD(1) [OF ok]])
  show "role_of (jset ''role'' (JStr ''assistant'') a) = Some ''assistant''"
    "jget (jset ''role'' (JStr ''assistant'') a) ''tool_call_id'' = jget a ''tool_call_id''"
    "jget (jset ''role'' (JStr ''assistant'') a) ''tool_calls'' = jget a ''tool_calls''"
    by (simp_all add: j jget_str_def)
qed

lemma other_fields: "other_field ''content''" "other_field ''refusal''" "other_field ''reasoning_content''"
  by (simp_all add: other_field_def)

lemma keeps_content: "keeps_calls (append_openai_message_content content)"
  using other_fields(1)
  by (intro keeps_calls_jset) (auto simp only: append_openai_message_content_def Let_def split: if_split)

lemma keeps_text_field: "other_field field \<Longrightarrow> keeps_calls (append_openai_message_text_field field t)"
  by (intro keeps_calls_jset) (auto simp only: append_openai_message_text_field_def Let_def split: if_split)

lemma keeps_reasoning: "keeps_calls (\<lambda>a. jset ''reasoning_content'' (JStr (unwrap_or (jget_str a ''reasoning_content'') [] @ t)) a)"
  using other_fields(3) by (intro keeps_calls_jset) blast

lemma jget_append_replay:
  "k \<noteq> replay_field \<Longrightarrow> jget (append_openai_message_anthropic_reasoning_replay_blocks blocks a) k = jget a k"
  "is_object (append_openai_message_anthropic_reasoning_replay_blocks blocks a) = is_object a"
  by (auto simp: append_openai_message_anthropic_reasoning_replay_blocks_def jget_or_insert with_array_def
      jget_array_Some dest: jget_Some_object split: option.split)

lemma keeps_replay: "keeps_calls (append_openai_message_anthropic_reasoning_replay_blocks blocks)"
proof (rule keeps_callsI)
  fix a assume ok: "assistant_ok a"
  note a = assistant_okD [OF ok]
  show "is_object (append_openai_message_anthropic_reasoning_replay_blocks blocks a)"
    using a(1) by (simp only: jget_append_replay(2))
  show "role_of (append_openai_message_anthropic_reasoning_replay_blocks blocks a) = Some ''assistant''"
    "jget (append_openai_message_anthropic_reasoning_replay_blocks blocks a) ''tool_call_id'' = jget a ''tool_call_id''"
    "jget (append_openai_message_anthropic_reasoning_replay_blocks blocks a) ''tool_calls'' = jget a ''tool_calls''"
    using a(2) by (simp_all add: jget_append_replay(1) replay_field_def jget_str_def)
qed

section \<open>Every step keeps them\<close>

lemma on_assistant_keeps:
  assumes "replay_inv es s" and "keeps_calls f"
  shows "replay_inv es (on_assistant f s)"
  using assms
  by (cases "rs_assistant s") (simp_all add: replay_inv_def on_assistant_def assistant_events_def keeps_calls_def)

lemma flush_assistant_keeps:
  assumes "replay_inv es s"
  shows "replay_inv es (flush_assistant s)" and "rs_assistant (flush_assistant s) = None"
  using assms
  by (cases "rs_assistant s"; simp add: replay_inv_def flush_assistant_def push_message_def assistant_events_def)+

lemma push_message_keeps:
  assumes "replay_inv es s" and "rs_assistant s = None"
  shows "replay_inv (es @ chat_events m) (push_message m s)"
  using assms by (simp add: replay_inv_def push_message_def assistant_events_def)

lemma deferred_keeps:
  assumes "replay_inv es s" and "rs_assistant s = None"
  shows "replay_inv es (flush_deferred_user_after_tool_results s)"
    and "rs_assistant (flush_deferred_user_after_tool_results s) = None"
  using assms
  by (cases "rs_deferred s"; simp add: replay_inv_def flush_deferred_user_after_tool_results_def push_message_def
      assistant_events_def)+

lemma set_deferred_keeps: "replay_inv es s \<Longrightarrow> replay_inv es (s\<lparr>rs_deferred := d\<rparr>)"
  by (simp add: replay_inv_def assistant_events_def)

lemma set_kinds_keeps: "replay_inv es s \<Longrightarrow> replay_inv es (s\<lparr>rs_kinds := d\<rparr>)"
  by (simp add: replay_inv_def assistant_events_def)

lemma message_step_Inr:
  assumes "message_step E next item s = Inr s'"
  obtains content where "s' = (if unwrap_or (role_of item) ''user'' = ''assistant'' then
       on_assistant (\<lambda>a. append_openai_message_content content
         (append_openai_message_text_field ''refusal'' (extract_responses_refusal_text (jget item ''content''))
           (jset ''role'' (JStr ''assistant'') a))) s
     else if unwrap_or (role_of item) ''user'' = ''user''
       \<and> (assistant_has_pending_tool_calls (rs_assistant s) \<or> rs_deferred s \<noteq> None \<or> next)
     then s\<lparr>rs_deferred := append_deferred_user_after_tool_result_content content (rs_deferred s)\<rparr>
     else push_message (chat_turn (unwrap_or (role_of item) ''user'') content) (flush_assistant s))"
  using assms unfolding message_step_def Let_def res_bind_Inr sum.inject by (elim exE conjE) (rule that, rule sym)

lemma message_step_keeps:
  assumes "replay_inv es s" and "message_step E next item s = Inr s'"
  shows "replay_inv es s'"
  using assms(2)
proof (rule message_step_Inr)
  fix content
  assume s': "s' = (if unwrap_or (role_of item) ''user'' = ''assistant'' then
       on_assistant (\<lambda>a. append_openai_message_content content
         (append_openai_message_text_field ''refusal'' (extract_responses_refusal_text (jget item ''content''))
           (jset ''role'' (JStr ''assistant'') a))) s
     else if unwrap_or (role_of item) ''user'' = ''user''
       \<and> (assistant_has_pending_tool_calls (rs_assistant s) \<or> rs_deferred s \<noteq> None \<or> next)
     then s\<lparr>rs_deferred := append_deferred_user_after_tool_result_content content (rs_deferred s)\<rparr>
     else push_message (chat_turn (unwrap_or (role_of item) ''user'') content) (flush_assistant s))"
  have "keeps_calls (\<lambda>a. append_openai_message_content content
      (append_openai_message_text_field ''refusal'' r (jset ''role'' (JStr ''assistant'') a)))" for r
    by (rule keeps_calls_comp [OF keeps_content keeps_calls_comp [OF keeps_text_field [OF other_fields(2)] keeps_role]])
  note A = on_assistant_keeps [OF assms(1) this]
  have C: "replay_inv es (push_message (chat_turn r c) (flush_assistant s))" for r c
    using push_message_keeps [OF flush_assistant_keeps [OF assms(1)], of "chat_turn r c"] by simp
  show ?thesis by (simp only: s' if_distrib [of "replay_inv es"] A C set_deferred_keeps [OF assms(1)] if_cancel)
qed

lemma add_tool_call_events:
  assumes "assistant_ok a"
  shows "assistant_ok (add_tool_call tc a)" and "chat_events (add_tool_call tc a) = chat_events a @ [Called tc]"
proof -
  let ?b = "if jget a ''tool_calls'' = None then jset ''tool_calls'' (JArr []) a else a"
  note j = jget_jset [OF assistant_okD(1) [OF assms]]
  obtain cs where cs: "jget ?b ''tool_calls'' = Some (JArr cs)" and csa: "array_at a ''tool_calls'' = cs"
    using assms by (cases "jget a ''tool_calls''") (auto simp: assistant_ok_def array_at_def jget_array_def j)
  have b: "is_object ?b" "role_of ?b = Some ''assistant''" "jget ?b ''tool_call_id'' = None"
    using assms by (simp_all add: assistant_ok_def jget_str_def j)
  have n: "add_tool_call tc a = jset ''tool_calls'' (JArr (cs @ [tc])) ?b"
    using cs by (simp add: add_tool_call_def with_array_def jget_array_def)
  note jb = jget_jset [OF b(1)]
  show "assistant_ok (add_tool_call tc a)"
    unfolding n assistant_ok_def jget_str_def jb using b by (simp add: jget_str_def is_object_jset)
  have "jget a ''tool_call_id'' = None" using assms by (simp add: assistant_ok_def)
  then show "chat_events (add_tool_call tc a) = chat_events a @ [Called tc]"
    unfolding n chat_events_def array_at_def jget_array_def jb using b csa
    by (simp add: array_at_def jget_array_def)
qed

text \<open>The events of one item, and the state they leave.\<close>

lemma add_call_keeps:
  assumes "replay_inv es s"
  shows "replay_inv (es @ [Called tc]) (on_assistant (add_tool_call tc) s)"
proof -
  let ?a = "unwrap_or (rs_assistant s) blank_assistant"
  have a: "assistant_ok ?a" "chat_events ?a = assistant_events s"
    using assms by (cases "rs_assistant s"; simp add: replay_inv_def assistant_events_def)+
  have "replay_inv (es @ [Called tc]) (s\<lparr>rs_assistant := Some b\<rparr>)"
    if "assistant_ok b" "chat_events b = assistant_events s @ [Called tc]" for b
    using that assms by (simp add: replay_inv_def assistant_events_def)
  from this [OF add_tool_call_events [OF a(1), of tc, unfolded a(2)]] show ?thesis
    unfolding on_assistant_def .
qed

lemma call_step_keeps:
  assumes "replay_inv es s" and "no_degraded_call E target entries item"
    and "call_step E target entries item s = Inr s'"
  shows "replay_inv (es @ (case convert_call_item E target (flatten_bridged_item target entries item) of
      Inr (Some tc) \<Rightarrow> [Called tc] | _ \<Rightarrow> [])) s'"
proof -
  let ?item = "flatten_bridged_item target entries item"
  have "\<not> (target = Anthropic \<and> tool_call_is_marked_non_replayable E ?item)"
    using assms(2) by (simp add: no_degraded_call_def)
  then obtain tc where tc: "convert_call_item E target ?item = Inr tc" and s': "s' = (case tc of
         None \<Rightarrow> s
       | Some tc \<Rightarrow> on_assistant (add_tool_call tc) (case jget_str ?item ''call_id'' of
             None \<Rightarrow> s | Some i \<Rightarrow> s\<lparr>rs_kinds := hm_insert i (call_kind E target ?item) (rs_kinds s)\<rparr>))"
    using assms(3) unfolding call_step_def Let_def by (auto simp only: if_False res_bind_Inr sum.inject)
  have k: "replay_inv es (case jget_str ?item ''call_id'' of
      None \<Rightarrow> s | Some i \<Rightarrow> s\<lparr>rs_kinds := hm_insert i (call_kind E target ?item) (rs_kinds s)\<rparr>)"
    using assms(1) set_kinds_keeps by (simp split: option.split)
  show ?thesis unfolding tc s' using assms(1) add_call_keeps [OF k] by (cases tc) simp_all
qed

lemma after_output_keeps:
  "replay_inv es s \<Longrightarrow> rs_assistant s = None \<Longrightarrow> replay_inv es (after_output next s)"
  by (simp add: after_output_def deferred_keeps)

lemma output_step_keeps:
  assumes "replay_inv es s" and "output_step E target next item s = Inr s'"
  shows "replay_inv (es @ (case responses_tool_output_to_openai_tool_content target (jget item ''output'') of
      Inr content \<Rightarrow> [Answered (jopt (jget item ''call_id'')) content] | Inl _ \<Rightarrow> [])) s'"
proof -
  note f = flush_assistant_keeps [OF assms(1)]
  have "Option.bind (jget_str item ''call_id'') (hm_get (rs_degraded (flush_assistant s))) = None"
    using f(1) by (cases "jget_str item ''call_id''") (simp_all add: replay_inv_def)
  then obtain content where c: "responses_tool_output_to_openai_tool_content target (jget item ''output'') = Inr content"
    and s': "s' = after_output next (push_message (tool_message (jopt (jget item ''call_id'')) content) (flush_assistant s))"
    using assms(2) unfolding output_step_def Let_def
    by (auto simp only: option.case res_bind_Inr sum.inject sum.simps split: if_splits)
  have p: "replay_inv (es @ [Answered (jopt (jget item ''call_id'')) content])
      (push_message (tool_message (jopt (jget item ''call_id'')) content) (flush_assistant s))"
    using push_message_keeps [OF f, of "tool_message (jopt (jget item ''call_id'')) content"] by simp
  show ?thesis unfolding c s' using after_output_keeps [OF p] f(2) by (simp add: push_message_def)
qed

lemma reasoning_step_keeps: "replay_inv es s \<Longrightarrow> replay_inv es (reasoning_step target item s)"
  using on_assistant_keeps [OF _ keeps_replay] on_assistant_keeps [OF _ keeps_reasoning]
  unfolding reasoning_step_def Let_def by (auto split: option.split)

lemma user_note_keeps:
  assumes "replay_inv es s"
  shows "replay_inv es (user_note text s)"
proof -
  note f = deferred_keeps [OF flush_assistant_keeps [OF assms]]
  show ?thesis using push_message_keeps [OF f, of "chat_turn ''user'' (JStr text)"] by (simp add: user_note_def)
qed

lemma step_cases:
  assumes "(if a then m else if b then Inr r else if c then Inr (if d then s else n)
      else if e then Inr (case x of None \<Rightarrow> s | Some t \<Rightarrow> f t) else Inr s) = Inr s'"
  shows "m = Inr s' \<or> s' = r \<or> s' = s \<or> s' = n \<or> (\<exists>t. s' = f t)"
  using assms by (auto split: if_splits option.splits)

lemma item_step_keeps:
  assumes "replay_inv es s" and "no_degraded_call E target entries item"
    and "responses_item_step E target entries next item s = Inr s'"
  shows "replay_inv (es @ item_events E target entries item) s'"
proof (cases "responses_input_item_type item")
  case None
  then show ?thesis using assms by (simp add: responses_item_step_def item_events_def)
next
  case (Some ty)
  note step = assms(3) [unfolded responses_item_step_def Some option.case]
  consider (call) "ty \<in> {''function_call'', ''custom_tool_call''}"
    | (answer) "ty \<in> {''function_call_output'', ''custom_tool_call_output''}"
    | (other) "ty \<notin> {''function_call'', ''custom_tool_call''}" "ty \<notin> {''function_call_output'', ''custom_tool_call_output''}"
    by blast
  then show ?thesis
  proof cases
    case call
    then have "call_step E target entries item s = Inr s'" using step by (auto split: if_splits)
    moreover have "item_events E target entries item = (case convert_call_item E target (flatten_bridged_item target entries item) of
        Inr (Some tc) \<Rightarrow> [Called tc] | _ \<Rightarrow> [])"
      using call Some by (auto simp: item_events_def)
    ultimately show ?thesis using call_step_keeps [OF assms(1,2)] by simp
  next
    case answer
    then have "output_step E target next item s = Inr s'" using step by (auto split: if_splits)
    moreover have "item_events E target entries item
        = (case responses_tool_output_to_openai_tool_content target (jget item ''output'') of
            Inr content \<Rightarrow> [Answered (jopt (jget item ''call_id'')) content] | Inl _ \<Rightarrow> [])"
      using answer Some by (auto simp: item_events_def)
    ultimately show ?thesis using output_step_keeps [OF assms(1)] by simp
  next
    case other
    then have "item_events E target entries item = []" using Some by (simp add: item_events_def)
    moreover note step' = step [unfolded if_not_P [OF other(1)] if_not_P [OF other(2)] Let_def]
    note step_cases [OF step']
    then have "replay_inv es s'"
      using assms(1) message_step_keeps [OF assms(1)] reasoning_step_keeps [OF assms(1)] user_note_keeps [OF assms(1)]
      by blast
    ultimately show ?thesis by simp
  qed
qed

lemma items_keep:
  assumes "replay_inv es s" and "\<forall>item \<in> set items. no_degraded_call E target entries item"
    and "responses_items E target entries items s = Inr s'"
  shows "replay_inv (es @ concat (map (item_events E target entries) items)) s'"
  using assms
proof (induction items arbitrary: es s)
  case (Cons item items)
  from Cons.prems(3) obtain s1 where
    step: "responses_item_step E target entries
      (case items of [] \<Rightarrow> False | next # _ \<Rightarrow> responses_item_is_tool_output next) item s = Inr s1"
    and rest: "responses_items E target entries items s1 = Inr s'"
    by (auto simp: res_bind_Inr)
  have "replay_inv (es @ item_events E target entries item) s1"
    using Cons.prems(1,2) by (intro item_step_keeps [OF _ _ step]) simp_all
  from Cons.IH [OF this _ rest] Cons.prems(2) show ?case by simp
qed simp

text \<open>C20.
  The messages a Chat Completions or Anthropic upstream gets for a Responses conversation hold the calls
  of tools and their results exactly in the order of the input items, whatever messages, reasoning and
  summaries stand between them: none is lost, doubled or moved. Only a call marked as cut off, which an
  Anthropic upstream gets as text, is outside of the statement.\<close>

theorem replay_keeps_calls_and_results:
  assumes "\<forall>item \<in> set items. no_degraded_call E target entries item"
    and "responses_conversation E target entries system items = Inr messages"
    and "concat (map chat_events system) = []"
  shows "concat (map chat_events messages) = concat (map (item_events E target entries) items)"
proof -
  obtain s where s: "responses_items E target entries items (empty_replay system) = Inr s"
    and m: "messages = rs_messages (flush_deferred_user_after_tool_results (flush_assistant s))"
    using assms(2) by (auto simp: responses_conversation_def res_bind_Inr)
  have "replay_inv [] (empty_replay system)"
    using assms(3) by (simp add: replay_inv_def empty_replay_def assistant_events_def)
  note inv = items_keep [OF this assms(1) s]
  note last = deferred_keeps [OF flush_assistant_keeps [OF inv]]
  show ?thesis using last by (simp add: m replay_inv_def assistant_events_def)
qed

theorem replay_keeps_calls_and_results_witness:
  "\<exists>messages. responses_conversation example_env OpenAiChatCompletions []
       [chat_turn ''system'' (JStr ''be brief'')]
       [jobj [(''type'', JStr ''function_call''), (''call_id'', JStr ''c1''), (''name'', JStr ''search''), (''arguments'', JStr ''{}'')],
        jobj [(''role'', JStr ''user''), (''content'', JStr ''and?'')],
        jobj [(''type'', JStr ''function_call_output''), (''call_id'', JStr ''c1''), (''output'', JStr ''found'')]] = Inr messages
    \<and> concat (map chat_events messages) =
       [Called (jobj [(''id'', JStr ''c1''), (''type'', JStr ''function''),
          (''function'', jobj [(''name'', JStr ''search''), (''arguments'', JStr ''{}'')])]),
        Answered (JStr ''c1'') (JStr ''found'')]"
proof -
  let ?items = "[jobj [(''type'', JStr ''function_call''), (''call_id'', JStr ''c1''), (''name'', JStr ''search''), (''arguments'', JStr ''{}'')],
      jobj [(''role'', JStr ''user''), (''content'', JStr ''and?'')],
      jobj [(''type'', JStr ''function_call_output''), (''call_id'', JStr ''c1''), (''output'', JStr ''found'')]]"
  let ?conv = "responses_conversation example_env OpenAiChatCompletions [] [chat_turn ''system'' (JStr ''be brief'')] ?items"
  have "case ?conv of Inr _ \<Rightarrow> True | Inl _ \<Rightarrow> False" by code_simp
  then obtain messages where m: "?conv = Inr messages" by (cases ?conv) simp_all
  have "concat (map (item_events example_env OpenAiChatCompletions []) ?items) =
      [Called (jobj [(''id'', JStr ''c1''), (''type'', JStr ''function''),
          (''function'', jobj [(''name'', JStr ''search''), (''arguments'', JStr ''{}'')])]),
        Answered (JStr ''c1'') (JStr ''found'')]" by code_simp
  with m replay_keeps_calls_and_results [OF _ m] show ?thesis
    by (simp add: no_degraded_call_def)
qed

section \<open>Results stand behind their calls\<close>

text \<open>
  A conversation in which the results of the calls of one turn stand together; turns of the user may
  come between the calls and the results.
\<close>

datatype place = Elsewhere | AtCall | AtResult

definition is_call_item :: "json \<Rightarrow> bool" where
  "is_call_item item = (type_of item = Some ''function_call'' \<or> type_of item = Some ''custom_tool_call'')"

definition is_user_item :: "json \<Rightarrow> bool" where
  "is_user_item item = (responses_input_item_is_message item \<and> unwrap_or (role_of item) ''user'' = ''user'')"

definition next_place :: "place \<Rightarrow> json \<Rightarrow> place" where
  "next_place p item =
    (if is_call_item item then AtCall
     else if responses_item_is_tool_output item then AtResult
     else if p = AtCall \<and> is_user_item item then AtCall
     else Elsewhere)"

fun results_together :: "place \<Rightarrow> json list \<Rightarrow> bool" where
  "results_together p [] = True"
| "results_together p (item # items) =
     ((responses_item_is_tool_output item \<longrightarrow> p \<noteq> Elsewhere) \<and> results_together (next_place p item) items)"

definition is_result :: "json \<Rightarrow> bool" where
  "is_result m = (jget m ''tool_call_id'' \<noteq> None)"

definition is_user :: "json \<Rightarrow> bool" where
  "is_user m = (role_of m = Some ''user'')"

definition results_in_place :: "json list \<Rightarrow> bool" where
  "results_in_place ms = successively (\<lambda>a b. is_result b \<longrightarrow> \<not> is_user a) ms"

definition starts_with_output :: "json list \<Rightarrow> bool" where
  "starts_with_output items = (case items of [] \<Rightarrow> False | next # _ \<Rightarrow> responses_item_is_tool_output next)"

definition placed :: "place \<Rightarrow> bool \<Rightarrow> replay_state \<Rightarrow> bool" where
  "placed p next s = (results_in_place (rs_messages s)
     \<and> (p = AtCall \<longrightarrow> assistant_has_pending_tool_calls (rs_assistant s))
     \<and> (p = AtResult \<and> next \<longrightarrow> rs_assistant s = None \<and> rs_messages s \<noteq> [] \<and> is_result (last (rs_messages s))
          \<and> \<not> is_user (last (rs_messages s))))"

lemma push_in_place:
  "results_in_place (rs_messages s) \<Longrightarrow> (is_result m \<Longrightarrow> rs_messages s \<noteq> [] \<Longrightarrow> \<not> is_user (last (rs_messages s))) \<Longrightarrow>
    results_in_place (rs_messages (push_message m s))"
  by (auto simp: results_in_place_def push_message_def successively_append_iff)

lemma turn_is_no_result [simp]: "\<not> is_result (chat_turn role content)"
  by (simp add: is_result_def chat_turn_def)

lemma assistant_is_no_result: "assistant_ok a \<Longrightarrow> \<not> is_result a" "assistant_ok a \<Longrightarrow> \<not> is_user a"
  by (simp_all add: assistant_ok_def is_result_def is_user_def)

lemma tool_is_result [simp]: "is_result (tool_message i c)" "\<not> is_user (tool_message i c)"
  by (simp_all add: is_result_def is_user_def tool_message_def jget_str_def)

lemma flush_assistant_in_place:
  assumes "results_in_place (rs_messages s)" and "\<forall>a. rs_assistant s = Some a \<longrightarrow> assistant_ok a"
  shows "results_in_place (rs_messages (flush_assistant s))"
    and "rs_assistant s \<noteq> None \<Longrightarrow> rs_messages (flush_assistant s) \<noteq> [] \<and> \<not> is_user (last (rs_messages (flush_assistant s)))"
    and "rs_assistant s = None \<Longrightarrow> flush_assistant s = s"
proof -
  have "results_in_place (rs_messages (push_message a s)) \<and> \<not> is_user (last (rs_messages (push_message a s)))
      \<and> rs_messages (push_message a s) \<noteq> []" if "rs_assistant s = Some a" for a
    using assms that assistant_is_no_result push_in_place [OF assms(1), of a]
    by (simp add: push_message_def)
  then show "results_in_place (rs_messages (flush_assistant s))"
    and "rs_assistant s \<noteq> None \<Longrightarrow> rs_messages (flush_assistant s) \<noteq> [] \<and> \<not> is_user (last (rs_messages (flush_assistant s)))"
    and "rs_assistant s = None \<Longrightarrow> flush_assistant s = s"
    using assms(1) by (cases "rs_assistant s"; simp add: flush_assistant_def)+
qed

lemma flush_deferred_in_place:
  "results_in_place (rs_messages s) \<Longrightarrow> results_in_place (rs_messages (flush_deferred_user_after_tool_results s))"
  using push_in_place [of s "chat_turn ''user'' c" for c]
  by (cases "rs_deferred s") (simp_all add: flush_deferred_user_after_tool_results_def)

lemma user_note_in_place:
  assumes "results_in_place (rs_messages s)" and "\<forall>a. rs_assistant s = Some a \<longrightarrow> assistant_ok a"
  shows "results_in_place (rs_messages (user_note text s))"
  unfolding user_note_def
  by (intro push_in_place flush_deferred_in_place flush_assistant_in_place(1) assms) simp_all

lemma on_assistant_messages [simp]: "rs_messages (on_assistant f s) = rs_messages s"
  by (simp add: on_assistant_def)

lemma reasoning_messages [simp]: "rs_messages (reasoning_step target item s) = rs_messages s"
  by (simp add: reasoning_step_def Let_def split: option.split)

lemma call_gives_call:
  assumes "is_call_item item" and "convert_call_item E target (flatten_bridged_item target entries item) = Inr tc"
  shows "tc \<noteq> None"
proof -
  have "type_of (flatten_bridged_item target entries item) = type_of item"
    by (cases item) (simp_all add: flatten_bridged_item_def Let_def jget_str_def)
  then have t: "type_of (flatten_bridged_item target entries item) \<in> {Some ''function_call'', Some ''custom_tool_call''}"
    using assms(1) by (simp add: is_call_item_def)
  have "normalized_responses_tool_call E v \<noteq> Inr None" if "type_of v \<in> {Some ''function_call'', Some ''custom_tool_call''}" for v
    using that by (cases "validate_responses_public_tool_call_item v")
      (auto simp: normalized_responses_tool_call_def res_bind_Inr Let_def)
  from this [OF t] show ?thesis
    using assms(2) by (auto simp: convert_call_item_def responses_tool_call_item_to_openai_tool_call_with_bridge_strict_def
        responses_tool_call_item_to_openai_tool_call_strict_def res_bind_Inr split: if_splits)
qed

lemma call_step_placed:
  assumes "replay_inv es s" and "results_in_place (rs_messages s)" and "is_call_item item"
    and "no_degraded_call E target entries item" and "call_step E target entries item s = Inr s'"
  shows "placed AtCall next s'"
proof -
  let ?item = "flatten_bridged_item target entries item"
  have "\<not> (target = Anthropic \<and> tool_call_is_marked_non_replayable E ?item)"
    using assms(4) by (simp add: no_degraded_call_def)
  then obtain tc where tc: "convert_call_item E target ?item = Inr tc" and s': "s' = (case tc of
         None \<Rightarrow> s
       | Some tc \<Rightarrow> on_assistant (add_tool_call tc) (case jget_str ?item ''call_id'' of
             None \<Rightarrow> s | Some i \<Rightarrow> s\<lparr>rs_kinds := hm_insert i (call_kind E target ?item) (rs_kinds s)\<rparr>))"
    using assms(5) unfolding call_step_def Let_def by (auto simp only: if_False res_bind_Inr sum.inject)
  obtain c where c: "tc = Some c" using call_gives_call [OF assms(3) tc] by blast
  define s1 where "s1 = (case jget_str ?item ''call_id'' of
      None \<Rightarrow> s | Some i \<Rightarrow> s\<lparr>rs_kinds := hm_insert i (call_kind E target ?item) (rs_kinds s)\<rparr>)"
  have s1: "rs_messages s1 = rs_messages s" "rs_assistant s1 = rs_assistant s"
    by (simp_all add: s1_def split: option.split)
  have ok: "assistant_ok (unwrap_or (rs_assistant s) blank_assistant)"
    using assms(1) by (cases "rs_assistant s") (simp_all add: replay_inv_def)
  have "array_at (add_tool_call c a) ''tool_calls'' \<noteq> []" if a: "assistant_ok a" for a
    using add_tool_call_events [OF a, of c] by (auto simp: chat_events_def assistant_ok_def)
  from this [OF ok] show ?thesis
    using assms(2) s1 by (simp add: s' c placed_def s1_def [symmetric] on_assistant_def assistant_has_pending_tool_calls_def)
qed

lemma output_step_placed:
  assumes "replay_inv es s" and "placed p True s" and "p \<noteq> Elsewhere"
    and "output_step E target next item s = Inr s'"
  shows "placed AtResult next s'"
proof -
  have ok: "\<forall>a. rs_assistant s = Some a \<longrightarrow> assistant_ok a" using assms(1) by (simp add: replay_inv_def)
  have rip: "results_in_place (rs_messages s)" using assms(2) by (simp add: placed_def)
  note fl = flush_assistant_in_place [OF rip ok]
  note fk = flush_assistant_keeps [OF assms(1)]
  have "rs_messages (flush_assistant s) \<noteq> [] \<and> \<not> is_user (last (rs_messages (flush_assistant s)))"
  proof (cases p)
    case AtCall
    then have "rs_assistant s \<noteq> None"
      using assms(2) by (cases "rs_assistant s") (simp_all add: placed_def assistant_has_pending_tool_calls_def)
    then show ?thesis by (rule fl(2))
  next
    case AtResult
    then show ?thesis using assms(2) fl(3) by (simp add: placed_def)
  next
    case Elsewhere
    then show ?thesis using assms(3) by simp
  qed
  note before = this
  have "Option.bind (jget_str item ''call_id'') (hm_get (rs_degraded (flush_assistant s))) = None"
    using fk(1) by (cases "jget_str item ''call_id''") (simp_all add: replay_inv_def)
  then obtain content where
    s': "s' = after_output next (push_message (tool_message (jopt (jget item ''call_id'')) content) (flush_assistant s))"
    using assms(4) unfolding output_step_def Let_def
    by (auto simp only: option.case res_bind_Inr sum.inject sum.simps split: if_splits)
  let ?s = "push_message (tool_message (jopt (jget item ''call_id'')) content) (flush_assistant s)"
  have "results_in_place (rs_messages ?s)" using before by (intro push_in_place fl(1)) simp
  moreover have "rs_assistant ?s = None" "last (rs_messages ?s) = tool_message (jopt (jget item ''call_id'')) content"
    "rs_messages ?s \<noteq> []"
    using fk(2) by (simp_all add: push_message_def)
  ultimately show ?thesis
    using flush_deferred_in_place [of ?s] by (cases "next") (simp_all add: s' placed_def after_output_def)
qed

lemma message_step_in_place:
  assumes "replay_inv es s" and "results_in_place (rs_messages s)" and "message_step E next item s = Inr s'"
  shows "results_in_place (rs_messages s')"
proof -
  have "\<forall>a. rs_assistant s = Some a \<longrightarrow> assistant_ok a" using assms(1) by (simp add: replay_inv_def)
  note fl = flush_assistant_in_place(1) [OF assms(2) this]
  have p: "results_in_place (rs_messages (push_message (chat_turn r c) (flush_assistant s)))" for r c
    by (intro push_in_place fl) simp
  have d: "results_in_place (rs_messages (s\<lparr>rs_deferred := d\<rparr>))" for d using assms(2) by simp
  show ?thesis
    using assms(3)
  proof (rule message_step_Inr)
    fix content
    assume "s' = (if unwrap_or (role_of item) ''user'' = ''assistant'' then
       on_assistant (\<lambda>a. append_openai_message_content content
         (append_openai_message_text_field ''refusal'' (extract_responses_refusal_text (jget item ''content''))
           (jset ''role'' (JStr ''assistant'') a))) s
     else if unwrap_or (role_of item) ''user'' = ''user''
       \<and> (assistant_has_pending_tool_calls (rs_assistant s) \<or> rs_deferred s \<noteq> None \<or> next)
     then s\<lparr>rs_deferred := append_deferred_user_after_tool_result_content content (rs_deferred s)\<rparr>
     else push_message (chat_turn (unwrap_or (role_of item) ''user'') content) (flush_assistant s))"
    then show ?thesis
      by (simp only: if_distrib [of rs_messages] if_distrib [of results_in_place] p d on_assistant_messages assms(2)
          if_cancel)
  qed
qed

lemma user_item_deferred:
  assumes "is_user_item item" and "assistant_has_pending_tool_calls (rs_assistant s)"
    and "message_step E next item s = Inr s'"
  shows "\<exists>d. s' = s\<lparr>rs_deferred := d\<rparr>"
  using assms(3) by (rule message_step_Inr) (use assms(1,2) in \<open>auto simp: is_user_item_def\<close>)

lemma item_step_placed:
  assumes "replay_inv es s" and "placed p (responses_item_is_tool_output item) s"
    and "responses_item_is_tool_output item \<Longrightarrow> p \<noteq> Elsewhere" and "no_degraded_call E target entries item"
    and "responses_item_step E target entries next item s = Inr s'"
  shows "placed (next_place p item) next s'"
proof -
  have rip: "results_in_place (rs_messages s)" using assms(2) by (simp add: placed_def)
  have ok: "\<forall>a. rs_assistant s = Some a \<longrightarrow> assistant_ok a" using assms(1) by (simp add: replay_inv_def)
  consider (call) "is_call_item item" | (result) "\<not> is_call_item item" "responses_item_is_tool_output item"
    | (user) "\<not> is_call_item item" "\<not> responses_item_is_tool_output item" "p = AtCall \<and> is_user_item item"
    | (other) "\<not> is_call_item item" "\<not> responses_item_is_tool_output item" "\<not> (p = AtCall \<and> is_user_item item)"
    by blast
  then show ?thesis
  proof cases
    case call
    then have "call_step E target entries item s = Inr s'"
      using assms(5) by (auto simp: responses_item_step_def is_call_item_def responses_input_item_type_def)
    then show ?thesis
      using call call_step_placed [OF assms(1) rip call assms(4)] by (simp add: next_place_def)
  next
    case result
    then have "output_step E target next item s = Inr s'"
      using assms(5) by (auto simp: responses_item_step_def responses_item_is_tool_output_def responses_input_item_type_def)
    then show ?thesis
      using result output_step_placed [OF assms(1) _ assms(3)] assms(2) by (simp add: next_place_def)
  next
    case user
    then have "message_step E next item s = Inr s'"
      using assms(5) by (simp add: responses_item_step_def is_user_item_def responses_input_item_is_message_def)
    moreover have "assistant_has_pending_tool_calls (rs_assistant s)" using assms(2) user by (simp add: placed_def)
    ultimately obtain d where "s' = s\<lparr>rs_deferred := d\<rparr>" using user_item_deferred user by blast
    then show ?thesis using user rip assms(2) by (simp add: next_place_def placed_def)
  next
    case other
    have "results_in_place (rs_messages s')"
    proof (cases "responses_input_item_type item")
      case None
      then show ?thesis using assms(5) rip by (simp add: responses_item_step_def)
    next
      case (Some ty)
      have ty: "ty \<notin> {''function_call'', ''custom_tool_call''}"
        "ty \<notin> {''function_call_output'', ''custom_tool_call_output''}"
        using Some other by (cases "type_of item"; cases "role_of item";
            auto simp: responses_input_item_type_def is_call_item_def responses_item_is_tool_output_def)+
      note step = assms(5) [unfolded responses_item_step_def Some option.case if_not_P [OF ty(1)] if_not_P [OF ty(2)] Let_def]
      from step_cases [OF step] show ?thesis
        using message_step_in_place [OF assms(1) rip] rip user_note_in_place [OF rip ok] by auto
    qed
    moreover have "next_place p item = Elsewhere" using other by (auto simp: next_place_def)
    ultimately show ?thesis by (simp add: placed_def)
  qed
qed

lemma items_placed:
  assumes "replay_inv es s" and "placed p (starts_with_output items) s" and "results_together p items"
    and "\<forall>item \<in> set items. no_degraded_call E target entries item"
    and "responses_items E target entries items s = Inr s'"
  shows "results_in_place (rs_messages s') \<and> (\<forall>a. rs_assistant s' = Some a \<longrightarrow> assistant_ok a)"
  using assms
proof (induction items arbitrary: es s p)
  case Nil
  then show ?case by (simp add: placed_def replay_inv_def)
next
  case (Cons item items)
  from Cons.prems(5) obtain s1 where
    step: "responses_item_step E target entries (starts_with_output items) item s = Inr s1"
    and rest: "responses_items E target entries items s1 = Inr s'"
    by (auto simp: res_bind_Inr starts_with_output_def)
  have d: "no_degraded_call E target entries item" using Cons.prems(4) by simp
  have inv: "replay_inv (es @ item_events E target entries item) s1"
    by (rule item_step_keeps [OF Cons.prems(1) d step])
  have "placed (next_place p item) (starts_with_output items) s1"
    using Cons.prems(2,3) by (intro item_step_placed [OF Cons.prems(1) _ _ d step]) (simp_all add: starts_with_output_def)
  from Cons.IH [OF inv this _ _ rest] Cons.prems(3,4) show ?case by simp
qed

text \<open>C21.
  Turns of the user that a client put between the calls of a turn and the first of their results are held
  back until the results are written. This is for conversations in which the results stand together
  behind their calls and whose calls are all passed on as calls: in their messages none of a result comes
  directly after one of the user. It leaves out a turn of the user between two results of one turn,
  which is not always held back (\<open>user_turn_between_results\<close> below), and calls that are degraded to text.\<close>

theorem user_turns_wait_for_results:
  assumes "results_together Elsewhere items"
    and "\<forall>item \<in> set items. no_degraded_call E target entries item"
    and "responses_conversation E target entries system items = Inr messages"
    and "list_all (\<lambda>m. chat_events m = [] \<and> \<not> is_result m) system"
  shows "results_in_place messages"
proof -
  obtain s where s: "responses_items E target entries items (empty_replay system) = Inr s"
    and m: "messages = rs_messages (flush_deferred_user_after_tool_results (flush_assistant s))"
    using assms(3) by (auto simp: responses_conversation_def res_bind_Inr)
  have "replay_inv [] (empty_replay system)"
    using assms(4) by (simp add: replay_inv_def empty_replay_def assistant_events_def list_all_iff)
  moreover have "results_in_place system"
    using assms(4) unfolding results_in_place_def
    by (induction system) (auto simp: successively_Cons list_all_iff)
  then have "placed Elsewhere next (empty_replay system)" for "next"
    by (simp add: placed_def empty_replay_def)
  ultimately have "results_in_place (rs_messages s) \<and> (\<forall>a. rs_assistant s = Some a \<longrightarrow> assistant_ok a)"
    using items_placed [OF _ _ assms(1,2) s] by blast
  then show ?thesis unfolding m by (intro flush_deferred_in_place flush_assistant_in_place(1)) blast+
qed

text \<open>
  The look at one following item is not enough when results are apart: with two turns of the user between
  two results, the first is written between the call and its second result.
\<close>

definition user_turn :: "string \<Rightarrow> json" where
  "user_turn t = jobj [(''role'', JStr ''user''), (''content'', JStr t)]"

definition call_item :: "string \<Rightarrow> json" where
  "call_item i = jobj [(''type'', JStr ''function_call''), (''call_id'', JStr i), (''name'', JStr ''search''),
     (''arguments'', JStr ''{}'')]"

definition result_item :: "string \<Rightarrow> json" where
  "result_item i = jobj [(''type'', JStr ''function_call_output''), (''call_id'', JStr i), (''output'', JStr ''found'')]"

lemma user_turn_between_results:
  "map_option (map role_of) (case responses_conversation example_env OpenAiChatCompletions [] []
      [call_item ''c1'', call_item ''c2'', result_item ''c1'', user_turn ''and?'', user_turn ''hello?'', result_item ''c2'']
      of Inr ms \<Rightarrow> Some ms | Inl _ \<Rightarrow> None)
    = Some [Some ''assistant'', Some ''tool'', Some ''user'', Some ''tool'', Some ''user'']"
  by code_simp

theorem user_turns_wait_for_results_witness:
  "\<exists>messages. responses_conversation example_env OpenAiChatCompletions [] []
      [call_item ''c1'', user_turn ''and?'', user_turn ''hello?'', result_item ''c1''] = Inr messages
    \<and> results_in_place messages"
proof -
  let ?items = "[call_item ''c1'', user_turn ''and?'', user_turn ''hello?'', result_item ''c1'']"
  have "case responses_conversation example_env OpenAiChatCompletions [] [] ?items of Inr _ \<Rightarrow> True | Inl _ \<Rightarrow> False"
    by code_simp
  then obtain messages where m: "responses_conversation example_env OpenAiChatCompletions [] [] ?items = Inr messages"
    by (cases "responses_conversation example_env OpenAiChatCompletions [] [] ?items") simp_all
  moreover have "results_together Elsewhere ?items" by code_simp
  ultimately show ?thesis
    using user_turns_wait_for_results [OF _ _ m] by (simp add: no_degraded_call_def)
qed

end
