(* ===== verification/Tool_Names.thy ===== *)
theory Tool_Names
  imports Tool_Calls Responses_Choices
begin

text \<open>
  The names of tools in whole requests and responses (src/src/translate/internal.rs,
  src/src/translate/internal/tools.rs): nothing a client or an upstream sends may use the reserved prefix
  of the custom tool bridge; and the repair that keeps a bridged request in the bridge's form.
\<close>

section \<open>Validation of names\<close>

definition validate_openai_public_tool_choice_identity :: "json \<Rightarrow> validation" where
  "validate_openai_public_tool_choice_identity choice =
     res_then (validate_public_selector_visible_identity choice)
       (res_then (validate_openai_public_tool_identity choice)
         (if is_object choice then res_each validate_openai_public_tool_identity
            (unwrap_or (choice_selected_tools choice) []) else Inr ()))"

definition validate_responses_public_request_object_tool_identity :: "json \<Rightarrow> validation" where
  "validate_responses_public_request_object_tool_identity v =
     res_then (validate_responses_public_tool_metadata v)
       (res_each validate_responses_public_tool_call_item (array_at v ''input''))"

text \<open>A check for its error only.\<close>

definition checked :: "string + 'a \<Rightarrow> validation" where
  "checked r = res_bind r (\<lambda>_. Inr ())"

definition validate_openai_legacy_function_call_name :: "json \<Rightarrow> validation" where
  "validate_openai_legacy_function_call_name v =
     res_then (validate_public_selector_visible_identity v) (validate_openai_public_tool_identity v)"

definition validate_openai_legacy_function_definitions :: "json \<Rightarrow> validation" where
  "validate_openai_legacy_function_definitions body =
     res_each (\<lambda>f. res_then (validate_public_selector_visible_identity f) (validate_openai_public_tool_identity f))
       (array_at body ''functions'')"

definition on_present :: "(json \<Rightarrow> validation) \<Rightarrow> json option \<Rightarrow> validation" where
  "on_present check v = (case v of None \<Rightarrow> Inr () | Some x \<Rightarrow> check x)"

definition validate_openai_message_tool_call_names :: "json \<Rightarrow> validation" where
  "validate_openai_message_tool_call_names message =
     res_then (res_each (\<lambda>tc. res_then (validate_public_selector_visible_identity tc)
         (checked (normalized_openai_tool_call tc))) (array_at message ''tool_calls''))
       (on_present validate_openai_legacy_function_call_name (present (jget message ''function_call'')))"

definition validate_openai_family_tool_choice_names :: "json \<Rightarrow> validation" where
  "validate_openai_family_tool_choice_names choice = validate_openai_public_tool_choice_identity choice"

definition validate_openai_request_tool_names :: "json \<Rightarrow> validation" where
  "validate_openai_request_tool_names body =
     res_then (checked (normalized_openai_tool_definitions_from_request
         (request_scoped_tool_bridge_context_from_body body) body))
     (res_then (validate_openai_legacy_function_definitions body)
     (res_then (on_present validate_openai_family_tool_choice_names (present (jget body ''tool_choice'')))
     (res_then (on_present validate_openai_legacy_function_call_name (present (jget body ''function_call'')))
     (res_then (on_present validate_public_selector_visible_identity (jget body ''allowed_tool_names''))
       (res_each validate_openai_message_tool_call_names (array_at body ''messages''))))))"

definition validate_openai_response_tool_names :: "json \<Rightarrow> validation" where
  "validate_openai_response_tool_names body =
     res_each (\<lambda>choice. on_present validate_openai_message_tool_call_names (jget choice ''message''))
       (array_at body ''choices'')"

definition validate_responses_request_tool_names :: "env \<Rightarrow> json \<Rightarrow> validation" where
  "validate_responses_request_tool_names E body =
     res_then (validate_responses_public_tool_metadata body)
     (res_then (checked (normalized_responses_tool_definitions_from_request body))
     (res_then (on_present validate_openai_family_tool_choice_names (present (jget body ''tool_choice'')))
       (res_each (\<lambda>item. checked (normalized_responses_tool_call E item)) (array_at body ''input''))))"

definition validate_responses_response_tool_names :: "env \<Rightarrow> json \<Rightarrow> validation" where
  "validate_responses_response_tool_names E body =
     res_then (validate_responses_public_response_object body)
     (res_then (on_present validate_responses_public_response_object (jget body ''response''))
       (res_each (\<lambda>item. checked (normalized_responses_tool_call E item)) (array_at body ''output'')))"

definition anthropic_block_name_public :: "json \<Rightarrow> validation" where
  "anthropic_block_name_public block =
    (if type_of block \<in> {Some ''tool_use'', Some ''server_tool_use''} then
       (case jget_str block ''name'' of Some n \<Rightarrow> validate_public_tool_name_not_reserved n | None \<Rightarrow> Inr ())
     else Inr ())"

definition validate_anthropic_content_tool_names :: "json \<Rightarrow> validation" where
  "validate_anthropic_content_tool_names content = (case content of
      JArr blocks \<Rightarrow> res_each anthropic_block_name_public blocks | _ \<Rightarrow> Inr ())"

definition validate_anthropic_body_tool_names :: "json \<Rightarrow> validation" where
  "validate_anthropic_body_tool_names body =
     res_then (on_present validate_public_selector_visible_identity (present (jget body ''tool_choice'')))
     (res_then (res_each (\<lambda>tool. res_then (validate_public_selector_visible_identity tool)
         (case jget_str tool ''name'' of Some n \<Rightarrow> validate_public_tool_name_not_reserved n | None \<Rightarrow> Inr ()))
       (array_at body ''tools''))
     (res_then (on_present validate_anthropic_content_tool_names (jget body ''content''))
       (res_each (\<lambda>m. on_present validate_anthropic_content_tool_names (jget m ''content''))
         (array_at body ''messages''))))"

fun validate_public_request_tool_names :: "env \<Rightarrow> upstream_format \<Rightarrow> json \<Rightarrow> validation" where
  "validate_public_request_tool_names E OpenAiChatCompletions body = validate_openai_request_tool_names body"
| "validate_public_request_tool_names E OpenAiResponses body = validate_responses_request_tool_names E body"
| "validate_public_request_tool_names E Anthropic body = validate_anthropic_body_tool_names body"

fun validate_public_response_tool_names :: "env \<Rightarrow> upstream_format \<Rightarrow> json \<Rightarrow> validation" where
  "validate_public_response_tool_names E OpenAiChatCompletions body = validate_openai_response_tool_names body"
| "validate_public_response_tool_names E OpenAiResponses body = validate_responses_response_tool_names E body"
| "validate_public_response_tool_names E Anthropic body = validate_anthropic_body_tool_names body"

section \<open>The repair of a bridged request\<close>

definition repair_request_scoped_custom_bridge_tool_definitions ::
    "upstream_format \<Rightarrow> tool_bridge_context \<Rightarrow> json \<Rightarrow> string + json" where
  "repair_request_scoped_custom_bridge_tool_definitions target ctx body = (case jget_array body ''tools'' of
      None \<Rightarrow> Inr body
    | Some original \<Rightarrow>
        res_bind (normalized_openai_tool_definitions_from_request (Some ctx) body) (\<lambda>tools.
          if length tools \<noteq> length original then Inr body
          else res_bind (res_map (normalized_tool_definition_to_openai_with_bridge target) tools) (\<lambda>ts.
            Inr (jinsert ''tools'' (JArr ts) body))))"

definition request_scoped_bridge_choice_name :: "json \<Rightarrow> string option" where
  "request_scoped_bridge_choice_name choice = ostr (option_or (jget choice ''name'')
     (option_or (ogetj (jget choice ''custom'') ''name'') (ogetj (jget choice ''function'') ''name'')))"

definition repair_custom_choice :: "tool_bridge_context \<Rightarrow> json \<Rightarrow> json option" where
  "repair_custom_choice ctx choice = (case request_scoped_bridge_choice_name choice of
      Some n \<Rightarrow> if context_expects_wrapper (Some ctx) n then Some (chat_function_choice (JStr n)) else None
    | None \<Rightarrow> None)"

definition repair_allowed_tool :: "tool_bridge_context \<Rightarrow> json \<Rightarrow> json" where
  "repair_allowed_tool ctx tool =
     (if type_of tool = Some ''custom'' then unwrap_or (repair_custom_choice ctx tool) tool else tool)"

definition repaired_choice :: "tool_bridge_context \<Rightarrow> json \<Rightarrow> json option" where
  "repaired_choice ctx choice =
    (if type_of choice = Some ''custom'' then repair_custom_choice ctx choice
     else if type_of choice = Some ''allowed_tools'' then
       (case jget choice ''allowed_tools'' of
          Some (JObj kvs) \<Rightarrow>
            (case (jget (JObj kvs) ''mode'', jget_array (JObj kvs) ''tools'') of
               (Some mode, Some tools) \<Rightarrow> Some (jobj [(''type'', JStr ''allowed_tools''),
                 (''allowed_tools'', jobj [(''mode'', mode), (''tools'', JArr (map (repair_allowed_tool ctx) tools))])])
             | _ \<Rightarrow> None)
        | _ \<Rightarrow> None)
     else None)"

definition repair_request_scoped_custom_bridge_tool_choice :: "tool_bridge_context \<Rightarrow> json \<Rightarrow> json" where
  "repair_request_scoped_custom_bridge_tool_choice ctx body =
     set_opt ''tool_choice'' (Option.bind (jget body ''tool_choice'') (repaired_choice ctx)) body"

definition repair_tool_call :: "env \<Rightarrow> tool_bridge_context \<Rightarrow> json \<Rightarrow> string + json" where
  "repair_tool_call E ctx tc = res_bind (normalized_openai_tool_call tc) (\<lambda>c. Inr (case c of
      Some (CustomCall i name input None kind) \<Rightarrow>
        if context_expects_wrapper (Some ctx) name
        then copy_non_replayable_tool_call_marker E tc (bridge_tool_call E (CustomCall i name input None kind))
        else tc
    | _ \<Rightarrow> tc))"

definition repair_message_calls :: "env \<Rightarrow> tool_bridge_context \<Rightarrow> json \<Rightarrow> string + json" where
  "repair_message_calls E ctx message = (case jget_array message ''tool_calls'' of
      None \<Rightarrow> Inr message
    | Some tcs \<Rightarrow> res_bind (res_map (repair_tool_call E ctx) tcs) (\<lambda>tcs. Inr (jset ''tool_calls'' (JArr tcs) message)))"

definition repair_request_scoped_custom_bridge_message_tool_calls ::
    "env \<Rightarrow> tool_bridge_context \<Rightarrow> json \<Rightarrow> string + json" where
  "repair_request_scoped_custom_bridge_message_tool_calls E ctx body = (case jget_array body ''messages'' of
      None \<Rightarrow> Inr body
    | Some ms \<Rightarrow> res_bind (res_map (repair_message_calls E ctx) ms) (\<lambda>ms. Inr (jset ''messages'' (JArr ms) body)))"

definition apply_request_scoped_bridge_structural_repair_pass ::
    "env \<Rightarrow> upstream_format \<Rightarrow> json \<Rightarrow> string + json" where
  "apply_request_scoped_bridge_structural_repair_pass E target body =
    (case request_scoped_tool_bridge_context_from_body body of
       None \<Rightarrow> Inr body
     | Some ctx \<Rightarrow>
         res_bind (repair_request_scoped_custom_bridge_tool_definitions target ctx body) (\<lambda>body.
           repair_request_scoped_custom_bridge_message_tool_calls E ctx
             (repair_request_scoped_custom_bridge_tool_choice ctx body)))"

end
