(* ===== verification/Translate.thy ===== *)
theory Translate
  imports Responses_Answers Responses_Choices Tool_Names Responses_Requests Claude_Answers Context_Edits Request_Processing
begin

text \<open>
  Requests of Chat Completions as Responses requests (src/src/translate/internal/openai_responses.rs), and
  the translation of whole requests and responses through the pivot Chat Completions
  (src/src/translate/internal.rs).
\<close>

section \<open>Messages\<close>

record input_state =
  in_items :: "json list"
  in_kinds :: "(string \<times> semantic_tool_kind) list"

definition add_items :: "json list \<Rightarrow> input_state \<Rightarrow> input_state" where
  "add_items items s = s\<lparr>in_items := in_items s @ items\<rparr>"

definition history_reasoning_items :: "env \<Rightarrow> json \<Rightarrow> json list" where
  "history_reasoning_items E msg =
    (let blocks = openai_message_anthropic_reasoning_replay_blocks msg in
     case jget_str msg ''reasoning_content'' of
       Some reasoning \<Rightarrow> if reasoning \<noteq> [] \<or> blocks \<noteq> None then [reasoning_item E reasoning blocks] else []
     | None \<Rightarrow> if blocks \<noteq> None then [reasoning_item E [] blocks] else [])"

definition input_message_items :: "string \<Rightarrow> json list \<Rightarrow> json list" where
  "input_message_items role content = (if content = [] then []
     else [jobj [(''type'', JStr ''message''), (''role'', JStr role), (''content'', JArr content)]])"

definition note_call :: "env \<Rightarrow> json \<Rightarrow> input_state \<Rightarrow> input_state" where
  "note_call E item s = (add_items [item] s)\<lparr>in_kinds := (case jget_str item ''call_id'' of
       None \<Rightarrow> in_kinds s | Some i \<Rightarrow> hm_insert i (semantic_tool_kind_from_value E item) (in_kinds s))\<rparr>"

definition call_items ::
    "env \<Rightarrow> tool_bridge_context option \<Rightarrow> json \<Rightarrow> input_state \<Rightarrow> string + input_state" where
  "call_items E ctx msg = res_fold (\<lambda>tc s.
     res_bind (openai_tool_call_to_responses_item_decoding_custom_bridge_with_context E ctx tc)
       (\<lambda>item. Inr (note_call E item s))) (array_at msg ''tool_calls'')"

definition tool_output_item :: "env \<Rightarrow> json \<Rightarrow> input_state \<Rightarrow> string + input_state" where
  "tool_output_item E msg s =
    (let kind = unwrap_or (Option.bind (jget_str msg ''tool_call_id'') (hm_get (in_kinds s)))
           (semantic_tool_kind_from_value E msg)
     in res_bind (openai_tool_result_content_to_responses_output (jget msg ''content'')) (\<lambda>output.
       Inr (add_items [jobj [(''type'', JStr (semantic_tool_output_item_type kind)),
         (''call_id'', jopt (jget msg ''tool_call_id'')), (''output'', output)]] s)))"

definition message_to_input ::
    "env \<Rightarrow> tool_bridge_context option \<Rightarrow> json \<Rightarrow> input_state \<Rightarrow> string + input_state" where
  "message_to_input E ctx msg s0 =
    (let role = unwrap_or (role_of msg) ''user'';
         s = (if role = ''assistant'' then add_items (history_reasoning_items E msg) s0 else s0)
     in res_bind (if role \<in> {''system'', ''developer'', ''user'', ''assistant''} then
            res_bind (openai_message_to_responses_content E msg
                (if role = ''assistant'' then ''output_text'' else ''input_text''))
              (\<lambda>content. Inr (add_items (input_message_items role content) s))
          else Inr s)
       (\<lambda>s. if role = ''assistant'' then call_items E ctx msg s
            else if role = ''tool'' then tool_output_item E msg s
            else Inr s))"

definition messages_to_input ::
    "env \<Rightarrow> tool_bridge_context option \<Rightarrow> json list \<Rightarrow> string + json list" where
  "messages_to_input E ctx ms =
     res_bind (res_fold (message_to_input E ctx) ms \<lparr>in_items = [], in_kinds = []\<rparr>) (\<lambda>s. Inr (in_items s))"

section \<open>The rest of the request\<close>

definition responses_tool_choice ::
    "tool_bridge_context option \<Rightarrow> request_controls \<Rightarrow> json \<Rightarrow> string + json" where
  "responses_tool_choice ctx rc body = (case rc_tool_policy rc of
      Some policy \<Rightarrow> Inr (jset ''tool_choice''
        (normalized_tool_policy_to_responses_tool_choice policy (rc_restricted_tool_names rc) ctx) body)
    | None \<Rightarrow> (case jget body ''tool_choice'' of
          None \<Rightarrow> Inr body
        | Some choice \<Rightarrow> res_bind (openai_tool_choice_to_responses_tool_choice choice ctx) (\<lambda>mapped.
            Inr (case mapped of Some v \<Rightarrow> jset ''tool_choice'' v body | None \<Rightarrow> jremove ''tool_choice'' body))))"

definition responses_controls :: "request_controls \<Rightarrow> json \<Rightarrow> json" where
  "responses_controls rc body =
    (let b = set_opt ''parallel_tool_calls'' (rc_parallel_tool_calls rc) body;
         b = set_opt ''max_output_tokens'' (option_or (jget b ''max_completion_tokens'') (jget b ''max_tokens'')) b;
         b = set_opt ''text'' (map_option
               (\<lambda>shape. jobj [(''format'', normalized_output_shape_to_responses_text_format shape)]) (rc_output_shape rc)) b;
         b = set_opt ''metadata'' (rc_metadata rc) b;
         b = set_opt ''user'' (rc_user rc) b;
         b = set_opt ''service_tier'' (rc_service_tier rc) b;
         b = (case rc_stream_include_obfuscation rc of Some v \<Rightarrow> insert_stream_include_obfuscation v b | None \<Rightarrow> b);
         b = (case rc_verbosity rc of Some v \<Rightarrow> insert_responses_text_verbosity v b | None \<Rightarrow> b);
         b = (case rc_reasoning_effort rc of Some v \<Rightarrow> insert_responses_reasoning_effort v b | None \<Rightarrow> b);
         b = (case rc_logprobs rc of
               Some l \<Rightarrow> if lp_enabled l \<or> lp_top_logprobs l \<noteq> None
                 then insert_responses_include_item (JStr ''message.output_text.logprobs'') b else b
             | None \<Rightarrow> b);
         b = set_opt ''prompt_cache_key'' (rc_prompt_cache_key rc) b;
         b = set_opt ''prompt_cache_retention'' (rc_prompt_cache_retention rc) b;
         b = set_opt ''safety_identifier'' (rc_safety_identifier rc) b
     in set_opt ''top_logprobs'' (Option.bind (rc_logprobs rc) lp_top_logprobs) b)"

definition fields_without_counterpart :: "string list" where
  "fields_without_counterpart = [''instructions'', ''messages'', ''max_completion_tokens'', ''max_tokens'',
     ''response_format'', ''stop'', ''seed'', ''presence_penalty'', ''frequency_penalty'', ''logprobs'',
     ''logit_bias'', ''allowed_tool_names'', ''verbosity'', ''reasoning_effort'', ''prediction'',
     ''web_search_options'', ''n'', ''store'', ''modalities'', ''audio'']"

definition messages_to_responses :: "env \<Rightarrow> json \<Rightarrow> string + json" where
  "messages_to_responses E body =
     res_bind (openai_normalized_request_controls body) (\<lambda>rc.
       let ctx = request_scoped_tool_bridge_context_from_body body in
       case jget_array body ''messages'' of
         None \<Rightarrow> Inl ''missing messages''
       | Some ms \<Rightarrow>
           res_bind (messages_to_input E ctx ms) (\<lambda>input.
           res_bind (normalized_openai_tool_definitions_from_request ctx (jset ''input'' (JArr input) body)) (\<lambda>tools.
             let b = jset ''input'' (JArr input) body;
                 b = (if tools = [] then b
                      else jset ''tools'' (JArr (map normalized_tool_definition_to_responses tools)) b)
             in res_bind (responses_tool_choice ctx rc b) (\<lambda>b.
                  Inr (foldl (\<lambda>b k. jremove k b) (responses_controls rc b) fields_without_counterpart)))))"

section \<open>Requests\<close>

fun client_to_openai_completion :: "env \<Rightarrow> upstream_format \<Rightarrow> upstream_format \<Rightarrow> json \<Rightarrow> string + json" where
  "client_to_openai_completion E OpenAiChatCompletions target body = Inr body"
| "client_to_openai_completion E OpenAiResponses target body = responses_to_messages E target body"
| "client_to_openai_completion E Anthropic target body = claude_to_openai E (target = OpenAiResponses) body"

fun openai_completion_to_upstream :: "env \<Rightarrow> upstream_format \<Rightarrow> string \<Rightarrow> json \<Rightarrow> string + json" where
  "openai_completion_to_upstream E OpenAiChatCompletions model body = Inr body"
| "openai_completion_to_upstream E OpenAiResponses model body = messages_to_responses E body"
| "openai_completion_to_upstream E Anthropic model body = openai_to_claude E model body"

definition openai_family_format :: "upstream_format \<Rightarrow> bool" where
  "openai_family_format format = (format \<in> {OpenAiChatCompletions, OpenAiResponses})"

text \<open>Step 1: the request of the client as a request of Chat Completions.\<close>

definition request_to_pivot :: "env \<Rightarrow> upstream_format \<Rightarrow> upstream_format \<Rightarrow> json \<Rightarrow> string + json" where
  "request_to_pivot E client upstream body =
     res_bind (if client = Anthropic \<and> openai_family_format upstream
         then apply_anthropic_context_management_request_edits body else Inr body)
       (client_to_openai_completion E client upstream)"

text \<open>Step 2: the pivot as a request of the upstream, with the repairs of its protocol.\<close>

definition pivot_to_request :: "env \<Rightarrow> upstream_format \<Rightarrow> string \<Rightarrow> bool \<Rightarrow> json \<Rightarrow> string + json" where
  "pivot_to_request E upstream model stream body =
    (if upstream = OpenAiChatCompletions
     then Inr (apply_openai_completion_compat_overrides model (apply_openai_completion_maximum_safe_role_repairs body))
     else res_bind (openai_completion_to_upstream E upstream model body) (\<lambda>body. Inr (
       if \<not> stream then body
       else if upstream = OpenAiResponses then hoist_and_merge_system_messages body
       else normalize_openai_roles_for_compatibility upstream body)))"

text \<open>\<open>translate_request_with_policy\<close> after its assessment has let the request pass.\<close>

definition translate_assessed_request ::
    "env \<Rightarrow> upstream_format \<Rightarrow> upstream_format \<Rightarrow> string \<Rightarrow> json \<Rightarrow> request_translation_policy \<Rightarrow> bool \<Rightarrow> string + json" where
  "translate_assessed_request E client upstream model body policy stream =
     res_then (validate_public_request_tool_names E client body)
       (if client = upstream
        then Inr (apply_request_translation_policy_defaults upstream policy (same_format_repairs client stream model body))
        else res_bind (request_to_pivot E client upstream body) (\<lambda>body.
          res_bind (apply_request_scoped_bridge_structural_repair_pass E upstream
              (apply_request_translation_policy_defaults OpenAiChatCompletions policy body)) (\<lambda>body.
          res_bind (pivot_to_request E upstream model stream body) (\<lambda>body.
            Inr (apply_request_translation_policy_defaults upstream policy body)))))"

section \<open>Responses\<close>

record response_translation_context =
  rtc_tool_bridge_context :: "tool_bridge_context option"
  rtc_reasoning_echo :: "bool option"

definition with_request_scoped_tool_bridge_context_value ::
    "json option \<Rightarrow> response_translation_context \<Rightarrow> response_translation_context" where
  "with_request_scoped_tool_bridge_context_value v c =
     c\<lparr>rtc_tool_bridge_context := Option.bind v tool_bridge_context_from_value\<rparr>"

definition with_reasoning_echo :: "bool option \<Rightarrow> response_translation_context \<Rightarrow> response_translation_context" where
  "with_reasoning_echo v c = c\<lparr>rtc_reasoning_echo := v\<rparr>"

definition suppress_reasoning :: "response_translation_context \<Rightarrow> bool" where
  "suppress_reasoning c = (rtc_reasoning_echo c = Some False)"

fun upstream_response_to_openai :: "env \<Rightarrow> upstream_format \<Rightarrow> json \<Rightarrow> tool_bridge_context option \<Rightarrow> string + json" where
  "upstream_response_to_openai E OpenAiChatCompletions body ctx = Inr (normalize_openai_completion_response body)"
| "upstream_response_to_openai E Anthropic body ctx = claude_response_to_openai E body ctx"
| "upstream_response_to_openai E OpenAiResponses body ctx = responses_response_to_openai E body"

definition openai_assistant_audio_not_portable_message :: "string \<Rightarrow> string" where
  "openai_assistant_audio_not_portable_message target =
     ''OpenAI assistant audio output cannot be faithfully translated to '' @ target"

definition openai_response_to_client ::
    "env \<Rightarrow> upstream_format \<Rightarrow> json \<Rightarrow> tool_bridge_context option \<Rightarrow> string + json" where
  "openai_response_to_client E client body ctx =
    (if client = Anthropic \<and> openai_response_has_assistant_audio body
     then Inl (openai_assistant_audio_not_portable_message (translation_target_label client))
     else case client of
       OpenAiChatCompletions \<Rightarrow> Inr body
     | OpenAiResponses \<Rightarrow> openai_response_to_responses E body ctx
     | Anthropic \<Rightarrow> openai_response_to_claude E body)"

definition response_to_pivot ::
    "env \<Rightarrow> upstream_format \<Rightarrow> upstream_format \<Rightarrow> json \<Rightarrow> tool_bridge_context option \<Rightarrow> string + json" where
  "response_to_pivot E upstream client body ctx =
    (if upstream = Anthropic \<and> client = OpenAiResponses then claude_response_to_openai_with_reasoning_replay E body ctx
     else if upstream = OpenAiResponses \<and> client = Anthropic then responses_response_to_openai_for_anthropic E body
     else upstream_response_to_openai E upstream body ctx)"

definition translate_response_with_context ::
    "env \<Rightarrow> upstream_format \<Rightarrow> upstream_format \<Rightarrow> json \<Rightarrow> response_translation_context \<Rightarrow> string + json" where
  "translate_response_with_context E upstream client body c =
    (if contains_internal_context_field body
     then Inl (''upstream response contained internal-only field `'' @ tool_bridge_context_field @ ''`'')
     else if upstream = client then
       res_then (validate_public_response_tool_names E client body)
         (Inr (if suppress_reasoning c then strip_response_reasoning client body else body))
     else res_bind (response_to_pivot E upstream client body (rtc_tool_bridge_context c)) (\<lambda>openai.
       let openai = (if suppress_reasoning c then strip_openai_completion_reasoning openai else openai)
       in if client = OpenAiChatCompletions then Inr openai
          else openai_response_to_client E client openai (rtc_tool_bridge_context c)))"

definition translate_response :: "env \<Rightarrow> upstream_format \<Rightarrow> upstream_format \<Rightarrow> json \<Rightarrow> string + json" where
  "translate_response E upstream client body = translate_response_with_context E upstream client body
     \<lparr>rtc_tool_bridge_context = None, rtc_reasoning_echo = None\<rparr>"

end
