(* ===== verification/Reasoning_Echo.thy ===== *)
theory Reasoning_Echo
  imports Translate
begin

text \<open>
  Whether a client sees the reasoning of an upstream whose dialect says \<open>reasoning_echo: false\<close>
  (src/src/translate/internal.rs, src/src/translate/internal/response_protocols.rs).
\<close>

section \<open>What a client sees\<close>

definition message_shows_reasoning :: "json \<Rightarrow> bool" where
  "message_shows_reasoning m = (jget m ''reasoning_content'' \<noteq> None \<or> jget m ''reasoning_details'' \<noteq> None)"

fun shows_reasoning :: "upstream_format \<Rightarrow> json \<Rightarrow> bool" where
  "shows_reasoning OpenAiChatCompletions v =
     list_ex (\<lambda>c. case jget c ''message'' of Some m \<Rightarrow> message_shows_reasoning m | None \<Rightarrow> False) (array_at v ''choices'')"
| "shows_reasoning Anthropic v =
     list_ex (\<lambda>b. type_of b \<in> {Some ''thinking'', Some ''redacted_thinking''}) (array_at v ''content'')"
| "shows_reasoning OpenAiResponses v = list_ex (\<lambda>i. type_of i = Some ''reasoning'') (array_at v ''output'')"

definition carries_replay :: "json \<Rightarrow> bool" where
  "carries_replay v = list_ex (\<lambda>c. case jget c ''message'' of Some m \<Rightarrow> jget m replay_field \<noteq> None | None \<Rightarrow> False)
     (array_at v ''choices'')"

lemma stripped_message: "\<not> message_shows_reasoning (jremove ''reasoning_details'' (jremove ''reasoning_content'' m))"
  by (simp add: message_shows_reasoning_def)

lemma stripped_shows_none: "\<not> shows_reasoning f (strip_response_reasoning f v)"
  by (cases f) (auto simp: strip_openai_completion_reasoning_def strip_anthropic_response_thinking_def
      strip_responses_reasoning_items_def array_at_with_array list_ex_iff jget_with_field stripped_message
      split: option.splits)

section \<open>The pivot without reasoning\<close>

definition silent :: "json \<Rightarrow> bool" where
  "silent m = (\<not> message_shows_reasoning m \<and> jget m replay_field = None)"

lemma silent_head:
  assumes "silent m"
  shows "openai_message_anthropic_reasoning_replay_blocks m = None" and "openai_message_reasoning_text m = None"
  using assms by (simp_all add: silent_def message_shows_reasoning_def openai_message_reasoning_text_def
      openai_message_anthropic_reasoning_replay_blocks_def reasoning_details_to_text_def jget_defs)

lemma pivot_silent:
  assumes "\<not> carries_replay v"
    and "choice \<in> set (array_at (strip_openai_completion_reasoning (normalize_openai_completion_response v)) ''choices'')"
    and "jget choice ''message'' = Some m"
  shows "silent m"
proof -
  obtain c where c: "c \<in> set (array_at v ''choices'')"
    and ch: "choice = with_field ''message'' (jremove ''reasoning_details'' \<circ> jremove ''reasoning_content'') (normalize_choice c)"
    using assms(2) by (auto simp: strip_openai_completion_reasoning_def normalize_openai_completion_response_def
        array_at_with_array)
  obtain m0 where m0: "jget c ''message'' = Some m0"
    and m: "m = jremove ''reasoning_details'' (jremove ''reasoning_content'' (if is_object m0
        \<and> unwrap_or (jget_str m0 ''reasoning_content'') [] = []
      then (case reasoning_details_to_text (jget m0 ''reasoning_details'') of
         Some r \<Rightarrow> jset ''reasoning_content'' (JStr r) m0 | None \<Rightarrow> m0) else m0))"
    using assms(3) by (auto simp: ch normalize_choice_def jget_with_field)
  have "jget m0 replay_field = None"
    using assms(1) c m0 by (auto simp: carries_replay_def list_ex_iff split: option.splits)
  then show ?thesis
    by (auto simp: silent_def message_shows_reasoning_def m replay_field_def split: option.split)
qed

section \<open>Anthropic clients\<close>

definition no_thinking :: "json \<Rightarrow> bool" where
  "no_thinking b = (type_of b \<noteq> Some ''thinking'' \<and> type_of b \<noteq> Some ''redacted_thinking'')"

lemma plain_blocks [simp]: "no_thinking (text_block t)" "no_thinking (source_block ''image'' kvs)"
  "no_thinking (source_block ''document'' kvs)"
  by (simp_all add: no_thinking_def text_block_def source_block_def jget_str_def)

lemma image_no_thinking:
  "openai_image_url_part_to_claude_block E c = Inr b \<Longrightarrow> no_thinking b"
  by (auto simp: openai_image_url_part_to_claude_block_def Let_def base64_block_def url_block_def
      split: option.splits media_source_reference.splits if_splits)

lemma document_no_thinking: "file_reference_to_document r v = Inr b \<Longrightarrow> no_thinking b"
  by (auto simp: file_reference_to_document_def base64_block_def url_block_def Let_def
      split: openai_file_data_reference.splits if_splits)

lemma file_no_thinking: "openai_file_part_to_claude_document_block E c = Inr b \<Longrightarrow> no_thinking b"
  using document_no_thinking by (auto simp: openai_file_part_to_claude_document_block_def res_bind_Inr split: if_splits)

lemma part_no_thinking:
  assumes "content_part_to_claude_block E c = Inr b"
  shows "no_thinking b"
proof -
  have plain: "no_thinking b" if "openai_text_part_to_claude_text_block c = Inr b"
    using that by (auto simp: openai_text_part_to_claude_text_block_def Let_def no_thinking_def text_block_def jget_str_def
        split: option.splits if_splits)
  show ?thesis
    using assms plain image_no_thinking file_no_thinking
    by (auto simp: content_part_to_claude_block_def openai_refusal_part_to_claude_text_block_def
        split: option.splits if_splits)
qed

lemma claude_use_type:
  "anthropic_tool_use_type_for_openai_tool_call E t = Inr ty \<Longrightarrow> ty = ''tool_use'' \<or> ty = ''server_tool_use''"
  by (cases "validate_openai_public_tool_identity t"; cases "validate_function_name t")
    (auto simp: anthropic_tool_use_type_for_openai_tool_call_def split: semantic_tool_kind.splits)

lemma call_no_thinking:
  assumes "tool_call_to_claude_block E t = Inr b"
  shows "no_thinking b"
proof (cases "tool_call_is_marked_non_replayable E t")
  case True
  then have "b = text_block (JStr (openai_tool_call_partial_replay_text t))"
    using assms by (simp add: tool_call_to_claude_block_def)
  then show ?thesis by (simp only: plain_blocks)
next
  case False
  then obtain ty where "anthropic_tool_use_type_for_openai_tool_call E t = Inr ty" "type_of b = Some ty"
    using assms by (auto simp: tool_call_to_claude_block_def res_bind_Inr jget_str_def)
  then show ?thesis using claude_use_type by (force simp: no_thinking_def)
qed

lemma res_map_all: "res_map f xs = Inr ys \<Longrightarrow> (\<And>x y. f x = Inr y \<Longrightarrow> P y) \<Longrightarrow> list_all P ys"
  by (auto simp: res_map_Inr list_all2_conv_all_nth list_all_length)

lemma res_bind_InrE:
  assumes "res_bind r f = Inr y"
  obtains x where "r = Inr x" "f x = Inr y"
  using assms by (auto simp: res_bind_Inr)

lemma some_blocks:
  assumes "Inr (if a then Some x else if b then Some y else None) = Inr (Some z)"
  shows "z = y \<or> z = x"
  using assms by (auto split: if_splits)

lemma message_no_thinking:
  assumes "silent m" and "openai_message_to_claude_blocks E m = Inr (Some blocks)"
  shows "list_all no_thinking blocks"
proof (cases "role_of m = None \<or> role_of m = Some ''tool''")
  case True
  then show ?thesis
    using assms(2) by (auto simp: openai_message_to_claude_blocks_def no_thinking_def jget_str_def split: if_splits)
next
  case False
  then obtain role where role: "role_of m = Some role" "(role = ''tool'') = False" by auto
  let ?calls = "if role = ''assistant'' then res_map (tool_call_to_claude_block E) (array_at m ''tool_calls'') else Inr []"
  have e: "res_bind (content_to_claude_blocks E (jget m ''content'')) (\<lambda>content. res_bind ?calls (\<lambda>calls.
      Inr (if (if role = ''assistant'' then assistant_head_blocks m else []) @ content @ calls \<noteq> []
        then Some ((if role = ''assistant'' then assistant_head_blocks m else []) @ content @ calls)
        else if jget m ''content'' \<noteq> None then Some [text_block (JStr [])] else None))) = Inr (Some blocks)"
    using assms(2) unfolding openai_message_to_claude_blocks_def role option.case if_False Let_def .
  obtain content calls where c: "content_to_claude_blocks E (jget m ''content'') = Inr content"
    and t: "?calls = Inr calls"
    and blocks: "blocks = [text_block (JStr [])]
      \<or> blocks = (if role = ''assistant'' then assistant_head_blocks m else []) @ content @ calls"
    using e by (elim res_bind_InrE) (rule that, assumption, assumption, erule some_blocks)
  have "list_all no_thinking (assistant_head_blocks m)"
    by (simp add: assistant_head_blocks_def silent_head [OF assms(1)] split: option.split)
  moreover have "list_all no_thinking content"
    using c res_map_all [OF _ part_no_thinking]
    by (auto simp: content_to_claude_blocks_def split: option.splits json.splits)
  moreover have "list_all no_thinking calls"
    using t res_map_all [OF _ call_no_thinking] by (auto split: if_splits)
  ultimately show ?thesis using blocks by auto
qed


lemma silent_prepared: "silent m \<Longrightarrow> prepare_openai_message_for_claude_response m = m"
  by (simp add: prepare_openai_message_for_claude_response_def silent_head)

lemma claude_answer_silent:
  assumes "openai_response_to_claude E body = Inr v"
    and "\<And>choice m. choice \<in> set (array_at body ''choices'') \<Longrightarrow> jget choice ''message'' = Some m \<Longrightarrow> silent m"
  shows "\<not> shows_reasoning Anthropic v"
proof -
  obtain choice where ch: "jget_array body ''choices'' = Some [choice]"
    using assms(1) by (auto simp: openai_response_to_claude_def single_required_array_item_def
        split: option.splits list.splits)
  then obtain m where m: "jget choice ''message'' = Some m"
    using assms(1) by (auto simp: openai_response_to_claude_def single_required_array_item_def split: option.splits)
  have silent: "silent m" using assms(2) [OF _ m] ch by (simp add: array_at_def)
  obtain blocks where bs: "openai_message_to_claude_blocks E m = Inr blocks"
    and v: "(\<exists>e. v = jobj [(''type'', JStr ''error''), (''error'', e)])
      \<or> (\<exists>stop. v = claude_message_response body (unwrap_or blocks [text_block (JStr [])]) stop)"
    using assms(1) by (auto simp: openai_response_to_claude_def single_required_array_item_def ch m
        silent_prepared [OF silent] res_bind_Inr)
      (cases "classify_openai_finish_for_anthropic (unwrap_or (jget_str choice ''finish_reason'') ''stop'')"; auto)
  have "list_all no_thinking (unwrap_or blocks [text_block (JStr [])])"
    using message_no_thinking [OF silent] bs by (cases blocks) simp_all
  then have "\<not> list_ex (\<lambda>b. type_of b \<in> {Some ''thinking'', Some ''redacted_thinking''}) (unwrap_or blocks [text_block (JStr [])])"
    by (auto simp: list_ex_iff list_all_iff no_thinking_def)
  then show ?thesis
    using v by (auto simp: claude_message_response_def array_at_def jget_array_def jget_set_opt)
qed

section \<open>Responses clients\<close>

abbreviation is_reasoning :: "json \<Rightarrow> bool" where
  "is_reasoning i \<equiv> type_of i = Some ''reasoning''"

lemma call_item_type:
  "\<not> is_reasoning (normalized_tool_call_to_responses_item call)" "\<not> is_reasoning (unbridge_tool_call E ctx call)"
proof -
  show a: "\<not> is_reasoning (normalized_tool_call_to_responses_item call)" for call
    by (cases call) (simp_all add: jget_str_def jget_set_proxied jget_set_namespace)
  show "\<not> is_reasoning (unbridge_tool_call E ctx call)"
    using a by (cases call) (auto simp: jget_str_def jget_set_proxied Let_def split: option.split sum.split
        simp del: normalized_tool_call_to_responses_item.simps)
qed

lemma copied_type: "type_of (copy_non_replayable_tool_call_marker E s d) = type_of d"
proof (cases d)
  case (JObj kvs)
  then show ?thesis
    by (simp add: copy_non_replayable_tool_call_marker_def mark_tool_call_as_non_replayable_def jget_str_def
        non_replayable_field_def)
qed (simp_all add: copy_non_replayable_tool_call_marker_def mark_tool_call_as_non_replayable_def)

lemma written_call_type:
  assumes "openai_tool_call_to_responses_item_decoding_custom_bridge_with_context E ctx tc = Inr i"
  shows "\<not> is_reasoning i"
proof -
  have "\<not> is_reasoning (openai_tool_call_to_responses_item E tc)"
    using call_item_type(1) by (auto simp: openai_tool_call_to_responses_item_def copied_type
        split: sum.split option.split simp del: normalized_tool_call_to_responses_item.simps) (simp_all add: jget_str_def)
  then show ?thesis
    using assms call_item_type(2) by (auto simp: copied_type
        openai_tool_call_to_responses_item_decoding_custom_bridge_with_context_def split: sum.splits option.splits
        simp del: unbridge_tool_call.simps)
qed

lemma responses_output_silent:
  assumes "silent m" and "openai_message_to_responses_output E choice m ctx = Inr items"
  shows "\<not> list_ex is_reasoning items"
proof -
  have none: "message_reasoning_items E m = []"
    by (simp add: message_reasoning_items_def silent_head [OF assms(1)])
  obtain audio content calls where
      a: "openai_assistant_audio_to_responses_output_item m = Inr audio"
    and c: "res_map (openai_tool_call_to_responses_item_decoding_custom_bridge_with_context E ctx)
        (array_at m ''tool_calls'') = Inr calls"
    and items: "items = message_items m [] content audio @ calls @ option_to_list audio"
    using assms(2) by (auto simp: openai_message_to_responses_output_def none res_bind_Inr)
  have "list_all (\<lambda>i. \<not> is_reasoning i) calls"
    by (rule res_map_all [OF c]) (rule written_call_type)
  moreover have "list_all (\<lambda>i. \<not> is_reasoning i) (option_to_list audio)"
    using a by (auto simp: openai_assistant_audio_to_responses_output_item_def jget_str_def res_bind_Inr opt_field_def
        option_to_list_def
        split: option.splits if_splits)
  moreover have "list_all (\<lambda>i. \<not> is_reasoning i) (message_items m [] content audio)"
    by (simp add: message_items_def message_item_def jget_str_def)
  ultimately show ?thesis by (auto simp: items list_ex_iff list_all_iff)
qed

lemma responses_answer_silent:
  assumes "openai_response_to_responses E body ctx = Inr v"
    and "\<And>choice m. choice \<in> set (array_at body ''choices'') \<Longrightarrow> jget choice ''message'' = Some m \<Longrightarrow> silent m"
  shows "\<not> shows_reasoning OpenAiResponses v"
proof -
  obtain choice where ch: "jget_array body ''choices'' = Some [choice]"
    using assms(1) by (auto simp: openai_response_to_responses_def single_required_array_item_def
        split: option.splits list.splits)
  then obtain m where m: "jget choice ''message'' = Some m"
    using assms(1) by (auto simp: openai_response_to_responses_def single_required_array_item_def split: option.splits)
  have silent: "silent m" using assms(2) [OF _ m] ch by (simp add: array_at_def)
  obtain items where "openai_message_to_responses_output E choice m ctx = Inr items"
    and "jget v ''output'' = Some (JArr items)"
    using assms(1) by (auto simp: openai_response_to_responses_def single_required_array_item_def ch m
        res_bind_Inr jget_set_opt split_beta Let_def)
  then show ?thesis using responses_output_silent [OF silent] by (simp add: array_at_def jget_array_def)
qed

section \<open>What the setting hides\<close>

text \<open>
  C22. A dialect that says \<open>reasoning_echo: false\<close> hides the upstream's reasoning in a complete answer that is
  translated, which is the only kind the setting is applied to (a stream is translated without it). The
  client's answer has no \<open>reasoning_content\<close>, no \<open>reasoning_details\<close>, no \<open>thinking\<close> block and no reasoning item, for every
  pair of formats except the two whose translation carries the upstream's own reasoning artifacts
  (Anthropic to Responses and Responses to Anthropic), as long as a Chat Completions upstream does
  not itself send the internal replay field.
\<close>

theorem suppressed_reasoning_not_shown:
  assumes "suppress_reasoning c"
    and "translate_response_with_context E upstream client body c = Inr v"
    and "(upstream, client) \<noteq> (Anthropic, OpenAiResponses)" and "(upstream, client) \<noteq> (OpenAiResponses, Anthropic)"
    and "upstream = OpenAiChatCompletions \<Longrightarrow> \<not> carries_replay body"
  shows "\<not> shows_reasoning client v"
proof (cases "upstream = client")
  case True
  then have "v = strip_response_reasoning client body"
    using assms(1,2) by (auto simp: translate_response_with_context_def res_then_Inr split: if_splits)
  then show ?thesis by (simp add: stripped_shows_none)
next
  case False
  then obtain pivot where p: "response_to_pivot E upstream client body (rtc_tool_bridge_context c) = Inr pivot"
    and v: "(if client = OpenAiChatCompletions then Inr (strip_openai_completion_reasoning pivot)
      else openai_response_to_client E client (strip_openai_completion_reasoning pivot) (rtc_tool_bridge_context c)) = Inr v"
    using assms(1,2) by (auto simp: translate_response_with_context_def res_bind_Inr Let_def split: if_splits)
  show ?thesis
  proof (cases "client = OpenAiChatCompletions")
    case True
    then show ?thesis using v stripped_shows_none [of OpenAiChatCompletions pivot] by simp
  next
    case client: False
    then have up: "upstream = OpenAiChatCompletions"
      using False assms(3,4) by (cases upstream; cases client) auto
    then have "pivot = normalize_openai_completion_response body"
      using p by (simp add: response_to_pivot_def)
    then have "silent m" if "choice \<in> set (array_at (strip_openai_completion_reasoning pivot) ''choices'')"
      "jget choice ''message'' = Some m" for choice m
      using pivot_silent [OF assms(5) [OF up]] that by simp
    then show ?thesis
      using v client claude_answer_silent responses_answer_silent
      by (cases client) (auto simp: openai_response_to_client_def split: if_splits)
  qed
qed

definition silent_context :: response_translation_context where
  "silent_context = \<lparr>rtc_tool_bridge_context = None, rtc_reasoning_echo = Some False\<rparr>"

definition thoughtful_answer :: json where
  "thoughtful_answer = jobj [(''id'', JStr ''a''), (''model'', JStr ''m''), (''choices'', JArr [jobj [(''message'', jobj
     [(''role'', JStr ''assistant''), (''reasoning_content'', JStr ''hm''), (''content'', JStr ''hi'')]),
     (''finish_reason'', JStr ''stop'')]])]"

lemma thoughtful_answer_translated:
  "\<not> carries_replay thoughtful_answer \<and> suppress_reasoning silent_context
   \<and> translate_response_with_context example_env OpenAiChatCompletions Anthropic thoughtful_answer silent_context
     = Inr (jobj [(''id'', JStr ''a''), (''type'', JStr ''message''), (''role'', JStr ''assistant''),
         (''content'', JArr [jobj [(''type'', JStr ''text''), (''text'', JStr ''hi'')]]),
         (''model'', JStr ''m''), (''stop_reason'', JStr ''end_turn'')])"
  by code_simp

theorem suppressed_reasoning_not_shown_witness:
  "\<exists>v. translate_response_with_context example_env OpenAiChatCompletions Anthropic thoughtful_answer silent_context = Inr v
    \<and> \<not> shows_reasoning Anthropic v"
  using thoughtful_answer_translated
    suppressed_reasoning_not_shown [of silent_context example_env OpenAiChatCompletions Anthropic thoughtful_answer]
  by auto

section \<open>What it does not hide\<close>

text \<open>
  The two remaining routes put the reasoning into the replay field of the pivot as well, which
  \<open>strip_openai_completion_reasoning\<close> leaves in place, so the client sees it.
\<close>

lemma reasoning_summary_still_shown:
  "case translate_response_with_context example_env OpenAiResponses Anthropic
      (jobj [(''id'', JStr ''r''), (''model'', JStr ''m''), (''status'', JStr ''completed''), (''output'', JArr [
        jobj [(''type'', JStr ''reasoning''), (''summary'', JArr [jobj [(''type'', JStr ''summary_text''),
          (''text'', JStr ''hm'')]])],
        jobj [(''type'', JStr ''message''), (''role'', JStr ''assistant''),
          (''content'', JArr [jobj [(''type'', JStr ''output_text''), (''text'', JStr ''hi'')]])]])])
      silent_context of Inr v \<Rightarrow> shows_reasoning Anthropic v | Inl _ \<Rightarrow> False"
  by code_simp

lemma thinking_still_shown:
  "case translate_response_with_context example_env Anthropic OpenAiResponses
      (jobj [(''id'', JStr ''r''), (''model'', JStr ''m''), (''stop_reason'', JStr ''end_turn''), (''content'', JArr [
        jobj [(''type'', JStr ''thinking''), (''thinking'', JStr ''hm''), (''signature'', JStr ''s'')],
        jobj [(''type'', JStr ''text''), (''text'', JStr ''hi'')]])])
      silent_context of Inr v \<Rightarrow> shows_reasoning OpenAiResponses v | Inl _ \<Rightarrow> False"
  by code_simp

end
