(* ===== verification/Assess_Openai.thy ===== *)
theory Assess_Openai
  imports Translate
begin

text \<open>
  What a request of the OpenAI family holds that another protocol cannot take
  (src/src/translate/internal/assessment.rs): controls that would be dropped, audio, tool choices and
  tool definitions, input items, opaque provider state and custom tools.
\<close>

section \<open>Block-level cache control\<close>

definition indexed :: "string \<Rightarrow> nat \<Rightarrow> string" where
  "indexed base i = base @ ''['' @ nat_str i @ '']''"

definition cache_path :: "string \<Rightarrow> json \<Rightarrow> string list" where
  "cache_path path v = (if jget v ''cache_control'' \<noteq> None then [path @ ''.cache_control''] else [])"

definition indexed_cache_paths :: "string \<Rightarrow> json list \<Rightarrow> string list" where
  "indexed_cache_paths base vs = concat (map (\<lambda>(i, v). cache_path (indexed base i) v) (enumerate 0 vs))"

definition collect_top_level_tool_cache_control_paths :: "json \<Rightarrow> string list" where
  "collect_top_level_tool_cache_control_paths body = indexed_cache_paths ''tools'' (array_at body ''tools'')"

definition collect_content_position_cache_control_paths :: "json option \<Rightarrow> string \<Rightarrow> string list" where
  "collect_content_position_cache_control_paths content base = (case content of
      Some (JArr parts) \<Rightarrow> indexed_cache_paths base parts
    | Some (JObj kvs) \<Rightarrow> cache_path base (JObj kvs)
    | _ \<Rightarrow> [])"

definition message_cache_control_paths :: "nat \<Rightarrow> json \<Rightarrow> string list" where
  "message_cache_control_paths i message =
    (let path = indexed ''messages'' i in
     collect_content_position_cache_control_paths (jget message ''content'') (path @ ''.content'')
     @ (if role_of message = Some ''assistant''
        then indexed_cache_paths (path @ ''.tool_calls'') (array_at message ''tool_calls'') else [])
     @ (if role_of message = Some ''tool'' then cache_path path message else []))"

definition input_item_cache_control_paths :: "nat \<Rightarrow> json \<Rightarrow> string list" where
  "input_item_cache_control_paths i item =
    (let path = indexed ''input'' i in
     (if responses_input_item_is_message item
      then collect_content_position_cache_control_paths (jget item ''content'') (path @ ''.content'') else [])
     @ (if responses_input_item_type item \<in> {Some ''function_call'', Some ''function_call_output''}
        then cache_path path item else []))"

definition openai_known_cache_control_paths :: "upstream_format \<Rightarrow> json \<Rightarrow> string list" where
  "openai_known_cache_control_paths client body = (case client of
      OpenAiChatCompletions \<Rightarrow> collect_top_level_tool_cache_control_paths body
        @ concat (map (\<lambda>(i, m). message_cache_control_paths i m) (enumerate 0 (array_at body ''messages'')))
    | OpenAiResponses \<Rightarrow> collect_top_level_tool_cache_control_paths body
        @ concat (map (\<lambda>(i, m). input_item_cache_control_paths i m) (enumerate 0 (array_at body ''input'')))
    | Anthropic \<Rightarrow> [])"

section \<open>Audio\<close>

record audio_contract =
  response_modalities :: "string list"
  voice_name :: "string option"

definition audio_voice :: "json \<Rightarrow> string + string option" where
  "audio_voice audio = (case jget audio ''voice'' of
      None \<Rightarrow> Inr None
    | Some (JStr voice) \<Rightarrow>
        if trim voice \<noteq> [] then Inr (Some voice)
        else Inl ''OpenAI Chat audio voice must be a non-empty string for portable cross-protocol audio translation.''
    | Some (JObj voice) \<Rightarrow> Inl (''OpenAI Chat audio voice `'' @ unwrap_or (jget_str (JObj voice) ''id'') []
        @ ''` is outside the portable cross-protocol audio subset.'')
    | Some _ \<Rightarrow> Inl ''OpenAI Chat audio voice must be a non-empty string for portable cross-protocol audio translation.'')"

definition requested_modalities :: "json \<Rightarrow> string list" where
  "requested_modalities body = filter (\<lambda>m. m \<noteq> [])
     (map (\<lambda>m. to_ascii_lowercase (trim m)) (List.map_filter as_str (array_at body ''modalities'')))"

definition modalities_must_include_audio :: string where
  "modalities_must_include_audio = ''OpenAI Chat audio output requests require `modalities` to include `audio`.''"

definition normalized_openai_audio_contract :: "json \<Rightarrow> string + audio_contract option" where
  "normalized_openai_audio_contract body =
    (let modalities = requested_modalities body in
     if ''audio'' \<notin> set modalities \<and> jget body ''audio'' = None then Inr None
     else (case Option.bind (jget body ''audio'') as_object of
         None \<Rightarrow> Inl ''OpenAI Chat audio output requests require a top-level `audio` object.''
       | Some kvs \<Rightarrow>
           if modalities \<noteq> [] \<and> ''audio'' \<notin> set modalities then Inl modalities_must_include_audio
           else (case jget_str (JObj kvs) ''format'' of
               Some format \<Rightarrow> Inl (''OpenAI Chat audio field `audio.format` value `'' @ format
                 @ ''` is outside the portable cross-protocol audio subset.'')
             | None \<Rightarrow> res_bind (audio_voice (JObj kvs)) (\<lambda>voice.
                 let normalized = (if modalities = [] then [''audio'']
                   else filter (\<lambda>m. m = ''text'' \<or> m = ''audio'') modalities)
                 in if normalized = [] then Inl modalities_must_include_audio
                    else Inr (Some \<lparr>response_modalities = normalized, voice_name = voice\<rparr>)))))"

definition openai_assistant_history_audio_present :: "json \<Rightarrow> bool" where
  "openai_assistant_history_audio_present body =
     list_ex (\<lambda>m. role_of m = Some ''assistant'' \<and> present (jget m ''audio'') \<noteq> None) (array_at body ''messages'')"

section \<open>Controls that would be dropped\<close>

definition responses_include_has_nonportable_items :: "json \<Rightarrow> upstream_format \<Rightarrow> bool" where
  "responses_include_has_nonportable_items body target =
    (let items = responses_include_items body in
     if items = [] then jget body ''include'' \<noteq> None
     else list_ex (\<lambda>i. i \<noteq> ''reasoning.encrypted_content''
       \<and> \<not> (target \<noteq> Anthropic \<and> i = ''message.output_text.logprobs'')) items)"

definition object_has_only_keys :: "(string \<times> json) list \<Rightarrow> string list \<Rightarrow> bool" where
  "object_has_only_keys kvs allowed = list_all (\<lambda>(k, _). k \<in> set allowed) kvs"

definition responses_text_has_nonportable_fields :: "json \<Rightarrow> shared_control_profile \<Rightarrow> bool" where
  "responses_text_has_nonportable_fields body profile = (case Option.bind (jget body ''text'') as_object of
      None \<Rightarrow> False
    | Some kvs \<Rightarrow> \<not> object_has_only_keys kvs (''format'' # (if sc_verbosity profile then [''verbosity''] else [])))"

definition responses_reasoning_has_nonportable_fields :: "json \<Rightarrow> shared_control_profile \<Rightarrow> bool" where
  "responses_reasoning_has_nonportable_fields body profile = (case Option.bind (jget body ''reasoning'') as_object of
      None \<Rightarrow> False
    | Some kvs \<Rightarrow> \<not> object_has_only_keys kvs (if sc_reasoning_effort profile then [''effort''] else []))"

definition fields_present :: "json \<Rightarrow> string list \<Rightarrow> string list" where
  "fields_present body fs = filter (\<lambda>f. jget body f \<noteq> None) fs"

definition openai_to_responses_dropped_control_names :: "json \<Rightarrow> string list" where
  "openai_to_responses_dropped_control_names body = fields_present body
     [''stop'', ''seed'', ''presence_penalty'', ''frequency_penalty'', ''logit_bias'', ''prediction'', ''web_search_options'']"

definition openai_to_anthropic_dropped_control_names :: "json \<Rightarrow> string list" where
  "openai_to_anthropic_dropped_control_names body =
     fields_present body [''seed'', ''presence_penalty'', ''frequency_penalty'']"

definition control_if :: "string \<Rightarrow> bool \<Rightarrow> string list" where
  "control_if name b = (if b then [name] else [])"

text \<open>A field the profile of the target has no place for.\<close>

definition unshared :: "json \<Rightarrow> bool \<Rightarrow> string \<Rightarrow> string list" where
  "unshared body shared f = control_if f (jget body f \<noteq> None \<and> \<not> shared)"

definition openai_warning_only_request_controls_for_translate :: "json \<Rightarrow> upstream_format \<Rightarrow> bool \<Rightarrow> string list" where
  "openai_warning_only_request_controls_for_translate body target reasoning_mapped =
    (let p = shared_control_profile_for_target target in
     unshared body (sc_metadata p) ''metadata''
     @ unshared body (sc_user p) ''user''
     @ unshared body (sc_service_tier p) ''service_tier''
     @ control_if ''stream_options.include_obfuscation''
         (request_stream_include_obfuscation body \<noteq> None \<and> \<not> sc_stream_include_obfuscation p)
     @ unshared body (sc_verbosity p) ''verbosity''
     @ unshared body (sc_reasoning_effort p \<or> reasoning_mapped) ''reasoning_effort''
     @ unshared body (sc_prompt_cache_key p) ''prompt_cache_key''
     @ unshared body (sc_prompt_cache_retention p) ''prompt_cache_retention''
     @ unshared body (sc_safety_identifier p) ''safety_identifier''
     @ control_if ''logprobs'' (jget_bool body ''logprobs'' = Some True \<and> \<not> sc_top_logprobs p)
     @ unshared body (sc_top_logprobs p) ''top_logprobs''
     @ unshared body (sc_logit_bias p) ''logit_bias''
     @ unshared body False ''prediction''
     @ unshared body False ''web_search_options'')"

definition responses_input_compaction_carrier_present :: "json \<Rightarrow> bool" where
  "responses_input_compaction_carrier_present body =
     list_ex responses_input_item_is_compaction (array_at body ''input'')"

definition carries_encrypted_reasoning :: "json \<Rightarrow> bool" where
  "carries_encrypted_reasoning item =
     (responses_input_item_type item = Some ''reasoning'' \<and> jget item ''encrypted_content'' \<noteq> None)"

definition responses_input_reasoning_encrypted_content_present :: "json \<Rightarrow> bool" where
  "responses_input_reasoning_encrypted_content_present body =
     list_ex carries_encrypted_reasoning (array_at body ''input'')"

definition responses_opaque_controls :: "json \<Rightarrow> upstream_format \<Rightarrow> string list" where
  "responses_opaque_controls body target =
     control_if ''include'' (responses_include_has_nonportable_items body target)
     @ control_if ''reasoning.encrypted_content''
         (''reasoning.encrypted_content'' \<in> set (responses_include_items body))
     @ control_if ''input[].reasoning.encrypted_content'' (responses_input_reasoning_encrypted_content_present body)
     @ control_if ''input[].compaction'' (responses_input_compaction_carrier_present body)"

definition responses_profile_controls :: "json \<Rightarrow> shared_control_profile \<Rightarrow> bool \<Rightarrow> bool \<Rightarrow> string list" where
  "responses_profile_controls body p reasoning_mapped include_dropped =
     control_if ''reasoning'' (jget body ''reasoning'' \<noteq> None \<and> (\<not> sc_reasoning_effort p \<and> \<not> reasoning_mapped
         \<or> responses_reasoning_has_nonportable_fields body p))
     @ control_if ''text'' (jget body ''text'' \<noteq> None \<and> responses_text_has_nonportable_fields body p)
     @ unshared body (sc_metadata p) ''metadata''
     @ unshared body (sc_user p) ''user''
     @ unshared body (sc_service_tier p) ''service_tier''
     @ unshared body (sc_prompt_cache_key p) ''prompt_cache_key''
     @ unshared body (sc_prompt_cache_retention p) ''prompt_cache_retention''
     @ unshared body (sc_safety_identifier p) ''safety_identifier''
     @ control_if ''include'' (responses_include_requests_output_text_logprobs body \<and> \<not> sc_top_logprobs p
         \<and> \<not> include_dropped)
     @ unshared body (sc_top_logprobs p) ''top_logprobs''
     @ control_if ''stream_options.include_obfuscation''
         (request_stream_include_obfuscation body \<noteq> None \<and> \<not> sc_stream_include_obfuscation p)
     @ control_if ''text.verbosity'' (responses_text_verbosity body \<noteq> None \<and> \<not> sc_verbosity p)
     @ control_if ''reasoning.effort''
         (responses_reasoning_effort body \<noteq> None \<and> \<not> sc_reasoning_effort p \<and> \<not> reasoning_mapped)
     @ control_if ''parallel_tool_calls''
         (jget_bool body ''parallel_tool_calls'' = Some False \<and> \<not> sc_parallel_tool_calls p)"

definition responses_warning_only_request_controls_for_translate ::
    "json \<Rightarrow> upstream_format \<Rightarrow> bool \<Rightarrow> string list" where
  "responses_warning_only_request_controls_for_translate body target reasoning_mapped =
     fields_present body
       [''stop'', ''seed'', ''presence_penalty'', ''frequency_penalty'', ''max_tool_calls'', ''truncation'']
     @ responses_opaque_controls body target
     @ responses_profile_controls body (shared_control_profile_for_target target) reasoning_mapped
         (responses_include_has_nonportable_items body target)"

end
