(* ===== verification/Assess_Responses.thy ===== *)
theory Assess_Responses
  imports Assess_Openai
begin

text \<open>
  Tool choices, tool definitions and input items of a Responses request that another protocol cannot
  take, opaque provider state, and custom tools
  (src/src/translate/internal/assessment.rs).
\<close>

section \<open>Tool choices and definitions\<close>

definition bridge_target :: "upstream_format \<Rightarrow> bool" where
  "bridge_target target = (target \<in> {OpenAiChatCompletions, Anthropic})"

definition responses_tool_choice_allowed_tools_array :: "json \<Rightarrow> json list option" where
  "responses_tool_choice_allowed_tools_array choice =
     option_or (jget_array choice ''tools'')
       (Option.bind (ogetj (jget choice ''allowed_tools'') ''tools'') as_array)"

definition names_custom_tool :: "json \<Rightarrow> bool" where
  "names_custom_tool v = (openai_named_tool_choice_name v ''custom'' \<noteq> None)"

definition openai_tool_choice_contains_custom :: "json \<Rightarrow> bool" where
  "openai_tool_choice_contains_custom v =
    (if type_of v = Some ''custom'' then names_custom_tool v
     else if type_of v = Some ''allowed_tools'' then
       (case Option.bind (option_or (ogetj (jget v ''allowed_tools'') ''tools'') (jget v ''tools'')) as_array of
          None \<Rightarrow> False
        | Some tools \<Rightarrow> list_ex (\<lambda>t. type_of t = Some ''custom'' \<and> names_custom_tool t) tools)
     else False)"

definition allowed_tool_not_portable :: "upstream_format \<Rightarrow> json \<Rightarrow> string option" where
  "allowed_tool_not_portable target tool =
    (let label = translation_target_label target in
     case type_of tool of
       None \<Rightarrow> Some (''OpenAI Responses tool_choice.allowed_tools selected an unnamed tool that cannot be ''
         @ ''faithfully translated to '' @ label)
     | Some ty \<Rightarrow>
         if ty = ''function'' \<or> ty = ''namespace'' \<or> ty = ''custom'' \<and> bridge_target target then None
         else if ty = ''custom'' then Some (''OpenAI Responses tool_choice.allowed_tools selected custom tool `''
           @ unwrap_or (jget_str tool ''name'') ''unknown'' @ ''` and cannot be faithfully translated to '' @ label)
         else Some (''OpenAI Responses tool_choice.allowed_tools selected hosted/built-in tool `'' @ ty
           @ ''` and cannot be faithfully translated to '' @ label))"

definition responses_nonportable_tool_choice_message :: "json \<Rightarrow> upstream_format \<Rightarrow> string option" where
  "responses_nonportable_tool_choice_message body target =
     Option.bind (Option.bind (jget body ''tool_choice'') as_object) (\<lambda>kvs.
     Option.bind (type_of (JObj kvs)) (\<lambda>ty.
       if ty = ''function'' \<or> ty = ''namespace'' \<or> ty = ''custom'' \<and> bridge_target target then None
       else if ty = ''allowed_tools'' then
         Option.bind (responses_tool_choice_allowed_tools_array (JObj kvs)) (find_map (allowed_tool_not_portable target))
       else Some (''OpenAI Responses tool_choice.type `'' @ ty @ ''` cannot be faithfully translated to ''
         @ translation_target_label target)))"

definition error_of :: "string + 'a \<Rightarrow> string option" where
  "error_of r = (case r of Inl e \<Rightarrow> Some e | Inr _ \<Rightarrow> None)"

definition value_of :: "string + 'a option \<Rightarrow> 'a option" where
  "value_of r = (case r of Inl _ \<Rightarrow> None | Inr v \<Rightarrow> v)"

definition responses_nonportable_tool_definition_message :: "json \<Rightarrow> string option" where
  "responses_nonportable_tool_definition_message body =
     find_map (\<lambda>t. error_of (normalized_responses_tool_definition t)) (array_at body ''tools'')"

definition responses_has_warning_only_nonportable_tool_definitions :: "json \<Rightarrow> bool" where
  "responses_has_warning_only_nonportable_tool_definitions body =
     list_ex (\<lambda>t. value_of (normalized_responses_tool_definition t) = None) (array_at body ''tools'')"

definition custom_tool_format_portability_warning_message :: "string \<Rightarrow> string \<Rightarrow> string \<Rightarrow> string" where
  "custom_tool_format_portability_warning_message source name target =
     source @ '' custom tool `'' @ name @ ''` format constraints cannot be faithfully translated to '' @ target
     @ ''; using raw string input bridge while omitting format constraints to preserve raw string input semantics''"

definition custom_tool_format_reject_message :: "string \<Rightarrow> string \<Rightarrow> string \<Rightarrow> string" where
  "custom_tool_format_reject_message source name target =
     source @ '' custom tool `'' @ name @ ''` format constraints cannot be faithfully translated to '' @ target
     @ ''; failing closed because this custom format has no safe raw string bridge''"

text \<open>The custom tool a definition is, when it is one.\<close>

definition custom_definition :: "json \<Rightarrow> custom_tool option" where
  "custom_definition t = (case normalized_responses_tool_definition t of
      Inr (Some (CustomTool c)) \<Rightarrow> Some c
    | _ \<Rightarrow> None)"

definition responses_custom_tool_format_reject_message :: "json \<Rightarrow> upstream_format \<Rightarrow> string option" where
  "responses_custom_tool_format_reject_message body target =
    (if \<not> bridge_target target then None
     else find_map (\<lambda>t. Option.bind (custom_definition t) (\<lambda>c.
         if openai_custom_tool_format_supports_anthropic_bridge (ct_format c) then None
         else Some (custom_tool_format_reject_message ''OpenAI Responses'' (ct_name c) (translation_target_label target))))
       (array_at body ''tools''))"

definition responses_custom_tool_bridge_warning_messages :: "json \<Rightarrow> upstream_format \<Rightarrow> string list" where
  "responses_custom_tool_bridge_warning_messages body target =
    (if \<not> bridge_target target then []
     else List.map_filter (\<lambda>t. Option.bind (custom_definition t) (\<lambda>c.
         if openai_custom_tool_format_supports_anthropic_bridge (ct_format c)
           \<and> \<not> openai_custom_tool_format_is_plain_text (ct_format c)
         then Some (custom_tool_format_portability_warning_message ''OpenAI Responses'' (ct_name c)
           (translation_target_label target))
         else None)) (array_at body ''tools''))"

section \<open>Visible context\<close>

definition nonblank :: "string option \<Rightarrow> bool" where
  "nonblank s = (case s of None \<Rightarrow> False | Some t \<Rightarrow> trim t \<noteq> [])"

definition responses_content_part_has_visible_portable_context :: "json \<Rightarrow> bool" where
  "responses_content_part_has_visible_portable_context part = (case type_of part of
      None \<Rightarrow> False
    | Some ty \<Rightarrow>
        if ty \<in> {''input_text'', ''output_text'', ''refusal''} then nonblank (jget_str part ''text'')
        else if ty \<in> {''input_image'', ''image_url''} then jget part ''image_url'' \<noteq> None
        else if ty = ''input_audio'' then jget part ''input_audio'' \<noteq> None
        else if ty \<in> {''input_file'', ''file''} then
          list_ex (\<lambda>f. jget part f \<noteq> None)
            [''file_id'', ''file_data'', ''file_url'', ''filename'', ''mime_type'', ''mimeType'']
        else False)"

definition responses_content_has_visible_portable_context :: "json option \<Rightarrow> bool" where
  "responses_content_has_visible_portable_context content = (case content of
      Some (JStr t) \<Rightarrow> trim t \<noteq> []
    | Some (JArr parts) \<Rightarrow> list_ex responses_content_part_has_visible_portable_context parts
    | Some (JObj kvs) \<Rightarrow> responses_content_part_has_visible_portable_context (JObj kvs)
    | _ \<Rightarrow> False)"

definition responses_input_item_has_visible_portable_context :: "json \<Rightarrow> bool" where
  "responses_input_item_has_visible_portable_context item = (case responses_input_item_type item of
      None \<Rightarrow> False
    | Some ty \<Rightarrow>
        if ty = ''message'' then responses_content_has_visible_portable_context (jget item ''content'')
        else if ty = ''reasoning'' then trim (responses_reasoning_summary_text item) \<noteq> []
        else if ty \<in> {''compaction'', ''compaction_summary''} then trim (responses_compaction_summary_text item) \<noteq> []
        else if ty = ''agent_message'' then responses_agent_message_text item \<noteq> None
        else False)"

definition responses_request_has_visible_portable_context :: "json \<Rightarrow> bool" where
  "responses_request_has_visible_portable_context body = (case jget body ''input'' of
      Some (JStr t) \<Rightarrow> trim t \<noteq> []
    | Some (JArr items) \<Rightarrow> list_ex responses_input_item_has_visible_portable_context items
    | _ \<Rightarrow> False)"

definition responses_request_has_non_compaction_visible_portable_context :: "json \<Rightarrow> bool" where
  "responses_request_has_non_compaction_visible_portable_context body =
     list_ex (\<lambda>i. \<not> responses_input_item_is_compaction i \<and> responses_input_item_has_visible_portable_context i)
       (array_at body ''input'')"

definition responses_compaction_item_can_drop_opaque_state :: "json \<Rightarrow> bool \<Rightarrow> bool" where
  "responses_compaction_item_can_drop_opaque_state item visible =
     (trim (responses_compaction_summary_text item) \<noteq> [] \<or> visible)"

definition responses_reasoning_item_can_drop_opaque_state :: "json \<Rightarrow> bool \<Rightarrow> bool" where
  "responses_reasoning_item_can_drop_opaque_state item visible =
     (trim (responses_reasoning_summary_text item) \<noteq> [] \<or> visible)"

section \<open>Input items\<close>

definition responses_hosted_input_item_type :: "string \<Rightarrow> bool" where
  "responses_hosted_input_item_type ty = (ty \<in> {''file_search_call'', ''web_search_call'', ''code_interpreter_call'',
     ''mcp_call'', ''image_generation_call'', ''computer_call'', ''computer_call_output''})"

definition responses_portable_input_item_type :: "string \<Rightarrow> bool" where
  "responses_portable_input_item_type ty = (ty \<in> {''message'', ''function_call'', ''custom_tool_call'',
     ''function_call_output'', ''custom_tool_call_output'', ''reasoning'', ''agent_message''})"

definition responses_namespace_is_bridged :: "json \<Rightarrow> string \<Rightarrow> bool" where
  "responses_namespace_is_bridged body namespace =
     list_ex (\<lambda>t. case value_of (normalized_responses_tool_definition t) of
         Some (NamespaceTool n _ _) \<Rightarrow> n = namespace
       | _ \<Rightarrow> False) (array_at body ''tools'')"

definition input_item_not_portable :: "json \<Rightarrow> upstream_format \<Rightarrow> json \<Rightarrow> string option" where
  "input_item_not_portable body target item =
    (let label = translation_target_label target in
     case responses_input_item_type item of
       None \<Rightarrow> Some (''OpenAI Responses input item lacks both `type` and `role` and cannot be faithfully translated to '' @ label)
     | Some ty \<Rightarrow>
         if ty \<in> {''function_call'', ''custom_tool_call''} \<and> jget item ''namespace'' \<noteq> None then
           (if responses_namespace_is_bridged body (unwrap_or (jget_str item ''namespace'') []) then None
            else Some (''OpenAI Responses namespaced tool call `'' @ unwrap_or (jget_str item ''name'') ''unknown''
              @ ''` cannot be faithfully translated to '' @ label))
         else if responses_input_item_is_compaction item then
           (if responses_compaction_item_can_drop_opaque_state item
                (responses_request_has_non_compaction_visible_portable_context body) then None
            else Some (''OpenAI Responses compaction input item contains provider-owned opaque state and cannot be ''
              @ ''safely dropped when translating to '' @ label
              @ '' because no visible portable transcript or summary remains''))
         else if responses_portable_input_item_type ty then None
         else if responses_hosted_input_item_type ty
         then Some (''OpenAI Responses input item `'' @ ty @ ''` cannot be faithfully translated to '' @ label)
         else Some (''OpenAI Responses input item type `'' @ ty @ ''` is outside the portable cross-protocol subset ''
           @ ''and cannot be faithfully translated to '' @ label))"

definition responses_nonportable_input_item_message :: "json \<Rightarrow> upstream_format \<Rightarrow> string option" where
  "responses_nonportable_input_item_message body target =
     find_map (input_item_not_portable body target) (array_at body ''input'')"

section \<open>Opaque payloads\<close>

definition part_of_type :: "string set \<Rightarrow> json \<Rightarrow> bool" where
  "part_of_type tys part = (case type_of part of None \<Rightarrow> False | Some ty \<Rightarrow> ty \<in> tys)"

definition responses_item_is_tool_result :: "json \<Rightarrow> bool" where
  "responses_item_is_tool_result item =
     (responses_input_item_type item \<in> {Some ''function_call_output'', Some ''custom_tool_call_output''})"

definition responses_has_warning_only_encrypted_agent_message :: "json \<Rightarrow> bool" where
  "responses_has_warning_only_encrypted_agent_message body =
     list_ex (\<lambda>item. responses_input_item_type item = Some ''agent_message''
         \<and> list_ex (part_of_type {''encrypted_content''}) (array_at item ''content''))
       (array_at body ''input'')"

definition responses_has_warning_only_encrypted_tool_output :: "json \<Rightarrow> bool" where
  "responses_has_warning_only_encrypted_tool_output body =
     list_ex (\<lambda>item. responses_item_is_tool_result item
         \<and> list_ex (part_of_type {''encrypted_content''}) (array_at item ''output'')
         \<and> list_ex (part_of_type {''input_text'', ''output_text''}) (array_at item ''output''))
       (array_at body ''input'')"

text \<open>The scan of an output array with its two flags: encrypted content seen, text seen.\<close>

fun tool_output_scan :: "string \<Rightarrow> bool \<Rightarrow> bool \<Rightarrow> json list \<Rightarrow> string option" where
  "tool_output_scan label encrypted plain [] =
    (if encrypted \<and> \<not> plain
     then Some (''OpenAI Responses encrypted-only tool output has no portable representation when translating to ''
       @ label @ ''; at least one text part is required so the opaque payload is not dropped silently'')
     else None)"
| "tool_output_scan label encrypted plain (p # ps) = (case type_of p of
      None \<Rightarrow> Some (''OpenAI Responses tool output arrays containing untyped values cannot be faithfully translated to ''
        @ label @ ''.'')
    | Some ty \<Rightarrow>
        if ty = ''input_text'' \<or> ty = ''output_text'' then tool_output_scan label encrypted True ps
        else if ty = ''encrypted_content'' then tool_output_scan label True plain ps
        else Some (''OpenAI Responses tool output arrays containing `'' @ ty
          @ ''` cannot be faithfully translated to '' @ label @ ''; only text arrays are portable.''))"

definition responses_nonportable_tool_output_message :: "json \<Rightarrow> upstream_format \<Rightarrow> string option" where
  "responses_nonportable_tool_output_message body target =
     find_map (\<lambda>item. if \<not> responses_item_is_tool_result item then None
         else Option.bind (jget_array item ''output'') (tool_output_scan (translation_target_label target) False False))
       (array_at body ''input'')"

definition responses_input_reasoning_encrypted_content_requires_native_continuity :: "json \<Rightarrow> bool" where
  "responses_input_reasoning_encrypted_content_requires_native_continuity body =
    (let visible = responses_request_has_visible_portable_context body in
     list_ex (\<lambda>item. carries_encrypted_reasoning item
         \<and> \<not> responses_reasoning_item_can_drop_opaque_state item visible) (array_at body ''input''))"

definition responses_reasoning_continuity_not_portable_message :: "string \<Rightarrow> string \<Rightarrow> string" where
  "responses_reasoning_continuity_not_portable_message f target =
     ''OpenAI Responses reasoning-continuity field `'' @ f @ ''` carries provider-owned opaque state and cannot be ''
     @ ''faithfully translated to '' @ target @ ''; use a native OpenAI Responses upstream to preserve it''"

definition responses_reasoning_continuity_request_message :: "json \<Rightarrow> upstream_format \<Rightarrow> string option" where
  "responses_reasoning_continuity_request_message body target =
    (if responses_input_reasoning_encrypted_content_requires_native_continuity body
     then Some (responses_reasoning_continuity_not_portable_message ''input[].reasoning.encrypted_content''
       (translation_target_label target))
     else None)"

section \<open>Choices, custom tools and arguments\<close>

definition cross_protocol_requested_choice_count :: "upstream_format \<Rightarrow> json \<Rightarrow> (string \<times> nat) option" where
  "cross_protocol_requested_choice_count client body =
    (if client = OpenAiChatCompletions then map_option (Pair ''n'') (jget_u64 body ''n'') else None)"

definition cross_protocol_requested_choice_count_message ::
    "upstream_format \<Rightarrow> upstream_format \<Rightarrow> json \<Rightarrow> string option" where
  "cross_protocol_requested_choice_count_message client upstream body =
     Option.bind (cross_protocol_requested_choice_count client body) (\<lambda>(f, n).
       if n \<le> 1 then None
       else Some (single_candidate_choice_contract_message (translation_target_label client)
         (translation_target_label upstream) f n))"

definition is_custom :: "env \<Rightarrow> json \<Rightarrow> bool" where
  "is_custom E v = (semantic_tool_kind_from_value E v = KindOpenAiCustom)"

definition choice_contains_custom :: "json \<Rightarrow> bool" where
  "choice_contains_custom body = (case jget body ''tool_choice'' of
      None \<Rightarrow> False | Some c \<Rightarrow> openai_tool_choice_contains_custom c)"

definition request_has_custom_tools :: "env \<Rightarrow> upstream_format \<Rightarrow> json \<Rightarrow> bool" where
  "request_has_custom_tools E client body = (case client of
      OpenAiChatCompletions \<Rightarrow> list_ex (is_custom E) (array_at body ''tools'')
        \<or> list_ex (\<lambda>m. list_ex (is_custom E) (array_at m ''tool_calls'')) (array_at body ''messages'')
        \<or> choice_contains_custom body
    | OpenAiResponses \<Rightarrow> list_ex (is_custom E) (array_at body ''tools'')
        \<or> list_ex (\<lambda>item. is_custom E (unwrap_or (responses_tool_call_item_to_openai_tool_call E item) item))
             (array_at body ''input'')
        \<or> choice_contains_custom body
    | Anthropic \<Rightarrow> False)"

text \<open>A call whose arguments have to be an object: neither a custom call nor one marked as cut off.\<close>

definition needs_structured_arguments :: "env \<Rightarrow> json \<Rightarrow> bool" where
  "needs_structured_arguments E v = (\<not> is_custom E v \<and> \<not> tool_call_is_marked_non_replayable E v)"

definition request_invalid_structured_tool_arguments_message ::
    "env \<Rightarrow> upstream_format \<Rightarrow> json \<Rightarrow> string \<Rightarrow> string option" where
  "request_invalid_structured_tool_arguments_message E client body target = (case client of
      OpenAiChatCompletions \<Rightarrow> find_map (\<lambda>m. find_map (\<lambda>tc.
          if needs_structured_arguments E tc then error_of (openai_tool_arguments_to_structured_value E target tc) else None)
        (array_at m ''tool_calls'')) (array_at body ''messages'')
    | OpenAiResponses \<Rightarrow> find_map (\<lambda>item.
          if type_of item \<in> {Some ''function_call'', Some ''custom_tool_call''} \<and> needs_structured_arguments E item
          then error_of (responses_tool_call_to_structured_value E target item) else None)
        (array_at body ''input'')
    | Anthropic \<Rightarrow> None)"

end
