(* ===== verification/Assess_Anthropic.thy ===== *)
theory Assess_Anthropic
  imports Translate
begin

text \<open>
  What an Anthropic request asks of the provider that the OpenAI family cannot give
  (src/src/translate/internal/assessment.rs): thinking, context management and container controls, the
  visible history they need, thinking carriers, and duplicate ids of tool uses.
\<close>

section \<open>Context management\<close>

definition first_unknown_field :: "(string \<times> json) list \<Rightarrow> string list \<Rightarrow> string option" where
  "first_unknown_field kvs allowed = find (\<lambda>k. k \<notin> set allowed) (map fst kvs)"

definition positive_integer_schema_error :: "json option \<Rightarrow> string \<Rightarrow> string option" where
  "positive_integer_schema_error v path = (case Option.bind v as_u64 of
      Some n \<Rightarrow> if 0 < n then None else Some (path @ '' must be a positive integer'')
    | None \<Rightarrow> Some (path @ '' must be a positive integer''))"

definition validate_context_management_metric :: "json option \<Rightarrow> string \<Rightarrow> string list \<Rightarrow> string option" where
  "validate_context_management_metric v path allowed = (case v of
      None \<Rightarrow> None
    | Some (JObj kvs) \<Rightarrow>
        (case first_unknown_field kvs [''type'', ''value''] of
           Some f \<Rightarrow> Some (path @ '' contains unsupported field `'' @ f @ ''`'')
         | None \<Rightarrow> (case type_of (JObj kvs) of
               None \<Rightarrow> Some (path @ ''.type must be a string'')
             | Some ty \<Rightarrow>
                 if ty \<notin> set allowed then Some (path @ ''.type `'' @ ty @ ''` is not supported'')
                 else positive_integer_schema_error (jget (JObj kvs) ''value'') (path @ ''.value'')))
    | Some _ \<Rightarrow> Some (path @ '' must be an object''))"

definition validate_anthropic_clear_thinking_edit :: "(string \<times> json) list \<Rightarrow> string option" where
  "validate_anthropic_clear_thinking_edit kvs =
    (let bad = Some ''clear_thinking_20251015.keep must be `all` or `{type:\"thinking_turns\", value:N}`'' in
     case first_unknown_field kvs [''type'', ''keep''] of
       Some f \<Rightarrow> Some (''clear_thinking_20251015 contains unsupported field `'' @ f @ ''`'')
     | None \<Rightarrow> (case jget (JObj kvs) ''keep'' of
           None \<Rightarrow> None
         | Some (JStr s) \<Rightarrow> if s = ''all'' then None else bad
         | Some (JObj keep) \<Rightarrow>
             (case first_unknown_field keep [''type'', ''value''] of
                Some f \<Rightarrow> Some (''clear_thinking_20251015.keep contains unsupported field `'' @ f @ ''`'')
              | None \<Rightarrow>
                  if type_of (JObj keep) \<noteq> Some ''thinking_turns''
                  then Some ''clear_thinking_20251015.keep.type must be `thinking_turns`''
                  else positive_integer_schema_error (jget (JObj keep) ''value'') ''clear_thinking_20251015.keep.value'')
         | Some _ \<Rightarrow> bad))"

definition clear_tool_uses_exclusions_error :: "json option \<Rightarrow> string option" where
  "clear_tool_uses_exclusions_error v = (case v of
      None \<Rightarrow> None
    | Some (JArr tools) \<Rightarrow>
        if list_ex (\<lambda>t. case as_str t of None \<Rightarrow> True | Some s \<Rightarrow> trim s = []) tools
        then Some ''clear_tool_uses_20250919.exclude_tools entries must be non-empty strings'' else None
    | Some _ \<Rightarrow> Some ''clear_tool_uses_20250919.exclude_tools must be an array'')"

definition validate_anthropic_clear_tool_uses_edit :: "(string \<times> json) list \<Rightarrow> string option" where
  "validate_anthropic_clear_tool_uses_edit kvs =
    (case first_unknown_field kvs [''type'', ''keep'', ''exclude_tools'', ''clear_tool_inputs''] of
       Some f \<Rightarrow> Some (''clear_tool_uses_20250919 contains unsupported field `'' @ f @ ''`'')
     | None \<Rightarrow>
         option_or (validate_context_management_metric (jget (JObj kvs) ''keep'') ''clear_tool_uses_20250919.keep'' [''tool_uses''])
         (option_or (clear_tool_uses_exclusions_error (jget (JObj kvs) ''exclude_tools''))
           (case jget (JObj kvs) ''clear_tool_inputs'' of
              Some v \<Rightarrow> if as_bool v = None then Some ''clear_tool_uses_20250919.clear_tool_inputs must be a boolean'' else None
            | None \<Rightarrow> None)))"

definition context_edit_error :: "nat \<Rightarrow> json \<Rightarrow> string option" where
  "context_edit_error index edit = (case edit of
      JObj kvs \<Rightarrow> (case type_of edit of
          None \<Rightarrow> Some (''edit at index '' @ nat_str index @ '' requires a string `type` field'')
        | Some ty \<Rightarrow>
            if ty = ''clear_thinking_20251015'' then
              (if index \<noteq> 0 then Some ''`clear_thinking_20251015` must be the first context edit''
               else validate_anthropic_clear_thinking_edit kvs)
            else if ty = ''clear_tool_uses_20250919'' then validate_anthropic_clear_tool_uses_edit kvs
            else Some (''contains unsupported edit type `'' @ ty @ ''`''))
    | _ \<Rightarrow> Some (''edit at index '' @ nat_str index @ '' must be an object''))"

definition validate_anthropic_context_management_edits :: "json list \<Rightarrow> string option" where
  "validate_anthropic_context_management_edits edits =
     find_map (\<lambda>(index, edit). context_edit_error index edit) (enumerate 0 edits)"

definition anthropic_context_management_provider_owned_field :: "string \<Rightarrow> bool" where
  "anthropic_context_management_provider_owned_field key =
     (key \<in> {''applied_edits'', ''original_input_tokens'', ''cleared_input_tokens'', ''cleared_tool_uses'',
        ''cleared_thinking_turns'', ''id'', ''handle'', ''state'', ''opaque_state'', ''encrypted_content''})"

definition legacy_context_type_error :: "(string \<times> json) list \<Rightarrow> json \<Rightarrow> string option" where
  "legacy_context_type_error kvs ty = (case as_str ty of
      None \<Rightarrow> Some ''field `type` must be the legacy string `auto` or omitted when using `edits`''
    | Some t \<Rightarrow>
        if t = ''auto'' then
          (if length kvs = 1 then None else Some ''legacy no-op `type:auto` does not support additional fields'')
        else Some (''uses unsupported legacy type `'' @ t @ ''`''))"

definition context_edits_error :: "(string \<times> json) list \<Rightarrow> string option" where
  "context_edits_error kvs = (case jget (JObj kvs) ''edits'' of
      None \<Rightarrow> (case kvs of
          (k, _) # _ \<Rightarrow> Some (''contains unsupported field `'' @ k @ ''`'')
        | [] \<Rightarrow> Some ''must use known legacy `type:auto` or an `edits` array'')
    | Some edits \<Rightarrow>
        if length kvs \<noteq> 1 then Some (''contains unsupported field `''
          @ unwrap_or (find (\<lambda>k. k \<noteq> ''edits'') (map fst kvs)) ''unknown'' @ ''` alongside `edits`'')
        else (case as_array edits of
            None \<Rightarrow> Some ''field `edits` must be an array''
          | Some es \<Rightarrow> validate_anthropic_context_management_edits es))"

definition anthropic_context_management_schema_error :: "json \<Rightarrow> string option" where
  "anthropic_context_management_schema_error v = (case v of
      JNull \<Rightarrow> None
    | JBool b \<Rightarrow> if b then Some ''must be an object, null, or false'' else None
    | JObj kvs \<Rightarrow>
        (case find anthropic_context_management_provider_owned_field (map fst kvs) of
           Some f \<Rightarrow> Some (''contains provider-owned state field `'' @ f @ ''`'')
         | None \<Rightarrow> (case jget v ''type'' of
               Some ty \<Rightarrow> legacy_context_type_error kvs ty
             | None \<Rightarrow> context_edits_error kvs))
    | _ \<Rightarrow> Some ''must be an object, null, or false'')"

definition anthropic_context_management_fail_closed_reason :: "json \<Rightarrow> string \<Rightarrow> string option" where
  "anthropic_context_management_fail_closed_reason v target =
     map_option (\<lambda>reason. ''Anthropic context_management '' @ reason @ '' and cannot be translated to '' @ target)
       (anthropic_context_management_schema_error v)"

section \<open>Containers\<close>

definition dashes_to_underscores :: "string \<Rightarrow> string" where
  "dashes_to_underscores = map (\<lambda>c. if c = CHR ''-'' then CHR ''_'' else c)"

definition names_provider_runtime :: "string \<Rightarrow> bool" where
  "names_provider_runtime s = list_ex (str_contains s)
     [''container'', ''skill'', ''code_execution'', ''mcp'', ''server_tool'', ''resource'', ''runtime'', ''opaque'',
      ''encrypted'', ''state'']"

definition anthropic_container_key_requires_provider_runtime :: "string \<Rightarrow> bool" where
  "anthropic_container_key_requires_provider_runtime key =
    (let n = dashes_to_underscores (to_ascii_lowercase key)
     in n = ''id'' \<or> n = ''handle'' \<or> names_provider_runtime n)"

definition anthropic_container_string_requires_provider_runtime :: "string \<Rightarrow> bool" where
  "anthropic_container_string_requires_provider_runtime s =
     names_provider_runtime (dashes_to_underscores (to_ascii_lowercase s))"

fun anthropic_container_requires_provider_runtime :: "json \<Rightarrow> bool" where
  "anthropic_container_requires_provider_runtime (JObj kvs) = list_ex (\<lambda>(k, v).
     v \<noteq> JNull \<and> v \<noteq> JBool False \<and> (anthropic_container_key_requires_provider_runtime k
       \<or> anthropic_container_requires_provider_runtime v)) kvs"
| "anthropic_container_requires_provider_runtime (JArr items) =
     list_ex anthropic_container_requires_provider_runtime items"
| "anthropic_container_requires_provider_runtime (JStr s) = anthropic_container_string_requires_provider_runtime s"
| "anthropic_container_requires_provider_runtime _ = False"

section \<open>Visible history\<close>

text \<open>\<open>anthropic_visit_content_blocks\<close> visits \<open>content_blocks\<close>.\<close>

definition anthropic_block_has_visible_user_context :: "json \<Rightarrow> bool" where
  "anthropic_block_has_visible_user_context block =
    (if type_of block = Some ''text'' then (case jget_str block ''text'' of Some t \<Rightarrow> trim t \<noteq> [] | None \<Rightarrow> False)
     else type_of block = Some ''image'' \<and> jget block ''source'' \<noteq> None)"

definition anthropic_content_has_visible_user_context :: "json option \<Rightarrow> bool" where
  "anthropic_content_has_visible_user_context content = (case content of
      Some (JStr t) \<Rightarrow> trim t \<noteq> []
    | _ \<Rightarrow> list_ex anthropic_block_has_visible_user_context (content_blocks content))"

definition anthropic_block_has_visible_thinking_text :: "json \<Rightarrow> bool" where
  "anthropic_block_has_visible_thinking_text block =
     (case jget_str block ''thinking'' of Some t \<Rightarrow> trim t \<noteq> [] | None \<Rightarrow> False)"

definition anthropic_block_has_provider_owned_state_hint :: "json \<Rightarrow> bool" where
  "anthropic_block_has_provider_owned_state_hint block =
    (if type_of block \<in> {Some ''redacted_thinking'', Some ''encrypted_thinking''} then True
     else if type_of block = Some ''thinking'' then
       \<not> anthropic_block_has_visible_thinking_text block \<or> jget block ''data'' \<noteq> None
       \<or> jget block ''redacted_content'' \<noteq> None \<or> jget block ''encrypted_content'' \<noteq> None
     else False)"

definition anthropic_content_has_provider_owned_state_hint :: "json option \<Rightarrow> bool" where
  "anthropic_content_has_provider_owned_state_hint content =
     list_ex anthropic_block_has_provider_owned_state_hint (content_blocks content)"

text \<open>
  One block against the open tool uses: the open uses after it, and whether the history is still
  structural (an id that is missing or open already, a result without a use).
\<close>

definition history_block :: "string option \<Rightarrow> json \<Rightarrow> string list \<times> bool \<Rightarrow> string list \<times> bool" where
  "history_block role block s = (case s of (pending, ok) \<Rightarrow>
    (if type_of block \<in> {Some ''tool_use'', Some ''server_tool_use''} \<and> role = Some ''assistant'' then
       (case trimmed_str block ''id'' of
          None \<Rightarrow> (pending, False)
        | Some i \<Rightarrow> if i \<in> set pending then (pending, False) else (i # pending, ok))
     else if type_of block = Some ''tool_result'' then
       (case trimmed_str block ''tool_use_id'' of
          None \<Rightarrow> (pending, False)
        | Some i \<Rightarrow> if i \<in> set pending then (removeAll i pending, ok) else (pending, False))
     else s))"

fun visible_history :: "json list \<Rightarrow> bool \<Rightarrow> string list \<Rightarrow> bool" where
  "visible_history [] seen_user pending = (seen_user \<and> pending = [])"
| "visible_history (m # ms) seen_user pending =
    (if anthropic_content_has_provider_owned_state_hint (jget m ''content'') then False
     else (let (pending, ok) = fold (history_block (role_of m)) (content_blocks (jget m ''content'')) (pending, True)
           in ok \<and> visible_history ms (seen_user \<or> role_of m = Some ''user''
                \<and> anthropic_content_has_visible_user_context (jget m ''content'')) pending))"

definition anthropic_request_has_complete_visible_history :: "json \<Rightarrow> bool" where
  "anthropic_request_has_complete_visible_history body = (case jget_array body ''messages'' of
      None \<Rightarrow> False
    | Some messages \<Rightarrow>
        messages \<noteq> [] \<and> \<not> anthropic_content_has_provider_owned_state_hint (jget body ''system'')
        \<and> visible_history messages (anthropic_content_has_visible_user_context (jget body ''system'')) [])"

section \<open>Controls at the top of a request\<close>

datatype control_disposition = WarnDrop | FailClosed

record control_assessment =
  ca_field :: string
  ca_disposition :: control_disposition
  ca_reason :: string

definition warn_drop :: "string \<Rightarrow> string \<Rightarrow> control_assessment" where
  "warn_drop f reason = \<lparr>ca_field = f, ca_disposition = WarnDrop, ca_reason = reason\<rparr>"

definition fail_closed :: "string \<Rightarrow> string \<Rightarrow> control_assessment" where
  "fail_closed f reason = \<lparr>ca_field = f, ca_disposition = FailClosed, ca_reason = reason\<rparr>"

definition assess_thinking_control :: "bool \<Rightarrow> string \<Rightarrow> control_assessment" where
  "assess_thinking_control visible target =
    (if visible then warn_drop ''thinking'' ''top-level Anthropic thinking is a provider-specific capability hint''
     else fail_closed ''thinking''
       (''top-level Anthropic thinking requires complete visible history before translation to '' @ target))"

definition assess_context_management_control :: "bool \<Rightarrow> string \<Rightarrow> json \<Rightarrow> control_assessment" where
  "assess_context_management_control visible target v =
    (case anthropic_context_management_fail_closed_reason v target of
       Some reason \<Rightarrow> fail_closed ''context_management'' reason
     | None \<Rightarrow>
         if visible then warn_drop ''context_management''
           ''Anthropic context_management is a request-local context editing hint''
         else fail_closed ''context_management''
           (''Anthropic context_management requires complete visible history before translation to '' @ target))"

definition assess_container_control :: "bool \<Rightarrow> string \<Rightarrow> json \<Rightarrow> control_assessment" where
  "assess_container_control visible target v =
    (if anthropic_container_requires_provider_runtime v then fail_closed ''container''
       (''Anthropic container depends on provider-owned runtime/state/resource semantics and cannot be translated to '' @ target)
     else if visible then warn_drop ''container''
       ''Anthropic container is a request-local hint without portable OpenAI-family semantics''
     else fail_closed ''container''
       (''Anthropic container hints require complete visible history before translation to '' @ target))"

definition anthropic_top_level_request_control_assessments :: "json \<Rightarrow> string \<Rightarrow> control_assessment list" where
  "anthropic_top_level_request_control_assessments body target =
    (let visible = anthropic_request_has_complete_visible_history body in
     (if jget body ''thinking'' \<noteq> None then [assess_thinking_control visible target] else [])
     @ (case jget body ''context_management'' of
          None \<Rightarrow> []
        | Some v \<Rightarrow> if v = JNull \<or> v = JBool False then [] else [assess_context_management_control visible target v])
     @ (case jget body ''container'' of None \<Rightarrow> [] | Some v \<Rightarrow> [assess_container_control visible target v]))"

definition anthropic_warning_only_request_controls_for_translate :: "json \<Rightarrow> string list" where
  "anthropic_warning_only_request_controls_for_translate body =
     filter (\<lambda>f. jget body f \<noteq> None) [''top_k'', ''service_tier'']
     @ (if anthropic_protocol_cache_control_present body then [''cache_control''] else [])"

section \<open>Thinking carriers and ids\<close>

definition block_thinking_carriers :: "json \<Rightarrow> string list" where
  "block_thinking_carriers block =
    (if type_of block = Some ''thinking'' \<and> anthropic_block_has_visible_thinking_text block
     then filter (\<lambda>f. jget block f \<noteq> None) [''signature'', ''encrypted_content'']
       @ (if jget block ''redacted_content'' \<noteq> None \<or> jget block ''data'' \<noteq> None then [''redacted_content''] else [])
     else [])"

text \<open>The names found anywhere, sorted and without repetitions.\<close>

definition anthropic_request_visible_thinking_carrier_fields :: "json \<Rightarrow> string list" where
  "anthropic_request_visible_thinking_carrier_fields body =
    (let found = concat (map block_thinking_carriers (content_blocks (jget body ''system'')))
       @ concat (map (\<lambda>m. concat (map block_thinking_carriers (content_blocks (jget m ''content''))))
           (array_at body ''messages''))
     in filter (\<lambda>f. f \<in> set found) [''encrypted_content'', ''redacted_content'', ''signature''])"

definition opaque_thinking_message :: "string \<Rightarrow> string" where
  "opaque_thinking_message target =
     ''Anthropic opaque/redacted/encrypted thinking carriers without visible text require native Anthropic ''
     @ ''semantics and cannot be faithfully translated to '' @ target"

definition anthropic_opaque_thinking_carrier_in_block :: "string \<Rightarrow> json \<Rightarrow> string option" where
  "anthropic_opaque_thinking_carrier_in_block target block =
    (if type_of block = Some ''thinking'' then
       (if anthropic_block_has_visible_thinking_text block then None else Some (opaque_thinking_message target))
     else if type_of block \<in> {Some ''redacted_thinking'', Some ''encrypted_thinking''}
     then Some (opaque_thinking_message target) else None)"

definition anthropic_opaque_thinking_carrier_in_content :: "string \<Rightarrow> json option \<Rightarrow> string option" where
  "anthropic_opaque_thinking_carrier_in_content target content =
     find_map (anthropic_opaque_thinking_carrier_in_block target) (content_blocks content)"

definition anthropic_opaque_thinking_carrier_message :: "json \<Rightarrow> string \<Rightarrow> string option" where
  "anthropic_opaque_thinking_carrier_message body target =
     option_or (anthropic_opaque_thinking_carrier_in_content target (jget body ''system''))
       (find_map (\<lambda>m. anthropic_opaque_thinking_carrier_in_content target (jget m ''content'')) (array_at body ''messages''))"

text \<open>The first id that is among the ids seen so far; else the ids seen after the blocks.\<close>

fun duplicate_use_in_blocks :: "json list \<Rightarrow> string list \<Rightarrow> string + string list" where
  "duplicate_use_in_blocks [] seen = Inr seen"
| "duplicate_use_in_blocks (b # bs) seen =
    (if type_of b \<notin> {Some ''tool_use'', Some ''server_tool_use''} then duplicate_use_in_blocks bs seen
     else (case trimmed_str b ''id'' of
         None \<Rightarrow> duplicate_use_in_blocks bs seen
       | Some i \<Rightarrow> if i \<in> set seen then Inl i else duplicate_use_in_blocks bs (i # seen)))"

fun duplicate_use_id :: "json list \<Rightarrow> string list \<Rightarrow> string option" where
  "duplicate_use_id [] seen = None"
| "duplicate_use_id (m # ms) seen =
    (if role_of m \<noteq> Some ''assistant'' then duplicate_use_id ms seen
     else (case duplicate_use_in_blocks (content_blocks (jget m ''content'')) seen of
         Inl i \<Rightarrow> Some i
       | Inr seen \<Rightarrow> duplicate_use_id ms seen))"

definition anthropic_duplicate_assistant_tool_use_id_message :: "json \<Rightarrow> string \<Rightarrow> string option" where
  "anthropic_duplicate_assistant_tool_use_id_message body target =
     map_option (\<lambda>i. ''Anthropic assistant tool_use id `'' @ i @ ''` is duplicated and cannot be translated to ''
         @ target @ ''; OpenAI-family tool_call ids must be unique'')
       (Option.bind (jget_array body ''messages'') (\<lambda>ms. duplicate_use_id ms []))"

end
