(* ===== verification/Assessment.thy ===== *)
theory Assessment
  imports Assess_Anthropic Assess_Responses
begin

text \<open>
  The assessment of a request before it is translated, with the surface of its model: its modalities,
  parallel tool calls, MIME types of files (src/src/translate/internal/assessment.rs), and the
  translation of requests with it (src/src/translate/internal.rs).
\<close>

section \<open>Modalities\<close>

definition before_semicolon :: "string \<Rightarrow> string" where
  "before_semicolon s = takeWhile (\<lambda>c. c \<noteq> CHR '';'') s"

definition mime_type_to_input_modality :: "string \<Rightarrow> model_modality option" where
  "mime_type_to_input_modality mime =
    (let m = to_ascii_lowercase (trim (before_semicolon mime)) in
     if m = [] then None
     else if starts_with ''text/'' m then Some Text
     else if starts_with ''image/'' m then Some Image
     else if starts_with ''audio/'' m then Some Audio
     else if starts_with ''video/'' m then Some Video
     else if m = ''application/pdf'' then Some Pdf
     else Some File)"

definition openai_file_part_modality :: "json \<Rightarrow> model_modality" where
  "openai_file_part_modality part = unwrap_or (case openai_file_part_resolved_mime_type part of
      Inr (Some mime) \<Rightarrow> mime_type_to_input_modality mime
    | _ \<Rightarrow> None) File"

definition openai_collect_input_part_modalities :: "json \<Rightarrow> model_modality list" where
  "openai_collect_input_part_modalities part = (case type_of part of
      None \<Rightarrow> []
    | Some ty \<Rightarrow>
        if ty = ''image_url'' \<or> ty = ''input_image'' then [Image]
        else if ty = ''input_audio'' then [Audio]
        else if ty = ''file'' \<or> ty = ''input_file'' then [openai_file_part_modality part]
        else [])"

definition openai_collect_completion_message_input_modalities :: "json \<Rightarrow> model_modality list" where
  "openai_collect_completion_message_input_modalities message =
     (if present (jget message ''audio'') \<noteq> None then [Audio] else [])
     @ concat (map openai_collect_input_part_modalities (array_at message ''content''))"

definition openai_collect_completion_input_modalities :: "json \<Rightarrow> model_modality list" where
  "openai_collect_completion_input_modalities body =
     (if openai_assistant_history_audio_present body then [Audio] else [])
     @ concat (map openai_collect_completion_message_input_modalities (array_at body ''messages''))"

definition openai_collect_responses_input_item_modalities :: "json \<Rightarrow> model_modality list" where
  "openai_collect_responses_input_item_modalities item =
     openai_collect_input_part_modalities item
     @ (if responses_input_item_type item = Some ''message''
        then concat (map openai_collect_input_part_modalities (array_at item ''content''))
        else if responses_input_item_type item = Some ''output_audio'' then [Audio] else [])"

definition openai_collect_responses_input_modalities :: "json \<Rightarrow> model_modality list" where
  "openai_collect_responses_input_modalities body =
     concat (map openai_collect_responses_input_item_modalities (array_at body ''input''))"

definition source_modality :: "json \<Rightarrow> model_modality option" where
  "source_modality block = Option.bind (Option.bind (ogetj (jget block ''source'') ''media_type'') as_str)
     mime_type_to_input_modality"

definition anthropic_collect_block_input_modalities :: "json \<Rightarrow> model_modality list" where
  "anthropic_collect_block_input_modalities block =
    (if type_of block = Some ''image'' then [Image]
     else if type_of block = Some ''audio'' then [Audio]
     else if type_of block = Some ''document'' then [if source_modality block = Some Pdf then Pdf else File]
     else (case source_modality block of None \<Rightarrow> [] | Some m \<Rightarrow> [m]))"

definition anthropic_collect_content_input_modalities :: "json option \<Rightarrow> model_modality list" where
  "anthropic_collect_content_input_modalities content = (case content of
      Some (JArr blocks) \<Rightarrow> concat (map anthropic_collect_block_input_modalities blocks)
    | Some (JObj kvs) \<Rightarrow> anthropic_collect_block_input_modalities (JObj kvs)
    | _ \<Rightarrow> [])"

definition anthropic_collect_request_input_modalities :: "json \<Rightarrow> model_modality list" where
  "anthropic_collect_request_input_modalities body =
     anthropic_collect_content_input_modalities (jget body ''system'')
     @ concat (map (\<lambda>m. anthropic_collect_content_input_modalities (jget m ''content'')) (array_at body ''messages''))"

text \<open>The set that \<open>insert_input_modality\<close> fills, text left out, in the order of the variants.\<close>

definition modality_set :: "model_modality list \<Rightarrow> model_modality list" where
  "modality_set ms = filter (\<lambda>m. m \<in> set ms) [Image, Audio, Pdf, File, Video]"

definition request_input_modalities :: "upstream_format \<Rightarrow> json \<Rightarrow> model_modality list" where
  "request_input_modalities client body = modality_set (case client of
      OpenAiChatCompletions \<Rightarrow> openai_collect_completion_input_modalities body
    | OpenAiResponses \<Rightarrow> openai_collect_responses_input_modalities body
    | Anthropic \<Rightarrow> anthropic_collect_request_input_modalities body)"

definition asks_for_audio :: "json \<Rightarrow> bool" where
  "asks_for_audio body = (jget body ''audio'' \<noteq> None
     \<or> list_ex (\<lambda>m. case as_str m of None \<Rightarrow> False | Some s \<Rightarrow> to_ascii_lowercase s = ''audio'') (array_at body ''modalities''))"

definition request_output_modalities :: "upstream_format \<Rightarrow> json \<Rightarrow> model_modality list" where
  "request_output_modalities client body = (if client \<noteq> Anthropic \<and> asks_for_audio body then [Audio] else [])"

section \<open>The surface\<close>

definition surface_allows_modality :: "model_modality list option \<Rightarrow> model_modality \<Rightarrow> bool" where
  "surface_allows_modality allowed m = (case allowed of
      None \<Rightarrow> True
    | Some ms \<Rightarrow> m \<in> set ms \<or> m = Pdf \<and> File \<in> set ms)"

fun modality_label :: "model_modality \<Rightarrow> string" where
  "modality_label Text = ''text''"
| "modality_label Image = ''image''"
| "modality_label Audio = ''audio''"
| "modality_label Pdf = ''pdf''"
| "modality_label File = ''file''"
| "modality_label Video = ''video''"

definition request_has_surface_tooling :: "upstream_format \<Rightarrow> json \<Rightarrow> bool" where
  "request_has_surface_tooling client body = (array_at body ''tools'' \<noteq> [])"

definition request_explicitly_enables_parallel_tool_calls :: "upstream_format \<Rightarrow> json \<Rightarrow> bool" where
  "request_explicitly_enables_parallel_tool_calls client body = (case client of
      Anthropic \<Rightarrow> Option.bind (ogetj (jget body ''tool_choice'') ''disable_parallel_tool_use'') as_bool = Some False
    | _ \<Rightarrow> jget_bool body ''parallel_tool_calls'' = Some True)"

definition reject :: "string \<Rightarrow> translation_issue" where
  "reject message = \<lparr>issue_level = Reject, issue_message = message\<rparr>"

definition warning :: "string \<Rightarrow> translation_issue" where
  "warning message = \<lparr>issue_level = Warning, issue_message = message\<rparr>"

definition assess_surface_request_policy :: "upstream_format \<Rightarrow> json \<Rightarrow> model_surface \<Rightarrow> translation_issue list" where
  "assess_surface_request_policy client body surface =
    (if Option.bind (surface_tools surface) supports_parallel_calls = Some False
        \<and> request_has_surface_tooling client body \<and> request_explicitly_enables_parallel_tool_calls client body
     then [reject (''request explicitly enables parallel tool execution (`parallel_tool_calls=true` or ''
       @ ''`tool_choice.disable_parallel_tool_use=false`), but model surface `tools.supports_parallel_calls=false`'')]
     else [])
    @ map (\<lambda>m. reject (''request uses '' @ modality_label m
          @ '' input, but model surface `modalities.input` does not include `'' @ modality_label m @ ''`''))
        (filter (\<lambda>m. \<not> surface_allows_modality (Option.bind (surface_modalities surface) input_modalities) m)
          (request_input_modalities client body))
    @ map (\<lambda>m. reject (''request asks for '' @ modality_label m
          @ '' output, but model surface `modalities.output` does not include `'' @ modality_label m @ ''`''))
        (filter (\<lambda>m. \<not> surface_allows_modality (Option.bind (surface_modalities surface) output_modalities) m)
          (request_output_modalities client body))"

section \<open>Files whose MIME types disagree\<close>

definition openai_input_part_file_mime_conflict_message :: "json \<Rightarrow> string option" where
  "openai_input_part_file_mime_conflict_message part =
     (if type_of part \<in> {Some ''file'', Some ''input_file''} then openai_file_part_mime_conflict_message part else None)"

definition openai_content_file_mime_conflict_message :: "json option \<Rightarrow> string option" where
  "openai_content_file_mime_conflict_message content = (case content of
      Some (JArr parts) \<Rightarrow> find_map openai_input_part_file_mime_conflict_message parts
    | Some (JObj kvs) \<Rightarrow> openai_input_part_file_mime_conflict_message (JObj kvs)
    | _ \<Rightarrow> None)"

definition openai_responses_input_item_file_mime_conflict_message :: "json \<Rightarrow> string option" where
  "openai_responses_input_item_file_mime_conflict_message item =
     option_or (openai_input_part_file_mime_conflict_message item)
       (if responses_input_item_is_message item
        then openai_content_file_mime_conflict_message (jget item ''content'') else None)"

definition openai_request_file_mime_conflict_message :: "upstream_format \<Rightarrow> json \<Rightarrow> string option" where
  "openai_request_file_mime_conflict_message client body = (case client of
      OpenAiChatCompletions \<Rightarrow>
        find_map (\<lambda>m. openai_content_file_mime_conflict_message (jget m ''content'')) (array_at body ''messages'')
    | OpenAiResponses \<Rightarrow>
        find_map openai_responses_input_item_file_mime_conflict_message (array_at body ''input'')
    | Anthropic \<Rightarrow> None)"

section \<open>Issues\<close>

definition rejects :: "string option \<Rightarrow> translation_issue list" where
  "rejects m = (case m of None \<Rightarrow> [] | Some text' \<Rightarrow> [reject text'])"

text \<open>The names between backquotes, separated by commas.\<close>

definition quoted_names :: "string list \<Rightarrow> string" where
  "quoted_names names = join '', '' (map (\<lambda>n. ''`'' @ n @ ''`'') names)"

text \<open>One issue that names all controls, when there are any.\<close>

definition about_controls :: "(string \<Rightarrow> translation_issue) \<Rightarrow> string \<Rightarrow> string list \<Rightarrow> string \<Rightarrow> translation_issue list" where
  "about_controls issue before controls after =
     (if controls = [] then [] else [issue (before @ quoted_names controls @ after)])"

section \<open>Cache controls\<close>

definition assess_prompt_cache_extension_target_mismatch ::
    "upstream_format \<Rightarrow> upstream_format \<Rightarrow> json \<Rightarrow> translation_issue list" where
  "assess_prompt_cache_extension_target_mismatch client upstream body =
    (if openai_family_format client \<and> upstream \<noteq> Anthropic \<and> openai_extra_body_anthropic_cache_control_present body
     then [reject (''extra_body.anthropic.cache_control is an explicit Anthropic prompt-cache control and cannot be ''
       @ ''forwarded to '' @ translation_target_label upstream @ ''; target Anthropic is required'')] else [])
    @ (if client = Anthropic \<and> \<not> openai_family_format upstream
         \<and> anthropic_extra_body_openai_prompt_cache_controls_present body
     then [reject (''extra_body.openai prompt-cache controls are explicit OpenAI prompt-cache controls and cannot be ''
       @ ''forwarded to '' @ translation_target_label upstream @ ''; target OpenAI is required'')] else [])"

definition assess_openai_family_prompt_cache_extensions ::
    "upstream_format \<Rightarrow> upstream_format \<Rightarrow> json \<Rightarrow> translation_issue list" where
  "assess_openai_family_prompt_cache_extensions client upstream body =
    (if \<not> openai_family_format client \<or> client = upstream then []
     else (if openai_extra_body_google_cached_content body \<noteq> None
       then [reject (''extra_body.google.cached_content requires Gemini cache scope and cannot be translated to ''
         @ translation_target_label upstream @ ''; the proxy does not map Gemini cached content'')] else [])
     @ (if upstream = Anthropic \<and> openai_extra_body_anthropic_cache_control_present body
        then rejects (error_of (validated_openai_extra_body_anthropic_cache_control body)) else [])
     @ (if upstream = Anthropic then about_controls reject
          (''OpenAI block-level/provider `cache_control` is not supported on translated Anthropic paths; use ''
           @ ''`extra_body.anthropic.cache_control` for top-level Anthropic cache control instead of '')
          (openai_known_cache_control_paths client body) [] else []))"

definition assess_anthropic_prompt_cache_extensions ::
    "upstream_format \<Rightarrow> upstream_format \<Rightarrow> json \<Rightarrow> translation_issue list" where
  "assess_anthropic_prompt_cache_extensions client upstream body =
    (if client \<noteq> Anthropic \<or> \<not> openai_family_format upstream then []
     else rejects (error_of (validated_anthropic_extra_body_openai_controls body)))"

definition cross_protocol_store_reject_message :: "upstream_format \<Rightarrow> upstream_format \<Rightarrow> string" where
  "cross_protocol_store_reject_message client upstream =
     translation_target_label client @ '' request field `store` is an enabled provider persistence/storage request ''
     @ ''and cannot be translated to '' @ translation_target_label upstream
     @ ''; same-wire provider-native handling is required''"

section \<open>Requests of Responses clients\<close>

definition assess_responses_request :: "upstream_format \<Rightarrow> json \<Rightarrow> bool \<Rightarrow> translation_issue list" where
  "assess_responses_request upstream body reasoning_mapped =
     about_controls reject ''Responses request controls '' (responses_stateful_request_controls body)
       ('' require a native OpenAI Responses upstream and cannot be translated to '' @ format_display upstream
        @ ''; the proxy does not reconstruct provider state'')
     @ rejects (responses_reasoning_continuity_request_message body upstream)
     @ about_controls warning ''OpenAI Responses controls ''
         (responses_warning_only_request_controls_for_translate body upstream reasoning_mapped)
         ('' are not portable on this translation path to '' @ translation_target_label upstream @ '' and will be dropped'')
     @ rejects (responses_nonportable_tool_choice_message body upstream)
     @ rejects (responses_nonportable_input_item_message body upstream)
     @ rejects (responses_nonportable_tool_output_message body upstream)
     @ (case responses_nonportable_tool_definition_message body of
          Some m \<Rightarrow> [reject m]
        | None \<Rightarrow> if responses_has_warning_only_nonportable_tool_definitions body
            then [warning (''non-function Responses tools are not portable to '' @ format_display upstream
              @ '' and will be dropped'')] else [])
     @ (if responses_has_warning_only_encrypted_agent_message body
        then [warning (''OpenAI Responses `agent_message` input carries an `encrypted_content` part whose payload is opaque to ''
          @ format_display upstream
          @ ''; only the routing metadata envelope remains visible and the encrypted payload body is dropped'')] else [])
     @ (if responses_has_warning_only_encrypted_tool_output body
        then [warning (''OpenAI Responses tool output carries an `encrypted_content` part whose payload is opaque to ''
          @ format_display upstream
          @ ''; the surviving text parts are kept and the encrypted payload is dropped'')] else [])
     @ rejects (responses_custom_tool_format_reject_message body upstream)
     @ map warning (responses_custom_tool_bridge_warning_messages body upstream)"

section \<open>Requests of Chat Completions clients\<close>

definition openai_request_audio_not_portable_message :: "string \<Rightarrow> string" where
  "openai_request_audio_not_portable_message target =
     ''OpenAI Chat audio output intent cannot be faithfully translated to '' @ target"

definition openai_assistant_audio_history_not_portable_message :: "string \<Rightarrow> string" where
  "openai_assistant_audio_history_not_portable_message target =
     ''OpenAI assistant history field `messages[].audio` cannot be faithfully translated to '' @ target"

definition assess_audio :: "json \<Rightarrow> string \<Rightarrow> translation_issue list" where
  "assess_audio body target =
     rejects (case normalized_openai_audio_contract body of
         Inl m \<Rightarrow> Some m
       | Inr (Some _) \<Rightarrow> Some (openai_request_audio_not_portable_message target)
       | Inr None \<Rightarrow> None)
     @ (if openai_assistant_history_audio_present body
        then [reject (openai_assistant_audio_history_not_portable_message target)] else [])"

definition assess_chat_to_responses :: "json \<Rightarrow> translation_issue list" where
  "assess_chat_to_responses body =
     assess_audio body ''OpenAI Responses''
     @ about_controls warning ''OpenAI Chat Completions controls '' (openai_to_responses_dropped_control_names body)
         '' have no direct OpenAI Responses equivalent in this translator and will be dropped''"

definition assess_chat_to_anthropic :: "json \<Rightarrow> bool \<Rightarrow> translation_issue list" where
  "assess_chat_to_anthropic body reasoning_mapped =
     assess_audio body ''Anthropic''
     @ about_controls warning ''OpenAI Chat Completions controls ''
         (openai_to_anthropic_dropped_control_names body
          @ openai_warning_only_request_controls_for_translate body Anthropic reasoning_mapped)
         '' are not portable to Anthropic and will be dropped''"

section \<open>Requests of Anthropic clients\<close>

definition assess_anthropic_request :: "upstream_format \<Rightarrow> json \<Rightarrow> translation_issue list" where
  "assess_anthropic_request upstream body =
    (let label = translation_target_label upstream;
         controls = anthropic_top_level_request_control_assessments body label;
         closed = filter (\<lambda>a. ca_disposition a = FailClosed) controls;
         dropped = map ca_field (filter (\<lambda>a. ca_disposition a = WarnDrop) controls)
     in about_controls reject ''Anthropic request controls '' (map ca_field closed)
          ('' cannot be faithfully translated to '' @ label @ '': '' @ join ''; '' (map ca_reason closed))
     @ about_controls warning ''Anthropic request controls '' dropped
          ('' are not portable to '' @ label @ '' with complete visible history and will be dropped'')
     @ about_controls warning ''Anthropic request controls '' (anthropic_warning_only_request_controls_for_translate body)
          ('' are not portable to '' @ label @ '' and will be dropped'')
     @ rejects (anthropic_opaque_thinking_carrier_message body label)
     @ about_controls warning ''Anthropic visible thinking carrier fields ''
          (anthropic_request_visible_thinking_carrier_fields body)
          ('' cannot be translated to '' @ label @ ''; visible thinking text will be preserved and carrier fields dropped'')
     @ rejects (anthropic_request_nonportable_tool_definition_message body label)
     @ rejects (anthropic_duplicate_assistant_tool_use_id_message body label)
     @ rejects (anthropic_request_tool_result_order_message body label)
     @ rejects (anthropic_nonportable_content_block_message body label))"

section \<open>The assessment\<close>

definition assess_request_translation_with_dialect ::
    "env \<Rightarrow> upstream_format \<Rightarrow> upstream_format \<Rightarrow> json \<Rightarrow> dialect_block option \<Rightarrow> translation_issue list" where
  "assess_request_translation_with_dialect E client upstream body dialect =
    (let mapped = dialect_maps_reasoning dialect in
     rejects (openai_request_file_mime_conflict_message client body)
     @ assess_prompt_cache_extension_target_mismatch client upstream body
     @ (if client = upstream then []
        else assess_openai_family_prompt_cache_extensions client upstream body
        @ assess_anthropic_prompt_cache_extensions client upstream body
        @ rejects (cross_protocol_requested_choice_count_message client upstream body)
        @ (if client = OpenAiResponses then assess_responses_request upstream body mapped else [])
        @ (if provider_state_control_enabled (jget body ''store'')
           then [reject (cross_protocol_store_reject_message client upstream)] else [])
        @ (if client = OpenAiChatCompletions \<and> upstream = OpenAiResponses then assess_chat_to_responses body else [])
        @ (if client = OpenAiChatCompletions \<and> upstream = Anthropic then assess_chat_to_anthropic body mapped else [])
        @ (if client = Anthropic then assess_anthropic_request upstream body else [])
        @ (if upstream = Anthropic \<and> request_has_custom_tools E client body \<and> client \<noteq> OpenAiResponses
           then [reject (custom_tools_not_portable_message upstream)] else [])
        @ (if upstream = Anthropic then rejects (request_invalid_structured_tool_arguments_message E client body
             (translation_target_label upstream)) else [])))"

definition assess_anthropic_nondefault_sampling_withhold ::
    "upstream_format \<Rightarrow> upstream_format \<Rightarrow> json \<Rightarrow> string \<Rightarrow> translation_issue list" where
  "assess_anthropic_nondefault_sampling_withhold client upstream body model =
    (if \<not> openai_family_format client \<or> upstream \<noteq> Anthropic then []
     else map (\<lambda>f. warning (translation_target_label client @ '' sampling control `'' @ f
         @ ''` is not accepted by the resolved Anthropic upstream model and will be withheld to avoid a 400 response''))
       (anthropic_nondefault_sampling_withhold_fields model body))"

definition assess_request_translation_with_surface ::
    "env \<Rightarrow> upstream_format \<Rightarrow> upstream_format \<Rightarrow> json \<Rightarrow> model_surface \<Rightarrow> string \<Rightarrow> dialect_block option
     \<Rightarrow> translation_issue list" where
  "assess_request_translation_with_surface E client upstream body surface model dialect =
     assess_surface_request_policy client body surface
     @ assess_request_translation_with_dialect E client upstream body dialect
     @ assess_anthropic_nondefault_sampling_withhold client upstream body model"

section \<open>The translation of a request\<close>

definition translate_request_with_policy ::
    "env \<Rightarrow> upstream_format \<Rightarrow> upstream_format \<Rightarrow> string \<Rightarrow> json \<Rightarrow> request_translation_policy \<Rightarrow> bool \<Rightarrow> string + json" where
  "translate_request_with_policy E client upstream model body policy stream =
    (case translation_decision_of (assess_request_translation_with_surface E client upstream body
        (policy_surface policy) model None) of
       Refuse message \<Rightarrow> Inl message
     | _ \<Rightarrow> translate_assessed_request E client upstream model body policy stream)"

definition default_policy :: request_translation_policy where
  "default_policy = \<lparr>policy_surface = \<lparr>surface_limits = None, surface_modalities = None, surface_tools = None\<rparr>\<rparr>"

definition translate_request ::
    "env \<Rightarrow> upstream_format \<Rightarrow> upstream_format \<Rightarrow> string \<Rightarrow> json \<Rightarrow> bool \<Rightarrow> string + json" where
  "translate_request E client upstream model body stream =
     translate_request_with_policy E client upstream model body default_policy stream"

end
