(* ===== verification/Assessment_Guarantees.thy ===== *)
theory Assessment_Guarantees
  imports Assessment
begin

text \<open>
  What the assessment of requests guarantees to the steps after it: the edits and conversions that can
  fail do not fail on what it lets through, nothing only the provider could resolve gets through, and
  what is left out is left out with a warning.
\<close>

section \<open>The decision\<close>

definition accepts :: "translation_issue list \<Rightarrow> bool" where
  "accepts issues = list_all (\<lambda>i. issue_level i = Warning) issues"

lemma decide_accepts:
  "accepts issues \<Longrightarrow> decide ws issues = decide (ws @ map issue_message issues) []"
  by (induction issues arbitrary: ws) (simp_all add: accepts_def)

lemma decide_refuses: "\<not> accepts issues \<Longrightarrow> \<exists>m. decide ws issues = Refuse m"
proof (induction issues arbitrary: ws)
  case (Cons i rest)
  then show ?case by (cases "issue_level i") (simp_all add: accepts_def)
qed (simp add: accepts_def)

lemma translation_accepts:
  assumes "translate_request_with_policy E client upstream model body policy stream = Inr v"
  shows "accepts (assess_request_translation_with_surface E client upstream body (policy_surface policy) model None)"
    and "translate_assessed_request E client upstream model body policy stream = Inr v"
proof -
  show a: "accepts (assess_request_translation_with_surface E client upstream body (policy_surface policy) model None)"
  proof (rule ccontr)
    assume "\<not> ?thesis"
    from decide_refuses [OF this, of "[]"] show False
      using assms by (auto simp: translate_request_with_policy_def translation_decision_of_def)
  qed
  show "translate_assessed_request E client upstream model body policy stream = Inr v"
    using assms decide_accepts [OF a, of "[]"]
    by (simp add: translate_request_with_policy_def translation_decision_of_def split: if_splits)
qed

lemma accepts_simps [simp]:
  "accepts []" "accepts (xs @ ys) \<longleftrightarrow> accepts xs \<and> accepts ys" "\<not> accepts [reject m]"
  "accepts [warning m]" "accepts (map warning ms)"
  by (auto simp: accepts_def reject_def warning_def list_all_iff)

lemma accepts_rejects [simp]: "accepts (rejects r) \<longleftrightarrow> r = None"
  by (cases r) (simp_all add: rejects_def)

lemma accepts_about [simp]:
  "accepts (about_controls reject x controls y) \<longleftrightarrow> controls = []" "accepts (about_controls warning x controls y)"
  by (simp_all add: about_controls_def)

lemma not_refused:
  assumes "\<forall>m. translation_decision_of issues \<noteq> Refuse m"
  shows "accepts issues"
  using assms decide_refuses [of issues "[]"] by (auto simp: translation_decision_of_def)

lemma accepted_not_refused:
  "accepts issues \<Longrightarrow> \<forall>m. translation_decision_of issues \<noteq> Refuse m"
  using decide_accepts [of issues "[]"] by (auto simp: translation_decision_of_def split: if_splits)

lemma surface_accepts:
  "accepts (assess_request_translation_with_surface E client upstream body surface model dialect)
   \<Longrightarrow> accepts (assess_request_translation_with_dialect E client upstream body dialect)"
  by (simp add: assess_request_translation_with_surface_def)

section \<open>Context edits\<close>

definition edits_of :: "json \<Rightarrow> json list" where
  "edits_of body = unwrap_or (Option.bind (ogetj (jget body ''context_management'') ''edits'') as_array) []"

lemma schema_checks_edits:
  assumes "jget body ''context_management'' = Some v" and "anthropic_context_management_schema_error v = None"
    and "edit \<in> set (edits_of body)"
  shows "\<exists>index. context_edit_error index edit = None"
proof -
  obtain kvs where v: "v = JObj kvs"
    using assms by (cases v) (auto simp: edits_of_def ogetj_def)
  obtain es where es: "jget v ''edits'' = Some (JArr es)" "edit \<in> set es"
  proof (cases "Option.bind (jget v ''edits'') as_array")
    case None
    then show ?thesis using assms(1,3) by (simp add: edits_of_def ogetj_def)
  next
    case (Some es)
    then have "jget v ''edits'' = Some (JArr es)" by (auto simp: bind_eq_Some_conv elim: as_array.elims)
    then show ?thesis using that assms(1,3) by (simp add: edits_of_def ogetj_def)
  qed
  have "jget v ''type'' = None"
  proof (rule ccontr)
    assume "jget v ''type'' \<noteq> None"
    then obtain ty where ty: "jget v ''type'' = Some ty" by blast
    then have "length kvs = 1"
      using assms(2) by (auto simp: v anthropic_context_management_schema_error_def legacy_context_type_error_def
          split: option.splits if_splits)
    then show False using ty es(1) by (auto simp: v length_Suc_conv split: if_splits)
  qed
  then have "validate_anthropic_context_management_edits es = None"
    using assms(2) es(1) by (auto simp: v anthropic_context_management_schema_error_def context_edits_error_def
        split: option.splits if_splits)
  moreover obtain i where "i < length es" "es ! i = edit" using es(2) by (auto simp: in_set_conv_nth)
  moreover from this have "(i, edit) \<in> set (enumerate 0 es)" by (simp add: in_set_enumerate_eq)
  ultimately have "context_edit_error i edit = None"
    by (auto simp: validate_anthropic_context_management_edits_def find_map_None dest: bspec)
  then show ?thesis by blast
qed

lemma checked_edit_applies:
  assumes "context_edit_error index edit = None"
  shows "\<exists>body'. apply_edit edit body = Inr body'"
proof -
  obtain kvs where v: "edit = JObj kvs" using assms by (cases edit) (simp_all add: context_edit_error_def)
  consider (thinking) "type_of edit = Some ''clear_thinking_20251015''" "validate_anthropic_clear_thinking_edit kvs = None"
    | (uses) "type_of edit = Some ''clear_tool_uses_20250919''" "validate_anthropic_clear_tool_uses_edit kvs = None"
    using assms by (auto simp: context_edit_error_def v split: option.splits if_splits)
  then show ?thesis
  proof cases
    case thinking
    then have "\<exists>keep. anthropic_clear_thinking_keep_from_edit edit = Inr keep"
      by (auto simp: validate_anthropic_clear_thinking_edit_def anthropic_clear_thinking_keep_from_edit_def v
          positive_integer_schema_error_def jget_u64_def Let_def split: option.splits json.splits if_splits)
    then show ?thesis using thinking by (auto simp: apply_edit_def)
  next
    case uses
    then have "\<exists>options. anthropic_clear_tool_uses_options_from_edit edit = Inr options"
      by (auto simp: validate_anthropic_clear_tool_uses_edit_def anthropic_clear_tool_uses_options_from_edit_def v
          validate_context_management_metric_def positive_integer_schema_error_def jget_u64_def Let_def
          split: option.splits json.splits if_splits)
    then show ?thesis using uses by (auto simp: apply_edit_def)
  qed
qed

lemma res_fold_total:
  "(\<And>x s. x \<in> set xs \<Longrightarrow> \<exists>s'. f x s = Inr s') \<Longrightarrow> \<exists>s'. res_fold f xs s = Inr s'"
  by (induction xs arbitrary: s) (auto, metis res_bind.simps(2))

section \<open>Accepted requests\<close>

text \<open>
  C17. The context edits of an Anthropic request that the assessment does not refuse can be applied: none
  of the errors of \<open>apply_anthropic_context_management_request_edits\<close> is reached, whatever the history of
  the request is.
\<close>

theorem accepted_context_edits_apply:
  assumes "\<forall>m. translation_decision_of (assess_request_translation_with_surface E Anthropic upstream body
      surface model dialect) \<noteq> Refuse m"
    and "upstream \<noteq> Anthropic"
  shows "\<exists>body'. apply_anthropic_context_management_request_edits body = Inr body'"
proof (cases "edits_of body = []")
  case True
  then show ?thesis by (simp add: apply_anthropic_context_management_request_edits_def edits_of_def)
next
  case False
  then obtain v where v: "jget body ''context_management'' = Some v" "v \<noteq> JNull" "v \<noteq> JBool False"
    by (cases "jget body ''context_management''"; cases "the (jget body ''context_management'')")
      (simp_all add: edits_of_def ogetj_def)
  have "accepts (assess_anthropic_request upstream body)"
    using assms not_refused [OF assms(1)] by (simp add: assess_request_translation_with_surface_def
        assess_request_translation_with_dialect_def Let_def)
  then have "filter (\<lambda>a. ca_disposition a = FailClosed)
      (anthropic_top_level_request_control_assessments body (translation_target_label upstream)) = []"
    by (simp add: assess_anthropic_request_def Let_def)
  then have "anthropic_context_management_schema_error v = None"
    using v by (auto simp: anthropic_top_level_request_control_assessments_def Let_def
        assess_context_management_control_def anthropic_context_management_fail_closed_reason_def fail_closed_def
        split: option.splits if_splits)
  then show ?thesis
    using res_fold_total [of "edits_of body" apply_edit body] checked_edit_applies schema_checks_edits [OF v(1)]
    by (fastforce simp: apply_anthropic_context_management_request_edits_def edits_of_def)
qed

text \<open>An output array that passes the scan converts; opaque content is dropped beside text only.\<close>

lemma scanned_output_converts:
  assumes "tool_output_scan label encrypted plain parts = None"
  shows "\<exists>cs. tool_output_items target parts = Inr cs
    \<and> (encrypted \<or> list_ex (part_of_type {''encrypted_content''}) parts \<longrightarrow> plain \<or> cs \<noteq> [])"
  using assms
proof (induction parts arbitrary: encrypted plain)
  case (Cons part parts)
  then obtain ty where ty: "type_of part = Some ty" by (cases "type_of part") simp_all
  consider (plain) "ty = ''input_text'' \<or> ty = ''output_text''" | (encrypted) "ty = ''encrypted_content''"
    using Cons.prems ty by (auto split: if_splits)
  then show ?case
  proof cases
    case plain
    then have "tool_output_scan label encrypted True parts = None" using Cons.prems ty by simp
    from Cons.IH [OF this] obtain cs where "tool_output_items target parts = Inr cs" by blast
    then show ?thesis using plain ty by auto
  next
    case encrypted
    then have "tool_output_scan label True plain parts = None" using Cons.prems ty by simp
    from Cons.IH [OF this] show ?thesis using encrypted ty by auto
  qed
qed (simp split: if_splits)

lemma responses_accepts:
  assumes "\<forall>m. translation_decision_of (assess_request_translation_with_surface E OpenAiResponses upstream body
      surface model dialect) \<noteq> Refuse m"
    and "upstream \<noteq> OpenAiResponses"
  shows "accepts (assess_responses_request upstream body (dialect_maps_reasoning dialect))"
  using assms(2) not_refused [OF assms(1)] by (simp add: assess_request_translation_with_surface_def
      assess_request_translation_with_dialect_def Let_def)

text \<open>
  The result of every tool in an accepted Responses request converts to the content of a tool
  message, and a result that holds an opaque payload still holds text after it.
\<close>

theorem accepted_tool_results_convert:
  assumes "\<forall>m. translation_decision_of (assess_request_translation_with_surface E OpenAiResponses upstream body
      surface model dialect) \<noteq> Refuse m"
    and "upstream \<noteq> OpenAiResponses"
    and "item \<in> set (array_at body ''input'')" and "responses_item_is_tool_result item"
  shows "\<exists>content. responses_tool_output_to_openai_tool_content upstream (jget item ''output'') = Inr content
    \<and> (list_ex (part_of_type {''encrypted_content''}) (array_at item ''output'') \<longrightarrow> content \<noteq> JArr [])"
proof -
  have "responses_nonportable_tool_output_message body upstream = None"
    using responses_accepts [OF assms(1,2)] by (simp add: assess_responses_request_def)
  then have scan: "Option.bind (jget_array item ''output'') (tool_output_scan (translation_target_label upstream) False False) = None"
    using assms(3,4) by (auto simp: responses_nonportable_tool_output_message_def find_map_None)
  show ?thesis
  proof (cases "jget item ''output''")
    case None
    then show ?thesis by (simp add: responses_tool_output_to_openai_tool_content_def array_at_def jget_array_def)
  next
    case (Some v)
    show ?thesis
    proof (cases "as_array v")
      case None
      then show ?thesis using Some
        by (cases v) (simp_all add: responses_tool_output_to_openai_tool_content_def array_at_def jget_array_def)
    next
      case arr: (Some parts)
      from scan have "tool_output_scan (translation_target_label upstream) False False parts = None"
        by (simp add: Some jget_array_def arr del: as_array_eq_Some)
      from scanned_output_converts [OF this, of upstream] show ?thesis
        using arr by (auto simp: responses_tool_output_to_openai_tool_content_def Some array_at_def jget_array_def)
    qed
  qed
qed

section \<open>Nothing only the provider could resolve\<close>

text \<open>
  Specification: what in a request stands for state, resources or contents that only a provider of the
  client's own protocol has.
\<close>

definition opaque_thinking :: "json \<Rightarrow> bool" where
  "opaque_thinking block = (type_of block \<in> {Some ''redacted_thinking'', Some ''encrypted_thinking''}
     \<or> type_of block = Some ''thinking'' \<and> trim (unwrap_or (jget_str block ''thinking'') []) = [])"

definition hosted_item :: "json \<Rightarrow> bool" where
  "hosted_item item = (type_of item \<in> {Some ''item_reference'', Some ''mcp_call'', Some ''web_search_call'',
     Some ''file_search_call'', Some ''computer_call'', Some ''code_interpreter_call''})"

fun needs_provider :: "upstream_format \<Rightarrow> json \<Rightarrow> bool" where
  "needs_provider OpenAiChatCompletions body =
     (jget body ''store'' = Some (JBool True) \<or> (\<exists>n > 1. jget_u64 body ''n'' = Some n))"
| "needs_provider OpenAiResponses body =
     (jget body ''store'' = Some (JBool True) \<or> jget body ''previous_response_id'' \<noteq> None
      \<or> jget body ''conversation'' \<noteq> None \<or> jget body ''prompt'' \<noteq> None
      \<or> list_ex hosted_item (array_at body ''input''))"
| "needs_provider Anthropic body =
     (list_ex opaque_thinking (content_blocks (jget body ''system''))
      \<or> list_ex (\<lambda>m. list_ex opaque_thinking (blocks_of m)) (array_at body ''messages''))"

lemma opaque_found: "opaque_thinking b \<Longrightarrow> anthropic_opaque_thinking_carrier_in_block target b \<noteq> None"
  by (auto simp: opaque_thinking_def anthropic_opaque_thinking_carrier_in_block_def
      anthropic_block_has_visible_thinking_text_def split: option.splits)

lemma content_not_opaque:
  "anthropic_opaque_thinking_carrier_in_content target c = None \<Longrightarrow> \<not> list_ex opaque_thinking (content_blocks c)"
  using opaque_found [of _ target] unfolding anthropic_opaque_thinking_carrier_in_content_def find_map_None list_ex_iff
  by blast

lemma item_is_portable:
  assumes "input_item_not_portable body target item = None" and "type_of item = Some ty"
  shows "responses_portable_input_item_type ty \<or> ty = ''compaction'' \<or> ty = ''compaction_summary''"
proof -
  have "responses_input_item_type item = Some ty" using assms(2) by (simp add: responses_input_item_type_def)
  then show ?thesis
    using assms(1) by (auto simp: input_item_not_portable_def Let_def responses_input_item_is_compaction_def
        responses_portable_input_item_type_def split: if_splits)
qed

lemma item_not_hosted: "input_item_not_portable body target item = None \<Longrightarrow> \<not> hosted_item item"
  using item_is_portable [of body target item]
  by (cases "type_of item") (auto simp: hosted_item_def responses_portable_input_item_type_def)

text \<open>
  C16. What is translated to another protocol needs nothing that only a provider of the client's protocol
  could resolve: no stored response or conversation, no request to store, no hosted tool call, no opaque
  thinking, and no second choice.
\<close>

theorem translated_request_needs_no_provider:
  assumes "translate_request_with_policy E client upstream model body policy stream = Inr v"
    and "client \<noteq> upstream"
  shows "\<not> needs_provider client body"
proof -
  note accepted = translation_accepts(1) [OF assms(1)]
  have store: "\<not> provider_state_control_enabled (jget body ''store'')"
    using accepted assms(2) by (simp add: assess_request_translation_with_surface_def
        assess_request_translation_with_dialect_def Let_def split: if_splits)
  then have no_store: "jget body ''store'' \<noteq> Some (JBool True)" by (auto simp: provider_state_control_enabled_def)
  show ?thesis
  proof (cases client)
    case OpenAiChatCompletions
    have "cross_protocol_requested_choice_count_message client upstream body = None"
      using accepted assms(2) by (simp add: assess_request_translation_with_surface_def
          assess_request_translation_with_dialect_def Let_def)
    then show ?thesis
      using no_store by (auto simp: OpenAiChatCompletions cross_protocol_requested_choice_count_message_def
          cross_protocol_requested_choice_count_def split: if_splits)
  next
    case OpenAiResponses
    then have "accepts (assess_responses_request upstream body False)"
      using accepted assms(2) by (simp add: assess_request_translation_with_surface_def
          assess_request_translation_with_dialect_def Let_def dialect_maps_reasoning_def)
    then have "responses_stateful_request_controls body = []"
      and items: "responses_nonportable_input_item_message body upstream = None"
      by (simp_all add: assess_responses_request_def)
    moreover have "\<not> list_ex hosted_item (array_at body ''input'')"
      using items item_not_hosted unfolding responses_nonportable_input_item_message_def find_map_None list_ex_iff by blast
    ultimately show ?thesis
      using no_store by (auto simp: OpenAiResponses responses_stateful_request_controls_def split: if_splits)
  next
    case Anthropic
    then have "accepts (assess_anthropic_request upstream body)"
      using accepted assms(2) by (simp add: assess_request_translation_with_surface_def
          assess_request_translation_with_dialect_def Let_def)
    then have "anthropic_opaque_thinking_carrier_message body (translation_target_label upstream) = None"
      by (simp add: assess_anthropic_request_def Let_def)
    then have "anthropic_opaque_thinking_carrier_in_content (translation_target_label upstream) (jget body ''system'') = None"
      "\<forall>m \<in> set (array_at body ''messages''). anthropic_opaque_thinking_carrier_in_content
        (translation_target_label upstream) (jget m ''content'') = None"
      by (cases "anthropic_opaque_thinking_carrier_in_content (translation_target_label upstream) (jget body ''system'')";
          simp add: anthropic_opaque_thinking_carrier_message_def find_map_None)+
    then show ?thesis
      using content_not_opaque by (auto simp: Anthropic list_ex_iff)
  qed
qed

section \<open>Sampling controls\<close>

definition sampling_field :: "string \<Rightarrow> bool" where
  "sampling_field f = (f \<in> {''temperature'', ''top_p''})"

lemma not_sampling [simp]:
  "\<not> sampling_field ''max_tokens''"
  "\<not> sampling_field ''max_completion_tokens''"
  "\<not> sampling_field ''max_output_tokens''"
  "\<not> sampling_field ''tool_choice''"
  "\<not> sampling_field ''parallel_tool_calls''"
  "\<not> sampling_field ''tools''"
  "\<not> sampling_field ''messages''"
  "\<not> sampling_field ''system''"
  "\<not> sampling_field ''output_config''"
  "\<not> sampling_field ''model''"
  "\<not> sampling_field ''stream''"
  "\<not> sampling_field ''stop_sequences''"
  "\<not> sampling_field ''metadata''"
  "\<not> sampling_field ''cache_control''"
  "\<not> sampling_field ''logprobs''"
  "\<not> sampling_field ''user''"
  "\<not> sampling_field ''service_tier''"
  "\<not> sampling_field ''stream_options''"
  "\<not> sampling_field ''verbosity''"
  "\<not> sampling_field ''reasoning_effort''"
  "\<not> sampling_field ''prompt_cache_key''"
  "\<not> sampling_field ''prompt_cache_retention''"
  "\<not> sampling_field ''safety_identifier''"
  "\<not> sampling_field ''top_logprobs''"
  "\<not> sampling_field ''response_format''"
  "\<not> sampling_field ''extra_body''"
  "\<not> sampling_field tool_bridge_context_field"
  by (simp_all add: sampling_field_def tool_bridge_context_field_def)

lemma other_field:
  assumes "sampling_field f" and "\<not> sampling_field k"
  shows "jget (jset k x v) f = jget v f" and "jget (set_opt k y v) f = jget v f" and "jget (jinsert k x v) f = jget v f"
    and "jget (or_insert k x v) f = jget v f" and "jget (with_field k g v) f = jget v f"
proof -
  have "f \<noteq> k" using assms by auto
  then have set: "jget (jset k z v) f = jget v f" for z by (cases v) simp_all
  from set show "jget (jset k x v) f = jget v f" .
  from set show "jget (set_opt k y v) f = jget v f" by (cases y) (simp_all add: set_opt_def)
  show "jget (jinsert k x v) f = jget v f" "jget (or_insert k x v) f = jget v f" "jget (with_field k g v) f = jget v f"
    using \<open>f \<noteq> k\<close> by (simp_all add: jget_jinsert jget_or_insert jget_with_field)
qed

lemma defaults_keep:
  assumes "sampling_field f"
  shows "jget (apply_request_translation_policy_defaults target policy body) f = jget body f"
  by (cases target) (simp_all add: apply_request_translation_policy_defaults_def
      apply_request_translation_policy_parallel_tool_gate_def apply_request_translation_policy_default_output_limit_def
      output_limit_field_def other_field [OF assms] split: option.split)

lemma repair_keeps:
  assumes "apply_request_scoped_bridge_structural_repair_pass E target body = Inr v" and "sampling_field f"
  shows "jget v f = jget body f"
proof -
  note other = other_field [OF assms(2)]
  have tools: "jget w f = jget u f" if "repair_request_scoped_custom_bridge_tool_definitions target ctx u = Inr w" for ctx u w
    using that by (auto simp: repair_request_scoped_custom_bridge_tool_definitions_def res_bind_Inr other
        split: option.splits if_splits)
  have calls: "jget w f = jget u f" if "repair_request_scoped_custom_bridge_message_tool_calls E ctx u = Inr w" for ctx u w
    using that by (auto simp: repair_request_scoped_custom_bridge_message_tool_calls_def res_bind_Inr other
        split: option.splits)
  show ?thesis
    using assms(1) tools calls by (fastforce simp: apply_request_scoped_bridge_structural_repair_pass_def res_bind_Inr
        repair_request_scoped_custom_bridge_tool_choice_def other split: option.splits)
qed

lemma bridge_context_keeps: "sampling_field f \<Longrightarrow>
    jget (insert_request_scoped_tool_bridge_context r c) f = jget r f"
  using not_sampling by (cases r) (auto simp: insert_request_scoped_tool_bridge_context_def)

lemma head_samples:
  assumes "sampling_field f"
  shows "jget (claude_request_head model body controls) f
    = (if f \<in> set (anthropic_nondefault_sampling_withhold_fields model body) then None else jget body f)"
proof -
  have "f = ''temperature'' \<or> f = ''top_p''" using assms by (simp add: sampling_field_def)
  then show ?thesis
    by (elim disjE) (simp_all add: claude_request_head_def Let_def other_field [OF assms])
qed

lemma choice_keeps:
  assumes "sampling_field f"
  shows "jget (claude_tool_choice_from body controls r) f = jget r f"
  by (simp add: claude_tool_choice_from_def other_field [OF assms] split: option.split)

lemma claude_request_samples:
  assumes "openai_to_claude E model body = Inr v" and "sampling_field f"
  shows "jget v f = (if f \<in> set (anthropic_nondefault_sampling_withhold_fields model body) then None else jget body f)"
proof -
  obtain controls system config turns tools where v:
      "v = (let r = claude_tool_choice_from body controls (claude_request_head model body controls);
                r = (if system = [] then r else jset ''system'' (JArr system) r);
                r = set_opt ''output_config'' config r;
                r = jset ''messages'' (JArr turns) r;
                r = (if tools = [] then r else jset ''tools'' (JArr (map function_tool_to_claude tools)) r)
            in case request_scoped_tool_bridge_context_from_body body of None \<Rightarrow> r
               | Some c \<Rightarrow> insert_request_scoped_tool_bridge_context r c)"
    using assms(1) unfolding openai_to_claude_def Let_def
    by (cases "jget_array body ''messages''") (auto simp: res_bind_Inr)
  have "jget v f = jget (claude_request_head model body controls) f"
    by (simp add: v Let_def other_field [OF assms(2)] choice_keeps [OF assms(2)] bridge_context_keeps [OF assms(2)]
        split: option.split)
  then show ?thesis by (simp add: head_samples [OF assms(2)])
qed

lemma responses_pivot_samples:
  assumes "responses_to_messages E target body = Inr v" and "sampling_field f"
  shows "jget v f = jget body f"
proof -
  note other = other_field [OF assms(2)]
  have "f = ''temperature'' \<or> f = ''top_p''" using assms(2) by (simp add: sampling_field_def)
  then have head: "jget (chat_request_head body messages profile rc) f = jget body f" for messages profile rc
    by (elim disjE) (simp_all add: chat_request_head_def Let_def)
  have controls: "jget (chat_request_controls target profile rc out) f = jget out f" for profile rc out
    by (simp add: chat_request_controls_def Let_def other insert_stream_include_obfuscation_def insert_in_entry_def
        split: option.split)
  have tools: "jget w f = jget out f" if "chat_request_tools target body out = Inr w" for out w
    using that by (auto simp: chat_request_tools_def res_bind_Inr res_then_Inr other Let_def split: if_splits)
  obtain choice messages profile rc where
      "chat_request_tools target body (chat_request_controls target profile rc
          (set_opt ''tool_choice'' choice (chat_request_head body messages profile rc))) = Inr v"
    using assms(1) by (auto simp: responses_to_messages_def Let_def res_bind_Inr res_then_Inr)
  from tools [OF this] show ?thesis
    by (simp add: controls head other)
qed

text \<open>The warning that a sampling control is withheld.\<close>

definition withheld_warning :: "upstream_format \<Rightarrow> string \<Rightarrow> string" where
  "withheld_warning client f = translation_target_label client @ '' sampling control `'' @ f
     @ ''` is not accepted by the resolved Anthropic upstream model and will be withheld to avoid a 400 response''"

lemma withheld_is_warned:
  assumes "openai_family_format client" and "f \<in> set (anthropic_nondefault_sampling_withhold_fields model body)"
  shows "warning (withheld_warning client f)
    \<in> set (assess_request_translation_with_surface E client Anthropic body surface model dialect)"
  using assms by (simp add: assess_request_translation_with_surface_def assess_anthropic_nondefault_sampling_withhold_def
      withheld_warning_def)

lemma accepted_decision:
  assumes "accepts issues" and "warning w \<in> set issues"
  shows "\<exists>ws. translation_decision_of issues = AllowWithWarnings ws \<and> w \<in> set ws"
proof -
  have "w \<in> set (map issue_message issues)" using assms(2) by (force simp: warning_def)
  then show ?thesis
    using decide_accepts [OF assms(1), of "[]"] by (auto simp: translation_decision_of_def simp del: set_map)
qed

text \<open>
  C18. A sampling control of an OpenAI-family request reaches an Anthropic upstream as the client wrote it,
  or it is left out and the client is warned of exactly that control.
\<close>

theorem sampling_withheld_with_warning:
  assumes "translate_request_with_policy E client Anthropic model body policy stream = Inr v"
    and "openai_family_format client" and "f \<in> {''temperature'', ''top_p''}"
  shows "jget v f = jget body f
    \<or> jget v f = None \<and> (\<exists>ws. translation_decision_of (assess_request_translation_with_surface E client Anthropic body
         (policy_surface policy) model None) = AllowWithWarnings ws \<and> withheld_warning client f \<in> set ws)"
proof -
  note accepted = translation_accepts [OF assms(1)]
  have f: "sampling_field g \<longleftrightarrow> g \<in> {''temperature'', ''top_p''}" for g by (simp add: sampling_field_def)
  obtain pivot repaired claude where
      pivot: "request_to_pivot E client Anthropic body = Inr pivot"
    and repaired: "apply_request_scoped_bridge_structural_repair_pass E Anthropic
        (apply_request_translation_policy_defaults OpenAiChatCompletions policy pivot) = Inr repaired"
    and claude: "openai_to_claude E model repaired = Inr claude"
    and v: "v = apply_request_translation_policy_defaults Anthropic policy claude"
    using accepted(2) assms(2) by (cases client)
      (auto simp: translate_assessed_request_def openai_family_format_def res_then_Inr res_bind_Inr pivot_to_request_def
        normalize_openai_roles_for_compatibility_def)
  have pivot_same: "jget pivot g = jget body g" if "sampling_field g" for g
    using pivot assms(2) responses_pivot_samples [OF _ that] by (cases client) (auto simp: request_to_pivot_def openai_family_format_def)
  have same: "jget repaired g = jget body g" if "sampling_field g" for g
    using repair_keeps [OF repaired that] by (simp add: defaults_keep [OF that] pivot_same [OF that])
  then have "anthropic_nondefault_sampling_withhold_fields model repaired
      = anthropic_nondefault_sampling_withhold_fields model body"
    by (simp add: anthropic_nondefault_sampling_withhold_fields_def f)
  then have "jget v f = (if f \<in> set (anthropic_nondefault_sampling_withhold_fields model body) then None else jget body f)"
    using claude_request_samples [OF claude] same assms(3) by (simp add: v f defaults_keep)
  then show ?thesis
    using accepted_decision [OF accepted(1) withheld_is_warned [OF assms(2)]] by auto
qed

section \<open>Concrete requests\<close>

definition no_surface :: model_surface where
  "no_surface = \<lparr>surface_limits = None, surface_modalities = None, surface_tools = None\<rparr>"

definition example_edit_request :: json where
  "example_edit_request = jobj [(''context_management'', jobj [(''edits'', JArr [
       jobj [(''type'', JStr ''clear_thinking_20251015'')],
       jobj [(''type'', JStr ''clear_tool_uses_20250919''),
         (''keep'', jobj [(''type'', JStr ''tool_uses''), (''value'', jnat 2)])]])]),
     (''messages'', JArr [jobj [(''role'', JStr ''user''), (''content'', JStr ''hello'')]])]"

lemma example_edit_request_accepted:
  "accepts (assess_request_translation_with_surface example_env Anthropic OpenAiResponses example_edit_request no_surface [] None)"
  by code_simp

theorem accepted_context_edits_apply_witness:
  "\<exists>body'. apply_anthropic_context_management_request_edits example_edit_request = Inr body'"
proof (rule accepted_context_edits_apply)
  show "\<forall>m. translation_decision_of (assess_request_translation_with_surface example_env Anthropic OpenAiResponses
      example_edit_request no_surface [] None) \<noteq> Refuse m"
    using accepted_not_refused example_edit_request_accepted by blast
qed simp

definition example_result_item :: json where
  "example_result_item = jobj [(''type'', JStr ''function_call_output''), (''call_id'', JStr ''c1''),
     (''output'', JArr [jobj [(''type'', JStr ''encrypted_content'')],
       jobj [(''type'', JStr ''output_text''), (''text'', JStr ''found'')]])]"

definition example_result_request :: json where
  "example_result_request = jobj [(''input'', JArr [example_result_item])]"

lemma example_result_request_accepted:
  "accepts (assess_request_translation_with_surface example_env OpenAiResponses Anthropic example_result_request no_surface [] None)
   \<and> responses_item_is_tool_result example_result_item"
  by code_simp

theorem accepted_tool_results_convert_witness:
  "\<exists>content. responses_tool_output_to_openai_tool_content Anthropic (jget example_result_item ''output'') = Inr content
    \<and> (list_ex (part_of_type {''encrypted_content''}) (array_at example_result_item ''output'') \<longrightarrow> content \<noteq> JArr [])"
proof (rule accepted_tool_results_convert)
  show "\<forall>m. translation_decision_of (assess_request_translation_with_surface example_env OpenAiResponses Anthropic
      example_result_request no_surface [] None) \<noteq> Refuse m"
    using accepted_not_refused example_result_request_accepted by blast
qed (simp_all add: example_result_request_accepted, simp add: example_result_request_def array_at_def jget_array_def)

definition example_sampling_request :: json where
  "example_sampling_request = jobj [(''messages'', JArr [jobj [(''role'', JStr ''user''), (''content'', JStr ''hello'')]]),
     (''temperature'', jnat 0), (''store'', JBool False)]"

definition example_sampling_result :: json where
  "example_sampling_result = jobj [(''model'', JNull), (''max_tokens'', jnat 4096),
     (''messages'', JArr [jobj [(''role'', JStr ''user''), (''content'', JArr [text_block (JStr ''hello'')])]]),
     (''stream'', JBool False)]"

lemma example_sampling_translated:
  "translate_request_with_policy example_env OpenAiChatCompletions Anthropic ''claude-opus-5'' example_sampling_request
     default_policy False = Inr example_sampling_result"
  by code_simp

theorem translated_request_needs_no_provider_witness:
  "\<not> needs_provider OpenAiChatCompletions example_sampling_request"
  using translated_request_needs_no_provider [OF example_sampling_translated] by simp

theorem sampling_withheld_with_warning_witness:
  "jget example_sampling_request ''temperature'' = Some (jnat 0)
   \<and> (jget example_sampling_result ''temperature'' = jget example_sampling_request ''temperature''
    \<or> jget example_sampling_result ''temperature'' = None
      \<and> (\<exists>ws. translation_decision_of (assess_request_translation_with_surface example_env OpenAiChatCompletions Anthropic
           example_sampling_request (policy_surface default_policy) ''claude-opus-5'' None) = AllowWithWarnings ws
         \<and> withheld_warning OpenAiChatCompletions ''temperature'' \<in> set ws))"
  using sampling_withheld_with_warning [OF example_sampling_translated, of "''temperature''"]
  by (simp add: openai_family_format_def) (simp add: example_sampling_request_def)

end
