(* ===== verification/Redaction_Guarantees.thy ===== *)
theory Redaction_Guarantees
  imports Secret_Redaction Wire
begin

text \<open>
  What the redactor takes out stays out: no secret the server knows or the request came with is left in
  a redacted text or JSON value.
\<close>

lemma set_redactor: "set (secret_redactor xs) = {s \<in> set xs. trim s \<noteq> []}"
  by (auto simp: secret_redactor_def should_redact_known_secret_def)

text \<open>A secret that contains another one is replaced before it.\<close>

lemma longer_secret_first:
  "sorted_wrt (\<lambda>a b. length b \<le> length a) (secret_redactor xs)"
proof -
  have "sorted (map (\<lambda>s. - int (length s)) (secret_redactor xs))"
    by (simp add: secret_redactor_def)
  then show ?thesis by (simp add: sorted_wrt_map)
qed

section \<open>Replaced text\<close>

text \<open>A secret that shares nothing with the mark that replaces it.\<close>

definition markless :: "string \<Rightarrow> bool" where
  "markless s \<longleftrightarrow> s \<noteq> [] \<and> CHR ''['' \<notin> set s \<and> CHR '']'' \<notin> set s \<and> \<not> str_contains ''REDACTED'' s"

lemma mark_parts: "redacted_secret = CHR ''['' # ''REDACTED'' @ [CHR '']'']"
  by (simp add: redacted_secret_def)

lemma contains_behind_mark:
  assumes "markless q"
  shows "str_contains (redacted_secret @ x) q \<longleftrightarrow> str_contains x q"
proof -
  have q: "q \<noteq> []" "CHR ''['' \<notin> set q" "CHR '']'' \<notin> set q" "\<not> str_contains ''REDACTED'' q"
    using assms unfolding markless_def by blast+
  have "\<not> str_contains [] q" using q(1) by (cases q) simp_all
  moreover have "redacted_secret @ x = [] @ CHR ''['' # (''REDACTED'' @ CHR '']'' # x)"
    by (simp add: mark_parts)
  ultimately have "str_contains (redacted_secret @ x) q \<longleftrightarrow> str_contains (''REDACTED'' @ CHR '']'' # x) q"
    using str_contains_split [OF q(2,1), of "[]" "''REDACTED'' @ CHR '']'' # x"] by metis
  also have "\<dots> \<longleftrightarrow> str_contains x q"
    using str_contains_split [OF q(3,1), of "''REDACTED''" x] q(4) by blast
  finally show ?thesis .
qed

text \<open>The two equations of the replacement, to be used one at a time.\<close>

lemma replace_match: "p \<noteq> [] \<and> starts_with p (c # s) \<Longrightarrow>
    str_replace p r (c # s) = r @ str_replace p r (drop (length p) (c # s))"
  by (subst str_replace.simps, rule if_P)

lemma replace_skip: "\<not> (p \<noteq> [] \<and> starts_with p (c # s)) \<Longrightarrow> str_replace p r (c # s) = c # str_replace p r s"
  by (subst str_replace.simps, rule if_not_P)

declare str_replace.simps(2) [simp del]

lemma starts_with_replaced:
  "CHR ''['' \<notin> set q \<Longrightarrow> starts_with q (str_replace p redacted_secret x) \<Longrightarrow> starts_with q x"
proof (induction p redacted_secret x arbitrary: q rule: str_replace.induct)
  case (1 p)
  then show ?case by simp
next
  case (2 p c s)
  show ?case
  proof (cases q)
    case Nil
    then show ?thesis by simp
  next
    case (Cons d q')
    show ?thesis
    proof (cases "p \<noteq> [] \<and> starts_with p (c # s)")
      case True
      then show ?thesis using 2(3,4) Cons by (simp add: replace_match mark_parts)
    next
      case False
      then show ?thesis using 2(2) [OF False, of q'] 2(3,4) Cons by (simp add: replace_skip)
    qed
  qed
qed

lemma head_replaced:
  assumes "markless q" "starts_with q (c # str_replace p redacted_secret s)"
  shows "starts_with q (c # s)"
  using assms starts_with_replaced [of "tl q" p s]
  by (cases q) (simp_all add: markless_def)

lemma contains_replaced:
  "markless q \<Longrightarrow> str_contains (str_replace p redacted_secret x) q \<Longrightarrow> str_contains x q"
proof (induction p redacted_secret x rule: str_replace.induct)
  case (1 p)
  then show ?case by simp
next
  case (2 p c s)
  show ?case
  proof (cases "p \<noteq> [] \<and> starts_with p (c # s)")
    case True
    then have "str_contains (str_replace p redacted_secret (drop (length p) (c # s))) q"
      using 2(4) replace_match [OF True, of redacted_secret] contains_behind_mark [OF 2(3)] by metis
    then have "str_contains (drop (length p) (c # s)) q" using 2(1,3) True by blast
    then have "str_contains (take (length p) (c # s) @ drop (length p) (c # s) @ []) q"
      by (rule str_contains_mono)
    then show ?thesis by (simp only: append_Nil2 append_take_drop_id)
  next
    case False
    then have "starts_with q (c # str_replace p redacted_secret s) \<or> str_contains (str_replace p redacted_secret s) q"
      using 2(4) by (simp add: replace_skip)
    then show ?thesis using head_replaced [OF 2(3)] 2(2) [OF False 2(3)] by auto
  qed
qed

lemma pattern_replaced: "markless q \<Longrightarrow> \<not> str_contains (str_replace q redacted_secret x) q"
proof (induction q redacted_secret x rule: str_replace.induct)
  case (1 p)
  then show ?case by (simp add: markless_def)
next
  case (2 p c s)
  have p: "p \<noteq> []" using 2(3) by (simp add: markless_def)
  show ?case
  proof (cases "p \<noteq> [] \<and> starts_with p (c # s)")
    case True
    show ?thesis
      unfolding replace_match [OF True] contains_behind_mark [OF 2(3)] by (rule 2(1) [OF True 2(3)])
  next
    case False
    then have "\<not> starts_with p (c # str_replace p redacted_secret s)"
      using head_replaced [OF 2(3)] p by blast
    then show ?thesis using 2(2) [OF False 2(3)] replace_skip [OF False] by simp
  qed
qed

lemma redact_one_hides: "markless q \<Longrightarrow> \<not> str_contains (redact_one q x) q"
  by (simp add: redact_one_def pattern_replaced)

lemma redact_one_keeps_hidden: "markless q \<Longrightarrow> \<not> str_contains x q \<Longrightarrow> \<not> str_contains (redact_one p x) q"
  using contains_replaced by (auto simp: redact_one_def)

lemma redact_text_keeps_hidden: "markless q \<Longrightarrow> \<not> str_contains x q \<Longrightarrow> \<not> str_contains (redact_text r x) q"
  unfolding redact_text_def by (induction r arbitrary: x) (auto simp: redact_one_keeps_hidden)

lemma redact_text_hides: "markless q \<Longrightarrow> q \<in> set r \<Longrightarrow> \<not> str_contains (redact_text r x) q"
proof (induction r arbitrary: x)
  case Nil
  then show ?case by simp
next
  case (Cons p r)
  show ?case
  proof (cases "p = q")
    case True
    then show ?thesis
      using redact_text_keeps_hidden [OF Cons(2) redact_one_hides [OF Cons(2)], of r x]
      by (simp add: redact_text_def)
  next
    case False
    then show ?thesis using Cons by (simp add: redact_text_def)
  qed
qed

section \<open>JSON values\<close>

text \<open>No string and no key of a value has the property.\<close>

fun no_string :: "(string \<Rightarrow> bool) \<Rightarrow> json \<Rightarrow> bool" where
  "no_string P (JStr s) = (\<not> P s)"
| "no_string P (JArr xs) = list_all (no_string P) xs"
| "no_string P (JObj kvs) = list_all (\<lambda>(k, v). \<not> P k \<and> no_string P v) kvs"
| "no_string P v = True"

lemma list_all_omap_insert: "list_all Q m \<Longrightarrow> Q (k, v) \<Longrightarrow> list_all Q (omap_insert k v m)"
  by (induction k v m rule: omap_insert.induct) auto

lemma no_string_jobj:
  assumes "list_all (\<lambda>(k, v). \<not> P k \<and> no_string P v) kvs"
  shows "no_string P (jobj kvs)"
proof -
  have "list_all (\<lambda>(k, v). \<not> P k \<and> no_string P v) m \<Longrightarrow>
      list_all (\<lambda>(k, v). \<not> P k \<and> no_string P v) (foldl (\<lambda>m (k, v). omap_insert k v m) m kvs)" for m
    using assms by (induction kvs arbitrary: m) (auto intro!: list_all_omap_insert)
  from this [of "[]"] show ?thesis by (simp add: jobj_def)
qed

lemma redact_value_hides:
  assumes "markless q"
  shows "q \<in> set r \<Longrightarrow> no_string (\<lambda>s. str_contains s q) (redact_value r v)"
  by (induction r v rule: redact_value.induct)
    (auto simp: list_all_iff redact_text_hides [OF assms] intro!: no_string_jobj)

section \<open>The redactor of a request\<close>

text \<open>The secrets of an exchange: the keys of the server, and what the request came with.\<close>

definition known_secret :: "to_str \<Rightarrow> runtime_state request_auth_context \<Rightarrow> header_map \<Rightarrow> string \<Rightarrow> bool" where
  "known_secret T c headers q \<longleftrightarrow>
     client_provider_key c = Some q \<or> rac_access c = ProxyKeyAccess q
     \<or> (\<exists>(name, ns) \<in> set (rac_runtime c). \<exists>(up, u) \<in> set (ns_upstreams ns). us_provider_key u = Some q)
     \<or> (\<exists>v \<in> set (get_all headers ''authorization''). Option.bind (T v) bearer_token_of = Some q)
     \<or> (\<exists>name \<in> set api_key_headers. \<exists>v \<in> set (get_all headers name). T v = Some q)"

lemma map_filter_member: "x \<in> set xs \<Longrightarrow> f x = Some y \<Longrightarrow> y \<in> set (List.map_filter f xs)"
  by (force simp: List.map_filter_def)

lemma runtime_secret:
  assumes "(name, ns) \<in> set runtime" "(up, u) \<in> set (ns_upstreams ns)" "us_provider_key u = Some q"
  shows "q \<in> set (runtime_secrets runtime)"
proof -
  from assms(2,3) have "q \<in> set (List.map_filter (\<lambda>(_, u). us_provider_key u) (ns_upstreams ns))"
    by (auto intro: map_filter_member)
  with assms(1) show ?thesis by (force simp: runtime_secrets_def)
qed

lemma bearer_header_secret:
  assumes "v \<in> set (get_all headers ''authorization'')" "Option.bind (T v) bearer_token_of = Some q" "trim q \<noteq> []"
  shows "q \<in> set (request_scoped_credential_secrets T headers)"
proof -
  from assms(2,3) have "Option.bind (T v) bearer_secret = Some q"
    by (cases "T v") (simp_all add: bearer_secret_def)
  from map_filter_member [OF assms(1), of "\<lambda>v. Option.bind (T v) bearer_secret", OF this]
  show ?thesis by (simp add: request_scoped_credential_secrets_def)
qed

lemma key_header_secret:
  assumes "name \<in> set api_key_headers" "v \<in> set (get_all headers name)" "T v = Some q" "trim q \<noteq> []"
  shows "q \<in> set (request_scoped_credential_secrets T headers)"
proof -
  from assms(3,4) have "Option.bind (T v) (\<lambda>t. if trim t = [] then None else Some t) = Some q" by simp
  from map_filter_member [OF assms(2), of "\<lambda>v. Option.bind (T v) (\<lambda>t. if trim t = [] then None else Some t)", OF this]
    assms(1) show ?thesis unfolding request_scoped_credential_secrets_def by auto
qed

lemma known_secret_in_redactor:
  assumes "known_secret T c headers q" "trim q \<noteq> []"
  shows "q \<in> set (redactor_for_request T c headers)"
proof -
  have "q \<in> set (request_scoped_credential_secrets T headers) \<or> client_provider_key c = Some q
      \<or> rac_access c = ProxyKeyAccess q \<or> q \<in> set (runtime_secrets (rac_runtime c))"
    using assms runtime_secret bearer_header_secret key_header_secret unfolding known_secret_def by blast
  with assms(2) show ?thesis
    by (auto simp: redactor_for_request_def set_redactor data_access_secrets_def)
qed

text \<open>
  C25. No secret of an exchange reaches the client through a redacted text or JSON value: not the
  credential the request came with in any of its headers, not the key of the proxy, not the key of any
  upstream of any namespace. The one proviso is that the secret shares nothing with the mark
  \<open>[REDACTED]\<close> it is replaced by.
\<close>

theorem known_secrets_are_redacted:
  assumes "known_secret T c headers q" "trim q \<noteq> []" "markless q"
  shows "\<not> str_contains (redact_text (redactor_for_request T c headers) text) q
    \<and> no_string (\<lambda>s. str_contains s q) (redact_value (redactor_for_request T c headers) v)"
  using known_secret_in_redactor [OF assms(1,2)] redact_text_hides [OF assms(3)]
    redact_value_hides [OF assms(3)] by blast

text \<open>A request in proxy key mode whose upstream answers with the proxy's key.\<close>

lemma known_secrets_are_redacted_witness:
  "\<not> str_contains (redact_text (redactor_for_request Some
        \<lparr>rac_generation = ''r'', rac_mode = ProxyKeyMode, rac_access = ProxyKeyAccess ''k1'',
         rac_authorization = ProxyKeyAuth, rac_runtime = []\<rparr> [(''authorization'', ''Bearer k1'')]) ''bad key k1'') ''k1''"
proof -
  let ?c = "\<lparr>rac_generation = ''r'', rac_mode = ProxyKeyMode, rac_access = ProxyKeyAccess ''k1'',
         rac_authorization = ProxyKeyAuth, rac_runtime = []\<rparr> :: runtime_state request_auth_context"
  have "known_secret Some ?c [(''authorization'', ''Bearer k1'')] ''k1''"
    by (simp add: known_secret_def)
  moreover have "trim ''k1'' \<noteq> []" "markless ''k1''"
    unfolding markless_def by code_simp+
  ultimately show ?thesis
    using known_secrets_are_redacted [of Some ?c _ "''k1''" "''bad key k1''" JNull] by blast
qed

section \<open>Frames\<close>

lemma take_frames_keeps_bytes: "take_frames b = (fs, rest) \<Longrightarrow> concat fs @ rest = b"
proof (induction b arbitrary: fs rest rule: take_frames.induct)
  case (1 b)
  show ?case
  proof (cases "redaction_frame_end b")
    case None
    then show ?thesis using 1(2) by (simp add: take_frames.simps [of b])
  next
    case (Some n)
    obtain fs' rest' where t: "take_frames (drop n b) = (fs', rest')" by fastforce
    with 1(2) Some have "fs = take n b # fs'" "rest = rest'" by (simp_all add: take_frames.simps [of b])
    then show ?thesis using 1(1) [OF Some t] by simp
  qed
qed

text \<open>
  Where the line endings of a stream are mixed, the redactor takes several frames for one, which the
  framing of the translation does not.
\<close>

lemma mixed_endings_join_frames:
  "redaction_frame_end (''data: 1'' @ [nl, nl] @ ''data: 2'' @ [cr, nl, cr, nl]) = Some 20
    \<and> sse_frame_end (''data: 1'' @ [nl, nl] @ ''data: 2'' @ [cr, nl, cr, nl]) = Some 9"
  by code_simp

end
