(* ===== verification/Server_Errors.thy ===== *)
theory Server_Errors
  imports Artifacts Media
begin

text \<open>
  The errors a client is sent (src/src/server/errors.rs): what an upstream answered is classified, cleaned of
  internal artifacts and written in the format of the client.
\<close>

section \<open>Normal form\<close>

record normalized_upstream_error =
  ne_message :: string
  ne_type :: string
  ne_code :: "string option"

definition error_member :: "json \<Rightarrow> string \<Rightarrow> string option" where
  "error_member body field = Option.bind (jget body ''error'') (\<lambda>e. jget_str e field)"

definition extract_error_message :: "json \<Rightarrow> string option" where
  "extract_error_message body =
     option_or (error_member body ''message'')
       (option_or (Option.bind (jget body ''error'') (\<lambda>e. Option.bind (jget e ''error'') (\<lambda>e. jget_str e ''message'')))
          (jget_str body ''message''))"

definition extract_error_signal :: "json \<Rightarrow> string" where
  "extract_error_signal body = join '' '' (List.map_filter id
     [error_member body ''code'', error_member body ''type'', error_member body ''status'',
      jget_str body ''code'', jget_str body ''type'', jget_str body ''status''])"

definition contains_any :: "string \<Rightarrow> string list \<Rightarrow> bool" where
  "contains_any s ps = list_ex (str_contains s) ps"

definition classify_error :: "nat \<Rightarrow> string \<Rightarrow> string \<times> string option" where
  "classify_error status combined =
     (if status = 429 \<or> contains_any combined [''rate limit'', ''rate_limit'']
      then (''rate_limit_error'', Some ''rate_limit_exceeded'')
      else if contains_any combined [''quota'', ''insufficient_quota'', ''credit balance'']
      then (''insufficient_quota'', Some ''insufficient_quota'')
      else if 500 \<le> status \<and> status < 600
        \<or> contains_any combined [''overloaded'', ''slow down'', ''server_is_overloaded'', ''temporarily unavailable'', ''service unavailable'']
      then (''server_error'', Some ''server_is_overloaded'')
      else if contains_any combined [''context_length_exceeded'', ''context window'', ''maximum context length'',
          ''prompt is too long'', ''prompt too long'', ''too many tokens'', ''token limit exceeded'']
      then (''invalid_request_error'', Some ''context_length_exceeded'')
      else if contains_any combined [''invalid_prompt'', ''safety reasons'', ''prompt blocked'']
      then (''invalid_request_error'', Some ''invalid_prompt'')
      else if 400 \<le> status \<and> status < 500 then (''invalid_request_error'', Some ''invalid_request_error'')
      else (''server_error'', None))"

definition normalize_upstream_error :: "env \<Rightarrow> nat \<Rightarrow> string \<Rightarrow> normalized_upstream_error" where
  "normalize_upstream_error E status raw =
     (let parsed = json_parse E raw;
          extracted = Option.bind parsed extract_error_message;
          message = (case extracted of
              Some m \<Rightarrow> if m = [] then sanitize_public_error_message raw else sanitize_public_error_message m
            | None \<Rightarrow> sanitize_public_error_message raw);
          signal = to_ascii_lowercase (case parsed of Some p \<Rightarrow> extract_error_signal p | None \<Rightarrow> []);
          combined = signal @ '' '' @ to_ascii_lowercase (unwrap_or extracted raw);
          (t, c) = classify_error status combined
      in \<lparr>ne_message = message, ne_type = t, ne_code = c\<rparr>)"

section \<open>Bodies\<close>

definition openai_error_body :: "normalized_upstream_error \<Rightarrow> json" where
  "openai_error_body e = jobj [(''error'', jobj [(''message'', JStr (ne_message e)),
     (''type'', JStr (ne_type e)), (''code'', jopt_str (ne_code e))])]"

definition anthropic_error_type :: "nat \<Rightarrow> string" where
  "anthropic_error_type status =
     (if status = 401 then ''authentication_error''
      else if status = 403 then ''permission_error''
      else if status = 404 then ''not_found_error''
      else if status = 413 then ''request_too_large''
      else if status = 429 then ''rate_limit_error''
      else if status = 529 then ''overloaded_error''
      else if 400 \<le> status \<and> status \<le> 499 then ''invalid_request_error''
      else ''api_error'')"

definition anthropic_error_body :: "nat \<Rightarrow> normalized_upstream_error \<Rightarrow> json" where
  "anthropic_error_body status e = jobj [(''type'', JStr ''error''),
     (''error'', jobj [(''type'', JStr (anthropic_error_type status)), (''message'', JStr (ne_message e))])]"

text \<open>An answer with a JSON body: status and body.\<close>

definition error_response :: "env \<Rightarrow> upstream_format \<Rightarrow> nat \<Rightarrow> string \<Rightarrow> nat \<times> json" where
  "error_response E format status message =
     (let e = normalize_upstream_error E status message
      in (status, case format of Anthropic \<Rightarrow> anthropic_error_body status e | _ \<Rightarrow> openai_error_body e))"

definition client_closed_response :: "env \<Rightarrow> upstream_format \<Rightarrow> nat \<times> json" where
  "client_closed_response E format = error_response E format 499 ''downstream client disconnected''"

definition format_upstream_unavailable_message :: "string \<Rightarrow> upstream_availability \<Rightarrow> string" where
  "format_upstream_unavailable_message name a = (case a of
      Available \<Rightarrow> ''resolved upstream `'' @ name @ ''` is unavailable''
    | Unavailable reason \<Rightarrow> ''resolved upstream `'' @ name @ ''` is unavailable: '' @ reason)"

text \<open>An error of a streaming request: JSON, or for a Responses client a stream of one event.\<close>

datatype stream_error_answer = JsonAnswer nat json | EventStreamAnswer nat string

definition response_failed_event :: "env \<Rightarrow> nat \<Rightarrow> normalized_upstream_error \<Rightarrow> json" where
  "response_failed_event E n e = jobj [(''type'', JStr ''response.failed''), (''sequence_number'', jnat 0),
     (''response'', jobj [(''id'', JStr (''resp_error_'' @ filter (\<lambda>c. c \<noteq> CHR ''-'') (uuid_v4 E n))), (''object'', JStr ''response''),
        (''created_at'', jnat (unix_secs E)), (''status'', JStr ''failed''), (''background'', JBool False),
        (''error'', jobj [(''type'', JStr (ne_type e)), (''code'', jopt_str (ne_code e)), (''message'', JStr (ne_message e))]),
        (''incomplete_details'', JNull), (''usage'', JNull), (''metadata'', JObj [])])]"

definition streaming_error_response :: "env \<Rightarrow> nat \<Rightarrow> upstream_format \<Rightarrow> nat \<Rightarrow> string \<Rightarrow> stream_error_answer" where
  "streaming_error_response E n format status message =
     (let public = (if contains_internal_artifact_text message then generic_upstream_error_message else message)
      in if format \<noteq> OpenAiResponses then (case error_response E format status public of (s, b) \<Rightarrow> JsonAnswer s b)
         else EventStreamAnswer 200 (''event: response.failed'' @ [nl] @ ''data: ''
           @ json_text E (response_failed_event E n (normalize_upstream_error E status public)) @ [nl, nl]))"

section \<open>Statuses\<close>

definition error_status :: "string option \<Rightarrow> nat" where
  "error_status t = (if t = Some ''invalid_request_error'' then 400 else 500)"

definition classify_post_translation_non_stream_status :: "upstream_format \<Rightarrow> json \<Rightarrow> nat" where
  "classify_post_translation_non_stream_status client body = (case client of
      Anthropic \<Rightarrow> if jget_str body ''type'' = Some ''error'' then error_status (error_member body ''type'') else 200
    | _ \<Rightarrow> if Option.bind (jget body ''error'') as_object \<noteq> None then error_status (error_member body ''type'') else 200)"

definition portability_warning_values :: "(string \<Rightarrow> string option) \<Rightarrow> string list \<Rightarrow> string list" where
  "portability_warning_values header_value warnings =
     List.map_filter (\<lambda>w. header_value (map (\<lambda>c. if c = cr \<or> c = nl then CHR '' '' else c) w)) warnings"

section \<open>What the client reads\<close>

lemma sanitized_message: "\<not> contains_internal_artifact_text (sanitize_public_error_message s)"
proof -
  have "\<not> contains_internal_artifact_text generic_upstream_error_message" by code_simp
  then show ?thesis by (simp add: sanitize_public_error_message_def)
qed

lemma sanitized_message_not_blank: "trim (sanitize_public_error_message s) \<noteq> []"
proof -
  have "trim generic_upstream_error_message \<noteq> []" by code_simp
  then show ?thesis by (simp add: sanitize_public_error_message_def)
qed

lemma normalized_message: "\<exists>s. ne_message (normalize_upstream_error E status raw) = sanitize_public_error_message s"
  by (auto simp: normalize_upstream_error_def Let_def case_prod_unfold split: option.split)

lemma normalized_class: "\<exists>s. classify_error status s =
    (ne_type (normalize_upstream_error E status raw), ne_code (normalize_upstream_error E status raw))"
  by (simp add: normalize_upstream_error_def Let_def case_prod_unfold) blast

lemma error_codes_clean:
  "\<not> contains_internal_artifact_text (fst (classify_error status s))"
  "snd (classify_error status s) = Some c \<Longrightarrow> \<not> contains_internal_artifact_text c"
  unfolding classify_error_def
  by (auto simp: contains_internal_artifact_text_def tool_bridge_context_field_def custom_bridge_prefix_def
      starts_with_def split: if_splits)

text \<open>
  Whatever an upstream answers, the error a client is sent has the status of the upstream, a message that
  is not blank, and no internal artifact in any string or key.
\<close>

lemma artifact_free_jobj:
  "list_all (\<lambda>(k, v). \<not> contains_internal_artifact_text k \<and> artifact_free v) kvs \<Longrightarrow> artifact_free (jobj kvs)"
proof -
  assume a: "list_all (\<lambda>(k, v). \<not> contains_internal_artifact_text k \<and> artifact_free v) kvs"
  have "list_all Q m \<Longrightarrow> Q (k, v) \<Longrightarrow> list_all Q (omap_insert k v m)" for Q m and k :: string and v :: json
    by (induction k v m rule: omap_insert.induct) auto
  then have "list_all (\<lambda>(k, v). \<not> contains_internal_artifact_text k \<and> artifact_free v) m \<Longrightarrow>
      list_all (\<lambda>(k, v). \<not> contains_internal_artifact_text k \<and> artifact_free v)
        (foldl (\<lambda>m (k, v). omap_insert k v m) m kvs)" for m
    using a by (induction kvs arbitrary: m) auto
  from this [of "[]"] show ?thesis by (simp add: jobj_def)
qed

lemma error_answer_is_clean:
  "case error_response E format status raw of (s, body) \<Rightarrow> s = status \<and> artifact_free body
     \<and> (\<exists>e m. jget body ''error'' = Some e \<and> jget_str e ''message'' = Some m \<and> trim m \<noteq> [])"
proof -
  obtain s where m: "ne_message (normalize_upstream_error E status raw) = sanitize_public_error_message s"
    using normalized_message by blast
  obtain combined where c: "classify_error status combined
      = (ne_type (normalize_upstream_error E status raw), ne_code (normalize_upstream_error E status raw))"
    using normalized_class by blast
  have keys: "\<not> contains_internal_artifact_text ''error''" "\<not> contains_internal_artifact_text ''message''"
    "\<not> contains_internal_artifact_text ''type''" "\<not> contains_internal_artifact_text ''code''"
    by code_simp+
  have types: "\<not> contains_internal_artifact_text (anthropic_error_type status)"
    unfolding anthropic_error_type_def
    by (simp add: contains_internal_artifact_text_def tool_bridge_context_field_def custom_bridge_prefix_def starts_with_def)
  have "artifact_free (openai_error_body (normalize_upstream_error E status raw))"
    unfolding openai_error_body_def
    by (intro artifact_free_jobj)
      (use keys m sanitized_message error_codes_clean [of status combined] c in
        \<open>auto simp: jopt_str_def intro!: artifact_free_jobj split: option.split\<close>)
  moreover have "artifact_free (anthropic_error_body status (normalize_upstream_error E status raw))"
    unfolding anthropic_error_body_def
    by (intro artifact_free_jobj)
      (use keys m sanitized_message types in \<open>auto intro!: artifact_free_jobj\<close>)
  ultimately show ?thesis
    using m sanitized_message_not_blank [of s]
    by (cases format) (auto simp: error_response_def Let_def openai_error_body_def anthropic_error_body_def jget_str_def)
qed

end
