(* ===== verification/Server_Headers.thy ===== *)
theory Server_Headers
  imports Redaction_Guarantees Hook_Payload
begin

text \<open>
  The headers that cross the proxy (src/src/server/headers.rs): what of a client's request reaches the
  upstream, the credential the upstream gets, and what of an upstream's answer reaches the client. Header
  names are ASCII, so \<open>to_lowercase\<close> is the ASCII one; those of a header map are lower case already.
\<close>

section \<open>To the upstream\<close>

definition default_protocol_headers :: "upstream_format \<Rightarrow> (string \<times> string) list" where
  "default_protocol_headers f = (case f of Anthropic \<Rightarrow> [(''anthropic-version'', ''2023-06-01'')] | _ \<Rightarrow> [])"

fun upsert_header :: "string \<Rightarrow> string \<Rightarrow> (string \<times> string) list \<Rightarrow> (string \<times> string) list" where
  "upsert_header name value [] = [(name, value)]"
| "upsert_header name value ((n, v) # hs) =
     (if eq_ignore_ascii_case n name then (n, value) # hs else (n, v) # upsert_header name value hs)"

definition apply_upstream_headers ::
    "(string \<times> string) list \<Rightarrow> upstream_format \<Rightarrow> (string \<times> string) list \<Rightarrow> (string \<times> string) list" where
  "apply_upstream_headers extra format headers =
     foldl (\<lambda>hs (n, v). upsert_header (to_ascii_lowercase n) v hs)
       (foldl (\<lambda>hs (n, v). if list_ex (\<lambda>(m, _). eq_ignore_ascii_case m n) hs then hs else hs @ [(n, v)])
          headers (default_protocol_headers format)) extra"

definition forwardable :: "string list" where
  "forwardable = [''authorization'', ''x-api-key'', ''x-goog-api-key'', ''api-key'', ''openai-api-key'',
     ''anthropic-api-key'', ''anthropic-version'', ''anthropic-beta'', ''openai-organization'',
     ''openai-project'', ''idempotency-key'', ''x-stainless-helper-method'']"

definition extract_forwardable_headers :: "to_str \<Rightarrow> header_map \<Rightarrow> (string \<times> string) list" where
  "extract_forwardable_headers T headers = List.map_filter (\<lambda>(n, v).
     if to_ascii_lowercase n \<in> set forwardable then map_option (Pair (to_ascii_lowercase n)) (T v) else None) headers"

definition strip_auth_headers :: "(string \<times> string) list \<Rightarrow> (string \<times> string) list" where
  "strip_auth_headers headers = filter (\<lambda>(n, _). to_ascii_lowercase n \<notin>
     {''authorization'', ''x-api-key'', ''x-goog-api-key'', ''api-key'', ''openai-api-key'', ''anthropic-api-key''}) headers"

definition server_auth_header :: "upstream_format \<Rightarrow> string \<Rightarrow> string \<times> string" where
  "server_auth_header f key = (case f of
      Anthropic \<Rightarrow> (''x-api-key'', key)
    | _ \<Rightarrow> (''authorization'', ''Bearer '' @ key))"

record effective_credential =
  ec_source :: credential_source
  ec_fingerprint :: "string option"

definition build_auth_headers ::
    "env \<Rightarrow> to_str \<Rightarrow> header_map \<Rightarrow> 'r request_auth_context \<Rightarrow> upstream_state \<Rightarrow> upstream_format \<Rightarrow>
       string + (string \<times> string) list \<times> effective_credential" where
  "build_auth_headers E T request_headers c u format =
     (let headers = strip_auth_headers (extract_forwardable_headers T request_headers);
          mismatch = (\<lambda>what. ''request auth snapshot mismatch at generation '' @ rac_generation c @ '': '' @ what)
      in case (rac_mode c, rac_access c, rac_authorization c) of
           (ClientProviderKeyMode, ClientProviderKeyAccess, ClientProviderKeyAuth key) \<Rightarrow>
             (if us_provider_key u \<noteq> None then Inl (mismatch ''client_provider_key mode has server provider key'')
              else Inr (headers @ [server_auth_header format key],
                        \<lparr>ec_source = ClientCredential, ec_fingerprint = Some (fingerprint_credential E key)\<rparr>))
         | (ProxyKeyMode, ProxyKeyAccess _, ProxyKeyAuth) \<Rightarrow>
             (case us_provider_key u of
                None \<Rightarrow> Inl (mismatch ''proxy_key mode missing server provider key'')
              | Some key \<Rightarrow> Inr (headers @ [server_auth_header format key],
                        \<lparr>ec_source = ServerCredential, ec_fingerprint = Some (fingerprint_credential E key)\<rparr>))
         | (_, Unconfigured, _) \<Rightarrow> Inl ''data auth is not configured''
         | (_, Misconfigured m, _) \<Rightarrow> Inl (''data auth misconfigured: '' @ m)
         | _ \<Rightarrow> Inl (''request auth snapshot authorization does not match data auth mode at generation '' @ rac_generation c))"

section \<open>To the client\<close>

definition is_forwardable_upstream_protocol_response_header :: "string \<Rightarrow> bool" where
  "is_forwardable_upstream_protocol_response_header name = (let n = to_ascii_lowercase name in
     if n \<in> {''authorization'', ''cookie'', ''set-cookie''} \<or> str_contains n ''api-key'' \<or> str_contains n ''token''
        \<or> str_contains n ''secret'' \<or> str_contains n ''credential''
     then False
     else n \<in> {''request-id'', ''x-request-id'', ''retry-after'', ''rate-limit'', ''openai-processing-ms''}
        \<or> starts_with ''ratelimit-'' n \<or> starts_with ''x-ratelimit-'' n \<or> starts_with ''rate-limit-'' n
        \<or> starts_with ''anthropic-ratelimit-'' n)"

text \<open>
  \<open>headers_mut().append\<close> puts a value behind those of its name, \<open>insert\<close> replaces them. The texts are
  read with \<open>to_str\<close> and written with \<open>from_str\<close>; a value that cannot be read or written is skipped.
\<close>

definition append_header :: "string \<Rightarrow> string \<Rightarrow> header_map \<Rightarrow> header_map" where
  "append_header name value headers = headers @ [(name, value)]"

definition insert_header :: "string \<Rightarrow> string \<Rightarrow> header_map \<Rightarrow> header_map" where
  "insert_header name value headers = remove_header name headers @ [(name, value)]"

definition forward_protocol_header ::
    "to_str \<Rightarrow> to_str \<Rightarrow> (string \<Rightarrow> string) \<Rightarrow> string \<times> string \<Rightarrow> header_map \<Rightarrow> header_map" where
  "forward_protocol_header T V redact = (\<lambda>(name, value) response.
     if is_forwardable_upstream_protocol_response_header name \<and> \<not> contains_header response name
     then (case Option.bind (T value) (\<lambda>t. V (redact t)) of
         None \<Rightarrow> response
       | Some v \<Rightarrow> append_header name v response)
     else response)"

definition append_upstream_protocol_response_headers ::
    "to_str \<Rightarrow> to_str \<Rightarrow> (string \<Rightarrow> string) \<Rightarrow> header_map \<Rightarrow> header_map \<Rightarrow> header_map" where
  "append_upstream_protocol_response_headers T V redact upstream response =
     foldl (\<lambda>r h. forward_protocol_header T V redact h r) response upstream"

text \<open>\<open>parse::<usize>\<close> of the trimmed text is a parameter, with the printer of the number.\<close>

definition matching_content_length :: "to_str \<Rightarrow> to_str \<Rightarrow> (string \<Rightarrow> nat option) \<Rightarrow> header_map \<Rightarrow> nat \<Rightarrow> string option" where
  "matching_content_length T V parse_usize upstream body_len = (case get_all upstream ''content-length'' of
      [v] \<Rightarrow> (case Option.bind (T v) (\<lambda>t. parse_usize (trim t)) of
          Some n \<Rightarrow> if n = body_len then V (nat_str n) else None
        | None \<Rightarrow> None)
    | _ \<Rightarrow> None)"

definition copy_content_headers :: "to_str \<Rightarrow> header_map \<Rightarrow> header_map \<Rightarrow> header_map" where
  "copy_content_headers T upstream response =
     (let response = (case get_all upstream ''content-type'' of
            v # _ \<Rightarrow> insert_header ''content-type'' v response | [] \<Rightarrow> response)
      in foldl (\<lambda>r v. if T v \<noteq> None then append_header ''content-encoding'' v r else r)
           response (get_all upstream ''content-encoding''))"

definition append_raw_upstream_response_headers ::
    "to_str \<Rightarrow> to_str \<Rightarrow> (string \<Rightarrow> nat option) \<Rightarrow> (string \<Rightarrow> string) \<Rightarrow> header_map \<Rightarrow> nat \<Rightarrow> header_map \<Rightarrow> header_map" where
  "append_raw_upstream_response_headers T V parse_usize redact upstream body_len response =
     (let response = copy_content_headers T upstream response;
          response = (case matching_content_length T V parse_usize upstream body_len of
             Some v \<Rightarrow> insert_header ''content-length'' v response | None \<Rightarrow> response)
      in append_upstream_protocol_response_headers T V redact upstream response)"

definition append_raw_upstream_stream_response_headers ::
    "to_str \<Rightarrow> to_str \<Rightarrow> (string \<Rightarrow> string) \<Rightarrow> header_map \<Rightarrow> header_map \<Rightarrow> header_map" where
  "append_raw_upstream_stream_response_headers T V redact upstream response =
     append_upstream_protocol_response_headers T V redact upstream (copy_content_headers T upstream response)"

end
