(* ===== verification/Admin.thy ===== *)
theory Admin
  imports Server_Headers Server_Errors
begin

text \<open>
  The administration interface (src/src/server/admin.rs): who may use it, and the two operations that change
  the state of the server while requests are served, each guarded by a revision and by a lock. The
  start of the server (src/src/server/mod.rs) gives the first state.
\<close>

section \<open>Access\<close>

definition extract_bearer_token :: "string \<Rightarrow> string option" where
  "extract_bearer_token value = (case bearer_token_of value of
      Some token \<Rightarrow> if trim token = [] then None else Some token
    | None \<Rightarrow> None)"

definition contains_proxy_forwarding_headers :: "header_map \<Rightarrow> bool" where
  "contains_proxy_forwarding_headers headers = list_ex (\<lambda>(n, _). list_ex (eq_ignore_ascii_case n)
     [''forwarded'', ''x-forwarded-for'', ''x-forwarded-host'', ''x-forwarded-proto'', ''x-real-ip'']) headers"

text \<open>Of the remote address only \<open>is_loopback\<close> is used.\<close>

definition authorize_admin_request ::
    "to_str \<Rightarrow> admin_access \<Rightarrow> header_map \<Rightarrow> bool option \<Rightarrow> (nat \<times> string) + unit" where
  "authorize_admin_request T access headers loopback = (case access of
      AdminBearerToken expected \<Rightarrow>
        (case get_all headers ''authorization'' of
           [] \<Rightarrow> Inl (401, ''admin bearer token required'')
         | v # _ \<Rightarrow> (case Option.bind (T v) extract_bearer_token of
               None \<Rightarrow> Inl (401, ''admin bearer token required'')
             | Some token \<Rightarrow> if token = expected then Inr () else Inl (401, ''admin bearer token invalid'')))
    | AdminMisconfigured \<Rightarrow> Inl (503, ''admin bearer token misconfigured'')
    | LoopbackOnly \<Rightarrow>
        (if contains_proxy_forwarding_headers headers
         then Inl (403, ''admin loopback access rejects proxy forwarding headers'')
         else if loopback = Some True then Inr ()
         else Inl (403, ''admin access allowed from loopback clients only'')))"

section \<open>The state of the server\<close>

text \<open>
  The part of \<open>AppState\<close> that changes: the namespaces and the data access. The metrics and the store
  of conversations are apart from it.
\<close>

record app_state =
  app_runtime :: runtime_state
  app_data_auth :: data_auth_state
  app_admin :: admin_access

datatype start_error = InvalidConfig string | StartupRefused string | BuildFailed string

text \<open>\<open>run_with_listener\<close> up to the start of the server, with the revisions it makes up.\<close>

definition start_server ::
    "'u world \<Rightarrow> string \<Rightarrow> string \<Rightarrow> config \<Rightarrow> start_error + app_state" where
  "start_server W auth_revision revision c =
     (let auth = auth_from_static_config (w_env W) auth_revision (data_auth c)
      in case check_opt (\<lambda>d. validate_data_auth d ''data_auth'') (data_auth c) of
           Inl e \<Rightarrow> Inl (InvalidConfig (''invalid config: '' @ e))
         | Inr _ \<Rightarrow>
        (case (if upstreams c \<noteq> [] then validate_config (w_urls W) c else Inr ()) of
           Inl e \<Rightarrow> Inl (InvalidConfig (''invalid config: '' @ e))
         | Inr _ \<Rightarrow>
        (case validate_runtime_config (w_env W) c (das_access auth) of
           Inl e \<Rightarrow> Inl (StartupRefused e)
         | Inr _ \<Rightarrow>
        (case build_runtime_state W revision (c\<lparr>data_auth := None\<rparr>) (das_access auth) of
           Inl e \<Rightarrow> Inl (BuildFailed e)
         | Inr runtime \<Rightarrow> Inr \<lparr>app_runtime = runtime, app_data_auth = auth,
                                app_admin = admin_access_from_env (w_env W)\<rparr>))))"

section \<open>Writing\<close>

text \<open>The refusal of a write carries the current revision.\<close>

definition validate_admin_cas_precondition :: "string option \<Rightarrow> string option \<Rightarrow> string option + unit" where
  "validate_admin_cas_precondition current if_revision = (case (current, if_revision) of
      (None, None) \<Rightarrow> Inr ()
    | (None, Some _) \<Rightarrow> Inl None
    | (Some c, Some e) \<Rightarrow> if c = e then Inr () else Inl (Some c)
    | (Some c, None) \<Rightarrow> Inl (Some c))"

datatype admin_answer =
    AdminError nat string
  | PreconditionFailed "string option"
  | ConfigApplied string string
  | DataAuthApplied auth_snapshot

text \<open>The request bodies; reading them is \<open>serde_json::from_value\<close>.\<close>

record admin_config_request =
  acr_if_revision :: "string option"
  acr_config :: config_payload

record admin_auth_request =
  aar_if_revision :: "string option"
  aar_config :: data_auth_config

definition parse_admin_config_request ::
    "(json \<Rightarrow> string + admin_config_request) \<Rightarrow> json \<Rightarrow> string + admin_config_request" where
  "parse_admin_config_request parse payload = (case payload of
      JObj kvs \<Rightarrow>
        (if map_of kvs ''revision'' \<noteq> None
         then Inl ''legacy admin config request shape is no longer supported; use `if_revision`''
         else (case parse payload of
             Inl e \<Rightarrow> Inl (''invalid admin config request: '' @ e)
           | Inr r \<Rightarrow> Inr r))
    | _ \<Rightarrow> Inl ''admin config request must be a JSON object'')"

text \<open>
  A write holds the update lock from the time it reads the state to the time it has changed it. In between
  it waits for the upstreams it probes, and requests go on being served from the old state. The
  first part gives an answer or what is to be committed.
\<close>

datatype pending_write =
    PendingNamespace string "string option" string namespace_state
  | PendingDataAuth "string option" data_auth_state runtime_state

definition prepare_namespace_config ::
    "'u world \<Rightarrow> (json \<Rightarrow> string + admin_config_request) \<Rightarrow> string \<Rightarrow> string \<Rightarrow> json \<Rightarrow> app_state \<Rightarrow>
       admin_answer + pending_write" where
  "prepare_namespace_config W parse revision namespace payload app =
     (case parse_admin_config_request parse payload of
        Inl e \<Rightarrow> Inl (AdminError 400 e)
      | Inr request \<Rightarrow>
     (case config_of_payload (w_urls W) (acr_config request) of
        Inl e \<Rightarrow> Inl (AdminError 400 (''invalid runtime config: '' @ e))
      | Inr c \<Rightarrow>
     (case validate_runtime_config (w_env W) c (das_access (app_data_auth app)) of
        Inl e \<Rightarrow> Inl (AdminError 400 (''invalid runtime config: '' @ e))
      | Inr _ \<Rightarrow>
     (case validate_admin_cas_precondition (map_option ns_revision (map_of (app_runtime app) namespace))
             (acr_if_revision request) of
        Inl current \<Rightarrow> Inl (PreconditionFailed current)
      | Inr _ \<Rightarrow>
     (case build_runtime_namespace_state W revision c (das_access (app_data_auth app)) of
        Inl e \<Rightarrow> Inl (AdminError 400 (''failed to resolve namespace config: '' @ e))
      | Inr ns \<Rightarrow> Inr (PendingNamespace namespace (acr_if_revision request) revision ns))))))"

fun rebuild_namespaces ::
    "'u world \<Rightarrow> data_access \<Rightarrow> runtime_state \<Rightarrow> runtime_state \<Rightarrow> admin_answer + runtime_state" where
  "rebuild_namespaces W access acc [] = Inr acc"
| "rebuild_namespaces W access acc ((namespace, ns) # rest) =
     (case validate_runtime_config (w_env W) (ns_config ns) access of
        Inl e \<Rightarrow> Inl (AdminError 400
          (''failed to validate namespace `'' @ namespace @ ''` under data_auth config: '' @ e))
      | Inr _ \<Rightarrow> (case build_runtime_namespace_state W (ns_revision ns) (ns_config ns) access of
            Inl e \<Rightarrow> Inl (AdminError 400
              (''failed to rebuild namespace `'' @ namespace @ ''` under data_auth config: '' @ e))
          | Inr ns' \<Rightarrow> rebuild_namespaces W access (omap_insert namespace ns' acc) rest))"

definition prepare_data_auth_config ::
    "'u world \<Rightarrow> (json \<Rightarrow> string + admin_auth_request) \<Rightarrow> string \<Rightarrow> json \<Rightarrow> app_state \<Rightarrow>
       admin_answer + pending_write" where
  "prepare_data_auth_config W parse revision payload app = (case parse payload of
      Inl e \<Rightarrow> Inl (AdminError 400 (''invalid admin data auth request: '' @ e))
    | Inr request \<Rightarrow>
   (case auth_from_admin_config (w_env W) revision (aar_config request) of
      Inl e \<Rightarrow> Inl (AdminError 400 (''invalid data_auth config: '' @ e))
    | Inr auth \<Rightarrow>
   (case validate_admin_cas_precondition (Some (das_revision (app_data_auth app))) (aar_if_revision request) of
      Inl current \<Rightarrow> Inl (PreconditionFailed current)
    | Inr _ \<Rightarrow>
   (case rebuild_namespaces W (das_access auth) [] (app_runtime app) of
      Inl answer \<Rightarrow> Inl answer
    | Inr rebuilt \<Rightarrow> Inr (PendingDataAuth (aar_if_revision request) auth rebuilt)))))"

text \<open>The second part, under the write locks: the revision is checked again.\<close>

definition commit_write :: "pending_write \<Rightarrow> app_state \<Rightarrow> app_state \<times> admin_answer" where
  "commit_write p app = (case p of
      PendingNamespace namespace if_revision revision ns \<Rightarrow>
       (case validate_admin_cas_precondition (map_option ns_revision (map_of (app_runtime app) namespace)) if_revision of
          Inl current \<Rightarrow> (app, PreconditionFailed current)
        | Inr _ \<Rightarrow> (app\<lparr>app_runtime := omap_insert namespace ns (app_runtime app)\<rparr>,
                   ConfigApplied namespace revision))
    | PendingDataAuth if_revision auth rebuilt \<Rightarrow>
       (case validate_admin_cas_precondition (Some (das_revision (app_data_auth app))) if_revision of
          Inl current \<Rightarrow> (app, PreconditionFailed current)
        | Inr _ \<Rightarrow> (app\<lparr>app_runtime := rebuilt, app_data_auth := auth\<rparr>,
                   DataAuthApplied (auth_admin_snapshot auth))))"

section \<open>Views\<close>

record namespace_summary =
  sm_namespace :: string
  sm_revision :: string
  sm_upstream_count :: nat
  sm_alias_count :: nat

definition admin_state_view :: "app_state \<Rightarrow> namespace_summary list" where
  "admin_state_view app = map (\<lambda>(name, ns). \<lparr>sm_namespace = name, sm_revision = ns_revision ns,
     sm_upstream_count = length (upstreams (ns_config ns)),
     sm_alias_count = length (model_aliases (ns_config ns))\<rparr>) (app_runtime app)"

fun proxy_source_label :: "proxy_source \<Rightarrow> string" where
  "proxy_source_label UpstreamSource = ''upstream''"
| "proxy_source_label NamespaceSource = ''namespace''"
| "proxy_source_label EnvironmentSource = ''env''"
| "proxy_source_label NoSource = ''none''"

fun proxy_mode_label :: "proxy_target \<Rightarrow> string" where
  "proxy_mode_label (ProxyTarget _) = ''proxy''"
| "proxy_mode_label DirectTarget = ''direct''"
| "proxy_mode_label Inherited = ''inherited''"

definition admin_proxy_url :: "'u url_api \<Rightarrow> resolved_proxy \<Rightarrow> string option" where
  "admin_proxy_url U p = (case (rp_source p, rp_target p) of
      (UpstreamSource, ProxyTarget url) \<Rightarrow> Some (sanitize_url_for_admin U url)
    | (NamespaceSource, ProxyTarget url) \<Rightarrow> Some (sanitize_url_for_admin U url)
    | _ \<Rightarrow> None)"

record upstream_state_view =
  uv_name :: string
  uv_api_root :: string
  uv_fixed_format :: "upstream_format option"
  uv_supported :: "upstream_format set"
  uv_availability :: "string \<times> string option"
  uv_proxy_source :: string
  uv_proxy_mode :: string
  uv_proxy_url :: "string option"

record namespace_view =
  nv_namespace :: string
  nv_revision :: string
  nv_config :: config_view
  nv_upstreams :: "upstream_state_view list"

definition upstream_state_view_of :: "'u url_api \<Rightarrow> upstream_state \<Rightarrow> upstream_state_view" where
  "upstream_state_view_of U u =
     \<lparr>uv_name = up_name (us_config u), uv_api_root = sanitize_url_for_admin U (up_api_root (us_config u)),
      uv_fixed_format = up_fixed_format (us_config u),
      uv_supported = (case us_capability u of Some c \<Rightarrow> supported c | None \<Rightarrow> {}),
      uv_availability = (status_label (us_availability u), availability_reason (us_availability u)),
      uv_proxy_source = proxy_source_label (rp_source (us_resolved_proxy u)),
      uv_proxy_mode = proxy_mode_label (rp_target (us_resolved_proxy u)),
      uv_proxy_url = admin_proxy_url U (us_resolved_proxy u)\<rparr>"

definition admin_namespace_view :: "'u url_api \<Rightarrow> app_state \<Rightarrow> string \<Rightarrow> admin_answer + namespace_view" where
  "admin_namespace_view U app namespace = (case map_of (app_runtime app) namespace of
      None \<Rightarrow> Inl (AdminError 404 ''namespace not found'')
    | Some ns \<Rightarrow> Inr \<lparr>nv_namespace = namespace, nv_revision = ns_revision ns,
         nv_config = admin_config_view U (ns_config ns),
         nv_upstreams = map (\<lambda>(_, u). upstream_state_view_of U u) (ns_upstreams ns)\<rparr>)"

end
