(* ===== verification/Admin_Guarantees.thy ===== *)
theory Admin_Guarantees
  imports Admin
begin

text \<open>
  The server under administration: for every start and every sequence of writes, with any environment
  and any answers of upstreams at each of them, the state stays consistent, a write that was accepted is
  carried out, and every request that is let through finds its upstream and one credential for it.
\<close>

section \<open>Steps and reachable states\<close>

text \<open>
  The second component is the write that holds the update lock. The environment variables and what upstreams
  answer may differ at every step.
\<close>

definition at :: "'u world \<Rightarrow> getenv \<Rightarrow> (client_settings \<Rightarrow> string \<Rightarrow> upstream_format \<Rightarrow> (string \<times> string) list \<Rightarrow> json \<Rightarrow> nat option) \<Rightarrow> 'u world" where
  "at W E P = W\<lparr>w_env := E, w_probe := P\<rparr>"

inductive server_step ::
    "'u world \<Rightarrow> app_state \<times> pending_write option \<Rightarrow> app_state \<times> pending_write option \<Rightarrow> bool" for W where
  prepare_namespace: "prepare_namespace_config (at W E P) parse revision namespace payload app = Inr p \<Longrightarrow>
     server_step W (app, None) (app, Some p)"
| prepare_auth: "prepare_data_auth_config (at W E P) parse_auth revision payload app = Inr p \<Longrightarrow>
     server_step W (app, None) (app, Some p)"
| commit: "server_step W (app, Some p) (fst (commit_write p app), None)"

inductive server_reachable :: "'u world \<Rightarrow> app_state \<times> pending_write option \<Rightarrow> bool" for W where
  start: "start_server (at W E P) auth_revision revision c = Inr app \<Longrightarrow> server_reachable W (app, None)"
| step: "server_reachable W s \<Longrightarrow> server_step W s s' \<Longrightarrow> server_reachable W s'"

inductive_cases server_stepE: "server_step W (app, lock) s'"

lemma at_urls [simp]: "w_urls (at W E P) = w_urls W" "w_env (at W E P) = E"
  by (simp_all add: at_def)

section \<open>The invariant\<close>

definition auth_consistent :: "data_auth_state \<Rightarrow> bool" where
  "auth_consistent s \<longleftrightarrow>
     (case das_access s of
        ProxyKeyAccess _ \<Rightarrow> acv_mode (das_config s) = ProxyKeyMode
      | ClientProviderKeyAccess \<Rightarrow> acv_mode (das_config s) = ClientProviderKeyMode
      | _ \<Rightarrow> True)"

definition runtime_consistent :: "'u world \<Rightarrow> data_access \<Rightarrow> runtime_state \<Rightarrow> bool" where
  "runtime_consistent W access runtime \<longleftrightarrow>
     (\<forall>name ns. map_of runtime name = Some ns \<longrightarrow>
        validate_config (w_urls W) (ns_config ns) = Inr () \<and> namespace_consistent access ns)"

fun precondition :: "pending_write \<Rightarrow> app_state \<Rightarrow> string option + unit" where
  "precondition (PendingNamespace namespace if_revision _ _) app =
     validate_admin_cas_precondition (map_option ns_revision (map_of (app_runtime app) namespace)) if_revision"
| "precondition (PendingDataAuth if_revision _ _) app =
     validate_admin_cas_precondition (Some (das_revision (app_data_auth app))) if_revision"

fun pending_consistent :: "'u world \<Rightarrow> app_state \<Rightarrow> pending_write \<Rightarrow> bool" where
  "pending_consistent W app (PendingNamespace namespace if_revision revision ns) =
     (validate_config (w_urls W) (ns_config ns) = Inr () \<and> ns_revision ns = revision
      \<and> namespace_consistent (das_access (app_data_auth app)) ns)"
| "pending_consistent W app (PendingDataAuth if_revision auth rebuilt) =
     (auth_consistent auth \<and> runtime_consistent W (das_access auth) rebuilt)"

definition server_consistent :: "'u world \<Rightarrow> app_state \<times> pending_write option \<Rightarrow> bool" where
  "server_consistent W s \<longleftrightarrow> (case s of (app, lock) \<Rightarrow>
     auth_consistent (app_data_auth app)
     \<and> runtime_consistent W (das_access (app_data_auth app)) (app_runtime app)
     \<and> (\<forall>p. lock = Some p \<longrightarrow> pending_consistent W app p \<and> precondition p app = Inr ()))"

lemma auth_state_consistent: "data_access_from_config E c owner = Inr (access, view) \<Longrightarrow>
    auth_consistent \<lparr>das_revision = r, das_access = access, das_config = view\<rparr>"
  by (auto simp: data_access_from_config_def auth_consistent_def client_key_view_def proxy_key_view_def
      split: sum.splits data_auth_mode.splits option.splits)

lemma env_state_consistent: "data_access_from_env_results m k = Inr (access, view) \<Longrightarrow>
    auth_consistent \<lparr>das_revision = r, das_access = access, das_config = view\<rparr>"
  by (auto simp: data_access_from_env_results_def auth_consistent_def client_key_view_def proxy_key_view_def
      unconfigured_view_def Let_def split: env_var.splits sum.splits if_splits)

lemma static_auth_consistent: "auth_consistent (auth_from_static_config E r c)"
proof -
  have m: "auth_consistent (misconfigured r msg)" for msg
    by (simp add: misconfigured_def auth_consistent_def)
  show ?thesis
    using m auth_state_consistent env_state_consistent
    by (auto simp: auth_from_static_config_def auth_from_config_def auth_from_env_def auth_state_of_def
        split: option.split sum.split)
qed

lemma admin_auth_consistent: "auth_from_admin_config E r c = Inr auth \<Longrightarrow> auth_consistent auth"
  using auth_state_consistent by (auto simp: auth_from_admin_config_def split: sum.splits)

lemma built_namespace:
  assumes "build_runtime_namespace_state W' revision c access = Inr ns" "w_urls W' = w_urls W" "upstreams c \<noteq> []"
  shows "validate_config (w_urls W) (ns_config ns) = Inr () \<and> ns_revision ns = revision \<and> namespace_consistent access ns"
  using assms built_namespace_consistent [OF assms(1)]
  by (auto simp: build_runtime_namespace_state_def split: sum.splits if_splits)

lemma runtime_consistent_insert:
  "runtime_consistent W access runtime \<Longrightarrow> validate_config (w_urls W) (ns_config ns) = Inr () \<Longrightarrow>
     namespace_consistent access ns \<Longrightarrow> runtime_consistent W access (omap_insert name ns runtime)"
  by (auto simp: runtime_consistent_def obj.look_upd)

lemma rebuilt_consistent:
  assumes "rebuild_namespaces W' access acc rest = Inr rebuilt" "w_urls W' = w_urls W"
    "runtime_consistent W access acc" "\<forall>(name, ns) \<in> set rest. validate_config (w_urls W) (ns_config ns) = Inr ()"
  shows "runtime_consistent W access rebuilt"
  using assms
proof (induction rest arbitrary: acc)
  case Nil
  then show ?case by simp
next
  case (Cons e rest)
  obtain name ns where e: "e = (name, ns)" by (cases e)
  with Cons.prems obtain ns' where ns': "build_runtime_namespace_state W' (ns_revision ns) (ns_config ns) access = Inr ns'"
      "rebuild_namespaces W' access (omap_insert name ns' acc) rest = Inr rebuilt"
    by (auto split: sum.splits)
  have "upstreams (ns_config ns) \<noteq> []"
    using Cons.prems(4) e by (auto simp: validate_config_Inr)
  from built_namespace [OF ns'(1) Cons.prems(2) this] have "runtime_consistent W access (omap_insert name ns' acc)"
    using runtime_consistent_insert [OF Cons.prems(3)] by blast
  with Cons ns'(2) e show ?case by simp
qed

text \<open>The namespaces are a \<open>BTreeMap\<close>: no name twice.\<close>

definition names_distinct :: "app_state \<times> pending_write option \<Rightarrow> bool" where
  "names_distinct s \<longleftrightarrow> (case s of (app, lock) \<Rightarrow>
     omap_ok (app_runtime app) \<and> (\<forall>r a b. lock = Some (PendingDataAuth r a b) \<longrightarrow> omap_ok b))"

lemma rebuilt_ok: "rebuild_namespaces W' access acc rest = Inr rebuilt \<Longrightarrow> omap_ok acc \<Longrightarrow> omap_ok rebuilt"
  by (induction rest arbitrary: acc) (auto simp: omap_ok_insert split: sum.splits)

lemma started_consistent:
  assumes "start_server (at W E P) auth_revision revision c = Inr app"
  shows "server_consistent W (app, None) \<and> names_distinct (app, None)"
proof -
  from assms have a: "app_data_auth app = auth_from_static_config E auth_revision (data_auth c)"
      and r: "build_runtime_state (at W E P) revision (c\<lparr>data_auth := None\<rparr>)
        (das_access (auth_from_static_config E auth_revision (data_auth c))) = Inr (app_runtime app)"
    by (auto simp: start_server_def Let_def split: sum.splits)
  have "runtime_consistent W (das_access (app_data_auth app)) (app_runtime app) \<and> omap_ok (app_runtime app)"
  proof (cases "upstreams c = []")
    case True
    with r show ?thesis by (auto simp: build_runtime_state_def runtime_consistent_def omap_ok_def)
  next
    case False
    with r obtain ns where ns: "build_runtime_namespace_state (at W E P) revision (c\<lparr>data_auth := None\<rparr>)
        (das_access (app_data_auth app)) = Inr ns" "app_runtime app = omap_insert default_namespace ns []"
      by (auto simp: build_runtime_state_def a split: sum.splits)
    have "runtime_consistent W (das_access (app_data_auth app)) []"
      by (simp add: runtime_consistent_def)
    with built_namespace [OF ns(1), of W] False ns(2) show ?thesis
      using runtime_consistent_insert [of W "das_access (app_data_auth app)" "[]" ns default_namespace]
      by (simp add: omap_ok_def)
  qed
  then show ?thesis
    by (simp add: server_consistent_def names_distinct_def a static_auth_consistent)
qed

lemma committed_consistent:
  assumes "server_consistent W (app, Some p)" "names_distinct (app, Some p)"
  shows "server_consistent W (fst (commit_write p app), None) \<and> names_distinct (fst (commit_write p app), None)"
  using assms
  by (cases p) (auto simp: server_consistent_def names_distinct_def commit_write_def omap_ok_insert
      runtime_consistent_insert)

lemma prepare_namespace_InrE:
  assumes "prepare_namespace_config W parse revision namespace payload app = Inr p"
  obtains request :: admin_config_request and c ns where "config_of_payload (w_urls W) (acr_config request) = Inr c"
    "validate_admin_cas_precondition (map_option ns_revision (map_of (app_runtime app) namespace))
       (acr_if_revision request) = Inr ()"
    "build_runtime_namespace_state W revision c (das_access (app_data_auth app)) = Inr ns"
    "p = PendingNamespace namespace (acr_if_revision request) revision ns"
  using assms unfolding prepare_namespace_config_def
  by (auto split: sum.splits intro: that)

lemma prepare_data_auth_InrE:
  assumes "prepare_data_auth_config W parse revision payload app = Inr p"
  obtains request :: admin_auth_request and auth rebuilt where "auth_from_admin_config (w_env W) revision (aar_config request) = Inr auth"
    "validate_admin_cas_precondition (Some (das_revision (app_data_auth app))) (aar_if_revision request) = Inr ()"
    "rebuild_namespaces W (das_access auth) [] (app_runtime app) = Inr rebuilt"
    "p = PendingDataAuth (aar_if_revision request) auth rebuilt"
  using assms unfolding prepare_data_auth_config_def
  by (auto split: sum.splits intro: that)

lemma prepared_namespace_consistent:
  assumes "server_consistent W (app, None)" "names_distinct (app, None)"
    "prepare_namespace_config (at W E P) parse revision namespace payload app = Inr p"
  shows "server_consistent W (app, Some p) \<and> names_distinct (app, Some p)"
proof -
  from assms(3) obtain request :: admin_config_request and c ns where
      c: "config_of_payload (w_urls W) (acr_config request) = Inr c"
      and pre: "validate_admin_cas_precondition (map_option ns_revision (map_of (app_runtime app) namespace))
             (acr_if_revision request) = Inr ()"
      and b: "build_runtime_namespace_state (at W E P) revision c (das_access (app_data_auth app)) = Inr ns"
      and p: "p = PendingNamespace namespace (acr_if_revision request) revision ns"
    by (rule prepare_namespace_InrE) simp
  have "validate_config (w_urls W) c = Inr ()"
    using c by (auto simp: config_of_payload_def Let_def split: sum.splits)
  then have "upstreams c \<noteq> []" by (simp add: validate_config_Inr)
  with built_namespace [OF b, of W] assms(1,2) pre p show ?thesis
    by (simp add: server_consistent_def names_distinct_def)
qed

lemma prepared_auth_consistent:
  assumes "server_consistent W (app, None)" "names_distinct (app, None)"
    "prepare_data_auth_config (at W E P) parse revision payload app = Inr p"
  shows "server_consistent W (app, Some p) \<and> names_distinct (app, Some p)"
proof -
  from assms(3) obtain request :: admin_auth_request and auth rebuilt where
      a: "auth_from_admin_config E revision (aar_config request) = Inr auth"
      and pre: "validate_admin_cas_precondition (Some (das_revision (app_data_auth app))) (aar_if_revision request) = Inr ()"
      and b: "rebuild_namespaces (at W E P) (das_access auth) [] (app_runtime app) = Inr rebuilt"
      and p: "p = PendingDataAuth (aar_if_revision request) auth rebuilt"
    by (rule prepare_data_auth_InrE) simp
  have "distinct (map fst (app_runtime app))"
    using assms(2) by (auto simp: names_distinct_def omap_ok_def strict_sorted_iff)
  then have "\<forall>(name, ns) \<in> set (app_runtime app). validate_config (w_urls W) (ns_config ns) = Inr ()"
    using assms(1) by (auto simp: server_consistent_def runtime_consistent_def)
  from rebuilt_consistent [OF b _ _ this] rebuilt_ok [OF b] admin_auth_consistent [OF a] assms(1,2) pre p
  show ?thesis
    by (auto simp: server_consistent_def names_distinct_def runtime_consistent_def omap_ok_def)
qed

lemma reachable_consistent:
  "server_reachable W s \<Longrightarrow> server_consistent W s \<and> names_distinct s"
proof (induction rule: server_reachable.induct)
  case (start E P auth_revision revision c app)
  then show ?case by (rule started_consistent)
next
  case (step s s')
  from step(2,3) show ?case
    by (cases rule: server_step.cases)
      (use prepared_namespace_consistent prepared_auth_consistent committed_consistent in blast)+
qed

section \<open>Writes\<close>

text \<open>
  C27. An accepted write is carried out: when it commits, the revision it was made against is still the
  current one, and it changes what it names and nothing else.
\<close>

theorem accepted_write_commits:
  assumes "server_reachable W (app, Some p)"
  shows "(case p of
      PendingNamespace namespace if_revision revision ns \<Rightarrow>
        map_option ns_revision (map_of (app_runtime app) namespace) = if_revision
        \<and> snd (commit_write p app) = ConfigApplied namespace revision
        \<and> map_of (app_runtime (fst (commit_write p app))) = (map_of (app_runtime app))(namespace \<mapsto> ns)
        \<and> ns_revision ns = revision \<and> app_data_auth (fst (commit_write p app)) = app_data_auth app
    | PendingDataAuth if_revision auth rebuilt \<Rightarrow>
        Some (das_revision (app_data_auth app)) = if_revision
        \<and> snd (commit_write p app) = DataAuthApplied (auth_admin_snapshot auth)
        \<and> app_data_auth (fst (commit_write p app)) = auth \<and> app_runtime (fst (commit_write p app)) = rebuilt)"
proof -
  have c: "validate_admin_cas_precondition a b = Inr () \<longleftrightarrow> a = b" for a b
    by (auto simp: validate_admin_cas_precondition_def split: option.splits)
  have same: "validate_admin_cas_precondition a a = Inr ()" for a
    by (simp add: c)
  from reachable_consistent [OF assms] have "pending_consistent W app p" "precondition p app = Inr ()"
    by (simp_all add: server_consistent_def)
  then show ?thesis
    by (cases p) (auto simp: commit_write_def c same)
qed

section \<open>Requests\<close>

definition is_auth_header :: "string \<times> string \<Rightarrow> bool" where
  "is_auth_header h = (fst h \<in> set credential_headers)"

lemma stripped_headers: "filter is_auth_header (strip_auth_headers hs) = []"
proof -
  have "\<forall>n \<in> set credential_headers. to_ascii_lowercase n \<in>
      {''authorization'', ''x-api-key'', ''x-goog-api-key'', ''api-key'', ''openai-api-key'', ''anthropic-api-key''}"
    by code_simp
  then show ?thesis by (auto simp: filter_empty_conv strip_auth_headers_def is_auth_header_def)
qed

lemma server_auth_header_kind: "is_auth_header (server_auth_header format key)"
  by (cases format) (simp_all add: is_auth_header_def server_auth_header_def credential_headers_def api_key_headers_def)

text \<open>
  C26. In every reachable state, while a write is under way or not, a request that is let through and whose model
  resolves has its upstream, and the headers made for it carry exactly one credential: the client's
  own in client key mode, the key of the upstream in proxy key mode.
\<close>

theorem request_has_upstream_and_key:
  assumes reach: "server_reachable W (app, lock)"
    and auth: "require_data_access T (app_runtime app) (app_data_auth app) headers = Inr (c, headers')"
    and ns: "map_of (app_runtime app) namespace = Some ns"
    and model: "resolve_model (ns_config ns) m = Inr r"
  shows "\<exists>u hs cred key. map_of (ns_upstreams ns) (rm_upstream_name r) = Some u
      \<and> up_name (us_config u) = rm_upstream_name r
      \<and> build_auth_headers E T headers' c u format = Inr (hs, cred)
      \<and> filter is_auth_header hs = [server_auth_header format key]
      \<and> (case us_provider_key u of
           Some k \<Rightarrow> key = k \<and> ec_source cred = ServerCredential
         | None \<Rightarrow> client_provider_key c = Some key \<and> ec_source cred = ClientCredential)"
proof -
  let ?a = "das_access (app_data_auth app)"
  from reachable_consistent [OF reach] have ac: "auth_consistent (app_data_auth app)"
      and v: "validate_config (w_urls W) (ns_config ns) = Inr ()" and nc: "namespace_consistent ?a ns"
    using ns by (auto simp: server_consistent_def runtime_consistent_def)
  from resolved_is_known [OF v model] nc obtain u where u: "map_of (ns_upstreams ns) (rm_upstream_name r) = Some u"
      "up_name (us_config u) = rm_upstream_name r" "keyed ?a u"
    unfolding namespace_consistent_def by blast
  from auth have c: "rac_access c = ?a" "rac_mode c = acv_mode (das_config (app_data_auth app))"
      "authorize_data_request T ?a headers = Inr (rac_authorization c)"
    by (auto simp: require_data_access_def request_auth_context_for_headers_def split: sum.splits)
  have one: "filter is_auth_header (strip_auth_headers hs @ [server_auth_header format key])
      = [server_auth_header format key]" for hs key
    by (simp add: stripped_headers server_auth_header_kind)
  show ?thesis
  proof (cases ?a)
    case Unconfigured
    with u(3) show ?thesis by simp
  next
    case (Misconfigured msg)
    with u(3) show ?thesis by simp
  next
    case ClientProviderKeyAccess
    with c(3) obtain k where k: "rac_authorization c = ClientProviderKeyAuth k"
      by (cases "rac_authorization c") (auto simp: authorize_data_request_def split: if_splits sum.splits option.splits)
    from ClientProviderKeyAccess ac c(2) have "rac_mode c = ClientProviderKeyMode"
      by (simp add: auth_consistent_def)
    with ClientProviderKeyAccess k c(1) u one show ?thesis
      by (auto simp: build_auth_headers_def Let_def client_provider_key_def)
  next
    case (ProxyKeyAccess pk)
    with c(3) have k: "rac_authorization c = ProxyKeyAuth"
      by (cases "rac_authorization c") (auto simp: authorize_data_request_def split: if_splits sum.splits option.splits)
    from ProxyKeyAccess ac c(2) have "rac_mode c = ProxyKeyMode"
      by (simp add: auth_consistent_def)
    with ProxyKeyAccess k c(1) u one show ?thesis
      by (auto simp: build_auth_headers_def Let_def)
  qed
qed

section \<open>A server\<close>

text \<open>A server that starts in proxy key mode, with an upstream of its own key, and a write to it.\<close>

definition sample_world :: "string world" where
  "sample_world = \<lparr>w_env = (\<lambda>_. NotPresent), w_http = \<lparr>proxy_all = (\<lambda>_. Inr ()), client_build = (\<lambda>_. Inr ())\<rparr>,
     w_urls = sample_urls, w_probe = (\<lambda>_ _ _ _ _. None)\<rparr>"

definition proxy_key_auth :: data_auth_config where
  "proxy_key_auth = \<lparr>da_mode = ProxyKeyMode, da_proxy_key = Some \<lparr>ss_inline = Some ''k1'', ss_env = None\<rparr>\<rparr>"

abbreviation sample_server :: "start_error + app_state" where
  "sample_server \<equiv> start_server (at sample_world (\<lambda>_. NotPresent) (\<lambda>_ _ _ _ _. None)) ''a1'' ''r1''
     (sample_config\<lparr>data_auth := Some proxy_key_auth\<rparr>)"

lemma sample_upstream_resolves: "\<exists>s. resolve_upstream (at sample_world (\<lambda>_. NotPresent) P) c (ProxyKeyAccess k) (sample_upstream n) = Inr s"
proof -
  have k: "resolve_provider_key (\<lambda>_. NotPresent) (sample_upstream n) = Inr ''k''"
    by code_simp
  show ?thesis
    by (simp add: resolve_upstream_def build_upstream_clients_def build_no_auto_decompression_client_def
        build_no_auto_decompression_streaming_client_def build_client_with_proxy_def Let_def at_def sample_world_def
        provider_key_for_upstream_def k split: proxy_target.split)
qed

lemma trim_k1: "trim ''k1'' = ''k1''"
  by code_simp

lemma sample_upstreams: "upstreams sample_config = [sample_upstream ''a'', sample_upstream ''b'']"
  by (simp add: sample_config_def)

lemma sample_keys_resolve: "resolve_provider_key (\<lambda>_. NotPresent) (sample_upstream n) = Inr ''k''"
  by code_simp

lemma sample_namespace_builds:
  "\<exists>ns. build_runtime_namespace_state (at sample_world (\<lambda>_. NotPresent) P) r sample_config (ProxyKeyAccess k) = Inr ns"
proof -
  obtain a b where "resolve_upstream (at sample_world (\<lambda>_. NotPresent) P) sample_config (ProxyKeyAccess k) (sample_upstream ''a'') = Inr a"
      "resolve_upstream (at sample_world (\<lambda>_. NotPresent) P) sample_config (ProxyKeyAccess k) (sample_upstream ''b'') = Inr b"
    using sample_upstream_resolves by metis
  moreover have "w_urls (at sample_world (\<lambda>_. NotPresent) P) = sample_urls"
    by (simp add: sample_world_def)
  ultimately show ?thesis
    using sample_is_valid by (simp add: build_runtime_namespace_state_def resolve_upstreams_def sample_upstreams)
qed

lemma sample_server_starts:
  "\<exists>app ns. sample_server = Inr app \<and> map_of (app_runtime app) default_namespace = Some ns
     \<and> ns_config ns = sample_config \<and> ns_revision ns = ''r1'' \<and> das_revision (app_data_auth app) = ''a1''
     \<and> das_access (app_data_auth app) = ProxyKeyAccess ''k1''"
proof -
  let ?W = "at sample_world (\<lambda>_. NotPresent) (\<lambda>_ _ _ _ _. None)"
  let ?c = "sample_config\<lparr>data_auth := Some proxy_key_auth\<rparr>"
  have none: "sample_config\<lparr>data_auth := None\<rparr> = sample_config"
    by (simp add: sample_config_def default_config_def)
  have d: "validate_data_auth proxy_key_auth owner = Inr ()" for owner
    by (simp add: validate_data_auth_def proxy_key_auth_def secret_source_def trim_k1)
  have auth: "auth_from_static_config (\<lambda>_. NotPresent) ''a1'' (Some proxy_key_auth) =
      \<lparr>das_revision = ''a1'', das_access = ProxyKeyAccess ''k1'', das_config = proxy_key_view inline_view\<rparr>"
  proof -
    have "secret_source \<lparr>ss_inline = Some ''k1'', ss_env = None\<rparr> owner = Inr (InlineSecret ''k1'')" for owner
      by (simp add: secret_source_def trim_k1)
    then show ?thesis
      using d by (simp add: auth_from_static_config_def auth_from_config_def auth_state_of_def data_access_from_config_def
          proxy_key_auth_def resolve_proxy_key_source_def)
  qed
  have v: "validate_config sample_urls ?c = Inr ()"
  proof -
    have "validate_alias (sample_config\<lparr>data_auth := x\<rparr>) = validate_alias sample_config" for x
      by (simp add: fun_eq_iff validate_alias_def find_upstream_def)
    with sample_is_valid d show ?thesis by (simp add: validate_config_Inr)
  qed
  have r: "validate_runtime_config (\<lambda>_. NotPresent) ?c (ProxyKeyAccess ''k1'') = Inr ()"
    using sample_keys_resolve by (simp add: validate_runtime_config_def sample_upstreams)
  obtain ns where ns: "build_runtime_namespace_state ?W ''r1'' sample_config (ProxyKeyAccess ''k1'') = Inr ns"
    using sample_namespace_builds by blast
  have u: "w_urls sample_world = sample_urls" by (simp add: sample_world_def)
  show ?thesis
    using d v r ns built_namespace_consistent [OF ns]
    by (simp add: start_server_def auth Let_def none sample_upstreams build_runtime_state_def u check_opt_def obj.look_upd)
qed

lemma sample_write_prepared:
  "\<exists>app ns. server_reachable sample_world
     (app, Some (PendingNamespace default_namespace (Some ''r1'') ''r2'' ns))"
proof -
  from sample_server_starts obtain app ns where s: "sample_server = Inr app"
      "map_of (app_runtime app) default_namespace = Some ns" "ns_revision ns = ''r1''"
      "das_access (app_data_auth app) = ProxyKeyAccess ''k1''"
    by blast
  let ?W = "at sample_world (\<lambda>_. NotPresent) (\<lambda>_ _ _ _ _. None)"
  let ?request = "\<lparr>acr_if_revision = Some ''r1'', acr_config = payload_of_config sample_config\<rparr>"
  have "whole_seconds sample_config"
    by (simp add: whole_seconds_def sample_config_def default_config_def default_hooks_def from_secs_def)
  from payload_round_trip [OF sample_is_valid this]
  have c: "config_of_payload (w_urls sample_world) (payload_of_config sample_config) = Inr sample_config"
    by (simp add: sample_world_def sample_config_def default_config_def)
  obtain new where n: "build_runtime_namespace_state ?W ''r2'' sample_config (ProxyKeyAccess ''k1'') = Inr new"
    using sample_namespace_builds by blast
  have r: "validate_runtime_config (\<lambda>_. NotPresent) sample_config (ProxyKeyAccess ''k1'') = Inr ()"
    using sample_keys_resolve by (simp add: validate_runtime_config_def sample_upstreams)
  have "prepare_namespace_config ?W (\<lambda>_. Inr ?request) ''r2'' default_namespace (JObj []) app
      = Inr (PendingNamespace default_namespace (Some ''r1'') ''r2'' new)"
    using s c n r by (simp add: prepare_namespace_config_def parse_admin_config_request_def validate_admin_cas_precondition_def)
  from server_step.prepare_namespace [OF this] server_reachable.step [OF server_reachable.start [OF s(1)]]
  show ?thesis by blast
qed

lemma accepted_write_commits_witness:
  "\<exists>app ns. snd (commit_write (PendingNamespace default_namespace (Some ''r1'') ''r2'' ns) app)
        = ConfigApplied default_namespace ''r2''
     \<and> map_option ns_revision (map_of (app_runtime app) default_namespace) = Some ''r1''"
proof -
  from sample_write_prepared obtain app ns where
    "server_reachable sample_world (app, Some (PendingNamespace default_namespace (Some ''r1'') ''r2'' ns))"
    by blast
  from accepted_write_commits [OF this] show ?thesis by auto
qed

lemma request_has_upstream_and_key_witness:
  "\<forall>E. \<exists>app c ns u hs cred key. sample_server = Inr app
     \<and> require_data_access Some (app_runtime app) (app_data_auth app) sample_headers
         = Inr (c, strip_client_credential_headers sample_headers)
     \<and> map_of (app_runtime app) default_namespace = Some ns \<and> map_of (ns_upstreams ns) ''b'' = Some u
     \<and> build_auth_headers E Some (strip_client_credential_headers sample_headers) c u Anthropic = Inr (hs, cred)
     \<and> filter is_auth_header hs = [server_auth_header Anthropic key]"
  (is "\<forall>E. ?found E")
proof (rule allI)
  fix E :: env
  from sample_server_starts obtain app ns where s: "sample_server = Inr app"
      "map_of (app_runtime app) default_namespace = Some ns" "ns_config ns = sample_config"
      "das_access (app_data_auth app) = ProxyKeyAccess ''k1''"
    by blast
  have "authorize_data_request Some (ProxyKeyAccess ''k1'') sample_headers = Inr ProxyKeyAuth"
    unfolding sample_headers_def by code_simp
  then obtain c where c: "require_data_access Some (app_runtime app) (app_data_auth app) sample_headers
      = Inr (c, strip_client_credential_headers sample_headers)"
    by (simp add: require_data_access_def request_auth_context_for_headers_def s(4))
  have "resolve_model (ns_config ns) ''m'' = Inr \<lparr>rm_upstream_name = ''b'', rm_upstream_model = ''m1''\<rparr>"
    by (simp add: s(3) resolve_model_def resolve_unaddressed_def sample_config_def sample_alias_def)
  from request_has_upstream_and_key [OF server_reachable.start [OF s(1)] c s(2) this, of E Anthropic] s c
  show "?found E" by auto
qed

end
