(* ===== verification/Conversation_Store.thy ===== *)
theory Conversation_Store
  imports Data_Auth
begin

text \<open>
  The store of Responses conversations that the proxy keeps for upstreams without conversation state
  (src/src/server/conversation_state_bridge.rs): entries with an owner, a time to live and a size, within a
  limit in bytes. Times are nanoseconds since some start; the HashMap is kept as an ordered map, since
  no iteration order shows. The time an entry expires at may be past the last \<open>Instant\<close>: then storing it
  panics, which is \<open>None\<close>. The sums of lengths, which are in memory, do not overflow.
\<close>

section \<open>Entries\<close>

definition local_response_id_prefix :: string where
  "local_response_id_prefix = ''resp_llmup_''"

definition local_replay_schema_version :: nat where
  "local_replay_schema_version = 1"

record route_fingerprint =
  rf_schema_version :: nat
  rf_namespace_revision :: string
  rf_resolved_model :: resolved_model
  rf_upstream_format :: upstream_format
  rf_translation_surface :: model_surface

definition new_route_fingerprint :: "string \<Rightarrow> resolved_model \<Rightarrow> upstream_format \<Rightarrow> model_surface \<Rightarrow> route_fingerprint" where
  "new_route_fingerprint revision model format surface =
     \<lparr>rf_schema_version = local_replay_schema_version, rf_namespace_revision = revision,
      rf_resolved_model = model, rf_upstream_format = format, rf_translation_surface = surface\<rparr>"

record stored_response =
  sb_namespace :: string
  sb_owner_hash :: string
  sb_client_model :: string
  sb_resolved_model :: resolved_model
  sb_fingerprint :: route_fingerprint
  sb_transcript :: "json list"
  sb_expires_at :: nat
  sb_size :: nat

definition new_stored_response ::
    "nat \<Rightarrow> string \<Rightarrow> string \<Rightarrow> string \<Rightarrow> resolved_model \<Rightarrow> route_fingerprint \<Rightarrow> json list \<Rightarrow> stored_response" where
  "new_stored_response now namespace owner client_model model fingerprint transcript =
     \<lparr>sb_namespace = namespace, sb_owner_hash = owner, sb_client_model = client_model, sb_resolved_model = model,
      sb_fingerprint = fingerprint, sb_transcript = transcript, sb_expires_at = now, sb_size = 0\<rparr>"

datatype bridge_lookup_error = UnknownResponse | ExpiredResponse | OwnerMismatch

definition lookup_error_message :: "bridge_lookup_error \<Rightarrow> string \<Rightarrow> string" where
  "lookup_error_message e response_id = (case e of
      OwnerMismatch \<Rightarrow> ''Responses `previous_response_id` `'' @ response_id
        @ ''` belongs to a different local conversation_state_bridge owner''
    | _ \<Rightarrow> ''Responses `previous_response_id` `'' @ response_id
        @ ''` is unknown or expired in the local conversation_state_bridge memory store'')"

section \<open>Owners and identifiers\<close>

definition mint_response_id :: "env \<Rightarrow> nat \<Rightarrow> string" where
  "mint_response_id E n = local_response_id_prefix @ filter (\<lambda>c. c \<noteq> CHR ''-'') (uuid_v4 E n)"

definition data_auth_mode_label :: "'r request_auth_context \<Rightarrow> string" where
  "data_auth_mode_label c = (case rac_mode c of
      ClientProviderKeyMode \<Rightarrow> ''client_provider_key'' | ProxyKeyMode \<Rightarrow> ''proxy_key'')"

text \<open>The bytes that are hashed; the parts are separated by zero bytes.\<close>

definition zero_byte :: char where
  "zero_byte = CHR 0x00"

definition owner_bytes :: "string \<Rightarrow> 'r request_auth_context \<Rightarrow> string" where
  "owner_bytes namespace c = namespace @ [zero_byte] @ data_auth_mode_label c @ [zero_byte] @ rac_generation c @ [zero_byte]
     @ (case rac_authorization c of
          ClientProviderKeyAuth key \<Rightarrow> ''client_provider_key'' @ [zero_byte] @ key
        | ProxyKeyAuth \<Rightarrow> ''proxy_key'')"

definition owner_hash :: "env \<Rightarrow> string \<Rightarrow> 'r request_auth_context \<Rightarrow> string" where
  "owner_hash E namespace c = sha256_hex E (owner_bytes namespace c)"

section \<open>The store\<close>

record bridge_store =
  bs_responses :: "(string \<times> stored_response) list"
  bs_current_bytes :: nat

definition empty_store :: bridge_store where
  "empty_store = \<lparr>bs_responses = [], bs_current_bytes = 0\<rparr>"

text \<open>
  The size of an entry: the lengths of its texts, of its transcript as JSON and of its surface as JSON
  (serde's, a parameter), and the eight bytes of the schema version.
\<close>

definition estimate_entry_size :: "env \<Rightarrow> (model_surface \<Rightarrow> string) \<Rightarrow> stored_response \<Rightarrow> nat" where
  "estimate_entry_size E surface_text e =
     (let f = sb_fingerprint e in
      length (json_text E (JArr (sb_transcript e)))
      + length (surface_text (rf_translation_surface f))
      + 8
      + length (sb_namespace e) + length (sb_owner_hash e) + length (sb_client_model e)
      + length (rm_upstream_name (sb_resolved_model e)) + length (rm_upstream_model (sb_resolved_model e))
      + length (rf_namespace_revision f)
      + length (rm_upstream_name (rf_resolved_model f)) + length (rm_upstream_model (rf_resolved_model f))
      + length (format_display (rf_upstream_format f)))"

text \<open>\<open>responses.remove\<close> and the saturating subtraction of the size.\<close>

definition remove_response :: "string \<Rightarrow> bridge_store \<Rightarrow> bridge_store" where
  "remove_response k s = (case map_of (bs_responses s) k of
      None \<Rightarrow> s
    | Some removed \<Rightarrow> \<lparr>bs_responses = omap_remove k (bs_responses s),
                        bs_current_bytes = bs_current_bytes s - sb_size removed\<rparr>)"

definition expired_ids :: "nat \<Rightarrow> bridge_store \<Rightarrow> string list" where
  "expired_ids now s = List.map_filter (\<lambda>(k, e). if sb_expires_at e \<le> now then Some k else None) (bs_responses s)"

definition prune_expired :: "nat \<Rightarrow> bridge_store \<Rightarrow> bridge_store" where
  "prune_expired now s = foldl (\<lambda>s k. remove_response k s) s (expired_ids now s)"

definition get_response ::
    "nat \<Rightarrow> string \<Rightarrow> string \<Rightarrow> string \<Rightarrow> bridge_store \<Rightarrow> bridge_store \<times> (bridge_lookup_error + stored_response)" where
  "get_response now response_id namespace owner s = (case map_of (bs_responses s) response_id of
      None \<Rightarrow> (s, Inl UnknownResponse)
    | Some e \<Rightarrow>
        if sb_expires_at e \<le> now then (remove_response response_id s, Inl ExpiredResponse)
        else if sb_namespace e \<noteq> namespace \<or> sb_owner_hash e \<noteq> owner then (s, Inl OwnerMismatch)
        else (s, Inr e))"

text \<open>The entry as it is stored, when there is such an \<open>Instant\<close>.\<close>

definition stamped :: "env \<Rightarrow> (model_surface \<Rightarrow> string) \<Rightarrow> nat \<Rightarrow> nat \<Rightarrow> stored_response \<Rightarrow> stored_response" where
  "stamped E surface_text now ttl e =
     (let e = e\<lparr>sb_expires_at := now + ttl\<rparr> in e\<lparr>sb_size := estimate_entry_size E surface_text e\<rparr>)"

definition put_with_id ::
    "env \<Rightarrow> (model_surface \<Rightarrow> string) \<Rightarrow> nat \<Rightarrow> string \<Rightarrow> stored_response \<Rightarrow> nat \<Rightarrow> nat \<Rightarrow> bridge_store \<Rightarrow>
       (bridge_store \<times> (string + string)) option" where
  "put_with_id E surface_text now response_id entry ttl bound s =
     (if instant_add now ttl = None then None
      else Some (let e = stamped E surface_text now ttl entry
      in if bound < sb_size e
         then (s, Inl (''conversation_state_bridge entry requires '' @ nat_str (sb_size e)
                 @ '' bytes, exceeding max_bytes '' @ nat_str bound))
         else (let s = prune_expired now s
           in if map_of (bs_responses s) response_id \<noteq> None
              then (s, Inl (''conversation_state_bridge response id `'' @ response_id @ ''` already exists''))
              else if bound < sat_add (bs_current_bytes s) (sb_size e)
              then (s, Inl (''conversation_state_bridge memory limit would exceed max_bytes '' @ nat_str bound))
              else (\<lparr>bs_responses = omap_insert response_id e (bs_responses s),
                     bs_current_bytes = bs_current_bytes s + sb_size e\<rparr>, Inr response_id))))"

definition put_response ::
    "env \<Rightarrow> (model_surface \<Rightarrow> string) \<Rightarrow> nat \<Rightarrow> nat \<Rightarrow> stored_response \<Rightarrow> nat \<Rightarrow> nat \<Rightarrow> bridge_store \<Rightarrow>
       (bridge_store \<times> (string + string)) option" where
  "put_response E surface_text now n entry ttl bound s =
     put_with_id E surface_text now (mint_response_id E n) entry ttl bound s"

text \<open>The configuration accepts a time to live with which every attempt to keep a conversation panics.\<close>

lemma huge_ttl_panics:
  "\<exists>c. validate_bridge_config c = Inr () \<and> ttl_seconds c \<le> u64_max
     \<and> put_with_id E T now k entry (from_secs (ttl_seconds c)) (max_bytes c) s = None"
  by (rule exI [of _ "default_bridge_config\<lparr>ttl_seconds := u64_max\<rparr>"])
    (simp add: validate_bridge_config_def default_bridge_config_def put_with_id_def instant_add_def instant_limit_def
      from_secs_def u64_max_def)

section \<open>The bytes are accounted for\<close>

definition store_bytes :: "(string \<times> stored_response) list \<Rightarrow> nat" where
  "store_bytes m = sum_list (map (\<lambda>(_, e). sb_size e) m)"

text \<open>The counter is the sum of the sizes, and every size is that of the entry.\<close>

definition store_ok :: "env \<Rightarrow> (model_surface \<Rightarrow> string) \<Rightarrow> bridge_store \<Rightarrow> bool" where
  "store_ok E surface_text s \<longleftrightarrow> omap_ok (bs_responses s) \<and> bs_current_bytes s = store_bytes (bs_responses s)
     \<and> (\<forall>k e. map_of (bs_responses s) k = Some e \<longrightarrow> sb_size e = estimate_entry_size E surface_text e)"

lemma store_bytes_insert:
  "map_of m k = None \<Longrightarrow> store_bytes (omap_insert k e m) = store_bytes m + sb_size e"
  by (induction k e m rule: omap_insert.induct) (auto simp: store_bytes_def split: if_splits)

lemma store_bytes_remove:
  "map_of m k = Some e \<Longrightarrow> store_bytes m = store_bytes (omap_remove k m) + sb_size e"
  by (induction k m rule: omap_remove.induct) (auto simp: store_bytes_def split: if_splits)

lemma empty_store_ok: "store_ok E T empty_store"
  by (simp add: store_ok_def empty_store_def omap_ok_def store_bytes_def)

lemma remove_response_ok:
  assumes ok: "store_ok E T s"
  shows "store_ok E T (remove_response k s)"
proof (cases "map_of (bs_responses s) k")
  case None
  with ok show ?thesis by (simp add: remove_response_def)
next
  case (Some e)
  with ok store_bytes_remove [OF Some] show ?thesis
    by (simp add: store_ok_def remove_response_def obj.look_del omap_ok_remove)
qed

lemma remove_response_lookup:
  "omap_ok (bs_responses s) \<Longrightarrow> map_of (bs_responses (remove_response k s)) = (map_of (bs_responses s))(k := None)"
  by (auto simp: remove_response_def obj.look_del fun_eq_iff split: option.split)

lemma remove_response_bytes: "bs_current_bytes (remove_response k s) \<le> bs_current_bytes s"
  by (simp add: remove_response_def split: option.split)

lemma remove_response_sorted: "omap_ok (bs_responses s) \<Longrightarrow> omap_ok (bs_responses (remove_response k s))"
  by (simp add: remove_response_def omap_ok_remove split: option.split)

lemma remove_all_ok: "store_ok E T s \<Longrightarrow> store_ok E T (foldl (\<lambda>s k. remove_response k s) s ids)"
  by (induction ids arbitrary: s) (simp_all add: remove_response_ok)

lemma remove_all_bytes: "bs_current_bytes (foldl (\<lambda>s k. remove_response k s) s ids) \<le> bs_current_bytes s"
  by (induction ids arbitrary: s) (auto intro: order_trans remove_response_bytes)

lemma remove_all_lookup:
  "omap_ok (bs_responses s) \<Longrightarrow> map_of (bs_responses (foldl (\<lambda>s k. remove_response k s) s ids)) =
     (\<lambda>k. if k \<in> set ids then None else map_of (bs_responses s) k)"
  by (induction ids arbitrary: s) (auto simp: remove_response_lookup remove_response_sorted)

lemma expired_ids_lookup:
  assumes "omap_ok (bs_responses s)"
  shows "k \<in> set (expired_ids now s) \<longleftrightarrow> (\<exists>e. map_of (bs_responses s) k = Some e \<and> sb_expires_at e \<le> now)"
proof -
  have "distinct (map fst (bs_responses s))"
    using assms by (auto simp: omap_ok_def strict_sorted_iff)
  then have m: "(k, e) \<in> set (bs_responses s) \<longleftrightarrow> map_of (bs_responses s) k = Some e" for e
    by (simp add: map_of_eq_Some_iff)
  have "k \<in> set (expired_ids now s) \<longleftrightarrow> (\<exists>e. (k, e) \<in> set (bs_responses s) \<and> sb_expires_at e \<le> now)"
    by (force simp: expired_ids_def List.map_filter_def split: if_splits)
  with m show ?thesis by simp
qed

lemma prune_expired_lookup:
  "omap_ok (bs_responses s) \<Longrightarrow> map_of (bs_responses (prune_expired now s)) k =
     (case map_of (bs_responses s) k of Some e \<Rightarrow> if sb_expires_at e \<le> now then None else Some e | None \<Rightarrow> None)"
  by (auto simp: prune_expired_def remove_all_lookup expired_ids_lookup split: option.split)

lemma prune_expired_ok: "store_ok E T s \<Longrightarrow> store_ok E T (prune_expired now s)"
  by (simp add: prune_expired_def remove_all_ok)

lemma put_with_id_ok: "store_ok E T s \<Longrightarrow> put_with_id E T now k e ttl bound s = Some r \<Longrightarrow> store_ok E T (fst r)"
  using prune_expired_ok [of E T s now]
  by (auto simp: put_with_id_def Let_def store_ok_def omap_ok_insert store_bytes_insert stamped_def
      estimate_entry_size_def split: if_splits)

lemma get_response_ok: "store_ok E T s \<Longrightarrow> store_ok E T (fst (get_response now k namespace owner s))"
  by (simp add: get_response_def remove_response_ok split: option.split)

section \<open>Operations\<close>

text \<open>A \<open>Put\<close> that panics does so before the store is locked, and leaves it as it is.\<close>

datatype bridge_op =
    Put nat string stored_response nat nat
  | Get nat string string string

datatype bridge_answer = PutAnswer "string + string" | PutPanicked | GetAnswer "bridge_lookup_error + stored_response"

fun bridge_step :: "env \<Rightarrow> (model_surface \<Rightarrow> string) \<Rightarrow> bridge_op \<Rightarrow> bridge_store \<Rightarrow> bridge_store \<times> bridge_answer" where
  "bridge_step E T (Put now k e ttl bound) s = (case put_with_id E T now k e ttl bound s of
     None \<Rightarrow> (s, PutPanicked) | Some (s', r) \<Rightarrow> (s', PutAnswer r))"
| "bridge_step E T (Get now k namespace owner) s = map_prod id GetAnswer (get_response now k namespace owner s)"

definition bridge_run :: "env \<Rightarrow> (model_surface \<Rightarrow> string) \<Rightarrow> bridge_op list \<Rightarrow> bridge_store \<Rightarrow> bridge_store" where
  "bridge_run E T ops s = foldl (\<lambda>s op. fst (bridge_step E T op s)) s ops"

lemma bridge_step_ok: "store_ok E T s \<Longrightarrow> store_ok E T (fst (bridge_step E T op s))"
  using put_with_id_ok [of E T s] get_response_ok [of E T s]
  by (cases op) (fastforce split: option.split)+

lemma bridge_run_ok: "store_ok E T s \<Longrightarrow> store_ok E T (bridge_run E T ops s)"
  unfolding bridge_run_def by (induction ops arbitrary: s) (simp_all add: bridge_step_ok)

fun bound_of :: "bridge_op \<Rightarrow> nat" where
  "bound_of (Put _ _ _ _ bound) = bound"
| "bound_of (Get _ _ _ _) = 0"

lemma bridge_step_bytes:
  assumes "bound_of op \<le> M" "M < u64_max" "bs_current_bytes s \<le> M"
  shows "bs_current_bytes (fst (bridge_step E T op s)) \<le> M"
proof (cases op)
  case (Put now k e ttl bound)
  have p: "bs_current_bytes (prune_expired now s) \<le> M"
    using assms(3) remove_all_bytes [of s "expired_ids now s"] by (simp add: prune_expired_def)
  have "n + m \<le> M" if "\<not> bound < sat_add n m" for n m
    using that assms(1,2) Put by (auto simp: sat_add_def split: if_splits)
  with Put assms p show ?thesis by (auto simp: put_with_id_def Let_def split: option.split if_splits)
next
  case (Get now k namespace owner)
  with assms remove_response_bytes [of k s] show ?thesis
    by (auto simp: get_response_def split: option.split)
qed

text \<open>
  C31. Whatever is stored and looked up, in whatever order and with whatever clock readings, the store
  never holds more than the largest limit it was used with, and its counter is the sum of the sizes
  of its entries.
\<close>

theorem store_stays_within_limit:
  assumes "\<forall>op \<in> set ops. bound_of op \<le> M" "M < u64_max"
  shows "bs_current_bytes (bridge_run E T ops empty_store) \<le> M
    \<and> bs_current_bytes (bridge_run E T ops empty_store)
        = sum_list (map (\<lambda>(_, e). estimate_entry_size E T e) (bs_responses (bridge_run E T ops empty_store)))"
proof -
  have "bs_current_bytes s \<le> M \<Longrightarrow> bs_current_bytes (bridge_run E T ops s) \<le> M" for s
    using assms(1) unfolding bridge_run_def
    by (induction ops arbitrary: s) (simp_all add: bridge_step_bytes [OF _ assms(2)])
  from this [of empty_store] have le: "bs_current_bytes (bridge_run E T ops empty_store) \<le> M"
    by (simp add: empty_store_def)
  let ?s = "bridge_run E T ops empty_store"
  from bridge_run_ok [OF empty_store_ok] have ok: "store_ok E T ?s" .
  then have "distinct (map fst (bs_responses ?s))"
    by (auto simp: store_ok_def omap_ok_def strict_sorted_iff)
  with ok have "map (\<lambda>(_, e). sb_size e) (bs_responses ?s) = map (\<lambda>(_, e). estimate_entry_size E T e) (bs_responses ?s)"
    by (auto simp: store_ok_def)
  with ok le show ?thesis by (simp add: store_ok_def store_bytes_def)
qed

end
