(* ===== verification/Conversation_Contract.thy ===== *)
theory Conversation_Contract
  imports Conversation_Store
begin

text \<open>
  What the store of conversations promises: a conversation is given only to the one who stored it and only
  in its time, and until then it is not lost.
\<close>

section \<open>A store with operations\<close>

text \<open>
  What is needed of a store: an operation brings in only what it makes, and an entry stays while the
  operations keep it.
\<close>

locale kept_store =
  fixes look :: "'s \<Rightarrow> 'k \<Rightarrow> 'e option"
    and step :: "'op \<Rightarrow> 's \<Rightarrow> 's"
    and good :: "'s \<Rightarrow> bool"
    and makes :: "'op \<Rightarrow> 'k \<Rightarrow> 'e \<Rightarrow> bool"
    and keeps :: "'op \<Rightarrow> 'e \<Rightarrow> bool"
  assumes good_step: "good s \<Longrightarrow> good (step op s)"
    and origin: "good s \<Longrightarrow> look (step op s) k = Some e \<Longrightarrow> look s k = Some e \<or> makes op k e"
    and kept: "good s \<Longrightarrow> look s k = Some e \<Longrightarrow> keeps op e \<Longrightarrow> look (step op s) k = Some e"
begin

definition run :: "'op list \<Rightarrow> 's \<Rightarrow> 's" where
  "run ops s = foldl (\<lambda>s op. step op s) s ops"

lemma run_good: "good s \<Longrightarrow> good (run ops s)"
  unfolding run_def by (induction ops arbitrary: s) (simp_all add: good_step)

lemma run_origin:
  "good s \<Longrightarrow> look (run ops s) k = Some e \<Longrightarrow> look s k = Some e \<or> (\<exists>op \<in> set ops. makes op k e)"
  unfolding run_def
proof (induction ops arbitrary: s)
  case Nil
  then show ?case by simp
next
  case (Cons op ops)
  with origin [of s op k e] good_step [of s op] show ?case by fastforce
qed

lemma run_kept:
  "good s \<Longrightarrow> look s k = Some e \<Longrightarrow> \<forall>op \<in> set ops. keeps op e \<Longrightarrow> look (run ops s) k = Some e"
  unfolding run_def by (induction ops arbitrary: s) (simp_all add: good_step kept)

end

section \<open>The store of conversations\<close>

fun op_time :: "bridge_op \<Rightarrow> nat" where
  "op_time (Put now _ _ _ _) = now"
| "op_time (Get now _ _ _) = now"

fun op_makes :: "env \<Rightarrow> (model_surface \<Rightarrow> string) \<Rightarrow> bridge_op \<Rightarrow> string \<Rightarrow> stored_response \<Rightarrow> bool" where
  "op_makes E T (Put now k e0 ttl bound) k' e = (k' = k \<and> e = stamped E T now ttl e0)"
| "op_makes E T (Get _ _ _ _) k e = False"

lemma put_lookup:
  assumes "omap_ok (bs_responses s)"
  shows "map_of (bs_responses (fst (bridge_step E T (Put now k e0 ttl bound) s))) k' = Some e \<Longrightarrow>
      map_of (bs_responses s) k' = Some e \<or> k' = k \<and> e = stamped E T now ttl e0"
    and "map_of (bs_responses s) k' = Some e \<Longrightarrow> now < sb_expires_at e \<Longrightarrow>
      map_of (bs_responses (fst (bridge_step E T (Put now k e0 ttl bound) s))) k' = Some e"
  using prune_expired_lookup [OF assms, of now]
  by (auto simp: put_with_id_def Let_def split: if_splits option.splits)

lemma get_lookup:
  assumes "omap_ok (bs_responses s)"
  shows "map_of (bs_responses (fst (get_response now k namespace owner s))) k' = Some e \<Longrightarrow>
      map_of (bs_responses s) k' = Some e"
    and "map_of (bs_responses s) k' = Some e \<Longrightarrow> now < sb_expires_at e \<Longrightarrow>
      map_of (bs_responses (fst (get_response now k namespace owner s))) k' = Some e"
  by (auto simp: get_response_def remove_response_lookup [OF assms] split: option.splits if_splits)

interpretation conversations: kept_store "\<lambda>s. map_of (bs_responses s)" "\<lambda>op s. fst (bridge_step E T op s)" "store_ok E T"
    "op_makes E T" "\<lambda>op e. op_time op < sb_expires_at e" for E T
proof
  fix s op k e
  assume ok: "store_ok E T s"
  then have sorted: "omap_ok (bs_responses s)" by (simp add: store_ok_def)
  show "store_ok E T (fst (bridge_step E T op s))"
    using ok by (rule bridge_step_ok)
  show "map_of (bs_responses s) k = Some e \<or> op_makes E T op k e"
    if "map_of (bs_responses (fst (bridge_step E T op s))) k = Some e"
    using that put_lookup(1) [OF sorted] get_lookup(1) [OF sorted] by (cases op) (auto simp del: bridge_step.simps(1))
  show "map_of (bs_responses (fst (bridge_step E T op s))) k = Some e"
    if "map_of (bs_responses s) k = Some e" "op_time op < sb_expires_at e"
    using that put_lookup(2) [OF sorted] get_lookup(2) [OF sorted] by (cases op) (auto simp del: bridge_step.simps(1))
qed

lemma run_is_bridge_run: "conversations.run E T ops s = bridge_run E T ops s"
  by (simp add: conversations.run_def bridge_run_def)

section \<open>Owners\<close>

definition no_zero :: "string \<Rightarrow> bool" where
  "no_zero s = (zero_byte \<notin> set s)"

lemma cut_at_zero:
  "no_zero a \<Longrightarrow> no_zero b \<Longrightarrow> a @ zero_byte # x = b @ zero_byte # y \<longleftrightarrow> a = b \<and> x = y"
proof (induction a arbitrary: b)
  case Nil
  then show ?case by (cases b) (auto simp: no_zero_def)
next
  case (Cons z a)
  then show ?case by (cases b) (auto simp: no_zero_def)
qed

lemma label_no_zero: "no_zero (data_auth_mode_label c)"
  by (cases "rac_mode c") (simp_all add: data_auth_mode_label_def no_zero_def zero_byte_def)

text \<open>The hashed bytes name the namespace, the mode, the generation and the credential.\<close>

lemma owner_bytes_inject:
  assumes "no_zero namespace" "no_zero namespace'" "no_zero (rac_generation c)" "no_zero (rac_generation c')"
    and eq: "owner_bytes namespace c = owner_bytes namespace' c'"
  shows "namespace = namespace' \<and> rac_generation c = rac_generation c' \<and> rac_authorization c = rac_authorization c'"
proof -
  have kinds: "no_zero ''client_provider_key''" "no_zero ''proxy_key''"
    by (simp_all add: no_zero_def zero_byte_def)
  from eq have "namespace = namespace'" "rac_generation c = rac_generation c'"
      and auth: "(case rac_authorization c of ClientProviderKeyAuth key \<Rightarrow> ''client_provider_key'' @ [zero_byte] @ key | ProxyKeyAuth \<Rightarrow> ''proxy_key'')
        = (case rac_authorization c' of ClientProviderKeyAuth key \<Rightarrow> ''client_provider_key'' @ [zero_byte] @ key | ProxyKeyAuth \<Rightarrow> ''proxy_key'')"
    using assms(1-4) label_no_zero [of c] label_no_zero [of c']
    by (simp_all add: owner_bytes_def cut_at_zero)
  with kinds show ?thesis
    by (simp split: request_authorization.splits)
qed

section \<open>Conversations\<close>

text \<open>
  An entry carries the hash of the one it is stored for (\<open>prepare_conversation_state_bridge\<close> sees to it), which
  does not collide with the hash of another one who asks.
\<close>

fun stored_by_owner :: "env \<Rightarrow> string \<Rightarrow> 'r request_auth_context \<Rightarrow> bridge_op \<Rightarrow> bool" where
  "stored_by_owner E namespace c (Put _ _ e _ _) = (\<exists>c' :: 'r request_auth_context.
     sb_owner_hash e = owner_hash E (sb_namespace e) c' \<and> no_zero (sb_namespace e) \<and> no_zero (rac_generation c')
     \<and> (sha256_hex E (owner_bytes namespace c) = sha256_hex E (owner_bytes (sb_namespace e) c')
          \<longrightarrow> owner_bytes namespace c = owner_bytes (sb_namespace e) c'))"
| "stored_by_owner E namespace c (Get _ _ _ _) = True"

text \<open>
  C30. A conversation comes out of the store only to the namespace and the credential it was put in with, under
  the same data access, before its time is over, and as it was put in. The two hashes are assumed not to
  collide, and the names to be free of zero bytes.
\<close>

theorem conversation_only_to_its_owner:
  fixes c :: "'r request_auth_context"
  assumes got: "snd (bridge_step E T (Get now k namespace (owner_hash E namespace c)) (bridge_run E T ops empty_store))
        = GetAnswer (Inr e)"
    and owners: "\<forall>op \<in> set ops. stored_by_owner E namespace c op"
    and zero: "no_zero namespace" "no_zero (rac_generation c)"
  shows "\<exists>t e0 ttl bound. \<exists>c' :: 'r request_auth_context. Put t k e0 ttl bound \<in> set ops \<and> e = stamped E T t ttl e0 \<and> now < t + ttl
      \<and> sb_namespace e0 = namespace \<and> sb_owner_hash e0 = owner_hash E namespace c'
      \<and> rac_generation c' = rac_generation c \<and> rac_authorization c' = rac_authorization c"
proof -
  let ?s = "bridge_run E T ops empty_store"
  from got have g: "map_of (bs_responses ?s) k = Some e" "now < sb_expires_at e"
      "sb_namespace e = namespace" "sb_owner_hash e = owner_hash E namespace c"
    by (auto simp: get_response_def split: option.splits if_splits)
  from conversations.run_origin [OF empty_store_ok, where ops = ops and k = k and e = e] g(1)
  obtain op where op: "op \<in> set ops" "op_makes E T op k e"
    unfolding run_is_bridge_run by (auto simp: empty_store_def)
  from op(2) obtain t e0 ttl bound where "op = Put t k e0 ttl bound" "e = stamped E T t ttl e0"
    by (cases op rule: bridge_op.exhaust) auto
  with op(1) have p: "Put t k e0 ttl bound \<in> set ops" "e = stamped E T t ttl e0" by simp_all
  then have e: "sb_expires_at e = t + ttl" "sb_namespace e = sb_namespace e0" "sb_owner_hash e = sb_owner_hash e0"
    by (simp_all add: stamped_def Let_def)
  from owners p(1) have "stored_by_owner E namespace c (Put t k e0 ttl bound)" by blast
  then obtain c' :: "'r request_auth_context" where c': "sb_owner_hash e0 = owner_hash E (sb_namespace e0) c'"
      "no_zero (sb_namespace e0)" "no_zero (rac_generation c')"
      "sha256_hex E (owner_bytes namespace c) = sha256_hex E (owner_bytes (sb_namespace e0) c')
         \<longrightarrow> owner_bytes namespace c = owner_bytes (sb_namespace e0) c'"
    unfolding stored_by_owner.simps by blast
  with e g have "owner_bytes namespace c = owner_bytes (sb_namespace e0) c'"
    by (simp add: owner_hash_def)
  from owner_bytes_inject [OF zero(1) c'(2) zero(2) c'(3) this] c'(1) p g e show ?thesis by metis
qed

text \<open>
  A conversation that was stored comes back, whatever else is stored and looked up until then, as long as no
  clock reading has reached its end.
\<close>

theorem stored_conversation_comes_back:
  assumes "snd (bridge_step E T (Put t k e ttl bound) (bridge_run E T before empty_store)) = PutAnswer (Inr k)"
    and "\<forall>op \<in> set after. op_time op < t + ttl" and "now < t + ttl"
  shows "snd (bridge_step E T (Get now k (sb_namespace e) (sb_owner_hash e))
      (bridge_run E T (before @ Put t k e ttl bound # after) empty_store)) = GetAnswer (Inr (stamped E T t ttl e))"
proof -
  let ?s = "bridge_run E T before empty_store"
  let ?put = "Put t k e ttl bound"
  have ok: "store_ok E T ?s" by (rule bridge_run_ok [OF empty_store_ok])
  have "map_of (bs_responses (fst (bridge_step E T ?put ?s))) k = Some (stamped E T t ttl e)"
    using assms(1) by (auto simp: put_with_id_def Let_def split: if_splits option.splits)
  from conversations.run_kept [OF bridge_step_ok [OF ok] this, of after] assms(2)
  have "map_of (bs_responses (bridge_run E T (before @ ?put # after) empty_store)) k = Some (stamped E T t ttl e)"
    unfolding run_is_bridge_run by (simp add: bridge_run_def stamped_def Let_def)
  with assms(3) show ?thesis
    by (simp add: get_response_def stamped_def Let_def)
qed

section \<open>A conversation\<close>

definition sample_context :: "unit request_auth_context" where
  "sample_context = \<lparr>rac_generation = ''g'', rac_mode = ProxyKeyMode, rac_access = ProxyKeyAccess ''k1'',
     rac_authorization = ProxyKeyAuth, rac_runtime = ()\<rparr>"

text \<open>An environment whose hash is the identity and whose every text is an empty object.\<close>

definition plain_env :: env where
  "plain_env = \<lparr>json_parse = (\<lambda>_. Some (JObj [])), json_text = (\<lambda>_. ''x''), sha256_hex = id, hex_encode = id,
     hex_decode = Some, url_parse = (\<lambda>_. None), replay_key = [], unix_secs = 0, uuid_v4 = (\<lambda>_. ''u''), hash_order = id\<rparr>"

definition sample_entry :: stored_response where
  "sample_entry = (let model = \<lparr>rm_upstream_name = ''u'', rm_upstream_model = ''m''\<rparr> in
     new_stored_response 0 ''n'' (owner_hash plain_env ''n'' sample_context) ''m'' model
       (new_route_fingerprint ''r'' model Anthropic
          \<lparr>surface_limits = None, surface_modalities = None, surface_tools = None\<rparr>) [])"

lemma sample_put: "snd (bridge_step plain_env (\<lambda>_. ''{}'') (Put 5 ''resp_llmup_1'' sample_entry 10 1000) empty_store)
    = PutAnswer (Inr ''resp_llmup_1'')"
proof -
  have "estimate_entry_size plain_env (\<lambda>_. ''{}'') sample_entry \<le> 100"
    by code_simp
  moreover have "estimate_entry_size E T (e\<lparr>sb_expires_at := n\<rparr>) = estimate_entry_size E T e" for E T e n
    by (simp add: estimate_entry_size_def)
  ultimately show ?thesis
    by (simp add: put_with_id_def Let_def stamped_def empty_store_def prune_expired_def expired_ids_def
        List.map_filter_def sat_add_def u64_max_def instant_add_def instant_limit_def)
qed

lemma stored_conversation_comes_back_witness:
  "snd (bridge_step plain_env (\<lambda>_. ''{}'') (Get 14 ''resp_llmup_1'' ''n'' (owner_hash plain_env ''n'' sample_context))
      (bridge_run plain_env (\<lambda>_. ''{}'') [Put 5 ''resp_llmup_1'' sample_entry 10 1000, Get 9 ''x'' ''n'' ''o''] empty_store))
    = GetAnswer (Inr (stamped plain_env (\<lambda>_. ''{}'') 5 10 sample_entry))"
proof -
  have "snd (bridge_step plain_env (\<lambda>_. ''{}'') (Put 5 ''resp_llmup_1'' sample_entry 10 1000)
      (bridge_run plain_env (\<lambda>_. ''{}'') [] empty_store)) = PutAnswer (Inr ''resp_llmup_1'')"
    using sample_put by (simp add: bridge_run_def)
  from stored_conversation_comes_back [OF this, of "[Get 9 ''x'' ''n'' ''o'']" 14] show ?thesis
    by (simp add: sample_entry_def new_stored_response_def Let_def)
qed

lemma conversation_only_to_its_owner_witness:
  "\<exists>e0. sb_namespace e0 = ''n'' \<and> (\<exists>t ttl bound. Put t ''resp_llmup_1'' e0 ttl bound \<in> {Put 5 ''resp_llmup_1'' sample_entry 10 1000})"
proof -
  let ?ops = "[Put 5 ''resp_llmup_1'' sample_entry 10 1000]"
  have n: "sb_namespace sample_entry = ''n''" "sb_owner_hash sample_entry = owner_hash plain_env ''n'' sample_context"
    by (simp_all add: sample_entry_def new_stored_response_def Let_def)
  have z: "no_zero ''n''" "no_zero (rac_generation sample_context)"
    by (simp_all add: no_zero_def zero_byte_def sample_context_def)
  have "snd (bridge_step plain_env (\<lambda>_. ''{}'') (Put 5 ''resp_llmup_1'' sample_entry 10 1000)
      (bridge_run plain_env (\<lambda>_. ''{}'') [] empty_store)) = PutAnswer (Inr ''resp_llmup_1'')"
    using sample_put by (simp add: bridge_run_def)
  then have "map_of (bs_responses (bridge_run plain_env (\<lambda>_. ''{}'') ?ops empty_store)) ''resp_llmup_1''
      = Some (stamped plain_env (\<lambda>_. ''{}'') 5 10 sample_entry)"
    by (auto simp: bridge_run_def put_with_id_def Let_def split: if_splits option.splits)
  then have "snd (bridge_step plain_env (\<lambda>_. ''{}'') (Get 9 ''resp_llmup_1'' ''n'' (owner_hash plain_env ''n'' sample_context))
      (bridge_run plain_env (\<lambda>_. ''{}'') ?ops empty_store)) = GetAnswer (Inr (stamped plain_env (\<lambda>_. ''{}'') 5 10 sample_entry))"
    by (simp add: get_response_def stamped_def Let_def n)
  moreover have "\<forall>op \<in> set ?ops. stored_by_owner plain_env ''n'' sample_context op"
    using n z by (auto intro!: exI [of _ sample_context])
  ultimately obtain t e0 ttl bound where "Put t ''resp_llmup_1'' e0 ttl bound \<in> set ?ops" "sb_namespace e0 = ''n''"
    using conversation_only_to_its_owner [of plain_env "\<lambda>_. ''{}''" 9 "''resp_llmup_1''" "''n''" sample_context ?ops, OF _ _ z]
    by blast
  then show ?thesis by auto
qed

lemma store_stays_within_limit_witness:
  "bs_current_bytes (bridge_run plain_env (\<lambda>_. ''{}'') [Put 5 ''resp_llmup_1'' sample_entry 10 1000] empty_store) \<le> 1000"
  using store_stays_within_limit [of "[Put 5 ''resp_llmup_1'' sample_entry 10 1000]" 1000 plain_env "\<lambda>_. ''{}''"]
  by (simp add: u64_max_def)

end
