(* ===== verification/Conversation_Items.thy ===== *)
theory Conversation_Items
  imports Conversation_Store Request_Json
begin

text \<open>
  The items of a conversation that the proxy keeps for a client (src/src/server/proxy.rs): what of a request
  can be replayed, what of an answer can be kept, and which tool calls a transcript leaves open.
\<close>

section \<open>Items of a request\<close>

abbreviation bridge_prefix :: string where
  "bridge_prefix \<equiv> ''conversation_state_bridge ''"

definition responses_bridge_item_type :: "json \<Rightarrow> string option" where
  "responses_bridge_item_type item =
     option_or (jget_str item ''type'') (if jget_str item ''role'' = None then None else Some ''message'')"

definition non_empty_string_field :: "json \<Rightarrow> string \<Rightarrow> string \<Rightarrow> string + string" where
  "non_empty_string_field item field item_type = (case jget_str item field of
      Some (c # cs) \<Rightarrow> Inr (c # cs)
    | _ \<Rightarrow> Inl (bridge_prefix @ ''memory replay requires `'' @ item_type @ ''.'' @ field @ ''`''))"

definition responses_text_message_item :: "string \<Rightarrow> string \<Rightarrow> string \<Rightarrow> json" where
  "responses_text_message_item role text_type text = jobj [(''type'', JStr ''message''), (''role'', JStr role),
     (''content'', JArr [jobj [(''type'', JStr text_type), (''text'', JStr text)]])]"

definition text_part :: "json \<Rightarrow> string + string" where
  "text_part part =
     (if jget_str part ''type'' = Some ''input_text'' \<or> jget_str part ''type'' = Some ''output_text'' then
        (case jget_array part ''annotations'' of
           Some (a # as) \<Rightarrow> Inl (bridge_prefix @ ''MVP only supports plain text content'')
         | _ \<Rightarrow> Inr (unwrap_or (jget_str part ''text'') []))
      else if jget_str part ''type'' = Some ''refusal'' then Inr (unwrap_or (jget_str part ''refusal'') [])
      else Inl (bridge_prefix @ ''MVP only supports text content''))"

fun text_of_parts :: "json list \<Rightarrow> string \<Rightarrow> string + string" where
  "text_of_parts [] text = Inr text"
| "text_of_parts (p # ps) text = res_bind (text_part p) (\<lambda>t. text_of_parts ps (text @ t))"

definition responses_text_content :: "json option \<Rightarrow> string + string" where
  "responses_text_content content = (case content of
      None \<Rightarrow> Inr []
    | Some JNull \<Rightarrow> Inr []
    | Some (JStr text) \<Rightarrow> Inr text
    | Some (JArr parts) \<Rightarrow> text_of_parts parts []
    | _ \<Rightarrow> Inl (bridge_prefix @ ''MVP only supports text content''))"

definition responses_text_input_item :: "json \<Rightarrow> string + json" where
  "responses_text_input_item item =
     (if responses_bridge_item_type item \<noteq> Some ''message''
      then Inl (bridge_prefix @ ''MVP only replays text message input items'')
      else (let role = unwrap_or (jget_str item ''role'') ''user'' in
        if role \<noteq> ''user'' \<and> role \<noteq> ''assistant''
        then Inl (bridge_prefix @ ''MVP only replays user/assistant text messages'')
        else res_bind (responses_text_content (jget item ''content''))
          (\<lambda>text. Inr (responses_text_message_item role
             (if role = ''assistant'' then ''output_text'' else ''input_text'') text))))"

definition portable_output_part :: "string \<Rightarrow> json \<Rightarrow> string + json" where
  "portable_output_part item_type part = (case jget_str part ''type'' of
      None \<Rightarrow> Inl (bridge_prefix @ ''memory replay requires typed text items in `'' @ item_type @ ''.output` arrays'')
    | Some t \<Rightarrow>
        if t = ''input_text'' \<or> t = ''output_text''
        then Inr (jobj [(''type'', JStr t), (''text'', JStr (unwrap_or (jget_str part ''text'') []))])
        else Inl (bridge_prefix @ ''memory replay cannot store `'' @ item_type @ ''.output` array item type `'' @ t @ ''`''))"

definition responses_portable_tool_output :: "json \<Rightarrow> string \<Rightarrow> bool \<Rightarrow> string + json" where
  "responses_portable_tool_output output item_type text_only = (case output of
      JStr s \<Rightarrow> Inr output
    | JArr items \<Rightarrow> res_bind (res_map (portable_output_part item_type) items) (\<lambda>parts. Inr (JArr parts))
    | _ \<Rightarrow> if text_only
        then Inl (bridge_prefix @ ''memory replay requires `'' @ item_type @ ''.output` to be a string or text array'')
        else Inr output)"

definition responses_tool_call_output_item :: "json \<Rightarrow> string \<Rightarrow> bool \<Rightarrow> string + json" where
  "responses_tool_call_output_item item item_type text_only =
     (if jget item ''namespace'' \<noteq> None
      then Inl (bridge_prefix @ ''memory replay does not support namespaced `'' @ item_type @ ''` items'')
      else if jget item ''proxied_tool_kind'' \<noteq> None
      then Inl (bridge_prefix @ ''memory replay does not support proxied `'' @ item_type @ ''` replay'')
      else res_bind (non_empty_string_field item ''call_id'' item_type) (\<lambda>call_id.
        case jget item ''output'' of
          None \<Rightarrow> Inl (bridge_prefix @ ''memory replay requires `'' @ item_type @ ''.output`'')
        | Some output \<Rightarrow> res_bind (responses_portable_tool_output output item_type text_only)
            (\<lambda>output. Inr (jobj [(''type'', JStr item_type), (''call_id'', JStr call_id), (''output'', output)]))))"

definition responses_bridge_input_item :: "json \<Rightarrow> string + json" where
  "responses_bridge_input_item item = (case responses_bridge_item_type item of
      None \<Rightarrow> Inl (bridge_prefix @ ''replay only supports text message, `function_call_output`, and `custom_tool_call_output` input items'')
    | Some t \<Rightarrow>
        if t = ''message'' then responses_text_input_item item
        else if t = ''function_call_output'' then responses_tool_call_output_item item ''function_call_output'' False
        else if t = ''custom_tool_call_output'' then responses_tool_call_output_item item ''custom_tool_call_output'' True
        else if t = ''function_call'' \<or> t = ''custom_tool_call''
        then Inl (bridge_prefix @ ''memory replay only accepts assistant `function_call` or `custom_tool_call` items from captured upstream output'')
        else Inl (bridge_prefix @ ''replay only supports text message, `function_call_output`, and `custom_tool_call_output` input items''))"

definition responses_bridge_input_items_from_body :: "json \<Rightarrow> string + json list" where
  "responses_bridge_input_items_from_body body = (case jget body ''input'' of
      None \<Rightarrow> Inl (bridge_prefix @ ''replay requires OpenAI Responses `input`'')
    | Some (JStr text) \<Rightarrow> Inr [responses_text_message_item ''user'' ''input_text'' text]
    | Some (JArr items) \<Rightarrow> res_map responses_bridge_input_item items
    | _ \<Rightarrow> Inl (bridge_prefix @ ''replay only supports text OpenAI Responses `input` or portable input items''))"

definition responses_bridge_continuation_items_from_body :: "json \<Rightarrow> string + json list" where
  "responses_bridge_continuation_items_from_body body =
     (if jget body ''input'' = None then Inr [] else responses_bridge_input_items_from_body body)"

section \<open>Items of an answer\<close>

definition responses_text_output_item :: "json \<Rightarrow> string + json" where
  "responses_text_output_item item =
     (if jget_str item ''type'' \<noteq> Some ''message'' \<or> unwrap_or (jget_str item ''role'') ''assistant'' \<noteq> ''assistant''
      then Inl (bridge_prefix @ ''MVP only captures assistant text message output'')
      else res_bind (responses_text_content (jget item ''content''))
        (\<lambda>text. Inr (responses_text_message_item ''assistant'' ''output_text'' text)))"

definition summary_part :: "json \<Rightarrow> json option" where
  "summary_part part = (if jget_str part ''type'' \<noteq> Some ''summary_text'' then None
     else map_option (\<lambda>t. jobj [(''type'', JStr ''summary_text''), (''text'', JStr t)]) (jget_str part ''text''))"

definition responses_reasoning_output_item :: "json \<Rightarrow> string + json option" where
  "responses_reasoning_output_item item =
     (if jget_str item ''type'' \<noteq> Some ''reasoning''
      then Inl (bridge_prefix @ ''memory capture only captures `reasoning` output items'')
      else (case jget_array item ''summary'' of
          None \<Rightarrow> Inr None
        | Some summary \<Rightarrow> (case List.map_filter summary_part summary of
              [] \<Rightarrow> Inr None
            | p # ps \<Rightarrow> Inr (Some (jobj [(''type'', JStr ''reasoning''), (''summary'', JArr (p # ps))])))))"

text \<open>Of a parse error only that it is one is kept.\<close>

definition validate_json_object_arguments :: "env \<Rightarrow> string \<Rightarrow> string + unit" where
  "validate_json_object_arguments E arguments = (case json_parse E arguments of
      None \<Rightarrow> Inl (bridge_prefix @ ''memory capture requires `function_call.arguments` to be valid JSON object text'')
    | Some (JObj kvs) \<Rightarrow> Inr ()
    | Some _ \<Rightarrow> Inl (bridge_prefix @ ''memory capture requires `function_call.arguments` to decode to a JSON object''))"

definition responses_function_call_item :: "env \<Rightarrow> json \<Rightarrow> string + json" where
  "responses_function_call_item E item =
     (if jget item ''namespace'' \<noteq> None
      then Inl (bridge_prefix @ ''memory capture does not support namespaced `function_call` output'')
      else if jget item ''proxied_tool_kind'' \<noteq> None
      then Inl (bridge_prefix @ ''memory capture does not support proxied tool call replay'')
      else res_bind (non_empty_string_field item ''call_id'' ''function_call'') (\<lambda>call_id.
           res_bind (non_empty_string_field item ''name'' ''function_call'') (\<lambda>name.
           res_bind (non_empty_string_field item ''arguments'' ''function_call'') (\<lambda>arguments.
           res_bind (validate_json_object_arguments E arguments) (\<lambda>_.
             Inr (jobj [(''type'', JStr ''function_call''), (''call_id'', JStr call_id), (''name'', JStr name),
                        (''arguments'', JStr arguments)]))))))"

definition responses_custom_tool_call_item :: "json \<Rightarrow> string + json" where
  "responses_custom_tool_call_item item =
     (if jget item ''namespace'' \<noteq> None
      then Inl (bridge_prefix @ ''memory capture does not support namespaced `custom_tool_call` output'')
      else if jget item ''proxied_tool_kind'' \<noteq> None
      then Inl (bridge_prefix @ ''memory capture does not support proxied custom tool call replay'')
      else res_bind (non_empty_string_field item ''call_id'' ''custom_tool_call'') (\<lambda>call_id.
           res_bind (non_empty_string_field item ''name'' ''custom_tool_call'') (\<lambda>name.
           case jget_str item ''input'' of
             None \<Rightarrow> Inl (bridge_prefix @ ''memory capture requires `custom_tool_call.input`'')
           | Some input \<Rightarrow> Inr (jobj [(''type'', JStr ''custom_tool_call''), (''call_id'', JStr call_id),
                                       (''name'', JStr name), (''input'', JStr input)]))))"

definition responses_bridge_output_item :: "env \<Rightarrow> json \<Rightarrow> string + json option" where
  "responses_bridge_output_item E item =
     (let t = responses_bridge_item_type item in
      if t = Some ''message'' then res_bind (responses_text_output_item item) (\<lambda>x. Inr (Some x))
      else if t = Some ''reasoning'' then responses_reasoning_output_item item
      else if t = Some ''function_call'' then res_bind (responses_function_call_item E item) (\<lambda>x. Inr (Some x))
      else if t = Some ''custom_tool_call'' then res_bind (responses_custom_tool_call_item item) (\<lambda>x. Inr (Some x))
      else Inl (bridge_prefix @ ''memory capture only supports assistant text message output, visible `reasoning` summary, `function_call`, and `custom_tool_call` output''))"

definition responses_bridge_output_items_from_response :: "env \<Rightarrow> json \<Rightarrow> string + json list" where
  "responses_bridge_output_items_from_response E response = (case jget_array response ''output'' of
      None \<Rightarrow> Inl (bridge_prefix @ ''capture requires OpenAI Responses output array'')
    | Some output \<Rightarrow> res_bind (res_map (responses_bridge_output_item E) output) (\<lambda>items. Inr (List.map_filter id items)))"

section \<open>Open tool calls\<close>

datatype bridge_tool_call_kind = FunctionKind | CustomKind

fun call_item_type :: "bridge_tool_call_kind \<Rightarrow> string" where
  "call_item_type FunctionKind = ''function_call''"
| "call_item_type CustomKind = ''custom_tool_call''"

fun output_item_type :: "bridge_tool_call_kind \<Rightarrow> string" where
  "output_item_type FunctionKind = ''function_call_output''"
| "output_item_type CustomKind = ''custom_tool_call_output''"

text \<open>A pending call is its id and its kind.\<close>

type_synonym pending_call = "string \<times> bridge_tool_call_kind"

definition bridge_tool_call_kind_for_item_type :: "string \<Rightarrow> bridge_tool_call_kind option" where
  "bridge_tool_call_kind_for_item_type t =
     (if t = ''function_call'' then Some FunctionKind else if t = ''custom_tool_call'' then Some CustomKind else None)"

definition bridge_tool_output_kind_for_item_type :: "string \<Rightarrow> bridge_tool_call_kind option" where
  "bridge_tool_output_kind_for_item_type t =
     (if t = ''function_call_output'' then Some FunctionKind
      else if t = ''custom_tool_call_output'' then Some CustomKind else None)"

definition responses_bridge_tool_output_kind :: "json \<Rightarrow> bridge_tool_call_kind option" where
  "responses_bridge_tool_output_kind item =
     Option.bind (responses_bridge_item_type item) bridge_tool_output_kind_for_item_type"

definition bridge_items_include_tool_output :: "json list \<Rightarrow> bool" where
  "bridge_items_include_tool_output items = list_ex (\<lambda>i. responses_bridge_tool_output_kind i \<noteq> None) items"

definition responses_tool_call_output_call_id :: "json \<Rightarrow> string + string" where
  "responses_tool_call_output_call_id item =
     non_empty_string_field item ''call_id'' (unwrap_or (responses_bridge_item_type item) ''tool_call_output'')"

definition pending_call_step :: "pending_call list \<Rightarrow> json \<Rightarrow> bridge_tool_call_kind \<Rightarrow> string + pending_call list" where
  "pending_call_step pending item kind =
     res_bind (non_empty_string_field item ''call_id'' (call_item_type kind)) (\<lambda>call_id.
       if (call_id, kind) \<in> set pending
       then Inl (bridge_prefix @ ''replay state contains duplicate pending '' @ call_item_type kind @ '' call_id `'' @ call_id @ ''`'')
       else Inr (pending @ [(call_id, kind)]))"

definition pending_output_step :: "pending_call list \<Rightarrow> json \<Rightarrow> bridge_tool_call_kind \<Rightarrow> string + pending_call list" where
  "pending_output_step pending item kind =
     res_bind (responses_tool_call_output_call_id item) (\<lambda>call_id.
       if (call_id, kind) \<in> set pending then Inr (remove1 (call_id, kind) pending)
       else (case find (\<lambda>p. fst p = call_id) pending of
           None \<Rightarrow> Inl (bridge_prefix @ ''replay state contains `'' @ output_item_type kind @ ''` for unknown call_id `'' @ call_id @ ''`'')
         | Some (_, expected) \<Rightarrow> Inl (bridge_prefix @ ''replay state contains `'' @ output_item_type kind @ ''` for call_id `''
             @ call_id @ ''`, but pending call requires `'' @ output_item_type expected @ ''`'')))"

definition pending_step :: "json \<Rightarrow> pending_call list \<Rightarrow> string + pending_call list" where
  "pending_step item pending = (case responses_bridge_item_type item of
      None \<Rightarrow> Inl (bridge_prefix @ ''replay state contains an input item without `type`'')
    | Some t \<Rightarrow> (case (bridge_tool_call_kind_for_item_type t, bridge_tool_output_kind_for_item_type t) of
          (Some kind, _) \<Rightarrow> pending_call_step pending item kind
        | (None, Some kind) \<Rightarrow> pending_output_step pending item kind
        | (None, None) \<Rightarrow>
            if t = ''message'' \<or> t = ''reasoning'' then Inr pending
            else Inl (bridge_prefix @ ''replay state contains unsupported `'' @ t @ ''` item'')))"

definition pending_bridge_tool_calls :: "json list \<Rightarrow> string + pending_call list" where
  "pending_bridge_tool_calls items = res_fold pending_step items []"

end
