(* ===== verification/Conversation_Bridge.thy ===== *)
theory Conversation_Bridge
  imports Conversation_Items Runtime_State Artifacts
begin

text \<open>
  The replay and the capture of conversations (src/src/server/proxy.rs): a request that continues a kept
  conversation gets its whole transcript as input, and an answer is kept together with its request.
\<close>

section \<open>Continuations\<close>

definition bridge_pending_output_type_summary :: "pending_call list \<Rightarrow> string" where
  "bridge_pending_output_type_summary pending =
     join '' or '' (map (\<lambda>t. ''`'' @ t @ ''`'') (sort (remdups (map (\<lambda>(_, kind). output_item_type kind) pending))))"

definition first_bridge_tool_output_type :: "json list \<Rightarrow> string" where
  "first_bridge_tool_output_type items = (case List.map_filter responses_bridge_tool_output_kind items of
      kind # _ \<Rightarrow> output_item_type kind | [] \<Rightarrow> ''tool_call_output'')"

text \<open>
  A step of the loop over the outputs that must come first; \<open>D\<close> is the debug format of the pending calls,
  which the messages show.
\<close>

definition continuation_output_step ::
    "(pending_call list \<Rightarrow> string) \<Rightarrow> pending_call list \<Rightarrow> json \<Rightarrow> pending_call list \<Rightarrow> string + pending_call list" where
  "continuation_output_step D pending item seen = (case responses_bridge_tool_output_kind item of
      None \<Rightarrow> Inl (bridge_prefix @ ''replay has pending tool calls '' @ D pending
        @ ''; the continuation must begin with matching '' @ bridge_pending_output_type_summary pending @ '' item(s)'')
    | Some kind \<Rightarrow> res_bind (responses_tool_call_output_call_id item) (\<lambda>call_id.
        let received = bridge_prefix @ ''replay received '' in
        if (call_id, kind) \<in> set seen
        then Inl (received @ ''duplicate `'' @ output_item_type kind @ ''` for pending call_id `'' @ call_id @ ''`'')
        else if (call_id, kind) \<notin> set pending
        then (case find (\<lambda>p. fst p = call_id) pending of
            Some (_, expected) \<Rightarrow> Inl (received @ ''`'' @ output_item_type kind @ ''` for call_id `'' @ call_id @ ''`, but pending `''
              @ call_item_type expected @ ''` requires `'' @ output_item_type expected @ ''`'')
          | None \<Rightarrow> Inl (received @ ''`'' @ output_item_type kind @ ''` for call_id `'' @ call_id
              @ ''`, which does not match pending local tool call(s) '' @ D pending))
        else Inr (seen @ [(call_id, kind)])))"

definition continuation_rest_step :: "json \<Rightarrow> string + unit" where
  "continuation_rest_step item = (case responses_bridge_tool_output_kind item of
      Some kind \<Rightarrow> res_bind (responses_tool_call_output_call_id item) (\<lambda>call_id.
        Inl (bridge_prefix @ ''replay received extra `'' @ output_item_type kind @ ''` for call_id `'' @ call_id
          @ ''` after the pending output prefix''))
    | None \<Rightarrow> if responses_bridge_item_type item \<noteq> Some ''message''
        then Inl (bridge_prefix @ ''replay only allows text message input after pending tool output prefix'')
        else Inr ())"

definition validate_bridge_continuation_items ::
    "(pending_call list \<Rightarrow> string) \<Rightarrow> json list \<Rightarrow> json list \<Rightarrow> string + unit" where
  "validate_bridge_continuation_items D stored current =
     res_bind (pending_bridge_tool_calls stored) (\<lambda>pending.
       let outputs = length (filter (\<lambda>i. responses_bridge_tool_output_kind i \<noteq> None) current) in
       if pending = [] then
         (if outputs = 0 then Inr ()
          else (let t = first_bridge_tool_output_type current in
            Inl (bridge_prefix @ ''replay received `'' @ t @ ''` but the local previous_response_id has no pending `''
              @ (case bridge_tool_output_kind_for_item_type t of Some kind \<Rightarrow> call_item_type kind | None \<Rightarrow> ''tool_call'') @ ''`'')))
       else if length current < length pending
       then Inl (bridge_prefix @ ''replay has pending tool calls '' @ D pending @ ''; the continuation submitted ''
         @ nat_str outputs @ '' tool output item(s)'')
       else res_bind (res_fold (continuation_output_step D pending) (take (length pending) current) []) (\<lambda>seen.
            res_bind (res_each continuation_rest_step (drop (length pending) current)) (\<lambda>_.
              case find (\<lambda>p. p \<notin> set seen) pending of
                Some (call_id, kind) \<Rightarrow> Inl (bridge_prefix @ ''replay is missing required `'' @ output_item_type kind
                  @ ''` for pending call_id `'' @ call_id @ ''`'')
              | None \<Rightarrow> Inr ())))"

section \<open>Preparation\<close>

record bridge_capture_candidate =
  bc_namespace :: string
  bc_owner_hash :: string
  bc_client_model :: string
  bc_resolved_model :: resolved_model
  bc_fingerprint :: route_fingerprint
  bc_request_items :: "json list"
  bc_ttl_seconds :: nat
  bc_max_bytes :: nat
  bc_local_response_id :: "string option"

datatype bridge_debug_trace = ReplayHit nat nat nat | CaptureCandidate nat nat

record bridge_preparation =
  bp_candidate :: "bridge_capture_candidate option"
  bp_trace :: "bridge_debug_trace option"

definition no_preparation :: bridge_preparation where
  "no_preparation = \<lparr>bp_candidate = None, bp_trace = None\<rparr>"

definition remove_local_bridge_state_controls :: "json \<Rightarrow> json" where
  "remove_local_bridge_state_controls body = jremove ''store'' (jremove ''previous_response_id'' body)"

definition set_responses_input_items :: "json \<Rightarrow> json list \<Rightarrow> string + json" where
  "set_responses_input_items body items =
     (if is_object body then Inr (jset ''input'' (JArr items) body)
      else Inl ''OpenAI Responses request body must be a JSON object'')"

definition responses_store_requires_native_responses_message :: "upstream_format \<Rightarrow> string" where
  "responses_store_requires_native_responses_message f =
     ''Responses request control `store` requires a native OpenAI Responses upstream and cannot be translated to ''
     @ format_display f @ ''; the proxy does not reconstruct provider state''"

text \<open>The items that the answer is kept with, and the body that is sent on.\<close>

definition bridge_request_items ::
    "(pending_call list \<Rightarrow> string) \<Rightarrow> stored_response option \<Rightarrow> json \<Rightarrow>
       string + ((json list \<times> bridge_debug_trace option) option \<times> json)" where
  "bridge_request_items D preloaded body = (case preloaded of
      Some previous \<Rightarrow>
        res_bind (responses_bridge_continuation_items_from_body body) (\<lambda>current.
        res_bind (validate_bridge_continuation_items D (sb_transcript previous) current) (\<lambda>_.
        (let expanded = sb_transcript previous @ current in
         res_bind (set_responses_input_items body expanded) (\<lambda>body.
           Inr (Some (expanded, Some (ReplayHit (length (sb_transcript previous)) (length current) (length expanded))),
                remove_local_bridge_state_controls body)))))
    | None \<Rightarrow>
        if jget body ''previous_response_id'' \<noteq> None then Inr (None, body)
        else (case responses_bridge_input_items_from_body body of
            Inr items \<Rightarrow> Inr (if bridge_items_include_tool_output items then None else Some (items, None),
                             remove_local_bridge_state_controls body)
          | Inl _ \<Rightarrow> Inr (None, remove_local_bridge_state_controls body)))"

text \<open>The namespace, the owner, the model and the fingerprint of a request; \<open>n\<close> numbers its random id.\<close>

record bridge_route =
  br_namespace :: string
  br_owner_hash :: string
  br_requested_model :: string
  br_resolved_model :: resolved_model
  br_fingerprint :: route_fingerprint

definition capture_plan ::
    "env \<Rightarrow> nat \<Rightarrow> config \<Rightarrow> bridge_route \<Rightarrow> bool \<Rightarrow> json option \<Rightarrow> (json list \<times> bridge_debug_trace option) option \<Rightarrow>
       bridge_preparation" where
  "capture_plan E n c r stream stored items = (case items of
      None \<Rightarrow> no_preparation
    | Some (items, trace) \<Rightarrow>
        if stored \<in> {Some JNull, Some (JBool False)} then \<lparr>bp_candidate = None, bp_trace = trace\<rparr>
        else \<lparr>bp_candidate = Some \<lparr>bc_namespace = br_namespace r, bc_owner_hash = br_owner_hash r,
                bc_client_model = br_requested_model r, bc_resolved_model = br_resolved_model r,
                bc_fingerprint = br_fingerprint r, bc_request_items = items,
                bc_ttl_seconds = ttl_seconds (state_bridge c), bc_max_bytes = max_bytes (state_bridge c),
                bc_local_response_id = (if stream then Some (mint_response_id E n) else None)\<rparr>,
              bp_trace = Some (unwrap_or trace (CaptureCandidate (length items) (max_bytes (state_bridge c))))\<rparr>)"

definition prepare_conversation_state_bridge ::
    "env \<Rightarrow> (pending_call list \<Rightarrow> string) \<Rightarrow> nat \<Rightarrow> config \<Rightarrow> bridge_route \<Rightarrow> upstream_format \<Rightarrow> upstream_format \<Rightarrow> bool \<Rightarrow>
       stored_response option \<Rightarrow> json \<Rightarrow> string + bridge_preparation \<times> json" where
  "prepare_conversation_state_bridge E D n c r client upstream stream preloaded body =
     (if client \<noteq> OpenAiResponses \<or> upstream = OpenAiResponses then Inr (no_preparation, body)
      else if provider_state_control_enabled (jget body ''store'')
      then Inl (responses_store_requires_native_responses_message upstream)
      else if stream \<and> preloaded \<noteq> None
      then Inl ''conversation_state_bridge currently supports local `previous_response_id` replay only for non-streaming OpenAI Responses translation''
      else res_bind (bridge_request_items D preloaded body)
        (\<lambda>(items, body'). Inr (capture_plan E n c r stream (jget body ''store'') items, body')))"

section \<open>Looking up\<close>

definition can_preload :: "namespace_state \<Rightarrow> upstream_format \<Rightarrow> string \<Rightarrow> json \<Rightarrow> bool" where
  "can_preload ns client requested_model body =
     (client = OpenAiResponses
      \<and> (case jget_str body ''previous_response_id'' of None \<Rightarrow> False | Some p \<Rightarrow> starts_with local_response_id_prefix p)
      \<and> (trim requested_model = []
         \<or> (case resolve_model (ns_config ns) requested_model of
              Inl _ \<Rightarrow> True
            | Inr m \<Rightarrow> (case map_of (ns_upstreams ns) (rm_upstream_name m) of
                  None \<Rightarrow> True
                | Some u \<Rightarrow> \<not> (up_fixed_format (us_config u) = Some OpenAiResponses
                     \<or> (case us_capability u of None \<Rightarrow> False
                         | Some k \<Rightarrow> upstream_format_for_request k OpenAiResponses = OpenAiResponses))))))"

definition reject_local_bridge_id_on_native_responses_passthrough ::
    "upstream_format \<Rightarrow> upstream_format \<Rightarrow> json \<Rightarrow> string option" where
  "reject_local_bridge_id_on_native_responses_passthrough client upstream body =
     (if client \<noteq> OpenAiResponses \<or> upstream \<noteq> OpenAiResponses then None
      else (case jget_str body ''previous_response_id'' of
          None \<Rightarrow> None
        | Some p \<Rightarrow> if \<not> starts_with local_response_id_prefix p then None
            else Some ''Responses `previous_response_id` is a local conversation_state_bridge id and cannot be used for provider-native same-wire handling; use a route that can perform local replay/request construction''))"

definition preload_local_bridge_response ::
    "nat \<Rightarrow> json \<Rightarrow> string \<Rightarrow> string \<Rightarrow> bridge_store \<Rightarrow> bridge_store \<times> (string + stored_response)" where
  "preload_local_bridge_response now body namespace owner s = (case jget_str body ''previous_response_id'' of
      None \<Rightarrow> (s, Inl ''Responses `previous_response_id` is required for local replay'')
    | Some p \<Rightarrow>
        if \<not> starts_with local_response_id_prefix p
        then (s, Inl (''Responses `previous_response_id` `'' @ p @ ''` is not an llmup local conversation_state_bridge id''))
        else (case get_response now p namespace owner s of
            (s, Inl e) \<Rightarrow> (s, Inl (lookup_error_message e p))
          | (s, Inr entry) \<Rightarrow> (s, Inr entry)))"

definition route_config_fingerprint :: "namespace_state \<Rightarrow> resolved_model \<Rightarrow> upstream_format \<Rightarrow> model_surface \<Rightarrow> route_fingerprint" where
  "route_config_fingerprint ns model upstream surface = new_route_fingerprint (ns_revision ns) model upstream surface"

section \<open>Capture\<close>

text \<open>The store, what is reported, and the answer with its new id; \<open>None\<close> is the panic of the store.\<close>

definition commit_capture ::
    "env \<Rightarrow> (model_surface \<Rightarrow> string) \<Rightarrow> nat \<Rightarrow> nat \<Rightarrow> bridge_capture_candidate \<Rightarrow> json \<Rightarrow> bridge_store \<Rightarrow>
       (bridge_store \<times> (string + string option) \<times> json) option" where
  "commit_capture E T now n cand response s =
     (if jget_str response ''status'' \<noteq> Some ''completed'' then Some (s, Inr None, response)
      else (case responses_bridge_output_items_from_response E response of
          Inl e \<Rightarrow> Some (s, Inl e, response)
        | Inr output \<Rightarrow>
            if output = [] \<and> bc_local_response_id cand = None then Some (s, Inr None, response)
            else (let entry = new_stored_response now (bc_namespace cand) (bc_owner_hash cand) (bc_client_model cand)
                        (bc_resolved_model cand) (bc_fingerprint cand) (bc_request_items cand @ output);
                      k = (case bc_local_response_id cand of Some k \<Rightarrow> k | None \<Rightarrow> mint_response_id E n)
                  in case put_with_id E T now k entry (from_secs (bc_ttl_seconds cand)) (bc_max_bytes cand) s of
                       None \<Rightarrow> None
                     | Some (s, Inl e) \<Rightarrow> Some (s, Inl e, response)
                     | Some (s, Inr k) \<Rightarrow> Some (s, Inr (Some k), jinsert ''id'' (JStr k) response))))"

lemma capture_panics:
  "commit_capture E T now n cand response s = None \<Longrightarrow> instant_add now (from_secs (bc_ttl_seconds cand)) = None"
  by (auto simp: commit_capture_def put_with_id_def Let_def split: if_splits sum.splits)

end
