(* ===== verification/Conversation_Replay.thy ===== *)
theory Conversation_Replay
  imports Conversation_Bridge Conversation_Contract
begin

text \<open>
  What a continued conversation looks like: the upstream gets the whole transcript, in which every tool
  call has its result.
\<close>

section \<open>Kinds of items\<close>

lemma message_item_type [simp]: "responses_bridge_item_type (responses_text_message_item r t x) = Some ''message''"
  by (simp add: responses_bridge_item_type_def responses_text_message_item_def jget_str_def)

lemma output_kinds [simp]:
  "bridge_tool_output_kind_for_item_type ''message'' = None"
  "bridge_tool_call_kind_for_item_type ''message'' = None"
  by (simp_all add: bridge_tool_output_kind_for_item_type_def bridge_tool_call_kind_for_item_type_def)

lemma output_kind_no_call:
  "bridge_tool_output_kind_for_item_type t = Some kind \<Longrightarrow> bridge_tool_call_kind_for_item_type t = None"
  by (auto simp: bridge_tool_output_kind_for_item_type_def bridge_tool_call_kind_for_item_type_def split: if_splits)

text \<open>The items of a request are messages and tool outputs.\<close>

definition portable_input :: "json \<Rightarrow> bool" where
  "portable_input i \<longleftrightarrow> responses_bridge_item_type i = Some ''message'' \<or> responses_bridge_tool_output_kind i \<noteq> None"

lemma output_item_portable:
  assumes "responses_tool_call_output_item item t b = Inr y" "bridge_tool_output_kind_for_item_type t \<noteq> None"
  shows "portable_input y"
proof -
  from assms(1) obtain k out where "y = jobj [(''type'', JStr t), (''call_id'', JStr k), (''output'', out)]"
    by (auto simp: responses_tool_call_output_item_def res_bind_Inr split: if_splits option.splits)
  with assms(2) show ?thesis
    by (simp add: portable_input_def responses_bridge_tool_output_kind_def responses_bridge_item_type_def jget_str_def)
qed

lemma input_item_portable: "responses_bridge_input_item item = Inr y \<Longrightarrow> portable_input y"
proof -
  have kinds: "bridge_tool_output_kind_for_item_type ''function_call_output'' \<noteq> None"
    "bridge_tool_output_kind_for_item_type ''custom_tool_call_output'' \<noteq> None"
    by (simp_all add: bridge_tool_output_kind_for_item_type_def)
  assume "responses_bridge_input_item item = Inr y"
  then consider "responses_text_input_item item = Inr y"
    | "responses_tool_call_output_item item ''function_call_output'' False = Inr y"
    | "responses_tool_call_output_item item ''custom_tool_call_output'' True = Inr y"
    unfolding responses_bridge_input_item_def by (simp split: option.splits if_splits)
  then show ?thesis
  proof cases
    case 1
    then show ?thesis
      by (auto simp: responses_text_input_item_def Let_def res_bind_Inr portable_input_def split: if_splits)
  next
    case 2
    then show ?thesis using output_item_portable kinds(1) by blast
  next
    case 3
    then show ?thesis using output_item_portable kinds(2) by blast
  qed
qed

lemma input_items_portable:
  "responses_bridge_input_items_from_body body = Inr items \<Longrightarrow> i \<in> set items \<Longrightarrow> portable_input i"
  by (auto simp: responses_bridge_input_items_from_body_def portable_input_def res_map_Inr in_set_conv_nth
      list_all2_conv_all_nth split: option.splits json.splits dest!: input_item_portable [unfolded portable_input_def])

lemma continuation_items_portable:
  "responses_bridge_continuation_items_from_body body = Inr items \<Longrightarrow> i \<in> set items \<Longrightarrow> portable_input i"
  by (auto simp: responses_bridge_continuation_items_from_body_def input_items_portable split: if_splits)

section \<open>Open calls\<close>

lemma pending_step_distinct:
  assumes "pending_step item p = Inr q" "distinct p"
  shows "distinct q"
  using assms
  by (auto simp: pending_step_def pending_call_step_def pending_output_step_def res_bind_Inr
      split: option.splits if_splits)

lemma pending_distinct: "res_fold pending_step items p = Inr q \<Longrightarrow> distinct p \<Longrightarrow> distinct q"
proof (induction items arbitrary: p)
  case (Cons i items)
  then obtain r where "pending_step i p = Inr r" "res_fold pending_step items r = Inr q"
    by (auto simp: res_bind_Inr)
  with Cons pending_step_distinct show ?case by blast
qed simp

lemma message_keeps_pending: "responses_bridge_item_type i = Some ''message'' \<Longrightarrow> pending_step i p = Inr p"
  by (simp add: pending_step_def)

lemma messages_keep_pending:
  "\<forall>i \<in> set items. responses_bridge_item_type i = Some ''message'' \<Longrightarrow> res_fold pending_step items p = Inr p"
  by (induction items) (simp_all add: message_keeps_pending)

text \<open>An accepted output closes its call.\<close>

lemma accepted_output_closes:
  assumes step: "continuation_output_step D P item seen = Inr seen'" and P: "distinct P"
  shows "pending_step item (filter (\<lambda>p. p \<notin> set seen) P) = Inr (filter (\<lambda>p. p \<notin> set seen') P)"
proof -
  from step obtain t kind k where t: "responses_bridge_item_type item = Some t"
      "bridge_tool_output_kind_for_item_type t = Some kind" "responses_tool_call_output_call_id item = Inr k"
      "(k, kind) \<notin> set seen" "(k, kind) \<in> set P" "seen' = seen @ [(k, kind)]"
    by (auto simp: continuation_output_step_def responses_bridge_tool_output_kind_def res_bind_Inr Let_def
        bind_eq_Some_conv split: option.splits if_splits)
  have "remove1 (k, kind) (filter (\<lambda>p. p \<notin> set seen) P) = filter (\<lambda>p. p \<notin> set seen') P"
    using P t(6) by (auto simp: distinct_remove1_removeAll removeAll_filter_not_eq intro: filter_cong)
  with t show ?thesis
    by (simp add: pending_step_def output_kind_no_call pending_output_step_def)
qed

lemma accepted_outputs_close:
  "res_fold (continuation_output_step D P) items seen = Inr seen' \<Longrightarrow> distinct P \<Longrightarrow>
     res_fold pending_step items (filter (\<lambda>p. p \<notin> set seen) P) = Inr (filter (\<lambda>p. p \<notin> set seen') P)"
proof (induction items arbitrary: seen)
  case (Cons i items)
  then obtain s where s: "continuation_output_step D P i seen = Inr s"
      "res_fold (continuation_output_step D P) items s = Inr seen'"
    by (auto simp: res_bind_Inr)
  from accepted_output_closes [OF s(1) Cons.prems(2)] Cons.IH [OF s(2) Cons.prems(2)] show ?case by simp
qed simp

lemma rest_is_messages: "continuation_rest_step i = Inr () \<Longrightarrow> responses_bridge_item_type i = Some ''message''"
  by (auto simp: continuation_rest_step_def res_bind_Inr split: option.splits if_splits)

lemma validated_continuation_closes:
  assumes v: "validate_bridge_continuation_items D stored current = Inr ()"
    and portable: "\<forall>i \<in> set current. portable_input i"
  shows "pending_bridge_tool_calls (stored @ current) = Inr []"
proof -
  from v obtain P where P: "pending_bridge_tool_calls stored = Inr P"
    by (auto simp: validate_bridge_continuation_items_def res_bind_Inr)
  then have d: "distinct P"
    unfolding pending_bridge_tool_calls_def using pending_distinct by fastforce
  have "res_fold pending_step current P = Inr []"
  proof (cases "P = []")
    case True
    with v P have "filter (\<lambda>i. responses_bridge_tool_output_kind i \<noteq> None) current = []"
      by (auto simp: validate_bridge_continuation_items_def Let_def split: if_splits)
    with portable have "\<forall>i \<in> set current. responses_bridge_item_type i = Some ''message''"
      by (auto simp: filter_empty_conv portable_input_def)
    with True messages_keep_pending show ?thesis by simp
  next
    case False
    with v P obtain seen where s: "res_fold (continuation_output_step D P) (take (length P) current) [] = Inr seen"
        "res_each continuation_rest_step (drop (length P) current) = Inr ()" "\<forall>a b. find (\<lambda>p. p \<notin> set seen) P \<noteq> Some (a, b)"
      by (auto simp: validate_bridge_continuation_items_def Let_def res_bind_Inr split: if_splits option.splits)
    from s(2) have "\<forall>i \<in> set (drop (length P) current). responses_bridge_item_type i = Some ''message''"
      by (auto simp: res_each_Inr rest_is_messages)
    note rest = messages_keep_pending [OF this]
    from s(3) have "find (\<lambda>p. p \<notin> set seen) P = None"
      by (cases "find (\<lambda>p. p \<notin> set seen) P") auto
    then have "filter (\<lambda>p. p \<notin> set seen) P = []" by (auto simp: find_None_iff filter_empty_conv)
    with accepted_outputs_close [OF s(1) d] have "res_fold pending_step (take (length P) current) P = Inr []" by simp
    with rest have "res_fold pending_step (take (length P) current @ drop (length P) current) P = Inr []"
      by (simp only: res_fold_append res_bind.simps)
    then show ?thesis by simp
  qed
  with P show ?thesis
    by (simp add: pending_bridge_tool_calls_def res_fold_append)
qed

section \<open>A conversation goes on\<close>

lemma prepared_replay:
  assumes "bridge_request_items D (Some previous) body = Inr (items, body')"
  shows "\<exists>current. responses_bridge_continuation_items_from_body body = Inr current
    \<and> validate_bridge_continuation_items D (sb_transcript previous) current = Inr ()
    \<and> map_option fst items = Some (sb_transcript previous @ current)
    \<and> jget body' ''input'' = Some (JArr (sb_transcript previous @ current))
    \<and> jget body' ''previous_response_id'' = None \<and> jget body' ''store'' = None"
  using assms
  by (auto simp: bridge_request_items_def res_bind_Inr set_responses_input_items_def Let_def
      remove_local_bridge_state_controls_def split: if_splits)

lemma planned_candidate:
  "bp_candidate (capture_plan E n c r stream stored items) = Some cand \<Longrightarrow>
     map_option fst items = Some (bc_request_items cand) \<and> bc_owner_hash cand = br_owner_hash r
     \<and> bc_namespace cand = br_namespace r \<and> bc_ttl_seconds cand = ttl_seconds (state_bridge c)"
  by (auto simp: capture_plan_def no_preparation_def split: option.splits if_splits)

lemma prepared:
  assumes "prepare_conversation_state_bridge E D n c r OpenAiResponses upstream stream preloaded body = Inr (prep, body')"
    and "upstream \<noteq> OpenAiResponses"
  obtains items where "bridge_request_items D preloaded body = Inr (items, body')"
    "prep = capture_plan E n c r stream (jget body ''store'') items"
  using assms by (auto simp: prepare_conversation_state_bridge_def res_bind_Inr split: if_splits)

text \<open>
  C28. A request that continues a kept conversation is sent on with the whole transcript as its input and its
  own items behind it, in which every tool call has exactly one result and no result is without its
  call; the controls of the conversation are gone; and if its answer is to be kept, it is kept with
  that transcript for the same owner.
\<close>

theorem continued_request_is_complete:
  assumes "prepare_conversation_state_bridge E D n c r OpenAiResponses upstream stream (Some previous) body = Inr (prep, body')"
    and "upstream \<noteq> OpenAiResponses"
  shows "\<exists>current. responses_bridge_continuation_items_from_body body = Inr current
    \<and> jget body' ''input'' = Some (JArr (sb_transcript previous @ current))
    \<and> pending_bridge_tool_calls (sb_transcript previous @ current) = Inr []
    \<and> jget body' ''previous_response_id'' = None \<and> jget body' ''store'' = None
    \<and> (\<forall>cand. bp_candidate prep = Some cand \<longrightarrow>
         bc_request_items cand = sb_transcript previous @ current \<and> bc_owner_hash cand = br_owner_hash r)"
proof -
  from prepared [OF assms] obtain items where items: "bridge_request_items D (Some previous) body = Inr (items, body')"
      "prep = capture_plan E n c r stream (jget body ''store'') items" .
  from prepared_replay [OF items(1)] obtain current where
      c: "responses_bridge_continuation_items_from_body body = Inr current"
      "validate_bridge_continuation_items D (sb_transcript previous) current = Inr ()"
      "map_option fst items = Some (sb_transcript previous @ current)"
      "jget body' ''input'' = Some (JArr (sb_transcript previous @ current))"
      "jget body' ''previous_response_id'' = None" "jget body' ''store'' = None"
    by blast
  from validated_continuation_closes [OF c(2)] continuation_items_portable [OF c(1)]
  have "pending_bridge_tool_calls (sb_transcript previous @ current) = Inr []" by blast
  with c planned_candidate [of E n c r stream "jget body ''store''" items] items(2) show ?thesis by auto
qed

text \<open>What a capture puts into the store.\<close>

lemma captured_is_put:
  assumes "commit_capture E T t m cand response s = Some (s', Inr (Some k), answer)"
  shows "\<exists>out entry. responses_bridge_output_items_from_response E response = Inr out
    \<and> sb_transcript entry = bc_request_items cand @ out \<and> sb_namespace entry = bc_namespace cand
    \<and> sb_owner_hash entry = bc_owner_hash cand \<and> jget_str answer ''id'' = Some k
    \<and> put_with_id E T t k entry (from_secs (bc_ttl_seconds cand)) (bc_max_bytes cand) s = Some (s', Inr k)"
proof -
  from assms obtain out where out: "responses_bridge_output_items_from_response E response = Inr out"
    by (auto simp: commit_capture_def split: if_splits sum.splits)
  let ?e = "new_stored_response t (bc_namespace cand) (bc_owner_hash cand) (bc_client_model cand)
                        (bc_resolved_model cand) (bc_fingerprint cand) (bc_request_items cand @ out)"
  let ?k = "case bc_local_response_id cand of Some k \<Rightarrow> k | None \<Rightarrow> mint_response_id E m"
  have id_of_put: "put_with_id E T t k1 ?e d b s = Some (s1, Inr k2) \<Longrightarrow> k2 = k1" for k1 k2 d b s1
    by (auto simp: put_with_id_def Let_def split: if_splits)
  obtain s1 res where put: "put_with_id E T t ?k ?e (from_secs (bc_ttl_seconds cand)) (bc_max_bytes cand) s = Some (s1, res)"
    using assms out by (auto simp: commit_capture_def Let_def split: if_splits option.splits)
  from assms have obj: "is_object response"
    by (auto simp: commit_capture_def jget_str_Some dest: jget_Some_object split: if_splits)
  from assms out put have r: "res = Inr k" "s1 = s'" "answer = jinsert ''id'' (JStr k) response"
    by (simp_all add: commit_capture_def Let_def split: if_splits sum.splits)
  have "k = ?k" using id_of_put put r(1) by blast
  with r show ?thesis
    using out put obj
    by (intro exI [of _ out] exI [of _ ?e])
      (simp add: new_stored_response_def jinsert_def jget_str_def)
qed

text \<open>
  C29. A conversation is kept across requests: when the answer to a request is captured, its new id is in the
  answer, and a later request with that id gets the items of the request and of the answer from the
  store, whatever other requests were made in between, until the time to live is over.
\<close>

theorem captured_conversation_is_found:
  assumes "prepare_conversation_state_bridge E D n c r OpenAiResponses upstream stream None body = Inr (prep, sent)"
    and "bp_candidate prep = Some cand"
    and "commit_capture E T t m cand response (bridge_run E T before empty_store) = Some (s, Inr (Some k), answer)"
    and "\<forall>op \<in> set after. op_time op < t + from_secs (ttl_seconds (state_bridge c))"
    and "now < t + from_secs (ttl_seconds (state_bridge c))"
    and "jget_str body2 ''previous_response_id'' = Some k" "starts_with local_response_id_prefix k"
  shows "\<exists>items out entry. responses_bridge_input_items_from_body body = Inr items
    \<and> responses_bridge_output_items_from_response E response = Inr out
    \<and> jget_str answer ''id'' = Some k
    \<and> snd (preload_local_bridge_response now body2 (br_namespace r) (br_owner_hash r) (bridge_run E T after s)) = Inr entry
    \<and> sb_transcript entry = items @ out"
proof -
  have up: "upstream \<noteq> OpenAiResponses"
    using assms(1,2) by (auto simp: prepare_conversation_state_bridge_def no_preparation_def)
  from prepared [OF assms(1) up] obtain items where p: "bridge_request_items D None body = Inr (items, sent)"
      "prep = capture_plan E n c r stream (jget body ''store'') items" .
  from planned_candidate [OF assms(2) [unfolded p(2)]] have
      i: "map_option fst items = Some (bc_request_items cand)"
      and cand: "bc_namespace cand = br_namespace r" "bc_owner_hash cand = br_owner_hash r"
        "bc_ttl_seconds cand = ttl_seconds (state_bridge c)"
    by blast+
  from p(1) i have items: "responses_bridge_input_items_from_body body = Inr (bc_request_items cand)"
    by (auto simp: bridge_request_items_def split: if_splits sum.splits)
  from captured_is_put [OF assms(3)] obtain out entry where
      out: "responses_bridge_output_items_from_response E response = Inr out"
      and entry: "sb_transcript entry = bc_request_items cand @ out" "sb_namespace entry = bc_namespace cand"
        "sb_owner_hash entry = bc_owner_hash cand"
      and answer: "jget_str answer ''id'' = Some k"
      and put: "put_with_id E T t k entry (from_secs (bc_ttl_seconds cand)) (bc_max_bytes cand) (bridge_run E T before empty_store) = Some (s, Inr k)"
    by blast
  let ?put = "Put t k entry (from_secs (bc_ttl_seconds cand)) (bc_max_bytes cand)"
  have "snd (bridge_step E T ?put (bridge_run E T before empty_store)) = PutAnswer (Inr k)"
    by (simp add: put)
  moreover have "bridge_run E T (before @ ?put # after) empty_store = bridge_run E T after s"
  proof -
    have "bridge_run E T (before @ ?put # after) empty_store
        = bridge_run E T after (fst (bridge_step E T ?put (bridge_run E T before empty_store)))"
      by (simp add: bridge_run_def)
    then show ?thesis by (simp add: put)
  qed
  ultimately  have "snd (bridge_step E T (Get now k (sb_namespace entry) (sb_owner_hash entry)) (bridge_run E T after s))
      = GetAnswer (Inr (stamped E T t (from_secs (bc_ttl_seconds cand)) entry))"
    using stored_conversation_comes_back [of E T t k entry _ _ before after now] assms(4,5) cand(3) by metis
  then have "snd (get_response now k (br_namespace r) (br_owner_hash r) (bridge_run E T after s))
      = Inr (stamped E T t (from_secs (bc_ttl_seconds cand)) entry)"
    by (simp add: entry cand)
  then have "snd (preload_local_bridge_response now body2 (br_namespace r) (br_owner_hash r) (bridge_run E T after s))
      = Inr (stamped E T t (from_secs (bc_ttl_seconds cand)) entry)"
    using assms(6,7) by (auto simp: preload_local_bridge_response_def split: prod.splits sum.splits)
  moreover have "sb_transcript (stamped E T t (from_secs (bc_ttl_seconds cand)) entry) = bc_request_items cand @ out"
    using entry by (simp add: stamped_def Let_def)
  ultimately show ?thesis using items out answer by blast
qed

section \<open>Two turns\<close>

text \<open>A first turn that ends in a tool call, and a second one with its result.\<close>

definition first_body :: json where
  "first_body = jobj [(''input'', JStr ''hi'')]"

definition first_answer :: json where
  "first_answer = jobj [(''status'', JStr ''completed''), (''output'', JArr [jobj [(''type'', JStr ''function_call''),
     (''call_id'', JStr ''c1''), (''name'', JStr ''f''), (''arguments'', JStr ''{}'')]])]"

definition second_body :: json where
  "second_body = jobj [(''previous_response_id'', JStr ''resp_llmup_u''), (''input'', JArr [jobj
     [(''type'', JStr ''function_call_output''), (''call_id'', JStr ''c1''), (''output'', JStr ''4'')]])]"

definition sample_route :: bridge_route where
  "sample_route = \<lparr>br_namespace = ''n'', br_owner_hash = ''o'', br_requested_model = ''m'',
     br_resolved_model = sb_resolved_model sample_entry, br_fingerprint = sb_fingerprint sample_entry\<rparr>"

definition first_items :: "json list" where
  "first_items = [responses_text_message_item ''user'' ''input_text'' ''hi'',
     jobj [(''type'', JStr ''function_call''), (''call_id'', JStr ''c1''), (''name'', JStr ''f''), (''arguments'', JStr ''{}'')]]"

lemma continued_request_is_complete_witness:
  "\<exists>prep body' current. prepare_conversation_state_bridge plain_env (\<lambda>_. []) 0 default_config sample_route OpenAiResponses
       Anthropic False (Some (sample_entry\<lparr>sb_transcript := first_items\<rparr>)) second_body = Inr (prep, body')
     \<and> jget body' ''input'' = Some (JArr (first_items @ current))
     \<and> pending_bridge_tool_calls (first_items @ current) = Inr []"
proof -
  have "responses_bridge_continuation_items_from_body second_body =
      Inr [jobj [(''type'', JStr ''function_call_output''), (''call_id'', JStr ''c1''), (''output'', JStr ''4'')]]"
    by code_simp
  moreover have "validate_bridge_continuation_items (\<lambda>_. []) first_items
      [jobj [(''type'', JStr ''function_call_output''), (''call_id'', JStr ''c1''), (''output'', JStr ''4'')]] = Inr ()"
    by code_simp
  moreover have "is_object second_body" "provider_state_control_enabled (jget second_body ''store'') = False"
    by code_simp+
  ultimately have "\<exists>prep body'. prepare_conversation_state_bridge plain_env (\<lambda>_. []) 0 default_config sample_route OpenAiResponses
       Anthropic False (Some (sample_entry\<lparr>sb_transcript := first_items\<rparr>)) second_body = Inr (prep, body')"
    by (simp add: prepare_conversation_state_bridge_def bridge_request_items_def set_responses_input_items_def Let_def)
  then obtain prep body' where p: "prepare_conversation_state_bridge plain_env (\<lambda>_. []) 0 default_config sample_route OpenAiResponses
       Anthropic False (Some (sample_entry\<lparr>sb_transcript := first_items\<rparr>)) second_body = Inr (prep, body')"
    by blast
  from continued_request_is_complete [OF p] p show ?thesis by auto
qed

lemma captured_conversation_is_found_witness:
  "\<exists>s entry. snd (preload_local_bridge_response 7 second_body ''n'' ''o'' s) = Inr entry \<and> sb_transcript entry = first_items"
proof -
  obtain prep where prep: "prepare_conversation_state_bridge plain_env (\<lambda>_. []) 0 default_config sample_route OpenAiResponses
      Anthropic False None first_body = Inr (prep, remove_local_bridge_state_controls first_body)"
      "prep = capture_plan plain_env 0 default_config sample_route False None (Some ([responses_text_message_item ''user'' ''input_text'' ''hi''], None))"
  proof -
    have "responses_bridge_input_items_from_body first_body = Inr [responses_text_message_item ''user'' ''input_text'' ''hi'']"
      by code_simp
    moreover have "jget first_body ''previous_response_id'' = None" "jget first_body ''store'' = None"
        "provider_state_control_enabled None = False"
        "bridge_items_include_tool_output [responses_text_message_item ''user'' ''input_text'' ''hi''] = False"
      by code_simp+
    ultimately show ?thesis
      by (intro that) (simp_all add: prepare_conversation_state_bridge_def bridge_request_items_def)
  qed
  then obtain cand where cand: "bp_candidate prep = Some cand" "bc_local_response_id cand = None"
      "bc_request_items cand = [responses_text_message_item ''user'' ''input_text'' ''hi'']"
      "bc_max_bytes cand = max_bytes default_bridge_config"
      "bc_namespace cand = ''n''" "bc_owner_hash cand = ''o''" "bc_client_model cand = ''m''"
      "bc_resolved_model cand = sb_resolved_model sample_entry" "bc_fingerprint cand = sb_fingerprint sample_entry"
    by (simp add: capture_plan_def sample_route_def default_config_def)
  have out: "responses_bridge_output_items_from_response plain_env first_answer = Inr [jobj [(''type'', JStr ''function_call''),
      (''call_id'', JStr ''c1''), (''name'', JStr ''f''), (''arguments'', JStr ''{}'')]]"
    by code_simp
  have ttl: "bc_ttl_seconds cand = ttl_seconds default_bridge_config"
    using cand(1) prep(2) by (auto simp: capture_plan_def default_config_def)
  have completed: "jget_str first_answer ''status'' = Some ''completed''" by code_simp
  have k: "mint_response_id plain_env 0 = ''resp_llmup_u''" by code_simp
  let ?e = "new_stored_response 5 ''n'' ''o'' ''m'' (sb_resolved_model sample_entry) (sb_fingerprint sample_entry) first_items"
  have "estimate_entry_size plain_env (\<lambda>_. ''{}'') ?e \<le> 100" by code_simp
  then have "\<exists>s. put_with_id plain_env (\<lambda>_. ''{}'') 5 ''resp_llmup_u'' ?e (from_secs (bc_ttl_seconds cand)) (bc_max_bytes cand) empty_store
      = Some (s, Inr ''resp_llmup_u'')"
    by (simp add: put_with_id_def Let_def stamped_def empty_store_def prune_expired_def expired_ids_def estimate_entry_size_def
        List.map_filter_def sat_add_def u64_max_def instant_add_def instant_limit_def from_secs_def ttl cand default_bridge_config_def)
  then obtain s where s: "put_with_id plain_env (\<lambda>_. ''{}'') 5 ''resp_llmup_u'' ?e (from_secs (bc_ttl_seconds cand)) (bc_max_bytes cand)
      (bridge_run plain_env (\<lambda>_. ''{}'') [] empty_store) = Some (s, Inr ''resp_llmup_u'')"
    by (auto simp: bridge_run_def)
  have "commit_capture plain_env (\<lambda>_. ''{}'') 5 0 cand first_answer (bridge_run plain_env (\<lambda>_. ''{}'') [] empty_store)
      = Some (s, Inr (Some ''resp_llmup_u''), jinsert ''id'' (JStr ''resp_llmup_u'') first_answer)"
    using s by (simp add: commit_capture_def completed out cand k first_items_def)
  note captured = this
  obtain entry where "snd (preload_local_bridge_response 7 second_body ''n'' ''o'' (bridge_run plain_env (\<lambda>_. ''{}'') [] s)) = Inr entry"
      "sb_transcript entry = first_items"
  proof -
    have "responses_bridge_input_items_from_body first_body = Inr [responses_text_message_item ''user'' ''input_text'' ''hi'']"
        "jget_str second_body ''previous_response_id'' = Some ''resp_llmup_u''"
        "starts_with local_response_id_prefix ''resp_llmup_u''"
      by code_simp+
    moreover have "7 < 5 + from_secs (ttl_seconds (state_bridge default_config))"
      by (simp add: default_config_def default_bridge_config_def from_secs_def)
    ultimately show ?thesis
      using that captured_conversation_is_found [OF prep(1) cand(1) captured, of "[]" 7 second_body] out
      by (auto simp: first_items_def sample_route_def)
  qed
  then show ?thesis by blast
qed

end
