(* ===== verification/Request_Boundary.thy ===== *)
theory Request_Boundary
  imports Conversation_Bridge Tool_Bridge Assessment Server_Headers Server_Errors
begin

text \<open>
  What stands between a request and its translation (src/src/server/public_boundary.rs,
  src/src/server/body_limits.rs and helpers of src/src/server/proxy.rs): the internal field that no one may
  send, the size of a body, the context of the tool bridge, the model and the policy of a route, and
  the redaction of what is reported.
\<close>

section \<open>The internal field\<close>

definition reject_internal_tool_bridge_context :: "json \<Rightarrow> string option" where
  "reject_internal_tool_bridge_context body =
     (if contains_internal_context_field body
      then Some (''request must not include internal-only field `'' @ tool_bridge_context_field @ ''`'') else None)"

definition validate_provider_forwarding_request_boundary :: "env \<Rightarrow> upstream_format \<Rightarrow> json \<Rightarrow> validation" where
  "validate_provider_forwarding_request_boundary E format body =
     (case reject_internal_tool_bridge_context body of
        Some message \<Rightarrow> Inl message
      | None \<Rightarrow> validate_public_request_tool_names E format body)"

definition validate_openai_responses_resource_request_body :: "json \<Rightarrow> validation" where
  "validate_openai_responses_resource_request_body body =
     (case reject_internal_tool_bridge_context body of
        Some message \<Rightarrow> Inl message
      | None \<Rightarrow> validate_responses_public_request_object_tool_identity body)"

definition reserved_identity :: "validation \<Rightarrow> validation" where
  "reserved_identity r = (case r of
      Inl e \<Rightarrow> Inl (''upstream response contained reserved public tool identity: '' @ e) | Inr _ \<Rightarrow> Inr ())"

definition validate_openai_responses_resource_response_body :: "json \<Rightarrow> validation" where
  "validate_openai_responses_resource_response_body body =
     (if contains_internal_context_field body
      then Inl (''upstream response contained internal-only field `'' @ tool_bridge_context_field @ ''`'')
      else res_then (reserved_identity (validate_responses_public_response_object body))
        (res_then (on_present (\<lambda>r. reserved_identity (validate_responses_public_response_object r)) (jget body ''response''))
          (on_present (\<lambda>i. reserved_identity (validate_responses_public_tool_call_item i)) (jget body ''item''))))"

section \<open>Reading a body\<close>

definition request_body_limit_for_namespace :: "string \<Rightarrow> runtime_state request_auth_context \<Rightarrow> nat" where
  "request_body_limit_for_namespace namespace c = (case map_of (rac_runtime c) namespace of
      Some ns \<Rightarrow> max_request_body_bytes (resource_bounds (ns_config ns))
    | None \<Rightarrow> max_request_body_bytes default_resource_limits)"

text \<open>\<open>to_bytes\<close> fails on a body that is longer than the limit or cannot be read (\<open>None\<close>).\<close>

definition read_limited_json_request ::
    "env \<Rightarrow> string \<Rightarrow> upstream_format \<Rightarrow> runtime_state request_auth_context \<Rightarrow> string option \<Rightarrow>
       (nat \<times> json) + string \<times> json" where
  "read_limited_json_request E namespace client c body = (case body of
      None \<Rightarrow> Inl (error_response E client 413 ''request body exceeded resource limit'')
    | Some bytes \<Rightarrow>
        if request_body_limit_for_namespace namespace c < length bytes
        then Inl (error_response E client 413 ''request body exceeded resource limit'')
        else (case json_parse E bytes of
            None \<Rightarrow> Inl (error_response E client 400 ''invalid JSON request body'')
          | Some parsed \<Rightarrow> Inr (bytes, parsed)))"

section \<open>The context of the tool bridge\<close>

record trusted_entry =
  te_stable_name :: string
  te_source_kind :: string
  te_transport_kind :: string
  te_wrapper_field :: string
  te_canonical_shape :: string

definition trusted_entry_from_value :: "string \<Rightarrow> json \<Rightarrow> trusted_entry option" where
  "trusted_entry_from_value name v =
     Option.bind (jget_str v ''stable_name'') (\<lambda>declared.
       if declared = [] \<or> declared \<noteq> name then None
       else Option.bind (jget_str v ''source_kind'') (\<lambda>sk.
         Option.bind (jget_str v ''transport_kind'') (\<lambda>tk.
         Option.bind (jget_str v ''wrapper_field'') (\<lambda>wf.
         Option.bind (jget_str v ''expected_canonical_shape'') (\<lambda>cs.
           if sk \<noteq> ''custom_text'' \<and> sk \<noteq> ''custom_grammar'' \<or> tk \<noteq> ''function_object_wrapper''
              \<or> wf \<noteq> ''input'' \<or> cs \<noteq> ''single_required_string''
           then None
           else Some \<lparr>te_stable_name = name, te_source_kind = sk, te_transport_kind = tk, te_wrapper_field = wf,
                      te_canonical_shape = cs\<rparr>)))))"

definition trusted_entry_to_value :: "trusted_entry \<Rightarrow> json" where
  "trusted_entry_to_value e = jobj
     [(''stable_name'', JStr (te_stable_name e)), (''source_kind'', JStr (te_source_kind e)),
      (''transport_kind'', JStr (te_transport_kind e)), (''wrapper_field'', JStr (te_wrapper_field e)),
      (''expected_canonical_shape'', JStr (te_canonical_shape e))]"

text \<open>The namespace entries are read and written as the translation does (\<open>namespace_entry_from_value\<close>).\<close>

record trusted_context =
  tc_version :: nat
  tc_purpose :: string
  tc_entries :: "(string \<times> trusted_entry) list"
  tc_namespace_entries :: "(string \<times> namespace_bridge_context_entry) list"

definition trusted_context_from_value :: "json \<Rightarrow> trusted_context option" where
  "trusted_context_from_value v =
     (if jget_u64 v ''version'' \<noteq> Some tool_bridge_context_version then None
      else if jget_str v ''purpose'' \<noteq> Some tool_bridge_context_purpose then None
      else Option.bind (read_entry_field trusted_entry_from_value v ''entries'') (\<lambda>es.
        Option.bind (read_entry_field namespace_entry_from_value v ''namespace_entries'') (\<lambda>ns.
          if es = [] \<and> ns = [] then None
          else Some \<lparr>tc_version = tool_bridge_context_version, tc_purpose = tool_bridge_context_purpose,
                     tc_entries = es, tc_namespace_entries = ns\<rparr>)))"

definition trusted_context_to_value :: "trusted_context \<Rightarrow> json" where
  "trusted_context_to_value c = jobj
     [(''version'', jnat (tc_version c)), (''purpose'', JStr (tc_purpose c)),
      (''entries'', jobj (map (\<lambda>(k, e). (k, trusted_entry_to_value e)) (tc_entries c))),
      (''namespace_entries'', jobj (map (\<lambda>(k, e). (k, namespace_entry_to_value e)) (tc_namespace_entries c)))]"

text \<open>The context and the body without it.\<close>

definition take_tool_bridge_context :: "json \<Rightarrow> trusted_context option \<times> json" where
  "take_tool_bridge_context body =
     (Option.bind (jget body tool_bridge_context_field) trusted_context_from_value, jremove tool_bridge_context_field body)"

section \<open>Model and policy\<close>

definition resolve_requested_model_or_error :: "config \<Rightarrow> string \<Rightarrow> upstream_format \<Rightarrow> json \<Rightarrow> string + resolved_model" where
  "resolve_requested_model_or_error c requested client body =
     (if trim requested = [] \<and> 1 < length (upstreams c)
      then (if client = OpenAiResponses \<and> jget body ''previous_response_id'' \<noteq> None
            then Inl ''Responses requests with `previous_response_id` must also include a routable `model` when this namespace has multiple upstreams; the proxy does not reconstruct response-to-upstream state''
            else Inl ''request must include a routable `model` when this namespace has multiple upstreams; use `upstream:model` or configure `model_aliases`'')
      else resolve_model c requested)"

definition request_translation_policy_for :: "config \<Rightarrow> string \<Rightarrow> resolved_model \<Rightarrow> request_translation_policy" where
  "request_translation_policy_for c requested m = \<lparr>policy_surface = effective_model_surface c
     (unwrap_or (map_of (model_aliases c) requested)
        \<lparr>al_upstream_name = rm_upstream_name m, al_upstream_model = rm_upstream_model m, al_limits = None, al_surface = None\<rparr>)\<rparr>"

definition has_explicit_output_limit :: "upstream_format \<Rightarrow> json \<Rightarrow> bool" where
  "has_explicit_output_limit target body = (case target of
      Anthropic \<Rightarrow> jget body ''max_tokens'' \<noteq> None
    | OpenAiChatCompletions \<Rightarrow> jget body ''max_completion_tokens'' \<noteq> None \<or> jget body ''max_tokens'' \<noteq> None
    | OpenAiResponses \<Rightarrow> jget body ''max_output_tokens'' \<noteq> None)"

definition has_explicit_parallel_preference :: "upstream_format \<Rightarrow> json \<Rightarrow> bool" where
  "has_explicit_parallel_preference target body = (case target of
      Anthropic \<Rightarrow> Option.bind (jget body ''tool_choice'') (\<lambda>c. jget_bool c ''disable_parallel_tool_use'') \<noteq> None
    | _ \<Rightarrow> jget_bool body ''parallel_tool_calls'' \<noteq> None)"

definition has_tool_definitions :: "json \<Rightarrow> bool" where
  "has_tool_definitions body = (case jget_array body ''tools'' of Some (t # ts) \<Rightarrow> True | _ \<Rightarrow> False)"

definition policy_requires_body_mutation :: "upstream_format \<Rightarrow> json \<Rightarrow> request_translation_policy \<Rightarrow> bool" where
  "policy_requires_body_mutation target body policy =
     (Option.bind (surface_limits (policy_surface policy)) max_output_tokens \<noteq> None \<and> \<not> has_explicit_output_limit target body
      \<or> Option.bind (surface_tools (policy_surface policy)) supports_parallel_calls = Some False
        \<and> \<not> has_explicit_parallel_preference target body \<and> has_tool_definitions body)"

section \<open>Reports\<close>

definition redact_with_key :: "string list \<Rightarrow> string list option \<Rightarrow> string \<Rightarrow> string" where
  "redact_with_key r k s = (case k of Some k \<Rightarrow> redact_text k (redact_text r s) | None \<Rightarrow> redact_text r s)"

definition redact_value_with_key :: "string list \<Rightarrow> string list option \<Rightarrow> json \<Rightarrow> json" where
  "redact_value_with_key r k v = (case k of Some k \<Rightarrow> redact_value k (redact_value r v) | None \<Rightarrow> redact_value r v)"

text \<open>The body of an error that is forwarded as it came; a compressed one is not touched.\<close>

definition redact_zero_transform_error_body :: "to_str \<Rightarrow> string \<Rightarrow> header_map \<Rightarrow> string list \<Rightarrow> string" where
  "redact_zero_transform_error_body T bytes headers r =
     (if (case get_all headers ''content-encoding'' of
            v # _ \<Rightarrow> (case T v of Some e \<Rightarrow> eq_ignore_ascii_case e ''identity'' | None \<Rightarrow> True)
          | [] \<Rightarrow> True)
      then redact_text r (from_utf8_lossy bytes) else bytes)"

definition redacted_error_response :: "env \<Rightarrow> upstream_format \<Rightarrow> nat \<Rightarrow> string \<Rightarrow> string list \<Rightarrow> nat \<times> json" where
  "redacted_error_response E client status message r = error_response E client status (redact_text r message)"

definition redacted_streaming_error_response ::
    "env \<Rightarrow> nat \<Rightarrow> upstream_format \<Rightarrow> nat \<Rightarrow> string \<Rightarrow> string list \<Rightarrow> stream_error_answer" where
  "redacted_streaming_error_response E n client status message r =
     streaming_error_response E n client status (redact_text r message)"

text \<open>\<open>HeaderValue::from_str\<close> is \<open>V\<close>.\<close>

definition set_openai_model_header :: "to_str \<Rightarrow> upstream_format \<Rightarrow> string \<Rightarrow> header_map \<Rightarrow> header_map" where
  "set_openai_model_header V client alias headers =
     (if client = Anthropic \<or> alias = [] then headers
      else (case V alias of Some v \<Rightarrow> insert_header ''openai-model'' v headers | None \<Rightarrow> headers))"

definition response_is_event_stream :: "to_str \<Rightarrow> header_map \<Rightarrow> bool" where
  "response_is_event_stream T headers = (case get_all headers ''content-type'' of
      v # _ \<Rightarrow> (case T v of Some t \<Rightarrow> eq_ignore_ascii_case (trim (before_any '';'' t)) ''text/event-stream'' | None \<Rightarrow> False)
    | [] \<Rightarrow> False)"

definition body_with_synthesized_key_redacted :: "json \<Rightarrow> string \<Rightarrow> json" where
  "body_with_synthesized_key_redacted body fingerprint =
     (if jget body ''prompt_cache_key'' \<noteq> None
      then jset ''prompt_cache_key'' (JStr (''[SYNTHESIZED:'' @ fingerprint @ '']'')) body else body)"

definition ready_answer :: "nat \<Rightarrow> nat \<times> json" where
  "ready_answer n = (if n = 0
     then (503, jobj [(''status'', JStr ''not_ready''), (''reason'', JStr ''no namespaces configured''), (''namespace_count'', jnat n)])
     else (200, jobj [(''status'', JStr ''ready''), (''namespace_count'', jnat n)]))"

end
