(* ===== verification/Request_Plan.thy ===== *)
theory Request_Plan
  imports Request_Boundary Request_Processing Prompt_Cache Dialect Redaction_Guarantees
begin

text \<open>
  The first half of \<open>handle_request_core_with_downstream_cancellation\<close> (src/src/server/proxy.rs) and the
  routes of requests without a model (src/src/server/responses_resources.rs): from the request of a client
  to the request that is sent upstream, or the error the client gets instead. Hooks, traces, metrics
  and the log only observe and are left out.
\<close>

section \<open>Routes without a model\<close>

definition quoted_field_list :: "string list \<Rightarrow> string" where
  "quoted_field_list names = join '', '' (map (\<lambda>f. ''`'' @ f @ ''`'') names)"

definition responses_owner_provenance_is_ambiguous :: "namespace_state \<Rightarrow> bool" where
  "responses_owner_provenance_is_ambiguous ns =
     (1 < length (upstreams (ns_config ns)) \<and> list_ex (\<lambda>u. up_fixed_format u = None) (upstreams (ns_config ns)))"

definition pinned_native_responses_upstreams :: "namespace_state \<Rightarrow> upstream_state list" where
  "pinned_native_responses_upstreams ns =
     filter (\<lambda>u. up_fixed_format (us_config u) = Some OpenAiResponses) (map snd (ns_upstreams ns))"

definition provenance_free_native_responses_upstreams :: "namespace_state \<Rightarrow> upstream_state list" where
  "provenance_free_native_responses_upstreams ns =
     (if length (upstreams (ns_config ns)) = 1
      then filter (\<lambda>u. case us_capability u of Some k \<Rightarrow> OpenAiResponses \<in> supported k | None \<Rightarrow> False)
             (map snd (ns_upstreams ns))
      else pinned_native_responses_upstreams ns)"

definition resolve_native_responses_stateful_route_or_error ::
    "namespace_state \<Rightarrow> string \<Rightarrow> upstream_format \<Rightarrow> json \<Rightarrow> string + resolved_model option" where
  "resolve_native_responses_stateful_route_or_error ns requested client body =
     (let controls = responses_stateful_request_controls body;
          quoted = ''Responses requests with stateful controls '' @ quoted_field_list controls
      in if client \<noteq> OpenAiResponses \<or> trim requested \<noteq> [] \<or> controls = [] then Inr None
         else if responses_owner_provenance_is_ambiguous ns
         then Inl (quoted @ '' must include a routable `model` in namespaces that use auto-discovery; set `fixed_upstream_format` on the owning upstream because provenance-free routing cannot rely on discovery-time capabilities'')
         else (case provenance_free_native_responses_upstreams ns of
             [u] \<Rightarrow> Inr (Some \<lparr>rm_upstream_name = up_name (us_config u), rm_upstream_model = []\<rparr>)
           | [] \<Rightarrow> Inl (quoted @ '' require exactly one configured native OpenAI Responses upstream when `model` is omitted; the proxy does not reconstruct provider state'')
           | _ \<Rightarrow> Inl (quoted @ '' must include a routable `model` when this namespace has multiple configured native OpenAI Responses upstreams; the proxy does not reconstruct response-to-upstream state'')))"

definition resolve_request_model_or_error ::
    "namespace_state \<Rightarrow> string \<Rightarrow> upstream_format \<Rightarrow> json \<Rightarrow> string + resolved_model" where
  "resolve_request_model_or_error ns requested client body =
     res_bind (resolve_native_responses_stateful_route_or_error ns requested client body) (\<lambda>r. case r of
         Some m \<Rightarrow> Inr m
       | None \<Rightarrow> resolve_requested_model_or_error (ns_config ns) requested client body)"

section \<open>The request of a client\<close>

text \<open>
  What the handlers hand over: the client's format, the forced stream flag, the bytes of the body and
  what they parse to, and the headers without the credentials.
\<close>

record client_request =
  cr_namespace :: string
  cr_headers :: header_map
  cr_raw_body :: string
  cr_body :: json
  cr_format :: upstream_format
  cr_forced_stream :: "bool option"
  cr_auth :: "runtime_state request_auth_context"

definition requested_model_of :: "json \<Rightarrow> string" where
  "requested_model_of body = unwrap_or (jget_str body ''model'') []"

definition wants_stream :: "client_request \<Rightarrow> bool" where
  "wants_stream r = (case cr_forced_stream r of Some b \<Rightarrow> b | None \<Rightarrow> jget_bool (cr_body r) ''stream'' = Some True)"

text \<open>
  What the code asks of its libraries: the clock and randomness of \<open>env\<close>, header values read and written
  as text, the debug format of the pending calls and the serialised surface.
\<close>

record request_api =
  ra_env :: env
  ra_to_str :: to_str
  ra_header_value :: to_str
  ra_parse_usize :: "string \<Rightarrow> nat option"
  ra_debug_calls :: "pending_call list \<Rightarrow> string"
  ra_surface_text :: "model_surface \<Rightarrow> string"

text \<open>
  An early return: the status, the message before its redaction, and the warnings that go with it; or a
  failed \<open>expect\<close>.
\<close>

datatype failure = RefusedWith nat string "string list" | Panicked

section \<open>The route\<close>

record route =
  ro_namespace :: namespace_state
  ro_upstream :: upstream_state
  ro_format :: upstream_format
  ro_requested_model :: string
  ro_model :: resolved_model
  ro_policy :: request_translation_policy
  ro_bridge :: bridge_route
  ro_preloaded :: "stored_response option"

definition route_config_changed_error :: string where
  "route_config_changed_error = ''conversation_state_bridge replay failed closed because route/config owner/config changed for this local previous_response_id''"

definition same_revision :: "namespace_state \<Rightarrow> stored_response \<Rightarrow> bool" where
  "same_revision ns e = (rf_schema_version (sb_fingerprint e) = local_replay_schema_version
     \<and> rf_namespace_revision (sb_fingerprint e) = ns_revision ns)"

text \<open>The stored conversation of the request, and the model the request then asks for.\<close>

definition preload_for_request ::
    "nat \<Rightarrow> namespace_state \<Rightarrow> string \<Rightarrow> client_request \<Rightarrow> bridge_store \<Rightarrow>
       bridge_store \<times> (string + string \<times> stored_response option)" where
  "preload_for_request now ns owner r s =
     (let requested = requested_model_of (cr_body r)
      in if \<not> can_preload ns (cr_format r) requested (cr_body r) then (s, Inr (requested, None))
         else (case preload_local_bridge_response now (cr_body r) (cr_namespace r) owner s of
             (s, Inl e) \<Rightarrow> (s, Inl e)
           | (s, Inr e) \<Rightarrow> (s, Inr (if trim requested = [] then sb_client_model e else requested, Some e))))"

definition resolve_model_of_request ::
    "namespace_state \<Rightarrow> string \<Rightarrow> stored_response option \<Rightarrow> client_request \<Rightarrow> string + resolved_model" where
  "resolve_model_of_request ns requested preloaded r =
     (let fresh = resolve_request_model_or_error ns requested (cr_format r) (cr_body r)
      in case preloaded of
           None \<Rightarrow> fresh
         | Some e \<Rightarrow>
             if trim requested = [] \<and> trim (sb_client_model e) = [] \<and> same_revision ns e then Inr (sb_resolved_model e)
             else (case fresh of
                 Inl _ \<Rightarrow> Inl route_config_changed_error
               | Inr m \<Rightarrow> if \<not> same_revision ns e \<or> sb_resolved_model e \<noteq> m then Inl route_config_changed_error else Inr m))"

text \<open>The upstream of a model, when it can be used, and the format it is called with.\<close>

definition usable_upstream :: "namespace_state \<Rightarrow> resolved_model \<Rightarrow> upstream_format \<Rightarrow> failure + upstream_state \<times> upstream_format" where
  "usable_upstream ns m client = (case map_of (ns_upstreams ns) (rm_upstream_name m) of
      None \<Rightarrow> Inl (RefusedWith 500 (''resolved upstream `'' @ rm_upstream_name m @ ''` is not configured'') [])
    | Some u \<Rightarrow>
        (let unavailable = Inl (RefusedWith 503 (format_upstream_unavailable_message (rm_upstream_name m) (us_availability u)) [])
         in if \<not> is_available (us_availability u) then unavailable
            else (case us_capability u of None \<Rightarrow> unavailable | Some k \<Rightarrow> Inr (u, upstream_format_for_request k client))))"

definition bad_request :: "string \<Rightarrow> failure + 'a" where
  "bad_request message = Inl (RefusedWith 400 message [])"

definition finish_route ::
    "namespace_state \<Rightarrow> string \<Rightarrow> string \<Rightarrow> stored_response option \<Rightarrow> resolved_model \<Rightarrow> client_request \<Rightarrow> failure + route" where
  "finish_route ns owner requested preloaded m r =
     res_bind (usable_upstream ns m (cr_format r)) (\<lambda>(u, format).
       let policy = request_translation_policy_for (ns_config ns) requested m;
           fingerprint = route_config_fingerprint ns m format (policy_surface policy)
       in case reject_local_bridge_id_on_native_responses_passthrough (cr_format r) format (cr_body r) of
            Some message \<Rightarrow> bad_request message
          | None \<Rightarrow>
              if (case preloaded of Some e \<Rightarrow> sb_fingerprint e \<noteq> fingerprint | None \<Rightarrow> False)
              then bad_request route_config_changed_error
              else Inr \<lparr>ro_namespace = ns, ro_upstream = u, ro_format = format, ro_requested_model = requested,
                 ro_model = m, ro_policy = policy,
                 ro_bridge = \<lparr>br_namespace = cr_namespace r, br_owner_hash = owner, br_requested_model = requested,
                              br_resolved_model = m, br_fingerprint = fingerprint\<rparr>,
                 ro_preloaded = preloaded\<rparr>)"

definition route_request ::
    "request_api \<Rightarrow> nat \<Rightarrow> client_request \<Rightarrow> bridge_store \<Rightarrow> bridge_store \<times> (failure + route)" where
  "route_request A now r s = (case map_of (rac_runtime (cr_auth r)) (cr_namespace r) of
      None \<Rightarrow> (s, Inl (RefusedWith 404 (''namespace `'' @ cr_namespace r @ ''` is not configured'') []))
    | Some ns \<Rightarrow> (case reject_internal_tool_bridge_context (cr_body r) of
          Some message \<Rightarrow> (s, bad_request message)
        | None \<Rightarrow>
            (let owner = owner_hash (ra_env A) (cr_namespace r) (cr_auth r)
             in case preload_for_request now ns owner r s of
                  (s, Inl message) \<Rightarrow> (s, bad_request message)
                | (s, Inr (requested, preloaded)) \<Rightarrow> (s, case resolve_model_of_request ns requested preloaded r of
                    Inl message \<Rightarrow> bad_request message
                  | Inr m \<Rightarrow> finish_route ns owner requested preloaded m r))))"

section \<open>The body\<close>

record prepared_request =
  pr_body :: json
  pr_raw :: "string option"
  pr_tool_bridge :: "trusted_context option"
  pr_candidate :: "bridge_capture_candidate option"
  pr_dialect :: "dialect_block option"
  pr_processing :: request_processing_info
  pr_warnings :: "string list"

definition dialect_of_upstream :: "upstream_state \<Rightarrow> dialect_block option" where
  "dialect_of_upstream u = Option.bind (up_dialect (us_config u))
     (\<lambda>d. case resolve_dialect d of Inl _ \<Rightarrow> None | Inr b \<Rightarrow> Some b)"

definition reasoning_echo_of :: "dialect_block option \<Rightarrow> bool option" where
  "reasoning_echo_of d = Option.bind d db_reasoning_echo"

text \<open>\<open>body\<close> is the body after the preparation of the conversation bridge.\<close>

definition processing_of :: "client_request \<Rightarrow> route \<Rightarrow> bridge_capture_candidate option \<Rightarrow> json \<Rightarrow> request_processing_info" where
  "processing_of r t captured body =
     (let d = dialect_of_upstream (ro_upstream t)
      in classify_request_processing
       \<lparr>in_client_format = cr_format r, in_upstream_format = ro_format t, in_body = body,
        in_requested_model = ro_requested_model t, in_upstream_model = rm_upstream_model (ro_model t),
        in_stream = wants_stream r, in_forced_stream = (cr_forced_stream r \<noteq> None),
        in_route_policy_requires_body_mutation =
          (policy_requires_body_mutation (ro_format t) body (ro_policy t)
           \<or> d \<noteq> None \<and> parse_client_reasoning_effort body (cr_format r) \<noteq> None
           \<or> reasoning_echo_of d = Some False),
        in_state_bridge = (if ro_preloaded t \<noteq> None then BridgeExpanded
                           else if captured \<noteq> None then CaptureCandidate else BridgeOff)\<rparr>)"

definition boundary_warnings :: "request_api \<Rightarrow> string list \<Rightarrow> client_request \<Rightarrow> route \<Rightarrow> json \<Rightarrow> failure + string list" where
  "boundary_warnings A redactor r t body =
     (case translation_decision_of (assess_request_translation_with_surface (ra_env A) (cr_format r) (ro_format t) body
         (policy_surface (ro_policy t)) (rm_upstream_model (ro_model t)) (dialect_of_upstream (ro_upstream t))) of
        Allow \<Rightarrow> Inr []
      | AllowWithWarnings ws \<Rightarrow> Inr (map (redact_text redactor) ws)
      | Refuse message \<Rightarrow> bad_request message)"

definition set_upstream_model :: "client_request \<Rightarrow> route \<Rightarrow> json \<Rightarrow> json \<Rightarrow> json" where
  "set_upstream_model r t original body =
     (if cr_format r = OpenAiResponses \<and> ro_format t = OpenAiResponses \<and> trim (ro_requested_model t) = []
         \<and> responses_stateful_request_controls original \<noteq> [] \<and> trim (rm_upstream_model (ro_model t)) = []
      then jremove ''model'' body else jinsert ''model'' (JStr (rm_upstream_model (ro_model t))) body)"

text \<open>The body for the upstream, the bytes when they are forwarded as they came, and the tool bridge.\<close>

definition translated_body ::
    "request_api \<Rightarrow> client_request \<Rightarrow> route \<Rightarrow> request_processing_info \<Rightarrow> json \<Rightarrow>
       string + json \<times> string option \<times> trusted_context option" where
  "translated_body A r t info body =
     (if rpi_processing info = TransformationNotRequired
      then (case validate_provider_forwarding_request_boundary (ra_env A) (cr_format r) body of
          Inl e \<Rightarrow> Inl e | Inr _ \<Rightarrow> Inr (body, Some (cr_raw_body r), None))
      else (case translate_request_with_policy (ra_env A) (cr_format r) (ro_format t) (rm_upstream_model (ro_model t))
              body (ro_policy t) (wants_stream r) of
          Inl e \<Rightarrow> Inl e
        | Inr translated \<Rightarrow> (case take_tool_bridge_context (set_upstream_model r t body translated) of
            (context, final) \<Rightarrow> Inr (final, None, context))))"

text \<open>The level of reasoning in the words of the dialect of the upstream.\<close>

definition emit_client_effort ::
    "client_request \<Rightarrow> route \<Rightarrow> json \<Rightarrow> json \<Rightarrow> failure + json \<times> string option" where
  "emit_client_effort r t original body = (case dialect_of_upstream (ro_upstream t) of
      None \<Rightarrow> Inr (body, None)
    | Some d \<Rightarrow> (case parse_client_reasoning_effort original (cr_format r) of
          None \<Rightarrow> Inr (body, None)
        | Some effort \<Rightarrow> (case apply_dialect_reasoning_emit body (ro_format t) d effort of
              None \<Rightarrow> Inl Panicked | Some result \<Rightarrow> Inr result)))"

definition forced_stream_body :: "client_request \<Rightarrow> json" where
  "forced_stream_body r = (case cr_forced_stream r of Some b \<Rightarrow> jinsert ''stream'' (JBool b) (cr_body r) | None \<Rightarrow> cr_body r)"

text \<open>The client's body as the proxy sees it, and what is made of it.\<close>

definition prepare_body ::
    "request_api \<Rightarrow> nat \<Rightarrow> string list \<Rightarrow> client_request \<Rightarrow> route \<Rightarrow> failure + json \<times> prepared_request" where
  "prepare_body A n redactor r t =
     (case prepare_conversation_state_bridge (ra_env A) (ra_debug_calls A) n (ns_config (ro_namespace t)) (ro_bridge t)
         (cr_format r) (ro_format t) (wants_stream r) (ro_preloaded t) (forced_stream_body r) of
        Inl message \<Rightarrow> bad_request message
      | Inr (prep, original) \<Rightarrow>
          (let info = processing_of r t (bp_candidate prep) original
           in res_bind (boundary_warnings A redactor r t original) (\<lambda>warnings.
              case translated_body A r t info original of
                Inl e \<Rightarrow> Inl (RefusedWith 400 e warnings)
              | Inr (body, raw, bridge) \<Rightarrow>
                  res_bind (emit_client_effort r t original body) (\<lambda>(body, warning).
                    Inr (original, \<lparr>pr_body = body, pr_raw = raw, pr_tool_bridge = bridge, pr_candidate = bp_candidate prep,
                      pr_dialect = dialect_of_upstream (ro_upstream t), pr_processing = info,
                      pr_warnings = warnings @ (case warning of Some w \<Rightarrow> [redact_text redactor w] | None \<Rightarrow> [])\<rparr>)))))"

section \<open>The request to the upstream\<close>

record planned_request =
  pl_route :: route
  pl_prepared :: prepared_request
  pl_key :: "key_synthesis option"
  pl_credential :: effective_credential
  pl_client :: client_settings
  pl_request :: http_request

definition choose_client :: "bool \<Rightarrow> bool \<Rightarrow> upstream_state \<Rightarrow> client_settings" where
  "choose_client stream forwarding u =
     (if stream \<and> forwarding then us_plain_streaming_client u else if stream then us_streaming_client u
      else if forwarding then us_plain_client u else us_client u)"

definition synthesize_key ::
    "request_api \<Rightarrow> client_request \<Rightarrow> route \<Rightarrow> json \<Rightarrow> prepared_request \<Rightarrow> key_synthesis option \<times> json" where
  "synthesize_key A r t original p =
     (if pr_raw p \<noteq> None then (None, pr_body p)
      else synthesize_openai_family_prompt_cache_key_from_source (ra_env A)
        \<lparr>ctx_namespace = cr_namespace r, ctx_upstream_name = rm_upstream_name (ro_model t),
         ctx_upstream_model = rm_upstream_model (ro_model t), ctx_upstream_format = ro_format t\<rparr>
        (cr_format r) original (pr_body p))"

definition final_processing :: "prepared_request \<Rightarrow> key_synthesis option \<Rightarrow> request_processing_info" where
  "final_processing p key =
     (let info = (if key \<noteq> None then (pr_processing p)\<lparr>rpi_prompt_cache := Synthesized\<rparr> else pr_processing p)
      in if pr_raw p \<noteq> None then info\<lparr>rpi_zero_transform_forwarding_active := True\<rparr> else info)"

definition address_request ::
    "request_api \<Rightarrow> client_request \<Rightarrow> route \<Rightarrow> json \<Rightarrow> prepared_request \<Rightarrow> failure + planned_request" where
  "address_request A r t original p =
     (case synthesize_key A r t original p of (key, body) \<Rightarrow>
      (case build_auth_headers (ra_env A) (ra_to_str A) (cr_headers r) (cr_auth r) (ro_upstream t) (ro_format t) of
         Inl message \<Rightarrow> Inl (RefusedWith 503 message (pr_warnings p))
       | Inr (auth, credential) \<Rightarrow>
          (let config = us_config (ro_upstream t);
               headers = apply_upstream_headers (up_headers config) (ro_format t) auth;
               info = final_processing p key
           in Inr \<lparr>pl_route = t, pl_prepared = p\<lparr>pr_body := body, pr_processing := info\<rparr>, pl_key = key,
                 pl_credential = credential,
                 pl_client = choose_client (wants_stream r) (rpi_zero_transform_forwarding_active info) (ro_upstream t),
                 pl_request = upstream_request (build_upstream_url (up_api_root config) (ro_format t))
                   (case pr_raw p of Some bytes \<Rightarrow> RawJsonBody bytes | None \<Rightarrow> JsonBody body) (wants_stream r) headers\<rparr>)))"

definition request_redactor :: "request_api \<Rightarrow> client_request \<Rightarrow> string list" where
  "request_redactor A r = redactor_for_request (ra_to_str A) (cr_auth r) (cr_headers r)"

definition plan_request ::
    "request_api \<Rightarrow> nat \<Rightarrow> nat \<Rightarrow> client_request \<Rightarrow> bridge_store \<Rightarrow> bridge_store \<times> (failure + planned_request)" where
  "plan_request A now n r s = (case route_request A now r s of (s', routed) \<Rightarrow>
     (s', res_bind routed (\<lambda>t. res_bind (prepare_body A n (request_redactor A r) r t) (\<lambda>(original, p).
        address_request A r t original p))))"

end
