(* ===== verification/Request_Guarantees.thy ===== *)
theory Request_Guarantees
  imports Request_Plan
begin

text \<open>What holds of every request that the proxy plans: it is addressed to the upstream of its route and carries nothing internal.\<close>

section \<open>Planning does not fail on its own\<close>

lemma emit_total: "resolve_dialect u = Inr d \<Longrightarrow> apply_dialect_reasoning_emit body f d effort \<noteq> None"
proof -
  assume "resolve_dialect u = Inr d"
  from valid_ceiling [OF resolved_valid [OF this]] obtain c where "ceiling_for d = Some c" by blast
  then show ?thesis
    by (simp add: apply_dialect_reasoning_emit_def cap_to_ceiling_def split: reasoning_mechanism.split)
qed

lemma dialect_resolved: "dialect_of_upstream u = Some d \<Longrightarrow> \<exists>x. resolve_dialect x = Inr d"
  by (cases "up_dialect (us_config u)") (auto simp: dialect_of_upstream_def split: sum.splits)

lemma emit_never_fails: "emit_client_effort r t original body \<noteq> Inl e"
proof (cases "dialect_of_upstream (ro_upstream t)")
  case None
  then show ?thesis by (simp add: emit_client_effort_def)
next
  case (Some d)
  from dialect_resolved [OF this] obtain x where "resolve_dialect x = Inr d" by blast
  then have total: "apply_dialect_reasoning_emit body (ro_format t) d effort \<noteq> None" for effort by (rule emit_total)
  show ?thesis
  proof (cases "parse_client_reasoning_effort original (cr_format r)")
    case None
    with Some show ?thesis by (simp add: emit_client_effort_def)
  next
    case effort: (Some effort)
    from total [of effort] obtain res where "apply_dialect_reasoning_emit body (ro_format t) d effort = Some res" by blast
    with Some effort show ?thesis by (simp add: emit_client_effort_def)
  qed
qed

text \<open>What a request is refused with is an error of the client or of the server.\<close>

definition is_refusal :: "failure \<Rightarrow> bool" where
  "is_refusal e = (case e of RefusedWith status _ _ \<Rightarrow> status \<in> {400, 404, 500, 503} | Panicked \<Rightarrow> False)"

lemma refusals [simp]: "is_refusal (RefusedWith status m ws) = (status \<in> {400, 404, 500, 503})" "\<not> is_refusal Panicked"
  by (simp_all add: is_refusal_def)

lemma bad_request_refuses: "bad_request m = Inl e \<Longrightarrow> is_refusal e"
  by (auto simp: bad_request_def)

lemma boundary_refuses: "boundary_warnings A k r t body = Inl e \<Longrightarrow> is_refusal e"
  by (auto simp: boundary_warnings_def bad_request_refuses split: translation_decision.splits)

lemma prepare_refuses:
  assumes "prepare_body A n k r t = Inl e"
  shows "is_refusal e"
proof (cases "prepare_conversation_state_bridge (ra_env A) (ra_debug_calls A) n (ns_config (ro_namespace t)) (ro_bridge t)
    (cr_format r) (ro_format t) (wants_stream r) (ro_preloaded t) (forced_stream_body r)")
  case (Inl m)
  with assms show ?thesis by (simp add: prepare_body_def bad_request_refuses)
next
  case (Inr x)
  obtain prep original where x: "x = (prep, original)" by fastforce
  show ?thesis
  proof (cases "boundary_warnings A k r t original")
    case (Inl m)
    with assms Inr x boundary_refuses [OF Inl] show ?thesis by (simp add: prepare_body_def Let_def res_bind_Inl)
  next
    case (Inr ws)
    with assms \<open>_ = Inr x\<close> x show ?thesis
      by (auto simp: prepare_body_def Let_def res_bind_Inl emit_never_fails split: sum.splits)
  qed
qed

lemma usable_refuses: "usable_upstream ns m f = Inl e \<Longrightarrow> is_refusal e"
  by (auto simp: usable_upstream_def Let_def split: option.splits if_splits)

lemma finish_refuses: "finish_route ns ow q pre m r = Inl e \<Longrightarrow> is_refusal e"
  by (auto simp: finish_route_def Let_def res_bind_Inl dest: usable_refuses bad_request_refuses
      split: option.splits if_splits)

lemma route_refuses: "snd (route_request A now r s) = Inl e \<Longrightarrow> is_refusal e"
  by (auto simp: route_request_def Let_def dest: finish_refuses bad_request_refuses
      split: option.splits prod.splits sum.splits)

lemma address_refuses: "address_request A r t original p = Inl e \<Longrightarrow> is_refusal e"
  by (auto simp: address_request_def Let_def split: prod.splits sum.splits)

text \<open>
  Planning a request never panics: the one \<open>expect\<close> on its way, on the levels of the dialect of the
  upstream, always finds a level, since only a validated dialect resolves. Every request is either
  refused with an error status and a message or planned.
\<close>

theorem planning_never_panics: "snd (plan_request A now n r s) = Inl e \<Longrightarrow> is_refusal e"
proof -
  assume failed: "snd (plan_request A now n r s) = Inl e"
  obtain s' routed where "route_request A now r s = (s', routed)" by fastforce
  with failed route_refuses [of A now r s] show ?thesis
    by (auto simp: plan_request_def res_bind_Inl dest: prepare_refuses address_refuses)
qed

section \<open>What is sent\<close>

text \<open>The fields of a body that come after the translation: the level of reasoning and the synthesized key.\<close>

definition late_fields :: "string set" where
  "late_fields = {''reasoning_effort'', ''reasoning'', ''output_config'', ''thinking'', ''prompt_cache_key''}"

lemma emit_keeps_fields:
  assumes "apply_dialect_reasoning_emit body f d effort = Some (body', w)" "k \<notin> late_fields"
  shows "jget body' k = jget body k"
proof -
  have "jget (emit_openai_effort body f l) k = jget body k" for l
    using assms(2) by (simp add: emit_openai_effort_def late_fields_def jget_jinsert insert_in_object_field_def
        jget_with_field jget_or_insert split: upstream_format.split)
  moreover have "jget (emit_anthropic_effort body l) k = jget body k" for l
    using assms(2) by (simp add: emit_anthropic_effort_def late_fields_def insert_in_object_field_def
        jget_with_field jget_or_insert)
  moreover have "jget (emit_anthropic_thinking body l) k = jget body k" for l
    using assms(2) by (simp add: emit_anthropic_thinking_def late_fields_def jget_jinsert)
  moreover have "jget (strip_reasoning_fields body f) k = jget body k"
    using assms(2) by (simp add: strip_reasoning_fields_def late_fields_def jget_with_field split: upstream_format.split)
  ultimately show ?thesis
    using assms(1) by (auto simp: apply_dialect_reasoning_emit_def Let_def split: reasoning_mechanism.splits)
qed

lemma client_effort_keeps_fields:
  "emit_client_effort r t original body = Inr (body', w) \<Longrightarrow> k \<notin> late_fields \<Longrightarrow> jget body' k = jget body k"
  by (auto simp: emit_client_effort_def dest: emit_keeps_fields split: option.splits)

lemma jget_jset_other: "k' \<noteq> k \<Longrightarrow> jget (jset k x v) k' = jget v k'"
  by (cases v) (auto simp: jget_jset [of "JObj kvs" for kvs] simp del: jset.simps(1))

lemma synthesis_keeps_fields:
  assumes "synthesize_key A r t original p = (key, body')" "k \<notin> late_fields"
  shows "jget body' k = jget (pr_body p) k"
  using assms
  by (auto simp: synthesize_key_def synthesize_openai_family_prompt_cache_key_from_source_def late_fields_def Let_def
      jget_jset_other split: if_splits option.splits)

lemma internal_field_is_not_late: "tool_bridge_context_field \<notin> late_fields"
  by (simp add: late_fields_def tool_bridge_context_field_def)

text \<open>A planned request, taken apart.\<close>

lemma planned_parts:
  assumes "plan_request A now n r s = (s', Inr p)"
  obtains t original q where "route_request A now r s = (s', Inr t)"
    "prepare_body A n (request_redactor A r) r t = Inr (original, q)" "address_request A r t original q = Inr p"
  using assms by (auto simp: plan_request_def res_bind_Inr split: prod.splits)

lemma routed_parts:
  assumes "route_request A now r s = (s', Inr t)"
  obtains ns where "map_of (rac_runtime (cr_auth r)) (cr_namespace r) = Some ns"
    "\<not> contains_internal_context_field (cr_body r)"
    "map_of (ns_upstreams ns) (rm_upstream_name (ro_model t)) = Some (ro_upstream t)"
    "is_available (us_availability (ro_upstream t))"
  using assms
  by (auto simp: route_request_def reject_internal_tool_bridge_context_def finish_route_def usable_upstream_def
      bad_request_def res_bind_Inr Let_def split: option.splits prod.splits sum.splits if_splits)

lemma prepared_parts:
  assumes "prepare_body A n k r t = Inr (original, q)"
  shows "case pr_raw q of
      Some bytes \<Rightarrow> bytes = cr_raw_body r \<and> rpi_processing (pr_processing q) = TransformationNotRequired
    | None \<Rightarrow> jget (pr_body q) tool_bridge_context_field = None"
  using assms
  by (auto simp: prepare_body_def bad_request_def res_bind_Inr Let_def translated_body_def take_tool_bridge_context_def
      client_effort_keeps_fields [OF _ internal_field_is_not_late] split: sum.splits prod.splits if_splits)

lemma addressed_parts:
  assumes "address_request A r t original q = Inr p"
  shows "pl_route p = t \<and> rq_method (pl_request p) = ''POST''
    \<and> rq_url (pl_request p) = build_upstream_url (up_api_root (us_config (ro_upstream t))) (ro_format t)
    \<and> (\<exists>body. (\<forall>k. k \<notin> late_fields \<longrightarrow> jget body k = jget (pr_body q) k)
         \<and> rq_body (pl_request p) = Some (case pr_raw q of Some bytes \<Rightarrow> RawJsonBody bytes | None \<Rightarrow> JsonBody body))"
  using assms
  by (auto simp: address_request_def Let_def upstream_request_def post_request_with_body_def
      dest: synthesis_keeps_fields split: prod.splits sum.splits)

lemma authorized_is_addressed:
  assumes "build_auth_headers (ra_env A) (ra_to_str A) (cr_headers r) (cr_auth r) (ro_upstream t) (ro_format t) = Inr (a, c)"
  shows "\<exists>p. address_request A r t original q = Inr p \<and> pr_tool_bridge (pl_prepared p) = pr_tool_bridge q"
proof -
  obtain key body where "synthesize_key A r t original q = (key, body)" by fastforce
  with assms show ?thesis by (simp add: address_request_def Let_def)
qed

text \<open>
  C32. A request that is planned goes where its route says and says nothing internal: the upstream is the
  one the resolved model names in the namespace of the request, it was available, and it is called with
  a POST to the endpoint of its format. A request that carried the proxy's internal field is never planned.
  The body sent is either the bytes of the client, when the request needs no transformation, or a JSON
  body from which the context of the tool bridge, which the translation puts into it, has been taken.
\<close>

theorem planned_request_is_addressed:
  assumes "plan_request A now n r s = (s', Inr p)"
  shows "\<exists>ns. map_of (rac_runtime (cr_auth r)) (cr_namespace r) = Some ns
    \<and> map_of (ns_upstreams ns) (rm_upstream_name (ro_model (pl_route p))) = Some (ro_upstream (pl_route p))
    \<and> is_available (us_availability (ro_upstream (pl_route p)))
    \<and> rq_method (pl_request p) = ''POST''
    \<and> rq_url (pl_request p) = build_upstream_url (up_api_root (us_config (ro_upstream (pl_route p)))) (ro_format (pl_route p))
    \<and> \<not> contains_internal_context_field (cr_body r)
    \<and> (case rq_body (pl_request p) of
          Some (RawJsonBody bytes) \<Rightarrow> bytes = cr_raw_body r
        | Some (JsonBody body) \<Rightarrow> jget body tool_bridge_context_field = None
        | None \<Rightarrow> False)"
proof -
  from planned_parts [OF assms] obtain t original q where t: "route_request A now r s = (s', Inr t)"
    and q: "prepare_body A n (request_redactor A r) r t = Inr (original, q)" and p: "address_request A r t original q = Inr p" .
  from routed_parts [OF t] obtain ns where "map_of (rac_runtime (cr_auth r)) (cr_namespace r) = Some ns"
    "\<not> contains_internal_context_field (cr_body r)"
    "map_of (ns_upstreams ns) (rm_upstream_name (ro_model t)) = Some (ro_upstream t)"
    "is_available (us_availability (ro_upstream t))" .
  moreover from prepared_parts [OF q] addressed_parts [OF p] internal_field_is_not_late
  have "case rq_body (pl_request p) of Some (RawJsonBody bytes) \<Rightarrow> bytes = cr_raw_body r
    | Some (JsonBody body) \<Rightarrow> jget body tool_bridge_context_field = None | None \<Rightarrow> False"
    by (auto split: option.splits)
  ultimately show ?thesis using addressed_parts [OF p] by auto
qed

section \<open>An example\<close>

definition sample_client :: client_settings where
  "sample_client = \<lparr>cs_timeout = None, cs_connect_timeout = None, cs_auto_decompression = True, cs_no_proxy = False,
     cs_proxy = None\<rparr>"

definition chat_upstream :: upstream_state where
  "chat_upstream = \<lparr>us_config = \<lparr>up_name = ''a'', up_api_root = ''https://a/v1'', up_fixed_format = Some OpenAiChatCompletions,
       up_provider_key = None, up_headers = [], up_proxy = None, up_limits = None, up_surface_defaults = None, up_dialect = None\<rparr>,
     us_provider_key = Some ''k'', us_capability = capability (discovered_fixed OpenAiChatCompletions),
     us_availability = Available, us_client = sample_client, us_streaming_client = sample_client,
     us_plain_client = sample_client, us_plain_streaming_client = sample_client,
     us_resolved_proxy = \<lparr>rp_source = NoSource, rp_target = Inherited\<rparr>\<rparr>"

definition chat_namespace :: namespace_state where
  "chat_namespace = \<lparr>ns_revision = ''r1'', ns_config = \<lparr>listen = [], upstream_timeout = 1, default_proxy = None, upstreams = [us_config chat_upstream],
       model_aliases = [], hooks = \<lparr>hook_max_pending_bytes = 1, hook_timeout = 1, hook_failure_threshold = 1, hook_cooldown = 1,
         hook_exchange = None, hook_usage = None\<rparr>, debug_trace = \<lparr>trace_path = None, trace_max_text_chars = 0\<rparr>,
       resource_bounds = \<lparr>max_request_body_bytes = 1, max_non_stream_response_bytes = 1,
         max_upstream_error_body_bytes = 1, max_sse_frame_bytes = 1, stream_idle_timeout_secs = 1, stream_max_duration_secs = 1,
         stream_max_events = 1, max_accumulated_stream_state_bytes = 1\<rparr>, state_bridge = \<lparr>ttl_seconds = 1, max_bytes = 1\<rparr>, data_auth = None\<rparr>,
     ns_upstreams = [(''a'', chat_upstream)]\<rparr>"

definition custom_tool_request :: client_request where
  "custom_tool_request = \<lparr>cr_namespace = ''default'', cr_headers = [], cr_raw_body = [],
     cr_body = jobj [(''model'', JStr ''m''), (''input'', JStr ''hi''),
       (''tools'', JArr [jobj [(''type'', JStr ''custom''), (''name'', JStr ''patch'')]])],
     cr_format = OpenAiResponses, cr_forced_stream = None,
     cr_auth = \<lparr>rac_generation = ''a1'', rac_mode = ProxyKeyMode, rac_access = ProxyKeyAccess ''p'',
       rac_authorization = ProxyKeyAuth, rac_runtime = [(''default'', chat_namespace)]\<rparr>\<rparr>"

definition sample_api :: request_api where
  "sample_api = \<lparr>ra_env = separating_env, ra_to_str = Some, ra_header_value = Some, ra_parse_usize = (\<lambda>_. None),
     ra_debug_calls = (\<lambda>_. []), ra_surface_text = (\<lambda>_. [])\<rparr>"


definition chat_route :: route where
  "chat_route = \<lparr>ro_namespace = chat_namespace, ro_upstream = chat_upstream, ro_format = OpenAiChatCompletions,
     ro_requested_model = ''m'', ro_model = \<lparr>rm_upstream_name = ''a'', rm_upstream_model = ''m''\<rparr>,
     ro_policy = default_policy,
     ro_bridge = \<lparr>br_namespace = ''default'', br_owner_hash = owner_hash separating_env ''default'' (cr_auth custom_tool_request),
       br_requested_model = ''m'', br_resolved_model = \<lparr>rm_upstream_name = ''a'', rm_upstream_model = ''m''\<rparr>,
       br_fingerprint = new_route_fingerprint ''r1'' \<lparr>rm_upstream_name = ''a'', rm_upstream_model = ''m''\<rparr>
         OpenAiChatCompletions (policy_surface default_policy)\<rparr>,
     ro_preloaded = None\<rparr>"

lemma custom_tool_request_routed: "route_request sample_api 0 custom_tool_request empty_store = (empty_store, Inr chat_route)"
  by code_simp

lemma custom_tool_request_prepared:
  "case prepare_body sample_api 0 k custom_tool_request chat_route of
     Inr (original, q) \<Rightarrow> pr_raw q = None \<and> pr_tool_bridge q \<noteq> None | Inl _ \<Rightarrow> False"
  by code_simp

lemma custom_tool_request_authorized:
  "case build_auth_headers separating_env Some [] (cr_auth custom_tool_request) chat_upstream OpenAiChatCompletions of
     Inl e \<Rightarrow> False | _ \<Rightarrow> True"
  by code_simp

text \<open>A custom tool becomes a function for the upstream; the context of the bridge stays with the proxy.\<close>

lemma planned_request_is_addressed_witness:
  "\<exists>p b. snd (plan_request sample_api 0 0 custom_tool_request empty_store) = Inr p \<and> pr_tool_bridge (pl_prepared p) \<noteq> None
     \<and> rq_method (pl_request p) = ''POST'' \<and> rq_body (pl_request p) = Some (JsonBody b)
     \<and> jget b tool_bridge_context_field = None"
proof -
  obtain original q where q: "prepare_body sample_api 0 (request_redactor sample_api custom_tool_request) custom_tool_request chat_route
      = Inr (original, q)" and raw: "pr_raw q = None" and bridge: "pr_tool_bridge q \<noteq> None"
    using custom_tool_request_prepared [of "request_redactor sample_api custom_tool_request"] by (auto split: sum.splits)
  have "ra_env sample_api = separating_env" "ra_to_str sample_api = Some" "cr_headers custom_tool_request = []"
      "ro_upstream chat_route = chat_upstream" "ro_format chat_route = OpenAiChatCompletions"
    by (simp_all add: sample_api_def custom_tool_request_def chat_route_def)
  with custom_tool_request_authorized obtain a c where "build_auth_headers (ra_env sample_api) (ra_to_str sample_api)
      (cr_headers custom_tool_request) (cr_auth custom_tool_request) (ro_upstream chat_route) (ro_format chat_route) = Inr (a, c)"
    by (auto split: sum.splits)
  from authorized_is_addressed [OF this, of original q] obtain p where p: "address_request sample_api custom_tool_request chat_route original q = Inr p"
    and same: "pr_tool_bridge (pl_prepared p) = pr_tool_bridge q" by blast
  from addressed_parts [OF p] raw obtain b where b: "rq_body (pl_request p) = Some (JsonBody b)" by auto
  from same bridge have "pr_tool_bridge (pl_prepared p) \<noteq> None" by simp
  moreover have plan: "plan_request sample_api 0 0 custom_tool_request empty_store = (empty_store, Inr p)"
    by (simp add: plan_request_def custom_tool_request_routed q p)
  moreover from planned_request_is_addressed [OF plan] b
  have "rq_method (pl_request p) = ''POST''" "jget b tool_bridge_context_field = None" by auto
  ultimately show ?thesis using b by auto
qed

end
