(* ===== verification/Request_Answer.thy ===== *)
theory Request_Answer
  imports Request_Guarantees Translate Stream_Driver
begin

text \<open>
  The second half of \<open>handle_request_core_with_downstream_cancellation\<close> (src/src/server/proxy.rs): what the
  client gets for each way the upstream can answer a planned request, and the handlers around it. A
  streamed answer is described by the layers its stream is built of; their models are in other theories.
  The clock shows where it matters: a time that is past the last \<open>Instant\<close> panics, which is \<open>None\<close>, when
  the timers of a stream are started and when a conversation is kept. The trackers, hooks and traces are
  left out.
\<close>

section \<open>Answers\<close>

datatype stream_source =
    ForwardedSource
  | GuardedSource sse_core
  | TranslatedSource translate_core "bridge_capture_candidate option"

text \<open>A stream and the redactors it passes through, the innermost first.\<close>

record streamed_body =
  sm_source :: stream_source
  sm_redactors :: "string list list"

datatype answer_body = JsonAnswerBody json | BytesBody string | StreamedBody streamed_body

record http_answer =
  an_status :: nat
  an_headers :: header_map
  an_body :: answer_body

definition json_answer :: "nat \<times> json \<Rightarrow> http_answer" where
  "json_answer r = \<lparr>an_status = fst r, an_headers = [(''content-type'', ''application/json'')], an_body = JsonAnswerBody (snd r)\<rparr>"

definition sse_headers :: header_map where
  "sse_headers = [(''content-type'', ''text/event-stream''), (''cache-control'', ''no-cache''), (''connection'', ''keep-alive'')]"

definition stream_error_answer_of :: "stream_error_answer \<Rightarrow> http_answer" where
  "stream_error_answer_of r = (case r of
      JsonAnswer s b \<Rightarrow> json_answer (s, b)
    | EventStreamAnswer s t \<Rightarrow> \<lparr>an_status = s, an_headers = sse_headers, an_body = BytesBody t\<rparr>)"

definition with_warnings :: "request_api \<Rightarrow> string list \<Rightarrow> http_answer \<Rightarrow> http_answer" where
  "with_warnings A warnings a = a\<lparr>an_headers :=
     an_headers a @ map (\<lambda>v. (''x-llmup-portability-warning'', v)) (portability_warning_values (ra_header_value A) warnings)\<rparr>"

text \<open>An error of the proxy's own, in the words of the client's protocol.\<close>

definition error_answer :: "request_api \<Rightarrow> client_request \<Rightarrow> string list \<Rightarrow> nat \<Rightarrow> string \<Rightarrow> http_answer" where
  "error_answer A r warnings status message =
     with_warnings A warnings (json_answer (error_response (ra_env A) (cr_format r) status message))"

definition stream_error :: "request_api \<Rightarrow> nat \<Rightarrow> client_request \<Rightarrow> string list \<Rightarrow> nat \<Rightarrow> string \<Rightarrow> http_answer" where
  "stream_error A n r warnings status message =
     with_warnings A warnings (stream_error_answer_of (streaming_error_response (ra_env A) n (cr_format r) status message))"

definition closed_answer :: "request_api \<Rightarrow> client_request \<Rightarrow> http_answer" where
  "closed_answer A r = json_answer (client_closed_response (ra_env A) (cr_format r))"

section \<open>What the upstream does\<close>

text \<open>The body arrives in chunks, unless the client goes away or the time for an error body runs out.\<close>

datatype body_read = BodyChunks "(string + string) list" | ReadCancelled | ReadTimedOut

datatype upstream_outcome = SendFailed string | SendCancelled | Replied nat header_map body_read

definition is_success :: "nat \<Rightarrow> bool" where
  "is_success status = (200 \<le> status \<and> status < 300)"

section \<open>What a planned request keeps for its answer\<close>

definition key_redactor :: "planned_request \<Rightarrow> string list option" where
  "key_redactor p = map_option (\<lambda>k. secret_redactor [ks_key k]) (pl_key p)"

definition redact_all :: "request_api \<Rightarrow> client_request \<Rightarrow> planned_request \<Rightarrow> string \<Rightarrow> string" where
  "redact_all A r p s = redact_with_key (request_redactor A r) (key_redactor p) s"

definition limits_of :: "planned_request \<Rightarrow> resource_limits" where
  "limits_of p = resource_bounds (ns_config (ro_namespace (pl_route p)))"

definition forwards :: "planned_request \<Rightarrow> bool" where
  "forwards p = rpi_zero_transform_forwarding_active (pr_processing (pl_prepared p))"

definition warnings_of :: "planned_request \<Rightarrow> string list" where
  "warnings_of p = pr_warnings (pl_prepared p)"

definition with_model :: "request_api \<Rightarrow> client_request \<Rightarrow> planned_request \<Rightarrow> header_map \<Rightarrow> header_map" where
  "with_model A r p headers = set_openai_model_header (ra_header_value A) (cr_format r) (ro_requested_model (pl_route p)) headers"

definition protocol_headers :: "request_api \<Rightarrow> client_request \<Rightarrow> planned_request \<Rightarrow> header_map \<Rightarrow> header_map \<Rightarrow> header_map" where
  "protocol_headers A r p upstream headers = append_upstream_protocol_response_headers (ra_to_str A) (ra_header_value A)
     (redact_all A r p) upstream headers"

text \<open>The upstream's headers only mean something to a client that speaks its protocol.\<close>

definition native_headers :: "request_api \<Rightarrow> client_request \<Rightarrow> planned_request \<Rightarrow> header_map \<Rightarrow> http_answer \<Rightarrow> http_answer" where
  "native_headers A r p upstream a =
     (if ro_format (pl_route p) = cr_format r then a\<lparr>an_headers := protocol_headers A r p upstream (an_headers a)\<rparr> else a)"

section \<open>Errors of the upstream\<close>

definition public_error_body :: "request_api \<Rightarrow> client_request \<Rightarrow> planned_request \<Rightarrow> string \<Rightarrow> string \<Rightarrow> string" where
  "public_error_body A r p label text =
     redact_all A r p (if json_parse (ra_env A) text \<noteq> None then text else label @ text)"

text \<open>Bytes that are forwarded as they came, but for the secrets of an error.\<close>

definition forwarded_answer ::
    "request_api \<Rightarrow> client_request \<Rightarrow> planned_request \<Rightarrow> nat \<Rightarrow> header_map \<Rightarrow> string \<Rightarrow> http_answer" where
  "forwarded_answer A r p status upstream bytes =
     (let bytes = (if is_success status then bytes
                   else redact_zero_transform_error_body (ra_to_str A) bytes upstream (request_redactor A r))
      in with_warnings A (warnings_of p) \<lparr>an_status = status,
           an_headers = with_model A r p (append_raw_upstream_response_headers (ra_to_str A) (ra_header_value A)
             (ra_parse_usize A) (redact_all A r p) upstream (length bytes) []),
           an_body = BytesBody bytes\<rparr>)"

definition send_failure :: "request_api \<Rightarrow> nat \<Rightarrow> client_request \<Rightarrow> planned_request \<Rightarrow> string \<Rightarrow> http_answer" where
  "send_failure A n r p e =
     (if wants_stream r then stream_error A n r (warnings_of p) 502 (redact_all A r p e)
      else error_answer A r (warnings_of p) 502 (redact_all A r p e))"

text \<open>\<open>F\<close> prints a duration the way \<open>{:?}\<close> does.\<close>

definition timed_out_message :: "(duration \<Rightarrow> string) \<Rightarrow> planned_request \<Rightarrow> string" where
  "timed_out_message F p = ''failed to read upstream error body: timed out after ''
     @ F (upstream_timeout (ns_config (ro_namespace (pl_route p))))"

definition own_stream_error :: "request_api \<Rightarrow> nat \<Rightarrow> client_request \<Rightarrow> planned_request \<Rightarrow> string \<Rightarrow> http_answer" where
  "own_stream_error A n r p message = stream_error A n r (warnings_of p) 502 (redact_text (request_redactor A r) message)"

definition forwarded_stream_error ::
    "request_api \<Rightarrow> (duration \<Rightarrow> string) \<Rightarrow> nat \<Rightarrow> client_request \<Rightarrow> planned_request \<Rightarrow> nat \<Rightarrow> header_map \<Rightarrow> body_read \<Rightarrow> http_answer" where
  "forwarded_stream_error A F n r p status upstream b = (case b of
      ReadCancelled \<Rightarrow> closed_answer A r
    | ReadTimedOut \<Rightarrow> own_stream_error A n r p (timed_out_message F p)
    | BodyChunks chunks \<Rightarrow> (case read_limited (max_upstream_error_body_bytes (limits_of p)) chunks [] of
          Inr bytes \<Rightarrow> forwarded_answer A r p status upstream bytes
        | Inl (LimitExceeded limit) \<Rightarrow> own_stream_error A n r p
            (''upstream error body exceeded resource limit of '' @ nat_str limit @ '' bytes'')
        | Inl (BodyError e) \<Rightarrow> own_stream_error A n r p (''failed to read upstream error body: '' @ e)))"

definition translated_stream_error ::
    "request_api \<Rightarrow> (duration \<Rightarrow> string) \<Rightarrow> nat \<Rightarrow> client_request \<Rightarrow> planned_request \<Rightarrow> nat \<Rightarrow> header_map \<Rightarrow> body_read \<Rightarrow> http_answer" where
  "translated_stream_error A F n r p status upstream b =
     (let report = (\<lambda>text. with_warnings A (warnings_of p) (native_headers A r p upstream (stream_error_answer_of
            (streaming_error_response (ra_env A) n (cr_format r) status
              (public_error_body A r p ''upstream streaming error body: '' text)))))
      in case b of
           ReadCancelled \<Rightarrow> closed_answer A r
         | ReadTimedOut \<Rightarrow> report (timed_out_message F p)
         | BodyChunks chunks \<Rightarrow> (case read_text_limited (max_upstream_error_body_bytes (limits_of p)) chunks of
               Inr text \<Rightarrow> report text
             | Inl (LimitExceeded limit) \<Rightarrow> own_stream_error A n r p
                 (''upstream error body exceeded resource limit of '' @ nat_str limit @ '' bytes'')
             | Inl (BodyError e) \<Rightarrow> report ''Unknown error''))"

section \<open>Streams\<close>

definition tool_bridge_value :: "planned_request \<Rightarrow> json option" where
  "tool_bridge_value p = map_option trusted_context_to_value (pr_tool_bridge (pl_prepared p))"

definition stream_source_of :: "client_request \<Rightarrow> planned_request \<Rightarrow> stream_source" where
  "stream_source_of r p =
     (if forwards p then ForwardedSource
      else if ro_format (pl_route p) \<noteq> cr_format r
      then (let captured = pr_candidate (pl_prepared p)
            in TranslatedSource (new_translate_core (default_state
                 \<lparr>bridge_context := tool_bridge_value p,
                  responses_response_id_override := Option.bind captured bc_local_response_id\<rparr>)) captured)
      else GuardedSource (new_core default_state))"

text \<open>
  \<open>StreamLimitTimers::new\<close>: the times a stream has come to its end at when it is idle and at the latest. A
  stream that is rewritten is built with the timers of the default limits first.
\<close>

definition stream_timers :: "nat \<Rightarrow> resource_limits \<Rightarrow> (nat \<times> nat) option" where
  "stream_timers now limits =
     Option.bind (instant_add now (from_secs (stream_idle_timeout_secs limits))) (\<lambda>idle.
       map_option (Pair idle) (instant_add now (from_secs (stream_max_duration_secs limits))))"

definition rewriting_timers :: "nat \<Rightarrow> resource_limits \<Rightarrow> (nat \<times> nat) option" where
  "rewriting_timers now limits = Option.bind (stream_timers now default_resource_limits) (\<lambda>_. stream_timers now limits)"

definition timers_of :: "nat \<Rightarrow> planned_request \<Rightarrow> (nat \<times> nat) option" where
  "timers_of now p =
     (if forwards p then stream_timers now (limits_of p) else rewriting_timers now (limits_of p))"

definition stream_headers :: "request_api \<Rightarrow> client_request \<Rightarrow> planned_request \<Rightarrow> header_map \<Rightarrow> header_map" where
  "stream_headers A r p upstream = with_model A r p
     (if forwards p then append_raw_upstream_stream_response_headers (ra_to_str A) (ra_header_value A) (redact_all A r p) upstream
        [(''cache-control'', ''no-cache''), (''connection'', ''keep-alive'')]
      else protocol_headers A r p upstream sse_headers)"

definition streamed_redactors :: "request_api \<Rightarrow> client_request \<Rightarrow> planned_request \<Rightarrow> string list list" where
  "streamed_redactors A r p = (if forwards p then []
     else request_redactor A r # (case key_redactor p of Some k \<Rightarrow> [k] | None \<Rightarrow> []))"

definition answer_stream ::
    "request_api \<Rightarrow> (duration \<Rightarrow> string) \<Rightarrow> nat \<Rightarrow> nat \<Rightarrow> client_request \<Rightarrow> planned_request \<Rightarrow> nat \<Rightarrow> header_map \<Rightarrow> body_read \<Rightarrow>
       http_answer option" where
  "answer_stream A F now n r p status upstream b =
     (if \<not> is_success status
      then Some (if forwards p then forwarded_stream_error A F n r p status upstream b
            else translated_stream_error A F n r p status upstream b)
      else if \<not> response_is_event_stream (ra_to_str A) upstream
      then Some (own_stream_error A n r p ''upstream returned non-SSE response for streaming request'')
      else (case timers_of now p of
          None \<Rightarrow> None
        | Some _ \<Rightarrow> Some (with_warnings A (warnings_of p) \<lparr>an_status = status, an_headers = stream_headers A r p upstream,
            an_body = StreamedBody \<lparr>sm_source = stream_source_of r p, sm_redactors = streamed_redactors A r p\<rparr>\<rparr>)))"

section \<open>Complete answers\<close>

text \<open>The store after an answer, and the answer; \<open>None\<close> is a panic, which leaves the store as it is.\<close>

definition response_context :: "planned_request \<Rightarrow> response_translation_context" where
  "response_context p = with_reasoning_echo (reasoning_echo_of (pr_dialect (pl_prepared p)))
     (with_request_scoped_tool_bridge_context_value (tool_bridge_value p)
       \<lparr>rtc_tool_bridge_context = None, rtc_reasoning_echo = None\<rparr>)"

text \<open>The code keeps a place for errors inside successful answers; no format has one now.\<close>

definition normalized_non_stream_upstream_error :: "upstream_format \<Rightarrow> upstream_format \<Rightarrow> json \<Rightarrow> (nat \<times> string) option" where
  "normalized_non_stream_upstream_error upstream client body = None"

text \<open>The conversation of a successful answer is kept; when that fails a warning says so.\<close>

definition capture_answer ::
    "request_api \<Rightarrow> nat \<Rightarrow> nat \<Rightarrow> planned_request \<Rightarrow> nat \<Rightarrow> json \<Rightarrow> bridge_store \<Rightarrow>
       (bridge_store \<times> json \<times> string list) option" where
  "capture_answer A now n p status out s = (case (is_success status, pr_candidate (pl_prepared p)) of
      (True, Some captured) \<Rightarrow> (case commit_capture (ra_env A) (ra_surface_text A) now n captured out s of
          None \<Rightarrow> None
        | Some (s, Inl message, out) \<Rightarrow> Some (s, out, warnings_of p @ [message])
        | Some (s, Inr _, out) \<Rightarrow> Some (s, out, warnings_of p))
    | _ \<Rightarrow> Some (s, out, warnings_of p))"

definition answer_translated ::
    "request_api \<Rightarrow> nat \<Rightarrow> nat \<Rightarrow> client_request \<Rightarrow> planned_request \<Rightarrow> header_map \<Rightarrow> json \<Rightarrow> bridge_store \<Rightarrow>
       (bridge_store \<times> http_answer) option" where
  "answer_translated A now n r p upstream body s =
     (case normalized_non_stream_upstream_error (ro_format (pl_route p)) (cr_format r) body of
        Some (status, message) \<Rightarrow> Some (s, with_warnings A (warnings_of p) (native_headers A r p upstream
          (json_answer (error_response (ra_env A) (cr_format r) status (redact_all A r p message)))))
      | None \<Rightarrow> (case translate_response_with_context (ra_env A) (ro_format (pl_route p)) (cr_format r) body (response_context p) of
          Inl e \<Rightarrow> Some (s, error_answer A r (warnings_of p) 502 (redact_all A r p e))
        | Inr out \<Rightarrow>
           (let status = classify_post_translation_non_stream_status (cr_format r) out
            in case capture_answer A now n p status out s of
                 None \<Rightarrow> None
               | Some (s, out, warnings) \<Rightarrow>
              (let public = redact_value_with_key (request_redactor A r) (key_redactor p) out;
                   answer = native_headers A r p upstream (json_answer (status, public))
               in Some (s, with_warnings A warnings (answer\<lparr>an_headers := with_model A r p (an_headers answer)\<rparr>))))))"

definition upstream_error_answer :: "request_api \<Rightarrow> client_request \<Rightarrow> planned_request \<Rightarrow> nat \<Rightarrow> header_map \<Rightarrow> string \<Rightarrow> http_answer" where
  "upstream_error_answer A r p status upstream bytes = with_warnings A (warnings_of p) (native_headers A r p upstream
     (json_answer (error_response (ra_env A) (cr_format r) status
       (public_error_body A r p ''upstream error body: '' (from_utf8_lossy bytes)))))"

definition complete_body_limit :: "planned_request \<Rightarrow> nat \<Rightarrow> nat" where
  "complete_body_limit p status = (if is_success status then max_non_stream_response_bytes (limits_of p)
     else max_upstream_error_body_bytes (limits_of p))"

definition answer_bytes ::
    "request_api \<Rightarrow> nat \<Rightarrow> nat \<Rightarrow> client_request \<Rightarrow> planned_request \<Rightarrow> nat \<Rightarrow> header_map \<Rightarrow> string \<Rightarrow> bridge_store \<Rightarrow>
       (bridge_store \<times> http_answer) option" where
  "answer_bytes A now n r p status upstream bytes s =
     (if forwards p then Some (s, forwarded_answer A r p status upstream bytes)
      else if \<not> is_success status then Some (s, upstream_error_answer A r p status upstream bytes)
      else (case json_parse (ra_env A) bytes of
          None \<Rightarrow> Some (s, error_answer A r (warnings_of p) 502 (redact_text (request_redactor A r) ''upstream returned invalid JSON''))
        | Some body \<Rightarrow> answer_translated A now n r p upstream body s))"

text \<open>A client of a complete answer has its own timeout, which shows as an error of the body.\<close>

definition answer_complete ::
    "request_api \<Rightarrow> nat \<Rightarrow> nat \<Rightarrow> client_request \<Rightarrow> planned_request \<Rightarrow> nat \<Rightarrow> header_map \<Rightarrow> (string + string) list \<Rightarrow> bridge_store \<Rightarrow>
       (bridge_store \<times> http_answer) option" where
  "answer_complete A now n r p status upstream chunks s =
     (case read_limited (complete_body_limit p status) chunks [] of
        Inr bytes \<Rightarrow> answer_bytes A now n r p status upstream bytes s
      | Inl (LimitExceeded limit) \<Rightarrow> Some (s, error_answer A r (warnings_of p) 502 (redact_text (request_redactor A r)
          ((if is_success status then ''upstream response body exceeded resource limit of ''
            else ''upstream error body exceeded resource limit of '') @ nat_str limit @ '' bytes'')))
      | Inl (BodyError e) \<Rightarrow> Some (s, error_answer A r (warnings_of p) 502 (redact_text (request_redactor A r) e)))"

section \<open>The whole exchange\<close>

definition answer_planned ::
    "request_api \<Rightarrow> (duration \<Rightarrow> string) \<Rightarrow> nat \<Rightarrow> nat \<Rightarrow> client_request \<Rightarrow> planned_request \<Rightarrow> upstream_outcome \<Rightarrow> bridge_store \<Rightarrow>
       (bridge_store \<times> http_answer) option" where
  "answer_planned A F now n r p outcome s = (case outcome of
      SendFailed e \<Rightarrow> Some (s, send_failure A n r p e)
    | SendCancelled \<Rightarrow> Some (s, closed_answer A r)
    | Replied status upstream b \<Rightarrow>
        if wants_stream r then map_option (Pair s) (answer_stream A F now n r p status upstream b)
        else (case b of
            BodyChunks chunks \<Rightarrow> answer_complete A now n r p status upstream chunks s
          | _ \<Rightarrow> Some (s, closed_answer A r)))"

text \<open>
  \<open>net\<close> is the upstream: what comes of a request sent with a client. The bridge is planned with at one
  time and captured to at a later one; \<open>None\<close> is a panic.
\<close>

definition handle_request_core ::
    "request_api \<Rightarrow> (duration \<Rightarrow> string) \<Rightarrow> (client_settings \<Rightarrow> http_request \<Rightarrow> upstream_outcome) \<Rightarrow> nat \<Rightarrow> nat \<Rightarrow> nat \<Rightarrow>
       client_request \<Rightarrow> bridge_store \<Rightarrow> bridge_store \<times> http_answer option" where
  "handle_request_core A F net now later n r s = (case plan_request A now n r s of
      (s, Inl Panicked) \<Rightarrow> (s, None)
    | (s, Inl (RefusedWith status message warnings)) \<Rightarrow>
        (s, Some (error_answer A r warnings status (redact_text (request_redactor A r) message)))
    | (s, Inr p) \<Rightarrow> (case answer_planned A F later (Suc n) r p (net (pl_client p) (pl_request p)) s of
          None \<Rightarrow> (s, None)
        | Some (s, a) \<Rightarrow> (s, Some a)))"

section \<open>The handlers\<close>

definition inner_request :: "upstream_format \<Rightarrow> string \<Rightarrow> header_map \<Rightarrow> string \<Rightarrow> json \<Rightarrow> runtime_state request_auth_context \<Rightarrow> client_request" where
  "inner_request client namespace headers bytes parsed c = \<lparr>cr_namespace = namespace, cr_headers = headers, cr_raw_body = bytes,
     cr_body = parsed, cr_format = client, cr_forced_stream = None, cr_auth = c\<rparr>"

text \<open>A handler after the middleware: the bytes of the body, \<open>None\<close> when they cannot be read.\<close>

definition handle_in_namespace ::
    "request_api \<Rightarrow> (client_request \<Rightarrow> bridge_store \<Rightarrow> bridge_store \<times> http_answer option) \<Rightarrow> upstream_format \<Rightarrow> string \<Rightarrow>
       header_map \<Rightarrow> runtime_state request_auth_context \<Rightarrow> string option \<Rightarrow> bridge_store \<Rightarrow> bridge_store \<times> http_answer option" where
  "handle_in_namespace A core client namespace headers c body s =
     (case read_limited_json_request (ra_env A) namespace client c body of
        Inl answer \<Rightarrow> (s, Some (json_answer answer))
      | Inr (bytes, parsed) \<Rightarrow> core (inner_request client namespace headers bytes parsed c) s)"

text \<open>The endpoints, with the namespace of the path or the default one.\<close>

definition handle_openai_chat_completions where
  "handle_openai_chat_completions A core headers c body s =
     handle_in_namespace A core OpenAiChatCompletions default_namespace headers c body s"

definition handle_openai_chat_completions_namespaced where
  "handle_openai_chat_completions_namespaced A core namespace headers c body s =
     handle_in_namespace A core OpenAiChatCompletions namespace headers c body s"

definition handle_openai_responses where
  "handle_openai_responses A core headers c body s =
     handle_in_namespace A core OpenAiResponses default_namespace headers c body s"

definition handle_openai_responses_namespaced where
  "handle_openai_responses_namespaced A core namespace headers c body s =
     handle_in_namespace A core OpenAiResponses namespace headers c body s"

definition handle_anthropic_messages where
  "handle_anthropic_messages A core headers c body s =
     handle_in_namespace A core Anthropic default_namespace headers c body s"

definition handle_anthropic_messages_namespaced where
  "handle_anthropic_messages_namespaced A core namespace headers c body s =
     handle_in_namespace A core Anthropic namespace headers c body s"

section \<open>Every request is answered\<close>

text \<open>The error of a request, as a status or, for a stream of a Responses client, as the one event of its body.\<close>

definition failed_event_prefix :: string where
  "failed_event_prefix = ''event: response.failed'' @ [nl] @ ''data: ''"

definition reports_failure :: "http_answer \<Rightarrow> bool" where
  "reports_failure a \<longleftrightarrow> \<not> is_success (an_status a)
     \<or> (case an_body a of BytesBody t \<Rightarrow> starts_with failed_event_prefix t | _ \<Rightarrow> False)"

lemma with_warnings_fields [simp]:
  "an_status (with_warnings A ws a) = an_status a" "an_body (with_warnings A ws a) = an_body a"
  by (simp_all add: with_warnings_def)

lemma native_headers_fields [simp]:
  "an_status (native_headers A r p up a) = an_status a" "an_body (native_headers A r p up a) = an_body a"
  by (simp_all add: native_headers_def)

lemma json_answer_status [simp]: "an_status (json_answer r) = fst r"
  by (simp add: json_answer_def)

lemma error_answer_status [simp]: "an_status (error_answer A r ws status m) = status"
  by (simp add: error_answer_def error_response_def Let_def)

lemma closed_answer_fails: "reports_failure (closed_answer A r)"
  by (simp add: reports_failure_def closed_answer_def client_closed_response_def error_response_def is_success_def Let_def)

lemma error_answer_fails: "\<not> is_success status \<Longrightarrow> reports_failure (error_answer A r ws status m)"
  by (simp add: reports_failure_def)

text \<open>An error of a stream keeps its status but for a Responses client, which gets the event instead.\<close>

lemma streaming_error_fails:
  assumes "\<not> is_success status"
  shows "reports_failure (with_warnings A ws (stream_error_answer_of (streaming_error_response E n f status m)))"
    and "reports_failure (with_warnings A ws (native_headers A r p up (stream_error_answer_of (streaming_error_response E n f status m))))"
  using assms by (auto simp: reports_failure_def streaming_error_response_def stream_error_answer_of_def error_response_def
      failed_event_prefix_def starts_with_def Let_def)

lemma stream_error_fails: "\<not> is_success status \<Longrightarrow> reports_failure (stream_error A n r ws status m)"
  by (simp add: stream_error_def streaming_error_fails)

lemma no_success [simp]: "\<not> is_success 502" "\<not> is_success 400" "\<not> is_success 404" "\<not> is_success 500" "\<not> is_success 503"
  by (simp_all add: is_success_def)

lemma upstream_error_fails:
  assumes "\<not> is_success status"
  shows "reports_failure (forwarded_stream_error A F n r p status up b)"
    and "reports_failure (translated_stream_error A F n r p status up b)"
    and "reports_failure (forwarded_answer A r p status up bytes)"
    and "reports_failure (upstream_error_answer A r p status up bytes)"
proof -
  show f: "reports_failure (forwarded_answer A r p status up bytes)" for bytes
    using assms by (simp add: reports_failure_def forwarded_answer_def Let_def)
  show "reports_failure (forwarded_stream_error A F n r p status up b)"
    using f by (auto simp: forwarded_stream_error_def own_stream_error_def stream_error_fails closed_answer_fails
        split: body_read.split sum.split body_limit_error.split)
  show "reports_failure (translated_stream_error A F n r p status up b)"
    using assms by (auto simp: translated_stream_error_def own_stream_error_def stream_error_fails closed_answer_fails
        streaming_error_fails Let_def split: body_read.split sum.split body_limit_error.split)
  show "reports_failure (upstream_error_answer A r p status up bytes)"
    using assms by (simp add: reports_failure_def upstream_error_answer_def error_response_def Let_def)
qed

text \<open>The sums of times on the way to an answer, of which the timers are for streams and the other for what is kept.\<close>

definition clock_overflows :: "nat \<Rightarrow> client_request \<Rightarrow> planned_request \<Rightarrow> bool" where
  "clock_overflows later r p =
     (if wants_stream r then timers_of later p = None
      else (case pr_candidate (pl_prepared p) of
          Some captured \<Rightarrow> instant_add later (from_secs (bc_ttl_seconds captured)) = None
        | None \<Rightarrow> False))"

definition upstream_succeeds :: "upstream_outcome \<Rightarrow> bool" where
  "upstream_succeeds outcome = (case outcome of Replied status _ _ \<Rightarrow> is_success status | _ \<Rightarrow> False)"

lemma translated_panics:
  "answer_translated A later n r p up body s = None \<Longrightarrow> wants_stream r \<or> clock_overflows later r p"
  by (auto simp: answer_translated_def capture_answer_def clock_overflows_def Let_def
      dest!: capture_panics split: sum.splits option.splits bool.splits)

lemma panic_of_clock:
  assumes "answer_planned A F later n r p outcome s = None"
  shows "upstream_succeeds outcome \<and> clock_overflows later r p"
proof -
  from assms obtain status up b where o: "outcome = Replied status up b"
    by (cases outcome) (auto simp: answer_planned_def)
  show ?thesis
  proof (cases "wants_stream r")
    case True
    with assms o show ?thesis
      by (auto simp: answer_planned_def answer_stream_def upstream_succeeds_def clock_overflows_def
          split: if_splits option.splits)
  next
    case False
    with assms o obtain bytes where "answer_bytes A later n r p status up bytes s = None"
      by (auto simp: answer_planned_def answer_complete_def split: body_read.splits sum.splits body_limit_error.splits)
    then obtain body where "answer_translated A later n r p up body s = None" "is_success status"
      by (auto simp: answer_bytes_def split: if_splits option.splits)
    with translated_panics [of A later n r p up body s] False o show ?thesis by (simp add: upstream_succeeds_def)
  qed
qed

lemma planned_answer:
  assumes "answer_planned A F later n r p outcome s = Some (s', a)"
  shows "reports_failure a \<or> upstream_succeeds outcome"
proof (cases outcome)
  case (SendFailed e)
  with assms show ?thesis by (auto simp: answer_planned_def send_failure_def stream_error_fails error_answer_fails)
next
  case SendCancelled
  with assms show ?thesis by (auto simp: answer_planned_def closed_answer_fails)
next
  case (Replied status up b)
  show ?thesis
  proof (cases "is_success status")
    case False
    with assms Replied show ?thesis
      by (auto simp: answer_planned_def answer_stream_def answer_complete_def answer_bytes_def closed_answer_fails
          error_answer_fails upstream_error_fails split: if_splits body_read.splits sum.splits body_limit_error.splits)
  qed (simp add: Replied upstream_succeeds_def)
qed

text \<open>
  C33. What becomes of a request. Whatever the state of the server, the request, the stored conversations and
  the upstream's behaviour, there are three ends: the client gets an answer that reports a failure, as an
  error status or as a \<open>response.failed\<close> event; or it gets an answer after the upstream has answered the
  planned request with success; or the handler panics, and then only after such a success and because a
  time limit of the configuration reaches past the last \<open>Instant\<close>: a timer of the stream, or the time
  to live of the conversation. The \<open>expect\<close> on the levels of the upstream's dialect is never what
  panics. The hooks, traces and metrics around the exchange are not part of this.
\<close>

theorem every_request_is_answered:
  "case snd (handle_request_core A F net now later n r s) of
     Some a \<Rightarrow> reports_failure a
       \<or> (\<exists>p. snd (plan_request A now n r s) = Inr p \<and> upstream_succeeds (net (pl_client p) (pl_request p)))
   | None \<Rightarrow> \<exists>p. snd (plan_request A now n r s) = Inr p \<and> upstream_succeeds (net (pl_client p) (pl_request p))
       \<and> clock_overflows later r p"
proof -
  obtain s' planned where plan: "plan_request A now n r s = (s', planned)" by fastforce
  show ?thesis
  proof (cases planned)
    case (Inl e)
    with plan planning_never_panics [of A now n r s] have "is_refusal e" by simp
    with plan Inl show ?thesis by (cases e) (auto simp: handle_request_core_def error_answer_fails)
  next
    case (Inr p)
    with plan panic_of_clock [of A F later "Suc n" r p "net (pl_client p) (pl_request p)" s']
      planned_answer [of A F later "Suc n" r p "net (pl_client p) (pl_request p)" s']
    show ?thesis by (auto simp: handle_request_core_def split: option.split)
  qed
qed

text \<open>The configuration accepts limits with which the timers of no stream can be started.\<close>

lemma huge_limit_panics:
  "\<exists>l. validate_resource_limits l = Inr () \<and> stream_idle_timeout_secs l \<le> u64_max \<and> stream_timers now l = None"
  by (rule exI [of _ "default_resource_limits\<lparr>stream_idle_timeout_secs := u64_max\<rparr>"])
    (simp add: validate_resource_limits_def default_resource_limits_def must_be_positive_def stream_timers_def
      instant_add_def instant_limit_def from_secs_def u64_max_def)

section \<open>Errors of the upstream\<close>

text \<open>
  The body of an error is redacted as text and read as JSON after that. A message that spells a secret
  with JSON escapes passes the redaction, and the client gets it unescaped.
\<close>

lemma escaped_secret_passes_redaction:
  assumes "json_parse (ra_env A) text = Some v" "extract_error_message v = Some q" "trim q \<noteq> []"
    and "\<not> contains_internal_artifact_text q" "redact_all A r p text = text"
  shows "ne_message (normalize_upstream_error (ra_env A) status (public_error_body A r p label text)) = q"
  using assms by (auto simp: public_error_body_def normalize_upstream_error_def sanitize_public_error_message_def Let_def
      split: prod.split)

section \<open>Reasoning that is not to be shown\<close>

text \<open>An upstream whose dialect says \<open>reasoning_echo: false\<close> gets no request as it came, so that its answers are translated.\<close>

lemma silent_dialect_transforms:
  assumes "reasoning_echo_of (dialect_of_upstream (ro_upstream t)) = Some False"
  shows "rpi_processing (processing_of r t captured body) \<noteq> TransformationNotRequired"
  using assms by (auto simp: processing_of_def classify_request_processing_def request_transformation_required_def Let_def)

text \<open>The stream of an answer, though, is the same whatever the dialect says.\<close>

lemma streams_ignore_reasoning_echo:
  "stream_source_of r (p\<lparr>pl_prepared := (pl_prepared p)\<lparr>pr_dialect := d\<rparr>\<rparr>) = stream_source_of r p"
  by (simp add: stream_source_of_def forwards_def tool_bridge_value_def Let_def)

text \<open>A dialect that does not say whether its reasoning is shown lets it through, the one without reasoning too.\<close>

lemma unset_echo_is_shown:
  "pr_dialect (pl_prepared p) = Some \<lparr>db_reasoning = m, db_reasoning_echo = None, db_reasoning_levels = ls\<rparr> \<Longrightarrow>
     \<not> suppress_reasoning (response_context p)"
  by (simp add: response_context_def reasoning_echo_of_def suppress_reasoning_def with_reasoning_echo_def)

end
