(* ===== verification/Capture_Stream.thy ===== *)
theory Capture_Stream
  imports Stream_Driver Conversation_Bridge
begin

text \<open>
  The stream that keeps a streamed conversation (\<open>ConversationStateBridgeCaptureStream\<close> of
  src/src/server/proxy.rs) around the translating stream, and the stream that settles the metrics of a
  request (\<open>TrackedBodyStream\<close> of src/src/server/tracked_body.rs) around everything.
\<close>

section \<open>Capture\<close>

text \<open>The future that stores a conversation is its candidate and the response it is given.\<close>

type_synonym capture_job = "bridge_capture_candidate \<times> json"

record capture_stream =
  ct_inner :: "\<lparr>capture_disqualified :: bool\<rparr> buffered"
  ct_candidate :: "bridge_capture_candidate option"
  ct_commit :: "capture_job option"
  ct_pending :: "string option"
  ct_done :: bool

definition new_capture_stream :: "\<lparr>capture_disqualified :: bool\<rparr> buffered \<Rightarrow> bridge_capture_candidate \<Rightarrow> capture_stream" where
  "new_capture_stream inner c = \<lparr>ct_inner = inner, ct_candidate = Some c, ct_commit = None, ct_pending = None, ct_done = False\<rparr>"

text \<open>
  A poll of the future, which waits for the lock of the store, is through with its job, or panics
  (\<open>commit_capture\<close> is \<open>None\<close>). The job that is carried out is reported; its result is only logged.
  A poll of the stream that panics has no result.
\<close>

datatype commit_progress = Waiting | Through | Panicking

definition poll_commit ::
    "commit_progress \<Rightarrow> capture_job \<Rightarrow> capture_stream \<Rightarrow> poll_result option \<times> capture_stream \<times> capture_job option" where
  "poll_commit progress job s = (case progress of
      Waiting \<Rightarrow> (Some Pending, s, None)
    | Panicking \<Rightarrow> (None, s, None)
    | Through \<Rightarrow> (case ct_pending s of
          None \<Rightarrow> (Some EndOfStream, s\<lparr>ct_commit := None, ct_done := True\<rparr>, Some job)
        | Some bytes \<Rightarrow> (Some (Item bytes), s\<lparr>ct_commit := None, ct_pending := None\<rparr>, Some job)))"

text \<open>What a poll of the translating stream leads to.\<close>

definition after_inner ::
    "commit_progress \<Rightarrow> poll_result \<Rightarrow> capture_stream \<Rightarrow> poll_result option \<times> capture_stream \<times> capture_job option" where
  "after_inner progress result s = (case result of
      Item bytes \<Rightarrow> (case ct_candidate s of
          None \<Rightarrow> (Some (Item bytes), s, None)
        | Some c \<Rightarrow> (case take_terminal_response (snd (ct_inner s)) of
              (None, core) \<Rightarrow> (Some (Item bytes), s\<lparr>ct_inner := (fst (ct_inner s), core)\<rparr>, None)
            | (Some response, core) \<Rightarrow> poll_commit progress (c, response)
                (s\<lparr>ct_inner := (fst (ct_inner s), core), ct_candidate := None, ct_pending := Some bytes,
                   ct_commit := Some (c, response)\<rparr>)))
    | Pending \<Rightarrow> (Some Pending, s, None)
    | _ \<Rightarrow> (Some result, s\<lparr>ct_candidate := None, ct_done := True\<rparr>, None))"

text \<open>\<open>poll_next\<close>: the result, the ticks left, the state, the job carried out.\<close>

definition capture_poll ::
    "env \<Rightarrow> \<lparr>capture_disqualified :: bool\<rparr> driver \<Rightarrow> commit_progress \<Rightarrow> tick list \<Rightarrow> capture_stream \<Rightarrow>
       poll_result option \<times> tick list \<times> capture_stream \<times> capture_job option" where
  "capture_poll E d progress ticks s = (case ct_commit s of
      Some job \<Rightarrow> (case poll_commit progress job s of (r, s, j) \<Rightarrow> (r, ticks, s, j))
    | None \<Rightarrow>
        if ct_done s then (Some EndOfStream, ticks, s, None)
        else (case poll_next E d ticks (ct_inner s) of (inner, ticks, bc) \<Rightarrow>
          (case after_inner progress inner (s\<lparr>ct_inner := bc\<rparr>) of (r, s, j) \<Rightarrow> (r, ticks, s, j))))"

section \<open>What happens in which order\<close>

text \<open>
  A stream asks the translating stream, which answers and may have finished a response with the chunk it
  gives; it has a job carried out; it delivers.
\<close>

datatype capture_event = Asked poll_result "json option" | Stored capture_job | Delivered poll_result

definition opt_list :: "'a option \<Rightarrow> 'a list" where
  "opt_list x = (case x of None \<Rightarrow> [] | Some a \<Rightarrow> [a])"

text \<open>What the translating stream answers a poll of the stream, if it is asked.\<close>

definition asked ::
    "env \<Rightarrow> \<lparr>capture_disqualified :: bool\<rparr> driver \<Rightarrow> tick list \<Rightarrow> capture_stream \<Rightarrow> capture_event list" where
  "asked E d ticks s =
     (if ct_commit s \<noteq> None \<or> ct_done s then []
      else (case poll_next E d ticks (ct_inner s) of
          (Item b, _, bc) \<Rightarrow> [Asked (Item b) (fst (take_terminal_response (snd bc)))]
        | (r, _) \<Rightarrow> [Asked r None]))"

text \<open>One poll after the other, and all that happens; nobody polls after a panic.\<close>

fun capture_polls ::
    "env \<Rightarrow> \<lparr>capture_disqualified :: bool\<rparr> driver \<Rightarrow> commit_progress list \<Rightarrow> tick list \<Rightarrow> capture_stream \<Rightarrow> capture_event list \<Rightarrow>
       tick list \<times> capture_stream \<times> capture_event list" where
  "capture_polls E d [] ticks s log = (ticks, s, log)"
| "capture_polls E d (progress # polls) ticks s log = (case capture_poll E d progress ticks s of
     (r, ticks', s', j) \<Rightarrow>
       (let log' = log @ asked E d ticks s @ map Stored (opt_list j) @ map Delivered (opt_list r)
        in if r = None then (ticks', s', log') else capture_polls E d polls ticks' s' log'))"

fun asked_chunk :: "capture_event \<Rightarrow> string list" where
  "asked_chunk (Asked (Item b) _) = [b]"
| "asked_chunk _ = []"

fun delivered_chunk :: "capture_event \<Rightarrow> string list" where
  "delivered_chunk (Delivered (Item b)) = [b]"
| "delivered_chunk _ = []"

fun stored_job :: "capture_event \<Rightarrow> capture_job list" where
  "stored_job (Stored j) = [j]"
| "stored_job _ = []"

fun finished_response :: "capture_event \<Rightarrow> json list" where
  "finished_response (Asked _ (Some response)) = [response]"
| "finished_response _ = []"

definition asked_chunks :: "capture_event list \<Rightarrow> string list" where
  "asked_chunks log = concat (map asked_chunk log)"

definition delivered_chunks :: "capture_event list \<Rightarrow> string list" where
  "delivered_chunks log = concat (map delivered_chunk log)"

definition stored_jobs :: "capture_event list \<Rightarrow> capture_job list" where
  "stored_jobs log = concat (map stored_job log)"

definition finished_responses :: "capture_event list \<Rightarrow> json list" where
  "finished_responses log = concat (map finished_response log)"

text \<open>The first response that the translating stream has finished is stored.\<close>

definition first_is_stored :: "bridge_capture_candidate \<Rightarrow> capture_event list \<Rightarrow> bool" where
  "first_is_stored c log = (case finished_responses log of [] \<Rightarrow> True | response # _ \<Rightarrow> Stored (c, response) \<in> set log)"

definition stored_before_delivered :: "bridge_capture_candidate \<Rightarrow> capture_event list \<Rightarrow> bool" where
  "stored_before_delivered c log =
     (\<forall>before b after. log = before @ Delivered (Item b) # after \<longrightarrow> first_is_stored c before)"

lemma chunks_append [simp]:
  "asked_chunks (log @ log') = asked_chunks log @ asked_chunks log'"
  "delivered_chunks (log @ log') = delivered_chunks log @ delivered_chunks log'"
  "stored_jobs (log @ log') = stored_jobs log @ stored_jobs log'"
  "finished_responses (log @ log') = finished_responses log @ finished_responses log'"
  by (simp_all add: asked_chunks_def delivered_chunks_def stored_jobs_def finished_responses_def)

lemma chunks_simps [simp]:
  "asked_chunks [] = []" "delivered_chunks [] = []" "stored_jobs [] = []" "finished_responses [] = []"
  "asked_chunks (e # log) = asked_chunk e @ asked_chunks log"
  "delivered_chunks (e # log) = delivered_chunk e @ delivered_chunks log"
  "stored_jobs (e # log) = stored_job e @ stored_jobs log"
  "finished_responses (e # log) = finished_response e @ finished_responses log"
  by (simp_all add: asked_chunks_def delivered_chunks_def stored_jobs_def finished_responses_def)

lemma opt_list_simps [simp]: "opt_list None = []" "opt_list (Some a) = [a]"
  by (simp_all add: opt_list_def)

lemma stored_jobs_set: "j \<in> set (stored_jobs log) \<longleftrightarrow> Stored j \<in> set log"
proof (induction log)
  case (Cons e log)
  then show ?case by (cases e) auto
qed simp

lemma ordered_Nil: "stored_before_delivered c []"
  by (simp add: stored_before_delivered_def)

lemma ordered_snoc:
  "stored_before_delivered c (log @ [e]) \<longleftrightarrow>
     stored_before_delivered c log \<and> (case e of Delivered (Item b) \<Rightarrow> first_is_stored c log | _ \<Rightarrow> True)"
proof -
  have "stored_before_delivered c (log @ [e]) \<longleftrightarrow>
      stored_before_delivered c log \<and> (\<forall>b. e = Delivered (Item b) \<longrightarrow> first_is_stored c log)"
    unfolding stored_before_delivered_def
    by (auto simp: append_eq_append_conv2 append_eq_Cons_conv Cons_eq_append_conv)
      (metis append.assoc append_Cons append_self_conv butlast_snoc butlast_append list.distinct(1) snoc_eq_iff_butlast)+
  then show ?thesis by (auto split: capture_event.split poll_result.split)
qed

section \<open>What the client and the store get\<close>

text \<open>
  Where a stream with the candidate \<open>c\<close> stands: nothing is finished, a finished response waits for the
  store, or it has been stored; or the stream ended before.
\<close>

definition capture_place :: "bridge_capture_candidate \<Rightarrow> capture_stream \<Rightarrow> capture_event list \<Rightarrow> bool" where
  "capture_place c s log = (case (ct_candidate s, ct_commit s) of
      (Some c', commit) \<Rightarrow> c' = c \<and> commit = None \<and> stored_jobs log = [] \<and> finished_responses log = []
    | (None, Some job) \<Rightarrow> stored_jobs log = [] \<and> (\<exists>rs. finished_responses log = snd job # rs) \<and> fst job = c
    | (None, None) \<Rightarrow> stored_jobs log = [] \<and> finished_responses log = [] \<and> ct_done s
        \<or> (\<exists>response rs. stored_jobs log = [(c, response)] \<and> finished_responses log = response # rs))"

definition capture_inv :: "bridge_capture_candidate \<Rightarrow> capture_stream \<Rightarrow> capture_event list \<Rightarrow> bool" where
  "capture_inv c s log \<longleftrightarrow>
     asked_chunks log = delivered_chunks log @ opt_list (ct_pending s)
     \<and> (ct_commit s = None \<longleftrightarrow> ct_pending s = None)
     \<and> capture_place c s log \<and> stored_before_delivered c log"

lemma place_is_stored:
  "capture_place c s log \<Longrightarrow> ct_commit s = None \<Longrightarrow> first_is_stored c log"
  by (auto simp: capture_place_def first_is_stored_def stored_jobs_set [symmetric] split: option.splits)

lemma commit_keeps:
  assumes "capture_inv c s log" "ct_commit s = Some job" "poll_commit progress job s = (r, s', j)"
  shows "capture_inv c s' (log @ map Stored (opt_list j) @ map Delivered (opt_list r))"
proof -
  from assms(1,2) obtain b response rs where b: "ct_pending s = Some b" and cand: "ct_candidate s = None"
    and job: "job = (c, response)" and none: "stored_jobs log = []" and fin: "finished_responses log = response # rs"
    by (cases job) (auto simp: capture_inv_def capture_place_def split: option.splits)
  have ordered: "stored_before_delivered c log" using assms(1) by (simp add: capture_inv_def)
  show ?thesis
  proof (cases progress)
    case Waiting
    with assms(3) have r: "r = Some Pending" "s' = s" "j = None" by (auto simp: poll_commit_def)
    with assms(1) ordered_snoc [of c log "Delivered Pending"] show ?thesis
      by (simp add: capture_inv_def capture_place_def assms(2) cand job)
  next
    case Panicking
    with assms(1,3) show ?thesis by (simp add: poll_commit_def)
  next
    case Through
    with assms(3) have r: "r = Some (Item b)" "s' = s\<lparr>ct_commit := None, ct_pending := None\<rparr>" "j = Some job"
      by (auto simp: poll_commit_def b)
    have "stored_before_delivered c (log @ [Stored job])" using ordered by (simp add: ordered_snoc)
    moreover have "first_is_stored c (log @ [Stored job])" by (simp add: first_is_stored_def fin job)
    ultimately have "stored_before_delivered c ((log @ [Stored job]) @ [Delivered (Item b)])"
      by (simp only: ordered_snoc) simp
    with assms(1) show ?thesis by (auto simp: capture_inv_def capture_place_def r b cand job none fin)
  qed
qed

lemma quiet_keeps:
  assumes "stored_before_delivered c log" "finished_responses log = []"
  shows "stored_before_delivered c (log @ [Asked a None, Delivered r])"
proof -
  have "stored_before_delivered c (log @ [Asked a None])" using assms(1) by (simp add: ordered_snoc)
  moreover have "first_is_stored c (log @ [Asked a None])" by (simp add: first_is_stored_def assms(2))
  ultimately have "stored_before_delivered c ((log @ [Asked a None]) @ [Delivered r])"
    by (simp only: ordered_snoc) (simp split: poll_result.split)
  then show ?thesis by simp
qed

lemma stored_keeps:
  assumes "stored_before_delivered c log" "first_is_stored c (log @ [Asked a x])"
  shows "stored_before_delivered c (log @ [Asked a x, Delivered r])"
proof -
  have "stored_before_delivered c (log @ [Asked a x])" using assms(1) by (simp add: ordered_snoc)
  with assms(2) have "stored_before_delivered c ((log @ [Asked a x]) @ [Delivered r])"
    by (simp only: ordered_snoc) (simp split: poll_result.split)
  then show ?thesis by simp
qed

lemma no_chunk_keeps:
  assumes "stored_before_delivered c log" "\<And>b. r \<noteq> Item b"
  shows "stored_before_delivered c (log @ [Asked a x, Delivered r])"
proof -
  have "stored_before_delivered c (log @ [Asked a x])" using assms(1) by (simp add: ordered_snoc)
  with assms(2) have "stored_before_delivered c ((log @ [Asked a x]) @ [Delivered r])"
    by (simp only: ordered_snoc) (simp split: poll_result.split)
  then show ?thesis by simp
qed

lemma inner_keeps:
  assumes "capture_inv c s log" "ct_commit s = None" "\<not> ct_done s" "poll_next E d ticks (ct_inner s) = (inner, ts, bc)"
    "after_inner progress inner (s\<lparr>ct_inner := bc\<rparr>) = (r, s', j)"
  shows "capture_inv c s' (log @ asked E d ticks s @ map Stored (opt_list j) @ map Delivered (opt_list r))"
proof (cases inner)
  case (Item b)
  have pending: "ct_pending s = None" and chunks: "asked_chunks log = delivered_chunks log"
    and ordered: "stored_before_delivered c log" using assms(1,2) by (auto simp: capture_inv_def)
  obtain x core where take: "take_terminal_response (snd bc) = (x, core)" by fastforce
  have a: "asked E d ticks s = [Asked (Item b) x]" using assms(2-4) Item take by (simp add: asked_def)
  show ?thesis
  proof (cases "ct_candidate s")
    case None
    with assms(1-3) obtain response rs where kept: "stored_jobs log = [(c, response)]" "finished_responses log = response # rs"
      by (auto simp: capture_inv_def capture_place_def)
    have stored: "Stored (c, response) \<in> set log" using kept(1) by (simp add: stored_jobs_set [symmetric])
    have "first_is_stored c (log @ [Asked (Item b) x])" by (simp add: first_is_stored_def kept(2) stored)
    from stored_keeps [OF ordered this] None Item assms(2,5) pending chunks kept a show ?thesis
      by (auto simp: after_inner_def capture_inv_def capture_place_def)
  next
    case (Some c')
    with assms(1,2) have c': "c' = c" and none: "stored_jobs log = []" "finished_responses log = []"
      by (auto simp: capture_inv_def capture_place_def)
    show ?thesis
    proof (cases x)
      case None
      from quiet_keeps [OF ordered none(2)] Some None Item assms(2,5) take pending chunks c' none a show ?thesis
        by (auto simp: after_inner_def capture_inv_def capture_place_def)
    next
      case response: (Some response)
      let ?s = "s\<lparr>ct_inner := (fst bc, core), ct_candidate := None, ct_pending := Some b, ct_commit := Some (c, response)\<rparr>"
      have "capture_inv c ?s (log @ [Asked (Item b) (Some response)])"
        using chunks none ordered by (simp add: capture_inv_def capture_place_def ordered_snoc)
      moreover have "poll_commit progress (c, response) ?s = (r, s', j)"
        using assms(5) Item Some c' take response by (simp add: after_inner_def)
      ultimately have "capture_inv c s' ((log @ [Asked (Item b) (Some response)]) @ map Stored (opt_list j) @ map Delivered (opt_list r))"
        by (intro commit_keeps) auto
      then show ?thesis by (simp add: a response)
    qed
  qed
next
  case (ItemError e)
  with assms no_chunk_keeps [of c log inner inner None] show ?thesis
    by (auto simp: after_inner_def capture_inv_def capture_place_def asked_def split: option.splits)
next
  case EndOfStream
  with assms no_chunk_keeps [of c log inner inner None] show ?thesis
    by (auto simp: after_inner_def capture_inv_def capture_place_def asked_def split: option.splits)
next
  case Pending
  with assms no_chunk_keeps [of c log inner inner None] show ?thesis
    by (auto simp: after_inner_def capture_inv_def capture_place_def asked_def split: option.splits)
qed

lemma capture_poll_keeps:
  assumes "capture_inv c s log" "capture_poll E d progress ticks s = (r, ticks', s', j)"
  shows "capture_inv c s' (log @ asked E d ticks s @ map Stored (opt_list j) @ map Delivered (opt_list r))"
proof (cases "ct_commit s")
  case (Some job)
  with assms(2) have "poll_commit progress job s = (r, s', j)" by (auto simp: capture_poll_def split: prod.splits)
  with commit_keeps [OF assms(1) Some] Some show ?thesis by (simp add: asked_def)
next
  case None
  show ?thesis
  proof (cases "ct_done s")
    case True
    with None assms ordered_snoc [of c log "Delivered EndOfStream"] show ?thesis
      by (auto simp: capture_poll_def capture_inv_def capture_place_def asked_def split: option.splits)
  next
    case False
    obtain i ts bc where inner: "poll_next E d ticks (ct_inner s) = (i, ts, bc)" by (metis prod_cases3)
    with None False assms(2) have "after_inner progress i (s\<lparr>ct_inner := bc\<rparr>) = (r, s', j)"
      by (auto simp: capture_poll_def split: prod.splits)
    from inner_keeps [OF assms(1) None False inner this] show ?thesis .
  qed
qed

lemma polls_keep: "capture_inv c s log \<Longrightarrow> capture_polls E d polls ticks s log = (ticks', s', log') \<Longrightarrow> capture_inv c s' log'"
proof (induction polls arbitrary: ticks s log)
  case (Cons progress polls)
  obtain r ts s1 j where poll: "capture_poll E d progress ticks s = (r, ts, s1, j)" by (metis prod_cases4)
  from capture_poll_keeps [OF Cons.prems(1) poll] Cons.prems(2) Cons.IH show ?case
    by (auto simp: poll Let_def split: if_splits)
qed simp

lemma new_stream_inv: "capture_inv c (new_capture_stream inner c) []"
  by (simp add: capture_inv_def capture_place_def new_capture_stream_def ordered_Nil)

text \<open>
  C34. A streamed conversation is kept before the client can see that it is complete. However the stream is
  polled, it passes on the chunks of the translating stream in order, holding back at most the one that
  waits for the store; it has at most one response stored, under the candidate of its request; and each
  chunk is delivered only after the first response that the translating stream had finished until then, if
  it had finished one, has been handed to the store.
\<close>

theorem streamed_conversation_is_kept_first:
  assumes "capture_polls E d polls ticks (new_capture_stream inner c) [] = (ticks', s, log)"
  shows "asked_chunks log = delivered_chunks log @ opt_list (ct_pending s)
    \<and> length (stored_jobs log) \<le> 1 \<and> (\<forall>(c', _) \<in> set (stored_jobs log). c' = c)
    \<and> stored_before_delivered c log"
proof -
  have inv: "capture_inv c s log" by (rule polls_keep [OF new_stream_inv assms])
  then have "length (stored_jobs log) \<le> 1 \<and> (\<forall>(c', _) \<in> set (stored_jobs log). c' = c)"
    by (auto simp: capture_inv_def capture_place_def split: option.splits)
  with inv show ?thesis by (auto simp: capture_inv_def)
qed

text \<open>A finished response waits one poll for the lock of the store; its last frame follows once it is stored.\<close>

definition finished_core :: translate_core where
  "finished_core = (new_translate_core (default_state\<lparr>responses_terminal_response := Some JNull\<rparr>))
     \<lparr>output_queue := [Raw ''x'']\<rparr>"

lemma streamed_conversation_is_kept_first_witness:
  "\<forall>c d. \<exists>s log. capture_polls example_env d [Waiting, Through] [] (new_capture_stream ([], finished_core) c) [] = ([], s, log)
     \<and> log = [Asked (Item ''x'') (Some JNull), Delivered Pending, Stored (c, JNull), Delivered (Item ''x'')]
     \<and> ct_pending s = None \<and> stored_before_delivered c log"
proof (intro allI)
  fix c :: bridge_capture_candidate and d :: "\<lparr>capture_disqualified :: bool\<rparr> driver"
  let ?start = "new_capture_stream ([], finished_core) c"
  obtain s log where run: "capture_polls example_env d [Waiting, Through] [] ?start [] = ([], s, log)"
      and log: "log = [Asked (Item ''x'') (Some JNull), Delivered Pending, Stored (c, JNull), Delivered (Item ''x'')]"
    by (simp add: capture_poll_def poll_next.simps take_output_def finished_core_def new_translate_core_def new_core_def
        new_capture_stream_def after_inner_def take_terminal_response_def poll_commit_def asked_def Let_def)
  from streamed_conversation_is_kept_first [OF run] have "[''x''] = [''x''] @ opt_list (ct_pending s)"
    and "stored_before_delivered c log" unfolding log by auto
  with run log show "\<exists>s log. capture_polls example_env d [Waiting, Through] [] ?start [] = ([], s, log)
     \<and> log = [Asked (Item ''x'') (Some JNull), Delivered Pending, Stored (c, JNull), Delivered (Item ''x'')]
     \<and> ct_pending s = None \<and> stored_before_delivered c log" by (cases "ct_pending s") auto
qed

section \<open>Settling the metrics\<close>

datatype tracker_end = FinishedSuccess nat | FinishedError nat | FinishedCancelled

record tracked_body =
  tb_tracked :: bool
  tb_status :: nat

definition new_tracked_body :: "nat \<Rightarrow> tracked_body" where
  "new_tracked_body status = \<lparr>tb_tracked = True, tb_status = status\<rparr>"

text \<open>The tracker is taken by the first thing that ends the stream.\<close>

definition settle :: "tracker_end \<Rightarrow> tracked_body \<Rightarrow> tracked_body \<times> tracker_end option" where
  "settle e s = (s\<lparr>tb_tracked := False\<rparr>, if tb_tracked s then Some e else None)"

definition end_of_status :: "nat \<Rightarrow> tracker_end" where
  "end_of_status status = (if 200 \<le> status \<and> status < 400 then FinishedSuccess status else FinishedError status)"

text \<open>\<open>poll_next\<close>: whether the client has gone, and what the inner stream answers when it is asked.\<close>

definition tracked_poll :: "bool \<Rightarrow> poll_result \<Rightarrow> tracked_body \<Rightarrow> poll_result \<times> tracked_body \<times> tracker_end option" where
  "tracked_poll cancelled inner s =
     (if cancelled then (EndOfStream, settle FinishedCancelled s)
      else (case inner of
          Item bytes \<Rightarrow> (Item bytes, s, None)
        | ItemError e \<Rightarrow> (ItemError e, settle (FinishedError 502) s)
        | EndOfStream \<Rightarrow> (EndOfStream, settle (end_of_status (tb_status s)) s)
        | Pending \<Rightarrow> (Pending, s, None)))"

definition drop_tracked :: "tracked_body \<Rightarrow> tracked_body \<times> tracker_end option" where
  "drop_tracked s = settle FinishedCancelled s"

text \<open>
  \<open>ResourceLimitedStream\<close>, which sits below on forwarded streams: a timer that has expired ends the stream,
  and a chunk starts the idle timer again.
\<close>

definition resource_limited_poll :: "bool \<Rightarrow> poll_result \<Rightarrow> poll_result \<times> bool" where
  "resource_limited_poll expired inner =
     (if expired then (EndOfStream, False) else (inner, case inner of Item _ \<Rightarrow> True | _ \<Rightarrow> False))"

text \<open>The life of a stream: its polls, then its drop; every end that is reported to the metrics.\<close>

fun tracked_life :: "(bool \<times> poll_result) list \<Rightarrow> tracked_body \<Rightarrow> tracker_end list" where
  "tracked_life [] s = opt_list (snd (drop_tracked s))"
| "tracked_life ((cancelled, inner) # polls) s = (case tracked_poll cancelled inner s of
     (_, s, e) \<Rightarrow> opt_list e @ tracked_life polls s)"

text \<open>What ended the stream: the first poll that did, or its drop.\<close>

fun first_end :: "nat \<Rightarrow> (bool \<times> poll_result) list \<Rightarrow> tracker_end" where
  "first_end status [] = FinishedCancelled"
| "first_end status ((cancelled, inner) # polls) =
     (if cancelled then FinishedCancelled
      else (case inner of
          ItemError e \<Rightarrow> FinishedError 502
        | EndOfStream \<Rightarrow> end_of_status status
        | _ \<Rightarrow> first_end status polls))"

lemma settled_reports_nothing: "\<not> tb_tracked s \<Longrightarrow> tracked_life polls s = []"
  by (induction polls s rule: tracked_life.induct)
    (auto simp: drop_tracked_def settle_def tracked_poll_def split: poll_result.splits)

lemma unsettled_reports_first_end: "tb_tracked s \<Longrightarrow> tracked_life polls s = [first_end (tb_status s) polls]"
  by (induction polls s rule: tracked_life.induct)
    (auto simp: drop_tracked_def settle_def tracked_poll_def settled_reports_nothing split: poll_result.splits)

text \<open>
  Every streamed answer is counted exactly once, however it ends: whatever polls are made of the
  stream, in whatever order the client leaves, the upstream fails and the stream is dropped, the metrics
  get one end, and it is the first thing that ended the stream.
\<close>

theorem stream_is_counted_once: "tracked_life polls (new_tracked_body status) = [first_end status polls]"
  using unsettled_reports_first_end [of "new_tracked_body status"] by (simp add: new_tracked_body_def)

end
