(* ===== verification/Models.thy ===== *)
theory Models
  imports Request_Answer Media
begin

text \<open>
  What clients are told about the models of a namespace: the profiles and the Codex catalog
  (src/src/user_tools/agent_model_profile.rs) and the endpoints that list models
  (src/src/server/models.rs). Writing the catalog to a file is I/O.
\<close>

section \<open>Serialisation\<close>

text \<open>The derived serialisers leave absent fields out.\<close>

definition present :: "(string \<times> json option) list \<Rightarrow> json" where
  "present kvs = jobj (List.map_filter (\<lambda>(k, v). map_option (Pair k) v) kvs)"

fun modality_name :: "model_modality \<Rightarrow> string" where
  "modality_name Text = ''text''"
| "modality_name Image = ''image''"
| "modality_name Audio = ''audio''"
| "modality_name Pdf = ''pdf''"
| "modality_name File = ''file''"
| "modality_name Video = ''video''"

fun apply_patch_transport_name :: "apply_patch_transport \<Rightarrow> string" where
  "apply_patch_transport_name Function = ''function''"
| "apply_patch_transport_name Freeform = ''freeform''"

definition modalities_list :: "model_modality list \<Rightarrow> json" where
  "modalities_list ms = JArr (map (\<lambda>m. JStr (modality_name m)) ms)"

definition limits_value :: "model_limits \<Rightarrow> json" where
  "limits_value l = present [(''context_window'', map_option jnat (context_window l)),
     (''max_output_tokens'', map_option jnat (max_output_tokens l))]"

definition modalities_value :: "model_modalities \<Rightarrow> json" where
  "modalities_value m = present [(''input'', map_option modalities_list (input_modalities m)),
     (''output'', map_option modalities_list (output_modalities m))]"

definition tool_surface_value :: "model_tool_surface \<Rightarrow> json" where
  "tool_surface_value t = present [(''supports_search'', map_option JBool (supports_search t)),
     (''supports_view_image'', map_option JBool (supports_view_image t)),
     (''apply_patch_transport'', map_option (\<lambda>x. JStr (apply_patch_transport_name x)) (apply_patch_transport t)),
     (''supports_parallel_calls'', map_option JBool (supports_parallel_calls t))]"

definition surface_value :: "model_surface \<Rightarrow> json" where
  "surface_value s = present [(''limits'', map_option limits_value (surface_limits s)),
     (''modalities'', map_option modalities_value (surface_modalities s)),
     (''tools'', map_option tool_surface_value (surface_tools s))]"

section \<open>Profiles\<close>

record agent_model_profile =
  pf_alias :: string
  pf_upstream_format :: "upstream_format option"
  pf_limits :: "model_limits option"
  pf_surface :: model_surface
  pf_codex_auto_compact_token_limit :: "nat option"

text \<open>85 percent, in 128 bit arithmetic, which cannot overflow.\<close>

definition calculate_codex_auto_compact_token_limit :: "nat \<Rightarrow> nat" where
  "calculate_codex_auto_compact_token_limit input_budget = input_budget * 85 div 100"

definition codex_auto_compact_token_limit :: "string \<Rightarrow> model_limits option \<Rightarrow> string + nat option" where
  "codex_auto_compact_token_limit alias limits = (case Option.bind limits context_window of
      None \<Rightarrow> Inr None
    | Some window \<Rightarrow> (case Option.bind limits max_output_tokens of
          None \<Rightarrow> Inr (Some (calculate_codex_auto_compact_token_limit window))
        | Some most \<Rightarrow>
            if window \<le> most
            then Inl (''model alias `'' @ alias @ ''` max_output_tokens ('' @ nat_str most
              @ '') must be less than context_window ('' @ nat_str window @ '') for Codex auto compact'')
            else Inr (Some (calculate_codex_auto_compact_token_limit (window - most)))))"

definition codex_auto_compact_token_limit_for_profile :: "model_limits option \<Rightarrow> nat option" where
  "codex_auto_compact_token_limit_for_profile limits = Option.bind limits (\<lambda>l. Option.bind (context_window l) (\<lambda>window.
     case max_output_tokens l of
       None \<Rightarrow> Some (calculate_codex_auto_compact_token_limit window)
     | Some most \<Rightarrow> if window \<le> most then None else Some (calculate_codex_auto_compact_token_limit (window - most))))"

definition profile_from_config :: "config \<Rightarrow> string \<Rightarrow> string + agent_model_profile" where
  "profile_from_config c alias = (case map_of (model_aliases c) alias of
      None \<Rightarrow> Inl (''unknown model alias `'' @ alias @ ''`'')
    | Some a \<Rightarrow>
       (let surface = effective_model_surface c a
        in Inr \<lparr>pf_alias = alias,
             pf_upstream_format = Option.bind (find_upstream c (al_upstream_name a)) up_fixed_format,
             pf_limits = surface_limits surface, pf_surface = surface,
             pf_codex_auto_compact_token_limit = codex_auto_compact_token_limit_for_profile (surface_limits surface)\<rparr>))"

definition claude_auto_compact_window :: "agent_model_profile \<Rightarrow> nat option" where
  "claude_auto_compact_window p = Option.bind (pf_limits p) context_window"

definition claude_max_output_tokens :: "agent_model_profile \<Rightarrow> nat option" where
  "claude_max_output_tokens p = Option.bind (pf_limits p) max_output_tokens"

record agent_model_catalog =
  ac_selected :: agent_model_profile
  ac_profiles :: "agent_model_profile list"

definition selected_alias_error :: "config \<Rightarrow> string \<Rightarrow> string" where
  "selected_alias_error c alias =
     (if alias = ''main'' \<and> map_of (model_aliases c) ''main'' = None \<and> map_of (model_aliases c) ''default'' \<noteq> None
      then ''default llmup model alias `main` was not found, and this config still has the legacy alias `default`; rename the `default` alias to `main` in your proxy config (`model_aliases`). Pass the legacy alias only when you intentionally want it.''
      else ''unknown llmup model alias `'' @ alias @ ''`; check the `model_aliases` in your proxy config'')"

definition catalog_from_config :: "config \<Rightarrow> string \<Rightarrow> string + agent_model_catalog" where
  "catalog_from_config c alias = (case profile_from_config c alias of
      Inl _ \<Rightarrow> Inl (selected_alias_error c alias)
    | Inr selected \<Rightarrow> res_bind (res_map (profile_from_config c) (map fst (model_aliases c)))
        (\<lambda>profiles. Inr \<lparr>ac_selected = selected, ac_profiles = profiles\<rparr>))"

definition has_alias :: "agent_model_catalog \<Rightarrow> string \<Rightarrow> bool" where
  "has_alias catalog alias = list_ex (\<lambda>p. pf_alias p = alias) (ac_profiles catalog)"

section \<open>The Codex catalog\<close>

definition artifact_char :: "char \<Rightarrow> bool" where
  "artifact_char c = (let n = of_char c :: nat in 48 \<le> n \<and> n \<le> 57 \<or> 65 \<le> n \<and> n \<le> 90 \<or> 97 \<le> n \<and> n \<le> 122
     \<or> c \<in> {CHR ''_'', CHR '':'', CHR ''-''})"

definition codex_base_instructions :: string where
  "codex_base_instructions = ''You are Codex, a coding agent based on GPT-5. You and the user share the same workspace and collaborate to achieve the user''
     @ [CHR 0x27] @ ''s goals.''"

definition reasoning_level_entry :: "string \<Rightarrow> string \<Rightarrow> json" where
  "reasoning_level_entry effort description = jobj [(''effort'', JStr effort), (''description'', JStr description)]"

definition default_codex_catalog_entry :: "string \<Rightarrow> (string \<times> json) list" where
  "default_codex_catalog_entry alias =
     [(''slug'', JStr alias), (''display_name'', JStr alias), (''description'', JStr (''llmup proxy model '' @ alias)),
      (''supported_reasoning_levels'', JArr
        [reasoning_level_entry ''low'' ''Fast responses with lighter reasoning'',
         reasoning_level_entry ''medium'' ''Balanced reasoning depth for everyday work'',
         reasoning_level_entry ''high'' ''Greater reasoning depth for harder problems'',
         reasoning_level_entry ''xhigh'' ''Maximum reasoning depth for complex problems'']),
      (''shell_type'', JStr ''shell_command''), (''visibility'', JStr ''list''), (''supported_in_api'', JBool True),
      (''priority'', jnat 0), (''base_instructions'', JStr codex_base_instructions),
      (''supports_reasoning_summaries'', JBool False), (''support_verbosity'', JBool False),
      (''truncation_policy'', jobj [(''mode'', JStr ''bytes''), (''limit'', jnat 10000)]),
      (''apply_patch_tool_type'', JStr ''freeform''), (''supports_parallel_tool_calls'', JBool False),
      (''experimental_supported_tools'', JArr [])]"

definition codex_input_modalities :: "agent_model_profile \<Rightarrow> model_modality list option" where
  "codex_input_modalities p = (case Option.bind (surface_modalities (pf_surface p)) input_modalities of
      Some input \<Rightarrow> Some input
    | None \<Rightarrow> if Option.bind (surface_tools (pf_surface p)) supports_view_image = Some False then Some [Text] else None)"

text \<open>The fields that replace or join the defaults; \<open>insert\<close> keeps the last value of a key.\<close>

definition codex_catalog_fields :: "agent_model_profile \<Rightarrow> nat option \<Rightarrow> (string \<times> json) list" where
  "codex_catalog_fields p compact =
     (case Option.bind (pf_limits p) context_window of
        None \<Rightarrow> []
      | Some window \<Rightarrow> (''context_window'', jnat window)
          # (case compact of Some n \<Rightarrow> [(''auto_compact_token_limit'', jnat n)] | None \<Rightarrow> []))
     @ (case codex_input_modalities p of Some ms \<Rightarrow> [(''input_modalities'', modalities_list ms)] | None \<Rightarrow> [])
     @ (case surface_tools (pf_surface p) of
          None \<Rightarrow> []
        | Some t \<Rightarrow>
            (case supports_search t of Some b \<Rightarrow> [(''supports_search_tool'', JBool b)] | None \<Rightarrow> [])
            @ (case apply_patch_transport t of Some _ \<Rightarrow> [(''apply_patch_tool_type'', JStr ''freeform'')] | None \<Rightarrow> [])
            @ (case supports_parallel_calls t of Some b \<Rightarrow> [(''supports_parallel_tool_calls'', JBool b)] | None \<Rightarrow> []))"

definition codex_catalog_entry :: "agent_model_profile \<Rightarrow> string + json" where
  "codex_catalog_entry p = (case codex_auto_compact_token_limit (pf_alias p) (pf_limits p) of
      Inl e \<Rightarrow> Inl e
    | Inr compact \<Rightarrow> Inr (jobj (default_codex_catalog_entry (pf_alias p) @ codex_catalog_fields p compact)))"

definition reject_internal_tool_artifacts :: "env \<Rightarrow> json \<Rightarrow> string \<Rightarrow> string + unit" where
  "reject_internal_tool_artifacts E v context = (case str_find (json_text E v) ''__llmup_custom__'' of
      None \<Rightarrow> Inr ()
    | Some n \<Rightarrow> Inl (context @ '' must not expose reserved internal tool artifact ''
        @ takeWhile artifact_char (drop n (json_text E v))))"

definition build_codex_model_catalog_for_profiles :: "env \<Rightarrow> agent_model_profile list \<Rightarrow> string + json" where
  "build_codex_model_catalog_for_profiles E profiles =
     (if profiles = [] then Inl ''codex model catalog requires at least one model alias''
      else res_bind (res_map codex_catalog_entry profiles) (\<lambda>models.
        let payload = jobj [(''models'', JArr models)]
        in res_bind (reject_internal_tool_artifacts E payload ''codex model catalog'') (\<lambda>_. Inr payload)))"

definition build_codex_model_catalog :: "env \<Rightarrow> agent_model_profile \<Rightarrow> string + json" where
  "build_codex_model_catalog E profile = build_codex_model_catalog_for_profiles E [profile]"

definition res_ok :: "'e + 'a \<Rightarrow> 'a option" where
  "res_ok r = (case r of Inl _ \<Rightarrow> None | Inr a \<Rightarrow> Some a)"

text \<open>An alias without an entry is skipped; the check for artifacts is made and its result dropped.\<close>

definition build_codex_model_catalog_for_config :: "config \<Rightarrow> json" where
  "build_codex_model_catalog_for_config c = jobj [(''models'', JArr
     (List.map_filter (\<lambda>p. res_ok (codex_catalog_entry p))
       (List.map_filter (\<lambda>a. res_ok (profile_from_config c a)) (map fst (model_aliases c)))))]"

section \<open>Model endpoints\<close>

definition synthetic_model_alias :: "config \<Rightarrow> string \<Rightarrow> (string \<times> model_alias) option" where
  "synthetic_model_alias c i = (case map_of (model_aliases c) i of
      Some target \<Rightarrow> Some (i, target)
    | None \<Rightarrow> (case resolve_model c i of
          Inl _ \<Rightarrow> None
        | Inr m \<Rightarrow> Some (i, \<lparr>al_upstream_name = rm_upstream_name m, al_upstream_model = rm_upstream_model m,
                            al_limits = None, al_surface = None\<rparr>)))"

definition public_model_metadata :: "config \<Rightarrow> model_alias \<Rightarrow> model_limits option \<times> model_surface \<times> json" where
  "public_model_metadata c target =
     (let limits = effective_model_limits c target; surface = effective_model_surface c target
      in (limits, surface, jobj [(''upstream_name'', JStr (al_upstream_name target)),
            (''upstream_model'', JStr (al_upstream_model target)),
            (''limits'', jopt (map_option limits_value limits)), (''surface'', surface_value surface)]))"

definition is_codex_user_agent :: "to_str \<Rightarrow> header_map \<Rightarrow> bool" where
  "is_codex_user_agent T headers = (case get_all headers ''user-agent'' of
      v # _ \<Rightarrow> (case T v of Some ua \<Rightarrow> str_contains (to_ascii_lowercase ua) ''codex'' | None \<Rightarrow> False)
    | [] \<Rightarrow> False)"

definition openai_model_value :: "config \<Rightarrow> string \<Rightarrow> model_alias \<Rightarrow> json" where
  "openai_model_value c i target = (case public_model_metadata c target of (_, _, metadata) \<Rightarrow>
     jobj [(''id'', JStr i), (''object'', JStr ''model''), (''created'', jnat 0), (''owned_by'', JStr ''llmup''),
           (''llmup'', metadata)])"

definition openai_model_list :: "config \<Rightarrow> json" where
  "openai_model_list c = jobj [(''object'', JStr ''list''),
     (''data'', JArr (map (\<lambda>(alias, target). openai_model_value c alias target) (model_aliases c)))]"

definition openai_model_object :: "config \<Rightarrow> string \<Rightarrow> json option" where
  "openai_model_object c i = map_option (\<lambda>(i, target). openai_model_value c i target) (synthetic_model_alias c i)"

definition anthropic_model_value :: "config \<Rightarrow> string \<Rightarrow> model_alias \<Rightarrow> json" where
  "anthropic_model_value c i target = (case public_model_metadata c target of (limits, _, metadata) \<Rightarrow>
     jobj ([(''id'', JStr i), (''type'', JStr ''model''), (''display_name'', JStr i),
            (''created_at'', JStr ''1970-01-01T00:00:00Z''), (''llmup'', metadata)]
       @ (case Option.bind limits context_window of Some n \<Rightarrow> [(''max_input_tokens'', jnat n)] | None \<Rightarrow> [])
       @ (case Option.bind limits max_output_tokens of Some n \<Rightarrow> [(''max_tokens'', jnat n)] | None \<Rightarrow> [])))"

definition model_id_at :: "json list \<Rightarrow> string" where
  "model_id_at models = (case models of m # _ \<Rightarrow> unwrap_or (jget_str m ''id'') [] | [] \<Rightarrow> [])"

definition anthropic_model_list :: "config \<Rightarrow> json" where
  "anthropic_model_list c =
     (let models = map (\<lambda>(alias, target). anthropic_model_value c alias target) (model_aliases c)
      in jobj [(''data'', JArr models), (''has_more'', JBool False), (''first_id'', JStr (model_id_at models)),
               (''last_id'', JStr (model_id_at (rev models)))])"

definition anthropic_model_object :: "config \<Rightarrow> string \<Rightarrow> json option" where
  "anthropic_model_object c i = map_option (\<lambda>(i, target). anthropic_model_value c i target) (synthetic_model_alias c i)"

definition namespace_config :: "runtime_state request_auth_context \<Rightarrow> string \<Rightarrow> config option" where
  "namespace_config c namespace = map_option ns_config (map_of (rac_runtime c) namespace)"

definition redactor_for_model_request :: "to_str \<Rightarrow> runtime_state request_auth_context \<Rightarrow> string list" where
  "redactor_for_model_request T c = redactor_for_request T c []"

text \<open>The list of a namespace and one of its models, in the words of a protocol.\<close>

definition models_answer ::
    "request_api \<Rightarrow> upstream_format \<Rightarrow> (config \<Rightarrow> json) \<Rightarrow> runtime_state request_auth_context \<Rightarrow> string \<Rightarrow> header_map \<Rightarrow> http_answer" where
  "models_answer A client listing c namespace headers =
     (let redactor = redactor_for_model_request (ra_to_str A) c
      in case namespace_config c namespace of
           None \<Rightarrow> json_answer (redacted_error_response (ra_env A) client 404 ''namespace not found'' redactor)
         | Some config \<Rightarrow> json_answer (200, redact_value redactor
             (if is_codex_user_agent (ra_to_str A) headers then build_codex_model_catalog_for_config config else listing config)))"

definition model_answer ::
    "request_api \<Rightarrow> upstream_format \<Rightarrow> (config \<Rightarrow> string \<Rightarrow> json option) \<Rightarrow> runtime_state request_auth_context \<Rightarrow> string \<Rightarrow> string \<Rightarrow>
       http_answer" where
  "model_answer A client lookup c namespace i =
     (let redactor = redactor_for_model_request (ra_to_str A) c
      in case namespace_config c namespace of
           None \<Rightarrow> json_answer (redacted_error_response (ra_env A) client 404 ''namespace not found'' redactor)
         | Some config \<Rightarrow> (case lookup config i of
               Some found \<Rightarrow> json_answer (200, redact_value redactor found)
             | None \<Rightarrow> json_answer (redacted_error_response (ra_env A) client 404 (''model `'' @ i @ ''` not found'') redactor)))"

definition handle_openai_models_inner where
  "handle_openai_models_inner A c namespace headers = models_answer A OpenAiChatCompletions openai_model_list c namespace headers"

definition handle_openai_model_inner where
  "handle_openai_model_inner A c namespace i = model_answer A OpenAiChatCompletions openai_model_object c namespace i"

definition handle_anthropic_models_inner where
  "handle_anthropic_models_inner A c namespace headers = models_answer A Anthropic anthropic_model_list c namespace headers"

definition handle_anthropic_model_inner where
  "handle_anthropic_model_inner A c namespace i = model_answer A Anthropic anthropic_model_object c namespace i"

section \<open>What clients can rely on\<close>

text \<open>A listed model is found under its id, with the entry of the list.\<close>

lemma listed_model_is_found:
  assumes "(alias, target) \<in> set (model_aliases c)" "distinct (map fst (model_aliases c))"
  shows "openai_model_object c alias = Some (openai_model_value c alias target)
    \<and> anthropic_model_object c alias = Some (anthropic_model_value c alias target)"
  using assms by (simp add: openai_model_object_def anthropic_model_object_def synthetic_model_alias_def)

lemma compaction_below_budget: "0 < b \<Longrightarrow> calculate_codex_auto_compact_token_limit b < b"
  by (simp add: calculate_codex_auto_compact_token_limit_def)

text \<open>Codex is told to compact before what it sends and the longest answer fill the window of the model.\<close>

lemma codex_compacts_in_time:
  assumes "codex_auto_compact_token_limit alias (Some l) = Inr (Some n)" "context_window l = Some window" "0 < window"
  shows "n + unwrap_or (max_output_tokens l) 0 < window"
proof (cases "max_output_tokens l")
  case None
  with assms compaction_below_budget [of window] show ?thesis by (simp add: codex_auto_compact_token_limit_def)
next
  case (Some most)
  with assms have "most < window" "n = calculate_codex_auto_compact_token_limit (window - most)"
    by (auto simp: codex_auto_compact_token_limit_def split: if_splits)
  with compaction_below_budget [of "window - most"] Some show ?thesis by simp
qed

lemma profile_limit_agrees:
  "codex_auto_compact_token_limit_for_profile limits
     = (case codex_auto_compact_token_limit alias limits of Inl _ \<Rightarrow> None | Inr n \<Rightarrow> n)"
  by (cases limits) (auto simp: codex_auto_compact_token_limit_for_profile_def codex_auto_compact_token_limit_def
    split: option.split)

end
