(* ===== verification/Responses_Resources.thy ===== *)
theory Responses_Resources
  imports Request_Answer
begin

text \<open>
  The lifecycle endpoints of stored responses and conversations (src/src/server/responses_resources.rs): they
  are passed on to the one upstream of the namespace that keeps such state, under a path built from the
  ids in the request. Trackers and logs are left out; \<open>None\<close> is the panic of a timer that reaches past the
  last \<open>Instant\<close>.
\<close>

section \<open>Paths\<close>

definition path_char :: "char \<Rightarrow> bool" where
  "path_char c = (let n = of_char c :: nat in 65 \<le> n \<and> n \<le> 90 \<or> 97 \<le> n \<and> n \<le> 122 \<or> 48 \<le> n \<and> n \<le> 57
     \<or> c \<in> set ''-._~!$&()*+,;=:@'' \<or> n = 0x27)"

definition hex_upper :: "nat \<Rightarrow> char" where
  "hex_upper n = ''0123456789ABCDEF'' ! n"

definition percent_byte :: "char \<Rightarrow> string" where
  "percent_byte c = [CHR ''%'', hex_upper (of_char c div 16), hex_upper (of_char c mod 16)]"

definition encode_resource_path_segment :: "string \<Rightarrow> string" where
  "encode_resource_path_segment segment =
     (if segment = ''.'' then ''%2E'' else if segment = ''..'' then ''%2E%2E''
      else concat (map (\<lambda>c. if path_char c then [c] else percent_byte c) segment))"

definition resource_path_is_response_retrieve :: "string \<Rightarrow> bool" where
  "resource_path_is_response_retrieve path = (case strip_prefix ''responses/'' path of
      None \<Rightarrow> False | Some response_id \<Rightarrow> response_id \<noteq> [] \<and> CHR ''/'' \<notin> set response_id)"

text \<open>\<open>form_urlencoded::parse\<close> is the parameter \<open>Q\<close>.\<close>

definition is_streamed_responses_retrieve :: "(string \<Rightarrow> (string \<times> string) list) \<Rightarrow> string \<Rightarrow> string \<Rightarrow> string option \<Rightarrow> bool" where
  "is_streamed_responses_retrieve Q method path query =
     (method = ''GET'' \<and> resource_path_is_response_retrieve path
      \<and> (case query of None \<Rightarrow> False
         | Some q \<Rightarrow> list_ex (\<lambda>(name, value). eq_ignore_ascii_case name ''stream'' \<and> eq_ignore_ascii_case value ''true'') (Q q)))"

section \<open>Requests\<close>

record resource_request =
  rr_method :: string
  rr_path :: string
  rr_body :: "json option"
  rr_query :: "string option"

definition resource :: "string \<Rightarrow> string \<Rightarrow> json option \<Rightarrow> string option \<Rightarrow> resource_request" where
  "resource method path body query = \<lparr>rr_method = method, rr_path = path, rr_body = body, rr_query = query\<rparr>"

definition responses_compact :: "json \<Rightarrow> resource_request" where
  "responses_compact body = resource ''POST'' ''responses/compact'' (Some body) None"

definition response_get :: "string option \<Rightarrow> string \<Rightarrow> resource_request" where
  "response_get query i = resource ''GET'' (''responses/'' @ encode_resource_path_segment i) None query"

definition response_input_items :: "string option \<Rightarrow> string \<Rightarrow> resource_request" where
  "response_input_items query i =
     resource ''GET'' (''responses/'' @ encode_resource_path_segment i @ ''/input_items'') None query"

definition responses_input_tokens :: "string option \<Rightarrow> json \<Rightarrow> resource_request" where
  "responses_input_tokens query body = resource ''POST'' ''responses/input_tokens'' (Some body) query"

definition response_delete :: "string \<Rightarrow> resource_request" where
  "response_delete i = resource ''DELETE'' (''responses/'' @ encode_resource_path_segment i) None None"

definition response_cancel :: "string \<Rightarrow> resource_request" where
  "response_cancel i = resource ''POST'' (''responses/'' @ encode_resource_path_segment i @ ''/cancel'') None None"

definition conversations_create :: "string option \<Rightarrow> json \<Rightarrow> resource_request" where
  "conversations_create query body = resource ''POST'' ''conversations'' (Some body) query"

definition conversation_get :: "string option \<Rightarrow> string \<Rightarrow> resource_request" where
  "conversation_get query i = resource ''GET'' (''conversations/'' @ encode_resource_path_segment i) None query"

definition conversation_update :: "string option \<Rightarrow> string \<Rightarrow> json \<Rightarrow> resource_request" where
  "conversation_update query i body = resource ''POST'' (''conversations/'' @ encode_resource_path_segment i) (Some body) query"

definition conversation_delete :: "string option \<Rightarrow> string \<Rightarrow> resource_request" where
  "conversation_delete query i = resource ''DELETE'' (''conversations/'' @ encode_resource_path_segment i) None query"

definition conversation_items :: "string option \<Rightarrow> string \<Rightarrow> resource_request" where
  "conversation_items query i = resource ''GET'' (''conversations/'' @ encode_resource_path_segment i @ ''/items'') None query"

definition conversation_item_create :: "string option \<Rightarrow> string \<Rightarrow> json \<Rightarrow> resource_request" where
  "conversation_item_create query i body =
     resource ''POST'' (''conversations/'' @ encode_resource_path_segment i @ ''/items'') (Some body) query"

definition conversation_item_get :: "string option \<Rightarrow> string \<Rightarrow> string \<Rightarrow> resource_request" where
  "conversation_item_get query i item = resource ''GET''
     (''conversations/'' @ encode_resource_path_segment i @ ''/items/'' @ encode_resource_path_segment item) None query"

definition conversation_item_delete :: "string option \<Rightarrow> string \<Rightarrow> string \<Rightarrow> resource_request" where
  "conversation_item_delete query i item = resource ''DELETE''
     (''conversations/'' @ encode_resource_path_segment i @ ''/items/'' @ encode_resource_path_segment item) None query"

section \<open>Framing\<close>

definition status_allows_empty_success_body :: "nat \<Rightarrow> bool" where
  "status_allows_empty_success_body status = (status \<in> {204, 205})"

definition trim_blanks :: "string \<Rightarrow> string" where
  "trim_blanks s = rev (dropWhile (\<lambda>c. c = CHR '' '' \<or> c = CHR 0x09) (rev (dropWhile (\<lambda>c. c = CHR '' '' \<or> c = CHR 0x09) s)))"

definition content_length_allows_no_content :: "to_str \<Rightarrow> header_map \<Rightarrow> bool" where
  "content_length_allows_no_content T headers = list_all (\<lambda>v. case T v of
       None \<Rightarrow> False
     | Some t \<Rightarrow> list_all (\<lambda>part. trim_blanks part \<noteq> [] \<and> list_all (\<lambda>c. c = CHR ''0'') (trim_blanks part)) (split_char CHR '','' t))
     (get_all headers ''content-length'')"

definition no_content_response_framing_is_invalid :: "to_str \<Rightarrow> header_map \<Rightarrow> bool" where
  "no_content_response_framing_is_invalid T headers =
     (contains_header headers ''transfer-encoding'' \<or> \<not> content_length_allows_no_content T headers)"

section \<open>The request to the upstream\<close>

definition responses_auto_discovery_ambiguity_message :: "string \<Rightarrow> string" where
  "responses_auto_discovery_ambiguity_message kind = kind @ '' are ambiguous in multi-upstream namespaces that use auto-discovery; set `fixed_upstream_format` on the owning upstream or route explicitly because provenance-free routing cannot rely on discovery-time capabilities''"

definition redacted_upstream_unavailable_message :: "string list \<Rightarrow> string \<Rightarrow> upstream_availability \<Rightarrow> string" where
  "redacted_upstream_unavailable_message redactor name a = (case a of
      Available \<Rightarrow> ''resolved upstream `'' @ redact_text redactor name @ ''` is unavailable''
    | Unavailable reason \<Rightarrow> ''resolved upstream `'' @ redact_text redactor name @ ''` is unavailable: '' @ redact_text redactor reason)"

text \<open>An error of the proxy's own: its status and its message before the redaction.\<close>

type_synonym own_error = "nat \<times> string"

text \<open>The one upstream that can own the state.\<close>

definition owning_upstream :: "string list \<Rightarrow> string \<Rightarrow> runtime_state \<Rightarrow> own_error + namespace_state \<times> upstream_state" where
  "owning_upstream redactor namespace runtime = (case map_of runtime namespace of
      None \<Rightarrow> Inl (404, ''namespace `'' @ redact_text redactor namespace @ ''` is not configured'')
    | Some ns \<Rightarrow>
        if responses_owner_provenance_is_ambiguous ns
        then Inl (400, responses_auto_discovery_ambiguity_message ''Responses lifecycle endpoints'')
        else (case provenance_free_native_responses_upstreams ns of
            [] \<Rightarrow> Inl (503, ''Responses lifecycle endpoints require an available upstream that natively supports OpenAI Responses'')
          | [u] \<Rightarrow> if is_available (us_availability u) then Inr (ns, u)
              else Inl (503, redacted_upstream_unavailable_message redactor (up_name (us_config u)) (us_availability u))
          | _ \<Rightarrow> Inl (400, ''Responses lifecycle endpoint is ambiguous across multiple Responses-capable upstreams in this namespace'')))"

definition resource_client :: "bool \<Rightarrow> upstream_state \<Rightarrow> client_settings" where
  "resource_client stream u = (if stream then us_streaming_client u else us_plain_client u)"

text \<open>What is sent, with which client, or why nothing is.\<close>

definition resource_sending_for ::
    "request_api \<Rightarrow> ('u, 'b) resource_api_scheme \<Rightarrow> runtime_state request_auth_context \<Rightarrow> header_map \<Rightarrow> resource_request \<Rightarrow>
       upstream_state \<Rightarrow> bool \<Rightarrow> own_error + resource_sending" where
  "resource_sending_for A U c headers r u stream =
     (case build_auth_headers (ra_env A) (ra_to_str A) headers c u OpenAiResponses of
        Inl message \<Rightarrow> Inl (503, message)
      | Inr (auth, _) \<Rightarrow>
         (case build_upstream_resource_target U (up_api_root (us_config u)) (rr_path r) (rr_query r) of
            Inl message \<Rightarrow> Inl (502, message)
          | Inr target \<Rightarrow> map_sum (Pair 502) id (resource_request_preserving_path (ra_env A) (rr_method r) target (rr_body r)
              (apply_upstream_headers (up_headers (us_config u)) OpenAiResponses auth) stream (us_resolved_proxy u))))"

definition plan_resource ::
    "request_api \<Rightarrow> ('u, 'b) resource_api_scheme \<Rightarrow> string list \<Rightarrow> string \<Rightarrow> runtime_state request_auth_context \<Rightarrow> header_map \<Rightarrow>
       resource_request \<Rightarrow> bool \<Rightarrow> own_error + namespace_state \<times> client_settings \<times> resource_sending" where
  "plan_resource A U redactor namespace c headers r stream =
     res_bind (case rr_body r of
         Some body \<Rightarrow> map_sum (Pair 400) id (validate_openai_responses_resource_request_body body)
       | None \<Rightarrow> Inr ()) (\<lambda>_.
     res_bind (owning_upstream redactor namespace (rac_runtime c)) (\<lambda>(ns, u).
     res_bind (resource_sending_for A U c headers r u stream) (\<lambda>sending.
       Inr (ns, resource_client stream u, sending))))"

section \<open>Answers\<close>

definition resource_error :: "request_api \<Rightarrow> string list \<Rightarrow> own_error \<Rightarrow> http_answer" where
  "resource_error A redactor e = json_answer (redacted_error_response (ra_env A) OpenAiResponses (fst e) (snd e) redactor)"

definition resource_stream_error :: "request_api \<Rightarrow> nat \<Rightarrow> string list \<Rightarrow> nat \<Rightarrow> string \<Rightarrow> http_answer" where
  "resource_stream_error A n redactor status message =
     stream_error_answer_of (redacted_streaming_error_response (ra_env A) n OpenAiResponses status message redactor)"

definition resource_headers :: "request_api \<Rightarrow> string list \<Rightarrow> header_map \<Rightarrow> http_answer \<Rightarrow> http_answer" where
  "resource_headers A redactor upstream a = a\<lparr>an_headers := append_upstream_protocol_response_headers (ra_to_str A)
     (ra_header_value A) (redact_text redactor) upstream (an_headers a)\<rparr>"

definition labelled_error :: "request_api \<Rightarrow> string list \<Rightarrow> string \<Rightarrow> string \<Rightarrow> string" where
  "labelled_error A redactor label text = redact_text redactor (if json_parse (ra_env A) text \<noteq> None then text else label @ text)"

definition resource_closed :: "request_api \<Rightarrow> http_answer" where
  "resource_closed A = json_answer (client_closed_response (ra_env A) OpenAiResponses)"

definition resource_stream_answer ::
    "request_api \<Rightarrow> (duration \<Rightarrow> string) \<Rightarrow> nat \<Rightarrow> nat \<Rightarrow> string list \<Rightarrow> config \<Rightarrow> nat \<Rightarrow> header_map \<Rightarrow> body_read \<Rightarrow>
       http_answer option" where
  "resource_stream_answer A F now n redactor config status upstream b =
     (let own = (\<lambda>status message. resource_headers A redactor upstream (resource_stream_error A n redactor status message));
          report = (\<lambda>text. own status (labelled_error A redactor ''upstream streaming resource error body: '' text))
      in if \<not> is_success status
         then Some (case b of
             ReadCancelled \<Rightarrow> resource_closed A
           | ReadTimedOut \<Rightarrow> report (''failed to read upstream error body: timed out after '' @ F (upstream_timeout config))
           | BodyChunks chunks \<Rightarrow> (case read_text_limited (max_upstream_error_body_bytes (resource_bounds config)) chunks of
                 Inr text \<Rightarrow> report text
               | Inl (LimitExceeded limit) \<Rightarrow> own 502 (''upstream error body exceeded resource limit of '' @ nat_str limit @ '' bytes'')
               | Inl (BodyError e) \<Rightarrow> report ''Unknown error''))
         else if \<not> response_is_event_stream (ra_to_str A) upstream
         then Some (resource_stream_error A n redactor 502 ''upstream returned non-SSE response for streamed Responses resource'')
         else map_option (\<lambda>_. resource_headers A redactor upstream \<lparr>an_status = status, an_headers = sse_headers,
           an_body = StreamedBody \<lparr>sm_source = GuardedSource (new_core default_state), sm_redactors = [redactor]\<rparr>\<rparr>)
           (rewriting_timers now (resource_bounds config)))"

definition resource_bytes_answer ::
    "request_api \<Rightarrow> string list \<Rightarrow> nat \<Rightarrow> header_map \<Rightarrow> string \<Rightarrow> http_answer" where
  "resource_bytes_answer A redactor status upstream bytes =
     (let refuse = (\<lambda>message. resource_error A redactor (502, message));
          finish = (\<lambda>headers body. resource_headers A redactor upstream \<lparr>an_status = status, an_headers = headers, an_body = body\<rparr>)
      in if \<not> is_success status
         then resource_error A redactor (status, labelled_error A redactor ''upstream resource error body: '' (from_utf8_lossy bytes))
         else if bytes = []
         then (if status_allows_empty_success_body status then finish [] (BytesBody [])
               else refuse ''upstream returned empty response body'')
         else if status_allows_empty_success_body status
         then refuse ''upstream returned unexpected body for no-content response''
         else (case json_parse (ra_env A) bytes of
             None \<Rightarrow> refuse ''upstream returned invalid JSON''
           | Some body \<Rightarrow> (case validate_openai_responses_resource_response_body body of
                 Inl message \<Rightarrow> refuse message
               | Inr _ \<Rightarrow> finish [(''content-type'', ''application/json'')] (JsonAnswerBody (redact_value redactor body)))))"

definition resource_complete_answer ::
    "request_api \<Rightarrow> string list \<Rightarrow> config \<Rightarrow> nat \<Rightarrow> header_map \<Rightarrow> body_read \<Rightarrow> http_answer" where
  "resource_complete_answer A redactor config status upstream b =
     (let limit = (if is_success status then max_non_stream_response_bytes (resource_bounds config)
                   else max_upstream_error_body_bytes (resource_bounds config))
      in if status_allows_empty_success_body status \<and> no_content_response_framing_is_invalid (ra_to_str A) upstream
         then resource_error A redactor (502, ''upstream returned invalid no-content response framing'')
         else (case b of
             BodyChunks chunks \<Rightarrow> (case read_limited limit chunks [] of
                 Inr bytes \<Rightarrow> resource_bytes_answer A redactor status upstream bytes
               | Inl (LimitExceeded limit) \<Rightarrow> resource_error A redactor (502,
                   (if is_success status then ''upstream response body exceeded resource limit of ''
                    else ''upstream error body exceeded resource limit of '') @ nat_str limit @ '' bytes'')
               | Inl (BodyError e) \<Rightarrow> resource_error A redactor (502, e))
           | _ \<Rightarrow> resource_closed A))"

text \<open>The exchange; \<open>net\<close> is the upstream.\<close>

definition handle_resource ::
    "request_api \<Rightarrow> ('u, 'b) resource_api_scheme \<Rightarrow> (string \<Rightarrow> (string \<times> string) list) \<Rightarrow> (duration \<Rightarrow> string) \<Rightarrow>
       (client_settings \<Rightarrow> resource_sending \<Rightarrow> upstream_outcome) \<Rightarrow> nat \<Rightarrow> nat \<Rightarrow> string \<Rightarrow> header_map \<Rightarrow> resource_request \<Rightarrow>
       runtime_state request_auth_context \<Rightarrow> http_answer option" where
  "handle_resource A U Q F net now n namespace headers r c =
     (let stream = is_streamed_responses_retrieve Q (rr_method r) (rr_path r) (rr_query r);
          redactor = redactor_for_request (ra_to_str A) c headers
      in case plan_resource A U redactor namespace c headers r stream of
           Inl e \<Rightarrow> Some (resource_error A redactor e)
         | Inr (ns, client, sending) \<Rightarrow> (case net client sending of
               SendFailed e \<Rightarrow> Some (resource_error A redactor (502, e))
             | SendCancelled \<Rightarrow> Some (resource_closed A)
             | Replied status upstream b \<Rightarrow>
                 if stream then resource_stream_answer A F now n redactor (ns_config ns) status upstream b
                 else Some (resource_complete_answer A redactor (ns_config ns) status upstream b)))"

section \<open>Ids stay where they are put\<close>

text \<open>The decoder of percent escapes, as a server reads them.\<close>

definition percent_digit :: "char \<Rightarrow> nat option" where
  "percent_digit c = (let n = of_char c :: nat in
     if 48 \<le> n \<and> n \<le> 57 then Some (n - 48) else if 65 \<le> n \<and> n \<le> 70 then Some (n - 55)
     else if 97 \<le> n \<and> n \<le> 102 then Some (n - 87) else None)"

fun percent_decode :: "string \<Rightarrow> string" where
  "percent_decode (c # a # b # s) =
     (if c = CHR ''%'' then (case (percent_digit a, percent_digit b) of
          (Some x, Some y) \<Rightarrow> char_of (16 * x + y) # percent_decode s
        | _ \<Rightarrow> c # percent_decode (a # b # s))
      else c # percent_decode (a # b # s))"
| "percent_decode (c # s) = c # percent_decode s"
| "percent_decode [] = []"

lemma hex_digits: "n < 16 \<Longrightarrow> percent_digit (hex_upper n) = Some n \<and> hex_upper n \<notin> {CHR ''/'', CHR ''?'', CHR ''#''}"
proof -
  have "list_all (\<lambda>n. percent_digit (hex_upper n) = Some n \<and> hex_upper n \<notin> {CHR ''/'', CHR ''?'', CHR ''#''}) [0..<16]"
    by code_simp
  then show "n < 16 \<Longrightarrow> ?thesis" by (simp add: list_all_iff)
qed

lemma path_char_plain: "path_char c \<Longrightarrow> c \<notin> {CHR ''%'', CHR ''/'', CHR ''?'', CHR ''#''}"
  by (auto simp: path_char_def)

lemma decode_plain: "c \<noteq> CHR ''%'' \<Longrightarrow> percent_decode (c # s) = c # percent_decode s"
proof (cases s)
  case (Cons a t)
  assume "c \<noteq> CHR ''%''"
  with Cons show ?thesis by (cases t) simp_all
qed simp

lemma decode_byte: "percent_decode (percent_byte c @ s) = c # percent_decode s"
proof -
  have "of_char c div 16 < (16 :: nat)" "of_char c mod 16 < (16 :: nat)"
    using nat_of_char_less_256 [of c] by linarith+
  then show ?thesis by (simp add: percent_byte_def hex_digits)
qed

lemma decode_encoded:
  "percent_decode (concat (map (\<lambda>c. if path_char c then [c] else percent_byte c) segment)) = segment"
  by (induction segment) (auto simp: decode_plain decode_byte dest: path_char_plain)

lemma byte_no_separator: "set (percent_byte c) \<inter> {CHR ''/'', CHR ''?'', CHR ''#''} = {}"
proof -
  have "of_char c div 16 < (16 :: nat)" "of_char c mod 16 < (16 :: nat)"
    using nat_of_char_less_256 [of c] by linarith+
  then show ?thesis using hex_digits by (auto simp: percent_byte_def)
qed

lemma encoded_no_separator:
  "set (concat (map (\<lambda>c. if path_char c then [c] else percent_byte c) segment)) \<inter> {CHR ''/'', CHR ''?'', CHR ''#''} = {}"
proof (induction segment)
  case (Cons c segment)
  with byte_no_separator [of c] path_char_plain [of c] show ?case by auto
qed simp

text \<open>Every spelling of a dot segment decodes to one, and only the two dot ids are encoded to such a spelling.\<close>

lemma lowercase_chars:
  "ascii_lower c = CHR ''.'' \<longleftrightarrow> c = CHR ''.''" "ascii_lower c = CHR ''%'' \<longleftrightarrow> c = CHR ''%''"
  "ascii_lower c = CHR ''2'' \<longleftrightarrow> c = CHR ''2''" "ascii_lower c = CHR ''e'' \<longleftrightarrow> c \<in> {CHR ''e'', CHR ''E''}"
proof -
  have lower: "byte (ascii_lower c) = (if 65 \<le> byte c \<and> byte c \<le> 90 then byte c + 32 else byte c)"
    by (auto simp: ascii_lower_def byte_def of_char_of)
  have same: "x = y \<longleftrightarrow> byte x = byte y" for x y by (simp add: byte_def)
  have "byte CHR ''.'' = 46" "byte CHR ''%'' = 37" "byte CHR ''2'' = 50" "byte CHR ''e'' = 101" "byte CHR ''E'' = 69"
    by (simp_all add: byte_def)
  with lower show "ascii_lower c = CHR ''.'' \<longleftrightarrow> c = CHR ''.''" "ascii_lower c = CHR ''%'' \<longleftrightarrow> c = CHR ''%''"
    "ascii_lower c = CHR ''2'' \<longleftrightarrow> c = CHR ''2''" "ascii_lower c = CHR ''e'' \<longleftrightarrow> c \<in> {CHR ''e'', CHR ''E''}"
    by (auto simp: same split: if_splits)
qed

lemma dot_spelling_decodes: "url_stack_normalizes_dot_segment e \<Longrightarrow> percent_decode e \<in> {''.'', ''..''}"
proof -
  have "percent_digit CHR ''2'' = Some 2" "percent_digit CHR ''e'' = Some 14" "percent_digit CHR ''E'' = Some 14"
    "char_of (46 :: nat) = CHR ''.''" by code_simp+
  then show "url_stack_normalizes_dot_segment e \<Longrightarrow> ?thesis"
    by (auto simp: url_stack_normalizes_dot_segment_def to_ascii_lowercase_def map_eq_Cons_conv lowercase_chars)
qed

lemma encoded_decodes: "percent_decode (encode_resource_path_segment i) = i"
proof -
  have "percent_decode ''%2E'' = ''.''" "percent_decode ''%2E%2E'' = ''..''" by code_simp+
  then show ?thesis by (auto simp: encode_resource_path_segment_def decode_encoded)
qed

lemma encoded_in_segment: "set (encode_resource_path_segment i) \<inter> {CHR ''/'', CHR ''?'', CHR ''#''} = {}"
  using encoded_no_separator [of i] by (auto simp: encode_resource_path_segment_def)

lemma encoded_dots: "url_stack_normalizes_dot_segment (encode_resource_path_segment i) \<longleftrightarrow> i \<in> {''.'', ''..''}"
proof
  assume "url_stack_normalizes_dot_segment (encode_resource_path_segment i)"
  from dot_spelling_decodes [OF this] show "i \<in> {''.'', ''..''}" by (simp only: encoded_decodes)
next
  have "url_stack_normalizes_dot_segment (encode_resource_path_segment ''.'')"
    "url_stack_normalizes_dot_segment (encode_resource_path_segment ''..'')" by code_simp+
  then show "i \<in> {''.'', ''..''} \<Longrightarrow> url_stack_normalizes_dot_segment (encode_resource_path_segment i)" by auto
qed

text \<open>The segments of a path.\<close>

lemma split_at: "c \<notin> set a \<Longrightarrow> split_char c (a @ c # b) = a # split_char c b"
  by (induction a) auto

lemma split_last: "c \<notin> set a \<Longrightarrow> split_char c a = [a]"
  by (induction a) auto

lemma split_nonempty [simp]: "split_char c s \<noteq> []"
  by (induction s) (auto split: list.split)

lemma split_trailing: "split_char c (a @ [c]) = split_char c a @ [[]]"
  by (induction a) (auto split: list.split)

lemma empty_is_no_dot: "\<not> url_stack_normalizes_dot_segment []"
  by (simp add: url_stack_normalizes_dot_segment_def to_ascii_lowercase_def)

lemma trimmed_dots:
  "resource_path_requires_raw_path_fidelity path \<longleftrightarrow> list_ex url_stack_normalizes_dot_segment (split_char CHR ''/'' path)"
proof -
  let ?dots = "\<lambda>s. list_ex url_stack_normalizes_dot_segment (split_char CHR ''/'' s)"
  have front: "?dots (trim_start_char CHR ''/'' s) = ?dots s" for s
    by (induction s) (auto simp: trim_start_char_def empty_is_no_dot)
  have ending: "?dots (trim_end_char CHR ''/'' s) = ?dots s" for s
    by (induction s rule: rev_induct) (auto simp: trim_end_char_def empty_is_no_dot split_trailing)
  show ?thesis by (simp add: resource_path_requires_raw_path_fidelity_def front ending)
qed

lemmas resource_defs = resource_def response_get_def response_input_items_def response_delete_def response_cancel_def
  conversation_get_def conversation_update_def conversation_delete_def conversation_items_def
  conversation_item_create_def conversation_item_get_def conversation_item_delete_def

text \<open>The requests with ids in their paths, and the segments they are meant to have.\<close>

definition resources_of_ids :: "string option \<Rightarrow> string \<Rightarrow> string \<Rightarrow> json \<Rightarrow> (resource_request \<times> string list) list" where
  "resources_of_ids query i j body =
     (let x = encode_resource_path_segment i; y = encode_resource_path_segment j
      in [(response_get query i, [''responses'', x]), (response_input_items query i, [''responses'', x, ''input_items'']),
          (response_delete i, [''responses'', x]), (response_cancel i, [''responses'', x, ''cancel'']),
          (conversation_get query i, [''conversations'', x]), (conversation_update query i body, [''conversations'', x]),
          (conversation_delete query i, [''conversations'', x]), (conversation_items query i, [''conversations'', x, ''items'']),
          (conversation_item_create query i body, [''conversations'', x, ''items'']),
          (conversation_item_get query i j, [''conversations'', x, ''items'', y]),
          (conversation_item_delete query i j, [''conversations'', x, ''items'', y])])"

text \<open>
  What is sent ends in the path and query of the request, and the client that normalizes dot segments sends
  only paths without one.
\<close>

definition path_kept :: "('u, 'b) resource_api_scheme \<Rightarrow> resource_request \<Rightarrow> own_error + resource_sending \<Rightarrow> bool" where
  "path_kept U r sending = (case sending of
      Inl _ \<Rightarrow> True
    | Inr (ByReqwest h) \<Rightarrow> (\<exists>front. rq_url h = front @ with_query (''/'' @ rr_path r) (rr_query r))
        \<and> \<not> list_ex url_stack_normalizes_dot_segment (split_char CHR ''/'' (rr_path r))
    | Inr (ByHyper h) \<Rightarrow> (\<exists>front. uri_parse U (front @ with_query (''/'' @ rr_path r) (rr_query r)) = Inr (rq_url h)))"

lemma with_query_append: "with_query (a @ b) q = a @ with_query b q"
  by (simp add: with_query_def split: option.split list.split)

lemma map_sum_Inr: "map_sum f id x = Inr y \<Longrightarrow> (x = Inr y \<Longrightarrow> P) \<Longrightarrow> P"
  by (cases x) auto

lemma sent_keeps_path:
  assumes "rr_path r = x # xs" "x \<noteq> CHR ''/''"
  shows "path_kept U r (resource_sending_for A U c headers r u stream)"
proof (cases "resource_sending_for A U c headers r u stream")
  case (Inr sending)
  from assms have path: "trim_start_char CHR ''/'' (rr_path r) = rr_path r" by (simp add: trim_start_char_def)
  from Inr obtain auth d target where target: "build_upstream_resource_target U (up_api_root (us_config u)) (rr_path r) (rr_query r) = Inr target"
      and sent: "resource_request_preserving_path (ra_env A) (rr_method r) target (rr_body r) auth stream d = Inr sending"
    by (auto simp: resource_sending_for_def split: sum.splits elim!: map_sum_Inr)
  have front: "\<exists>f. uri_parse U (f @ with_query (''/'' @ rr_path r) (rr_query r)) = Inr (rt_raw_uri target)"
  proof -
    from target obtain parsed where "parse_url U (up_api_root (us_config u)) = Inr parsed"
      by (auto simp: build_upstream_resource_target_def split: sum.splits)
    with target path
      show ?thesis
      by (intro exI [of _ "url_origin U parsed @ (let b = trim_end_char CHR ''/'' (url_path U parsed)
            in if b = [] \<or> b = ''/'' then [] else b)"])
        (auto simp: build_upstream_resource_target_def Let_def with_query_append [symmetric] split: sum.splits if_splits)
  qed
  from target path have t: "rt_url target = trim_end_char CHR ''/'' (up_api_root (us_config u)) @ with_query (''/'' @ rr_path r) (rr_query r)"
      "rt_requires_raw_path target = resource_path_requires_raw_path_fidelity (rr_path r)"
    by (auto simp: build_upstream_resource_target_def build_upstream_resource_url_def Let_def
        with_query_append [symmetric] split: sum.splits if_splits)
  note t = t front
  from sent t show ?thesis
    by (auto simp: Inr path_kept_def resource_request_preserving_path_def raw_path_request_def upstream_resource_request_def Let_def
        trimmed_dots split: if_splits)
qed (simp add: path_kept_def)

text \<open>
  C35. An id that a client puts into the path of a lifecycle endpoint stays one segment of the path, whatever
  bytes it has. Its encoding has no slash, question mark or hash and decodes to the id, so that different
  ids name different resources, and the path of each endpoint has exactly the segments it is meant to
  have. The ids \<open>.\<close> and \<open>..\<close>, and no others, are encoded to segments that a URL library would collapse: a
  request with such a segment is refused or sent by the client that leaves its path alone, never by
  the one that normalizes it.
\<close>

theorem ids_stay_in_their_segment:
  "set (encode_resource_path_segment i) \<inter> {CHR ''/'', CHR ''?'', CHR ''#''} = {}
   \<and> percent_decode (encode_resource_path_segment i) = i
   \<and> inj encode_resource_path_segment
   \<and> (url_stack_normalizes_dot_segment (encode_resource_path_segment i) \<longleftrightarrow> i \<in> {''.'', ''..''})
   \<and> list_all (\<lambda>(r, segments). split_char CHR ''/'' (rr_path r) = segments
        \<and> path_kept U r (resource_sending_for A U c headers r u stream)) (resources_of_ids query i j body)"
proof -
  have "inj encode_resource_path_segment" using encoded_decodes by (rule inj_on_inverseI)
  moreover have "list_all (\<lambda>(r, segments). split_char CHR ''/'' (rr_path r) = segments
        \<and> path_kept U r (resource_sending_for A U c headers r u stream)) (resources_of_ids query i j body)"
    using encoded_in_segment [of i] encoded_in_segment [of j]
    by (simp add: resources_of_ids_def Let_def resource_defs split_at split_last sent_keeps_path)
  ultimately show ?thesis using encoded_decodes encoded_in_segment encoded_dots by blast
qed

end
