(* ===== verification/Spec2Isabelle.thy ===== *)
theory Spec2Isabelle
  imports Formats Wire Artifacts Tool_Marks Tool_Bridge Stream_State Anthropic_Source Responses_Source
    Claude_Sink Responses_Sink Responses_Contracts Stream_Translate Stream_Guarantees Stream_Driver Stream_Ends
    Request_Json Context_Edits Message_Repair Prompt_Cache Request_Controls Tool_Calls Call_Bridge
    Hook_Runtime Hook_Usage Hook_Accumulators Hook_Stream Hook_Payload Observed_Redaction Request_Processing
    Media Dialect Reasoning_Replay Claude_Requests Openai_To_Claude Claude_Answers Responses_Content
    Responses_Answers Responses_Choices Responses_Requests Responses_Replay
    Tool_Names Translate Reasoning_Echo
    Assess_Openai Assess_Responses Assess_Anthropic Assessment Assessment_Guarantees
    Config Config_Payloads Config_Guarantees Data_Auth
    Upstream_Client Runtime_State Secret_Redaction Redaction_Guarantees Server_Errors Server_Headers
    Admin Admin_Guarantees
    Conversation_Store Conversation_Contract Conversation_Items Conversation_Bridge Conversation_Replay
    Request_Boundary Request_Plan Request_Guarantees Request_Answer Capture_Stream
    Models Responses_Resources
begin

text \<open>
  A verification library of llm-universal-proxy, a proxy between clients and upstreams that speak the
  Anthropic Messages, the OpenAI Chat Completions and the OpenAI Responses protocols. Paths are relative
  to \<open>src/src/\<close> of the repository.

  \<^bold>\<open>The program and its parts.\<close> A request arrives at a data endpoint. The access of the process decides
  whether it is let through and which headers the handlers see (\<open>server/data_auth.rs\<close>). The handler of
  \<open>server/proxy.rs\<close> plans the request: its model name is resolved to an upstream by the configuration
  (\<open>config.rs\<close>) of its namespace (\<open>server/state.rs\<close>, which administrators replace through
  \<open>server/admin.rs\<close>); the format the upstream speaks is fixed or discovered (\<open>discovery.rs\<close>).
  \<open>request_processing.rs\<close> says whether the body may be forwarded as it is. If
  the formats differ the request is assessed (\<open>translate/internal/assessment.rs\<close>), repaired and translated
  over the pivot Chat Completions (\<open>translate/internal.rs\<close>, \<open>openai_responses.rs\<close>, \<open>tools.rs\<close>), with the
  cache key (\<open>prompt_cache_controls.rs\<close>) and the reasoning level of the upstream's dialect. The answer is
  translated back whole (\<open>response_protocols.rs\<close>) or event by event (\<open>streaming/\<close>), redacted of the
  secrets the request was made with (\<open>server/secret_redaction.rs\<close>), kept for later requests of a Responses
  conversation (\<open>server/conversation_state_bridge.rs\<close>), and reported to the hooks (\<open>hooks.rs\<close>).

  \<^bold>\<open>The theories.\<close>
    \<^item> Foundations. \<open>Prelude\<close>: Rust's operations on byte strings, results, decimal numbers. \<open>Json\<close>: JSON values,
      ordered and hash maps behind the interface \<open>store\<close>, the environment. \<open>Emit\<close>: steps that change a state and append to an output, and the interfaces
      \<open>trace_contract\<close> and \<open>latch\<close> that every contract on them shares. \<open>Request_Json\<close>: editing a body in place.
    \<^item> Formats, framing, boundaries. \<open>Formats\<close> (\<open>formats.rs\<close>, \<open>detect.rs\<close>, \<open>discovery.rs\<close>), \<open>Wire\<close>
      (\<open>streaming/wire.rs\<close>, interface \<open>framer\<close>), \<open>Artifacts\<close> (\<open>internal_artifacts.rs\<close>,
      \<open>provider_state_controls.rs\<close>).
    \<^item> Tools (\<open>translate/internal/tools.rs\<close>). \<open>Tool_Bridge\<close>: the context that names custom and namespaced tools.
      \<open>Tool_Calls\<close>: definitions, calls and results in normal form. \<open>Tool_Marks\<close>: keyed marks and terminal
      reasons. \<open>Tool_Names\<close>: reserved names. \<open>Call_Bridge\<close>: calls survive both bridges.
    \<^item> Streams (\<open>streaming/\<close>). \<open>Stream_State\<close>, the sources \<open>Anthropic_Source\<close> and \<open>Responses_Source\<close>, the sinks
      \<open>Claude_Sink\<close>, \<open>Responses_Items\<close>, \<open>Responses_Sink\<close>, one event in \<open>Stream_Translate\<close>, the buffering
      streams in \<open>Stream_Driver\<close> (interface \<open>sse_driver\<close>). \<open>Source_Contracts\<close>, \<open>Responses_Contracts\<close>,
      \<open>Stream_Guarantees\<close> and \<open>Stream_Ends\<close> hold what a client may rely on for every sequence of events.
    \<^item> Requests and answers (\<open>translate/internal.rs\<close> and its modules). \<open>Message_Repair\<close>, \<open>Context_Edits\<close>,
      \<open>Request_Controls\<close>, \<open>Media\<close>, \<open>Dialect\<close>, \<open>Prompt_Cache\<close>, \<open>Request_Processing\<close>; between Anthropic and Chat
      Completions \<open>Claude_Requests\<close>, \<open>Openai_To_Claude\<close>, \<open>Claude_Answers\<close>; between the OpenAI protocols
      \<open>Responses_Content\<close>, \<open>Responses_Choices\<close>, \<open>Responses_Requests\<close>, \<open>Responses_Answers\<close>,
      \<open>Reasoning_Replay\<close>; \<open>Translate\<close> adds the requests from Chat Completions to Responses and composes them. \<open>Responses_Replay\<close> and
      \<open>Reasoning_Echo\<close> hold the guarantees on replayed conversations and suppressed reasoning.
    \<^item> Assessment (\<open>translate/internal/assessment.rs\<close>). \<open>Assess_Openai\<close>, \<open>Assess_Responses\<close>, \<open>Assess_Anthropic\<close>,
      put together in \<open>Assessment\<close>, which adds the surface of the model and composes it with the translation;
      \<open>Assessment_Guarantees\<close>: what the later steps get from it.
    \<^item> Hooks (\<open>hooks.rs\<close>). \<open>Hook_Runtime\<close> (circuit breaker, byte budget), \<open>Hook_Usage\<close>, \<open>Hook_Accumulators\<close>
      (interface \<open>accumulator\<close>), \<open>Hook_Stream\<close>, \<open>Hook_Payload\<close>; \<open>Observed_Redaction\<close> is the transform through which
      the hook sees a stream that is forwarded as it came.
    \<^item> Configuration. \<open>Limits\<close>, \<open>Config\<close>, \<open>Config_Payloads\<close>, \<open>Config_Guarantees\<close> (\<open>config.rs\<close>,
      \<open>config/model_surface.rs\<close>), \<open>Data_Auth\<close> (\<open>server/data_auth.rs\<close>).
    \<^item> Server state. \<open>Upstream_Client\<close> (\<open>upstream.rs\<close>: clients, requests, resource targets), \<open>Runtime_State\<close>
      (\<open>server/state.rs\<close>: namespaces and how they are built), \<open>Admin\<close> and \<open>Admin_Guarantees\<close>
      (\<open>server/admin.rs\<close>, the start in \<open>server/mod.rs\<close>: both writes, and what holds of every reachable state).
    \<^item> What leaves the server. \<open>Secret_Redaction\<close> and \<open>Redaction_Guarantees\<close> (\<open>server/secret_redaction.rs\<close>),
      \<open>Server_Errors\<close> (\<open>server/errors.rs\<close>), \<open>Server_Headers\<close> (\<open>server/headers.rs\<close>).
    \<^item> Conversations. \<open>Conversation_Store\<close> (\<open>server/conversation_state_bridge.rs\<close>) and its interface \<open>kept_store\<close>
      in \<open>Conversation_Contract\<close>; \<open>Conversation_Items\<close> and \<open>Conversation_Bridge\<close> (\<open>server/proxy.rs\<close>: what is kept,
      checked and replayed), with their guarantees in \<open>Conversation_Replay\<close>.
    \<^item> Exchanges. \<open>Request_Boundary\<close> (\<open>server/public_boundary.rs\<close>, \<open>server/body_limits.rs\<close>), \<open>Request_Plan\<close> (from a
      client's request to the one sent upstream), \<open>Request_Answer\<close> (the answer to whatever the upstream
      does, and the handlers), \<open>Capture_Stream\<close> (the streams that keep a conversation and settle the metrics,
      \<open>server/tracked_body.rs\<close>), \<open>Request_Guarantees\<close>; \<open>Models\<close>
      (\<open>server/models.rs\<close>, \<open>user_tools/agent_model_profile.rs\<close>) and \<open>Responses_Resources\<close>
      (\<open>server/responses_resources.rs\<close>).

  \<^bold>\<open>Conventions.\<close> Strings are lists of bytes in UTF-8. A struct is a record, an enum a datatype, an ordered
  map (\<open>serde_json::Map\<close>, \<open>BTreeMap\<close>) an association list in the order of its keys, a \<open>HashMap\<close> an
  association list whose iteration order is a parameter. \<open>usize\<close> and \<open>u64\<close> are natural numbers; sums
  saturate or wrap at \<open>2 ^ 64\<close> where the code's do, unchecked additions as in a release build. \<open>Result\<close> is a
  sum with the error on the left, a panic the value \<open>None\<close>. Functions with \<open>&mut\<close> arguments return the new
  value. Asynchronous streams are step functions on a record: a poll takes what the upstream answers and
  which timers have expired. Times are nanoseconds; a time that is past the last \<open>Instant\<close> (\<open>instant_add\<close> of \<open>Json\<close>)
  panics where the code adds a configured duration to the clock: when a conversation is kept, when the
  timers of a stream are started, when a circuit opens.

  \<^bold>\<open>The environment.\<close> Code that is not in the repository is a parameter: the JSON reader and printer, SHA-256,
  hexadecimal coding, the URL parser, random identifiers, clocks, environment variables, header values and
  the iteration order of hash maps. What a theorem needs of it is a hypothesis of the theorem (for example
  that printed JSON reads back, or that the digest separates payloads), and its witness instantiates it.

  \<^bold>\<open>Bounds and termination.\<close> No definition runs on fuel: recursion is structural or has the length of the
  rest of the input as its measure, the loop over buffered frames included, since every frame takes at
  least one byte off the buffer. The limits of the streams are those of \<open>ResourceLimits\<close>.

  \<^bold>\<open>Groups of lemmas.\<close> Round trips (frames, tool calls and definitions, answers, carriers, payloads);
  contracts that hold for every sequence of events (numbering, one terminal event, the client's automaton);
  agreement of a routine with a reference (coalescing, cache classification, chunk boundaries, the forwarding
  of unchanged requests); what the assessment guarantees to the translation; invariants of every reachable
  state of the server and of the conversation store; the order in which a conversation is kept and shown;
  bounds on state, budget and reasoning level; what is never shown (internal artifacts, reasoning that is
  switched off, credentials, conversations of others).

  \<^bold>\<open>Not modelled.\<close> HTTP and tokio I/O, timers, the router and the sockets, the trace files and metrics
  (\<open>debug_trace.rs\<close>, \<open>telemetry.rs\<close>), the terminal and web dashboards, the command line tools and the start of
  the process: their effects are outside a functional model. In the exchange itself hooks, traces and trackers
  only observe and are left out; the layers of a streamed answer are named in the answer and modelled one
  by one. Of what is modelled: the wording the JSON
  library gives its errors is left out where the code quotes it; when a list of context edits fails, the body
  edited so far is dropped, as its caller does; errors and panics of the hook spool drop the payload; log
  probabilities stay JSON numbers; the idle timer that a stream sets anew with each chunk is a tick of
  its model.
\<close>

end
